(* ===== verification/Kernel_Prelude.thy ===== *)
theory Kernel_Prelude
  imports Main "HOL-Library.Word"
begin

text \<open>
  Shared vocabulary of the development: the fixed-width integers of \<open>types.h\<close>, the
  result type of code that can stop the machine, the flat byte-addressed memory in which
  the kernel's structures live, and the list and word lemmas the components share.
\<close>

unbundle bit_operations_syntax

named_theorems mem_simps \<open>reading back what was written to memory\<close>
named_theorems fault_simps \<open>unfolding of the error plumbing\<close>

section \<open>Machine integers\<close>

type_synonym u8 = "8 word"
type_synonym u16 = "16 word"
type_synonym u32 = "32 word"

section \<open>Code that may not return\<close>

text \<open>
  \<open>Assertion_failed\<close> is a failing \<open>ASSERT\<close> (\<open>panic_assert\<close> prints and spins for ever),
  \<open>Panicked\<close> is \<open>PANIC\<close>, \<open>Divide_error\<close> the processor's exception on a zero divisor,
  \<open>Halted\<close> an endless loop the code enters on purpose, \<open>No_return\<close> a loop or recursion that
  does not come back (or whose fuel ran out), and \<open>Undefined\<close> an access C leaves undefined.
\<close>

datatype fault = Assertion_failed | Panicked | Divide_error | Halted | No_return | Undefined

type_synonym 'a result = "fault + 'a"

fun rbind :: "'a result \<Rightarrow> ('a \<Rightarrow> 'b result) \<Rightarrow> 'b result" where
  "rbind (Inl e) k = Inl e"
| "rbind (Inr x) k = k x"

definition kassert :: "bool \<Rightarrow> unit result" where
  "kassert b = (if b then Inr () else Inl Assertion_failed)"

lemma rbind_Inr_iff [fault_simps]:
  "rbind r k = Inr y \<longleftrightarrow> (\<exists>x. r = Inr x \<and> k x = Inr y)"
  by (cases r) auto

lemma rbind_Inl_iff:
  "rbind r k = Inl e \<longleftrightarrow> r = Inl e \<or> (\<exists>x. r = Inr x \<and> k x = Inl e)"
  by (cases r) auto

lemma rbind_assoc: "rbind (rbind r f) g = rbind r (\<lambda>x. rbind (f x) g)"
  by (cases r) auto

lemma kassert_True [simp]: "kassert True = Inr ()"
  by (simp add: kassert_def)

lemma kassert_False [simp]: "kassert False = Inl Assertion_failed"
  by (simp add: kassert_def)

lemma kassert_Inr_iff [fault_simps]: "kassert b = Inr u \<longleftrightarrow> b"
  by (simp add: kassert_def)

text \<open>A counting loop whose body may fail: run the body on each index in turn.\<close>

fun rfold :: "('a \<Rightarrow> 's \<Rightarrow> 's result) \<Rightarrow> 'a list \<Rightarrow> 's \<Rightarrow> 's result" where
  "rfold f [] s = Inr s"
| "rfold f (x # xs) s = rbind (f x s) (rfold f xs)"

lemma rfold_append: "rfold f (xs @ ys) s = rbind (rfold f xs s) (rfold f ys)"
proof (induction xs arbitrary: s)
  case (Cons x xs)
  then show ?case by (cases "f x s") simp_all
qed simp

lemma rfold_invariant:
  assumes "\<And>x s s'. x \<in> set xs \<Longrightarrow> P s \<Longrightarrow> f x s = Inr s' \<Longrightarrow> P s'"
    and "P s" and "rfold f xs s = Inr s'"
  shows "P s'"
  using assms
proof (induction xs arbitrary: s)
  case (Cons x xs)
  from Cons.prems(3) obtain t where t: "f x s = Inr t" "rfold f xs t = Inr s'"
    by (auto simp: rbind_Inr_iff)
  show ?case
    by (rule Cons.IH [OF _ _ t(2)]) (use Cons.prems(1,2) t(1) in auto)
qed simp

section \<open>Memory\<close>

text \<open>
  The kernel's address space: every byte address holds a byte. 32-bit accesses are
  little-endian, as on the x86, and need no alignment.
\<close>

type_synonym mem = "u32 \<Rightarrow> u8"

definition read32 :: "mem \<Rightarrow> u32 \<Rightarrow> u32" where
  "read32 m a = ucast (m a) OR push_bit 8 (ucast (m (a + 1)))
     OR push_bit 16 (ucast (m (a + 2))) OR push_bit 24 (ucast (m (a + 3)))"

definition write32 :: "mem \<Rightarrow> u32 \<Rightarrow> u32 \<Rightarrow> mem" where
  "write32 m a v = m(a := ucast v, a + 1 := ucast (drop_bit 8 v),
     a + 2 := ucast (drop_bit 16 v), a + 3 := ucast (drop_bit 24 v))"

lemma read32_write32_same [simp, mem_simps]: "read32 (write32 m a v) a = v"
proof (rule bit_word_eqI)
  fix n :: nat
  assume "n < LENGTH(32)"
  then consider "n < 8" | "8 \<le> n" "n < 16" | "16 \<le> n" "n < 24" | "24 \<le> n" "n < 32"
    by force
  then show "bit (read32 (write32 m a v) a) n \<longleftrightarrow> bit v n"
    by cases (auto simp add: read32_def write32_def bit_simps)
qed

lemma write32_other [mem_simps]:
  assumes "4 \<le> b - a"
  shows "write32 m a v b = m b"
proof -
  have "b \<noteq> a + 1" "b \<noteq> a + 2" "b \<noteq> a + 3" "b \<noteq> a"
    using assms by (auto simp: word_le_nat_alt)
  then show ?thesis by (simp add: write32_def)
qed

lemma read32_write32_sep [simp, mem_simps]:
  assumes "4 \<le> b - a" and "4 \<le> a - b"
  shows "read32 (write32 m a v) b = read32 m b"
proof -
  have "4 \<le> (b + 1) - a" "4 \<le> (b + 2) - a" "4 \<le> (b + 3) - a"
    using assms by uint_arith+
  with assms show ?thesis by (simp add: read32_def write32_other)
qed

lemma read32_upd_sep [simp, mem_simps]:
  assumes "4 \<le> a - b"
  shows "read32 (m(a := v)) b = read32 m b"
proof -
  have "b \<noteq> a" "b + 1 \<noteq> a" "b + 2 \<noteq> a" "b + 3 \<noteq> a"
    using assms by (auto simp: word_le_nat_alt)
  then show ?thesis by (simp add: read32_def)
qed

subsection \<open>Word arithmetic\<close>

lemma unat_u32_less: "unat (w :: u32) < 4294967296"
proof -
  have "unat w < 2 ^ LENGTH(32)" by (rule unsigned_less)
  then show ?thesis by simp
qed

lemma take_bit_32_unat [simp]: "take_bit 32 (unat (w :: u32)) = unat w"
  using unat_u32_less [of w] by (simp add: take_bit_nat_eq_self)

lemma unat_pred: "w \<noteq> 0 \<Longrightarrow> unat (w - 1) = unat w - 1" for w :: "'a::len word"
  using unat_minus_one by blast

lemma pred_less_pred_iff:
  fixes k l :: "'a::len word"
  assumes "k \<noteq> 0" and "l \<noteq> 0"
  shows "k - 1 < l - 1 \<longleftrightarrow> k < l"
proof -
  have "0 < unat k" "0 < unat l" using assms by (simp_all add: unat_gt_0)
  then show ?thesis
    using assms by (simp add: word_less_nat_alt unat_pred) arith
qed

subsection \<open>Pages\<close>

lemma page_mask: "(0xFFFFF000 :: u32) = NOT (mask 12)"
  by (simp add: mask_eq_exp_minus_1)

lemma page_base: "(w :: u32) AND 0xFFFFF000 = push_bit 12 (drop_bit 12 w)"
  unfolding page_mask by (rule bit_word_eqI) (auto simp: bit_simps)

lemma unat_page_base: "unat ((w :: u32) AND 0xFFFFF000) = unat w div 4096 * 4096"
proof -
  have small: "unat w mod 2 ^ 32 = unat w" using unat_u32_less [of w] by simp
  have "unat (push_bit 12 (drop_bit 12 w)) = push_bit 12 (drop_bit 12 (unat w)) mod 2 ^ 32"
    using small by (simp add: unsigned_push_bit_eq unsigned_drop_bit_eq take_bit_eq_mod)
  then show ?thesis
    using small unfolding page_base by (simp add: push_bit_eq_mult drop_bit_eq_div)
qed

lemma unat_page_offset: "unat ((w :: u32) AND 0xFFF) = unat w mod 4096"
proof -
  have "w AND 0xFFF = take_bit 12 w" by (simp add: take_bit_eq_mask mask_eq_exp_minus_1)
  then show ?thesis by (simp only: unsigned_take_bit_eq) (simp add: take_bit_eq_mod)
qed

subsection \<open>Regions\<close>

text \<open>
  The region of \<open>n\<close> bytes from \<open>a\<close> on, and agreement of two memories outside a region:
  the frame condition of every operation that writes.
\<close>

definition in_region :: "u32 \<Rightarrow> nat \<Rightarrow> u32 \<Rightarrow> bool" where
  "in_region a n x \<longleftrightarrow> unat a \<le> unat x \<and> unat x < unat a + n"

definition same_outside :: "u32 \<Rightarrow> nat \<Rightarrow> mem \<Rightarrow> mem \<Rightarrow> bool" where
  "same_outside a n m m' \<longleftrightarrow> (\<forall>x. \<not> in_region a n x \<longrightarrow> m' x = m x)"

lemma same_outside_refl [simp, intro]: "same_outside a n m m"
  by (simp add: same_outside_def)

lemma same_outside_trans:
  "same_outside a n m m' \<Longrightarrow> same_outside a n m' m'' \<Longrightarrow> same_outside a n m m''"
  by (simp add: same_outside_def)

lemma same_outside_mono:
  assumes "same_outside b k m m'" and "unat a \<le> unat b" and "unat b + k \<le> unat a + n"
  shows "same_outside a n m m'"
  using assms by (auto simp: same_outside_def in_region_def)

lemma unat_add_small:
  fixes a :: u32
  assumes "unat a + k < 2 ^ 32"
  shows "unat (a + word_of_nat k) = unat a + k"
  using assms by (simp add: unat_word_ariths unat_of_nat)

lemma unat_add_numeral:
  fixes a :: u32
  assumes "unat a + numeral k < 2 ^ 32"
  shows "unat (a + numeral k) = unat a + numeral k"
  using unat_add_small [OF assms] by simp

lemma unat_add_one:
  fixes a :: u32
  assumes "unat a + 1 < 2 ^ 32"
  shows "unat (a + 1) = unat a + 1"
  using unat_add_small [of a 1] assms by simp

lemma unat_Suc_below:
  fixes i n :: u32
  assumes "i < n"
  shows "unat (i + 1) = Suc (unat i)"
  using unat_add_one [of i] assms unat_u32_less [of n] by (simp add: word_less_nat_alt)

lemma sep_nat:
  fixes a b :: u32
  assumes "unat a + 4 \<le> unat b" and "unat b + 4 \<le> 2 ^ 32"
  shows "4 \<le> b - a" and "4 \<le> a - b"
  using assms by (simp_all add: word_le_nat_alt unat_sub_if' )

lemma read32_write32_nat:
  assumes "unat a + 4 \<le> unat b \<or> unat b + 4 \<le> unat a"
    and "unat a + 4 \<le> 2 ^ 32" and "unat b + 4 \<le> 2 ^ 32"
  shows "read32 (write32 m a v) b = read32 m b"
  using assms sep_nat [of a b] sep_nat [of b a] by auto

lemma read32_same_outside:
  assumes "same_outside a n m m'" and "unat b + 4 \<le> unat a \<or> unat a + n \<le> unat b"
    and "unat b + 4 \<le> 2 ^ 32"
  shows "read32 m' b = read32 m b"
proof -
  have "unat (b + 1) = unat b + 1" "unat (b + 2) = unat b + 2" "unat (b + 3) = unat b + 3"
    using assms(3) by (simp_all add: unat_add_numeral unat_add_one)
  then have "m' b = m b" "m' (b + 1) = m (b + 1)" "m' (b + 2) = m (b + 2)" "m' (b + 3) = m (b + 3)"
    using assms by (auto simp: same_outside_def in_region_def)
  then show ?thesis by (simp add: read32_def)
qed

lemma same_outside_write32:
  assumes "unat a + 4 \<le> 2 ^ 32"
  shows "same_outside a 4 m (write32 m a v)"
proof -
  have "unat (a + 1) = unat a + 1" "unat (a + 2) = unat a + 2" "unat (a + 3) = unat a + 3"
    using assms by (simp_all add: unat_add_numeral unat_add_one)
  then show ?thesis
    by (auto simp: same_outside_def in_region_def write32_def)
qed

lemma same_outside_upd: "same_outside a 1 m (m(a := v))"
  by (auto simp: same_outside_def in_region_def)

text \<open>\<open>memset\<close> (\<open>rep stosb\<close> with the direction flag clear) fills \<open>count\<close> bytes upwards.\<close>

definition memset :: "mem \<Rightarrow> u32 \<Rightarrow> u8 \<Rightarrow> u32 \<Rightarrow> mem" where
  "memset m b val count = (\<lambda>a. if a - b < count then val else m a)"

lemma same_outside_memset:
  assumes "unat b + unat count \<le> 2 ^ 32"
  shows "same_outside b (unat count) m (memset m b val count)"
  using assms
  by (auto simp: same_outside_def in_region_def memset_def word_less_nat_alt unat_sub_if'
      split: if_splits)

end
