(* ===== verification/Machine.thy ===== *)
theory Machine
  imports Kernel_Prelude
begin

text \<open>
  The machine under the kernel: memory, the interrupt flag, and the I/O ports of \<open>port.s\<close>.
  Everything a driver does to a device is the sequence of its port accesses, so the state
  keeps that sequence; what a device answers is a parameter of the model, a function of
  the accesses so far.
\<close>

section \<open>Ports\<close>

datatype port_event =
    Out8 u16 u8 | Out16 u16 u16 | Out32 u16 u32 | In8 u16 | In16 u16 | In32 u16

type_synonym device = "port_event list \<Rightarrow> u32"

record machine =
  ram :: mem
  port_log :: "port_event list"
  int_flag :: bool

definition log_event :: "port_event \<Rightarrow> 'a machine_scheme \<Rightarrow> 'a machine_scheme" where
  "log_event e s = s\<lparr>port_log := port_log s @ [e]\<rparr>"

text \<open>\<open>outb\<close> takes an \<open>int\<close> and sends its low byte (\<open>mov al, [esp+8]\<close>).\<close>

definition outb :: "u16 \<Rightarrow> u32 \<Rightarrow> 'a machine_scheme \<Rightarrow> 'a machine_scheme" where
  "outb port value = log_event (Out8 port (ucast value))"

definition outw :: "u16 \<Rightarrow> u16 \<Rightarrow> 'a machine_scheme \<Rightarrow> 'a machine_scheme" where
  "outw port value = log_event (Out16 port value)"

definition outl :: "u16 \<Rightarrow> u32 \<Rightarrow> 'a machine_scheme \<Rightarrow> 'a machine_scheme" where
  "outl port value = log_event (Out32 port value)"

definition inb :: "device \<Rightarrow> u16 \<Rightarrow> 'a machine_scheme \<Rightarrow> u8 \<times> 'a machine_scheme" where
  "inb dev port s = (let s' = log_event (In8 port) s in (ucast (dev (port_log s')), s'))"

definition inw :: "device \<Rightarrow> u16 \<Rightarrow> 'a machine_scheme \<Rightarrow> u16 \<times> 'a machine_scheme" where
  "inw dev port s = (let s' = log_event (In16 port) s in (ucast (dev (port_log s')), s'))"

definition inl :: "device \<Rightarrow> u16 \<Rightarrow> 'a machine_scheme \<Rightarrow> u32 \<times> 'a machine_scheme" where
  "inl dev port s = (let s' = log_event (In32 port) s in (dev (port_log s'), s'))"

definition cli :: "'a machine_scheme \<Rightarrow> 'a machine_scheme" where
  "cli s = s\<lparr>int_flag := False\<rparr>"

definition sti :: "'a machine_scheme \<Rightarrow> 'a machine_scheme" where
  "sti s = s\<lparr>int_flag := True\<rparr>"

named_theorems port_simps \<open>unfolding port accesses\<close>

lemmas port_defs [port_simps] =
  outb_def outw_def outl_def inb_def inw_def inl_def log_event_def Let_def

text \<open>The bytes a driver sent to one port, in order.\<close>

fun sent8 :: "u16 \<Rightarrow> port_event list \<Rightarrow> u8 list" where
  "sent8 p [] = []"
| "sent8 p (Out8 q v # es) = (if q = p then v # sent8 p es else sent8 p es)"
| "sent8 p (e # es) = sent8 p es"

lemma sent8_append [simp]: "sent8 p (xs @ ys) = sent8 p xs @ sent8 p ys"
  by (induction p xs rule: sent8.induct) auto

section \<open>C string literals\<close>

definition lit :: "string \<Rightarrow> u8 list" where
  "lit s = map of_char s"

section \<open>Character output\<close>

text \<open>
  The screen and the serial line both print a string by one call per character. What they
  share is that the string's characters take effect one after the other and that printing
  stops at a NUL.
\<close>

locale char_sink =
  fixes put :: "u8 \<Rightarrow> 's \<Rightarrow> 's option"
    and puts :: "u8 list \<Rightarrow> 's \<Rightarrow> 's option"
  assumes puts_Nil: "puts [] s = Some s"
    and puts_NUL: "puts (0 # cs) s = Some s"
    and puts_Cons: "c \<noteq> 0 \<Longrightarrow> puts (c # cs) s = Option.bind (put c s) (puts cs)"
begin

lemma puts_append:
  "0 \<notin> set xs \<Longrightarrow> puts (xs @ ys) s = Option.bind (puts xs s) (puts ys)"
proof (induction xs arbitrary: s)
  case Nil
  then show ?case by (simp add: puts_Nil)
next
  case (Cons c xs)
  then show ?case by (cases "put c s") (simp_all add: puts_Cons)
qed

lemma puts_stops: "puts (xs @ 0 # ys) s = puts xs s"
proof (induction xs arbitrary: s)
  case Nil
  then show ?case by (simp add: puts_Nil puts_NUL)
next
  case (Cons c xs)
  then show ?case
    by (cases "c = 0"; cases "put c s") (simp_all add: puts_Cons puts_NUL)
qed

lemma puts_invariant:
  assumes "\<And>c s s'. P s \<Longrightarrow> put c s = Some s' \<Longrightarrow> P s'"
    and "P s" and "puts cs s = Some s'"
  shows "P s'"
  using assms(2,3)
proof (induction cs arbitrary: s)
  case Nil
  then show ?case by (simp add: puts_Nil)
next
  case (Cons c cs)
  then show ?case
    using assms(1) by (cases "c = 0") (auto simp: puts_Cons puts_NUL bind_eq_Some_conv)
qed

end

end
