(* ===== verification/Multiboot.thy ===== *)
theory Multiboot
  imports Machine
begin

text \<open>
  \<open>multiboot.h\<close>: what the boot loader hands to the kernel. The structure is packed, so its
  24 words lie behind each other; \<open>multiboot_at\<close> reads it where the loader's pointer points. The
  structure of the VESA mode is declared and not used.
\<close>

section \<open>The magic numbers and the flags\<close>

definition MULTIBOOT_MAGIC :: u32 where
  "MULTIBOOT_MAGIC = 0x1BADB002"

definition MULTIBOOT_EAX_MAGIC :: u32 where
  "MULTIBOOT_EAX_MAGIC = 0x2BADB002"

definition MULTIBOOT_FLAG_MEM :: u32 where
  "MULTIBOOT_FLAG_MEM = 0x001"

definition MULTIBOOT_FLAG_DEVICE :: u32 where
  "MULTIBOOT_FLAG_DEVICE = 0x002"

definition MULTIBOOT_FLAG_CMDLINE :: u32 where
  "MULTIBOOT_FLAG_CMDLINE = 0x004"

definition MULTIBOOT_FLAG_MODS :: u32 where
  "MULTIBOOT_FLAG_MODS = 0x008"

definition MULTIBOOT_FLAG_AOUT :: u32 where
  "MULTIBOOT_FLAG_AOUT = 0x010"

definition MULTIBOOT_FLAG_ELF :: u32 where
  "MULTIBOOT_FLAG_ELF = 0x020"

definition MULTIBOOT_FLAG_MMAP :: u32 where
  "MULTIBOOT_FLAG_MMAP = 0x040"

definition MULTIBOOT_FLAG_CONFIG :: u32 where
  "MULTIBOOT_FLAG_CONFIG = 0x080"

definition MULTIBOOT_FLAG_LOADER :: u32 where
  "MULTIBOOT_FLAG_LOADER = 0x100"

definition MULTIBOOT_FLAG_APM :: u32 where
  "MULTIBOOT_FLAG_APM = 0x200"

definition MULTIBOOT_FLAG_VBE :: u32 where
  "MULTIBOOT_FLAG_VBE = 0x400"

section \<open>The structures\<close>

record multiboot =
  mb_flags :: u32
  mb_mem_lower :: u32
  mb_mem_upper :: u32
  mb_boot_device :: u32
  mb_cmdline :: u32
  mb_mods_count :: u32
  mb_mods_addr :: u32
  mb_num :: u32
  mb_size :: u32
  mb_addr :: u32
  mb_shndx :: u32
  mb_mmap_length :: u32
  mb_mmap_addr :: u32
  mb_drives_length :: u32
  mb_drives_addr :: u32
  mb_config_table :: u32
  mb_boot_loader_name :: u32
  mb_apm_table :: u32
  mb_vbe_control_info :: u32
  mb_vbe_mode_info :: u32
  mb_vbe_mode :: u32
  mb_vbe_interface_seg :: u32
  mb_vbe_interface_off :: u32
  mb_vbe_interface_len :: u32

record vbe_info_t =
  vbe_attributes :: u16
  vbe_winA :: u8
  vbe_winB :: u8
  vbe_granularity :: u16
  vbe_winsize :: u16
  vbe_segmentA :: u16
  vbe_segmentB :: u16
  vbe_realFctPtr :: u32
  vbe_pitch :: u16
  vbe_Xres :: u16
  vbe_Yres :: u16
  vbe_Wchar :: u8
  vbe_Ychar :: u8
  vbe_planes :: u8
  vbe_bpp :: u8
  vbe_banks :: u8
  vbe_memory_model :: u8
  vbe_bank_size :: u8
  vbe_image_pages :: u8
  vbe_reserved0 :: u8
  vbe_red_mask :: u8
  vbe_red_position :: u8
  vbe_green_mask :: u8
  vbe_green_position :: u8
  vbe_blue_mask :: u8
  vbe_blue_position :: u8
  vbe_rsv_mask :: u8
  vbe_rsv_position :: u8
  vbe_directcolor_attributes :: u8
  vbe_physbase :: u32
  vbe_reserved1 :: u32
  vbe_reserved2 :: u16

section \<open>Reading the structure\<close>

definition multiboot_at :: "mem \<Rightarrow> u32 \<Rightarrow> multiboot" where
  "multiboot_at m p = \<lparr>
     mb_flags = read32 m p,
     mb_mem_lower = read32 m (p + 4),
     mb_mem_upper = read32 m (p + 8),
     mb_boot_device = read32 m (p + 12),
     mb_cmdline = read32 m (p + 16),
     mb_mods_count = read32 m (p + 20),
     mb_mods_addr = read32 m (p + 24),
     mb_num = read32 m (p + 28),
     mb_size = read32 m (p + 32),
     mb_addr = read32 m (p + 36),
     mb_shndx = read32 m (p + 40),
     mb_mmap_length = read32 m (p + 44),
     mb_mmap_addr = read32 m (p + 48),
     mb_drives_length = read32 m (p + 52),
     mb_drives_addr = read32 m (p + 56),
     mb_config_table = read32 m (p + 60),
     mb_boot_loader_name = read32 m (p + 64),
     mb_apm_table = read32 m (p + 68),
     mb_vbe_control_info = read32 m (p + 72),
     mb_vbe_mode_info = read32 m (p + 76),
     mb_vbe_mode = read32 m (p + 80),
     mb_vbe_interface_seg = read32 m (p + 84),
     mb_vbe_interface_off = read32 m (p + 88),
     mb_vbe_interface_len = read32 m (p + 92)\<rparr>"

end
