(* ===== verification/Screen.thy ===== *)
theory Screen
  imports Machine
begin

text \<open>
  \<open>screen.c\<close>: the text console. The array \<open>video_memory\<close> of 32-bit cells is kept as a
  function on its indices and the two cursor variables as integers; both the indices and the
  cursor are shown below to stay inside the 80 by 25 screen.
\<close>

section \<open>State and operations\<close>

record screen = machine +
  video_memory :: "int \<Rightarrow> u32"
  cursor_x :: int
  cursor_y :: int

definition SCREEN_WIDTH :: int where
  "SCREEN_WIDTH = 80"

text \<open>White on black: \<open>(0 << 4) | (15 & 0x0F)\<close>, in the byte above the character.\<close>

definition attribute_byte :: u32 where
  "attribute_byte = push_bit 4 0 OR (15 AND 0x0F)"

definition blank_cell :: u32 where
  "blank_cell = 0x20 OR push_bit 8 attribute_byte"

definition move_cursor :: "'a screen_scheme \<Rightarrow> 'a screen_scheme" where
  "move_cursor s =
     (let cursorLocation = word_of_int (cursor_y s * SCREEN_WIDTH + cursor_x s)
      in outb 0x3D5 cursorLocation (outb 0x3D4 15
           (outb 0x3D5 (drop_bit 8 cursorLocation) (outb 0x3D4 14 s))))"

definition scroll :: "'a screen_scheme \<Rightarrow> 'a screen_scheme" where
  "scroll s =
     (if 25 \<le> cursor_y s
      then (let v1 = fold (\<lambda>i v. v(i := v (i + 80))) [0 .. 24 * 80 - 1] (video_memory s);
                v2 = fold (\<lambda>i v. v(i := blank_cell)) [24 * 80 .. 25 * 80 - 1] v1
            in s\<lparr>video_memory := v2, cursor_y := 24\<rparr>)
      else s)"

definition screen_put :: "u8 \<Rightarrow> 'a screen_scheme \<Rightarrow> 'a screen_scheme" where
  "screen_put c s =
     (let attribute = push_bit 8 attribute_byte;
          s1 = (if c = 0x08 \<and> cursor_x s \<noteq> 0 then s\<lparr>cursor_x := cursor_x s - 1\<rparr>
                else if c = 0x09 then s\<lparr>cursor_x := (cursor_x s + 8) AND NOT (8 - 1)\<rparr>
                else if c = 0x0D then s\<lparr>cursor_x := 0\<rparr>
                else if c = 0x0A then s\<lparr>cursor_x := 0, cursor_y := cursor_y s + 1\<rparr>
                else if 0x20 \<le> sint c
                then s\<lparr>video_memory := (video_memory s)
                          (cursor_y s * 80 + cursor_x s := scast c OR attribute),
                       cursor_x := cursor_x s + 1\<rparr>
                else s);
          s2 = (if 80 \<le> cursor_x s1 then s1\<lparr>cursor_x := 0, cursor_y := cursor_y s1 + 1\<rparr> else s1)
      in move_cursor (scroll s2))"

definition screen_clear :: "'a screen_scheme \<Rightarrow> 'a screen_scheme" where
  "screen_clear s =
     move_cursor (s\<lparr>video_memory := fold (\<lambda>i v. v(i := blank_cell)) [0 .. 80 * 25 - 1] (video_memory s),
                    cursor_x := 0, cursor_y := 0\<rparr>)"

definition initialize_screen :: "'a screen_scheme \<Rightarrow> 'a screen_scheme" where
  "initialize_screen s = screen_clear s"

text \<open>A string is the list of its characters; its end stands for the terminating NUL.\<close>

fun screen_write :: "u8 list \<Rightarrow> 'a screen_scheme \<Rightarrow> 'a screen_scheme" where
  "screen_write [] s = s"
| "screen_write (c # cs) s = (if c \<noteq> 0 then screen_write cs (screen_put c s) else s)"

definition screen_writeln :: "u8 list \<Rightarrow> 'a screen_scheme \<Rightarrow> 'a screen_scheme" where
  "screen_writeln cs s = screen_put 0x0A (screen_write cs s)"

text \<open>The character of a nibble: \<open>tmp - 0xA + 'a'\<close> or \<open>tmp + '0'\<close>.\<close>

definition hex_char :: "u32 \<Rightarrow> u8" where
  "hex_char tmp = (if 0xA \<le> tmp then ucast (tmp - 0xA + 0x61) else ucast (tmp + 0x30))"

fun screen_hex_loop :: "nat list \<Rightarrow> u32 \<Rightarrow> bool \<Rightarrow> 'a screen_scheme \<Rightarrow> 'a screen_scheme" where
  "screen_hex_loop [] n noZeroes s = s"
| "screen_hex_loop (i # is) n noZeroes s =
     (let tmp = drop_bit i n AND 0xF
      in if tmp = 0 \<and> noZeroes then screen_hex_loop is n noZeroes s
         else screen_hex_loop is n False (screen_put (hex_char tmp) s))"

definition screen_write_hex :: "u32 \<Rightarrow> 'a screen_scheme \<Rightarrow> 'a screen_scheme" where
  "screen_write_hex n s =
     screen_put (hex_char (n AND 0xF))
       (screen_hex_loop [28, 24, 20, 16, 12, 8, 4] n True (screen_write (lit ''0x'') s))"

text \<open>The digits in the order the first loop of \<open>screen_write_dec\<close> stores them, lowest first.\<close>

function dec_digits :: "u32 \<Rightarrow> u8 list" where
  "dec_digits acc = (if 0 < acc then ucast (0x30 + acc mod 10) # dec_digits (acc div 10) else [])"
  by pat_completeness auto
termination
  by (relation "measure unat") (auto simp: unat_div_distrib word_less_nat_alt)

declare dec_digits.simps [simp del]

definition screen_write_dec :: "u32 \<Rightarrow> 'a screen_scheme \<Rightarrow> 'a screen_scheme" where
  "screen_write_dec n s =
     (if n = 0 then screen_put 0x30 s else screen_write (rev (dec_digits n)) s)"

section \<open>The cursor and the frame buffer\<close>

text \<open>The cursor is on the screen: what every operation keeps.\<close>

definition screen_ok :: "'a screen_scheme \<Rightarrow> bool" where
  "screen_ok s \<longleftrightarrow> 0 \<le> cursor_x s \<and> cursor_x s < 80 \<and> 0 \<le> cursor_y s \<and> cursor_y s < 25"

text \<open>The cells off the screen are untouched.\<close>

definition off_screen_same :: "'a screen_scheme \<Rightarrow> 'a screen_scheme \<Rightarrow> bool" where
  "off_screen_same s s' \<longleftrightarrow> (\<forall>j. j < 0 \<or> 2000 \<le> j \<longrightarrow> video_memory s' j = video_memory s j)"

lemma off_screen_same_refl [simp]: "off_screen_same s s"
  by (simp add: off_screen_same_def)

lemma off_screen_same_trans:
  "off_screen_same s s' \<Longrightarrow> off_screen_same s' s'' \<Longrightarrow> off_screen_same s s''"
  by (simp add: off_screen_same_def)

lemma int_and_minus_8: "(x :: int) AND - 8 = 8 * (x div 8)"
proof -
  have "x AND NOT (mask 3) = push_bit 3 (drop_bit 3 x)"
    by (rule bit_eqI) (auto simp: bit_simps)
  then show ?thesis by (simp add: mask_eq_exp_minus_1 push_bit_eq_mult drop_bit_eq_div)
qed

lemma fold_shift_up:
  "fold (\<lambda>i v. v(i := v (i + 80))) [0 .. int n - 1] v = (\<lambda>j. if 0 \<le> j \<and> j < int n then v (j + 80) else v j)"
proof (induction n)
  case 0
  show ?case by (auto simp: fun_eq_iff)
next
  case (Suc n)
  have "[0 .. int (Suc n) - 1] = [0 .. int n - 1] @ [int n]"
    by (simp add: upto_rec2)
  with Suc show ?case by (auto simp: fun_eq_iff)
qed

lemma fold_blank:
  "fold (\<lambda>i v. v(i := b)) [a .. a + int n - 1] v = (\<lambda>j. if a \<le> j \<and> j < a + int n then b else v j)"
proof (induction n)
  case 0
  show ?case by (auto simp: fun_eq_iff)
next
  case (Suc n)
  have "[a .. a + int (Suc n) - 1] = [a .. a + int n - 1] @ [a + int n]"
    by (simp add: upto_rec2)
  with Suc show ?case by (auto simp: fun_eq_iff)
qed

lemma scroll_memory:
  "video_memory (scroll s) =
    (\<lambda>j. if cursor_y s < 25 then video_memory s j
         else if 0 \<le> j \<and> j < 1920 then video_memory s (j + 80)
         else if 1920 \<le> j \<and> j < 2000 then blank_cell else video_memory s j)"
proof -
  have "fold (\<lambda>i v. v(i := v (i + 80))) [0 .. 1919] (video_memory s)
      = (\<lambda>j. if 0 \<le> j \<and> j < 1920 then video_memory s (j + 80) else video_memory s j)"
    using fold_shift_up [of 1920 "video_memory s"] by simp
  moreover have "fold (\<lambda>i v. v(i := blank_cell)) [1920 .. 1999] v
      = (\<lambda>j. if 1920 \<le> j \<and> j < 2000 then blank_cell else v j)" for v
    using fold_blank [of blank_cell 1920 80 v] by simp
  ultimately show ?thesis
    by (auto simp: scroll_def fun_eq_iff)
qed

lemma move_cursor_fields [simp]:
  "cursor_x (move_cursor s) = cursor_x s" "cursor_y (move_cursor s) = cursor_y s"
  "video_memory (move_cursor s) = video_memory s" "ram (move_cursor s) = ram s"
  "int_flag (move_cursor s) = int_flag s"
  by (simp_all add: move_cursor_def port_simps)

lemma scroll_fields [simp]:
  "cursor_x (scroll s) = cursor_x s" "ram (scroll s) = ram s" "int_flag (scroll s) = int_flag s"
  "cursor_y (scroll s) = (if 25 \<le> cursor_y s then 24 else cursor_y s)"
  by (simp_all add: scroll_def Let_def)

lemma scroll_off_screen: "off_screen_same s (scroll s)"
  by (simp add: off_screen_same_def scroll_memory)

lemma screen_put_ok:
  assumes "screen_ok s"
  shows "screen_ok (screen_put c s)"
proof -
  have "0 \<le> (cursor_x s + 8) AND - 8" "(cursor_x s + 8) AND - 8 \<le> 80"
    unfolding int_and_minus_8 using assms unfolding screen_ok_def by presburger+
  with assms show ?thesis by (auto simp: screen_put_def Let_def screen_ok_def)
qed

lemma screen_put_off_screen:
  assumes "screen_ok s"
  shows "off_screen_same s (screen_put c s)"
  using assms
  by (auto simp: screen_put_def Let_def screen_ok_def off_screen_same_def scroll_memory)

lemma screen_put_ram [simp]:
  "ram (screen_put c s) = ram s" "int_flag (screen_put c s) = int_flag s"
  by (simp_all add: screen_put_def Let_def)

text \<open>Printing to the screen is an instance of the shared character-sink interface.\<close>

interpretation scr: char_sink "\<lambda>c s. Some (screen_put c s)" "\<lambda>cs s. Some (screen_write cs s)"
  by unfold_locales auto

lemma screen_write_append:
  "0 \<notin> set xs \<Longrightarrow> screen_write (xs @ ys) s = screen_write ys (screen_write xs s)"
  using scr.puts_append [of xs ys s] by simp

lemma screen_write_ok: "screen_ok s \<Longrightarrow> screen_ok (screen_write cs s)"
  using scr.puts_invariant [of screen_ok s cs] by (auto intro: screen_put_ok)

lemma screen_write_off_screen:
  assumes "screen_ok s"
  shows "off_screen_same s (screen_write cs s)"
proof -
  have step: "screen_ok t' \<and> off_screen_same s t'"
    if t: "screen_ok t \<and> off_screen_same s t" and "Some (screen_put c t) = Some t'" for c t t'
  proof -
    have "t' = screen_put c t" using that(2) by simp
    then show ?thesis
      using t screen_put_ok screen_put_off_screen off_screen_same_trans by metis
  qed
  show ?thesis
    using scr.puts_invariant [of "\<lambda>t. screen_ok t \<and> off_screen_same s t", OF step _ refl] assms
    by simp
qed

lemma screen_write_ram [simp]:
  "ram (screen_write cs s) = ram s" "int_flag (screen_write cs s) = int_flag s"
  by (induction cs arbitrary: s) simp_all

section \<open>Printing numbers\<close>

text \<open>What a printed number means: Horner's rule over its digit characters.\<close>

definition dec_value :: "u8 list \<Rightarrow> nat" where
  "dec_value ds = foldl (\<lambda>v d. 10 * v + (unat d - 48)) 0 ds"

definition hex_nibble :: "u8 \<Rightarrow> nat" where
  "hex_nibble d = (if 0x61 \<le> d then unat d - 0x61 + 10 else unat d - 0x30)"

definition hex_value :: "u8 list \<Rightarrow> nat" where
  "hex_value ds = foldl (\<lambda>v d. 16 * v + hex_nibble d) 0 ds"

lemma dec_char_value:
  fixes n :: u32
  shows "unat (ucast (0x30 + n mod 10) :: u8) = 48 + unat n mod 10"
proof -
  have "unat n mod 10 < 10" by simp
  then show ?thesis
    by (simp add: unsigned_ucast_eq unat_word_ariths unat_mod_distrib take_bit_eq_mod)
qed

lemma dec_digits_0 [simp]: "dec_digits 0 = []"
  by (subst dec_digits.simps) simp

lemma dec_value_digits: "dec_value (rev (dec_digits n)) = unat n"
proof (induction n rule: dec_digits.induct)
  case (1 n)
  show ?case
  proof (cases "n = 0")
    case True
    then show ?thesis by (simp add: dec_digits.simps [of n] dec_value_def)
  next
    case False
    then have "0 < n" by (simp add: word_gt_0)
    with 1 show ?thesis
      by (simp add: dec_digits.simps [of n] dec_value_def dec_char_value unat_div_distrib)
  qed
qed

lemma dec_digits_length: "unat n < 10 ^ k \<Longrightarrow> length (dec_digits n) \<le> k"
proof (induction k arbitrary: n)
  case 0
  then show ?case by (simp add: dec_digits.simps [of n] unat_eq_0)
next
  case (Suc k)
  then have "unat (n div 10) < 10 ^ k" by (simp add: unat_div_distrib less_mult_imp_div_less)
  with Suc.IH show ?case by (simp add: dec_digits.simps [of n])
qed

lemma dec_digits_last: "n \<noteq> 0 \<Longrightarrow> dec_digits n \<noteq> [] \<and> last (dec_digits n) \<noteq> 0x30"
proof (induction n rule: dec_digits.induct)
  case (1 n)
  then have pos: "0 < n" by (simp add: word_gt_0)
  show ?case
  proof (cases "n div 10 = 0")
    case True
    then have "unat (n div 10) = 0" by simp
    then have "unat n div 10 = 0" by (simp only: unat_div_distrib) simp
    then have "unat n mod 10 = unat n" by presburger
    then have "unat (ucast (0x30 + n mod 10) :: u8) \<noteq> unat (0x30 :: u8)"
      using "1.prems" by (simp only: dec_char_value) (simp add: unat_eq_0)
    then have "(ucast (0x30 + n mod 10) :: u8) \<noteq> 0x30"
      by (rule contrapos_nn) (simp only:)
    with True pos show ?thesis by (simp add: dec_digits.simps [of n])
  next
    case False
    with 1 pos show ?thesis by (simp add: dec_digits.simps [of n])
  qed
qed

lemma dec_digits_chars: "d \<in> set (dec_digits n) \<Longrightarrow> 0x30 \<le> d \<and> d \<le> 0x39"
proof (induction n rule: dec_digits.induct)
  case (1 n)
  have "unat n mod 10 \<le> 9" using mod_less_divisor [of 10 "unat n"] by linarith
  with 1 show ?case
    by (auto simp: dec_digits.simps [of n] word_le_nat_alt dec_char_value split: if_splits)
qed

lemma hex_nibble_char: "tmp < 16 \<Longrightarrow> hex_nibble (hex_char tmp) = unat tmp"
proof -
  assume "tmp < 16"
  then have "unat tmp \<in> set [0..<16]" by (simp add: word_less_nat_alt)
  moreover have "\<forall>k \<in> set [0..<16]. hex_nibble (hex_char (word_of_nat k)) = k" by code_simp
  ultimately have "hex_nibble (hex_char (word_of_nat (unat tmp))) = unat tmp" by (rule bspec [rotated])
  then show ?thesis by simp
qed

end
