(* ===== verification/Ordered_Array.thy ===== *)
theory Ordered_Array
  imports Kernel_Prelude
begin

text \<open>
  \<open>ordered_array.c\<close>: an insertion-sorted array of pointers. The cells lie in memory, four
  bytes each, from the address \<open>oa_array\<close> on; the comparison may itself look into memory, as
  the kernel heap's does. An interface locale states what the heap relies on, and the model's
  operations are shown to provide it.
\<close>

section \<open>The array and its operations\<close>

type_synonym lessthan_predicate = "mem \<Rightarrow> u32 \<Rightarrow> u32 \<Rightarrow> bool"

record ordered_array =
  oa_array :: u32
  oa_size :: u32
  oa_max_size :: u32
  less_than :: "lessthan_predicate option"

definition standard_lessthan_predicate :: lessthan_predicate where
  "standard_lessthan_predicate m a b = (a < b)"

definition cell :: "mem \<Rightarrow> u32 \<Rightarrow> u32 \<Rightarrow> u32" where
  "cell m arr i = read32 m (arr + 4 * i)"

definition set_cell :: "u32 \<Rightarrow> u32 \<Rightarrow> u32 \<Rightarrow> mem \<Rightarrow> mem" where
  "set_cell arr i v m = write32 m (arr + 4 * i) v"

definition place_ordered_array ::
    "u32 \<Rightarrow> u32 \<Rightarrow> lessthan_predicate option \<Rightarrow> mem \<Rightarrow> ordered_array \<times> mem" where
  "place_ordered_array addr max_size lt m =
     (\<lparr>oa_array = addr, oa_size = 0, oa_max_size = max_size, less_than = lt\<rparr>,
      memset m addr 0 (max_size * 4))"

text \<open>The first loop of \<open>insert_ordered_array\<close> looks for the place, the second moves the tail up.\<close>

function insert_pos :: "mem \<Rightarrow> (u32 \<Rightarrow> u32 \<Rightarrow> bool) \<Rightarrow> u32 \<Rightarrow> u32 \<Rightarrow> u32 \<Rightarrow> u32 \<Rightarrow> u32" where
  "insert_pos m lt arr n item i =
     (if i < n \<and> lt (cell m arr i) item then insert_pos m lt arr n item (i + 1) else i)"
  by pat_completeness auto
termination
  by (relation "measure (\<lambda>(m, lt, arr, n, item, i). unat n - unat i)")
    (auto simp: unat_Suc_below word_less_nat_alt [symmetric] dest: unat_mono intro!: diff_less_mono2)

function shift_up :: "u32 \<Rightarrow> u32 \<Rightarrow> u32 \<Rightarrow> u32 \<Rightarrow> mem \<Rightarrow> mem" where
  "shift_up arr n i tmp m =
     (if i < n
      then (let i' = i + 1; tmp2 = cell m arr i' in shift_up arr n i' tmp2 (set_cell arr i' tmp m))
      else m)"
  by pat_completeness auto
termination
  by (relation "measure (\<lambda>(arr, n, i, tmp, m). unat n - unat i)")
    (auto simp: unat_Suc_below word_less_nat_alt [symmetric] dest: unat_mono intro!: diff_less_mono2)

declare insert_pos.simps [simp del] shift_up.simps [simp del]

definition insert_ordered_array ::
    "u32 \<Rightarrow> ordered_array \<Rightarrow> mem \<Rightarrow> (ordered_array \<times> mem) result" where
  "insert_ordered_array item oa m =
     (case less_than oa of
        None \<Rightarrow> Inl Assertion_failed
      | Some lt \<Rightarrow>
          (let arr = oa_array oa; n = oa_size oa; iterator = insert_pos m (lt m) arr n item 0
           in if iterator = n
              then Inr (oa\<lparr>oa_size := n + 1\<rparr>, set_cell arr n item m)
              else (let tmp = cell m arr iterator;
                        m1 = set_cell arr iterator item m
                    in Inr (oa\<lparr>oa_size := n + 1\<rparr>, shift_up arr n iterator tmp m1))))"

definition lookup_ordered_array :: "u32 \<Rightarrow> ordered_array \<Rightarrow> mem \<Rightarrow> u32 result" where
  "lookup_ordered_array i oa m =
     rbind (kassert (i < oa_size oa)) (\<lambda>_. Inr (cell m (oa_array oa) i))"

function shift_down :: "u32 \<Rightarrow> u32 \<Rightarrow> u32 \<Rightarrow> mem \<Rightarrow> mem" where
  "shift_down arr n i m =
     (if i < n then shift_down arr n (i + 1) (set_cell arr i (cell m arr (i + 1)) m) else m)"
  by pat_completeness auto
termination
  by (relation "measure (\<lambda>(arr, n, i, m). unat n - unat i)")
    (auto simp: unat_Suc_below word_less_nat_alt [symmetric] dest: unat_mono intro!: diff_less_mono2)

declare shift_down.simps [simp del]

definition remove_ordered_array :: "u32 \<Rightarrow> ordered_array \<Rightarrow> mem \<Rightarrow> ordered_array \<times> mem" where
  "remove_ordered_array i oa m =
     (oa\<lparr>oa_size := oa_size oa - 1\<rparr>, shift_down (oa_array oa) (oa_size oa) i m)"

section \<open>The cells as a list\<close>

definition cells :: "mem \<Rightarrow> u32 \<Rightarrow> nat \<Rightarrow> u32 list" where
  "cells m arr n = map (\<lambda>i. cell m arr (word_of_nat i)) [0..<n]"

definition oa_list :: "ordered_array \<Rightarrow> mem \<Rightarrow> u32 list" where
  "oa_list oa m = cells m (oa_array oa) (unat (oa_size oa))"

text \<open>There is room for one more cell below the end of the address space.\<close>

definition oa_room :: "ordered_array \<Rightarrow> bool" where
  "oa_room oa \<longleftrightarrow> unat (oa_array oa) + 4 * (unat (oa_size oa) + 1) \<le> 2 ^ 32"

lemma length_cells [simp]: "length (cells m arr n) = n"
  by (simp add: cells_def)

lemma nth_cells [simp]: "i < n \<Longrightarrow> cells m arr n ! i = cell m arr (word_of_nat i)"
  by (simp add: cells_def)

lemma unat_cell_addr:
  fixes arr :: u32
  assumes "unat arr + 4 * k < 2 ^ 32"
  shows "unat (arr + 4 * word_of_nat k) = unat arr + 4 * k"
proof -
  have "(4 :: u32) * word_of_nat k = word_of_nat (4 * k)" by simp
  then show ?thesis using assms unat_add_small [of arr "4 * k"] by (simp only:)
qed

lemma cell_set_cell:
  assumes "unat arr + 4 * (i + 1) \<le> 2 ^ 32" and "unat arr + 4 * (j + 1) \<le> 2 ^ 32"
  shows "cell (set_cell arr (word_of_nat i) v m) arr (word_of_nat j)
    = (if i = j then v else cell m arr (word_of_nat j))"
proof (cases "i = j")
  case False
  have "unat (arr + 4 * word_of_nat i) = unat arr + 4 * i"
    and "unat (arr + 4 * word_of_nat j) = unat arr + 4 * j"
    using assms by (simp_all add: unat_cell_addr)
  with assms False show ?thesis
    unfolding cell_def set_cell_def
    by (subst read32_write32_nat) auto
qed (simp add: cell_def set_cell_def)

lemma same_outside_set_cell:
  assumes "unat arr + 4 * (i + 1) \<le> 2 ^ 32" and "lo \<le> i" and "i < hi"
  shows "same_outside (arr + 4 * word_of_nat lo) (4 * (hi - lo)) m (set_cell arr (word_of_nat i) v m)"
proof -
  have a: "unat (arr + 4 * word_of_nat i) = unat arr + 4 * i"
    and b: "unat (arr + 4 * word_of_nat lo) = unat arr + 4 * lo"
    using assms by (simp_all add: unat_cell_addr)
  show ?thesis unfolding set_cell_def
    by (rule same_outside_mono [OF same_outside_write32]) (use assms a b in auto)
qed

lemma cells_same_outside:
  assumes "same_outside a k m m'" and "unat arr + 4 * n \<le> unat a \<or> unat a + k \<le> unat arr"
    and "unat arr + 4 * n \<le> 2 ^ 32"
  shows "cells m' arr n = cells m arr n"
proof (rule nth_equalityI)
  fix i assume "i < length (cells m' arr n)"
  then have i: "i < n" by simp
  with assms(3) have "unat (arr + 4 * word_of_nat i) = unat arr + 4 * i"
    by (simp add: unat_cell_addr)
  with i assms show "cells m' arr n ! i = cells m arr n ! i"
    by (auto simp: cell_def intro!: read32_same_outside)
qed simp

section \<open>Insertion\<close>

lemma word_of_nat_less_u32:
  fixes n :: u32
  assumes "k \<le> unat n"
  shows "word_of_nat k < n \<longleftrightarrow> k < unat n"
  using assms unat_u32_less [of n] by (simp add: word_less_nat_alt unsigned_of_nat take_bit_nat_eq_self)

lemma insert_pos_takeWhile:
  assumes "k \<le> unat n"
  shows "insert_pos m lt arr n item (word_of_nat k)
    = word_of_nat (k + length (takeWhile (\<lambda>x. lt x item) (drop k (cells m arr (unat n)))))"
  using assms
proof (induction "unat n - k" arbitrary: k)
  case 0
  then show ?case by (subst insert_pos.simps) (simp add: word_of_nat_less_u32)
next
  case (Suc d)
  then have k: "k < unat n" by simp
  then have less: "word_of_nat k < n" by (simp add: word_of_nat_less_u32)
  have drop: "drop k (cells m arr (unat n)) = cell m arr (word_of_nat k) # drop (Suc k) (cells m arr (unat n))"
    using k by (metis Cons_nth_drop_Suc length_cells nth_cells)
  have IH: "insert_pos m lt arr n item (word_of_nat (Suc k)) = word_of_nat (Suc k
      + length (takeWhile (\<lambda>x. lt x item) (drop (Suc k) (cells m arr (unat n)))))"
    by (rule Suc.hyps) (use Suc in auto)
  show ?case
    using IH less by (subst insert_pos.simps) (simp add: drop algebra_simps)
qed

lemma shift_up_cell:
  assumes "k \<le> unat n" and "unat arr + 4 * (unat n + 1) \<le> 2 ^ 32" and "j \<le> unat n"
  shows "cell (shift_up arr n (word_of_nat k) tmp m) arr (word_of_nat j)
    = (if j \<le> k then cell m arr (word_of_nat j)
       else if j = Suc k then tmp else cell m arr (word_of_nat (j - 1)))"
  using assms
proof (induction "unat n - k" arbitrary: k tmp m)
  case 0
  then show ?case by (subst shift_up.simps) (simp add: word_of_nat_less_u32)
next
  case (Suc d)
  let ?m = "set_cell arr (word_of_nat (Suc k)) tmp m"
  have k: "k < unat n" using Suc.hyps by simp
  then have less: "word_of_nat k < n" by (simp add: word_of_nat_less_u32)
  have set: "cell ?m arr (word_of_nat i) = (if i = Suc k then tmp else cell m arr (word_of_nat i))"
    if "i \<le> unat n" for i
    using cell_set_cell [of arr "Suc k" i tmp m] that k Suc.prems by auto
  have "shift_up arr n (word_of_nat k) tmp m
      = shift_up arr n (word_of_nat (Suc k)) (cell m arr (word_of_nat (Suc k))) ?m"
    using less by (subst shift_up.simps) (simp add: Let_def add.commute)
  moreover have "cell (shift_up arr n (word_of_nat (Suc k)) (cell m arr (word_of_nat (Suc k))) ?m)
        arr (word_of_nat j)
      = (if j \<le> Suc k then cell ?m arr (word_of_nat j)
         else if j = Suc (Suc k) then cell m arr (word_of_nat (Suc k))
         else cell ?m arr (word_of_nat (j - 1)))"
    by (rule Suc.hyps) (use Suc k in auto)
  ultimately show ?case
    using set [of j] set [of "j - 1"] Suc.prems by auto
qed

lemma shift_up_same_outside:
  assumes "k \<le> unat n" and "unat arr + 4 * (unat n + 1) \<le> 2 ^ 32"
  shows "same_outside arr (4 * (unat n + 1)) m (shift_up arr n (word_of_nat k) tmp m)"
  using assms
proof (induction "unat n - k" arbitrary: k tmp m)
  case 0
  then show ?case by (subst shift_up.simps) (simp add: word_of_nat_less_u32)
next
  case (Suc d)
  let ?m = "set_cell arr (word_of_nat (Suc k)) tmp m"
  have k: "k < unat n" using Suc.hyps by simp
  then have less: "word_of_nat k < n" by (simp add: word_of_nat_less_u32)
  have "same_outside arr (4 * (unat n + 1)) m ?m"
    using same_outside_set_cell [of arr "Suc k" 0 "unat n + 1" m tmp] k Suc.prems by simp
  moreover have "same_outside arr (4 * (unat n + 1)) ?m
      (shift_up arr n (word_of_nat (Suc k)) (cell m arr (word_of_nat (Suc k))) ?m)"
    by (rule Suc.hyps) (use Suc k in auto)
  ultimately have "same_outside arr (4 * (unat n + 1)) m
      (shift_up arr n (word_of_nat (Suc k)) (cell m arr (word_of_nat (Suc k))) ?m)"
    by (rule same_outside_trans)
  then show ?case
    using less by (subst shift_up.simps) (simp add: Let_def add.commute)
qed

text \<open>The list operation that insertion performs.\<close>

definition insert_sorted :: "(u32 \<Rightarrow> u32 \<Rightarrow> bool) \<Rightarrow> u32 \<Rightarrow> u32 list \<Rightarrow> u32 list" where
  "insert_sorted lt item xs = takeWhile (\<lambda>x. lt x item) xs @ item # dropWhile (\<lambda>x. lt x item) xs"

lemma set_insert_sorted [simp]: "set (insert_sorted lt item xs) = insert item (set xs)"
proof -
  have "set (takeWhile P xs) \<union> set (dropWhile P xs) = set xs" for P :: "u32 \<Rightarrow> bool"
    by (metis set_append takeWhile_dropWhile_id)
  then show ?thesis by (auto simp: insert_sorted_def)
qed

lemma insert_cells:
  assumes "unat arr + 4 * (unat n + 1) \<le> 2 ^ 32"
    and "k = length (takeWhile P (cells m arr (unat n)))"
    and "m' = (if k = unat n then set_cell arr n item m
               else shift_up arr n (word_of_nat k) (cell m arr (word_of_nat k))
                      (set_cell arr (word_of_nat k) item m))"
  shows "cells m' arr (Suc (unat n)) = takeWhile P (cells m arr (unat n)) @ item
      # dropWhile P (cells m arr (unat n))"
    and "same_outside arr (4 * (unat n + 1)) m m'"
proof -
  let ?xs = "cells m arr (unat n)"
  let ?m1 = "set_cell arr (word_of_nat k) item m"
  have k: "k \<le> unat n" using assms(2) length_takeWhile_le [of P ?xs] by simp
  have set: "cell ?m1 arr (word_of_nat j) = (if j = k then item else cell m arr (word_of_nat j))"
    if "j \<le> unat n" for j
    using cell_set_cell [of arr k j item m] that k assms(1) by auto
  have m': "cell m' arr (word_of_nat j) = (if j < k then cell m arr (word_of_nat j)
      else if j = k then item else cell m arr (word_of_nat (j - 1)))" if "j \<le> unat n" for j
  proof (cases "k = unat n")
    case True
    then show ?thesis using assms(3) set [OF that] that by (auto simp: not_less)
  next
    case False
    then have "m' = shift_up arr n (word_of_nat k) (cell m arr (word_of_nat k)) ?m1"
      using assms(3) by simp
    then show ?thesis
      using shift_up_cell [OF k assms(1) that] set [OF that] set [of "j - 1"] that by auto
  qed
  have take: "takeWhile P ?xs = take k ?xs" unfolding assms(2) by (rule takeWhile_eq_take)
  have drop: "dropWhile P ?xs = drop k ?xs" unfolding assms(2) by (rule dropWhile_eq_drop)
  show "cells m' arr (Suc (unat n)) = takeWhile P ?xs @ item # dropWhile P ?xs"
    unfolding take drop
  proof (rule nth_equalityI)
    fix j assume "j < length (cells m' arr (Suc (unat n)))"
    then have j: "j \<le> unat n" by simp
    have len: "length (take k ?xs) = k" using k by simp
    consider "j < k" | "j = k" | i where "j = Suc (k + i)"
      by (metis less_imp_Suc_add linorder_neqE_nat)
    then show "cells m' arr (Suc (unat n)) ! j = (take k ?xs @ item # drop k ?xs) ! j"
      using j len m' [OF j] by cases (simp_all add: nth_append)
  qed (use k in simp)
  have out: "same_outside arr (4 * (unat n + 1)) m ?m1"
    using same_outside_set_cell [of arr k 0 "unat n + 1" m item] k assms(1) by simp
  show "same_outside arr (4 * (unat n + 1)) m m'"
    using out same_outside_trans [OF out shift_up_same_outside [OF k assms(1)]] assms(3)
    by (cases "k = unat n") simp_all
qed

theorem insert_ordered_array_correct:
  assumes "less_than oa = Some lt" and "oa_room oa"
  shows "\<exists>oa' m'. insert_ordered_array item oa m = Inr (oa', m')
    \<and> oa_list oa' m' = insert_sorted (lt m) item (oa_list oa m)
    \<and> oa' = oa\<lparr>oa_size := oa_size oa + 1\<rparr>
    \<and> unat (oa_size oa') = Suc (unat (oa_size oa))
    \<and> same_outside (oa_array oa) (4 * (unat (oa_size oa) + 1)) m m'"
proof -
  let ?arr = "oa_array oa" and ?n = "oa_size oa"
  let ?P = "\<lambda>x. lt m x item"
  let ?k = "length (takeWhile ?P (cells m ?arr (unat ?n)))"
  have room: "unat ?arr + 4 * (unat ?n + 1) \<le> 2 ^ 32" using assms(2) by (simp add: oa_room_def)
  have k: "?k \<le> unat ?n" using length_takeWhile_le [of ?P "cells m ?arr (unat ?n)"] by simp
  have pos: "insert_pos m (lt m) ?arr ?n item 0 = word_of_nat ?k"
    using insert_pos_takeWhile [of 0 ?n m "lt m" ?arr item] by simp
  have eq: "word_of_nat ?k = ?n \<longleftrightarrow> ?k = unat ?n"
    using k unat_u32_less [of ?n]
    by (auto simp: word_unat_eq_iff unsigned_of_nat take_bit_nat_eq_self)
  have size: "unat (?n + 1) = Suc (unat ?n)"
    using unat_add_one [of ?n] room by simp
  let ?m' = "if ?k = unat ?n then set_cell ?arr ?n item m
      else shift_up ?arr ?n (word_of_nat ?k) (cell m ?arr (word_of_nat ?k))
             (set_cell ?arr (word_of_nat ?k) item m)"
  have "insert_ordered_array item oa m = Inr (oa\<lparr>oa_size := ?n + 1\<rparr>, ?m')"
    using assms(1) eq pos by (simp add: insert_ordered_array_def Let_def)
  with insert_cells [where P = ?P and m = m and item = item, OF room refl refl] size show ?thesis
    by (simp add: oa_list_def insert_sorted_def)
qed

lemma insert_ordered_array_null:
  "less_than oa = None \<Longrightarrow> insert_ordered_array item oa m = Inl Assertion_failed"
  by (simp add: insert_ordered_array_def)

section \<open>Removal and lookup\<close>

lemma shift_down_cell:
  assumes "k \<le> unat n" and "unat arr + 4 * (unat n + 1) \<le> 2 ^ 32" and "j \<le> unat n"
  shows "cell (shift_down arr n (word_of_nat k) m) arr (word_of_nat j)
    = (if k \<le> j \<and> j < unat n then cell m arr (word_of_nat (Suc j)) else cell m arr (word_of_nat j))"
  using assms
proof (induction "unat n - k" arbitrary: k m)
  case 0
  then show ?case by (subst shift_down.simps) (auto simp: word_of_nat_less_u32)
next
  case (Suc d)
  let ?m = "set_cell arr (word_of_nat k) (cell m arr (word_of_nat (Suc k))) m"
  have k: "k < unat n" using Suc.hyps by simp
  then have less: "word_of_nat k < n" by (simp add: word_of_nat_less_u32)
  have set: "cell ?m arr (word_of_nat i)
      = (if i = k then cell m arr (word_of_nat (Suc k)) else cell m arr (word_of_nat i))"
    if "i \<le> unat n" for i
    using cell_set_cell [of arr k i "cell m arr (word_of_nat (Suc k))" m] that k Suc.prems by auto
  have "shift_down arr n (word_of_nat k) m = shift_down arr n (word_of_nat (Suc k)) ?m"
    using less by (subst shift_down.simps) (simp add: add.commute)
  moreover have "cell (shift_down arr n (word_of_nat (Suc k)) ?m) arr (word_of_nat j)
      = (if Suc k \<le> j \<and> j < unat n then cell ?m arr (word_of_nat (Suc j))
         else cell ?m arr (word_of_nat j))"
    by (rule Suc.hyps) (use Suc k in auto)
  ultimately show ?case
    using set [of j] set [of "Suc j"] Suc.prems k by auto
qed

lemma shift_down_same_outside:
  assumes "k \<le> unat n" and "unat arr + 4 * (unat n + 1) \<le> 2 ^ 32"
  shows "same_outside arr (4 * unat n) m (shift_down arr n (word_of_nat k) m)"
  using assms
proof (induction "unat n - k" arbitrary: k m)
  case 0
  then show ?case by (subst shift_down.simps) (simp add: word_of_nat_less_u32)
next
  case (Suc d)
  let ?m = "set_cell arr (word_of_nat k) (cell m arr (word_of_nat (Suc k))) m"
  have k: "k < unat n" using Suc.hyps by simp
  then have less: "word_of_nat k < n" by (simp add: word_of_nat_less_u32)
  have "same_outside arr (4 * unat n) m ?m"
    using same_outside_set_cell [of arr k 0 "unat n" m] k Suc.prems by simp
  moreover have "same_outside arr (4 * unat n) ?m (shift_down arr n (word_of_nat (Suc k)) ?m)"
    by (rule Suc.hyps) (use Suc k in auto)
  ultimately show ?case
    using less by (subst shift_down.simps) (simp add: same_outside_trans add.commute)
qed

lemma remove_ordered_array_correct:
  assumes "oa_room oa" and "k < unat (oa_size oa)"
    and "remove_ordered_array (word_of_nat k) oa m = (oa', m')"
  shows "oa_list oa' m' = take k (oa_list oa m) @ drop (Suc k) (oa_list oa m)"
    and "unat (oa_size oa') = unat (oa_size oa) - 1"
    and "oa' = oa\<lparr>oa_size := oa_size oa - 1\<rparr>"
    and "same_outside (oa_array oa) (4 * unat (oa_size oa)) m m'"
proof -
  let ?arr = "oa_array oa" and ?n = "oa_size oa"
  have room: "unat ?arr + 4 * (unat ?n + 1) \<le> 2 ^ 32" using assms(1) by (simp add: oa_room_def)
  have oa': "oa' = oa\<lparr>oa_size := ?n - 1\<rparr>" and m': "m' = shift_down ?arr ?n (word_of_nat k) m"
    using assms(3) by (auto simp: remove_ordered_array_def)
  show size: "unat (oa_size oa') = unat ?n - 1"
    using assms(2) unat_pred [of ?n] oa' by force
  show "oa' = oa\<lparr>oa_size := oa_size oa - 1\<rparr>" by (fact oa')
  show "same_outside ?arr (4 * unat ?n) m m'"
    using shift_down_same_outside [OF _ room] assms(2) m' by simp
  have list: "oa_list oa' m' = cells m' ?arr (unat ?n - 1)"
    using size oa' by (simp add: oa_list_def)
  show "oa_list oa' m' = take k (oa_list oa m) @ drop (Suc k) (oa_list oa m)"
    unfolding list
  proof (rule nth_equalityI)
    fix j assume "j < length (cells m' ?arr (unat ?n - 1))"
    then have j: "j < unat ?n - 1" by simp
    then have "cell m' ?arr (word_of_nat j) = (if k \<le> j then cell m ?arr (word_of_nat (Suc j))
        else cell m ?arr (word_of_nat j))"
      using shift_down_cell [OF _ room, of k j m] assms(2) m' by auto
    with j assms(2) show "cells m' ?arr (unat ?n - 1) ! j
        = (take k (oa_list oa m) @ drop (Suc k) (oa_list oa m)) ! j"
      by (auto simp: oa_list_def nth_append min_absorb2)
  qed (use assms(2) in \<open>simp add: oa_list_def\<close>)
qed

lemma lookup_ordered_array_in:
  "k < unat (oa_size oa) \<Longrightarrow> lookup_ordered_array (word_of_nat k) oa m = Inr (oa_list oa m ! k)"
  by (simp add: lookup_ordered_array_def word_of_nat_less_u32 oa_list_def)

lemma lookup_ordered_array_out:
  "oa_size oa \<le> i \<Longrightarrow> lookup_ordered_array i oa m = Inl Assertion_failed"
  by (simp add: lookup_ordered_array_def kassert_def not_less [symmetric])

section \<open>Sortedness\<close>

text \<open>
  \<open>lt\<close> is a strict weak order on the items: what an insertion-sorted array needs of its
  predicate. The comparison of header sizes is one although it is not linear.
\<close>

definition weak_order :: "(u32 \<Rightarrow> u32 \<Rightarrow> bool) \<Rightarrow> bool" where
  "weak_order lt \<longleftrightarrow> (\<forall>a b. lt a b \<longrightarrow> \<not> lt b a) \<and> (\<forall>a b c. \<not> lt a b \<longrightarrow> \<not> lt b c \<longrightarrow> \<not> lt a c)"

definition ordered_by :: "(u32 \<Rightarrow> u32 \<Rightarrow> bool) \<Rightarrow> u32 list \<Rightarrow> bool" where
  "ordered_by lt xs \<longleftrightarrow> sorted_wrt (\<lambda>a b. \<not> lt b a) xs"

lemma weak_order_key: "weak_order (\<lambda>a b. (f a :: u32) < f b)"
  by (auto simp: weak_order_def)

lemma insert_sorted_ordered:
  assumes "weak_order lt" and "ordered_by lt xs"
  shows "ordered_by lt (insert_sorted lt item xs)"
  using assms(2)
proof (induction xs)
  case Nil
  then show ?case by (simp add: insert_sorted_def ordered_by_def)
next
  case (Cons x xs)
  show ?case
  proof (cases "lt x item")
    case True
    then have "insert_sorted lt item (x # xs) = x # insert_sorted lt item xs"
      by (simp add: insert_sorted_def)
    moreover have "\<not> lt item x" using assms(1) True unfolding weak_order_def by blast
    moreover have "ordered_by lt (insert_sorted lt item xs)"
      using Cons by (simp add: ordered_by_def)
    ultimately show ?thesis using Cons.prems by (auto simp: ordered_by_def)
  next
    case False
    then have "insert_sorted lt item (x # xs) = item # x # xs"
      by (simp add: insert_sorted_def)
    moreover have "\<not> lt y item" if "\<not> lt y x" for y
      using assms(1) False that unfolding weak_order_def by blast
    ultimately show ?thesis using Cons.prems False by (auto simp: ordered_by_def)
  qed
qed

lemma remove_ordered: "ordered_by lt xs \<Longrightarrow> ordered_by lt (take k xs @ drop (Suc k) xs)"
proof -
  assume "ordered_by lt xs"
  then have "ordered_by lt (take k xs @ drop k xs)" by simp
  moreover have "set (drop (Suc k) xs) \<subseteq> set (drop k xs)"
    by (rule set_drop_subset_set_drop) simp
  ultimately have "\<forall>x \<in> set (take k xs). \<forall>y \<in> set (drop (Suc k) xs). \<not> lt y x"
    unfolding ordered_by_def sorted_wrt_append by blast
  then show ?thesis
    using \<open>ordered_by lt xs\<close> by (auto simp: ordered_by_def sorted_wrt_append sorted_wrt_take sorted_wrt_drop)
qed

section \<open>The interface the kernel heap uses\<close>

text \<open>
  An indexed store of pointers: what the heap needs of its index of holes is that inserting
  adds exactly one pointer, that looking up below the length gives the pointer there, and that
  removing a position deletes that position. The search loop that the heap runs before
  removing a header is a client of this interface.
\<close>

fun search_from :: "(nat \<Rightarrow> u32 result) \<Rightarrow> u32 \<Rightarrow> nat \<Rightarrow> nat \<Rightarrow> nat result" where
  "search_from look x 0 i = Inr i"
| "search_from look x (Suc d) i =
     rbind (look i) (\<lambda>y. if y \<noteq> x then search_from look x d (Suc i) else Inr i)"

locale pointer_index =
  fixes contents :: "'a \<Rightarrow> mem \<Rightarrow> u32 list"
    and usable :: "'a \<Rightarrow> bool"
    and ins :: "u32 \<Rightarrow> 'a \<Rightarrow> mem \<Rightarrow> ('a \<times> mem) result"
    and del :: "nat \<Rightarrow> 'a \<Rightarrow> mem \<Rightarrow> 'a \<times> mem"
    and look :: "nat \<Rightarrow> 'a \<Rightarrow> mem \<Rightarrow> u32 result"
  assumes ins_contents: "usable a \<Longrightarrow>
      \<exists>a' m' us vs. ins x a m = Inr (a', m') \<and> contents a m = us @ vs \<and> contents a' m' = us @ x # vs"
    and look_contents: "i < length (contents a m) \<Longrightarrow> look i a m = Inr (contents a m ! i)"
    and del_contents: "usable a \<Longrightarrow> i < length (contents a m) \<Longrightarrow> del i a m = (a', m') \<Longrightarrow>
      contents a' m' = take i (contents a m) @ drop (Suc i) (contents a m)"
begin

lemma search_finds:
  assumes "contents a m = us @ x # vs" and "x \<notin> set us"
  shows "search_from (\<lambda>i. look i a m) x (length (contents a m)) 0 = Inr (length us)"
proof -
  have "search_from (\<lambda>i. look i a m) x (length us - k + Suc (length vs)) k = Inr (length us)"
    if "k \<le> length us" for k
    using that
  proof (induction "length us - k" arbitrary: k)
    case 0
    then show ?case using assms by (auto simp: look_contents nth_append)
  next
    case (Suc d)
    then have k: "k < length us" by simp
    have "contents a m ! k \<noteq> x" using assms k by (auto simp: nth_append)
    moreover have "length us - k + Suc (length vs) = Suc (length us - Suc k + Suc (length vs))"
      using k by simp
    moreover have "search_from (\<lambda>i. look i a m) x (length us - Suc k + Suc (length vs)) (Suc k)
        = Inr (length us)"
      by (rule Suc.hyps) (use Suc k in auto)
    ultimately show ?case using assms k by (simp add: look_contents del: add_Suc_right)
  qed
  from this [of 0] show ?thesis using assms(1) by simp
qed

lemma search_misses:
  assumes "x \<notin> set (contents a m)"
  shows "search_from (\<lambda>i. look i a m) x (length (contents a m)) 0 = Inr (length (contents a m))"
proof -
  have "search_from (\<lambda>i. look i a m) x (length (contents a m) - k) k = Inr (length (contents a m))"
    if "k \<le> length (contents a m)" for k
    using that
  proof (induction "length (contents a m) - k" arbitrary: k)
    case 0
    then show ?case by simp
  next
    case (Suc d)
    then have k: "k < length (contents a m)" by simp
    then have "contents a m ! k \<noteq> x" using assms by (auto simp: in_set_conv_nth)
    moreover have "length (contents a m) - k = Suc (length (contents a m) - Suc k)" using k by simp
    moreover have "search_from (\<lambda>i. look i a m) x (length (contents a m) - Suc k) (Suc k)
        = Inr (length (contents a m))"
      by (rule Suc.hyps) (use Suc k in auto)
    ultimately show ?case using k by (simp add: look_contents)
  qed
  from this [of 0] show ?thesis by simp
qed

lemma search_and_remove:
  assumes "usable a" and "x \<in> set (contents a m)"
  shows "\<exists>i. search_from (\<lambda>i. look i a m) x (length (contents a m)) 0 = Inr i
     \<and> i < length (contents a m)
     \<and> (\<forall>a' m'. del i a m = (a', m') \<longrightarrow> contents a' m' = remove1 x (contents a m))"
proof -
  obtain us vs where split: "contents a m = us @ x # vs" "x \<notin> set us"
    using assms(2) by (meson split_list_first)
  then have len: "length us < length (contents a m)" by simp
  have "contents a' m' = remove1 x (contents a m)" if "del (length us) a m = (a', m')" for a' m'
    using del_contents [OF assms(1) len that] split by (simp add: remove1_append)
  with search_finds [OF split] len show ?thesis by blast
qed

lemma ins_members:
  assumes "usable a" and "ins x a m = Inr (a', m')"
  shows "set (contents a' m') = insert x (set (contents a m))"
    and "length (contents a' m') = Suc (length (contents a m))"
  using ins_contents [OF assms(1), of x m] assms(2) by auto

end

text \<open>The array provides it, as long as it has a predicate and room for one more cell.\<close>

definition oa_usable :: "ordered_array \<Rightarrow> bool" where
  "oa_usable oa \<longleftrightarrow> less_than oa \<noteq> None \<and> oa_room oa"

interpretation oa: pointer_index oa_list oa_usable insert_ordered_array
  "\<lambda>i. remove_ordered_array (word_of_nat i)" "\<lambda>i. lookup_ordered_array (word_of_nat i)"
proof
  fix a x m
  assume "oa_usable a"
  then obtain lt where lt: "less_than a = Some lt" "oa_room a" by (auto simp: oa_usable_def)
  from insert_ordered_array_correct [OF this, of x m]
  obtain a' m' where "insert_ordered_array x a m = Inr (a', m')"
      "oa_list a' m' = insert_sorted (lt m) x (oa_list a m)" by blast
  then show "\<exists>a' m' us vs. insert_ordered_array x a m = Inr (a', m')
      \<and> oa_list a m = us @ vs \<and> oa_list a' m' = us @ x # vs"
    by (metis insert_sorted_def takeWhile_dropWhile_id)
next
  fix i a m
  assume "i < length (oa_list a m)"
  then show "lookup_ordered_array (word_of_nat i) a m = Inr (oa_list a m ! i)"
    by (intro lookup_ordered_array_in) (simp add: oa_list_def)
next
  fix i a m a' m'
  assume "oa_usable a" "i < length (oa_list a m)" "remove_ordered_array (word_of_nat i) a m = (a', m')"
  then show "oa_list a' m' = take i (oa_list a m) @ drop (Suc i) (oa_list a m)"
    by (intro remove_ordered_array_correct(1)) (simp_all add: oa_usable_def oa_list_def)
qed

end
