(* ===== verification/Kernel_State.thy ===== *)
theory Kernel_State
  imports Screen Ordered_Array
begin

text \<open>
  The globals of the memory manager (\<open>kheap.c\<close>, \<open>paging.c\<close>) as one state, on top of the
  machine and the console. Page tables, page directories, the frame bitmap, block headers and
  tasks all lie in \<open>ram\<close>, the kernel's address space, at the addresses and with the layout
  the compiler gives the C structures; pages of it are assumed to be mapped. \<open>frame_mem\<close> is
  physical memory as \<open>copy_page_physical\<close> sees it.
\<close>

record heap_t =
  index :: ordered_array
  start_address :: u32
  end_address :: u32
  max_address :: u32
  supervisor :: u8
  readonly :: u8

text \<open>
  \<open>registers_t\<close> of \<open>isr.h\<close>, what the assembly stubs push before they call C, and the
  functions the kernel installs as interrupt handlers; the table \<open>interrupt_handlers\<close> holds
  pointers to them.
\<close>

record registers_t =
  r_ds :: u32
  r_edi :: u32
  r_esi :: u32
  r_ebp :: u32
  r_esp :: u32
  r_ebx :: u32
  r_edx :: u32
  r_ecx :: u32
  r_eax :: u32
  r_int_no :: u32
  r_err_code :: u32
  r_eip :: u32
  r_cs :: u32
  r_eflags :: u32
  r_useresp :: u32
  r_ss :: u32

datatype isr_t = Page_fault | Timer_callback | Keyboard_callback | Syscall_handler | Do_nothing

record kernel = screen +
  placement_address :: u32
  kheap :: "heap_t option"
  frames :: u32
  nframes :: u32
  kernel_directory :: u32
  current_directory :: u32
  cr0 :: u32
  cr3 :: u32
  frame_mem :: mem
  interrupt_handlers :: "u8 \<Rightarrow> isr_t option"

text \<open>The state in which the boot loader leaves the globals: everything zero.\<close>

definition zero_kernel :: kernel where
  "zero_kernel = \<lparr>ram = (\<lambda>_. 0), port_log = [], int_flag = False, video_memory = (\<lambda>_. 0),
     cursor_x = 0, cursor_y = 0, placement_address = 0, kheap = None, frames = 0, nframes = 0,
     kernel_directory = 0, current_directory = 0, cr0 = 0, cr3 = 0, frame_mem = (\<lambda>_. 0),
     interrupt_handlers = (\<lambda>_. None)\<rparr>"

lemma zero_kernel_fields [simp]:
  "ram zero_kernel = (\<lambda>_. 0)" "kheap zero_kernel = None" "placement_address zero_kernel = 0"
  "frames zero_kernel = 0" "nframes zero_kernel = 0" "kernel_directory zero_kernel = 0"
  "cursor_x zero_kernel = 0" "cursor_y zero_kernel = 0" "port_log zero_kernel = []"
  "interrupt_handlers zero_kernel = (\<lambda>_. None)" "current_directory zero_kernel = 0"
  by (simp_all add: zero_kernel_def)

definition upd_ram :: "(mem \<Rightarrow> mem) \<Rightarrow> 'a machine_scheme \<Rightarrow> 'a machine_scheme" where
  "upd_ram f s = s\<lparr>ram := f (ram s)\<rparr>"

lemma upd_ram_ram [simp]: "ram (upd_ram f s) = f (ram s)"
  by (simp add: upd_ram_def)

section \<open>Struct layouts\<close>

text \<open>
  \<open>header_t\<close> is 12 bytes (magic, the byte \<open>is_hole\<close> with three bytes of padding, size),
  \<open>footer_t\<close> 8 bytes (magic, pointer to the header).
\<close>

definition HEAP_MAGIC :: u32 where "HEAP_MAGIC = 0x123890AB"
definition HEAP_INDEX_SIZE :: u32 where "HEAP_INDEX_SIZE = 0x20000"
definition HEAP_MIN_SIZE :: u32 where "HEAP_MIN_SIZE = 0x70000"
definition KHEAP_START :: u32 where "KHEAP_START = 0xC0000000"
definition KHEAP_INITIAL_SIZE :: u32 where "KHEAP_INITIAL_SIZE = 0x100000"

lemmas heap_consts =
  HEAP_MAGIC_def HEAP_INDEX_SIZE_def HEAP_MIN_SIZE_def KHEAP_START_def KHEAP_INITIAL_SIZE_def

definition hdr_magic :: "mem \<Rightarrow> u32 \<Rightarrow> u32" where "hdr_magic m h = read32 m h"
definition hdr_is_hole :: "mem \<Rightarrow> u32 \<Rightarrow> u8" where "hdr_is_hole m h = m (h + 4)"
definition hdr_size :: "mem \<Rightarrow> u32 \<Rightarrow> u32" where "hdr_size m h = read32 m (h + 8)"
definition ftr_magic :: "mem \<Rightarrow> u32 \<Rightarrow> u32" where "ftr_magic m f = read32 m f"
definition ftr_header :: "mem \<Rightarrow> u32 \<Rightarrow> u32" where "ftr_header m f = read32 m (f + 4)"

definition set_hdr_magic :: "u32 \<Rightarrow> u32 \<Rightarrow> mem \<Rightarrow> mem" where
  "set_hdr_magic h v m = write32 m h v"
definition set_hdr_is_hole :: "u32 \<Rightarrow> u8 \<Rightarrow> mem \<Rightarrow> mem" where
  "set_hdr_is_hole h v m = m(h + 4 := v)"
definition set_hdr_size :: "u32 \<Rightarrow> u32 \<Rightarrow> mem \<Rightarrow> mem" where
  "set_hdr_size h v m = write32 m (h + 8) v"
definition set_ftr_magic :: "u32 \<Rightarrow> u32 \<Rightarrow> mem \<Rightarrow> mem" where
  "set_ftr_magic f v m = write32 m f v"
definition set_ftr_header :: "u32 \<Rightarrow> u32 \<Rightarrow> mem \<Rightarrow> mem" where
  "set_ftr_header f v m = write32 m (f + 4) v"

lemmas block_defs =
  hdr_magic_def hdr_is_hole_def hdr_size_def ftr_magic_def ftr_header_def
  set_hdr_magic_def set_hdr_is_hole_def set_hdr_size_def set_ftr_magic_def set_ftr_header_def

text \<open>\<open>page_t\<close> is one 32-bit word of bit fields, lowest bits first.\<close>

definition pg_present :: "u32 \<Rightarrow> bool" where "pg_present e = bit e 0"
definition pg_rw :: "u32 \<Rightarrow> bool" where "pg_rw e = bit e 1"
definition pg_user :: "u32 \<Rightarrow> bool" where "pg_user e = bit e 2"
definition pg_accessed :: "u32 \<Rightarrow> bool" where "pg_accessed e = bit e 3"
definition pg_dirty :: "u32 \<Rightarrow> bool" where "pg_dirty e = bit e 4"
definition pg_frame :: "u32 \<Rightarrow> u32" where "pg_frame e = drop_bit 12 e"

definition set_pg_flag :: "nat \<Rightarrow> bool \<Rightarrow> u32 \<Rightarrow> u32" where
  "set_pg_flag k b e = (if b then set_bit k e else unset_bit k e)"
definition set_pg_frame :: "u32 \<Rightarrow> u32 \<Rightarrow> u32" where
  "set_pg_frame f e = take_bit 12 e OR push_bit 12 f"

lemmas page_defs =
  pg_present_def pg_rw_def pg_user_def pg_accessed_def pg_dirty_def pg_frame_def
  set_pg_flag_def set_pg_frame_def

lemma bit_set_pg_flag: "k < 32 \<Longrightarrow> bit (set_pg_flag k b e) n = (if n = k then b else bit e n)"
  by (auto simp: set_pg_flag_def bit_simps)

lemma bit_set_pg_frame:
  "bit (set_pg_frame f e) n = (if n < 12 then bit e n else n < 32 \<and> bit f (n - 12))"
  by (auto simp: set_pg_frame_def bit_simps)

lemma pg_frame_flag [simp]: "12 > k \<Longrightarrow> pg_frame (set_pg_flag k b e) = pg_frame e"
  by (rule bit_word_eqI) (simp add: pg_frame_def bit_simps bit_set_pg_flag)

lemma pg_frame_set: "f < 2 ^ 20 \<Longrightarrow> pg_frame (set_pg_frame f e) = f"
proof (rule bit_word_eqI)
  fix n assume f: "f < 2 ^ 20"
  then have "take_bit 20 f = f" 
    by (simp add: word_unat_eq_iff unsigned_take_bit_eq take_bit_nat_eq_self word_less_nat_alt)
  then have "bit f n \<Longrightarrow> n < 20" by (metis bit_take_bit_iff)
  then show "bit (pg_frame (set_pg_frame f e)) n = bit f n"
    by (auto simp: pg_frame_def bit_simps bit_set_pg_frame)
qed

end
