(* ===== verification/Kio.thy ===== *)
theory Kio
  imports Kernel_Prelude
begin

text \<open>
  \<open>io.c\<close>: copying and comparing in memory, over the flat memory of the prelude. The loops
  that look for a terminating NUL byte have no bound in the source, so they are option-valued
  partial functions: \<open>None\<close> is a loop that never ends. Counters of C type \<open>int\<close> are kept
  at 32 bits. \<open>memset\<close> is in the prelude, since the ordered array uses it too.
\<close>

section \<open>The routines\<close>

function memcpy :: "mem \<Rightarrow> u32 \<Rightarrow> u32 \<Rightarrow> u32 \<Rightarrow> mem" where
  "memcpy m dp sp len =
     (if len \<noteq> 0 then memcpy (m(dp := m sp)) (dp + 1) (sp + 1) (len - 1) else m)"
  by pat_completeness auto
termination
  by (relation "measure (\<lambda>(m, dp, sp, len). unat len)") (auto simp: unat_sub_if' unat_gt_0 Suc_le_eq)

declare memcpy.simps [simp del]

partial_function (option) strcmp_loop :: "mem \<Rightarrow> u32 \<Rightarrow> u32 \<Rightarrow> u32 \<Rightarrow> (bool \<times> u32) option" where
  "strcmp_loop m str1 str2 i =
     (if m (str1 + i) \<noteq> 0 \<and> m (str2 + i) \<noteq> 0
      then (if m (str1 + i) \<noteq> m (str2 + i) then Some (True, i)
            else strcmp_loop m str1 str2 (i + 1))
      else Some (False, i))"

definition strcmp :: "mem \<Rightarrow> u32 \<Rightarrow> u32 \<Rightarrow> u32 option" where
  "strcmp m str1 str2 =
     (case strcmp_loop m str1 str2 0 of
        None \<Rightarrow> None
      | Some (failed, i) \<Rightarrow>
          Some (if (m (str1 + i) = 0 \<and> m (str2 + i) \<noteq> 0) \<or> (m (str1 + i) \<noteq> 0 \<and> m (str2 + i) = 0)
                   \<or> failed
                then 1 else 0))"

partial_function (option) strcpy :: "mem \<Rightarrow> u32 \<Rightarrow> u32 \<Rightarrow> (mem \<times> u32) option" where
  "strcpy m dest src =
     (let m' = m(dest := m src)
      in if m' (src + 1) \<noteq> 0 then strcpy m' (dest + 1) (src + 1) else Some (m', dest + 1))"

partial_function (option) strcat_seek :: "mem \<Rightarrow> u32 \<Rightarrow> (mem \<times> u32) option" where
  "strcat_seek m dest =
     (if m dest \<noteq> 0
      then (let nxt = m dest; m' = (if nxt \<noteq> 0 then m(dest + 1 := nxt) else m)
            in strcat_seek m' (dest + 1))
      else Some (m, dest))"

definition strcat :: "mem \<Rightarrow> u32 \<Rightarrow> u32 \<Rightarrow> (mem \<times> u32) option" where
  "strcat m dest src =
     (case strcat_seek m dest of None \<Rightarrow> None | Some (m', dest') \<Rightarrow> strcpy m' dest' src)"

partial_function (option) strlen_loop :: "mem \<Rightarrow> u32 \<Rightarrow> u32 \<Rightarrow> u32 option" where
  "strlen_loop m src i = (if m src \<noteq> 0 then strlen_loop m (src + 1) (i + 1) else Some i)"

definition strlen :: "mem \<Rightarrow> u32 \<Rightarrow> u32 option" where
  "strlen m src = strlen_loop m src 0"

section \<open>Strings and bytes in memory\<close>

text \<open>\<open>bytes_at m p bs\<close>: the bytes \<open>bs\<close> lie at \<open>p\<close>; \<open>cstr_at\<close>: so does a NUL-terminated string.\<close>

fun bytes_at :: "mem \<Rightarrow> u32 \<Rightarrow> u8 list \<Rightarrow> bool" where
  "bytes_at m p [] \<longleftrightarrow> True"
| "bytes_at m p (c # cs) \<longleftrightarrow> m p = c \<and> bytes_at m (p + 1) cs"

fun cstr_at :: "mem \<Rightarrow> u32 \<Rightarrow> u8 list \<Rightarrow> bool" where
  "cstr_at m p [] \<longleftrightarrow> m p = 0"
| "cstr_at m p (c # cs) \<longleftrightarrow> m p = c \<and> c \<noteq> 0 \<and> cstr_at m (p + 1) cs"

lemma cstr_at_bytes: "cstr_at m p s \<Longrightarrow> bytes_at m p s"
  by (induction s arbitrary: p) auto

lemma unat_Suc_word:
  fixes p :: u32
  assumes "unat p + Suc n \<le> 2 ^ 32" and "0 < n"
  shows "unat (p + 1) = unat p + 1"
  using assms by (intro unat_add_one) simp

lemma bytes_at_upd_below:
  assumes "unat q < unat p" and "unat p + length bs \<le> 2 ^ 32"
  shows "bytes_at (m(q := v)) p bs = bytes_at m p bs"
  using assms
proof (induction bs arbitrary: p)
  case (Cons c cs)
  then have "q \<noteq> p" by auto
  moreover have "bytes_at (m(q := v)) (p + 1) cs = bytes_at m (p + 1) cs"
  proof (cases cs)
    case (Cons c' cs')
    then have "unat (p + 1) = unat p + 1"
      using Cons.prems by (intro unat_Suc_word [of _ "length cs"]) auto
    with Cons.prems show ?thesis by (intro Cons.IH) auto
  qed simp
  ultimately show ?case by (simp del: fun_upd_apply add: fun_upd_other)
qed simp

lemma bytes_at_upd_above:
  assumes "unat p + length bs \<le> unat q"
  shows "bytes_at (m(q := v)) p bs = bytes_at m p bs"
  using assms
proof (induction bs arbitrary: p)
  case (Cons c cs)
  have "unat q < 2 ^ 32" using unsigned_less [of q] by simp
  with Cons.prems have "unat (p + 1) = unat p + 1"
    by (intro unat_add_one) simp
  with Cons.prems have "bytes_at (m(q := v)) (p + 1) cs = bytes_at m (p + 1) cs"
    by (intro Cons.IH) simp
  moreover have "q \<noteq> p" using Cons.prems by auto
  ultimately show ?case by (simp del: fun_upd_apply add: fun_upd_other)
qed simp

lemma cstr_at_upd_above:
  assumes "unat p + length s < unat q"
  shows "cstr_at (m(q := v)) p s = cstr_at m p s"
  using assms
proof (induction s arbitrary: p)
  case (Cons c cs)
  have "unat q < 2 ^ 32" using unsigned_less [of q] by simp
  with Cons.prems have "unat (p + 1) = unat p + 1"
    by (intro unat_add_one) simp
  with Cons.prems have "cstr_at (m(q := v)) (p + 1) cs = cstr_at m (p + 1) cs"
    by (intro Cons.IH) simp
  moreover have "q \<noteq> p" using Cons.prems by auto
  ultimately show ?case by (simp del: fun_upd_apply add: fun_upd_other)
qed auto

lemma cstr_at_upd_below:
  assumes "unat q < unat p" and "unat p + length s < 2 ^ 32"
  shows "cstr_at (m(q := v)) p s = cstr_at m p s"
  using assms
proof (induction s arbitrary: p)
  case (Cons c cs)
  then have "unat (p + 1) = unat p + 1"
    by (intro unat_add_one) simp
  with Cons have "cstr_at (m(q := v)) (p + 1) cs = cstr_at m (p + 1) cs"
    by (intro Cons.IH) simp_all
  moreover have "q \<noteq> p" using Cons.prems by auto
  ultimately show ?case by (simp del: fun_upd_apply add: fun_upd_other)
qed auto

section \<open>memcpy\<close>

lemma memcpy_closed_form:
  assumes "unat sp + unat len \<le> 2 ^ 32" and "unat dp + unat len \<le> 2 ^ 32"
    and "unat dp \<le> unat sp \<or> unat sp + unat len \<le> unat dp"
  shows "memcpy m dp sp len = (\<lambda>a. if a - dp < len then m (sp + (a - dp)) else m a)"
  using assms
proof (induction m dp sp len rule: memcpy.induct)
  case (1 m dp sp len)
  show ?case
  proof (cases "len = 0")
    case True
    then show ?thesis by (simp add: memcpy.simps)
  next
    case False
    then have len: "unat (len - 1) = unat len - 1" "0 < unat len"
      by (simp_all add: unat_sub_if' unat_gt_0 Suc_le_eq)
    show ?thesis
    proof (cases "len = 1")
      case True
      then show ?thesis by (auto simp: memcpy.simps fun_eq_iff)
    next
      case False
      then have "unat len \<noteq> 1" by (simp add: word_unat_eq_iff)
      with len(2) have "1 < unat len" by simp
      with "1.prems" have dp1: "unat (dp + 1) = unat dp + 1" and sp1: "unat (sp + 1) = unat sp + 1"
        using unat_add_one [of dp] unat_add_one [of sp] by simp_all
      with len "1.prems" \<open>1 < unat len\<close>
      have IH: "memcpy (m(dp := m sp)) (dp + 1) (sp + 1) (len - 1)
          = (\<lambda>a. if a - (dp + 1) < len - 1 then (m(dp := m sp)) ((sp + 1) + (a - (dp + 1)))
                 else (m(dp := m sp)) a)"
        by (intro "1.IH" [OF \<open>len \<noteq> 0\<close>]) auto
      have src: "sp + (a - dp) \<noteq> dp \<or> sp = dp" if "a - dp < len" for a
      proof -
        have "unat (sp + (a - dp)) = unat sp + unat (a - dp)"
          using that "1.prems"(1) by (simp add: unat_word_ariths word_less_nat_alt)
        moreover have "unat (a - dp) < unat len" using that by (simp add: word_less_nat_alt)
        ultimately have "unat (sp + (a - dp)) \<noteq> unat dp \<or> unat sp = unat dp"
          using "1.prems"(3) by arith
        then show ?thesis by (auto simp: word_unat_eq_iff)
      qed
      have step: "a - dp < len \<longleftrightarrow> a - (dp + 1) < len - 1" if "a \<noteq> dp" for a
        using pred_less_pred_iff [of "a - dp" len] that \<open>len \<noteq> 0\<close> by (simp add: algebra_simps)
      have "memcpy m dp sp len a = (if a - dp < len then m (sp + (a - dp)) else m a)" for a
      proof (cases "a = dp")
        case True
        moreover have "\<not> (dp - (dp + 1) < len - 1)" by (simp add: not_less)
        ultimately show ?thesis
          using \<open>len \<noteq> 0\<close> IH by (subst memcpy.simps) (simp add: word_gt_0)
      next
        case False
        with step [OF False] src [of a] \<open>len \<noteq> 0\<close> IH show ?thesis
          by (subst memcpy.simps) (auto simp: algebra_simps)
      qed
      then show ?thesis by blast
    qed
  qed
qed

section \<open>The string routines\<close>

lemma strlen_loop_cstr: "cstr_at m p s \<Longrightarrow> strlen_loop m p i = Some (i + word_of_nat (length s))"
  by (induction s arbitrary: p i) (auto simp: strlen_loop.simps [of m] algebra_simps)

lemma strcmp_loop_cstr:
  assumes "cstr_at m (p + i) s" and "cstr_at m (q + i) t"
  shows "\<exists>f j. strcmp_loop m p q i = Some (f, j) \<and>
     (f \<or> (m (p + j) = 0) \<noteq> (m (q + j) = 0) \<longleftrightarrow> s \<noteq> t)"
  using assms
proof (induction s arbitrary: t i)
  case Nil
  then show ?case by (cases t) (auto simp: strcmp_loop.simps [of m p q i])
next
  case (Cons c s)
  show ?case
  proof (cases t)
    case Nil
    with Cons.prems show ?thesis by (auto simp: strcmp_loop.simps [of m p q i])
  next
    case (Cons d t')
    with Cons.prems have "cstr_at m (p + (i + 1)) s" "cstr_at m (q + (i + 1)) t'"
      by (simp_all add: add.assoc)
    from Cons.IH [OF this] Cons Cons.prems show ?thesis
      by (auto simp: strcmp_loop.simps [of m p q i])
  qed
qed

text \<open>
  \<open>strcpy\<close> copies a non-empty string byte by byte and stops before its terminator: the byte
  after the copy keeps its old value.
\<close>

lemma strcpy_cstr:
  assumes "cstr_at m src (c # s)"
    and "unat src + length (c # s) < 2 ^ 32" and "unat dest + length (c # s) \<le> 2 ^ 32"
    and "unat dest + length (c # s) \<le> unat src \<or> unat src + length (c # s) < unat dest"
  shows "\<exists>m'. strcpy m dest src = Some (m', dest + word_of_nat (length (c # s)))
     \<and> bytes_at m' dest (c # s) \<and> same_outside dest (length (c # s)) m m'"
  using assms
proof (induction s arbitrary: m dest src c)
  case Nil
  let ?m = "m(dest := m src)"
  have "unat (src + 1) = unat src + 1" using Nil.prems by (intro unat_add_one) simp
  then have "src + 1 \<noteq> dest" using Nil.prems by auto
  then have "strcpy m dest src = Some (?m, dest + 1)"
    using Nil.prems by (simp add: strcpy.simps [of m])
  with Nil.prems same_outside_upd [of dest m] show ?case by simp
next
  case (Cons d s)
  let ?m = "m(dest := m src)"
  have src1: "unat (src + 1) = unat src + 1" and dest1: "unat (dest + 1) = unat dest + 1"
    using Cons.prems by (simp_all add: unat_add_one)
  have eq: "cstr_at ?m (src + 1) (d # s) = cstr_at m (src + 1) (d # s)"
  proof (cases "unat dest < unat src")
    case True
    with Cons.prems src1 show ?thesis by (intro cstr_at_upd_below) simp_all
  next
    case False
    with Cons.prems src1 show ?thesis by (intro cstr_at_upd_above) simp_all
  qed
  have at: "cstr_at ?m (src + 1) (d # s)"
    unfolding eq using Cons.prems(1) by simp
  then have "?m (src + 1) \<noteq> 0" by auto
  then have call: "strcpy m dest src = strcpy ?m (dest + 1) (src + 1)"
    by (simp add: strcpy.simps [of m])
  have "\<exists>m'. strcpy ?m (dest + 1) (src + 1) = Some (m', (dest + 1) + word_of_nat (length (d # s)))
     \<and> bytes_at m' (dest + 1) (d # s) \<and> same_outside (dest + 1) (length (d # s)) ?m m'"
    by (rule Cons.IH [OF at]) (use Cons.prems src1 dest1 in auto)
  then obtain m' where m': "strcpy ?m (dest + 1) (src + 1)
        = Some (m', (dest + 1) + word_of_nat (length (d # s)))"
      "bytes_at m' (dest + 1) (d # s)" "same_outside (dest + 1) (length (d # s)) ?m m'"
    by blast
  have "m' dest = m src"
    using m'(3) dest1 by (simp add: same_outside_def in_region_def)
  moreover have "same_outside dest (length (c # d # s)) m m'"
    by (rule same_outside_trans [OF same_outside_mono [OF same_outside_upd]
          same_outside_mono [OF m'(3)]]) (auto simp: dest1)
  ultimately show ?case
    using call m' Cons.prems(1) by (simp add: algebra_simps)
qed

lemma strcat_seek_returns: "strcat_seek m dest = Some r \<Longrightarrow> m dest = 0"
proof (rule strcat_seek.raw_induct [where P = "\<lambda>m dest r. m dest = 0"])
  fix f m dest r
  assume IH: "\<And>m dest r. f m dest = Some r \<Longrightarrow> m dest = 0"
    and ret: "(if m dest \<noteq> 0
      then (let nxt = m dest; m' = (if nxt \<noteq> 0 then m(dest + 1 := nxt) else m)
            in f m' (dest + 1))
      else Some (m, dest)) = Some r"
  show "m dest = 0"
  proof (rule ccontr)
    assume nz: "m dest \<noteq> 0"
    with ret have "f (m(dest + 1 := m dest)) (dest + 1) = Some r" by (simp add: Let_def)
    then have "(m(dest + 1 := m dest)) (dest + 1) = 0" by (rule IH)
    with nz show False by simp
  qed
qed

end
