(* ===== verification/Panic.thy ===== *)
theory Panic
  imports Screen
begin

text \<open>
  \<open>panic.c\<close>: both routines switch interrupts off, print, and loop for ever. The model gives
  the fault and the state in which the machine stands still. \<open>kassert\<close> of the prelude is
  the \<open>ASSERT\<close> macro's test; what it prints is \<open>panic_assert\<close>.
\<close>

definition panic :: "u8 list \<Rightarrow> u8 list \<Rightarrow> u32 \<Rightarrow> 'a screen_scheme \<Rightarrow> fault \<times> 'a screen_scheme" where
  "panic message file line s =
     (let s1 = screen_write (lit ''PANIC('') (cli s);
          s2 = screen_write message s1;
          s3 = screen_write (lit '') at '') s2;
          s4 = screen_write file s3;
          s5 = screen_write (lit '':'') s4;
          s6 = screen_write_dec line s5
      in (Panicked, screen_write [0x0A] s6))"

definition panic_assert :: "u8 list \<Rightarrow> u32 \<Rightarrow> u8 list \<Rightarrow> 'a screen_scheme \<Rightarrow> fault \<times> 'a screen_scheme" where
  "panic_assert file line desc s =
     (let s1 = screen_write (lit ''ASSERTION-FAILED('') (cli s);
          s2 = screen_write desc s1;
          s3 = screen_write (lit '') at '') s2;
          s4 = screen_write file s3;
          s5 = screen_write (lit '':'') s4;
          s6 = screen_write_dec line s5
      in (Assertion_failed, screen_write [0x0A] s6))"

lemma screen_write_dec_int_flag [simp]: "int_flag (screen_write_dec n s) = int_flag s"
  by (simp add: screen_write_dec_def)

lemma screen_write_dec_ram [simp]: "ram (screen_write_dec n s) = ram s"
  by (simp add: screen_write_dec_def)

lemma screen_write_dec_ok: "screen_ok s \<Longrightarrow> screen_ok (screen_write_dec n s)"
  by (simp add: screen_write_dec_def screen_put_ok screen_write_ok)

lemma cli_fields [simp]: "ram (cli s) = ram s" "int_flag (cli s) = False" "port_log (cli s) = port_log s"
  by (simp_all add: cli_def)

lemma screen_ok_cli [simp]: "screen_ok (cli s) = screen_ok s"
  by (simp add: cli_def screen_ok_def)

lemma panic_stops:
  assumes "panic message file line s = (f, s')"
  shows "f = Panicked" and "int_flag s' = False" and "ram s' = ram s"
    and "screen_ok s \<Longrightarrow> screen_ok s'"
  using assms by (auto simp: panic_def Let_def intro!: screen_write_ok screen_put_ok screen_write_dec_ok)

end
