(* ===== verification/Paging.thy ===== *)
theory Paging
  imports Kernel_State Kio Panic
begin

text \<open>
  \<open>paging.c\<close>: the bitmap of physical frames, page entries, the two-level page tables and the
  cloning of address spaces. \<open>get_page\<close> and the cloning allocate memory, and the allocator
  in turn maps pages, so the operations that allocate take the allocator
  (\<open>kmalloc_ap\<close>: size to address, physical address and state) as an argument; theory
  \<open>Kheap\<close> ties the knot.
\<close>

section \<open>The frame bitmap\<close>

definition INDEX_FROM_BIT :: "u32 \<Rightarrow> u32" where "INDEX_FROM_BIT a = a div (8 * 4)"
definition OFFSET_FROM_BIT :: "u32 \<Rightarrow> u32" where "OFFSET_FROM_BIT a = a mod (8 * 4)"

definition frame_word :: "'a kernel_scheme \<Rightarrow> u32 \<Rightarrow> u32" where
  "frame_word s idx = read32 (ram s) (frames s + 4 * idx)"

definition set_frame_word :: "u32 \<Rightarrow> u32 \<Rightarrow> 'a kernel_scheme \<Rightarrow> 'a kernel_scheme" where
  "set_frame_word idx v s = upd_ram (\<lambda>m. write32 m (frames s + 4 * idx) v) s"

definition set_frame :: "u32 \<Rightarrow> 'a kernel_scheme \<Rightarrow> 'a kernel_scheme" where
  "set_frame frame_addr s =
     (let frame = frame_addr div 0x1000; idx = INDEX_FROM_BIT frame; off = OFFSET_FROM_BIT frame
      in set_frame_word idx (frame_word s idx OR push_bit (unat off) 1) s)"

definition clear_frame :: "u32 \<Rightarrow> 'a kernel_scheme \<Rightarrow> 'a kernel_scheme" where
  "clear_frame frame_addr s =
     (let frame = frame_addr div 0x1000; idx = INDEX_FROM_BIT frame; off = OFFSET_FROM_BIT frame
      in set_frame_word idx (frame_word s idx AND NOT (push_bit (unat off) 1)) s)"

definition test_frame :: "u32 \<Rightarrow> 'a kernel_scheme \<Rightarrow> u32" where
  "test_frame frame_addr s =
     (let frame = frame_addr div 0x1000; idx = INDEX_FROM_BIT frame; off = OFFSET_FROM_BIT frame
      in frame_word s idx AND push_bit (unat off) 1)"

fun first_frame_bit :: "u32 \<Rightarrow> nat list \<Rightarrow> nat option" where
  "first_frame_bit w [] = None"
| "first_frame_bit w (j # js) = (if w AND push_bit j 1 = 0 then Some j else first_frame_bit w js)"

fun first_frame_loop :: "'a kernel_scheme \<Rightarrow> nat list \<Rightarrow> u32" where
  "first_frame_loop s [] = 0"
| "first_frame_loop s (i # is) =
     (if frame_word s (word_of_nat i) \<noteq> 0xFFFFFFFF
      then (case first_frame_bit (frame_word s (word_of_nat i)) [0..<32] of
              Some j \<Rightarrow> word_of_nat (i * 4 * 8 + j)
            | None \<Rightarrow> first_frame_loop s is)
      else first_frame_loop s is)"

definition first_frame :: "'a kernel_scheme \<Rightarrow> u32" where
  "first_frame s = first_frame_loop s [0..<unat (INDEX_FROM_BIT (nframes s))]"

definition set_page :: "u32 \<Rightarrow> (u32 \<Rightarrow> u32) \<Rightarrow> 'a kernel_scheme \<Rightarrow> 'a kernel_scheme" where
  "set_page page f s = upd_ram (\<lambda>m. write32 m page (f (read32 m page))) s"

text \<open>
  \<open>alloc_frame\<close> compares its two \<open>int\<close> arguments with 1. The test of the frame number
  against \<open>(u32)-1\<close> guards an empty statement in the source, so it has no effect.
\<close>

definition alloc_frame :: "u32 \<Rightarrow> u32 \<Rightarrow> u32 \<Rightarrow> 'a kernel_scheme \<Rightarrow> 'a kernel_scheme" where
  "alloc_frame page is_kernel is_writeable s =
     (if pg_frame (read32 (ram s) page) \<noteq> 0 then s
      else (let idx = first_frame s;
                s1 = set_frame (idx * 0x1000) s;
                s2 = set_page page (set_pg_flag 0 True) s1;
                s3 = set_page page (set_pg_flag 1 (is_writeable = 1)) s2;
                s4 = set_page page (set_pg_flag 2 (is_kernel \<noteq> 1)) s3
            in set_page page (set_pg_frame idx) s4))"

text \<open>\<open>free_frame\<close> passes the frame number where \<open>clear_frame\<close> expects an address.\<close>

definition free_frame :: "u32 \<Rightarrow> 'a kernel_scheme \<Rightarrow> 'a kernel_scheme" where
  "free_frame page s =
     (let frame = pg_frame (read32 (ram s) page)
      in if frame = 0 then s else set_page page (set_pg_frame 0) (clear_frame frame s))"

section \<open>Page tables and directories\<close>

text \<open>
  A directory at \<open>dir\<close> has its table pointers from \<open>dir\<close>, their physical addresses from
  \<open>dir + 4096\<close> and its own physical address at \<open>dir + 8192\<close>; \<open>sizeof\<close> is 8196.
\<close>

definition sizeof_page_directory :: u32 where "sizeof_page_directory = 8196"
definition sizeof_page_table :: u32 where "sizeof_page_table = 4096"

definition dir_table :: "mem \<Rightarrow> u32 \<Rightarrow> u32 \<Rightarrow> u32" where
  "dir_table m dir i = read32 m (dir + 4 * i)"
definition dir_physical :: "mem \<Rightarrow> u32 \<Rightarrow> u32 \<Rightarrow> u32" where
  "dir_physical m dir i = read32 m (dir + 4096 + 4 * i)"
definition set_dir_table :: "u32 \<Rightarrow> u32 \<Rightarrow> u32 \<Rightarrow> mem \<Rightarrow> mem" where
  "set_dir_table dir i v m = write32 m (dir + 4 * i) v"
definition set_dir_physical :: "u32 \<Rightarrow> u32 \<Rightarrow> u32 \<Rightarrow> mem \<Rightarrow> mem" where
  "set_dir_physical dir i v m = write32 m (dir + 4096 + 4 * i) v"
definition set_dir_addr :: "u32 \<Rightarrow> u32 \<Rightarrow> mem \<Rightarrow> mem" where
  "set_dir_addr dir v m = write32 m (dir + 8192) v"

type_synonym 'a page_alloc = "u32 \<Rightarrow> 'a kernel_scheme \<Rightarrow> (u32 \<times> u32 \<times> 'a kernel_scheme) result"

definition get_page ::
    "'a page_alloc \<Rightarrow> u32 \<Rightarrow> bool \<Rightarrow> u32 \<Rightarrow> 'a kernel_scheme \<Rightarrow> (u32 \<times> 'a kernel_scheme) result" where
  "get_page kmalloc_ap address mk dir s =
     (let address = address div 0x1000;
          table_idx = address div 1024;
          tbl = dir_table (ram s) dir table_idx
      in if tbl \<noteq> 0 then Inr (tbl + 4 * (address mod 1024), s)
         else if mk
         then rbind (kmalloc_ap sizeof_page_table s) (\<lambda>(tbl, tmp, s1).
                let s2 = upd_ram (set_dir_table dir table_idx tbl) s1;
                    s3 = upd_ram (\<lambda>m. memset m (dir_table m dir table_idx) 0 0x1000) s2;
                    s4 = upd_ram (set_dir_physical dir table_idx (tmp OR 0x7)) s3
                in Inr (dir_table (ram s4) dir table_idx + 4 * (address mod 1024), s4))
         else Inr (0, s))"

definition switch_page_directory :: "u32 \<Rightarrow> 'a kernel_scheme \<Rightarrow> 'a kernel_scheme" where
  "switch_page_directory dir s =
     s\<lparr>current_directory := dir, cr3 := read32 (ram s) (dir + 8192),
       cr0 := cr0 s OR 0x80000000\<rparr>"

text \<open>\<open>copy_page_physical\<close> (\<open>process.s\<close>): 1024 words, in physical memory.\<close>

fun copy_words :: "nat \<Rightarrow> u32 \<Rightarrow> u32 \<Rightarrow> mem \<Rightarrow> mem" where
  "copy_words 0 src dst m = m"
| "copy_words (Suc k) src dst m = copy_words k (src + 4) (dst + 4) (write32 m dst (read32 m src))"

definition copy_page_physical :: "u32 \<Rightarrow> u32 \<Rightarrow> 'a kernel_scheme \<Rightarrow> 'a kernel_scheme" where
  "copy_page_physical src dst s = s\<lparr>frame_mem := copy_words 1024 src dst (frame_mem s)\<rparr>"

definition copy_flag :: "nat \<Rightarrow> u32 \<Rightarrow> u32 \<Rightarrow> 'a kernel_scheme \<Rightarrow> 'a kernel_scheme" where
  "copy_flag k from dest s =
     (if bit (read32 (ram s) from) k then set_page dest (set_pg_flag k True) s else s)"

definition clone_entry :: "u32 \<Rightarrow> u32 \<Rightarrow> u32 \<Rightarrow> 'a kernel_scheme \<Rightarrow> 'a kernel_scheme" where
  "clone_entry src tbl i s =
     (let sp = src + 4 * i; tp = tbl + 4 * i
      in if pg_frame (read32 (ram s) sp) = 0 then s
         else (let s1 = alloc_frame tp 0 0 s;
                   s2 = copy_flag 4 sp tp (copy_flag 3 sp tp (copy_flag 2 sp tp
                          (copy_flag 1 sp tp (copy_flag 0 sp tp s1))))
               in copy_page_physical (pg_frame (read32 (ram s2) sp) * 0x1000)
                    (pg_frame (read32 (ram s2) tp) * 0x1000) s2))"

definition clone_table ::
    "'a page_alloc \<Rightarrow> u32 \<Rightarrow> 'a kernel_scheme \<Rightarrow> (u32 \<times> u32 \<times> 'a kernel_scheme) result" where
  "clone_table kmalloc_ap src s =
     rbind (kmalloc_ap sizeof_page_table s) (\<lambda>(tbl, physAddr, s1).
       let s2 = upd_ram (\<lambda>m. memset m tbl 0 sizeof_page_directory) s1
       in Inr (tbl, physAddr, fold (\<lambda>i. clone_entry src tbl (word_of_nat i)) [0..<1024] s2))"

definition clone_slot ::
    "'a page_alloc \<Rightarrow> u32 \<Rightarrow> u32 \<Rightarrow> nat \<Rightarrow> 'a kernel_scheme \<Rightarrow> 'a kernel_scheme result" where
  "clone_slot kmalloc_ap src dir n s =
     (let i = word_of_nat n; tbl = dir_table (ram s) src i
      in if tbl = 0 then Inr s
         else if dir_table (ram s) (kernel_directory s) i = tbl
         then (let s1 = upd_ram (\<lambda>m. set_dir_table dir i (dir_table m src i) m) s
               in Inr (upd_ram (\<lambda>m. set_dir_physical dir i (dir_physical m src i) m) s1))
         else rbind (clone_table kmalloc_ap tbl s) (\<lambda>(t, phys, s1).
                let s2 = upd_ram (set_dir_table dir i t) s1
                in Inr (upd_ram (set_dir_physical dir i (phys OR 0x07)) s2)))"

definition clone_directory ::
    "'a page_alloc \<Rightarrow> u32 \<Rightarrow> 'a kernel_scheme \<Rightarrow> (u32 \<times> 'a kernel_scheme) result" where
  "clone_directory kmalloc_ap src s =
     rbind (kmalloc_ap sizeof_page_directory s) (\<lambda>(dir, phys, s1).
       let s2 = upd_ram (\<lambda>m. memset m dir 0 sizeof_page_directory) s1;
           offset = (dir + 4096) - dir;
           s3 = upd_ram (set_dir_addr dir (phys + offset)) s2
       in rbind (rfold (clone_slot kmalloc_ap src dir) [0..<1024] s3) (\<lambda>s4. Inr (dir, s4)))"

text \<open>\<open>page_fault\<close> reads the faulting address from CR2; it prints what it knows and panics.\<close>

definition page_fault :: "u32 \<Rightarrow> registers_t \<Rightarrow> 'a kernel_scheme \<Rightarrow> fault \<times> 'a kernel_scheme" where
  "page_fault cr2 regs s =
     (let faulting_address = cr2;
          present = (r_err_code regs AND 0x1 = 0);
          rw = r_err_code regs AND 0x2; us = r_err_code regs AND 0x4; reserved = r_err_code regs AND 0x8;
          s1 = screen_write (lit ''Page fault! ( '') s;
          s2 = (if present then screen_write (lit ''present '') s1 else s1);
          s3 = (if rw \<noteq> 0 then screen_write (lit ''read-only '') s2 else s2);
          s4 = (if us \<noteq> 0 then screen_write (lit ''user-mode '') s3 else s3);
          s5 = (if reserved \<noteq> 0 then screen_write (lit ''reserved '') s4 else s4);
          s6 = screen_write (lit '') at 0x'') s5;
          s7 = screen_write_hex faulting_address s6;
          s8 = screen_write (lit '' - EIP: '') s7;
          s9 = screen_write_hex (r_eip regs) s8
      in panic (lit ''Page fault'') (lit ''paging.c'') 220 (screen_write [0x0A] s9))"

end
