(* ===== verification/Frames.thy ===== *)
theory Frames
  imports Paging
begin

text \<open>
  The frame bitmap of \<open>paging.c\<close> as a set of used frame numbers: what marking, clearing and
  searching do to it, an interface for allocators that hand out the lowest free frame, and the
  identity mapping that \<open>initialise_paging\<close> relies on.
\<close>

section \<open>Bits of the bitmap\<close>

definition frame_used :: "'a kernel_scheme \<Rightarrow> nat \<Rightarrow> bool" where
  "frame_used s f \<longleftrightarrow> bit (frame_word s (word_of_nat (f div 32))) (f mod 32)"

text \<open>The bitmap for \<open>32 * n\<close> frames lies inside the address space.\<close>

definition bitmap_room :: "'a kernel_scheme \<Rightarrow> nat \<Rightarrow> bool" where
  "bitmap_room s n \<longleftrightarrow> unat (frames s) + 4 * n \<le> 2 ^ 32 \<and> n \<le> 2 ^ 15"

lemma bitmap_room_mono: "bitmap_room s n \<Longrightarrow> k \<le> n \<Longrightarrow> bitmap_room s k"
  by (simp add: bitmap_room_def)

lemma set_frame_word_fields [simp]:
  "frames (set_frame_word i v s) = frames s" "nframes (set_frame_word i v s) = nframes s"
  by (simp_all add: set_frame_word_def upd_ram_def)

lemma frame_word_set:
  assumes "bitmap_room s n" and "i < n" and "j < n"
  shows "frame_word (set_frame_word (word_of_nat i) v s) (word_of_nat j)
    = (if i = j then v else frame_word s (word_of_nat j))"
proof -
  have "cell (set_cell (frames s) (word_of_nat i) v (ram s)) (frames s) (word_of_nat j)
      = (if i = j then v else cell (ram s) (frames s) (word_of_nat j))"
    using assms by (intro cell_set_cell) (auto simp: bitmap_room_def)
  then show ?thesis
    by (simp add: frame_word_def set_frame_word_def cell_def set_cell_def upd_ram_def)
qed

lemma frame_number_of_address:
  assumes "f < 2 ^ 20"
  shows "(word_of_nat f * 0x1000 :: u32) div 0x1000 = word_of_nat f"
proof -
  have "unat (word_of_nat f * 0x1000 :: u32) = f * 4096"
    using assms by (simp add: unat_word_ariths unsigned_of_nat take_bit_nat_eq_self)
  then show ?thesis
    using assms by (simp add: word_unat_eq_iff unat_div_distrib unsigned_of_nat take_bit_nat_eq_self)
qed

lemma index_offset:
  assumes "f < 2 ^ 32"
  shows "INDEX_FROM_BIT (word_of_nat f) = word_of_nat (f div 32)"
    and "unat (OFFSET_FROM_BIT (word_of_nat f)) = f mod 32"
proof -
  have "f div 32 < 2 ^ 32" using assms by simp
  then show "INDEX_FROM_BIT (word_of_nat f) = word_of_nat (f div 32)"
    using assms
    by (simp add: INDEX_FROM_BIT_def word_unat_eq_iff unat_div_distrib unsigned_of_nat take_bit_nat_eq_self)
  show "unat (OFFSET_FROM_BIT (word_of_nat f)) = f mod 32"
    using assms
    by (simp add: OFFSET_FROM_BIT_def unat_mod_distrib unsigned_of_nat take_bit_nat_eq_self)
qed

lemma set_frame_used:
  assumes "bitmap_room s n" and "f < 32 * n" and "g < 32 * n"
  shows "frame_used (set_frame (word_of_nat f * 0x1000) s) g \<longleftrightarrow> g = f \<or> frame_used s g"
proof -
  have f: "f < 2 ^ 20" "f < 2 ^ 32" using assms(1,2) by (auto simp: bitmap_room_def)
  have div: "f div 32 < n" "g div 32 < n" using assms(2,3) by auto
  have "f = g \<longleftrightarrow> f div 32 = g div 32 \<and> f mod 32 = g mod 32"
    by (metis div_mult_mod_eq)
  then show ?thesis
    using frame_word_set [OF assms(1) div] f
    by (auto simp: frame_used_def set_frame_def frame_number_of_address index_offset Let_def bit_simps)
qed

lemma clear_frame_used:
  assumes "bitmap_room s n" and "f < 32 * n" and "g < 32 * n"
  shows "frame_used (clear_frame (word_of_nat f * 0x1000) s) g \<longleftrightarrow> g \<noteq> f \<and> frame_used s g"
proof -
  have f: "f < 2 ^ 20" "f < 2 ^ 32" using assms(1,2) by (auto simp: bitmap_room_def)
  have div: "f div 32 < n" "g div 32 < n" using assms(2,3) by auto
  have "f = g \<longleftrightarrow> f div 32 = g div 32 \<and> f mod 32 = g mod 32"
    by (metis div_mult_mod_eq)
  then show ?thesis
    using frame_word_set [OF assms(1) div] f
    by (auto simp: frame_used_def clear_frame_def frame_number_of_address index_offset Let_def bit_simps)
qed

lemma test_frame_used:
  assumes "f < 2 ^ 20"
  shows "test_frame (word_of_nat f * 0x1000) s \<noteq> 0 \<longleftrightarrow> frame_used s f"
proof -
  have w: "w AND push_bit k 1 \<noteq> 0 \<longleftrightarrow> bit w k" if "k < 32" for w :: u32 and k
    using and_exp_eq_0_iff_not_bit [of w k] by simp
  show ?thesis
    using assms w [of "f mod 32"]
    by (simp add: test_frame_def frame_used_def frame_number_of_address index_offset Let_def)
qed

section \<open>The search for a free frame\<close>

lemma first_frame_bit_Some:
  "first_frame_bit w js = Some j \<Longrightarrow> j \<in> set js \<and> w AND push_bit j 1 = 0"
  by (induction js) (auto split: if_splits)

lemma first_frame_bit_upt:
  assumes "k \<le> 32"
  shows "first_frame_bit w [k..<32] = (if \<exists>j \<in> {k..<32}. \<not> bit w j
      then Some (LEAST j. k \<le> j \<and> \<not> bit w j) else None)"
  using assms
proof (induction "32 - k" arbitrary: k)
  case 0
  then show ?case by simp
next
  case (Suc d)
  then have k: "k < 32" by simp
  have test: "w AND push_bit k 1 = 0 \<longleftrightarrow> \<not> bit w k" using and_exp_eq_0_iff_not_bit [of w k] by simp
  have IH: "first_frame_bit w [Suc k..<32] = (if \<exists>j \<in> {Suc k..<32}. \<not> bit w j
      then Some (LEAST j. Suc k \<le> j \<and> \<not> bit w j) else None)"
    by (rule Suc.hyps) (use Suc k in auto)
  show ?case
  proof (cases "bit w k")
    case True
    then have "(k \<le> j \<and> \<not> bit w j) = (Suc k \<le> j \<and> \<not> bit w j)" for j
      by (metis le_antisym not_less_eq_eq Suc_leD)
    moreover have "(\<exists>j \<in> {k..<32}. \<not> bit w j) = (\<exists>j \<in> {Suc k..<32}. \<not> bit w j)"
      using True by (metis Suc_leI atLeastLessThan_iff le_neq_implies_less Suc_leD)
    ultimately show ?thesis using IH True test k by (simp add: upt_conv_Cons)
  next
    case False
    then have "(LEAST j. k \<le> j \<and> \<not> bit w j) = k" by (intro Least_equality) auto
    with False test k show ?thesis by (auto simp: upt_conv_Cons)
  qed
qed

lemma full_word: "(w :: u32) = 0xFFFFFFFF \<longleftrightarrow> (\<forall>j < 32. bit w j)"
proof
  assume "\<forall>j < 32. bit w j"
  then have "w = - 1" by (intro bit_word_eqI) simp
  then show "w = 0xFFFFFFFF" by simp
next
  assume "w = 0xFFFFFFFF"
  then have "w = - 1" by simp
  then show "\<forall>j < 32. bit w j" by simp
qed

lemma first_frame_loop_upt:
  assumes "k \<le> n" and "n \<le> 2 ^ 15"
  shows "first_frame_loop s [k..<n] = (if \<exists>f. 32 * k \<le> f \<and> f < 32 * n \<and> \<not> frame_used s f
      then word_of_nat (LEAST f. 32 * k \<le> f \<and> \<not> frame_used s f) else 0)"
  using assms
proof (induction "n - k" arbitrary: k)
  case 0
  then show ?case by auto
next
  case (Suc d)
  then have k: "k < n" by simp
  let ?w = "frame_word s (word_of_nat k)"
  have IH: "first_frame_loop s [Suc k..<n] = (if \<exists>f. 32 * Suc k \<le> f \<and> f < 32 * n \<and> \<not> frame_used s f
      then word_of_nat (LEAST f. 32 * Suc k \<le> f \<and> \<not> frame_used s f) else 0)"
    by (rule Suc.hyps) (use Suc k in auto)
  have here: "frame_used s (32 * k + j) = bit ?w j" if "j < 32" for j
    using that by (simp add: frame_used_def)
  show ?case
  proof (cases "?w = 0xFFFFFFFF")
    case True
    then have "frame_used s f" if "32 * k \<le> f" "f < 32 * Suc k" for f
      using here [of "f - 32 * k"] that full_word [of ?w] by auto
    then have "(32 * k \<le> f \<and> \<not> frame_used s f) = (32 * Suc k \<le> f \<and> \<not> frame_used s f)" for f
      by (metis Suc_mult_le_cancel1 add_leD2 le_trans linorder_not_le mult_Suc_right mult_le_mono2
          le_add2)
    then show ?thesis using IH True k by (simp add: upt_conv_Cons) metis
  next
    case False
    then obtain j0 where j0: "j0 < 32" "\<not> bit ?w j0" using full_word [of ?w] by blast
    let ?j = "LEAST j. \<not> bit ?w j"
    have jw: "\<not> bit ?w ?j" and jle: "?j \<le> j0"
      using j0(2) by (rule LeastI, rule Least_le)
    have least: "(LEAST f. 32 * k \<le> f \<and> \<not> frame_used s f) = 32 * k + ?j"
    proof (rule Least_equality)
      show "32 * k \<le> 32 * k + ?j \<and> \<not> frame_used s (32 * k + ?j)"
        using jw jle j0 here by simp
      fix f assume f: "32 * k \<le> f \<and> \<not> frame_used s f"
      show "32 * k + ?j \<le> f"
      proof (cases "f < 32 * Suc k")
        case True
        then have "\<not> bit ?w (f - 32 * k)" using f here [of "f - 32 * k"] by auto
        then have "?j \<le> f - 32 * k" by (rule Least_le)
        with f show ?thesis by linarith
      next
        case False
        with jle j0 show ?thesis by simp
      qed
    qed
    have "first_frame_bit ?w [0..<32] = Some ?j"
      using first_frame_bit_upt [of 0 ?w] j0 by auto
    moreover have "\<exists>f. 32 * k \<le> f \<and> f < 32 * n \<and> \<not> frame_used s f"
      using jw jle j0 here [of ?j] k by (intro exI [of _ "32 * k + ?j"]) auto
    ultimately show ?thesis
      using False k least by (simp add: upt_conv_Cons algebra_simps)
  qed
qed

definition frame_limit :: "'a kernel_scheme \<Rightarrow> nat" where
  "frame_limit s = 32 * unat (INDEX_FROM_BIT (nframes s))"

definition pool_ok :: "'a kernel_scheme \<Rightarrow> bool" where
  "pool_ok s \<longleftrightarrow> bitmap_room s (unat (INDEX_FROM_BIT (nframes s)))"

lemma first_frame_lowest:
  assumes "pool_ok s" and "f < frame_limit s" and "\<not> frame_used s f"
  shows "unat (first_frame s) < frame_limit s" and "\<not> frame_used s (unat (first_frame s))"
    and "g < unat (first_frame s) \<Longrightarrow> frame_used s g"
proof -
  let ?n = "unat (INDEX_FROM_BIT (nframes s))"
  let ?f = "LEAST f. \<not> frame_used s f"
  have n: "?n \<le> 2 ^ 15" using assms(1) by (simp add: pool_ok_def bitmap_room_def)
  have le: "?f \<le> f" using assms(3) by (rule Least_le)
  have "first_frame s = word_of_nat ?f"
    using first_frame_loop_upt [of 0 ?n s] n assms(2,3)
    by (auto simp: first_frame_def frame_limit_def)
  moreover have "?f < 2 ^ 32" using le assms(2) n by (simp add: frame_limit_def)
  ultimately have eq: "unat (first_frame s) = ?f"
    by (simp add: unsigned_of_nat take_bit_nat_eq_self)
  show "unat (first_frame s) < frame_limit s" using le assms(2) eq by simp
  show "\<not> frame_used s (unat (first_frame s))" unfolding eq using assms(3) by (rule LeastI)
  show "g < unat (first_frame s) \<Longrightarrow> frame_used s g" unfolding eq by (rule not_less_Least [THEN notnotD])
qed

lemma first_frame_none:
  assumes "pool_ok s" and "\<forall>f < frame_limit s. frame_used s f"
  shows "first_frame s = 0"
  using first_frame_loop_upt [of 0 "unat (INDEX_FROM_BIT (nframes s))" s] assms
  by (auto simp: first_frame_def frame_limit_def pool_ok_def bitmap_room_def)

section \<open>Pools of frames\<close>

text \<open>
  The contract between the bitmap and those who take frames from it: marking uses up exactly
  one frame, and the frame picked is the lowest that is free. Frames taken in a row from a
  pool whose first \<open>k\<close> frames are gone are therefore \<open>k\<close>, \<open>k + 1\<close>, and so on.
\<close>

locale frame_pool =
  fixes used :: "'s \<Rightarrow> nat \<Rightarrow> bool"
    and limit :: "'s \<Rightarrow> nat"
    and wf :: "'s \<Rightarrow> bool"
    and pick :: "'s \<Rightarrow> nat"
    and mark :: "nat \<Rightarrow> 's \<Rightarrow> 's"
  assumes pick_limit: "wf s \<Longrightarrow> f < limit s \<Longrightarrow> \<not> used s f \<Longrightarrow> pick s < limit s"
    and pick_free: "wf s \<Longrightarrow> f < limit s \<Longrightarrow> \<not> used s f \<Longrightarrow> \<not> used s (pick s)"
    and pick_lowest: "wf s \<Longrightarrow> f < limit s \<Longrightarrow> \<not> used s f \<Longrightarrow> g < pick s \<Longrightarrow> used s g"
    and mark_used: "wf s \<Longrightarrow> f < limit s \<Longrightarrow> g < limit s \<Longrightarrow> used (mark f s) g \<longleftrightarrow> g = f \<or> used s g"
    and mark_limit: "limit (mark f s) = limit s"
    and mark_wf: "wf (mark f s) = wf s"
begin

lemma pick_prefix:
  assumes "wf s" and "k < limit s" and "\<And>g. g < limit s \<Longrightarrow> used s g \<longleftrightarrow> g < k"
  shows "pick s = k"
proof -
  have free: "\<not> used s k" using assms by simp
  have "pick s < limit s" "\<not> used s (pick s)"
    using pick_limit [OF assms(1,2) free] pick_free [OF assms(1,2) free] by simp_all
  moreover have "\<not> k < pick s" using pick_lowest [OF assms(1,2) free] free by blast
  ultimately show ?thesis using assms(3) by (metis linorder_neqE_nat)
qed

lemma mark_prefix:
  assumes "wf s" and "k < limit s" and "\<And>g. g < limit s \<Longrightarrow> used s g \<longleftrightarrow> g < k"
    and "g < limit s"
  shows "used (mark (pick s) s) g \<longleftrightarrow> g < Suc k"
  using mark_used [OF assms(1,2,4)] pick_prefix [OF assms(1,2,3)] assms(3) [OF assms(4)] by auto

lemma mark_fresh:
  assumes "wf s" and "f < limit s" and "\<not> used s f" and "used s g" and "g < limit s"
  shows "pick s \<noteq> g" and "used (mark (pick s) s) g"
  using pick_free [OF assms(1,2,3)] pick_limit [OF assms(1,2,3)] mark_used [OF assms(1) _ assms(5)] assms(4)
  by auto

end

lemma set_frame_fields [simp]:
  "frames (set_frame a s) = frames s" "nframes (set_frame a s) = nframes s"
  "frames (clear_frame a s) = frames s" "nframes (clear_frame a s) = nframes s"
  by (simp_all add: set_frame_def clear_frame_def Let_def)

interpretation bitmap: frame_pool frame_used frame_limit pool_ok "\<lambda>s. unat (first_frame s)"
  "\<lambda>f. set_frame (word_of_nat f * 0x1000)"
proof
  fix s f g
  assume a: "pool_ok s" "f < frame_limit s"
  show "\<not> frame_used s f \<Longrightarrow> unat (first_frame s) < frame_limit s"
    using a by (rule first_frame_lowest(1))
  show "\<not> frame_used s f \<Longrightarrow> \<not> frame_used s (unat (first_frame s))"
    using a by (rule first_frame_lowest(2))
  show "\<not> frame_used s f \<Longrightarrow> g < unat (first_frame s) \<Longrightarrow> frame_used s g"
    using a by (rule first_frame_lowest(3))
  show "g < frame_limit s \<Longrightarrow>
      frame_used (set_frame (word_of_nat f * 0x1000) s) g \<longleftrightarrow> g = f \<or> frame_used s g"
    using a by (intro set_frame_used) (auto simp: pool_ok_def frame_limit_def)
next
  fix s f
  show "frame_limit (set_frame (word_of_nat f * 0x1000) s) = frame_limit s"
    by (simp add: frame_limit_def)
  show "pool_ok (set_frame (word_of_nat f * 0x1000) s) = pool_ok s"
    by (simp add: pool_ok_def bitmap_room_def)
qed

section \<open>Allocating and freeing the frame of a page\<close>

text \<open>The four bytes at \<open>p\<close> lie outside the bitmap.\<close>

definition off_bitmap :: "'a kernel_scheme \<Rightarrow> u32 \<Rightarrow> bool" where
  "off_bitmap s p \<longleftrightarrow> unat p + 4 \<le> 2 ^ 32 \<and>
     (unat p + 4 \<le> unat (frames s) \<or>
      unat (frames s) + 4 * unat (INDEX_FROM_BIT (nframes s)) \<le> unat p)"

definition off_page :: "u32 \<Rightarrow> u32 \<Rightarrow> bool" where
  "off_page p q \<longleftrightarrow> unat q + 4 \<le> 2 ^ 32 \<and> (unat p + 4 \<le> unat q \<or> unat q + 4 \<le> unat p)"

lemma set_page_fields [simp]:
  "frames (set_page p f s) = frames s" "nframes (set_page p f s) = nframes s"
  "kernel_directory (set_page p f s) = kernel_directory s"
  "frame_limit (set_page p f s) = frame_limit s" "pool_ok (set_page p f s) = pool_ok s"
  "off_bitmap (set_page p f s) = off_bitmap s"
  by (simp_all add: set_page_def upd_ram_def frame_limit_def pool_ok_def bitmap_room_def
      off_bitmap_def [abs_def])

lemma set_frame_limits [simp]:
  "frame_limit (set_frame a s) = frame_limit s" "pool_ok (set_frame a s) = pool_ok s"
  "off_bitmap (set_frame a s) = off_bitmap s"
  by (simp_all add: frame_limit_def pool_ok_def bitmap_room_def off_bitmap_def [abs_def])

lemma set_page_same: "read32 (ram (set_page p f s)) p = f (read32 (ram s) p)"
  by (simp add: set_page_def)

lemma set_page_other:
  assumes "off_page p q" and "unat p + 4 \<le> 2 ^ 32"
  shows "read32 (ram (set_page p f s)) q = read32 (ram s) q"
  using assms by (auto simp: set_page_def off_page_def intro!: read32_write32_nat)

lemma frame_word_addr:
  assumes "pool_ok s" and "i < unat (INDEX_FROM_BIT (nframes s))"
  shows "unat (frames s + 4 * word_of_nat i) = unat (frames s) + 4 * i"
  using assms by (intro unat_cell_addr) (auto simp: pool_ok_def bitmap_room_def)

lemma set_page_frame_used [simp]:
  assumes "pool_ok s" and "off_bitmap s p" and "f < frame_limit s"
  shows "frame_used (set_page p g s) f = frame_used s f"
proof -
  have i: "f div 32 < unat (INDEX_FROM_BIT (nframes s))" using assms(3) by (auto simp: frame_limit_def)
  have "off_page p (frames s + 4 * word_of_nat (f div 32))"
    using assms(1,2) i frame_word_addr [OF assms(1) i]
    by (auto simp: off_page_def off_bitmap_def pool_ok_def bitmap_room_def)
  then show ?thesis
    using assms(2) by (simp add: frame_used_def frame_word_def set_page_other off_bitmap_def)
qed

lemma set_frame_off_bitmap:
  assumes "pool_ok s" and "f < frame_limit s" and "off_bitmap s p"
  shows "read32 (ram (set_frame (word_of_nat f * 0x1000) s)) p = read32 (ram s) p"
proof -
  have i: "f div 32 < unat (INDEX_FROM_BIT (nframes s))" using assms(2) by (auto simp: frame_limit_def)
  have f: "f < 2 ^ 20" "f < 2 ^ 32"
    using assms(1,2) by (auto simp: frame_limit_def pool_ok_def bitmap_room_def)
  have "off_page (frames s + 4 * word_of_nat (f div 32)) p"
    using assms i frame_word_addr [OF assms(1) i]
    by (auto simp: off_page_def off_bitmap_def)
  moreover have "unat (frames s + 4 * word_of_nat (f div 32)) + 4 \<le> 2 ^ 32"
    using assms(1) i frame_word_addr [OF assms(1) i] by (auto simp: pool_ok_def bitmap_room_def)
  ultimately show ?thesis
    using f by (auto simp: set_frame_def set_frame_word_def Let_def frame_number_of_address index_offset
        off_page_def intro!: read32_write32_nat)
qed

lemma word_of_first_frame: "(word_of_nat (unat (first_frame s)) :: u32) = first_frame s"
  by simp

lemma alloc_frame_taken: "pg_frame (read32 (ram s) p) \<noteq> 0 \<Longrightarrow> alloc_frame p k w s = s"
  by (simp add: alloc_frame_def)

definition fresh_entry :: "u32 \<Rightarrow> u32 \<Rightarrow> u32 \<Rightarrow> u32 \<Rightarrow> u32" where
  "fresh_entry idx is_kernel is_writeable e =
     set_pg_frame idx (set_pg_flag 2 (is_kernel \<noteq> 1) (set_pg_flag 1 (is_writeable = 1) (set_pg_flag 0 True e)))"

lemma fresh_entry_fields:
  assumes "idx < 2 ^ 20"
  shows "pg_frame (fresh_entry idx k w e) = idx" and "pg_present (fresh_entry idx k w e)"
    and "pg_rw (fresh_entry idx k w e) \<longleftrightarrow> w = 1" and "pg_user (fresh_entry idx k w e) \<longleftrightarrow> k \<noteq> 1"
  using assms
  by (simp_all add: fresh_entry_def pg_frame_set pg_present_def pg_rw_def pg_user_def
      bit_set_pg_frame bit_set_pg_flag)

lemma alloc_frame_steps:
  assumes "pg_frame (read32 (ram s) p) = 0"
  shows "alloc_frame p is_kernel is_writeable s
    = set_page p (set_pg_frame (first_frame s)) (set_page p (set_pg_flag 2 (is_kernel \<noteq> 1))
       (set_page p (set_pg_flag 1 (is_writeable = 1)) (set_page p (set_pg_flag 0 True)
         (set_frame (word_of_nat (unat (first_frame s)) * 0x1000) s))))"
  using assms by (simp add: alloc_frame_def Let_def)

lemma alloc_frame_keeps [simp]:
  "frames (alloc_frame p k w s) = frames s" "nframes (alloc_frame p k w s) = nframes s"
  "frame_limit (alloc_frame p k w s) = frame_limit s" "pool_ok (alloc_frame p k w s) = pool_ok s"
  "off_bitmap (alloc_frame p k w s) = off_bitmap s"
  by (simp_all add: alloc_frame_def Let_def)

lemma alloc_frame_entry:
  assumes "pool_ok s" and "off_bitmap s p" and "pg_frame (read32 (ram s) p) = 0"
    and "f < frame_limit s" and "\<not> frame_used s f"
  shows "read32 (ram (alloc_frame p k w s)) p = fresh_entry (first_frame s) k w (read32 (ram s) p)"
proof -
  have "read32 (ram (set_frame (word_of_nat (unat (first_frame s)) * 0x1000) s)) p = read32 (ram s) p"
    by (rule set_frame_off_bitmap [OF assms(1) first_frame_lowest(1) [OF assms(1,4,5)] assms(2)])
  then show ?thesis
    unfolding alloc_frame_steps [OF assms(3)] set_page_same fresh_entry_def by simp
qed

lemma alloc_frame_used:
  assumes "pool_ok s" and "off_bitmap s p" and "pg_frame (read32 (ram s) p) = 0"
    and "f < frame_limit s" and "\<not> frame_used s f" and "g < frame_limit s"
  shows "frame_used (alloc_frame p k w s) g \<longleftrightarrow> g = unat (first_frame s) \<or> frame_used s g"
  unfolding alloc_frame_steps [OF assms(3)]
  using assms bitmap.mark_used [OF assms(1) first_frame_lowest(1) [OF assms(1,4,5)] assms(6)]
  by simp

lemma alloc_frame_other:
  assumes "pool_ok s" and "off_bitmap s p" and "off_bitmap s q" and "off_page p q"
    and "f < frame_limit s" and "\<not> frame_used s f"
  shows "read32 (ram (alloc_frame p k w s)) q = read32 (ram s) q"
proof (cases "pg_frame (read32 (ram s) p) = 0")
  case True
  have p: "unat p + 4 \<le> 2 ^ 32" using assms(2) by (simp add: off_bitmap_def)
  show ?thesis
    unfolding alloc_frame_steps [OF True] set_page_other [OF assms(4) p]
    by (rule set_frame_off_bitmap [OF assms(1) first_frame_lowest(1) [OF assms(1,5,6)] assms(3)])
qed (simp add: alloc_frame_taken)

lemma first_frame_small:
  assumes "pool_ok s" and "f < frame_limit s" and "\<not> frame_used s f"
  shows "first_frame s < 2 ^ 20"
  using first_frame_lowest(1) [OF assms] assms(1)
  by (simp add: word_less_nat_alt frame_limit_def pool_ok_def bitmap_room_def)

text \<open>
  Freeing: the page gives its frame up, but the bit that is cleared is that of the frame
  whose number is the freed number divided by 4096.
\<close>

lemma free_frame_used:
  assumes "pool_ok s" and "off_bitmap s p" and "pg_frame (read32 (ram s) p) = word_of_nat f"
    and "0 < f" and "f < frame_limit s" and "g < frame_limit s"
  shows "frame_used (free_frame p s) g \<longleftrightarrow> g \<noteq> f div 4096 \<and> frame_used s g"
proof -
  have f: "f < 2 ^ 20" using assms(1,5) by (simp add: frame_limit_def pool_ok_def bitmap_room_def)
  then have nz: "(word_of_nat f :: u32) \<noteq> 0"
    using assms(4) by (simp add: word_unat_eq_iff unsigned_of_nat take_bit_nat_eq_self)
  have "(word_of_nat f :: u32) div 0x1000 = word_of_nat (f div 4096)"
    using f by (simp add: word_unat_eq_iff unat_div_distrib unsigned_of_nat take_bit_nat_eq_self)
  moreover have "(word_of_nat (f div 4096) * 0x1000 :: u32) div 0x1000 = word_of_nat (f div 4096)"
    using f by (intro frame_number_of_address) simp
  ultimately have "clear_frame (word_of_nat f) s = clear_frame (word_of_nat (f div 4096) * 0x1000) s"
    by (simp add: clear_frame_def)
  moreover have "frame_used (clear_frame (word_of_nat (f div 4096) * 0x1000) s) g
      \<longleftrightarrow> g \<noteq> f div 4096 \<and> frame_used s g"
    by (rule clear_frame_used) (use assms in \<open>auto simp: pool_ok_def frame_limit_def\<close>)
  ultimately show ?thesis
    using assms nz by (simp add: free_frame_def Let_def pool_ok_def bitmap_room_def frame_limit_def off_bitmap_def)
qed

section \<open>Mapping pages one after the other\<close>

text \<open>Allocate a frame for the first \<open>n\<close> entries of the page table at \<open>tbl\<close>, in order.\<close>

definition alloc_entries :: "u32 \<Rightarrow> u32 \<Rightarrow> u32 \<Rightarrow> nat \<Rightarrow> 'a kernel_scheme \<Rightarrow> 'a kernel_scheme" where
  "alloc_entries tbl k w n = fold (\<lambda>i. alloc_frame (tbl + 4 * word_of_nat i) k w) [0..<n]"

lemma alloc_entries_Suc:
  "alloc_entries tbl k w (Suc n) s
    = alloc_frame (tbl + 4 * word_of_nat n) k w (alloc_entries tbl k w n s)"
  by (simp add: alloc_entries_def)

lemma alloc_entries_keeps [simp]:
  "frame_limit (alloc_entries tbl k w n s) = frame_limit s"
  "pool_ok (alloc_entries tbl k w n s) = pool_ok s"
  "off_bitmap (alloc_entries tbl k w n s) = off_bitmap s"
  by (induction n) (simp_all add: alloc_entries_Suc, simp_all add: alloc_entries_def)

definition table_entry :: "'a kernel_scheme \<Rightarrow> u32 \<Rightarrow> nat \<Rightarrow> u32" where
  "table_entry s tbl i = read32 (ram s) (tbl + 4 * word_of_nat i)"

text \<open>
  From an empty bitmap and an empty table, entry \<open>i\<close> gets frame \<open>i\<close>: virtual and physical
  addresses agree.
\<close>

lemma alloc_entries_identity:
  assumes "pool_ok s" and "n \<le> 1024" and "n \<le> frame_limit s"
    and "unat tbl + 4096 \<le> 2 ^ 32"
    and "\<And>i. i < 1024 \<Longrightarrow> off_bitmap s (tbl + 4 * word_of_nat i)"
    and "\<And>i. i < 1024 \<Longrightarrow> table_entry s tbl i = 0"
    and "\<And>g. g < frame_limit s \<Longrightarrow> \<not> frame_used s g"
  shows "(\<forall>i < 1024. table_entry (alloc_entries tbl k w n s) tbl i
            = (if i < n then fresh_entry (word_of_nat i) k w 0 else 0))
       \<and> (\<forall>g < frame_limit s. frame_used (alloc_entries tbl k w n s) g \<longleftrightarrow> g < n)"
  using assms(2,3)
proof (induction n)
  case 0
  then show ?case using assms(6,7) by (simp add: alloc_entries_def)
next
  case (Suc n)
  let ?t = "alloc_entries tbl k w n s"
  let ?p = "tbl + 4 * word_of_nat n"
  have n: "n < 1024" "n < frame_limit s" using Suc.prems by simp_all
  then have IH: "\<And>i. i < 1024 \<Longrightarrow> table_entry ?t tbl i = (if i < n then fresh_entry (word_of_nat i) k w 0 else 0)"
      "\<And>g. g < frame_limit s \<Longrightarrow> frame_used ?t g \<longleftrightarrow> g < n"
    using Suc.IH by auto
  have pool: "pool_ok ?t" "n < frame_limit ?t" "\<not> frame_used ?t n"
    using assms(1) n IH(2) by simp_all
  have pick: "unat (first_frame ?t) = n"
    by (rule bitmap.pick_prefix [OF pool(1,2)]) (use IH(2) in simp)
  have off: "off_bitmap ?t ?p" using assms(5) n by simp
  have "pg_frame (table_entry ?t tbl n) = 0" using IH(1) [OF n(1)] by (simp add: pg_frame_def)
  then have empty: "pg_frame (read32 (ram ?t) ?p) = 0" by (simp add: table_entry_def)
  have addr: "unat (tbl + 4 * word_of_nat i) = unat tbl + 4 * i" if "i < 1024" for i
    using assms(4) that by (intro unat_cell_addr) simp
  have "first_frame ?t = word_of_nat n" using pick by (metis word_of_first_frame)
  then have here: "table_entry (alloc_entries tbl k w (Suc n) s) tbl n = fresh_entry (word_of_nat n) k w 0"
    using alloc_frame_entry [OF pool(1) off empty pool(2,3), of k w] IH(1) [OF n(1)]
    by (simp add: alloc_entries_Suc table_entry_def)
  have there: "table_entry (alloc_entries tbl k w (Suc n) s) tbl i = table_entry ?t tbl i"
    if "i < 1024" "i \<noteq> n" for i
  proof -
    have "off_page ?p (tbl + 4 * word_of_nat i)"
      using that n addr assms(4) by (auto simp: off_page_def)
    moreover have "off_bitmap ?t (tbl + 4 * word_of_nat i)" using assms(5) that by simp
    ultimately show ?thesis
      using alloc_frame_other [OF pool(1) off _ _ pool(2,3), of "tbl + 4 * word_of_nat i" k w]
      by (simp add: alloc_entries_Suc table_entry_def)
  qed
  have used: "frame_used (alloc_entries tbl k w (Suc n) s) g \<longleftrightarrow> g < Suc n"
    if "g < frame_limit s" for g
    using alloc_frame_used [OF pool(1) off empty pool(2,3), of g k w] pick that IH(2) [OF that]
    by (auto simp: alloc_entries_Suc)
  show ?case using here there IH(1) used by (auto simp: less_Suc_eq)
qed

end
