(* ===== verification/Kheap.thy ===== *)
theory Kheap
  imports Frames
begin

text \<open>
  \<open>kheap.c\<close>: the placement allocator used until the kernel heap exists, and the heap itself, a
  run of blocks and holes with a header in front and a footer behind each, whose holes are
  indexed in an ordered array. \<open>alloc\<close> calls itself after growing the heap, and growing the
  heap may need a page table that is itself allocated; the recursion is on fuel, and running
  out of it is \<open>No_return\<close>. The \<open>heap_t *\<close> argument of the source is always the global
  \<open>kheap\<close>, here a component of the state.
\<close>

section \<open>The placement allocator and the entry points\<close>

definition kheap_set_placement_address :: "u32 \<Rightarrow> 'a kernel_scheme \<Rightarrow> 'a kernel_scheme" where
  "kheap_set_placement_address e s = s\<lparr>placement_address := e\<rparr>"

type_synonym 'a alloc_fn = "u32 \<Rightarrow> u8 \<Rightarrow> 'a kernel_scheme \<Rightarrow> (u32 \<times> 'a kernel_scheme) result"

definition placement_start :: "u32 \<Rightarrow> u32 \<Rightarrow> u32" where
  "placement_start align p =
     (if align = 1 \<and> p AND 0xFFFFF000 \<noteq> 0 then (p AND 0xFFFFF000) + 0x1000 else p)"

definition kmalloc_placement ::
    "u32 \<Rightarrow> u32 \<Rightarrow> 'a kernel_scheme \<Rightarrow> u32 \<times> u32 \<times> 'a kernel_scheme" where
  "kmalloc_placement sz align s =
     (let tmp = placement_start align (placement_address s)
      in (tmp, tmp, s\<lparr>placement_address := tmp + sz\<rparr>))"

text \<open>
  \<open>kmalloc_int\<close> gives the address, the physical address (0 where the caller passes no
  \<open>phys\<close>) and the state. The page it looks up is never made, so the allocator that
  \<open>get_page\<close> takes is not called.
\<close>

definition kmalloc_int ::
    "'a alloc_fn \<Rightarrow> u32 \<Rightarrow> u32 \<Rightarrow> bool \<Rightarrow> 'a kernel_scheme \<Rightarrow> (u32 \<times> u32 \<times> 'a kernel_scheme) result" where
  "kmalloc_int al sz align phys s =
     (case kheap s of
        Some heap \<Rightarrow>
          rbind (al sz (ucast align) s) (\<lambda>(addr, s1).
            if phys
            then rbind (get_page (\<lambda>_ _. Inl No_return) addr False (kernel_directory s1) s1) (\<lambda>(page, s2).
                   if page = 0 then Inl Undefined
                   else Inr (addr, pg_frame (read32 (ram s2) page) * 0x1000 + (addr AND 0xFFF), s2))
            else Inr (addr, 0, s1))
      | None \<Rightarrow> Inr (kmalloc_placement sz align s))"

definition kmalloc_ap_with :: "'a alloc_fn \<Rightarrow> 'a page_alloc" where
  "kmalloc_ap_with al sz s = kmalloc_int al sz 1 True s"

section \<open>Growing and shrinking\<close>

definition heap_length :: "heap_t \<Rightarrow> u32" where
  "heap_length heap = end_address heap - start_address heap"

definition with_heap :: "(heap_t \<Rightarrow> 'b result) \<Rightarrow> 'a kernel_scheme \<Rightarrow> 'b result" where
  "with_heap f s = (case kheap s of None \<Rightarrow> Inl Undefined | Some heap \<Rightarrow> f heap)"

definition upd_heap :: "(heap_t \<Rightarrow> heap_t) \<Rightarrow> 'a kernel_scheme \<Rightarrow> 'a kernel_scheme" where
  "upd_heap f s = s\<lparr>kheap := map_option f (kheap s)\<rparr>"

definition round_page_up :: "u32 \<Rightarrow> u32" where
  "round_page_up n = (if n AND 0xFFFFF000 \<noteq> 0 then (n AND 0xFFFFF000) + 0x1000 else n)"

definition expand_page :: "'a alloc_fn \<Rightarrow> nat \<Rightarrow> 'a kernel_scheme \<Rightarrow> 'a kernel_scheme result" where
  "expand_page al i s =
     with_heap (\<lambda>heap.
       rbind (get_page (kmalloc_ap_with al) (start_address heap + word_of_nat i) True (kernel_directory s) s)
         (\<lambda>(page, s1). Inr (alloc_frame page (if supervisor heap \<noteq> 0 then 1 else 0)
                              (if readonly heap \<noteq> 0 then 0 else 1) s1))) s"

text \<open>
  The loop counters move by whole pages and stop before they could wrap, so the loops visit
  the offsets listed here.
\<close>

definition expand_offsets :: "u32 \<Rightarrow> u32 \<Rightarrow> nat list" where
  "expand_offsets old_size new_size =
     map (\<lambda>k. unat old_size + 4096 * k) [0..<(unat new_size - unat old_size + 4095) div 4096]"

definition expand :: "'a alloc_fn \<Rightarrow> u32 \<Rightarrow> 'a kernel_scheme \<Rightarrow> 'a kernel_scheme result" where
  "expand al new_size s =
     with_heap (\<lambda>heap.
       rbind (kassert (new_size > heap_length heap)) (\<lambda>_.
         let new_size = round_page_up new_size
         in rbind (kassert (start_address heap + new_size \<le> max_address heap)) (\<lambda>_.
              rbind (rfold (expand_page al) (expand_offsets (heap_length heap) new_size) s) (\<lambda>s1.
                Inr (upd_heap (\<lambda>h. h\<lparr>end_address := start_address h + new_size\<rparr>) s1))))) s"

definition contract_size :: "u32 \<Rightarrow> u32" where
  "contract_size new_size =
     (let n = (if new_size AND 0x1000 \<noteq> 0 then (new_size AND 0x1000) + 0x1000 else new_size)
      in if n < HEAP_MIN_SIZE then HEAP_MIN_SIZE else n)"

definition contract_page :: "nat \<Rightarrow> 'a kernel_scheme \<Rightarrow> 'a kernel_scheme result" where
  "contract_page i s =
     with_heap (\<lambda>heap.
       rbind (get_page (\<lambda>_ _. Inl No_return) (start_address heap + word_of_nat i) False (kernel_directory s) s)
         (\<lambda>(page, s1). if page = 0 then Inl Undefined else Inr (free_frame page s1))) s"

definition contract_offsets :: "u32 \<Rightarrow> u32 \<Rightarrow> nat list" where
  "contract_offsets old_size new_size =
     (let i = unat (old_size - 0x1000)
      in map (\<lambda>k. i - 4096 * k) [0..<(i - unat new_size + 4095) div 4096])"

definition contract :: "u32 \<Rightarrow> 'a kernel_scheme \<Rightarrow> (u32 \<times> 'a kernel_scheme) result" where
  "contract new_size s =
     with_heap (\<lambda>heap.
       rbind (kassert (new_size < heap_length heap)) (\<lambda>_.
         let new_size = contract_size new_size
         in rbind (rfold contract_page (contract_offsets (heap_length heap) new_size) s) (\<lambda>s1.
              Inr (new_size, upd_heap (\<lambda>h. h\<lparr>end_address := start_address h + new_size\<rparr>) s1)))) s"

section \<open>Holes\<close>

definition header_t_less_than :: lessthan_predicate where
  "header_t_less_than m a b = (hdr_size m a < hdr_size m b)"

definition hole_fits :: "mem \<Rightarrow> u32 \<Rightarrow> u8 \<Rightarrow> u32 \<Rightarrow> bool" where
  "hole_fits m sz page_align header =
     (if page_align > 0
      then (let offset = (if (header + 12) AND 0xFFFFF000 \<noteq> 0
                          then (0x1000 - (header + 12)) mod 0x1000 else 0)
            in sz \<le>s hdr_size m header - offset)
      else sz \<le> hdr_size m header)"

fun find_hole_loop :: "mem \<Rightarrow> ordered_array \<Rightarrow> u32 \<Rightarrow> u8 \<Rightarrow> nat list \<Rightarrow> u32 result" where
  "find_hole_loop m oa sz page_align [] = Inr (- 1)"
| "find_hole_loop m oa sz page_align (i # is) =
     rbind (lookup_ordered_array (word_of_nat i) oa m) (\<lambda>header.
       if hole_fits m sz page_align header then Inr (word_of_nat i)
       else find_hole_loop m oa sz page_align is)"

definition find_smallest_hole :: "u32 \<Rightarrow> u8 \<Rightarrow> heap_t \<Rightarrow> mem \<Rightarrow> u32 result" where
  "find_smallest_hole sz page_align heap m =
     find_hole_loop m (index heap) sz page_align [0..<unat (oa_size (index heap))]"

definition make_header :: "u32 \<Rightarrow> u8 \<Rightarrow> u32 \<Rightarrow> mem \<Rightarrow> mem" where
  "make_header h is_hole sz m =
     set_hdr_size h sz (set_hdr_is_hole h is_hole (set_hdr_magic h HEAP_MAGIC m))"

definition make_footer :: "u32 \<Rightarrow> u32 \<Rightarrow> mem \<Rightarrow> mem" where
  "make_footer f header m = set_ftr_header f header (set_ftr_magic f HEAP_MAGIC m)"

definition create_heap ::
    "'a alloc_fn \<Rightarrow> u32 \<Rightarrow> u32 \<Rightarrow> u32 \<Rightarrow> u8 \<Rightarrow> u8 \<Rightarrow> 'a kernel_scheme \<Rightarrow> (heap_t \<times> 'a kernel_scheme) result" where
  "create_heap al start end_addr maxa superv ro s =
     rbind (kmalloc_int al 32 0 False s) (\<lambda>(_, _, s1).
     rbind (kassert (start mod 0x1000 = 0)) (\<lambda>_.
     rbind (kassert (end_addr mod 0x1000 = 0)) (\<lambda>_.
       let (idx, m1) = place_ordered_array start HEAP_INDEX_SIZE (Some header_t_less_than) (ram s1);
           start1 = round_page_up (start + 4 * HEAP_INDEX_SIZE);
           m2 = set_hdr_size start1 (end_addr - start1) m1;
           m3 = set_hdr_is_hole start1 1 (set_hdr_magic start1 HEAP_MAGIC m2)
       in rbind (insert_ordered_array start1 idx m3) (\<lambda>(idx', m4).
            Inr (\<lparr>index = idx', start_address = start1, end_address = end_addr, max_address = maxa,
                   supervisor = superv, readonly = ro\<rparr>, s1\<lparr>ram := m4\<rparr>)))))"

section \<open>Allocation\<close>

text \<open>The endmost header: index and address, \<open>- 1\<close> and 0 when the index is empty.\<close>

definition endmost_step :: "ordered_array \<Rightarrow> mem \<Rightarrow> nat \<Rightarrow> u32 \<times> u32 \<Rightarrow> (u32 \<times> u32) result" where
  "endmost_step oa m i acc =
     rbind (lookup_ordered_array (word_of_nat i) oa m) (\<lambda>tmp.
       Inr (if tmp > snd acc then (word_of_nat i, tmp) else acc))"

definition endmost_header :: "ordered_array \<Rightarrow> mem \<Rightarrow> (u32 \<times> u32) result" where
  "endmost_header oa m = rfold (endmost_step oa m) [0..<unat (oa_size oa)] (- 1, 0)"

definition set_index :: "ordered_array \<Rightarrow> mem \<Rightarrow> 'a kernel_scheme \<Rightarrow> 'a kernel_scheme" where
  "set_index oa m s = upd_heap (\<lambda>h. h\<lparr>index := oa\<rparr>) (s\<lparr>ram := m\<rparr>)"

text \<open>The branch that grows the heap: expand it, then give the new space to the endmost hole.\<close>

definition grow_heap :: "'a alloc_fn \<Rightarrow> u32 \<Rightarrow> 'a kernel_scheme \<Rightarrow> 'a kernel_scheme result" where
  "grow_heap al new_size s =
     with_heap (\<lambda>heap0.
       let old_length = heap_length heap0; old_end_address = end_address heap0
       in rbind (expand al (old_length + new_size) s) (\<lambda>s1.
            with_heap (\<lambda>heap.
              let new_length = heap_length heap
              in rbind (endmost_header (index heap) (ram s1)) (\<lambda>(idx, _).
                   if idx = - 1
                   then (let header = old_end_address;
                             m1 = set_hdr_magic header HEAP_MAGIC (ram s1);
                             m2 = set_hdr_size header (new_length - old_length) m1;
                             m3 = set_hdr_is_hole header 1 m2;
                             footer = old_end_address + hdr_size m3 header - 8;
                             m4 = make_footer footer header m3
                         in rbind (insert_ordered_array header (index heap) m4) (\<lambda>(oa, m5).
                              Inr (set_index oa m5 s1)))
                   else rbind (lookup_ordered_array idx (index heap) (ram s1)) (\<lambda>header.
                          let m1 = set_hdr_size header (hdr_size (ram s1) header + (new_length - old_length)) (ram s1);
                              footer = header + hdr_size m1 header - 8;
                              m2 = set_ftr_magic footer HEAP_MAGIC (set_ftr_header footer header m1)
                          in Inr (s1\<lparr>ram := m2\<rparr>)))) s1)) s"

text \<open>The branch taken once a hole was found. \<open>iterator\<close> is still 0, whatever was found.\<close>

definition take_hole :: "u32 \<Rightarrow> u32 \<Rightarrow> u8 \<Rightarrow> 'a kernel_scheme \<Rightarrow> (u32 \<times> 'a kernel_scheme) result" where
  "take_hole sz new_size page_align s =
     with_heap (\<lambda>heap.
       rbind (lookup_ordered_array 0 (index heap) (ram s)) (\<lambda>orig_hole_pos.
         let m = ram s;
             orig_hole_size = hdr_size m orig_hole_pos;
             slack = orig_hole_size - new_size;
             (sz, new_size) = (if slack < 20 then (sz + slack, orig_hole_size) else (sz, new_size));
             (pos, hsize, oa, m1) =
               (if page_align \<noteq> 0 \<and> orig_hole_pos AND 0xFFFFF000 \<noteq> 0
                then (let new_location = orig_hole_pos + 0x1000 - (orig_hole_pos AND 0xFFF) - 12;
                          ma = set_hdr_size orig_hole_pos (0x1000 - (orig_hole_pos AND 0xFFF) - 12) m;
                          mb = set_hdr_is_hole orig_hole_pos 1 (set_hdr_magic orig_hole_pos HEAP_MAGIC ma);
                          mc = make_footer (new_location - 8) orig_hole_pos mb
                      in (new_location, orig_hole_size - hdr_size mc orig_hole_pos, index heap, mc))
                else (let (oa, ma) = remove_ordered_array 0 (index heap) m
                      in (orig_hole_pos, orig_hole_size, oa, ma)));
             m2 = make_header pos 0 new_size m1;
             m3 = make_footer (pos + 12 + sz) pos m2
         in if hsize - new_size > 0
            then (let hole = pos + 12 + sz + 8;
                      m4 = make_header hole 1 (hsize - new_size) m3;
                      footer = hole + hsize - new_size - 8;
                      m5 = (if footer < end_address heap then make_footer footer hole m4 else m4)
                  in rbind (insert_ordered_array hole oa m5) (\<lambda>(oa', m6).
                       Inr (pos + 12, set_index oa' m6 s)))
            else Inr (pos + 12, set_index oa m3 s))) s"

definition alloc_body :: "'a alloc_fn \<Rightarrow> 'a alloc_fn" where
  "alloc_body al sz page_align s =
     (let new_size = sz + 12 + 8
      in with_heap (\<lambda>heap.
           rbind (find_smallest_hole new_size page_align heap (ram s)) (\<lambda>found.
             if found = - 1
             then rbind (grow_heap al new_size s) (al sz page_align)
             else take_hole sz new_size page_align s)) s)"

primrec alloc :: "nat \<Rightarrow> 'a alloc_fn" where
  "alloc 0 = (\<lambda>sz page_align s. Inl No_return)"
| "alloc (Suc k) = alloc_body (alloc k)"

definition kmalloc :: "nat \<Rightarrow> u32 \<Rightarrow> 'a kernel_scheme \<Rightarrow> (u32 \<times> 'a kernel_scheme) result" where
  "kmalloc k sz s = rbind (kmalloc_int (alloc k) sz 0 False s) (\<lambda>(a, _, s'). Inr (a, s'))"

definition kmalloc_a :: "nat \<Rightarrow> u32 \<Rightarrow> 'a kernel_scheme \<Rightarrow> (u32 \<times> 'a kernel_scheme) result" where
  "kmalloc_a k sz s = rbind (kmalloc_int (alloc k) sz 1 False s) (\<lambda>(a, _, s'). Inr (a, s'))"

definition kmalloc_p :: "nat \<Rightarrow> 'a page_alloc" where
  "kmalloc_p k sz s = kmalloc_int (alloc k) sz 0 True s"

definition kmalloc_ap :: "nat \<Rightarrow> 'a page_alloc" where
  "kmalloc_ap k sz s = kmalloc_int (alloc k) sz 1 True s"

section \<open>Freeing\<close>

definition find_in_index :: "u32 \<Rightarrow> ordered_array \<Rightarrow> mem \<Rightarrow> nat result" where
  "find_in_index x oa m = search_from (\<lambda>i. lookup_ordered_array (word_of_nat i) oa m) x (unat (oa_size oa)) 0"

text \<open>Unifying to the left gives the header that now stands for the block and whether to add it.\<close>

definition unify_left :: "u32 \<Rightarrow> u32 \<Rightarrow> mem \<Rightarrow> u32 \<times> bool \<times> mem" where
  "unify_left header footer m =
     (let test_footer = header - 8
      in if ftr_magic m test_footer = HEAP_MAGIC \<and> hdr_is_hole m (ftr_header m test_footer) = 1
         then (let cache_size = hdr_size m header;
                   header' = ftr_header m test_footer;
                   m1 = set_ftr_header footer header' m
               in (header', False, set_hdr_size header' (hdr_size m1 header' + cache_size) m1))
         else (header, True, m))"

definition unify_right :: "u32 \<Rightarrow> u32 \<Rightarrow> ordered_array \<Rightarrow> mem \<Rightarrow> (u32 \<times> ordered_array \<times> mem) result" where
  "unify_right header footer oa m =
     (let test_header = footer + 8
      in if hdr_magic m test_header = HEAP_MAGIC \<and> hdr_is_hole m test_header \<noteq> 0
         then (let m1 = set_hdr_size header (hdr_size m header + hdr_size m test_header) m;
                   footer' = test_header + hdr_size m1 test_header - 8
               in rbind (find_in_index test_header oa m1) (\<lambda>iterator.
                  rbind (kassert (iterator < unat (oa_size oa))) (\<lambda>_.
                    let (oa', m2) = remove_ordered_array (word_of_nat iterator) oa m1
                    in Inr (footer', oa', m2))))
         else Inr (footer, oa, m))"

text \<open>
  When the freed space reaches the end of the heap, the heap shrinks. The entry removed when
  the header no longer exists is \<open>test_header\<close>, as in the source.
\<close>

definition shrink_end :: "u32 \<Rightarrow> u32 \<Rightarrow> 'a kernel_scheme \<Rightarrow> 'a kernel_scheme result" where
  "shrink_end header test_header s =
     with_heap (\<lambda>heap.
       let old_length = heap_length heap
       in rbind (contract (header - start_address heap) s) (\<lambda>(new_length, s1).
            if hdr_size (ram s1) header - (old_length - new_length) > 0
            then (let m1 = set_hdr_size header (hdr_size (ram s1) header - (old_length - new_length)) (ram s1);
                      footer = header + hdr_size m1 header - 8
                  in Inr (s1\<lparr>ram := make_footer footer header m1\<rparr>))
            else with_heap (\<lambda>heap1.
                   rbind (find_in_index test_header (index heap1) (ram s1)) (\<lambda>iterator.
                     if iterator < unat (oa_size (index heap1))
                     then (let (oa, m) = remove_ordered_array (word_of_nat iterator) (index heap1) (ram s1)
                           in Inr (set_index oa m s1))
                     else Inr s1)) s1)) s"

definition free :: "u32 \<Rightarrow> 'a kernel_scheme \<Rightarrow> 'a kernel_scheme result" where
  "free p s =
     (if p = 0 then Inr s
      else with_heap (\<lambda>heap.
        let header = p - 12;
            footer = header + hdr_size (ram s) header - 8
        in rbind (kassert (hdr_magic (ram s) header = HEAP_MAGIC)) (\<lambda>_.
           rbind (kassert (ftr_magic (ram s) footer = HEAP_MAGIC)) (\<lambda>_.
             let (header', do_add, m1) = unify_left header footer (set_hdr_is_hole header 1 (ram s));
                 test_header = footer + 8
             in rbind (unify_right header' footer (index heap) m1) (\<lambda>(footer', oa, m2).
                  let s1 = set_index oa m2 s
                  in rbind (if footer' + 8 = end_address heap then shrink_end header' test_header s1
                            else Inr s1) (\<lambda>s2.
                       if do_add
                       then with_heap (\<lambda>heap2.
                              rbind (insert_ordered_array header' (index heap2) (ram s2)) (\<lambda>(oa', m3).
                                Inr (set_index oa' m3 s2))) s2
                       else Inr s2))))) s)"

definition kfree :: "u32 \<Rightarrow> 'a kernel_scheme \<Rightarrow> 'a kernel_scheme result" where
  "kfree p s = free p s"

section \<open>Ordered arrays on the heap\<close>

definition create_ordered_array ::
    "nat \<Rightarrow> u32 \<Rightarrow> lessthan_predicate option \<Rightarrow> 'a kernel_scheme \<Rightarrow> (ordered_array \<times> 'a kernel_scheme) result" where
  "create_ordered_array k max_size lt s =
     rbind (kmalloc k (max_size * 4) s) (\<lambda>(a, s1).
       Inr (\<lparr>oa_array = a, oa_size = 0, oa_max_size = max_size, less_than = lt\<rparr>,
            upd_ram (\<lambda>m. memset m a 0 (max_size * 4)) s1))"

definition destroy_ordered_array :: "ordered_array \<Rightarrow> 'a kernel_scheme \<Rightarrow> 'a kernel_scheme result" where
  "destroy_ordered_array oa s = kfree (oa_array oa) s"

end
