(* ===== verification/Isr.thy ===== *)
theory Isr
  imports Kernel_State Panic
begin

text \<open>
  \<open>isr.c\<close>: the table of interrupt handlers and the two dispatchers the assembly stubs call.
  Calling through the function pointer is the argument \<open>call\<close>; theory \<open>Boot\<close> supplies it.
\<close>

type_synonym 'a handler_call =
  "isr_t \<Rightarrow> registers_t \<Rightarrow> 'a kernel_scheme \<Rightarrow> (registers_t \<times> 'a kernel_scheme) result"

definition IRQ0 :: u8 where "IRQ0 = 32"
definition IRQ1 :: u8 where "IRQ1 = 33"

definition register_interrupt_handler :: "u8 \<Rightarrow> isr_t \<Rightarrow> 'a kernel_scheme \<Rightarrow> 'a kernel_scheme" where
  "register_interrupt_handler n handler s =
     s\<lparr>interrupt_handlers := (interrupt_handlers s)(n := Some handler)\<rparr>"

text \<open>An exception without a handler is reported, and the processor spins.\<close>

definition unhandled_interrupt :: "u8 \<Rightarrow> 'a kernel_scheme \<Rightarrow> fault \<times> 'a kernel_scheme" where
  "unhandled_interrupt int_no s =
     (let s1 = screen_write (lit ''unhandled interrupt: '') s;
          s2 = screen_write_dec (ucast int_no) s1
      in (Halted, screen_put 0x0A s2))"

definition isr_handler ::
    "'a handler_call \<Rightarrow> registers_t \<Rightarrow> 'a kernel_scheme \<Rightarrow> (registers_t \<times> 'a kernel_scheme) result" where
  "isr_handler call regs s =
     (let int_no = ucast (r_int_no regs AND 0xFF) :: u8
      in case interrupt_handlers s int_no of
           Some handler \<Rightarrow> call handler regs s
         | None \<Rightarrow> Inl (fst (unhandled_interrupt int_no s)))"

definition irq_resend :: "u32 \<Rightarrow> 'a kernel_scheme \<Rightarrow> 'a kernel_scheme" where
  "irq_resend ir1 s =
     (let s1 = screen_write (lit ''unimplemented: request for irq resend: '') s;
          s2 = screen_write_dec ir1 s1
      in screen_put 0x0A s2)"

definition irq_ack :: "u32 \<Rightarrow> 'a kernel_scheme \<Rightarrow> 'a kernel_scheme" where
  "irq_ack irq s = (if irq \<ge> 12 then outb 0xA0 0x20 s else outb 0x20 0x20 s)"

text \<open>The index is not masked here: above 255 it leaves the table.\<close>

definition irq_handler ::
    "'a handler_call \<Rightarrow> registers_t \<Rightarrow> 'a kernel_scheme \<Rightarrow> (registers_t \<times> 'a kernel_scheme) result" where
  "irq_handler call regs s =
     (let s1 = (if r_int_no regs \<ge> 40 then outb 0xA0 0x20 s else s);
          s2 = outb 0x20 0x20 s1
      in if r_int_no regs > 255 then Inl Undefined
         else case interrupt_handlers s2 (ucast (r_int_no regs)) of
                Some handler \<Rightarrow> call handler regs s2
              | None \<Rightarrow> Inr (regs, s2))"

section \<open>Registration\<close>

lemma register_interrupt_handler_lookup [simp]:
  "interrupt_handlers (register_interrupt_handler n h s) k
    = (if k = n then Some h else interrupt_handlers s k)"
  by (simp add: register_interrupt_handler_def)

lemma register_interrupt_handler_keeps [simp]:
  "ram (register_interrupt_handler n h s) = ram s"
  "port_log (register_interrupt_handler n h s) = port_log s"
  "kheap (register_interrupt_handler n h s) = kheap s"
  "placement_address (register_interrupt_handler n h s) = placement_address s"
  by (simp_all add: register_interrupt_handler_def)

lemma outb_handlers [simp]: "interrupt_handlers (outb p v s) = interrupt_handlers s"
  by (simp add: outb_def log_event_def)

end
