(* ===== verification/Paging_Init.thy ===== *)
theory Paging_Init
  imports Kheap Isr
begin

text \<open>
  \<open>initialise_paging\<close>: the frame bitmap and the kernel directory come from the placement
  allocator, the kernel's pages are mapped in order, and then the heap is created and the
  directory cloned. The fuel \<open>k\<close> is that of the allocator.
\<close>

definition page_addresses :: "u32 \<Rightarrow> nat \<Rightarrow> u32 list" where
  "page_addresses start n = map (\<lambda>i. start + 0x1000 * word_of_nat i) [0..<n]"

definition make_page :: "nat \<Rightarrow> u32 \<Rightarrow> 'a kernel_scheme \<Rightarrow> 'a kernel_scheme result" where
  "make_page k i s =
     rbind (get_page (kmalloc_ap k) i True (kernel_directory s) s) (\<lambda>(_, s1). Inr s1)"

definition map_page :: "nat \<Rightarrow> u32 \<Rightarrow> 'a kernel_scheme \<Rightarrow> 'a kernel_scheme result" where
  "map_page k i s =
     rbind (get_page (kmalloc_ap k) i True (kernel_directory s) s) (\<lambda>(page, s1).
       Inr (alloc_frame page 0 0 s1))"

text \<open>The bitmap is given one byte for every 32 frames, and so is the call that clears it.\<close>

definition allocate_paging_tables :: "nat \<Rightarrow> 'a kernel_scheme \<Rightarrow> 'a kernel_scheme result" where
  "allocate_paging_tables k s =
     (let mem_end_page = 0x1000000;
          s0 = s\<lparr>nframes := mem_end_page div 0x1000\<rparr>
      in rbind (kmalloc k (INDEX_FROM_BIT (nframes s0)) s0) (\<lambda>(fr, s1).
           let s2 = upd_ram (\<lambda>m. memset m fr 0 (INDEX_FROM_BIT (nframes s1))) (s1\<lparr>frames := fr\<rparr>)
           in rbind (kmalloc_a k sizeof_page_directory s2) (\<lambda>(kd, s3).
                let s4 = upd_ram (\<lambda>m. memset m kd 0 sizeof_page_directory) (s3\<lparr>kernel_directory := kd\<rparr>)
                in Inr (upd_ram (set_dir_addr kd (kd + 4096)) s4))))"

definition initialise_paging :: "nat \<Rightarrow> 'a kernel_scheme \<Rightarrow> 'a kernel_scheme result" where
  "initialise_paging k s =
     rbind (allocate_paging_tables k s) (\<lambda>s4.
     rbind (rfold (make_page k) (page_addresses KHEAP_START 256) s4) (\<lambda>s5.
     rbind (rfold (map_page k) (page_addresses 0 1024) s5) (\<lambda>s6.
     rbind (rfold (map_page k) (page_addresses KHEAP_START 256) s6) (\<lambda>s7.
       let s8 = register_interrupt_handler 14 Page_fault s7;
           s9 = switch_page_directory (kernel_directory s8) s8
       in rbind (create_heap (alloc k) KHEAP_START (KHEAP_START + KHEAP_INITIAL_SIZE) 0xCFFFF000 0 0 s9)
            (\<lambda>(heap, s10).
              let s11 = s10\<lparr>kheap := Some heap\<rparr>
              in rbind (clone_directory (kmalloc_ap k) (kernel_directory s11) s11) (\<lambda>(cd, s12).
                   Inr (switch_page_directory cd (s12\<lparr>current_directory := cd\<rparr>))))))))"

end
