(* ===== verification/Descriptor_Tables.thy ===== *)
theory Descriptor_Tables
  imports Isr
begin

text \<open>
  \<open>descriptor_tables.c\<close>: the global descriptor table, the task state segment, the interrupt
  descriptor table with the remapping of the interrupt controllers, and the clearing of the
  handler table. Addresses the linker fixes (the tables, the assembly stubs of
  \<open>interrupt.s\<close>) are arguments.
\<close>

section \<open>The tables\<close>

record gdt_entry_t =
  limit_low :: u16
  base_low :: u16
  base_middle :: u8
  access :: u8
  granularity :: u8
  base_high :: u8

record idt_entry_t =
  base_lo :: u16
  sel :: u16
  always0 :: u8
  gate_flags :: u8
  base_hi :: u16

record table_ptr =
  ptr_limit :: u16
  ptr_base :: u32

record tss_entry_t =
  tss_prev_tss :: u32
  tss_esp0 :: u32
  tss_ss0 :: u32
  tss_esp1 :: u32
  tss_ss1 :: u32
  tss_esp2 :: u32
  tss_ss2 :: u32
  tss_cr3 :: u32
  tss_eip :: u32
  tss_eflags :: u32
  tss_eax :: u32
  tss_ecx :: u32
  tss_edx :: u32
  tss_ebx :: u32
  tss_esp :: u32
  tss_ebp :: u32
  tss_esi :: u32
  tss_edi :: u32
  tss_es :: u32
  tss_cs :: u32
  tss_ss :: u32
  tss_ds :: u32
  tss_fs :: u32
  tss_gs :: u32
  tss_ldt :: u32
  tss_trap :: u16
  tss_iomap_base :: u16

record tables = kernel +
  gdt_entries :: "gdt_entry_t list"
  gdt_ptr :: table_ptr
  gdtr :: u32
  task_register :: u16
  idt_entries :: "u8 \<Rightarrow> idt_entry_t"
  idt_ptr :: table_ptr
  idtr :: u32
  tss_entry :: tss_entry_t

text \<open>
  \<open>base\<close> is a \<open>u8\<close> in the source: its shifts by 16 and 24 are zero, and a caller's 32-bit
  base has been cut to eight bits.
\<close>

definition gdt_entry_of :: "u8 \<Rightarrow> u32 \<Rightarrow> u8 \<Rightarrow> u8 \<Rightarrow> gdt_entry_t" where
  "gdt_entry_of base limit acc gran =
     (let b = ucast base :: u32
      in \<lparr>limit_low = ucast (limit AND 0xFFFF), base_low = ucast (b AND 0xFFFF),
          base_middle = ucast (drop_bit 16 b AND 0xFF), access = acc,
          granularity = ucast (drop_bit 16 limit AND 0x0F) OR (gran AND 0xF0),
          base_high = ucast (drop_bit 24 b AND 0xFF)\<rparr>)"

definition gdt_set_gate ::
    "nat \<Rightarrow> u8 \<Rightarrow> u32 \<Rightarrow> u8 \<Rightarrow> u8 \<Rightarrow> 'a tables_scheme \<Rightarrow> 'a tables_scheme" where
  "gdt_set_gate num base limit acc gran s =
     s\<lparr>gdt_entries := (gdt_entries s)[num := gdt_entry_of base limit acc gran]\<rparr>"

definition sizeof_tss :: u32 where "sizeof_tss = 104"

definition zero_tss :: tss_entry_t where
  "zero_tss =
     \<lparr>tss_prev_tss = 0, tss_esp0 = 0, tss_ss0 = 0, tss_esp1 = 0, tss_ss1 = 0, tss_esp2 = 0,
      tss_ss2 = 0, tss_cr3 = 0, tss_eip = 0, tss_eflags = 0, tss_eax = 0, tss_ecx = 0, tss_edx
      = 0, tss_ebx = 0, tss_esp = 0, tss_ebp = 0, tss_esi = 0, tss_edi = 0, tss_es = 0, tss_cs
      = 0, tss_ss = 0, tss_ds = 0, tss_fs = 0, tss_gs = 0, tss_ldt = 0, tss_trap = 0,
      tss_iomap_base = 0\<rparr>"

definition write_tss :: "u32 \<Rightarrow> nat \<Rightarrow> u16 \<Rightarrow> u32 \<Rightarrow> 'a tables_scheme \<Rightarrow> 'a tables_scheme" where
  "write_tss tss_address num ss0 esp0 s =
     (let base = tss_address; limit = sizeof_tss;
          s1 = gdt_set_gate num (ucast base) limit 0xE9 0x00 s
      in s1\<lparr>tss_entry := zero_tss\<lparr>tss_ss0 := ucast ss0, tss_esp0 := esp0, tss_cs := 0x0b,
           tss_gs := 0x13, tss_fs := 0x13, tss_es := 0x13, tss_ds := 0x13, tss_ss := 0x13\<rparr>\<rparr>)"

definition set_kernel_stack :: "u32 \<Rightarrow> 'a tables_scheme \<Rightarrow> 'a tables_scheme" where
  "set_kernel_stack stack s = s\<lparr>tss_entry := (tss_entry s)\<lparr>tss_esp0 := stack\<rparr>\<rparr>"

definition gdt_flush :: "u32 \<Rightarrow> 'a tables_scheme \<Rightarrow> 'a tables_scheme" where
  "gdt_flush p s = s\<lparr>gdtr := p\<rparr>"
definition tss_flush :: "'a tables_scheme \<Rightarrow> 'a tables_scheme" where
  "tss_flush s = s\<lparr>task_register := 0x2B\<rparr>"
definition idt_flush :: "u32 \<Rightarrow> 'a tables_scheme \<Rightarrow> 'a tables_scheme" where
  "idt_flush p s = s\<lparr>idtr := p\<rparr>"

text \<open>Where the linker placed what the tables point to.\<close>

record link_map =
  at_gdt_entries :: u32
  at_gdt_ptr :: u32
  at_idt_entries :: u32
  at_idt_ptr :: u32
  at_tss_entry :: u32
  at_isr :: "nat \<Rightarrow> u32"
  at_irq :: "nat \<Rightarrow> u32"

definition init_gdt :: "link_map \<Rightarrow> 'a tables_scheme \<Rightarrow> 'a tables_scheme" where
  "init_gdt lm s =
     (let s0 = s\<lparr>gdt_ptr := \<lparr>ptr_limit = 8 * 6 - 1, ptr_base = at_gdt_entries lm\<rparr>\<rparr>;
          s1 = gdt_set_gate 0 0 0 0 0 s0;
          s2 = gdt_set_gate 1 0 0xFFFFFFFF 0x9A 0xCF s1;
          s3 = gdt_set_gate 2 0 0xFFFFFFFF 0x92 0xCF s2;
          s4 = gdt_set_gate 3 0 0xFFFFFFFF 0xFA 0xCF s3;
          s5 = gdt_set_gate 4 0 0xFFFFFFFF 0xF2 0xCF s4;
          s6 = write_tss (at_tss_entry lm) 5 0x10 0x0 s5
      in tss_flush (gdt_flush (at_gdt_ptr lm) s6))"

definition idt_entry_of :: "u32 \<Rightarrow> u16 \<Rightarrow> u8 \<Rightarrow> idt_entry_t" where
  "idt_entry_of base selector flgs =
     \<lparr>base_lo = ucast (base AND 0xFFFF), sel = selector, always0 = 0, gate_flags = flgs OR 0x60,
      base_hi = ucast (drop_bit 16 base AND 0xFFFF)\<rparr>"

definition idt_set_gate :: "u8 \<Rightarrow> u32 \<Rightarrow> u16 \<Rightarrow> u8 \<Rightarrow> 'a tables_scheme \<Rightarrow> 'a tables_scheme" where
  "idt_set_gate num base selector flgs s =
     s\<lparr>idt_entries := (idt_entries s)(num := idt_entry_of base selector flgs)\<rparr>"

definition zero_gate :: idt_entry_t where
  "zero_gate = \<lparr>base_lo = 0, sel = 0, always0 = 0, gate_flags = 0, base_hi = 0\<rparr>"

text \<open>The ten writes that remap the two interrupt controllers to vectors 32 to 47.\<close>

definition remap_irqs :: "'a machine_scheme \<Rightarrow> 'a machine_scheme" where
  "remap_irqs s = fold (\<lambda>(p, v). outb p v)
     [(0x20, 0x11), (0xA0, 0x11), (0x21, 0x20), (0xA1, 0x28), (0x21, 0x04),
      (0xA1, 0x02), (0x21, 0x01), (0xA1, 0x01), (0x21, 0x0), (0xA1, 0x0)] s"

definition init_idt :: "link_map \<Rightarrow> 'a tables_scheme \<Rightarrow> 'a tables_scheme" where
  "init_idt lm s =
     (let s0 = s\<lparr>idt_ptr := \<lparr>ptr_limit = 8 * 256 - 1, ptr_base = at_idt_entries lm\<rparr>,
                 idt_entries := (\<lambda>_. zero_gate)\<rparr>;
          s1 = remap_irqs s0;
          s2 = fold (\<lambda>i. idt_set_gate (word_of_nat i) (at_isr lm i) 0x08 0x8E) [0..<32] s1;
          s3 = fold (\<lambda>i. idt_set_gate (word_of_nat (32 + i)) (at_irq lm i) 0x08 0x8E) [0..<16] s2;
          s4 = idt_set_gate 128 (at_isr lm 128) 0x08 0x8E s3
      in idt_flush (at_idt_ptr lm) s4)"

definition init_descriptor_tables :: "link_map \<Rightarrow> 'a tables_scheme \<Rightarrow> 'a tables_scheme" where
  "init_descriptor_tables lm s =
     (let s1 = init_gdt lm s; s2 = init_idt lm s1 in s2\<lparr>interrupt_handlers := (\<lambda>_. None)\<rparr>)"

section \<open>What the processor reads from the entries\<close>

definition gate_target :: "idt_entry_t \<Rightarrow> u32" where
  "gate_target e = push_bit 16 (ucast (base_hi e)) OR ucast (base_lo e)"

definition segment_base :: "gdt_entry_t \<Rightarrow> u32" where
  "segment_base e = ucast (base_low e) OR push_bit 16 (ucast (base_middle e))
     OR push_bit 24 (ucast (base_high e))"

definition segment_limit :: "gdt_entry_t \<Rightarrow> u32" where
  "segment_limit e = ucast (limit_low e) OR push_bit 16 (ucast (granularity e AND 0x0F))"

definition gate_dpl :: "idt_entry_t \<Rightarrow> u8" where
  "gate_dpl e = drop_bit 5 (gate_flags e) AND 3"

text \<open>The simplifier turns the truncated masks into integer literals.\<close>

lemma bit_255: "bit (255 :: int) n \<longleftrightarrow> n < 8"
proof -
  have "(255 :: int) = mask 8" by (simp add: mask_eq_exp_minus_1)
  then show ?thesis by (simp only: bit_mask_iff) auto
qed

lemma bit_65535: "bit (65535 :: int) n \<longleftrightarrow> n < 16"
proof -
  have "(65535 :: int) = mask 16" by (simp add: mask_eq_exp_minus_1)
  then show ?thesis by (simp only: bit_mask_iff) auto
qed

lemma gate_target_entry [simp]: "gate_target (idt_entry_of base selector flgs) = base"
proof (rule bit_word_eqI)
  fix n :: nat
  assume "n < LENGTH(32)"
  then show "bit (gate_target (idt_entry_of base selector flgs)) n \<longleftrightarrow> bit base n"
    by (cases "n < 16") (auto simp: gate_target_def idt_entry_of_def bit_simps bit_65535)
qed

lemma segment_base_entry [simp]: "segment_base (gdt_entry_of base limit acc gran) = ucast base"
proof (rule bit_word_eqI)
  fix n :: nat
  assume "n < LENGTH(32)"
  then show "bit (segment_base (gdt_entry_of base limit acc gran)) n \<longleftrightarrow> bit (ucast base :: u32) n"
    by (auto simp: segment_base_def gdt_entry_of_def Let_def bit_simps bit_65535 bit_255
        dest: bit_imp_le_length)
qed

section \<open>The state after initialisation\<close>

lemma idt_gates_other:
  "k \<notin> f ` set xs \<Longrightarrow>
    idt_entries (fold (\<lambda>i. idt_set_gate (f i) (g i) selector flgs) xs s) k = idt_entries s k"
  by (induction xs arbitrary: s) (auto simp: idt_set_gate_def)

lemma idt_gates_set:
  assumes "inj_on f (set xs)" and "i \<in> set xs"
  shows "idt_entries (fold (\<lambda>i. idt_set_gate (f i) (g i) selector flgs) xs s) (f i)
    = idt_entry_of (g i) selector flgs"
  using assms
proof (induction xs rule: rev_induct)
  case (snoc x xs)
  show ?case
  proof (cases "f i = f x")
    case True
    then have "i = x" using snoc.prems inj_onD [OF snoc.prems(1), of i x] by simp
    then show ?thesis by (simp add: idt_set_gate_def)
  next
    case False
    then show ?thesis using snoc by (auto simp: idt_set_gate_def inj_on_Un)
  qed
qed simp

lemma inj_vectors: "a + k \<le> 256 \<Longrightarrow> inj_on (\<lambda>i. word_of_nat (a + i) :: u8) (set [0..<k])"
  by (auto intro!: inj_onI simp: word_unat_eq_iff unsigned_of_nat take_bit_nat_eq_self simp del: of_nat_add)

lemma idt_set_gate_idt [simp]:
  "idt_entries (idt_set_gate n a b c s) = (idt_entries s)(n := idt_entry_of a b c)"
  by (simp add: idt_set_gate_def)

lemma remap_irqs_idt [simp]: "idt_entries (remap_irqs s) = idt_entries s"
  by (simp add: remap_irqs_def port_simps)

lemma remap_irqs_log: "port_log (remap_irqs s) = port_log s @
    [Out8 0x20 0x11, Out8 0xA0 0x11, Out8 0x21 0x20, Out8 0xA1 0x28, Out8 0x21 0x04,
     Out8 0xA1 0x02, Out8 0x21 0x01, Out8 0xA1 0x01, Out8 0x21 0, Out8 0xA1 0]"
  by (simp add: remap_irqs_def port_simps)

text \<open>Which stub each vector leads to.\<close>

definition vector_stub :: "link_map \<Rightarrow> nat \<Rightarrow> u32 option" where
  "vector_stub lm n =
     (if n < 32 then Some (at_isr lm n) else if n < 48 then Some (at_irq lm (n - 32))
      else if n = 128 then Some (at_isr lm 128) else None)"

lemma u8_vector_neq:
  "a < 256 \<Longrightarrow> b < 256 \<Longrightarrow> (word_of_nat a :: u8) = word_of_nat b \<longleftrightarrow> a = b"
  by (simp add: word_unat_eq_iff unsigned_of_nat take_bit_nat_eq_self)

lemma init_idt_entry:
  assumes "n < 256"
  shows "idt_entries (init_idt lm s) (word_of_nat n)
    = (case vector_stub lm n of Some a \<Rightarrow> idt_entry_of a 0x08 0x8E | None \<Rightarrow> zero_gate)"
proof -
  let ?s1 = "remap_irqs (s\<lparr>idt_ptr := \<lparr>ptr_limit = 8 * 256 - 1, ptr_base = at_idt_entries lm\<rparr>,
     idt_entries := (\<lambda>_. zero_gate)\<rparr>)"
  let ?s2 = "fold (\<lambda>i. idt_set_gate (word_of_nat i) (at_isr lm i) 0x08 0x8E) [0..<32] ?s1"
  let ?s3 = "fold (\<lambda>i. idt_set_gate (word_of_nat (32 + i)) (at_irq lm i) 0x08 0x8E) [0..<16] ?s2"
  have init: "idt_entries (init_idt lm s) = (idt_entries ?s3)(128 := idt_entry_of (at_isr lm 128) 0x08 0x8E)"
    by (simp add: init_idt_def idt_flush_def Let_def del: upt_rec_numeral)
  have s128: "(word_of_nat n :: u8) = 128 \<longleftrightarrow> n = 128" using u8_vector_neq [of n 128] assms by simp
  have m2: "(word_of_nat n :: u8) \<in> word_of_nat ` set [0..<32] \<longleftrightarrow> n < 32"
  proof
    assume "(word_of_nat n :: u8) \<in> word_of_nat ` set [0..<32]"
    then obtain i where "i < 32" "(word_of_nat n :: u8) = word_of_nat i"
      by (auto simp del: upt_rec_numeral)
    then show "n < 32" using u8_vector_neq [of n i] assms by auto
  qed (simp del: upt_rec_numeral)
  have m3: "(word_of_nat n :: u8) \<in> (\<lambda>i. word_of_nat (32 + i)) ` set [0..<16] \<longleftrightarrow> 32 \<le> n \<and> n < 48"
  proof
    assume "(word_of_nat n :: u8) \<in> (\<lambda>i. word_of_nat (32 + i)) ` set [0..<16]"
    then obtain i where "i < 16" "(word_of_nat n :: u8) = word_of_nat (32 + i)"
      by (auto simp del: upt_rec_numeral of_nat_add)
    then show "32 \<le> n \<and> n < 48" using u8_vector_neq [of n "32 + i"] assms by auto
  next
    assume "32 \<le> n \<and> n < 48"
    then have "word_of_nat n = (\<lambda>i. word_of_nat (32 + i) :: u8) (n - 32)" "n - 32 \<in> set [0..<16]" by auto
    then show "(word_of_nat n :: u8) \<in> (\<lambda>i. word_of_nat (32 + i)) ` set [0..<16]" by blast
  qed
  have e2: "idt_entries ?s2 (word_of_nat n) = idt_entry_of (at_isr lm n) 0x08 0x8E" if "n < 32"
    using idt_gates_set [of "word_of_nat" "[0..<32]" n "at_isr lm" 8 "0x8E" ?s1] that inj_vectors [of 0 32]
    by (simp del: upt_rec_numeral)
  have e2': "idt_entries ?s2 (word_of_nat n) = zero_gate" if "\<not> n < 32"
    using idt_gates_other [of "word_of_nat n" "word_of_nat" "[0..<32]" "at_isr lm" 8 "0x8E" ?s1] m2 that
    by (simp del: upt_rec_numeral)
  have e3: "idt_entries ?s3 (word_of_nat n) = idt_entry_of (at_irq lm (n - 32)) 0x08 0x8E"
    if "32 \<le> n" "n < 48"
    using idt_gates_set [of "\<lambda>i. word_of_nat (32 + i)" "[0..<16]" "n - 32" "at_irq lm" 8 "0x8E" ?s2]
      inj_vectors [of 32 16] that
    by (simp del: upt_rec_numeral of_nat_add)
  have e3': "idt_entries ?s3 (word_of_nat n) = idt_entries ?s2 (word_of_nat n)" if "\<not> (32 \<le> n \<and> n < 48)"
    by (rule idt_gates_other) (use m3 that in blast)
  show ?thesis
    using init s128 e2 e2' e3 e3' by (auto simp: vector_stub_def simp del: upt_rec_numeral)
qed

end
