(* ===== verification/Serial.thy ===== *)
theory Serial
  imports Screen
begin

text \<open>
  \<open>serial.c\<close>: the first serial port. Sending waits, without bound, until the transmitter
  reports that it is empty, so sending is option-valued: \<open>None\<close> is waiting for ever.
\<close>

section \<open>Operations\<close>

definition PORT :: u16 where
  "PORT = 0x3F8"

definition serial_init :: "'a machine_scheme \<Rightarrow> 'a machine_scheme" where
  "serial_init s =
     outb (PORT + 4) 0x0B (outb (PORT + 2) 0xC7 (outb (PORT + 3) 0x03 (outb (PORT + 1) 0x00
       (outb (PORT + 0) 0x01 (outb (PORT + 3) 0x80 (outb (PORT + 1) 0x00 s))))))"

definition is_transmit_empty :: "device \<Rightarrow> 'a machine_scheme \<Rightarrow> u8 \<times> 'a machine_scheme" where
  "is_transmit_empty dev s = (let (b, s') = inb dev (PORT + 5) s in (b AND 0x20, s'))"

partial_function (option) serial_wait :: "device \<Rightarrow> 'a machine_scheme \<Rightarrow> 'a machine_scheme option" where
  "serial_wait dev s =
     (case is_transmit_empty dev s of (b, s') \<Rightarrow> if b = 0 then serial_wait dev s' else Some s')"

definition serial_write_char :: "device \<Rightarrow> u8 \<Rightarrow> 'a machine_scheme \<Rightarrow> 'a machine_scheme option" where
  "serial_write_char dev a s = map_option (outb PORT (scast a)) (serial_wait dev s)"

fun serial_write :: "device \<Rightarrow> u8 list \<Rightarrow> 'a machine_scheme \<Rightarrow> 'a machine_scheme option" where
  "serial_write dev [] s = Some s"
| "serial_write dev (c # cs) s =
     (if c \<noteq> 0 then Option.bind (serial_write_char dev c s) (serial_write dev cs) else Some s)"

definition serial_received :: "device \<Rightarrow> 'a machine_scheme \<Rightarrow> u8 \<times> 'a machine_scheme" where
  "serial_received dev s = (let (b, s') = inb dev (PORT + 5) s in (b AND 1, s'))"

partial_function (option) serial_wait_received ::
    "device \<Rightarrow> 'a machine_scheme \<Rightarrow> 'a machine_scheme option" where
  "serial_wait_received dev s =
     (case serial_received dev s of (b, s') \<Rightarrow> if b = 0 then serial_wait_received dev s' else Some s')"

definition read_serial :: "device \<Rightarrow> 'a machine_scheme \<Rightarrow> (u8 \<times> 'a machine_scheme) option" where
  "read_serial dev s = map_option (inb dev PORT) (serial_wait_received dev s)"

interpretation ser: char_sink "serial_write_char dev" "serial_write dev"
  for dev by unfold_locales auto

section \<open>What reaches the line\<close>

text \<open>
  A transmitter that is slow but alive: from any history, among the next \<open>k\<close> polls of the
  status register one has the transmitter-empty bit set.
\<close>

definition polls :: "nat \<Rightarrow> port_event list \<Rightarrow> port_event list" where
  "polls n es = es @ replicate n (In8 (PORT + 5))"

definition transmitter_alive :: "device \<Rightarrow> nat \<Rightarrow> bool" where
  "transmitter_alive dev k \<longleftrightarrow>
     (\<forall>es. \<exists>n \<in> {1..k}. (ucast (dev (polls n es)) :: u8) AND 0x20 \<noteq> 0)"

lemma serial_wait_step:
  "serial_wait dev s =
     (let s' = s\<lparr>port_log := polls 1 (port_log s)\<rparr>
      in if (ucast (dev (port_log s')) :: u8) AND 0x20 = 0 then serial_wait dev s' else Some s')"
  by (simp add: serial_wait.simps [of dev s] is_transmit_empty_def port_simps polls_def)

lemma polls_Suc [simp]: "polls n (polls (Suc 0) es) = polls (Suc n) es"
  by (simp add: polls_def)

lemma polls_0 [simp]: "polls 0 es = es"
  by (simp add: polls_def)

lemma serial_wait_returns:
  assumes "(ucast (dev (polls (Suc n) (port_log s))) :: u8) AND 0x20 \<noteq> 0"
  shows "\<exists>k. serial_wait dev s = Some (s\<lparr>port_log := polls k (port_log s)\<rparr>)"
  using assms
proof (induction n arbitrary: s)
  case 0
  then show ?case by (subst serial_wait_step) (auto simp: Let_def)
next
  case (Suc n)
  let ?s = "s\<lparr>port_log := polls 1 (port_log s)\<rparr>"
  have "\<exists>k. serial_wait dev ?s = Some (?s\<lparr>port_log := polls k (port_log ?s)\<rparr>)"
    using Suc.prems by (intro Suc.IH) simp
  then obtain k where "serial_wait dev ?s = Some (s\<lparr>port_log := polls (Suc k) (port_log s)\<rparr>)"
    by auto
  then show ?case by (subst serial_wait_step) (auto simp: Let_def)
qed

lemma sent8_polls [simp]: "sent8 p (polls n es) = sent8 p es"
  by (induction n) (simp_all add: polls_def replicate_append_same [symmetric] flip: append_assoc
      del: replicate_append_same)

lemma ucast_scast_u8 [simp]: "(ucast (scast c :: u32) :: u8) = c"
  by (rule bit_word_eqI) (auto simp: bit_simps)

lemma serial_write_char_sends:
  assumes "transmitter_alive dev k"
  shows "\<exists>es. serial_write_char dev c s = Some (s\<lparr>port_log := es\<rparr>)
     \<and> sent8 PORT es = sent8 PORT (port_log s) @ [c]"
proof -
  obtain n where "(ucast (dev (polls (Suc n) (port_log s))) :: u8) AND 0x20 \<noteq> 0"
    using assms unfolding transmitter_alive_def
    by (metis Suc_pred' atLeastAtMost_iff less_eq_Suc_le One_nat_def)
  from serial_wait_returns [of dev n s, OF this] obtain j
    where "serial_wait dev s = Some (s\<lparr>port_log := polls j (port_log s)\<rparr>)" by blast
  then show ?thesis
    by (intro exI [of _ "polls j (port_log s) @ [Out8 PORT c]"])
      (simp add: serial_write_char_def port_simps)
qed

lemma serial_write_sends:
  assumes "transmitter_alive dev k" and "0 \<notin> set cs"
  shows "\<exists>es. serial_write dev cs s = Some (s\<lparr>port_log := es\<rparr>)
     \<and> sent8 PORT es = sent8 PORT (port_log s) @ cs"
  using assms(2)
proof (induction cs arbitrary: s)
  case Nil
  show ?case by (rule exI [of _ "port_log s"]) simp
next
  case (Cons c cs)
  obtain es where es: "serial_write_char dev c s = Some (s\<lparr>port_log := es\<rparr>)"
      "sent8 PORT es = sent8 PORT (port_log s) @ [c]"
    using serial_write_char_sends [OF assms(1)] by blast
  from Cons.prems Cons.IH [of "s\<lparr>port_log := es\<rparr>"] es show ?case by auto
qed

end
