(* ===== verification/Printk.thy ===== *)
theory Printk
  imports Serial
begin

text \<open>
  \<open>printk.c\<close>: formatted output without allocation. The output buffer is the list of bytes
  written so far, its index is the length; reading a variable argument that was not passed,
  or printing a string argument as a number, is \<open>Undefined\<close>, as in C.
\<close>

section \<open>Numbers\<close>

text \<open>\<open>u32_to_hex\<close> keeps each nibble in a \<open>char\<close>.\<close>

definition hex_char8 :: "u8 \<Rightarrow> u8" where
  "hex_char8 tmp = (if 0xA \<le> sint tmp then tmp - 0xA + 0x61 else tmp + 0x30)"

fun hex_loop :: "nat list \<Rightarrow> u32 \<Rightarrow> bool \<Rightarrow> u8 list" where
  "hex_loop [] n noZeroes = []"
| "hex_loop (i # is) n noZeroes =
     (let tmp = ucast (drop_bit i n AND 0xF) :: u8
      in if tmp = 0 \<and> noZeroes then hex_loop is n noZeroes
         else hex_char8 tmp # hex_loop is n False)"

definition u32_to_hex :: "u32 \<Rightarrow> u8 list" where
  "u32_to_hex n =
     lit ''0x'' @ hex_loop [28, 24, 20, 16, 12, 8, 4] n True @ [hex_char8 (ucast (n AND 0xF))]"

text \<open>
  \<open>u32_to_dec\<close> copies its argument into a \<open>char\<close>, which is signed on the x86, before it
  divides; the digits come out lowest first and are then reversed into the result.
\<close>

function char_digits :: "int \<Rightarrow> u8 list" where
  "char_digits acc = (if 0 < acc then word_of_int (0x30 + acc mod 10) # char_digits (acc div 10) else [])"
  by pat_completeness auto
termination
  by (relation "measure nat") auto

declare char_digits.simps [simp del]

definition u32_to_dec :: "u32 \<Rightarrow> u8 list" where
  "u32_to_dec n = (if n = 0 then [0x30] else rev (char_digits (sint (ucast n :: u8))))"

section \<open>Formatting\<close>

datatype va_arg = VInt u32 | VStr "u8 list"

fun va_u32 :: "va_arg list \<Rightarrow> (u32 \<times> va_arg list) result" where
  "va_u32 (VInt n # args) = Inr (n, args)"
| "va_u32 _ = Inl Undefined"

fun va_str :: "va_arg list \<Rightarrow> (u8 list \<times> va_arg list) result" where
  "va_str (VStr s # args) = Inr (s, args)"
| "va_str _ = Inl Undefined"

text \<open>What one directive \<open>%d\<close> appends, and the arguments it leaves.\<close>

definition directive :: "u8 \<Rightarrow> va_arg list \<Rightarrow> (u8 list \<times> va_arg list) result" where
  "directive d args =
     (if d = of_char (CHR ''s'')
      then rbind (va_str args) (\<lambda>(s, args'). Inr (takeWhile (\<lambda>c. c \<noteq> 0) s, args'))
      else if d = of_char (CHR ''b'')
      then rbind (va_u32 args) (\<lambda>(n, args'). Inr (if n \<noteq> 0 then lit ''true'' else lit ''false'', args'))
      else if d = of_char (CHR ''c'') \<or> d = of_char (CHR ''d'')
      then rbind (va_u32 args) (\<lambda>(n, args'). Inr (u32_to_dec n, args'))
      else if d = of_char (CHR ''x'')
      then rbind (va_u32 args) (\<lambda>(n, args'). Inr (u32_to_hex n, args'))
      else if d = of_char (CHR ''p'')
      then rbind (va_u32 args)
             (\<lambda>(n, args'). Inr (lit ''->'' @ (if n \<noteq> 0 then u32_to_dec n else lit ''NUL''), args'))
      else if d = of_char (CHR ''%'') then Inr (lit ''%'', args)
      else Inr ([d], args))"

text \<open>
  The loop over the format: \<open>i\<close> is the index of the next format character and \<open>out\<close> what
  has been written. The end of the format list stands for its terminating NUL.
\<close>

fun sprintk_loop :: "nat \<Rightarrow> nat \<Rightarrow> u8 list \<Rightarrow> va_arg list \<Rightarrow> u8 list \<Rightarrow> u8 list result" where
  "sprintk_loop out_length i [] args out = Inr out"
| "sprintk_loop out_length i [c] args out =
     (if c = 0 \<or> out_length < i then Inr out else Inr (out @ [c]))"
| "sprintk_loop out_length i (c # d # fmt) args out =
     (if c = 0 \<or> out_length < i then Inr out
      else if c = of_char (CHR ''%'') \<and> d \<noteq> 0
      then rbind (directive d args)
             (\<lambda>(piece, args'). sprintk_loop out_length (i + 2) fmt args' (out @ piece))
      else sprintk_loop out_length (i + 1) (d # fmt) args (out @ [c]))"

text \<open>The bytes of \<open>out\<close> after the call, the closing NUL included.\<close>

definition sprintk :: "nat \<Rightarrow> u8 list \<Rightarrow> va_arg list \<Rightarrow> u8 list result" where
  "sprintk out_length fmt args =
     rbind (sprintk_loop out_length 0 fmt args []) (\<lambda>out. Inr (out @ [0]))"

text \<open>\<open>sprintk\<close> does not check the room in its caller's 1024-byte array: more output is \<open>Undefined\<close>.\<close>

definition printk :: "device \<Rightarrow> string \<Rightarrow> va_arg list \<Rightarrow> 'a screen_scheme \<Rightarrow> 'a screen_scheme result" where
  "printk dev fmt args s =
     rbind (sprintk 1024 (lit fmt) args)
       (\<lambda>newbuf. if 1024 < length newbuf then Inl Undefined
          else case serial_write dev newbuf (screen_write newbuf s) of
            None \<Rightarrow> Inl No_return
          | Some s' \<Rightarrow> Inr s')"

section \<open>Hexadecimal\<close>

lemma hex_char8_eq: "tmp < 16 \<Longrightarrow> hex_char8 (ucast (tmp :: u32)) = hex_char tmp"
proof -
  assume "tmp < 16"
  then have "unat tmp \<in> set [0..<16]" by (simp add: word_less_nat_alt)
  moreover have "\<forall>k \<in> set [0..<16].
      hex_char8 (ucast (word_of_nat k :: u32)) = hex_char (word_of_nat k)"
    by code_simp
  ultimately have "hex_char8 (ucast (word_of_nat (unat tmp) :: u32)) = hex_char (word_of_nat (unat tmp))"
    by (rule bspec [rotated])
  then show ?thesis by simp
qed

lemma nibble_less: "(w :: u32) AND 0xF < 16"
  using word_and_le1 [of w "0xF"] by (simp add: word_less_nat_alt word_le_nat_alt)

lemma unat_nibble: "unat (drop_bit i (w :: u32) AND 0xF) = unat w div 2 ^ i mod 16"
proof -
  have "drop_bit i w AND 0xF = take_bit 4 (drop_bit i w)"
    by (simp only: take_bit_eq_mask mask_eq_exp_minus_1) simp
  moreover have "unat (take_bit 4 (drop_bit i w)) = take_bit 4 (drop_bit i (unat w))"
    by (simp only: unsigned_take_bit_eq unsigned_drop_bit_eq) simp
  ultimately show ?thesis by (simp only: take_bit_eq_mod drop_bit_eq_div) simp
qed

lemma ucast_nibble_0: "(ucast (w AND 0xF) :: u8) = 0 \<longleftrightarrow> (w :: u32) AND 0xF = 0"
proof -
  have "unat (w AND 0xF) < 16" using nibble_less [of w] by (simp add: word_less_nat_alt)
  then have "unat (ucast (w AND 0xF) :: u8) = unat (w AND 0xF)"
    by (simp add: unsigned_ucast_eq take_bit_eq_mod)
  then show ?thesis by (metis unat_eq_0)
qed

lemma hex_char_nibble: "hex_char8 (ucast (w AND 0xF)) = hex_char (w AND 0xF)"
  by (rule hex_char8_eq [OF nibble_less])

lemma hex_char_nonzero: "hex_char (w AND 0xF) \<noteq> 0"
proof -
  have "unat (w AND 0xF) \<in> set [0..<16]"
    using nibble_less [of w] by (simp add: word_less_nat_alt)
  moreover have "\<forall>k \<in> set [0..<16]. hex_char (word_of_nat k) \<noteq> 0" by code_simp
  ultimately have "hex_char (word_of_nat (unat (w AND 0xF))) \<noteq> 0" by (rule bspec [rotated])
  then show ?thesis by simp
qed

lemma hex_char_zero: "w AND 0xF \<noteq> 0 \<Longrightarrow> hex_char (w AND 0xF) \<noteq> 0x30"
proof -
  assume nz: "w AND 0xF \<noteq> 0"
  have "hex_nibble (hex_char (w AND 0xF)) = unat (w AND 0xF)"
    by (rule hex_nibble_char [OF nibble_less])
  with nz show ?thesis by (auto simp: hex_nibble_def unat_eq_0)
qed

lemma screen_write_hex_loop:
  "screen_write (hex_loop is n z @ cs) s = screen_write cs (screen_hex_loop is n z s)"
  by (induction "is" n z s rule: screen_hex_loop.induct)
    (simp_all add: Let_def ucast_nibble_0 hex_char_nibble hex_char_nonzero)

lemma screen_write_hex_eq: "screen_write (u32_to_hex n) s = screen_write_hex n s"
proof -
  have x: "(0 :: u8) \<notin> set (lit ''0x'')" by (simp add: lit_def)
  show ?thesis
    unfolding u32_to_hex_def screen_write_hex_def screen_write_append [OF x] screen_write_hex_loop
    by (simp add: hex_char_nibble hex_char_nonzero)
qed

definition hex_step :: "nat \<Rightarrow> u8 \<Rightarrow> nat" where
  "hex_step v d = 16 * v + hex_nibble d"

lemma hex_value_step: "hex_value ds = foldl hex_step 0 ds"
  by (simp add: hex_value_def hex_step_def [abs_def])

text \<open>The nibble positions \<open>4 * k, \<dots>, 8, 4\<close>.\<close>

fun nibbles_from :: "nat \<Rightarrow> nat list" where
  "nibbles_from 0 = []"
| "nibbles_from (Suc k) = 4 * Suc k # nibbles_from k"

lemma hex_loop_value:
  "foldl hex_step acc (hex_loop (nibbles_from k) n z)
     = (if z \<and> acc = 0 then 0 else acc * (if z then 1 else 16 ^ k)) + (unat n div 16) mod 16 ^ k"
  if "z \<longrightarrow> acc = 0"
  using that
proof (induction k arbitrary: acc z)
  case 0
  then show ?case by simp
next
  case (Suc k)
  let ?d = "drop_bit (4 * Suc k) n AND 0xF"
  let ?q = "unat n div 16"
  have d: "unat ?d = ?q div 16 ^ k mod 16"
    by (simp only: unat_nibble power_mult div_mult2_eq [symmetric]) simp
  have split: "?q mod 16 ^ Suc k = 16 ^ k * (?q div 16 ^ k mod 16) + ?q mod 16 ^ k"
    by (simp add: mod_mult2_eq [symmetric] mult.commute)
  have nib: "hex_nibble (hex_char8 (ucast ?d)) = unat ?d"
    by (simp only: hex_char_nibble) (rule hex_nibble_char [OF nibble_less])
  show ?case
  proof (cases "?d = 0 \<and> z")
    case True
    then have "?q div 16 ^ k mod 16 = 0" using d by simp
    with split have "?q mod 16 ^ Suc k = ?q mod 16 ^ k" by simp
    with True Suc.IH [of True acc] Suc.prems show ?thesis
      by (simp del: power_Suc mult_Suc_right)
  next
    case False
    then have cond: "\<not> ((ucast ?d :: u8) = 0 \<and> z)" by (simp only: ucast_nibble_0) simp
    have "foldl hex_step acc (hex_loop (nibbles_from (Suc k)) n z)
        = foldl hex_step (hex_step acc (hex_char8 (ucast ?d))) (hex_loop (nibbles_from k) n False)"
      by (simp only: nibbles_from.simps hex_loop.simps Let_def cond if_False foldl_Cons)
    also have "\<dots> = (16 * acc + unat ?d) * 16 ^ k + ?q mod 16 ^ k"
      by (simp only: Suc.IH [of False, simplified] hex_step_def nib)
    also have "\<dots> = acc * 16 ^ Suc k + ?q mod 16 ^ Suc k"
      unfolding split d by (simp add: algebra_simps)
    finally show ?thesis
      using Suc.prems by (cases z) (simp_all only: simp_thms if_True if_False mult_zero_left mult_1_right)
  qed
qed

lemma hex_loop_value_0: "foldl hex_step 0 (hex_loop (nibbles_from k) n True) = (unat n div 16) mod 16 ^ k"
  using hex_loop_value [of True 0 k n] by simp

lemma nibbles_7: "[28, 24, 20, 16, 12, 8, 4] = nibbles_from 7"
  by (simp add: numeral_eq_Suc)

lemma hex_value_u32_to_hex: "hex_value (drop 2 (u32_to_hex n)) = unat n"
proof -
  have "unat n div 16 < 16 ^ 7" using unat_u32_less [of n] by (simp add: less_mult_imp_div_less)
  then have "foldl hex_step 0 (hex_loop (nibbles_from 7) n True) = unat n div 16"
    by (simp add: hex_loop_value_0)
  moreover have "hex_nibble (hex_char8 (ucast (n AND 0xF))) = unat n mod 16"
    using hex_nibble_char [OF nibble_less [of n]] unat_nibble [of 0 n] by (simp add: hex_char_nibble)
  ultimately show ?thesis
    unfolding u32_to_hex_def nibbles_7 hex_value_step
    by (simp add: lit_def hex_step_def)
qed

lemma hex_loop_length: "length (hex_loop is n z) \<le> length is"
  by (induction "is" n z rule: hex_loop.induct) (auto simp: Let_def le_SucI)

lemma u32_to_hex_length: "length (u32_to_hex n) \<le> 10"
  using hex_loop_length [of "[28, 24, 20, 16, 12, 8, 4]" n True] by (simp add: u32_to_hex_def lit_def)

section \<open>Decimal\<close>

lemma char_digit_value:
  assumes "0 < acc"
  shows "unat (word_of_int (0x30 + acc mod 10) :: u8) = 48 + nat (acc mod 10)"
proof -
  have bounds: "0 \<le> acc mod 10" "acc mod 10 < 10" by simp_all
  have "unat (word_of_int (0x30 + acc mod 10) :: u8) = nat ((0x30 + acc mod 10) mod 256)"
    by (simp only: unat_eq_nat_uint uint_word_of_int) simp
  also have "(0x30 + acc mod 10) mod 256 = 0x30 + acc mod 10"
    using bounds by (intro mod_pos_pos_trivial) simp_all
  finally show ?thesis using bounds by (simp only: nat_add_distrib) simp
qed

lemma char_digits_value: "0 \<le> acc \<Longrightarrow> dec_value (rev (char_digits acc)) = nat acc"
proof (induction acc rule: char_digits.induct)
  case (1 acc)
  show ?case
  proof (cases "0 < acc")
    case True
    then have "dec_value (rev (char_digits (acc div 10))) = nat (acc div 10)"
      by (intro "1.IH") auto
    with True have "dec_value (rev (char_digits acc)) = 10 * nat (acc div 10) + nat (acc mod 10)"
      by (simp add: char_digits.simps [of acc] dec_value_def char_digit_value del: of_int_add)
    also have "\<dots> = nat acc" using True by (simp add: nat_div_distrib nat_mod_distrib)
    finally show ?thesis .
  next
    case False
    then show ?thesis by (simp add: char_digits.simps [of acc] dec_value_def "1.prems")
  qed
qed

lemma char_digits_nonpos: "acc \<le> 0 \<Longrightarrow> char_digits acc = []"
  by (subst char_digits.simps) simp

lemma sint_low_byte:
  "sint (ucast (n :: u32) :: u8) = (if unat n mod 256 < 128 then int (unat n mod 256)
      else int (unat n mod 256) - 256)"
proof -
  have "unat (ucast n :: u8) = unat n mod 256"
    by (simp add: unsigned_ucast_eq take_bit_eq_mod)
  moreover have "sint w = (if unat w < 128 then int (unat w) else int (unat w) - 256)" for w :: u8
  proof -
    have less: "uint w < 2 ^ LENGTH(8)" by (rule unsigned_less)
    have nonneg: "0 \<le> uint w" by simp
    have "odd (x div 128) \<longleftrightarrow> 128 \<le> x" if "0 \<le> x" "x < 256" for x :: int
      using that by presburger
    from this [OF nonneg] less have "bit (uint w) 7 \<longleftrightarrow> 128 \<le> uint w"
      by (simp add: bit_iff_odd)
    moreover have "int (unat w) = uint w" by simp
    then have "128 \<le> uint w \<longleftrightarrow> 128 \<le> unat w" by linarith
    ultimately show ?thesis
      using less by (auto simp: sint_uint signed_take_bit_eq_take_bit_minus take_bit_eq_mod)
  qed
  ultimately show ?thesis by simp
qed

lemma u32_to_dec_value:
  "dec_value (u32_to_dec n) = (if unat n mod 256 < 128 then unat n mod 256 else 0)"
proof (cases "n = 0")
  case True
  then show ?thesis by (simp add: u32_to_dec_def dec_value_def)
next
  case False
  then show ?thesis
    using char_digits_value [of "int (unat n mod 256)"]
    by (auto simp: u32_to_dec_def sint_low_byte char_digits_nonpos) (simp_all add: dec_value_def)
qed

end
