(* ===== verification/Task.thy ===== *)
theory Task
  imports Kheap Descriptor_Tables Printk
begin

text \<open>
  \<open>task.c\<close>: the ready queue, a linked list of task structures in memory, and the operations on
  it. The processor registers a switch saves and loads are part of the state. \<open>read_eip\<close>
  returns the address after the call, an argument here; a task that is switched to comes back
  from it with the dummy value 0x12345 that the switch put in EAX.
\<close>

record tasking = tables +
  current_task :: u32
  ready_queue :: u32
  next_pid :: u32
  initial_esp :: u32
  cpu_esp :: u32
  cpu_ebp :: u32
  cpu_eip :: u32
  cpu_eax :: u32
  tick :: u32

section \<open>The task structure\<close>

definition task_id :: "mem \<Rightarrow> u32 \<Rightarrow> u32" where "task_id m t = read32 m t"
definition task_esp :: "mem \<Rightarrow> u32 \<Rightarrow> u32" where "task_esp m t = read32 m (t + 4)"
definition task_ebp :: "mem \<Rightarrow> u32 \<Rightarrow> u32" where "task_ebp m t = read32 m (t + 8)"
definition task_eip :: "mem \<Rightarrow> u32 \<Rightarrow> u32" where "task_eip m t = read32 m (t + 12)"
definition task_page_directory :: "mem \<Rightarrow> u32 \<Rightarrow> u32" where "task_page_directory m t = read32 m (t + 16)"
definition task_kernel_stack :: "mem \<Rightarrow> u32 \<Rightarrow> u32" where "task_kernel_stack m t = read32 m (t + 20)"
definition task_next :: "mem \<Rightarrow> u32 \<Rightarrow> u32" where "task_next m t = read32 m (t + 24)"

lemmas task_fields =
  task_id_def task_esp_def task_ebp_def task_eip_def task_page_directory_def
  task_kernel_stack_def task_next_def

definition set_task_id :: "u32 \<Rightarrow> u32 \<Rightarrow> mem \<Rightarrow> mem" where "set_task_id t v m = write32 m t v"
definition set_task_esp :: "u32 \<Rightarrow> u32 \<Rightarrow> mem \<Rightarrow> mem" where "set_task_esp t v m = write32 m (t + 4) v"
definition set_task_ebp :: "u32 \<Rightarrow> u32 \<Rightarrow> mem \<Rightarrow> mem" where "set_task_ebp t v m = write32 m (t + 8) v"
definition set_task_eip :: "u32 \<Rightarrow> u32 \<Rightarrow> mem \<Rightarrow> mem" where "set_task_eip t v m = write32 m (t + 12) v"
definition set_task_page_directory :: "u32 \<Rightarrow> u32 \<Rightarrow> mem \<Rightarrow> mem" where
  "set_task_page_directory t v m = write32 m (t + 16) v"
definition set_task_kernel_stack :: "u32 \<Rightarrow> u32 \<Rightarrow> mem \<Rightarrow> mem" where
  "set_task_kernel_stack t v m = write32 m (t + 20) v"
definition set_task_next :: "u32 \<Rightarrow> u32 \<Rightarrow> mem \<Rightarrow> mem" where "set_task_next t v m = write32 m (t + 24) v"

lemmas set_task_fields =
  set_task_id_def set_task_esp_def set_task_ebp_def set_task_eip_def set_task_page_directory_def
  set_task_kernel_stack_def set_task_next_def

definition sizeof_task :: u32 where "sizeof_task = 28"
definition KERNEL_STACK_SIZE :: u32 where "KERNEL_STACK_SIZE = 2048"

section \<open>Moving the stack\<close>

text \<open>
  The loops of \<open>move_stack\<close> count down to \<open>new_stack_start - size\<close> with unsigned counters
  and would not end if that bound were below their step, so they take fuel.
\<close>

primrec map_stack :: "nat \<Rightarrow> nat \<Rightarrow> u32 \<Rightarrow> u32 \<Rightarrow> 'a tasking_scheme \<Rightarrow> 'a tasking_scheme result" where
  "map_stack 0 k lo i s = Inl No_return"
| "map_stack (Suc n) k lo i s =
     (if i \<ge> lo
      then (case get_page (kmalloc_ap k) i True (current_directory s) s of
              Inl e \<Rightarrow> Inl e
            | Inr (page, s1) \<Rightarrow> map_stack n k lo (i - 0x1000) (alloc_frame page 0 1 s1))
      else Inr s)"

primrec relocate_stack :: "nat \<Rightarrow> u32 \<Rightarrow> u32 \<Rightarrow> u32 \<Rightarrow> u32 \<Rightarrow> u32 \<Rightarrow> mem \<Rightarrow> mem result" where
  "relocate_stack 0 lo old_sp hi offset i m = Inl No_return"
| "relocate_stack (Suc n) lo old_sp hi offset i m =
     (if i > lo
      then (let tmp = read32 m i;
                m1 = (if old_sp < tmp \<and> tmp < hi then write32 m i (tmp + offset) else m)
            in relocate_stack n lo old_sp hi offset (i - 4) m1)
      else Inr m)"

definition move_stack :: "nat \<Rightarrow> u32 \<Rightarrow> u32 \<Rightarrow> 'a tasking_scheme \<Rightarrow> 'a tasking_scheme result" where
  "move_stack k new_stack_start sz s =
     rbind (map_stack k k (new_stack_start - sz) new_stack_start s) (\<lambda>s1.
       let old_stack_pointer = cpu_esp s1; old_base_pointer = cpu_ebp s1;
           offset = new_stack_start - initial_esp s1;
           new_stack_pointer = old_stack_pointer + offset;
           new_base_pointer = old_base_pointer + offset;
           s2 = upd_ram (\<lambda>m. memcpy m new_stack_pointer old_stack_pointer
                               (initial_esp s1 - old_stack_pointer)) s1
       in rbind (relocate_stack k (new_stack_start - sz) old_stack_pointer (initial_esp s2) offset
                   new_stack_start (ram s2)) (\<lambda>m.
            Inr (s2\<lparr>ram := m, cpu_esp := new_stack_pointer, cpu_ebp := new_base_pointer\<rparr>)))"

section \<open>Starting tasking\<close>

definition initialise_tasking :: "nat \<Rightarrow> 'a tasking_scheme \<Rightarrow> 'a tasking_scheme result" where
  "initialise_tasking k s =
     rbind (move_stack k 0xE0000000 0x2000 (cli s)) (\<lambda>s1.
     rbind (kmalloc k sizeof_task s1) (\<lambda>(t, s2).
       let s3 = s2\<lparr>current_task := t, ready_queue := t\<rparr>;
           s4 = upd_ram (set_task_id t (next_pid s3)) (s3\<lparr>next_pid := next_pid s3 + 1\<rparr>);
           s5 = upd_ram (set_task_esp t 0 \<circ> set_task_ebp t 0) s4;
           s6 = upd_ram (set_task_eip t 0) s5;
           s7 = upd_ram (set_task_page_directory t (current_directory s6)) s6;
           s8 = upd_ram (set_task_next t 0) s7
       in rbind (kmalloc_a k KERNEL_STACK_SIZE s8) (\<lambda>(ks, s9).
            Inr (sti (upd_ram (set_task_kernel_stack t ks) s9)))))"

section \<open>The queue\<close>

partial_function (option) queue_count_loop :: "mem \<Rightarrow> u32 \<Rightarrow> u32 \<Rightarrow> u32 option" where
  "queue_count_loop m queue n =
     (if task_next m queue \<noteq> 0 then queue_count_loop m (task_next m queue) (n + 1) else Some n)"

definition queue_count :: "mem \<Rightarrow> u32 \<Rightarrow> u32 option" where
  "queue_count m queue = queue_count_loop m queue 1"

definition queue_watcher :: "device \<Rightarrow> 'a tasking_scheme \<Rightarrow> 'a tasking_scheme result" where
  "queue_watcher dev s =
     (case queue_count (ram s) (ready_queue s) of
        None \<Rightarrow> Inl No_return
      | Some n \<Rightarrow> printk dev ''[queue_watcher] %d\<newline>'' [VInt n] s)"

partial_function (option) last_task :: "mem \<Rightarrow> u32 \<Rightarrow> u32 option" where
  "last_task m tmp_task =
     (if task_next m tmp_task \<noteq> 0 then last_task m (task_next m tmp_task) else Some tmp_task)"

section \<open>Switching\<close>

definition save_task :: "u32 \<Rightarrow> u32 \<Rightarrow> u32 \<Rightarrow> u32 \<Rightarrow> mem \<Rightarrow> mem" where
  "save_task t eip esp ebp m = set_task_ebp t ebp (set_task_esp t esp (set_task_eip t eip m))"

definition next_task :: "mem \<Rightarrow> u32 \<Rightarrow> u32 \<Rightarrow> u32" where
  "next_task m rq t = (if task_next m t = 0 then rq else task_next m t)"

definition switch_task :: "u32 \<Rightarrow> 'a tasking_scheme \<Rightarrow> 'a tasking_scheme" where
  "switch_task eip s =
     (if current_task s = 0 then s
      else if eip = 0x12345 then s
      else (let m = save_task (current_task s) eip (cpu_esp s) (cpu_ebp s) (ram s);
                t = next_task m (ready_queue s) (current_task s);
                dir = task_page_directory m t
            in s\<lparr>ram := m, current_task := t, current_directory := dir,
                 cpu_esp := task_esp m t, cpu_ebp := task_ebp m t, cr3 := read32 m (dir + 8192),
                 cpu_eax := 0x12345, int_flag := True, cpu_eip := task_eip m t\<rparr>))"

section \<open>Forking and exiting\<close>

text \<open>
  \<open>fork_link\<close> puts the new task at the end of the ready queue, \<open>make_task\<close> fills in its structure;
  \<open>fork_prepare\<close> is \<open>fork\<close> up to its call of \<open>read_eip\<close>, and the task structure it makes is at the
  address returned.
\<close>

definition fork_link :: "u32 \<Rightarrow> 'a tasking_scheme \<Rightarrow> (u32 \<times> 'a tasking_scheme) result" where
  "fork_link t s =
     (let s1 = upd_ram (set_task_next t 0) s
      in (case last_task (ram s1) (ready_queue s1) of
            None \<Rightarrow> Inl No_return
          | Some tmp_task \<Rightarrow> Inr (t, upd_ram (set_task_next tmp_task t) s1)))"

definition make_task :: "u32 \<Rightarrow> u32 \<Rightarrow> 'a tasking_scheme \<Rightarrow> 'a tasking_scheme" where
  "make_task t directory s2 =
     (let s3 = upd_ram (set_task_id t (next_pid s2)) (s2\<lparr>next_pid := next_pid s2 + 1\<rparr>);
          s4 = upd_ram (set_task_esp t 0 \<circ> set_task_ebp t 0) s3;
          s5 = upd_ram (set_task_eip t 0) s4
      in upd_ram (set_task_page_directory t directory) s5)"

definition fork_prepare :: "nat \<Rightarrow> 'a tasking_scheme \<Rightarrow> (u32 \<times> 'a tasking_scheme) result" where
  "fork_prepare k s0 =
     (let s = cli s0
      in rbind (clone_directory (kmalloc_ap k) (current_directory s) s) (\<lambda>(directory, s1).
         rbind (kmalloc k sizeof_task s1) (\<lambda>(t, s2).
         rbind (kmalloc_a k KERNEL_STACK_SIZE (make_task t directory s2)) (\<lambda>(ks, s7).
           fork_link t (upd_ram (set_task_kernel_stack (current_task s7) ks) s7)))))"

text \<open>What both parent and child do when \<open>read_eip\<close> has returned.\<close>

definition fork_return :: "u32 \<Rightarrow> u32 \<Rightarrow> u32 \<Rightarrow> 'a tasking_scheme \<Rightarrow> u32 \<times> 'a tasking_scheme" where
  "fork_return parent_task new_task eip s =
     (if current_task s = parent_task
      then (let s1 = upd_ram (set_task_esp new_task (cpu_esp s)) s;
                s2 = upd_ram (set_task_ebp new_task (cpu_ebp s1)) s1;
                s3 = upd_ram (set_task_eip new_task eip) s2
            in (task_id (ram s3) new_task, sti s3))
      else (0, sti s))"

definition fork :: "nat \<Rightarrow> u32 \<Rightarrow> 'a tasking_scheme \<Rightarrow> (u32 \<times> 'a tasking_scheme) result" where
  "fork k eip s =
     rbind (fork_prepare k s) (\<lambda>(t, s1). Inr (fork_return (current_task s) t eip s1))"

definition exit_message :: "'a tasking_scheme \<Rightarrow> 'a tasking_scheme" where
  "exit_message s =
     (let s1 = screen_write (lit ''task.c: exiting task: '') s;
          s2 = screen_write_hex (task_id (ram s1) (current_task s1)) s1
      in screen_write [0x0A] s2)"

text \<open>
  The body of the \<open>do\<close> loop of \<open>sys_exit\<close> and the loop itself. \<open>tmp_task\<close> never moves, so the
  loop either ends after its first pass or does not end.
\<close>

definition exit_step :: "u32 \<Rightarrow> 'a tasking_scheme \<Rightarrow> 'a tasking_scheme" where
  "exit_step tmp_task s =
     (let s1 = exit_message s; nxt = task_next (ram s1) (current_task s1)
      in upd_ram (set_task_next tmp_task (if nxt \<noteq> 0 then nxt else 0)) s1)"

primrec exit_loop :: "nat \<Rightarrow> u32 \<Rightarrow> 'a tasking_scheme \<Rightarrow> 'a tasking_scheme result" where
  "exit_loop 0 tmp_task s = Inl No_return"
| "exit_loop (Suc n) tmp_task s =
     (let s1 = exit_step tmp_task s
      in if task_next (ram s1) tmp_task \<noteq> 0 \<and> tmp_task = current_task s1
         then exit_loop n tmp_task s1 else Inr s1)"

definition sys_exit :: "nat \<Rightarrow> u32 \<Rightarrow> 'a tasking_scheme \<Rightarrow> 'a tasking_scheme result" where
  "sys_exit n errno s =
     (let s0 = cli s; tmp_task = ready_queue s0;
          s1 = screen_write (lit ''current_task is exiting: '') s0;
          s2 = screen_write_hex (task_id (ram s1) (current_task s1)) s1;
          s3 = screen_write (lit ''with errno: '') s2;
          s4 = screen_write_dec errno s3;
          s5 = screen_write [0x0A] s4
      in rbind (exit_loop n tmp_task s5) (\<lambda>s6. Inr (sti s6)))"

definition getpid :: "'a tasking_scheme \<Rightarrow> u32" where
  "getpid s = task_id (ram s) (current_task s)"

end
