(* ===== verification/Ring_Buffer.thy ===== *)
theory Ring_Buffer
  imports Kheap Printk
begin

text \<open>
  \<open>ring_buffer.c\<close>: a byte queue in a circular array. A locale states what a bounded queue
  promises and proves that everything run against one behaves like a list; the ring buffer is
  shown to be one as long as nobody reads it when it is empty, which it does not check.
\<close>

section \<open>The buffer and its operations\<close>

definition rb_head :: "mem \<Rightarrow> u32 \<Rightarrow> u32" where "rb_head m b = read32 m b"
definition rb_tail :: "mem \<Rightarrow> u32 \<Rightarrow> u32" where "rb_tail m b = read32 m (b + 4)"
definition rb_count :: "mem \<Rightarrow> u32 \<Rightarrow> u32" where "rb_count m b = read32 m (b + 8)"
definition rb_size :: "mem \<Rightarrow> u32 \<Rightarrow> u32" where "rb_size m b = read32 m (b + 12)"
definition rb_data :: "mem \<Rightarrow> u32 \<Rightarrow> u32" where "rb_data m b = read32 m (b + 16)"

lemmas rb_fields = rb_head_def rb_tail_def rb_count_def rb_size_def rb_data_def

definition sizeof_ring_buffer :: u32 where "sizeof_ring_buffer = 20"

definition ring_buffer_create :: "nat \<Rightarrow> u32 \<Rightarrow> 'a kernel_scheme \<Rightarrow> (u32 \<times> 'a kernel_scheme) result" where
  "ring_buffer_create k sz s =
     rbind (kmalloc k sizeof_ring_buffer s) (\<lambda>(b, s1).
       let s2 = upd_ram (\<lambda>m. write32 (write32 (write32 (write32 m (b + 12) sz) (b + 8) 0) b 0) (b + 4) 0) s1
       in rbind (kmalloc k sz s2) (\<lambda>(d, s3). Inr (b, upd_ram (\<lambda>m. write32 m (b + 16) d) s3)))"

text \<open>The effect of a read on memory, for a buffer whose size is not zero.\<close>

definition rb_take :: "u32 \<Rightarrow> mem \<Rightarrow> u8 \<times> mem" where
  "rb_take b m =
     (let old_head = rb_head m b;
          item = m (rb_data m b + old_head);
          new_head = (old_head + 1) mod rb_size m b;
          m1 = write32 m b new_head
      in (item, write32 m1 (b + 8) (rb_count m1 b - 1)))"

definition ring_buffer_read :: "u32 \<Rightarrow> mem \<Rightarrow> (u8 \<times> mem) result" where
  "ring_buffer_read b m = (if rb_size m b = 0 then Inl Divide_error else Inr (rb_take b m))"

definition rb_store :: "u32 \<Rightarrow> u8 \<Rightarrow> mem \<Rightarrow> mem" where
  "rb_store b item m =
     (let new_tail = (rb_tail m b + 1) mod rb_size m b;
          m1 = m(rb_data m b + rb_tail m b := item);
          m2 = write32 m1 (b + 4) new_tail
      in write32 m2 (b + 8) (rb_count m2 b + 1))"

definition rb_put :: "u32 \<Rightarrow> u8 \<Rightarrow> mem \<Rightarrow> mem" where
  "rb_put b item m = (if rb_count m b < rb_size m b then rb_store b item m else m)"

definition ring_buffer_write ::
    "device \<Rightarrow> u32 \<Rightarrow> u8 \<Rightarrow> 'a screen_scheme \<Rightarrow> 'a screen_scheme result" where
  "ring_buffer_write dev b item s =
     (if rb_count (ram s) b < rb_size (ram s) b
      then (let s1 = s\<lparr>ram := rb_store b item (ram s)\<rparr>; m = ram s1
            in printk dev ''buffer count: %d, size: %d, head: %d, tail: %d\<newline>''
                 [VInt (rb_count m b), VInt (rb_size m b), VInt (rb_head m b), VInt (rb_tail m b)] s1)
      else printk dev ''write to ring_buffer %x dropped: won't overwrite head.\<newline>'' [VInt b] s)"

section \<open>Bounded queues\<close>

datatype 'e queue_op = Put 'e | Get

primrec run_queue :: "('e \<Rightarrow> 'q \<Rightarrow> 'q) \<Rightarrow> ('q \<Rightarrow> 'e \<times> 'q) \<Rightarrow> 'e queue_op list \<Rightarrow> 'q \<Rightarrow> 'e list \<times> 'q" where
  "run_queue put get [] q = ([], q)"
| "run_queue put get (c # cs) q =
     (case c of
        Put x \<Rightarrow> run_queue put get cs (put x q)
      | Get \<Rightarrow> (let (y, q1) = get q; (ys, q2) = run_queue put get cs q1 in (y # ys, q2)))"

text \<open>
  The list a bounded queue stands for: a put onto a full queue is dropped, a get of an empty
  one is an error (\<open>None\<close>).
\<close>

primrec run_spec :: "nat \<Rightarrow> 'e queue_op list \<Rightarrow> 'e list \<Rightarrow> ('e list \<times> 'e list) option" where
  "run_spec n [] xs = Some ([], xs)"
| "run_spec n (c # cs) xs =
     (case c of
        Put x \<Rightarrow> run_spec n cs (if length xs < n then xs @ [x] else xs)
      | Get \<Rightarrow> (case xs of
                 [] \<Rightarrow> None
               | y # ys \<Rightarrow> (case run_spec n cs ys of None \<Rightarrow> None | Some (out, zs) \<Rightarrow> Some (y # out, zs))))"

text \<open>The items that found room, in the order they were put.\<close>

primrec accepted :: "nat \<Rightarrow> 'e queue_op list \<Rightarrow> nat \<Rightarrow> 'e list" where
  "accepted n [] k = []"
| "accepted n (c # cs) k =
     (case c of
        Put x \<Rightarrow> if k < n then x # accepted n cs (Suc k) else accepted n cs k
      | Get \<Rightarrow> accepted n cs (k - 1))"

lemma run_spec_fifo:
  "run_spec n cs xs = Some (out, zs) \<Longrightarrow> out @ zs = xs @ accepted n cs (length xs)"
proof (induction cs arbitrary: xs out)
  case (Cons c cs)
  show ?case
  proof (cases c)
    case (Put x)
    then show ?thesis using Cons.prems Cons.IH [of "if length xs < n then xs @ [x] else xs" out]
      by (auto split: if_splits)
  next
    case Get
    then obtain y ys o' where "xs = y # ys" "run_spec n cs ys = Some (o', zs)" "out = y # o'"
      using Cons.prems by (auto split: list.splits option.splits)
    then show ?thesis using Cons.IH [of ys o'] Get by simp
  qed
qed simp

locale bounded_queue =
  fixes contents :: "'q \<Rightarrow> 'e list"
    and capacity :: nat
    and valid :: "'q \<Rightarrow> bool"
    and put :: "'e \<Rightarrow> 'q \<Rightarrow> 'q"
    and get :: "'q \<Rightarrow> 'e \<times> 'q"
  assumes put_room: "valid q \<Longrightarrow> length (contents q) < capacity \<Longrightarrow>
      contents (put x q) = contents q @ [x] \<and> valid (put x q)"
    and put_full: "valid q \<Longrightarrow> \<not> length (contents q) < capacity \<Longrightarrow> put x q = q"
    and get_head: "valid q \<Longrightarrow> contents q = y # ys \<Longrightarrow>
      \<exists>q'. get q = (y, q') \<and> contents q' = ys \<and> valid q'"
begin

lemma run_refines:
  assumes "valid q" and "run_spec capacity cs (contents q) = Some (out, zs)"
  shows "\<exists>q'. run_queue put get cs q = (out, q') \<and> contents q' = zs \<and> valid q'"
  using assms
proof (induction cs arbitrary: q out)
  case (Cons c cs)
  show ?case
  proof (cases c)
    case (Put x)
    show ?thesis
    proof (cases "length (contents q) < capacity")
      case True
      with Put Cons.prems put_room [OF Cons.prems(1) True, of x] Cons.IH [of "put x q" out]
      show ?thesis by simp
    next
      case False
      with Put Cons.prems put_full [OF Cons.prems(1) False, of x] Cons.IH [of q out]
      show ?thesis by simp
    qed
  next
    case Get
    then obtain y ys o' where x: "contents q = y # ys" "run_spec capacity cs ys = Some (o', zs)" "out = y # o'"
      using Cons.prems by (auto split: list.splits option.splits)
    obtain q1 where "get q = (y, q1)" "contents q1 = ys" "valid q1"
      using get_head [OF Cons.prems(1) x(1)] by blast
    with Get x Cons.IH [of q1 o'] show ?thesis by auto
  qed
qed simp

lemma run_fifo:
  assumes "valid q" and "run_spec capacity cs (contents q) = Some (out, zs)"
    and "run_queue put get cs q = (out', q')"
  shows "out' @ contents q' = contents q @ accepted capacity cs (length (contents q))"
  using run_refines [OF assms(1,2)] run_spec_fifo [OF assms(2)] assms(3) by auto

end

section \<open>The ring buffer as a bounded queue\<close>

text \<open>The structure at \<open>b\<close> and its \<open>n\<close> data bytes are in the address space and do not overlap.\<close>

definition rb_valid :: "u32 \<Rightarrow> nat \<Rightarrow> mem \<Rightarrow> bool" where
  "rb_valid b n m \<longleftrightarrow>
     0 < n \<and> unat (rb_size m b) = n \<and> unat (rb_head m b) < n \<and> unat (rb_count m b) \<le> n
   \<and> unat (rb_tail m b) = (unat (rb_head m b) + unat (rb_count m b)) mod n
   \<and> unat b + 20 \<le> 2 ^ 32 \<and> unat (rb_data m b) + n \<le> 2 ^ 32
   \<and> (unat b + 20 \<le> unat (rb_data m b) \<or> unat (rb_data m b) + n \<le> unat b)"

definition rb_list :: "u32 \<Rightarrow> nat \<Rightarrow> mem \<Rightarrow> u8 list" where
  "rb_list b n m =
     map (\<lambda>i. m (rb_data m b + word_of_nat ((unat (rb_head m b) + i) mod n))) [0..<unat (rb_count m b)]"

lemma length_rb_list [simp]: "length (rb_list b n m) = unat (rb_count m b)"
  by (simp add: rb_list_def)

lemma rb_addr:
  fixes b :: u32
  assumes "unat b + 20 \<le> 2 ^ 32"
  shows "unat (b + 4) = unat b + 4" and "unat (b + 8) = unat b + 8"
    and "unat (b + 12) = unat b + 12" and "unat (b + 16) = unat b + 16"
  using assms by (simp_all add: unat_add_numeral)

lemma rb_field_write:
  fixes b :: u32
  assumes "unat b + 20 \<le> 2 ^ 32"
  shows "rb_head (write32 m (b + 8) v) b = rb_head m b" "rb_tail (write32 m (b + 8) v) b = rb_tail m b"
    "rb_count (write32 m (b + 8) v) b = v" "rb_size (write32 m (b + 8) v) b = rb_size m b"
    "rb_data (write32 m (b + 8) v) b = rb_data m b"
    "rb_head (write32 m (b + 4) v) b = rb_head m b" "rb_tail (write32 m (b + 4) v) b = v"
    "rb_count (write32 m (b + 4) v) b = rb_count m b" "rb_size (write32 m (b + 4) v) b = rb_size m b"
    "rb_data (write32 m (b + 4) v) b = rb_data m b"
    "rb_head (write32 m b v) b = v" "rb_tail (write32 m b v) b = rb_tail m b"
    "rb_count (write32 m b v) b = rb_count m b" "rb_size (write32 m b v) b = rb_size m b"
    "rb_data (write32 m b v) b = rb_data m b"
  using assms rb_addr [OF assms] unfolding rb_fields by (simp_all add: read32_write32_nat)

lemma rb_field_data_write:
  fixes b :: u32
  assumes "unat b + 20 \<le> 2 ^ 32" and "unat b + 20 \<le> unat x \<or> unat x + 1 \<le> unat b"
  shows "rb_head (m(x := v)) b = rb_head m b" "rb_tail (m(x := v)) b = rb_tail m b"
    "rb_count (m(x := v)) b = rb_count m b" "rb_size (m(x := v)) b = rb_size m b"
    "rb_data (m(x := v)) b = rb_data m b"
  unfolding rb_fields
  by (rule read32_same_outside [OF same_outside_upd], use assms rb_addr [OF assms(1)] in auto)+

lemma rb_write_data:
  fixes b :: u32
  assumes "unat b + 20 \<le> 2 ^ 32" and "unat b + 20 \<le> unat x \<or> unat x + 1 \<le> unat b"
  shows "write32 m (b + 8) v x = m x" "write32 m (b + 4) v x = m x" "write32 m b v x = m x"
  using same_outside_write32 [of "b + 8" m v] same_outside_write32 [of "b + 4" m v]
    same_outside_write32 [of b m v] rb_addr [OF assms(1)] assms
  by (auto simp: same_outside_def in_region_def)

lemma rb_data_addr:
  assumes "rb_valid b n m" and "i < n"
  shows "unat (rb_data m b + word_of_nat i) = unat (rb_data m b) + i"
  using assms by (intro unat_add_small) (auto simp: rb_valid_def)

lemma rb_data_off_struct:
  assumes "rb_valid b n m" and "i < n"
  shows "unat b + 20 \<le> unat (rb_data m b + word_of_nat i)
    \<or> unat (rb_data m b + word_of_nat i) + 1 \<le> unat b"
  using assms rb_data_addr [OF assms] by (auto simp: rb_valid_def)

lemma unat_mod_add:
  fixes h z :: u32
  assumes "unat h < unat z"
  shows "unat ((h + 1) mod z) = (unat h + 1) mod unat z"
proof -
  have "unat h + 1 < 2 ^ 32" using assms unat_u32_less [of z] by simp
  then have "unat (h + 1) = unat h + 1" by (rule unat_add_one)
  then show ?thesis by (simp add: unat_mod_distrib)
qed

lemma rb_take_valid:
  assumes "rb_valid b n m" and "rb_list b n m = y # ys"
  shows "\<exists>m'. rb_take b m = (y, m') \<and> rb_list b n m' = ys \<and> rb_valid b n m'"
proof -
  let ?h = "rb_head m b" and ?c = "rb_count m b" and ?d = "rb_data m b"
  have b: "unat b + 20 \<le> 2 ^ 32" and n: "0 < n" "unat (rb_size m b) = n" "unat ?h < n"
    using assms(1) by (auto simp: rb_valid_def)
  have c: "unat ?c = Suc (length ys)" using assms(2) by (metis length_Cons length_rb_list)
  have c1: "unat (?c - 1) = length ys" using c by (subst unat_pred) auto
  define m1 where "m1 = write32 m b ((?h + 1) mod rb_size m b)"
  define m' where "m' = write32 m1 (b + 8) (?c - 1)"
  have take: "rb_take b m = (m (?d + ?h), m')"
    by (simp add: rb_take_def Let_def m'_def m1_def rb_field_write [OF b])
  have f: "rb_head m' b = (?h + 1) mod rb_size m b" "rb_tail m' b = rb_tail m b"
    "rb_count m' b = ?c - 1" "rb_size m' b = rb_size m b" "rb_data m' b = ?d"
    by (simp_all add: m'_def m1_def rb_field_write [OF b])
  have h': "unat (rb_head m' b) = (unat ?h + 1) mod n"
    using f(1) unat_mod_add [of ?h "rb_size m b"] n by simp
  have data: "m' (?d + word_of_nat i) = m (?d + word_of_nat i)" if "i < n" for i
    using rb_write_data [OF b rb_data_off_struct [OF assms(1) that]] by (simp add: m'_def m1_def)
  have nth: "(y # ys) ! i = m (?d + word_of_nat ((unat ?h + i) mod n))" if "i < Suc (length ys)" for i
  proof -
    have "(y # ys) ! i = rb_list b n m ! i" using assms(2) by simp
    then show ?thesis using that c by (simp add: rb_list_def del: upt_Suc)
  qed
  have "y = m (?d + ?h)" using nth [of 0] n by simp
  moreover have "rb_list b n m' = ys"
  proof (rule nth_equalityI)
    fix i assume "i < length (rb_list b n m')"
    then have i: "i < length ys" using c1 f by simp
    have "rb_list b n m' ! i = m' (?d + word_of_nat (((unat ?h + 1) mod n + i) mod n))"
      using i c1 f h' by (simp add: rb_list_def)
    also have "((unat ?h + 1) mod n + i) mod n = (unat ?h + Suc i) mod n"
      by (simp add: mod_add_left_eq)
    also have "m' (?d + word_of_nat ((unat ?h + Suc i) mod n)) = ys ! i"
      using data [of "(unat ?h + Suc i) mod n"] nth [of "Suc i"] n(1) i by simp
    finally show "rb_list b n m' ! i = ys ! i" .
  qed (use c1 f in simp)
  moreover have "rb_valid b n m'"
  proof -
    have "unat (rb_tail m b) = (unat ?h + unat ?c) mod n" using assms(1) by (simp add: rb_valid_def)
    also have "unat ?h + unat ?c = (unat ?h + 1) + length ys" using c by simp
    also have "\<dots> mod n = ((unat ?h + 1) mod n + length ys) mod n" by (rule mod_add_left_eq [symmetric])
    finally show ?thesis
      using assms(1) f h' c c1 n by (auto simp: rb_valid_def)
  qed
  ultimately show ?thesis using take by blast
qed

lemma rb_put_valid:
  assumes "rb_valid b n m" and "length (rb_list b n m) < n"
  shows "rb_list b n (rb_put b x m) = rb_list b n m @ [x] \<and> rb_valid b n (rb_put b x m)"
proof -
  let ?h = "rb_head m b" and ?c = "rb_count m b" and ?d = "rb_data m b" and ?t = "rb_tail m b"
  have b: "unat b + 20 \<le> 2 ^ 32" and n: "0 < n" "unat (rb_size m b) = n" "unat ?h < n"
    and t: "unat ?t = (unat ?h + unat ?c) mod n"
    using assms(1) by (auto simp: rb_valid_def)
  have c: "unat ?c < n" using assms(2) by simp
  have c1: "unat (?c + 1) = Suc (unat ?c)"
    using c n unat_u32_less [of "rb_size m b"] unat_add_one [of ?c] by simp
  have tn: "unat ?t < n" using t n by simp
  have off: "unat b + 20 \<le> unat (?d + ?t) \<or> unat (?d + ?t) + 1 \<le> unat b"
    using rb_data_off_struct [OF assms(1) tn] by simp
  define m' where "m' = rb_put b x m"
  have m': "m' = write32 (write32 (m(?d + ?t := x)) (b + 4) ((?t + 1) mod rb_size m b)) (b + 8) (?c + 1)"
    using c n by (simp add: m'_def rb_put_def rb_store_def Let_def word_less_nat_alt rb_field_write [OF b]
        rb_field_data_write [OF b off] del: fun_upd_apply)
  have f: "rb_head m' b = ?h" "rb_tail m' b = (?t + 1) mod rb_size m b"
    "rb_count m' b = ?c + 1" "rb_size m' b = rb_size m b" "rb_data m' b = ?d"
    by (simp_all add: m' rb_field_write [OF b] rb_field_data_write [OF b off] del: fun_upd_apply)
  have t': "unat (rb_tail m' b) = (unat ?t + 1) mod n"
    using f(2) unat_mod_add [of ?t "rb_size m b"] tn n by simp
  have data: "m' (?d + word_of_nat i) = (if i = unat ?t then x else m (?d + word_of_nat i))" if "i < n" for i
  proof -
    have "?d + word_of_nat i = ?d + ?t \<longleftrightarrow> i = unat ?t"
      using rb_data_addr [OF assms(1) that] rb_data_addr [OF assms(1) tn] by auto
    then show ?thesis
      using rb_write_data [OF b rb_data_off_struct [OF assms(1) that]] by (simp add: m')
  qed
  have new: "(unat ?h + i) mod n \<noteq> unat ?t" if "i < unat ?c" for i
  proof
    assume "(unat ?h + i) mod n = unat ?t"
    then have "(unat ?h + i) mod n = (unat ?h + unat ?c) mod n" using t by simp
    then have "n dvd (unat ?h + unat ?c) - (unat ?h + i)" using mod_eq_dvd_iff_nat [of "unat ?h + i" "unat ?h + unat ?c" n] that by simp
    then show False using that c by (auto dest: dvd_imp_le)
  qed
  have "rb_list b n m' = rb_list b n m @ [x]"
    using f c1 data new t n by (simp add: rb_list_def)
  moreover have "rb_valid b n m'"
  proof -
    have "(unat ?t + 1) mod n = (unat ?h + Suc (unat ?c)) mod n"
      using t by (metis Suc_eq_plus1 add_Suc_right mod_Suc_eq)
    then show ?thesis using assms(1) f t' c c1 by (simp add: rb_valid_def)
  qed
  ultimately show ?thesis by (simp add: m'_def)
qed

interpretation rb: bounded_queue "rb_list b n" n "rb_valid b n" "rb_put b" "rb_take b" for b n
proof
  fix m x
  assume valid: "rb_valid b n m"
  show "length (rb_list b n m) < n \<Longrightarrow> rb_list b n (rb_put b x m) = rb_list b n m @ [x] \<and> rb_valid b n (rb_put b x m)"
    using valid by (rule rb_put_valid)
  show "\<not> length (rb_list b n m) < n \<Longrightarrow> rb_put b x m = m"
    using valid by (simp add: rb_put_def rb_valid_def word_less_nat_alt)
next
  fix m y ys
  assume "rb_valid b n m" "rb_list b n m = y # ys"
  then show "\<exists>m'. rb_take b m = (y, m') \<and> rb_list b n m' = ys \<and> rb_valid b n m'"
    by (rule rb_take_valid)
qed

end
