(* ===== verification/Fs.thy ===== *)
theory Fs
  imports Task Ring_Buffer
begin

text \<open>
  \<open>fs.c\<close> and \<open>devfs.c\<close>: file system nodes, structures in memory that carry pointers to the
  functions of their file system, and the calls that go through those pointers. What a call
  through a pointer does is the argument \<open>call\<close>; theory \<open>Vfs\<close> supplies it.
\<close>

record filesystem = tasking +
  fs_root :: u32
  devfs :: u32
  devfs_keyboard :: u32
  initrd_header :: u32
  file_headers :: u32
  initrd_root :: u32
  initrd_dev :: u32
  root_nodes :: u32
  nroot_nodes :: u32

section \<open>Nodes\<close>

definition FS_FILE :: u32 where "FS_FILE = 0x01"
definition FS_DIRECTORY :: u32 where "FS_DIRECTORY = 0x02"
definition FS_CHARDEVICE :: u32 where "FS_CHARDEVICE = 0x03"

text \<open>
  \<open>fs_node_t\<close>: 255 bytes of name and one of padding, then words. \<open>sizeof\<close> is 316.
\<close>

definition sizeof_fs_node :: u32 where "sizeof_fs_node = 316"

definition node_field :: "u32 \<Rightarrow> mem \<Rightarrow> u32 \<Rightarrow> u32" where
  "node_field off m node = read32 m (node + off)"
definition set_node_field :: "u32 \<Rightarrow> u32 \<Rightarrow> u32 \<Rightarrow> mem \<Rightarrow> mem" where
  "set_node_field off node v m = write32 m (node + off) v"

definition n_mask :: u32 where "n_mask = 256"
definition n_uid :: u32 where "n_uid = 260"
definition n_gid :: u32 where "n_gid = 264"
definition n_flags :: u32 where "n_flags = 268"
definition n_inode :: u32 where "n_inode = 272"
definition n_length :: u32 where "n_length = 276"
definition n_impl :: u32 where "n_impl = 280"
definition n_buffer :: u32 where "n_buffer = 284"
definition n_read :: u32 where "n_read = 288"
definition n_write :: u32 where "n_write = 292"
definition n_open :: u32 where "n_open = 296"
definition n_close :: u32 where "n_close = 300"
definition n_readdir :: u32 where "n_readdir = 304"
definition n_finddir :: u32 where "n_finddir = 308"
definition n_ptr :: u32 where "n_ptr = 312"

lemmas node_offsets =
  n_mask_def n_uid_def n_gid_def n_flags_def n_inode_def n_length_def n_impl_def n_buffer_def
  n_read_def n_write_def n_open_def n_close_def n_readdir_def n_finddir_def n_ptr_def

section \<open>Dispatch\<close>

type_synonym 'a io_call =
  "u32 \<Rightarrow> u32 \<Rightarrow> u32 \<Rightarrow> u32 \<Rightarrow> u32 \<Rightarrow> 'a filesystem_scheme \<Rightarrow> (u32 \<times> 'a filesystem_scheme) result"
type_synonym 'a node_call = "u32 \<Rightarrow> u32 \<Rightarrow> 'a filesystem_scheme \<Rightarrow> 'a filesystem_scheme result"
type_synonym 'a dir_call =
  "u32 \<Rightarrow> u32 \<Rightarrow> u32 \<Rightarrow> 'a filesystem_scheme \<Rightarrow> (u32 \<times> 'a filesystem_scheme) result"

definition read_fs ::
    "'a io_call \<Rightarrow> u32 \<Rightarrow> u32 \<Rightarrow> u32 \<Rightarrow> u32 \<Rightarrow> 'a filesystem_scheme \<Rightarrow> (u32 \<times> 'a filesystem_scheme) result" where
  "read_fs call node offset sz buffer s =
     (if node_field n_read (ram s) node \<noteq> 0
      then call (node_field n_read (ram s) node) node offset sz buffer s else Inr (0, s))"

definition write_fs ::
    "'a io_call \<Rightarrow> u32 \<Rightarrow> u32 \<Rightarrow> u32 \<Rightarrow> u32 \<Rightarrow> 'a filesystem_scheme \<Rightarrow> (u32 \<times> 'a filesystem_scheme) result" where
  "write_fs call node offset sz buffer s =
     (if node_field n_write (ram s) node \<noteq> 0
      then call (node_field n_write (ram s) node) node offset sz buffer s else Inr (0, s))"

definition write_fs_byte :: "u32 \<Rightarrow> u32 \<Rightarrow> u8 \<Rightarrow> u32" where
  "write_fs_byte node offset val = 0"

definition open_fs :: "'a node_call \<Rightarrow> u32 \<Rightarrow> u8 \<Rightarrow> u8 \<Rightarrow> 'a filesystem_scheme \<Rightarrow> 'a filesystem_scheme result" where
  "open_fs call node rd wr s =
     (if node_field n_open (ram s) node \<noteq> 0
      then call (node_field n_open (ram s) node) node s else Inr s)"

definition close_fs :: "'a node_call \<Rightarrow> u32 \<Rightarrow> 'a filesystem_scheme \<Rightarrow> 'a filesystem_scheme result" where
  "close_fs call node s =
     (if node_field n_close (ram s) node \<noteq> 0
      then call (node_field n_close (ram s) node) node s else Inr s)"

definition is_directory :: "mem \<Rightarrow> u32 \<Rightarrow> bool" where
  "is_directory m node = (node_field n_flags m node AND 0x7 = FS_DIRECTORY)"

definition readdir_fs ::
    "'a dir_call \<Rightarrow> u32 \<Rightarrow> u32 \<Rightarrow> 'a filesystem_scheme \<Rightarrow> (u32 \<times> 'a filesystem_scheme) result" where
  "readdir_fs call node idx s =
     (if is_directory (ram s) node \<and> node_field n_readdir (ram s) node \<noteq> 0
      then call (node_field n_readdir (ram s) node) node idx s else Inr (0, s))"

definition finddir_fs ::
    "'a dir_call \<Rightarrow> u32 \<Rightarrow> u32 \<Rightarrow> 'a filesystem_scheme \<Rightarrow> (u32 \<times> 'a filesystem_scheme) result" where
  "finddir_fs call node nm s =
     (if is_directory (ram s) node \<and> node_field n_finddir (ram s) node \<noteq> 0
      then call (node_field n_finddir (ram s) node) node nm s else Inr (0, s))"

definition devfs_keyboard_attach :: "u32 \<Rightarrow> 'a filesystem_scheme \<Rightarrow> 'a filesystem_scheme" where
  "devfs_keyboard_attach kbd s = s\<lparr>devfs_keyboard := kbd\<rparr>"

section \<open>Strings copied in the state\<close>

definition strcpy_st :: "u32 \<Rightarrow> u32 \<Rightarrow> 'a machine_scheme \<Rightarrow> 'a machine_scheme result" where
  "strcpy_st dest src s =
     (case strcpy (ram s) dest src of None \<Rightarrow> Inl No_return | Some (m, _) \<Rightarrow> Inr (s\<lparr>ram := m\<rparr>))"

end
