(* ===== verification/Initrd.thy ===== *)
theory Initrd
  imports Fs
begin

text \<open>
  \<open>initrd.c\<close>: the initial ramdisk, an image in memory with a file count and a table of file
  headers, presented as a directory of nodes. The addresses of the string constants, of the
  static \<open>dirent\<close> and of the functions whose pointers go into nodes are the linker's.
\<close>

record fs_link =
  str_dev :: u32
  str_initrd :: u32
  str_keyboard :: u32
  at_dirent :: u32
  fn_initrd_read :: u32
  fn_initrd_readdir :: u32
  fn_initrd_finddir :: u32
  fn_keyboard_read :: u32
  fn_keyboard_write :: u32
  fn_keyboard_selftest :: u32

text \<open>
  \<open>initrd_file_header_t\<close>: the magic byte, 64 bytes of name, three of padding, the offset and
  the length; \<open>sizeof\<close> is 76. \<open>struct dirent\<close>: 128 bytes of name, the inode number.
\<close>

definition fh_at :: "u32 \<Rightarrow> u32 \<Rightarrow> u32" where "fh_at base i = base + 76 * i"
definition fh_name :: "u32 \<Rightarrow> u32" where "fh_name h = h + 1"
definition fh_offset :: "mem \<Rightarrow> u32 \<Rightarrow> u32" where "fh_offset m h = read32 m (h + 68)"
definition fh_length :: "mem \<Rightarrow> u32 \<Rightarrow> u32" where "fh_length m h = read32 m (h + 72)"
definition node_at :: "u32 \<Rightarrow> u32 \<Rightarrow> u32" where "node_at base i = base + sizeof_fs_node * i"

definition initrd_read ::
    "u32 \<Rightarrow> u32 \<Rightarrow> u32 \<Rightarrow> u32 \<Rightarrow> 'a filesystem_scheme \<Rightarrow> u32 \<times> 'a filesystem_scheme" where
  "initrd_read node offset sz buffer s =
     (let h = fh_at (file_headers s) (node_field n_inode (ram s) node);
          len = fh_length (ram s) h; start = fh_offset (ram s) h
      in if offset > len then (0, s)
         else (let sz = (if offset + sz > len then len - offset else sz)
               in (sz, upd_ram (\<lambda>m. memcpy m buffer (start + offset) sz) s)))"

definition initrd_readdir ::
    "fs_link \<Rightarrow> u32 \<Rightarrow> u32 \<Rightarrow> 'a filesystem_scheme \<Rightarrow> (u32 \<times> 'a filesystem_scheme) result" where
  "initrd_readdir lk node idx s =
     (if node = initrd_root s \<and> idx = 0
      then rbind (strcpy_st (at_dirent lk) (str_dev lk) s) (\<lambda>s1.
             Inr (at_dirent lk,
               upd_ram (\<lambda>m. write32 (m(at_dirent lk + 3 := 0)) (at_dirent lk + 128) 0) s1))
      else if idx - 1 \<ge> nroot_nodes s then Inr (0, s)
      else (let f = node_at (root_nodes s) (idx - 1)
            in rbind (strcpy_st (at_dirent lk) f s) (\<lambda>s1.
                 case strlen (ram s1) f of
                   None \<Rightarrow> Inl No_return
                 | Some n \<Rightarrow>
                     (let s2 = upd_ram (\<lambda>m. m(at_dirent lk + n := 0)) s1
                      in Inr (at_dirent lk, upd_ram (\<lambda>m. write32 m (at_dirent lk + 128)
                                (node_field n_inode m f)) s2)))))"

fun find_node :: "mem \<Rightarrow> u32 \<Rightarrow> u32 \<Rightarrow> nat list \<Rightarrow> u32 result" where
  "find_node m nm base [] = Inr 0"
| "find_node m nm base (i # is) =
     (case strcmp m nm (node_at base (word_of_nat i)) of
        None \<Rightarrow> Inl No_return
      | Some r \<Rightarrow> if r = 0 then Inr (node_at base (word_of_nat i)) else find_node m nm base is)"

definition initrd_finddir :: "fs_link \<Rightarrow> u32 \<Rightarrow> u32 \<Rightarrow> 'a filesystem_scheme \<Rightarrow> u32 result" where
  "initrd_finddir lk node nm s =
     (let search = find_node (ram s) nm (root_nodes s) [0..<unat (nroot_nodes s)]
      in if node = initrd_root s
         then (case strcmp (ram s) nm (str_dev lk) of
                 None \<Rightarrow> Inl No_return
               | Some r \<Rightarrow> if r = 0 then Inr (initrd_dev s) else search)
         else search)"

section \<open>Building the nodes\<close>

definition set_fields :: "u32 \<Rightarrow> (u32 \<times> u32) list \<Rightarrow> mem \<Rightarrow> mem" where
  "set_fields node fvs = fold (\<lambda>(off, v). set_node_field off node v) fvs"

definition init_directory :: "fs_link \<Rightarrow> u32 \<Rightarrow> u32 \<Rightarrow> 'a filesystem_scheme \<Rightarrow> 'a filesystem_scheme result" where
  "init_directory lk node nm s =
     rbind (strcpy_st node nm s) (\<lambda>s1. Inr (upd_ram (set_fields node
       [(n_length, 0), (n_inode, 0), (n_gid, 0), (n_uid, 0), (n_mask, 0), (n_flags, FS_DIRECTORY),
        (n_read, 0), (n_write, 0), (n_open, 0), (n_close, 0), (n_readdir, fn_initrd_readdir lk),
        (n_finddir, fn_initrd_finddir lk), (n_ptr, 0), (n_impl, 0)]) s1))"

definition init_file :: "fs_link \<Rightarrow> u32 \<Rightarrow> u32 \<Rightarrow> 'a filesystem_scheme \<Rightarrow> 'a filesystem_scheme result" where
  "init_file lk location i s =
     (let h = fh_at (file_headers s) i; node = node_at (root_nodes s) i;
          s1 = upd_ram (\<lambda>m. write32 m (h + 68) (fh_offset m h + read32 m location)) s
      in rbind (strcpy_st node (fh_name h) s1) (\<lambda>s2.
           let s3 = upd_ram (set_fields node [(n_gid, 0), (n_uid, 0), (n_mask, 0)]) s2
           in Inr (upd_ram (set_fields node
                [(n_length, fh_length (ram s3) h), (n_inode, i), (n_flags, FS_FILE),
                 (n_read, fn_initrd_read lk), (n_write, 0), (n_readdir, 0), (n_finddir, 0),
                 (n_open, 0), (n_close, 0), (n_impl, 0)]) s3)))"

text \<open>The loop reads the file count anew before every pass; the fuel \<open>n\<close> bounds the passes.\<close>

primrec init_files ::
    "nat \<Rightarrow> fs_link \<Rightarrow> u32 \<Rightarrow> u32 \<Rightarrow> 'a filesystem_scheme \<Rightarrow> 'a filesystem_scheme result" where
  "init_files 0 lk location i s = Inl No_return"
| "init_files (Suc n) lk location i s =
     (if i < read32 (ram s) (initrd_header s)
      then (case init_file lk location i s of
              Inl e \<Rightarrow> Inl e
            | Inr s1 \<Rightarrow> init_files n lk location (i + 1) s1)
      else Inr s)"

text \<open>
  \<open>location + sizeof(initrd_header_t)\<close> is arithmetic on a \<open>u32 *\<close>: it skips 16 bytes, not 4.
\<close>

definition header_table :: "u32 \<Rightarrow> u32" where "header_table location = location + 4 * 4"

definition initialise_initrd ::
    "nat \<Rightarrow> fs_link \<Rightarrow> u32 \<Rightarrow> 'a filesystem_scheme \<Rightarrow> (u32 \<times> 'a filesystem_scheme) result" where
  "initialise_initrd k lk location s =
     (let s0 = s\<lparr>initrd_header := location, file_headers := header_table location\<rparr>
      in rbind (kmalloc k sizeof_fs_node s0) (\<lambda>(r, s1).
         rbind (init_directory lk r (str_initrd lk) (s1\<lparr>initrd_root := r\<rparr>)) (\<lambda>s2.
         rbind (kmalloc k sizeof_fs_node s2) (\<lambda>(d, s3).
         rbind (init_directory lk d (str_dev lk) (s3\<lparr>initrd_dev := d\<rparr>)) (\<lambda>s4.
         rbind (kmalloc k (sizeof_fs_node * read32 (ram s4) (initrd_header s4)) s4) (\<lambda>(ns, s5).
           let s6 = s5\<lparr>root_nodes := ns, nroot_nodes := read32 (ram s5) (initrd_header s5)\<rparr>
           in rbind (init_files k lk location 0 s6) (\<lambda>s7. Inr (initrd_root s7, s7))))))))"

end
