(* ===== verification/Keyboard.thy ===== *)
theory Keyboard
  imports Initrd
begin

text \<open>
  \<open>keyboard.c\<close>: the PS/2 keyboard's interrupt handler, its reset, and its device node. Waiting
  for the controller has no bound in the source, so it is option-valued.
\<close>

definition PS2_COMMAND_PORT :: u16 where "PS2_COMMAND_PORT = 0x64"
definition PS2_DATA_PORT :: u16 where "PS2_DATA_PORT = 0x60"

partial_function (option) keyboard_wait :: "device \<Rightarrow> 'a machine_scheme \<Rightarrow> 'a machine_scheme option" where
  "keyboard_wait dev s =
     (case inb dev PS2_COMMAND_PORT s of (b, s') \<Rightarrow> if b AND 2 \<noteq> 0 then keyboard_wait dev s' else Some s')"

text \<open>The handler looks the device up as \<open>NULL\<close>, so every scan code ends in the error message.\<close>

definition keyboard_callback :: "device \<Rightarrow> 'a filesystem_scheme \<Rightarrow> 'a filesystem_scheme result" where
  "keyboard_callback dev s =
     (case keyboard_wait dev s of
        None \<Rightarrow> Inl No_return
      | Some s1 \<Rightarrow>
          (let (scan_code, s2) = inb dev PS2_DATA_PORT s1;
               s3 = irq_ack (ucast IRQ1) s2
           in rbind (printk dev ''scan_code found: %x\<newline>'' [VInt (ucast scan_code)] s3) (\<lambda>s4.
                let keyboard = 0 :: u32
                in if keyboard \<noteq> 0
                   then rbind (printk dev ''calling write_fs with %x %c\<newline>''
                                 [VInt (ucast scan_code), VInt (ucast scan_code)] s4)
                          (\<lambda>s5. let ignored = write_fs_byte keyboard 0 scan_code in Inr s5)
                   else printk dev ''ERROR: can't write to NULL /dev/keyboard char device.\<newline>'' [] s4)))"

definition keyboard_selftest :: "device \<Rightarrow> 'a machine_scheme \<Rightarrow> bool \<times> 'a machine_scheme" where
  "keyboard_selftest dev s =
     (let (b, s1) = inb dev PS2_COMMAND_PORT (outb PS2_DATA_PORT 0xAA s) in (b = 0x55, s1))"

definition keyboard_reset :: "device \<Rightarrow> 'a machine_scheme \<Rightarrow> 'a machine_scheme" where
  "keyboard_reset dev s =
     (let (tmp, s1) = inb dev 0x61 s;
          s2 = outb 0x61 (ucast tmp OR 0x80) s1;
          s3 = outb 0x61 (ucast tmp AND 0x7F) s2
      in snd (inb dev PS2_COMMAND_PORT s3))"

text \<open>\<open>sizeof(keyboard)\<close> is the size of the pointer: the node gets 4 bytes.\<close>

definition keyboard_create :: "nat \<Rightarrow> fs_link \<Rightarrow> 'a filesystem_scheme \<Rightarrow> (u32 \<times> 'a filesystem_scheme) result" where
  "keyboard_create k lk s =
     rbind (kmalloc k 4 s) (\<lambda>(node, s1).
     rbind (strcpy_st node (str_keyboard lk) s1) (\<lambda>s2.
       let s3 = upd_ram (set_fields node
                  [(n_length, 0), (n_inode, 0), (n_gid, 0), (n_uid, 0), (n_mask, 0),
                   (n_flags, FS_CHARDEVICE)]) s2
       in rbind (ring_buffer_create k 8 s3) (\<lambda>(b, s4).
            Inr (node, upd_ram (set_fields node
              [(n_buffer, b), (n_write, fn_keyboard_write lk), (n_read, fn_keyboard_read lk)]) s4))))"

text \<open>What is printed is whether the address of \<open>keyboard_selftest\<close> is not zero; it is not called.\<close>

definition keyboard_install ::
    "nat \<Rightarrow> device \<Rightarrow> fs_link \<Rightarrow> 'a filesystem_scheme \<Rightarrow> 'a filesystem_scheme result" where
  "keyboard_install k dev lk s =
     rbind (printk dev ''keyboard selftest good: %b\<newline>'' [VInt (fn_keyboard_selftest lk)] s) (\<lambda>s1.
     rbind (keyboard_create k lk (keyboard_reset dev s1)) (\<lambda>(node, s2).
       Inr (register_interrupt_handler IRQ1 Keyboard_callback (devfs_keyboard_attach node s2))))"

definition keyboard_read ::
    "u32 \<Rightarrow> u32 \<Rightarrow> u32 \<Rightarrow> u32 \<Rightarrow> 'a filesystem_scheme \<Rightarrow> u32 \<times> 'a filesystem_scheme" where
  "keyboard_read node offset sz buffer s = (0, s)"

definition keyboard_write ::
    "device \<Rightarrow> u32 \<Rightarrow> u32 \<Rightarrow> u32 \<Rightarrow> u32 \<Rightarrow> 'a filesystem_scheme \<Rightarrow> (u32 \<times> 'a filesystem_scheme) result" where
  "keyboard_write dev node offset sz buffer s =
     rbind (printk dev ''going to insert %x (%p) into the keyboard buffer\<newline>''
              [VInt buffer, VInt (ucast (ram s buffer))] s) (\<lambda>s1. Inr (0, s1))"

end
