(* ===== verification/Vfs.thy ===== *)
theory Vfs
  imports Keyboard
begin

text \<open>
  The calls through the function pointers in file system nodes: the pointers the kernel puts
  there are those of the ramdisk and of the keyboard; jumping anywhere else is \<open>Undefined\<close>.
\<close>

definition io_call :: "device \<Rightarrow> fs_link \<Rightarrow> 'a io_call" where
  "io_call dev lk f node offset sz buffer s =
     (if f = fn_initrd_read lk then Inr (initrd_read node offset sz buffer s)
      else if f = fn_keyboard_read lk then Inr (keyboard_read node offset sz buffer s)
      else if f = fn_keyboard_write lk then keyboard_write dev node offset sz buffer s
      else Inl Undefined)"

definition node_call :: "'a node_call" where
  "node_call f node s = Inl Undefined"

definition dir_call :: "fs_link \<Rightarrow> 'a dir_call" where
  "dir_call lk f node arg s =
     (if f = fn_initrd_readdir lk then initrd_readdir lk node arg s
      else if f = fn_initrd_finddir lk then rbind (initrd_finddir lk node arg s) (\<lambda>r. Inr (r, s))
      else Inl Undefined)"

end
