(* ===== verification/Timer.thy ===== *)
theory Timer
  imports Task
begin

text \<open>
  \<open>timer.c\<close>: the programmable interval timer and the clock tick that drives task switching.
\<close>

text \<open>The handler is always passed its registers; \<open>eip\<close> is what \<open>read_eip\<close> returns in the switch.\<close>

definition timer_callback :: "u32 \<Rightarrow> 'a tasking_scheme \<Rightarrow> 'a tasking_scheme" where
  "timer_callback eip s = switch_task eip (s\<lparr>tick := tick s + 1\<rparr>)"

definition init_timer :: "u32 \<Rightarrow> 'a kernel_scheme \<Rightarrow> 'a kernel_scheme result" where
  "init_timer frequency s =
     (let s1 = register_interrupt_handler IRQ0 Timer_callback (cli s)
      in if frequency = 0 then Inl Divide_error
         else (let divisor = 1193180 div frequency;
                   s2 = outb 0x43 0x36 s1;
                   l = ucast (divisor AND 0xFF) :: u8;
                   h = ucast (drop_bit 8 divisor AND 0xFF) :: u8;
                   s3 = outb 0x40 (ucast l) s2;
                   s4 = outb 0x40 (ucast h) s3
               in Inr (sti s4)))"

section \<open>The divisor that reaches the timer\<close>

definition pit_divisor :: "u8 list \<Rightarrow> nat" where
  "pit_divisor bs = (case bs of [l, h] \<Rightarrow> unat l + 256 * unat h | _ \<Rightarrow> 0)"

lemma unat_mask_8: "unat (w AND 0xFF :: u32) = unat w mod 256"
proof -
  have "w AND 0xFF = take_bit 8 w" by (simp only: take_bit_eq_mask mask_eq_exp_minus_1) simp
  then show ?thesis by (simp only: unsigned_take_bit_eq) (simp add: take_bit_eq_mod)
qed

lemma byte_of_byte [simp]: "(ucast (ucast (b :: u8) :: u32) :: u8) = b"
  by (rule bit_word_eqI) (auto simp: bit_simps dest: bit_imp_le_length)

lemma init_timer_sends:
  assumes "0 < f"
  shows "\<exists>s'. init_timer f s = Inr s' \<and>
    (\<exists>l h. port_log s' = port_log s @ [Out8 0x43 0x36, Out8 0x40 l, Out8 0x40 h]
       \<and> unat l + 256 * unat h = (1193180 div unat f) mod 65536)
    \<and> interrupt_handlers s' = (interrupt_handlers s)(IRQ0 := Some Timer_callback) \<and> int_flag s'"
proof -
  let ?d = "1193180 div f :: u32"
  have d: "unat ?d = 1193180 div unat f" by (simp add: unat_div_distrib)
  have low: "unat (ucast (?d AND 0xFF) :: u8) = unat ?d mod 256"
    by (simp add: unsigned_ucast_eq unat_mask_8 take_bit_eq_mod)
  have high: "unat (ucast (drop_bit 8 ?d AND 0xFF) :: u8) = unat ?d div 256 mod 256"
    by (simp add: unsigned_ucast_eq unat_mask_8 take_bit_eq_mod drop_bit_eq_div unat_div_distrib)
  have "x mod 256 + 256 * (x div 256 mod 256) = x mod 65536" for x :: nat
    by (metis (no_types, opaque_lifting) mod_mult2_eq add.commute numeral_times_numeral num_double semiring_norm(12,13) mult.commute)
  then show ?thesis
    using assms low high d
    by (auto simp: init_timer_def Let_def port_simps register_interrupt_handler_def cli_def sti_def)
qed

end
