(* ===== verification/Syscall.thy ===== *)
theory Syscall
  imports Isr
begin

text \<open>
  \<open>syscall.c\<close>: the system calls, reached through interrupt 0x80 with the call number in EAX and
  the first argument in EBX. The functions called return nothing, so what is left in EAX is
  whatever they happened to leave there, the argument \<open>garbage\<close>.
\<close>

section \<open>Strings read from memory\<close>

partial_function (option) read_cstr :: "mem \<Rightarrow> u32 \<Rightarrow> u8 list option" where
  "read_cstr m p =
     (if m p = 0 then Some []
      else Option.bind (read_cstr m (p + 1)) (\<lambda>cs. Some (m p # cs)))"

definition screen_write_at :: "u32 \<Rightarrow> 'a screen_scheme \<Rightarrow> 'a screen_scheme result" where
  "screen_write_at p s =
     (case read_cstr (ram s) p of None \<Rightarrow> Inl No_return | Some cs \<Rightarrow> Inr (screen_write cs s))"

section \<open>The system calls\<close>

datatype syscall_fn = Screen_write | Screen_write_hex | Screen_write_dec | Test_noop

definition syscalls :: "syscall_fn list" where
  "syscalls = [Screen_write, Screen_write_hex, Screen_write_dec, Test_noop]"

definition num_syscalls :: u32 where "num_syscalls = 4"

definition initialise_syscalls :: "'a kernel_scheme \<Rightarrow> 'a kernel_scheme" where
  "initialise_syscalls s =
     register_interrupt_handler 0x22 Do_nothing (register_interrupt_handler 0x80 Syscall_handler s)"

text \<open>
  \<open>int $0x22\<close> goes through vector 34, whose gate is the stub \<open>irq2\<close>: it is acknowledged like a
  hardware interrupt and then handled.
\<close>

definition test_noop :: "'a handler_call \<Rightarrow> registers_t \<Rightarrow> 'a kernel_scheme \<Rightarrow> 'a kernel_scheme result" where
  "test_noop call regs s =
     rbind (irq_handler call (regs\<lparr>r_int_no := 34\<rparr>) s) (\<lambda>(_, s1). Inr s1)"

definition run_syscall ::
    "'a handler_call \<Rightarrow> syscall_fn \<Rightarrow> registers_t \<Rightarrow> 'a kernel_scheme \<Rightarrow> 'a kernel_scheme result" where
  "run_syscall call f regs s =
     (case f of
        Screen_write \<Rightarrow> screen_write_at (r_ebx regs) s
      | Screen_write_hex \<Rightarrow> Inr (screen_write_hex (r_ebx regs) s)
      | Screen_write_dec \<Rightarrow> Inr (screen_write_dec (r_ebx regs) s)
      | Test_noop \<Rightarrow> test_noop call regs s)"

definition syscall_handler ::
    "'a handler_call \<Rightarrow> u32 \<Rightarrow> registers_t \<Rightarrow> 'a kernel_scheme \<Rightarrow> (registers_t \<times> 'a kernel_scheme) result" where
  "syscall_handler call garbage regs s =
     (if r_eax regs \<ge> num_syscalls then Inr (regs, s)
      else rbind (run_syscall call (syscalls ! unat (r_eax regs)) regs s) (\<lambda>s1.
             Inr (regs\<lparr>r_eax := garbage\<rparr>, s1)))"

text \<open>
  The user side of the calls: \<open>int $0x80\<close> with the number and the argument; the result is the
  value of EAX on return.
\<close>

definition syscall0 ::
    "'a handler_call \<Rightarrow> u32 \<Rightarrow> registers_t \<Rightarrow> 'a kernel_scheme \<Rightarrow> (u32 \<times> 'a kernel_scheme) result" where
  "syscall0 call num regs s =
     rbind (isr_handler call (regs\<lparr>r_eax := num, r_int_no := 0x80\<rparr>) s) (\<lambda>(regs', s'). Inr (r_eax regs', s'))"

definition syscall1 ::
    "'a handler_call \<Rightarrow> u32 \<Rightarrow> u32 \<Rightarrow> registers_t \<Rightarrow> 'a kernel_scheme \<Rightarrow> (u32 \<times> 'a kernel_scheme) result" where
  "syscall1 call num p1 regs s =
     rbind (isr_handler call (regs\<lparr>r_eax := num, r_ebx := p1, r_int_no := 0x80\<rparr>) s)
       (\<lambda>(regs', s'). Inr (r_eax regs', s'))"

text \<open>
  The calls with two to four arguments, which no system call uses yet. \<open>DEFN_SYSCALL5\<close> does not
  name the types of its parameters and cannot be expanded.
\<close>

definition syscall2 ::
    "'a handler_call \<Rightarrow> u32 \<Rightarrow> u32 \<Rightarrow> u32 \<Rightarrow> registers_t \<Rightarrow> 'a kernel_scheme \<Rightarrow> (u32 \<times> 'a kernel_scheme) result" where
  "syscall2 call num p1 p2 regs s =
     rbind (isr_handler call (regs\<lparr>r_eax := num, r_ebx := p1, r_ecx := p2, r_int_no := 0x80\<rparr>) s)
       (\<lambda>(regs', s'). Inr (r_eax regs', s'))"

definition syscall3 ::
    "'a handler_call \<Rightarrow> u32 \<Rightarrow> u32 \<Rightarrow> u32 \<Rightarrow> u32 \<Rightarrow> registers_t \<Rightarrow> 'a kernel_scheme \<Rightarrow> (u32 \<times> 'a kernel_scheme) result" where
  "syscall3 call num p1 p2 p3 regs s =
     rbind (isr_handler call
         (regs\<lparr>r_eax := num, r_ebx := p1, r_ecx := p2, r_edx := p3, r_int_no := 0x80\<rparr>) s)
       (\<lambda>(regs', s'). Inr (r_eax regs', s'))"

definition syscall4 ::
    "'a handler_call \<Rightarrow> u32 \<Rightarrow> u32 \<Rightarrow> u32 \<Rightarrow> u32 \<Rightarrow> u32 \<Rightarrow> registers_t \<Rightarrow> 'a kernel_scheme \<Rightarrow> (u32 \<times> 'a kernel_scheme) result" where
  "syscall4 call num p1 p2 p3 p4 regs s =
     rbind (isr_handler call
         (regs\<lparr>r_eax := num, r_ebx := p1, r_ecx := p2, r_edx := p3, r_esi := p4, r_int_no := 0x80\<rparr>) s)
       (\<lambda>(regs', s'). Inr (r_eax regs', s'))"

section \<open>Behaviour\<close>

lemma read_cstr_Some:
  assumes "m p = 0"
  shows "read_cstr m p = Some []"
  using assms by (simp add: read_cstr.simps)

lemma read_cstr_Cons:
  assumes "m p \<noteq> 0" and "read_cstr m (p + 1) = Some cs"
  shows "read_cstr m p = Some (m p # cs)"
  using assms by (subst read_cstr.simps) simp

lemma syscall_number_range:
  "r_eax regs < num_syscalls \<Longrightarrow> unat (r_eax regs) < length syscalls"
  by (simp add: num_syscalls_def syscalls_def word_less_nat_alt)

lemma syscall_out_of_range:
  "num_syscalls \<le> r_eax regs \<Longrightarrow> syscall_handler call garbage regs s = Inr (regs, s)"
  by (simp add: syscall_handler_def)

end
