(* ===== verification/Pci_Tables.thy ===== *)
theory Pci_Tables
  imports Kernel_Prelude
begin

text \<open>
  The entries of the tables of \<open>pci_vendor.h\<close>. The tables themselves are in \<open>Pci_Vendor\<close> (vendors)
  and \<open>Pci_Device_1\<close> to \<open>Pci_Device_4\<close> (devices), split into parts of at most 150 lines of the source.
  Bytes of the strings that are not printable ASCII are written as numbers.
\<close>

record PCI_VENTABLE =
  VenId :: u32
  VenShort :: string
  VenFull :: string

definition ven :: "u32 \<Rightarrow> string \<Rightarrow> string \<Rightarrow> PCI_VENTABLE" where
  "ven i short full = \<lparr>VenId = i, VenShort = short, VenFull = full\<rparr>"

record PCI_DEVTABLE =
  dev_VenId :: u32
  DevId :: u32
  Chip :: string
  ChipDesc :: string

definition dev_entry :: "u32 \<Rightarrow> u32 \<Rightarrow> string \<Rightarrow> string \<Rightarrow> PCI_DEVTABLE" where
  "dev_entry v d chip desc = \<lparr>dev_VenId = v, DevId = d, Chip = chip, ChipDesc = desc\<rparr>"

end
