(* ===== verification/Pci_Vendor.thy ===== *)
theory Pci_Vendor
  imports Pci_Tables
begin

text \<open>
  \<open>PciVenTable\<close> of \<open>pci_vendor.h\<close>, entry by entry and in the order of the source.
\<close>

definition PciVenTable_1 :: "PCI_VENTABLE list" where
  "PciVenTable_1 = [
     ven 0x0033 ''<'' ''Paradyne Corp.'',
     ven 0x003D ''well'' ''master'',
     ven 0x0070 ''Hauppauge1'' ''Hauppauge Computer Works Inc.'',
     ven 0x0100 ''ncipher'' ''USBPDO-8'',
     ven 0x0123 ''General Dynamics'' ''General Dynamics'',
     ven 0x0315 '''' ''SK - Electronics Co., Ltd.'',
     ven 0x0402 (''PCI'' @ [CHR 0x5C] @ ''VEN_10EC&DEV_5209&SUBSYS_05901025&REV_01'') '' Acer aspire one'',
     ven 0x046D '' '' ''Logitech Inc.'',
     ven 0x0483 ''UPEK'' ''UPEK'',
     ven 0x04A9 ''Canon Scanner Elite'' ''Canon'',
     ven 0x04B3 '' Satrio'' ''IBM'',
     ven 0x04D9 '' '' ''Filco'',
     ven 0x04F2 ''Chicony Electronics'' ''Chicony Electronics Co. '',
     ven 0x051D ''INT33A0   '' ''APC'',
     ven 0x0529 '' '' ''Aladdin E-Token'',
     ven 0x0553 ''Aiptek'' '' Aiptek USA'',
     ven 0x058f ''Alcor'' ''Alcor Micro Corp.'',
     ven 0x0590 '' '' ''Omron Corp'',
     ven 0x05ac '' '' ''Apple, Inc.'',
     ven 0x05E1 ''D-MAX'' ''D-MAX'',
     ven 0x064e '' Suyin'' ''SUYIN Corporation'',
     ven 0x067B ''Prolific'' ''Prolific Technology Inc.'',
     ven 0x06FE ''Acresso Software'' ''Acresso Software Inc.'',
     ven 0x0711 ''SIIG, Inc.'' ''SIIG, Inc.'',
     ven 0x093a ''Genius'' ''KYE Systems Corp.'',
     ven 0x096E '' '' ''USB Rockey dongle from Feitain '',
     ven 0x0A5C '' '' ''Broadcom Corporation'',
     ven 0x0A89 ''BREA'' ''BREA Technologies Inc.'',
     ven 0x0A92 ''Egosys'' ''Egosys, Inc.'',
     ven 0x0AC8 ''ASUS '' ''ASUS '',
     ven 0x0b05 ''Toshiba BT-183 bluetooth 2.0'' ''Toshiba Bluetooth RFBUS, RFCOM, RFHID'',
     ven 0x0c45 ''Microdia'' ''Microdia Ltd.'',
     ven 0x0cf3 '' '' ''TP-Link'',
     ven 0x0D2E ''Feedback Group '' ''Feedback Instruments Ltd.'',
     ven 0x0D8C ''C-Media Electronics'' ''C-Media Electronics, Inc.'',
     ven 0x0DF6 ''Sitecom'' ''Sitecom'',
     ven 0x0E11 ''Compaq'' ''dell Computer Corp.'',
     ven 0x0E8D ''MediaTek Inc.'' ''MediaTek Inc.'',
     ven 0x1000 ''LSI'' ''LSI Logic'',
     ven 0x1001 ''KOLTER'' ''Kolter Electronic - Germany'',
     ven 0x1002 ''AMD'' ''Advanced Micro Devices, Inc.'',
     ven 0x1003 ''ULSI'' ''ULSI'',
     ven 0x1004 ''VLSI'' ''VLSI Technology'',
     ven 0x1006 ''Reply'' ''Reply Group'',
     ven 0x1007 ''NetFrame'' ''Netframe Systems Inc.'',
     ven 0x1008 ''Epson'' ''Epson'',
     ven 0x100A ''Phoenix'' ([CHR 0xC3, CHR 0x83, CHR 0xE2, CHR 0x80, CHR 0x9A] @ ''as Ltd. de Phoenix del '' @ [CHR 0xC3, CHR 0x82, CHR 0xC6, CHR 0x92] @ '' de Tecnolog'' @ [CHR 0xC3, CHR 0x83, CHR 0xC6, CHR 0x92]),
     ven 0x100B ''NSC'' ''National Semiconductors'',
     ven 0x100C ''Tseng'' ''Tseng Labs'',
     ven 0x100D ''AST'' ''AST Research'',
     ven 0x100E ''Weitek'' ''Weitek'',
     ven 0x1010 ''VLogic'' ''Video Logic Ltd.'',
     ven 0x1011 ''DEC'' ''Digital Equipment Corporation'',
     ven 0x1012 ''Micronics'' ''Micronics Computers Inc.'',
     ven 0x1013 ''Cirrus'' ''Cirrus Logic'',
     ven 0x1014 ''IBM'' ''International Business Machines Corp.'',
     ven 0x1016 ''Fujitsu ICL'' ''Fujitsu ICL Computers'',
     ven 0x1017 ''Spea'' ''Spea Software AG'',
     ven 0x1018 ''Unisys'' ''Unisys Systems'',
     ven 0x1019 ''ECS'' ''Elitegroup Computer System'',
     ven 0x101A ''NCR'' ''NCR Corporation'',
     ven 0x101B ''Vitesse'' ''Vitesse Semiconductor'',
     ven 0x101E ''AMI'' ''American Megatrends Inc.'',
     ven 0x101F ''PictureTel'' ''PictureTel Corp.'',
     ven 0x1020 ''Hitachi'' ''Hitachi Computer Electronics'',
     ven 0x1021 ''OKI'' ''Oki Electric Industry'',
     ven 0x1022 ''AMD'' ''Advanced Micro Devices'',
     ven 0x1023 ''machdo'' ''TRIDENT MICRO'',
     ven 0x1025 ''Acer'' ''Acer Incorporated'',
     ven 0x1028 ''Toshiba'' ''Toshiba Satellite A660'',
     ven 0x102A ''LSI'' ''LSI Logic Headland Division'',
     ven 0x102B ''Matrox'' ''Matrox Electronic Systems Ltd.'',
     ven 0x102C ''C&T'' ''Asiliant (Chips And Technologies)'',
     ven 0x102D ''Wyse'' ''Wyse Technology'',
     ven 0x102E ''Olivetti'' ''Olivetti Advanced Technology'',
     ven 0x102F ''U305-S7446'' ''Toshiba America'',
     ven 0x1030 ''TMC'' ''TMC Research'',
     ven 0x1031 ''miro dc30d'' ''miro Computer Products AG'',
     ven 0x1033 ''NEC'' ''NEC Electronics'',
     ven 0x1034 ''Burndy'' ''Burndy Corporation'',
     ven 0x1036 ''FDomain'' ''Future Domain'',
     ven 0x1037 ''Hitachi'' ''Hitachi Micro Systems Inc'',
     ven 0x1038 ''AMP'' ''AMP Incorporated'',
     ven 0x1039 ''Silikon entegre sistem'' ''S&#304;S'',
     ven 0x103A ''Seiko'' ''Seiko Epson Corporation'',
     ven 0x103B ''Tatung'' ''Tatung Corp. Of America'',
     ven 0x103C ''tx1ooo'' ''Hewlett-Packard - HP dc7800'',
     ven 0x103E ''Solliday'' ''Solliday Engineering'',
     ven 0x103F ''Logic Mod.'' ''Logic Modeling'',
     ven 0x1041 ''Computrend'' ''Computrend'',
     ven 0x1043 ''Asustek'' ''Asustek Computer Inc.'',
     ven 0x1044 ''DPT'' ''Distributed Processing Tech'',
     ven 0x1045 ''OPTi'' ''OPTi Inc.'',
     ven 0x1046 ''IPC'' ''IPC Corporation LTD'',
     ven 0x1047 ''Genoa'' ''Genoa Systems Corp.'',
     ven 0x1048 ''ELSA'' ''ELSA GmbH'',
     ven 0x1049 ''Fountain'' ''Fountain Technology'',
     ven 0x104A ''STM'' ''STMicroelectronics'',
     ven 0x104B '''' ''Mylex / Buslogic'',
     ven 0x104C ''TSIK'' ''Texas Instruments'',
     ven 0x104D ''Sony'' ''Sony Corporation'',
     ven 0x104E ''Oak'' ''Oak Technology'',
     ven 0x104F ''Co-Time'' ''Co-Time Computer Ltd.'',
     ven 0x1050 ''Winbond'' ''Winbond Electronics Corp.'',
     ven 0x1051 ''Anigma'' ''Anigma Corp.'',
     ven 0x1053 ''Young'' ''Young Micro Systems'',
     ven 0x1054 ''Hitachi'' ''Hitachi Ltd'',
     ven 0x1055 ''SMSC'' ''Standard Microsystems Corp.'',
     ven 0x1056 ''ICL'' ''ICL'',
     ven 0x1057 ''Motorola'' ''Motorola'',
     ven 0x1058 ''E&TR'' ''Electronics & Telecommunication Res'',
     ven 0x1059 ''Kontron'' ''Kontron Canada'',
     ven 0x105A ''Promise'' ''Promise Technology'',
     ven 0x105B ''Foxconn'' ''Foxconn International Inc.'',
     ven 0x105C ''Wipro'' ''Wipro Infotech Limited'',
     ven 0x105D ''Number-Nine'' ''Number Nine Visual Technology'',
     ven 0x105E ''Vtech'' ''Vtech Engineering Canada Ltd.'',
     ven 0x105F ''Infotronic'' ''Infotronic America Inc.'',
     ven 0x1060 ''UMC'' ''United Microelectronics'',
     ven 0x1061 ''8x8'' ''8x8 Inc.'',
     ven 0x1062 ''Maspar'' ''Maspar Computer Corp.'',
     ven 0x1063 ''OOA'' ''Ocean Office Automation'',
     ven 0x1064 ''Alcatel'' ''Alcatel Cit'',
     ven 0x1065 ''TM'' ''Texas Microsystems'',
     ven 0x1066 ''Picopower'' ''Picopower Technology'',
     ven 0x1067 ''Mitsubishi'' ''Mitsubishi Electronics'',
     ven 0x1068 ''Div. Tech.'' ''Diversified Technology'',
     ven 0x106A ''Aten'' ''Aten Research Inc.'',
     ven 0x106B ''Apple'' ''Apple Inc.'',
     ven 0x106C ''Hyundai'' ''Hyundai Electronics America'',
     ven 0x106D ''Sequent'' ''Sequent Computer Systems'',
     ven 0x106E ''DFI'' ''DFI Inc.'',
     ven 0x106F ''CityGate'' ''City Gate Development LTD'',
     ven 0x1070 ''Daewoo'' ''Daewoo Telecom Ltd.'',
     ven 0x1071 ''Mitac'' ''Mitac'',
     ven 0x1072 ''GIT'' ''GIT Co. Ltd.'',
     ven 0x1073 ''Yamaha'' ''Yamaha Corporation'',
     ven 0x1074 ''Nexgen'' ''Nexgen Microsystems'',
     ven 0x1075 ''AIR'' ''Advanced Integration Research'',
     ven 0x1077 ''QLogic'' ''QLogic Corporation'',
     ven 0x1078 ''Cyrix'' ''Cyrix Corporation'',
     ven 0x1079 ''I-Bus'' ''I-Bus'',
     ven 0x107A ''Networth'' ''Networth controls'',
     ven 0x107B ''Gateway'' ''Gateway 2000'',
     ven 0x107C ''Goldstar'' ''Goldstar Co. Ltd.'',
     ven 0x107D ''Leadtek'' ''Leadtek Research'',
     ven 0x107E ''Interphase'' ''Testernec'',
     ven 0x107F ''DTC'' ''Data Technology Corporation'']"

definition PciVenTable_2 :: "PCI_VENTABLE list" where
  "PciVenTable_2 = [
     ven 0x1080 ''Cypress'' ''Cypress Semiconductor'',
     ven 0x1081 ''Radius Inc.'' ''Radius Inc.'',
     ven 0x1082 ''EFA'' ''EFA Corporation Of America'',
     ven 0x1083 ''Forex'' ''Forex Computer Corporation'',
     ven 0x1084 ''Parador'' ''Parador'',
     ven 0x1085 ''Tulip'' (''Tulip Computers Int'' @ [CHR 0x27] @ ''l BV''),
     ven 0x1086 ''J. Bond'' ''J. Bond Computer Systems'',
     ven 0x1087 ''Cache'' ''Cache Computer'',
     ven 0x1088 ''MS Son.'' ''Microcomputer Systems (M) Son'',
     ven 0x1089 ''DG'' ''Data General Corporation'',
     ven 0x108A ''Bit3'' ''SBS  Operations'',
     ven 0x108C ''Oakleigh'' ''Oakleigh Systems Inc.'',
     ven 0x108D ''Olicom'' ''Olicom'',
     ven 0x108E ''Sun'' ''Sun Microsystems'',
     ven 0x108F ''Systemsoft'' ''Systemsoft Corporation'',
     ven 0x1090 ''Encore'' ''Encore Computer Corporation'',
     ven 0x1091 ''Intergraph'' ''Intergraph Corporation'',
     ven 0x1092 ''Diamond'' ''Diamond Computer Systems'',
     ven 0x1093 ''Nat. Inst.'' ''National Instruments'',
     ven 0x1094 ''Apostolos'' ''Apostolos'',
     ven 0x1095 ''Silicon Image'' ''Silicon Image, Inc.'',
     ven 0x1096 ''Alacron'' ''Alacron'',
     ven 0x1097 ''Appian'' ''Appian Graphics'',
     ven 0x1098 ''Quantum'' ''Quantum Designs Ltd.'',
     ven 0x1099 ''Samsung'' ''Samsung Electronics Co. Ltd.'',
     ven 0x109A ''Packard-Bell'' ''Packard Bell'',
     ven 0x109B ''Gemlight'' ''Gemlight Computer Ltd.'',
     ven 0x109C ''Megachips'' ''Megachips Corporation'',
     ven 0x109D ''Zida'' ''Zida Technologies Ltd.'',
     ven 0x109E ''Brooktree'' ''Brooktree Corporation'',
     ven 0x109F ''Trigem'' ''Trigem Computer Inc.'',
     ven 0x10A0 ''Meidensha'' ''Meidensha Corporation'',
     ven 0x10A1 ''Juko'' ''Juko Electronics Inc. Ltd.'',
     ven 0x10A2 ''Quantum'' ''Quantum Corporation'',
     ven 0x10A3 ''Everex'' ''Everex Systems Inc.'',
     ven 0x10A4 ''Globe'' ''Globe Manufacturing Sales'',
     ven 0x10A5 ''Racal'' ''Racal Interlan'',
     ven 0x10A8 ''Sierra'' ''Sierra Semiconductor'',
     ven 0x10A9 ''SG'' ''Silicon Graphics'',
     ven 0x10AB ''Digicom'' ''Digicom'',
     ven 0x10AC ''Honeywell'' ''Honeywell IASD'',
     ven 0x10AD ''Winbond'' ''Winbond Systems Labs'',
     ven 0x10AE ''Cornerstone'' ''Cornerstone Technology'',
     ven 0x10AF ''MCS'' ''Micro Computer Systems Inc.'',
     ven 0x10B0 ''Gainward GmbH '' ''Gainward GmbH '',
     ven 0x10B1 ''Cabletron'' ''Cabletron Systems Inc.'',
     ven 0x10B2 ''Raytheon'' ''Raytheon Company'',
     ven 0x10B3 ''Databook'' ''Databook Inc.'',
     ven 0x10B4 ''STB'' ''STB Systems'',
     ven 0x10B5 ''PLX'' ''PLX Technology Inc.'',
     ven 0x10B6 ''Madge'' ''Madge Networks'',
     ven 0x10B7 ''3Com'' ''3Com Corporation'',
     ven 0x10B8 ''SMC'' ''Standard Microsystems Corporation'',
     ven 0x10B9 ''Ali'' ''Ali Corporation'',
     ven 0x10BA ''Mitsubishi'' ''Mitsubishi Electronics Corp.'',
     ven 0x10BB ''Dapha'' ''Dapha Electronics Corporation'',
     ven 0x10BC ''ALR'' ''Advanced Logic Research Inc.'',
     ven 0x10BD ''Surecom'' ''Surecom Technology'',
     ven 0x10BE ''Tseng'' ''Tsenglabs International Corp.'',
     ven 0x10BF ''MOST'' ''MOST Corp.'',
     ven 0x10C0 ''Boca'' ''Boca Research Inc.'',
     ven 0x10C1 ''ICM'' ''ICM Corp. Ltd.'',
     ven 0x10C2 ''Auspex'' ''Auspex Systems Inc.'',
     ven 0x10C3 ''Samsung'' ''Samsung Semiconductors'',
     ven 0x10C4 ''wim'' (''Award Software Int'' @ [CHR 0x27] @ ''l Inc.''),
     ven 0x10C5 ''Xerox Workcentre XD103'' ''Xerox Corporation'',
     ven 0x10C6 ''Rambus'' ''Rambus Inc.'',
     ven 0x10C8 ''Neomagic'' ''Neomagic Corporation'',
     ven 0x10C9 ''Dataexpert'' ''Dataexpert Corporation'',
     ven 0x10CA ''Fujitsu'' ''Fujitsu Siemens'',
     ven 0x10CB ''Omron'' ''Omron Corporation'',
     ven 0x10CD ''AdvanSys'' ''Advanced System Products'',
     ven 0x10CF ''Fujitsu'' ''Fujitsu Ltd.'',
     ven 0x10D1 ''Future+'' ''Future+ Systems'',
     ven 0x10D2 ''Molex'' ''Molex Incorporated'',
     ven 0x10D3 ''Jabil'' ''Jabil Circuit Inc.'',
     ven 0x10D4 ''Hualon'' ''Hualon Microelectronics'',
     ven 0x10D5 ''Autologic'' ''Autologic Inc.'',
     ven 0x10D6 ''Wilson .co .ltd'' ''Wilson .co .ltd'',
     ven 0x10D7 ''BCM'' ''BCM Advanced Research'',
     ven 0x10D8 ''APL'' ''Advanced Peripherals Labs'',
     ven 0x10D9 ''Macronix'' ''Macronix International Co. Ltd.'',
     ven 0x10DB ''Rohm'' ''Rohm Research'',
     ven 0x10DC ''CERN'' ''CERN-European Lab. for Particle Physics'',
     ven 0x10DD ''E&S'' ''Evans & Sutherland'',
     ven 0x10DE ''NVIDIA'' ''NVIDIA'',
     ven 0x10DF ''Emulex'' ''Emulex Corporation'',
     ven 0x10E1 ''Tekram'' ''Tekram Technology Corp. Ltd.'',
     ven 0x10E2 ''Aptix'' ''Aptix Corporation'',
     ven 0x10E3 ''Tundra'' ''Tundra Semiconductor Corp.'',
     ven 0x10E4 ''Tandem'' ''Tandem Computers'',
     ven 0x10E5 ''MIC'' ''Micro Industries Corporation'',
     ven 0x10E6 ''Gainbery'' ''Gainbery Computer Products Inc.'',
     ven 0x10E7 ''Vadem'' ''Vadem'',
     ven 0x10E8 ''AMCC'' ''Applied Micro Circuits Corp.'',
     ven 0x10E9 ''Alps'' ''Alps Electronic Corp. Ltd.'',
     ven 0x10EA ''Tvia'' ''Tvia, Inc.'',
     ven 0x10EB ''Artist'' ''Artist Graphics'',
     ven 0x10EC ''Realtek'' ''Realtek Semiconductor Corp.'',
     ven 0x10ED ''Ascii'' ''Ascii Corporation'',
     ven 0x10EE ''Xilinx'' ''Xilinx Corporation'',
     ven 0x10EF ''Racore'' ''Racore Computer Products'',
     ven 0x10F0 ''Real-Time Graphics & Video'' ''Curtiss-Wright Controls Embedded Computing'',
     ven 0x10F1 ''Tyan'' ''Tyan Computer'',
     ven 0x10F2 ''Achme'' ''Achme Computer Inc. - GONE !!!!'',
     ven 0x10F3 ''Alaris'' ''Alaris Inc.'',
     ven 0x10F4 ''S-Mos'' ''S-Mos Systems'',
     ven 0x10F5 ''NKK'' ''NKK Corporation'',
     ven 0x10F6 ''CES'' ''Creative Electronic Systems SA'',
     ven 0x10F7 ''Matsushita'' ''Matsushita Electric Industrial Corp.'',
     ven 0x10F8 ''Altos'' ''Altos India Ltd.'',
     ven 0x10F9 ''PC-Direct'' ''PC Direct'',
     ven 0x10FA ''Truevision'' ''Truevision'',
     ven 0x10FB ''Thesys'' (''Thesys Microelectronic'' @ [CHR 0x27] @ ''s''),
     ven 0x10FC ''I-O'' ''I-O Data Device Inc.'',
     ven 0x10FD ''Soyo'' ''Soyo Technology Corp. Ltd.'',
     ven 0x10FE ''Fast'' ''Fast Electronic GmbH'',
     ven 0x10FF ''Ncube'' ''Ncube'',
     ven 0x1100 ''Jazz'' ''Jazz Multimedia'',
     ven 0x1101 ''Initio'' ''Initio Corporation'',
     ven 0x1102 ''Creative Labs'' ''Creative Technology LTD.'',
     ven 0x1103 ''HighPoint'' '' HighPoint Technologies, Inc.'',
     ven 0x1104 ''Rasterops'' ''Rasterops'',
     ven 0x1105 ''Sigma'' ''Sigma Designs Inc.'',
     ven 0x1106 ''VIA'' ''VIA Technologies, Inc.'',
     ven 0x1107 ''Stratus'' ''Stratus Computer'',
     ven 0x1108 ''Proteon'' ''Proteon Inc.'',
     ven 0x1109 ''Cogent'' ''Adaptec/Cogent Data Technologies'',
     ven 0x110A ''Siemens'' ''Siemens Nixdorf AG'',
     ven 0x110B ''Chromatic'' ''Chromatic Research Inc'',
     ven 0x110C ''Mini-Max'' ''Mini-Max Technology Inc.'',
     ven 0x110D ''ZNYX'' ''ZNYX Corporation'',
     ven 0x110E ''CPU Tech.'' ''CPU Technology'',
     ven 0x110F ''Ross'' ''Ross Technology'',
     ven 0x1112 ''Osicom'' ''Osicom Technologies Inc.'',
     ven 0x1113 ''Accton'' ''Accton Technology Corporation'',
     ven 0x1114 ''Atmel'' ''Atmel Corp.'',
     ven 0x1116 ''Data Translation'' ''Data Translation, Inc.'',
     ven 0x1117 ''Datacube'' ''Datacube Inc.'',
     ven 0x1118 ''Berg'' ''Berg Electronics'',
     ven 0x1119 ''Vortex'' ''ICP vortex Computersysteme GmbH'',
     ven 0x111A ''Eff. Net.'' ''Efficent Networks'',
     ven 0x111C ''Tricord'' ''Tricord Systems Inc.'',
     ven 0x111D ''IDT'' ''Integrated Device Technology Inc.'',
     ven 0x111F ''PDI'' ''Precision Digital Images'',
     ven 0x1120 ''EMC'' ''EMC Corp.'',
     ven 0x1121 ''Zilog'' ''Zilog'',
     ven 0x1123 ''EDI'' ''Excellent Design Inc.'',
     ven 0x1124 ''Leutron'' ''Leutron Vision AG'']"

definition PciVenTable_3 :: "PCI_VENTABLE list" where
  "PciVenTable_3 = [
     ven 0x1125 ''Eurocore'' ''Eurocore/Vigra'',
     ven 0x1127 ''FORE RUNNER LE'' ''FORE Systems'',
     ven 0x1129 ''Firmworks'' ''Firmworks'',
     ven 0x112A ''Hermes'' ''Hermes Electronics Co. Ltd.'',
     ven 0x112C ''Zenith'' ''Zenith Data Systems'',
     ven 0x112D ''Ravicad'' ''Ravicad'',
     ven 0x112E ''Infomedia'' ''Infomedia'',
     ven 0x1130 ''Computervision'' ''Computervision'',
     ven 0x1131 ''NXP'' ''NXP Semiconductors N.V.'',
     ven 0x1132 ''Mitel'' ''Mitel Corp.'',
     ven 0x1133 ''EIC'' ''Eicon Networks Corporation'',
     ven 0x1134 ''MCS'' ''Mercury Computer Systems Inc.'',
     ven 0x1135 ''Fuji'' ''Fuji Xerox Co Ltd'',
     ven 0x1136 ''Momentum'' ''Momentum Data Systems'',
     ven 0x1137 ''Cisco'' ''Cisco Systems Inc'',
     ven 0x1138 ''Ziatech'' ''Ziatech Corporation'',
     ven 0x1139 ''Dyn. Pict.'' ''Dynamic Pictures Inc'',
     ven 0x113A ''FWB'' ''FWB  Inc'',
     ven 0x113B ''NCD'' ''Network Computing Devices'',
     ven 0x113C ''Cyclone'' ''Cyclone Microsystems Inc.'',
     ven 0x113D ''Leading Edge'' ''Leading Edge Products Inc'',
     ven 0x113E ''Sanyo'' ''Sanyo Electric Co'',
     ven 0x113F ''Equinox'' ''Equinox Systems'',
     ven 0x1140 ''Intervoice'' ''Intervoice Inc'',
     ven 0x1141 ''Crest'' ''Crest Microsystem Inc'',
     ven 0x1142 ''Alliance'' ''Alliance Semiconductor'',
     ven 0x1143 ''Netpower'' ''Netpower Inc'',
     ven 0x1144 ''Cinn. Mil.'' ''Cincinnati Milacron'',
     ven 0x1145 ''Workbit'' ''Workbit Corp'',
     ven 0x1146 ''Force'' ''Force Computers'',
     ven 0x1147 ''Interface'' ''Interface Corp'',
     ven 0x1148 ''Marvell'' ''Marvell Semiconductor Germany GmbH'',
     ven 0x1149 ''Win System'' ''Win System Corporation'',
     ven 0x114A ''VMIC'' ''VMIC'',
     ven 0x114B ''Canopus'' ''Canopus corporation'',
     ven 0x114C ''Annabooks'' ''Annabooks'',
     ven 0x114D ''IC Corp.'' ''IC Corporation'',
     ven 0x114E ''Nikon'' ''Nikon Systems Inc'',
     ven 0x114F ''Digi'' ''Digi International'',
     ven 0x1150 ''TMC'' ''Thinking Machines Corporation'',
     ven 0x1151 ''JAE'' ''JAE Electronics Inc.'',
     ven 0x1153 ''Land Win'' ''Land Win Electronic Corp'',
     ven 0x1154 ''Melco'' ''Melco Inc'',
     ven 0x1155 ''Pine'' ''Pine Technology Ltd'',
     ven 0x1156 ''Periscope'' ''Periscope Engineering'',
     ven 0x1157 ''Avsys'' ''Avsys Corporation'',
     ven 0x1158 ''Voarx'' ''Voarx R&D Inc'',
     ven 0x1159 ''Mutech'' ''Mutech'',
     ven 0x115A ''Harlequin'' ''Harlequin Ltd'',
     ven 0x115B ''Parallax'' ''Parallax Graphics'',
     ven 0x115C ''Photron'' ''Photron Ltd.'',
     ven 0x115D ''Xircom'' ''Xircom'',
     ven 0x115E ''Peer'' ''Peer Protocols Inc'',
     ven 0x115F ''Maxtorr'' ''Maxtor Corporation'',
     ven 0x1160 ''Megasoft'' ''Megasoft Inc'',
     ven 0x1161 ''PFU'' ''PFU Ltd'',
     ven 0x1162 ''OA Lab'' ''OA Laboratory Co Ltd'',
     ven 0x1163 ''mohamed'' ''mohamed alsherif'',
     ven 0x1164 ''APT'' ''Advanced Peripherals Tech'',
     ven 0x1165 ''Imagraph'' ''Imagraph Corporation'',
     ven 0x1166 ''BRCM/ServerWorks'' ''Broadcom / ServerWorks'',
     ven 0x1167 ''Mutoh'' ''Mutoh Industries Inc'',
     ven 0x1168 ''Thine'' ''Thine Electronics Inc'',
     ven 0x1169 ''CDAC'' ''Centre f/Dev. of Adv. Computing'',
     ven 0x116A ''Luminex'' ''Luminex Software, Inc'',
     ven 0x116B ''Connectware'' ''Connectware Inc'',
     ven 0x116C ''Int Res.'' ''Intelligent Resources'',
     ven 0x116E ''EFI'' ''Electronics for Imaging'',
     ven 0x1170 ''Inventec'' ''Inventec Corporation'',
     ven 0x1172 ''Altera'' ''Altera Corporation'',
     ven 0x1173 ''Adobe'' ''Adobe Systems'',
     ven 0x1174 ''Bridgeport'' ''Bridgeport Machines'',
     ven 0x1175 ''Mitron'' ''Mitron Computer Inc.'',
     ven 0x1176 ''SBE'' ''SBE'',
     ven 0x1177 ''Silicon Eng.'' ''Silicon Engineering'',
     ven 0x1178 ''Alfa'' ''Alfa Inc'',
     ven 0x1179 ''Toshiba'' ''Toshiba corporation'',
     ven 0x117A ''A-Trend'' ''A-Trend Technology'',
     ven 0x117B ''LG'' ''LG (Lucky Goldstar) Electronics Inc.'',
     ven 0x117C ''Atto'' ''Atto Technology'',
     ven 0x117D ''B&D'' ''Becton & Dickinson'',
     ven 0x117E ''T/R'' ''T/R Systems'',
     ven 0x117F ''ICS'' ''Integrated Circuit Systems'',
     ven 0x1180 ''Fic'' ''Ricoh'',
     ven 0x1183 ''Fujikura'' ''Fujikura Ltd'',
     ven 0x1184 ''Forks'' ''Forks Inc'',
     ven 0x1185 ''Dataworld'' ''Dataworld'',
     ven 0x1186 ''D-Link'' ''D-Link System Inc'',
     ven 0x1187 ''Philips Healthcare'' ''Philips Healthcare'',
     ven 0x1188 ''Shima'' ''Shima Seiki Manufacturing Ltd.'',
     ven 0x1189 ''Matsushita'' ''Matsushita Electronics'',
     ven 0x118A ''Hilevel'' ''Hilevel Technology'',
     ven 0x118B ''Hypertec'' ''Hypertec Pty Ltd'',
     ven 0x118C ''Corollary'' ''Corollary Inc'',
     ven 0x118D ''BitFlow'' ''BitFlow Inc'',
     ven 0x118E ''Hermstedt'' ''Hermstedt AG'',
     ven 0x118F ''Green'' ''Green Logic'',
     ven 0x1190 ''Tripace'' ''Tripace'',
     ven 0x1191 ''Acard'' ''Acard Technology Corp.'',
     ven 0x1192 ''Densan'' ''Densan Co. Ltd'',
     ven 0x1194 ''Toucan'' ''Toucan Technology'',
     ven 0x1195 ''Ratoc'' ''Ratoc System Inc'',
     ven 0x1196 ''Hytec'' ''Hytec Electronics Ltd'',
     ven 0x1197 ''Gage'' ''Gage Applied Technologies'',
     ven 0x1198 ''Lambda'' ''Lambda Systems Inc'',
     ven 0x1199 ''Attachmate'' ''Attachmate Corp.'',
     ven 0x119A ''Mind Share'' ''Mind/Share Inc.'',
     ven 0x119B ''Omega'' ''Omega Micro Inc.'',
     ven 0x119C ''ITI'' ''Information Technology Inst.'',
     ven 0x119D ''Bug'' ''Bug Sapporo Japan'',
     ven 0x119E ''Fujitsu'' ''Fujitsu Microelectronics Ltd.'',
     ven 0x119F ''Bull'' ''Bull Hn Information Systems'',
     ven 0x11A1 ''Hamamatsu'' ''Hamamatsu Photonics K.K.'',
     ven 0x11A2 ''Sierra'' ''Sierra Research and Technology'',
     ven 0x11A3 ''Deuretzbacher'' ''Deuretzbacher GmbH & Co. Eng. KG'',
     ven 0x11A4 ''Barco'' ''Barco'',
     ven 0x11A5 ''MicroUnity'' ''MicroUnity Systems Engineering Inc.'',
     ven 0x11A6 ''Pure Data'' ''Pure Data'',
     ven 0x11A7 ''Power Comp.'' ''Power Computing Corp.'',
     ven 0x11A8 ''Systech'' ''Systech Corp.'',
     ven 0x11A9 ''InnoSys'' ''InnoSys Inc.'',
     ven 0x11AA ''Actel'' ''Actel'',
     ven 0x11AB ''Marvell'' ''Marvell Semiconductor'',
     ven 0x11AC ''Canon'' ''Canon Information Systems'',
     ven 0x11AD ''Lite-On'' ''Lite-On Technology Corp.'',
     ven 0x11AE ''Scitex'' ''Scitex Corporation Ltd'',
     ven 0x11AF ''Avid'' ''Avid Technology, Inc.'',
     ven 0x11B0 ''QuickLogic'' ''Quicklogic Corp'',
     ven 0x11B1 ''Apricot'' ''Apricot Computers'',
     ven 0x11B2 ''Kodak'' ''Eastman Kodak'',
     ven 0x11B3 ''Barr'' ''Barr Systems Inc.'',
     ven 0x11B4 ''Leitch'' ''Leitch Technology International'',
     ven 0x11B5 ''Radstone'' ''Radstone Technology Ltd.'',
     ven 0x11B6 ''United Video'' ''United Video Corp'',
     ven 0x11B7 ''Motorola'' ''Motorola'',
     ven 0x11B8 ''Xpoint'' ''Xpoint Technologies Inc'',
     ven 0x11B9 ''Pathlight'' ''Pathlight Technology Inc.'',
     ven 0x11BA ''Videotron'' ''Videotron Corp'',
     ven 0x11BB ''Pyramid'' ''Pyramid Technology'',
     ven 0x11BC ''Net. Periph.'' ''Network Peripherals Inc'',
     ven 0x11BD ''Pinnacle'' ''Pinnacle system'',
     ven 0x11BE ''IMI'' ''International Microcircuits Inc'',
     ven 0x11BF ''Astrodesign'' ''Astrodesign Inc.'',
     ven 0x11C1 ''LSI'' ''LSI Corporation'',
     ven 0x11C2 ''Sand'' ''Sand Microelectronics'',
     ven 0x11C4 ''Doc. Tech.'' ''Document Technologies Ind.'',
     ven 0x11C5 ''Shiva'' ''Shiva Corporatin'',
     ven 0x11C6 ''Dainippon'' ''Dainippon Screen Mfg. Co'',
     ven 0x11C7 ''D.C.M.'' ''D.C.M. Data Systems'',
     ven 0x11C8 ''Dolphin'' ''Dolphin Interconnect Solutions'']"

definition PciVenTable_4 :: "PCI_VENTABLE list" where
  "PciVenTable_4 = [
     ven 0x11C9 ''MAGMA'' ''MAGMA'',
     ven 0x11CA ''LSI Sys.'' ''LSI Systems Inc'',
     ven 0x11CB ''Specialix'' ''Specialix International Ltd.'',
     ven 0x11CC ''M&K'' ''Michels & Kleberhoff Computer GmbH'',
     ven 0x11CD ''HAL'' ''HAL Computer Systems Inc.'',
     ven 0x11CE ''PRI'' ''Primary Rate Inc'',
     ven 0x11CF ''PEC'' ''Pioneer Electronic Corporation'',
     ven 0x11D0 ''BAE'' ''BAE SYSTEMS - Manassas'',
     ven 0x11D1 ''AuraVision'' ''AuraVision Corporation'',
     ven 0x11D2 ''Intercom'' ''Intercom Inc.'',
     ven 0x11D3 ''Trancell'' ''Trancell Systems Inc'',
     ven 0x11D4 ''ADI'' ''Analog Devices, Inc.'',
     ven 0x11D5 ''Tahoma'' ''Tahoma Technology'',
     ven 0x11D6 ''Tekelec'' ''Tekelec Technologies'',
     ven 0x11D7 ''Trenton'' ''TRENTON Technology, Inc.'',
     ven 0x11D8 ''ITD'' ''Image Technologies Development'',
     ven 0x11D9 ''Tec'' ''Tec Corporation'',
     ven 0x11DA ''Novell'' ''Novell'',
     ven 0x11DB ''Sega'' ''Sega Enterprises Ltd'',
     ven 0x11DC ''Questra'' ''Questra Corp'',
     ven 0x11DD ''Crosfield'' ''Crosfield Electronics Ltd'',
     ven 0x11DE ''Zoran'' ''Zoran Corporation'',
     ven 0x11E1 ''Gec Plessey'' ''Gec Plessey Semi Inc'',
     ven 0x11E2 ''Samsung'' ''Samsung Information Systems America'',
     ven 0x11E3 ''QuickLogic'' ''Quicklogic Corp'',
     ven 0x11E4 ''Second Wave'' ''Second Wave Inc'',
     ven 0x11E5 ''IIX'' ''IIX Consulting'',
     ven 0x11E6 ''Mitsui'' ''Mitsui-Zosen System Research'',
     ven 0x11E8 ''DPSI'' ''Digital Processing Systems Inc'',
     ven 0x11E9 ''Highwater'' ''Highwater Designs Ltd'',
     ven 0x11EA ''Elsag'' ''Elsag Bailey'',
     ven 0x11EB ''Formation'' ''Formation, Inc'',
     ven 0x11EC ''Coreco'' ''Coreco Inc'',
     ven 0x11ED ''Mediamatics'' ''Mediamatics'',
     ven 0x11EE ''Dome'' ''Dome Imaging Systems Inc'',
     ven 0x11EF ''Nicolet'' ''Nicolet Technologies BV'',
     ven 0x11F0 ''Triyabosa'' ''Triya'',
     ven 0x11F2 ''Pic-Tel'' ''Picture Tel Japan KK'',
     ven 0x11F3 ''Keithley'' ''Keithley Instruments, Inc'',
     ven 0x11F4 ''Kinetic'' ''Kinetic Systems Corporation'',
     ven 0x11F5 ''Comp Dev'' ''Computing Devices Intl'',
     ven 0x11F6 ''Powermatic'' ''Powermatic Data Systems Ltd'',
     ven 0x11F7 ''S-A'' ''Scientific Atlanta'',
     ven 0x11F8 ''PMC-Sierra'' ''PMC-Sierra Inc.'',
     ven 0x11F9 ''I-Cube'' ''I-Cube Inc'',
     ven 0x11FA ''Kasan'' ''Kasan Electronics Co Ltd'',
     ven 0x11FB ''Datel'' ''Datel Inc'',
     ven 0x11FD ''High Street'' ''High Street Consultants'',
     ven 0x11FE ''Comtrol'' ''Comtrol Corp'',
     ven 0x11FF ''Scion'' ''Scion Corp'',
     ven 0x1200 ''CSS'' ''CSS Corp'',
     ven 0x1201 ''Vista'' ''Vista Controls Corp'',
     ven 0x1202 ''Network Gen'' ''Network General Corp'',
     ven 0x1203 ''Agfa'' ''Bayer Corporation Agfa Div'',
     ven 0x1204 ''Lattice'' ''Lattice Semiconductor Corp'',
     ven 0x1205 ''Array'' ''Array Corp'',
     ven 0x1206 ''Amdahl'' ''Amdahl Corp'',
     ven 0x1208 ''Parsytec'' ''Parsytec GmbH'',
     ven 0x1209 ''Sci Sys'' ''Sci Systems Inc'',
     ven 0x120A ''Synaptel'' ''Synaptel'',
     ven 0x120B ''Adaptive'' ''Adaptive Solutions'',
     ven 0x120D ''Comp Labs'' ''Compression Labs Inc.'',
     ven 0x120E ''Cyclades'' ''Cyclades Corporation'',
     ven 0x120F ''Essential'' ''Essential Communications'',
     ven 0x1210 ''Hyperparallel'' ''Hyperparallel Technologies'',
     ven 0x1211 ''Braintech'' ''Braintech Inc'',
     ven 0x1213 ''AISI'' ''Applied Intelligent Systems Inc'',
     ven 0x1214 ''Perf Tech'' ''Performance Technologies Inc'',
     ven 0x1215 ''Interware'' ''Interware Co Ltd'',
     ven 0x1216 ''Purup Eskofot'' ''Purup-Eskofot A/S'',
     ven 0x1217 ''O2Micro'' ''O2Micro Inc'',
     ven 0x1218 ''Hybricon'' ''Hybricon Corp'',
     ven 0x1219 ''First Virtual'' ''First Virtual Corp'',
     ven 0x121A ''3dfx'' ''3dfx Interactive Inc'',
     ven 0x121B ''ATM'' ''Advanced Telecommunications Modules'',
     ven 0x121C ''Nippon Texa'' ''Nippon Texa Co Ltd'',
     ven 0x121D ''LiPPERT'' ''LiPPERT Embedded Computers GmbH'',
     ven 0x121E ''CSPI'' ''CSPI'',
     ven 0x121F ''Arcus'' ''Arcus Technology Inc'',
     ven 0x1220 ''Ariel'' ''Ariel Corporation'',
     ven 0x1221 ''Contec'' ''Contec Microelectronics Europe BV'',
     ven 0x1222 ''Ancor'' ''Ancor Communications Inc'',
     ven 0x1223 ''Emerson Network Power'' ''Emerson Network Power, Embedded Computing'',
     ven 0x1224 ''Int. Img.'' ''Interactive Images'',
     ven 0x1225 ''Power IO'' ''Power I/O Inc.'',
     ven 0x1227 ''Tech-Source'' ''Tech-Source'',
     ven 0x1228 ''Norsk'' ''Norsk Elektro Optikk A/S'',
     ven 0x1229 ''Data Kin'' ''Data Kinesis Inc.'',
     ven 0x122A ''Int. Telecom'' ''Integrated Telecom'',
     ven 0x122B ''LG Ind.'' ''LG Industrial Systems Co. Ltd.'',
     ven 0x122C ''sci-worx'' ''sci-worx GmbH'',
     ven 0x122D ''Aztech'' ''Aztech System Ltd'',
     ven 0x122E ''Absolute Analysis'' ''Absolute Analysis'',
     ven 0x122F ''Andrew'' ''Andrew Corp.'',
     ven 0x1230 ''Fishcamp'' ''Fishcamp Engineering'',
     ven 0x1231 ''WMI'' ''Woodward McCoach Inc.'',
     ven 0x1233 ''Bus-Tech'' ''Bus-Tech Inc.'',
     ven 0x1234 ''Technical'' ''Technical Corp'',
     ven 0x1236 ''Sigma Designs'' ''Sigma Designs, Inc'',
     ven 0x1237 ''Alta Tech'' ''Alta Technology Corp.'',
     ven 0x1238 ''Adtran'' ''Adtran'',
     ven 0x1239 ''3DO'' ''The 3DO Company'',
     ven 0x123A ''Visicom'' ''Visicom Laboratories Inc.'',
     ven 0x123B ''Seeq'' ''Seeq Technology Inc.'',
     ven 0x123C ''Century Sys'' ''Century Systems Inc.'',
     ven 0x123D ''EDT'' ''Engineering Design Team Inc.'',
     ven 0x123F ''C-Cube'' ''C-Cube Microsystems'',
     ven 0x1240 ''Marathon'' ''Marathon Technologies Corp.'',
     ven 0x1241 ''DSC'' ''DSC Communications'',
     ven 0x1242 ''JNI'' ''JNI Corporation'',
     ven 0x1243 ''Delphax'' ''Delphax'',
     ven 0x1244 ''AVM'' ''AVM AUDIOVISUELLES MKTG & Computer GmbH'',
     ven 0x1245 ''APD'' ''APD S.A.'',
     ven 0x1246 ''Dipix'' ''Dipix Technologies Inc'',
     ven 0x1247 ''Xylon'' ''Xylon Research Inc.'',
     ven 0x1248 ''Central Data'' ''Central Data Corp.'',
     ven 0x1249 ''Samsung'' ''Samsung Electronics Co. Ltd.'',
     ven 0x124A ''AEG'' ''AEG Electrocom GmbH'',
     ven 0x124C ''Solitron'' ''Solitron Technologies Inc.'',
     ven 0x124D ''Stallion'' ''Stallion Technologies'',
     ven 0x124E ''Cylink'' ''Cylink'',
     ven 0x124F ''Infortrend'' ''Infortrend Technology Inc'',
     ven 0x1250 ''Hitachi'' ''Hitachi Microcomputer System Ltd.'',
     ven 0x1251 ''VLSI Sol.'' ''VLSI Solution OY'',
     ven 0x1253 ''Guzik'' ''Guzik Technical Enterprises'',
     ven 0x1254 ''Linear Systems'' ''Linear Systems Ltd.'',
     ven 0x1255 ''Optibase'' ''Optibase Ltd.'',
     ven 0x1256 ''Perceptive'' ''Perceptive Solutions Inc.'',
     ven 0x1257 ''Vertex'' ''Vertex Networks Inc.'',
     ven 0x1258 ''Gilbarco'' ''Gilbarco Inc.'',
     ven 0x1259 ''Allied Tsyn'' ''Allied Telesyn International'',
     ven 0x125A ''ABB Pwr'' ''ABB Power Systems'',
     ven 0x125B ''Asix'' ''Asix Electronics Corp.'',
     ven 0x125C ''Aurora'' ''Aurora Technologies Inc.'',
     ven 0x125D ''ESS'' ''ESS Technology'',
     ven 0x125E ''Specvideo'' ''Specialvideo Engineering SRL'',
     ven 0x125F ''CCT'' ''Concurrent Technologies Inc.'',
     ven 0x1260 ''Intersil'' ''Intersil Corporation'',
     ven 0x1261 ''Matsushita'' ''Matsushita-Kotobuki Electronics Indu'',
     ven 0x1262 ''ES Comp.'' ''ES Computer Co. Ltd.'',
     ven 0x1263 ''Sonic Sol.'' ''Sonic Solutions'',
     ven 0x1264 ''Aval Nag.'' ''Aval Nagasaki Corp.'',
     ven 0x1265 ''Casio'' ''Casio Computer Co. Ltd.'',
     ven 0x1266 ''Microdyne'' ''Microdyne Corp.'',
     ven 0x1267 ''SA Telecom'' ''S.A. Telecommunications'',
     ven 0x1268 ''Tektronix'' ''Tektronix'',
     ven 0x1269 ''SGS Thomson'' ''Thomson-CSF/TTM'',
     ven 0x126A ''Lexmark'' ''Lexmark International Inc.'',
     ven 0x126B ''Adax'' ''Adax Inc.'']"

definition PciVenTable_5 :: "PCI_VENTABLE list" where
  "PciVenTable_5 = [
     ven 0x126C ''Nortel'' ''Nortel Networks Corp.'',
     ven 0x126D ''Splash'' ''Splash Technology Inc.'',
     ven 0x126E ''Sumitomo'' ''Sumitomo Metal Industries Ltd.'',
     ven 0x126F ''Sil Motion'' ''Silicon Motion'',
     ven 0x1270 ''Olympus'' ''Olympus Optical Co. Ltd.'',
     ven 0x1271 ''GW Instr.'' ''GW Instruments'',
     ven 0x1272 ''Telematics'' ''Telematics International'',
     ven 0x1273 ''Hughes'' ''Hughes Network Systems'',
     ven 0x1274 ''Ensoniq'' ''Ensoniq'',
     ven 0x1275 ''NetApp'' ''Network Appliance'',
     ven 0x1276 ''Sw Net Tech'' ''Switched Network Technologies Inc.'',
     ven 0x1277 ''Comstream'' ''Comstream'',
     ven 0x1278 ''Transtech'' ''Transtech Parallel Systems'',
     ven 0x1279 ''Transmeta'' ''Transmeta Corp.'',
     ven 0x127B ''Pixera'' ''Pixera Corp'',
     ven 0x127C ''Crosspoint'' ''Crosspoint Solutions Inc.'',
     ven 0x127D ''Vela'' ''Vela Research LP'',
     ven 0x127E ''Winnow'' ''Winnov L.P.'',
     ven 0x127F ''Fujifilm'' ''Fujifilm'',
     ven 0x1280 ''Photoscript'' ''Photoscript Group Ltd.'',
     ven 0x1281 ''Yokogawa'' ''Yokogawa Electronic Corp.'',
     ven 0x1282 ''Davicom'' ''Davicom Semiconductor Inc.'',
     ven 0x1283 '' Zamora'' ''Waldo'',
     ven 0x1285 ''Plat Tech'' ''Platform Technologies Inc.'',
     ven 0x1286 ''MAZeT'' ''MAZeT GmbH'',
     ven 0x1287 ''LuxSonor'' ''LuxSonor Inc.'',
     ven 0x1288 ''Timestep'' ''Timestep Corp.'',
     ven 0x1289 ''AVC Tech'' ''AVC Technology Inc.'',
     ven 0x128A ''Asante'' ''Asante Technologies Inc.'',
     ven 0x128B ''Transwitch'' ''Transwitch Corp.'',
     ven 0x128C ''Retix'' ''Retix Corp.'',
     ven 0x128D ''G2 Net'' ''G2 Networks Inc.'',
     ven 0x128F ''Tateno'' ''Tateno Dennou Inc.'',
     ven 0x1290 ''Sord'' ''Sord Computer Corp.'',
     ven 0x1291 ''NCS Comp'' ''NCS Computer Italia'',
     ven 0x1292 ''Tritech'' ''Tritech Microelectronics Intl PTE'',
     ven 0x1293 ''M Reality'' ''Media Reality Technology'',
     ven 0x1294 ''Rhetorex'' ''Rhetorex Inc.'',
     ven 0x1295 ''Imagenation'' ''Imagenation Corp.'',
     ven 0x1296 ''Kofax'' ''Kofax Image Products'',
     ven 0x1297 ''Shuttle Computer'' ''Shuttle Computer'',
     ven 0x1298 ''Spellcaster'' ''Spellcaster Telecommunications Inc.'',
     ven 0x1299 ''Know Tech'' ''Knowledge Technology Laboratories'',
     ven 0x129A ''CWCEL'' ''Curtiss Wright Controls Electronic Systems'',
     ven 0x129B ''Img Access'' ''Image Access'',
     ven 0x129D ''CompCore'' ''CompCore Multimedia Inc.'',
     ven 0x129E ''Victor Jpn'' ''Victor Co. of Japan Ltd.'',
     ven 0x129F ''OEC Med'' ''OEC Medical Systems Inc.'',
     ven 0x12A0 ''A-B'' ''Allen Bradley Co.'',
     ven 0x12A1 ''Simpact'' ''Simpact Inc'',
     ven 0x12A2 ''NewGen'' ''NewGen Systems Corp.'',
     ven 0x12A3 ''Lucent'' ''Lucent Technologies AMR'',
     ven 0x12A4 ''NTT Elect'' ''NTT Electronics  Corp.'',
     ven 0x12A5 ''Vision Dyn'' ''Vision Dynamics Ltd.'',
     ven 0x12A6 ''Scalable'' ''Scalable Networks Inc.'',
     ven 0x12A7 ''AMO'' ''AMO GmbH'',
     ven 0x12A8 ''News Datacom'' ''News Datacom'',
     ven 0x12A9 ''Xiotech'' ''Xiotech Corp.'',
     ven 0x12AA ''SDL'' ''SDL Communications Inc.'',
     ven 0x12AB ''Yuan Yuan'' ''Yuan Yuan Enterprise Co. Ltd.'',
     ven 0x12AC ''MeasureX'' ''MeasureX Corp.'',
     ven 0x12AD ''MULTIDATA'' ''MULTIDATA GmbH'',
     ven 0x12AE ''Alteon'' ''Alteon Networks Inc.'',
     ven 0x12AF ''TDK USA'' ''TDK USA Corp.'',
     ven 0x12B0 ''Jorge Sci'' ''Jorge Scientific Corp.'',
     ven 0x12B1 ''GammaLink'' ''GammaLink'',
     ven 0x12B2 ''Gen Signal'' ''General Signal Networks'',
     ven 0x12B3 ''Interface'' ''Interface Corp. Ltd.'',
     ven 0x12B4 ''Future Tel'' ''Future Tel Inc.'',
     ven 0x12B5 ''Granite'' ''Granite Systems Inc.'',
     ven 0x12B7 ''Acumen'' ''Acumen'',
     ven 0x12B8 ''Korg'' ''Korg'',
     ven 0x12B9 ''3Com'' ''3Com Corporation'',
     ven 0x12BA ''Bittware'' ''Bittware, Inc'',
     ven 0x12BB ''Nippon Uni'' ''Nippon Unisoft Corp.'',
     ven 0x12BC ''Array Micro'' ''Array Microsystems'',
     ven 0x12BD ''Computerm'' ''Computerm Corp.'',
     ven 0x12BF ''Fujifilm'' ''Fujifilm Microdevices'',
     ven 0x12C0 ''Infimed'' ''Infimed'',
     ven 0x12C1 ''GMM Res'' ''GMM Research Corp.'',
     ven 0x12C2 ''Mentec'' ''Mentec Ltd.'',
     ven 0x12C3 ''Holtek'' ''Holtek Microelectronics Inc.'',
     ven 0x12C4 ''Connect Tech'' ''Connect Tech Inc.'',
     ven 0x12C5 ''PicturEl'' ''Picture Elements Inc.'',
     ven 0x12C6 ''Mitani'' ''Mitani Corp.'',
     ven 0x12C7 ''Dialogic'' ''Dialogic Corp.'',
     ven 0x12C8 ''G Force'' ''G Force Co. Ltd.'',
     ven 0x12C9 ''Gigi Ops'' ''Gigi Operations'',
     ven 0x12CA ''ICE'' ''Integrated Computing Engines, Inc.'',
     ven 0x12CB ''Antex'' ''Antex Electronics Corp.'',
     ven 0x12CC ''Pluto'' ''Pluto Technologies International'',
     ven 0x12CD ''Aims Lab'' ''Aims Lab'',
     ven 0x12CE ''Netspeed'' ''Netspeed Inc.'',
     ven 0x12CF ''Prophet'' ''Prophet Systems Inc.'',
     ven 0x12D0 ''GDE Sys'' ''GDE Systems Inc.'',
     ven 0x12D1 ''Huawei Inc.'' ''Huawei Technologies Co., Ltd.'',
     ven 0x12D3 ''Vingmed'' ''Vingmed Sound A/S'',
     ven 0x12D4 ''Ulticom'' ''Ulticom, Inc.'',
     ven 0x12D5 ''Equator'' ''Equator Technologies'',
     ven 0x12D6 ''Analogic'' ''Analogic Corp.'',
     ven 0x12D7 ''Biotronic'' ''Biotronic SRL'',
     ven 0x12D8 ''Pericom'' ''Pericom Semiconductor'',
     ven 0x12D9 ''Aculab'' ''Aculab Plc.'',
     ven 0x12DA ''TrueTime'' ''TrueTime'',
     ven 0x12DB ''Annapolis'' ''Annapolis Micro Systems Inc.'',
     ven 0x12DC ''Symicron'' ''Symicron Computer Communication Ltd.'',
     ven 0x12DD ''MGI'' ''Management Graphics Inc.'',
     ven 0x12DE ''Rainbow'' ''Rainbow Technologies'',
     ven 0x12DF ''SBS Tech'' ''SBS Technologies Inc.'',
     ven 0x12E0 ''Chase'' ''Chase Research PLC'',
     ven 0x12E1 ''Nintendo'' ''Nintendo Co. Ltd.'',
     ven 0x12E2 ''Datum'' ''Datum Inc. Bancomm-Timing Division'',
     ven 0x12E3 ''Imation'' ''Imation Corp. - Medical Imaging Syst'',
     ven 0x12E4 ''Brooktrout'' ''Brooktrout Technology Inc.'',
     ven 0x12E6 ''Cirel'' ''Cirel Systems'',
     ven 0x12E7 ''Sebring'' ''Sebring Systems Inc'',
     ven 0x12E8 ''CRISC'' ''CRISC Corp.'',
     ven 0x12E9 ''GE Spacenet'' ''GE Spacenet'',
     ven 0x12EB ''Aureal'' ''Aureal Semiconductor'',
     ven 0x12EC ''3A Intl'' ''3A International Inc.'',
     ven 0x12ED ''Optivision'' ''Optivision Inc.'',
     ven 0x12EE ''Orange Micro'' ''Orange Micro, Inc.'',
     ven 0x12EF ''Vienna'' ''Vienna Systems'',
     ven 0x12F0 ''Pentek'' ''Pentek'',
     ven 0x12F1 ''Sorenson'' ''Sorenson Vision Inc.'',
     ven 0x12F2 ''Gammagraphx'' ''Gammagraphx Inc.'',
     ven 0x12F4 ''Megatel'' ''Megatel'',
     ven 0x12F5 ''Forks'' ''Forks'',
     ven 0x12F7 ''Cognex'' ''Cognex'',
     ven 0x12F8 ''Electronic-Design'' ''Electronic-Design GmbH'',
     ven 0x12F9 ''FFT'' ''FourFold Technologies'',
     ven 0x12FB ''SSP'' ''Spectrum Signal Processing'',
     ven 0x12FC ''CEC'' ''Capital Equipment Corp'',
     ven 0x12FE ''esd'' ''esd Electronic System Design GmbH'',
     ven 0x1303 ''II'' ''Innovative Integration'',
     ven 0x1304 '''' ''Juniper Networks Inc.'',
     ven 0x1307 ''ComputerBoards'' ''ComputerBoards'',
     ven 0x1308 ''Jato'' ''Jato Technologies Inc.'',
     ven 0x130A ''Mitsubishi'' ''Mitsubishi Electric Microcomputer'',
     ven 0x130B ''Colorgraphic'' ''Colorgraphic Communications Corp'',
     ven 0x130F '''' ''Advanet Inc.'',
     ven 0x1310 '''' ''Gespac'',
     ven 0x1312 ''Microscan'' ''Microscan Systems Inc'',
     ven 0x1313 '''' ''Yaskawa Electric Co.'',
     ven 0x1316 '''' ''Teradyne Inc.'',
     ven 0x1317 ''ADMtek'' ''ADMtek Inc'',
     ven 0x1318 ''Packet Engines'' ''Packet Engines, Inc.'',
     ven 0x1319 ''Forte Media2'' ''Forte Media'',
     ven 0x131F '''' ''SIIG'',
     ven 0x1325 '''' ''Salix Technologies Inc'']"

definition PciVenTable_6 :: "PCI_VENTABLE list" where
  "PciVenTable_6 = [
     ven 0x1326 '''' ''Seachange International'',
     ven 0x1328 ''CIFELLI'' ''CIFELLI SYSTEMS CORPORATION'',
     ven 0x1331 ''RadiSys'' ''RadiSys Corporation'',
     ven 0x1332 ''CWCEC'' ''Curtiss-Wright Controls Embedded Computing'',
     ven 0x1335 ''Videomail'' ''Videomail Inc.'',
     ven 0x133D '''' ''Prisa Networks'',
     ven 0x133F '''' ''SCM Microsystems'',
     ven 0x1342 '''' ''Promax Systems Inc'',
     ven 0x1344 ''Micron'' ''Micron Technology, Inc.'',
     ven 0x1347 ''Spectracom'' ''Spectracom Corporation'',
     ven 0x134A ''DTC'' ''DTC Technology Corp.'',
     ven 0x134B '''' ''ARK Research Corp.'',
     ven 0x134C '''' ''Chori Joho System Co. Ltd'',
     ven 0x134D ''PCTEL'' ''PCTEL Inc.'',
     ven 0x135A '''' ''Brain Boxes Limited'',
     ven 0x135B '''' ''Giganet Inc.'',
     ven 0x135C '''' ''Quatech Inc'',
     ven 0x135D ''ABB Network Partn'' ''ABB Network Partner AB'',
     ven 0x135E ''Sealevel'' ''Sealevel Systems Inc.'',
     ven 0x135F '''' ''I-Data International A-S'',
     ven 0x1360 ''Meinberg Funkuhren'' ''Meinberg Funkuhren GmbH & Co. KG'',
     ven 0x1361 '''' ''Soliton Systems K.K.'',
     ven 0x1363 '''' ''Phoenix Technologies Ltd'',
     ven 0x1365 ''Hypercope'' ''Hypercope Corp.'',
     ven 0x1366 ''Teijin'' ''Teijin Seiki Co. Ltd.'',
     ven 0x1367 '''' ''Hitachi Zosen Corporation'',
     ven 0x1368 '''' ''Skyware Corporation'',
     ven 0x1369 ''Digigram'' ''Digigram'',
     ven 0x136B '''' ''Kawasaki Steel Corporation'',
     ven 0x136C '''' ''Adtek System Science Co Ltd'',
     ven 0x1375 '''' ''Boeing - Sunnyvale'',
     ven 0x137A ''MOTU'' ''Mark Of The Unicorn Inc'',
     ven 0x137B '''' ''PPT Vision'',
     ven 0x137C '''' ''Iwatsu Electric Co Ltd'',
     ven 0x137D '''' ''Dynachip Corporation'',
     ven 0x137E ''PTSC'' ''Patriot Scientific Corp.'',
     ven 0x1380 ''SANRITZ'' ''Sanritz Automation Co LTC'',
     ven 0x1381 '''' ''Brains Co. Ltd'',
     ven 0x1382 ''Marian'' ''Marian - Electronic & Software'',
     ven 0x1384 '''' ''Stellar Semiconductor Inc'',
     ven 0x1385 ''Netgear'' ''Netgear'',
     ven 0x1387 ''CWCEL'' ''Curtiss-Wright Controls Electronic Systems'',
     ven 0x1388 '''' ''Hitachi Information Technology Co Ltd'',
     ven 0x1389 ''Applicom'' ''Applicom International'',
     ven 0x138A '' '' ''Validity Sensors, Inc.'',
     ven 0x138B '''' ''Tokimec Inc'',
     ven 0x138E '''' ''Basler GMBH'',
     ven 0x138F '''' ''Patapsco Designs Inc'',
     ven 0x1390 ''CDI'' ''Concept Development Inc.'',
     ven 0x1393 '''' ''Moxa Technologies Co Ltd'',
     ven 0x1394 ''Level One'' ''Level One Communications'',
     ven 0x1395 '''' ''Ambicom Inc'',
     ven 0x1396 '''' ''Cipher Systems Inc'',
     ven 0x1397 ''Cologne'' ''Cologne Chip Designs GmbH'',
     ven 0x1398 '''' ''Clarion Co. Ltd'',
     ven 0x139A '''' ''Alacritech Inc'',
     ven 0x139D '''' ''Xstreams PLC/ EPL Limited'',
     ven 0x139E '''' ''Echostar Data Networks'',
     ven 0x13A0 '''' ''Crystal Group Inc'',
     ven 0x13A1 '''' ''Kawasaki Heavy Industries Ltd'',
     ven 0x13A3 ''HI-FN'' ''HI-FN Inc.'',
     ven 0x13A4 '''' ''Rascom Inc'',
     ven 0x13A7 '''' ''amc330'',
     ven 0x13A8 ''XR'' ''Exar Corp.'',
     ven 0x13A9 '''' ''Siemens Healthcare'',
     ven 0x13AA '''' ''Nortel Networks - BWA Division'',
     ven 0x13AF '''' ''T.Sqware'',
     ven 0x13B1 '''' ''Tamura Corporation'',
     ven 0x13B4 '''' ''Wellbean Co Inc'',
     ven 0x13B5 '''' ''ARM Ltd'',
     ven 0x13B6 (''pci'' @ [CHR 0x5C] @ ''ven_13b6'') (''DLoG Gesellschaft f'' @ [CHR 0xC3, CHR 0xBC] @ ''r elektronische Datentechnik mbH''),
     ven 0x13B8 '''' ''Nokia Telecommunications OY'',
     ven 0x13BD ''SHARP'' ''Sharp Corporation'',
     ven 0x13BF '''' ''Sharewave Inc'',
     ven 0x13C0 ''Microgate'' ''Microgate Corp.'',
     ven 0x13C1 ''3ware'' ''LSI'',
     ven 0x13C2 '''' ''Technotrend Systemtechnik GMBH'',
     ven 0x13C3 '''' ''Janz Computer AG'',
     ven 0x13C7 '''' ''Blue Chip Technology Ltd'',
     ven 0x13CC '''' ''Metheus Corporation'',
     ven 0x13CF '''' ''Studio Audio & Video Ltd'',
     ven 0x13D0 ''A'' ''B2C2 Inc'',
     ven 0x13D1 ''AboCom'' ''AboCom Systems, Inc'',
     ven 0x13D4 '''' ''Graphics Microsystems Inc'',
     ven 0x13D6 '''' ''K.I. Technology Co Ltd'',
     ven 0x13D7 ''tos6205'' ''Toshiba Engineering Corporation'',
     ven 0x13D8 '''' ''Phobos Corporation'',
     ven 0x13D9 '''' ''Apex Inc'',
     ven 0x13DC '''' ''Netboost Corporation'',
     ven 0x13DE '''' ''ABB Robotics Products AB'',
     ven 0x13DF ''E-Tech'' ''E-Tech Inc.'',
     ven 0x13E0 ''GVC'' ''GVC Corporation'',
     ven 0x13E3 '''' ''Nest Inc'',
     ven 0x13E4 '''' ''Calculex Inc'',
     ven 0x13E5 '''' ''Telesoft Design Ltd'',
     ven 0x13E9 '''' ''Intraserver Technology Inc'',
     ven 0x13EA '''' ''Dallas Semiconductor'',
     ven 0x13F0 '''' ''IC Plus Corporation'',
     ven 0x13F1 '''' ''OCE - Industries S.A.'',
     ven 0x13F4 '''' ''Troika Networks Inc'',
     ven 0x13F6 ''C-Media'' ''C-Media Electronics Inc.'',
     ven 0x13F9 '''' ''NTT Advanced Technology Corp.'',
     ven 0x13FA ''Pentland'' ''Pentland Systems Ltd.'',
     ven 0x13FB '''' ''Aydin Corp'',
     ven 0x13FD '''' ''Micro Science Inc'',
     ven 0x13FE ''Advantech'' ''Advantech Co., Ltd.'',
     ven 0x13FF '''' ''Silicon Spice Inc.'',
     ven 0x1400 ''ArtX'' ''ArtX Inc'',
     ven 0x1402 ''Meilhaus Electronic'' ''Meilhaus Electronic GmbH Germany'',
     ven 0x1404 '''' ''Fundamental Software Inc'',
     ven 0x1406 ''Oc'' ''Oce Print Logics Technologies S.A.'',
     ven 0x1407 ''LAVA'' ''Lava Computer MFG Inc.'',
     ven 0x1408 '''' ''Aloka Co. Ltd'',
     ven 0x1409 ''SUNIX'' ''SUNIX Co., Ltd.'',
     ven 0x140A '''' ''DSP Research Inc'',
     ven 0x140B '''' ''Ramix Inc'',
     ven 0x140D '''' ''Matsushita Electric Works Ltd'',
     ven 0x140F '''' ''Salient Systems Corp'',
     ven 0x1412 ''IC Ensemble'' ''IC Ensemble, Inc.'',
     ven 0x1413 '''' ''Addonics'',
     ven 0x1415 ''Oxford'' ''Oxford Semiconductor Ltd - now part of PLX Technology '',
     ven 0x1418 ''KES Inc.'' ''Kyushu Electronics Systems Inc'',
     ven 0x1419 '''' ''Excel Switching Corp'',
     ven 0x141B ''Gerd Mokwinski'' ''Zoom Telephonics Inc'',
     ven 0x141E '''' ''Fanuc Co. Ltd'',
     ven 0x141F '''' ''Visiontech Ltd'',
     ven 0x1420 '''' ''Psion Dacom PLC'',
     ven 0x1425 '''' ''Chelsio Communications'',
     ven 0x1428 '''' ''Edec Co Ltd'',
     ven 0x1429 '''' ''Unex Technology Corp.'',
     ven 0x142A '''' ''Kingmax Technology Inc'',
     ven 0x142B '''' ''Radiolan'',
     ven 0x142C '''' ''Minton Optic Industry Co Ltd'',
     ven 0x142D '''' ''Pixstream Inc'',
     ven 0x1430 '''' ''ITT Aerospace/Communications Division'',
     ven 0x1433 '''' ''Eltec Elektronik AG'',
     ven 0x1435 ''RTD'' ''RTD Embedded Technologies, Inc.'',
     ven 0x1436 '''' ''CIS Technology Inc'',
     ven 0x1437 '''' ''Nissin Inc Co'',
     ven 0x1438 '''' ''Atmel-Dream'',
     ven 0x143F '''' ''Lightwell Co Ltd - Zax Division'',
     ven 0x1441 '''' ''Agie SA.'',
     ven 0x1443 ''Unibrain'' ''Unibrain S.A.'',
     ven 0x1445 '''' ''Logical Co Ltd'',
     ven 0x1446 '''' ''Graphin Co. Ltd'',
     ven 0x1447 '''' ''Aim GMBH'',
     ven 0x1448 ''Alesis'' ''Alesis Studio'',
     ven 0x144A ''ADLINK'' ''ADLINK Technology Inc'']"

definition PciVenTable_7 :: "PCI_VENTABLE list" where
  "PciVenTable_7 = [
     ven 0x144B ''Loronix'' ''Loronix Information Systems, Inc.'',
     ven 0x144D '''' ''sanyo'',
     ven 0x1450 '''' ''Octave Communications Ind.'',
     ven 0x1451 '''' ''SP3D Chip Design GMBH'',
     ven 0x1453 '''' ''Mycom Inc'',
     ven 0x1458 ''Giga-Byte'' ''Giga-Byte Technologies'',
     ven 0x145C '''' ''Cryptek'',
     ven 0x145F ''Baldor'' ''Baldor Electric Company'',
     ven 0x1460 '''' ''Dynarc Inc'',
     ven 0x1462 ''MSI'' ''Micro-Star International Co Ltd'',
     ven 0x1463 '''' ''Fast Corporation'',
     ven 0x1464 ''ICS'' ''Interactive Circuits & Systems Ltd'',
     ven 0x1468 '''' ''Ambit Microsystems Corp.'',
     ven 0x1469 '''' ''Cleveland Motion Controls'',
     ven 0x146C '''' ''Ruby Tech Corp.'',
     ven 0x146D ''SDF'' ''Tachyon Inc.'',
     ven 0x146E '''' ''WMS Gaming'',
     ven 0x1471 '''' ''Integrated Telecom Express Inc'',
     ven 0x1473 '''' ''Zapex Technologies Inc'',
     ven 0x1474 '''' ''Doug Carson & Associates'',
     ven 0x1477 '''' ''Net Insight'',
     ven 0x1478 '''' ''Diatrend Corporation'',
     ven 0x147B '''' ''Abit Computer Corp.'',
     ven 0x147F '''' ''Nihon Unisys Ltd.'',
     ven 0x1482 '''' ''Isytec - Integrierte Systemtechnik Gmbh'',
     ven 0x1483 '''' ''Labway Coporation'',
     ven 0x1485 ''Edward'' ''Erma - Electronic GMBH'',
     ven 0x1489 '''' ''KYE Systems Corporation'',
     ven 0x148A '''' ''Opto 22'',
     ven 0x148B '''' ''Innomedialogic Inc.'',
     ven 0x148C ''CP (PowerColor)'' ''C.P. Technology Co. Ltd'',
     ven 0x148D ''Digicom'' ''Digicom Systems Inc.'',
     ven 0x148E '''' ''OSI Plus Corporation'',
     ven 0x148F '''' ''Plant Equipment Inc.'',
     ven 0x1490 '''' ''TC Labs Pty Ltd.'',
     ven 0x1491 ''Futronic '' ''Futronic '',
     ven 0x1493 '''' ''Maker Communications'',
     ven 0x1495 '''' ''Tokai Communications Industry Co. Ltd'',
     ven 0x1496 '''' ''Joytech Computer Co. Ltd.'',
     ven 0x1497 ''SMA'' ''SMA Technologie AG'',
     ven 0x1498 ''Tews'' ''Tews Technologies'',
     ven 0x1499 '''' ''Micro-Technology Co Ltd'',
     ven 0x149A ''Andor Tech'' ''Andor Technology Ltd'',
     ven 0x149B '''' ''Seiko Instruments Inc'',
     ven 0x149E '''' ''Mapletree Networks Inc.'',
     ven 0x149F '''' ''Lectron Co Ltd'',
     ven 0x14A0 '''' ''Softing GMBH'',
     ven 0x14A2 '''' ''Millennium Engineering Inc'',
     ven 0x14A4 ''sebastien'' ''GVC/BCM Advanced Research'',
     ven 0x14A9 ''Hivertec Inc.'' ''Hivertec Inc.'',
     ven 0x14AB '''' ''Mentor Graphics Corp.'',
     ven 0x14B1 '''' ''Nextcom K.K.'',
     ven 0x14B3 ''Xpeed'' ''Xpeed Inc.'',
     ven 0x14B4 '''' ''Philips Business Electronics B.V.'',
     ven 0x14B5 ''Creamware'' ''Creamware GmbH'',
     ven 0x14B6 '''' ''Quantum Data Corp.'',
     ven 0x14B7 ''Proxim'' ''Proxim Inc.'',
     ven 0x14B9 ''Aironet'' ''Aironet Wireless Communication'',
     ven 0x14BA '''' ''Internix Inc.'',
     ven 0x14BB '''' ''Semtech Corporation'',
     ven 0x14BE '''' ''L3 Communications'',
     ven 0x14C0 ''Compal'' ''Compal Electronics, Inc.'',
     ven 0x14C1 '''' ''Myricom Inc.'',
     ven 0x14C2 '''' ''DTK Computer'',
     ven 0x14C4 '''' ''Iwasaki Information Systems Co Ltd'',
     ven 0x14C5 ''ABB'' ''ABB AB (Sweden)'',
     ven 0x14C6 '''' ''Data Race Inc'',
     ven 0x14C7 ''Modtech'' ''Modular Technology Ltd.'',
     ven 0x14C8 ''Turbocomm'' ''Turbocomm Tech Inc'',
     ven 0x14C9 '''' ''Odin Telesystems Inc'',
     ven 0x14CB '''' ''Billionton Systems Inc./Cadmus Micro Inc'',
     ven 0x14CD ''USI'' ''Universal Scientific Ind.'',
     ven 0x14CF ''Tekmicro'' ''TEK Microsystems Inc.'',
     ven 0x14D4 ''PANACOM'' ''Panacom Technology Corporation'',
     ven 0x14D5 '''' ''Nitsuko Corporation'',
     ven 0x14D6 '''' ''Accusys Inc'',
     ven 0x14D7 '''' ''Hirakawa Hewtech Corp'',
     ven 0x14D8 '''' ''Hopf Elektronik GMBH'',
     ven 0x14D9 '''' ''Alpha Processor Inc'',
     ven 0x14DB ''Avlab'' ''Avlab Technology Inc.'',
     ven 0x14DC ''Amplicon'' ''Amplicon Liveline Limited'',
     ven 0x14DD '''' ''Imodl Inc.'',
     ven 0x14DE '''' ''Applied Integration Corporation'',
     ven 0x14E3 '''' ''Amtelco'',
     ven 0x14E4 ''Marcio'' ''Broadcom'',
     ven 0x14EA ''Planex'' ''Planex Communications, Inc.'',
     ven 0x14EB '''' ''Seiko Epson Corporation'',
     ven 0x14EC '''' ''Acqiris'',
     ven 0x14ED '''' ''Datakinetics Ltd'',
     ven 0x14EF '''' ''Carry Computer Eng. Co Ltd'',
     ven 0x14F1 '' Conexant'' ''Conexant Systems, Inc. (Formerly Rockwell)'',
     ven 0x14F2 ''Mobility'' ''Mobility Electronics, Inc.'',
     ven 0x14F4 '''' ''Tokyo Electronic Industry Co. Ltd.'',
     ven 0x14F5 ''dule'' ''Sopac Ltd'',
     ven 0x14F6 '''' ''Coyote Technologies LLC'',
     ven 0x14F7 '''' ''Wolf Technology Inc'',
     ven 0x14F8 '''' ''Audiocodes Inc'',
     ven 0x14F9 '''' ''AG Communications'',
     ven 0x14FB '''' ''Transas Marine (UK) Ltd'',
     ven 0x14FC '''' ''Quadrics Ltd'',
     ven 0x14FD ''Silex'' ''Silex Technology Inc.'',
     ven 0x14FE '''' ''Archtek Telecom Corp.'',
     ven 0x14FF '''' ''Twinhead International Corp.'',
     ven 0x1501 '''' ''Banksoft Canada Ltd'',
     ven 0x1502 '''' ''Mitsubishi Electric Logistics Support Co'',
     ven 0x1503 '''' ''Kawasaki LSI USA Inc'',
     ven 0x1504 '''' ''Kaiser Electronics'',
     ven 0x1506 '''' ''Chameleon Systems Inc'',
     ven 0x1507 ''Htec'' ''Htec Ltd.'',
     ven 0x1509 ''FIC'' ''First International Computer Inc'',
     ven 0x150B '''' ''Yamashita Systems Corp'',
     ven 0x150C '''' ''Kyopal Co Ltd'',
     ven 0x150D '''' ''Warpspped Inc'',
     ven 0x150E '''' ''C-Port Corporation'',
     ven 0x150F '''' ''Intec GMBH'',
     ven 0x1510 '''' ''Behavior Tech Computer Corp'',
     ven 0x1511 '''' ''Centillium Technology Corp'',
     ven 0x1512 ''Rosen'' ''Rosun Technologies Inc'',
     ven 0x1513 '''' ''Raychem'',
     ven 0x1514 '''' ''TFL LAN Inc'',
     ven 0x1515 '''' ''ICS Advent'',
     ven 0x1516 '''' ''Myson Technology Inc'',
     ven 0x1517 '''' ''Echotek Corporation'',
     ven 0x1518 '''' ''Kontron Modular Computers GmbH (PEP Modular Computers GMBH)'',
     ven 0x1519 '''' ''Telefon Aktiebolaget LM Ericsson'',
     ven 0x151A ''Globetek'' ''Globetek Inc.'',
     ven 0x151B ''wesam'' ''Combox Ltd'',
     ven 0x151C '''' ''Digital Audio Labs Inc'',
     ven 0x151D '''' ''Fujitsu Computer Products Of America'',
     ven 0x151E '''' ''Matrix Corp.'',
     ven 0x151F '''' ''Topic Semiconductor Corp'',
     ven 0x1520 '''' ''Chaplet System Inc'',
     ven 0x1521 '''' ''Bell Corporation'',
     ven 0x1522 ''Mainpine'' ''Mainpine Limited'',
     ven 0x1523 '''' ''Music Semiconductors'',
     ven 0x1524 ''mayer'' ''ENE Technology Inc'',
     ven 0x1525 '''' ''Impact Technologies'',
     ven 0x1526 '''' ''ISS Inc'',
     ven 0x1527 '''' ''Solectron'',
     ven 0x1528 '''' ''Acksys'',
     ven 0x1529 '''' ''American Microsystems Inc'',
     ven 0x152A '''' ''Quickturn Design Systems'',
     ven 0x152B '''' ''Flytech Technology Co Ltd'',
     ven 0x152C '''' ''Macraigor Systems LLC'',
     ven 0x152D '''' ''Quanta Computer Inc'',
     ven 0x152E '''' ''Melec Inc'',
     ven 0x152F '''' ''Philips - Crypto'',
     ven 0x1532 ''Echelon Corp'' ''Echelon Corporation'',
     ven 0x1533 '''' ''Baltimore'',
     ven 0x1534 '''' ''Road Corporation'']"

definition PciVenTable_8 :: "PCI_VENTABLE list" where
  "PciVenTable_8 = [
     ven 0x1535 '''' ''Evergreen Technologies Inc'',
     ven 0x1537 '''' ''Datalex Communcations'',
     ven 0x1538 ''Aralion'' ''Aralion Inc.'',
     ven 0x1539 '''' ''Atelier Informatiques et Electronique Et'',
     ven 0x153A '''' ''ONO Sokki'',
     ven 0x153B ''cami'' ''Terratec Electronic GMBH'',
     ven 0x153C '''' ''Antal Electronic'',
     ven 0x153D '''' ''Filanet Corporation'',
     ven 0x153E ''Techwell'' ''Techwell Inc'',
     ven 0x153F ''MIPS'' ''MIPS Technologies, Inc'',
     ven 0x1540 '''' ''Provideo Multimedia Co Ltd'',
     ven 0x1541 '''' ''Telocity Inc.'',
     ven 0x1542 '''' ''Vivid Technology Inc'',
     ven 0x1543 '''' ''Silicon Laboratories'',
     ven 0x1544 ''DCM'' ''DCM Technologies Ltd.'',
     ven 0x1545 ''Visiontek'' ''VisionTek'',
     ven 0x1546 '''' ''IOI Technology Corp.'',
     ven 0x1547 '''' ''Mitutoyo Corporation'',
     ven 0x1548 '''' ''Jet Propulsion Laboratory'',
     ven 0x1549 ''ISS'' ''Interconnect Systems Solutions'',
     ven 0x154A '''' ''Max Technologies Inc.'',
     ven 0x154B '''' ''Computex Co Ltd'',
     ven 0x154C '''' ''Visual Technology Inc.'',
     ven 0x154D '''' ''PAN International Industrial Corp'',
     ven 0x154E '''' ''Servotest Ltd'',
     ven 0x154F '''' ''Stratabeam Technology'',
     ven 0x1550 '''' ''Open Network Co Ltd'',
     ven 0x1551 '''' ''Smart Electronic Development GMBH'',
     ven 0x1553 '''' ''Chicony Electronics Co Ltd'',
     ven 0x1554 ''PMC'' ''Prolink Microsystems Corp.'',
     ven 0x1555 ''Gesytec'' ''Gesytec GmbH'',
     ven 0x1556 '''' ''PLDA'',
     ven 0x1557 '''' ''Mediastar Co. Ltd'',
     ven 0x1558 ''dwi'' ''Clevo/Kapok Computer'',
     ven 0x1559 '''' ''SI Logic Ltd'',
     ven 0x155A '''' ''Innomedia Inc'',
     ven 0x155B '''' ''Protac International Corp'',
     ven 0x155C '''' ''s'',
     ven 0x155D '''' ''MAC System Co Ltd'',
     ven 0x155E ''KR'' ''KUKA Roboter GmbH'',
     ven 0x155F '''' ''Perle Systems Limited'',
     ven 0x1560 '''' ''Terayon Communications Systems'',
     ven 0x1561 '''' ''Viewgraphics Inc'',
     ven 0x1562 '''' ''Symbol Technologies, Inc.'',
     ven 0x1563 '''' ''A-Trend Technology Co Ltd'',
     ven 0x1564 '''' ''Yamakatsu Electronics Industry Co Ltd'',
     ven 0x1565 ''xyz'' ''Biostar Microtech Intl Corp'',
     ven 0x1566 '''' ''Ardent Technologies Inc'',
     ven 0x1567 '''' ''Jungsoft'',
     ven 0x1568 '''' ''DDK Electronics Inc'',
     ven 0x1569 ''AleksSPb'' ''Palit Microsystems Inc'',
     ven 0x156A ''Avtec'' ''Avtec Systems Inc'',
     ven 0x156B '''' ''S2io Inc'',
     ven 0x156C '''' ''Vidac Electronics GMBH'',
     ven 0x156D '''' ''Alpha-Top Corp'',
     ven 0x156E '''' ''Alfa Inc.'',
     ven 0x156F '''' ''M-Systems Flash Disk Pioneers Ltd'',
     ven 0x1570 '''' ''Lecroy Corporation'',
     ven 0x1571 '''' ''Contemporary Controls'',
     ven 0x1572 '''' ''Otis Elevator Company'',
     ven 0x1573 '''' ''Lattice - Vantis'',
     ven 0x1574 '''' ''Fairchild Semiconductor'',
     ven 0x1575 '''' ''Voltaire Advanced Data Security Ltd'',
     ven 0x1576 ''ViewCast'' ''Viewcast Com'',
     ven 0x1578 '''' ''Hitt'',
     ven 0x1579 '''' ''Dual Technology Corporation'',
     ven 0x157A '''' ''Japan Elecronics Ind. Inc'',
     ven 0x157B '''' ''Star Multimedia Corp.'',
     ven 0x157C ''Eurosoft'' ''Eurosoft (UK)'',
     ven 0x157D '''' ''Gemflex Networks'',
     ven 0x157E '''' ''Transition Networks'',
     ven 0x157F '''' ''PX Instruments Technology Ltd'',
     ven 0x1580 '''' ''Primex Aerospace Co.'',
     ven 0x1581 '''' ''SEH Computertechnik GMBH'',
     ven 0x1582 '''' ''Cytec Corporation'',
     ven 0x1583 '''' ''Inet Technologies Inc'',
     ven 0x1584 ''Vetronix'' ''Uniwill Computer Corporation'',
     ven 0x1585 '''' ''Marconi Commerce Systems SRL'',
     ven 0x1586 '''' ''Lancast Inc'',
     ven 0x1587 '''' ''Konica Corporation'',
     ven 0x1588 ''Solidum'' ''Solidum Systems Corp'',
     ven 0x1589 '''' ''Atlantek Microsystems Pty Ltd'',
     ven 0x158A '''' ''Digalog Systems Inc'',
     ven 0x158B ''Standard USB Host Controller'' ''Allied Data Technologies'',
     ven 0x158C '''' ''Hitachi Semiconductor & Devices Sales Co'',
     ven 0x158D '''' ''Point Multimedia Systems'',
     ven 0x158E '''' ''Lara Technology Inc'',
     ven 0x158F '''' ''Ditect Coop'',
     ven 0x1590 '''' ''3pardata Inc.'',
     ven 0x1591 '''' ''ARN'',
     ven 0x1592 ''Syba'' ''Syba Tech Ltd.'',
     ven 0x1593 '''' ''Bops Inc'',
     ven 0x1594 '''' ''Netgame Ltd'',
     ven 0x1595 '''' ''Diva Systems Corp.'',
     ven 0x1596 '''' ''Folsom Research Inc'',
     ven 0x1597 '''' ''Memec Design Services'',
     ven 0x1598 '''' ''Granite Microsystems'',
     ven 0x1599 '''' ''Delta Electronics Inc'',
     ven 0x159A '''' ''General Instrument'',
     ven 0x159B '''' ''Faraday Technology Corp'',
     ven 0x159C '''' ''Stratus Computer Systems'',
     ven 0x159D '''' ''Ningbo Harrison Electronics Co Ltd'',
     ven 0x159E '''' ''A-Max Technology Co Ltd'',
     ven 0x159F '''' ''Galea Network Security'',
     ven 0x15A0 '''' ''Compumaster SRL'',
     ven 0x15A1 '''' ''Geocast Network Systems Inc'',
     ven 0x15A2 '''' ''Catalyst Enterprises Inc'',
     ven 0x15A3 '''' ''Italtel'',
     ven 0x15A4 ''Rafa'' ''X-Net OY'',
     ven 0x15A5 '''' ''Toyota MACS Inc'',
     ven 0x15A6 '''' ''Sunlight Ultrasound Technologies Ltd'',
     ven 0x15A7 '''' ''SSE Telecom Inc'',
     ven 0x15A8 '''' ''Shanghai Communications Technologies Cen'',
     ven 0x15AA '''' ''Moreton Bay'',
     ven 0x15AB '''' ''Bluesteel Networks Inc'',
     ven 0x15AC '''' ''North Atlantic Instruments'',
     ven 0x15AD ''VMware'' ''VMware Inc.'',
     ven 0x15AE '''' ''Amersham Pharmacia Biotech'',
     ven 0x15B0 '''' ''Zoltrix International Limited'',
     ven 0x15B1 '''' ''Source Technology Inc'',
     ven 0x15B2 '''' ''Mosaid Technologies Inc.'',
     ven 0x15B3 '''' ''Mellanox Technology'',
     ven 0x15B4 '''' ''CCI/Triad'',
     ven 0x15B5 '''' ''Cimetrics Inc'',
     ven 0x15B6 '''' ''Texas Memory Systems Inc'',
     ven 0x15B7 '''' ''Sandisk Corp.'',
     ven 0x15B8 '''' ''Addi-Data GMBH'',
     ven 0x15B9 '''' ''Maestro Digital Communications'',
     ven 0x15BA '''' ''Impacct Technology Corp'',
     ven 0x15BB '''' ''Portwell Inc'',
     ven 0x15BC ''Agilent'' ''Agilent Technologies'',
     ven 0x15BD '''' ''DFI Inc.'',
     ven 0x15BE '''' ''Sola Electronics'',
     ven 0x15BF '''' ''High Tech Computer Corp (HTC)'',
     ven 0x15C0 ''BVM'' ''BVM Limited'',
     ven 0x15C1 '''' ''Quantel'',
     ven 0x15C2 '''' ''Newer Technology Inc'',
     ven 0x15C3 '''' ''Taiwan Mycomp Co Ltd'',
     ven 0x15C4 '''' ''EVSX Inc'',
     ven 0x15C5 '''' ''Procomp Informatics Ltd'',
     ven 0x15C6 '''' ''Technical University Of Budapest'',
     ven 0x15C7 '''' ''Tateyama System Laboratory Co Ltd'',
     ven 0x15C8 '''' ''Penta Media Co. Ltd'',
     ven 0x15C9 '''' ''Serome Technology Inc'',
     ven 0x15CA '''' ''Bitboys OY'',
     ven 0x15CB '''' ''AG Electronics Ltd'',
     ven 0x15CC '''' ''Hotrail Inc.'',
     ven 0x15CD '''' ''Dreamtech Co Ltd'',
     ven 0x15CE '''' ''Genrad Inc.'',
     ven 0x15CF '''' ''Hilscher GMBH'']"

definition PciVenTable_9 :: "PCI_VENTABLE list" where
  "PciVenTable_9 = [
     ven 0x15D1 ''Infineon'' ''Infineon Technologies AG'',
     ven 0x15D2 '''' ''FIC (First International Computer Inc)'',
     ven 0x15D3 '''' ''NDS Technologies Israel Ltd'',
     ven 0x15D4 '''' ''Iwill Corporation'',
     ven 0x15D5 '''' ''Tatung Co.'',
     ven 0x15D6 '''' ''Entridia Corporation'',
     ven 0x15D7 '''' ''Rockwell-Collins Inc'',
     ven 0x15D8 '''' ''Cybernetics Technology Co Ltd'',
     ven 0x15D9 ''uttank'' ''Super Micro Computer Inc'',
     ven 0x15DA '''' ''Cyberfirm Inc.'',
     ven 0x15DB '''' ''Applied Computing Systems Inc.'',
     ven 0x15DC ''Litronic'' ''Litronic Inc.'',
     ven 0x15DD '' '' ''Sigmatel Inc.'',
     ven 0x15DE '''' ''Malleable Technologies Inc'',
     ven 0x15E0 '''' ''Cacheflow Inc'',
     ven 0x15E1 ''VTG'' ''Voice Technologies Group'',
     ven 0x15E2 '''' ''Quicknet Technologies Inc'',
     ven 0x15E3 '''' ''Networth Technologies Inc'',
     ven 0x15E4 '''' ''VSN Systemen BV'',
     ven 0x15E5 '''' ''Valley Technologies Inc'',
     ven 0x15E6 '''' ''Agere Inc.'',
     ven 0x15E7 '''' ''GET Engineering Corp.'',
     ven 0x15E8 ''akmal'' ''National Datacomm Corp.'',
     ven 0x15E9 '''' ''Pacific Digital Corp.'',
     ven 0x15EA '''' ''Tokyo Denshi Sekei K.K.'',
     ven 0x15EB '''' ''Drsearch GMBH'',
     ven 0x15EC '''' ''Beckhoff Automation GmbH'',
     ven 0x15ED '''' ''Macrolink Inc'',
     ven 0x15EE '''' ''IN Win Development Inc.'',
     ven 0x15EF '''' ''Intelligent Paradigm Inc'',
     ven 0x15F0 '''' ''B-Tree Systems Inc'',
     ven 0x15F1 '''' ''Times N Systems Inc'',
     ven 0x15F2 ''SPOT Imaging'' ''SPOT Imaging Solutions a division of Diagnostic Instruments, Inc'',
     ven 0x15F3 '''' ''Digitmedia Corp.'',
     ven 0x15F4 '''' ''Valuesoft'',
     ven 0x15F5 '''' ''Power Micro Research'',
     ven 0x15F6 '''' ''Extreme Packet Device Inc'',
     ven 0x15F7 '''' ''Banctec'',
     ven 0x15F8 '''' ''Koga Electronics Co'',
     ven 0x15F9 '''' ''Zenith Electronics Co'',
     ven 0x15FA ''Axzam'' ''Axzam Corporation'',
     ven 0x15FB '''' ''Zilog Inc.'',
     ven 0x15FC '''' ''Techsan Electronics Co Ltd'',
     ven 0x15FD '''' ''N-Cubed.Net'',
     ven 0x15FE '''' ''Kinpo Electronics Inc'',
     ven 0x15FF '''' ''Fastpoint Technologies Inc.'',
     ven 0x1600 '''' ''Northrop Grumman - Canada Ltd'',
     ven 0x1601 '''' ''Tenta Technology'',
     ven 0x1602 '''' ''Prosys-TEC Inc.'',
     ven 0x1603 '''' ''Nokia Wireless Business Communications'',
     ven 0x1604 '''' ''Central System Research Co Ltd'',
     ven 0x1605 '''' ''Pairgain Technologies'',
     ven 0x1606 '''' ''Europop AG'',
     ven 0x1607 '''' ''Lava Semiconductor Manufacturing Inc.'',
     ven 0x1608 ''nuri'' ''Automated Wagering International'',
     ven 0x1609 '''' ''Sciemetric Instruments Inc'',
     ven 0x160A '''' ''Kollmorgen Servotronix'',
     ven 0x160B '''' ''Onkyo Corp.'',
     ven 0x160C '''' ''Oregon Micro Systems Inc.'',
     ven 0x160D '''' ''Aaeon Electronics Inc'',
     ven 0x160E '''' ''CML Emergency Services'',
     ven 0x160F '''' ''ITEC Co Ltd'',
     ven 0x1610 '''' ''Tottori Sanyo Electric Co Ltd'',
     ven 0x1611 '''' ''Bel Fuse Inc.'',
     ven 0x1612 '''' ''Telesynergy Research Inc.'',
     ven 0x1613 '''' ''System Craft Inc.'',
     ven 0x1614 '''' ''Jace Tech Inc.'',
     ven 0x1615 '''' ''Equus Computer Systems Inc'',
     ven 0x1616 '''' ''Iotech Inc.'',
     ven 0x1617 '''' ''Rapidstream Inc'',
     ven 0x1618 '''' ''Esec SA'',
     ven 0x1619 ''FarSite'' ''FarSite Communications Limited'',
     ven 0x161B '''' ''Mobilian Israel Ltd'',
     ven 0x161C '''' ''Berkshire Products'',
     ven 0x161D '''' ''Gatec'',
     ven 0x161E '''' ''Kyoei Sangyo Co Ltd'',
     ven 0x161F ''Arima'' ''Arima Computer Corporation'',
     ven 0x1620 '''' ''Sigmacom Co Ltd'',
     ven 0x1621 '''' ''Lynx Studio Technology Inc'',
     ven 0x1622 ''NHC'' ''Nokia Home Communications'',
     ven 0x1623 '''' ''KRF Tech Ltd'',
     ven 0x1624 '''' ''CE Infosys GMBH'',
     ven 0x1625 '''' ''Warp Nine Engineering'',
     ven 0x1626 '''' ''TDK Semiconductor Corp.'',
     ven 0x1627 '''' ''BCom Electronics Inc'',
     ven 0x1629 '''' ''Kongsberg Spacetec a.s.'',
     ven 0x162A '''' ''Sejin Computerland Co Ltd'',
     ven 0x162B '''' ''Shanghai Bell Company Limited'',
     ven 0x162C '''' ''C&H Technologies Inc'',
     ven 0x162D '''' ''Reprosoft Co Ltd'',
     ven 0x162E '''' ''Margi Systems Inc'',
     ven 0x162F '''' ''Rohde & Schwarz GMBH & Co KG'',
     ven 0x1630 '''' ''Sky Computers Inc'',
     ven 0x1631 '''' ''NEC Computer International'',
     ven 0x1632 '''' ''Verisys Inc'',
     ven 0x1633 '''' ''Adac Corporation'',
     ven 0x1634 '''' ''Visionglobal Network Corp.'',
     ven 0x1635 '''' ''Decros / S.ICZ a.s.'',
     ven 0x1636 '''' ''Jean Company Ltd'',
     ven 0x1637 '''' ''NSI'',
     ven 0x1638 '' Eumitcom Technology Inc'' ''Eumitcom Technology Inc'',
     ven 0x163A '''' ''Air Prime Inc'',
     ven 0x163B '''' ''Glotrex Co Ltd'',
     ven 0x163C '''' ''intel'',
     ven 0x163D '''' ''Heidelberg Digital LLC'',
     ven 0x163E ''&#1074;&#1083;&#1072;&#1076;&#1080;&#1084;&#1080;&'' ''3dpower'',
     ven 0x163F '''' ''Renishaw PLC'',
     ven 0x1640 '''' ''Intelliworxx Inc'',
     ven 0x1641 '''' ''MKNet Corporation'',
     ven 0x1642 '''' ''Bitland'',
     ven 0x1643 '''' ''Hajime Industries Ltd'',
     ven 0x1644 '''' ''Western Avionics Ltd'',
     ven 0x1645 '''' ''Quick-Serv. Computer Co. Ltd'',
     ven 0x1646 '''' ''Nippon Systemware Co Ltd'',
     ven 0x1647 '''' ''Hertz Systemtechnik GMBH'',
     ven 0x1648 '''' ''MeltDown Systems LLC'',
     ven 0x1649 '''' ''Jupiter Systems'',
     ven 0x164A '''' ''Aiwa Co. Ltd'',
     ven 0x164C '''' ''Department Of Defense'',
     ven 0x164D '''' ''Ishoni Networks'',
     ven 0x164E '''' ''Micrel Inc.'',
     ven 0x164F ''DataVoice'' ''Datavoice (Pty) Ltd.'',
     ven 0x1650 '''' ''Admore Technology Inc.'',
     ven 0x1651 '''' ''Chaparral Network Storage'',
     ven 0x1652 '''' ''Spectrum Digital Inc.'',
     ven 0x1653 ''Naturetech'' ''Nature Worldwide Technology Corp'',
     ven 0x1654 '''' ''Sonicwall Inc'',
     ven 0x1655 '''' ''Dazzle Multimedia Inc.'',
     ven 0x1656 '''' ''Insyde Software Corp'',
     ven 0x1657 '''' ''Brocade Communications Systems'',
     ven 0x1658 ''Med Associates, Inc.'' ''Med Associates Inc.'',
     ven 0x1659 '''' ''Shiba Denshi Systems Inc.'',
     ven 0x165A '''' ''Epix Inc.'',
     ven 0x165B '''' ''Real-Time Digital Inc.'',
     ven 0x165C '''' ''Kondo Kagaku'',
     ven 0x165D ''salva'' ''Hsing Tech. Enterprise Co. Ltd.'',
     ven 0x165E '''' ''Hyunju Computer Co. Ltd.'',
     ven 0x165F ''Comart'' ''Comartsystem Korea'',
     ven 0x1660 ''NETSEC'' ''Network Security Technologies Inc. (NetSec)'',
     ven 0x1661 '''' ''Worldspace Corp.'',
     ven 0x1662 '''' ''Int Labs'',
     ven 0x1663 '''' ''Elmec Inc. Ltd.'',
     ven 0x1664 '''' ''Fastfame Technology Co. Ltd.'',
     ven 0x1665 '''' ''Edax Inc.'',
     ven 0x1666 '''' ''Norpak Corporation'',
     ven 0x1667 '''' ''CoSystems Inc.'',
     ven 0x1668 ''Actiontec'' ''Actiontec Electronics Inc.'',
     ven 0x166A '''' ''Komatsu Ltd.'',
     ven 0x166B '''' ''Supernet Inc.'']"

definition PciVenTable_10 :: "PCI_VENTABLE list" where
  "PciVenTable_10 = [
     ven 0x166C '''' ''Shade Ltd.'',
     ven 0x166D '''' ''Sibyte Inc.'',
     ven 0x166E '''' ''Schneider Automation Inc.'',
     ven 0x166F '''' ''Televox Software Inc.'',
     ven 0x1670 '''' ''Rearden Steel'',
     ven 0x1671 '''' ''Atan Technology Inc.'',
     ven 0x1672 '''' ''Unitec Co. Ltd.'',
     ven 0x1673 '''' ''pctel'',
     ven 0x1675 '''' ''Square Wave Technology'',
     ven 0x1676 ''Gateway'' ''Emachines Inc.'',
     ven 0x1677 '''' ''Bernecker + Rainer'',
     ven 0x1678 '''' ''INH Semiconductor'',
     ven 0x1679 '''' ''Tokyo Electron Device Ltd.'',
     ven 0x167F ''iba'' ''iba AG'',
     ven 0x1680 ''Dunti'' ''Dunti Corp.'',
     ven 0x1681 ''Hercules'' ''Hercules'',
     ven 0x1682 ''PINE'' ''PINE Technology, Ltd.'',
     ven 0x1688 ''CastleNet'' ''CastleNet Technology Inc.'',
     ven 0x168A ''USA'' ''Utimaco Safeware AG'',
     ven 0x168B '''' ''Circut Assembly Corp.'',
     ven 0x168C ''Atherosef'' ''Atheros Communications Inc.'',
     ven 0x168D ''NMI'' ''NMI Electronics Ltd.'',
     ven 0x168E ''Hyundai MultiCAV'' ''Hyundai MultiCAV Computer Co. Ltd.'',
     ven 0x168F ''qsb'' ''KDS Innotech Corp.'',
     ven 0x1690 ''NetContinuum'' ''NetContinuum, Inc.'',
     ven 0x1693 ''FERMA'' ''FERMA'',
     ven 0x1695 ''EPoX'' ''EPoX Computer Co., Ltd.'',
     ven 0x16AE ''SFNT'' ''SafeNet Inc.'',
     ven 0x16B3 '''' ''CNF Mobile Solutions'',
     ven 0x16B8 ''Sonnet Technologies'' ''Sonnet Technologies, Inc.'',
     ven 0x16CA ''Cenatek'' ''Cenatek Inc.'',
     ven 0x16CB ''Minolta'' ''Minolta Co. Ltd.'',
     ven 0x16CC ''Inari'' ''Inari Inc.'',
     ven 0x16D0 '''' ''Systemax'',
     ven 0x16E0 ''3MTS'' ''Third Millenium Test Solutions, Inc.'',
     ven 0x16E5 '''' ''Intellon Corporation'',
     ven 0x16EC ''USR'' ''U.S. Robotics'',
     ven 0x16F0 '''' ''LaserLinc Inc.'',
     ven 0x16F1 ''Adicti'' ''Adicti Corp.'',
     ven 0x16F3 ''Jetway'' ''Jetway Information Co., Ltd'',
     ven 0x16F6 ''VideoTele.com'' ''VideoTele.com Inc.'',
     ven 0x1700 ''Antara'' ''Antara LLC'',
     ven 0x1701 '''' ''Interactive Computer Products Inc.'',
     ven 0x1702 ''IMC'' ''Internet Machines Corp.'',
     ven 0x1703 ''Desana'' ''Desana Systems'',
     ven 0x1704 ''Clearwater'' ''Clearwater Networks'',
     ven 0x1705 ''Digital First'' ''Digital First'',
     ven 0x1706 ''PBC'' ''Pacific Broadband Communications'',
     ven 0x1707 ''Cogency'' ''Cogency Semiconductor Inc.'',
     ven 0x1708 ''Harris'' ''Harris Corp.'',
     ven 0x1709 ''Zarlink'' ''Zarlink Semiconductor'',
     ven 0x170A ''Alpine'' ''Alpine Electronics Inc.'',
     ven 0x170B ''NetOctave'' ''NetOctave Inc.'',
     ven 0x170C ''YottaYotta'' ''YottaYotta Inc.'',
     ven 0x170D ''SMI'' ''SensoMotoric Instruments GmbH'',
     ven 0x170E ''San Valley'' ''San Valley Systems, Inc.'',
     ven 0x170F ''Cyberdyne'' ''Cyberdyne Inc.'',
     ven 0x1710 ''Pelago'' ''Pelago Nutworks'',
     ven 0x1711 ''NetScreen'' ''MyName Technologies, Inc.'',
     ven 0x1712 ''NICE'' ''NICE Systems Inc.'',
     ven 0x1713 ''TOPCON'' ''TOPCON Corp.'',
     ven 0x1725 ''Vitesse'' ''Vitesse Semiconductor'',
     ven 0x1734 ''Fujitsu-Siemens'' ''Fujitsu-Siemens Computers GmbH'',
     ven 0x1737 ''LinkSys'' ''LinkSys'',
     ven 0x173B ''Altima'' ''Altima Communications Inc.'',
     ven 0x1743 ''Peppercon'' ''Peppercon AG'',
     ven 0x174B ''PC Partner (Sapphire)'' ''PC Partner Limited'',
     ven 0x1752 ''AMW Europe GmbH'' ''Global Brands Manufacture Ltd.'',
     ven 0x1753 ''TeraRecon'' ''TeraRecon, Inc.'',
     ven 0x1755 ''Alchemy'' ''Alchemy Semiconductor Inc.'',
     ven 0x176A ''GDC'' ''General Dynamics Canada'',
     ven 0x1775 '' '' ''General Electric'',
     ven 0x1789 ''Ennyah'' ''Ennyah Technologies Corp'',
     ven 0x1793 ''Unitech'' ''Unitech Electronics Co., Ltd'',
     ven 0x17A1 ''  '' ''Tascorp'',
     ven 0x17A7 ''Start Network'' ''Start Network Technology Co., Ltd.'',
     ven 0x17AA ''lenovo'' ''Legend Ltd. (Beijing)'',
     ven 0x17AB ''Philips170C'' ''Phillips Components'',
     ven 0x17AF ''Hightech'' ''Hightech Information Systems, Ltd.'',
     ven 0x17BE ''Philips'' ''Philips Semiconductors'',
     ven 0x17C0 ''Wistron'' ''Wistron Corp.'',
     ven 0x17C4 '''' ''Movita'',
     ven 0x17CC ''NetChip'' ''NetChip'',
     ven 0x17cd ''Cadence'' ''Cadence Design Systems'',
     ven 0x17D5 ''Neterion'' ''Neterion Inc.'',
     ven 0x17db '' '' ''Cray, Inc.'',
     ven 0x17E9 '''' ''DH electronics GmbH / Sabrent'',
     ven 0x17EE ''Connect3D'' ''Connect Components, Ltd.'',
     ven 0x17F3 ''RDC'' ''RDC Semiconductor Co., Ltd.'',
     ven 0x17FE ''INPROCOMM'' ''INPROCOMM'',
     ven 0x1813 ''Ambient'' ''Ambient Technologies Inc'',
     ven 0x1814 ''Ralink Technology'' ''Ralink Technology, Corp.'',
     ven 0x1815 ''devolo'' ''devolo AG'',
     ven 0x1820 ''InfiniCon'' ''InfiniCon Systems, Inc.'',
     ven 0x1824 ''Avocent'' ''Avocent'',
     ven 0x1841 ''D-link AirPlus G DWL-G510 rev.C'' ''Panda Platinum'',
     ven 0x1860 ''Primagraphics'' ''Primagraphics Ltd.'',
     ven 0x186C ''Humusoft'' ''Humusoft S.R.O'',
     ven 0x1887 ''Elan'' ''Elan Digital Systems Ltd'',
     ven 0x1888 '''' ''Varisys Limited'',
     ven 0x188D ''Millogic'' ''Millogic Ltd.'',
     ven 0x1890 '''' ''Egenera, Inc.'',
     ven 0x18BC '''' ''Info-Tek Corp.'',
     ven 0x18C9 ''ARVOO'' ''ARVOO Engineering BV'',
     ven 0x18CA ''XGI'' ''XGI Technology Inc'',
     ven 0x18F1 ''Spc'' ''Spectrum Systementwicklung Microelectronic GmbH'',
     ven 0x18F4 ''Napatech'' ''Napatech A/S'',
     ven 0x18F7 ''Commtech'' ''Commtech, Inc.'',
     ven 0x18FB '''' ''Resilience Corporation'',
     ven 0x1904 ''Ritmo'' ''Ritmo'',
     ven 0x1905 ''WIS Computers'' ''WIS Technology, Inc.'',
     ven 0x1910 ''Seaway Networks'' ''Seaway Networks'',
     ven 0x1912 '' USB'' ''usb 3.0 Renesas Electronics'',
     ven 0x1931 '' '' ''Option NV'',
     ven 0x1941 '' '' ''Stelar'',
     ven 0x1954 '' '' ''One Stop Systems, Inc.'',
     ven 0x1969 ''ATHR'' ''Atheros Communications'',
     ven 0x1971 ''dreser'' ''AGEIA Technologies, Inc.'',
     ven 0x197B ''santosh'' ''JMicron Technology Corp.'',
     ven 0x198a '' '' ''Nallatech'',
     ven 0x1991 '' tps'' ''Topstar Digital Technologies Co., Ltd.'',
     ven 0x19a2 '' Emulex'' ''ServerEngines'',
     ven 0x19A8 ''DAQDATA'' ''DAQDATA GmbH'',
     ven 0x19AC ''Kasten Chase'' ''Kasten Chase Applied Research'',
     ven 0x19B6 '' '' ''Mikrotik'',
     ven 0x19E2 ''Vector'' ''Vector Informatik GmbH'',
     ven 0x19E3 '' '' ''DDRdrive LLC'',
     ven 0x1A08 '''' ''Linux Networx'',
     ven 0x1a41 '' roed'' ''Tilera Corporation'',
     ven 0x1A42 '''' ''Imaginant'',
     ven 0x1B13 ''Jaton Corp'' ''Jaton Corporation USA'',
     ven 0x1B21 ''Asustek - ASMedia'' ''Asustek - ASMedia Technology Inc.'',
     ven 0x1B6F '' '' ''Etron'',
     ven 0x1B73 ''Fresco Logic Inc.'' ''Fresco Logic Inc.'',
     ven 0x1B91 '''' ''Averna'',
     ven 0x1BAD '' '' ''ReFLEX CES'',
     ven 0x1C0F ''Monarch Innovative Technologies '' (''Monarch Innovative Technologies Pvt Ltd'' @ [CHR 0x27] @ ''s ''),
     ven 0x1C32 ''Highland Technology'' ''Highland Technology, Inc.'',
     ven 0x1c39 ''TH-VN'' ''Thomson Video Networks'',
     ven 0x1DE1 ''Tekram'' ''Tekram'',
     ven 0x1FCF ''Miranda'' ''Miranda Technologies Ltd.'',
     ven 0x2001 '''' ''Temporal Research Ltd'',
     ven 0x2646 ''Kingston'' ''Kingston Technology Co.'',
     ven 0x270F ''ChainTek'' ''ChainTek Computer Co. Ltd.'',
     ven 0x2EC1 '''' ''Zenic Inc'',
     ven 0x3388 ''Hint'' ''Hint Corp.'',
     ven 0x3411 '''' ''Quantum Designs (H.K.) Inc.'',
     ven 0x3513 ''ARCOM'' ''ARCOM Control Systems Ltd.'',
     ven 0x38EF '''' ''4links'']"

definition PciVenTable_11 :: "PCI_VENTABLE list" where
  "PciVenTable_11 = [
     ven 0x3D3D ''3DLabs'' ''3Dlabs, Inc. Ltd'',
     ven 0x4005 ''Avance'' ''Avance Logic Inc.'',
     ven 0x4144 ''Alpha Data'' ''Alpha Data'',
     ven 0x416C '''' ''Aladdin Knowledge Systems'',
     ven 0x4348 ''Nanjing Qin Heng Electronics Co., Ltd'' ''wch.cn'',
     ven 0x4680 ''UMAX Comp'' ''UMAX Computer Corp.'',
     ven 0x4843 ''Hercules'' ''Hercules Computer Technology'',
     ven 0x4943 '''' ''Growth Networks'',
     ven 0x4954 ''Integral'' ''Integral Technologies'',
     ven 0x4978 ''Axil'' ''Axil Computer Inc.'',
     ven 0x4C48 ''Lung Hwa'' ''Lung Hwa Electronics'',
     ven 0x4C53 ''SBS'' ''SBS-OR Industrial Computers'',
     ven 0x4CA1 '''' ''Seanix Technology Inc'',
     ven 0x4D51 ''Mediaq'' ''Mediaq Inc.'',
     ven 0x4D54 '''' ''Microtechnica Co Ltd'',
     ven 0x4DDC ''ILC'' ''ILC Data Device Corp.'',
     ven 0x4E8 '' samsung YP-R1JEB'' ''Samsung Windows Portable Devices'',
     ven 0x5053 ''TBS/Voyetra'' ''TBS/Voyetra Technologies'',
     ven 0x508A '' '' ''Samsung T10 MP3 Player'',
     ven 0x5136 '''' ''S S Technologies'',
     ven 0x5143 ''Qualcomm'' ''Qualcomm Inc. USA'',
     ven 0x5333 ''S3G'' ''S3 Graphics Co., Ltd'',
     ven 0x544C '''' ''Teralogic Inc'',
     ven 0x5555 ''Genroco'' ''Genroco Inc.'',
     ven 0x5853 '' Citrix'' ''Citrix Systems, Inc.'',
     ven 0x6409 '''' ''Logitec Corp.'',
     ven 0x6666 ''Decision'' ''Decision Computer International Co.'',
     ven 0x6945 ''ASMedia '' ''ASMedia Technology Inc.'',
     ven 0x7604 ''O.N.'' ''O.N. Electric Co. Ltd.'',
     ven 0x7d1 ''D-Link'' ''D-Link Corporation'',
     ven 0x8080 ''Xirlink'' ''Xirlink, Inc'',
     ven 0x8086 ''Intel Corp.'' ''Intel Corporation'',
     ven 0x8087 ''Intel'' ''Intel'',
     ven 0x80EE ''VirtualBox'' ''Oracle Corporation - InnoTek Systemberatung GmbH'',
     ven 0x8866 ''T-Square'' ''T-Square Design Inc.'',
     ven 0x8888 ''Sil Magic'' ''Silicon Magic'',
     ven 0x8E0E ''Computone'' ''Computone Corporation'',
     ven 0x9004 ''Adaptec'' ''Adaptec Inc'',
     ven 0x9005 ''Adaptec'' ''Adaptec Inc'',
     ven 0x919A '''' ''Gigapixel Corp'',
     ven 0x9412 ''Holtek'' ''Holtek'',
     ven 0x9699 '''' ''Omni Media Technology Inc.'',
     ven 0x9710 ''MosChip'' ''MosChip Semiconductor Technology'',
     ven 0x9902 ''StarGen'' ''StarGen, Inc.'',
     ven 0xA0A0 ''Aopen'' ''Aopen Inc.'',
     ven 0xA0F1 '''' ''Unisys Corporation'',
     ven 0xA200 ''NEC'' ''NEC Corp.'',
     ven 0xA259 ''HP'' ''Hewlett Packard'',
     ven 0xA304 ''Sony'' ''Sony'',
     ven 0xA727 '''' ''3com Corporation'',
     ven 0xAA42 ''Scitex'' ''Scitex Digital Video'',
     ven 0xAC1E '''' ''Digital Receiver Technology Inc'',
     ven 0xB1B3 ''Shiva'' ''Shiva Europe Ltd.'',
     ven 0xB894 '''' ''Brown & Sharpe Mfg. Co.'',
     ven 0xBEEF ''Mindstream Computing'' ''Mindstream Computing'',
     ven 0xC001 ''TSI'' ''TSI Telsys'',
     ven 0xC0A9 ''Micron/Crucial'' ''Micron/Crucial Technology'',
     ven 0xC0DE '''' ''Motorola'',
     ven 0xC0FE ''Mot Engrg'' ''Motion Engineering Inc.'',
     ven 0xC622 '''' ''Hudson Soft Co Ltd'',
     ven 0xCA50 ''Varian'' ''Varian, Inc'',
     ven 0xCAFE '''' ''Chrysalis-ITS'',
     ven 0xCCCC '''' ''Catapult Communications'',
     ven 0xD4D4 ''Processing'' ''Curtiss-Wright Controls Embedded Computing'',
     ven 0xDC93 '''' ''Dawicontrol'',
     ven 0xDEAD ''Indigita'' ''Indigita Corporation'',
     ven 0xDEAF '''' ''Middle Digital, Inc'',
     ven 0xE159 ''Tiger Jet'' ''Tiger Jet Network Inc'',
     ven 0xE4BF '''' ''EKF Elektronik GMBH'',
     ven 0xEA01 '''' ''Eagle Technology'',
     ven 0xEABB ''Aashima'' ''Aashima Technology B.V.'',
     ven 0xEACE ''Endace'' ''Endace Measurement Systems Ltd.'',
     ven 0xECC0 ''Echo'' ''Echo Digital Audio Corporation'',
     ven 0xEDD8 ''ARK Logic'' ''ARK Logic, Inc'',
     ven 0xF5F5 '''' ''F5 Networks Inc.'',
     ven 0xFA57 ''Interagon'' ''Interagon AS'']"

definition PciVenTable :: "PCI_VENTABLE list" where
  "PciVenTable = PciVenTable_1 @ PciVenTable_2 @ PciVenTable_3 @ PciVenTable_4 @ PciVenTable_5 @ PciVenTable_6 @ PciVenTable_7 @ PciVenTable_8 @ PciVenTable_9 @ PciVenTable_10 @ PciVenTable_11"

lemmas PciVenTable_parts =
  PciVenTable_1_def PciVenTable_2_def PciVenTable_3_def PciVenTable_4_def PciVenTable_5_def PciVenTable_6_def PciVenTable_7_def PciVenTable_8_def PciVenTable_9_def PciVenTable_10_def PciVenTable_11_def

end
