(* ===== verification/Pci_Device_1.thy ===== *)
theory Pci_Device_1
  imports Pci_Tables
begin

text \<open>
  \<open>PciDevTable\<close> of \<open>pci_vendor.h\<close>, entry by entry and in the order of the source: parts 1 to 14.
\<close>

definition PciDevTable_1 :: "PCI_DEVTABLE list" where
  "PciDevTable_1 = [
     dev_entry 0x165C 0x0002 ''FT232BL'' ''FT232BL'',
     dev_entry 0x16AE 0x000A ''SafeXcel-1841'' ''Crypto Accelerator'',
     dev_entry 0x16AE 0x1141 ''SafeXcel-1141'' ''Crypto Accelerator'',
     dev_entry 0x11DA 0x2000 ''2'' ''Virtual-Bus / AlacrityVM bridge'',
     dev_entry 0x11DB 0x1234 '''' ''Dreamcast Broadband Adapter'',
     dev_entry 0x11DE 0x6057 ''ZR36067'' ''AV PCI Controller  - Pinnacle DC10plus, Motion-JPEG VideoIO Board'',
     dev_entry 0x11DE 0x6067 ''zr36067pqc'' ''zoran'',
     dev_entry 0x11DE 0x6120 ''ZR36120PQC'' ''MPEG VideoBVPSXI Capture Card'',
     dev_entry 0x11DE 0x6057 ''ZR36057PQC'' ''ZORAN PCI Bridge (interface for transferring video across the PCI bus)'',
     dev_entry 0x11DE 0x9876 '''' '''',
     dev_entry 0x11EC 0x0028 ''NV05'' ''MCP67 High Definition Audio'',
     dev_entry 0x11EC 0x2064 '''' '''',
     dev_entry 0x11F0 0x4 ''FASTline UTP Quattr'' (''PCI'' @ [CHR 0x5C] @ ''VEN_8086&DEV_2772&SUBSYS_0CCB105B&REV_02'' @ [CHR 0x5C] @ ''3&2411E6FE&0&10''),
     dev_entry 0x11F0 0x4231 ''1'' ''2'',
     dev_entry 0x11F0 0x4232 ''FASTline UTP Quattr'' (''PCI'' @ [CHR 0x5C] @ ''VEN_8086&DEV_2772&SUBSYS_0CCB105B&REV_02'' @ [CHR 0x5C] @ ''3&2411E6FE&0&10''),
     dev_entry 0x11F0 0x4233 ''FASTline FO'' '''',
     dev_entry 0x11F0 0x4234 ''FASTline UTP'' '''',
     dev_entry 0x11F0 0x4235 ''FASTline-II UTP'' '''',
     dev_entry 0x11F0 0x4236 ''FASTline-II FO'' '''',
     dev_entry 0x11F0 0x4731 ''GIGAline'' ''Gigabit Ethernet Adapter'',
     dev_entry 0x11F0 0x9876 ''1'' ''2'',
     dev_entry 0x11F4 0x2915 ''2915'' '''',
     dev_entry 0x11F6 0x0112 ''ATT2MD11'' ''ReadyLink ENET100-VG4'',
     dev_entry 0x11F6 0x0113 '''' ''FreedomLine 100'',
     dev_entry 0x11F6 0x1401 ''832AE28030680'' ''ReadyLink RL2000'',
     dev_entry 0x11F6 0x2011 ''TXA9882'' ''ReadyLink  RL100ATX/PCI Fast Ethernet Adapter'',
     dev_entry 0x11F6 0x2201 ''TXA9883'' ''ReadyLink 100TX (Winbond W89C840)'',
     dev_entry 0x11F6 0x9881 ''TXA9881?'' ''ReadyLink RL100TX Fast Ethernet Adapter'',
     dev_entry 0x11F8 0x7364 ''PM7364'' ''FREEDM-32 Frame Engine & Datalink Mgr'',
     dev_entry 0x11F8 0x7366 ''PM7364'' ''FREEDM-8 Frame Engine & Datalink Manager'',
     dev_entry 0x11F8 0x7367 ''PM7367'' ''FREEDM-32P32 Frame Engine & Datalink Mgr'',
     dev_entry 0x11F8 0x7375 ''PM7375'' ''LASAR-155 ATM SAR'',
     dev_entry 0x11F8 0x7380 ''PM7380'' ''FREEDM-32P672 Frm Engine & Datalink Mgr'',
     dev_entry 0x11F8 0x7382 ''PM7382'' ''FREEDM-32P256 Frm Engine & Datalink Mgr'',
     dev_entry 0x11F8 0x7384 ''PM7384'' ''FREEDM-84P672 Frm Engine & Datalink Mgr'',
     dev_entry 0x11F8 0x8000 ''PM8000 SPC'' ''6G SAS/SATA Controller'',
     dev_entry 0x11F8 0x8010 ''PM8010 SRC'' ''6G SAS/SATA RAID Controller'',
     dev_entry 0x11FB 0x0417 ''417'' ''PCI-417 High Speed A/D Board'',
     dev_entry 0x11FE 0x0001 ''RocketPort'' '''',
     dev_entry 0x11FE 0x0002 ''RocketPort'' '''',
     dev_entry 0x11FE 0x0003 ''RocketPort'' '''',
     dev_entry 0x11FE 0x0004 ''RocketPort'' '''',
     dev_entry 0x11FE 0x0005 ''RocketPort'' '''',
     dev_entry 0x11FE 0x0006 ''RocketPort'' '''',
     dev_entry 0x11FE 0x0007 ''RocketPort'' '''',
     dev_entry 0x11FE 0x0008 ''RocketPort'' '''',
     dev_entry 0x11FE 0x0009 ''RocketPort'' '''',
     dev_entry 0x11FE 0x000A ''RocketPort'' '''',
     dev_entry 0x11FE 0x000B ''RocketPort'' '''',
     dev_entry 0x11FE 0x000C ''RocketPort'' '''',
     dev_entry 0x11FE 0x000D ''RocketPort'' '''',
     dev_entry 0x11FE 0x8015 ''RocketPort'' ''4-port UART 16954'',
     dev_entry 0x1202 0x0001 ''NAIATMPCI'' ''PCI ATM Adapter'',
     dev_entry 0x1203 0x0001 ''Unknown'' ''Unknown'',
     dev_entry 0x1204 0x9876 ''12'' ''wwDW'',
     dev_entry 0x1208 0x4853 '''' ''HS-Link Device'',
     dev_entry 0x1365 0x9050 ''HYSDN'' '''',
     dev_entry 0x1209 0x0100 ''PCI 9054'' ''PLX PCI BRIDGE'',
     dev_entry 0x120E 0x0100 ''Cyclom-Y'' ''Multiport Serial Card'',
     dev_entry 0x120E 0x0101 ''Cyclom-Y'' ''Multiport Serial Card'',
     dev_entry 0x120E 0x0102 ''Cyclom-4Y'' ''Multiport Serial Card'',
     dev_entry 0x120E 0x0103 ''Cyclom-4Y'' ''Multiport Serial Card'',
     dev_entry 0x120E 0x0104 ''Cyclom-8Y'' ''Multiport Serial Card'',
     dev_entry 0x120E 0x0105 ''Cyclom-8Y'' ''Multiport Serial Card'',
     dev_entry 0x120E 0x0200 ''Cyclom-Z'' ''Intelligent Multiport Serial'',
     dev_entry 0x120E 0x0201 ''Cyclom-Z'' ''Intelligent Serial Card'',
     dev_entry 0x120E 0x0300 ''PC300 RX 2'' ''1105'',
     dev_entry 0x120E 0x0301 ''PC300 RX 1'' '''',
     dev_entry 0x120E 0x0302 ''PC300 TE 2'' '''',
     dev_entry 0x120E 0x0303 ''PC300 TE 1'' ''teclado'',
     dev_entry 0x120F 0x0001 ''Roadrunner'' '''',
     dev_entry 0x1210 0x25f4 ''No data'' ''No data'',
     dev_entry 0x1216 0x0003 ''188A2L432B'' ''PTM400 PCI Taxi Module'',
     dev_entry 0x1217 0x00f7 ''0x00f71217'' ''1394 Open Host Controller Interface'',
     dev_entry 0x1217 0x1217 ''EN-2242'' ''111111111'',
     dev_entry 0x1217 0x6729 ''OZ6729'' ''PCI to PCMCIA Bridge'',
     dev_entry 0x1217 0x673A ''OZ6730'' ''PCI to PCMCIA Bridge'',
     dev_entry 0x1217 0x6832 ''OZ6832/3'' ''CardBus Controller'',
     dev_entry 0x1217 0x6836 ''OZ6836/6860'' ''CardBus Controller'',
     dev_entry 0x1217 0x6872 ''OZ6812'' ''CardBus Controller'',
     dev_entry 0x1217 0x6925 ''OZ6922'' ''CardBus Controller'',
     dev_entry 0x1217 0x6933 ''OZ6933'' ''CardBus Controller'',
     dev_entry 0x1217 0x6972 ''OZ6912'' ''CardBus Controller'',
     dev_entry 0x1217 0x7110 ''OZ711Mx'' ''MemoryCardBus Accelerator'',
     dev_entry 0x1217 0x7112 '''' '''',
     dev_entry 0x1217 0x7113 ''0Z711EC1'' ''PCMCIA/SmartCardBus Contoller'',
     dev_entry 0x1217 0x7114 ''OZ711M1'' ''CardBus Controller'',
     dev_entry 0x1217 0x7120 ''Unknown device'' ''O2Micro Integrated MMC/SD controller'',
     dev_entry 0x1217 0x7130 ''501179'' ''O2Micro Integrated MMC/SD/MS/xD/SM Controller'',
     dev_entry 0x1217 0x7134 ''OZ711MP1/MS1'' ''MemoryCardBus Controller 6-in-1'',
     dev_entry 0x1217 0x7135 ''OZ711EZ1'' ''MemoryCardBus Contoller'',
     dev_entry 0x1217 0x7136 ''OZ711SP1'' ''O2Micro CardBus Controller'',
     dev_entry 0x1217 0x71E2 '''' '''',
     dev_entry 0x1217 0x7212 '''' '''',
     dev_entry 0x1217 0x7213 '''' '''',
     dev_entry 0x1217 0x7222 ''unknow'' ''pci to pcmcia bridge'',
     dev_entry 0x1217 0x7223 ''OZ711M3/MC3'' ''MemoryCardBus Controller'',
     dev_entry 0x1217 0x8130 ''0x8130'' ''o2 sd card reader'',
     dev_entry 0x1217 0x8231 ''OZ600XXX'' ''O2Micro OZ600XXX Memory Card '',
     dev_entry 0x1217 0x8330 ('' PCI'' @ [CHR 0x5C] @ ''VEN_1217&DEV_8331&SUBSYS_049A1028&REV_05'' @ [CHR 0x5C] @ ''4&34'') ''Mass storage controller [0180]'',
     dev_entry 0x1217 0x8331 ''OZ600xxx'' ''O2Micro Integrated MS/PRO controller'',
     dev_entry 0x121A 0x3 '''' '''',
     dev_entry 0x121A 0x3 '''' '''',
     dev_entry 0x121A 0x0001 ''Voodoo'' ''Voodoo 3D Acceleration Chip'',
     dev_entry 0x121A 0x0002 ''Voodoo2'' ''Voodoo 2 3D Accelerator'',
     dev_entry 0x121A 0x0003 ''Voodoo Banshee'' ''Voodoo Banshee'',
     dev_entry 0x121A 0x0005 ''Voodoo3'' ''All Voodoo3 chips, 3000'',
     dev_entry 0x121A 0x0007 ''Voodoo4'' '''',
     dev_entry 0x121A 0x0009 ''Voodoo5'' ''AGP X2, or PCI. Chip: 2x VSA100 with 32Mo'',
     dev_entry 0x121A 0x0010 ''Rampage'' (''Rev.A AGPx4, 0.25'' @ [CHR 0xC2, CHR 0xB5] @ '', 200/2x200 core/RAM''),
     dev_entry 0x121A 0x0057 ''Voodoo 3/3000'' ''Avenger'',
     dev_entry 0x1220 0x1220 ''9622qac'' ''AMCC 5933 TMS320C80 DSP/Imaging Board'',
     dev_entry 0x1220 0x4242 '' '' ''controller audio multimediale'',
     dev_entry 0x1223 0x0001 ''KatanaQp'' (''Real-Time Processing Blade in a standard single-slot AdvancedTCA'' @ [CHR 0xC2, CHR 0xAE] @ '' formfactor''),
     dev_entry 0x1223 0x0002 ''KosaiPM'' (''Intel'' @ [CHR 0xC2, CHR 0xAE] @ '' Pentium-M'' @ [CHR 0xC2, CHR 0xAE] @ '' based AMC Module''),
     dev_entry 0x1223 0x0016 ''PCIe-8120'' ''PCIe-8120 MGW Octasic DSP card '',
     dev_entry 0x1223 0x003 ''Katana3752'' ''Advanced Tri-Processor Blade'',
     dev_entry 0x1223 0x004 ''Katana3750'' ''Advanced Tri-Processor Blade'',
     dev_entry 0x1223 0x0044 ''Memory controller'' ''Memory controller'',
     dev_entry 0x1223 0x005 ''Katana752i'' ''Real-time Processing Blade'',
     dev_entry 0x1223 0x006 ''Katana750i'' ''Real-time Processing Blade'',
     dev_entry 0x1223 0x007 ''CC1000dm'' ''Processor PMC Carrier Card'',
     dev_entry 0x1223 0x008 ''Pm3Gv'' ''Up to 8 E1/T1/J1 interfaces for PMC-compatible baseboards'',
     dev_entry 0x1223 0x009 ''Pm3GE1T1'' ''Third Generation E1 and T1/J1 interfaces for PMC-compatible baseboards'',
     dev_entry 0x1223 0x010 ''SpiderwareSG'' ''SIGTRAN Signalling Gateway Blade'',
     dev_entry 0x1223 0x011 ''SpiderwareSS7'' ''64 SS7 signaling channels on a single blade'',
     dev_entry 0x1223 0x012 ''SpiderSS7'' ''Portable, STREAMS-Based Implementation of the ITU SS7 Protocol Stack'',
     dev_entry 0x1223 0x013 ''Spider FRAME RELAY'' ''STREAMS-Based Frame Relay Implementation'',
     dev_entry 0x1223 0x014 ''Spider STREAMS'' ''Implementation of the UNIX STREAMS Environment'',
     dev_entry 0x1223 0x015 ''Spider DSF'' ''Transparent STREAMS Interface for High Speed LAN or Shared Memory Systems'',
     dev_entry 0x1224 0x1000 ''CL560?'' ''Plum Audio, Video and VTR Controller'',
     dev_entry 0x122D 0x1206 ''ICH2'' ''Asus'',
     dev_entry 0x122D 0x4201 ''MR2800W'' ''AMR 56K modem'',
     dev_entry 0x122D 0x50DC ''pci 120'' ''Audio'']"

definition PciDevTable_2 :: "PCI_DEVTABLE list" where
  "PciDevTable_2 = [
     dev_entry 0x122D 0x80DA ''3328'' ''Audio'',
     dev_entry 0x122F 0x37AF ''0x9030'' ''Reflectometer using PLX 9030'',
     dev_entry 0x1668 0x0100 ''0304'' ''PCI to PCI Bridge'',
     dev_entry 0x1236 0x0000 ''RealMagic64/GX'' ''SD6425'',
     dev_entry 0x1236 0x0531 ''MX98715/25'' ''Single Chip Fast Ethernet NIC Controller'',
     dev_entry 0x1236 0x3d01 ''000'' ''RealMagic/2D'',
     dev_entry 0x1236 0x6401 ''REALmagic64/GX'' ''GUI'',
     dev_entry 0x1236 0x9708 ''realmagic64/gx'' ''sd6425'',
     dev_entry 0x123D 0x0010 ''PCI-DV'' ''PCI-DV Digital Video Interface'',
     dev_entry 0x123F 0x00E4 ''cl 480'' ''MPEG'',
     dev_entry 0x123F 0x6120 ''12.03'' ''DVD device'',
     dev_entry 0x123F 0x8120 ''176'' ''i440B'',
     dev_entry 0x123F 0x8888 ''12.03'' ''cPEG C 3.0 DVD/MPEG2 Decoder'',
     dev_entry 0x1241 0x1603 ''1'' ''keyboard'',
     dev_entry 0x1244 0x0700 ''B1'' ''ISDN controller'',
     dev_entry 0x1244 0x0800 ''C4'' ''ISDN Controller'',
     dev_entry 0x1244 0x0A00 ''A1'' ''ISDN Controller'',
     dev_entry 0x1244 0x0E00 ''0x1244'' ''Fritz!PCI 2.0 ISDN Controller'',
     dev_entry 0x1244 0x1100 ''C2'' ''ISDN Controller'',
     dev_entry 0x1244 0x1200 ''T1'' ''ISDN Controller'',
     dev_entry 0x1244 0x2700 ''E13 32A5KYW / 2CAKRCT'' ''DSP TNETD5100GHK / TNETD5015'',
     dev_entry 0x1244 0x2900 ''-'' ''AVM Fritz!Card DSL v2.0 PCI'',
     dev_entry 0x124A 0x10BD ''82566DM-2'' ''Intel Gigabit network connection'',
     dev_entry 0x124A 0x4023 ''BWU713 v2.0'' ''Blitzz Wireless G'',
     dev_entry 0x124C 0x0220 ''.'' ''.'',
     dev_entry 0x124D 0x0000 ''EasyConnect 8/32'' '''',
     dev_entry 0x124D 0x0002 ''EasyConnect 8/64'' '''',
     dev_entry 0x124D 0x0003 ''EasyIO PCI'' '''',
     dev_entry 0x124F 0x0041 ''IFT-2000'' ''PCI RAID Controller'',
     dev_entry 0x1250 0x1978 '''' '''',
     dev_entry 0x1250 0x2898 '''' '''',
     dev_entry 0x1255 0x1110 ''MPEG Forge'' '''',
     dev_entry 0x1255 0x1210 ''MPEG Fusion'' '''',
     dev_entry 0x1255 0x2110 ''VideoPlex-pci'' ''VideoPlex pci bpc1825 rev a'',
     dev_entry 0x1255 0x2120 ''VideoPlex plus'' ''VideoPlex BPC 1851 A'',
     dev_entry 0x1255 0x2130 ''VideoQuest'' '''',
     dev_entry 0x1256 0x4201 ''PCI-2240i'' ''EIDE Adapter'',
     dev_entry 0x1256 0x4401 ''PCI-2220i'' ''Dale EIDE Adapter'',
     dev_entry 0x1256 0x5201 ''PCI-2000'' ''IntelliCache SCSI Adapter'',
     dev_entry 0x1258 0x1988 '''' '''',
     dev_entry 0x1259 0x2503 ''Realtek 8139b'' '''',
     dev_entry 0x1259 0x2560 ''82845G'' ''AT-2560 Fast Ethernet Adapter (i82557B)'',
     dev_entry 0x1259 0xc107 ''Realtek 8110S'' '''',
     dev_entry 0x125B 0x0B95 ''AX88772'' ''USB2.0 to 10/100M Fast Ethernet Controller'',
     dev_entry 0x125B 0x1400 ''AX88140A'' ''ASIX AX88140 Based PCI Fast Ethernet Adapter'',
     dev_entry 0x125B 0x1720 ''AX88172'' ''USB2 to Fast Ethernet Adapter'',
     dev_entry 0x125D 0x0000 ''ESS336H'' ''PCI Fax Modem (early model)'',
     dev_entry 0x125D 0x1961 ''Multimedia Device'' ''ESS Solo-1 Soundcard'',
     dev_entry 0x125D 0x1968 ''ES2839'' ''Maestro-2 PCI audio accelerator'',
     dev_entry 0x125D 0x1969 ''ES1969'' ''Solo-1 PCI AudioDrive family'',
     dev_entry 0x125D 0x1978 ''ES1978'' ''ESS Maestro-2E PCI Audiodrive'',
     dev_entry 0x125D 0x1980 ''0x0401'' ''subsys_0012103c_rev_12'',
     dev_entry 0x125D 0x1988 ''ES1999'' ''ESS Allegro PCI Audio (WDM)'',
     dev_entry 0x125D 0x1989 ''ES1980'' ''ESS Maestro 3 PCI Audio Accelerator'',
     dev_entry 0x125D 0x1990 ''ES2898S'' '''',
     dev_entry 0x125D 0x1992 '''' '''',
     dev_entry 0x125D 0x1998 ''Maestro 3i'' ''Maestro 3i'',
     dev_entry 0x125D 0x1999 ''ES1980S'' ''TAWE0548S'',
     dev_entry 0x125D 0x199B ''ES1938/41/46 solo audio'' ''Maestro-3.COMM PCI Voice+audio'',
     dev_entry 0x125D 0x2808 ''ES336H'' ''PCI Fax Modem (later model)'',
     dev_entry 0x125D 0x2828 ''ES2828S'' ''TeleDrive'',
     dev_entry 0x125D 0x2838 (''PCI'' @ [CHR 0x5C] @ ''VEN_125D&DEV_2838&SUBSYS_2838125D&REV_01'') ''PCI Data Fax Modem'',
     dev_entry 0x125D 0x2839 ''2838'' ''Superlink Modem/V.92 chipset 56K'',
     dev_entry 0x125D 0x2898 ''2898'' ''TelDrive ES56T-PI family V.90 PCI modem'',
     dev_entry 0x125F 0x2084 ''AMCC S5933'' ''AMCC Bridge + 2 x Super I/O (National PC97338)'',
     dev_entry 0x1260 0x3860 ''PRISM 2.5 '' ''PRISM 2.5 802.11b 11Mbps Wireless Controller'',
     dev_entry 0x1260 0x3872 ''PRISM 3'' ''LAN-Express IEEE 802.11b PCI Adapter'',
     dev_entry 0x1260 0x3873 ''ISL3886A'' ''PRISMII.5 IEE802.11g Wireless LAN'',
     dev_entry 0x1260 0x3886 ''200206BE'' ''Creatix CTX405 WLAN Controller / ZyAir G100 - WLAN'',
     dev_entry 0x1260 0x3890 ''ISL3890'' ''PRISM GT 802.11g 54Mbps Wireless Controller'',
     dev_entry 0x1260 0x8130 ''HMP8130'' ''NTSC/PAL Video Decoder'',
     dev_entry 0x1260 0x8131 ''HMP8131'' ''NTSC/PAL Video Decoder'',
     dev_entry 0x1266 0x0001 ''023132'' ''NE10/100 Adapter (i82557B)'',
     dev_entry 0x1266 0x1910 '''' ''NE2000Plus (RT8029) Ethernet Adapter'',
     dev_entry 0x1267 0x1016 '''' ''NICCY PCI card'',
     dev_entry 0x1267 0x4243 '''' ''Satellite receiver board / MPEG2 decoder'',
     dev_entry 0x1267 0x5352 ''PCR2101'' '''',
     dev_entry 0x1267 0x5A4B ''telsatturbo'' '''',
     dev_entry 0x1382 0x0001 ''f97260118'' (''Sek'' @ [CHR 0x27] @ ''D ARC88 professional soundcard''),
     dev_entry 0x1382 0x2009 (''PLX TECHNOLOGY '' @ [CHR 0x5C] @ ''n PCI9052 '' @ [CHR 0x5C] @ ''n 0435 '' @ [CHR 0x5C] @ ''n BX9497.1 MALA'') (''SEK'' @ [CHR 0x27] @ ''D Prodif 96 Pro - professional audio card''),
     dev_entry 0x1382 0x2048 ''2048'' ''Prodif Plus sound card'',
     dev_entry 0x1382 0x2088 ''Marc 8 Midi'' ''8-in, 8-out sound card'',
     dev_entry 0x1268 0x0204 ''Unknown'' ''Tektronix IO Processor / Tektronix PCI Acquisition Interface Rev 204'',
     dev_entry 0x126A 0x269B ''631xESB/6321ESB/3100'' ''SM Bus Controller'',
     dev_entry 0x126C 0x1F1F '''' ''e-mobility 802.11b Wireless LAN PCI Card'',
     dev_entry 0x126F 0x0501 ''SM501/SM502'' ''Mobile Multimedia Companion Chip (MMCC)'',
     dev_entry 0x126F 0x0710 ''SM710'' ''LynxEM'',
     dev_entry 0x126F 0x0712 ''SM712'' ''LynxEM+'',
     dev_entry 0x126F 0x0720 ''SM720 / SM722'' ''Lynx3DM'',
     dev_entry 0x126F 0x0810 ''SM810'' ''LynxE'',
     dev_entry 0x126F 0x0811 ''SM811'' ''LynxE'',
     dev_entry 0x126F 0x0820 ''SM820'' ''Lynx3D'',
     dev_entry 0x126F 0x0910 ''SM910'' ''SILICON MOTION'',
     dev_entry 0x1272 0x0780 (''PCI'' @ [CHR 0x5C] @ ''VEN_8086&DEV_1C3A&SUBSYS_1670103C&REV_04'' @ [CHR 0x5C] @ ''3&115'') (''PCI'' @ [CHR 0x5C] @ ''VEN_8086&DEV_1C3A''),
     dev_entry 0x1272 0x1272 (''PCI'' @ [CHR 0x5C] @ ''VEN_8086&DEV_1C3A&SUBSYS_2ABF103C&REV_04'') (''PCI'' @ [CHR 0x5C] @ ''VEN_8086&DEV_1C3A&SUBSYS_2ABF103C''),
     dev_entry 0x1272 0x9876 (''PCI'' @ [CHR 0x5C] @ ''VEN_1272&DEV_0780&SUBSYS_00000008&REV_7A'' @ [CHR 0x5C] @ ''3&61A'') (''PCI'' @ [CHR 0x5C] @ ''VEN_1272&DEV_0780&SUBSYS_00000008&REV_7A'' @ [CHR 0x5C] @ ''3&61AAA01&0&58''),
     dev_entry 0x1273 0x0002 ''DirecPC'' ''t9p17af-01'',
     dev_entry 0x1274 0x1005 '''' ''Serial PCI Port'',
     dev_entry 0x1274 0x1274 ''1880x1274'' ''multimedia audio device'',
     dev_entry 0x1274 0x1371 ''ES 1370'' ''AudioPCI'',
     dev_entry 0x1274 0x1373 ''ES1373'' ''Sound Blaster Audio(PCI)'',
     dev_entry 0x1274 0x5000 ''ES1371'' ''AudioPCI'',
     dev_entry 0x1274 0x5880 ''5880x'' ''Soundblaster (CT4750)'',
     dev_entry 0x1274 0x9876 '''' '''',
     dev_entry 0x1278 0x0701 ''TPE3/TM3'' ''PowerPC Node'',
     dev_entry 0x1278 0x1001 ''TMB17'' ''TMB17 Motherboard'',
     dev_entry 0x1279 0x0060 ''TM8000'' ''Efficeon Virtual Northbridge'',
     dev_entry 0x1279 0x0061 ''TMTM8000'' ''Efficeon AGP Bridge'',
     dev_entry 0x1279 0x0295 '''' ''Virtual Northbridge'',
     dev_entry 0x1279 0x0395 ''LongRun'' ''Northbridge'',
     dev_entry 0x1279 0x0396 '''' ''SDRAM Controller'',
     dev_entry 0x1279 0x0397 ''18490397'' ''BIOS scratchpad'',
     dev_entry 0x127E 0x0010 ''Unknown'' ''Videum 1000 AV Plus'',
     dev_entry 0x1282 0x1282 ''DM9102AF'' ''DEV'',
     dev_entry 0x1282 0x9009 ''DM9009'' ''Ethernet Adapter'',
     dev_entry 0x1282 0x9100 '''' '''',
     dev_entry 0x1282 0x9102 ''DM9102/A/AF'' ''10/100 Mbps Fast Ethernet Controller'',
     dev_entry 0x1283 0x0801 ''Audio Digital Controller'' ''Audio Digital Controller'',
     dev_entry 0x1283 0x673A ''IT8330G'' ''IDE Controller'',
     dev_entry 0x1283 0x8152 ''IT8152F/G'' ''Advanced RISC-to-PCI Companion Chip'',
     dev_entry 0x1283 0x8172 ''IT8172G'' ''Ultra RISC (MIPS, SH4) Companion Chip'',
     dev_entry 0x1283 0x8211 ''IT8211F'' ''ATA/ATAPI Controller'',
     dev_entry 0x1283 0x8212 ''ITE8212'' ''ATA 133 IDE RAID Controller'',
     dev_entry 0x1283 0x8213 ''IT8213F'' ''IDE Controller'',
     dev_entry 0x1283 0x8330 ''IT8330G'' ''Host Bridge'',
     dev_entry 0x1283 0x8872 ''IT8871/72'' ''PCI-ISA I/O chip with SMB & Parallel Port'',
     dev_entry 0x1283 0x8875 ''IT8875F'' ''PCI Parallel Port'',
     dev_entry 0x1283 0x8888 ''IT8888F'' ''PCI to ISA Bridge'',
     dev_entry 0x1283 0x8889 ''IT8889F'' ''sound'',
     dev_entry 0x1283 0x9876 ''IT8875F'' ''PCI I/O CARD'',
     dev_entry 0x1283 0xE886 ''IT8330G'' ''PCI to ISA Bridge'',
     dev_entry 0x1285 0x0100 ''ES1849'' ''Maestro-1 AudioDrive'',
     dev_entry 0x1287 0x001E ''LS220D'' ''DVD Decoder'',
     dev_entry 0x1287 0x001F ''LS220C'' ''DVD Decoder'',
     dev_entry 0x1287 0x0020 ''LS242'' ''MPEG/DVD video decoder'',
     dev_entry 0x1289 0x1006 ''1106'' ''1708'',
     dev_entry 0x128A 0xF001 ''Ethernet 10/100'' ''controller ethernet'',
     dev_entry 0x128D 0x0021 '''' ''ATM Adapter'',
     dev_entry 0x1290 0x0010 ''?'' ''?'']"

definition PciDevTable_3 :: "PCI_DEVTABLE list" where
  "PciDevTable_3 = [
     dev_entry 0x13FE 0x1240 ''PS2134CE-0'' ''4-Axis Stepping/Servo Motor Card'',
     dev_entry 0x13FE 0x1600 ''PCI-1610CU/9-AE'' ''4-port RS-232 UNI PCI COMM card w/S&I&D'',
     dev_entry 0x13FE 0x1680 ''PCI-1680U-A'' ''2-port CAN UniversalPCI Communication Card with Isolation'',
     dev_entry 0x13FE 0x16FF ''PCI-1610CU/9-AE'' ''4-port RS-232 UNI PCI COMM card w/S&I&D'',
     dev_entry 0x13FE 0x1713 ''PCI-1713'' ''32-channel Isolated Analog Input Card'',
     dev_entry 0x13FE 0x1723 ''PCI-1723'' ''16-bit, 8-ch Analog Output PCI Card with 16-ch Digital I/O'',
     dev_entry 0x13FE 0x1724 ''PCI-1723'' ''14-bit, 32-channel Isolated Analog Output Card'',
     dev_entry 0x13FE 0x1755 ''PCI-1755'' ''80 MB/s, 32-ch Digital I/O PCI Card'',
     dev_entry 0x13FE 0x1760 ''amcc pci matchmaker s5920q'' ''pci'',
     dev_entry 0x13FE 0x1761 ''PCI-1751'' ''48 Digital IO + Counter '',
     dev_entry 0x13FE 0x1762 ''PCI-1762'' ''16-ch Relay and 16-ch Isolated Digital Input PCI Card'',
     dev_entry 0x13FE 0x1a00 ''0x03'' ''0x0200'',
     dev_entry 0x13FE 0x3730 ''PCM-3730I'' ''16Bit dig. I/O Board'',
     dev_entry 0x129A 0x0415 ''PBT-415'' ''PCI 66MHz Analyzer and 33MHz Exerciser'',
     dev_entry 0x129A 0x0515 ''PBT-515'' ''PCI 66MHz Analyzer and Exerciser'',
     dev_entry 0x129A 0x0615 ''PBT-615'' ''PCI 66MHz and PCI-X 100MHz Bus Analyzer and Exerciser'',
     dev_entry 0x129A 0x0715 ''Vanguard PCI/PMC/cPCI'' ''PCI 66MHz and PCI-X 133MHz Bus Analyzer and Exerciser'',
     dev_entry 0x129A 0xDD10 ''DPIO'' ''Digital Parallel Input Output Device 32bit, 33MHz PCI bus'',
     dev_entry 0x129A 0xDD11 ''DPIO2'' ''Digital Parallel Input Output Device 64bit, 33MHz PCI bus'',
     dev_entry 0x129A 0xDD12 ''DPIO2-66'' ''Digital Parallel Input Output Device 64bit, 66MHz PCI bus'',
     dev_entry 0x12A0 0x0008 ''1784-PKTX'' ''Allen-Bradley 1784-PKTX'',
     dev_entry 0x12A3 0xECB8 ''1646T00'' ''V.92 Lucent Modem'',
     dev_entry 0x12AA 0x5568 ''Wan405'' ''WANic 400 series X.21 controller'',
     dev_entry 0x12AA 0x556C '''' ''NAI HSSI Sniffer PCI Adapter'',
     dev_entry 0x12AB 0x3000 ''JRS-3DS100'' ''PCI'',
     dev_entry 0x12AD 0x0010 ''1'' ''HERMES-S0'',
     dev_entry 0x12AD 0x0020 ''1'' ''HERMES-PRI'',
     dev_entry 0x12AD 0x0080 ''1'' ''HERMES-PRI/PCIX'',
     dev_entry 0x12AE 0x0001 ''3C986'' ''ACEnic 1000 BASE-SX Ethernet adapter'',
     dev_entry 0x12AE 0x0002 ''3C986-T'' ''Copper Gigabit Ethernet Adapter'',
     dev_entry 0x12BA 0x0032 ''Hammerhead-Lite-PCI'' ''DSP Prototyping & Development Card'',
     dev_entry 0x12C1 0x9080 ''Sync4hs/CCP/PCI/MP'' ''Communications Processor'',
     dev_entry 0x13A3 0x0005 ''7751'' ''Security Processor'',
     dev_entry 0x13A3 0x0006 ''6500'' ''Public Key Processor'',
     dev_entry 0x13A3 0x0007 ''7811'' ''Security Processor'',
     dev_entry 0x13A3 0x0012 ''7951'' ''Security Processor'',
     dev_entry 0x13A3 0x0014 ''7814/7851/7854'' ''Security Processor'',
     dev_entry 0x13A3 0x0015 ''8065'' ''Security Processor'',
     dev_entry 0x13A3 0x0017 ''8165'' ''Security Processor'',
     dev_entry 0x13A3 0x0018 ''8154'' ''Security Processor'',
     dev_entry 0x13A3 0x001d ''7956'' ''Cryptographic Processor'',
     dev_entry 0x13A3 0x0020 ''7954/7955'' ''Cryptographic Processor'',
     dev_entry 0x13A3 0x0026 ''8155'' ''Security Processor'',
     dev_entry 0x13A3 0x16 ''8065'' ''Security Processor'',
     dev_entry 0x12C3 0x0058 ''HT80232'' ''LAN Adapter (NE2000-compatible)'',
     dev_entry 0x12C3 0x5598 ''HT80229'' ''Ethernet Adapter (NE2000-compatible)'',
     dev_entry 0x12C4 0x0001 '''' '''',
     dev_entry 0x12C4 0x0002 '''' '''',
     dev_entry 0x12C4 0x0003 '''' '''',
     dev_entry 0x12C4 0x0004 '''' '''',
     dev_entry 0x12C4 0x0005 ''Blue Heat-8 RS232'' ''BlueHeat 8 Port RS232 Serial Board'',
     dev_entry 0x12C4 0x0006 '''' '''',
     dev_entry 0x12C4 0x0007 '''' '''',
     dev_entry 0x12C4 0x0008 '''' '''',
     dev_entry 0x12C4 0x0009 '''' '''',
     dev_entry 0x12C4 0x000A '''' '''',
     dev_entry 0x12C4 0x000B '''' '''',
     dev_entry 0x12C4 0x000C '''' '''',
     dev_entry 0x12C4 0x000D '''' '''',
     dev_entry 0x12C4 0x000E '''' '''',
     dev_entry 0x12C4 0x000F '''' '''',
     dev_entry 0x12C4 0x0300 '''' '''',
     dev_entry 0x12C4 0x0301 '''' '''',
     dev_entry 0x12C4 0x0302 '''' '''',
     dev_entry 0x12C4 0x0303 '''' '''',
     dev_entry 0x12C4 0x0304 '''' '''',
     dev_entry 0x12C4 0x0305 '''' '''',
     dev_entry 0x12C4 0x0306 '''' '''',
     dev_entry 0x12C4 0x0307 '''' '''',
     dev_entry 0x12C4 0x0308 '''' ''Starcom UM100 Wireless modem for WiMax '',
     dev_entry 0x12C4 0x0309 '''' '''',
     dev_entry 0x12C4 0x030A '''' '''',
     dev_entry 0x12C4 0x030B '''' '''',
     dev_entry 0x12C5 0x007F ''ISE'' ''PEI Imaging Subsystem Engine'',
     dev_entry 0x12C5 0x0081 ''PCIVST'' ''PCI Thresholding Engine'',
     dev_entry 0x12C5 0x0085 '''' ''Video Simulator/Sender'',
     dev_entry 0x12C5 0x0086 ''THR2'' ''Multi-scale Thresholder'',
     dev_entry 0x12C7 0x0546 ''kssjsjj'' ''D120JCT-LS Card'',
     dev_entry 0x12C7 0x0561 '''' ''BRI/2 Type Card (Voice Driver)'',
     dev_entry 0x12C7 0x0647 '''' ''D/240JCT-T1 Card'',
     dev_entry 0x12C7 0x0648 ''064812C7'' ''D/300JCT-E1 Card'',
     dev_entry 0x12C7 0x0649 ''030000'' ''D/300JCT-E1 Card'',
     dev_entry 0x12C7 0x0651 '''' ''MSI PCI Card'',
     dev_entry 0x12C7 0x0673 '''' ''BRI/160-PCI Card'',
     dev_entry 0x12C7 0x0674 '''' ''BRI/120-PCI Card'',
     dev_entry 0x12C7 0x0675 '''' ''BRI/80-PCI Card'',
     dev_entry 0x12C7 0x0676 ''067612C7'' ''D/41JCT Card'',
     dev_entry 0x12C7 0x0685 '''' ''D/480JCT-2T1 Card'',
     dev_entry 0x12C7 0x0687 '''' ''D/600JCT-2E1 (75 Ohm) Card'',
     dev_entry 0x12C7 0x0689 ''D/600JCT-2E1'' ''Dialogic 2E1 - JCT series'',
     dev_entry 0x12C7 0x0707 '''' ''D/320JCT (Resource Only) Card'',
     dev_entry 0x12C7 0x0708 '''' ''D/160JCT (Resource Only) Card'',
     dev_entry 0x12CB 0x0027 ''StudioCard'' ''studiocard'',
     dev_entry 0x12CB 0x002D ''BX-12'' ''agp'',
     dev_entry 0x12CB 0x002E ''SC-2000'' '''',
     dev_entry 0x12CB 0x002F ''LX-44'' '''',
     dev_entry 0x12CB 0x0030 ''SC-22'' '''',
     dev_entry 0x12CB 0x0031 ''BX-44'' '''',
     dev_entry 0x12CB 0x0032 ''LX-24M'' ''20-bit 2-in, 4-out audio card w/MPEG-2'',
     dev_entry 0x12CB 0x0033 ''LX-22M'' '''',
     dev_entry 0x12CB 0x0034 ''BX-8'' '''',
     dev_entry 0x12CB 0x0035 ''BX-12e'' '''',
     dev_entry 0x12D1 0x1001 ''MSM6246'' ''Huawei E153u-3 3G modem'',
     dev_entry 0x12D1 0x1003 ''81237'' ''HUAWEI Mobile Connect - 3G Modem'',
     dev_entry 0x12D1 0x140B ''EC159'' ''HUAWEI MOBILE BROADBAND MODEM'',
     dev_entry 0x12D1 0x1412 ''09HT1407'' ''MW6208E'',
     dev_entry 0x12D1 0x1446 ''E1800'' ''3G Modem'',
     dev_entry 0x12D1 0x14c5 ''K4510'' ''HSPA+ USB Stick'',
     dev_entry 0x12D1 0x1520 ''-e620'' ''-vodacom mobile connect'',
     dev_entry 0x12D1 0x1802 ''unknown'' ''unknown'',
     dev_entry 0x12D1 0x3609 ''N/A'' ''M88++'',
     dev_entry 0x12D4 0x0301 ''EP1S'' ''SS7 Telecommunications Interface Adapter'',
     dev_entry 0x12D5 0x1000 ''MAP-CA'' ''Broadband Signal Processor'',
     dev_entry 0x12D5 0x1002 ''MAP-1000'' ''Digital Signal Processor'',
     dev_entry 0x1755 0x000 '''' '''',
     dev_entry 0x1755 0x0000 ''Au1500'' ''Au1500 Processor'',
     dev_entry 0x12D8 0x71E2 ''PI7C7300'' ''3 Port PCI to PCI bridge'',
     dev_entry 0x12D8 0x8140 ''PI7C8140'' ''4 Port PCI to PCI bridge'',
     dev_entry 0x12D8 0x8150 ''PI7C8150'' ''2-Port PCI to PCI Bridge'',
     dev_entry 0x12D8 0x8152 ''PI7C8152'' ''2-Port PCI-To-PCI Bridge'',
     dev_entry 0x12D8 0xA404 ''PI7C9X20404SL'' ''PCIe Packet Switch'',
     dev_entry 0x12D8 0xE111 ''P17C9X'' ''PCI to PCIe Bridge'',
     dev_entry 0x12D8 0xe130 ''PI7C9X130'' ''PCI-X Bridge'',
     dev_entry 0x12DB 0x0003 '''' ''FoxFire II'',
     dev_entry 0x12DE 0x0200 ''2005063294'' ''Cryptoswift 200'',
     dev_entry 0x12DF 0x2102 ''Infineon PEB 20534'' ''Communications Controller'',
     dev_entry 0x12DF 0x8236 ''Unknown'' ''PCI Controller'',
     dev_entry 0x12E0 0x0010 ''ST16C654'' ''Quad UART'',
     dev_entry 0x12E0 0x0020 ''ST16C654'' ''Quad UART'',
     dev_entry 0x12E0 0x0030 ''ST16C654'' ''Quad UART'',
     dev_entry 0x12E4 0x1000 ''TR1000 PRI'' ''PRI Controller'',
     dev_entry 0x12E4 0x1140 ''NV34'' ''ISDN Controller'',
     dev_entry 0x12E4 0xB005 ''TR1000 BRI'' ''BRI Controller'',
     dev_entry 0x12E4 0xB006 ''TR1000 BRI'' ''BRI Controller'',
     dev_entry 0x12EB 0x0001 ''AU8820'' ''Vortex 1 Digital Audio Processor'',
     dev_entry 0x12EB 0x0002 ''AU8830A2'' ''Vortex 2 Audio Processor'',
     dev_entry 0x12EB 0x0003 ''312EB&REV3'' ''Aureal Soundcard'',
     dev_entry 0x12EC 0x8139 ''0xxxx'' ''0xxxx'']"

definition PciDevTable_4 :: "PCI_DEVTABLE list" where
  "PciDevTable_4 = [
     dev_entry 0x12EC 0x8140 ''10'' ''asf'',
     dev_entry 0x12F2 0x1002 ''215RAAGCGA11F'' ''Grapics Radeon X850'',
     dev_entry 0x12F2 0x3059 ''VT8235'' ''AC97 Enhanced Audio Controller - the 8251 controller is different'',
     dev_entry 0x14C8 0x0003 ''0000066779'' ''0'',
     dev_entry 0x12F8 0x0002 ''VideoMaker'' ''s3 trio'',
     dev_entry 0x1DE1 0x0045 ''RaidCore5000 Series'' ''Tekram SAS860 Embedded 8xSAS/SATAII RAID'',
     dev_entry 0x1DE1 0x0058 ''RC5000Series'' ''Tekram Elrond 8xSAS/SATAII RAID'',
     dev_entry 0x1DE1 0x0391 ''TRM-S1040'' ''SCSI ASIC'',
     dev_entry 0x1DE1 0x2020 ''DC-390'' ''SCSI Controller'',
     dev_entry 0x1DE1 0x690C ''DC-690C'' ''IDE Cache Controller'',
     dev_entry 0x1DE1 0xDC29 ''DC290M'' ''Bus Master IDE PCI 2 controllers'',
     dev_entry 0x3D3D 0x0001 ''GLint 300SX'' ''3D Accelerator'',
     dev_entry 0x3D3D 0x0002 ''GLint 500TX'' ''Sapphire 3D Accelerator'',
     dev_entry 0x3D3D 0x0003 ''GLint'' ''Delta Geometry processor'',
     dev_entry 0x3D3D 0x0004 ''3C0SX'' ''2D+3D Accelerator'',
     dev_entry 0x3D3D 0x0005 ''Permedia'' ''2D+3D Accelerator'',
     dev_entry 0x3D3D 0x0006 ''GLint MX'' ''3D Accelerator'',
     dev_entry 0x3D3D 0x0007 ''3D Extreme'' ''Permedia II 2D+3D Accelerator'',
     dev_entry 0x3D3D 0x0008 ''GLint Gamma G1'' '''',
     dev_entry 0x3D3D 0x0009 ''Permedia2v'' ''2d+3d chipset, integrated ramdac'',
     dev_entry 0x3D3D 0x000A ''8086'' ''Driver Ethernet Pci Ven 1969'',
     dev_entry 0x3D3D 0x000C ''Permedia 3'' ''video card'',
     dev_entry 0x3D3D 0x000D ''GLINT R4'' ''3D Accelerator'',
     dev_entry 0x3D3D 0x000E ''GLINT Gamma G2'' '''',
     dev_entry 0x3D3D 0x0020 ''0x0024'' ''3Dlabs Wildcat VP 880 Pro'',
     dev_entry 0x3D3D 0x0030 ''0x030000'' ''3Dlabs Wildcat Realizm 800'',
     dev_entry 0x3D3D 0x0100 ''Permedia II'' ''2D+3D Accelerator'',
     dev_entry 0x3D3D 0x1004 ''Permedia'' ''3D+3D Accelerator'',
     dev_entry 0x3D3D 0x3D04 ''Permedia'' ''2D+3D Accelerator'',
     dev_entry 0x3D3D 0xFFFF ''GLint VGA'' '''',
     dev_entry 0x4005 0x0300 ''3220'' ''PCI Audio Device'',
     dev_entry 0x4005 0x0308 ''3220'' ''PCI Audio Device + modem'',
     dev_entry 0x4005 0x0309 ''ALS300 '' ''PCI Input Controller'',
     dev_entry 0x4005 0x1064 ''ALG2064'' ''GUI Accelerator'',
     dev_entry 0x4005 0x2064 ''<DELETE>'' ''GUI Accelerator'',
     dev_entry 0x4005 0x2128 ''ALG2364A'' ''GUI Accelerator'',
     dev_entry 0x4005 0x2301 ''ALG2301'' ''GUI Accelerator'',
     dev_entry 0x4005 0x2302 ''ALG2302'' ''GUI Accelerator'',
     dev_entry 0x4005 0x2303 ''AVG2302'' ''GUI Accelerator'',
     dev_entry 0x4005 0x2364 ''ALG2364'' ''GUI Accelerator'',
     dev_entry 0x4005 0x2464 ''ALG2464'' ''GUI Accelerator'',
     dev_entry 0x4005 0x2501 ''ALG2564A/25128A'' ''GUI Accelerator'',
     dev_entry 0x4005 0x4000 ''ALS4000'' ''Audio Chipset'',
     dev_entry 0x5333 0x0551 ''86C551'' ''Plato/PX'',
     dev_entry 0x5333 0x5333 ''S3 86c765'' ''via'',
     dev_entry 0x5333 0x5631 ''86C325'' ''Virge 3D '',
     dev_entry 0x5333 0x8800 ''86C866'' ''Vision 866 GUI Accelerator'',
     dev_entry 0x5333 0x8801 ''86C964'' ''Vision 964 GUI Accelerator'',
     dev_entry 0x5333 0x8810 ''86C732-P'' ''S3 TRIO32  IACB2  86C732-P'',
     dev_entry 0x5333 0x8811 ''8622mcq04'' ''Trio 64/64V'',
     dev_entry 0x5333 0x8812 ''86CM65?'' ''Aurora 64V+'',
     dev_entry 0x5333 0x8813 ''86C764'' ''Trio 32/64 GUI Accelerator v3'',
     dev_entry 0x5333 0x8814 ''86C767'' ''Trio 64UV+'',
     dev_entry 0x5333 0x8815 ''86CM66'' ''Aurora128'',
     dev_entry 0x5333 0x883D ''86C988'' ''ViRGE/VX 3D GUI Accelerator'',
     dev_entry 0x5333 0x8870 ''Fire GL'' '''',
     dev_entry 0x5333 0x8880 ''86C868'' ''Vision 868 GUI Accelerator VRAM rev. 0'',
     dev_entry 0x5333 0x8881 ''86C868'' ''Vision 868 GUI Accelerator VRAM rev. 1'',
     dev_entry 0x5333 0x8882 ''86C868'' ''Vision 868 GUI Accelerator VRAM rev. 2'',
     dev_entry 0x5333 0x8883 ''86C868'' ''Vision 868 GUI Accelerator VRAM rev. 3'',
     dev_entry 0x5333 0x88B0 ''86C928'' ''Vision 928 GUI Accelerator VRAM rev. 0'',
     dev_entry 0x5333 0x88B1 ''86C928'' ''Vision 928 GUI Accelerator VRAM rev. 1'',
     dev_entry 0x5333 0x88B2 ''86C928'' ''Vision 928 GUI Accelerator VRAM rev. 2'',
     dev_entry 0x5333 0x88B3 ''86C928'' ''Vision 928 GUI Accelerator VRAM rev. 3'',
     dev_entry 0x5333 0x88C0 ''86C864'' ''Vision 864 GUI Accelerator DRAM rev. 0'',
     dev_entry 0x5333 0x88C1 ''86C864'' ''Vision 864 GUI Accelerator DRAM rev. 1'',
     dev_entry 0x5333 0x88C2 ''86C864'' ''Vision 864 GUI Accelerator DRAM rev. 2'',
     dev_entry 0x5333 0x88C3 ''86C864'' ''Vision 864 GUI Accelerator DRAM rev. 3'',
     dev_entry 0x5333 0x88D0 ''86C964'' ''Vision 964 GUI Accelerator VRAM rev. 0'',
     dev_entry 0x5333 0x88D1 ''86C964'' ''Vision 964-P GUI Accelerator VRAM rev. 1'',
     dev_entry 0x5333 0x88D2 ''86C964'' ''Vision 964-P GUI Accelerator DRAM rev 2'',
     dev_entry 0x5333 0x88D3 ''86C964'' ''Vision 964-P GUI Accelerator VRAM rev. 3'',
     dev_entry 0x5333 0x88F0 ''86C968'' ''Vision 968 GUI Accelerator VRAM rev. 0'',
     dev_entry 0x5333 0x88F1 ''86C968'' ''Vision 968 GUI Accelerator VRAM rev. 1'',
     dev_entry 0x5333 0x88F2 ''86C968'' ''Vision 968 GUI Accelerator VRAM rev. 2'',
     dev_entry 0x5333 0x88F3 ''86C968'' ''Vision 968 GUI Accelerator VRAM rev. 3'',
     dev_entry 0x5333 0x8900 ''86C775'' ''Trio64V2/DX'',
     dev_entry 0x5333 0x8901 (''pci'' @ [CHR 0x5C] @ ''ven_5333dev_8C2E&SUBSYS_00011179&REV_05'' @ [CHR 0x5C] @ ''4&74C6'') ''S3 trio64uv+ for windows xp'',
     dev_entry 0x5333 0x8902 ''86C551'' ''SMA Family'',
     dev_entry 0x5333 0x8903 '''' ''TrioV Family'',
     dev_entry 0x5333 0x8904 ''86C365/366'' ''Trio3D QFP/BGA'',
     dev_entry 0x5333 0x8905 ''86c765'' ''86C765 Trio64V+ compatible'',
     dev_entry 0x5333 0x8906 ''86c765'' ''86C765 Trio64V+ compatible'',
     dev_entry 0x5333 0x8907 ''86c765'' ''86C765 Trio64V+ compatible'',
     dev_entry 0x5333 0x8908 ''9711 MCN74'' ''86C765 Trio64V+ compatible'',
     dev_entry 0x5333 0x8909 ''7699688'' ''86C765 Trio64V+ compatible'',
     dev_entry 0x5333 0x890A ''0x00091011'' ''86C765 Trio64V+ compatible'',
     dev_entry 0x5333 0x890B ''9726 c19394.00'' ''86C765 Trio64V+ compatible'',
     dev_entry 0x5333 0x890C ''86C765'' ''86C765 Trio64V+ compatible'',
     dev_entry 0x5333 0x890D ''86C765 Trio64V+ compatible'' ''86C765 Trio64V+ compatible'',
     dev_entry 0x5333 0x890E ''9711 MCN74'' ''86C765 Trio64V+ compatible'',
     dev_entry 0x5333 0x890F ''86c765'' ''86C765 Trio64V+ compatible'',
     dev_entry 0x5333 0x8A01 ''86C375/86C385'' ''ViRGE /DX & /GX'',
     dev_entry 0x5333 0x8A10 ''86C357'' ''ViRGE /GX2'',
     dev_entry 0x5333 0x8A11 ''86C359'' ''ViRGE /GX2+ Macrovision'',
     dev_entry 0x5333 0x8A12 ''86C359'' ''ViRGE /GX2+'',
     dev_entry 0x5333 0x8A13 ''86C368'' ''Trio3D2x & Trio3D2x+ AGP / Trio3D2x & Trio3D2x+ 8MB'',
     dev_entry 0x5333 0x8A20 ''86C391'' ''S3savage3D'',
     dev_entry 0x5333 0x8A21 ''86C390'' ''Savage3D/MV'',
     dev_entry 0x5333 0x8A22 ''86c398'' ''Savage 4'',
     dev_entry 0x5333 0x8A23 ''86C394-397'' ''Savage 4'',
     dev_entry 0x5333 0x8A25 ''86C370'' ''Savage4'',
     dev_entry 0x5333 0x8A26 ''86C395B'' ''ProSavage'',
     dev_entry 0x5333 0x8C00 ''85C260'' ''ViRGE/M3 (ViRGE/MX)'',
     dev_entry 0x5333 0x8C01 ''86C260'' ''ViRGE/M5 (ViRGE/MX)'',
     dev_entry 0x5333 0x8C02 ''86C240'' ''ViRGE/MXC'',
     dev_entry 0x5333 0x8C03 ''86C280'' ''ViRGE /MX+mv'',
     dev_entry 0x5333 0x8C10 ''86C270/274/290/294'' ''Savage MX/IX/MX+MV/IX+MV'',
     dev_entry 0x5333 0x8C12 ''86C270/274/290/294'' ''Savage MX/IX/MX+MV/IX+MV'',
     dev_entry 0x5333 0x8C13 ''82C294'' ''SAVAGE IX'',
     dev_entry 0x5333 0x8C22 ''86C508'' ''SuperSavage 128/MX'',
     dev_entry 0x5333 0x8C2A ''86C544'' ''SuperSavage 128/IX'',
     dev_entry 0x5333 0x8C2B ''86C553'' ''SuperSavage 128/IX DDR'',
     dev_entry 0x5333 0x8C2C ''86C564'' ''SuperSavage/IX'',
     dev_entry 0x5333 0x8C2D ''86C573'' ''SuperSavage/IX DDR'',
     dev_entry 0x5333 0x8C2E ''86C584'' ''SuperSavage/IXC SDRAM'',
     dev_entry 0x5333 0x8C2F ''86C594'' ''SuperSavage/IXC DDR'',
     dev_entry 0x5333 0x8D01 ''86C380/381'' ''Twister/Twister T'',
     dev_entry 0x5333 0x8D02 ''86c387'' ''Twister K'',
     dev_entry 0x5333 0x8D04 ''86C410'' ''ProSavage DDR P4X333'',
     dev_entry 0x5333 0x8E00 ''86C777/787'' ''DeltaChrome S8/F1'',
     dev_entry 0x5333 0x8E01 ''86C732'' ''DeltaChromeX9m'',
     dev_entry 0x5333 0x9102 ''86c410'' ''Inno Savage 2000'',
     dev_entry 0x5333 0x9876 ''86C390'' ''Savage3D/MV'',
     dev_entry 0x5333 0xCA00 ''86C617'' ''SonicVibes PCI Audio Accelerator'',
     dev_entry 0x165F 0x2000 ''XILINX SPARTAN'' ''16 Channel Audio Capture Card'',
     dev_entry 0x8086 0x27B8 ''82801GB/GR'' ''Intel(R) 82801GB/GR (ICH7 Family) LPC Interface Controller'',
     dev_entry 0x8086 0x0008 ''Intel'' ''Extended Express System Support Ctrlr'',
     dev_entry 0x8086 0x0011 ''0x108D'' ''Ethernet Controller'',
     dev_entry 0x8086 0x0042 ''Intel graphics'' ''Intel Q57/H55 Clarkdale (Onboard on D2912-A1x)'',
     dev_entry 0x8086 0x0046 ''Intel Graphics Media Accelerator HD'' ''Intel Graphics Media Accelerator HD'',
     dev_entry 0x8086 0x0054 ''not known'' ''Audio'',
     dev_entry 0x8086 0x0082 ''6205'' ''Centrino Advanced-N 6205 '',
     dev_entry 0x8086 0x0083 (''Mobile Intel'' @ [CHR 0xC2, CHR 0xAE] @ '' 5 Series Chipset'') (''Intel'' @ [CHR 0xC2, CHR 0xAE] @ '' PROSet/Wireless Software and Drivers for Windows 7 32-Bit''),
     dev_entry 0x8086 0x0084 ''Intel PROSet WiFi 1000'' ''Intel Wireless Link WiFi 1000, download -> http://downloadmirror.intel.com/20791/eng/Wireless_14.3.0'',
     dev_entry 0x8086 0x0085 ''0x0280'' ''Intel Centrino(R) Advanced-N 6205'',
     dev_entry 0x8086 0x0087 ''1306'' ''00E1'',
     dev_entry 0x8086 0x008A ''???'' ''Intel Centrino Wireless-N1030'']"

definition PciDevTable_5 :: "PCI_DEVTABLE list" where
  "PciDevTable_5 = [
     dev_entry 0x8086 0x008B ''Intel Wireless-N 1030'' ''Intel(R) Centrino(R) Wireless-N 1030 '',
     dev_entry 0x8086 0x0091 ''622ANHW'' (''Intel'' @ [CHR 0xC2, CHR 0xAE] @ '' Centrino'' @ [CHR 0xC2, CHR 0xAE] @ '' Advanced-N 6230''),
     dev_entry 0x8086 0x0102 ''0001'' ''Intel HD Graphics 2000'',
     dev_entry 0x8086 0x0106 ''HD Graphics 3000/2000'' (''2nd Generation Intel'' @ [CHR 0xC2, CHR 0xAE] @ '' Core'' @ [CHR 0xE2, CHR 0x84, CHR 0xA2] @ '' Processors with Intel'' @ [CHR 0xC2, CHR 0xAE] @ '' HD Graphics 3000/2000''),
     dev_entry 0x8086 0x010A ''010A'' ''Lenovo TS130 Intel Video Adapter HD'',
     dev_entry 0x8086 0x0111 ''82810e'' ''Intel Graphics Conroller'',
     dev_entry 0x8086 0x0116 ''intel core i3'' ''Intel HD Graphics 3000'',
     dev_entry 0x8086 0x0123 ''0300'' ''hardwareids'',
     dev_entry 0x8086 0x0162 ''Core I5, Core I7, Ivy Bridge'' ''Graphics embedded'',
     dev_entry 0x8086 0x0166 ''I3'' (''3rd Generation Intel'' @ [CHR 0xC2, CHR 0xAE] @ '' HD Graphics 4000''),
     dev_entry 0x8086 0x0189 ''Intel Centrino Wireless-N 1030 Bluetooth Adapter'' ''Intel Centrino Wireless Bluetooth 3.0 + High Speed Adapter'',
     dev_entry 0x8086 0x027AE ''82945GM'' ''Mobile Intel(R) 945 Express Chipset Family'',
     dev_entry 0x8086 0x027D8 ''293esd'' ''Mobile PCI-to-PCIsdsdsdI2)'',
     dev_entry 0x8086 0x0283E ''AA01211025'' ''Intel(R) ICH8 Family SMBus Controller'',
     dev_entry 0x8086 0x0308 ''3220'' ''PCI Audio Device + modem'',
     dev_entry 0x8086 0x0309 ''80303'' ''I/O Processor PCI-to-PCI Bridge Unit'',
     dev_entry 0x8086 0x030D ''80312'' ''I/O Companion Unit PCI-to-PCI Bridge'',
     dev_entry 0x8086 0x0318 ''80219'' ''General Purpose PCI Processor Address Translation Unit'',
     dev_entry 0x8086 0x0319 ''80219'' ''General Purpose PCI Processor Address Translation Unit'',
     dev_entry 0x8086 0x0326 ''670xPXH'' ''I/OxAPIC Interrupt Controller'',
     dev_entry 0x8086 0x0327 ''6700PXH'' ''I/OxAPIC Interrupt Controller B'',
     dev_entry 0x8086 0x0329 ''6700PXH'' ''PCI Express-to-PCI Express Bridge A'',
     dev_entry 0x8086 0x032A ''6700PXH'' ''PCI Express-to-PCI Express Bridge B'',
     dev_entry 0x8086 0x032C ''6702PXH'' ''PCI Express-to-PCI Express Bridge'',
     dev_entry 0x8086 0x0330 ''80332'' ''A-Segment Bridge'',
     dev_entry 0x8086 0x0331 ''80332'' ''A-Segment IOAPIC'',
     dev_entry 0x8086 0x0332 ''80332'' ''B-Segment Bridge'',
     dev_entry 0x8086 0x0333 ''80332'' ''B-Segment IOAPIC'',
     dev_entry 0x8086 0x0334 ''80332'' ''Address Translation Unit'',
     dev_entry 0x8086 0x0335 ''80331'' ''PCI-X Bridge'',
     dev_entry 0x8086 0x0336 ''80331'' ''Address Translation Unit (ATU)'',
     dev_entry 0x8086 0x0340 ''41210'' ''Serial to Parallel PCI Bridge A'',
     dev_entry 0x8086 0x0341 ''41210'' ''Serial to Parallel PCI Bridge B'',
     dev_entry 0x8086 0x0370 ''80333'' ''Segment-A PCI Express-to-PCI Express Bridge'',
     dev_entry 0x8086 0x0371 ''80333'' ''A-Bus IOAPIC'',
     dev_entry 0x8086 0x0372 ''80333'' ''Segment-B PCI Express-to-PCI Express Bridge'',
     dev_entry 0x8086 0x0373 ''80333'' ''B-Bus IOAPIC'',
     dev_entry 0x8086 0x0374 ''80333'' ''Address Translation Unit'',
     dev_entry 0x8086 0x0401 ''266E'' ''P040100'',
     dev_entry 0x8086 0x0402 ''ACPI x86-based PC'' ''intel core i5'',
     dev_entry 0x8086 0x0482 ''82375MB'' ''PCI-EISA Bridge (PCEB)hp dx 7300 microwave tower'',
     dev_entry 0x8086 0x0483 ''82424TX/ZX'' ''CPU (i486) Bridge (Saturn)'',
     dev_entry 0x8086 0x0484 ''82378ZB/IB'' ''SIO ISA Bridge'',
     dev_entry 0x8086 0x0486 ''82425EX'' ''1261028'',
     dev_entry 0x8086 0x04A3 ''82434bX/zX'' ''Mercury/Neptune Cache/DRAM Controller'',
     dev_entry 0x8086 0x0500 ''E8870'' ''Processor Bus Controller'',
     dev_entry 0x8086 0x0501 ''E8870'' ''Memory Controller'',
     dev_entry 0x8086 0x0502 ''E8870'' ''Scalability Port 0'',
     dev_entry 0x8086 0x0503 ''E8870'' ''Scalability Port 1 / Glob. Perf. Monitor'',
     dev_entry 0x8086 0x0510 ''E8870IO'' ''Hub Interface Port 0 (8-bit compatible)'',
     dev_entry 0x8086 0x0511 ''E8870IO'' ''Hub Interface Port 2'',
     dev_entry 0x8086 0x0512 ''E8870IO'' ''Hub Interface Port 2'',
     dev_entry 0x8086 0x0513 ''E8870IO'' ''Hub Interface Port 3'',
     dev_entry 0x8086 0x0514 ''E8870IO'' ''Hub Interface Port 4'',
     dev_entry 0x8086 0x0515 ''E8870IO'' ''Server I/O Hub (SIOH)'',
     dev_entry 0x8086 0x0516 ''E8870IO'' ''Reliabilty, Availability, Serviceability'',
     dev_entry 0x8086 0x0530 ''E8870SP'' ''Scalability Port 0'',
     dev_entry 0x8086 0x0531 ''E8870SP'' ''Scalability Port 1'',
     dev_entry 0x8086 0x0532 ''E8870SP'' ''Scalability Port 2'',
     dev_entry 0x8086 0x0533 ''E8870SP'' ''Scalability Port 3'',
     dev_entry 0x8086 0x0534 ''E8870SP'' ''Scalability Port 4'',
     dev_entry 0x8086 0x0535 ''E8870SP'' ''Scalability Port 5'',
     dev_entry 0x8086 0x0536 ''E8870SP'' ''Scalability Port Switch Global Registers'',
     dev_entry 0x8086 0x0537 ''E8870SP'' ''Interleave Configuration Registers'',
     dev_entry 0x8086 0x0600 ''1043'' ''Storage RAID Controller'',
     dev_entry 0x8086 0x0780 ''3.0/2.0'' ''Intel B75 Express Chipset'',
     dev_entry 0x8086 0x0800 ''10B01734'' (''pci/ven_8086&dev_27da&subsys_30b2103c&rev_02'' @ [CHR 0x5C] @ ''3&b1bfb68&0&fb''),
     dev_entry 0x8086 0x0885 ''612BNXHMW'' ''Intel Centrino Wireless-N + WiMAX 6150'',
     dev_entry 0x8086 0x0887 ''Intel Centrino Chipset'' ''Intel Centrino Wireless-N 2230'',
     dev_entry 0x8086 0x0888 ''0'' ''Intel Centrino Wireless-N 2230'',
     dev_entry 0x8086 0x088E ''40608086'' ''Intel Centrino Advanced N 6235'',
     dev_entry 0x8086 0x0890 ''Intel'' ''Network Controller'',
     dev_entry 0x8086 0x0894 ''86881'' ''MRMgRH'',
     dev_entry 0x8086 0x0896 ''Wireless-N 130'' ''Intel Centrino Wireless-N 130'',
     dev_entry 0x8086 0x08AE ''802.11n'' ''Intel Centrino Wireless-N 100'',
     dev_entry 0x8086 0x0960 ''80960RP'' ''i960 RP Microprocessor/Bridge'',
     dev_entry 0x8086 0x0962 ''80960RM/RN'' ''i960RM/RN Microprocessor/Bridge'',
     dev_entry 0x8086 0x0964 ''80960RP'' ''i960 RP Microprocessor Bridge'',
     dev_entry 0x8086 0x0BE1 ''0000000'' ''Intel Graphics Media Accelerator 3600 Series'',
     dev_entry 0x8086 0x0C05 ''V9201015'' ''Intel(R) 6 Series/C200 Series Chipset Family SMBus Controller'',
     dev_entry 0x8086 0x1000 ''82542'' ''Gigabit Ethernet Controller'',
     dev_entry 0x8086 0x1001 ''2572'' ''10/100/1000 Ethernet Controller (Fiber)'',
     dev_entry 0x8086 0x1002 '''' ''Pro 100 LAN+Modem 56 CardBus II'',
     dev_entry 0x8086 0x1004 ''82543GC'' ''Gigabit Ethernet Controller (Copper)'',
     dev_entry 0x8086 0x1008 ''82544EI/GC'' ''Gigabit Ethernet Controller (Copper)'',
     dev_entry 0x8086 0x1009 ''82845G/GL/GV/GE/PE Integrated Graphics Device'' ''Intel'',
     dev_entry 0x8086 0x100C ''82543EI/GC'' ''Gigabit Ethernet Controller (Copper)'',
     dev_entry 0x8086 0x100D ''82544GC'' ''Gigabit Ethernet Controller (LOM)'',
     dev_entry 0x8086 0x100E ''02000'' ''Intel Pro 1000/MT'',
     dev_entry 0x8086 0x100F ''82545EM'' ''Gigabit Ethernet Controller (copper)'',
     dev_entry 0x8086 0x1010 ''82546EB'' ''Dual Port Gigabit Ethernet Controller (Copper)'',
     dev_entry 0x8086 0x1011 ''82545EM'' ''Gigabit Ethernet Controller (Fiber)'',
     dev_entry 0x8086 0x1012 ''82546EB'' ''Dual Port Gigabit Ethernet Controller (Fiber)'',
     dev_entry 0x8086 0x1013 ''82541EI'' ''Gigabit Ethernet Controller (Copper)'',
     dev_entry 0x8086 0x1014 ''82541ER'' ''Gigabit Ethernet Controller'',
     dev_entry 0x8086 0x1015 ''82540EM'' ''Gigabit Ethernet Controller (LOM)'',
     dev_entry 0x8086 0x1016 ''82540EP'' ''Gigabit Ethernet Controller (LOM)'',
     dev_entry 0x8086 0x1017 ''82540EP'' ''Gigabit Ethernet Controller (LOM)'',
     dev_entry 0x8086 0x1018 ''82541EI'' ''PRO/1000 MT Mobile connection'',
     dev_entry 0x8086 0x1019 ''82547EI'' ''Gigabit Ethernet Controller (LOM)'',
     dev_entry 0x8086 0x101A ''82547EI'' ''Gigabit Ethernet Controller (LOM)'',
     dev_entry 0x8086 0x101d ''82546EB'' ''Dual Port Gigabit Ethernet Controller'',
     dev_entry 0x8086 0x101E ''82540EP'' ''Gigabit Ethernet Controller (Mobile)'',
     dev_entry 0x8086 0x1026 ''82545ep'' ''Gigabit Ethernet Controller'',
     dev_entry 0x8086 0x1027 ''82545GM'' ''Gigabit Ethernet Controller (Fiber)'',
     dev_entry 0x8086 0x1028 ''82545GM'' ''Gigabit Ethernet Controller'',
     dev_entry 0x8086 0x1029 ''82559'' ''Fast Ethernet PCI/CardBus Controller'',
     dev_entry 0x8086 0x1030 ''82801'' ''PCI Networking device'',
     dev_entry 0x8086 0x1031 ''82801CAM'' ''PRO/100 VE Network Connection'',
     dev_entry 0x8086 0x1032 ''82801CAM'' ''PRO/100 VE Network Connection'',
     dev_entry 0x8086 0x1033 ''PB 642365-003'' ''multimedia video controller'',
     dev_entry 0x8086 0x1034 ''82801CAM'' ''PRO/100 VM Network Connection'',
     dev_entry 0x8086 0x1035 ''82562EH'' ''Phoneline Network Connection'',
     dev_entry 0x8086 0x1036 ''82562EH'' ''Phoneline Network Connection'',
     dev_entry 0x8086 0x1037 ''82801CAM'' ''LAN Controller'',
     dev_entry 0x8086 0x1038 ''82801CAM'' ''PRO/100 VM/KM Network Connection'',
     dev_entry 0x8086 0x1039 ''10011734'' '' 82562'',
     dev_entry 0x8086 0x103A ''82801DB'' ''LAN Controller with 82562ET/EZ (CNR) PHY'',
     dev_entry 0x8086 0x103B ''82801DB'' ''LAN Controller with 82562EM/EX PHY'',
     dev_entry 0x8086 0x103C ''82801DB'' ''LAN Controller with 82562EM/EX (CNR) PHY'',
     dev_entry 0x8086 0x103D ''05221014'' ''PRO/100 VE Network Connection'',
     dev_entry 0x8086 0x103E ''82801DB'' ''PRO/100 VM Network Connection'',
     dev_entry 0x8086 0x1040 ''536EP'' ''V.92 PCI (DSP) Data Fax Modema'',
     dev_entry 0x8086 0x1042 ''8086'' ''PRO/Wireless 2011 LAN PCI Card'',
     dev_entry 0x8086 0x1043 ''82801'' ''Intel(R) PRO/Wireless 2100 LAN Card Driver'',
     dev_entry 0x8086 0x1048 ''82597EX'' ''10 Gigabit Ethernet Controller'',
     dev_entry 0x8086 0x1049 ''82566MM NIC'' ''Gigabit Network Connection Interface Controller'',
     dev_entry 0x8086 0x104A ''Intel 82566DM Gigabit Ethernet'' ''gigabit ethernet'',
     dev_entry 0x8086 0x104B ''82566DC'' ''Gigabit Ethernet'',
     dev_entry 0x8086 0x104D ''82566MC'' ''Intel Gigabit 82566MC'',
     dev_entry 0x8086 0x1050 ''82562EZ'' ''PRO/100 VE Network Connection'',
     dev_entry 0x8086 0x1051 ''82801EB/ER'' ''PRO/100 VE Network Connection'',
     dev_entry 0x8086 0x1052 ''82801EB/ER'' ''PRO/100 VM Network Connection'',
     dev_entry 0x8086 0x1053 ''82801EB/ER'' ''PRO/100 VM Network Connection'',
     dev_entry 0x8086 0x1054 ''82801EB/ER'' ''PRO/100 VE Network Connection (mobile)'',
     dev_entry 0x8086 0x1055 ''82801EB/ER'' ''PRO/100 VM Network Connection (mobile)'',
     dev_entry 0x8086 0x1059 ''82551QM'' ''Fast Ethernet PCI/CardBus Controller'']"

definition PciDevTable_6 :: "PCI_DEVTABLE list" where
  "PciDevTable_6 = [
     dev_entry 0x8086 0x105E ''n1e5132'' ''HP NC360T PCIe DP Gigabit Server Adapter'',
     dev_entry 0x8086 0x1064 ''Intel Pro VE'' ''82562EZ PLC'',
     dev_entry 0x8086 0x1065 ''82801FB/FR/FW/FRW'' ''LAN Controller Intel Corporation 82562ET/EZ/GT/GZ - PRO/100 VE Ethernet Controller'',
     dev_entry 0x8086 0x1068 ''82562'' ''1068h 82562ET/EZ/GT/GZ PRO/100 VE Ethernet Controller'',
     dev_entry 0x8086 0x1075 ''82547EI'' ''Gigabit Ethernet Controller'',
     dev_entry 0x8086 0x1076 ''82541EI'' ''Gigabit Ethernet Controller'',
     dev_entry 0x8086 0x1077 ''82547EI'' ''Gigabit Ethernet Controller (Mobile)'',
     dev_entry 0x8086 0x1078 ''82541ER'' ''Gigabit Ethernet Controller'',
     dev_entry 0x8086 0x1079 ''82546EB'' ''Dual Port Gigabit Ethernet Controller'',
     dev_entry 0x8086 0x107A ''82546EB'' ''Dual Port Gigabit Ethernet Controller (Fiber)'',
     dev_entry 0x8086 0x107B ''82546EB'' ''Dual Port Gigabit Ethernet Controller (Copper)'',
     dev_entry 0x8086 0x107C ''82541PI'' ''Gigabit Ethernet Controller (Copper) rev 5'',
     dev_entry 0x8086 0x1080 ''0321CGEA04'' ''FA82537EP - Intel 537EP V.92 (PCI)  modem'',
     dev_entry 0x8086 0x108B ''PC82573V'' ''Intel network controller (PCIE Gigabit Ethernet)'',
     dev_entry 0x8086 0x108c ''82573E'' ''Intel Corporation 82573E Gigabit Ethernet Controller (Copper)'',
     dev_entry 0x8086 0x108E ''ICH7R'' ''Intel(R) Active Management Technology - KCS'',
     dev_entry 0x8086 0x108F ''ICH7R'' ''Intel(R) Active Management Technology - SOL'',
     dev_entry 0x8086 0x1092 ''27DA'' ''PRO/100 VE Network Controller'',
     dev_entry 0x8086 0x1094 ''Onboard - Intel PRO 100/VE nic'' ''get PRO2KXP.exe from Intel'',
     dev_entry 0x8086 0x1096 ''Intel PRO/1000 EB'' ''Intel PRO/1000 EB'',
     dev_entry 0x8086 0x109A ''82573L'' ''Intel PRO/1000 PL Network Adaptor'',
     dev_entry 0x8086 0x109c ''e1qexpress'' ''HP E1Q Express'',
     dev_entry 0x8086 0x10a7 ''82575 ?'' ''82575EB Gigabit Network Connection'',
     dev_entry 0x8086 0x10a9 ''82575 ?'' ''82575EB Gigabit Backplane Connection'',
     dev_entry 0x8086 0x10b5 ''82546GB'' ''Quad Port Gigabit Ethernet Controller'',
     dev_entry 0x8086 0x10b9 ''82572GI'' ''Intel PRO/1000 PT Desktop'',
     dev_entry 0x8086 0x10BD ''82566DM'' ''Intel 82566DM Gigabit Ethernet Adapter'',
     dev_entry 0x8086 0x10C0 ''8082'' ''Intel(R) 82562V-2 10/100 Network Connection'',
     dev_entry 0x8086 0x10c4 ''82562GT'' ''Intel 82562GT 10/100 Network Controller'',
     dev_entry 0x8086 0x10c4 ''82562EZ PLC'' ''Intel 82562GT 10/100 Network Controller'',
     dev_entry 0x8086 0x10c9 ''82576?'' ''82576 Gigabit ET Dual Port Server Adapter'',
     dev_entry 0x8086 0x10CE ''82567V-2'' ''Intel 82567V-2 Gigabit Network Connection'',
     dev_entry 0x8086 0x10d3 ''82574L'' (''Intel'' @ [CHR 0xC2, CHR 0xAE] @ '' 82574L Gigabit Ethernet Controller''),
     dev_entry 0x8086 0x10d6 ''82575'' ''82566 DM-2-gigabyte'',
     dev_entry 0x8086 0x10DE ''02761028'' ''Intel Gigabit network connection'',
     dev_entry 0x8086 0x10e6 ''82576 ?'' ''82576 Gigabit Network Connection'',
     dev_entry 0x8086 0x10e7 ''82576 ?'' ''82576 Gigabit Network Connection'',
     dev_entry 0x8086 0x10E8 ''82576'' ''E64750-xxx Intel Gigabit ET Quad Port Server Adapter'',
     dev_entry 0x8086 0x10EA ''82577LM'' ''Intel 82577LM Gigabit LAN Driver '',
     dev_entry 0x8086 0x10EC ''Realtek AC97Audio'' ''Realtek 171 High Definition Audio'',
     dev_entry 0x8086 0x10EF (''Intel'' @ [CHR 0xC2, CHR 0xAE] @ '' 82578DM Gigabit Ethernet Controller'') (''Intel'' @ [CHR 0xC2, CHR 0xAE] @ '' 82578DM Gigabit Ethernet Controller''),
     dev_entry 0x8086 0x10F0 ''82578'' ''Intel(R) 82578DC Gigabit NIC'',
     dev_entry 0x8086 0x10F5 ''82567LM'' (''Intel'' @ [CHR 0xC2, CHR 0xAE] @ ''  82567LM-2 Gigabit Network Connection''),
     dev_entry 0x8086 0x10fb ''82599'' ''10 Gb Ethernet controller'',
     dev_entry 0x8086 0x1100 ''82815/EP/P'' ''Host-Hub Interface Bridge / DRAM Ctrlr'',
     dev_entry 0x8086 0x1101 ''82815/EP/P'' ''AGP Bridge'',
     dev_entry 0x8086 0x1102 ''82915GV'' ''Internal Graphics Device'',
     dev_entry 0x8086 0x1110 ''82815'' ''Host-Hub Interface Bridge / DRAM Ctrlr'',
     dev_entry 0x8086 0x1112 ''82815'' ''Internal Graphics Device'',
     dev_entry 0x8086 0x1120 ''82815'' ''Host-Hub Interface Bridge / DRAM Ctrlr'',
     dev_entry 0x8086 0x1121 ''82815'' ''AGP Bridge'',
     dev_entry 0x8086 0x1130 ''82815/82815EM/EP'' ''Host-Hub Interface Bridge / DRAM Ctrlr'',
     dev_entry 0x8086 0x1131 ''82815/82815EM/EP'' ''AGP Bridge'',
     dev_entry 0x8086 0x1132 ''65416'' ''Internal Graphics Device [810/815 chipset AGP]'',
     dev_entry 0x8086 0x1161 ''82806AA'' ''I/O APIC Device'',
     dev_entry 0x8086 0x1162 ''BECC'' ''XScale 80200 Companion Chip (FPGA)'',
     dev_entry 0x8086 0x1179 ''82546EB'' ''Dual Port Gigabit Ethernet Controller'',
     dev_entry 0x8086 0x12 ''03491025'' ''00'',
     dev_entry 0x8086 0x1200 ''IXP1200'' ''Network Processor'',
     dev_entry 0x8086 0x1209 ''8255xER/IT'' ''Fast Ethernet Controller for xp pc'',
     dev_entry 0x8086 0x1221 ''82092AA'' ''PCMCIA Bridge'',
     dev_entry 0x8086 0x1222 ''2792'' ''IDE Ctrlr'',
     dev_entry 0x8086 0x1223 (''Conexant Cx20468 @ Intel 82801FB ICH6 - AC'' @ [CHR 0x27] @ ''97 Audi'') ''Audio Controller'',
     dev_entry 0x8086 0x1225 ''82452KX/GX'' ''Orion Extended Express CPU to PCI Bridge'',
     dev_entry 0x8086 0x1226 ''82596'' ''EtherExpress PRO/10'',
     dev_entry 0x8086 0x1227 ''82801db ich4'' ''LAN Controller with 82562EM'',
     dev_entry 0x8086 0x1228 ''EE PRO/100 Smart'' ''Intelligent 10/100 Fast Ethernet Adapter'',
     dev_entry 0x8086 0x1229 ''1e22'' ''Intel(R) PRO/100 M 00000Desktop Adapter   http://downloadmirror.intel.com/8659/eng/LAN_ALLOS_11.2_PV'',
     dev_entry 0x8086 0x122D ''82437FX'' ''System Controller (TSC)'',
     dev_entry 0x8086 0x122E ''82371AB/EB PCI'' ''PCI to ISA Bridge (Triton)'',
     dev_entry 0x8086 0x1230 ''FW82371AB'' ''IDE Interface (Triton)'',
     dev_entry 0x8086 0x1231 ''16345'' ''DSVD Modem'',
     dev_entry 0x8086 0x1234 ''82371MX'' ''PCI to ISA Bridge'',
     dev_entry 0x8086 0x1235 ''82439TX'' ''Mobile System Controller (MTSC)'',
     dev_entry 0x8086 0x1237 ''82440LX/EX'' ''PCI & Memory'',
     dev_entry 0x8086 0x1239 ''82371FB'' ''IDE Interface (Triton)'',
     dev_entry 0x8086 0x123B ''82380PB'' ''PCI to PCI Docking Bridge'',
     dev_entry 0x8086 0x123C ''82380AB'' ''Mobile PCI-to-ISA Bridge (MISA)'',
     dev_entry 0x8086 0x123D ''683053'' ''Programmable Interrupt Device'',
     dev_entry 0x8086 0x123E ''82466GX'' ''Integrated Hot-Plug Controller (IHPC)'',
     dev_entry 0x8086 0x123F ''82466GX'' ''Integrated Hot-Plug Controller (IHPC)'',
     dev_entry 0x8086 0x1240 ''82752'' ''AGP Graphics Accelerator'',
     dev_entry 0x8086 0x124B ''293esd'' ''Mobile PCI-to-PCIsdsdsdI2)'',
     dev_entry 0x8086 0x124B ''293esd'' ''Mobile PCI-to-PCIsdsdsdI2)'',
     dev_entry 0x8086 0x124C ''9776'' ''Mobile PCI-to-PCI Bridge (MPCI2)'',
     dev_entry 0x8086 0x1250 ''82430HX'' ''System Controller (TXC)'',
     dev_entry 0x8086 0x12D8 ''92XX'' ''SIGMATEL STAC 92XX C-Major HD Audio'',
     dev_entry 0x8086 0x1360 ''82806AA'' ''Hub Interface to PCI Bridge'',
     dev_entry 0x8086 0x1361 ''82806AA'' ''Advanced Interrupt Controller'',
     dev_entry 0x8086 0x13ca ''VVVV'' ''VVVVVV'',
     dev_entry 0x8086 0x1460 ''82870P2'' ''Hub Interface-to-PCI Bridge'',
     dev_entry 0x8086 0x1461 ''14611014'' ''I/OxAPIC Interrupt Controller'',
     dev_entry 0x8086 0x1462 ''82870P2'' ''Hot Plug Controller'',
     dev_entry 0x8086 0x1502 ''0x04931028'' ''Intel 82579LM Gigabit Network Card'',
     dev_entry 0x8086 0x1503 ''Intel 82579v'' ''Gigabit Network Connection'',
     dev_entry 0x8086 0x150a ''82576 ?'' ''82576NS Gigabit Ethernet Controller'',
     dev_entry 0x8086 0x150C ''82583V'' (''Intel'' @ [CHR 0xC2, CHR 0xAE] @ '' 82583V Gigabit Ethernet  Controller''),
     dev_entry 0x8086 0x150d ''82576 ?'' ''82576 Gigabit Backplane Connection'',
     dev_entry 0x8086 0x150e ''82580 ?'' ''82580 Gigabit Network Connection'',
     dev_entry 0x8086 0x150f ''82580 ?'' ''82580 Gigabit Fiber Network Connection'',
     dev_entry 0x8086 0x1510 ''82580 ?'' ''82580 Gigabit Backplane Connection'',
     dev_entry 0x8086 0x1511 ''82580 ?'' ''82580 Gigabit SFP Connection'',
     dev_entry 0x8086 0x1516 ''82580 ?'' ''82580 Gigabit Network Connection'',
     dev_entry 0x8086 0x1518 ''82576 ?'' ''82576NS SerDes Gigabit Network Connection'',
     dev_entry 0x8086 0x1521 ''I350'' ''i350 Gigabit Network Connection'',
     dev_entry 0x8086 0x1525 ''82567V-4'' ''Intel 82567V-4 Gigabit Network Connection'',
     dev_entry 0x8086 0x1526 ''82576'' ''Intel Gigabit ET2 Quad Port Server Adapter'',
     dev_entry 0x8086 0x1533 ''210'' ''Intel I210 Gigabit Network Connection'',
     dev_entry 0x8086 0x167D ''2200bg'' ''PCI Simple Communications Controller'',
     dev_entry 0x8086 0x1960 ''80960RP'' ''i960RP Microprocessor'',
     dev_entry 0x8086 0x1962 ''???'' ''Promise SuperTrak SX6000 IDE RAID Controller'',
     dev_entry 0x8086 0x1A12 ''???'' ''Eicon DIVA Server Voice PRI 2.0 (PCI)'',
     dev_entry 0x8086 0x1A13 ''???'' ''Eicon DIVA Server Voice PRI 2.0 (PCI)'',
     dev_entry 0x8086 0x1A20 ''82840'' '''',
     dev_entry 0x8086 0x1A21 ''82840'' ''Host-Hub Interface A Bridge / DRAM Ctrlr'',
     dev_entry 0x8086 0x1A22 ''82840'' ''Host to I/O Hub Bridge (Quad PCI)'',
     dev_entry 0x8086 0x1A23 ''82840'' ''AGP Bridge'',
     dev_entry 0x8086 0x1A24 ''82840'' ''Hub Interface B Bridge'',
     dev_entry 0x8086 0x1A30 ''82845G[GL/GV/GE/PE]'' ''Host-Hub Interface Bridge'',
     dev_entry 0x8086 0x1A31 ''82845[MP/MZ]'' ''AGP Bridge'',
     dev_entry 0x8086 0x1A38 ''5000P'' ''5000 Series Chipset DMA Engine'',
     dev_entry 0x8086 0x1c02 ''8086&dev_1c02'' ''sata ahci contoller'',
     dev_entry 0x8086 0x1c02 ''8086&dev_1c02'' ''Intel(R) Desktop/Workstation/Server Express Chipset SATA AHCI Controller'',
     dev_entry 0x8086 0x1C03 ''Intel(R) Mobile Express Chipset SATA AHCI Controll'' ''Intel(R) CPT Chipset Family 6 Port SATA AHCI Controller '',
     dev_entry 0x8086 0x1C22 ''win7 64-bit (tc40140300b.exe)'' ''Intel(R) 6 Series/C200 Series Chipset Family SMBus Controller'',
     dev_entry 0x8086 0x1C26 ''HM65'' ''USB Enhanced Host Controller'',
     dev_entry 0x8086 0x1c3a ''161C103C'' ''Intel Management Engine Interface'',
     dev_entry 0x8086 0x1C3b ''111'' ''Series Chipset Family HECI Controller #2'',
     dev_entry 0x8086 0x1C3D ''Intel(R) 6 Series Series Chipset Family'' ''Intel(R) Active Management Technology - SOL'',
     dev_entry 0x8086 0x1C49 ''FCD01179'' ''04'']"

definition PciDevTable_7 :: "PCI_DEVTABLE list" where
  "PciDevTable_7 = [
     dev_entry 0x8086 0x1D3A ''X79 series chipset HECI Controller'' ''X79/C600 series chipset Management Engine Interface'',
     dev_entry 0x8086 0x1e00 ''Intel H77 Express Chipset'' ''2 ports IDE Controller'',
     dev_entry 0x8086 0x1e08 ''Intel H77 Express Chipset'' ''2 ports IDE Controller'',
     dev_entry 0x8086 0x1E12 ''c4'' ''rev'',
     dev_entry 0x8086 0x1E22 ''Intel(R) 7 SeriesC216 Chipset Family SMBus Host Co'' ''SM-Bus Controller of the Intel Z77 Chipset'',
     dev_entry 0x8086 0x1e31 ''Intel USB 3.0 eXtensible Host Controller'' ''Intel USB 3.0'',
     dev_entry 0x8086 0x1E3A (''PCI'' @ [CHR 0x5C] @ ''VEN_8086&DEV_1E3A&SUBSYS_072D1025&REV_04'') ''Intel Management Engine Interface (MEI)'',
     dev_entry 0x8086 0x1E3A ''C216'' ''Intel 7 Series/C216'',
     dev_entry 0x8086 0x1E3D ''833810F7'' ''Intel(R) AMT LMS_SOL for AMT 8.xx'',
     dev_entry 0x8086 0x1E59 ''140889'' ''140889'',
     dev_entry 0x8086 0x2000 ''CA 95054'' ''505943621'',
     dev_entry 0x8086 0x2014 ''0x18C9'' ''Framegrabber'',
     dev_entry 0x8086 0x2048 ''Atheros L2'' ''Fast Ethernet 10/100 Base-T Controller'',
     dev_entry 0x8086 0x2124 ''27DA'' ''PRO/100 VE Network Connection'',
     dev_entry 0x8086 0x2125 ''82801AA'' ''AC97 Audio Controller. website to download - http://www.intel.com/design/chipsets/manuals/29802801.p'',
     dev_entry 0x8086 0x2222 ''82801'' ''Intel Management Interface'',
     dev_entry 0x8086 0x2255 ''810D1043'' (''02'' @ [CHR 0x5C] @ ''3''),
     dev_entry 0x8086 0x2406 ''82801 / ?'' ''AC97 Modem Controller / PCI Modem'',
     dev_entry 0x8086 0x2410 ''82801AA'' ''LPC Interface'',
     dev_entry 0x8086 0x2411 ''82801AA'' ''IDE Controller (UltraATA/66)'',
     dev_entry 0x8086 0x2412 ''82801AA'' ''USB Controller'',
     dev_entry 0x8086 0x2413 ''82801AA'' ''SMBus Controller'',
     dev_entry 0x8086 0x2415 ''Intel 82801DBM SM/BUS Controller 24C3'' (''Aureal (AD1881 SOUNDMAX) Placa M'' @ [CHR 0xC3, CHR 0xA3] @ ''e Asaki P3-141''),
     dev_entry 0x8086 0x2416 ''82801ER'' (''AC'' @ [CHR 0x27] @ ''97 Modem Controller''),
     dev_entry 0x8086 0x2418 ''82801AA'' ''Hub Interface-to-PCI Bridge    82801 PCI-2448 0x2448'',
     dev_entry 0x8086 0x2420 ''82801AB'' ''LPC Interface'',
     dev_entry 0x8086 0x2421 ''82801AB'' ''IDE Controller (UltraATA/33)'',
     dev_entry 0x8086 0x2422 ''82801AB'' ''USB Controller'',
     dev_entry 0x8086 0x2423 ''82801AB'' ''SMBus Controller'',
     dev_entry 0x8086 0x2425 ''82801BA'' ''Audio controler'',
     dev_entry 0x8086 0x2426 ''82801AB'' ''AC97 Modem Controller'',
     dev_entry 0x8086 0x2428 ''82801AB'' ''Hub Interface-to-PCI Bridge'',
     dev_entry 0x8086 0x2431 ''82810'' ''pci bus'',
     dev_entry 0x8086 0x2440 (''82801BA/BAM AC'' @ [CHR 0x27] @ ''97'') ''LPC Interface Bridge, ICH2'',
     dev_entry 0x8086 0x2441 ''82801BA'' ''IDE Controller (UltraATA/66)'',
     dev_entry 0x8086 0x2442 ''82801BA/BAM'' ''USB Controller, USB-A'',
     dev_entry 0x8086 0x2443 ''82801BA/BAM'' ''SMBus Controller'',
     dev_entry 0x8086 0x2444 ''82801BA/BAM'' ''USB Controller, USB-B'',
     dev_entry 0x8086 0x2445 ''Intel i945G/GZ'' ''AC97 Audio Controller'',
     dev_entry 0x8086 0x2446 ''82801BA/BAM'' ''AC97 Modem Controller'',
     dev_entry 0x8086 0x2448 ''82801BAM/CAM/DBM'' ''Hub Interface to PCI Bridge'',
     dev_entry 0x8086 0x2449 ''82559ER'' ''82559ER Integrated 10Base-T/100Base-TX Ethernet Controller'',
     dev_entry 0x8086 0x244A ''82801BAM'' ''IDE Controller'',
     dev_entry 0x8086 0x244B ''82801BA'' ''IDE Controller'',
     dev_entry 0x8086 0x244C ''82801BAM'' ''LPC Interface Bridge'',
     dev_entry 0x8086 0x244E ''82801DB'' ''Hub Interface to PCI Bridge'',
     dev_entry 0x8086 0x2450 ''82801E'' ''LPC Interface Bridge'',
     dev_entry 0x8086 0x2452 ''82801E'' ''USB Controller'',
     dev_entry 0x8086 0x2453 ''82801E'' ''SMBus Controller'',
     dev_entry 0x8086 0x2459 ''82801E'' ''LAN0 Controller'',
     dev_entry 0x8086 0x245B ''82801E'' ''IDE Controller'',
     dev_entry 0x8086 0x245D ''82801E'' ''Multimedia Audio Controller'',
     dev_entry 0x8086 0x245E ''82801E'' ''Hub Interface to PCI Bridge'',
     dev_entry 0x8086 0x2480 ''82801CA'' ''LPC Interface Bridge'',
     dev_entry 0x8086 0x2481 ''82801CA'' ''IDE Controller (UltraATA/66)'',
     dev_entry 0x8086 0x2482 ''82801CA/CAM'' ''USB Controller'',
     dev_entry 0x8086 0x2483 ''82801CA/CAM'' ''SMBus Controller'',
     dev_entry 0x8086 0x2484 ''82801CA/CAM'' ''USB Controller'',
     dev_entry 0x8086 0x2485 ''82801CA/CAM'' ''AC97 Audio Controller'',
     dev_entry 0x8086 0x2486 ''82801CA/CAM'' ''AC 97 Modem Controller'',
     dev_entry 0x8086 0x2487 ''82801CA/CAM'' ''USB Controller'',
     dev_entry 0x8086 0x248A ''82801CAM'' ''UltraATA IDE Controller'',
     dev_entry 0x8086 0x248B ''82801CA'' ''UltraATA/100 IDE Controller'',
     dev_entry 0x8086 0x248C ''82801CAM'' ''LPC Interface or ISA bridge: see Notes'',
     dev_entry 0x8086 0x248D ''82801??'' ''USB 2.0 EHCI Contoroller'',
     dev_entry 0x8086 0x24C0 ''82801DB/DBL'' ''LPC Interface Bridge'',
     dev_entry 0x8086 0x24C2 ''82801DB/DBL/DBM'' ''USB UHCI Controller #1'',
     dev_entry 0x8086 0x24C3 ''82801DB/DBL/DBM'' ''modem'',
     dev_entry 0x8086 0x24C4 ''82801DB/DBL/DBM'' ''USB UHCI Controller'',
     dev_entry 0x8086 0x24C5 ''82801DBM SoundMAXController (ICH4-M B0 step)'' ''Realtek AC97'',
     dev_entry 0x8086 0x24C6 ''82801 /8086'' ''AC97 Modem Controller / PCI Modem'',
     dev_entry 0x8086 0x24C7 ''82801DB/DBL/DBM'' ''USB UHCI Controller #3'',
     dev_entry 0x8086 0x24CA ''82801DBM'' ''IDE Controller (UltraATA/100)'',
     dev_entry 0x8086 0x24CB ''82801DB/DBL'' ''IDE Controller (UltraATA/100)'',
     dev_entry 0x8086 0x24CC ''82801DBM'' ''LPC Interface Bridge'',
     dev_entry 0x8086 0x24CD ''82801DB/DBL/DBM'' ''USB EHCI Controller'',
     dev_entry 0x8086 0x24D0 ''82801EB/ER'' ''LPC Interface Bridge'',
     dev_entry 0x8086 0x24D1 ''82801EB/ER'' ''SATA Controller'',
     dev_entry 0x8086 0x24D2 ''82801EB/ER'' ''USB UHCI Controller 1'',
     dev_entry 0x8086 0x24D3 ''82801EB/ER'' ''SMBus Controller'',
     dev_entry 0x8086 0x24D4 ''82801EB/ER'' ''USB UHCI Controller #2'',
     dev_entry 0x8086 0x24D5 ''ALC850'' (''Realtek AC'' @ [CHR 0x27] @ ''97 &#1047;&#1074;&#1091;&#1082;&#1086;&#1074;&#1086;&#1081; &#1057;&#1080;&#1089;&#1090;&''),
     dev_entry 0x8086 0x24D6 ''82801EB/ER'' ''Motorola SM56 Data Fax Modem'',
     dev_entry 0x8086 0x24D7 ''82801EB/ER'' ''USB UHCI Controller #3'',
     dev_entry 0x8086 0x24DB ''82801EB/ER'' ''EIDE Controller'',
     dev_entry 0x8086 0x24DC ''82801EB'' ''LPC Interface Controller'',
     dev_entry 0x8086 0x24DD ''82801EB/ER'' ''USB EHCI Controller'',
     dev_entry 0x8086 0x24DE ''82801EB/ER'' ''USB UHCI Controller #4'',
     dev_entry 0x8086 0x24DF ''82801ER'' ''SATA Controller (RAID)'',
     dev_entry 0x8086 0x2500 ''82820'' ''Host-Hub Interface Bridge / DRAM Ctrlr'',
     dev_entry 0x8086 0x2501 ''82820'' ''Host Bridge (MCH)'',
     dev_entry 0x8086 0x2502 ''82820'' '''',
     dev_entry 0x8086 0x2503 ''82820'' '''',
     dev_entry 0x8086 0x2504 ''82820'' '''',
     dev_entry 0x8086 0x250B ''82820'' ''Host Bridge (MCH)'',
     dev_entry 0x8086 0x250F ''82820'' ''AGP Bridge'',
     dev_entry 0x8086 0x2520 ''82805AA'' ''Memory Translator Hub (MTH)'',
     dev_entry 0x8086 0x2521 ''8280'' ''Audio Device on High Definition Audio Bus'',
     dev_entry 0x8086 0x2530 ''82850/E'' ''Host-Hub Interface Bridge(A2 step)'',
     dev_entry 0x8086 0x2531 ''82860'' ''Host-Hub Interface_A Bridge (DP mode)'',
     dev_entry 0x8086 0x2532 ''82850/850E/860'' ''AGP Bridge'',
     dev_entry 0x8086 0x2533 ''82860'' ''Hub Interface_B Bridge'',
     dev_entry 0x8086 0x2534 ''82860'' ''Hub Interface_C Bridge'',
     dev_entry 0x8086 0x2535 ''82860'' ''PCI Bridge'',
     dev_entry 0x8086 0x2536 ''82860'' ''PCI Bridge'',
     dev_entry 0x8086 0x2539 ''82860'' ''(Quad Processor mode)'',
     dev_entry 0x8086 0x2540 ''E7500'' ''Host-HI Bridge & DRAM Controller'',
     dev_entry 0x8086 0x2541 ''E7500/E7501'' ''DRAM Controller Error Reporting'',
     dev_entry 0x8086 0x2543 ''E7500/E7501'' ''HI_B Virtual PCI-to-PCI Bridge'',
     dev_entry 0x8086 0x2544 ''E7500/E7501'' ''HI_B PCI-to-PCI Bridge Error Reporting'',
     dev_entry 0x8086 0x2545 ''E7500/E7501'' ''HI_C Virtual PCI-to-PCI Bridge'',
     dev_entry 0x8086 0x2546 ''E7500/E7501'' ''HI_C PCI-to-PCI Bridge Error Reporting'',
     dev_entry 0x8086 0x2547 ''E7500/E7501'' ''HI_D Virtual PCI-to-PCI Bridge'',
     dev_entry 0x8086 0x2548 ''E7500/E7501'' ''HI_D PCI-to-PCI Bridge Error Reporting'',
     dev_entry 0x8086 0x254C ''E7501'' ''Host Controller'',
     dev_entry 0x8086 0x2550 ''E7505'' ''Host Controller'',
     dev_entry 0x8086 0x2551 ''25511014'' ''Host RAS Controller'',
     dev_entry 0x8086 0x2552 ''E7205/E7505'' ''PCI-to-AGP Bridge'',
     dev_entry 0x8086 0x2553 ''E7505'' ''Hub Interface_B PCI-to-PCI Bridge'',
     dev_entry 0x8086 0x2554 ''E7505'' ''Hub I/F_B PCI-to-PCI Bridge Error Report'',
     dev_entry 0x8086 0x255d ''E7205'' ''Host Controller'',
     dev_entry 0x8086 0x2560 ''82845G/GL/GV/GE/PE'' ''DRAM Controller / Host-Hub I/F Bridge'',
     dev_entry 0x8086 0x2561 ''82845G/GL/GV/GE/PE'' ''Host-to-AGP Bridge'',
     dev_entry 0x8086 0x2562 ''82845G'' ''Integrated Graphics Device'',
     dev_entry 0x8086 0x2562 ''82801FR'' ''SATA RAID CONTROLLER'',
     dev_entry 0x8086 0x2570 ''82865G/PE/P, 82848P'' ''DRAM Controller / Host-Hub Interface'',
     dev_entry 0x8086 0x2571 ''82865G/PE/P, 82848P'' ''PCI-to-AGP Bridge'',
     dev_entry 0x8086 0x2572 ''intel d865glc'' ''Integrated Graphics Device'',
     dev_entry 0x8086 0x2573 ''82865G/PE/P, 82848P'' ''PCI-to-CSA Bridge'',
     dev_entry 0x8086 0x2576 ''82865G/PE/P, 82848P'' ''Overflow Configuration'',
     dev_entry 0x8086 0x2578 ''82875P/E7210'' ''DRAM Controller / Host-Hub Interface'',
     dev_entry 0x8086 0x2579 ''82875P'' ''PCI-to-AGP Bridge'',
     dev_entry 0x8086 0x257A '''' '''',
     dev_entry 0x8086 0x257B ''82875P/E7210'' ''PCI to CSA Bridge'',
     dev_entry 0x8086 0x257E ''82875P/E7210'' ''Overflow Configuration'',
     dev_entry 0x8086 0x2580 ''915G/P/GV'' ''Host Bridge / DRAM Controller'']"

definition PciDevTable_8 :: "PCI_DEVTABLE list" where
  "PciDevTable_8 = [
     dev_entry 0x8086 0x2581 ''915G/P/GV, 925X/XE?'' ''Host-PCI Express Bridge'',
     dev_entry 0x8086 0x2582 ''142550'' ''82915g/gv/910gl Express Chipset Family'',
     dev_entry 0x8086 0x2582 ''82915g/gv/910gl Express Chipset Family'' ''82915g/gv/910gl Express Chipset Family'',
     dev_entry 0x8086 0x2584 ''82925X/XE'' ''Host Bridge / DRAM Controller'',
     dev_entry 0x8086 0x2585 '''' '''',
     dev_entry 0x8086 0x2588 ''E7221'' ''Host Bridge/DRAM Controller'',
     dev_entry 0x8086 0x2589 ''E7221'' ''PCI Express Bridge'',
     dev_entry 0x8086 0x258A ''E7221'' ''Internal Graphics'',
     dev_entry 0x8086 0x2590 ''915GM'' ''Mobile Intel(R) 915GM/PM/GMS/910GML Express Processor to DRAM Controller'',
     dev_entry 0x8086 0x2592 ''Intel 82852/82855 '' ''Graphic controller family'',
     dev_entry 0x8086 0x25A1 ''6300ESB'' ''LPC Interface Bridge'',
     dev_entry 0x8086 0x25A2 ''6300ESB'' ''PATA100 IDE Controller'',
     dev_entry 0x8086 0x25A3 ''6300ESB'' ''SATA Controller(IDE Mode)'',
     dev_entry 0x8086 0x25A4 ''6300ESB'' ''SMBus Controller'',
     dev_entry 0x8086 0x25A6 ''6300ESB'' (''AC'' @ [CHR 0x27] @ ''97 Audio Controller''),
     dev_entry 0x8086 0x25A7 ''6300ESB'' (''AC'' @ [CHR 0x27] @ ''97 Modem Controller''),
     dev_entry 0x8086 0x25A9 ''6300ESB'' ''USB 1.1 UHCI Controller #1'',
     dev_entry 0x8086 0x25AA ''6300ESB'' ''USB 1.1 UHCI Controller #2'',
     dev_entry 0x8086 0x25AB ''6300ESB'' ''Watchdog Timer'',
     dev_entry 0x8086 0x25AC ''6300ESB'' ''APIC1'',
     dev_entry 0x8086 0x25AD ''6300ESB'' ''USB 2.0 EHCI Controller'',
     dev_entry 0x8086 0x25AE ''6300ESB'' ''Hub Interface to PCI-X Bridge'',
     dev_entry 0x8086 0x25B0 ''6300ESB'' ''Serial ATA Controller (RAID mode)'',
     dev_entry 0x8086 0x2600 ''E8500'' ''Hub Interface 1.5'',
     dev_entry 0x8086 0x2601 ''E8500'' ''PCI Express Port D'',
     dev_entry 0x8086 0x2602 ''E8500'' ''PCI Express Port C0'',
     dev_entry 0x8086 0x2603 ''E8500'' ''PCI Express Port C1'',
     dev_entry 0x8086 0x2604 ''E8500'' ''PCI Express Port B0'',
     dev_entry 0x8086 0x2605 ''E8500'' ''PCI Express Port B1'',
     dev_entry 0x8086 0x2606 ''E8500'' ''PCI Express Port A0'',
     dev_entry 0x8086 0x2607 ''E8500'' ''PCI Express Port A1'',
     dev_entry 0x8086 0x2640 ''82801FB/FR'' ''LPC Interface Bridge'',
     dev_entry 0x8086 0x2641 ''82801FBM'' ''LPC Interface Bridge (ICH6-M)'',
     dev_entry 0x8086 0x2651 ''82801Fb'' ''SATA Controller'',
     dev_entry 0x8086 0x2652 ''82801FR'' ''SATA RAID Controller'',
     dev_entry 0x8086 0x2653 ''82801FBM'' ''SATA AHCI Controller'',
     dev_entry 0x8086 0x2658 ''82801FB/FR/FW/FRW'' ''USB UHCI Controller #1'',
     dev_entry 0x8086 0x2659 ''82801FB/FR/FW/FRW'' ''USB UHCI Controller #2'',
     dev_entry 0x8086 0x265A ''82801FB/FR/FW/FRW'' ''USB UHCI Controller #3'',
     dev_entry 0x8086 0x265B ''82801FB/FR/FW/FRW'' ''USB UHCI Controller #4'',
     dev_entry 0x8086 0x265C ''82801FB/FR/FW/FRW'' ''USB 2.0 EHCI Controller'',
     dev_entry 0x8086 0x266 (''VIA Technologies Vinyl AC'' @ [CHR 0x27] @ ''97 Codec Combo Driver (W'') ''VIA AC97 codec incorporated into VT82C686VT8251 SouthbridA/B, VT8231, VT8233/A/C, VT8235, VT8237/R'',
     dev_entry 0x8086 0x2660 ''82801FB/FR/FW/FRW'' ''PCI Express Port 1'',
     dev_entry 0x8086 0x2662 ''82801FB/FR/FW/FRW'' ''PCI Express Port 2'',
     dev_entry 0x8086 0x2664 ''82801FB'' ''PCI Express Port 3'',
     dev_entry 0x8086 0x2666 ''82801FB/FR/FW/FRW'' ''PCI Express Port 4'',
     dev_entry 0x8086 0x2668 ''11511583659'' ''82801FB (ICH6) High Definition Audio Controller'',
     dev_entry 0x8086 0x2669 ''2028026'' ''jkn '',
     dev_entry 0x8086 0x266A ''82801BA/CA'' ''SMBus Controller'',
     dev_entry 0x8086 0x266C ''82801FB/FR/FW/FRW'' ''LAN Controller'',
     dev_entry 0x8086 0x266D ''czc82809kr'' ''http://www.dell.com/support/drivers/us/en/19/DriverDetails/DriverFileFormats?DriverId=R104087&FileId'',
     dev_entry 0x8086 0x266E (''VIA Technologies Vinyl AC'' @ [CHR 0x27] @ ''97 Codec Combo Driver (W'') ''VIA AC97, VIA Vinyl (or Tremor) Audio VT1612A, VT1613, VT1616/B, VT1617/A, VT1618'',
     dev_entry 0x8086 0x266F ''82801FB/FBM/FW/FR/FRW'' ''PATA100 Controller - 266F'',
     dev_entry 0x8086 0x2670 ''631xESB/6321ESB/3100 '' ''LPC Interface Controller'',
     dev_entry 0x8086 0x2678 ''8280'' ''8280 (ICH6) High Defininition Audio Controller'',
     dev_entry 0x8086 0x2680 ''631x/632x ESB2&3100'' ''SATA Controller(IDE Mode)'',
     dev_entry 0x8086 0x2681 ''62089A2'' ''631xESB/632xESB SATA AHCI Controller'',
     dev_entry 0x8086 0x2682 ''ESB2'' ''Intel(R) ESB2 SATA RAID Controller'',
     dev_entry 0x8086 0x269B ''631xESB/6321ESB/3100'' ''SMBus Controller'',
     dev_entry 0x8086 0x269E ''631x/632x ESB2'' ''PATA100 IDE Controller'',
     dev_entry 0x8086 0x27 ''82801G '' ''ICH7 Family'',
     dev_entry 0x8086 0x2770 ''82945G/GZ/P/PL'' ''Host Bridge/DRAM Controller'',
     dev_entry 0x8086 0x2771 ''82945G/GZ/P/PL'' ''Host to PCI Express Bridge'',
     dev_entry 0x8086 0x2772 ''82945G/GZ'' (''Chipset Intel'' @ [CHR 0xC2, CHR 0xAE] @ '' 82945G Express ''),
     dev_entry 0x8086 0x2776 ''82945G'' ''INTEL(R) 82945G EXPRESS FAMILY'',
     dev_entry 0x8086 0x277C ''82975X'' ''Intel 975X Express Chipset'',
     dev_entry 0x8086 0x2780 ''82915G'' ''Graphics device'',
     dev_entry 0x8086 0x2782 ''82915G'' ''Graphics device: 82915G/GV/910GL Express Chipset Family'',
     dev_entry 0x8086 0x2792 ''038000'' ''Mobile Intel(R) 915GM/GMS/, 910GML Express Chipset Family'',
     dev_entry 0x8086 0x2794 ''945'' ''Mobile chipset'',
     dev_entry 0x8086 0x27A0 ''874079'' ''i945GM Express Chipset'',
     dev_entry 0x8086 0x27A1 ''Intel 82945PM Memory Controller'' ''Intel Corporation Mobile 945PM Express PCI Express Root Port'',
     dev_entry 0x8086 0x27A2 ''HPQ0006'' ''Mobile Intel(R) 945 Express Chipset Family'',
     dev_entry 0x8086 0x27A6 ''945GM'' ''Intel 945GM/950'',
     dev_entry 0x8086 0x27B8 ''945GL'' (''PCI'' @ [CHR 0x5C] @ ''VEN_8086&_27B8&SUBSYS_8179DEV1043&REV_01'' @ [CHR 0x5C] @ ''3&11583659&0&F8''),
     dev_entry 0x8086 0x27BC ''NM10'' ''NM10 Family LPC Interface Controller'',
     dev_entry 0x8086 0x27c0 ''82801GB/GR/GH'' ''82801 GB Serial ATA Storage Controllers'',
     dev_entry 0x8086 0x27C1 ''82801GB/GR/GH'' ''AHCI Controller'',
     dev_entry 0x8086 0x27c3 ''82801GR/GH'' ''Raid Controller'',
     dev_entry 0x8086 0x27c4 ''82801GBM/GHM'' ''SATA IDE Controller'',
     dev_entry 0x8086 0x27C5 ''82801GBM/GHM'' ''AHCI Controller'',
     dev_entry 0x8086 0x27C6 ''82801GHM'' ''Raid Controller'',
     dev_entry 0x8086 0x27c8 ''946'' ''USB UHCI Controller'',
     dev_entry 0x8086 0x27c9 ''USB UHCI Controller'' ''USB UHCI Controller'',
     dev_entry 0x8086 0x27CA ''-INTEL'' ''USB UHCI Controller'',
     dev_entry 0x8086 0x27CB '''' ''USB UHCI Controller'',
     dev_entry 0x8086 0x27CC ''82801G'' ''Intel(R) 82801G (ICH7 Family) USB2 Enhanced Host Controller'',
     dev_entry 0x8086 0x27D0 ''82801G'' ''Intel(R) 82801G (ICH7 Family) PCI Express Root Port'',
     dev_entry 0x8086 0x27D2 ''82801G'' ''Intel(R) 82801G (ICH7 Family) PCI Express Root Port'',
     dev_entry 0x8086 0x27d8 ''FF311179'' ''Realtek High Definition Audio Driver FF311179 thequetta.com'',
     dev_entry 0x8086 0x27D9 ''A62516F3'' ''IDT High Definition Audio Driver  '',
     dev_entry 0x8086 0x27DA ''82801G'' ''Intel[R] 82801G (ICH7 Family) C- 27DA'',
     dev_entry 0x8086 0x27DC ''336C1462'' (''Intel'' @ [CHR 0xC2, CHR 0xAE] @ '' PRO/100 VE Desktop Adapter''),
     dev_entry 0x8086 0x27DE ''RTL8100C'' ''AUDIO (ALC850) << Realtek '',
     dev_entry 0x8086 0x27df ''82801GB/GBM'' ''PATA100'',
     dev_entry 0x8086 0x2802 ''8086'' ''INTEL(R) HIGH DEFINITION AUDIO HDMI'',
     dev_entry 0x8086 0x2803 ''0111'' ''Intel(R) High Definition Audio HDMI Service'',
     dev_entry 0x8086 0x2804 ''80860101'' ''IntcDAudModel'',
     dev_entry 0x8086 0x2815 ''902D104D'' ''Intel(R) ICH8M LPC Interface Controller - 2815 Driver'',
     dev_entry 0x8086 0x2820 ''82801HB/HR/HH/HO'' ''SATA IDE Controller:4 port'',
     dev_entry 0x8086 0x2821 ''82821HR/HH/HO'' ''AHCI Controller'',
     dev_entry 0x8086 0x2822 ''82801HR/HH/HO&82801IR/IH/IO(AIE=0)/ICH10R'' ''Raid Controller'',
     dev_entry 0x8086 0x2824 ''82801HB'' ''ICH8 AHCI Controller'',
     dev_entry 0x8086 0x2825 ''82801IIH'' ''Intel Q35'',
     dev_entry 0x8086 0x2828 ''82801HBM/HEM'' ''SATA IDE Controller'',
     dev_entry 0x8086 0x2829 ''82801HBM'' ''AHCI Controller'',
     dev_entry 0x8086 0x282A ''ICH8M/9M/ICH10M/i5M'' ''Raid Controller'',
     dev_entry 0x8086 0x283A ''81EC1043 (?)'' ''ICH8 Enhanced USB2 Enhanced Host Controller'',
     dev_entry 0x8086 0x283E (''PCI'' @ [CHR 0x5C] @ ''VEN_8086&DEV_283E&SUBSYS_20A917AA&REV_03'' @ [CHR 0x5C] @ ''3&B1B'') ''SM Bus Controller'',
     dev_entry 0x8086 0x284 ''888'' ''Microsoft UAA bus for HD audio'',
     dev_entry 0x8086 0x284B ''888'' ''Microsoft UAA bus for HD audio'',
     dev_entry 0x8086 0x2850 ''82801HBM/HEM'' ''PATA Controller'',
     dev_entry 0x8086 0x2880 ''0000000'' ''Intel Display Audio'',
     dev_entry 0x8086 0x2888 ''Q945'' ''Q945'',
     dev_entry 0x8086 0x2914 ''ICH9D0'' ''LPC bridge of ICH9'',
     dev_entry 0x8086 0x2916 ''3'' ''PCI Simple Communications-Controller '',
     dev_entry 0x8086 0x2920 ''82801(IB)/IR/IH/IO'' ''SATA IDE Controller:4 port'',
     dev_entry 0x8086 0x2921 ''82801IR/IH/IO'' ''SATA IDE Controller:2 port1'',
     dev_entry 0x8086 0x2922 ''82801IR/IH/IO'' ''AHCI Controller'',
     dev_entry 0x8086 0x2923 ''82801IB'' ''ICH9 AHCI Controller'',
     dev_entry 0x8086 0x2925 ''82801IR/IH/IO(AIE=1)'' ''Raid Controller'',
     dev_entry 0x8086 0x2926 ''82801IR/IH/IO'' ''SATA IDE Controller:2 port2'',
     dev_entry 0x8086 0x2928 ''?(ICH9M Family)'' ''SATA IDE Controller:2port1'',
     dev_entry 0x8086 0x2929 ''ICH9M/ME'' ''ICH9M/ME AHCI Controller'',
     dev_entry 0x8086 0x292D ''?(ICH9M Family)'' ''SATA IDE Controller:2port2'',
     dev_entry 0x8086 0x292E ''?(ICH9M Family)'' ''SATA IDE Controller:1port2'',
     dev_entry 0x8086 0x2930 ''8086'' ''2930'']"

definition PciDevTable_9 :: "PCI_DEVTABLE list" where
  "PciDevTable_9 = [
     dev_entry 0x8086 0x2930 ''Intel ICH9 Family SMBus Controller'' ''Intel ICH9 Family SMBus Controller'',
     dev_entry 0x8086 0x2936 ''0x02141028'' ''Intel(R) ICH9 Family USB Univeral Host Controller'',
     dev_entry 0x8086 0x293E ''486486 '' ''82801IB/IR/IH (ICH9 Family) HD Audio Controller'',
     dev_entry 0x8086 0x293E ''486486'' ''82801IB/IR/IH (ICH9 Family) HD Audio Controller'',
     dev_entry 0x8086 0x294C ''82566DC-2'' ''Intel(R) 82566DC-2 Gigabit Network Connection'',
     dev_entry 0x8086 0x2972 ''82946GZ '' ''Onboard Video Device for 82946GZ chips'',
     dev_entry 0x8086 0x2986 ''265452'' ''Intel'',
     dev_entry 0x8086 0x2987 ''Q965/Q963'' ''Intel PCI Serial Port'',
     dev_entry 0x8086 0x2992 ''Q965/Q963'' ''Intel(R) Express Chipset video'',
     dev_entry 0x8086 0x2993 ''G965'' ''Intel(R) Express Chipset (Dell Version)'',
     dev_entry 0x8086 0x2994 ''2802103C'' ''intel management engine interface'',
     dev_entry 0x8086 0x2996 ''Q963/Q965'' ''IDE Controller'',
     dev_entry 0x8086 0x2997 ''Q965/Q963'' (''Intel'' @ [CHR 0xC2, CHR 0xAE] @ '' Active Management Technology (AMT) - SOL''),
     dev_entry 0x8086 0x29a0 ''?(82P965)'' ''Intel P965/G965 Processor to I/O Controller'',
     dev_entry 0x8086 0x29a1 ''?(82Q965, 82G965, 82P965)'' ''Intel P965/G965 PCI Express Root Port'',
     dev_entry 0x8086 0x29A2 ''Intel 82G965 Graphics and Memory Controller Hub (G'' ''Intel 82G965 Graphics and Memory Controller Hub (GMCH)'',
     dev_entry 0x8086 0x29A4 ''86881'' ''MRMgRH  <a href='',
     dev_entry 0x8086 0x29A6 ''G965'' ''IDE Controller'',
     dev_entry 0x8086 0x29B2 ''Q35'' ''Intel(R) Q35 Express Chipset Family'',
     dev_entry 0x8086 0x29B3 ''Q35'' ''Intel'',
     dev_entry 0x8086 0x29B4 ''Q35-Chipset'' ''Intel(R) Management Engine Interface (HECI)'',
     dev_entry 0x8086 0x29B6 ''Q35'' ''IDE Controller'',
     dev_entry 0x8086 0x29B7 ''Q35-Chipset'' ''Serial Over LAN'',
     dev_entry 0x8086 0x29C2 ''82G33'' ''Intel(R) G33 chipset GMA3100 video Driver'',
     dev_entry 0x8086 0x29C4 ''Intel DG33FB'' ''Intel ME: Management Engine Interface'',
     dev_entry 0x8086 0x29C6 ''G3x'' ''IDE Controller'',
     dev_entry 0x8086 0x29D4 ''281e103c'' ''Intel Management Interface'',
     dev_entry 0x8086 0x29D6 ''Q33'' ''IDE Controller'',
     dev_entry 0x8086 0x29E6 ''x48'' ''IDE Controller'',
     dev_entry 0x8086 0x29F6 ''32xx'' ''IDE Controller'',
     dev_entry 0x8086 0x2A02 ''02091028'' ''Intel GM965, Intel X3100'',
     dev_entry 0x8086 0x2A03 ''82Q965'' ''Intel GM'',
     dev_entry 0x8086 0x2A04 ''Q965/Q96'' ''Intel PCI communication controller-Intel Management Engine Interface update'',
     dev_entry 0x8086 0x2A06 ''965PM'' ''IDE Controller'',
     dev_entry 0x8086 0x2A07 ''Q965/Q963'' ''Intel PCI Serial Port'',
     dev_entry 0x8086 0x2A08 ''Q965 Chipset'' ''Intel(R) Extended Thermal Model MCH'',
     dev_entry 0x8086 0x2A12 ''965'' ''Mobile Intel(R) 965 Express Chipset Family'',
     dev_entry 0x8086 0x2A16 ''96xMG'' ''IDE Controller'',
     dev_entry 0x8086 0x2A42 ''Mobile Intel 4 Series Chipset Family'' ''Intel Mobile Graphic'',
     dev_entry 0x8086 0x2A43 ''Mobile Intel 4 Series Chipset Family'' ''Intel Mobile Graphic'',
     dev_entry 0x8086 0x2A44 ''Mobile 4 Series Chipset'' ''IC658'',
     dev_entry 0x8086 0x2A46 ''M4x'' ''IDE Controller'',
     dev_entry 0x8086 0x2a47 ''20EC17AA'' ''Active Management Technology - SOL'',
     dev_entry 0x8086 0x2A52 ''Cantiga'' ''IDE Controller'',
     dev_entry 0x8086 0x2E06 ''4x'' ''IDE Controller'',
     dev_entry 0x8086 0x2E12 ''-'' ''Intel Q45/Q43 Express Chipset'',
     dev_entry 0x8086 0x2e13 ''Intel Q43/Q45/G43/G45 (Eaglelake) Graphics Control'' ''Intel(R) 4 Series Internal Chipset'',
     dev_entry 0x8086 0x2E14 (''PCI'' @ [CHR 0x5C] @ ''VEN_8086&DEV_2E14'') ''Intel Management Engine Interface (HECI)'',
     dev_entry 0x8086 0x2E15 (''PCI'' @ [CHR 0x5C] @ ''VEN_8086&DEV_29C2&SUBSYS_29C28086&REV_10'' @ [CHR 0x5C] @ ''3&115'') ''Intel AMT LMS_SOL for AMT 5.xx'',
     dev_entry 0x8086 0x2E16 ''4x'' ''IDE Controller'',
     dev_entry 0x8086 0x2E17 ''CC_0700'' ''Intel AMT LMS_SOL for AMT 5.xx'',
     dev_entry 0x8086 0x2E24 (''PCI'' @ [CHR 0x5C] @ ''VEN_8086&DEV_27D8&SUBSYS_30AA103C&REV_01'' @ [CHR 0x5C] @ ''3&B1B'') ''Intel Management Engine Interface'',
     dev_entry 0x8086 0x2E26 ''4x'' ''IDE Controller'',
     dev_entry 0x8086 0x2e29 ''2e29'' ''Intel(R) 4 Series Chipset PCI Express Root Port - 2E29'',
     dev_entry 0x8086 0x2E32 (''PCI'' @ [CHR 0x5C] @ ''VEN_8086&DEV_2E32&SUBSYS_31031565&REV_03'') ''Intel G41 express graphics'',
     dev_entry 0x8086 0x2E33 ''G41TY EXPRESS CHIPSET'' ''ghaphics chipset g41TY'',
     dev_entry 0x8086 0x2E46 ''4x'' ''IDE Controller'',
     dev_entry 0x8086 0x2E96 ''4x'' ''IDE Controller'',
     dev_entry 0x8086 0x2f00 ''815B104D'' ''multimedia audio device (codec AC97) SoundMAX or VIA'',
     dev_entry 0x8086 0x3092 ''SRCU32'' ''I2O 1.5 RAID Controller'',
     dev_entry 0x8086 0x3200 ''31244'' ''PCI-X to Serial ATA Controller'',
     dev_entry 0x8086 0x3340 ''82855PM'' ''Host-Hub Interface Bridge'',
     dev_entry 0x8086 0x3341 ''82855PM'' ''AGP Bridge'',
     dev_entry 0x8086 0x3342 ''82855PM'' ''Power Management'',
     dev_entry 0x8086 0x3408 ''7500'' ''Intel 7500 Chipset PCIe Root Port'',
     dev_entry 0x8086 0x3409 ''7500'' ''Intel 7500 Chipset PCIe Root Port'',
     dev_entry 0x8086 0x340A ''7500'' ''Intel 7500 Chipset PCIe Root Port'',
     dev_entry 0x8086 0x340B ''7500'' ''Intel 7500 Chipset PCIe Root Port'',
     dev_entry 0x8086 0x340C ''7500'' ''Intel 7500 Chipset PCIe Root Port'',
     dev_entry 0x8086 0x340E ''7500'' ''Intel 7500 Chipset PCIe Root Port'',
     dev_entry 0x8086 0x3410 ''7500'' ''Intel 7500 Chipset PCIe Root Port'',
     dev_entry 0x8086 0x3423 (''The Intel'' @ [CHR 0xC2, CHR 0xAE] @ '' Server RAID Controller U2-1 (SRCU21) an'') ''SRCU21/SRCU31 Microsoft Windows* 2000 Memory Management Files'',
     dev_entry 0x8086 0x3464 ''22'' ''NTPNP_PCI0002'',
     dev_entry 0x8086 0x348D ''82541EI'' ''Gigabit Ethernet Controller'',
     dev_entry 0x8086 0x34c5 ''82801DBM SoundMAXController (ICH4-M B0 step)'' ''Realtek AC97 (NOT an intel)'',
     dev_entry 0x8086 0x3575 ''82830[MP]'' ''Host-Hub I/F Bridge / SDRAM Controller'',
     dev_entry 0x8086 0x3576 ''82830M/MP'' ''Host-AGP Bridge'',
     dev_entry 0x8086 0x3577 ''82830vm'' ''Integrated Graphics Device'',
     dev_entry 0x8086 0x3578 ''82830[MP]'' ''CPU to I/O Bridge'',
     dev_entry 0x8086 0x3579 ''82835'' ''SDRAM Controller / Host-hub Interface'',
     dev_entry 0x8086 0x357B ''82835'' ''Integrated Graphics Device'',
     dev_entry 0x8086 0x3580 ''852GM/GMV'' ''Host-Hub Interface Bridge'',
     dev_entry 0x8086 0x3581 ''82852GME/PM'' ''Virtual PCI to AGP Bridge'',
     dev_entry 0x8086 0x3582 ''852GM/GMV or 82852/82855 GM/GME'' ''Integrated Graphics Device'',
     dev_entry 0x8086 0x3584 ''852GM/GMV'' ''System Memory Controller'',
     dev_entry 0x8086 0x3585 ''852GM'' ''Configuration Process'',
     dev_entry 0x8086 0x3590 ''E7520'' ''Memory Controller Hub'',
     dev_entry 0x8086 0x3591 ''E7520'' ''Memory Controller Hub'',
     dev_entry 0x8086 0x3592 ''E7320'' ''Memory Controller Hub'',
     dev_entry 0x8086 0x3593 ''E7320'' ''MCH Error Reporting Registers'',
     dev_entry 0x8086 0x3594 ''E7520'' ''DMA Controller Registers'',
     dev_entry 0x8086 0x3595 ''E7525'' ''PCI Express Port A'',
     dev_entry 0x8086 0x3596 ''E7525'' ''PCI Express Port B'',
     dev_entry 0x8086 0x3597 ''E7525'' ''PCI Express Port B'',
     dev_entry 0x8086 0x3598 ''E7520'' ''PCI Express Port B1'',
     dev_entry 0x8086 0x3599 ''E7520'' ''PCI Express Port C'',
     dev_entry 0x8086 0x359A ''E7520'' ''PCI Express Port C1'',
     dev_entry 0x8086 0x359B ''E7525'' ''Extended Configuration Registers'',
     dev_entry 0x8086 0x359E ''E7525'' ''MCH Control Registers'',
     dev_entry 0x8086 0x360B (''PCI'' @ [CHR 0x5C] @ ''VEN_8086&DEV_1C3A&SUBSYS_04B01028&REV_04'' @ [CHR 0x5C] @ ''3&115'') ''intel simple communication controller'',
     dev_entry 0x8086 0x3A00 ''ICH10 Family'' ''ICH10 4 port SATA IDE Controller'',
     dev_entry 0x8086 0x3A02 ''82801JD'' ''ICH10D SATA Controller'',
     dev_entry 0x8086 0x3A03 ''ICH10'' ''ICH10 AHCI'',
     dev_entry 0x8086 0x3A05 ''82801JD'' ''ICH10D SATA Controller'',
     dev_entry 0x8086 0x3A06 ''ICH10 Family'' ''SATA2(2Port1)'',
     dev_entry 0x8086 0x3A14 ''82801JDO'' ''82801JDO ICH10DO'',
     dev_entry 0x8086 0x3A1A ''82801JD'' ''82801JD ICH10D'',
     dev_entry 0x8086 0x3A20 ''ICH10 Family'' '' SATA2(4Port2)'',
     dev_entry 0x8086 0x3A22 ''ICH10R'' ''AHCI Controller'',
     dev_entry 0x8086 0x3A23 ''ICH10'' ''ICH10 AHCI'',
     dev_entry 0x8086 0x3A26 ''ICH10 Family'' ''SATA2(2Port2)'',
     dev_entry 0x8086 0x3A30 ''50011458'' ''INTEL(R) ICH10 Family SMB controller '',
     dev_entry 0x8086 0x3A3E ''Microsoft UAA Bus Driver for High Definition Audio'' ''Microsoft UAA Bus Driver for High Definition Audio'',
     dev_entry 0x8086 0x3a60 ''ICH10'' ''SM-Bus Controller'',
     dev_entry 0x8086 0x3B00 ''Intel(R) 5 Series/3400 Series Chipset Family'' ''LPC Interface Controller'',
     dev_entry 0x8086 0x3B01 ''Intel(R) 5 Series/3400 Series Chipset Family'' ''LPC Interface Controller'',
     dev_entry 0x8086 0x3B02 ''Intel(R) 5 Series/3400 Series Chipset Family'' ''LPC Interface Controller'',
     dev_entry 0x8086 0x3B03 ''Intel(R) 5 Series/3400 Series Chipset Family'' ''LPC Interface Controller'',
     dev_entry 0x8086 0x3B06 ''Intel(R) 5 Series/3400 Series Chipset Family'' ''LPC Interface Controller'']"

definition PciDevTable_10 :: "PCI_DEVTABLE list" where
  "PciDevTable_10 = [
     dev_entry 0x8086 0x3B07 ''Intel(R) 5 Series/3400 Series Chipset Family'' ''LPC Interface Controller'',
     dev_entry 0x8086 0x3B08 ''Intel(R) 5 Series/3400 Series Chipset Family'' ''LPC Interface Controller'',
     dev_entry 0x8086 0x3B09 ''Intel(R) 5 Series/3400 Series Chipset Family'' ''LPC Interface Controller'',
     dev_entry 0x8086 0x3B0A ''Intel(R) 5 Series/3400 Series Chipset Family'' ''LPC Interface Controller'',
     dev_entry 0x8086 0x3B0B ''Intel(R) 5 Series/3400 Series Chipset Family'' ''LPC Interface Controller'',
     dev_entry 0x8086 0x3B0D ''Intel(R) 5 Series/3400 Series Chipset Family'' ''LPC Interface Controller'',
     dev_entry 0x8086 0x3B0F ''Intel(R) 5 Series/3400 Series Chipset Family'' ''LPC Interface Controller'',
     dev_entry 0x8086 0x3B12 ''Intel(R) 5 Series/3400 Series Chipset Family'' ''LPC Interface Controller'',
     dev_entry 0x8086 0x3B14 ''Intel(R) 5 Series/3400 Series Chipset Family'' ''LPC Interface Controller'',
     dev_entry 0x8086 0x3B16 ''Intel(R) 5 Series/3400 Series Chipset Family'' ''LPC Interface Controller'',
     dev_entry 0x8086 0x3B20 ''PCH (Ibex P'' ''SATA IDE 4-Port Desktop'',
     dev_entry 0x8086 0x3B21 ''PCH (Ibex Peak)'' ''SATA IDE 2-Port Desktop'',
     dev_entry 0x8086 0x3B22 ''PCH (Ibex Peak)'' ''SATA AHCI 6-Port Desktop'',
     dev_entry 0x8086 0x3B23 ''PCH (Ibex Peak)'' ''SATA AHCI 4-Port Desktop'',
     dev_entry 0x8086 0x3B24 ''PCH'' ''SATA Enhanced RAID'',
     dev_entry 0x8086 0x3B25 ''PCH'' ''SATA Raid Controller'',
     dev_entry 0x8086 0x3B26 ''PCH (Ibex Peak)'' ''SATA IDE 2-Port Secondary Desktop'',
     dev_entry 0x8086 0x3B28 ''PCH (Ibex Peak)'' ''SATA IDE 4-Port Mobile'',
     dev_entry 0x8086 0x3B29 ''PCH (Ibex Peak)'' ''SATA AHCI 4-Port Mobile'',
     dev_entry 0x8086 0x3B2B ''PCHM'' ''SATA Enhanced RAID'',
     dev_entry 0x8086 0x3B2C ''PCHM'' ''SATA Raid Controller'',
     dev_entry 0x8086 0x3B2D ''PCHM'' ''SATA IDE Controller:2 port'',
     dev_entry 0x8086 0x3B2E ''PCH (Ibex Peak)'' ''SATA IDE 4-Port Mobile'',
     dev_entry 0x8086 0x3B2F ''PCH (Ibex Peak)'' ''SATA AHCI 6-Port Mobile'',
     dev_entry 0x8086 0x3B30 ''Intel(R) 5 Series/&#1057;&#1077;&#1088;&#1080;&#11'' ''SMBus &#1050;&#1086;&#1085;&#1090;&#1088;&#1086;&#1083;&#1083;&#1077;&#1088;'',
     dev_entry 0x8086 0x3B32 ''Intel(R) Turbo Boost Technology Driver'' ''LPC Interface Controller'',
     dev_entry 0x8086 0x3b63 ''ff1e1179'' ''06'',
     dev_entry 0x8086 0x3B64 ''Intel  3B09'' ''Management Engine Driver'',
     dev_entry 0x8086 0x3b65 ''ff1e1179'' ''06'',
     dev_entry 0x8086 0x3B67 ''Vendor ID 0x8086 '' ''Intel(R) Active Management Technology - Serial Over LAN (SOL) '',
     dev_entry 0x8086 0x4000 ''Creatix'' ''V.90 HaM Modem'',
     dev_entry 0x8086 0x402f ''-'' ''Intel (R) 5400 Chipset QuickData Technology device - 402F'',
     dev_entry 0x8086 0x4220 ''Intel Pro/Wireless 2200BG'' ''Intel 54 MBit/s Notebook WLAN Card'',
     dev_entry 0x8086 0x4222 ''10208086'' ''Intel 3945ABG Wireless LAN controller'',
     dev_entry 0x8086 0x4223 ''2915ABG'' ''Intel (R) PRO/Wireless 2200BG Network Connection, (R) PRO/Wireless 2915ABG Network Connection'',
     dev_entry 0x8086 0x42231 ''2915ABG'' ''Intel (R) PRO/Wireless 2200BG Network Connection, (R) PRO/Wireless 2915ABG Network Connection'',
     dev_entry 0x8086 0x4224 ''Intel Pro Wireless 2915ABG'' ''802.11a/b/g WLan adapter'',
     dev_entry 0x8086 0x4227 ''3945ABG'' ''Intel(R) PRO/Wireless 3945ABG'',
     dev_entry 0x8086 0x4229 ''Intel 4965AGN'' (''Intel'' @ [CHR 0xC2, CHR 0xAE] @ '' Wireless WiFi Link 4965AGN(supporting 802.11a/b/g/Draft-N)''),
     dev_entry 0x8086 0x422B '' '' ''Intel(R) Centrino(R) Ultimate-N 6300 AGN'',
     dev_entry 0x8086 0x422C ''BCM4311KFBG'' ''Broadcom Wifi'',
     dev_entry 0x8086 0x422D ''Intel 4965AGN'' (''Intel'' @ [CHR 0xC2, CHR 0xAE] @ '' Wireless WiFi Link 4965AGN''),
     dev_entry 0x8086 0x4230 ''Intel 4965AGN'' (''Intel'' @ [CHR 0xC2, CHR 0xAE] @ '' Wireless WiFi Link 4965AGN''),
     dev_entry 0x8086 0x4232 (''Intel'' @ [CHR 0xC2, CHR 0xAE] @ '' WiFi Link 5100'') (''Carte Intel'' @ [CHR 0xC2, CHR 0xAE] @ '' WiFi Link 5100 AGN''),
     dev_entry 0x8086 0x4233 ''Intel 4965AGN'' (''Intel'' @ [CHR 0xC2, CHR 0xAE] @ '' Wireless WiFi Link 4965AGN''),
     dev_entry 0x8086 0x4235 ''5300AGN'' (''Intel'' @ [CHR 0xC2, CHR 0xAE] @ '' WiFi Link 5300 AGN''),
     dev_entry 0x8086 0x4236 ''5300AGN'' ''Intel(R) WiFi Link 5300 AGN'',
     dev_entry 0x8086 0x4237 ''27DA'' ''Intel (R) WiFi Link 5100 AGN'',
     dev_entry 0x8086 0x4238 ''6300'' ''Intel Centrino Ultimate-N 6300 AGN'',
     dev_entry 0x8086 0x4239 ''0x4239'' ''Intel(R) Centrino(R) Advanced-N 6200 AGN'',
     dev_entry 0x8086 0x423A ''5350AGN'' ''PRO/Wireless 5350 AGN [Echo Peak]'',
     dev_entry 0x8086 0x423C ''5150AGN'' ''WiMAX/WiFi Link 5150'',
     dev_entry 0x8086 0x4318 ''1370 (0280)'' ''Dell Wireless 1370 WLAN Mini-PCI Card'',
     dev_entry 0x8086 0x444E ''TurboMemory'' ''Intel TurboMemory'',
     dev_entry 0x8086 0x4813 ''1370 (0280)'' ''Dell Wireless 1370 WLAN Mini-PCI Card'',
     dev_entry 0x8086 0x4836 ''242121'' ''2425678'',
     dev_entry 0x8086 0x4888 ''3945'' ''intel 3945abg wireless lan controller'',
     dev_entry 0x8086 0x5001 ([CHR 0x5C] @ ''Device'' @ [CHR 0x5C] @ ''0000004c'') ''Modem - PPP'',
     dev_entry 0x8086 0x5005 ''PRO/DSL 2200'' ''Modem - PPPoA'',
     dev_entry 0x8086 0x5029 ''?(EP80579)'' ''AHCI Controller'',
     dev_entry 0x8086 0x502A ''Tolaoai'' ''SATA Controller'',
     dev_entry 0x8086 0x502B ''Tolapai'' ''SATA Controller'',
     dev_entry 0x8086 0x5200 ''NH82801GR'' ''PCI to PCI Bridge'',
     dev_entry 0x8086 0x5201 ''i960'' ''Network Controller'',
     dev_entry 0x8086 0x5309 ''80303'' ''I/O Processor Address Translation Unit'',
     dev_entry 0x8086 0x530D ''80312'' ''I/O Companion Unit Address Translation'',
     dev_entry 0x8086 0x6960 '''' ''EHCI 960 emulator'',
     dev_entry 0x8086 0x7000 ''82371SB'' ''PIIX3 PCI-to-ISA Bridge (Triton II)'',
     dev_entry 0x8086 0x7010 ''82371SB'' ''PIIX3 IDE Interface (Triton II)'',
     dev_entry 0x8086 0x7020 ''82371SB'' ''PIIX3 USB Host Controller (Triton II)'',
     dev_entry 0x8086 0x7030 ''82437VX'' ''System Controller'',
     dev_entry 0x8086 0x7051 ''PB 642365-003'' ''Intel Business Video Conferencing Card'',
     dev_entry 0x8086 0x7100 ''82439TX'' ''System Controller (MTXC), part of 430TX chipset'',
     dev_entry 0x8086 0x7110 ''82371AB/EB/MB'' ''PIIX4/4E/4M ISA Bridge'',
     dev_entry 0x8086 0x7111 ''82371AB/EB/MB'' ''PIIX4/4E/4M IDE Controller'',
     dev_entry 0x8086 0x7112 ''82371AB/EB/MB'' ''PIIX4/4E/4M USB Interface'',
     dev_entry 0x8086 0x7113 ''82371AB/EB/MB'' ''PIIX4/4E/4M Power Management Controller'',
     dev_entry 0x8086 0x7120 ''Intel(R) 82801IMB'' ''Host-Hub Interface Bridge / DRAM Ctrlr'',
     dev_entry 0x8086 0x7121 ''801F104'' ''Graphics Controller'',
     dev_entry 0x8086 0x7122 ''82810-DC100'' ''Host-Hub Interface Bridge / DRAM Ctrlr'',
     dev_entry 0x8086 0x7123 ''82810-DC100'' (''Intel'' @ [CHR 0xC3, CHR 0x82, CHR 0xC2, CHR 0xAE] @ '' 82810 Graphics Controller''),
     dev_entry 0x8086 0x7123 ''82810-DC100'' (''Intel'' @ [CHR 0xC3, CHR 0x82, CHR 0xC2, CHR 0xAE] @ '' 82810 Graphics Controller''),
     dev_entry 0x8086 0x7124 ''82810E'' ''Host-Hub Interface Bridge / DRAM Ctrlr'',
     dev_entry 0x8086 0x7125 ''82810E'' ''Intel Direct AGP 810Chipset '',
     dev_entry 0x8086 0x7126 ''82810-DC133'' ''Host Bridge and Memory Controller Hub'',
     dev_entry 0x8086 0x7127 ''82810-DC133'' ''Graphics Device (FSB 133 MHz)'',
     dev_entry 0x8086 0x7128 ''82810-M DC-100'' ''Host Bridge and Memory Controller Hub'',
     dev_entry 0x8086 0x712A ''82810-M DC-133'' ''Host Bridge and Memory Controller Hub'',
     dev_entry 0x8086 0x7180 ''rmc'' ''Host/PCI bridge in 440LX/EX AGP chipset'',
     dev_entry 0x8086 0x7181 ''82443 ex/lx'' ''AGP device in 440LX/EX AGP chipset'',
     dev_entry 0x8086 0x7182 ''440LX/EX'' ''intel'',
     dev_entry 0x8086 0x7190 ''82443BX/ZX'' ''440BX/ZX AGPset Host Bridge'',
     dev_entry 0x8086 0x7191 ''82443BX/ZX'' ''440BX/ZX AGPset PCI-to-PCI bridge'',
     dev_entry 0x8086 0x7192 ''82443BX/ZX'' ''440BX/ZX chipset Host-to-PCI Bridge'',
     dev_entry 0x8086 0x7194 ''82443MX'' (''AC'' @ [CHR 0x27] @ ''97 Audio device''),
     dev_entry 0x8086 0x7195 ''82443MX'' ''AC97 Audio Controller'',
     dev_entry 0x8086 0x7196 ''82440 - 443MX'' ''AC97 Modem Controller (Winmodem)'',
     dev_entry 0x8086 0x7198 ''82443MX'' ''PCI to ISA Bridge'',
     dev_entry 0x8086 0x7199 ''82443MX'' ''EIDE Controller'',
     dev_entry 0x8086 0x719A ''82443MX'' ''USB Universal Host Controller'',
     dev_entry 0x8086 0x719B ''82443MX'' ''Power Management Controller'',
     dev_entry 0x8086 0x71A0 ''82443GX'' ''Host-to-PCI Bridge'',
     dev_entry 0x8086 0x71A1 ''intel 82801 IB ICH9 '' ''fabricated by Intel '',
     dev_entry 0x8086 0x71A2 ''82443GX'' ''Host-to-PCI Bridge'',
     dev_entry 0x8086 0x7221 ''82810'' ''graphics device'',
     dev_entry 0x8086 0x7600 ''82372FB/82468GX'' ''LPC/FWH Interface'',
     dev_entry 0x8086 0x7601 ''82372FB/82468GX'' ''EIDE Controller'',
     dev_entry 0x8086 0x7602 ''82372FB/82468GX'' ''USB Host Controller'',
     dev_entry 0x8086 0x7603 ''82372FB/82468GX'' ''SM Bus Controller'',
     dev_entry 0x8086 0x7605 ''82372FB'' ''IEEE1394 OpenHCI Host Controller'',
     dev_entry 0x8086 0x7800 ''82740'' ''AGP Graphics Accelerator'',
     dev_entry 0x8086 0x803b ''0x104d'' ''0x81ef'',
     dev_entry 0x8086 0x8083 ''Intel PM45'' ''Intel Wireless WiFi Link 5100 ABGN 10/100/1000 Base T'',
     dev_entry 0x8086 0x8086 ''https://downloadcenter.intel.com/detail_desc.aspx?'' ''PCI-&#1050;&#1086;&#1085;&#1090;&#1088;&#1086;&#1083;&#1083;&#1077;&#1088; Simple Communications'',
     dev_entry 0x8086 0x80861 ''(0x2994)'' ''Intel(R) Management Engine Interface'',
     dev_entry 0x8086 0x8108 ''SCH US15WP'' ''Intel(R) Graphics Media Accelerator 500  http://downloadcenter.intel.com/Detail_Desc.aspx?lang=eng&D'',
     dev_entry 0x8086 0x811A ''Atom SCH'' ''Atom SCH PATA'',
     dev_entry 0x8086 0x8186 ''i dont know'' ''i dont know'',
     dev_entry 0x8086 0x82801 ''24D5'' ''Realtek AC97'',
     dev_entry 0x8086 0x84C4 ''82454KX/GX'' ''450KX/GX PCI Bridge (Orion)'']"

definition PciDevTable_11 :: "PCI_DEVTABLE list" where
  "PciDevTable_11 = [
     dev_entry 0x8086 0x84C5 ''82453KX/GX'' ''450KX/GX Memory Controller (Orion)'',
     dev_entry 0x8086 0x84CA ''82451NX'' ''450NX PCIset Memory & I/O Controller'',
     dev_entry 0x8086 0x84CB ''82454NX/82467GX'' ''PCI Expander Bridge'',
     dev_entry 0x8086 0x84E0 ''82461GX'' ''System Address controller'',
     dev_entry 0x8086 0x84E1 ''82462GX'' ''System Data Controller'',
     dev_entry 0x8086 0x84E2 ''82465GX'' ''Graphics Expander Bridge'',
     dev_entry 0x8086 0x84E3 ''82463GX'' ''Memory Address Controller'',
     dev_entry 0x8086 0x84E4 ''82464GX'' ''Memory Data Controller'',
     dev_entry 0x8086 0x84E6 ''82466GX'' ''Wide and fast PCI eXpander Bridge'',
     dev_entry 0x8086 0x84EA ''82460GX'' ''AGP Bridge (GXB function 1)'',
     dev_entry 0x8086 0x85A1 ''6300ESB'' ''LPC Bridge'',
     dev_entry 0x8086 0x85A2 ''6300ESB'' ''IDE Controller'',
     dev_entry 0x8086 0x85A3 ''6300ESB'' ''Serial ATA Controller'',
     dev_entry 0x8086 0x85A4 ''6300ESB'' ''SMBus Controller'',
     dev_entry 0x8086 0x85A6 ''6300ESB'' (''AC'' @ [CHR 0x27] @ ''97 Audio Controller''),
     dev_entry 0x8086 0x85A7 ''6300ESB'' (''AC'' @ [CHR 0x27] @ ''97 Modem Controller''),
     dev_entry 0x8086 0x85A9 ''6300ESB'' ''USB 1.1 UHCI Controller #1'',
     dev_entry 0x8086 0x85AA ''6300ESB'' ''USB 1.1 UHCI Controller #2'',
     dev_entry 0x8086 0x8C3A ''0x8C3A'' ''Intel(R) Management Engine Interface'',
     dev_entry 0x8086 0x9620 '''' ''I2O RAID PCI to PCI Bridge'',
     dev_entry 0x8086 0x9621 ''SRCU21'' ''I2O 1.5 RAID Controller'',
     dev_entry 0x8086 0x9622 ''SRCUxx'' ''I2O 1.5 RAID Controller'',
     dev_entry 0x8086 0x9641 ''SRCU31'' ''I2O 1.5 RAID Controller'',
     dev_entry 0x8086 0x96A1 ''SRCU31L'' ''I2O 1.5 RAID Controller'',
     dev_entry 0x8086 0x9779 ''0x2992'' ''0x2992'',
     dev_entry 0x8086 0x9874 ''AC97'' ''AUDIO CONTROLLER'',
     dev_entry 0x8086 0x9876 ''i845'' ''intel brokdale'',
     dev_entry 0x8086 0x9876 ''80860101'' ''IntcDAudModel'',
     dev_entry 0x8086 0x9877 ''1'' ''1'',
     dev_entry 0x8086 0x9888 (''HDAUDIO'' @ [CHR 0x5C] @ ''FUNC_01&VEN_8086&DEV_27d8&SUBSYS_80860101&'') (''HDAUDIO'' @ [CHR 0x5C] @ ''FUNC_01&VEN_8086&DEV_27d8&REV_1000''),
     dev_entry 0x8086 0x9998 ''42468068'' '' 02'',
     dev_entry 0x8086 0x9999 ''pci30b2103c'' ''Interface chip'',
     dev_entry 0x8086 0x9C22 (''PCI'' @ [CHR 0x5C] @ ''VEN_8086&DEV_9C22&SUBSYS_05EC1028&REV_04 '') ''Intel Chipset'',
     dev_entry 0x8086 0x9C3A (''PCI'' @ [CHR 0x5C] @ ''VEN_8086&DEV_9C3A&SUBSYS_90B6104D&REV_04'') ''Intel Management Engine Interface driver'',
     dev_entry 0x8086 0xA001 ''3150'' ''Intel Media Accelerator 3150'',
     dev_entry 0x8086 0xA002 ''GMA 3150'' (''Intel'' @ [CHR 0xC2, CHR 0xAE] @ '' Grafik-Media-Accelerator 3150 (Intel'' @ [CHR 0xC2, CHR 0xAE] @ '' GMA 3150)''),
     dev_entry 0x8086 0xA011 (''02'' @ [CHR 0x5C] @ ''3'') ''Intel(R) Graphics Media Accelerator 3150'',
     dev_entry 0x8086 0xA012 ''GMA3150'' (''Intel'' @ [CHR 0xC2, CHR 0xAE] @ '' Graphics Media Accelerator 3150''),
     dev_entry 0x8086 0xA011 (''02'' @ [CHR 0x5C] @ ''3'') ''3&33FD14CA&0&10'',
     dev_entry 0x8086 0xA012 ''0x0283E'' ''Intel(R) ICH8 Family SMBus Controller'',
     dev_entry 0x8086 0xB152 ''S21152BB'' ''PCI to PCI Bridge'',
     dev_entry 0x8086 0xB154 ''S21154AE/BE'' ''PCI to PCI Bridge'',
     dev_entry 0x8086 0xB555 ''21555'' ''Non-Transparent PCI-to-PCI Bridge'',
     dev_entry 0x8086 0xC50 ''fd'' ''sdf'',
     dev_entry 0x8086 0xE13A ''7600'' ''NXMOQSN00430812D49'',
     dev_entry 0x9004 0x0078 ''aic-7880x'' ''AHA-2940UW/CN'',
     dev_entry 0x9004 0x1078 ''AIC-7810C'' ''RAID Coprocessor'',
     dev_entry 0x9004 0x1135 ''0x0035'' ''Texas Instruments'',
     dev_entry 0x9004 0x1160 ''AIC-1160'' ''Fibre Channel Adapter'',
     dev_entry 0x9004 0x2178 ''AIC-7821'' ''SCSI Controller'',
     dev_entry 0x9004 0x3860 '''' ''AIC-2930U Ultra SCSI Ctrlr'',
     dev_entry 0x9004 0x3B78 ''AHA-4944W/4944UW'' ''QuadChannel Fast-Wide/Ultra-Wide Diff. SCSI Ctrlr'',
     dev_entry 0x9004 0x5075 ''AIC-755x'' ''SCSI Ctrlr'',
     dev_entry 0x9004 0x5078 ''AIC-7850P'' ''Fast/Wide SCSI Controller'',
     dev_entry 0x9004 0x5175 ''AIC-755x'' ''SCSI Ctrlr'',
     dev_entry 0x9004 0x5178 ''AIC-7850'' ''FAST-SCSI Ctrlr'',
     dev_entry 0x9004 0x5275 ''AIC-755x'' ''SCSI Ctrlr'',
     dev_entry 0x9004 0x5278 ''AIC-7850'' ''Fast SCSI Ctrlr'',
     dev_entry 0x9004 0x5375 ''AIC-755x'' ''SCSI Ctrlr'',
     dev_entry 0x9004 0x5378 ''AIC-7850'' ''Fast SCSI Ctrlr'',
     dev_entry 0x9004 0x5475 ''AIC-755x'' ''SCSI Ctrlr'',
     dev_entry 0x9004 0x5478 ''AIC-7850'' ''Fast SCSI Ctrlr'',
     dev_entry 0x9004 0x5575 ''AVA-2930'' ''SCSI Ctrlr'',
     dev_entry 0x9004 0x5578 ''AIC-7855'' ''Fast SCSI Ctrlr'',
     dev_entry 0x9004 0x5675 ''AIC-755x'' ''SCSI Ctrlr'',
     dev_entry 0x9004 0x5678 ''AIC-7856'' ''Fast SCSI Ctrlr'',
     dev_entry 0x9004 0x5775 ''AIC-755x'' ''SCSI Ctrlr'',
     dev_entry 0x9004 0x5778 ''AIC-7850'' ''Fast SCSI Ctrlr'',
     dev_entry 0x9004 0x5800 ''AIC-5800'' ''PCI-to-1394 Ctrlr'',
     dev_entry 0x9004 0x5900 ''ANA-5910/30/40'' ''ATM155 & 25 LAN Controller'',
     dev_entry 0x9004 0x5905 ''ANA-5910A/30A/40A'' ''ATM Adpater'',
     dev_entry 0x9004 0x6038 ''AHA-2930C'' ''Ultra SCSI Adpater (VAR)'',
     dev_entry 0x9004 0x6075 ''AIC-7560?'' ''CardBus Ultra SCSI Controller'',
     dev_entry 0x9004 0x6078 ''AIC-7860'' ''PCI SCSI Controller'',
     dev_entry 0x9004 0x6178 ''AIC-7861'' ''PCI SCSI Controller'',
     dev_entry 0x9004 0x6278 ''AIC-7860'' ''SCSI Ctrlr'',
     dev_entry 0x9004 0x6378 ''AIC-7860'' ''SCSI Ctrlr'',
     dev_entry 0x9004 0x6478 ''AIC-786x'' ''SCSI Ctrlr'',
     dev_entry 0x9004 0x6578 ''AIC-786x'' ''SCSI Ctrlr'',
     dev_entry 0x9004 0x6678 ''AIC-786x'' ''SCSI Ctrlr'',
     dev_entry 0x9004 0x6778 ''AIC-786x'' ''SCSI Ctrlr'',
     dev_entry 0x9004 0x6915 ''ANA620xx/69011A'' ''Fast Ethernet'',
     dev_entry 0x9004 0x7078 ''AIC-7870'' ''Fast and Wide SCSI Ctrlr'',
     dev_entry 0x9004 0x7178 ''AHA-2940/2940W'' ''Fast/Fast-Wide SCSI Ctrlr'',
     dev_entry 0x9004 0x7278 ''AHA-3940/3940W'' ''Multichannel Fast/Fast-Wide SCSI Ctrlr'',
     dev_entry 0x9004 0x7378 ''AHA-3985'' ''4-chan RAID SCSI Ctrlr'',
     dev_entry 0x9004 0x7478 ''AHA-2944'' ''SCSI Ctrlr'',
     dev_entry 0x9004 0x7578 ''AHA-3944/3944W'' ''Multichannel Fast/Fast-Wide Diff. SCSI Ctrlr'',
     dev_entry 0x9004 0x7678 ''AHA-4944W/4944UW'' ''QuadChannel Fast-Wide/Ultra-Wide Diff. SCSI Ctrlr'',
     dev_entry 0x9004 0x7778 ''AIC-787x'' ''SCSI Ctrlr'',
     dev_entry 0x9004 0x7810 ''aic 7810'' ''Memory control IC'',
     dev_entry 0x9004 0x7815 ''AIC-7515'' ''RAID + Memory Controller IC'',
     dev_entry 0x9004 0x7850 ''aic-7850'' ''Fast/Wide SCSI-2 Controller'',
     dev_entry 0x9004 0x7855 ''AHA-2930'' ''Single channel SCSI Host Adapter'',
     dev_entry 0x9004 0x7860 ''AIC-7860'' ''PCI SCSI Controller'',
     dev_entry 0x9004 0x7870 ''AIC-7870'' ''Fast/Wide SCSI-2 Controller'',
     dev_entry 0x9004 0x7871 ''aha 2940'' ''SCSI'',
     dev_entry 0x9004 0x7872 ''aha 3940'' ''Multiple SCSI channels'',
     dev_entry 0x9004 0x7873 ''aha 3985'' ''Multiple SCSI channels'',
     dev_entry 0x9004 0x7874 ''aha 2944'' ''Differential SCSI'',
     dev_entry 0x9004 0x7880 ''aic7880p'' ''Fast 20 SCSI'',
     dev_entry 0x9004 0x7890 ''AIC-7890'' ''SCSI controller'',
     dev_entry 0x9004 0x7891 ''AIC-789x'' ''SCSI controller'',
     dev_entry 0x9004 0x7892 ''AIC-789x'' ''SCSI controller'',
     dev_entry 0x9004 0x7893 ''AIC-789x'' ''SCSI controller'',
     dev_entry 0x9004 0x7894 ''AIC-789x'' ''SCSI controller'',
     dev_entry 0x9004 0x7895 ''AIC-7895'' ''Ultra-Wide SCSI Ctrlr on AHA-2940 AHA-394x'',
     dev_entry 0x9004 0x7896 ''AIC-789x'' ''SCSI controller'',
     dev_entry 0x9004 0x7897 ''AIC-789x'' ''SCSI controller'',
     dev_entry 0x9004 0x8078 ''AIC-7880P'' ''Ultra Wide SCSI'',
     dev_entry 0x9004 0x8178 ''AHA-2940U/2940UW'' ''Ultra/Ultra-Wide SCSI Ctrlr'',
     dev_entry 0x9004 0x8278 ''AHA-3940Uxx'' ''AHA-3940U/3940UW/3940UWD SCSI Ctrlr'',
     dev_entry 0x9004 0x8378 ''AIC-7883U'' ''SCSI Controller'',
     dev_entry 0x9004 0x8478 ''ADAPTEC 2940UW CN SCSI'' ''Ultra-Wide Diff. SCSI Ctrlr'',
     dev_entry 0x9004 0x8578 ''AHA-3944U/3944UWD'' ''Fast-Wide/Ultra-Wide Diff. SCSI Ctrlr'',
     dev_entry 0x9004 0x8678 ''AHA-4944UW'' ''QuadChannel Ultra-Wide Diff. SCSI Ctrlr'',
     dev_entry 0x9004 0x8778 ''AIC-788x'' ''Ultra-Wide SCSI Ctrlr'',
     dev_entry 0x9004 0x8878 ''AIC-7888?'' ''Ultra Wide SCSI Controller'',
     dev_entry 0x9004 0x8B78 ''ABA-1030'' ''AIC-7880P'',
     dev_entry 0x9004 0xEC78 ''AHA-4944W/4944UW'' ''QuadChannel Fast-Wide/Ultra-Wide Diff. SCSI Ctrlr'',
     dev_entry 0xD4D4 0x010F ''PMC-211'' ''PMC-211'',
     dev_entry 0xD4D4 0x0601 '''' ''PCI Mezzanine Card'',
     dev_entry 0xDEAF 0x9050 '''' ''PC Weasel PCI VGA Device'',
     dev_entry 0xDEAF 0x9051 '''' ''PC Weasel PCI Serial Comm. Device'',
     dev_entry 0xDEAF 0x9052 '''' ''PC Weasel PCI'',
     dev_entry 0xE159 0x0001 ''Ambient MD3200 A'' ''Yeastar TDM400'',
     dev_entry 0xE159 0x0002 '''' ''Sedlbauer Speed PCI'',
     dev_entry 0xE159 0x0600 ''Tiger 600'' ''PCI-to-PCI Bridge'',
     dev_entry 0xEDD8 0xA091 ''ARK1000PV'' ''Stingray GUI Accelerator'',
     dev_entry 0xEDD8 0xA099 ''ARK2000PV'' ''Stingray GUI Accelerator'',
     dev_entry 0xEDD8 0xA0A1 ''ARK2000MT'' ''Stingray 64'',
     dev_entry 0xEDD8 0xA0A9 ''ARK2000MI'' ''Quadro645 GUI Accelerator'',
     dev_entry 0xEDD8 0xA0B1 ''ARK2000MI+'' ''GUI Accelerator'',
     dev_entry 0x1519 0x0020 ''0123456789'' ''HSIC Device'',
     dev_entry 0x1519 0x2004 ''0x1'' ''PCI Interface bus'',
     dev_entry 0x151B 0x9080 ''me594v02100 combox'' ''combox cb 300a'',
     dev_entry 0x151D 0x9876 ''?'' ''?'',
     dev_entry 0x151F 0x0001 ''TOPIC FM-56PCI-TP'' ''TOPIC FM-56PCI-TP'',
     dev_entry 0x151F 0x0568 ''1.0.1.8'' ''56k Internal Data Fax Voice Modem'',
     dev_entry 0x1435 0x0531 ''DELETE'' ''DELETE'']"

definition PciDevTable_12 :: "PCI_DEVTABLE list" where
  "PciDevTable_12 = [
     dev_entry 0x1435 0x6020 ''SPM6020'' ''PCI-104 dspModule'',
     dev_entry 0x1435 0x6030 ''SPM6030'' ''PC/104-Plus dspModule'',
     dev_entry 0x1435 0x6420 ''SPM186420'' ''PC/104-Plus dspModule'',
     dev_entry 0x1435 0x6430 ''SPM176430'' ''PC/104-Plus dspModule'',
     dev_entry 0x1435 0x7520 ''DM7520'' ''PC/104-Plus dataModule'',
     dev_entry 0x1435 0x7540 ''SDM7540'' ''PC/104-Plus dataModule with SmartCal'',
     dev_entry 0x1523 0x8 ''MU9C8K64'' ''Content Addressable Memory'',
     dev_entry 0x1524 0x0751 ''08011558'' ''pci'',
     dev_entry 0x1524 0x0100 (''ACPI'' @ [CHR 0x5C] @ ''ENE0100'') ''ENE CIR Receiver'',
     dev_entry 0x1524 0x0510 ''1.4.5.0'' ''PCI Memory Card Reader Controller'',
     dev_entry 0x1524 0x0530 ''CB-712/714/810'' ''Memory Stick Card Reader'',
     dev_entry 0x1524 0x0550 ''CB-712/714/810'' ''Secure Digital Card Reader'',
     dev_entry 0x1524 0x0551 ''10C11734'' ''ven1524&dev_0551&SUBSYS_009F1025&REV_01'',
     dev_entry 0x1524 0x0555 ''10c11734'' ''ven1524&dev_0551&SUBSYS_009F1025&REV_01'',
     dev_entry 0x1524 0x0610 ''???'' ''PCI Smart Card Reader Controller'',
     dev_entry 0x1524 0x0730 ''0x0751'' ''CardBus Controller'',
     dev_entry 0x1524 0x100 ''ACPI/ENE0100'' ''ENE CIR Receiver'',
     dev_entry 0x1524 0x1025 ''1025123'' (''PCI'' @ [CHR 0x5C] @ ''VEN_127a&DEV_1025&SUBSYS_1025123A&REV_01'' @ [CHR 0x5C] @ ''4&1351887D&0&58F0''),
     dev_entry 0x1524 0x1211 ''CB-1211'' ''CardBus Controller'',
     dev_entry 0x1524 0x1225 ''CB-1225'' ''CardBus Controller'',
     dev_entry 0x1524 0x1410 ''CB-1420'' ''CardBus Controller'',
     dev_entry 0x1524 0x1411 ''CB-710/2/4/810'' ''pci device'',
     dev_entry 0x1524 0x1412 ''CB-712/714/810'' ''Cardbus Controller'',
     dev_entry 0x1524 0x1420 ''CB-1420'' ''CardBus Controller'',
     dev_entry 0x1524 0x1421 ''CB-720/2/4'' ''CardBus Controller'',
     dev_entry 0x1524 0x1422 ''CB-722/4'' ''CardBus Controller'',
     dev_entry 0x1524 0x510 ''1.4.5.0'' ''PCI Memory Card Reader Controller'',
     dev_entry 0x1524 0x551 ''10C11734'' ''ven1524&dev_0551&SUBSYS_009F1025&REV_01'',
     dev_entry 0x1524 0x9876 ''1941'' ''1941'',
     dev_entry 0x1524 0xFC10 ''card bus'' ''pci device'',
     dev_entry 0x152D 0x2329 ''2338'' ''J micron JM20329'',
     dev_entry 0x152E 0x2507 ''0'' ''0'',
     dev_entry 0x1538 0x0301 ''ARS106S'' ''Tekram DC200 PATA100 RAID Controller'',
     dev_entry 0x1538 0x0303 ''ARS0304S'' ''ARS0304S PATA133 RAID5'',
     dev_entry 0x153B 0x1115 ''ICE1712 Envy24'' ''IC Ensemble Inc ICE1712 Envy24 Multichannel Audio Controller'',
     dev_entry 0x153B 0x1143 ''SAA7134HL'' ''Philips Semiconductors SAA7134HL Multimedia Capture Device'',
     dev_entry 0x153B 0x6003 ''CS4614/22/24'' ''CrystalClear SoundFusion PCI Audio Accel'',
     dev_entry 0x153F 0xdead ''xx12345'' ''Not a chip ...'',
     dev_entry 0x1540 0x9524 ''saa7130'' ''PAL/SECAM TV card w/ FM1216ME MK3 tuner (+FM radio)'',
     dev_entry 0x1693 0x0212 ''PLX PCI9054'' ''EPONINE ESR-PCI Board'',
     dev_entry 0x1693 0x0213 ''Motorola MPC8245'' ''EPONINE MTM120 PCI Board'',
     dev_entry 0x170B 0x0100 ''NSP2000-SSL'' ''Crypto Aceletator'',
     dev_entry 0x1743 0x8139 ''ROL/F-100'' ''Fast Ethernet Adapter with ROL'',
     dev_entry 0x1522 0x0100 ''PBridge+'' ''PCI Interface Chip'',
     dev_entry 0x1543 0x1052 ''30201543'' ''Modem Intel 537EP (Chipset KAIOMY)'',
     dev_entry 0x1543 0x3052 ''30201543'' ''Modem Intel 537EP (Chipset KAIOMY)'',
     dev_entry 0x1543 0x3155 ''Infineon TPM Professional '' ''Modem Device on High Definition Audio Bus'',
     dev_entry 0x1555 0x0002 ''PLX PCI 9050'' ''Easylon PCI Bus Interface'',
     dev_entry 0x1549 0x80FF ''PCI-ISA-001'' ''PCI/ISA Bus Bridge'',
     dev_entry 0x154A 0x9016 ''AF9016'' ''USB DVB-T Device AF9015'',
     dev_entry 0x154A 0x9876 ''AF9015'' ''USB DVB-T Device  CE950081'',
     dev_entry 0x154B 0x3038 ''VT6212L'' ''USB'',
     dev_entry 0x1556 0x5555 ''001'' ''an cpci application'',
     dev_entry 0x1558 0x1558 '''' ''gtx 670mx GPU'',
     dev_entry 0x155E 0x0020 ''MFC3'' ''Multi Function Card Version 3'',
     dev_entry 0x1562 0x0001 ''LA-41x3'' ''Spectrum24 Wireless LAN PCI Card'',
     dev_entry 0x1562 0x0002 ''LA-5030'' ''Symbol Wireless Networker 802.11a/g CardBus'',
     dev_entry 0x1562 0x0003 ''LA-5033'' ''Symbol Wireless Networker 802.11a/g PCI'',
     dev_entry 0x156A 0x5000 ''NA'' ''Wideband Advanced Signal Processor'',
     dev_entry 0x156A 0x5100 ''NA'' ''High Data Rate Radio'',
     dev_entry 0x16CA 0x0001 ''Rocket Drive'' ''Solid State Disk'',
     dev_entry 0x1571 0xA001 ''TFF'' ''GHB'',
     dev_entry 0x1571 0xA002 ''CCSI PCI20-485D'' ''ARCnet'',
     dev_entry 0x1571 0xA003 ''CCSI PCI20-485X'' ''ARCnet'',
     dev_entry 0x1571 0xA004 ''CCSI PCI20-CXB'' ''ARCnet'',
     dev_entry 0x1571 0xA005 ''CCSI PCI20-CXS'' ''ARCnet'',
     dev_entry 0x1571 0xA006 ''CCSI PCI20-FOG-SMA'' ''ARCnet'',
     dev_entry 0x1571 0xA007 ''CCSI PCI20-FOG-ST'' ''ARCnet'',
     dev_entry 0x1571 0xA008 ''CCSI PCI20-TB5'' ''ARCnet'',
     dev_entry 0x1571 0xA009 ''CCSI PCI20-5-485'' ''5 Mbit ARCnet'',
     dev_entry 0x1571 0xA00A ''CCSI PCI20-5-485D'' ''5 Mbit ARCnet'',
     dev_entry 0x1571 0xA00B ''CCSI PCI20-5-485X'' ''5 Mbit ARCnet'',
     dev_entry 0x1571 0xA00C ''CCSI PIC20-5-FOG-ST'' ''5 Mbit ARCnet'',
     dev_entry 0x1571 0xA00D ''CCSI PCI20-5-FOG-SMA'' ''5 Mbit ARCnet'',
     dev_entry 0x1571 0xA00E ''COM200C22'' ''ARCNET'',
     dev_entry 0x1571 0xA201 ''CCSI PCI22-485'' ''10 Mbit ARCnet'',
     dev_entry 0x1571 0xA202 ''CCSI PCI22-485D'' ''10 Mbit ARCnet'',
     dev_entry 0x1571 0xA203 ''CCSI PCI22-485X'' ''10 Mbit ARCnet'',
     dev_entry 0x1571 0xA204 ''CCSI PCI22-CHB'' ''10 Mbit ARCnet'',
     dev_entry 0x1571 0xA205 ''CCSI PCI22-FOG-ST'' ''10 Mbit ARCnet'',
     dev_entry 0x1571 0xA206 ''CCSI PCI22-THB'' ''10 Mbit ARCnet'',
     dev_entry 0x173B 0x03E8 ''AC1000'' ''Gigabit Ethernet Adapter'',
     dev_entry 0x173B 0x03EA ''AC1002'' ''Gigabit Ethernet Adapter'',
     dev_entry 0x1584 0x5054 ''VAS5055'' ''VAS Vetronix Automotive Service'',
     dev_entry 0x1584 0xfa3 ''VAS5052'' ''VAS Vetronix Automotive Service'',
     dev_entry 0x1586 0x0803 '''' '''',
     dev_entry 0x1588 0x1100 ''PAX.port 1100'' ''PAX.ware 1100 dual Gb classifier engine'',
     dev_entry 0x1588 0x2000 (''AMD '' @ [CHR 0x27] @ ''971'') ''SNP 8023 packet classifier - AMD component'',
     dev_entry 0x1588 0x8023 ''SNP8023'' ''PAX.ware 100 packet classifier'',
     dev_entry 0x158B 0x0005 ''HLF-VMPEU560-C'' ''Standar HSP Modem'',
     dev_entry 0x158B 0x0015 ''HLF-VMPEU560-C'' ''Standar HSP Modem Series'',
     dev_entry 0x17AA 0x7145 ''1002'' ''Mobility ATI Radeon X1400'',
     dev_entry 0x15A2 0x0001 ''TA700'' ''PCI Bus Analyzer/Exerciser'',
     dev_entry 0x17AF 0x4150 ''200'' ''HIS Excalibur Radeon 9600'',
     dev_entry 0x17AF 0x7291 ''RV560'' ''HIS  Radeon X1650 XT'',
     dev_entry 0x15B0 0x0001 ''FM-3986'' ''Pctel'',
     dev_entry 0x15B0 0x0003 ''FM-3986'' ''Pctel'',
     dev_entry 0x15B0 0x2BD0 ''2BD0'' ''soft56k voice,data,fax CARP'',
     dev_entry 0x15B3 0x5274 ''MT21108'' ''InfiniBridge'',
     dev_entry 0x15B3 0x5A44 ''MT23108'' ''InfiniHost I'',
     dev_entry 0x15B3 0x6274 ''MT25204'' ''InfiniHost III Lx'',
     dev_entry 0x15B3 0x6278 ''MT25208A0-FCC'' ''InfiniHost TM III Ex'',
     dev_entry 0x15B3 0x6282 ''MT25218'' ''MT25218 [InfiniHost III Ex]'',
     dev_entry 0x15B3 0x634A ''MT2518'' ''Mellanox ConnectX VPI (MT2548) - PCIe 2.0 2.5GT/s, IB DDR /10GigE Network Adaptor'',
     dev_entry 0x15B3 0x6732 ''MT26418'' ''ConnectX VPI (MT26418) - PCIe 2.0 5GT/s, IB DDR / 10GigE'',
     dev_entry 0x15B8 0x3009 ''xPCI-3504'' ''Analog output board'',
     dev_entry 0x15BC 0x0101 ''n2530a'' ''DX2+ FC-AL Adapter'',
     dev_entry 0x15BC 0x0103 ''QX4'' ''4 Port Fibre Channel Controller'',
     dev_entry 0x15BC 0x1200 ''n/a'' ''Agilent QX4 Fibre Channel Controller'',
     dev_entry 0x15BC 0x2530 ''???'' ''HP Communications Port'',
     dev_entry 0x15BC 0x2531 ''???'' ''HP Toptools Remote Control Adapter'',
     dev_entry 0x15BC 0x2532 ''???'' ''HP Toptools Remote Control Adapter'',
     dev_entry 0x15BC 0x2929 ''E2929A'' ''PCI/PCI-X Bus Analyzer'',
     dev_entry 0x15C2 0x0038 ''2.4G'' ''part of the iMon-IR-RC-Display-Kit'',
     dev_entry 0x1394 0x0001 ''0x1394'' ''Gigabit Ethernet Adapter'',
     dev_entry 0x15D1 0x0001 ''TC11IB'' ''TriCore 32-bit Single-chip Microctrlr'',
     dev_entry 0x15D1 0x0003 ''PEB 20544 E v1.1'' ''6 Port Optimized Comm Ctrlr (SPOCC)'',
     dev_entry 0x15D1 0x0004 ''PNPA000'' ''Infineon Technologies AG'',
     dev_entry 0x15D1 0x000B ''SLB9635'' ''TPM'',
     dev_entry 0x15D8 0x9001 '''' '''',
     dev_entry 0x15D9 0x9876 ''1234'' ''4567'',
     dev_entry 0x15DD 0x7664 ''vgn-ar51j'' ''idt high audio'',
     dev_entry 0x15DD 0x7680 ''2772'' ''SIGMATEL STAC 92XX C-Major HD Audio'',
     dev_entry 0x15DD 0x769 ''7690'' (''9200 HD '' @ [CHR 0xC3, CHR 0x90, CHR 0xC2, CHR 0x90, CHR 0xC3, CHR 0x91, CHR 0xC6, CHR 0x92, CHR 0xC3, CHR 0x90, CHR 0xC2, CHR 0xB4, CHR 0xC3, CHR 0x90, CHR 0xC2, CHR 0xB8, CHR 0xC3, CHR 0x90, CHR 0xC2, CHR 0xBE] @ '' '' @ [CHR 0xC3, CHR 0x90, CHR 0xC5, CHR 0xA1, CHR 0xC3, CHR 0x90, CHR 0xC5, CHR 0xBE, CHR 0xC3, CHR 0x90, CHR 0xE2, CHR 0x80, CHR 0x9D, CHR 0xC3, CHR 0x90, CHR 0xE2, CHR 0x80, CHR 0xA2, CHR 0xC3, CHR 0x90, CHR 0xC5, CHR 0xA1]),
     dev_entry 0x15DD 0x7690 ''10F70000'' (''You'' @ [CHR 0x27] @ ''ll Love me 4 this/ visit http://wendhelofopportunity.info Support Me!''),
     dev_entry 0x15DD 0x8384 (''HDAUDIO'' @ [CHR 0x5C] @ ''FUNC_01&VEN_8384&DEV_7616&SUBSYS_1028020A&'') ''Intel Audio Studio'',
     dev_entry 0x15DD 0x9876 ''1'' ''1'',
     dev_entry 0x15E0 0x7134 ''01385168'' ''01'',
     dev_entry 0x15E2 0x0500 '''' ''Internet PhoneJack PCI Card'',
     dev_entry 0xEACE 0x24C5 ''1'' ''VIA Vynil v700b'',
     dev_entry 0xEACE 0x3100 ''DAG 3.10'' ''OC-3/OC-12'',
     dev_entry 0xEACE 0x3200 ''DAG 3.2x'' ''OC-3/OC-12'',
     dev_entry 0xEACE 0x320E ''DAG 3.2E'' ''Fast Ethernet'',
     dev_entry 0xEACE 0x340E ''DAG 3.4E'' ''Fast Ethernet'',
     dev_entry 0xEACE 0x341E ''DAG 3.41E'' ''Fast Ethernet'',
     dev_entry 0xEACE 0x3500 ''DAG 3.5'' ''OC-3/OC-12'']"

definition PciDevTable_13 :: "PCI_DEVTABLE list" where
  "PciDevTable_13 = [
     dev_entry 0xEACE 0x351C ''DAG 3.5ECM'' ''Fast Ethernet'',
     dev_entry 0xEACE 0x4100 ''DAG 4.10'' ''OC-48'',
     dev_entry 0xEACE 0x4110 ''DAG 4.11'' ''OC-48'',
     dev_entry 0xEACE 0x4200 ''DAG 4.2'' ''OC-48'',
     dev_entry 0xEACE 0x420E ''DAG 4.2E'' ''Dual Gigabit Ethernet'',
     dev_entry 0xEACE 0x430e ''DAG 4.3E'' ''Dual Gigabit Ethernet'',
     dev_entry 0x15E6 0x00000002 ''1646t00'' ''v.90 Lucent Modem'',
     dev_entry 0x15E7 0x755 ''QUAD-P'' ''NTDS Parallel Adapter'',
     dev_entry 0x15E8 0x0130 ''NCP130'' ''Wireless NIC'',
     dev_entry 0x15E8 0x0131 ''Prism II'' ''InstantWave HR PCI card'',
     dev_entry 0x15E9 0x1841 ''NetStaQ ADMA-100'' ''ATA controller'',
     dev_entry 0x15EF 0x0028 ''8280BDM SoundMAX Controller (ICH7-M B0 Setup)'' ''SigmaTelHigh Definition Audio CODEC'',
     dev_entry 0x15EF 0x24c5 ''8280BDM SoundMAX Controller (ICH4-M B0 Setup)'' ''VIA-Vynil v700b'',
     dev_entry 0x15EF 0x7616 ''102801F7'' ''SigmaTelHigh Definition Audio CODEC'',
     dev_entry 0x15F1 0x2F30 ''CX11252-15'' ''Conexant HSFi'',
     dev_entry 0x15F2 0x0001 ''Spot RT'' ''Spot RT Interface Board'',
     dev_entry 0x15F2 0x0002 ''Spot RT #2'' ''Spot RT Interface Board'',
     dev_entry 0x15F2 0x0003 ''Spot Insight'' ''Spot Insight Interface Board'',
     dev_entry 0x160A 0x3184 ''6656'' ''Via VT6656 Wireless Lan Adapter'',
     dev_entry 0x1616 0x0409 ''DaqBoard/2000'' ''16-Bit, 200-kHz PCI Data Acquisition DaqBoards with DBK Signal Conditioning Support '',
     dev_entry 0x1619 0x0400 ''FarSync T2P'' ''Two Port Intelligent Sync Comms Card'',
     dev_entry 0x1619 0x0440 ''FarSync T4P'' ''Four Port Intelligent Sync Comms Card'',
     dev_entry 0x1619 0x0610 ''FarSync T1U'' ''One Port Intelligent Sync Comms Card'',
     dev_entry 0x1619 0x0620 ''FarSync T2U'' ''Two Port Intelligent Sync Comms Card'',
     dev_entry 0x1619 0x0640 ''FarSync T4U'' ''Four Port Intelligent Sync Comms Card'',
     dev_entry 0x1619 0x1610 ''FarSync TE1'' ''One Port Intelligent Sync Comms Card'',
     dev_entry 0x1619 0x1612 ''FarSync TE1e (PCI Express)'' ''One Port Intelligent Sync Comms Card'',
     dev_entry 0x1619 0x2610 ''FarSync DSL-S1'' ''G.SHDSL Intelligent Sync Comms Card'',
     dev_entry 0x1619 0x3640 ''FarSync T4E'' ''Four Port Intelligent Sync Comms Card'',
     dev_entry 0x1619 0x4620 ''FarSync T2Ue (PCI Express)'' ''Two Port Intelligent Sync Comms Card'',
     dev_entry 0x1619 0x4640 ''FarSync T4Ue (PCI Express)'' ''Four Port Intelligent Sync Comms Card'',
     dev_entry 0x1619 0x5621 ''FarSync T2Ee (PCI Express)'' ''Two Port Intelligent Sync Comms Card'',
     dev_entry 0x1619 0x5641 ''FarSync T4Ee (PCI Express)'' ''Four Port Intelligent Sync Comms Card'',
     dev_entry 0x1619 0x6620 ''FarSync-T2U-PMC'' ''Two Port Intelligent Sync Comms Card'',
     dev_entry 0x1621 0x0020 ''LynxTWO-A'' ''4 in/4 out Professional Digital Audio Card'',
     dev_entry 0x1621 0x0021 ''LynxTWO-B'' ''2 in/6 out Professional Digital Audio Card'',
     dev_entry 0x1621 0x0022 ''LynxTWO-C'' ''6 in/2 out Professional Digital Audio Card'',
     dev_entry 0x1621 0x0023 ''Lynx L22'' ''2 in/2 out Professional Digital Audio Card'',
     dev_entry 0x1621 0x0024 ''Lynx AES16'' ''16 in/16 out AES/EBU Audio Card'',
     dev_entry 0x1621 0x0025 ''Lynx AES16-SRC'' ''16 in/16 out AES/EBU Audio Card w/SRC'',
     dev_entry 0x1629 0x1003 '''' ''Format Synchronizer v3.0'',
     dev_entry 0x1629 0x2002 '''' ''Fast Universal Data Output'',
     dev_entry 0x162D 0x0100 ''driver'' ''Repeographics controller'',
     dev_entry 0x162D 0x0101 '''' ''Reprographics Controller'',
     dev_entry 0x162D 0x0102 '''' ''Reprographics Controller'',
     dev_entry 0x162D 0x0103 '''' ''Reprographics Controller'',
     dev_entry 0x162F 0x1111 ''TS-PRL1'' ''General Purpose Relay Card'',
     dev_entry 0x162F 0x1112 ''TS-PMA'' ''Matrix Card'',
     dev_entry 0x1638 0x1100 ''WL11000P'' '' WL11000P'',
     dev_entry 0x163B 0x2416 ''Techwell - TW2804  Model - JSA-2416Drivers on this'' ''DVR Video Capture Card 16CH'',
     dev_entry 0x163C 0x3052 ''R6793-11'' ''RS56/HSP-PCI'',
     dev_entry 0x163C 0xFF02 ''82801 GB'' ''PCI Bridge - 244E'',
     dev_entry 0x1734 0x007a ''Rage XL'' ''ATI Rage XL (rev 27)'',
     dev_entry 0x1734 0x1011 ''AIC-7902W'' ''Adaptec AIC-7902 Dual Channel U320 SCSI'',
     dev_entry 0x1734 0x1012 ''CSB6'' ''Serverworks Southbridge with RAID/IDE (rev a0), OHCI USB (rev 05), GCLE-2 Host Bridge'',
     dev_entry 0x1734 0x1013 ''BCM5703'' ''Broadcom Corp. NetXtreme Gigabyte Ethernet'',
     dev_entry 0x1734 0x10b9 ''0x00541000'' ''SAS 3000 series, 8-port with 1068 -StorPort'',
     dev_entry 0x164F 0x0001 ''PLX 9054'' ''PCI interface chip'',
     dev_entry 0x164F 0x0002 ''PLX 9054'' ''PCI interaface chip'',
     dev_entry 0x1813 0x3059 ''VT8237'' ''AC97 Enhanced Audio Controller - the 8251 controller is different'',
     dev_entry 0x1813 0x4000 ''MD5628D-L-A'' ''intel V.92 HaM Modem'',
     dev_entry 0x1813 0x4100 ''Ambient MD8820'' ''Intel HaM V.92 Modem'',
     dev_entry 0x17D5 0x5831 ''X1'' ''Xframe 10GbE PCI-X Adapter'',
     dev_entry 0x17D5 0x5832 ''X2'' ''Xframe II 10GbE PCI-X 2.0 Adapter'',
     dev_entry 0x17D5 0x5833 ''X3'' ''E3100 PCI-Express 10Gb Ethernet Interface'',
     dev_entry 0xFA57 0x0001 ''PMC'' ''Pattern Matching Chip'',
     dev_entry 0x18CA 0x0020 ''Volari Z9s'' ''Volari Z series (Select GPU Graphic Drivers'',
     dev_entry 0x18CA 0x0040 ''Silicon Intgrated System'' ''Volari Family Z Series'',
     dev_entry 0x18C9 0x1011 ''Leonardo CL'' ''Video processor'',
     dev_entry 0x18C9 0x1012 ''Leonardo CL-P'' ''Video processor'',
     dev_entry 0x18C9 0x1013 ''Leonardo CL-DB'' ''Video processor'',
     dev_entry 0x18C9 0x1014 ''Leonardo CL-P-DB'' ''Video processor'',
     dev_entry 0x18C9 0x1015 ''Leonardo CL-DVR'' ''Video processor'',
     dev_entry 0x18C9 0x1016 ''Leonardo CL-DVR-DB'' ''Video processor'',
     dev_entry 0x18C9 0x2011 ''Picasso 2SQ'' ''Framegrabber'',
     dev_entry 0x18C9 0x2012 ''Picasso 3C/3Cpro'' ''Framegrabber'',
     dev_entry 0x18C9 0x2013 ''Picasso LS'' ''Framegrabber'',
     dev_entry 0x18C9 0x2014 ''Picasso CL'' ''Framegrabber'',
     dev_entry 0x18C9 0x2015 ''Picasso FI'' ''Framegrabber'',
     dev_entry 0x18C9 0x2016 ''Picasso SDI'' ''Framegrabber'',
     dev_entry 0x18C9 0x2017 ''Picasso DUO'' ''Framegrabber'',
     dev_entry 0x18C9 0x2021 ''Colory'' ''Framegrabber'',
     dev_entry 0x18C9 0x3011 ''Valentino'' ''Video Output Board'',
     dev_entry 0x1910 0x0001 ''SW5000-NCA'' ''Seaway Network Content Accelerator'',
     dev_entry 0x1360 0x0101 ''PCI32'' ''DCF77 Radio Clock'',
     dev_entry 0x1360 0x0102 ''PCI509'' ''DCF77 Radio Clock'',
     dev_entry 0x1360 0x0103 ''PCI510'' ''DCF77 Radio Clock'',
     dev_entry 0x1360 0x0104 ''PCI511'' ''DCF77 Radio Clock'',
     dev_entry 0x1360 0x0105 ''PEX511'' ''DCF77 Receiver'',
     dev_entry 0x1360 0x0106 ''PZF180PEX'' ''High Precision DCF77 Radio Clock'',
     dev_entry 0x1360 0x0201 ''GPS167PCI'' ''GPS Receiver'',
     dev_entry 0x1360 0x0202 ''GPS168PCI'' ''GPS Receiver'',
     dev_entry 0x1360 0x0203 ''GPS169PCI'' ''GPS Receiver'',
     dev_entry 0x1360 0x0204 ''GPS170PCI'' ''GPS Receiver'',
     dev_entry 0x1360 0x0205 ''GPS170PEX'' ''GPS Receiver'',
     dev_entry 0x1360 0x0206 ''GPS180PEX'' ''GPS receiver'',
     dev_entry 0x1360 0x0301 ''TCR510PCI'' ''IRIG Timecode Reader'',
     dev_entry 0x1360 0x0302 ''TCR167PCI'' ''IRIG Timecode Reader'',
     dev_entry 0x1360 0x0303 ''TCR511PCI'' ''IRIG Timecode Reader'',
     dev_entry 0x1360 0x0304 ''TCR511PEX'' ''IRIG Timecode Receiver'',
     dev_entry 0x1360 0x0305 ''TCR170PEX'' ''IRIG Timecode Reader'',
     dev_entry 0x1360 0x0306 ''TCR180PEX'' ''IRIG Timecode Reader'',
     dev_entry 0x1360 0x0501 ''PTP270PEX'' ''PTP/IEEE1588 Slave Card'',
     dev_entry 0x1360 0x0601 ''FRC511PEX'' ''Free Running Clock'',
     dev_entry 0x1725 0x7174 ''VSC7174'' ''VSC7174 PCI/PCI-X SATA Controller'',
     dev_entry 0x1753 0x1001 ''VP500'' ''VolumePro 500'',
     dev_entry 0x1753 0x1004 ''VP1000'' ''VolumePro 1000'',
     dev_entry 0x17CC 0x1978 ''net 2280'' ''usb 2.0 device controller'',
     dev_entry 0x17CC 0x2280 ''Net 2280'' ''USB 2.0 Device Controller'',
     dev_entry 0x14EA 0xAB06 ''XFNW-3603-T'' ''10/100 Fast Ethernet CardBus (RTL8139)'',
     dev_entry 0x12B9 0x00c2 ''00000005'' ''pci simple communication controller'',
     dev_entry 0x12B9 0x1006 ''5610'' ''5610 56K FaxModem WinModem'',
     dev_entry 0x12B9 0x1007 ''AD1807JS'' ''US Robotics 56K DATA FAX WINMODEM'',
     dev_entry 0x12B9 0x1008 ''USR5610B'' ''USR5610B (0005610-02) 56K Performance Pro Modem (PCI Internal)'',
     dev_entry 0x12B9 0x12b9 ''00000005'' ''psi simple communication controller'',
     dev_entry 0x12B9 0x3F0 ''3CP2977'' ''US Robotics 56K Fax PCI aka Model 0726, V.90 56K Internal Faxmodem'',
     dev_entry 0x1814 0x0001 ''...B742000'' (''...I don'' @ [CHR 0x27] @ ''t know''),
     dev_entry 0x1814 0x0101 ''2460  802.11b'' ''RT2460  802.11b Baseband/MAC integrated chip'',
     dev_entry 0x1814 0x0201 (''PCI'' @ [CHR 0x5C] @ ''VEN_1814&DEV_3090&SUBSYS_1451033'') ''Ralink Chipset 802.11b/g WLAN Card'',
     dev_entry 0x1814 0x0301 ''RT2561'' ''Ralink RT2561 Wireless-G PCI'',
     dev_entry 0x1814 0x0302 ''RT2525 2.4GHz transceiver + RT2560 MAC/BBP'' ''wireless p/n same Chipset in D-Link DWL-G510'',
     dev_entry 0x1814 0x0401 ''RT 2661'' ''Ralink MIMO RT 2661 Wireless 54 Mbps'',
     dev_entry 0x1814 0x0601 ''RT2860T'' ''b/g/n  Wlan'',
     dev_entry 0x1814 0x0701 ''RT2860T'' ''802.11 bgn'',
     dev_entry 0x1814 0x0781 ''RT2790T/RT2860/RT2890/RT2700E'' ''Wireless 802.11 bgn PCI-e'',
     dev_entry 0x1814 0x1418 ''0x14FI'' ''802.11b/g Wireless LAN'',
     dev_entry 0x1814 0x14F1 ''0x1814'' (''PCI'' @ [CHR 0x5C] @ ''VEN_168C&DEV_001A&SUBSYS_04181468&REV_01'' @ [CHR 0x5C] @ ''4&FCF0450&0&10A4''),
     dev_entry 0x1814 0x201 ''25601814&REV_01'' ''Ralink RT2500 Wireless Lan Card'']"

definition PciDevTable_14 :: "PCI_DEVTABLE list" where
  "PciDevTable_14 = [
     dev_entry 0x1814 0x3060 ''RT3060'' ''Ralink corp. RT3060 Wireless 802.11n PCI adapter'',
     dev_entry 0x1814 0x3090 ''Ralink RT3090'' ''Ralink RT3090 Wireless Lan Card with Bluetooth'',
     dev_entry 0x1814 0x3290 ''RT3290'' ''802.11n + Bluetooth 4.0'',
     dev_entry 0x1814 0x3298 ''-'' ''Ralink Bluetooth'',
     dev_entry 0x1814 0x3592 ''RT3592'' ''Wireless LAN a/b/g/n plus Bluetooth 3.0 combo'',
     dev_entry 0x1814 0x5360 ''RT5360 '' ''http://www.wikidevi.com/wiki/D-Link_DWA-525_rev_A2'',
     dev_entry 0x1814 0x5390 ''RT5390'' ''Ralink RT5390 802.11b/g/n WiFi'',
     dev_entry 0x1814 0x539B ''RT5390R'' ''Ralink RT5390R 802.11b/g/n WiFi'',
     dev_entry 0x1814 0x9876 ''b8341462'' ''Edimax 54 MBit WLan 802.11g rt 2500'',
     dev_entry 0x1103 0x0003 ''HPT 343/345/363'' ''EIDE Controller'',
     dev_entry 0x1103 0x0004 ''HPT366/368/370/370A/372'' ''ATA Raid Controller/ATA 100'',
     dev_entry 0x1103 0x0005 ''HPT372/372N'' ''PATA133 Raid Controller'',
     dev_entry 0x1103 0x0006 ''HPT302'' ''ATA Raid Controller'',
     dev_entry 0x1103 0x0007 ''HPT371'' ''ATA133 Controller'',
     dev_entry 0x1103 0x0008 ''HPT-374'' ''ATA Raid Controller'',
     dev_entry 0x1103 0x1720 ''RR172x'' ''RR172x SATA Controller'',
     dev_entry 0x1103 0x1740 ''RR174x'' ''RR174x SATA Controller'',
     dev_entry 0x1103 0x1742 ''RR174x'' ''RR174x SATA Controller'',
     dev_entry 0x1103 0x2210 ''RR2210'' ''RR2210 SATA Controller'',
     dev_entry 0x1103 0x2300 ''RR2300'' ''RR2300 SATA Controller'',
     dev_entry 0x1103 0x2310 ''RR231x'' ''RR231x SATA Controller'',
     dev_entry 0x1103 0x2340 ''RR2340'' ''RR2340 SATA Controller'',
     dev_entry 0x1103 0x2522 ''RR252x'' ''RR252x SATA Controller'',
     dev_entry 0x1103 0x3120 ''RR312x'' ''RR312x SATA Controller'',
     dev_entry 0x1103 0x3220 ''RR322x'' ''RR322x SATA Controller'',
     dev_entry 0x1103 0x3320 ''RR332x'' ''RR332x SATA Controller'',
     dev_entry 0x1103 0x3410 ''RR341x'' ''RR341x SATA Controller'',
     dev_entry 0x1103 0x3510 ''RR35xx'' ''RR35xx SATA Controller'',
     dev_entry 0x1103 0x3511 ''RR35xx'' ''RR35xx SATA Controller'',
     dev_entry 0x1103 0x3520 ''RR35xx'' ''RR35xx SATA Controller'',
     dev_entry 0x1103 0x3521 ''RR35xx'' ''RR35xx SATA Controller'',
     dev_entry 0x1103 0x3522 ''RR35xx'' ''RR35xx SATA Controller'',
     dev_entry 0x1103 0x3530 ''RR3530'' ''RR3530 SATA RAID Controller'',
     dev_entry 0x1103 0x3540 ''RR35xx'' ''RR35xx SATA Controller'',
     dev_entry 0x1103 0x4320 ''RR432x'' ''RR432x SATA Controller'',
     dev_entry 0x1103 0x5081 ''RR18xx'' ''RR18xx SATA Controller'',
     dev_entry 0x1103 0x6081 ''RR222x/224x'' ''RR222x/224x SATA Controller'',
     dev_entry 0x1103 0x7042 ''RR231x'' ''RR231x SATA Controller'',
     dev_entry 0x1681 0x0050 ''HWGPCI-54'' ''Hercules WiFi PCI 802.11G'',
     dev_entry 0x18F7 0x0001 ''ESCC-PCI-335'' ''Fastcom:ESCC-PCI-335 Syncronous RS422/485 serial communication adapter'',
     dev_entry 0x18F7 0x0002 ''422/4-PCI-335'' ''Fastcom:422/4-PCI-335 Asyncronous RS422/485 serial adapter'',
     dev_entry 0x18F7 0x0004 ''422/2-PCI-335'' ''Fastcom:422/2-PCI-335 Asyncronous RS422/485 serial adapter'',
     dev_entry 0x18F7 0x000a ''232/4-PCI-335'' ''Fastcom:232/4-PCI-335 Asyncronous RS232 serial adapter'',
     dev_entry 0x1737 0x0071 ''RT2870'' ''Dual Band Wireless N USB Network Adapter'',
     dev_entry 0x1737 0x1032 ''EG1032 v3'' ''Linksys Instant Gigabit Desktop Network Interface'',
     dev_entry 0x19AC 0x0001 ''ACA2400'' ''Crypto Accelerator'',
     dev_entry 0x110A 0x2101 ''PEB 20321'' ''Multichannel Network Interface Controller for HDLC'',
     dev_entry 0x110A 0x2102 ''PEB 20534'' ''DMA supported serial communication controller with 4 channels'',
     dev_entry 0x110A 0x2104 ''PSB4610'' ''PCI Interface for Telephony/Data Applications PITA-2'',
     dev_entry 0x110A 0x3141 ''01'' ''PROFIBUS Communication Processor CP5611 A2'',
     dev_entry 0x110A 0x4033 ''ERTEC400'' ''EB400 ProfiNet Device-Kit'',
     dev_entry 0x110A 0x4036 ''XXX'' ''simens i/o control'',
     dev_entry 0x104B 0x1040 ''BA81C15'' ''BT958 SCSI Host Adaptor'',
     dev_entry 0x104B 0x8130 ''-'' ''Flashpoint LT'',
     dev_entry 0x1180 0x0475 ''RL5c592'' ''Cardbus Controller'',
     dev_entry 0x1180 0x0476 ''RL5c476 II'' ''RICOH SmartCard Reader'',
     dev_entry 0x1180 0x0478 ''RB5c478'' ''Cardbus Controller'',
     dev_entry 0x1180 0x0552 ''R5C552'' ''FireWire (IEEE 1394) Controller'',
     dev_entry 0x1180 0x0575 ''44192'' ''I11fXI  <a href='',
     dev_entry 0x1180 0x059 ''1'' ''1'',
     dev_entry 0x1180 0x0592 ''0843'' ''Ricoh R5C833 R5C8xx Memory Stick Controller'',
     dev_entry 0x1180 0x0822 ''R5C832'' ''SDA Standard Compliant SD Host Controller'',
     dev_entry 0x1180 0x0832 (''ACPI'' @ [CHR 0x5C] @ ''ENE0100'' @ [CHR 0x5C] @ ''4&15458EF3&0'') (''ACPI'' @ [CHR 0x5C] @ ''ENE0100'' @ [CHR 0x5C] @ ''4&15458EF3&0''),
     dev_entry 0x1180 0x0843 ''R5C853'' ''Ricoh SD Host Controller'',
     dev_entry 0x1180 0x0847 ''delete'' ''delete'',
     dev_entry 0x1180 0x0852 ''R5C852'' ''Ricoh xD-Picture Card Controller'',
     dev_entry 0x1180 0x1108 ''30CF'' ''Ricoh Memory Stick Host Controlle'',
     dev_entry 0x1180 0x2792 ''0x8086'' (''PCI'' @ [CHR 0x5C] @ ''VEN_8086&DEV_0083&SUBSYS_13058086&REV_00''),
     dev_entry 0x1180 0x5551 ''Unknown'' ''IEEE 1394 Controller'',
     dev_entry 0x1180 0x852 ''01cf1028 '' ''Ricoh xD-Picture Card Host Controller;0852h xd picture card controller'',
     dev_entry 0x1180 0x9876 ''CC_088000'' ''Ricoh Memory Stick Host Controlle'',
     dev_entry 0x1180 0xE2030 ''0592'' ''Ricoh PCIe Memory Stick Host Controller'',
     dev_entry 0x1180 0xE230 ''GM45 &#1053;&#1086;&#1084;&#1077;&#1088; &#1063;&#'' ''Ricoh PCIe Memory Stick &#1061;&#1086;&#1089;&#1090;-&#1050;&#1086;&#1085;&#1090;&#1088;&#1086;&#108'',
     dev_entry 0x1180 0xe476 ''Ricoh R5C843'' ''Multipurpose chip, this e476 seems to be the CardBus controller part'',
     dev_entry 0x1180 0xe822 ''R5U822'' ''Ricoh PCIe SD/MMC Host Controller'',
     dev_entry 0x1180 0xe823 ''R5U822'' ''Ricoh PCIe SDXC/MMC Host Controller'',
     dev_entry 0x1180 0xe832 ''R5U832'' ''Ricoh PCIe IEEE1394 Fireware Host Controller'',
     dev_entry 0x1180 0xE852 ''Uknown'' ''Ricoh PCIe xD-Picture Card Controller'',
     dev_entry 0x14F1 0x0F00 ''cx11252-11'' ''HSF Generic Modem'',
     dev_entry 0x14F1 0x0F30 ''0x14F1'' ''0x14F1'',
     dev_entry 0x14F1 0x1031 ''332'' ''dfd'',
     dev_entry 0x14F1 0x1033 ''RH56D'' ''RH56D-PCI'',
     dev_entry 0x14F1 0x1033a ''RH56D'' ''RH56D-PCI'',
     dev_entry 0x14F1 0x1035 ''R6795-11'' ''RH56D/SP-PCI, R6795-11, E416921/1, 0336 Mexico'',
     dev_entry 0x14F1 0x1036 ''Conexant RH56D/SP-PCI'' ''unknown'',
     dev_entry 0x14F1 0x1056 ''4-1b359d48-0-10f06'' ''Symphony modem DSL router6'',
     dev_entry 0x14F1 0x1059 ''DI15630-5, DI5631, DI5633'' ''SmartHCF'',
     dev_entry 0x14F1 0x10B4 ''Conextant HFC'' ''All Conextant HFC Modems (PCI)'',
     dev_entry 0x14F1 0x10B6 ''unknown'' ''Conexant HCF PCI Soft modem'',
     dev_entry 0x14F1 0x1416 '''' ''Contexant'',
     dev_entry 0x14F1 0x1456 ''1456'' ''HCFp Modem'',
     dev_entry 0x14F1 0x14F1 ''0x14F1'' ''0x14F1'',
     dev_entry 0x14F1 0x1611 ''?'' ''AccessRunner ADSL Modem'',
     dev_entry 0x14F1 0x1612 ''8'' ''8'',
     dev_entry 0x14F1 0x2013 ''RS56-PCI'' ''in-Build CX11235 modem'',
     dev_entry 0x14F1 0x2400 ''unknown'' ''unknown'',
     dev_entry 0x14F1 0x2702 ''cx11252-11'' ''HSFi or Soft V92 PCI Modem'',
     dev_entry 0x14F1 0x2710 '''' ''PCI modem card Conexant'',
     dev_entry 0x14F1 0x2740 ''CC_0780'' ''Pci Simple Communtications Controller'',
     dev_entry 0x14F1 0x2B10 ''0x14F1'' ''0x14F1'',
     dev_entry 0x14F1 0x2BFA ''0x0000ffff'' ''Conexant HDA D110 MDC v.92 Modem'',
     dev_entry 0x14F1 0x2C06 ''136'' ''Conexant HD Audio SoftV92 Data Fax Modem with SmartCP'',
     dev_entry 0x14F1 0x2F00 ''00101767'' ''HSF 56k HSFi Modem'',
     dev_entry 0x14F1 0x2f01 ''0x0780'' ''missing driver for pci simple communications controller'',
     dev_entry 0x14F1 0x2F10 ''USR90-12'' ''CXT / USR 56K Fax Host int'',
     dev_entry 0x14F1 0x2F20 ''CX11256'' ''SoftV92 Data Fax Modem with SmartCP'',
     dev_entry 0x14F1 0x2F30 ''CX11252-41z'' ''PCI SoftV92 Modem'',
     dev_entry 0x14F1 0x2F40 ''200014F1'' ''PCI Soft Data Fax Modem with SmartCP'',
     dev_entry 0x14F1 0x2F50 ''99269'' ''SmartLink 2801'',
     dev_entry 0x14F1 0x2F52 ''C0220001'' (''01'' @ [CHR 0x5C] @ ''3&61AAA01&0&50''),
     dev_entry 0x14F1 0x2F81 '' '' '' '',
     dev_entry 0x14F1 0x2F82 ''cx9510-11z'' ''Conexant PCI-E Soft Data/Fax Modem with SmartCP'',
     dev_entry 0x14F1 0x5045 ''4.0.3.1'' ''http://h10025.www1.hp.com/ewfrf/wc/softwareDownloadIndex?softwareitem=ob-43284-1&lc=en&dlc=en&cc=us&'',
     dev_entry 0x14F1 0x50451 ''14f12f30'' ''Conextant High Definition Audio-Venice 5051'',
     dev_entry 0x14F1 0x50452 ''14e4'' ''Conextant High Definition SmartAudio 221'',
     dev_entry 0x14F1 0x50452 (''PCI'' @ [CHR 0x5C] @ ''VEN_14F1&DEV_5047'') ''Conextant High Definition Audio-Venice 5051'',
     dev_entry 0x14F1 0x5047 ''Not sure'' ''HDAUDIO Soft Data Fax Modm- Conexant Sound Card Audio Driver'',
     dev_entry 0x14F1 0x5051 ''4.0.1.6'' ''Conexant HD-Audio SmartAudio 221'',
     dev_entry 0x14F1 0x5066 ''Cx20561'' (''HDAUDIO'' @ [CHR 0x5C] @ ''Func_01&VEN_14F1&DEV_5069&SUBSYS_17AA214C&REV_1003''),
     dev_entry 0x14F1 0x5069 ''20585'' ''conexant 20585 smartAudio HD'',
     dev_entry 0x14F1 0x506C ''0x506C'' ''Conexant High Definition Audio'',
     dev_entry 0x14F1 0x506E ''001'' ''Conexant 20672 SmartAudio HD'',
     dev_entry 0x14F1 0x50A1 ''CX20641/CX20651'' ''Conexant HD Audio'']"

end
