(* ===== verification/Pci_Device_2.thy ===== *)
theory Pci_Device_2
  imports Pci_Tables
begin

text \<open>
  \<open>PciDevTable\<close> of \<open>pci_vendor.h\<close>, entry by entry and in the order of the source: parts 15 to 28.
\<close>

definition PciDevTable_15 :: "PCI_DEVTABLE list" where
  "PciDevTable_15 = [
     dev_entry 0x14F1 0x50A2 ''Conexant CX20642'' ''Conexant HD Audio'',
     dev_entry 0x14F1 0x5B7A ''Belived to be a CX23416'' ''Single-Chip MPEG-2 Encoder with Integrated Analog Video/Broadcast Audio Decoder'',
     dev_entry 0x14F1 0x8800 ''Conexant CX23881'' ''PAL audio/video decoder'',
     dev_entry 0x14F1 0x88000 ''0x14F1'' ''0x14F1'',
     dev_entry 0x14F1 0x8801 ''CX23880'' ''PCI Broadcast Audio/Video Decoder'',
     dev_entry 0x14F1 0x8802 ''CX2388x'' ''MPEG Encoder (ASUS Blackbird)'',
     dev_entry 0x14F1 0x8811 ''CX2388x'' ''Audio Capture ike'',
     dev_entry 0x14F1 0x8852 ''cx23885'' ''Leadtek Winfast PxDVR3200 H (XC3028)'',
     dev_entry 0x14F1 0x8880 ''CX23888'' ''PCI Express Video and Broadcast Audio Decoder'',
     dev_entry 0x14F1 0x9876 (''PCI'' @ [CHR 0x5C] @ ''VEN_14F1&DEV_2F20&SUBSYS_200F14F1&REV_00'' @ [CHR 0x5C] @ ''4&1AF'') ''f'',
     dev_entry 0x186C 0x1014 ''AR5BXB6'' ''Atheros 802.11abg'',
     dev_entry 0x1971 0x0001 (''PCI'' @ [CHR 0x5C, CHR 0x5C] @ ''VEN_1971&DEV_0000&SUBSYS_00021028&REV_00'' @ [CHR 0x5C, CHR 0x5C] @ ''4&2'') ''AGEIA PhysX 100 Series PCI Express Card'',
     dev_entry 0x1971 0x1011 (''PCI'' @ [CHR 0x5C, CHR 0x5C] @ ''VEN_1971&DEV_1011&CC_FF00'') ''AGEIA PhysX 100 Series PCI Card'',
     dev_entry 0x1971 0x1021 '''' ''AGEIA PhysX 200 Series PCI Express Card'',
     dev_entry 0x1969 0x1026 ''AR8121/AR8113 '' ''PCI-E ETHERNET CONTROLLER '',
     dev_entry 0x1969 0x1048 ''Atheros L1'' ''Gigabit Ethernet 10/100/1000 Base-T Controller'',
     dev_entry 0x1969 0x1060 ''AR8162'' ''PCI-E Fast Ethernet Controller'',
     dev_entry 0x1969 0x1062 ''AR8132'' ''Atheros AR8132 PCI-E &#1050;&#1086;&#1085;&#1090;&#1088;&#1086;&#1083;&#1083;&#1077;&#1088; Fast Eth'',
     dev_entry 0x1969 0x1062c ''Atheros L1 '' ''Gigabit Ethernet 10/100/1000 Base-T Controller'',
     dev_entry 0x1969 0x1063 ''AR8131'' ''Atheros AR8131 PCI-E Gigabit Ethernet Controller'',
     dev_entry 0x1969 0x1073 ''AR81512'' ''Atheros AR81512 '',
     dev_entry 0x1969 0x1083 ''1083'' ''Atheros AR8151 PCI-E Gigabit Ethernet Controller (NDIS 6.20)'',
     dev_entry 0x1969 0x1090 ''AR8162'' ''Fast Ethernet'',
     dev_entry 0x1969 0x1091 ''AR8161/8165'' ''PCI-E Gigabit Ethernet Controller'',
     dev_entry 0x1969 0x168c ''Atheros L1 '' ''Gigabit Ethernet 10/100/1000 Base-T Controller '',
     dev_entry 0x1969 0x1969 ''Atheros L1 '' (''Gigabit Ethernet 10/100/1000 Base-T '' @ [CHR 0xC3, CHR 0x90, CHR 0xC5, CHR 0xA1, CHR 0xC3, CHR 0x90, CHR 0xC2, CHR 0xBE, CHR 0xC3, CHR 0x90, CHR 0xC2, CHR 0xBD, CHR 0xC3, CHR 0x91, CHR 0xE2, CHR 0x80, CHR 0x9A, CHR 0xC3, CHR 0x91, CHR 0xE2, CHR 0x82, CHR 0xAC, CHR 0xC3, CHR 0x90, CHR 0xC2, CHR 0xBE, CHR 0xC3, CHR 0x90, CHR 0xC2, CHR 0xBB, CHR 0xC3, CHR 0x90, CHR 0xC2, CHR 0xBB, CHR 0xC3, CHR 0x90, CHR 0xC2, CHR 0xB5, CHR 0xC3, CHR 0x91, CHR 0xE2, CHR 0x82, CHR 0xAC] @ '' ''),
     dev_entry 0x1969 0x2048 ''Atheros L2'' ''Fast Ethernet 10/100 Base-T Controller'',
     dev_entry 0x1969 0x2049 ''234543'' ''der'',
     dev_entry 0x1969 0x2060 ''f121'' ''AR8152 v1.1 Fast Ethernet'',
     dev_entry 0x1969 0x2061 ''1'' ''Ethernet Controller'',
     dev_entry 0x1969 0x2062 ''ff1e1179'' ''Qualcomm Atheros AR8152/8158'',
     dev_entry 0x1969 0x4747 ''1969'' ''VEN_1969'',
     dev_entry 0x1969 0x9876 ''Atheros L2'' ''Fast Ethernet 10/100 Base-T Controller '',
     dev_entry 0x17C0 0x12ab '''' ''intel'',
     dev_entry 0x9710 0x7705 ''ASIX MSC7705'' ''MCS7705 -- USB 1.1 to Single Parallel Controller'',
     dev_entry 0x9710 0x7830 ''MCS7830'' ''USB 2.0 to 10/100M Fast Ethernet Controller'',
     dev_entry 0x9710 0x8729 ''mcs7830'' ''usb 2.0 10/100M ethernet adaptor'',
     dev_entry 0x9710 0x9805 ''mcs9805cv'' ''Netmos Parallel  port PCI card'',
     dev_entry 0x9710 0x9815 ''9815'' ''MCS9815 / M-CAB Parallel Adapter'',
     dev_entry 0x9710 0x9835 ''9835'' ''2 serial, 1 LPT port PCI Card'',
     dev_entry 0x9710 0x9845 ''NM9845CV'' ''2 serial'',
     dev_entry 0x9710 0x9865 ''MCS9865'' ''PCI Porta Paralela'',
     dev_entry 0x9710 0x9900 ''MCS9900CV-AA'' ''NetMOS Single Parallel Port Card'',
     dev_entry 0x9710 0x9912 ''MCS9901CV-CC'' ''PCIe to Dual Serial and Single Parallel'',
     dev_entry 0x9710 0x9922 ''MCS9922'' ''PCIe to Dual Serial Port Controller'',
     dev_entry 0x067B 0x2303 ''2506'' ''Prolific USB 2 Serial Comm Port controller'',
     dev_entry 0x067B 0x2305 ''PL-2303'' ''USB-to-Printer Bridge Controller'',
     dev_entry 0x067B 0x2393 ''prolific'' ''prolific'',
     dev_entry 0x067B 0x2506 ''PL-2506'' ''Hi-Speed USB to IDE Bridge Controller'',
     dev_entry 0x067B 0x25a1 ''PL-2501'' ''Prolific PCLinq3 USB Transfer Cable Driver'',
     dev_entry 0x067B 0x9876 ''067B'' ''TES'',
     dev_entry 0x8080 0x1040 ''VIA 82C259 rev 0'' (''PCI'' @ [CHR 0x5C] @ ''VEN_8086&DEV_1040&SUBSYS_1008086&REV_00''),
     dev_entry 0x0c45 0x0C45 (''USB'' @ [CHR 0x5C] @ ''VID_0000&PID_0000'' @ [CHR 0x5C] @ ''5&875DF9&0&1'') ''USB2.0'',
     dev_entry 0x0c45 0x1111 (''USB'' @ [CHR 0x5C] @ ''VID_0C45&PID_612A'' @ [CHR 0x5C] @ ''5&B0F4C74&0&2'') ''USB webcam'',
     dev_entry 0x0c45 0x5243 ''USB'' ''xda exec Uknown device'',
     dev_entry 0x0c45 0x6007 (''USB'' @ [CHR 0x5C] @ ''VID_0C45&PID_6007&REV_0101'') ''Genius WebCam Eye'',
     dev_entry 0x0c45 0x600D (''USB'' @ [CHR 0x5C] @ ''VID_0C45&PID_600D&REV_0101'') ''USB(v1.1) webcam'',
     dev_entry 0x0c45 0x602C ''SN9C102C'' ''Webcam'',
     dev_entry 0x0c45 0x602D (''USB'' @ [CHR 0x5C] @ ''VID_0C45&PID_608F&REV_0101&MI_01'') ''USB Webcam'',
     dev_entry 0x0c45 0x6030 (''USB'' @ [CHR 0x5C] @ ''VID_0C45&PID_6030'' @ [CHR 0x5C] @ ''5&18D8BE1C&0&1'') ''USB WebCam '',
     dev_entry 0x0c45 0x610C (''USB'' @ [CHR 0x5C] @ ''VID_0C45&PID_610B'' @ [CHR 0x5C] @ ''7&3211544E$0$2'') ''usb web camera '',
     dev_entry 0x0c45 0x6128 (''USB'' @ [CHR 0x5C] @ ''VID_0C45&PID_613C&REV_0101'') ''USB WebCam'',
     dev_entry 0x0c45 0x6129 (''USB'' @ [CHR 0x5C] @ ''VID_0C45&PID_6128'' @ [CHR 0x5C] @ ''5&3875c171&0&1'') ''USB WebCam'',
     dev_entry 0x0c45 0x6130 (''USB'' @ [CHR 0x5C] @ ''VID_090C&PID_1000'' @ [CHR 0x5C] @ ''0346113020045748'') ''USB HUB'',
     dev_entry 0x0c45 0x613A (''USB'' @ [CHR 0x5C] @ ''VID_0C45&PID_613A'' @ [CHR 0x5C] @ ''5&2F621EE5&0&5'') ''USB WEBCAM'',
     dev_entry 0x0c45 0x613c (''USB'' @ [CHR 0x5C] @ ''VID_0C45&PID_613C'' @ [CHR 0x5C] @ ''5&377B3285&0&1 '') ''USB Webcam'',
     dev_entry 0x0c45 0x613E ''5&29957435&0&1'' ''USB Camera'',
     dev_entry 0x0c45 0x624f ''Sonix SN9C201'' ''Integrated Webcam in Compal HEL81 series barebones.'',
     dev_entry 0x0c45 0x6270 (''USB'' @ [CHR 0x5C] @ ''VID_0C45&PID_6270'') ''USB Microscopr'',
     dev_entry 0x0c45 0x627F (''USB'' @ [CHR 0x5C] @ ''VID_17A1&PID_0118&REV_0100'') (''USB'' @ [CHR 0x5C] @ ''VID_17A1&PID_0118&REV_0100''),
     dev_entry 0x0c45 0x62B3 (''USB'' @ [CHR 0x5C] @ ''Vid_0c45&Pid_62b3&Rev_0100&MI_00'') ''USB 2.0 PC Camera'',
     dev_entry 0x0c45 0x62BF (''USB'' @ [CHR 0x5C] @ ''Vid_0c45&Pid_62bf'') (''USB'' @ [CHR 0x5C] @ ''Vid_0c45&Pid_62bf&Rev_0100''),
     dev_entry 0x0c45 0x62c0 ''SNP2UVC'' ''Sonix Wecam'',
     dev_entry 0x0c45 0x6353 (''USB'' @ [CHR 0x5C] @ ''VID_0000&PID_0000'' @ [CHR 0x5C] @ ''5&21F6DCD1&0&5'') ''USB Microscope'',
     dev_entry 0x0c45 0x641D (''USB'' @ [CHR 0x5C] @ ''VID_0C45&PID_643d'') ''1.3 MPixel Integrated Webcam used in Dell N5010 series'',
     dev_entry 0x0c45 0x6421 (''USB'' @ [CHR 0x5C] @ ''VID_0C45&PID_6421&REV_0224&MI_00'') ''USB 2.0 Webcam slim 32'',
     dev_entry 0x0c45 0x642F (''USB'' @ [CHR 0x5C] @ ''VID_0C45&PID_642F&REV_1224'') ''Webcam'',
     dev_entry 0x0c45 0x644b ''not known'' ''not known'',
     dev_entry 0x0c45 0x6489 ''0x6489'' ''Integrated Webcam Universal Serial Bus controllers'',
     dev_entry 0x0c45 0x6840 (''USB'' @ [CHR 0x5C] @ ''VID_0C45&PID_6480&MI_00 '') ''sonix 1.3 mp laptop integrated webcam'',
     dev_entry 0x0c45 0x9876 (''USB'' @ [CHR 0x5C] @ ''VID_090C&PID_B371&MI_00'' @ [CHR 0x5C] @ ''6&462987E&0&0000'') ''webcam'',
     dev_entry 0x0A5C 0x0201 ''Blutonium BCM2035 Bluetooth 2.4 GHz Single Chip Tr'' ''Broadcom USB iLine10(tm) Network Adapter'',
     dev_entry 0x0A5C 0x10DE ''0264'' ''Controlador sm'',
     dev_entry 0x0A5C 0x2000 '' 0578A97'' ''Broadcom Bluetooth Firmware Upgrade Device'',
     dev_entry 0x0A5C 0x2009 '' '' ''Broadcom Bluetooth Controller'',
     dev_entry 0x0A5C 0x200a '' '' ''Broadcom Bluetooth Controller'',
     dev_entry 0x0A5C 0x200f '' '' ''Broadcom Bluetooth Controller'',
     dev_entry 0x0A5C 0x201d '' n450'' ''BROADCOM Bluetooth Device'',
     dev_entry 0x0A5C 0x201e '' '' ''IBM Integrated Bluetooth IV'',
     dev_entry 0x0A5C 0x2020 '' '' ''Broadcom Bluetooth Dongle'',
     dev_entry 0x0A5C 0x2021 '' '' ''BCM2035B3 ROM Adapter Generic'',
     dev_entry 0x0A5C 0x2033 ''  1ujy100539f'' ''Broadcom Blutonium Device Firmware Downloader'',
     dev_entry 0x0A5C 0x2035 ''5&263C7E89&0&1'' ''BCM92035NMD Bluetooth'',
     dev_entry 0x0A5C 0x2038 '' '' ''Broadcom Blutonium Device Firmware Downloader (BCM2038)'',
     dev_entry 0x0A5C 0x2039 '' BCM92045B3 ROM'' ''BROADCOM Bluetooth Device'',
     dev_entry 0x0A5C 0x2045 ''BCM2045A'' ''Broadcom Bluetooth Controller'',
     dev_entry 0x0A5C 0x2046 '' 5738z'' ''Broadcom USB Bluetooth Device'',
     dev_entry 0x0A5C 0x2047 '' '' ''Broadcom USB Bluetooth Device'',
     dev_entry 0x0A5C 0x205e ('' USB'' @ [CHR 0x5C] @ ''VID_0A5C&PID_5801&MI_00'') ''Broadcom Bluetooth Firmware Upgrade Device'',
     dev_entry 0x0A5C 0x2100 ''BT 50'' ''Broadcom Bluetooth 2.0+eDR USB dongle'',
     dev_entry 0x0A5C 0x2101 (''USB'' @ [CHR 0x5C] @ ''VID_0A5C&PID_2101'') ''Broadcom Bluetooth 2.0+EDR USB dongle'',
     dev_entry 0x0A5C 0x2102 ('' USB'' @ [CHR 0x5C] @ ''VID_04B4&PID_2102'' @ [CHR 0x5C] @ ''5&38CD4C16&0&6'') ''ANYCOM Blue USB-200/250'',
     dev_entry 0x0A5C 0x2110 '' 39A18BDD'' ''Broadcom Bluetooth Controller'',
     dev_entry 0x0A5C 0x2111 '' '' ''ANYCOM Blue USB-UHE 200/250'',
     dev_entry 0x0A5C 0x2120 '' 2045'' ''Broadcom 2045 Bluetooth 2.0 USB-UHE Device with trace filter'',
     dev_entry 0x0A5C 0x2121 '' '' ''Broadcom 2045 Bluetooth 2.0 USB Device with trace filter'',
     dev_entry 0x0A5C 0x2122 '' BCM92045B3'' ''Broadcom Bluetooth 2.0+EDR USB dongle'',
     dev_entry 0x0A5C 0x2124 '' '' ''2045B3ROM Bluetooth Dongle'',
     dev_entry 0x0A5C 0x2130 '' '' ''Broadcom 2045 Bluetooth 2.0 USB-UHE Device with trace filter'',
     dev_entry 0x0A5C 0x2131 '' '' ''Broadcom 2045 Bluetooth 2.0 USB Device with trace filter'',
     dev_entry 0x0A5C 0x2140 '' '' ''2046 Flash UHE Class 2'',
     dev_entry 0x0A5C 0x2141 '' '' ''2046 Flash non UHE Class 2'']"

definition PciDevTable_16 :: "PCI_DEVTABLE list" where
  "PciDevTable_16 = [
     dev_entry 0x0A5C 0x2142 '' '' ''2046 Flash non UHE Class 1'',
     dev_entry 0x0A5C 0x2143 '' '' ''2046 Flash non UHE Class 1'',
     dev_entry 0x0A5C 0x2144 '' '' ''2046 Flash non UHE module Class 2'',
     dev_entry 0x0A5C 0x2145 '' '' ''Broadcom BCM9204MD LENO Module'',
     dev_entry 0x0A5C 0x2146 '' '' ''Broadcom 2045 Bluetooth 2.1 USB UHE Dongle'',
     dev_entry 0x0A5C 0x2147 '' 0A5C&PID_5800'' ''Broadcom 2046 Bluetooth 2.1 USB Dongle'',
     dev_entry 0x0A5C 0x2148 '' '' ''Broadcom 2046 Bluetooth 2.1 USB UHE Dongle'',
     dev_entry 0x0A5C 0x2149 '' '' ''Broadcom 2046 Bluetooth 2.1 USB Dongle'',
     dev_entry 0x0A5C 0x214a '' '' ''Broadcom 2046 Bluetooth 2.1 USB Module'',
     dev_entry 0x0A5C 0x214b '' 52AF1AB24D'' ''Broadcom 2046 Bluetooth 2.1 USB Module'',
     dev_entry 0x0A5C 0x214c '' '' ''Broadcom 2046 Bluetooth 2.1 USB Module'',
     dev_entry 0x0A5C 0x214d '' '' ''Broadcom Bluetooth 2.1 UHE Module'',
     dev_entry 0x0A5C 0x214e '' '' ''Thinkpad Bluetooth with Enhanced Data Rate II'',
     dev_entry 0x0A5C 0x214f '' '' ''Broadcom 2046 Bluetooth 2.1 USB UHE Dongle'',
     dev_entry 0x0A5C 0x2150 '' '' ''Broadcom 2046 Bluetooth 2.1 USB Dongle'',
     dev_entry 0x0A5C 0x2151 '' 2151'' ''Broadcom Bluetooth 2.1 USB Dongle'',
     dev_entry 0x0A5C 0x2152 '' '' ''Broadcom 2046 Bluetooth 2.1 USB UHE Dongle'',
     dev_entry 0x0A5C 0x2153 '' '' ''Broadcom 2046 Bluetooth 2.1 USB UHE Dongle'',
     dev_entry 0x0A5C 0x2154 '' '' ''Broadcom 2046 Bluetooth 2.1 USB UHE Dongle'',
     dev_entry 0x0A5C 0x2155 '' '' ''Broadcom Bluetooth USB Dongle'',
     dev_entry 0x0A5C 0x2157 '' '' ''BCM2046 B1 USB 500'',
     dev_entry 0x0A5C 0x2158 '' '' ''Broadcom 2046 Bluetooth 2.1 Device'',
     dev_entry 0x0A5C 0x219C ''BCM2070'' ''Broadcom BCM2070 Bluetooth 3.0+HS USB Device '',
     dev_entry 0x0A5C 0x21E3 ''BCM20702A0'' ''Broadcom Bluetooth 4.0'',
     dev_entry 0x0A5C 0x4500 ''BCM2046B1'' ''Broadcom 2046 Bluetooth 2.1 USB Dongle'',
     dev_entry 0x0A5C 0x4502 ''BCM2046B1'' ''Broadcom 2046 Bluetooth 2.1 USB Dongle'',
     dev_entry 0x0A5C 0x4503 '' BCM2046B1'' ''Broadcom 2046 Bluetooth 2.1 USB Dongle'',
     dev_entry 0x0A5C 0x5800 '' 1ujy100539f'' ''Unified Security Hub'',
     dev_entry 0x0A5C 0x5801 ''0x5801'' ''Unified Security Hub '',
     dev_entry 0x0A5C 0x6300 '' 965'' ''Pirelli ISB Remote NDIS Device'',
     dev_entry 0x0A5C 0x6688 ''PCI'' ''NVIDIA GeForce GT 240M'',
     dev_entry 0x0A5C 0x8613 (''USB'' @ [CHR 0x5C] @ ''VID_04B4&PID_8613&REV_:001'') ''TD 3104 USB vedio grabber '',
     dev_entry 0x0A5C 0x9876 ''0x9876'' ''0x9876'',
     dev_entry 0x197B 0x0250 ''JMC25'' ''JMC250 PCI Express, Gigabit Ethernet'',
     dev_entry 0x197B 0x0256 ''JMC2XX'' ''JMC260 PCI Express Fast Ethernet'',
     dev_entry 0x197B 0x0260 ''JMC2XX'' ''JMC260 PCI Express Fast Ethernet'',
     dev_entry 0x197B 0x1234 ''12345678'' ''1234567'',
     dev_entry 0x197B 0x197b ''JMB38X'' ''JMB38X SD/MMC Host Controller '',
     dev_entry 0x197B 0x2360 ''JMicron JMB36X'' ''JMB36X'',
     dev_entry 0x197B 0x2361 ''JMB363'' ''PCI Express to SATA II and PATA Host Controller'',
     dev_entry 0x197B 0x2363 ''JMB36X'' ''JMicron JMB362/JMB363 AHCI Controller'',
     dev_entry 0x197B 0x2366 ''JMB36X'' ''JMicron JMB366 AHCI/IDE Controller'',
     dev_entry 0x197B 0x2368 ''JMB368'' ''IDE Comtroller'',
     dev_entry 0x197B 0x2380 ''JMB38X'' ''IEEE 1394 Host Controller'',
     dev_entry 0x197B 0x2381 ''JMB38X'' ''JMB38X SD Host Controller'',
     dev_entry 0x197B 0x2382 ''JMB38Xam5'' ''JMB38X SD/MMC Host Controller  ftp://driver.jmicron.com.tw/CardReader/Windows/'',
     dev_entry 0x197B 0x2383 ''0261'' ''JMB38X MS Host Controller'',
     dev_entry 0x197B 0x2384 ''JMB38X'' ''JMB38X xD Host Controller'',
     dev_entry 0x197B 0x2391 ''9.2.0.1031'' ''Intel'',
     dev_entry 0x197B 0x2392 ''721179'' '' JMB38X SD/MMC Host Controller'',
     dev_entry 0x197B 0x2393 '' Chip Number:   JMB38X'' ''Chip Description:   JMB38X SD/MMC Host Controller'',
     dev_entry 0x197B 0x7002 ''JMB38Xam5'' ''JMB38X SD/MMC Host Controller'',
     dev_entry 0x4E8 0x618d ''rev_0400'' ''epic 4g smartphone (GT B5330)'',
     dev_entry 0x058f 0x0001 ''6377'' ''AM usb storage'',
     dev_entry 0x058f 0x1234 ''9380'' ''6387'',
     dev_entry 0x058f 0x6362 ''UNKNOWN'' ''Unknown 4-in-1 card reader (istar)'',
     dev_entry 0x058f 0x6366 ''Unknown'' ''Multi Flash Reader USB Device'',
     dev_entry 0x058f 0x6387 ''3F83C15F'' ''Transcend JetFlash Flash Drive'',
     dev_entry 0x058f 0x9254 ''AU9254A21-HAS'' ''http://www.alldatasheet.com/datasheet-pdf/pdf/91600/ETC/AU9254A21.html'',
     dev_entry 0x058f 0x9380 ''2C680446'' ''Micron=MT29F32G08CBABA'',
     dev_entry 0x058f 0x9540 ''Unknown'' ''SmartCard Reader'',
     dev_entry 0x064e 0x064e ''VID_064E&PID_A111&MI_00'' ''Suyin'',
     dev_entry 0x064e 0xa101 ''suYin'' ''Acer Crystal Eye Webcam'',
     dev_entry 0x064e 0xa103 ''SuYin'' ''WebCam'',
     dev_entry 0x064e 0xa116 ''Suiyn Optronics'' ''USB 2.0 UVC 1.3M WebCam'',
     dev_entry 0x064e 0xA219 ''SUYIN'' ''SUYIN 1.3M WebCam'',
     dev_entry 0x064e 0xc108 ''dont know'' ''its a webcam software'',
     dev_entry 0x064e 0xd101 ''SuYin'' ''Web Cam'',
     dev_entry 0x198a 0x0210 '' '' ''XMC-210'',
     dev_entry 0x198a 0x0220 '' '' ''XMC-220'',
     dev_entry 0x198a 0x0230 '' '' ''XMC-230'',
     dev_entry 0x198a 0x0240 '' '' ''XMC-240'',
     dev_entry 0x198a 0x1180 '' pm 965'' ''PCIe-180'',
     dev_entry 0x198a 0x1280 '' '' ''PCIe-280'',
     dev_entry 0x198a 0x198a ''pm 965'' ''PCIe-180'',
     dev_entry 0x198a 0x402F '' '' '' BenNUEY PCIX'',
     dev_entry 0x198a 0x4030 '' '' ''H100-PCIX'',
     dev_entry 0x198a 0x4031 '' '' ''BenNUEY PCI-104-V4'',
     dev_entry 0x198a 0x4032 '' '' ''BenONE-PCIe'',
     dev_entry 0x198a 0x4033 ('' PCI'' @ [CHR 0x5C] @ ''VEN_198A&DEV_4033&SUBSYS_00000000&REV_00'') ''BenONE-Xilinx-Kit-ROHS'',
     dev_entry 0x198a 0x4034 '' '' ''BenNUEY PCIX RoHS'',
     dev_entry 0x17F3 0x1010 ''D1010'' ''IDE Controller '',
     dev_entry 0x17F3 0x1011 ''D1011'' ''Standard IDE Controller'',
     dev_entry 0x17F3 0x1030 ''M1030'' ''PCI to PCI-E Bridge'',
     dev_entry 0x17F3 0x2010 ''M2010'' ''GPU (VGA )'',
     dev_entry 0x17F3 0x3010 ''M3010'' ''HD Audio'',
     dev_entry 0x17F3 0x6021 '' '' ''Host Bridge'',
     dev_entry 0x17F3 0x6036 '' '' ''PCI to ISA Bridge'',
     dev_entry 0x17F3 0x6040 ''R6040x'' ''Ethernet MACx'',
     dev_entry 0x17F3 0x6060 '' modem'' ''USB Controller (OHCI)'',
     dev_entry 0x17F3 0x6061 '' V90479. 1'' ''USB 2.0 Controller (EHCI)'',
     dev_entry 0x19E3 0x5801 ''NA'' ''DDRdrive X1'',
     dev_entry 0x19E3 0x5808 ''NA'' ''DDRdrive X8'',
     dev_entry 0x19E3 0xDD52 '' '' ''DDRdrive X1-30'',
     dev_entry 0x04B3 0x24D5 (''PCI'' @ [CHR 0x5C] @ ''VEN_8086&DEV_293E&SUBSYS_20F217AA&REV_03'' @ [CHR 0x5C] @ ''3&B1B'') ''Audio Controller'',
     dev_entry 0x04B3 0x401 ''8086'' (''PCI'' @ [CHR 0x5C] @ ''VEN_8086&DEV_293E&SUBSYS_20F217AA&REV_03'' @ [CHR 0x5C] @ ''3&B1BFB68&0&D8  ''),
     dev_entry 0x04B3 0x401 ''24C6'' (''PCI'' @ [CHR 0x5C] @ ''VEN_8086&DEV_24C5&REV_01'' @ [CHR 0x5C] @ ''3''),
     dev_entry 0x04B3 0x4010 ''CC_040100'' (''PCI'' @ [CHR 0x5C] @ ''VEN_8086&DEV_1C22&SUBSYS_FCD01179&REV_04''),
     dev_entry 0x04B3 0x9876 ''CC_040100'' (''PCI'' @ [CHR 0x5C] @ ''VEN_8086&DEV_293E&SUBSYS_20F217AA&REV_03'' @ [CHR 0x5C] @ ''3&B1BFB68&0&D8''),
     dev_entry 0x051D 0x0002 ''n/a'' ''n/a'',
     dev_entry 0x7d1 0x3304 ''graphic card'' ''802.11N usb wifi device'',
     dev_entry 0x7d1 0x3c03 ''DWL-G122 Wifi PCI'' ''Same chipset of RALINK  RT2500'',
     dev_entry 0x7d1 0x3C07 ''D-Link Wireless G DWA-110 USB Adapter'' (''PCI'' @ [CHR 0x5C] @ ''VEN_1799&DEV_700F&SUBSYS_700F1799&REV_20'' @ [CHR 0x5C] @ ''3&61AAA01&0&48''),
     dev_entry 0x05ac 0x021e ''Keyboard IT USB'' ''Alluminium Keyboard IT USB'',
     dev_entry 0x05ac 0x1293 ''Apple iPod'' ''Apple iPod'',
     dev_entry 0x05ac 0x1297 ''Apple iPhone 01 193700 743771 8 '' ''Apple iPhone 3'',
     dev_entry 0x05ac 0x21e ''keyboard It USB '' ''Allumium keyboard it USB '',
     dev_entry 0x19a2 0x0710 '''' ''Emulex OneConnect 10Gb NIC (be3) (rev01)'',
     dev_entry 0x19a2 0x0712 '''' ''Emulex OneConnect 10Gb iSCSI Initiator (be3) (rev 01)'',
     dev_entry 0x19a2 0x0714 ''Emulex OneConnect 10Gb FCoE Initiator (be3) (rev 0'' ''Emulex OneConnect 10Gb FCoE Initiator (be3) (rev 02)'',
     dev_entry 0x138A 0x0001 ''0001'' ''VFS201 Fingerprint Scanner'',
     dev_entry 0x138A 0x0005 ''0008'' ''VFS301 Fingerprint Scanner'',
     dev_entry 0x138A 0x0006 ''0006'' ''VFS351 Fingerprint Scanner'',
     dev_entry 0x138A 0x0007 ''0007'' ''VFS451 Fingerprint Scanner'',
     dev_entry 0x138A 0x0009 ''0008'' ''VFS421 Fingerprint Scanner'',
     dev_entry 0x138A 0x0011 ''11'' ''Validity Fingerprint Reader'',
     dev_entry 0x138A 0x0018 ''Biometric Devices'' ''Validity Sensors, Inc. (WBF) (PID=0018)'',
     dev_entry 0x138A 0x003C ''0008'' ''VFS431 Validity-Fingerprint Driver'',
     dev_entry 0x138A 0x003D ''0104'' ''Validity Fingerprint Sensor'',
     dev_entry 0x138A 0x11 ''VFS5011'' ''Fingerprint Reader'',
     dev_entry 0x5853 0x0001 ''n/a'' ''Citrix XenServer PV SCSI Host Adapter'',
     dev_entry 0x5853 0x0002 ''n/a'' ''Citrix PV Bus Device'',
     dev_entry 0x046D 0x0805 ''atom &#305;ntel &#305;ns&#305;de'' ''n.a.'',
     dev_entry 0x046D 0x0808 ''n/a'' ''Logitech Webcam C600'',
     dev_entry 0x046D 0x0809 ''Unknown'' ''Webcam Pro 9000'',
     dev_entry 0x046D 0x082B ''n/a'' ''n/a'',
     dev_entry 0x046D 0x0896 ''5&34B666AE&0&7'' ''Camera'',
     dev_entry 0x046D 0x08AD ''N/A'' ''Quickcam Communicate STX'',
     dev_entry 0x046D 0x08AF ''-'' ''-'',
     dev_entry 0x046D 0x08b2 ''123abc'' (''logitech QuickCam'' @ [CHR 0xC2, CHR 0xAE] @ '' Pro 4000''),
     dev_entry 0x046D 0x08C6 ''0x08C1'' ''Logitech OEM Webcam'',
     dev_entry 0x046D 0x08f0 ''n/a'' ''n/a'',
     dev_entry 0x046D 0x08F6 ''0100'' ''QuickCam Communicate'']"

definition PciDevTable_17 :: "PCI_DEVTABLE list" where
  "PciDevTable_17 = [
     dev_entry 0x046D 0x092F ''QuickCam Express'' ''model number: V-UAP9'',
     dev_entry 0x046D 0x0A0B ''A-00008'' ''Logitech ClearChat Pro USB'',
     dev_entry 0x046D 0x0A1F ''USB'' ''Logitech G930 Headset'',
     dev_entry 0x046D 0x5a61 ''356254'' '''',
     dev_entry 0x046D 0xC018 ''?'' ''Baesline 3 Button Corded Optical Mouse, 2 button + scroll wheel'',
     dev_entry 0x046D 0xC045 ''M/N: M-BZ96C. P/N: 810-000207. PID: HS91013.'' ''Epoxy Hidden'',
     dev_entry 0x046D 0xC046 ''n/a'' ''n/a'',
     dev_entry 0x046D 0xc05b ''ee'' ''ftht'',
     dev_entry 0x046D 0xC063 ''k251d'' ''DELL 6-Button mouse'',
     dev_entry 0x046D 0xC226 ''n/a'' ''n/a'',
     dev_entry 0x046D 0xC227 ''n/a'' ''n/a'',
     dev_entry 0x046D 0xC281 ''J-UA9'' ''Wingman Force J-UA9'',
     dev_entry 0x046D 0xC312 ''n/a'' ''n/a'',
     dev_entry 0x046D 0xC404 ''n/a'' ''Logitech TrackMan Wheel'',
     dev_entry 0x046D 0xC50E ''M-RAM99, C-BS35'' ''MediaPlay Cordless Mouse'',
     dev_entry 0x046D 0xC512 ''n/a'' ''n/a'',
     dev_entry 0x046D 0xc51e ''Unknown'' ''Unknown'',
     dev_entry 0x046D 0xC526 ''n/a'' ''n/a'',
     dev_entry 0x046D 0xC52A ''Dell Wireless Keyboard w/ mouse'' ''HID Keyboard Device'',
     dev_entry 0x046D 0xC52B ''FC8708A607198-10F1043TA3'' ''N/A'',
     dev_entry 0x046D 0xC52E ''n/a'' ''USB3 receiver'',
     dev_entry 0x04D9 0x1603 (''n'' @ [CHR 0x5C] @ ''a'') ''Samsung'',
     dev_entry 0x04D9 0x2011 ''n/a'' ''n/a'',
     dev_entry 0x0590 0x0028 ''HEM-790IT'' ''hid device class blood pressure monitor'',
     dev_entry 0x80EE 0x7145 ''VBoxVideo 0x8168'' ''VirtualBox Graphics Adapter'',
     dev_entry 0x80EE 0xBEEF ''VBoxVideo 0x8168'' ''VirtualBox Graphics Adapter'',
     dev_entry 0x19B6 0x110c ''AR5413'' ''Atheros chipset for 802.11a/b/g'',
     dev_entry 0x10EC 0x8136 ''Realtek AC97Audio drivers'' ''Realtek 171 High Definition Audio'',
     dev_entry 0x10EC 0x0062 ''LSISAS1078'' ''PCI-Express Fusion-MPT SAS'',
     dev_entry 0x10EC 0x0185 ''802.11b'' ''Realtek 8180 Extensible 802.11b Wireless Device'',
     dev_entry 0x10EC 0x0200 ''RTL8102E'' ''Realtek 10/100/1000 PCI-E NIC Family'',
     dev_entry 0x10EC 0x0260 ''Realtek ALC260 High Definition Audio'' (''HDAUDIO'' @ [CHR 0x5C] @ ''FUNC_01&VEN_10EC&DEV_0262&SUBSYS_144DC034&REV_1002''),
     dev_entry 0x10EC 0x0262 ''Realtek ALC 262'' ''Realtek ALC 262 Audio'',
     dev_entry 0x10EC 0x0268 ''ALC268'' ''High Definition Audio Codecs'',
     dev_entry 0x10EC 0x0269 ''ALC269'' ''Realtek High Definition audio'',
     dev_entry 0x10EC 0x0270 ''0270'' ''Realtek High Definition Audio '',
     dev_entry 0x10EC 0x0272 ''ALC272X'' ''Realtek High Definition audio'',
     dev_entry 0x10EC 0x0532 ''RTL8723AE'' ''BT combo mini pcie card'',
     dev_entry 0x10EC 0x0660 (''HDAUDIO'' @ [CHR 0x5C] @ ''FUNC_01&VEN_10EC&DEV_0660&SUBSYS_10191386&'') ''HD Audio'',
     dev_entry 0x10EC 0x0662 ''ALC662'' ''5.1 Channel Audio Codec'',
     dev_entry 0x10EC 0x0861 ''ALC862'' ''Realtek ALC861 High Defintion Audio'',
     dev_entry 0x10EC 0x0880 ''1631F603'' ''Realtek 880 High Definition Audio'',
     dev_entry 0x10EC 0x0882 ''Realtek ALC882/D/M'' ''Intel 82801GB ICH7 - High Definition Audio Controller'',
     dev_entry 0x10EC 0x0883 ''ALC883'' ''Realtek High definition Audio'',
     dev_entry 0x10EC 0x0887 ''FUNC_01&VEN_10EC&DEV_0887&SUBSYS_1458A002&REV_1002'' (''xHDAUDIO'' @ [CHR 0x5C] @ ''FUNC_01&VEN_10EC&DEV_0887&SUBSYS_104383BC&REV_1002'' @ [CHR 0x5C] @ ''4&159EE542&0&0001''),
     dev_entry 0x10EC 0x0888 ''ALC260'' ''Realtek High Definition Audio'',
     dev_entry 0x10EC 0x0888 ''ALC660'' ''Realtek High Definition Audio'',
     dev_entry 0x10EC 0x0889 ''1Device Ses G&#305;gabyte&#1058;&#1077;&#1093;'' (''HDAUDIO'' @ [CHR 0x5C] @ ''FUNC_01&VEN_10EC&DEV_0862''),
     dev_entry 0x10EC 0x0892 ''ALC892'' ''7.1+2 Channel HD Audio Codec with Content Protection'',
     dev_entry 0x10EC 0x10B9 ''M5288 SATA/Raid controller'' ''cpi'',
     dev_entry 0x10EC 0x10EC ''Realtek AC97Audio'' ''Realtek 171 High Definition Audio'',
     dev_entry 0x10EC 0x10ECa ''Realtek AC97Audio'' ''Realtek 171 High Definition Audio'',
     dev_entry 0x10EC 0x12ec ''naum tem'' ''naum tem '',
     dev_entry 0x10EC 0x5109 ''012659873654'' ''cuenta'',
     dev_entry 0x10EC 0x5208 ''8185'' ''Realtek RTS5208 Card Reader'',
     dev_entry 0x10EC 0x5209 ''Realtek'' ''Realtek PCIE CardReader'',
     dev_entry 0x10EC 0x5229 ''Rts5229'' ''Realtek PCIE CardReader'',
     dev_entry 0x10EC 0x5288 ''Realtek USB 2.0 Card Reader'' ''card reader'',
     dev_entry 0x10EC 0x5289 ''RTL8411'' ''Realtek PCIE Card Reader'',
     dev_entry 0x10EC 0x5591 ''MTC ms9377c'' ''PCI /ven_1039'',
     dev_entry 0x10EC 0x662 ''Realtek AC97Audio'' ''Realtek 171 High Definition Audio'',
     dev_entry 0x10EC 0x7305 ''Realtek UWB Radio Driver'' (''PCI'' @ [CHR 0x5C] @ ''VEN_10EC&DEV_7305''),
     dev_entry 0x10EC 0x8029 ''8172'' ''Realtek RTL8191SE Wireless LAN 802.11n PCI-E NIC'',
     dev_entry 0x10EC 0x8039 ''10EC'' ''10EC'',
     dev_entry 0x10EC 0x8136 (''RTL8102ENetwork Controller  PCI'' @ [CHR 0x5C] @ ''VEN_10EC&DEV_8136&S'') ''Realtek 10/100/1000 PCI-E NIC Family'',
     dev_entry 0x10EC 0x8137 ''RTL8102E'' ''Realtek 10/100/1000 PCI-E NIC Family'',
     dev_entry 0x10EC 0x8139 ''RTL8139http://pcidatabase.com/update_device.php? _'' ''Realtek RTL8139 &#1057;&#1077;&#1084;&#1100;&#1080; PCI Fast Ethernet NIC'',
     dev_entry 0x10EC 0x8167 ''RTL8167'' ''Realtek RTL8169/8110'',
     dev_entry 0x10EC 0x8168 ''RTL8168E/RTL8111F/RTL'' ''PCIe GBE Ethernet Family Controller'',
     dev_entry 0x10EC 0x8169 ''8169S'' (''Realtek RTL8169'' @ [CHR 0x5C] @ ''8110 &#1057;&#1077;&#1084;&#1100;&#1080; Gigabit Ethernet''),
     dev_entry 0x10EC 0x816C ''Realtek virtual IPMI'' ([CHR 0x5C] @ ''10EC'' @ [CHR 0x5C]),
     dev_entry 0x10EC 0x8171 ''8172'' ''Realtek RTL8191SE &#1041;&#1077;&#1089;&#1087;&#1088;&#1086;&#1074;&#1086;&#1076;&#1085;&#1086;&#108'',
     dev_entry 0x10EC 0x8172 ''RTL8191SE-VA2'' ''Single-Chip IEEE 802.11b/g/n 1T2R WLAN Controller with PCI Express Interface'',
     dev_entry 0x10EC 0x8174 ''RTL8188RU'' ''Realtek RTL8188RU'',
     dev_entry 0x10EC 0x8176 ''RTL8188CE'' ''Realtek RTL8188CE Wireless LAN 802.11n PCI-E NIC'',
     dev_entry 0x10EC 0x8178 ''PCE-N15'' ''ASUS PCE-N15 Wireless LAN PCI-E Card'',
     dev_entry 0x10EC 0x8179 ''RTL8188E'' ''IEEE 802.11b/g/n Single-Chip WiFi Chip'',
     dev_entry 0x10EC 0x8180 ''RTL8180L 802.11b MAC'' ''Network controller'',
     dev_entry 0x10EC 0x8185 ''RTL8188ce'' ''RTL8185L PCI Wireless adapter'',
     dev_entry 0x10EC 0x8191 ''RTL8192CE'' ''Single-Chip IEEE 802.11b/g/n 2T2R WLAN Controller with PCI Express Interface'',
     dev_entry 0x10EC 0x8199 ''RTL8187SE'' ''http://www.realtek.com/downloads/downloadsView.aspx?Langid=1&PNid=21&PFid=40&Level=5&Conn=4&DownType'',
     dev_entry 0x10EC 0x8339 ''RTL8139'' ''Realtek 10/100M Fast Ethernet Controller'',
     dev_entry 0x10EC 0x8609 ''Realtek AC97Audio'' ''Realtek 171 High Definition Audio'',
     dev_entry 0x10EC 0x8723 ''8723AE'' ''Realtek 8191SE Wireless LAN'',
     dev_entry 0x10EC 0x8979 ''RTL8168'' ''PCIe Gigabit Ethernet Family Controller'',
     dev_entry 0x10EC 0x9876 ''Realtek AC97Audio drivers'' ''Realtek 171 High Definition Audio'',
     dev_entry 0x10EC 0xA167 ''Realtek RTL8110SC-GR'' ''Realtek RTL8110SC-GR'',
     dev_entry 0x10EC 0xB723 ''unkown'' ''Realtek RTL8723BE Wireless LAN 802.11n PCI-NIC #4'',
     dev_entry 0x10EC 0xC139 ''5229'' ''PCIE RTS5229 card reader'',
     dev_entry 0x05E1 0x0408 ''00000000000'' ''USB 2.0 Video Capture Controller'',
     dev_entry 0x05E1 0x0501 ''120315000000621'' ''web cam'',
     dev_entry 0x0553 0x0200 ''DS38xx'' ''Oregon Scientific'',
     dev_entry 0x093a 0x2468 ''Genius iLook 110'' ''http://genius.ru/products.aspx?pnum=24948&archive=1'',
     dev_entry 0x093a 0x2608 ''PAC7311 - Toshiba PX1342E-1 CAM'' (''USB'' @ [CHR 0x5C] @ ''VID_093A&PID_2608&REV_0100&MI_00''),
     dev_entry 0x093a 0x2620 ''CNR-WCAM53G'' ''WEBCAM http://www.canyon-tech.com/archive/voip/webcams/CNR-WCAM53#pr-switcher'',
     dev_entry 0x1904 0x2031 ''n /a'' ''controladora ethernet'',
     dev_entry 0x1904 0x8139 ''8139'' ''Realtek RTL8139 PCI Fast Ethernet Adapter'',
     dev_entry 0x1904 0x8139 ''8139'' ''Realtek RTL8139 PCI Fast Ethernet Adapter'',
     dev_entry 0x0b05 0x170C ''6205'' ''WIFI card'',
     dev_entry 0x1B73 0x1000 ''1'' (''PCI'' @ [CHR 0x5C] @ ''VEN_1000&DEV_0020&SUBSYS_10301000&REV_01PCI'' @ [CHR 0x5C] @ ''VEN''),
     dev_entry 0x1B73 0x1100 ''n/a'' ''USB 3.0 eXtensibile Host controller'',
     dev_entry 0x17FE 0x2220 ''n/a'' ''Generic IEEE 802.11b/g Wireless LAN Card'',
     dev_entry 0x0DF6 0x9071 (''   '' @ [CHR 0x5C] @ ''t9071'' @ [CHR 0x5C] @ ''t WL-113 - Wireless Network USB dongle 5'') ([CHR 0x5C] @ ''t9071'' @ [CHR 0x5C] @ ''t   WL-113 - Wireless Network USB dongle 54g  ''),
     dev_entry 0x1682 0x9875 '''' '''',
     dev_entry 0x1B6F 0x7023 ''DEV_7023&REV_010'' ''Etron USB 3.0 Extensible Host Controller'',
     dev_entry 0x0E8D 0x0002 ''2200'' ''PCI Simple Communications Controller'',
     dev_entry 0x0E8D 0x0003 ''VT6212L'' ''usb'',
     dev_entry 0x0cf3 0x1002 ''Wireless USB 2.0 adapter TL-WN821N'' ''Wireless USB 2.0 adapter TL-WN821N'',
     dev_entry 0x0cf3 0x3000 ''&#1085;&#1077;&#1080;&#1079;&#1074;&#1077;&#1089;&'' ''&#1085;&#1077;&#1080;&#1079;&#1074;&#1077;&#1089;&#1090;&#1085;&#1086;&#1077; &#1091;&#1089;&#1090;&'',
     dev_entry 0x0cf3 0x3005 ''AR3011'' ''Atheros Bluetooth Module'']"

definition PciDevTable_18 :: "PCI_DEVTABLE list" where
  "PciDevTable_18 = [
     dev_entry 0x0cf3 0x9271 ''0x0108'' ''TP-LINK 150 Mbps Wireless Lite N Adapter TL-WN721N'',
     dev_entry 0x1491 0x0020 ''USB Fingerprint Scanner Model FS80'' ''USB Fingerprint Scanner Model FS80'',
     dev_entry 0x1491 0x0021 ''USB Fingerprint Scanner Model FS80'' ''USB Fingerprint Scanner Model FS80'',
     dev_entry 0x0483 0x2016 ''UPEK fingerprint sensors '' ''Driver Windows xp'',
     dev_entry 0x0AC8 0x1234 ''1'' ''1'',
     dev_entry 0x0AC8 0x6719 ''asus'' ''asus'',
     dev_entry 0x1688 0x0013 ''AR5213'' '''',
     dev_entry 0x0402 0x5606 ''0x8086'' ''0x2592'',
     dev_entry 0x0402 0x9665 ''0009  '' ''  ZCT8YBT'',
     dev_entry 0x17A1 0x0128 '' 17A1'' ''USB2.0 JPEG WebCam '',
     dev_entry 0x096E 0x0201 ''Rockey4'' '' '',
     dev_entry 0x04F2 0xb008 ''.'' ''.oem44.inf'',
     dev_entry 0x04F2 0xB175 ''0001'' ''SN'',
     dev_entry 0x04F2 0xB307 ''6030'' ''Webcam'',
     dev_entry 0x1912 0x0014 ''YET-D720201-0014'' ''usb3.0 renesas'',
     dev_entry 0x1912 0x0015 '' upd720202'' '' nec'',
     dev_entry 0x4348 0x1453 ''202204073'' ''WCH353L'',
     dev_entry 0x4348 0x3253 ''32534348'' ''SIE9835 PCI=>DUAL SERIAL'',
     dev_entry 0x4348 0x5053 '' 5050'' ''5050'',
     dev_entry 0x4348 0x7173 ''ch'' '' CH35X'',
     dev_entry 0x0A92 0x1010 ''1010&REV_0101&MI_00'' '' RoMI/o by Egosys - Midi USB Cable'',
     dev_entry 0x1B21 0x1041 ''SUBSYS_21047174'' ''USB 3.0 Host Controller Driver for Windows 7'',
     dev_entry 0x1B21 0x1042 ''1'' ''Asmedia ASM104x USB 3.0 Host Controller'',
     dev_entry 0x8087 0x0028 ''NV05'' ''MCP67 High Definition Audio'',
     dev_entry 0x8087 0x07D6 ''612BNXHMW'' ''Intel Centrino Wireless-N + WiMAX 6150'',
     dev_entry 0x06FE 0x9700 (''i don'' @ [CHR 0x27] @ ''t know'') ''a netcard used usb interface'',
     dev_entry 0x0D8C 0x0102 ''6206lc'' ''USB 5.1CH audio codec'',
     dev_entry 0x0D8C 0x5200 ''0x5200'' ''C-Media USB 2.0 Mass Storage Controller'',
     dev_entry 0x1c39 0x0300 ''PEGAVIO'' ''Pegasus Board PCI-e interface'',
     dev_entry 0x168C 0x001c ''AR5005GS'' (''pci'' @ [CHR 0x5C] @ ''ven_10ac&dev_ooo''),
     dev_entry 0x168C 0x0027 ''E017105B'' ''Atheros AR5B95 Wireless LAN 802.11 a/b/g/n Controller'',
     dev_entry 0x168C 0x0030 (''PCI'' @ [CHR 0x5C] @ ''VEN_168C&DEV_0030&SUBSYS_3112168C&REV_01'') ''TP-LINK 450Mbps Wireless N Adapter'',
     dev_entry 0x168C 0x0007 ''AR5007EG'' ''Wireless Network Adapter'',
     dev_entry 0x168C 0x0011 ''11a/b/g Wireless LAN Mini PCI Adapter'' ''11a/b/g Wireless LAN Mini PCI Adapter'',
     dev_entry 0x168C 0x0012 ''AR5211'' ('' PCI'' @ [CHR 0x5C] @ ''VEN_1217&DEV_7130&SUBSYS_FF501179&REV_01 DELL Latitude C510 as mini-PCI board behind the larg''),
     dev_entry 0x168C 0x0013 ''Netgear WPN311'' ''Netgear RangeMax WPN311 PCI Wireless NIC'',
     dev_entry 0x168C 0x0019 ''AR5bmb5'' ''802.11a Wireless Adapter'',
     dev_entry 0x168C 0x001A ''Atheros AR5005GS'' ''http://support1.toshiba-tro.de/tools/updates/atheros-wlan/atheros-wlan-xp-7702331.zip'',
     dev_entry 0x168C 0x001B ''AR5006X'' ''802.11abg NIC'',
     dev_entry 0x168C 0x001c (''HDAUDIO'' @ [CHR 0x5C] @ ''FUNC_01&VEN_8384&DEV_7698&SUBSYS_161F2073&'') ''Wireless Network Adapter'',
     dev_entry 0x168C 0x001D ''TP-Link TL-WN350GD'' (''PCI'' @ [CHR 0x5C] @ ''VEN_168C&DEV_002E&SUBSYS_E034105B&REV_01'' @ [CHR 0x5C] @ ''4&124A40C8&0&00E1''),
     dev_entry 0x168C 0x002 ''c660'' ''the drivers for this device are not installed'',
     dev_entry 0x168C 0x0023 ''AR5416'' ''802.11a/b/g/n&#1041;&#1077;&#1089;&#1087;&#1088;&#1086;&#1074;&#1086;&#1076;&#1085;&#1086;&#1081; PC'',
     dev_entry 0x168C 0x0024 ''AR5B95'' ''Atheros 802.11a/b/g/n'',
     dev_entry 0x168C 0x0027 ''E017105B'' ''Atheros AR5B95 Wireless LAN 802.11 a/b/g/n Controller'',
     dev_entry 0x168C 0x002A ''2'' ''Atheros AR5B91'',
     dev_entry 0x168C 0x002B ''10891A3B'' ''Atheros AR5B195 '',
     dev_entry 0x168C 0x002C ''AR5008'' ''Wireless 802.11 a/b/g/n Dualband Network Adapter (PCI-Express)'',
     dev_entry 0x168C 0x002D ''AR9287 rev01'' ''802.11b/g/n'',
     dev_entry 0x168C 0x002E ''AR9287'' ''Atheros ar9287 PCI Capabilities:  Offset ID Description '',
     dev_entry 0x168C 0x0030 ''1102 - 1103'' ''Killer Wireless - N'',
     dev_entry 0x168C 0x0032 ''0x028000'' ''Atheros AR9485'',
     dev_entry 0x168C 0x0034 ''DW1901'' ''802.11a/b/g/n, BT4.0+HS '',
     dev_entry 0x168C 0x0037 ''AR1111'' ''Atheros AR1111 WB-EG Wireless Network Adapter'',
     dev_entry 0x168C 0x003e ''1'' ''1'',
     dev_entry 0x168C 0x007 ''AR5007UG'' ''Wireless Network Adapter'',
     dev_entry 0x168C 0x0280 ''0x002b'' (''PCI'' @ [CHR 0x5C] @ ''VEN_168C&DEV_002B&SUBSYS_30AF185F''),
     dev_entry 0x168C 0x032 ''0x0280'' ''Dell Wireless DW1703 802.11b/g/n, BT4.0 + HS '',
     dev_entry 0x168C 0x1014 ''AR5112'' ''Atheros AR5212 802.11abg wireless Drivers'',
     dev_entry 0x168C 0x14F1 ''nForce6100-430  '' (''PCI'' @ [CHR 0x5C] @ ''VEN_168C&DEV_001A&SUBSYS_04181468&REV_01'' @ [CHR 0x5C] @ ''4&FCF0450&0&10A4''),
     dev_entry 0x168C 0x168C ''0x001b'' (''PCI'' @ [CHR 0x5C] @ ''VEN_168C''),
     dev_entry 0x168C 0x1a3b ''ar8132'' ''802.11a/b/g/n Wireless PCI Adapte'',
     dev_entry 0x168C 0x3002 ''AR3011'' ''Bluetooth 3.0'',
     dev_entry 0x168C 0x6666 ''AR5007UG'' ''Atheros AR5B95 Wireless LAN 802.11 a/b/g/n Controller'',
     dev_entry 0x168C 0x9876 ''AR5B95'' ''Atheros AR5B95 Wireless LAN 802.11 a/b/g/n Controller'',
     dev_entry 0x168C 0xFF1B ''AR 5001'' ''Wireless LAN G'',
     dev_entry 0x168C 0xFF96 ''AR5212'' ''LAN-Express AS IEEE 802.11g miniPCI adapter'',
     dev_entry 0x1710 0x5812 ''5812'' ''itech numeric small keyboard'',
     dev_entry 0x1710 0x9835 ''9825'' ''2 serial, 1 LPT port PCI Card'',
     dev_entry 0x1712 0x3038 ''VT6212L'' ''usb'',
     dev_entry 0x1712 0x7130 ''unknown'' ''unknown'',
     dev_entry 0x1303 0x0001 ''0239'' ''cM67 CompactPCI DSP Card'',
     dev_entry 0x1303 0x0002 ''1'' ''M44/cM44 DSP board'',
     dev_entry 0x1303 0x0003 ''1'' ''Quattro6x DSP board'',
     dev_entry 0x1303 0x0004 ''1'' ''Chico/ChicoPlus Data Acquisition Board'',
     dev_entry 0x1303 0x0005 ''1'' ''Code Hammer Jtag Debugger board'',
     dev_entry 0x1303 0x0006 ''1'' ''Matador DSP board'',
     dev_entry 0x1303 0x0007 ''1'' ''Quixote DSP board'',
     dev_entry 0x1303 0x0008 ''1'' ''Quadia C64x DSP'',
     dev_entry 0x1303 0x0009 ''1'' ''Quadia DSP Baseboard'',
     dev_entry 0x4144 0x0040 ''ADM-XRC'' ''Virtex-E Bridge'',
     dev_entry 0x4144 0x0041 ''ADM-XRC-II Lite'' ''Virtex-II Bridge'',
     dev_entry 0x4144 0x0042 ''ADM-XRC-II'' ''Virtex-II Bridge'',
     dev_entry 0x4144 0x0043 ''ADM-XPL'' ''Virtex-II Pro Bridge'',
     dev_entry 0x4144 0x0044 ''ADM-XP'' ''Virtex-II Pro PCI/PCI-X Bridge'',
     dev_entry 0x4144 0x0045 ''ADP-WRC-II'' ''Virtex-II Bridge'',
     dev_entry 0x4144 0x0046 ''ADP-DRC-II'' ''Virtex-II Bridge'',
     dev_entry 0x4144 0x0049 ''ADP-XPI'' ''Virtex-II Pro PCI'',
     dev_entry 0x4144 0x004A ''ADP-XPI (PCI-X)'' ''Virtex-II Pro PCI-X Bridge'',
     dev_entry 0x4144 0x004F ''ADM-XRC-4FX'' ''Virtex-II Pro PCI-X Bridge'',
     dev_entry 0x4144 0x0050 ''ADM-XRC-5LX'' ''Virtex-4LX Bridge'',
     dev_entry 0x4144 0x0051 ''ADM-XRC-5T1'' ''ADM-XRC-5T1'',
     dev_entry 0x4144 0x0052 ''ADM-XRC-5T2'' ''Xilinx Virtex 5 PMC'',
     dev_entry 0x4144 0x0056 ''ADM-AMC-5A2'' ''Virtex 5 AMC FPGA board'',
     dev_entry 0x4144 0x0057 ''ADM-XRC-5TZ'' ''Xilinx Virtex 5 FPGA PMC '',
     dev_entry 0x4144 0x0058 ''ADC-VXS'' ''VXS FPGA and PMC Carrier Board'',
     dev_entry 0x4144 0x005B ''ADM-XRC-5T2-ADV'' ''ADM-XRC-5T2 with JPEG 2000 devices'',
     dev_entry 0x4144 0x005C ''ADM-XRC-5T-DA1'' ''FPGA PMC with Analog I/O Interface'',
     dev_entry 0x4144 0x005F ''ADM-XRC-5T2-ADV6'' ''As per XRC-5T2 but with 6 JPEG2000 devices'',
     dev_entry 0x4144 0x0300 ''ADM-XRC-6T1'' ''Xilinx Virtex 6 FPGA XMC'',
     dev_entry 0x4144 0x0301 ''ADM-XRC-6TGE'' ''Xilinx Virtex 6 FPGA XMC'',
     dev_entry 0x4144 0x0303 ''ADPe-XRC-6T-L'' ''Full lenght PCI Express Xilinx Virtex-6 FPGA platform'',
     dev_entry 0x4144 0x0305 ''ADPe-XRC-6T'' ''Full length PC Card Xilinx Virtex-6 FPGA platform'',
     dev_entry 0x17E9 0x02a7 ''0000'' ''USB VGA/DVI Adapter UV-D4A1-B'',
     dev_entry 0x1332 0x5410 ''MM-5410D'' ''PCI 32bit Bulk Memory w/DMA'',
     dev_entry 0x1332 0x5415 ''MM-5415CN'' ''PCI Battery Backed SDRAM Adapter'',
     dev_entry 0x1332 0x5425 ''MM-5425CN'' ''PCI Memory Module with Battery Backup'',
     dev_entry 0x1332 0x6140 ''MM-6140D'' ''Memory Module'',
     dev_entry 0x1888 0x0301 '''' '''',
     dev_entry 0x1888 0x0601 '''' '''',
     dev_entry 0x1888 0x0710 '''' '''',
     dev_entry 0x1888 0x0720 '''' '''',
     dev_entry 0x1888 0x2503 ''Bt881'' ''Video Capture (10 bit High qualtiy cap)'',
     dev_entry 0x1888 0x2504 ''Bt878'' ''Video Capture'',
     dev_entry 0x1888 0x3503 ''nVidia NV28'' ''VGA Geforce4 MX440'',
     dev_entry 0x1888 0x3505 ''nVidia NV28'' ''VGA Geforce4 Ti4200'',
     dev_entry 0x167F 0x4634 '''' ''FOB-IO Card'',
     dev_entry 0x167F 0x4C32 '''' ''L2B PCI Board'',
     dev_entry 0x167F 0x5344 (''SD '' @ [CHR 0x5C] @ '' VID_03 '' @ [CHR 0xC3, CHR 0x90, CHR 0xC2, CHR 0xB8] @ '' OID_5344 '' @ [CHR 0xC3, CHR 0x90, CHR 0xC2, CHR 0xB8] @ '' PID_SU01G '' @ [CHR 0xC3, CHR 0x90, CHR 0xC2, CHR 0xB8] @ '' REV_8.0'') ''FOB-SD Card'',
     dev_entry 0x167F 0x5443 '''' ''FOB-TDC Card'',
     dev_entry 0x167F 0xF0B2 ''ibaFOB-2io-D'' ''ibaFOB-2io-D'',
     dev_entry 0x167F 0xF0B4 ''ibaFOB-4io-D'' ''ibaFOB-4io-D'']"

definition PciDevTable_19 :: "PCI_DEVTABLE list" where
  "PciDevTable_19 = [
     dev_entry 0x14B5 0x0200 ''Scope'' '''',
     dev_entry 0x14B5 0x0300 ''Pulsar'' '''',
     dev_entry 0x14B5 0x0400 ''Pulsar SRB'' '''',
     dev_entry 0x14B5 0x0600 ''Pulsar 2'' '''',
     dev_entry 0x14B5 0x0800 '''' ''DSP-Board'',
     dev_entry 0x14B5 0x0900 '''' ''DSP-Board'',
     dev_entry 0x14B5 0x0A00 '''' ''DSP-Board'',
     dev_entry 0x14B5 0x0B00 '''' ''DSP-Board'',
     dev_entry 0x148C 0x4011 ''RV250'' ''RADEON 9000 PRO EVIL COMMANDO'',
     dev_entry 0x148C 0x4152 ''0x1002'' ''0x2079'',
     dev_entry 0x174B 0x0260 ''RV280'' ''Saphire Radeon 9250'',
     dev_entry 0x174B 0x0261 ''RV280'' ''Sapphire Radeon 9250 - Secondary'',
     dev_entry 0x174B 0x7176 ''RV250'' ''RADEON 9000 ATLANTIS PRO'',
     dev_entry 0x174B 0x7177 ''RV280'' ''RADEON 9000 ATLANTIS PRO - Secondary'',
     dev_entry 0x174B 0x7244 ''RV580'' ''Sapphire ATI  X1950 XT'',
     dev_entry 0x174B 0x7C12 ''RV280'' ''RADEON 9200 ATLANTIS - Secondary'',
     dev_entry 0x174B 0x7C13 ''RV280'' ''RADEON 9200 ATLANTIS'',
     dev_entry 0x174B 0x9501 ''RV620 '' ''ATI Radeon HD 3450'',
     dev_entry 0x174B 0xE106 ''0x954F'' ''Graphics Chipset  ATI Radeon HD 4300/4500 Series         '',
     dev_entry 0x174B 0xe131 ''RV770'' ''ATI 4870'',
     dev_entry 0x174B 0xE140 ''5870'' ''Sapphire HD 5870 1GB GDDR5'',
     dev_entry 0x17EE 0x4153 ''RV350'' ''Radeon 9550'',
     dev_entry 0x1328 0x2048 '''' '''',
     dev_entry 0x1328 0x8888 ''rev 1.5'' (''cPEG'' @ [CHR 0xE2, CHR 0x84, CHR 0xA2] @ '' C 3.0 DVD/MPEG2 decoder''),
     dev_entry 0x16EC 0x0116 ''RTL8169S'' ''RealTek 8169S chip'',
     dev_entry 0x16EC 0x0303 ''Rev_0200'' ''U.S. Robotics 56K FAX USB V1.1.0 /  V.92 USB modem'',
     dev_entry 0x16EC 0x1007 ''0637'' ''U.S. Robotics 56K Win INT'',
     dev_entry 0x16EC 0x2013 ''11323A'' ''U.S. Robotics 56K Voice Host Int'',
     dev_entry 0x16EC 0x2F00 ''USRobotics 5660A - Internal Soft Modem'' ''http://www.usr.com/support/product-template.asp?prod=5660a'',
     dev_entry 0x16EC 0x2f12 ''E129336-1'' ''U.S.Robotic (A- Modem/PCI)'',
     dev_entry 0x16EC 0x3685 ''1518'' ''Wireless Access Adapter Model 022415'',
     dev_entry 0x16EC 0x5685 ''E129336-1'' ''U.S. Robotics 56K Voice Host Int (A-Modem/ PCI)'',
     dev_entry 0x003D 0x003d ''mx98715/25'' ''1740pci'',
     dev_entry 0x003D 0x00D1 ''mx98715/25'' ''i740 PCI'',
     dev_entry 0x0E11 0x0001 ''2'' ''PCI to EISA Bridge'',
     dev_entry 0x0E11 0x0002 ''ISA Bridge'' ''PCI to ISA Bridge'',
     dev_entry 0x0E11 0x000F ''CPQB1A9'' ''StorageWorks Library Adapter (HVD)'',
     dev_entry 0x0E11 0x0012 ''686P7'' ''686P7'',
     dev_entry 0x0E11 0x0046 ''Intel Exteme Graphics'' ''Smart Array 6400 Controller'',
     dev_entry 0x0E11 0x0049 ''NC7132'' ''Gigabit Upgrade Module'',
     dev_entry 0x0E11 0x004A ''NC6136'' ''Gigabit Server Adapter'',
     dev_entry 0x0E11 0x005A ''PowerPC 405GP processor at 200MHz [3305103C]'' ''HP Remote Insight Lights-Out II Board'',
     dev_entry 0x0E11 0x00B1 ''3305103C'' ''HP Remote Insight Lights-Out II PCI Device'',
     dev_entry 0x0E11 0x00C0 ''Adaptec AIC-7899G'' ''64Bit,66MHz,Dual Channel WideUltra3 SCSI'',
     dev_entry 0x0E11 0x0508 ''Neteligent 4/16 TR'' ''PCI UTP/STP Controller'',
     dev_entry 0x0E11 0x1000 ''Triflex Model 1000'' ''Pentium Bridge'',
     dev_entry 0x0E11 0x2000 ''Triflex Model 2000'' ''Pentium Bridge'',
     dev_entry 0x0E11 0x3032 ''0'' ''GUI Accelerator'',
     dev_entry 0x0E11 0x3033 ''QVision 1280/p v1'' ''GUI Accelerator'',
     dev_entry 0x0E11 0x3034 ''QVision 1280/p v2'' ''GUI Accelerator'',
     dev_entry 0x0E11 0x4000 ''Triflex Model 4000'' ''Pentium Bridge'',
     dev_entry 0x0E11 0x6010 ''Model 6010'' ''HotPlug PCI Bridge'',
     dev_entry 0x0E11 0x7020 ''camara web'' ''USB Controller'',
     dev_entry 0x0E11 0xA0EC '''' ''Original Compaq fibre Channel HBA'',
     dev_entry 0x0E11 0xA0F0 '''' ''Advanced System Management Controller'',
     dev_entry 0x0E11 0xA0F3 '''' ''Triflex PCI to ISA PnP Bridge'',
     dev_entry 0x0E11 0xA0F7 ''PCI bus 6, device 4, function 4'' ''PCI Hotplug Controller'',
     dev_entry 0x0E11 0xA0F8 ''ZFMicro'' ''USB Open Host Controller'',
     dev_entry 0x0E11 0xA0FC ''HPFC-5166A'' ''Tachyon TL 64-bit/66-Mhz FC HBA'',
     dev_entry 0x0E11 0xAe10 '''' ''Smart-2 Array Controller'',
     dev_entry 0x0E11 0xAE29 ''MIS-L'' ''PCI to ISA Bridge'',
     dev_entry 0x0E11 0xAE2A ''MPC'' ''CPU to PCI Bridge'',
     dev_entry 0x0E11 0xAE2B ''MIS-E'' ''PCI to ISA PnP Bridge'',
     dev_entry 0x0E11 0xAE31 ''1002&DEV-5653&SUBSYS'' ''System Management Controller'',
     dev_entry 0x0E11 0xAE32 ''950'' ''Netelligent 10/100 TX PCI UTP TLAN 2.3'',
     dev_entry 0x0E11 0xAE33 ''Triflex'' ''Dual EIDE Controller'',
     dev_entry 0x0E11 0xAE34 '''' ''Netelligent 10 T PCI UTP TLAN 2.3'',
     dev_entry 0x0E11 0xAE35 '''' ''Integrated NetFlex 3/P TLAN 2.3'',
     dev_entry 0x0E11 0xAE40 '''' ''Dual Port Netelligent 10/100 TX PCI TLAN'',
     dev_entry 0x0E11 0xAE43 '''' ''Integrated Netelligent 10/100 TX PCI'',
     dev_entry 0x0E11 0xAE69 ''CETUS-L'' ''PCI to ISA Bridge'',
     dev_entry 0x0E11 0xAE6C ''DRACO'' ''PCI Bridge'',
     dev_entry 0x0E11 0xAE6D ''NorthStar'' ''CPU to PCI Bridge'',
     dev_entry 0x0E11 0xB011 '''' ''Dual Port Netelligent 10/100 TX'',
     dev_entry 0x0E11 0xB012 ''Netelligent 10 T/2'' ''UTP/Coax PCI'',
     dev_entry 0x0E11 0xB01E ''NC3120'' ''Fast Ethernet NIC'',
     dev_entry 0x0E11 0xB01F ''NC3122'' ''Fast Ethernet NIC'',
     dev_entry 0x0E11 0xB02F ''NC1120'' ''Ethernet NIC'',
     dev_entry 0x0E11 0xB030 ''Netelligent WS 1500'' ''10/100TX Embedded UTP/Coax Controller'',
     dev_entry 0x0E11 0xB04A ''699209-003'' ''10/100TX WOL UTP Controller'',
     dev_entry 0x0E11 0xB060 ''CISS'' ''SMART2 Array Controller'',
     dev_entry 0x0E11 0xB0C6 ''NC3161'' ''Fast Ethernet Embedded Controller w/ WOL'',
     dev_entry 0x0E11 0xB0C7 ''NC3160'' ''Fast Ethernet NIC'',
     dev_entry 0x0E11 0xB0D7 ''NC3121 rev. A & B'' ''Fast Ethernet NIC'',
     dev_entry 0x0E11 0xB0DD ''NC3131'' ''Fast Ethernet NIC'',
     dev_entry 0x0E11 0xB0DE ''NC3132'' ''Fast Ethernet NIC'',
     dev_entry 0x0E11 0xB0DF ''NC6132'' ''Gigabit Module'',
     dev_entry 0x0E11 0xB0E0 ''NC6133'' ''Gigabit Module'',
     dev_entry 0x0E11 0xB0E1 ''NC3133'' ''Fast Ethernet Module'',
     dev_entry 0x0E11 0xB123 ''NC6134'' ''Gigabit NIC'',
     dev_entry 0x0E11 0xB134 ''NC3163'' ''Fast Ethernet NIC'',
     dev_entry 0x0E11 0xB13C ''NC3162'' ''Fast Ethernet NIC'',
     dev_entry 0x0E11 0xB144 ''NC3123'' ''Fast Ethernet NIC'',
     dev_entry 0x0E11 0xB163 ''NC3134'' ''Fast Ethernet NIC'',
     dev_entry 0x0E11 0xB164 ''NC3135'' ''Fast Ethernet Upgrade Module'',
     dev_entry 0x0E11 0xB178 ''CISSB'' ''SMART2 Array Controller'',
     dev_entry 0x0E11 0xB196 ''0230'' ''Conexant SoftK56 Modem'',
     dev_entry 0x0E11 0xB1A4 ''NC7131'' ''Gigabit Server Adapter'',
     dev_entry 0x0E11 0xB203 ''iLo'' ''Integrated Lights Out Processor'',
     dev_entry 0x0E11 0xB204 ''iLo'' ''Integrated Lights Out Processor'',
     dev_entry 0x0E11 0xF095 ''FCA2101'' ''HP StorageWorks 2 Gb, 64-Bit/66-MHz PCI-to-Fibre Channel Host Bus Adapter for Windows 2000, Windows'',
     dev_entry 0x0E11 0xF130 '''' ''ThunderLAN 1.0 NetFlex-3/P'',
     dev_entry 0x0E11 0xF150 '''' ''ThunderLAN 2.3 NetFlex-3/P with BNC'',
     dev_entry 0x0E11 0xF700 '''' ''LP7000 Compaq/Emulex Fibre Channel HBA'',
     dev_entry 0x0E11 0xF800 '''' ''LP8000 Compaq/Emulex Fibre Channel HBA'',
     dev_entry 0x1000 0x0001 ''LSI53C810'' ''PCI-SCSI I/O Processor'',
     dev_entry 0x1000 0x0002 ''53C820'' ''Fast-wide SCSI gg'',
     dev_entry 0x1000 0x0003 ''LSI53C1010-33'' ''PCI to SCSI I/O Processor'',
     dev_entry 0x1000 0x0004 ''53C815'' ''SCSI raid controllers'',
     dev_entry 0x1000 0x0005 ''53C810AP'' ''Fast SCSI'',
     dev_entry 0x1000 0x0006 ''LSI53C860/860E'' ''PCI to Ultra SCSI I/O Processor'',
     dev_entry 0x1000 0x000A ''LSI53C1510'' ''PCI Dual Channel Wide Ultra2 SCSI Ctrlr'',
     dev_entry 0x1000 0x000B ''LSI53C896/897'' ''PCI Dual Channel Wide Ultra2 SCSI Ctrlr'',
     dev_entry 0x1000 0x000C ''LSI53C895'' ''PCI to Ultra2 SCSI I/O Processor'',
     dev_entry 0x1000 0x000D ''53C885'' ''Ultra Wide SCSI, Ethernet'',
     dev_entry 0x1000 0x000F ''53C875/875E/876/876E'' ''PCI to Ultra SCSI I/O Processor'',
     dev_entry 0x1000 0x0010 ''LSI53C1510'' ''I2O-Ready PCI RAID Ultra2 SCSI Ctrlr'',
     dev_entry 0x1000 0x0012 ''LSI53C895A'' ''PCI to Ultra2 SCSI Controller'',
     dev_entry 0x1000 0x0013 ''LSI53C875A'' ''PCI to Ultra SCSI Controller'',
     dev_entry 0x1000 0x0020 ''LSI53C1010-33'' ''PCI to Dual Channel Ultra3 SCSI Ctrlr'',
     dev_entry 0x1000 0x0021 ''LSI53C1000/1000R/1010R/1010-66'' ''PCI to Ultra160 SCSI Controller'',
     dev_entry 0x1000 0x0030 ''LSI53C1020/1030'' ''PCI-X to Ultra320 SCSI Controller'',
     dev_entry 0x1000 0x0031 ''LSI53C1030ZC'' ''PCI-X SCSI Controller'',
     dev_entry 0x1000 0x0032 ''LSI53C1035'' ''PCI-X to Ultra320 SCSI Controller'',
     dev_entry 0x1000 0x0035 ''LSI53C1035'' ''PCI-X SCSI Controller'',
     dev_entry 0x1000 0x0040 ''LSI53C1035'' ''PCI-X to Ultra320 SCSI Controller'',
     dev_entry 0x1000 0x0050 ''LSISAS1068E'' ''LSISAS1068E / LSI SAS 6i RAID Controller'',
     dev_entry 0x1000 0x0054 ''LSISAS1068'' ''PCI-X Fusion-MPT SAS'',
     dev_entry 0x1000 0x0056 ''LSISAS1064ET'' ''PCI-Express Fusion-MPT SAS'',
     dev_entry 0x1000 0x0058 ''LSISAS1068E'' ''PCI-Express Fusion-MPT SAS'',
     dev_entry 0x1000 0x005e ''LSISAS1066'' ''PCI-X Fusion-MPT SAS'',
     dev_entry 0x1000 0x0060 ''0x1734'' ''0x10f9'',
     dev_entry 0x1000 0x0062 ''LSISAS1078'' ''PCI-Express Fusion-MPT SAS'',
     dev_entry 0x1000 0x0064 ''LSISAS2116'' ''PCI-Express Fusion-MPT SAS 2.0'',
     dev_entry 0x1000 0x0072 ''SAS2008'' ''Dell PERC H200'',
     dev_entry 0x1000 0x0073 ''LSISAS2008'' ''IBM ServeRAID M1015'',
     dev_entry 0x1000 0x008F ''53C810'' ''LSI 53C8xx SCSI host adapter chip'',
     dev_entry 0x1000 0x0408 ''L3-01037-03D'' ''U320-2E Raid Controller'']"

definition PciDevTable_20 :: "PCI_DEVTABLE list" where
  "PciDevTable_20 = [
     dev_entry 0x1000 0x0621 ''LSIFC909'' ''Fibre Channel I/O Processor'',
     dev_entry 0x1000 0x0622 ''53c885'' ''Dial Channel Fibre Channel I/O Processor'',
     dev_entry 0x1000 0x0623 ''LSIFC929'' ''Dual Channel Fibre Channel I/O Processor'',
     dev_entry 0x1000 0x0624 ''LSIFC919'' ''Fibre Channel I/O Processor'',
     dev_entry 0x1000 0x0625 ''LSIFC919'' ''Fibre Channel I/O Processor'',
     dev_entry 0x1000 0x0626 ''LSIFC929X'' ''Fibre Channel Adapter'',
     dev_entry 0x1000 0x0628 ''LSIFC919X'' ''Fibre Channel Adapter'',
     dev_entry 0x1000 0x0630 ''LSIFC920'' ''Fibre Channel I/O Processor'',
     dev_entry 0x1000 0x0640 ''LSIFC949X'' ''Fibre Channel Adapter'',
     dev_entry 0x1000 0x0642 ''LSIFC939X'' ''Fibre Channel Adapter'',
     dev_entry 0x1000 0x0646 ''LSIFC949ES'' ''Fibre Channel Adapter'',
     dev_entry 0x1000 0x0701 ''53C885'' ''10/100 MBit Ethernet'',
     dev_entry 0x1000 0x0702 ''Yellowfin G-NIC'' ''Gigabit Ethernet Controller'',
     dev_entry 0x1000 0x0901 ''61C102'' ''USB Controller'',
     dev_entry 0x1000 0x1000 ''63C815'' ''Fast SCSI Controller'',
     dev_entry 0x1000 0x1001 ''53C895'' ''Symbios Ultra2 SCSI controller'',
     dev_entry 0x1000 0x1010 ''LSI 53C102000'' ''Single channel SCSI controller'',
     dev_entry 0x1000 0x1020 ''LSI53C1020'' ''LSI Logic MegaRAID 320-1 Dell PowerEdge PERC 4/SC'',
     dev_entry 0x1000 0x1960 ''6002432'' ''RAID Controller'',
     dev_entry 0x1000 0x9876 ''7DB82C.YF.F.3.25'' ''5946504E44383243'',
     dev_entry 0x1002 0x4370 ''RV370'' ''ATI RADEON X300/X550/X1050 Series Secondary'',
     dev_entry 0x1002 0x0002 ''EMU10K1'' ''Audio Cipset (SB) Livel'',
     dev_entry 0x1002 0x000D ''bhjkh'' ''ATI RADEON X1200 &#1089;&#1077;&#1088;&#1080;&#1080;'',
     dev_entry 0x1002 0x0300 ''1002'' ''PCI'',
     dev_entry 0x1002 0x0B12 ''R580'' ''ATI Radeon X1900'',
     dev_entry 0x1002 0x1002 ''0F2A1787'' ''0F2A1787'',
     dev_entry 0x1002 0x1043 ''RV410'' ''ATI MOBILITY/ATI RADEON X700'',
     dev_entry 0x1002 0x11 ''0x215r2qzua21'' ''0xbcg62'',
     dev_entry 0x1002 0x1111 ''ATI Technologies Inc. / Advanced Micro Devices, In'' ''ATI Technologies Inc. '',
     dev_entry 0x1002 0x1714 ''A4-3400'' (''AMD Radeon'' @ [CHR 0xE2, CHR 0x84, CHR 0xA2] @ '' HD 6410D Audio''),
     dev_entry 0x1002 0x3150 ''M24'' ''ATI MOBILITY /ATI RADEON X600'',
     dev_entry 0x1002 0x3151 ''RV380'' ''ATI FireMV 2400'',
     dev_entry 0x1002 0x3152 ''M24'' ''ATI MOBILITY /ATI RADEON X300'',
     dev_entry 0x1002 0x3154 ''M24GL'' ''ATI MOBILITY FireGL V3200'',
     dev_entry 0x1002 0x3171 ''RV380'' ''ATI FireMV 2400 Secondary'',
     dev_entry 0x1002 0x3E50 (''PCI'' @ [CHR 0x5C] @ ''VEN_1002&DEV_3E50&SUBSYS_0410174B&REV_00'' @ [CHR 0x5C] @ ''4&243'') ''ATI RADEON X600/X550 Series'',
     dev_entry 0x1002 0x3E54 ''RV380GL'' ''ATI FireGL V3200'',
     dev_entry 0x1002 0x3E70 ''RV380'' ''ATI RADEON X600/X550 Series Secondary'',
     dev_entry 0x1002 0x3E74 ''RV380GL'' ''ATI FireGL V3200 Secondary'',
     dev_entry 0x1002 0x4136 ''A3'' ''Radeon IGP 320'',
     dev_entry 0x1002 0x4137 ''RS200'' ''Radeon IGP 340m'',
     dev_entry 0x1002 0x4143 ''9550'' ''X1050'',
     dev_entry 0x1002 0x4144 ''R300'' ''ATI RADEON 9500'',
     dev_entry 0x1002 0x4145 ''R300'' ''Radeon 9200 (M+X)'',
     dev_entry 0x1002 0x4146 ''R300'' ''ATI RADEON 9600TX'',
     dev_entry 0x1002 0x4147 ''R300GL'' ''ATI FireGL Z1'',
     dev_entry 0x1002 0x4148 ''R350'' ''ATI RADEON 9800 SE'',
     dev_entry 0x1002 0x4149 ''R350'' ''ATI RADEON 9500'',
     dev_entry 0x1002 0x4150 ''RV350'' ''ATI RADEON 9600'',
     dev_entry 0x1002 0x4151 ''RV350'' ''ATI RADEON 9600 Series'',
     dev_entry 0x1002 0x4152 ''RV360'' ''ATI RADEON 9600 Series'',
     dev_entry 0x1002 0x4153 ''RV350'' ''ATI RADEON 9550/X1050 Series'',
     dev_entry 0x1002 0x4154 ''RV350GL'' ''ATI FireGL T2'',
     dev_entry 0x1002 0x4155 ''RV350'' ''ATI RADEON 9600 Series'',
     dev_entry 0x1002 0x4158 ''0x5954'' ''Mach32xBH'',
     dev_entry 0x1002 0x4164 ''R300'' ''ATI RADEON 9500 Secondary'',
     dev_entry 0x1002 0x4166 ''R300'' ''ATI RADEON 9600TX Secondary'',
     dev_entry 0x1002 0x4167 ''R300GL'' ''ATI FireGL Z1 Secondary'',
     dev_entry 0x1002 0x4168 ''R350'' ''ATI RADEON 9800 SE Secondary'',
     dev_entry 0x1002 0x4169 ''R350'' ''ATI RADEON 9500 Secondary'',
     dev_entry 0x1002 0x4170 ''RV350'' ''ATI RADEON 9600 Series Secondary'',
     dev_entry 0x1002 0x4171 ''RV350'' ''ATI RADEON 9600 Series Secondary'',
     dev_entry 0x1002 0x4172 ''REV_00'' ''ATI RADEON 9600 Series Secondary'',
     dev_entry 0x1002 0x4173 ''RV350'' ''ATI RADEON 9550/X1050 Series Secondary'',
     dev_entry 0x1002 0x4174 ''RV350GL'' ''ATI FireGL T2 Secondary'',
     dev_entry 0x1002 0x4175 ''RV350'' ''RADEON 9200 pro secundar'',
     dev_entry 0x1002 0x4242 ''R200AIW'' ''All-In-Wonder 8500DV'',
     dev_entry 0x1002 0x4243 '''' ''Lucent OHCI IEEE1394 Host Controller'',
     dev_entry 0x1002 0x4336 ''rs200'' ''Radeon IGP 320M'',
     dev_entry 0x1002 0x4337 ''RS200M'' ''RADEON IGP 345M'',
     dev_entry 0x1002 0x4341 ''SB200'' (''AC'' @ [CHR 0x27] @ ''97 Audio Controller''),
     dev_entry 0x1002 0x4342 ''SB200'' ''PCI-PCI Bridge'',
     dev_entry 0x1002 0x4345 ''SB200'' ''EHCI USB Controller'',
     dev_entry 0x1002 0x4347 ''SB200'' ''USB Controller'',
     dev_entry 0x1002 0x4348 ''SB200'' ''USB Controller'',
     dev_entry 0x1002 0x4349 ''SB200'' ''PATA-100 IDE Controller'',
     dev_entry 0x1002 0x434C ''SB200'' ''PCI-ISA Bridge'',
     dev_entry 0x1002 0x434d ''SB200'' (''AC'' @ [CHR 0x27] @ ''97 Modem Controller''),
     dev_entry 0x1002 0x4353 ''SB200'' ''SMBus Controller'',
     dev_entry 0x1002 0x4354 ''215CT'' ''Mach64 CT'',
     dev_entry 0x1002 0x4358 ''210888CX'' (''PCI'' @ [CHR 0x5C] @ ''VEN_1002&DEV_6760&SUBSYS_05031028&REV_00''),
     dev_entry 0x1002 0x4361 ''ALC665'' ''ATI AC97 REALTEK AUDIO DRIVER'',
     dev_entry 0x1002 0x4363 ''SB300'' ''ATI SOUTH BRIDGE SB300 DRIVER'',
     dev_entry 0x1002 0x4369 ''IXP 3xx'' ''PATA 133 Controller'',
     dev_entry 0x1002 0x436E ''IXP 3xx'' ''ATI 436E Serial ATA Controller'',
     dev_entry 0x1002 0x4370 ''SB400'' (''AC'' @ [CHR 0x27] @ ''97 Audio Controller''),
     dev_entry 0x1002 0x4371 ''IXP SB400'' ''PCI-PCI Bridge'',
     dev_entry 0x1002 0x4372 ''SMBus Controller'' ''SMBus Controller'',
     dev_entry 0x1002 0x4373 ''IXP SB400'' ''EHCI USB 2.0 Controller'',
     dev_entry 0x1002 0x4374 ''IXP SB400'' ''OHCI USB Controller'',
     dev_entry 0x1002 0x4375 ''IXP SB400'' ''OHCI USB Controller'',
     dev_entry 0x1002 0x4376 ''SB4xx'' ''PATA 133 Controller'',
     dev_entry 0x1002 0x4377 ''IXP SB400'' ''PCI-ISA Bridge'',
     dev_entry 0x1002 0x4378 ''SB400'' (''AC'' @ [CHR 0x27] @ ''97 Modem Controller''),
     dev_entry 0x1002 0x4379 ''SB400 / SB450 (Sil3112)'' ''ATI 4379 Serial ATA Controller'',
     dev_entry 0x1002 0x437A ''SB4xx'' ''ATI 437A Serial ATA Controller'',
     dev_entry 0x1002 0x437B ''SB450'' ''High Definition Audio Controller '',
     dev_entry 0x1002 0x4380 ''ATI SB600'' ''SATA2'',
     dev_entry 0x1002 0x4381 ''ATI ?'' ''AHCI/Raid Controller'',
     dev_entry 0x1002 0x4383 ''SB700'' ''High Definition Audio controller'',
     dev_entry 0x1002 0x4385 ''ATI RD600/RS600'' ''ATI SMBus'',
     dev_entry 0x1002 0x4386 ''690G'' ''Northbridge'',
     dev_entry 0x1002 0x438C ''RD600/RS600'' ''ATI RD600/RS600 IDE Controller'',
     dev_entry 0x1002 0x438D ''SB600'' ''PCI to LPC Bridge'',
     dev_entry 0x1002 0x439 ''rv360'' ''ATI Technologies SB700 LPCHost Controller'',
     dev_entry 0x1002 0x4390 ''SB750'' ''Integrated SATA II Controller'',
     dev_entry 0x1002 0x4391 ''ATI SB700'' ''AHCI Controller'',
     dev_entry 0x1002 0x4392 ''ATI SB700'' ''Raid Controller'',
     dev_entry 0x1002 0x4393 ''ATI SB850'' ''RAID-Controller'',
     dev_entry 0x1002 0x4396 ''210888CX'' ''Mach64 CX'',
     dev_entry 0x1002 0x4398 ''SB700'' ''Standard OpenHCD USB-Hostcontroller'',
     dev_entry 0x1002 0x439C ''SB7xx'' ''PATA 133 Controller'',
     dev_entry 0x1002 0x439D ''SB700 LPC'' ''ATI Technologies SB700 LPCHost '',
     dev_entry 0x1002 0x4437 ''ATI Mobility Radeon 7000 IGP'' ''RS250M'',
     dev_entry 0x1002 0x4554 ''Mach64 ET'' '''',
     dev_entry 0x1002 0x4654 ''Mach64 VT'' ''113--34004-104'',
     dev_entry 0x1002 0x4742 ''(GT-C2U2)'' ''3D Rage Pro AGP 1X'',
     dev_entry 0x1002 0x4744 ''Rage 3D Pro AGP 2x'' ''Rage 3D Pro AGP 2x'',
     dev_entry 0x1002 0x4747 ''GT-C2U2'' ''Rage 3D Pro'',
     dev_entry 0x1002 0x4749 ''RAGE PRO TURBO AGP 2X'' ''ATI ALL IN WONDER PRO (8MB)'',
     dev_entry 0x1002 0x474C ''Rage XC PCI-66'' ''k7 som+'',
     dev_entry 0x1002 0x474D ''Rage XL AGP 2x'' ''SLAT'',
     dev_entry 0x1002 0x474E ''Rage XC AGP 2x'' '''',
     dev_entry 0x1002 0x474F ''Rage XL PCI-66'' ''I Need Driver for the Chip'',
     dev_entry 0x1002 0x4750 ''1039'' ''ATI 3D Rage Pro 215GP'',
     dev_entry 0x1002 0x4751 ''0x1002'' ''0x4752'',
     dev_entry 0x1002 0x4752 ''Rage XL PCI'' ''ATI On-Board VGA for HP Proliant 350 G3'',
     dev_entry 0x1002 0x4753 ''Rage XC PCI'' '''',
     dev_entry 0x1002 0x4754 ''Mach 64 VT'' ''Rage 3D II Graphics Accelerator'',
     dev_entry 0x1002 0x4755 ''Rage 3D II+pci'' ''3d rage 2 + dvd'',
     dev_entry 0x1002 0x4756 ''Rage 3D IIC AGP'' ''Graphics Accelerator'',
     dev_entry 0x1002 0x4757 ''3D 11C AGP'' ''Rage 3D IIC AGP'',
     dev_entry 0x1002 0x4758 ''210888GX'' ''Mach64 GX'',
     dev_entry 0x1002 0x4759 ''215r2qzua21'' ''m3d agp card on agp slot'',
     dev_entry 0x1002 0x475A ''215r2qua12'' ''Rage IIC AGP'',
     dev_entry 0x1002 0x4966 ''RV250'' ''Radeon 9000/9000 Pro'',
     dev_entry 0x1002 0x4967 ''RV250'' ''Radeon 9000'',
     dev_entry 0x1002 0x496E ''RV250'' ''Radeon 9000/9000 Pro - Secondary'',
     dev_entry 0x1002 0x496F ''RV250'' ''Radeon 9000 - Secondary'',
     dev_entry 0x1002 0x4A48 ''R420'' ''ATI RADEON X800 Series'',
     dev_entry 0x1002 0x4a49 ''R420'' ''ATI RADEON X800 PRO'',
     dev_entry 0x1002 0x4A4A ''R420'' ''ATI RADEON X800 Series'',
     dev_entry 0x1002 0x4a4b ''R420'' ''ATI RADEON X800 XT'',
     dev_entry 0x1002 0x4A4C ''R420'' ''ATI RADEON X800 Series'']"

definition PciDevTable_21 :: "PCI_DEVTABLE list" where
  "PciDevTable_21 = [
     dev_entry 0x1002 0x4A4D ''R420GL'' ''ATI FireGL X3-256'',
     dev_entry 0x1002 0x4A4E ''M18'' ''ATI MOBILITY /ATI RADEON 9800'',
     dev_entry 0x1002 0x4A4F ''R420'' ''ATI RADEON X800 SE'',
     dev_entry 0x1002 0x4A50 ''R420'' ''ATI RADEON X800 XT Platinum Edition'',
     dev_entry 0x1002 0x4A54 ''R420'' ''ATI RADEON X800 VE'',
     dev_entry 0x1002 0x4A68 ''R420'' ''ATI RADEON X800 Series Secondary'',
     dev_entry 0x1002 0x4A69 ''R420'' ''ATI RADEON X800 PRO Secondary'',
     dev_entry 0x1002 0x4A6A ''R420'' ''ATI RADEON X800 Series Secondary'',
     dev_entry 0x1002 0x4a6b ''R420'' ''ATI RADEON X800 XT Secondary'',
     dev_entry 0x1002 0x4A6C ''R420'' ''ATI RADEON X800 Series Secondary'',
     dev_entry 0x1002 0x4A6D ''R420GL'' ''ATI FireGL X3-256 Secondary'',
     dev_entry 0x1002 0x4A6F ''R420'' ''ATI RADEON X800 SE Secondary'',
     dev_entry 0x1002 0x4A70 ''R420'' ''ATI RADEON X800 XT Platinum Edition Secondary'',
     dev_entry 0x1002 0x4A74 ''R420'' ''ATI RADEON X800 VE Secondary'',
     dev_entry 0x1002 0x4B49 ''R481'' ''ATI RADEON X850 XT'',
     dev_entry 0x1002 0x4B4B ''R481'' ''ATI RADEON X850 PRO'',
     dev_entry 0x1002 0x4B4C ''R481'' ''ATI RADEON X850 XT Platinum Edition'',
     dev_entry 0x1002 0x4B69 ''R481'' ''ATI RADEON X850 XT Secondary'',
     dev_entry 0x1002 0x4B6A ''R481'' ''ATI RADEON X850 SE Secondary'',
     dev_entry 0x1002 0x4B6B ''R481'' ''ATI RADEON X850 PRO Secondary'',
     dev_entry 0x1002 0x4B6C ''R481'' ''ATI RADEON X850 XT Platinum Edition Secondary'',
     dev_entry 0x1002 0x4C42 ''B10E0E11'' ''3D Rage LT Pro AGP-133'',
     dev_entry 0x1002 0x4C44 ''Rage 3D LT Pro AGP'' ''Rage 3D LT Pro AGP 133 MHz'',
     dev_entry 0x1002 0x4C45 '''' ''Rage Mobility M3 AGP'',
     dev_entry 0x1002 0x4C46 ''Mobility M3 AGP'' ''0x9495'',
     dev_entry 0x1002 0x4C47 ''ati rage pro'' ''Rage 3D LT-G'',
     dev_entry 0x1002 0x4C49 ''123'' ''Rage 3D LT Pro'',
     dev_entry 0x1002 0x4C4D ''01541014'' ''Rage P/M Mobility AGP 2x'',
     dev_entry 0x1002 0x4C4E ''216lo sasa25'' ''Rage Mobility l'',
     dev_entry 0x1002 0x4C50 ''unknown'' ''Rage 3D LT Pro PCI'',
     dev_entry 0x1002 0x4C51 ''113'' ''Rage 3D LT Pro PCI'',
     dev_entry 0x1002 0x4C52 ''1241243'' ''Rage P/M Mobility agp'',
     dev_entry 0x1002 0x4C53 ''216L0SASA25'' ''Rage L Mobility PCI'',
     dev_entry 0x1002 0x4C54 ''4372'' ''Mach 64 LT'',
     dev_entry 0x1002 0x4C57 ''M7 [LW]'' ''Mobility Radeon 7500'',
     dev_entry 0x1002 0x4C58 '''' ''FireGL Mobility'',
     dev_entry 0x1002 0x4C59 ''Mobility 6'' ''Radeon Mobility M6 Series (Also known as ATI R7000 64MB TV PCI)'',
     dev_entry 0x1002 0x4C5A '''' ''Radeon Mobility M6 LZ'',
     dev_entry 0x1002 0x4C64 '''' ''Radeon Mobility M9-GL'',
     dev_entry 0x1002 0x4C66 ''RV250'' ''ATI MOBILITY RADEON 9000'',
     dev_entry 0x1002 0x4C6E ''0x4C6E'' ''ATI FireMV 2400 PCI'',
     dev_entry 0x1002 0x4D46 ''ATI mobility128'' ''Rage Mobility 128 AGP 4x'',
     dev_entry 0x1002 0x4D4C ''216l0sasa25'' ''Rage Mobility 128 AGP'',
     dev_entry 0x1002 0x4D52 ''ATI Theater 550 Pro'' ''ATI Theater 550 Pro'',
     dev_entry 0x1002 0x4D53 ''TVT2 Wonder Elite'' ''TVT2 Wonder Elite'',
     dev_entry 0x1002 0x4E44 ''R300'' ''ATI RADEON 9700 PRO'',
     dev_entry 0x1002 0x4E45 ''R300'' ''ATI RADEON 9500 PRO / 9700'',
     dev_entry 0x1002 0x4e46 ''R300'' ''ATI RADEON 9600 TX'',
     dev_entry 0x1002 0x4E47 ''R300GL'' ''ATI FireGL X1'',
     dev_entry 0x1002 0x4E48 ''R350'' ''ATI RADEON 9800 PRO'',
     dev_entry 0x1002 0x4E49 ''R350'' ''ATI RADEON 9800'',
     dev_entry 0x1002 0x4E4A ''R360'' ''ATI RADEON 9800 XT'',
     dev_entry 0x1002 0x4E4B ''R350GL'' ''ATI FireGL X2-256/X2-256t'',
     dev_entry 0x1002 0x4E50 ''M10'' ''ATI MOBILITY /ATI RADEON 9600/9700 Series'',
     dev_entry 0x1002 0x4E51 ''RV350'' ''ATI RADEON 9600 Series'',
     dev_entry 0x1002 0x4E52 ''M10'' ''ATI MOBILITY /ATI RADEON 9500'',
     dev_entry 0x1002 0x4E54 ''M10GL'' ''ATI MOBILITY FIRE GL T2/T2e'',
     dev_entry 0x1002 0x4E56 ''M12'' ''ATI MOBILITY /ATI RADEON 9400'',
     dev_entry 0x1002 0x4E64 ''R300'' ''ATI RADEON 9700'',
     dev_entry 0x1002 0x4E65 ''R300'' ''ATI RADEON 9500 PRO / 9700 Secondary'',
     dev_entry 0x1002 0x4e66 ''R300'' ''ATI RADEON 9600 TX Secondary'',
     dev_entry 0x1002 0x4E67 ''R300GL'' ''ATI FireGL X1 Secondary'',
     dev_entry 0x1002 0x4E68 ''R350'' ''ATI RADEON 9800 PRO Secondary'',
     dev_entry 0x1002 0x4E69 ''R350'' ''ATI RADEON 9800 Secondary'',
     dev_entry 0x1002 0x4E6A ''R360'' ''ATI RADEON 9800 XT Secondary'',
     dev_entry 0x1002 0x4E6B ''R350GL'' ''ATI FireGL X2-256/X2-256t Secondary'',
     dev_entry 0x1002 0x4E71 ''RV350'' ''ATI RADEON 9600 Series Secondary'',
     dev_entry 0x1002 0x5041 ''gt'' ''Rage 128 Pro PA PCI'',
     dev_entry 0x1002 0x5042 ''rage 128 pf pro agp '' ''Rage 128 Pro PB AGP 2x'',
     dev_entry 0x1002 0x5043 ''1231324445'' ''Rage 128 Pro PC AGP 4x'',
     dev_entry 0x1002 0x5044 ''rv100'' ''Rage 128 Pro PD PCI'',
     dev_entry 0x1002 0x5045 '''' ''Rage 128 Pro PE AGP 2x'',
     dev_entry 0x1002 0x5046 ''R128'' ''Rage 128 Pro PF AGP 4x'',
     dev_entry 0x1002 0x5047 ''215R3BUA22'' '' 3d Rage pro agp 2x'',
     dev_entry 0x1002 0x5048 ''8212104D'' ''Rage 128 Pro PH AGP 2x'',
     dev_entry 0x1002 0x5049 ''R128'' ''Rage 128 Pro PI AGP 4x'',
     dev_entry 0x1002 0x504A ''Rage 128 Pro PJ PCI'' ''Rage 128 Pro PJ PCI (TMDS)'',
     dev_entry 0x1002 0x504B ''Rage 128 Pro PK AGP'' ''Rage 128 Pro PK AGP 2x (TMDS)'',
     dev_entry 0x1002 0x504C ''Rage 128 Pro PL AGP'' ''4x (TMDS)'',
     dev_entry 0x1002 0x504D ''Rage 128 Pro PM PCI'' ''Rage 128 Pro PM PCI'',
     dev_entry 0x1002 0x504E ''Rage 128 Pro PN AGP'' ''Rage 128 Pro PN AGP 2x'',
     dev_entry 0x1002 0x504F ''Rage 128 Pro PO AGP'' ''Rage 128 Pro PO AGP 4x'',
     dev_entry 0x1002 0x5050 ''Scheda Grafica Standard PCI(VGA)'' ''Rage 128 Pro PP PCI (TMDS)'',
     dev_entry 0x1002 0x5051 ''Rage 128 Pro PQ AGP'' ''Rage 128 Pro PQ AGP 2x (TMDS)'',
     dev_entry 0x1002 0x5052 ''Rage 128 Pro PR AGP'' ''Rage 128 Pro PR AGP 4x (TMDS)'',
     dev_entry 0x1002 0x5053 ''Rage 128 Pro PS PCI'' ''Rage 128 Pro PS PCI'',
     dev_entry 0x1002 0x5054 ''Rage 128 Pro PT AGP'' ''Rage 128 Pro PT AGP 2x'',
     dev_entry 0x1002 0x5055 ''rage 128 pro agp 4x tmds'' ''rage 128 pro agp 4x tmds'',
     dev_entry 0x1002 0x5056 ''Rage 128 Pro PV PCI'' ''Rage 128 Pro PV PCI (TMDS)'',
     dev_entry 0x1002 0x5057 ''Rage 128 Pro PW AGP'' ''Rage 128 Pro PW AGP 2x (TMDS)'',
     dev_entry 0x1002 0x5058 ''Rage 128 Pro'' ''PX AGP 4x (TMDS)'',
     dev_entry 0x1002 0x5144 ''Radeon 7200 QD SDR/DDR'' ''Radeon 7200 QD SDR/DDR'',
     dev_entry 0x1002 0x5145 '''' ''Radeon QE'',
     dev_entry 0x1002 0x5146 '''' ''Radeon QF'',
     dev_entry 0x1002 0x5147 '''' ''Radeon QG'',
     dev_entry 0x1002 0x5148 ''R200'' ''Radeon R200 QH'',
     dev_entry 0x1002 0x5149 '''' ''Radeon R200 QI'',
     dev_entry 0x1002 0x514A '''' ''Radeon R200 QJ'',
     dev_entry 0x1002 0x514B '''' ''Radeon R200 QK'',
     dev_entry 0x1002 0x514C ''R200'' ''Radeon 8500 / 8500LE'',
     dev_entry 0x1002 0x514D ''R200'' ''Redeon 9100 Series'',
     dev_entry 0x1002 0x514E '''' ''Radeon R200 QM'',
     dev_entry 0x1002 0x514F '''' ''Radeon R200 QN'',
     dev_entry 0x1002 0x5157 ''RV200'' ''Radeon 7500'',
     dev_entry 0x1002 0x5158 ''radeon 9700 or 9200'' ''Radeon 7500 QX'',
     dev_entry 0x1002 0x5159 ''RV100'' ''Radeon 7000 series AGP '',
     dev_entry 0x1002 0x515A '''' ''Radeon VE QZ'',
     dev_entry 0x1002 0x515E ''Radeon ES1000'' ''Radeon ES1000'',
     dev_entry 0x1002 0x5168 ''ati'' ''Radeon R200 Qh'',
     dev_entry 0x1002 0x5169 '''' ''Radeon R200 Qi'',
     dev_entry 0x1002 0x516A '''' ''Radeon R200 Qj'',
     dev_entry 0x1002 0x516B '''' ''Radeon R200 Qk'',
     dev_entry 0x1002 0x516C ''E7505'' ''Radeon 8500 / 8500LE'',
     dev_entry 0x1002 0x516D ''R200'' ''Redeon 9100 Series - Secondary'',
     dev_entry 0x1002 0x5245 ''215R2QZUA21'' ''Rage 128 GL PCI'',
     dev_entry 0x1002 0x5246 ''Rage 128'' ''Rage 32MB'',
     dev_entry 0x1002 0x5247 ''Rage 32MB'' ''Rage 128 RG'',
     dev_entry 0x1002 0x524B ''g01080-108'' ''Rage 128 VR RK PCI'',
     dev_entry 0x1002 0x524C '''' ''Rage 128 VR RL AGP 2x'',
     dev_entry 0x1002 0x5345 '''' ''Rage 128 4x SE PCI'',
     dev_entry 0x1002 0x5346 ''Rage 128 SF 4x AGP 2x'' ''Rage 128 SF 4x AGP 2x'',
     dev_entry 0x1002 0x5347 '''' ''Rage 128 SG 4x AGP 4x'',
     dev_entry 0x1002 0x5348 '''' ''Rage 128 4x SH'',
     dev_entry 0x1002 0x534B ''Rage 128 SK PCI'' ''Rage 128 4x SK PCI'',
     dev_entry 0x1002 0x534C ''Rage 128 SL AGP 2x'' ''Rage 128 4x SL AGP 2x'',
     dev_entry 0x1002 0x534D ''Rage 128 SM AGP 4x'' ''Rage 128 4x SM AGP 4x'',
     dev_entry 0x1002 0x534E ''Rage 128 4x'' '''',
     dev_entry 0x1002 0x5354 '''' ''Mach 64 ST'',
     dev_entry 0x1002 0x5446 ''unknown'' ''Rage 128 Pro Ultra TF'',
     dev_entry 0x1002 0x544C '''' ''Rage 128 Pro TL'',
     dev_entry 0x1002 0x5452 '''' ''Rage 128 Pro TR'',
     dev_entry 0x1002 0x5455 '''' ''Rage 128 Pro Ultra TU'',
     dev_entry 0x1002 0x5457 ''RS200M'' ''RADEON IGP 345M'',
     dev_entry 0x1002 0x5460 ''M22'' ''ATI MOBILITY /ATI RADEON X300'',
     dev_entry 0x1002 0x5461 ''M22'' ''ATI MOBILITY /ATI RADEON X300'',
     dev_entry 0x1002 0x5462 ''M24C'' ''ATI MOBILITY /ATI RADEON X600 SE'',
     dev_entry 0x1002 0x5464 ''M22GL'' ''ATI MOBILITY FireGL V3100'',
     dev_entry 0x1002 0x5548 ''R423'' ''ATI RADEON X800 Series'',
     dev_entry 0x1002 0x5549 ''R423'' ''ATI RADEON X800 GTO'',
     dev_entry 0x1002 0x554A ''R423'' ''ATI RADEON X800 XT Platinum Edition'',
     dev_entry 0x1002 0x554b ''R423'' ''ATI RADEON X800 GT'',
     dev_entry 0x1002 0x554D ''R430'' ''ATI RADEON X800 CrossFire Edition'',
     dev_entry 0x1002 0x554E ''R430'' ''ATI RADEON X800 GT'',
     dev_entry 0x1002 0x554F ''R430'' ''ATI RADEON X800 GTO'',
     dev_entry 0x1002 0x5550 ''R423GL'' ''ATI FireGL V7100'',
     dev_entry 0x1002 0x5551 ''R423GL'' ''ATI FireGL V5100'',
     dev_entry 0x1002 0x5568 ''R423'' ''ATI RADEON X800 Series Secondary'',
     dev_entry 0x1002 0x5569 ''R423'' ''ATI RADEON X800 GTO Secondary'']"

definition PciDevTable_22 :: "PCI_DEVTABLE list" where
  "PciDevTable_22 = [
     dev_entry 0x1002 0x556A ''R423'' ''ATI RADEON X800 XT Platinum Edition Secondary'',
     dev_entry 0x1002 0x556B ''R423'' ''ATI RADEON X800 GT Secondary'',
     dev_entry 0x1002 0x556D ''R430'' ''ATI RADEON X800 CrossFire Edition Secondary'',
     dev_entry 0x1002 0x556E ''R430'' ''ATI RADEON X800 GT Secondary'',
     dev_entry 0x1002 0x556F ''R430'' ''ATI RADEON X800 GTO Secondary'',
     dev_entry 0x1002 0x5570 ''R423GL'' ''ATI FireGL V7100 Secondary'',
     dev_entry 0x1002 0x5571 ''R423GL'' ''ATI FireGL V5100  Secondary'',
     dev_entry 0x1002 0x564A ''M26GL'' ''ATI MOBILITY FireGL V5000'',
     dev_entry 0x1002 0x564B ''M26GL'' ''ATI MOBILITY FireGL V5000'',
     dev_entry 0x1002 0x564F ''M26'' ''ATI MOBILITY /ATI RADEON X700 XL'',
     dev_entry 0x1002 0x5652 ''M26'' ''ATI MOBILITY /ATI RADEON X700'',
     dev_entry 0x1002 0x5653 ''RV410'' ''ATI MOBILITY/ATI RADEON X700'',
     dev_entry 0x1002 0x5654 ''264VT'' ''Mach64 VT'',
     dev_entry 0x1002 0x5655 '''' ''Mach 64 VT3'',
     dev_entry 0x1002 0x5656 ''Mach 64 VT4 PCI'' ''Mach 64 VT4 PCI'',
     dev_entry 0x1002 0x5657 ''RV410'' ''ATI RADEON X550/X700 Series'',
     dev_entry 0x1002 0x5673 ''M26'' ''ATI MOBILITY /ATI RADEON X700 Secondary'',
     dev_entry 0x1002 0x5677 ''RV410'' ''ATI RADEON X550/X700 Series Secondary'',
     dev_entry 0x1002 0x5830 ''RS300'' ''Host Bridge'',
     dev_entry 0x1002 0x5831 ''RS300'' ''Host Bridge'',
     dev_entry 0x1002 0x5832 ''RS300'' ''Host Bridge'',
     dev_entry 0x1002 0x5833 ''RS300M'' ''ATI Radeon 9000/9100 IGP Chipset - Host-PCI Bridge'',
     dev_entry 0x1002 0x5834 ''RS300'' ''Radeon 9100 IGP'',
     dev_entry 0x1002 0x5835 ''RS300M'' ''Mobilitiy Radeon 9000 IGP (RGP)'',
     dev_entry 0x1002 0x5838 ''RS330M'' ''ATI Radeon 9000/9100 IGP Chipset - AGP Controller'',
     dev_entry 0x1002 0x5854 ''RS480'' ''ATI RADEON Xpress Series'',
     dev_entry 0x1002 0x5874 ''RS482'' ''ATI RADEON Xpress Series'',
     dev_entry 0x1002 0x5940 ''RV280'' ''Radeon 9200 Pro Secondary'',
     dev_entry 0x1002 0x5941 ''RV280'' ''ATI Radeon 9200 - Secondary'',
     dev_entry 0x1002 0x5950 ''RS480'' ''Host Bridge'',
     dev_entry 0x1002 0x5954 ''RS482'' ''ATI RADEON Xpress 200'',
     dev_entry 0x1002 0x5955 ''RS480M'' ''ATI RADEON Xpress 200M'',
     dev_entry 0x1002 0x5960 ''RV280'' ''Radeon 9200 Pro'',
     dev_entry 0x1002 0x5961 ''RV280'' ''ATI RADEON 9200 se agp'',
     dev_entry 0x1002 0x5962 ''RV280'' ''Radeon 9200'',
     dev_entry 0x1002 0x5964 ''Radeon 9200'' ''Radeon 9200 SE Series'',
     dev_entry 0x1002 0x5965 ''unknown'' ''FireMV 2200'',
     dev_entry 0x1002 0x5974 ''RS482'' ''ATI RADEON Xpress Series'',
     dev_entry 0x1002 0x5975 ''RS482M (200M)'' ''ATI RADEON Xpress Series'',
     dev_entry 0x1002 0x5a23 ''RD890'' ''AMD IOMMU'',
     dev_entry 0x1002 0x5a31 ''RS400/133'' ''Host Bridge'',
     dev_entry 0x1002 0x5A33 ''RC410'' ''Northbridge: Radeon Xpress 200'',
     dev_entry 0x1002 0x5A41 ''0x5A41  ATI RADEON Xpress 1200 Series  0x1002'' ''0x5A41  ATI RADEON Xpress 1200 Series  0x1002'',
     dev_entry 0x1002 0x5A41 ''RS400'' ''ATI RADEON Xpress Series'',
     dev_entry 0x1002 0x5A42 ''RS400M'' ''ATI RADEON Xpress Series'',
     dev_entry 0x1002 0x5A43 ''RS400'' ''ATI RADEON Xpress Series'',
     dev_entry 0x1002 0x5A60 ''SUBSYS_FF311179'' ''Video Controller'',
     dev_entry 0x1002 0x5A61 ''RC410'' ''ATI Radeon Xpress 200'',
     dev_entry 0x1002 0x5A62 ''http://www.csd.toshiba.com/cgi-bin/tais/support/js'' ''ATI RADEON Xpress &#1057;&#1077;&#1088;&#1080;&#1080;'',
     dev_entry 0x1002 0x5A63 ''RC410'' ''ATI RADEON Xpress Series'',
     dev_entry 0x1002 0x5b60 ''RV370'' ''ATI RADEON X300/X550/X1050 Series'',
     dev_entry 0x1002 0x5b62 ''RV380x'' ''ATI RADEON X600 Series'',
     dev_entry 0x1002 0x5B63 (''REV_00'' @ [CHR 0x5C] @ ''4&399D3C6A&0&0008'') ''ATI RADEON X300/X550/X1050 Series'',
     dev_entry 0x1002 0x5B64 ''RV370GL'' ''ATI FireGL V3100'',
     dev_entry 0x1002 0x5B65 ''RV370'' ''ATI FireMV 2200'',
     dev_entry 0x1002 0x5B60 ''RV370'' ''ATI RADEON X300/X550/X1050 Series'',
     dev_entry 0x1002 0x5B70 ''RV370'' ''Gigabyte RADEON X300 Series Secondary'',
     dev_entry 0x1002 0x5B72 ''RV380x'' ''ATI RADEON X600 Series Secondary'',
     dev_entry 0x1002 0x5B73 ''RV370'' ''0 SerieATI RADEON X300 Secondary'',
     dev_entry 0x1002 0x5B74 ''RV370GL'' ''ATI FireGL V3100 Secondary'',
     dev_entry 0x1002 0x5B75 ''RV370'' ''ATI FireMV 2200 Secondary'',
     dev_entry 0x1002 0x5C61 ''bk-ati ver008.016m.085.006'' ''Mobility Radeon 9200'',
     dev_entry 0x1002 0x5C63 ''RV280 (M9+)'' ''Mobility Radeon 9200'',
     dev_entry 0x1002 0x5D44 ''RV280'' ''Radeon 9200 SE Series - Secondary'',
     dev_entry 0x1002 0x5D45 ''RV280'' ''ATI FireMV 2200 PCI Secondary'',
     dev_entry 0x1002 0x5D48 ''M28'' ''ATI MOBILITY/ATI RADEON X800  XT'',
     dev_entry 0x1002 0x5D49 ''M28GL'' ''ATI MOBILITY FireGL V5100'',
     dev_entry 0x1002 0x5d4a ''M28'' ''ATI MOBILITY /ATI RADEON X800'',
     dev_entry 0x1002 0x5d4d ''R480'' ''ATI RADEON X850 XT Platinum Edition'',
     dev_entry 0x1002 0x5d4f ''R480'' ''ATI RADEON X800 GTO'',
     dev_entry 0x1002 0x5D50 ''R480GL'' ''ATI FireGL V7200'',
     dev_entry 0x1002 0x5d52 ''R480'' ''ATI RADEON X850 XT'',
     dev_entry 0x1002 0x5D57 ''R423'' ''ATI RADEON X800 XT'',
     dev_entry 0x1002 0x5d6d ''R480'' ''ATI RADEON X850 XT Platinum Edition Secondary'',
     dev_entry 0x1002 0x5D6F ''R480'' ''ATI RADEON X800 GTO Secondary'',
     dev_entry 0x1002 0x5D70 ''R480GL'' ''ATI FireGL V7200 Secondary'',
     dev_entry 0x1002 0x5D72 ''R480'' ''ATI RADEON X850 XT Secondary'',
     dev_entry 0x1002 0x5D77 ''R423'' ''ATI RADEON X800 XT Secondary'',
     dev_entry 0x1002 0x5E48 ''RV410GL'' ''ATI FireGL V5000'',
     dev_entry 0x1002 0x5E4A ''RV410'' ''ATI RADEON X700 XT'',
     dev_entry 0x1002 0x5E4B ''RV410'' ''ATI RADEON X700 PRO'',
     dev_entry 0x1002 0x5E4C ''RV410'' ''ATI RADEON X700 SE'',
     dev_entry 0x1002 0x5E4D ''RV410'' ''ATI RADEON X700'',
     dev_entry 0x1002 0x5E4F ''RV410'' ''ATI RADEON X700/X550 Series'',
     dev_entry 0x1002 0x5E68 ''RV410GL'' ''ATI FireGL V5000 Secondary'',
     dev_entry 0x1002 0x5E6A ''RV410'' ''ATI RADEON X700 XT Secondary'',
     dev_entry 0x1002 0x5E6B ''RV410'' ''ATI RADEON X700 PRO Secondary'',
     dev_entry 0x1002 0x5E6C ''RV410'' ''ATI RADEON X700 SE Secondary'',
     dev_entry 0x1002 0x5E6D ''RV410'' ''ATI RADEON X700 Secondary'',
     dev_entry 0x1002 0x5E6F ''RV410'' ''ATI RADEON X700/X550 Series Secondary'',
     dev_entry 0x1002 0x6718 ''CAYMAN XT'' ''AMD Radeon HD 6970'',
     dev_entry 0x1002 0x6719 ''Cayman'' ''AMD Radeon HD 6950'',
     dev_entry 0x1002 0x6738 ''HD6870'' ''MSI'',
     dev_entry 0x1002 0x6739 ''Barts (Pro)'' ''AMD Radeon HD 6850'',
     dev_entry 0x1002 0x673E ''0x2310'' ''0x1787'',
     dev_entry 0x1002 0x6740 ''Whistler'' ''ATI Radeon HD 6670M'',
     dev_entry 0x1002 0x6741 ''Whistler'' (''AMD Radeon'' @ [CHR 0xC3, CHR 0xA2, CHR 0xE2, CHR 0x80, CHR 0x9E, CHR 0xC2, CHR 0xA2] @ '' HD 6700M/HD 6600M Series ''),
     dev_entry 0x1002 0x6749 ''unknown'' ''unknown'',
     dev_entry 0x1002 0x674A ''V3900'' ''AMD FirePro V3900 graphics'',
     dev_entry 0x1002 0x6750 ''1996'' ''AMD Radeon HD 6570'',
     dev_entry 0x1002 0x6758 ''NI'' ''AMD Radeon HD 6670'',
     dev_entry 0x1002 0x6759 ''1996'' ''AMD Radeon HD 6570'',
     dev_entry 0x1002 0x6760 ''6470M'' ''AMD/ATi  Radeon 6470M'',
     dev_entry 0x1002 0x6778 ''7470'' ''AMD Radeon HD 7470'',
     dev_entry 0x1002 0x6779 ''AMD Radeon HD 6470m'' ''AMD Radeon HD 6470m'',
     dev_entry 0x1002 0x677B ''Unknown'' ''Radeon HD 7450'',
     dev_entry 0x1002 0x6840 ''SUBSYS'' ''056A1028'',
     dev_entry 0x1002 0x6898 ''EG CYPRESS XT'' ''ATI Radeon HD 5800 Series'',
     dev_entry 0x1002 0x6899 ''EG CYPRESS PRO'' ''ATI Radeon HD 5800 Series'',
     dev_entry 0x1002 0x689C ''EG Cypress XT HEMLOCK'' ''ATI Radeon HD 5970 Series'',
     dev_entry 0x1002 0x68A0 ''EG BROADWAY XT'' ''ATI Mobility Radeon HD 5800 Series'',
     dev_entry 0x1002 0x68A1 ''EG BROADWAY PRO/LP'' ''ATI Mobility Radeon HD 5800 Series'',
     dev_entry 0x1002 0x68A8 ''AMD Radeon HD6870M (at least the one from Dell)'' ''AMD Radeon HD6870M (at least the one from Dell)'',
     dev_entry 0x1002 0x68B0 ''EG BROADWAY XT'' ''ATI Mobility Radeon HD 5800 Series'',
     dev_entry 0x1002 0x68B8 ''EG JUNIPER XT'' ''ATI Radeon HD 5700 Series'',
     dev_entry 0x1002 0x68BA ''1482174B'' ''ATI Radeon HD 6700 Series'',
     dev_entry 0x1002 0x68BE ''EG JUNIPER LE'' ''ATI Radeon HD 5700 Series'',
     dev_entry 0x1002 0x68C1 ''DEV_68C1&SUBSYS_144A103C&REV_00'' ''ATI Mobility Radeon HD 6550M'',
     dev_entry 0x1002 0x68C8 ''RV830'' ''FirePro v4800'',
     dev_entry 0x1002 0x68c9 ''RV830'' ''FirePro 3D V3800'',
     dev_entry 0x1002 0x68D8 ''Redwood'' ''ATI Radeon HD 5670'',
     dev_entry 0x1002 0x68D9 ''RV830/Redwood'' ''HD 5570'',
     dev_entry 0x1002 0x68E0 ''HD 5470'' ''ATI Mobility Radeon HD 5470'',
     dev_entry 0x1002 0x68E4 ''RV810'' ''Ati Radeon HD 6370M'',
     dev_entry 0x1002 0x68f9 ''Cedar'' ''ATI Radeon HD 5470'',
     dev_entry 0x1002 0x700F ''A3/U1'' ''PCI to AGP Bridge'',
     dev_entry 0x1002 0x7010 ''RS200'' ''PCI to AGP Bridge'',
     dev_entry 0x1002 0x7100 ''R520'' ''ATI RADEON X1800 Series'',
     dev_entry 0x1002 0x7101 ''M58'' ''ATI MOBILITY /ATI RADEON X1800 XT'',
     dev_entry 0x1002 0x7102 ''M58'' ''ATI MOBILITY /ATI RADEON X1800'',
     dev_entry 0x1002 0x7103 ''M58GL'' ''ATI MOBILITY FireGL V7200'',
     dev_entry 0x1002 0x7104 ''R520GL'' ''ATI FireGL V7200'',
     dev_entry 0x1002 0x7105 ''R520GL'' ''ATI FireGL V5300'',
     dev_entry 0x1002 0x7106 ''M58GL'' ''ATI MOBILITY FireGL V7100'',
     dev_entry 0x1002 0x7108 ''R520'' ''ATI RADEON X1800 Series'',
     dev_entry 0x1002 0x7109 ''R520'' ''ATI RADEON X1800 Series'',
     dev_entry 0x1002 0x710A ''R520'' ''ATI RADEON X1800 Series'',
     dev_entry 0x1002 0x710B ''R520'' ''ATI RADEON X1800 Series'',
     dev_entry 0x1002 0x710C ''R520'' ''ATI RADEON X1800 Series'',
     dev_entry 0x1002 0x710E ''R520GL'' ''ATI FireGL V7300'',
     dev_entry 0x1002 0x710F ''R520GL'' ''ATI FireGL V7350'',
     dev_entry 0x1002 0x7120 ''R520'' ''ATI RADEON X1800 Series Secondary'']"

definition PciDevTable_23 :: "PCI_DEVTABLE list" where
  "PciDevTable_23 = [
     dev_entry 0x1002 0x7124 ''R520GL'' ''ATI FireGL V7200 Secondary'',
     dev_entry 0x1002 0x7125 ''R520GL'' ''ATI FireGL V5300 Secondary'',
     dev_entry 0x1002 0x7128 ''R520'' ''ATI RADEON X1800 Series Secondary'',
     dev_entry 0x1002 0x7129 ''R520'' ''ATI RADEON X1800 Series Secondary'',
     dev_entry 0x1002 0x712A ''R520'' ''ATI RADEON X1800 Series Secondary'',
     dev_entry 0x1002 0x712B ''R520'' ''ATI RADEON X1800 Series Secondary'',
     dev_entry 0x1002 0x712C ''R520'' ''ATI RADEON X1800 Series Secondary'',
     dev_entry 0x1002 0x712E ''R520GL'' ''ATI FireGL V7300 Secondary'',
     dev_entry 0x1002 0x712F ''R520GL'' ''ATI FireGL V7350 Secondary'',
     dev_entry 0x1002 0x7140 ''RV515'' ''ATI RADEON X1600 Series'',
     dev_entry 0x1002 0x7142 ''RV515'' ''ATI RADEON X1300/X1550 Series'',
     dev_entry 0x1002 0x7143 ''RV515'' ''ATI RADEON X1300/ X1550 Series'',
     dev_entry 0x1002 0x7145 ''M54'' ''ATI MOBILITY /ATI RADEON X1400'',
     dev_entry 0x1002 0x7146 ''RV505'' ''ATI RADEON X1300 / X1550 Series'',
     dev_entry 0x1002 0x7147 ''RV515'' ''ATI RADEON X1550 64-bit'',
     dev_entry 0x1002 0x7149 ''M52'' ''ATI MOBILITY RADEON X1300'',
     dev_entry 0x1002 0x714A ''M52'' ''ATI MOBILITY /ATI RADEON X1300'',
     dev_entry 0x1002 0x714B ''M52'' ''ATI MOBILITY /ATI RADEON X1300'',
     dev_entry 0x1002 0x714C ''M52'' ''ATI MOBILITY /ATI RADEON X1300'',
     dev_entry 0x1002 0x714D ''RV515'' ''ATI RADEON X1300 Series'',
     dev_entry 0x1002 0x714E ''RV515PCI'' ''ATI RADEON X1300 Series'',
     dev_entry 0x1002 0x7152 ''RV515GL'' ''ATI FireGL V3300'',
     dev_entry 0x1002 0x7153 ''RV515GL'' ''ATI FireGL V3350'',
     dev_entry 0x1002 0x715E ''RV515'' ''ATI RADEON X1300 Series'',
     dev_entry 0x1002 0x715F ''RV515'' ''ATI RADEON X1550 64-bit'',
     dev_entry 0x1002 0x7160 ''RV515'' ''ATI RADEON X1600 Series Secondary'',
     dev_entry 0x1002 0x7162 ''RV515'' ''ATI RADEON X1300/X1550 Series Secondary'',
     dev_entry 0x1002 0x7163 ''RV515'' ''ATI RADEON X1550 Series Secondary'',
     dev_entry 0x1002 0x7166 ''RV515'' ''ATI RADEON X1300 / X1550 Series Secondary'',
     dev_entry 0x1002 0x7167 ''RV515'' ''ATI RADEON X1550 64-bit Secondary'',
     dev_entry 0x1002 0x716D ''RV515'' ''ATI RADEON X1300 Series Secondary'',
     dev_entry 0x1002 0x716E ''RV515PCI'' ''ATI RADEON X1300 Series Secondary'',
     dev_entry 0x1002 0x7172 ''RV515GL'' ''ATI FireGL V3300 Secondary'',
     dev_entry 0x1002 0x7173 ''RV515GL'' ''ATI FireGL V3350 Secondary'',
     dev_entry 0x1002 0x717E ''RV515'' ''ATI RADEON X1300 Series Secondary'',
     dev_entry 0x1002 0x717F ''RV515'' ''ATI RADEON X1550 32-bit Secondary'',
     dev_entry 0x1002 0x7180 ''RV515'' ''ATI RADEON X1300/X1550 Series =x1400'',
     dev_entry 0x1002 0x7181 ''RV515'' ''ATI RADEON X1600 Series'',
     dev_entry 0x1002 0x7183 ''RV515'' ''ATI RADEON X1300/X1550 Series'',
     dev_entry 0x1002 0x7186 ''M54'' ''ATI MOBILITY /ATI RADEON X1450'',
     dev_entry 0x1002 0x7187 ''RV515'' ''ATI RADEON X1300/X1550 Series'',
     dev_entry 0x1002 0x7188 ''M64'' ''ATI MOBILITY /ATI RADEON X2300'',
     dev_entry 0x1002 0x718A ''M54'' ''ATI MOBILITY /ATI RADEON X2300'',
     dev_entry 0x1002 0x718B ''M52'' ''ATI MOBILITY /ATI RADEON X1350'',
     dev_entry 0x1002 0x718C ''M52'' ''ATI MOBILITY /ATI RADEON X1350'',
     dev_entry 0x1002 0x718D ''M54'' ''ATI MOBILITY /ATI RADEON X1450'',
     dev_entry 0x1002 0x718F ''RV515PCI'' ''ATI RADEON X1300 Series'',
     dev_entry 0x1002 0x7193 ''RV515'' ''ATI RADEON X1550 Series'',
     dev_entry 0x1002 0x7196 ''M52'' ''ATI MOBILITY /ATI RADEON X1350'',
     dev_entry 0x1002 0x719B ''RV515'' ''ATI FireMV 2250'',
     dev_entry 0x1002 0x719F ''RV515'' ''ATI RADEON X1550 64-bit'',
     dev_entry 0x1002 0x71A0 ''RV515'' ''ATI RADEON X1300/X1550 Series Secondary'',
     dev_entry 0x1002 0x71A1 ''RV515'' ''ATI RADEON X1600 Series Secondary'',
     dev_entry 0x1002 0x71A3 ''RV515'' ''ATI RADEON X1300/X1550 Series Secondary'',
     dev_entry 0x1002 0x71A7 ''RV515'' ''ATI RADEON X1300/X1550 Series Secondary'',
     dev_entry 0x1002 0x71AF ''RV515PCI'' ''ATI RADEON X1300 Series Secondary'',
     dev_entry 0x1002 0x71B3 ''RV515'' ''ATI RADEON X1550 Series Secondary'',
     dev_entry 0x1002 0x71BB ''RV515'' ''ATI FireMV 2250 Secondary'',
     dev_entry 0x1002 0x71C0 ''RV530'' ''ATI RADEON X1600 Series'',
     dev_entry 0x1002 0x71C1 ''RV535'' ''ATI RADEON X1650 Series'',
     dev_entry 0x1002 0x71c2 ''RV530'' ''ATI RADEON X1600 Series'',
     dev_entry 0x1002 0x71C3 ''RV535'' ''ATI RADEON X1650 Series'',
     dev_entry 0x1002 0x71C4 ''M56GL'' ''ATI MOBILITY FireGL V5200'',
     dev_entry 0x1002 0x71c5 ''M56'' ''ATI MOBILITY /ATI RADEON X1600'',
     dev_entry 0x1002 0x71C6 ''RV530'' ''ATI RADEON X1650 Series'',
     dev_entry 0x1002 0x71C7 ''RV535'' ''ATI RADEON X1650 Series'',
     dev_entry 0x1002 0x71CD ''RV530'' ''ATI RADEON X1600 &#1057;&#1077;&#1088;&#1080;&#1080;'',
     dev_entry 0x1002 0x71ce ''RV530'' ''ATI RADEON X1600 Pro / ATI RADEON X1300 XT'',
     dev_entry 0x1002 0x71D2 ''RV530GL'' ''ATI FireGL V3400'',
     dev_entry 0x1002 0x71D4 ''M56GL'' ''ATI MOBILITY FireGL V5250'',
     dev_entry 0x1002 0x71D5 ''M56'' ''ATI MOBILITY /ATI RADEON X1700'',
     dev_entry 0x1002 0x71D6 ''M56'' ''ATI MOBILITY /ATI RADEON X1700 XT'',
     dev_entry 0x1002 0x71DA ''RV530GL'' ''ATI FireGL V5200'',
     dev_entry 0x1002 0x71DE ''M56'' ''ATI MOBILITY /ATI RADEON X1700'',
     dev_entry 0x1002 0x71E0 ''RV530'' ''ATI RADEON X1600 Series Secondary'',
     dev_entry 0x1002 0x71E1 ''RV535'' ''ATI RADEON X1650 Series Secondary'',
     dev_entry 0x1002 0x71e2 ''RV530'' ''ATI RADEON X1600 Series Secondary'',
     dev_entry 0x1002 0x71E3 ''RV535'' ''ATI RADEON X1300 Series Secondary'',
     dev_entry 0x1002 0x71E6 ''RV530'' ''ATI RADEON X1600 Series Secondary'',
     dev_entry 0x1002 0x71E7 ''RV535'' ''ATI RADEON X1650 Series Secondary'',
     dev_entry 0x1002 0x71ED ''RV530'' ''ATI RADEON X1600 Series Secondary'',
     dev_entry 0x1002 0x71EE ''RV530'' ''ATI RADEON X1600 Pro / ATI RADEON X1300 XT Secondary'',
     dev_entry 0x1002 0x71F2 ''RV530GL'' ''ATI FireGL V3400 Secondary'',
     dev_entry 0x1002 0x71FA ''RV530GL'' ''ATI FireGL V5200 Secondary'',
     dev_entry 0x1002 0x7205 ''1106'' ''S3G Unichrome IGP KM400/KN400'',
     dev_entry 0x1002 0x7210 ''M71'' ''ATI MOBILITY /ATI RADEON HD 2300'',
     dev_entry 0x1002 0x7211 ''M71'' ''ATI MOBILITY /ATI RADEON HD 2300'',
     dev_entry 0x1002 0x7240 ''R580'' ''ATI RADEON X1950 Series'',
     dev_entry 0x1002 0x7243 ''R580'' ''ATI RADEON X1900 Series'',
     dev_entry 0x1002 0x7244 ''R580'' ''ATI RADEON X1950 Series'',
     dev_entry 0x1002 0x7245 ''R580'' ''ATI RADEON X1900 Series'',
     dev_entry 0x1002 0x7246 ''R580'' ''ATI RADEON X1900 Series'',
     dev_entry 0x1002 0x7247 ''R580'' ''ATI RADEON X1900 Series'',
     dev_entry 0x1002 0x7248 ''R580'' ''ATI RADEON X1900 Series'',
     dev_entry 0x1002 0x7249 ''R580'' ''ATI RADEON X1900 Series'',
     dev_entry 0x1002 0x724A ''R580'' ''ATI RADEON X1900 Series'',
     dev_entry 0x1002 0x724B ''R580'' ''ATI RADEON X1900 Series'',
     dev_entry 0x1002 0x724C ''R580'' ''ATI RADEON X1900 Series'',
     dev_entry 0x1002 0x724D ''R580'' ''ATI RADEON X1900 Series'',
     dev_entry 0x1002 0x724E ''R580'' ''ATI FireStream 2U'',
     dev_entry 0x1002 0x724F ''R580'' ''ATI RADEON X1900 Series'',
     dev_entry 0x1002 0x7260 ''R580'' ''ATI RADEON X1950 Series Secondary'',
     dev_entry 0x1002 0x7263 ''R580'' ''ATI RADEON X1900 Series Secondary'',
     dev_entry 0x1002 0x7264 ''R580'' ''ATI RADEON X1950 Series Secondary'',
     dev_entry 0x1002 0x7265 ''R580'' ''ATI RADEON X1900 Series Secondary'',
     dev_entry 0x1002 0x7266 ''R580'' ''ATI RADEON X1900 Series Secondary'',
     dev_entry 0x1002 0x7267 ''R580'' ''ATI RADEON X1900 Series Secondary'',
     dev_entry 0x1002 0x7268 ''R580'' ''ATI RADEON X1900 Series Secondary'',
     dev_entry 0x1002 0x7269 ''R580'' ''ATI RADEON X1900 Series Secondary'',
     dev_entry 0x1002 0x726A ''R580'' ''ATI RADEON X1900 Series Secondary'',
     dev_entry 0x1002 0x726B ''R580'' ''ATI RADEON X1900 Series Secondary'',
     dev_entry 0x1002 0x726C ''R580'' ''ATI RADEON X1900 Series Secondary'',
     dev_entry 0x1002 0x726D ''R580'' ''ATI RADEON X1900 Series Secondary'',
     dev_entry 0x1002 0x726E ''R580'' ''ATI FireStream 2U Secondary'',
     dev_entry 0x1002 0x726F ''R580'' ''ATI RADEON X1900 Series Secondary'',
     dev_entry 0x1002 0x7280 ''R580'' ''ATI RADEON X1950 Series'',
     dev_entry 0x1002 0x7284 ''M58'' ''ATI MOBILITY /ATI RADEON X1900'',
     dev_entry 0x1002 0x7286 ''R580'' ''ATI RAEDON X1950 '',
     dev_entry 0x1002 0x7288 ''R580'' ''ATI RADEON X1950 GT'',
     dev_entry 0x1002 0x7291 ''R560'' ''ATI RADEON X1650 Series'',
     dev_entry 0x1002 0x7293 ''R580'' ''ATI RADEON X1650 Series'',
     dev_entry 0x1002 0x72A0 ''R580'' ''ATI RADEON X1950 Series Secondary'',
     dev_entry 0x1002 0x72A8 ''R580'' ''ATI RADEON X1950 GT Secondary'',
     dev_entry 0x1002 0x72B1 ''R580'' ''ATI RADEON X1650 Series Secondary'',
     dev_entry 0x1002 0x72B3 ''R580'' ''ATI RADEON X1650 Series Secondary'',
     dev_entry 0x1002 0x7833 ''RS350'' ''Radeon 9100 Pro'',
     dev_entry 0x1002 0x79 ''unknown, 2200 mhz'' ''Campo  Valor Juego de instrucciones  x86, x86-64, MMX, 3DNow!, SSE, SSE2, SSE3'',
     dev_entry 0x1002 0x791 ''RS690M'' ''ATI Mobility Radeon x1200'',
     dev_entry 0x1002 0x791a ''791A'' ''HDMI Audio'',
     dev_entry 0x1002 0x791E ''RS690'' ''ATI RADEON X1200 Series'',
     dev_entry 0x1002 0x791F ''RS690M'' ''ATI Mobility Radeon x1100'',
     dev_entry 0x1002 0x7937 ''Samsung R25P'' ''ATI Technoligies Inc'',
     dev_entry 0x1002 0x793F ''RS600'' ''ATI RADEON Xpress 1200 Series'',
     dev_entry 0x1002 0x7941 ''RS690M'' ''ATI RADEON Xpress 1200 Series'',
     dev_entry 0x1002 0x7942 ''RS600M'' ''ATI RADEON Xpress 1250'',
     dev_entry 0x1002 0x796E ''RS690'' ''ATI RADEON 2100'',
     dev_entry 0x1002 0x8086 ''1050'' ''PCI'',
     dev_entry 0x1002 0x9000 ''RV350'' ''ATI Radeon 9600'',
     dev_entry 0x1002 0x9094 ''RV730'' ''ATI Radeon HD 4600 Series'',
     dev_entry 0x1002 0x9400 ''R600'' ''ATI Radeon HD 2900 XT'',
     dev_entry 0x1002 0x9401 ''R600'' ''ATI RADEON HD 2900 XT'',
     dev_entry 0x1002 0x9402 ''R600'' ''ATI RADEON HD 2900 XT'',
     dev_entry 0x1002 0x9403 ''R600'' ''ATI RADEON HD 2900 PRO'',
     dev_entry 0x1002 0x9405 ''R600'' ''ATI RADEON HD 2900 GT'',
     dev_entry 0x1002 0x940A ''R600GL'' ''ATI FireGL V8650'',
     dev_entry 0x1002 0x940B ''R600GL'' ''ATI FireGL V8600'']"

definition PciDevTable_24 :: "PCI_DEVTABLE list" where
  "PciDevTable_24 = [
     dev_entry 0x1002 0x940F ''R600GL'' ''ATI FireGL V7600'',
     dev_entry 0x1002 0x9440 ''RV770'' ''ATI Radeon HD 4870'',
     dev_entry 0x1002 0x9441 ''R700'' ''ATI Radeon HD 4870 X2'',
     dev_entry 0x1002 0x9442 ''RV770'' ''ATI Radeon HD 4800 Series'',
     dev_entry 0x1002 0x9443 ''R700'' ''ATI Radeon HD 4850 X2'',
     dev_entry 0x1002 0x9444 ''RV770'' ''ATI FirePro V8750 (FireGL)'',
     dev_entry 0x1002 0x9446 ''RV770'' ''ATI FirePro V7770 (FireGL)'',
     dev_entry 0x1002 0x9447 ''R700'' ''ATI FirePro V8700 Duo (FireGL)'',
     dev_entry 0x1002 0x944A ''M98'' ''ATI Mobility Radeon HD 4850'',
     dev_entry 0x1002 0x944B ''M98'' ''ATI Mobility Radeon HD 4850 X2'',
     dev_entry 0x1002 0x944C ''RV770'' ''ATI Radeon HD 4800 Series'',
     dev_entry 0x1002 0x944E ''RV770'' ''ATI Radeon HD 4700 Series'',
     dev_entry 0x1002 0x9450 ''RV770'' ''AMD FireStream 9270'',
     dev_entry 0x1002 0x9452 ''RV770'' ''AMD FireStream 9250'',
     dev_entry 0x1002 0x9456 ''RV770'' ''ATI FirePro V8700 (FireGL)'',
     dev_entry 0x1002 0x945A ''M98'' ''ATI Mobility Radeon HD 4870'',
     dev_entry 0x1002 0x9460 ''RV790'' ''ATI Radeon HD 4890 Series'',
     dev_entry 0x1002 0x9462 ''RV790'' ''ATI Mobility Radeon HD 5650'',
     dev_entry 0x1002 0x9480 ''M96'' ''ATI Mobility Radeon HD 4650'',
     dev_entry 0x1002 0x9487 ''RV730'' ''ATI Radeon Graphics Processor'',
     dev_entry 0x1002 0x9488 ''M96'' ''ATI Mobility Radeon HD 4670'',
     dev_entry 0x1002 0x948F ''RV730'' ''ATI Radeon Graphics Processor'',
     dev_entry 0x1002 0x9490 ''RV730'' ''ATI Radeon HD 4600 Series'',
     dev_entry 0x1002 0x9491 ''M96'' ''ATI Radeon E4600'',
     dev_entry 0x1002 0x9495 ''RV730'' ''ATI RADEON HD4650'',
     dev_entry 0x1002 0x9498 ''RV730'' ''ATI Radeon HD 4600'',
     dev_entry 0x1002 0x949C ''RV730'' ''ATI FirePro V7750 (FireGL)'',
     dev_entry 0x1002 0x949E ''RV730'' ''ATI FirePro V5700 (FireGL)'',
     dev_entry 0x1002 0x949F ''RV730'' ''ATI FirePro V3750 (FireGL)'',
     dev_entry 0x1002 0x94A0 ''M97'' ''ATI Mobility Radeon HD 4830'',
     dev_entry 0x1002 0x94A1 ''M97'' ''ATI Mobility Radeon HD 4860'',
     dev_entry 0x1002 0x94A3 ''M97'' ''ATI FirePro M7740'',
     dev_entry 0x1002 0x94B1 ''RV740'' ''ATI Radeon Graphics Processor'',
     dev_entry 0x1002 0x94B3 ''RV740'' ''ATI Radeon HD 4770'',
     dev_entry 0x1002 0x94B4 ''RV740'' ''ATI Radeon HD 4700 Series'',
     dev_entry 0x1002 0x94B5 ''AA38'' ''ATI Radeon HD 4650'',
     dev_entry 0x1002 0x94C1 ''RV610-DT (Pro)'' ''ATI Radeon HD 2400 XT'',
     dev_entry 0x1002 0x94C3 ''RV610-DT (LE)'' ''ATI Radeon HD 2400 PRO AGP'',
     dev_entry 0x1002 0x94C4 ''RV610LE'' ''ATI Radeon HD 2400 PRO AGP'',
     dev_entry 0x1002 0x94C5 ''RV610'' ''ATI RADEON HD 2400 LE'',
     dev_entry 0x1002 0x94C7 ''RV610'' ''ATI RADEON HD 2350'',
     dev_entry 0x1002 0x94C8 ''M72'' ''ATI MOBILITY /ATI RADEON HD 2400 XT'',
     dev_entry 0x1002 0x94C9 ''M72'' ''ATI MOBILITY /ATI RADEON HD 2400'',
     dev_entry 0x1002 0x94CB ''M72'' ''ATI RADEON E2400'',
     dev_entry 0x1002 0x94CC ''RV610'' ''ATI RADEON HD 2400'',
     dev_entry 0x1002 0x9501 ''RV670 XT'' ''ATI Radeon HD 3870'',
     dev_entry 0x1002 0x9504 ''M76'' ''ATI MOBILITY /ATI RADEON HD 3850'',
     dev_entry 0x1002 0x9505 ''RV630'' ''ATI RADEON HD 3850'',
     dev_entry 0x1002 0x9506 ''M76'' ''ATI MOBILITY /ATI RADEON HD 3850 X2'',
     dev_entry 0x1002 0x9507 ''RV670'' ''ATI Radeon HD 3830'',
     dev_entry 0x1002 0x9508 ''M76'' ''ATI MOBILITY /ATI RADEON HD 3870'',
     dev_entry 0x1002 0x9509 ''M76'' ''ATI MOBILITY /ATI RADEON HD 3870 X2'',
     dev_entry 0x1002 0x950F ''R680'' ''ATI RADEON HD 3870 X2'',
     dev_entry 0x1002 0x9511 ''RV630GL'' ''ATI FireGL V7700'',
     dev_entry 0x1002 0x9513 ''R680'' ''ATI Radeon HD 3850 X2'',
     dev_entry 0x1002 0x9515 ''RV670 AGP'' ''ATI Radeon HD 3850 AGP'',
     dev_entry 0x1002 0x9519 ''RV670'' ''AMD FireStream 9170'',
     dev_entry 0x1002 0x9540 ''RV710'' ''ATI Radeon HD 4550'',
     dev_entry 0x1002 0x9541 ''RV710'' ''ATI Radeon Graphics Processor'',
     dev_entry 0x1002 0x954E ''RV710'' ''ATI Radeon Graphics Processor'',
     dev_entry 0x1002 0x954F ''RV710'' ''ATI Radeon HD 4350'',
     dev_entry 0x1002 0x9552 ''M92'' (''ATI Mobility Radeon HD 4330 '' @ [CHR 0xC3, CHR 0x90, CHR 0xC2, CHR 0xA1, CHR 0xC3, CHR 0x90, CHR 0xC2, CHR 0xB5, CHR 0xC3, CHR 0x91, CHR 0xE2, CHR 0x82, CHR 0xAC, CHR 0xC3, CHR 0x90, CHR 0xC2, CHR 0xB8, CHR 0xC3, CHR 0x90, CHR 0xC2, CHR 0xB8]),
     dev_entry 0x1002 0x9553 ''M92'' ''ATI Mobility Radeon HD 4570 series'',
     dev_entry 0x1002 0x9555 ''M93'' ''ATI Mobility Radeon HD 4500 Series'',
     dev_entry 0x1002 0x9557 ''M93'' ''ATI FirePro RG220'',
     dev_entry 0x1002 0x9581 ''M76M'' ''ATI Mobility Radeon HD 2600'',
     dev_entry 0x1002 0x9583 ''M76'' ''ATI MOBILITY /ATI RADEON HD 2600 XT'',
     dev_entry 0x1002 0x9586 ''RV630'' ''ATI RADEON HD 2600 XT AGP'',
     dev_entry 0x1002 0x9587 ''RV630 PRO'' ''ATI Radeon HD 2600 Pro AGP'',
     dev_entry 0x1002 0x9588 ''RV630 XT'' ''ATI Radeon HD 2600 XT'',
     dev_entry 0x1002 0x9589 ''&#1055;&#1056;&#1054; RV630'' ''ATI Radeon HD 2600 Pro'',
     dev_entry 0x1002 0x958B ''M76'' ''ATI MOBILITY / ATI RADEON HD 2600 XT Gemini'',
     dev_entry 0x1002 0x958C ''RV630GL'' ''ATI FireGL V5600'',
     dev_entry 0x1002 0x958D ''RV630GL'' ''ATI FireGL V3600'',
     dev_entry 0x1002 0x958E ''RV630'' ''ATI RADEON HD 2600 LE'',
     dev_entry 0x1002 0x958F ''M76'' ''ATI Mobility FireGL Graphics Processor'',
     dev_entry 0x1002 0x9590 ''RV630'' ''ATI RADEON HD 3650 Serieshttp://www.pcidatabase.com/update_device.php?__ec_i=ec.1307313611.e071ed73c'',
     dev_entry 0x1002 0x9591 ''M86-M'' ''ATI Mobility Radeon HD 3650'',
     dev_entry 0x1002 0x9593 ''M86'' ''ATI Mobility Radeon HD 3670'',
     dev_entry 0x1002 0x9595 ''M86'' ''ATI Mobility FireGL V5700'',
     dev_entry 0x1002 0x9596 ''RV630'' ''ATI RADEON HD 3600 Series'',
     dev_entry 0x1002 0x9597 ''RV630'' ''ATI RADEON HD 3600 Series'',
     dev_entry 0x1002 0x9598 ''RV630'' ''ATI Radeon HD 3600 Series '',
     dev_entry 0x1002 0x9599 ''RV630'' ''ATI RADEON HD 3600 Series'',
     dev_entry 0x1002 0x959B ''M86'' ''ATI Mobility FireGL Graphics Processor'',
     dev_entry 0x1002 0x95C0 ''RV610'' ''ATI RADEON HD 3470'',
     dev_entry 0x1002 0x95C2 ''M72'' ''ATI MOBILITY /ATI RADEON HD 3430'',
     dev_entry 0x1002 0x95c4 ''M82-S'' ''ATI Mobility Radeon HD 3450'',
     dev_entry 0x1002 0x95C5 ''RV620 LE'' ''ATI Radeon HD 3450'',
     dev_entry 0x1002 0x95C6 ''RV620'' ''ATI Radeon HD 3450'',
     dev_entry 0x1002 0x95C7 ''RV610'' ''ATI RADEON HD 3430'',
     dev_entry 0x1002 0x95C9 ''RV620'' ''ATI Radeon HD 3450'',
     dev_entry 0x1002 0x95CC ''RV620'' ''ATI FirePRO V3700'',
     dev_entry 0x1002 0x95CD ''RV610'' ''ATI FireMV 2450'',
     dev_entry 0x1002 0x95CE ''RV610'' ''ATI FireMV 2260'',
     dev_entry 0x1002 0x95CF ''RV610'' ''ATI FireMV 2260'',
     dev_entry 0x1002 0x9610 ''RS780'' ''ATI Radeon HD 3200 Graphics'',
     dev_entry 0x1002 0x9611 ''RS780'' ''ATI RADEON 3100 Graphics'',
     dev_entry 0x1002 0x9612 ''RS780M'' ''ATI RADEON HD 3200 Graphics'',
     dev_entry 0x1002 0x9613 ''RS780M'' ''ATI RADEON 3100 Graphics'',
     dev_entry 0x1002 0x9614 ''RS780'' ''ATI RADEON HD 3300 Graphics'',
     dev_entry 0x1002 0x9615 ''RS780'' ''AMD 780E'',
     dev_entry 0x1002 0x9616 ''RS780'' ''AMD 760G'',
     dev_entry 0x1002 0x9644 ''A4-3400'' (''AMD Radeon'' @ [CHR 0xE2, CHR 0x84, CHR 0xA2] @ '' HD 6410D''),
     dev_entry 0x1002 0x9647 ''AMD A6-3420M APU With AMD Radeon HD 6520G'' ''&#1089;&#1090;&#1072;&#1085;&#1076;&#1072;&#1088;&#1090;&#1085;&#1099;&#1081; vga &#1075;&#1088;&#10'',
     dev_entry 0x1002 0x9648 '' 9648'' ''AMD Radeon(TM) HD 6480G'',
     dev_entry 0x1002 0x9649 ''HD 6480G'' ''AMD Radeon(TM) HD 6480G'',
     dev_entry 0x1002 0x9710 ''RS880'' ''ATI Radeon HD 4200'',
     dev_entry 0x1002 0x9711 ''RS880'' ''ATI Radeon 4100'',
     dev_entry 0x1002 0x9712 ''4250'' ''ATI Mobility Radeon HD 4200 Series (ATI Mobility Radeon HD 4250)'',
     dev_entry 0x1002 0x9713 ''RS880MC'' ''ATI Mobility Radeon 4100'',
     dev_entry 0x1002 0x9715 ''RS880'' ''ATI Radeon HD 4250 Graphics'',
     dev_entry 0x1002 0x9802 ''AMD E-350'' (''AMD Radeon'' @ [CHR 0xE2, CHR 0x84, CHR 0xA2] @ '' HD 6310 Graphics''),
     dev_entry 0x1002 0x9803 ''2411E6FE'' ''Display driver http://support1.toshiba-tro.de/tedd-files2/0/display-20110404110958.zip'',
     dev_entry 0x1002 0x9804 ''AMD Radeon HD 6310 Graphics  AMD Radeon HD 6310 Gr'' ''AMD Radeon HD 6310 Graphics'',
     dev_entry 0x1002 0x9806 ''AMD Radeon HD 6320'' ''E-450 APU'',
     dev_entry 0x1002 0x9807 ''unknow'' ''amd radeon hd 6290 graphic'',
     dev_entry 0x1002 0x9808 ''E2-1800'' ''E-Series APU (E2-1800, maybe more)'',
     dev_entry 0x1002 0x9809 ''7310M'' ''ATI Radeon 7310M'',
     dev_entry 0x1002 0x9876 ''ATI GTC (GT-C2U2)'' ''ATI 3D Rage Pro AGP 2X'',
     dev_entry 0x1002 0x9999 ''(0x9498'' ''ATI Radeon HD 4600'',
     dev_entry 0x1002 0xAA01 ''Ati Function driver for high definition audio1'' ''Ati Mobility Radeon HD HDMI Audio realtek'',
     dev_entry 0x1002 0xAA08 ''All with HDMI support'' ''High Definition Audio Device'',
     dev_entry 0x1002 0xAA10 ''677'' ''HDMI Audio Support'',
     dev_entry 0x1002 0xAA20 ''RV630'' ''ATI Radeon HD 3600 Series'',
     dev_entry 0x1002 0xAA28 ''3400'' ''Radeon HD 3400 Series'',
     dev_entry 0x1002 0xaa68 '' 0x040300'' '' 0x00'',
     dev_entry 0x1002 0xAC12 ''Theater HD T507'' ''(DVB-T) TV tuner/capture device'',
     dev_entry 0x1002 0xCAB0 ''A3/U1'' ''S2K CPU to PCI Bridge'',
     dev_entry 0x1002 0xCAB1 ''A3/U1'' ''Slot1 CPU to PCI Bridge'',
     dev_entry 0x1002 0xcab2 ''RS200'' ''CPU to PCI Bridge'',
     dev_entry 0x1002 0xCBB2 ''RS200'' ''CPU to PCI Bridge'',
     dev_entry 0x1003 0x0201 ''0x0201'' ''GUI Accelerator'',
     dev_entry 0x1004 0x0005 (''PCI'' @ [CHR 0x5C] @ ''VEN_13F0'') ''DEV_0200'',
     dev_entry 0x1004 0x0006 ''82C593'' ''ISA Bridge'',
     dev_entry 0x1004 0x0007 ''82C594'' ''Wildcat System Controller'',
     dev_entry 0x1004 0x0008 ''82C596/597'' ''Wildcat ISA Bridge'',
     dev_entry 0x1004 0x0009 ''82C597-AFC2'' '''',
     dev_entry 0x1004 0x000C ''82C541'' '''',
     dev_entry 0x1004 0x000D ''82C543'' '''']"

definition PciDevTable_25 :: "PCI_DEVTABLE list" where
  "PciDevTable_25 = [
     dev_entry 0x1004 0x0100 ''dtdftdfz'' ''CPU to PCI Bridge for notebook'',
     dev_entry 0x1004 0x0101 ''82C532'' ''Peripheral Controller'',
     dev_entry 0x1004 0x0102 ''82C534'' ''PCI to PCI Bridge'',
     dev_entry 0x1004 0x0103 ''82C538'' ''PCI to ISA Bridge'',
     dev_entry 0x1004 0x0104 ''82C535'' ''Host Bridge'',
     dev_entry 0x1004 0x0105 ''82C147'' ''IrDA Controller'',
     dev_entry 0x1004 0x0200 ''82C975'' ''RISC GUI Accelerator'',
     dev_entry 0x1004 0x0280 ''82C925'' ''RISC GUI Accelerator'',
     dev_entry 0x1004 0x0304 ''SAA7785'' ''ThunderBird PCI Audio Accelerator'',
     dev_entry 0x1004 0x0305 ''SAA7785'' ''ThunderBird joystick port'',
     dev_entry 0x1004 0x0306 ''SAA7785'' ''ThunderBird 16650 UART'',
     dev_entry 0x1004 0x0307 ''KTX0208X'' ''Philips Seismic Edge 705'',
     dev_entry 0x1004 0x0308 ''1'' ''Philips PSC705 GamePort Enumerator'',
     dev_entry 0x1004 0x0702 ''VAS96011'' ''Golden Gate II'',
     dev_entry 0x1006 0x3044 ''n/a 1'' ''OHCI Compliant IEEE 1394 Host Controller'',
     dev_entry 0x1008 0x9876 ''23'' ''23'',
     dev_entry 0x100A 0x8235 ''VIA 82C3128'' ''U87088R06'',
     dev_entry 0x100B 0x0001 ''DP83810'' ''10/100 Ethernet MAC'',
     dev_entry 0x100B 0x0002 ''PC87415'' ''PCI-IDE DMA Master Mode Interface Ctrlr'',
     dev_entry 0x100B 0x000E ''PC87560'' ''Legacy I/O Controller'',
     dev_entry 0x100B 0x000F ''CS4210'' ''IEEE 1394 OHCI Controller'',
     dev_entry 0x100B 0x0011 ''PC87560'' ''PCI System I/O'',
     dev_entry 0x100B 0x0012 '''' ''USB Controller'',
     dev_entry 0x100B 0x001B ''LM4560'' ''Advanced PCI Audio Accelerator'',
     dev_entry 0x100B 0x0020 ''DP83815/16'' ''MacPhyter 10/100 Mb/s Ethernet MAC & PHY'',
     dev_entry 0x100B 0x0020 ''DP83815'' ''10/100 MacPhyter3v PCI Adapter'',
     dev_entry 0x100B 0x0021 ''PC82440'' ''PCI to ISA Bridge'',
     dev_entry 0x100B 0x0022 ''DP83820/1'' ''10/100/1000 Mb/s PCI Ethernet NIC'',
     dev_entry 0x100B 0x0028 ''Geode GX2'' ''PCI Host Bridge'',
     dev_entry 0x100B 0x002A ''CS5535'' ''GeodeLink PCI South Bridge'',
     dev_entry 0x100B 0x002D ''5535'' ''Geode IDE Controller'',
     dev_entry 0x100B 0x002E ''Castle ()'' ''GEODE - GX3 Audio CS5535'',
     dev_entry 0x100B 0x002F ''Geode'' ''USB Controller'',
     dev_entry 0x100B 0x0030 ''NSC'' ''Geode VGA Compatible Device'',
     dev_entry 0x100B 0x0500 ''SCx200'' ''LPC Bridge and GPIO'',
     dev_entry 0x100B 0x0501 ''SCx200'' ''SMI Status and ACPI'',
     dev_entry 0x100B 0x0502 ''SC1100/SCx200'' ''IDE Controller'',
     dev_entry 0x100B 0x0503 ''SC1100/SCx200'' ''XpressAUDIO'',
     dev_entry 0x100B 0x0504 ''SCx200'' ''Video Processor'',
     dev_entry 0x100B 0x0505 ''SCx200'' ''X-Bus Expansion Interface'',
     dev_entry 0x100B 0x0510 ''SC1100'' ''LPC Bridge and GPIO'',
     dev_entry 0x100B 0x0511 ''SC1100'' ''SMI Status and ACPI'',
     dev_entry 0x100B 0x0515 ''SC1100'' ''X-Bus Expansion Interface'',
     dev_entry 0x100B 0xD001 ''M2764AFI'' ''PCI-IDE Interface'',
     dev_entry 0x100C 0x3202 ''ET4000W32P-A'' ''GUI Accelerator'',
     dev_entry 0x100C 0x3205 ''ET4000W32P-B'' ''GUI Accelerator'',
     dev_entry 0x100C 0x3206 ''ET4000W32P-C'' ''GUI Accelerator'',
     dev_entry 0x100C 0x3207 ''ET4000W32P-D'' ''GUI Accelerator'',
     dev_entry 0x100C 0x3208 ''ET6000'' ''Graphics/Multimedia Engine'',
     dev_entry 0x100C 0x4702 ''ET6300'' '''',
     dev_entry 0x166D 0x0001 ''BCM1125/BCM1250 PCI Configuration Header'' '''',
     dev_entry 0x166D 0x0002 ''BCM1125/BCM1250 HyperTransport Configuration Heade'' ''MIPS BCM1125/BCM1250 processors'',
     dev_entry 0x100E 0x0564 ''STPC Client'' ''Host Bridge'',
     dev_entry 0x100E 0x55CC ''STPC Client'' ''South Bridge'',
     dev_entry 0x100E 0x9000 ''P9000'' ''WeitekPower GUI Accelerator'',
     dev_entry 0x100E 0x9001 ''P9000'' ''GUI Accelerator'',
     dev_entry 0x100E 0x9100 ''P9100'' ''GUI Accelerator'',
     dev_entry 0x1011 0x0001 ''DC21050'' ''PCI-PCI Bridge'',
     dev_entry 0x1011 0x0002 ''DC21040'' ''Tulip Ethernet Adapter'',
     dev_entry 0x1011 0x0004 ''DC21030'' ''PCI Graphics Accelerator'',
     dev_entry 0x1011 0x0007 ''Zephyr'' ''NV-RAM'',
     dev_entry 0x1011 0x0008 ''KZPSA'' ''SCSI to SCSI Adapter'',
     dev_entry 0x1011 0x0009 ''DC21140'' ''Fast Ethernet Ctrlr'',
     dev_entry 0x1011 0x000A ''DC21230'' ''Video Codec'',
     dev_entry 0x1011 0x000C ''1011'' ''6IfPpL  <a href='',
     dev_entry 0x1011 0x000D ''TGA2'' ''TGA2 PDXGB'',
     dev_entry 0x1011 0x000F ''DEFPA'' ''FDDI'',
     dev_entry 0x1011 0x0014 ''DC21041'' ''Tulip Plus Ethernet Adapter'',
     dev_entry 0x1011 0x0016 ''DGLPB'' ''ATM'',
     dev_entry 0x1011 0x0019 ''DC21142/3'' ''PCI/CardBus 10/100 Mbit Ethernet Ctlr'',
     dev_entry 0x1011 0x0021 ''21052[-AB]'' ''PCI-PCI Bridge'',
     dev_entry 0x1011 0x0022 ''DC21150-AA'' ''PCI-PCI Bridge'',
     dev_entry 0x1011 0x0023 ''DC21150'' ''PCI to PCI Bridge'',
     dev_entry 0x1011 0x0024 ''DC21151/2'' ''PCI-PCI Bridge'',
     dev_entry 0x1011 0x0025 ''21153'' ''PCI-PCI Bridge'',
     dev_entry 0x1011 0x0026 ''21154'' ''PCI-PCI Bridge'',
     dev_entry 0x1011 0x0034 ''Modem56'' ''CardBus'',
     dev_entry 0x1011 0x0045 ''DC21553'' ''PCI to PCI Bridge'',
     dev_entry 0x1011 0x0046 ''21554'' ''PCI-to-PCI Bridge'',
     dev_entry 0x1011 0x1011 ''DC21050'' ''PCI-PCI Bridge'',
     dev_entry 0x1011 0x1065 ''DAC960'' ''Mylex DAC1164P Disk Array Controller'',
     dev_entry 0x1011 0x2000 ''3X-KPCON-AA'' ''Fault Mgr (3.3v/5v Universal PCI)'',
     dev_entry 0x1013 0x0038 ''FW82371EB'' ''pci'',
     dev_entry 0x1013 0x0040 ''CL-GD7555'' ''Flat Panel GUI Accelerator'',
     dev_entry 0x1013 0x004C ''CL-GD7556'' ''64-bit Accelerated LCD/CRT Controller'',
     dev_entry 0x1013 0x00A0 ''CL-GD5440'' ''GUI Accelerator'',
     dev_entry 0x1013 0x00A2 ''CL-GD5432'' ''Alpine GUI Accelerator'',
     dev_entry 0x1013 0x00A4 ''CL-GD5434'' ''Alpine GUI Accelerator'',
     dev_entry 0x1013 0x00A8 ''CL-GD5434'' ''Alpine GUI Accelerator'',
     dev_entry 0x1013 0x00AC ''CL-GD5426'' ''Video card (i guess?)'',
     dev_entry 0x1013 0x00B8 ''CL-GD5446'' ''64-bit VisualMedia Accelerator'',
     dev_entry 0x1013 0x00BC ''CL-GD5480'' ''64-bit SGRAM GUI accelerator'',
     dev_entry 0x1013 0x00D0 ''CL-GD5462'' ''Laguna VisualMedia graphics accelerator'',
     dev_entry 0x1013 0x00D4 ''CL-GD5455'' ''Laguna 3D VisualMedia Graphics Accel'',
     dev_entry 0x1013 0x00D5 ''CL-GD5464'' ''Laguna BD'',
     dev_entry 0x1013 0x00D6 ''CL-GD5465'' ''Laguna 3D VisualMedia Graphics Accel'',
     dev_entry 0x1013 0x00E8 ''CL-GD5436U'' '''',
     dev_entry 0x1013 0x1013 ''cs4630cm'' ''accelerator do audio do pci de sound fusion'',
     dev_entry 0x1013 0x1100 ''CL-PD6729'' ''PCI-to-PC Card host adapter'',
     dev_entry 0x1013 0x1110 ''CL-PD6832'' ''PCMCIA/CardBus Controller'',
     dev_entry 0x1013 0x1112 ''CL-PD6834'' ''PCMCIA/CardBus Controller'',
     dev_entry 0x1013 0x1113 ''CL-PD6833'' ''PCI-to-CardBus Host Adapter'',
     dev_entry 0x1013 0x1200 ''CL-GD7542'' ''Nordic GUI Accelerator'',
     dev_entry 0x1013 0x1202 ''GD7543'' ''Viking GUI Accelerator'',
     dev_entry 0x1013 0x1204 ''CL-GD7541'' ''Nordic-lite VGA Cntrlr'',
     dev_entry 0x1013 0x4000 ''1085'' ''Ambient CLM Data Fax Voice'',
     dev_entry 0x1013 0x4400 ''CL-CD4400'' ''Communications Controller'',
     dev_entry 0x1013 0x6001 ''CS4610/4611'' ''CrystalClear SoundFusion PCI Audio Accelerator'',
     dev_entry 0x1013 0x6003 ''CS4630-CM'' ''Crystal Sound Fusion a'',
     dev_entry 0x1013 0x6004 ''CS464'' ''CrystalClear SoundFusion PCI Audio Accel'',
     dev_entry 0x1013 0x6005 ''CS4281'' ''Crystal Soundfusion(tm) CS 4281'',
     dev_entry 0x1013 0x9876 ''cirrus logic crystal CS 4614'' ''SoundFusion PCI Audio Accelerator'',
     dev_entry 0x1014 0x0002 ''MCA Bridge'' ''MCA Bridge'',
     dev_entry 0x1014 0x0005 ''Alta Lite'' ''CPU Bridge'',
     dev_entry 0x1014 0x0007 ''Alta MP'' ''CPU Bridge'',
     dev_entry 0x1014 0x000A ''Fire Coral'' ''ISA Bridge w/PnP'',
     dev_entry 0x1014 0x0017 '''' ''CPU to PCI Bridge'',
     dev_entry 0x1014 0x0018 ''Auto LANStreamer'' ''TR Auto LANStreamer'',
     dev_entry 0x1014 0x001B ''GXT-150P'' ''Graphics Adapter'',
     dev_entry 0x1014 0x001D ''82G2675'' ''scsi-2 fast pci adapter'',
     dev_entry 0x1014 0x0020 ''82351/2'' ''MCA Bridge'',
     dev_entry 0x1014 0x0022 ''82351/2'' ''PCI to PCI Bridge '',
     dev_entry 0x1014 0x002D ''Python'' '''',
     dev_entry 0x1014 0x002E ''ServeRAID I/II/3x/4H'' ''Coppertime RAID SCSI Adapter'',
     dev_entry 0x1014 0x0036 ''Miami/PCI'' ''32-bit LocalBus Bridge'',
     dev_entry 0x1014 0x0037 ''IBM27-82660'' ''PowerPC to PCI Bridge and Memory Ctrlr'',
     dev_entry 0x1014 0x003A '''' ''CPU to PCI Bridge'',
     dev_entry 0x1014 0x003E ''85H9533'' ''IBM Token Ring PCI'',
     dev_entry 0x1014 0x0045 '''' ''SSA Adapter'',
     dev_entry 0x1014 0x0046 ''MPIC'' ''Interrupt Controller'',
     dev_entry 0x1014 0x0047 '''' ''PCI to PCI Bridge'',
     dev_entry 0x1014 0x0048 '''' ''PCI to PCI Bridge'',
     dev_entry 0x1014 0x0049 '''' ''Warhead SCSI Controller'',
     dev_entry 0x1014 0x004D ''IBM 3780IDSP'' ''MPEG-2 Decoder'',
     dev_entry 0x1014 0x004E '''' ''ATM Controller'',
     dev_entry 0x1014 0x004F '''' ''ATM Controller'',
     dev_entry 0x1014 0x0050 '''' ''ATM Controller'',
     dev_entry 0x1014 0x0053 ''85h9533'' ''25 MBit ATM controller'',
     dev_entry 0x1014 0x0057 ''85g1897'' ''MPEG PCI Bridge'',
     dev_entry 0x1014 0x005C ''i82557B'' ''10/100 PCI Ethernet Adapter'',
     dev_entry 0x1014 0x005D ''05J3506'' ''TCP/IP networking device'',
     dev_entry 0x1014 0x007C '''' ''ATM Controller'',
     dev_entry 0x1014 0x007D ''3780IDSP'' ''MPEG-2 Decoder'',
     dev_entry 0x1014 0x0090 ''GXT-3000P'' '''',
     dev_entry 0x1014 0x0095 ''20H2999'' ''PCI Docking Bridge'',
     dev_entry 0x1014 0x0096 '''' ''Chukar chipset SCSI Controller'',
     dev_entry 0x1014 0x00A1 ''PowerNP NPr2.7'' ''ATM support device'']"

definition PciDevTable_26 :: "PCI_DEVTABLE list" where
  "PciDevTable_26 = [
     dev_entry 0x1014 0x00A5 '''' ''ATM Controller'',
     dev_entry 0x1014 0x00A6 '''' ''ATM 155Mbps MM Controller'',
     dev_entry 0x1014 0x00B7 ''GXT2000'' ''256-bit Graphics Rasterizer'',
     dev_entry 0x1014 0x00BE '''' ''ATM 622Mbps Controller'',
     dev_entry 0x1014 0x00CE ''02li537'' ''Adapter 2 Token Ring Card'',
     dev_entry 0x1014 0x00F9 ''CPC700'' ''Memory Controller and PCI Bridge'',
     dev_entry 0x1014 0x00FC ''CPC710'' ''PCI-64 Bridge'',
     dev_entry 0x1014 0x0105 ''CPC710'' ''PCI-32 Bridge'',
     dev_entry 0x1014 0x010F ''0680'' ''Remote Supervisor+Serial Port+Mouse/Keyb'',
     dev_entry 0x1014 0x011B ''cbeh3w'' ''Raid controller'',
     dev_entry 0x1014 0x0142 ''Yotta'' ''Video Compositor Input'',
     dev_entry 0x1014 0x0144 ''Yotta'' ''Video Compositor Output'',
     dev_entry 0x1014 0x0153 '''' '''',
     dev_entry 0x1014 0x0156 ''405GP'' ''PLB to PCI Bridge'',
     dev_entry 0x1014 0x0170 ''RC1000'' ''Rasterizer/IBM GT1000 Geometr'',
     dev_entry 0x1014 0x0188 ''x'' ''PCI Bridge'',
     dev_entry 0x1014 0x01a2 ''82801'' (''Modem: Intel Corporation 82440MX AC'' @ [CHR 0x27] @ ''97 Modem Controller (prog-if 00 [Generic])''),
     dev_entry 0x1014 0x01A7 ''IBM 133'' ''PCI-X Bridge R1.1'',
     dev_entry 0x1014 0x01BD ''ServeRAID 4/5'' ''Morpheus SCSI RAID Controller'',
     dev_entry 0x1014 0x01ef ''440GP'' ''PLB to PCI-X Bridge'',
     dev_entry 0x1014 0x0246 '''' '''',
     dev_entry 0x1014 0x027F ''440GX'' ''Embedded PowerPC CPU'',
     dev_entry 0x1014 0x0289 ''8086'' ''0890'',
     dev_entry 0x1014 0x028c ''112'' ''SCSI Storage Controller'',
     dev_entry 0x1014 0x0295 ''NECSCE 11508082'' ''IBM SurePOS Riser Card Function 0'',
     dev_entry 0x1014 0x0297 ''NECSCE 11508082'' ''IBM SurePOS Riser Card Function 1 (UARTs)'',
     dev_entry 0x1014 0x02A1 '' '' ''Calgary PCI-X Host Bridge'',
     dev_entry 0x1014 0x0302 ''b8331462'' ''PCI-X Host Bridge'',
     dev_entry 0x1014 0x0308 ''1'' ''IBM CalIOC2 (Calgary on PCI-E)'',
     dev_entry 0x1014 0xFFFF ''MPIC 2'' ''Interrupt Controller'',
     dev_entry 0x1017 0x5343 ''v7-mpeg modul'' ''SPEA 3D Accelerator'',
     dev_entry 0x1018 0x3330 ''544469821'' ''5444469821'',
     dev_entry 0x1019 0x1B10 ''sis-648D'' ''VIA chipset'',
     dev_entry 0x1019 0x9876 ''5.03.2600.2180 32bit Unicode'' ''Intel(R) Celeron(R) CPU 2.80GHz'',
     dev_entry 0x101A 0x0005 ''8156'' ''100VG/AnyLAN Adapter'',
     dev_entry 0x101A 0x0009 ''Altera FLEX'' ''PCI-X dual port  '',
     dev_entry 0x101E 0x9010 ''MegaRAID 428'' ''Ultra Wide SCSI RAID Controller2'',
     dev_entry 0x101E 0x9030 '''' ''EIDE Controller'',
     dev_entry 0x101E 0x9031 '''' ''EIDE Controller'',
     dev_entry 0x101E 0x9032 '''' ''IDE and SCSI Cntrlr'',
     dev_entry 0x101E 0x9033 ''I960'' ''SCSI Controller'',
     dev_entry 0x101E 0x9040 ''amd sempron(tm)2200+'' ''Multimedia card'',
     dev_entry 0x101E 0x9060 ''MegaRAID 434'' ''Ultra GT RAID Controller'',
     dev_entry 0x101E 0x9063 ''MegaRAC 780'' ''Remote Assistant'',
     dev_entry 0x101E 0x9095 ''9095'' ''SGPIO/SES/IPMI Initiator'',
     dev_entry 0x1022 0x1100 ''Athlon 64 / Opteron'' ''HyperTransport Technology Configuration'',
     dev_entry 0x1022 0x1101 ''Athlon 64 / Opteron'' ''Address Map'',
     dev_entry 0x1022 0x1102 ''Athlon 64 / Opteron'' ''AMD Hammer - DRAM Controller '',
     dev_entry 0x1022 0x1103 ''Athlon 64 / Opteron'' ''AMD Hammer - Miscellaneous Control '',
     dev_entry 0x1022 0x2000 ''Am79C970/1/2/3/5/6'' ''PCnet LANCE PCI Ethernet Controller'',
     dev_entry 0x1022 0x2001 ''Am79C978'' ''PCnet-Home Networking Ctrlr (1/10 Mbps)'',
     dev_entry 0x1022 0x2003 ''Am1772'' ''Wireless LAN chipset SMC 2602W V3 http://www.smc.com/index.cfm?event=downloads.doSearchCriteria&loca'',
     dev_entry 0x1022 0x2020 ''Am53C974'' ''SCSI Controller'',
     dev_entry 0x1022 0x2040 ''Am79C974'' ''Ethernet Controller'',
     dev_entry 0x1022 0x2081 ''Unknown'' ''GeodeLX graphics adapter'',
     dev_entry 0x1022 0x2082 ''GX3'' ''Geode GX3 AES Crypto Driver'',
     dev_entry 0x1022 0x208F ''CS5536'' ''GeodeLink PCI South Bridge'',
     dev_entry 0x1022 0x2093 ''CS5536'' ''CS5536 Audio Controller'',
     dev_entry 0x1022 0x2094 ''CS5536'' ''CS5536 OHCI USB Host Controller'',
     dev_entry 0x1022 0x2095 ''CS5536'' ''CS5536 EHCI USB Host Controller'',
     dev_entry 0x1022 0x2096 ''Number: CS5536'' ''CS5536 USB Device Controller'',
     dev_entry 0x1022 0x2097 ''CS5536'' ''CS5536 USB OTG Controller'',
     dev_entry 0x1022 0x209A ''CS5536'' ''CS5536 IDE Controller'',
     dev_entry 0x1022 0x2433 ''690LC'' ''Chill Control Connector'',
     dev_entry 0x1022 0x3000 ''SC520'' ''ELAN Microcontroller PCI Host Bridge'',
     dev_entry 0x1022 0x5e4b ''RV410'' ''Radeon X700 Pro'',
     dev_entry 0x1022 0x7004 ''AMD-751'' ''CPU to PCI Bridge'',
     dev_entry 0x1022 0x7006 ''AMD-751'' ''Processor-to-PCI Bridge / Memory Ctrlr'',
     dev_entry 0x1022 0x7007 ''AMD-751'' ''AGP and PCI-to-PCI Bridge (1x/2x AGP)'',
     dev_entry 0x1022 0x700A ''AMD-IGR4'' ''AGP Host to PCI Bridge'',
     dev_entry 0x1022 0x700B ''AMD-IGR4'' ''AGP PCI to PCI Bridge'',
     dev_entry 0x1022 0x700C ''AMD-762'' ''CPU to PCI Bridge (SMP chipset)'',
     dev_entry 0x1022 0x700D ''AMD-762'' ''CPU to PCI Bridge (AGP 4x)'',
     dev_entry 0x1022 0x700E ''AMD-761'' ''North Bridge'',
     dev_entry 0x1022 0x700F ''AMD-761'' ''CPU to AGP Bridge  (AGP 4x)'',
     dev_entry 0x1022 0x7400 ''AMD-755'' ''PCI to ISA Bridge'',
     dev_entry 0x1022 0x7401 ''AMD-755'' ''Bus Master IDE Controller'',
     dev_entry 0x1022 0x7403 ''AMD-755'' ''Power Management Controller'',
     dev_entry 0x1022 0x7404 ''AMD-755'' ''PCI to USB Open Host Controller'',
     dev_entry 0x1022 0x7408 ''AMD-756'' ''PCI-ISA Bridge'',
     dev_entry 0x1022 0x7409 ''AMD-756'' ''EIDE Controller'',
     dev_entry 0x1022 0x740B ''AMD-756'' ''Power Management'',
     dev_entry 0x1022 0x740C ''AMD-756'' ''USB Open Host Controller'',
     dev_entry 0x1022 0x7410 ''AMD-766'' ''PCI to ISA/LPC Bridge'',
     dev_entry 0x1022 0x7411 ''AMD-766'' ''Enhanced IDE Controller'',
     dev_entry 0x1022 0x7412 ''AMD-766'' ''USB Controller'',
     dev_entry 0x1022 0x7413 ''AMD-766'' ''Power Management Controller'',
     dev_entry 0x1022 0x7414 ''AMD-766'' ''USB OpenHCI Host Controller'',
     dev_entry 0x1022 0x7440 ''AMD-768'' ''LPC Bridge'',
     dev_entry 0x1022 0x7441 ''AMD-768'' ''EIDE Controller'',
     dev_entry 0x1022 0x7443 ''AMD-768'' ''System Management'',
     dev_entry 0x1022 0x7445 ''AMD-768'' ''AC97 Audio'',
     dev_entry 0x1022 0x7446 ''AMD-768'' ''AC97 Modem'',
     dev_entry 0x1022 0x7448 ''AMD-768'' ''PCI Bridge'',
     dev_entry 0x1022 0x7449 ''AMD-768'' ''USB Controller'',
     dev_entry 0x1022 0x7450 ''AMD-8131'' ''PCI-X Bridge'',
     dev_entry 0x1022 0x7451 ''AMD-8131'' ''PCI-X IOAPIC'',
     dev_entry 0x1022 0x7454 ''AMD-8151'' ''System Controller'',
     dev_entry 0x1022 0x7455 ''AMD-8151'' ''AGP Bridge'',
     dev_entry 0x1022 0x7458 ''AMD-8132'' ''PCI-X Bridge'',
     dev_entry 0x1022 0x7459 ''AMD-8132'' ''PCI-X IOAPIC'',
     dev_entry 0x1022 0x7460 ''AMD-8111'' ''PCI Bridge'',
     dev_entry 0x1022 0x7461 ''AMD-8111'' ''USB 2.0 Controller'',
     dev_entry 0x1022 0x7462 ''AMD-8111'' ''Ethernet Controller'',
     dev_entry 0x1022 0x7463 ''AMD-8111'' ''USB Enhanced Host Controller'',
     dev_entry 0x1022 0x7464 ''AMD-8111'' ''USB OpenHCI Host Controller'',
     dev_entry 0x1022 0x7468 ''AMD-8111'' ''LPC Bridge'',
     dev_entry 0x1022 0x7469 ''AMD-8111'' ''UltraATA/133 Controller'',
     dev_entry 0x1022 0x746A ''AMD-8111'' ''SMBus 2.0 Controller'',
     dev_entry 0x1022 0x746B ''AMD-8111'' ''System Management'',
     dev_entry 0x1022 0x746D ''AMD-8111 (not sure but definitively not c-media cm'' '' Audio Controller'',
     dev_entry 0x1022 0x746E ''AMD-8111'' (''AC'' @ [CHR 0x27] @ ''97 Modem''),
     dev_entry 0x1022 0x756B ''AMD-8111'' ''ACPI Controller'',
     dev_entry 0x1022 0x7801 ''amd_sata'' ''AMD SATA Controller'',
     dev_entry 0x1022 0x7801 ''amd_sata'' ''AMD SATA Controller'',
     dev_entry 0x1022 0x7804 ''AMD SATA Controller'' ''AMD SATA Controller'',
     dev_entry 0x1022 0x7807 ''Standard OpenHCD USB Host Controller'' ''Standard OpenHCD USB Host Controller'',
     dev_entry 0x1022 0x7808 ''Standard PCI-to-USB extended host controller '' ''Standard PCI-to-USB extended host controller '',
     dev_entry 0x1022 0x780b ''R309218'' ''SM Bus controller'',
     dev_entry 0x1022 0x7812 ''amd_sata '' ''AMD USB 3.0 Host Controller'',
     dev_entry 0x1022 0x840 ''4u'' ''Used to blow up the motherboard.  Highly explosive.  Use at ur own risk'',
     dev_entry 0x1022 0x9642 ''AMD-6370D'' ''AMD Radeon HD6370D'',
     dev_entry 0x1023 0x0194 ''82C194'' ''CardBus Controller'',
     dev_entry 0x1023 0x2000 ''4DWAVE-DX'' ''advanced PCI DirectSound accelerator'',
     dev_entry 0x1023 0x2001 ''4D WAVE DX SOUND ACCELERATOR'' ''PCI Audio'',
     dev_entry 0x1023 0x2100 ''Cyber-XP4'' ''Video Accelerator'',
     dev_entry 0x1023 0x2200 ''Volari V3'' ''Video adapter'',
     dev_entry 0x1023 0x8400 ''84001023'' ''sausgauos'',
     dev_entry 0x1023 0x8420 ''51331071'' ''Trident Cyber Blade i7 AGP (55)'',
     dev_entry 0x1023 0x8500 ''VT8361'' ''Via Tech VT8361/VT8601 Graphics Controller'',
     dev_entry 0x1023 0x8520 ''Trident Video Accelerator CyberBlade i1'' ''Windows xp'',
     dev_entry 0x1023 0x8620 ''CyberBlade-i1'' ''trident'',
     dev_entry 0x1023 0x8820 ''Ai1'' ''TRIDENT DISPLAY CONTROLER /CyberALADDiN-T Driver'',
     dev_entry 0x1023 0x9320 ''TGUI9320'' ''32-bit GUI Accelerator'',
     dev_entry 0x1023 0x9350 ''TGUI9350'' ''32-bit GUI Accelerator'',
     dev_entry 0x1023 0x9360 '''' ''Flat panel Cntrlr'',
     dev_entry 0x1023 0x9382 ''Cyber9382'' '''']"

definition PciDevTable_27 :: "PCI_DEVTABLE list" where
  "PciDevTable_27 = [
     dev_entry 0x1023 0x9383 ''Cyber9383'' '''',
     dev_entry 0x1023 0x9385 ''Cyber9385'' '''',
     dev_entry 0x1023 0x9386 ''Cyber9386'' ''Video Accelerator'',
     dev_entry 0x1023 0x9388 ''Cyber9388'' ''Video Accelerator'',
     dev_entry 0x1023 0x9397 ''Cyber9397'' ''Video Accelerator 3D'',
     dev_entry 0x1023 0x939A ''Cyber9397DVD'' ''Video Accelerator'',
     dev_entry 0x1023 0x9420 ''TGUI9420'' ''DGi GUI Accelerator'',
     dev_entry 0x1023 0x9430 ''TGUI9430'' ''GUI Accelerator'',
     dev_entry 0x1023 0x9440 ''TGUI9682'' ''DGi GUI Acclerator'',
     dev_entry 0x1023 0x9460 ''TGUI9460'' ''32-bit GUI Accelerator'',
     dev_entry 0x1023 0x9470 ''TGUI9470'' '''',
     dev_entry 0x1023 0x9520 ''ox16'' ''Video Accelerator'',
     dev_entry 0x1023 0x9525 ''Cyber9525'' ''Video Accelerator'',
     dev_entry 0x1023 0x9540 ''Cyber9540'' ''Video Acclerator'',
     dev_entry 0x1023 0x9660 ''TGUI9660'' ''GUI Accelerator'',
     dev_entry 0x1023 0x9680 ''TGUI9680'' ''GUI Accelerator'',
     dev_entry 0x1023 0x9682 ''TGUI9680'' ''Trident A CAB01'',
     dev_entry 0x1023 0x9683 ''TGUI9683'' ''GUI Accelerator'',
     dev_entry 0x1023 0x9685 ''ProVIDIA 9685'' ''2MB VGA'',
     dev_entry 0x1023 0x9750 ''3DImage 9750 PCI/AGP'' ''trident dgi'',
     dev_entry 0x1023 0x9753 ''TGUI9753'' ''Video Accelerator'',
     dev_entry 0x1023 0x9754 ''TGUI9753'' ''Wave Video Accelerator'',
     dev_entry 0x1023 0x9759 ''TGUI975?'' ''Image GUI Accelerator'',
     dev_entry 0x1023 0x9783 ''TGUI9783'' '''',
     dev_entry 0x1023 0x9785 ''TGUI9785'' '''',
     dev_entry 0x1023 0x9850 ''3D Image 9850 AGP'' ''4mb'',
     dev_entry 0x1023 0x9880 ''Blade 3D 9880'' ''gggggg'',
     dev_entry 0x1023 0x9910 ''00011178'' ''CyberBlade XP'',
     dev_entry 0x1023 0x9930 ''CyberBlade XPm'' '''',
     dev_entry 0x1023 0x9960 ''9960'' ''Trident Video Accelerator CyberBlade-1A31'',
     dev_entry 0x1025 0x0028 ''AC97'' ''Agere Systems soft modem chip'',
     dev_entry 0x1025 0x1435 ''M1435'' (''USB'' @ [CHR 0x5C] @ ''VID_0502&PID_3476&MI_01'' @ [CHR 0x5C] @ ''6&207B7CA8&0&0001''),
     dev_entry 0x1025 0x1445 ''M1445'' ''VL Bridge & EIDE'',
     dev_entry 0x1025 0x1449 ''M1449'' ''ISA Bridge'',
     dev_entry 0x1025 0x1451 ''M1451'' ''Pentium Chipset'',
     dev_entry 0x1025 0x1461 ''M1461'' ''P54C Chipset'',
     dev_entry 0x1025 0x1489 ''M1489'' '''',
     dev_entry 0x1025 0x1511 ''M1511'' '''',
     dev_entry 0x1025 0x1512 ''M1512'' '''',
     dev_entry 0x1025 0x1513 ''M1513'' '''',
     dev_entry 0x1025 0x1521 ''M1521'' ''CPU Bridge'',
     dev_entry 0x1025 0x1523 ''M1523'' ''ISA Bridge'',
     dev_entry 0x1025 0x1531 ''M1531'' ''North Bridge'',
     dev_entry 0x1025 0x1533 ''M1533'' ''ISA South Bridge'',
     dev_entry 0x1025 0x1535 ''M1535'' ''PCI South Bridge'',
     dev_entry 0x1025 0x1541 ''M1541'' ''AGP PCI North Bridge Aladdin V/V+'',
     dev_entry 0x1025 0x1542 ''M1542'' ''AGP+PCI North Bridge'',
     dev_entry 0x1025 0x1543 ''M1543C'' ''PCi South Bridge Aladdin IV+/V'',
     dev_entry 0x1025 0x1561 ''M1561'' ''driver video'',
     dev_entry 0x1025 0x1621 ''M1621'' ''PCI North Bridge Aladdin Pro II'',
     dev_entry 0x1025 0x1631 ''M1631'' ''PCI North Bridge Aladdin Pro III'',
     dev_entry 0x1025 0x1641 ''M1641'' ''PCI North Bridge Aladdin Pro IV'',
     dev_entry 0x1025 0x3141 ''M3141'' ''GUI Accelerator'',
     dev_entry 0x1025 0x3143 ''M3143'' ''GUI Accelerator'',
     dev_entry 0x1025 0x3145 ''M3145'' ''GUI Accelerator'',
     dev_entry 0x1025 0x3147 ''M3147'' ''GUI Accelerator'',
     dev_entry 0x1025 0x3149 ''M3149'' ''GUI Accelerator'',
     dev_entry 0x1025 0x3151 ''M3151'' ''GUI Accelerator'',
     dev_entry 0x1025 0x3307 ''M3307'' ''MPEG-1 Decoder'',
     dev_entry 0x1025 0x3309 ''M3309'' ''MPEG Decoder'',
     dev_entry 0x1025 0x5212 ''M4803'' '''',
     dev_entry 0x1025 0x5215 ''M5217'' ''EIDE Controller'',
     dev_entry 0x1025 0x5217 ''M5217'' ''I/O Controller'',
     dev_entry 0x1025 0x5219 ''M5219'' ''I/O Controller'',
     dev_entry 0x1025 0x5225 ''M5225'' ''EIDE Controller'',
     dev_entry 0x1025 0x5229 ''M522'' ''EIDE Controlle'',
     dev_entry 0x1025 0x5235 ''1025'' ''I/O Controller'',
     dev_entry 0x1025 0x5237 ''M5237'' ''Intel(R) 5 Series/3400 Series Chipset Family 4 Port SATA AHCI Controller - 3B29'',
     dev_entry 0x1025 0x5239 '''' '''',
     dev_entry 0x1025 0x5240 '''' ''EIDE Controller'',
     dev_entry 0x1025 0x5241 '''' ''PCMCIA Bridge'',
     dev_entry 0x1025 0x5242 '''' ''General Purpose Controller'',
     dev_entry 0x1025 0x5243 '''' ''PCI to PCI Bridge'',
     dev_entry 0x1025 0x5244 '''' ''Floppy Disk Controller'',
     dev_entry 0x1025 0x5247 ''M1541'' ''PCI-PCI Bridge'',
     dev_entry 0x1025 0x5427 '''' ''PCI to AGP Bridge'',
     dev_entry 0x1025 0x5451 ''M5451'' ''PCI AC-Link Controller Audio Device'',
     dev_entry 0x1025 0x5453 ''M5453'' ''M5453 AC-Link Controller Modem Device'',
     dev_entry 0x1025 0x7101 ''M7101'' ''PCI PMU Power Management Controller'',
     dev_entry 0x1028 0x0001 ''PowerEdge 2 /Si'' ''Expandable RAID Controller (PERC) (SCSI)'',
     dev_entry 0x1028 0x0002 ''PowerEdge 3/Di'' ''Expandable RAID Controller'',
     dev_entry 0x1028 0x0003 ''PowerEdge 3/Si'' ''Expandable RAID Controller'',
     dev_entry 0x1028 0x0004 ''PowerEdge 3/Si'' ''Expandable RAID Controller'',
     dev_entry 0x1028 0x0005 ''PowerEdge 3/Di'' ''Expandable RAID Controller'',
     dev_entry 0x1028 0x0006 ''PowerEdge 3/Di'' ''Expandable RAID Controller'',
     dev_entry 0x1028 0x0007 ''270'' ''Remote Assistant Card'',
     dev_entry 0x1028 0x0008 ''PowerEdge 3/Di'' ''RAC Virtual UART Port'',
     dev_entry 0x1028 0x000A ''PowerEdge 3/Di'' ''Expandable RAID Controller'',
     dev_entry 0x1028 0x000C ''53C885 23800 SCSI Adapter'' ''Embedded Systems Management Device 4'',
     dev_entry 0x1028 0x000D ''?'' ''LSI53C895 PCI to Ultra2 SCSI I/O Processor with LVD Link'',
     dev_entry 0x1028 0x000E ''000E'' ''PERC 4/DI Raid Controller'',
     dev_entry 0x1028 0x0010 ''DRAC4'' ''HJ866 - ESM4 &#1059;&#1076;&#1072;&#1083;&#1077;&#1085;&#1085;&#1099;&#1081; &#1044;&#1086;&#1089;&#'',
     dev_entry 0x1028 0x0011 ''DRAC4'' ''Dell Remote Access Controller v4'',
     dev_entry 0x1028 0x0012 ''DRAC4-UART'' ''Dell RAC v4 Virtual UART'',
     dev_entry 0x1028 0x0013 ''PERC 4e/Si and PERC 4e/Di'' ''Expandable RAID Controller'',
     dev_entry 0x1028 0x0014 ''DRAC4-0'' ''Dell Remote Access Controller subsystem'',
     dev_entry 0x1028 0x0015 ''PERC 5/i RAID Controller'' ''Integrated RAID controller'',
     dev_entry 0x1028 0x012c ''82545'' ''Intel Gigabit controller'',
     dev_entry 0x1028 0x016d ''82541GI'' ''Dell PRO/1000 MT Network Connection'',
     dev_entry 0x1028 0x0287 ''DELL PERC 320/DC'' ''Adaptec 2200S SCSI RAID controller'',
     dev_entry 0x1028 0x1000 ''FA82537EP'' ''A Intel 537 epg v.92 modem repackaged by dell'',
     dev_entry 0x1028 0x1050 ''0200'' ''ethernet controller'',
     dev_entry 0x1028 0x1f0c ''1078'' ''Dell PERC 6/i Integrated RAID Controller'',
     dev_entry 0x1028 0x3002 ''AR3011'' ''Dell Wireless 1702 Bluetooth v3.0+HS'',
     dev_entry 0x1028 0x3582 ''inspiron n5110'' ''video controller'',
     dev_entry 0x1028 0x9876 ''PowerEdge 3/Si'' ''Expandable RAID Controller'',
     dev_entry 0x102A 0x0000 ''HYDRA'' ''4 port usb hub'',
     dev_entry 0x102A 0x0003 ''0x0000'' (''USB'' @ [CHR 0x5C] @ ''VID_0000&PID_0000'' @ [CHR 0x5C] @ ''5&18BB29D0&1&2''),
     dev_entry 0x102A 0x0010 ''ASPEN'' ''i486 Chipset'',
     dev_entry 0x102A 0x002A ''HYDRA'' ''4 port usb hub'',
     dev_entry 0x102A 0x102A ''HYDRA'' ''P5 Chipset'',
     dev_entry 0x102A 0x9876 ''HYDRA'' ''P5 CHIPSET'',
     dev_entry 0x102B 0x0010 ''MGA-I'' ''Impression?'',
     dev_entry 0x102B 0x0040 ''chip=0x2539102b'' ''Matrox P650 very new model (20080724)'',
     dev_entry 0x102B 0x051 ''MGA-2164W'' ''matrox'',
     dev_entry 0x102B 0x0518 ''MGA-PX2085'' ''Atlas GUI Accelerator'',
     dev_entry 0x102B 0x0519 ''MGA-2064W'' ''Strorm GUI Accelerator'',
     dev_entry 0x102B 0x051A ''mga-1164sg-a'' ''Hurricane/Cyclone 64-bit graphics chip'',
     dev_entry 0x102B 0x051B ''MGA-2164W'' ''Matrox'',
     dev_entry 0x102B 0x051E ''MGA-1164SG'' ''Chinook'',
     dev_entry 0x102B 0x051F ''MGA-200B'' ''Mistral'',
     dev_entry 0x102B 0x0520 ''Matrox lnc MGA-G200B'' ''AGP'',
     dev_entry 0x102B 0x0521 ''Matrox lnc MGA-G200B'' ''102B'',
     dev_entry 0x102B 0x0522 ''G200e'' ''Matrox G200e (ServerEngines) - English'',
     dev_entry 0x102B 0x0525 ''i440B'' ''Intel Pentium III'',
     dev_entry 0x102B 0x0527 ''Parhelia AGP'' '''',
     dev_entry 0x102B 0x0528 ''Parhelia'' ''Parhelia 128MB/256MB/PCI/HR256'',
     dev_entry 0x102B 0x0530 ''Matrox  G200eV'' ''Matrox G200eV'',
     dev_entry 0x102B 0x0534 ''?'' ''G200eR'',
     dev_entry 0x102B 0x0540 ''M9138'' ''M9138 LP PCIe x16'',
     dev_entry 0x102B 0x0D10 ''MGA-I'' ''Athena GUI accelerator'',
     dev_entry 0x102B 0x1000 ''MGA-G100'' ''Twister'',
     dev_entry 0x102B 0x1001 ''MGA-G100'' ''Twister AGP'',
     dev_entry 0x102B 0x1525 ''Fusion G450 AGP'' '''',
     dev_entry 0x102B 0x1527 ''Fusion Plus G800 AGP'' '''',
     dev_entry 0x102B 0x2007 ''Mistral'' ''GUI+3D Accelerator'',
     dev_entry 0x102B 0x2527 ''MGA-G550'' ''AGP Chipset'',
     dev_entry 0x102B 0x2537 ''Parhelia-LX'' ''Parhelia Chipset AGP'']"

definition PciDevTable_28 :: "PCI_DEVTABLE list" where
  "PciDevTable_28 = [
     dev_entry 0x102B 0x2538 ''Matrox Millennium P650 LP PCIe 64'' ''Matrox Millennium P650 LP PCIe 64'',
     dev_entry 0x102B 0x2539 ''G550/P650 Dual DVI'' ''Matrox Graphics Board dual DVI'',
     dev_entry 0x102B 0x4536 ''Meteor 2 STD/MC/Dig'' ''Video Capture Card'',
     dev_entry 0x102B 0x522 ''MGA-G200E'' ''Matrox G200e (ServerEngines)'',
     dev_entry 0x102B 0x525 ''G450'' ''G45+'',
     dev_entry 0x102B 0x532 ''G200eW'' ''Matrox G200eW 8 MB DDR2 '',
     dev_entry 0x102B 0x6573 ''Shark'' ''10/100 Multiport Switch NIC'',
     dev_entry 0x102B 0x80A0 ''RT.x10'' ''Multimedia Device'',
     dev_entry 0x102B 0x9876 ''RT 2000'' ''Multimedia device'',
     dev_entry 0x102C 0x00B8 ''64310'' ''Wingine DGX - DRAM Graphics Accelerator'',
     dev_entry 0x102C 0x00C0 ''69000'' ''AGP/PCI Flat Panel/CRT VGA Accelerator'',
     dev_entry 0x102C 0x00D0 ''65545'' ''Flat panel/crt VGA Cntrlr'',
     dev_entry 0x102C 0x00D8 ''65540'' ''Flat Panel/CRT VGA Controller'',
     dev_entry 0x102C 0x00DC ''65548'' ''GUI Accelerator'',
     dev_entry 0x102C 0x00E0 ''65550'' ''LCD/CRT controller'',
     dev_entry 0x102C 0x00E4 ''65554'' ''Flat Panel/LCD CRT GUI Accelerator'',
     dev_entry 0x102C 0x00E5 ''65555'' ''VGA GUI Accelerator'',
     dev_entry 0x102C 0x00F0 ''68554'' ''vga Controller'',
     dev_entry 0x102C 0x00F4 ''68554'' ''graphic driver'',
     dev_entry 0x102C 0x00F5 ''68555'' ''GUI Controller'',
     dev_entry 0x102C 0x01E0 ''65560'' ''PCI Flat Panel/CRT VGA Accelerator'',
     dev_entry 0x102C 0x0C30 ''69030'' ''AGP/PCI Flat Panel/CRT VGA Accelerator'',
     dev_entry 0x102D 0x50DC ''3328'' ''Audio'',
     dev_entry 0x102F 0x0009 ''r4x00'' ''CPU Bridge'',
     dev_entry 0x102F 0x000A ''TX3927'' ''CPU Bridge?'',
     dev_entry 0x102F 0x0020 ''Meteor 155'' ''ATM PCI Adapter'',
     dev_entry 0x102F 0x0030 ''TC35815CF'' (''PCI'' @ [CHR 0x5C] @ ''VEN_8086''),
     dev_entry 0x102F 0x0031 ''TX4938'' ''Integrated 10/100 Mbit Ethernet Controller'',
     dev_entry 0x102F 0x0100 ''8185'' ''Realtek RTS5208 Card Reader'',
     dev_entry 0x102F 0x0105 ''TC86C001FG'' ''GOKU-S Bus Master IDE Controller'',
     dev_entry 0x102F 0x0106 ''TC86C001FG'' ''GOKU-S USB Host Controller'',
     dev_entry 0x102F 0x0107 ''TC86C001FG'' ''GOKU-S USB Device Controller'',
     dev_entry 0x102F 0x0108 ''TC86C001FG'' ''GOKU-S I2C Bus/SIO/GPIO Controller'',
     dev_entry 0x102F 0x0180 ''TX4927'' ''MIPS Processor'',
     dev_entry 0x102F 0x0181 ''TX4925'' ''MIPS RISC PCI Controller (PCIC)'',
     dev_entry 0x102F 0x0182 ''TX4937'' ''MIPS RISC PCI Controller (PCIC)'',
     dev_entry 0x102F 0x01BA ''SE1000'' ''SpursEngine'',
     dev_entry 0x102F 0x0805 ''TC35815CF'' (''PCI'' @ [CHR 0x5C] @ ''VEN_1179&DEV_0805&SUBSYS_00011179&REV_03''),
     dev_entry 0x102F 0x102F (''ACPI'' @ [CHR 0x5C] @ ''SMCFO30'' @ [CHR 0x5C] @ ''4&69EE968&0'') (''PCI'' @ [CHR 0x5C] @ ''VEN_1179&DEV_0805&SUBSYS_00011179&REV_05'' @ [CHR 0x5C] @ ''4&7562792&0&68F0''),
     dev_entry 0x1031 0x5601 ''MiroVIDEO DC20'' ''I/O & JPEG'',
     dev_entry 0x1031 0x5607 ''2IVDC-PCX1 1250400 033893932'' ''video in and out with motion jpeg compression and deco'',
     dev_entry 0x1031 0x5631 ''Media 3D'' '''',
     dev_entry 0x1031 0x6057 ''MiroVIDEO DC30D'' ''DC30D-601601-4.0'',
     dev_entry 0x1033 0x0001 ''upD98409'' ''PCI to 486 like bus Bridge'',
     dev_entry 0x1033 0x0002 '''' ''PCI to VL98 Bridge'',
     dev_entry 0x1033 0x0003 '''' ''ATM Controller'',
     dev_entry 0x1033 0x0004 ''R4000'' ''PCI bus Bridge'',
     dev_entry 0x1033 0x0005 ''pci 7432'' ''PCI to 486 like peripheral bus Bridge'',
     dev_entry 0x1033 0x0006 '''' ''GUI Accelerator'',
     dev_entry 0x1033 0x0007 ''unknown from Creative.com'' ''PCI to ux-bus Bridge'',
     dev_entry 0x1033 0x0008 '''' ''GUI Accelerator (vga equivalent)'',
     dev_entry 0x1033 0x0009 '''' ''graphic Cntrlr for 98'',
     dev_entry 0x1033 0x001A ''Nile II'' '''',
     dev_entry 0x1033 0x001D ''uPD98405'' ''NEASCOT-S20 ATM Integrated SAR Ctrlr'',
     dev_entry 0x1033 0x0021 ''Vrc4373'' ''Nile I'',
     dev_entry 0x1033 0x0029 ''PoverVR PCX1'' ''3D Accelerator'',
     dev_entry 0x1033 0x002A ''PoverVR'' ''3D Accelerator'',
     dev_entry 0x1033 0x002f ''NEC D72874GC'' ''1394 Host Controller'',
     dev_entry 0x1033 0x0034 (''PCI'' @ [CHR 0x5C] @ ''VEN_1033&DEV_0034&SUBSYS_00341033&REV_43'') (''PCI'' @ [CHR 0x5C] @ ''VEN_1033&DEV_0034&SUBSYS_00341033''),
     dev_entry 0x1033 0x0035 ''udp9210'' ''Dual OHCI controllers plus Single EHCI controller'',
     dev_entry 0x1033 0x0036 ''uPD98409'' ''NEASCOT-S40C ATM Light SAR Controller'',
     dev_entry 0x1033 0x003E ''uPD66369'' ''NAPCCARD CardBus Controller'',
     dev_entry 0x1033 0x0046 ''PoverVR PCX2'' ''3D Accelerator'',
     dev_entry 0x1033 0x005A ''Vrc5074'' ''Nile 4'',
     dev_entry 0x1033 0x0063 ''uPD72862'' ''Firewarden IEEE1394 OHCI Host Controller'',
     dev_entry 0x1033 0x0067 ''PowerVR Neon 250'' ''PowerVR series II graphics processor'',
     dev_entry 0x1033 0x0074 ''NEC FMK 56 V90'' ''56k Voice Modem'',
     dev_entry 0x1033 0x009B ''Vrc5476'' '''',
     dev_entry 0x1033 0x00A6 '''' '''',
     dev_entry 0x1033 0x00BE ''VR4122'' ''64-bit CPU with Northbridge'',
     dev_entry 0x1033 0x00CD ''uPD72870'' ''IEEE1394 1-Chip OHCI Host Controller'',
     dev_entry 0x1033 0x00CE ''uPD72871/2'' ''IEEE1394 1-Chip OHCI Host Controller'',
     dev_entry 0x1033 0x00E0 ''0x1033  '' ''USB 2.0 Host Controller'',
     dev_entry 0x1033 0x00E0 ''uPD720100A uPD720102GC'' ''USB 2.0 Host Controller'',
     dev_entry 0x1033 0x00E7 ''uPD72874'' ''IEEE1394 OHCI 1.1 3-port PHY-Link Ctrlr'',
     dev_entry 0x1033 0x00F2 ''D72874GC'' ''IEEE1394+OHCI+1.1+3-port+PHY-Link+Ctrlr'',
     dev_entry 0x1033 0x0165 ''-'' ''AVerMedia A313 MiniCard Hybrid DVB-T'',
     dev_entry 0x1033 0x0194 ''720200'' ''Renesas Electronics USB 3.0 Host Controller'',
     dev_entry 0x1033 0x0520 ''NEC D72874GC'' ''1394 CARD'',
     dev_entry 0x1033 0x1033 ''0720101GJ'' ''NEC PCI to USB Open Host Controller'',
     dev_entry 0x1033 0x9876 ''uPD720100A uPD720102GC'' ''USB 2.0 Host Controller'',
     dev_entry 0x1036 0x0000 ''TMC-18C30'' ''Fast SCSI'',
     dev_entry 0x1039 0x7012 (''HDAUDIO'' @ [CHR 0x5C] @ ''FUNC_01&VEN_&DEV_504514F1&SUBSYS_1631C106&'') ''PCI Audio Accelerator'',
     dev_entry 0x1039 0x0001 ''HPSiS760'' ''Anthlon 64 cpu to PCI bridge'',
     dev_entry 0x1039 0x0002 ''520'' ''Virtual PCI to PCI Bridge (AGP)'',
     dev_entry 0x1039 0x0003 ''SiS760'' ''SiS AGP Controller / SiS Accelerated Graphics Port '',
     dev_entry 0x1039 0x0005 ''0900'' ''Pentium chipset'',
     dev_entry 0x1039 0x0006 ''SiS 85C501'' ''PCI/ISA Cache Memory Controller (PCMC)'',
     dev_entry 0x1039 0x0008 ''SiS 85C503'' ''PCI System I/O (PSIO)'',
     dev_entry 0x1039 0x0009 ''5595'' ''SIS PMU device'',
     dev_entry 0x1039 0x0016 ''SiS740'' ''SMBus ControllerP4kjc'',
     dev_entry 0x1039 0x0018 ''SiS950'' ''vga'',
     dev_entry 0x1039 0x0160 ''SiS160'' ''SiS160 811 Wireless LAN Adapter'',
     dev_entry 0x1039 0x0180 ''SiS180'' ''SiS 180/181 RAID Controller '',
     dev_entry 0x1039 0x0181 ''?'' ''Raid Controller(?Mode Raid1)'',
     dev_entry 0x1039 0x0182 ''?'' ''Raid Controller(?Mode Raid0+1)'',
     dev_entry 0x1039 0x0183 ''?SIS965'' ''?SATA'',
     dev_entry 0x1039 0x0186 ''1039'' ''0330'',
     dev_entry 0x1039 0x0190 ''SiS968, SiS965, SiS966, SiS965L, SiS966L'' ''SiS191 Gigabit LAN & SiS190 LAN'',
     dev_entry 0x1039 0x0191 ''SIS191'' ''SIS191'',
     dev_entry 0x1039 0x0200 ''SiS5597/98'' ''Onboard Graphics Controller'',
     dev_entry 0x1039 0x0204 ''SiS 6215'' ''PCI1'',
     dev_entry 0x1039 0x0205 ''SiS 6205'' ''PCI Graphics & Video Accelerator'',
     dev_entry 0x1039 0x0300 ''SiS330'' ''GUI Accelerator+3D'',
     dev_entry 0x1039 0x0305 ''SiS305'' ''2D/3D/Video/DVD Accelerator'',
     dev_entry 0x1039 0x0315 ''Geforce2 MX400'' ''2D/3D Accelerator'',
     dev_entry 0x1039 0x0325 ''SiS6330'' ''Silicon Integrated Systems (SiS)'',
     dev_entry 0x1039 0x0330 ''SiS330'' ''Xabre 2D/3D Accelerator (AG400T8-D64)'',
     dev_entry 0x1039 0x0406 ''85C501'' ''PCI/ISA Cache Memory Controller (PCMC)'',
     dev_entry 0x1039 0x0496 ''85C496'' ''CPU to PCI & PCI to ISA Bridge'',
     dev_entry 0x1039 0x0530 ''SiS530'' ''Host-to-PCI bridge'',
     dev_entry 0x1039 0x0540 ''SiS540'' ''Host-to-PCI Bridge'',
     dev_entry 0x1039 0x0550 ''SiS550/1/2'' ''North Bridge'',
     dev_entry 0x1039 0x0596 ''SiS596'' ''Pentium PCI chipset with IDE'',
     dev_entry 0x1039 0x0597 ''SiS620'' ''EIDE Controller (step C)'',
     dev_entry 0x1039 0x0601 ''SiS83C601'' ''PCI EIDE Controller'',
     dev_entry 0x1039 0x0620 ''SiS620'' ''Host-to-PCI Bridge'',
     dev_entry 0x1039 0x0630 ''SiS6330'' ''Host-to-PCI Bridge'',
     dev_entry 0x1039 0x0635 ''SiS 635'' ''Host-to-PCI Bridge'',
     dev_entry 0x1039 0x0640 ''SiS 640'' ''Host-to-PCI Bridge'',
     dev_entry 0x1039 0x0645 ''SiS 645'' ''Host-to-PCI Bridge'',
     dev_entry 0x1039 0x0646 ''SiS645DX'' ''Host-to-PCI Bridge'',
     dev_entry 0x1039 0x0648 ''SiS648MX'' ''Host-to-PCI Bridge'',
     dev_entry 0x1039 0x0649 ''sis649'' ''Host-to-PCI Bridge'',
     dev_entry 0x1039 0x0650 ''SiS961'' ''Host-to-PCI Bridge'',
     dev_entry 0x1039 0x0651 ''SiS651'' ''Host-to-PCI Bridge'',
     dev_entry 0x1039 0x0655 ''SiS655'' ''Host-to-PCI Bridge'',
     dev_entry 0x1039 0x0656 ''???'' ''CPU to PCI Bridge'',
     dev_entry 0x1039 0x0658 ''SiS R658'' ''CPU to PCI Bridge'',
     dev_entry 0x1039 0x0659 ''SiS R659'' ''CPU to PCI Bridge'',
     dev_entry 0x1039 0x0660 ''vt8237a'' ''Host-to-PCI Bridge'',
     dev_entry 0x1039 0x0661 ''SiS 661FX'' ''SiS 661FX/GX Chipset - Host-PCI Bridge'',
     dev_entry 0x1039 0x0662 ''???'' ''CPU to PCI Bridge'',
     dev_entry 0x1039 0x0663 ''???'' ''CPU to PCI Bridge'',
     dev_entry 0x1039 0x0730 ''SiS 730'' ''Host-to-PCI Bridge'',
     dev_entry 0x1039 0x0735 ''SiS 735'' ''Host-to-PCI Bridge'',
     dev_entry 0x1039 0x0740 ''SiS 074'' ''LPC Bridge'',
     dev_entry 0x1039 0x0741 ''SIS741'' ''CPU to PCI Bridge'',
     dev_entry 0x1039 0x0745 ''SiS745'' ''Host-to-PCI Bridge'',
     dev_entry 0x1039 0x0746 ''SiS746'' ''Host-to-PCI Bridge'']"

end
