(* ===== verification/Pci_Device_3.thy ===== *)
theory Pci_Device_3
  imports Pci_Tables
begin

text \<open>
  \<open>PciDevTable\<close> of \<open>pci_vendor.h\<close>, entry by entry and in the order of the source: parts 29 to 42.
\<close>

definition PciDevTable_29 :: "PCI_DEVTABLE list" where
  "PciDevTable_29 = [
     dev_entry 0x1039 0x0748 ''SiS748'' ''CPU to PCI Bridge'',
     dev_entry 0x1039 0x0755 ''SiSM650?'' ''Host-to-PCI Bridge'',
     dev_entry 0x1039 0x0756 ''SiS755FX'' ''CPU to PCI Bridge'',
     dev_entry 0x1039 0x0760 ''SiS760'' ''Athlon 64 CPU to PCI Bridge'',
     dev_entry 0x1039 0x0761 ''88e8056'' ''Athlon 64 CPU to PCI Bridge'',
     dev_entry 0x1039 0x0762 ''???'' ''Athlon 64 CPU to PCI Bridge'',
     dev_entry 0x1039 0x0900 ''SiS 900'' ''SiS 900 Fast Ethernet Adapter'',
     dev_entry 0x1039 0x0901 ''Device ID = 0900 SiS900'' ''SiS900 10/100 Ethernet Adapter'',
     dev_entry 0x1039 0x0962 ''SiS962'' ''LPC Bridge'',
     dev_entry 0x1039 0x0963 ''SiS963'' ''PCI to ISA Bridge'',
     dev_entry 0x1039 0x0964 ''SiS964'' ''SiS 964 MuTIOL Media I/O Bridge '',
     dev_entry 0x1039 0x0999 ''sis950'' (''pci'' @ [CHR 0x5C] @ ''ven_1039&subsys_200b163&rev_a0'' @ [CHR 0x5C] @ ''3&61aaa01'' @ [CHR 0x5C] @ ''0&17''),
     dev_entry 0x1039 0x1039 ''SiS5597a'' ''SiS5597 SVGAa'',
     dev_entry 0x1039 0x1040 '''' '''',
     dev_entry 0x1039 0x10ec ''961/2'' ''bus controler'',
     dev_entry 0x1039 0x1182 ''?'' ''Raid Controller(?Mode Raid5)'',
     dev_entry 0x1039 0x1183 ''SIS966/968 '' ''SATA IDE Controller'',
     dev_entry 0x1039 0x1184 ''SIS966(AHCI)&#12289;SIS968(RAID)'' ''Raid/AHCI Controller'',
     dev_entry 0x1039 0x1185 ''SIS968'' ''AHCI Controller'',
     dev_entry 0x1039 0x1234 ''SiS5597a'' ''SiS5597 SVGAa'',
     dev_entry 0x1039 0x191 ''MTC ms9377c'' ''PCI /ven_1039'',
     dev_entry 0x1039 0x3602 ''SiS83C602'' ''IDE Controller'',
     dev_entry 0x1039 0x4321 ''Video Controller'' ''Video Controller (VGA Compatible)'',
     dev_entry 0x1039 0x5107 ''SiS5107'' ''Hot Docking Controller'',
     dev_entry 0x1039 0x5300 ''SiS540'' ''AGP'',
     dev_entry 0x1039 0x5315 ''SiS530/1/2'' ''GUI Accelerator'',
     dev_entry 0x1039 0x5401 ''SiS5401'' ''486 PCI Chipset'',
     dev_entry 0x1039 0x5511 ''SiS5511/5512'' ''PCI/ISA System Memory Controller'',
     dev_entry 0x1039 0x5513 ''All SIS SouthBridge'' ''SiS 5513 IDE UDMA Controller / SiS 85C513 IDE Controller'',
     dev_entry 0x1039 0x5517 ''SiS5517'' ''CPU to PCI Bridge'',
     dev_entry 0x1039 0x5518 ''SiS5518'' ''UDMA IDE Controller'',
     dev_entry 0x1039 0x5571 ''SiS5571'' ''Memory/PCI bridge'',
     dev_entry 0x1039 0x5581 ''SiS 5581'' ''p5 chipset'',
     dev_entry 0x1039 0x5582 ''SiS5582'' ''PCI to ISA Bridge'',
     dev_entry 0x1039 0x5591 ''MTC ms9377c (SIS 741)'' (''PCI'' @ [CHR 0x5C] @ ''VEN_1969''),
     dev_entry 0x1039 0x5596 ''SiS661FX'' '' VGA Controller'',
     dev_entry 0x1039 0x5597 ''SiS5597'' ''Host to PCI bridge'',
     dev_entry 0x1039 0x5600 ''SiS600'' ''Host-to-PCI Bridge'',
     dev_entry 0x1039 0x5630 ''SiS630'' ''Host-to-PCI Bridge'',
     dev_entry 0x1039 0x5811 '''' '''',
     dev_entry 0x1039 0x6204 ''SiS6204'' ''video decoder/mpeg interface'',
     dev_entry 0x1039 0x6205 ''SiS6215'' ''PCI VGA Controller'',
     dev_entry 0x1039 0x6225 ''SiS 950 m2284dxs'' ''PCI Graphics & Video Accelerator'',
     dev_entry 0x1039 0x6236 ''SG3730il'' ''Graphics'',
     dev_entry 0x1039 0x6300 ''SiS630/730'' ''GUI Accelerator+3D'',
     dev_entry 0x1039 0x6306 ''SiS530/620'' ''Integrated 3D  SVGA Controller'',
     dev_entry 0x1039 0x6325 (''pc&#305;'' @ [CHR 0x5C] @ ''VEN_1039&DEV_6325'') ''sis-651dx'',
     dev_entry 0x1039 0x6326 ''0x1039'' ''sis 6326 AGP'',
     dev_entry 0x1039 0x6330 ''SiS661FX/M661FX/760/741/M760/M741'' ''GUI 2D/3D Accelerator'',
     dev_entry 0x1039 0x6331 '' 04'' ''USB Host Controller'',
     dev_entry 0x1039 0x6351 ''SIS M672 FX'' ''SiS IGP Graphics family SIS66x/SIS76x & SIS67x'',
     dev_entry 0x1039 0x6355 ''962'' ''962lua'',
     dev_entry 0x1039 0x6787 ''SiS5597a'' ''Smart Link 56K Voice Modem (download from driverguide.com)'',
     dev_entry 0x1039 0x6972 '''' '''',
     dev_entry 0x1039 0x7001 ''SiS 7001'' ''SiS 7001 PCI to USB Open Host Controller '',
     dev_entry 0x1039 0x7002 ''SiS 7001 PCI to USB Open Host Controller'' ''USB 2.0 Enhanced Host Controller'',
     dev_entry 0x1039 0x7005 ''SiS551/2'' ''Memory Stick Controller'',
     dev_entry 0x1039 0x7007 ''1039'' ''OHCI Compliant FireWire Controller'',
     dev_entry 0x1039 0x7012 ''SiS 7012'' (''SiS 7012 Audio Device / Realtek AC'' @ [CHR 0x27] @ ''97 Audio''),
     dev_entry 0x1039 0x7013 ''SiS5597a'' ''Smart Link 56K Voice Modem (download from driverguide.com)'',
     dev_entry 0x1039 0x7013 ''SiS7013'' ''Smart Link 56K Voice Modem'',
     dev_entry 0x1039 0x7015 ''SiS550 dd'' ''Software Audio dd'',
     dev_entry 0x1039 0x7016 ''SiS191'' ''10/100 Ethernet Adapter'',
     dev_entry 0x1039 0x7018 ''SiS7018'' ''Onboard audio'',
     dev_entry 0x1039 0x7019 ''SiS550/1/2'' ''Hardware Audio'',
     dev_entry 0x1039 0x7300 ''SiS7013'' ''GUI Accelerator+3D'',
     dev_entry 0x1039 0x7502 ''649'' ''Realtek HDA Audio Driver.'',
     dev_entry 0x1039 0x8139 ''2012'' ''2012'',
     dev_entry 0x1039 0x96325 (''pc&#305;'' @ [CHR 0x5C] @ ''ven_1039&dev_6325'') ''sis 650 integrated gfx controller (IGP)'',
     dev_entry 0x1039 0x964 ''sis964'' ''LPC BRIDGE'',
     dev_entry 0x1039 0x9876 ''sis6215'' ''pci vga card for win95 & nt4 only'',
     dev_entry 0x1039 0x9989 ''SiS5597a'' ''Smart Link 56K Voice Modem (download from driverguide.com)'',
     dev_entry 0x1039 0x7012 (''HDAUDIO'' @ [CHR 0x5C] @ ''FUNC_01&VEN_&DEV_504514F1&SUBSYS_1631C106&'') ''PCI Audio Accelerator'',
     dev_entry 0x103B 0x103b ''82801DB'' ''LAN Controller with 82562EM/EX PHY'',
     dev_entry 0x103C 0x0024 ''?'' ''Standard Vista USB Keyboard'',
     dev_entry 0x103C 0x0A01 ''HP2400'' ''HP Scanjet 2400'',
     dev_entry 0x103C 0x1005 ''A4977A'' ''Visialize EG'',
     dev_entry 0x103C 0x1008 ''Donner GFX'' ''001'',
     dev_entry 0x103C 0x100A ''hpVisualizeFX'' ''Hewlett-Packard VisualizeFX Series Video'',
     dev_entry 0x103C 0x1028 ''ACPI/HPQ0004/3&b1bfb68&0'' ''HP ProtectSmart Hard Drive Protection - HP 3D DriveGuard'',
     dev_entry 0x103C 0x1029 ''HPFC-5200B'' ''Tachyon XL2 Fibre Channel Adapter'',
     dev_entry 0x103C 0x102A ''Tach TS'' ''Tachyon TS Fibre Channel Host Adapter'',
     dev_entry 0x103C 0x1030 ''J2585B'' ''DeskDirect 10/100VG LAN Adapter'',
     dev_entry 0x103C 0x1031 ''J2585B222'' ''DeskDirect 10/100 NIC'',
     dev_entry 0x103C 0x1040 ''J2973A'' ''DeskDirect 10BaseT NIC'',
     dev_entry 0x103C 0x1041 ''J2585B'' ''DeskDirect 10/100VG NIC'',
     dev_entry 0x103C 0x1042 ''J2970A'' ''DeskDirect 10BaseT/2 NIC'',
     dev_entry 0x103C 0x1048 ''SAS'' '''',
     dev_entry 0x103C 0x1049 ''DIVA1'' '''',
     dev_entry 0x103C 0x104A ''DIVA2'' ''intel'',
     dev_entry 0x103C 0x104B ''SP2'' '''',
     dev_entry 0x103C 0x104D ''J3242A'' ''EL-10 Ethernet Adapter'',
     dev_entry 0x103C 0x1064 ''79C970'' ''PCnet Ethernet Controller'',
     dev_entry 0x103C 0x10C1 '''' ''NetServer Smart IRQ Router'',
     dev_entry 0x103C 0x10ED ''TopTools'' ''HP Communications Port'',
     dev_entry 0x103C 0x1200 ''82557B'' ''10/100 NIC'',
     dev_entry 0x103C 0x1219 '''' ''NetServer PCI Hot-Plug Controller'',
     dev_entry 0x103C 0x121A '''' ''NetServer SMIC Controller'',
     dev_entry 0x103C 0x121B '''' ''NetServer Legacy COM Port Decoder'',
     dev_entry 0x103C 0x121C '''' ''NetServer PCI COM Port Decoder'',
     dev_entry 0x103C 0x1229 ''zx1'' ''System Bus Adapter'',
     dev_entry 0x103C 0x122A ''zx1'' ''I/O Controller'',
     dev_entry 0x103C 0x122B ''zx1'' ''Local Bus Adapter'',
     dev_entry 0x103C 0x12FA ''Broadcom BCM4306'' ''Broadcom Wireless miniPCI in a HP laptop'',
     dev_entry 0x103C 0x1302 ''1302103C'' ''HP Management Shared Memory Device'',
     dev_entry 0x103C 0x137a ''AR5007'' ''Atheros AR5007'',
     dev_entry 0x103C 0x1411 ''HPOJ750'' ''HP PSC 750'',
     dev_entry 0x103C 0x171d ''HP Integrated Module with Bluetooth Wireless'' ''HP Integrated Module with Bluetooth Wireless'',
     dev_entry 0x103C 0x1F1D (''USB'' @ [CHR 0x5C] @ ''VID_03F0&PID_2F1D&REV_0000'') ''3G Broadband device'',
     dev_entry 0x103C 0x201D ''?'' ''3G Broadband device'',
     dev_entry 0x103C 0x231D (''USB'' @ [CHR 0x5C] @ ''VID_03F0&PID_231D'' @ [CHR 0x5C] @ ''6&23104BA&0&7'') ''HP Integrated Module with Bluetooth Wireless Technology'',
     dev_entry 0x103C 0x241D (''USB'' @ [CHR 0x5C] @ ''VID_0000_PID_0000_0000'' @ [CHR 0x5C] @ ''5&39D01B80&0&4'') ''HP compaq nx6125'',
     dev_entry 0x103C 0x2910 ''E2910A'' ''PCI Bus Exerciser'',
     dev_entry 0x103C 0x292 ''E2924A'' ''PCI Host Interface Adapter'',
     dev_entry 0x103C 0x2920 '''' ''Fast Host Interface'',
     dev_entry 0x103C 0x2924 ''QDS-BRCM1051'' ''PCI Host Interface Adapter'',
     dev_entry 0x103C 0x2925 ''E2925A'' ''32 bit PCI Bus Exerciser and Analyzer'',
     dev_entry 0x103C 0x2926 ''E2926A'' ''64 bit PCI Bus Exerciser and Analyzer'',
     dev_entry 0x103C 0x2927 ''E2927a'' ''64 Bit, 66/50MHz PCI Analyzer & Exerciser'',
     dev_entry 0x103C 0x294 ''qds brcm1051'' ''pci hostinterface'',
     dev_entry 0x103C 0x2940 ''E2940A'' ''64 bit, 66/50MHz CompactPCI Analyzer&Exerciser'',
     dev_entry 0x103C 0x311d ''rev 001'' ''ATHEROS AR3011 bluetooth 3.0+HS adapter'',
     dev_entry 0x103C 0x3206 ''unknown'' ''Adaptec Embedded Serial ATA HostRAID'',
     dev_entry 0x103C 0x3207 ''not sure'' ''not sure'',
     dev_entry 0x103C 0x3220 ''P600'' ''P600 SmartArray Raid Controller'',
     dev_entry 0x103C 0x3230 ''Smart Array P400 Controller'' ''Smart Array P400 Controller'',
     dev_entry 0x103C 0x323A ''Smart Array P410i Controller'' ''Smart Array P410i Controller'',
     dev_entry 0x103C 0x3302 ''3305103C'' ''Integrated Lights Out 2.0'',
     dev_entry 0x103C 0x3A1D ''hs2340'' ''HP hs2340 HSPA+ MobileBroadband'']"

definition PciDevTable_30 :: "PCI_DEVTABLE list" where
  "PciDevTable_30 = [
     dev_entry 0x103C 0x5461 ''unknown'' ''HP integrated Module with Bluetooth 2.0 Wireless support'',
     dev_entry 0x103C 0x9876 ''rev 001'' ''ATHEROS AR3011 bluetooth 3.0+HS adapter'',
     dev_entry 0x1043 0x0675 ''p5g41c-mlx'' ''Crestline'',
     dev_entry 0x1043 0x1969 ''P5LD2 - EAYZ'' ''Attansic L1 Gigabit Ethernet 10/100/1000Base-T Adapter'',
     dev_entry 0x1043 0x5653 ''M5A78L-M LX V2'' ''ATI Radeon 3000 Graphics (Microsoft Corporation - WDDM v1.1)'',
     dev_entry 0x1043 0x8103 ''NV31'' ''NV31 [GeForce FX 5600 Ultra]'',
     dev_entry 0x1043 0x82c6 ''RTL8168'' ''Gigabit Ethernet(NDIS 6.0)'',
     dev_entry 0x1044 0x1012 ''Domino'' ''RAID Engine'',
     dev_entry 0x1044 0x800A ''13D09B4F'' ''802.11 bg WLAN'',
     dev_entry 0x1044 0xA400 ''2124A/9X'' ''SmartCache III/RAID SCSI Controller'',
     dev_entry 0x1044 0xA500 ''unknown'' ''PCI Bridge'',
     dev_entry 0x1044 0xA501 ''c03c'' ''I2O SmartRAID V Controller'',
     dev_entry 0x1044 0xA511 ''Raptor'' ''SmartRAID Controller'',
     dev_entry 0x1045 0x0005 '''' '''',
     dev_entry 0x1045 0xA0F8 ''82C750'' ''PCI USB Controller'',
     dev_entry 0x1045 0xC101 ''82C264'' ''GUI Accelerator'',
     dev_entry 0x1045 0xC178 ''82C178'' ''pci usb card 2- port'',
     dev_entry 0x1045 0xC556 ''82C556'' ''Viper'',
     dev_entry 0x1045 0xC557 ''82C557'' ''CPU Bridge (Viper)'',
     dev_entry 0x1045 0xC558 ''82C558'' ''ISA Bridge w/PnP'',
     dev_entry 0x1045 0xC567 ''82C750'' ''Vendetta chipset: host bridge'',
     dev_entry 0x1045 0xC568 ''82C750'' ''Vendetta chipset: ISA bridge'',
     dev_entry 0x1045 0xC569 ''82C579'' ''Pentium to PCI Bridge'',
     dev_entry 0x1045 0xC621 ''82C621'' ''PCI IDE Controller (PIC)'',
     dev_entry 0x1045 0xC700 ''82C700'' ''82C700 FireStar PCI to ISA Bridge'',
     dev_entry 0x1045 0xC701 ''82C701'' ''FireStar mobile chipset: host bridge'',
     dev_entry 0x1045 0xC814 ''82C814'' ''FireBridge II Docking Station Controller'',
     dev_entry 0x1045 0xC822 ''82C822'' ''CPU to PCI & PCI to ISA PnP bridge'',
     dev_entry 0x1045 0xC824 ''82C824'' ''FireFox 32-Bit PC Card Controller'',
     dev_entry 0x1045 0xC825 ''82C825 function 0'' ''PCI-to-ISA Bridge'',
     dev_entry 0x1045 0xC832 ''82C832'' ''CPU-to-PCI and PCI-to-ISA Bridge'',
     dev_entry 0x1045 0xC861 ''82C861'' ''FireLink PCI-to- 5 x USB Bridge( usb1.1 )'',
     dev_entry 0x1045 0xC881 ''82C881'' ''FireLink 1394 OHCI Link Controller'',
     dev_entry 0x1045 0xC895 ''82C895'' '''',
     dev_entry 0x1045 0xC931 ''82C931'' ''ISA Sound & Game Port controller.'',
     dev_entry 0x1045 0xC935 ''82C935'' ''MachOne integrated PCI audio processor'',
     dev_entry 0x1045 0xD568 ''82C825'' ''PCI bus master IDE controller'',
     dev_entry 0x1045 0xD768 ''82C750'' ''Ultra DMA IDE controller'',
     dev_entry 0x1046 0x5600 ''03001426'' ''00/4&1a671'',
     dev_entry 0x1048 0x0253 ''0x0c92'' ''ELSA GLADIAC 528'',
     dev_entry 0x1048 0x0C60 ''Elsa Gladiac MX'' ''NVidia Geforce 2 MX'',
     dev_entry 0x1048 0x0C71 ''Elsa Gladiac 721'' ''NVidia GeForce3 Ti 200'',
     dev_entry 0x1048 0x1000 ''Quick Step 1000'' ''ISDN Controller'',
     dev_entry 0x1048 0x3000 ''QuickStep 3000'' '''',
     dev_entry 0x1048 0x8901 '''' ''ELSA GLoria XL'',
     dev_entry 0x104A 0x0008 ''STG 2000X'' ''diamond'',
     dev_entry 0x104A 0x0009 ''STG 1764X'' '''',
     dev_entry 0x104A 0x0010 ''STG4000'' ''PowerVR KYRO series 3 graphics processor'',
     dev_entry 0x104A 0x0123 ''V65204'' ''SPEAr1300'',
     dev_entry 0x104A 0x0209 ''STPC Consmr/Indstrl'' ''North/South Bridges'',
     dev_entry 0x104A 0x020A ''STPC Atlas/Elite'' ''North Bridge'',
     dev_entry 0x104A 0x0210 ''STPC Atlas'' ''ISA Bridge'',
     dev_entry 0x104A 0x021A ''STPC Consmr-S/Elite'' ''ISA Bridge'',
     dev_entry 0x104A 0x021B ''STPC Consumer-II'' ''ISA Bridge'',
     dev_entry 0x104A 0x0228 ''STPC Atlas'' ''IDE Controller'',
     dev_entry 0x104A 0x0230 ''STPC Atlas'' ''USB Controller'',
     dev_entry 0x104A 0x0500 ''ST70137'' ''ADSL'',
     dev_entry 0x104A 0x0981 ''jmc260'' ''10/100 Ethernet Adapter'',
     dev_entry 0x104A 0x1746 ''mp280'' ''mp280'',
     dev_entry 0x104A 0x2774 ''STE10/100A'' ''PCI 10/100 Ethernet Controller'',
     dev_entry 0x104A 0x3520 '''' ''MPEG-II Video Decoder'',
     dev_entry 0x104A 0x7108 ''STi7108'' ''Advanced HD AVC decoder with 3D graphics acceleration'',
     dev_entry 0x104A 0xCC00 ''STA2X11'' ''ConneXt I/O Hub multifunction device'',
     dev_entry 0x104A 0xCC01 ''STA2X11'' ''ConneXt I/O Hub multifunction device'',
     dev_entry 0x104A 0xCC02 ''STA2X11'' ''ConneXt I/O Hub multifunction device'',
     dev_entry 0x104A 0xCC03 ''STA2X11'' ''ConneXt I/O Hub multifunction device'',
     dev_entry 0x104A 0xCC04 ''STA2X11'' ''ConneXt I/O Hub multifunction device'',
     dev_entry 0x104A 0xCC05 ''STA2X11'' ''ConneXt I/O Hub multifunction device'',
     dev_entry 0x104A 0xCC06 ''STA2X11'' ''ConneXt I/O Hub multifunction device'',
     dev_entry 0x104A 0xCC07 ''STA2X11'' ''ConneXt I/O Hub multifunction device'',
     dev_entry 0x104A 0xCC08 ''STA2X11'' ''ConneXt I/O Hub multifunction device'',
     dev_entry 0x104A 0xCC09 ''STA2X11'' ''ConneXt I/O Hub multifunction device'',
     dev_entry 0x104A 0xCC0A ''STA2X11'' ''ConneXt I/O Hub multifunction device'',
     dev_entry 0x104A 0xCC0B ''STA2X11'' ''ConneXt I/O Hub multifunction device'',
     dev_entry 0x104A 0xCC0C ''STA2X11'' ''ConneXt I/O Hub multifunction device'',
     dev_entry 0x104A 0xCC0D ''STA2X11'' ''ConneXt I/O Hub multifunction device'',
     dev_entry 0x104A 0xCC0E ''STA2X11'' ''ConneXt I/O Hub multifunction device'',
     dev_entry 0x104A 0xCC0F ''STA2X11'' ''ConneXt I/O Hub multifunction device'',
     dev_entry 0x104A 0xCC10 ''STA2X11'' ''ConneXt I/O Hub multifunction device'',
     dev_entry 0x104A 0xCC11 ''STA2X11'' ''ConneXt I/O Hub multifunction device'',
     dev_entry 0x104A 0xCC12 ''STA2X11'' ''ConneXt I/O Hub multifunction device'',
     dev_entry 0x104A 0xCC13 ''STA2X11'' ''ConneXt I/O Hub multifunction device'',
     dev_entry 0x104A 0xCC14 ''STA2X11'' ''ConneXt I/O Hub multifunction device'',
     dev_entry 0x104A 0xCC15 ''STA2X11'' ''ConneXt I/O Hub multifunction device'',
     dev_entry 0x104A 0xCC16 ''STA2X11'' ''ConneXt I/O Hub multifunction device'',
     dev_entry 0x104A 0xCC17 ''STA2X11'' ''ConneXt I/O Hub multifunction device'',
     dev_entry 0x104A 0xCD00 ''V65204'' ''SPEAr1300'',
     dev_entry 0x104A 0xCD80 ''SPEAr1300'' ''Root Complex of SPEAr1300'',
     dev_entry 0x104C 0x803B ''N/A'' ''Texas Instruments Card Reader'',
     dev_entry 0x104C 0x014e ''4610,4515,4610fm'' ''device'',
     dev_entry 0x104C 0x0500 ''TNETE100A/110A/211'' ''ThunderLAN 100 Mbit LAN Controller'',
     dev_entry 0x104C 0x0508 ''TI380PCI'' ''PCI interface for TI380 compressors'',
     dev_entry 0x104C 0x1000 ''TI PCI Eagle i/f AS'' '''',
     dev_entry 0x104C 0x104C (''PCI'' @ [CHR 0x5C] @ ''VEN_104C'') ''PCI Simple Communications Controller'',
     dev_entry 0x104C 0x3B04 ''028000'' ''otros dispositivos'',
     dev_entry 0x104C 0x3D04 ''TVP4010'' ''Permedia'',
     dev_entry 0x104C 0x3D07 ''TVP4020'' ''AGP Permedia 2'',
     dev_entry 0x104C 0x8000 ''TSB12LV21'' ''LYNX IEEE1394 FireWire Host Controller'',
     dev_entry 0x104C 0x8009 ''TSB12LV22'' ''OHCI-Lynx PCI IEEE 1394 Host Controller'',
     dev_entry 0x104C 0x8010 ''TSB12LV26'' ''OHCI-Lynx IEEE 1394 Host Controller'',
     dev_entry 0x104C 0x8011 ''PCI4450'' ''OHCI-Lynx IEEE 1394 Controller'',
     dev_entry 0x104C 0x8017 ''PCI4410'' ''OHCI-Lynx IEEE 1394 Controller'',
     dev_entry 0x104C 0x8019 ''TSB12LV23'' ''OHCI-Lynx PCI IEEE 1394 Host Controller'',
     dev_entry 0x104C 0x8020 ''TSB12LV26'' ''OHCI-Lynx PCI IEEE 1394 Host Controller'',
     dev_entry 0x104C 0x8021 ''TSB43AB23'' ''1394a-2000 OHCI PHY/Link Layer CONTROLLER'',
     dev_entry 0x104C 0x8023 ''TSB43AB21/A'' ''IEEE1394a-2000 OHCI PHY/Link-Layer Ctrlr'',
     dev_entry 0x104C 0x8024 ''TSB43AB23'' ''1394a-2000 OHCI PHY/Link Layer Ctrl'',
     dev_entry 0x104C 0x8025 ''TSB82AA2'' ''1394b OHCI-Lynx IEEE 1394 Host Controller'',
     dev_entry 0x104C 0x8026 ''TSB43AB21A'' ''1394a-2000 OHCI PHY/Link Layer Ctrlr'',
     dev_entry 0x104C 0x8027 ''PCI4451'' ''OHCI-Lynx IEEE 1394 Controller'',
     dev_entry 0x104C 0x8029 ''040803-2158'' ''OHCI Compliant IEEE-1394 FireWire Controller '',
     dev_entry 0x104C 0x802e ''PCI7420'' ''OHCI Compliant IEEE 1394 Host Controller'',
     dev_entry 0x104C 0x8033 ''PCI0021'' ''Integrated FlashMedia '',
     dev_entry 0x104C 0x8034 ''10981734'' ''SDA Standard Compliant SD Host Controller'',
     dev_entry 0x104C 0x8035 ''N/A'' ''PCI GemCore based SmartCard controller'',
     dev_entry 0x104C 0x8036 ''PCI6515'' ''Texas Instruments PCIxxx12 Cardbus Controller'',
     dev_entry 0x104C 0x8038 (''PCI'' @ [CHR 0x5C] @ ''VEN_104C&DEV_8038&SUBSYS_01861028&REV_00'' @ [CHR 0x5C] @ ''4&2FA'') ''Texas Instruments PCI GemCore based SmartCard Controller'',
     dev_entry 0x104C 0x8039 ''104C'' ''104C'',
     dev_entry 0x104C 0x803a ''PCIxx12'' ''OHCI Compliant IEEE 1394 Host controller'',
     dev_entry 0x104C 0x803B ''PCIxx12 Integrated FlashMedia Controlled'' ''Texas Instruments Card Reader'',
     dev_entry 0x104C 0x803c ''PCI0024'' ''SDA Standard Compliant SD Host Controller'',
     dev_entry 0x104C 0x803D ''0780'' ''Texas Instruments PCI GemCore based SmartCard controller'',
     dev_entry 0x104C 0x8119 ''na'' ''iRDA Compatible Controller'',
     dev_entry 0x104C 0x8201 ''006B103C'' ''TI UltraMedia Firmware Loader Device'',
     dev_entry 0x104C 0x8204 ''4610, 4515, 4610FM, 7510'' ''PCI 7510/4510 Cardbus Controller'',
     dev_entry 0x104C 0x8231 ''XIO2000A'' ''PCI-Express to PCI/PCI-X bridge'',
     dev_entry 0x104C 0x8232 ''1'' (''Controladora de v'' @ [CHR 0xC3, CHR 0xAD] @ ''deo multimedia''),
     dev_entry 0x104C 0x8241 ''Texas Instruments USB 3.0 XHCI Host Controller'' ''Texas Instruments USB 3.0 XHCI Host Controller'',
     dev_entry 0x104C 0x8400 ''ACX100AGHK'' ''D-Link AirPlus DWL-520+, Uses a TI 802.11b 22 MBPS Chip'',
     dev_entry 0x104C 0x8671 ''bogus'' ''bogus'',
     dev_entry 0x104C 0x9065 ''TMX320C6412'' ''Fixed Point Digital Signal Processor'',
     dev_entry 0x104C 0x9066 ''USR5410'' ''U.S. Robotics 802.11g Wireless Turbo PC Card '',
     dev_entry 0x104C 0xA001 ''TDC1570'' ''64-bit PCI ATM SAR'',
     dev_entry 0x104C 0xA100 ''TDC1561'' ''32-bit PCI ATM SAR'',
     dev_entry 0x104C 0xA102 ''TNETA1575'' ''HyperSAR Plus w/PCI host & UTOPIA i/f'',
     dev_entry 0x104C 0xA106 ''TMS320C6205'' ''Fixed Point Digital Signal Processor'']"

definition PciDevTable_31 :: "PCI_DEVTABLE list" where
  "PciDevTable_31 = [
     dev_entry 0x104C 0xA186 ''TMS320C6416T'' ''TI C6416T DSP'',
     dev_entry 0x104C 0xa828 ''PCI2050BPDV'' ''PCI-to-PCI Bridge'',
     dev_entry 0x104C 0xAC10 ''PCI1050'' ''PC Card Controller'',
     dev_entry 0x104C 0xAC11 ''PCI1030/1053'' ''PC Card Controller'',
     dev_entry 0x104C 0xAC12 ''PCI1131'' ''PC card CardBus Controller'',
     dev_entry 0x104C 0xAC13 ''PCI9066'' (''Texas Instruments'' @ [CHR 0xC3, CHR 0x83, CHR 0xC6, CHR 0x92, CHR 0xC3, CHR 0x82, CHR 0xC2, CHR 0xA2, CHR 0xC3, CHR 0x83, CHR 0xC2, CHR 0xA2, CHR 0xC3, CHR 0xA2, CHR 0xE2, CHR 0x80, CHR 0x9A, CHR 0xC2, CHR 0xAC, CHR 0xC3, CHR 0x85, CHR 0xC2, CHR 0xBE, CHR 0xC3, CHR 0x83, CHR 0xE2, CHR 0x80, CHR 0x9A, CHR 0xC3, CHR 0x82, CHR 0xC2, CHR 0xA2] @ '' PCIxx12 Integrated FlashMedia Controller''),
     dev_entry 0x104C 0xAC15 ''PCI-1131'' ''CardBus Controller'',
     dev_entry 0x104C 0xAC16 ''PCI1250'' ''PC Card CardBus Controller'',
     dev_entry 0x104C 0xAC17 ''PCI1220'' ''CardBus Controller'',
     dev_entry 0x104C 0xAC18 ''PCI1260'' ''PC card CardBus Controller'',
     dev_entry 0x104C 0xAC19 ''PCI1221'' ''PC card CardBus Controller'',
     dev_entry 0x104C 0xAC1A ''PCI1210'' ''PC card CardBus Controller'',
     dev_entry 0x104C 0xAC1B ''PCI1450'' ''PC card CardBus Controller'',
     dev_entry 0x104C 0xAC1C ''PCI1225'' ''PC Card CardBus Controller'',
     dev_entry 0x104C 0xac1e ''PCI1211'' ''PCI To PCMCIA  bridge'',
     dev_entry 0x104C 0xAC1F ''PCI1251B'' ''PC card CardBus Controller'',
     dev_entry 0x104C 0xAC20 ''PCI2030'' ''PCI to PCI Bridge'',
     dev_entry 0x104C 0xAC21 ''PCI2031'' ''PCI to PCI Bridge'',
     dev_entry 0x104C 0xAC22 ''PCI2032'' ''PCI Docking Bridge'',
     dev_entry 0x104C 0xAC23 ''PCI2250'' ''PCI-to-PCI Bridge'',
     dev_entry 0x104C 0xAC28 ''PCI2050/2050I'' ''PCI-to-PCI Bridge'',
     dev_entry 0x104C 0xAC30 ''PCI1260'' ''PC card CardBus Controller'',
     dev_entry 0x104C 0xAC40 ''PCI4450'' ''PC card CardBus Controller'',
     dev_entry 0x104C 0xAC41 ''PCI4410'' ''PC card CardBus Controller'',
     dev_entry 0x104C 0xAC42 ''PCI4451'' ''PC card CardBus Controller'',
     dev_entry 0x104C 0xAC43 ''PCI4550'' ''PC card CardBus Controller'',
     dev_entry 0x104C 0xAC44 ''PCI4510SDFSDFSD'' ''PC Card Controller SDFSDAFSADFSDAFSDAF'',
     dev_entry 0x104C 0xAC46 ''PCI4520'' ''PCCard CardBus Controller'',
     dev_entry 0x104C 0xac47 ''7510/4510'' ''Cardbus'',
     dev_entry 0x104C 0xAC50 ''PCI1410'' ''PC card cardBus Controller'',
     dev_entry 0x104C 0xAC51 ''PCI-1420'' ''Texas Instruments 1420'',
     dev_entry 0x104C 0xAC52 ''PCI1451'' ''PC card CardBus Controller'',
     dev_entry 0x104C 0xAC53 ''PCI1421'' ''PC card CardBus Controller - 5-in-1 Media Card Reader'',
     dev_entry 0x104C 0xAC54 ''PCI-1510'' ''PCCard CardBus Controller w/UltraMedia'',
     dev_entry 0x104C 0xAC55 ''PCI1520'' ''PCCard CardBus Controller'',
     dev_entry 0x104C 0xAC56 ''PCI1510'' ''PCCard CardBus Controller'',
     dev_entry 0x104C 0xAC57 ''PCI1530'' ''PCCard CardBus Controller'',
     dev_entry 0x104C 0xAC58 ''PCI1515'' ''PCCard CardBus Controller'',
     dev_entry 0x104C 0xAC59 ''PCI1620'' ''PCCard CardBus Controller w/UltraMedia'',
     dev_entry 0x104C 0xAC5A ''PCI1610'' ''PCCard CardBus Controller w/UltraMedia'',
     dev_entry 0x104C 0xac60 '' '' ''PCI2040 PCI to DSP Bridge'',
     dev_entry 0x104C 0xac8e ''PCI7420'' ''Generic CardBus Controller '',
     dev_entry 0x104C 0xAC8F ''7420/7620'' ''FlashMedia'',
     dev_entry 0x104C 0xB000 ''TMS320C645x'' ''Device ID: 0xB001 '',
     dev_entry 0x104C 0xB001 ''TMS320DM642'' ''DSP with a C64x+ core and M/S PCI interface'',
     dev_entry 0x104C 0xFE00 ''tsb12lv26'' ''FireWire Host Controller'',
     dev_entry 0x104C 0xFE03 ''12C01A'' ''FireWire Host Controller'',
     dev_entry 0x104D 0x011B ''RT2571WF'' ''USB Ralink Wireless LAN'',
     dev_entry 0x104D 0x5001 ''SNY5001'' ''Sony Firmware Extension Parser listed as ACPI&#92;SNY5001 in device manager.'',
     dev_entry 0x104D 0x6001 ''SNY6001'' ''Sony Programmable I/O Control Device'',
     dev_entry 0x104D 0x8009 ''CXD1947'' ''PCI bus 13'',
     dev_entry 0x104D 0x8039 ''CXD3222'' ''OHCI i.LINK (IEEE 1394) PCI Host Ctrlr'',
     dev_entry 0x104D 0x8056 ''0x127a'' ''Rockwell HCF 56K Modem'',
     dev_entry 0x104D 0x8087 (''PCI'' @ [CHR 0x5C] @ ''VEN_104D&DEV_8086'') ''SONY MPEG ENCODER'',
     dev_entry 0x104D 0x808A ''Qc pass'' ''Memory Stick Controller'',
     dev_entry 0x104E 0x0017 ''OTI-64017'' '''',
     dev_entry 0x104E 0x0107 ''OTI107'' ''Spitfire VGA Accelerator'',
     dev_entry 0x104E 0x0109 '''' ''Video Adapter'',
     dev_entry 0x104E 0x0217 ''OTI-64217'' '''',
     dev_entry 0x104E 0x0317 ''OTI-64317'' '''',
     dev_entry 0x104E 0x0611 ''OTI-610'' ''T9732'',
     dev_entry 0x104E 0x317 ''OTI107'' ''Spitfire VGA Accelerator'',
     dev_entry 0x104F 0x104F ''iatca8262'' ''Multi I/O'',
     dev_entry 0x1050 0x6692 ''W6692/92A/92CF'' ''PCI BusISDN S/T-Controller'',
     dev_entry 0x1050 0x0000 ''004005-34c8c8'' ''Ethernet Controller (NE2000 compatible)'',
     dev_entry 0x1050 0x0001 ''W83769F'' ''PCI/IDE controller'',
     dev_entry 0x1050 0x0033 ''W89C33'' ''Winbond W89C33 mPCI 802.11 Wireless LAN Adapter'',
     dev_entry 0x1050 0x0105 ''W82C105'' ''Ethernet Adapter'',
     dev_entry 0x1050 0x0628 ''W83628F/629D'' ''PCI to ISA Bridge Set'',
     dev_entry 0x1050 0x0840 ''W89C840F'' ''100/10Mbps Ethernet Controller'',
     dev_entry 0x1050 0x0940 ''w89c940f'' ''winbond pci ethernet'',
     dev_entry 0x1050 0x1050 ''W99200aF'' ''Video capture card mpeg-1'',
     dev_entry 0x1050 0x5A5A ''W89C940F'' ''ELANC-PCI Twisted-pair Ether-LAN Ctrlr'',
     dev_entry 0x1050 0x6692 ''W6692CF'' ''PCI BusISDN S/T-Controller'',
     dev_entry 0x1050 0x8481 ''Unknown'' ''SD Host Controller'',
     dev_entry 0x1050 0x9921 ''W99200AF'' ''MPEG1 capture card'',
     dev_entry 0x1050 0x9922 ''W9922PF'' ''MPEG-1/2 Decoder'',
     dev_entry 0x1050 0x9960 ''W9960CF'' ''Video Codec'',
     dev_entry 0x1050 0x9961 ''W9961CF'' ''H.263/H.261 Video Codec'',
     dev_entry 0x1050 0x9970 ''W9970CF'' ''VGA controller'',
     dev_entry 0x1050 0x9971 ''W9971CF'' ''W9971CF'',
     dev_entry 0x1051 0x0100 ''Motorola MC145575'' '''',
     dev_entry 0x1054 0x0001 '''' ''PCI Bridge'',
     dev_entry 0x1054 0x0002 ''pci bus'' ''PCI bus Cntrlr'',
     dev_entry 0x1054 0x0003 ''06A2'' ''hts547575a9e384'',
     dev_entry 0x1054 0x3505 ''SH7751'' ''SuperH (SH) 32-Bit RISC MCU/MPU Series'',
     dev_entry 0x1055 0x0810 '''' ''EFAR 486 host Bridge'',
     dev_entry 0x1055 0x0922 '''' ''Pentium/p54c host Bridge'',
     dev_entry 0x1055 0x0926 (''I don'' @ [CHR 0xC2, CHR 0xB4] @ ''t know pentium 133 intel   everex setpnot mx'') ''ISA Bridge'',
     dev_entry 0x1055 0x9130 ''SLC90E66'' ''Ultra ATA/66 IDE Controller'',
     dev_entry 0x1055 0x9460 ''SLC90E66'' ''Victory66 PCI to ISA Bridge'',
     dev_entry 0x1055 0x9461 ''SLC90E66'' ''Victory66 UDMA EIDE Controller'',
     dev_entry 0x1055 0x9462 ''SLC90E66'' ''Victory66 USB Host Controller'',
     dev_entry 0x1055 0x9463 ''SLC90E66'' ''Victory66 Power Management Controller'',
     dev_entry 0x1055 0xe420 ''LAN9420/LAN9420i'' ''PCI 10/100 Ethernet controller'',
     dev_entry 0x1056 0x2001f ''Divio NW700LQ. 0243CDTAA. V90479. 1'' ''Philips P89C51RD271BA. 1D041700A0. AeD0217G'',
     dev_entry 0x1057 (0 * 5600) ''52-6116-2A'' ''Motorola FM 56 PCI Speakerphone Modem'',
     dev_entry 0x1057 0x0001 ''MPC105'' ''PCI Bridge / Memory Controller (PCIB/MC)'',
     dev_entry 0x1057 0x0002 ''MPC106'' ''PCI Bridge/Memory Controller (PCIB/MC)'',
     dev_entry 0x1057 0x0003 ''MPC8240'' ''Integrated Processor'',
     dev_entry 0x1057 0x0004 ''MPC107'' ''PCI Bridge/Memory Controller for PPC'',
     dev_entry 0x1057 0x0006 ''MPC8245'' ''Integrated Processor'',
     dev_entry 0x1057 0x0100 ''MC145575'' ''HCF-PCI'',
     dev_entry 0x1057 0x0431 ''KTI829c'' ''100VG Ethernet Controller'',
     dev_entry 0x1057 0x1801 ''DSP56301'' ''24-bit Digital Signal Processor'',
     dev_entry 0x1057 0x1802 ''DSP56305'' ''24-Bit Digital Signal Processor'',
     dev_entry 0x1057 0x18C0 ''MPC8265A/66'' ''PowerQUICC II PCI Bridge'',
     dev_entry 0x1057 0x3052 ''0644dfea15'' ''MotorolaSM56Modem_PCI device'',
     dev_entry 0x1057 0x3055 ''SM56'' ''Motorola SM56 Data Fax Modem '',
     dev_entry 0x1057 0x3057 (''HDAUDIO'' @ [CHR 0x5C] @ ''FUNC_02om&VEN_1057&DEV_3057&SUBSYS_0001000'') ''Modem Device on High Definition Audio Bus'',
     dev_entry 0x1057 0x3410 ''DSP56361'' ''Digital Signal Processor'',
     dev_entry 0x1057 0x3421 ''56IVMR/Phoenix 56ISM'' ''Modem'',
     dev_entry 0x1057 0x4801 ''Raven'' ''PowerPC Chipset'',
     dev_entry 0x1057 0x4802 ''Falcon'' ''memory control chipset'',
     dev_entry 0x1057 0x4803 ''Hawk'' '''',
     dev_entry 0x1057 0x4806 ''CPX8216'' '''',
     dev_entry 0x1057 0x4809 ''CPX8216T'' ''HotSwap Controller'',
     dev_entry 0x1057 0x5600 ''WDM MOT8888'' ''SM 56 PCI Speakerphone/Data,Fax  Modem'',
     dev_entry 0x1057 0x5602 ''SM56'' ''PCI Modem'',
     dev_entry 0x1057 0x5608 ''52-6116-2A 21-864-4 OR 62802-51 QZ0024 M5T90-000'' ''Motorola SM56 Speakerphone Modem'',
     dev_entry 0x1057 0x5803 ''MPC5200'' ''32-Bit Embedded PowerPC Processor'',
     dev_entry 0x1057 0x6400 ''MPC190'' ''Security Co-Processor'',
     dev_entry 0x1057 0x9876 ''1543'' ''3052'',
     dev_entry 0x105A 0x0262 ''Promise Technology'' ''Ultra66/FastTrak66'',
     dev_entry 0x105A 0x0D30 ''PDC20265/R'' ''MBUltra100/MBFastTrack100 Lite'',
     dev_entry 0x105A 0x0D38 ''PDC20263'' ''FastTrak66 Lite EIDE Controller'',
     dev_entry 0x105A 0x105A ''DC5300'' ''EIDE Controller'',
     dev_entry 0x105A 0x1275 ''PDC20275'' ''MBUltra133'',
     dev_entry 0x105A 0x1960 ''?'' ''SuperTrak 66/100 RAID'',
     dev_entry 0x105A 0x1962 ''?'' ''SuperTrak SX 6000'',
     dev_entry 0x105A 0x3318 ''PDC20318'' ''SATA150 TX4'',
     dev_entry 0x105A 0x3319 ''PDC20319'' ''FastTrak S150 TX4'',
     dev_entry 0x105A 0x3371 ''PDC20371?'' ''FastTrak S150 TX2+'',
     dev_entry 0x105A 0x3373 ''PDC20378'' ''FastTrak 378/SATA 378 RAID Controller'',
     dev_entry 0x105A 0x3375 ''PDC20375'' ''SATA150 TX2+'',
     dev_entry 0x105A 0x3376 ''PDC20376'' ''FastTrak 376 Controller'',
     dev_entry 0x105A 0x3515 ''PDC40719'' ''FastTrak TX43xx'']"

definition PciDevTable_32 :: "PCI_DEVTABLE list" where
  "PciDevTable_32 = [
     dev_entry 0x105A 0x3519 ''PDC40519'' ''FastTrak TX42xx'',
     dev_entry 0x105A 0x3570 ''PDC20771'' ''FastTrak TX2300 SATA300 Controller'',
     dev_entry 0x105A 0x3571 ''PDC20571'' ''Fasttrack TX2200'',
     dev_entry 0x105A 0x3574 ''PDC20579'' ''SATAII 150 579'',
     dev_entry 0x105A 0x3d17 ''PDC40718-GP'' ''SATA 300 TX4 Controller'',
     dev_entry 0x105A 0x3D18 ''PDC20518/40518'' ''SATAII 150TX2+/SATAII150 TX4'',
     dev_entry 0x105A 0x3D73 ''PDC40775'' ''SATAII 300 TX2+'',
     dev_entry 0x105A 0x3F19 ''scsi'' ''FastTrak TX2650/4650/4652'',
     dev_entry 0x105A 0x3F20 ''PDC42819'' ''FastTrak TX2650(3F21)/4650(3F22)/PDC42819(3716)'',
     dev_entry 0x105A 0x4302 ''?'' ''SuperTrak EX 43X0'',
     dev_entry 0x105A 0x4303 ''?'' ''SuperTrak EX 4350'',
     dev_entry 0x105A 0x4D30 ''PDC20267'' ''FastTrack100 on Intel MB SE7500CW2'',
     dev_entry 0x105A 0x4D33 ''PDC20246'' ''FastTrak/Ultra33 ATA RAID controller'',
     dev_entry 0x105A 0x4D38 ''PDC20262'' ''Ultra66/FastTrak66'',
     dev_entry 0x105A 0x4D68 ''PDC20268/R'' ''Ultra100TX2/FastTrak100TX/LP'',
     dev_entry 0x105A 0x4D69 ''PDC20269'' ''Ultra133TX2'',
     dev_entry 0x105A 0x5275 ''PDC20276'' ''MBUltra133/MBFastTrak133'',
     dev_entry 0x105A 0x5300 ''DC5300'' ''EIDE Controller'',
     dev_entry 0x105A 0x6268 ''PDC20270'' ''FastTrak100 TX2/TX4/LP'',
     dev_entry 0x105A 0x6269 ''PDC20271'' ''FastTrak TX2000 EIDE controller'',
     dev_entry 0x105A 0x6300 ''?'' ''FastTrak SX 8300'',
     dev_entry 0x105A 0x6301 ''?'' ''FastTrak SX8300-1'',
     dev_entry 0x105A 0x6302 ''6302'' ''FastTrak SX 4300'',
     dev_entry 0x105A 0x6303 ''?'' ''FastTrak SX 4'',
     dev_entry 0x105A 0x6304 ''?'' ''FastTrak SX8300-2'',
     dev_entry 0x105A 0x6305 ''?'' ''FastTrak SX8300-3'',
     dev_entry 0x105A 0x6306 ''?'' ''FastTrak SX 4300-2'',
     dev_entry 0x105A 0x6307 ''?'' ''FastTrak SX 4300-3'',
     dev_entry 0x105A 0x6621 ''PDC 20621(?)'' ''FastTrak SX4000'',
     dev_entry 0x105A 0x6622 ''PDC 20622 (?)'' ''FastTrak S150SX4'',
     dev_entry 0x105A 0x6629 ''PDC20619'' ''FastTrak TX4000'',
     dev_entry 0x105A 0x7250 ''7250'' ''Vitesse 7250 SAS RAID'',
     dev_entry 0x105A 0x7275 ''PDC 20277'' ''SBUltra133/SBFastTrak 133 Lite'',
     dev_entry 0x105A 0x8000 ''?'' ''SATAII150 SX8'',
     dev_entry 0x105A 0x8002 ''?'' ''SATAII150 SX8'',
     dev_entry 0x105A 0x8003 ''PDC 20621'' ''FastTrak SX4000'',
     dev_entry 0x105A 0x8004 ''?'' ''SATAII150 SX8'',
     dev_entry 0x105A 0x8006 ''?'' ''SATAII150 SX8'',
     dev_entry 0x105A 0x8350 ''?'' ''SuperTrak EX8350/16350/8300/16300'',
     dev_entry 0x105A 0x8650 ''?'' ''SuperTrak EX SAS RAID'',
     dev_entry 0x105A 0xC350 ''?'' ''SuperTrak EX 123X0'',
     dev_entry 0x105A 0xE350 ''?'' ''SuperTrak EX 243X0'',
     dev_entry 0x105D 0x2309 ''Imagine 128'' ''GUI Accelerator'',
     dev_entry 0x105D 0x2339 ''I128s2'' ''Imagine 128 Series 2'',
     dev_entry 0x105D 0x493D ''T2R'' ''Revolution 3D'',
     dev_entry 0x105D 0x5348 ''Revolution IV'' ''Revolution IV'',
     dev_entry 0x1060 0x0001 ''UM82C881'' ''486 Chipset'',
     dev_entry 0x1060 0x0002 ''UM82C886'' ''ISA Bridge'',
     dev_entry 0x1060 0x0101 ''UM8673F'' ''EIDE Controller'',
     dev_entry 0x1060 0x0881 ''UM8881'' ''HB4 486 PCI Chipset'',
     dev_entry 0x1060 0x0886 ''UM8886F'' ''ISA Bridge'',
     dev_entry 0x1060 0x0891 ''UM82C891'' ''Pentium CPU to PCI bridge'',
     dev_entry 0x1060 0x1001 ''UM886A'' ''IDE Cntrlr (dual function)'',
     dev_entry 0x1060 0x673A ''UM8886BF'' ''EIDE Controller'',
     dev_entry 0x1060 0x673B '''' ''EIDE Master/DMA'',
     dev_entry 0x1060 0x8710 ''UM8710'' ''VGA Cntrlr'',
     dev_entry 0x1060 0x8821 '''' ''CPU/PCI Bridge'',
     dev_entry 0x1060 0x8822 '''' ''PCI/ISA Bridge'',
     dev_entry 0x1060 0x8851 '''' ''Pentium CPU/PCI Bridge'',
     dev_entry 0x1060 0x8852 ''LG-772'' ''Pentium CPU/ISA Bridge'',
     dev_entry 0x1060 0x886A ''UM8886A'' ''ISA Bridge with EIDE'',
     dev_entry 0x1060 0x8881 ''UM8881F'' ''HB4 486 PCI Chipset'',
     dev_entry 0x1060 0x8886 ''UM8886'' ''ISA Bridge (w/o IDE support)'',
     dev_entry 0x1060 0x888A ''UM8886A'' '''',
     dev_entry 0x1060 0x8891 ''UM8891'' ''586 Chipset'',
     dev_entry 0x1060 0x9017 ''UM9017F'' ''Ethernet'',
     dev_entry 0x1060 0x9018 ''UM9018'' ''Ethernet'',
     dev_entry 0x1060 0x9026 ''UM9026'' ''Fast Ethernet'',
     dev_entry 0x1060 0xE881 ''UM8881'' ''486 Chipset'',
     dev_entry 0x1060 0xE886 ''UM8886N'' ''ISA Bridge w/EIDE'',
     dev_entry 0x1060 0xE88A ''UM8886N'' ''PCI / ISA Bridge'',
     dev_entry 0x1060 0xE891 ''UM8891N'' ''um8891n'',
     dev_entry 0x1061 0x0001 ''AGX013/016'' ''GUI Accelerator'',
     dev_entry 0x1061 0x0002 ''IIT3104'' ''MPEG Decoder'',
     dev_entry 0x1676 0x1001 ''5.10.00.5760'' (''Realtek AC'' @ [CHR 0x27] @ '' 97 Audio Driver''),
     dev_entry 0x1065 0x8139 ''nic'' ''Realtek 8139C Network Card'',
     dev_entry 0x1066 0x0000 ''PT80C826'' ''VL Bridge'',
     dev_entry 0x1066 0x0001 ''PT86C521'' ''Vesuvius V1-LS System Controller'',
     dev_entry 0x1066 0x0002 ''PT86C523'' ''Vesuvius V3-LS ISA Bridge'',
     dev_entry 0x1066 0x0003 ''PT80C524'' ''Nile PCI to PCI Bridge'',
     dev_entry 0x1066 0x0004 ''PT80C525'' ''Nile-II PCI to PCI Bridge'',
     dev_entry 0x1066 0x0005 ''PC87550'' ''System Controller'',
     dev_entry 0x1066 0x8002 ''PT86C523'' ''ISA Bridge'',
     dev_entry 0x1067 0x1002 ''VG500'' ''VolumePro Volume Rendering Accelerator'',
     dev_entry 0x1001 0x0010 ''ispLSI1032E'' ''PCI 1616, 16 TTL-IN, 16 TTL-OUT'',
     dev_entry 0x1001 0x0011 ''ispLSI1032E'' ''OPTO-PCI, 16 IN / 16 OUT 24 VDC'',
     dev_entry 0x1001 0x0012 ''ispLSI1032E'' ''PCI-AD, PCI-ADDA analog I/O-card'',
     dev_entry 0x1001 0x0013 ''ispLSI1032E'' ''PCI-OptoRel, PCI-Relais 16 Relais & Opto'',
     dev_entry 0x1001 0x0014 ''ispLSI1032E'' ''Timer, Pulse & Counter-card 16..32 bit'',
     dev_entry 0x1001 0x0015 ''ispLSI1032E'' ''PCI-DAC416, 4 channel D/A16bit precision'',
     dev_entry 0x1001 0x0016 ''ispLSI1032E'' ''PCI-MFB high-speed analog I/O'',
     dev_entry 0x1001 0x0017 ''ispLSI1032E'' ''PROTO-3 PCI, digital I/O with chipselect'',
     dev_entry 0x1001 0x0020 ''ispLSI1032E'' ''Universal digital I/O PCI-Interface'',
     dev_entry 0x1677 0x20ad ''5ACPCI.MFIO-K01'' ''Profibus DP / K-Feldbus / COM'',
     dev_entry 0x144B 0x0601 '''' '''',
     dev_entry 0x1402 0x2E00 ''ME-2000/2600'' ''Multifunction Data Aquistion card'',
     dev_entry 0x1402 0x4610 ''ME-4610'' ''Multi-IO board (16x 16bit ADC, 32x TTL I/O)'',
     dev_entry 0x1402 0x4650 ''ME-4650'' ''Multi-IO board (16x 16bit ADC, 32x TTL I/O)'',
     dev_entry 0x14D4 0x0400 ''Panacom 7'' ''Interface chip'',
     dev_entry 0x1307 0x0001 ''PCI-DAS1602/16'' '''',
     dev_entry 0x1307 0x0006 ''PCI-GPIB'' '''',
     dev_entry 0x1307 0x000B ''PCI-DIO48H'' '''',
     dev_entry 0x1307 0x000C ''PCI-PDISO8'' '''',
     dev_entry 0x1307 0x000D ''PCI-PDISO16'' '''',
     dev_entry 0x1307 0x000F ''PCI-DAS1200'' '''',
     dev_entry 0x1307 0x0010 ''PCI-DAS1602/12'' '''',
     dev_entry 0x1307 0x0014 ''PCI-DIO24H'' ''24 Bit Digital Input/Output Board'',
     dev_entry 0x1307 0x0015 ''PCI-DIO24H/CTR3'' '''',
     dev_entry 0x1307 0x0016 ''PCI-DIO24H/CTR16'' '''',
     dev_entry 0x1307 0x0017 ''PCI-DIO96H'' '''',
     dev_entry 0x1307 0x0018 ''PCI-CTR05'' '''',
     dev_entry 0x1307 0x0019 ''PCI-DAS1200/JR'' '''',
     dev_entry 0x1307 0x001A ''PCI-DAS1001'' '''',
     dev_entry 0x1307 0x001B ''PCI-DAS1002'' '''',
     dev_entry 0x1307 0x001C ''PCI-DAS1602JR/16'' ''AR2425'',
     dev_entry 0x1307 0x001D ''PCI-DAS6402/16'' '''',
     dev_entry 0x1307 0x001E ''PCI-DAS6402/12'' '''',
     dev_entry 0x1307 0x001F ''PCI-DAS16/M1'' '''',
     dev_entry 0x1307 0x0020 ''PCI-DDA02/12'' '''',
     dev_entry 0x1307 0x0021 ''PCI-DDA04/12'' '''',
     dev_entry 0x1307 0x0022 ''PCI-DDA08/12'' '''',
     dev_entry 0x1307 0x0023 ''PCI-DDA02/16'' '''',
     dev_entry 0x1307 0x0024 ''PCI-DDA04/16'' '''',
     dev_entry 0x1307 0x0025 ''PCI-DDA08/16'' '''',
     dev_entry 0x1307 0x0026 ''PCI-DAC04/12-HS'' '''',
     dev_entry 0x1307 0x0027 ''PCI-DAC04/16-HS'' '''',
     dev_entry 0x1307 0x0028 ''PCI-DIO24'' ''24 Bit Digital Input/Output Board'',
     dev_entry 0x1307 0x0029 ''PCI-DAS08'' '''',
     dev_entry 0x1307 0x002C ''PCI-INT32'' ''PCI-INT32'',
     dev_entry 0x1307 0x0033 ''PCI-DUAL-AC5'' '''',
     dev_entry 0x1307 0x0034 ''PCI-DAS-TC'' '''',
     dev_entry 0x1307 0x0035 ''PCI-DAS64/M1/16'' '''',
     dev_entry 0x1307 0x0036 ''PCI-DAS64/M2/16'' '''',
     dev_entry 0x1307 0x0037 ''PCI-DAS64/M3/16'' '''',
     dev_entry 0x1307 0x004C ''PCI-DAS1000'' '''',
     dev_entry 0x1307 0x004D ''PCI-QUAD04'' '''',
     dev_entry 0x1307 0x0064 ''PCI-CTR10'' ''10 channels, 16 bit counter/timer with 32-Bits of Digital I/O'',
     dev_entry 0x1307 0x0361 ''?'' ''?'',
     dev_entry 0x1318 0x0911 ''G-NIC II'' ''1000BT Network Interface Card'',
     dev_entry 0x1458 0x1458 ''0x1458'' ''microsoft'',
     dev_entry 0x1458 0x5000 ''0x29e0'' ''GA-X48T-DQ6'',
     dev_entry 0x1319 0x0801 ''FM0801-au'' ''PCI Card MediaForte made in singapore (driver - ct'',
     dev_entry 0x1319 0x0802 ''FM801-as'' ''Xwave PCI Joystick'',
     dev_entry 0x1319 0x1000 ''FM801-as'' ''PCI Audio'',
     dev_entry 0x1319 0x1001 ''FM801'' ''Joystick'',
     dev_entry 0x1319 0x1319 ''FM0801-as'' ''Xwave PCI audio controller'',
     dev_entry 0x1319 0x4901 ''FM801-AU'' ''ForteMedia PCI Audio Card'']"

definition PciDevTable_33 :: "PCI_DEVTABLE list" where
  "PciDevTable_33 = [
     dev_entry 0x1319 0x322 ''fm801-au'' ''PCI Audio'',
     dev_entry 0x1412 0x1712 ''ICE1712'' ''M-audio Delta 44 (http://www.m-audio.com)'',
     dev_entry 0x1412 0x1724 ''VT1723'' ''Envy24PT/HT PCI Multi-Channel Audio Controller'',
     dev_entry 0x131F 0x2002 ''72svec'' ''CyberSerial 16850'',
     dev_entry 0x131F 0x2011 ''1655'' ''Siig Inc Duet 1S(16550)+1P'',
     dev_entry 0x131F 0x2012 '''' ''Duet 1S(16850)+1P'',
     dev_entry 0x131F 0x2020 ''SIIG cyber8000'' ''Communication controller'',
     dev_entry 0x131F 0x2030 ''SIIG CyberSerial PCI 16C550'' ''SIIG Cyber Serial Dual PCI Board'',
     dev_entry 0x131F 0x2042 '''' ''Trio 1S(16850)+2P'',
     dev_entry 0x131F 0x2050 ''Siig Inc CyberSerial (4-port) 16550'' ''Siig Inc CyberSerial (4-port) 16550'',
     dev_entry 0x131F 0x2051 '''' ''CyberSerial 16650'',
     dev_entry 0x131F 0x2052 '''' ''CyberSerial 16850'',
     dev_entry 0x131F 0x2060 ''JJ_P21022-B'' ''Trio 2S(16550)+1P'',
     dev_entry 0x131F 0x2061 '''' ''Trio 2S(16650)+1P'',
     dev_entry 0x131F 0x2062 ''1969'' ''Trio 2S(16850)+1P'',
     dev_entry 0x131F 0x9876 ''JJ_P21022-B'' ''Trio 2S(16550)+1P'',
     dev_entry 0x1407 0x0100 ''0439'' ''Lava Dual Serial 550 PCI'',
     dev_entry 0x1407 0x0101 '''' ''Lava Quattro PCI A/B'',
     dev_entry 0x1407 0x0102 '''' ''Lava Quattro PCI C/D'',
     dev_entry 0x1407 0x0110 ''0110'' ''Lava DSerial PCI Port A'',
     dev_entry 0x1407 0x0111 ''nep5p'' ''Lava DSerial PCI Port B'',
     dev_entry 0x1407 0x0180 ''Lava Octopus PCI Ports '' ''Lava Octopus PCI Ports 1-4'',
     dev_entry 0x1407 0x0181 '''' ''Lava Octopus PCI Ports 5-8'',
     dev_entry 0x1407 0x0200 ''9923'' ''LavaPort Dual-650 PCI'',
     dev_entry 0x1407 0x0201 '''' ''LavaPort Quad-650 PCI A/B'',
     dev_entry 0x1407 0x0202 '''' ''LavaPort Quad-650 PCI C/D'',
     dev_entry 0x1407 0x0220 '''' ''LavaPort Quad-650 PCI A/B'',
     dev_entry 0x1407 0x0221 '''' ''LavaPort Quad-650 PCI C/D'',
     dev_entry 0x1407 0x0400 '''' ''Lava 8255 PIO PCI'',
     dev_entry 0x1407 0x0500 ''P4'' ''Lava Single Serial 550 PCI'',
     dev_entry 0x1407 0x0510 '''' ''Lava SP Serial 550 PCI'',
     dev_entry 0x1407 0x0511 '''' ''Lava SP BIDIR Parallel PCI'',
     dev_entry 0x1407 0x0520 ''s'' ''Lava RS422 SS-PCI'',
     dev_entry 0x1407 0x0600 ''4-0 9253'' ''LavaPort 650 PCI'',
     dev_entry 0x1407 0x0A00 ''LavaPort PCI'' ''COM Port Accelerator'',
     dev_entry 0x1407 0x120 '''' ''Lava Quattro 550 PCI A/B'',
     dev_entry 0x1407 0x121 '''' ''Lava Quattro 550 PCI C/D'',
     dev_entry 0x1407 0x520 ''s'' ''s'',
     dev_entry 0x1407 0x8000 (''PCI'' @ [CHR 0x5C] @ ''VEN_197B&DEV_2382'') ''Lava Parallel'',
     dev_entry 0x1407 0x8001 '''' ''Lava Dual Parallel port A'',
     dev_entry 0x1407 0x8002 ''9923'' ''Lava Dual Parallel port A'',
     dev_entry 0x1407 0x8003 '''' ''Lava Dual Parallel port B'',
     dev_entry 0x1407 0x8800 ''2003'' ''BOCA Research IOPPAR'',
     dev_entry 0x9412 0x6565 ''HT6565'' ''IDE Controller?'',
     dev_entry 0x1190 0x2550 ''TC-2550'' ''Single Chip Ultra (Wide) SCSI Processor'',
     dev_entry 0x1190 0xC721 '''' ''EIDE'',
     dev_entry 0x1190 0xC731 ''TP-910/920/940'' ''PCI Ultra (Wide) SCSI Adapter'',
     dev_entry 0x1242 0x1460 ''JNIC-1460'' ''2-Gb/s Fibre Channel-PCI 64-bit 66 MHz'',
     dev_entry 0x1242 0x1560 ''JNIC-1560'' ''Dual Channel 2 Gb/s Fibre Channel-PCI-X'',
     dev_entry 0x1242 0x4643 ''JNI PCI 64-bit Fibrechannel'' ''JNI PCI 64-bit Fibrechannel (needs clone)'',
     dev_entry 0x14F2 0x0001 '''' ''Moselle Split Bridge'',
     dev_entry 0x14F2 0x0002 '''' ''Capilano Split Bridge'',
     dev_entry 0x14F2 0x0120 ''win7_rtm.090713-1255'' ''Merlin Split Bridge'',
     dev_entry 0x14F2 0x0121 '''' ''PCI Parallel Port'',
     dev_entry 0x14F2 0x0122 ''unknown'' ''PCI Serial Port'',
     dev_entry 0x14F2 0x0123 ''6.1.7600.16385'' ''PCI PS/2 Keyboard Port'',
     dev_entry 0x14F2 0x0124 ''3103'' ''PCI PS/2 Mouse Port'',
     dev_entry 0x1308 0x0001 '''' ''NetCelerator Adapter'',
     dev_entry 0x134D 0x2188 ''fa82537ep'' ''intel'',
     dev_entry 0x134D 0x2189 ''HSP688T'' ''pctel HSP56 V92 PCI Modem'',
     dev_entry 0x134D 0x2486 ''82537'' ''V.92 MDC Modem'',
     dev_entry 0x134D 0x7890 ''8086'' ''HSP56 MicroModem'',
     dev_entry 0x134D 0x7891 ''PCT 789T'' ''HSP MicroModem 56'',
     dev_entry 0x134D 0x7892 ''PCT 789T-A'' ''HSP56 MicroModem'',
     dev_entry 0x134D 0x7893 ''S911 K017'' ''HSP MicroModem 56'',
     dev_entry 0x134D 0x7894 ''688w'' ''HSP MicroModem 56'',
     dev_entry 0x134D 0x7895 ''PCT789T'' ''HSP MicroModem 56'',
     dev_entry 0x134D 0x7896 ''pct789t-c'' ''HSP MicroModem 56'',
     dev_entry 0x134D 0x7897 ''97860963'' ''HSP MicroModem 56/PCT789T'',
     dev_entry 0x134D 0x9714 ''PCT 288-1A'' ''PCTEL'',
     dev_entry 0x134D 0xD800 ''pct388p-a'' ''pctel 56k modem'',
     dev_entry 0x134D 0x1f96 ''hfp56'' ''dev'',
     dev_entry 0x135E 0x0EC3 ''8012e'' ''PCIe 8 Relay Output/8 Isolated Input Board '',
     dev_entry 0x135E 0x5101 ''5101'' ''Route 56'',
     dev_entry 0x135E 0x5102 ''PCI-ACB'' ''RS-232 synchronous card'',
     dev_entry 0x135E 0x7101 '''' ''Single Port RS-232/422/485/520'',
     dev_entry 0x135E 0x7201 '' '' ''Dual Port RS-232/422/485 Interface'',
     dev_entry 0x135E 0x7202 '''' ''Dual Port RS-232 Interface'',
     dev_entry 0x135E 0x7401 '''' ''Four Port RS-232 Interface'',
     dev_entry 0x135E 0x7402 '''' ''Four Port RS-422/485 Interface'',
     dev_entry 0x135E 0x7801 '''' ''Eight Port RS-232 Interface'',
     dev_entry 0x135E 0x8001 ''8001'' ''Digital I/O Adapter'',
     dev_entry 0x1385 0x4100 ''MA401'' ''802.11b Wireless Adapter'',
     dev_entry 0x1385 0x4105 '''' '''',
     dev_entry 0x1385 0x620A ''GA620'' ''Toshiba'',
     dev_entry 0x1385 0x622A ''GA622'' '''',
     dev_entry 0x1385 0x630A ''GA630'' '''',
     dev_entry 0x1385 0x8169 ''GA511'' ''Gigabit Ethernet Adapter'',
     dev_entry 0x1385 0xF311 ''FA311'' ''Fast Ethernet Adapter'',
     dev_entry 0x1385 0xF312 '''' '''',
     dev_entry 0x1389 0x0001 ''PCI1500PFB'' ''Intelligent fieldbus Adapter'',
     dev_entry 0x1389 0x0104 ''PCI-CANIO'' ''PCI-CANIO adapter'',
     dev_entry 0x1397 0x0B4D ''HFC-8S 16B8D8S0'' ''ISDN HDLC FIFO Controller'',
     dev_entry 0x1397 0x2BD0 ''HFC-PCI A ISDN 2BDS0'' ''ISDN HDLC FIFO Controller'',
     dev_entry 0x1397 0x8B4D ''HFC-4S ISDN 8B4D4S0'' ''ISDN HDLC FIFO Controller'',
     dev_entry 0x1397 0xB000 ''B000'' ''HCF-PCI card'',
     dev_entry 0x1397 0xB006 ''B006'' ''HCF-PCI card'',
     dev_entry 0x1397 0xB007 ''B007'' ''HCF-PCI card'',
     dev_entry 0x1397 0xB008 ''n/a'' ''usb webcam'',
     dev_entry 0x1397 0xB009 ''B009'' ''HCF-PCI card'',
     dev_entry 0x1397 0xB00A ''B00A'' ''HCF-PCI card'',
     dev_entry 0x1397 0xB00B ''B00B'' ''HCF-PCI card'',
     dev_entry 0x1397 0xB00C ''B00C'' ''HCF-PCI card'',
     dev_entry 0x1397 0xB100 ''B100'' ''HCF-PCI card'',
     dev_entry 0x13C0 0x0010 ''SyncLink Adapter'' ''single port multiprotocol serial adapter'',
     dev_entry 0x13C0 0x0020 ''SyncLink SCC'' ''low speed single port multiprotocol serial adapter'',
     dev_entry 0x13C0 0x0030 ''SyncLink 4 Port Adapter'' ''4 port multiprotocol serial adapter'',
     dev_entry 0x13C0 0x0070 ''SyncLink GT Adapter'' ''single port multiprotocol serial adapter'',
     dev_entry 0x13C0 0x0080 ''SyncLink GT4 Adapter'' ''4 port multiprotocol serial adapter'',
     dev_entry 0x13C0 0x0090 ''SyncLink AC Adapter'' ''one port asynchronous serial adapter'',
     dev_entry 0x13C0 0x00a0 ''SyncLink GT2 Adapter'' ''2 port multiprotocol serial adapter'',
     dev_entry 0x13C0 0x0210 ''SyncLink Serial Adapter version 2'' ''single port multiprotocol serial adapter'',
     dev_entry 0x13C1 0x1000 ''9548qad'' ''ATA-RAID Controller'',
     dev_entry 0x13C1 0x1001 ''7000/8000 series'' ''ATA-133 Storage Controller'',
     dev_entry 0x13C1 0x1002 ''9000 series'' ''SATA/PATA Storage Controller'',
     dev_entry 0x13C1 0x1003 ''9550SX/9590SE Series'' ''SATA2 Raid Controller'',
     dev_entry 0x13C1 0x1004 ''9650SE Series'' ''PCI-Express SATA2 Raid Controller'',
     dev_entry 0x13C1 0x1005 ''9690SA Series'' ''PCI-Express SATA2/SAS Raid Controller'',
     dev_entry 0x13C1 0x1010 ''9750 Series'' ''PCI-Express2 SAS2/SATA2 Raid Controller'',
     dev_entry 0x13DF 0x0001 ''PCI56RVP'' ''Modem'',
     dev_entry 0x13F6 0x89 ''pcnet ht2001 9932'' ''serlio'',
     dev_entry 0x13F6 0x00111 ''520098396000734'' ''sound card'',
     dev_entry 0x13F6 0x0100 ''CMI8338/PCI C3DX'' ''PCI'',
     dev_entry 0x13F6 0x0101 ''CMI8338-031'' ''PCI Audio Device'',
     dev_entry 0x13F6 0x0111 ''0434119232'' ''PCI-SCCME8738LX-2'',
     dev_entry 0x13F6 0x0112 ''CMI-8378B/PCI-6CH'' ''PCI Audio Chip'',
     dev_entry 0x13F6 0x0191 (''PCI'' @ [CHR 0x5C] @ ''VEN_13F6&DEV_0111&REV_10'') ''CMI 8738 8CH Sound Card'',
     dev_entry 0x13F6 0x0211 (''PCI'' @ [CHR 0x5C] @ ''VEN_13F6&DEV_0211&SUBSYS_021113F6&rev_10'' @ [CHR 0x5C] @ ''3&267'') '' Driver controller pci simple comunications - PCtel HSP56 Micro Modem Driver  '',
     dev_entry 0x13F6 0x0300 ''0x4005'' ''pci audio driver'',
     dev_entry 0x13F6 0x111 (''PCI'' @ [CHR 0x5C] @ ''VEN_13F6&DEPCI'' @ [CHR 0x5C] @ ''VEN_13F6&DEV_0511&SUBSYS_051113'') ''C-Media Audio Controller'',
     dev_entry 0x13F6 0x8788 ''CMI8788/PCI-8CH'' ''C-Media Oxygen HD'',
     dev_entry 0x13F6 0x9876 ''CMI8738'' ''C-Media Audio Controller'',
     dev_entry 0x13F6 0x9891 ''CMI8738'' ''C-Media Audio Controller'',
     dev_entry 0x1448 0x0001 ''ADAT/EDIT'' ''Audio Editing'']"

definition PciDevTable_34 :: "PCI_DEVTABLE list" where
  "PciDevTable_34 = [
     dev_entry 0x134A 0x0001 ''F01 2ASV17184.1'' ''Domex DMX 3191D PCI SCSI Controller'',
     dev_entry 0x134A 0x0002 '''' ''Domex DMX3192U/3194UP SCSI Adapter'',
     dev_entry 0x134A 0x3510A ''DTC50C18'' ''scsi'',
     dev_entry 0x144A 0x348A ''LPCI-3488A'' ''Low-profile High-Performance IEEE488 GPIB Interface Card for PCI Bus'',
     dev_entry 0x144A 0x7230 '''' '''',
     dev_entry 0x144A 0x7248 ''PCI-9052'' ''PLX PCI9052'',
     dev_entry 0x144A 0x7250 ''PCI-7250'' ''PLX PCI9052'',
     dev_entry 0x144A 0x7256 ''PCI-7256'' ''PCI-7256 16-CH Latching Relay & 16-CH Isolated Digital Input Card'',
     dev_entry 0x144A 0x7296 ''PCI-7296 (PLX PCI-9052)'' ''96-ch digital I/O card'',
     dev_entry 0x144A 0x7432 ''PCI-7432'' '''',
     dev_entry 0x144A 0x7433 ''PCI-7433'' ''64-ch digital Input card'',
     dev_entry 0x144A 0x7434 ''PCI-7434'' '''',
     dev_entry 0x144A 0x7841 ''PCI-7841'' ''SJA 1000- baseddual port  CAN bus card'',
     dev_entry 0x144A 0x8133 ''PCI-8133'' ''Dell Wireless 5720 VZW Mobile Broadband Card'',
     dev_entry 0x144A 0x8554 ''PCI-8554'' '''',
     dev_entry 0x144A 0x9111 ''PCI-9111'' '''',
     dev_entry 0x144A 0x9113 ''PCI-9113'' '''',
     dev_entry 0x144A 0x9114 ''PCI-9114'' '''',
     dev_entry 0x1B13 0x0001 ''GeForce4 MX 440'' ''nVidia Corporation NV17'',
     dev_entry 0x145F 0x0001 ''NextMove PCI'' ''Multi-axis Motion Controller'',
     dev_entry 0x145F 0x0002 ''NextMove PCI-2'' ''Multi-axis Motion Controller'',
     dev_entry 0x148D 0x1003 ''Rockwell HCF chipset'' ''Creative ModemBlaster V.90 PCI DI5655'',
     dev_entry 0x14B3 0x0000 ''9ff-usa-a99-99-0970'' ''DSL NIC'',
     dev_entry 0x14B7 0x0001 ''Symphony 4110'' ''pci9052'',
     dev_entry 0x14B9 0x0001 ''PC4800'' ''werwerwerwe'',
     dev_entry 0x14B9 0x0340 '''' ''Cisco Systems 340 PCI Wireless LAN Adptr'',
     dev_entry 0x14B9 0x2500 ''PC2500 DS'' ''Wireless PCI LAN Adapter'',
     dev_entry 0x14B9 0x3100 ''PC3100 FH'' ''Wireless PCI LAN Adapter'',
     dev_entry 0x14B9 0x3101 ''PC3100 FH'' ''Wireless PCI LAN Adapter'',
     dev_entry 0x14B9 0x3500 ''PC3500 FH'' ''Wireless PCI LAN Adapter'',
     dev_entry 0x14B9 0x4500 ''PC4500 DS'' ''Wireless PCI LAN Adapter'',
     dev_entry 0x14B9 0x4800 ''PC4800 DS'' ''Wireless PCI LAN Adapter'',
     dev_entry 0x14B9 0xA504 ''A504 Cisco MAC'' ''Cisco Aironet 350 Series Mini-PCI (MPI350)'',
     dev_entry 0x14B9 0xA506 ''AIR-MP21G'' ''802.11b/g wireless adapter'',
     dev_entry 0x14DB 0x2100 ''PCI IO 1S'' ''download drivers'',
     dev_entry 0x14DB 0x2101 ''PCI IO 1S-650'' '''',
     dev_entry 0x14DB 0x2102 ''PCI IO 1S-850'' '''',
     dev_entry 0x14DB 0x2110 ''PCI IO 1S1P'' ''OX16PCI952'',
     dev_entry 0x14DB 0x2111 ''PCI IO 1S1P-650'' '''',
     dev_entry 0x14DB 0x2112 ''PCI IO 1S1P-850'' '''',
     dev_entry 0x14DB 0x2120 ''TK9902'' ''0701 Parallel Port device'',
     dev_entry 0x14DB 0x2121 ''PCI IO 2P'' ''Avlab Technology PCI IO 2P'',
     dev_entry 0x14DB 0x2130 ''PCI IO 2S'' ''2 Port PCI Serial Card'',
     dev_entry 0x14DB 0x2131 ''PCI IO 2S-650'' ''pci serial port'',
     dev_entry 0x14DB 0x2132 ''PCI IO 2S-850'' '''',
     dev_entry 0x14DB 0x2140 ''PCI IO 2P1S'' '''',
     dev_entry 0x14DB 0x2141 ''PCI IO 2P1S-650'' '''',
     dev_entry 0x14DB 0x2142 ''PCI IO 2P1S-850'' '''',
     dev_entry 0x14DB 0x2144 ''PCI IO 2P2S'' '''',
     dev_entry 0x14DB 0x2145 ''PCI IO 2P2S-650'' '''',
     dev_entry 0x14DB 0x2146 ''PCI IO 2P2S-850'' '''',
     dev_entry 0x14DB 0x2150 ''PCI IO 4S'' '''',
     dev_entry 0x14DB 0x2151 ''PCI IO 4S-654'' '''',
     dev_entry 0x14DB 0x2152 ''PCI IO 4S-850'' '''',
     dev_entry 0x14DB 0x2160 ''PCI IO 2S1P'' '''',
     dev_entry 0x14DB 0x2161 ''PCI IO 2S1P-650'' '''',
     dev_entry 0x14DB 0x2162 ''PCI IO 2S1P-850'' '''',
     dev_entry 0x14DB 0x2180 ''PCI IO 8S'' ''VEN_14DB&DEV_2180&SUBSYS_218014DB&REV_00'',
     dev_entry 0x14DB 0x2181 ''PCI IO 8S-654'' ''Avlab Technology Inc'',
     dev_entry 0x14DB 0x2182 ''PCI IO 8S-850'' ''Avlab Technology Inc'',
     dev_entry 0x14DC 0x0000 ''PCI 230'' '''',
     dev_entry 0x14DC 0x0001 ''PCI242H'' ''4-port high speed RS-232'',
     dev_entry 0x14DC 0x0002 ''PCI244H'' ''8-port high speed RS-232'',
     dev_entry 0x14DC 0x0003 ''PCI247H'' ''2-port high speed RS-232'',
     dev_entry 0x14DC 0x0004 ''PCI248H'' ''2-port high speed RS-422/485'',
     dev_entry 0x14DC 0x0005 ''PCI249H'' ''2-port high speed RS-232 and RS-422/485'',
     dev_entry 0x14DC 0x0006 ''PCI260'' ''16-channel analog input (with timers)'',
     dev_entry 0x14DC 0x0007 ''PCI224'' ''16-chan 12-bit analog output (w/ timers)'',
     dev_entry 0x14DC 0x0008 ''PCI234'' ''4-chan 16-bit analog output (w/ timers)'',
     dev_entry 0x14DC 0x0009 ''PCI236'' ''24-channel digital I/O'',
     dev_entry 0x14DC 0x000A ''PCI272'' ''72-channel digital I/O'',
     dev_entry 0x14DC 0x000B ''PCI215'' ''48-channel digital I/O (w/ 6 timers)'',
     dev_entry 0x14DC 0x000C ''PCI263'' ''16-channel reed relay output'',
     dev_entry 0x1507 0x0001 ''MPC105 Eagle'' '''',
     dev_entry 0x1507 0x0002 ''MPC106 Grackle'' '''',
     dev_entry 0x1507 0x0003 ''MPC8240 Kahlua'' '''',
     dev_entry 0x1507 0x0100 ''MPC145575 HFC-PCI'' '''',
     dev_entry 0x1507 0x0431 ''KTI829c 100VG'' '''',
     dev_entry 0x1507 0x4801 ''Raven'' '''',
     dev_entry 0x1507 0x4802 ''Falcon'' '''',
     dev_entry 0x1507 0x4803 ''Hawk'' '''',
     dev_entry 0x1507 0x4806 ''CPX8216'' '''',
     dev_entry 0x151A 0x1002 (''PCI-1002&DEV_4341&subsys_82441033&rev_01'' @ [CHR 0x5C]) ''4341'',
     dev_entry 0x151A 0x1004 ''PCI-1004'' '''',
     dev_entry 0x151A 0x1008 ''PCI-1008'' '''',
     dev_entry 0x157C 0x8001 ''Fix2000'' ''PCI Y2K Compliance Card'',
     dev_entry 0x2001 0x3C19 ''Ralink RT5370'' ''USB <=> Wireless N 150 Adapter'',
     dev_entry 0x2001 0xF103 ''.'' ''.'',
     dev_entry 0x1592 0x0781 ''W83787IF'' ''Multi-IO Card'',
     dev_entry 0x1592 0x0782 ''W837871F'' ''Parallel Port Card (EPP)'',
     dev_entry 0x1592 0x0783 ''TC32001 PCI I/O'' ''Multi-IO Card'',
     dev_entry 0x1592 0x0785 ''907ab184740802'' ''Multi-IO Card'',
     dev_entry 0x1592 0x0786 ''Winbond w83787if'' ''Multi-IO Card'',
     dev_entry 0x1592 0x0787 ''winbond w83787if'' ''Multi-IO Card 2 series'',
     dev_entry 0x1592 0x0788 ''w837871f'' ''Multi-IO Card'',
     dev_entry 0x1592 0x078A ''007AB192367002ND'' ''Multi-IO Card'',
     dev_entry 0x15AD 0x0405 ''9500MGS'' ''VMWare SVGA II Adapter'',
     dev_entry 0x15AD 0x0710 ''0740'' ''Virtual SVGA'',
     dev_entry 0x15AD 0x0720 ''VMXNET'' ''VMware PCI Ethernet Adapter'',
     dev_entry 0x15AD 0x0740 ''0X0880'' ''VMWare VMCI Bus Device'',
     dev_entry 0x15AD 0x0770 ''n/a'' ''Standard Enhanced PCI to USB Host Controller'',
     dev_entry 0x15AD 0x0774 ''VMWare'' ''VMWare USB 1.1 UHCI Controller'',
     dev_entry 0x15AD 0x0778 ''0778'' ''Sabrent USB-to-Parallel Adapter'',
     dev_entry 0x15AD 0x790 ''PCI-to-PCI'' ''VMWare PCI-to-PCI bridge'',
     dev_entry 0x15AD 0x7A0 ''PCIE-to-PCIE'' ''VMWare PCI Express Root'',
     dev_entry 0x15AD 0x07B0 ''VMXNET 3'' ''VMware vSphere 4 PCI Ethernet Adapter'',
     dev_entry 0x15AD 0x0801 ''n/a'' ''PCI Memory Controller'',
     dev_entry 0x15AD 0x1975 ''N/A'' ''High Definition Audio Codec'',
     dev_entry 0x15AD 0x1977 ''N/A'' ''High Definition Audio Controller'',
     dev_entry 0x15DC 0x0001 ''Argus 300'' ''PCI Cryptography Module'',
     dev_entry 0x3388 0x0020 ''HB2/HB6'' ''Universal PCI-PCI Bridge (transparent mode)'',
     dev_entry 0x3388 0x0021 ''HB1 pci-pci 0304'' ''ZS095A0'',
     dev_entry 0x3388 0x0022 ''HB1  0304'' ''PCI-PCI Bridge'',
     dev_entry 0x3388 0x0026 ''PCI6154BB'' ''Universal PCI-PCI Bridge (transparent mode)'',
     dev_entry 0x3388 0x0028 ''HB8'' ''Dual Mode PCI-X-to-PCI-X Bridge (transparent mode)'',
     dev_entry 0x3388 0x0029 ''HB8'' ''Dual Mode PCI-X-to-PCI-X Bridge (non-transparent mode)'',
     dev_entry 0x3388 0x0030 ''HB7'' ''Transparent PCI-X-to-PCI-X Bridge'',
     dev_entry 0x3388 0x0031 ''PCI 6156'' ''Synchronous 32-Bit, 33 MHz PCI-to-PCI Bridge for Video Capture Applications'',
     dev_entry 0x3388 0x8011 ''II'' ''CPU to PCI Bridge'',
     dev_entry 0x3388 0x8012 ''cmi 8330'' ''PCI to ISA Bridge'',
     dev_entry 0x3388 0x8013 ''PLX Registration Record Management'' ''EIDE Controller'',
     dev_entry 0x4D51 0x0200 ''MQ-200'' '''',
     dev_entry 0x5053 0x2010 ''14441'' ''Daytona Audio Adapter'',
     dev_entry 0x2646 0x0001 ''12333'' ''22323'',
     dev_entry 0x2646 0x2646 ''6.06000'' ''22323'',
     dev_entry 0x5555 0x0003 ''VPI General Digital Video Component'' ''Digital Video OEM computer module'',
     dev_entry 0x6666 0x0001 ''815'' ''PCCOM4'',
     dev_entry 0x6666 0x0002 '''' ''PCCOM8'',
     dev_entry 0x0033 0x002F ''.'' ''ieee 1394 controller'',
     dev_entry 0x0033 0x00333 (''1ACPI'' @ [CHR 0x5C] @ ''GenuineIntel_-_x86_Family_6_Model_23'' @ [CHR 0x5C] @ ''_0'') (''1ACPI'' @ [CHR 0x5C] @ ''GenuineIntel_-_x86_Family_6_Model_23'' @ [CHR 0x5C] @ ''_0''),
     dev_entry 0x12FC 0x5cec ''PCI-488 GPIB'' ''IEEE 488'',
     dev_entry 0x130B 0x130b ''0x9876'' ''0x9876'',
     dev_entry 0x1310 0x0003 ''9060'' ''CompactPCI Interface'',
     dev_entry 0x1310 0x000D '''' ''FPGA PCI Bridge'',
     dev_entry 0x1317 0x0531 ''nm0403A03461H121S122P'' ''ADMtek AN986'',
     dev_entry 0x1317 0x0981 ''AN981'' ''FastNIC 10/100 Fast Ethernet Adapter'',
     dev_entry 0x1317 0x0985 ''an983B'' ''Linksys LNE 100TX Fast Ethernet Adapter(LNE100TX v4)'']"

definition PciDevTable_35 :: "PCI_DEVTABLE list" where
  "PciDevTable_35 = [
     dev_entry 0x1317 0x1985 ''AN985'' ''CardBus 10/100 Fast Ethernet&#1050;&#1086;&#1085;&#1090;&#1088;&#1086;&#1083;&#1083;&#1077;&#1088;'',
     dev_entry 0x1317 0x2850 ''016'' ''HSP56 MicroModem'',
     dev_entry 0x1317 0x5120 ''ADM5120'' ''ADMtek ADM5120 SOC (rev: 0)'',
     dev_entry 0x1317 0x7892 ''PCT 789T-A'' ''HSP56 MicroModem'',
     dev_entry 0x1317 0x8201 ''ADM8211'' ''802.11b Wireless PCI Card'',
     dev_entry 0x1317 0x9511 ''ADM9511'' ''PCI 10/100 Fast Ethernet Adapter'',
     dev_entry 0x1317 0x9513 ''ADM9513'' ''PCI 10/100 Fast Ethernet Adapter'',
     dev_entry 0x1317 0x2009 ''13d1'' ''1317'',
     dev_entry 0x133D 0x1000 ''SST-5136-PFB-PCI'' ''Industrial I/O Card'',
     dev_entry 0x1344 0x3240 '''' ''CopperHead CopperTail SC1 AMC AC97'',
     dev_entry 0x1344 0x3320 ''MT8LLN21PADF'' ''North Bridge'',
     dev_entry 0x1344 0x3321 ''21PAD'' ''North Bridge'',
     dev_entry 0x1344 0x3470 ''MT7LLN22NCNE'' ''South Bridge'',
     dev_entry 0x1344 0x4020 '''' ''CopperHead CopperTail SC1 IDE Controller'',
     dev_entry 0x1344 0x4030 '''' ''CopperHead CopperTail SC1 USB Controller'',
     dev_entry 0x135A 0x0042 ''16550'' ''4-port RS-232'',
     dev_entry 0x135A 0x0181 ''16550'' ''PCI LPT and RS-232'',
     dev_entry 0x135A 0x0224 ''PLX9050'' ''PLX PCI Bus Logic'',
     dev_entry 0x135A 0x0228 ''f97260118'' ''pq100akj9737'',
     dev_entry 0x1375 0x2571 ''NA'' ''NA'',
     dev_entry 0x416C 0x0100 ''AlladinCARD'' ''Puerto paralelo PCI'',
     dev_entry 0x416C 0x0200 ''CPC'' '''',
     dev_entry 0x137A 0x0001 '''' '''',
     dev_entry 0x137A 0x0003 ''PCI-424 Original'' ''PCI-424 Original'',
     dev_entry 0x137A 0x0004 ''PCI-424 X'' ''PCI-424 X'',
     dev_entry 0x137A 0x0005 ''PCIe-424'' ''PCIe-424'',
     dev_entry 0x1387 0x4640 ''-none-'' ''sl240'',
     dev_entry 0x1387 0x5310 ''N/A'' ''SCRAMNet GT200'',
     dev_entry 0x1393 0x1010 '''' '''',
     dev_entry 0x1393 0x1020 '''' '''',
     dev_entry 0x1393 0x1022 ''unknown'' ''unknown'',
     dev_entry 0x1393 0x1040 ''C104H/PCI'' ''Smartio'',
     dev_entry 0x1393 0x1041 ''CP104U series'' '''',
     dev_entry 0x1393 0x1042 '''' '''',
     dev_entry 0x1393 0x1140 '''' '''',
     dev_entry 0x1393 0x1141 '''' '''',
     dev_entry 0x1393 0x1320 ''CP-132'' ''Industio'',
     dev_entry 0x1393 0x1321 '''' '''',
     dev_entry 0x1393 0x1340 ''CP--134U-I-DB9 V2.3 UPCI Board'' ''UniversalPCI board, 4 ports RS-422/485 with Isolation DB9M'',
     dev_entry 0x1393 0x1401 '''' '''',
     dev_entry 0x1393 0x1680 ''C168H/PCI'' ''Smartio'',
     dev_entry 0x1393 0x1681 ''CP-168U'' ''CP-168U Smart Serial Board'',
     dev_entry 0x1393 0x2040 ''CP-204J'' ''Intellio'',
     dev_entry 0x1393 0x2180 ''C218'' ''Intellio Turbo PCI'',
     dev_entry 0x1393 0x2210 ''---'' ''---'',
     dev_entry 0x1393 0x2240 ''---'' ''---'',
     dev_entry 0x1393 0x3200 ''C320'' ''Intellio Turbo PCI'',
     dev_entry 0x1393 0x5020 ''e400'' '''',
     dev_entry 0x1393 0x6800 ''0x0000'' ''dvr capture card'',
     dev_entry 0x139A 0x0007 ''SES2000'' ''Alacritech iSCSI Controller'',
     dev_entry 0x13A7 0x6240 ''Network Controller'' ''BSRV2-301A'',
     dev_entry 0x13A8 0x0152 ''XR17C152'' ''Dual UART'',
     dev_entry 0x13A8 0x0154 ''XR17C154'' ''Four Channel PCI Bus UART'',
     dev_entry 0x13A8 0x0158 ''XR17C158'' ''Eight Channel PCI Bus UART (5V)'',
     dev_entry 0x4C53 0x0000 ''PLUSTEST'' ''Diagnostics Device'',
     dev_entry 0x4C53 0x0001 ''pustest'' ''Diagnostics Device'',
     dev_entry 0x13B6 0x13b6 ''S/N 26296347'' ''sguiu'',
     dev_entry 0x13C7 0x0ADC '''' ''Multi-Function Analogue/Digital IO card'',
     dev_entry 0x13C7 0x0B10 ''.'' ''Parallel I/O Card'',
     dev_entry 0x13C7 0x0D10 ''.'' ''Digital I/O Card'',
     dev_entry 0x13C7 0x5744 ''.'' ''Watchdog Card'',
     dev_entry 0x13D0 0x2103 ''T228502'' ''B2C2 Sky2PC Core Chip sky star 2 <technisat>'',
     dev_entry 0x13D0 0x2200 '''' '''',
     dev_entry 0x13D1 0xAB02 '''' ''PCMCIA 10/100 mbps Ethernet Adapter'',
     dev_entry 0x13D1 0xAB03 '''' '''',
     dev_entry 0x13D1 0xAB06 ''FE2000VX'' ''CardBus /Atelco Fibreline Ethernet Adptr'',
     dev_entry 0x13D1 0xAB08 ''SMC8035TX'' (''EZ Card'' @ [CHR 0xE2, CHR 0x84, CHR 0xA2] @ '' 10/100 Fast Ethernet CardBus Adapter''),
     dev_entry 0x13D7 0x0205 ''6205'' ''toshiba'',
     dev_entry 0x13D7 0x8086 ''6205'' ''toshiba'',
     dev_entry 0x13D8 0x1000 ''XQ11800FP'' ''XaQti 1000Mbit/sec Gbit Ethernet Controller'',
     dev_entry 0x106B 0x0001 ''Bandit'' ''PowerPC Host-PCI Bridge'',
     dev_entry 0x106B 0x0002 ''Grand Central'' ''I/O Controller'',
     dev_entry 0x106B 0x0003 ''Control Video'' '''',
     dev_entry 0x106B 0x0004 ''PlanB'' ''Video-in'',
     dev_entry 0x106B 0x0007 ''OHare'' ''I/O Controller'',
     dev_entry 0x106B 0x0009 ''BCM5703X'' ''BCM5703X'',
     dev_entry 0x106B 0x000C '''' '''',
     dev_entry 0x106B 0x000E ''Hydra'' ''Mac I/O Controller'',
     dev_entry 0x106B 0x0010 ''Heathrow'' ''Mac I/O Controller'',
     dev_entry 0x106B 0x0017 ''Paddington'' ''Mac I/O Controller'',
     dev_entry 0x106B 0x0018 ''UniNorth'' ''FireWire Controller'',
     dev_entry 0x106B 0x001F ''UniNorth'' ''Host-PCI bridge'',
     dev_entry 0x106B 0x0020 ''UniNorth'' ''AGP interface'',
     dev_entry 0x106B 0x0026 ''Pangea'' ''USB Interface'',
     dev_entry 0x106B 0x0027 ''Pangea'' ''AGP interface'',
     dev_entry 0x106B 0x002D ''UniNorth 1.5'' ''AGP Bridge'',
     dev_entry 0x106B 0x002E ''UniNorth 1.5'' ''PCI Bridge'',
     dev_entry 0x106B 0x002F ''UniNorth 1.5'' ''Internal PCI'',
     dev_entry 0x106B 0x0030 ''UniNorth/Pangea'' ''FireWire Controller'',
     dev_entry 0x106B 0x003B ''Intrepid'' ''Integrated ATA Controller'',
     dev_entry 0x106B 0x004f ''Shasta'' ''Mac I/O controler'',
     dev_entry 0x106B 0x0050 ''Shasta'' ''IDE controler'',
     dev_entry 0x106B 0x0051 ''Shasta'' ''Sungem ethernet controler'',
     dev_entry 0x106B 0x0052 ''Shasta'' ''Firewire controler'',
     dev_entry 0x106B 0x0053 ''Shasta'' ''PCI Bridge'',
     dev_entry 0x106B 0x0054 ''Shasta'' ''PCI Bridge'',
     dev_entry 0x106B 0x0055 ''Shasta'' ''PCI Bridge'',
     dev_entry 0x106B 0x0058 ''U3L'' ''AGP Bridge'',
     dev_entry 0x106B 0x008A ''Apple RAID Controller'' ''Mac Pro RAID Card'',
     dev_entry 0x106B 0x008C ''BCM4321 802.11a/b/g/n'' ''AirPort Extreme'',
     dev_entry 0x106C 0x8801 '''' ''Dual Pentium ISA/PCI Motherboard'',
     dev_entry 0x106C 0x8802 ''P54C Tr8'' ''PowerPC ISA/PCI Motherboard'',
     dev_entry 0x106C 0x8803 '''' ''Dual Window Graphics Accelerator'',
     dev_entry 0x106C 0x8804 ''ht019a'' ''PCI LAN Controller'',
     dev_entry 0x106C 0x8805 ''00b'' ''100-BaseT LAN Controller'',
     dev_entry 0x106E 0x4362 ''88E8053'' ''Yukon PCI-E Gigabit Ethernet Controller (copper)'',
     dev_entry 0x1657 0x0646 ''BRE040'' ''Brocade 400 series PCIe HBA'',
     dev_entry 0x5136 0x4678 ''12363383'' ''S S Technologies'',
     dev_entry 0x1073 0x0001 '''' ''3D graphics Cntrlr'',
     dev_entry 0x1073 0x0002 ''YGV615'' ''RPA3 3D-Graphics Controller'',
     dev_entry 0x1073 0x0003 ''00011179'' '''',
     dev_entry 0x1073 0x0004 ''YMF754B DS-1S Audio'' ''PCI Audio Controller'',
     dev_entry 0x1073 0x0005 ''DS1'' ''DS1 Audio'',
     dev_entry 0x1073 0x0006 ''DS1'' ''DS1 Audio'',
     dev_entry 0x1073 0x0008 ''DS1'' ''DS1 Audio'',
     dev_entry 0x1073 0x000A ''YMF740'' ''DS-1L PCI Audio Controller'',
     dev_entry 0x1073 0x000C ''YMF740C'' ''DS-1L PCI audio controller'',
     dev_entry 0x1073 0x000D ''YMF724F'' ''YamahaDS1 native audio '',
     dev_entry 0x1073 0x0010 ''YMF744B-V'' ''DS-1 PCI audio controller'',
     dev_entry 0x1073 0x0012 ''YMF754B'' ''DS-1E PCI Audio Controller'',
     dev_entry 0x1073 0x0020 ''744'' ''DS-1 Audio'',
     dev_entry 0x1073 0x1000 ''SW1000XG'' ''Sound system'',
     dev_entry 0x1073 0x2000 ''DS2416'' ''Digital Mixing Card'',
     dev_entry 0x1073 0x9876 ''ymf724b-v9941'' ''yamaha'',
     dev_entry 0x1074 0x4E78 ''82C500/1'' ''Nx586 Chipset'',
     dev_entry 0x1077 0x1016 ''ISP10160'' ''Single Channel Ultra3 SCSI Processor'',
     dev_entry 0x1077 0x1020 ''ISP093a/2460'' ''Fast-wide SCSI - Sparc PCI'',
     dev_entry 0x1077 0x1022 ''ISP1022A'' ''Fast-wide SCSI'',
     dev_entry 0x1077 0x1080 ''ISP1080'' ''SCSI Host Adapter'',
     dev_entry 0x1077 0x1216 ''ISP12160'' ''Dual Channel Ultra3 SCSI Processor'',
     dev_entry 0x1077 0x1240 ''ISP1240'' ''SCSI Host Adapter'',
     dev_entry 0x1077 0x1280 ''ISP1280'' ''SCSI Host Adapter'',
     dev_entry 0x1077 0x2020 ''ISP2020A'' ''Fast!SCSI Basic Adapter'',
     dev_entry 0x1077 0x2100 ''ISP2100'' ''64-bit Fibre Channel Adapter'',
     dev_entry 0x1077 0x2200 ''ISP2200'' ''PCI Fibre Channel Adapter'',
     dev_entry 0x1077 0x2300 ''ISP 2300'' ''64-bit PCI FC-AL Adapter'',
     dev_entry 0x1077 0x2312 ''ISP 2312'' ''Fibre Channel Adapter'',
     dev_entry 0x1077 0x2422 ''ISP2422'' ''QLogic PCI to Fibre Channel Host Adapter for QLA2460'',
     dev_entry 0x1077 0x2432 ''ISP2432'' ''4Gb PCI Single/Dual Fibre Channel HBA'',
     dev_entry 0x1077 0x2532 ''ISP2532'' ''8Gb PCIe x8 Single/Dual Fibre Channel HBA'',
     dev_entry 0x1077 0x3010 ''n/a'' ''n/a'',
     dev_entry 0x1077 0x3032 ''ISP4032'' ''QLOGIC Dual Port 1GBPS PCI-E HBA'']"

definition PciDevTable_36 :: "PCI_DEVTABLE list" where
  "PciDevTable_36 = [
     dev_entry 0x1077 0x4000 '''' '''',
     dev_entry 0x1077 0x4010 '''' '''',
     dev_entry 0x1077 0x6312 ''SP202'' ''Qlogic FC-HBA QLA200'',
     dev_entry 0x1077 0x6422 ''EP2422'' ''4-Gbps Fibre Channel to PCI-X 2.0 266MHz controller for Embedded Applications'',
     dev_entry 0x1077 0x6432 ''EP2432'' ''4-Gbps Fibre Channel to PCIe controller for Embedded Applications'',
     dev_entry 0x1077 0x8000 ''8142'' ''QLE8142 QLogic PCI Express to 10 GbE Dual Channel CNA'',
     dev_entry 0x1077 0x8001 ''8142'' ''QLE8142 QLogic PCI Express to 10 GbE Dual Channel CNA (FCoE)'',
     dev_entry 0x1077 0x8020 ''8242'' ''QLogic Dual Port 10 Gigabit Ethernet CNA'',
     dev_entry 0x1077 0x8021 ''8242'' ''QLogic [FCoE] Adapter'',
     dev_entry 0x1077 0x8022 ''ISP8242'' ''QLE8142 QLogic PCI Express to 10 GbE Dual Channel CNA (iSCSI)'',
     dev_entry 0x1078 0x0000 ''Cx5520'' ''ISA Bridge'',
     dev_entry 0x1078 0x0001 ''MediaGXm'' ''Cyrix Integrated CPU'',
     dev_entry 0x1078 0x0002 ''Cx5520'' ''ISA Bridge'',
     dev_entry 0x1078 0x0100 ''Cx5530'' ''ISA bridge'',
     dev_entry 0x1078 0x0101 ''Cx5530'' ''SMI status and ACPI timer'',
     dev_entry 0x1078 0x0102 ''Cx5530'' ''IDE Controller'',
     dev_entry 0x1078 0x0103 ''Cx5530'' ''XpressAUDIO'',
     dev_entry 0x1078 0x0104 ''Cx5530'' ''Video Controller'',
     dev_entry 0x1078 0x0400 ''ZFMicro'' ''CPU to PCI Bridge'',
     dev_entry 0x1078 0x0401 ''ZFMicro'' ''Power Management Controller'',
     dev_entry 0x1078 0x0402 ''ZFMicro'' ''IDE Controller'',
     dev_entry 0x1078 0x0403 ''ZFMicro'' ''Expansion Bus'',
     dev_entry 0x544C 0x0350 ''00212673158479'' ''IAM'',
     dev_entry 0x107D 0x0000 ''P86C850'' ''Graphic GLU-Logic'',
     dev_entry 0x107E 0x0001 ''FLIPPER'' ''FRED Local Bus I/F to PCI Peripheral'',
     dev_entry 0x107E 0x0002 '''' ''100 vg anylan Cntrlr'',
     dev_entry 0x107E 0x0004 ''5526'' ''Fibre Channel Host Adapter'',
     dev_entry 0x107E 0x0005 ''x526'' ''Fibre Channel Host Adapter'',
     dev_entry 0x107E 0x0008 ''4575/5525/5575/6575'' ''(i)chipSAR+ 155 MBit ATM controller'',
     dev_entry 0x107E 0x9003 ''5535-4P-BRI-ST'' '''',
     dev_entry 0x107E 0x9007 ''5535-4P-BRI-U'' '''',
     dev_entry 0x107E 0x9008 ''5535-1P-SR'' '''',
     dev_entry 0x107E 0x900C ''5535-1P-SR-ST'' '''',
     dev_entry 0x107E 0x900E ''5535-1P-SR-U'' '''',
     dev_entry 0x107E 0x9011 ''5535-1P-PRI'' '''',
     dev_entry 0x107E 0x9013 ''5535-2P-PRI'' '''',
     dev_entry 0x107E 0x9023 ''5535-4P-BRI-ST'' '''',
     dev_entry 0x107E 0x9027 ''5536-4P-BRI-U'' '''',
     dev_entry 0x107E 0x9031 ''5535-1P-PRI'' '''',
     dev_entry 0x107E 0x9033 ''5536-2P-PRI'' ''Adapter'',
     dev_entry 0x107E 0x9060 ''6535'' ''CompactPCI T1/E1/J1Communications Ctrlr'',
     dev_entry 0x107E 0x9070 ''4538'' ''PMC T1/E1/J1 Communications Controller'',
     dev_entry 0x107E 0x9080 ''4532-002/005'' ''PMC ATM Over OC-3/STM-1 Comm Controller'',
     dev_entry 0x107E 0x9081 ''4532-001/004'' ''PMC ATM Over OC-3/STM-1 Comm Controller'',
     dev_entry 0x107E 0x9082 ''4532-000/003'' ''PMC ATM Over OC-3/STM-1 Comm Controller'',
     dev_entry 0x107E 0x9090 ''107'' ''PMC ATM Over T3/E3 Communications Ctrlr'',
     dev_entry 0x107E 0x90A0 ''4539'' ''PMC Quad T1/E1/J1 Communications Ctrlr'',
     dev_entry 0x107F 0x0802 ''mb87j3560'' ''pinacale capture card'',
     dev_entry 0x107F 0x0803 '''' ''EIDE Bus Master Controller'',
     dev_entry 0x107F 0x0806 '''' ''EIDE Controller'',
     dev_entry 0x107F 0x2015 '''' ''EIDE Controller'',
     dev_entry 0x1080 0x0600 ''82C596/9'' ''CPU to PCI & PCI to ISA Bridge'',
     dev_entry 0x1080 0xC691 ''Cypress CY7c68001'' ''AN2131QC 0230'',
     dev_entry 0x1080 0xC693 ''82C693'' ''PCI to ISA Bridge'',
     dev_entry 0x1081 0x0D47 ''2330'' ''Radius PCI to NuBUS Bridge'',
     dev_entry 0x1083 0x0001 ''FR710'' ''PCI Enhanced IDE Adapter'',
     dev_entry 0x1083 0x0613 '''' ''PCI'',
     dev_entry 0x1085 0x0001 ''UsbDgn'' ''Datalaster Interface for OBD automotive'',
     dev_entry 0x1087 0x9200 '''' '''',
     dev_entry 0x1089 0x5555 ''3059'' ''3249'',
     dev_entry 0x108A 0x0001 ''Model 617'' ''PCI-VME Bus Adapter'',
     dev_entry 0x108A 0x0003 ''Model 616'' ''PCI to VME Bridge'',
     dev_entry 0x108A 0x0010 ''Model 618'' ''VME Bridge'',
     dev_entry 0x108A 0x0040 ''dataBLIZZARD'' '''',
     dev_entry 0x108A 0x3000 ''Model 2106'' ''VME Bridge'',
     dev_entry 0x108D 0x0001 ''OC-3136/37'' ''Token-Ring 16/4 PCI Adapter'',
     dev_entry 0x108D 0x0002 ''OC-3139f'' ''Fastload 16/4 PCI/III Token Ring Adapter'',
     dev_entry 0x108D 0x0004 ''OC-3139/40'' ''RapidFire Token Ring 16/4 Adapter'',
     dev_entry 0x108D 0x0005 ''OC-3250'' ''GoCard Token Ring 16/4 Adapter'',
     dev_entry 0x108D 0x0006 ''OC-3530'' ''RapidFire Token Ring 100 Adapter'',
     dev_entry 0x108D 0x0007 ''OC-3141'' ''RapidFire Token Ring 16/4 Adapter'',
     dev_entry 0x108D 0x0008 ''OC-3540'' ''RapidFire HSTR 100/16/4 Adapter'',
     dev_entry 0x108D 0x000A ''OC-3150'' ''RapidFire Token-Ring 16/4 PCI Adapter'',
     dev_entry 0x108D 0x0011 ''OC-2805'' ''Ethernet Controller'',
     dev_entry 0x108D 0x0012 ''OC-2325'' ''Ethernet PCI/II 10/100 Controller'',
     dev_entry 0x108D 0x0013 ''OC-2183/85'' ''PCI/II Ethernet Controller'',
     dev_entry 0x108D 0x0014 ''OC-2326'' ''Ethernet PCI/II 10/100 Controller'',
     dev_entry 0x108D 0x0019 (''PCI/VEN_8086&DEV_1039&SUBSYS_02671014&REV_81'' @ [CHR 0x5C] @ ''4&252'') ''10/100 Ethernet Controller'',
     dev_entry 0x108D 0x0021 ''OC-6151/52'' ''155 Mbit ATM Adapter'',
     dev_entry 0x108D 0x0022 '''' ''ATM Adapter'',
     dev_entry 0x108E 0x0001 ''SPARC EBUS'' '''',
     dev_entry 0x108E 0x1000 ''PCIO'' ''PCI Input/Output Controller'',
     dev_entry 0x108E 0x1001 ''PCIO'' ''Happy Meal Ethernet'',
     dev_entry 0x108E 0x1100 ''RIO EBUS'' '''',
     dev_entry 0x108E 0x1101 ''RIO GEM'' '''',
     dev_entry 0x108E 0x1102 ''RIO 1394'' '''',
     dev_entry 0x108E 0x1103 ''RIO USB'' '''',
     dev_entry 0x108E 0x2BAD ''GEM'' ''Sun Gigabit Ethernet Card'',
     dev_entry 0x108E 0x5000 ''SME2411'' ''UltraSPARC-IIi Advanced PCI Bridge'',
     dev_entry 0x108E 0x5043 ''SunPCI'' ''Co-processor'',
     dev_entry 0x108E 0x7063 ''SunPCi'' ''PCI card with Intel or AMD processor'',
     dev_entry 0x108E 0x8000 ''STP2223BGA'' ''UPA to PCI Interface (UPA)'',
     dev_entry 0x108E 0x8001 ''Schizo'' ''PCI Bus Module'',
     dev_entry 0x108E 0xA000 ''UltraSPARC IIi'' ''Sabre'',
     dev_entry 0x108E 0xA001 ''UltraSPARC IIe'' ''Hummingbird'',
     dev_entry 0x108E 0xabba ''CE (Cassini Ethernet)'' ''10/100/1000 Ethernet adapter'',
     dev_entry 0x1091 0x0020 '''' ''3D Graphics Processor'',
     dev_entry 0x1091 0x0021 '''' ''3D graphics processor w/texturing'',
     dev_entry 0x1091 0x0040 '''' ''3D graphics frame buffer'',
     dev_entry 0x1091 0x0041 '''' ''3D graphics frame buffer'',
     dev_entry 0x1091 0x0060 '''' ''Proprietary bus Bridge'',
     dev_entry 0x1091 0x00E4 ''Powerstorm 4D50T'' '''',
     dev_entry 0x1091 0x0720 '''' ''Motion JPEG Codec'',
     dev_entry 0x1092 0x00A0 ''SpeedStar Pro SE'' ''GUI Accelerator'',
     dev_entry 0x1092 0x00A8 ''SpeedStar 64'' ''GUI Accelerator'',
     dev_entry 0x1092 0x0550 ''Viper V550'' '''',
     dev_entry 0x1092 0x08D4 ''Supra 2260'' ''WinModem'',
     dev_entry 0x1092 0x094C ''SupraExpress 56i Pro'' ''SupraExpress 56i Pro'',
     dev_entry 0x1092 0x09C8 ''SUP2761'' ''SupraExpress 56i Pro VCC'',
     dev_entry 0x1092 0x1002 ''R6793-12'' ''RS56-pci'',
     dev_entry 0x1092 0x1092 ''Viper V330'' ''2710a'',
     dev_entry 0x1092 0x6120 ''Maximum'' ''DVD'',
     dev_entry 0x1092 0x8810 ''Stealth SE'' ''GUI Accelerator'',
     dev_entry 0x1092 0x8811 ''Stealth 64/SE'' ''GUI Accelerator'',
     dev_entry 0x1092 0x8880 ''Stealth Video'' '''',
     dev_entry 0x1092 0x8881 ''Stealth Video'' ''GUI Accelerator'',
     dev_entry 0x1092 0x88B0 ''Stealth 64 Video'' ''GUI Accelerator'',
     dev_entry 0x1092 0x88B1 ''Stealth 64 Video'' ''GUI Accelerator'',
     dev_entry 0x1092 0x88C0 ''Stealth 64'' ''GUI Accelerator'',
     dev_entry 0x1092 0x88C1 ''Stealth 64'' ''GUI Accelerator'',
     dev_entry 0x1092 0x88D0 ''Stealth 64'' ''GUI Accelerator'',
     dev_entry 0x1092 0x88D1 ''Stealth 64'' ''GUI Accelerator'',
     dev_entry 0x1092 0x88F0 ''Stealth 64 Video'' ''GUI Accelerator'',
     dev_entry 0x1092 0x88F1 ''Stealth 64 Video'' ''GUI Accelerator'',
     dev_entry 0x1092 0x9876 '''' ''Supra Express 56i Pro CW #2'',
     dev_entry 0x1092 0x9999 ''Monster Sound'' ''Diamand Technology DT0398'',
     dev_entry 0x1093 0x0160 ''PCI-DIO-96'' ''data adquisition input and output'',
     dev_entry 0x1093 0x0161 ''PCI-1200'' ''Multifunction data acquisition board'',
     dev_entry 0x1093 0x0162 ''PCI-MIO-16XE-50'' ''24MIO  6-03-2'',
     dev_entry 0x1093 0x1150 ''PCI-DIO-32HS'' ''High Speed Digital I/O Board'',
     dev_entry 0x1093 0x1170 ''PCI-MIO-16XE-10'' '''',
     dev_entry 0x1093 0x1180 ''PCI-VEN-1180 '' ''base system device'',
     dev_entry 0x1093 0x1190 ''PCI-MIO-16E-4'' '''',
     dev_entry 0x1093 0x11B0 '''' '''',
     dev_entry 0x1093 0x11C0 '''' '''',
     dev_entry 0x1093 0x11D0 '''' '''',
     dev_entry 0x1093 0x11E0 '''' '''',
     dev_entry 0x1093 0x1270 ''PCI-6032E'' ''Multifunction Data Acquisition Card'',
     dev_entry 0x1093 0x12b0 ''PCI-6534'' ''High Speed DIO'',
     dev_entry 0x1093 0x1310 ''PCI-6602'' ''Data Acquisition Device'',
     dev_entry 0x1093 0x1320 '''' '''',
     dev_entry 0x1093 0x1330 ''PCI-6031E'' '''']"

definition PciDevTable_37 :: "PCI_DEVTABLE list" where
  "PciDevTable_37 = [
     dev_entry 0x1093 0x1340 ''PCI-6033E'' ''Multifunction Data Acquisition Card'',
     dev_entry 0x1093 0x1350 ''PCI-6071E'' '' NI PCI-6071E Multifunction I/O & NI-DAQ'',
     dev_entry 0x1093 0x1360 '''' '''',
     dev_entry 0x1093 0x17D0 ''PCI-6503'' '''',
     dev_entry 0x1093 0x18B0 '''' '''',
     dev_entry 0x1093 0x28b0 ''NI 6014'' ''I/O Terminal NI-DAQ (Legacy) and NI-DAQmx'',
     dev_entry 0x1093 0x2A60 ''PCI-6023E'' '''',
     dev_entry 0x1093 0x2A70 ''PCI-6024E'' ''Multifunction Data Acquisition Card'',
     dev_entry 0x1093 0x2A80 ''PCI-6025E'' ''Multifunction Data Acquisition Card'',
     dev_entry 0x1093 0x2B20 ''PCI-6527'' '''',
     dev_entry 0x1093 0x2C80 ''PCI-6035E'' '''',
     dev_entry 0x1093 0x2CA0 '''' ''PCI-6034E'',
     dev_entry 0x1093 0x702C ''NI PXI-7831R'' ''NI FPGA Modul'',
     dev_entry 0x1093 0x70af ''PCI-6221'' ''16-Bit, 250 kS/s, 16 Analog Inputs'',
     dev_entry 0x1093 0x70b8 ''NI PCI-6251'' ''Multifunction DAQ Device'',
     dev_entry 0x1093 0x70E3 ''1'' ''NI PXI-8431/8 (RS485/RS422)'',
     dev_entry 0x1093 0x70E4 ''70E41093'' ''NI PCI-8430/8 (RS-232) Interface'',
     dev_entry 0x1093 0x710e ''PCIe-GPIB'' ''GPIB Controller Interface Board'',
     dev_entry 0x1093 0x71BC ''PCI-6221 '' ''16-Bit, 250 kS/s, 16 Analog Inputs  (DSUB37)'',
     dev_entry 0x1093 0x7414 ''PCIe-GPIB+'' ''NI PCIe-GPIB+ GPIB with analyzer'',
     dev_entry 0x1093 0xB001 ''IMAQ-PCI-1408'' '''',
     dev_entry 0x1093 0xB011 ''IMAQ-PXI-1408'' '''',
     dev_entry 0x1093 0xB021 ''IMAQ-PCI-1424'' '''',
     dev_entry 0x1093 0xB031 ''IMAQ-PCI-1413'' '''',
     dev_entry 0x1093 0xB041 ''IMAQ-PCI-1407'' ''1pcs'',
     dev_entry 0x1093 0xB051 ''IMAQ-PXI-1407'' '''',
     dev_entry 0x1093 0xB061 ''IMAQ-PCI-1411'' '''',
     dev_entry 0x1093 0xB071 ''IMAQ-PCI-1422'' ''IMAQ-PCI-1422'',
     dev_entry 0x1093 0xB081 ''IMAQ-PXI-1422'' '''',
     dev_entry 0x1093 0xB091 ''IMAQ-PXI-1411'' ''bluethooth'',
     dev_entry 0x1093 0xC801 ''PCI-GPIB'' ''GPIB Controller Interface Board'',
     dev_entry 0x1093 0xC811 '''' '''',
     dev_entry 0x1093 0xC821 '''' '''',
     dev_entry 0x1093 0xC831 ''TNT5002'' ''PCI-GPIB'',
     dev_entry 0x1093 0xC840 '''' '''',
     dev_entry 0x1093 0xd130 ''PCI-232/2'' ''2-port RS-232 Serial Interface Board'',
     dev_entry 0x1095 0x0240 ''SIL3112'' ''SATA/Raid controller(2XSATA150)'',
     dev_entry 0x1095 0x0242 ''SIL3132'' ''SATAII/Raid controller'',
     dev_entry 0x1095 0x0244 ''SIL3132'' ''eSATA/Raid controller'',
     dev_entry 0x1095 0x0640 ''PCI0640A/B'' ''EIDE Ctrlr'',
     dev_entry 0x1095 0x0641 ''pci0640'' ''pci eide adapter with raid 1'',
     dev_entry 0x1095 0x0642 ''PCI0642'' ''IDE Cntrlr w/RAID 1'',
     dev_entry 0x1095 0x0643 ''PCI0643'' ''PCI EIDE controller'',
     dev_entry 0x1095 0x0646 ''CMD646'' ''EIDE/UDMA Controller'',
     dev_entry 0x1095 0x0647 ''PCI0647'' ''9738'',
     dev_entry 0x1095 0x0648 ''PCI-648'' ''Bus Master Ultra DMA PCI-IDE/ATA Chip'',
     dev_entry 0x1095 0x0649 ''PCI-649'' ''PATA100 ATAPI/RAID Controller'',
     dev_entry 0x1095 0x0650 ''PBC0650A'' ''Fast SCSI-II Ctrlr'',
     dev_entry 0x1095 0x0670 ''USB0670'' ''PCI-USB'',
     dev_entry 0x1095 0x0673 ''USB0673'' ''PCI-USB ASIC'',
     dev_entry 0x1095 0x0680 ''SiI 0680/680A'' ''PATA133 ATAPI/RAID Controller'',
     dev_entry 0x1095 0x1392 ''1390/1392'' ''High Definition Audio HDMI output'',
     dev_entry 0x1095 0x2455 ''SI3124'' ''SATALink 4-Port PCI-X Host Controller'',
     dev_entry 0x1095 0x3112 ''SIL3112'' ''SATA/Raid controller(2XSATA150)'',
     dev_entry 0x1095 0x3114 ''Sil 3114'' ''SATALink/SATARaid Controller'',
     dev_entry 0x1095 0x3124 ''SiI 3124'' ''PCI-X to Serial ATA Controller'',
     dev_entry 0x1095 0x3132 ''SiI 3132'' ''RR252x SATA Controller'',
     dev_entry 0x1095 0x3512 ''Sil 3512'' ''SATALink/SATARaid Controllerhttp://www.pcidatabase.com/update_device.php?__ec_i=ec.1378825283.616786'',
     dev_entry 0x1095 0x3531 ''3531'' ''SiI 3531 SATA Controller'',
     dev_entry 0x1095 0x9876 ''0x9876'' ''0x9876'',
     dev_entry 0x1096 0x1106 ''0x3059'' ''Realtek AC97 Audio for VIA (R) Audio Controller'',
     dev_entry 0x1096 0x3059 ''VT8233'' ''South Bridge'',
     dev_entry 0x1097 0x0038 '''' ''EIDE Controller (single FIFO)'',
     dev_entry 0x1098 0x0001 ''QD8500'' ''EIDE Controller'',
     dev_entry 0x1098 0x0002 ''QD8580'' ''EIDE Controller'',
     dev_entry 0x109A 0x8280 ''0x036en'' ''4 channel video digitizer cardm'',
     dev_entry 0x109E 0x0350 ''036E'' ''rb8701.1'',
     dev_entry 0x109E 0x0351 ''Bt848'' ''BrookTree Bt848 Video Capture Device - Audio Section  PCI'',
     dev_entry 0x109E 0x0369 ''Bt878fusion 878a'' ''Video Capture'',
     dev_entry 0x109E 0x036C ''th&#305;k'' '''',
     dev_entry 0x109E 0x036E ''25878-13'' ''AVerMediaAverTV WDM AudioCapture (878)'',
     dev_entry 0x109E 0x036F ''Bt878'' ''Video Capture'',
     dev_entry 0x109E 0x0370 ''Bt880B'' ''Video Capture (10 bit High qualtiy cap)'',
     dev_entry 0x109E 0x0878 ''00000000&REV_11'' ''AVerMediaAverTV WDM AudioCapture (878)'',
     dev_entry 0x109E 0x0879 ''Bt879khf'' ''Video Capture (Audio Section)'',
     dev_entry 0x109E 0x0880 ''Bt880'' ''Video Capture (Audio Section)'',
     dev_entry 0x109E 0x109E ''Brooktree Corp BT848 SVR-2000 V1.02m'' ''Multimedia Video Controllerm'',
     dev_entry 0x109E 0x2115 ''BtV 2115'' ''BtV Mediastream Controller 9x'',
     dev_entry 0x109E 0x2125 ''109'' ''BtV Mediastream Controller'',
     dev_entry 0x109E 0x2164 ''BtV 2164'' ''Display Adapter'',
     dev_entry 0x109E 0x2165 ''BtV 2165'' ''MediaStream Controller'',
     dev_entry 0x109E 0x36e ''878a'' ''25878-13'',
     dev_entry 0x109E 0x8230 ''BtV 8230'' ''ATM Segment/Reassembly Controller (SRC)'',
     dev_entry 0x109E 0x8472 ''Bt8471/72'' ''32/64-channel HDLC Controllers'',
     dev_entry 0x109E 0x8474 ''Bt8474'' ''128-channel HDLC Controller'',
     dev_entry 0x109F 0x036F ''Bt878'' ''Video Capturee'',
     dev_entry 0x10A4 0x5969 '''' '''',
     dev_entry 0x9902 0x0001 ''SG2010'' ''PCI-to-PCI Bridge'',
     dev_entry 0x9902 0x0002 ''SG2010'' ''PCI to high speed serial bridge'',
     dev_entry 0x9902 0x0003 ''SG1010'' ''6 port serial switch /PCI-to-PCI bridge'',
     dev_entry 0x10A8 0x0000 ''0103'' ''ethernet controller'',
     dev_entry 0x10A9 0x0004 ''O2 MACE'' '''',
     dev_entry 0x10A9 0x0005 ''RAD Audio'' '''',
     dev_entry 0x10A9 0x0006 ''HPCEX'' '''',
     dev_entry 0x10A9 0x0007 ''RPCEX'' '''',
     dev_entry 0x10A9 0x0008 ''DiVO VIP'' '''',
     dev_entry 0x10A9 0x0009 ''Alteon'' ''Gigabit Ethernet'',
     dev_entry 0x10A9 0x0010 ''AMP'' ''Video I/O'',
     dev_entry 0x10A9 0x0011 ''GRIP'' '''',
     dev_entry 0x10A9 0x0012 ''SGH PSHAC GSN'' '''',
     dev_entry 0x10A9 0x1001 ''Magic Carpet'' '''',
     dev_entry 0x10A9 0x1002 ''Lithium'' '''',
     dev_entry 0x10A9 0x1003 ''Dual JPEG 1'' '''',
     dev_entry 0x10A9 0x1004 ''Dual JPEG 2'' '''',
     dev_entry 0x10A9 0x1005 ''Dual JPEG 3'' '''',
     dev_entry 0x10A9 0x1006 ''Dual JPEG 4'' '''',
     dev_entry 0x10A9 0x1007 ''Dual JPEG 5'' '''',
     dev_entry 0x10A9 0x1008 ''Cesium'' '''',
     dev_entry 0x10A9 0x2001 '''' ''Fibre Channel'',
     dev_entry 0x10A9 0x2002 ''ASDE'' '''',
     dev_entry 0x10A9 0x8001 ''O2 1394'' '''',
     dev_entry 0x10A9 0x8002 ''G-net NT'' '''',
     dev_entry 0x10AB 0x1005 (''USB'' @ [CHR 0x5C] @ ''VID_0000@PID_0000'' @ [CHR 0x5C] @ ''6@390392D@0@1'') ''USB Pendrive'',
     dev_entry 0x10AB 0x1007 (''USB'' @ [CHR 0x5C] @ ''VID_0000@PID_0000'' @ [CHR 0x5C] @ ''6@390392D@0@1'') ''usb pendrive'',
     dev_entry 0x10AB 0x8086 ''2200'' ''PCI Simple Communications Controller '',
     dev_entry 0x10AD 0x0001 ''W83769F'' ''EIDE Ctrlr'',
     dev_entry 0x10AD 0x0103 ''sl82c103'' ''PCI-ide mode 4.5 Cntrlr'',
     dev_entry 0x10AD 0x0105 ''W83789F'' ''Sonata bus master PCI-IDE controller'',
     dev_entry 0x10AD 0x0565 ''W83C553F'' ''PCI/ISA bridge'',
     dev_entry 0xA0F1 0x9876 ''0x9876'' ''0x9876'',
     dev_entry 0x10B5 0x0324 '''' '''',
     dev_entry 0x10B5 0x0480 ''IOP 480'' ''Integrated PowerPC I/O Processor'',
     dev_entry 0x10B5 0x0960 ''PCI 9080RDK-960'' ''PCI Reference Design Kit for PCI 9080'',
     dev_entry 0x10B5 0x1030 ''Gazel R685'' ''ISDN card'',
     dev_entry 0x10B5 0x1054 ''Gazel R697'' ''dual channel ISDN card'',
     dev_entry 0x10B5 0x1078 ''PCI 9050'' ''Vision Systems VScom PCI-210'',
     dev_entry 0x10B5 0x1103 ''PCI 9050'' ''Vision Systems VScom PCI-200'',
     dev_entry 0x10B5 0x1146 ''PCI 9050'' ''Vision Systems VScom PCI-010S'',
     dev_entry 0x10B5 0x1147 ''PCI 9050'' ''Vision Systems VScom PCI-020S'',
     dev_entry 0x10B5 0x1151 ''Gazel R753'' ''ISDN card'',
     dev_entry 0x10B5 0x1152 ''Gazel R753'' ''ISDN card'',
     dev_entry 0x10B5 0x2724 '''' ''Thales PCSM Security Card'',
     dev_entry 0x10B5 0x2748 ''9054'' ''TPCX Transientrecorder Card'',
     dev_entry 0x10B5 0x3001 ''plx9030'' ''gpscard'',
     dev_entry 0x10B5 0x5406 ''PCI RDK9054-LITE'' ''PCI Reference Design Kit for PLX PCI 9054'',
     dev_entry 0x10B5 0x5601 ''PCI 9056'' ''32-bit; 66MHz PCI Bus Master I/O Accelerator, 17 x 17mm FPBGA'',
     dev_entry 0x10B5 0x6520 ''PCI6520 G'' ''PCI-X to PCI-X Bridge'']"

definition PciDevTable_38 :: "PCI_DEVTABLE list" where
  "PciDevTable_38 = [
     dev_entry 0x10B5 0x6ACC ''PCI 9030'' ''General Mechatronics 6 Axis Motion Control Card for EMC2'',
     dev_entry 0x10B5 0x8111 ''PEX 8311'' ''1 Lane PCI Express to PCI bridge (PEX8111); 1 Lane PCI Express to Generic Local Bus bridge (PEX8311)'',
     dev_entry 0x10B5 0x8112 ''PEX8112'' ''1 Lane PCI Express to PCI bridge'',
     dev_entry 0x10B5 0x8508 ''PEX8508'' ''8 Lane, 5 Port PCI Express Switch'',
     dev_entry 0x10B5 0x8509 ''PEX8509'' ''8-lane PCI-Express Switch'',
     dev_entry 0x10B5 0x8516 ''PEX 8516'' ''Versatile PCI Express Switch'',
     dev_entry 0x10B5 0x8518 ''PEX8518-AB25BI'' ''PLX PCI-e switch'',
     dev_entry 0x10B5 0x8532 ''PEX 8532'' ''Versatile PCI Express Switch'',
     dev_entry 0x10B5 0x8548 ''8548'' ''48-lane PCIe switch'',
     dev_entry 0x10B5 0x8609 ''PEX 8609'' ''8 Lane, 8 Port PCI Express Switch'',
     dev_entry 0x10B5 0x8664 ''PEX 8664'' ''64-Lane, 16-Port PCI Express Gen 2 (5.0 GT/s) Switch, 35 x 35mm FCBGA'',
     dev_entry 0x10B5 0x9030 ''PCI 9030'' ''PCI SMARTarget I/O Accelerator'',
     dev_entry 0x10B5 0x9036 ''PCI9036'' ''Interface chip - value 1k'',
     dev_entry 0x10B5 0x9050 ''PCI 9050'' ''Target PCI Interface Chip - value 1k'',
     dev_entry 0x10B5 0x9052 ''PCI 9052'' ''PCI 9052 Target PLX PCI Interface Chip'',
     dev_entry 0x10B5 0x9054 ''PCI 9054'' ''PCI I/O Accelerator'',
     dev_entry 0x10B5 0x9056 ''PCI9056'' ''32-bit, 66 MHz PCI Bus-Mastering I/O Accelerator for PowerQUICC and Generic 32-bit, 66 MHz Local Bus'',
     dev_entry 0x10B5 0x9060 ''PCI9060'' ''PCI Bus Master Interface Chip'',
     dev_entry 0x10B5 0x906D ''PCI 9060SD'' ''PCI Bus Master Interface Chip'',
     dev_entry 0x10B5 0x906E ''PCI 9060ES'' ''PCI Bus Master Interface Chip'',
     dev_entry 0x10B5 0x9080 ''PCI 9080'' ''High performance PCI to Local Bus chip'',
     dev_entry 0x10B6 0x0001 ''Smart 16/4'' ''Ringnode (PCI1b)'',
     dev_entry 0x10B6 0x0002 ''Smart 16/4'' ''Ringnode (PCIBM2/CardBus)'',
     dev_entry 0x10B6 0x0003 ''Smart 16/4'' ''Ringnode'',
     dev_entry 0x10B6 0x0004 '''' ''Smart 16/4 Ringnode Mk1 (PCIBM1)'',
     dev_entry 0x10B6 0x0006 '''' ''16/4 CardBus Adapter (Eric 2)'',
     dev_entry 0x10B6 0x0007 ''Presto PCI'' '''',
     dev_entry 0x10B6 0x0009 '''' ''Smart 100/16/4 PCi-HS Ringnode'',
     dev_entry 0x10B6 0x000A '''' ''Smart 100/16/4 PCI Ringnode'',
     dev_entry 0x10B6 0x000B '''' ''16/4 CardBus  Adapter Mk2'',
     dev_entry 0x10B6 0x1000 ''Horizon'' ''ATM adapter'',
     dev_entry 0x10B6 0x1001 ''Ambassador'' ''ATM adapter'',
     dev_entry 0x10B6 0x1002 ''Ambassador'' ''ATM Adapter'',
     dev_entry 0x10B7 0x0001 ''3C985'' ''1000BaseSX Gigabit Etherlink'',
     dev_entry 0x10B7 0x0013 ''3com p/n: 3CRDAG675'' ''3Com11a/b/g Wireless PCI Adapter '',
     dev_entry 0x10B7 0x1000 ''3C905CX-TXNM'' ''3COM 3C905CX-TXNM with 40-0664-003 ASIC'',
     dev_entry 0x10B7 0x1006 ''14e4:1645'' ''Broadcom Corporation NetXtreme BCM5701 Gigabit Ethernet'',
     dev_entry 0x10B7 0x1007 ''3C556'' ''V.90 Mini-PCI Modem'',
     dev_entry 0x10B7 0x1700 ''3C940'' ''Gigabit Ethernet PCI CODEC'',
     dev_entry 0x10B7 0x1F1F ''3CRWE777A'' ''AirConnect Wireless LAN PCI Card'',
     dev_entry 0x10B7 0x3390 ''3C339'' ''Token Link Velocity'',
     dev_entry 0x10B7 0x3590 ''3C359'' ''TokenLink Velocity XL Adapter'',
     dev_entry 0x10B7 0x4500 ''3C450'' ''Cyclone'',
     dev_entry 0x10B7 0x5055 ''3C555'' ''Laptop Hurricane'',
     dev_entry 0x10B7 0x5057 ''3C575'' ''Megahertz 10/100 LAN CardBus PC Card'',
     dev_entry 0x10B7 0x5157 ''3C575B'' ''Megahertz 10/100 LAN CardBus PC Card'',
     dev_entry 0x10B7 0x5257 ''3CCFE575CT'' ''Cyclone Fast Ethernet CardBus PC Card'',
     dev_entry 0x10B7 0x5900 ''3C590'' ''Ethernet III Bus Fast PCI'',
     dev_entry 0x10B7 0x5920 ''3C592'' ''PCI/EISA 10Mbps Demon/Vortex'',
     dev_entry 0x10B7 0x5950 ''3COM 3C595-TX'' ''100MB PCI Ethernet Adapter'',
     dev_entry 0x10B7 0x5951 ''3C595'' ''Fast EtherLink PCI T4'',
     dev_entry 0x10B7 0x5952 ''3C595'' ''Fast EtherLink PCI MII'',
     dev_entry 0x10B7 0x5970 ''3C597'' ''PCI/EISA Fast Demon/Vortex'',
     dev_entry 0x10B7 0x5B57 ''3C595'' ''Megahertz 10/100 LAN CardBus'',
     dev_entry 0x10B7 0x6055 ''3C556'' ''10/100 Fast Ethernet MiniPCI Adapter'',
     dev_entry 0x10B7 0x6056 ''3CN3AC1556B'' ''MiniPCI 10/100 Ethernet+Modem56k (see devid:1007)'',
     dev_entry 0x10B7 0x6560 ''3CCFE656'' ''Cyclone CardBus PC Card'',
     dev_entry 0x10B7 0x6561 ''FEM656'' ''10/100 LAN+56K Modem CardBus PC Card'',
     dev_entry 0x10B7 0x6562 ''3CCFEM656'' ''Cyclone CardBus PC Card'',
     dev_entry 0x10B7 0x6563 ''FEM656B'' ''10/100 LAN+56K Modem CardBus PC Card'',
     dev_entry 0x10B7 0x6564 ''3CCFEM656'' ''Cyclone CardBus PC Card'',
     dev_entry 0x10B7 0x6565 ''3CCFEM656C'' ''Global 10/100 Fast Ethernet+56K Modem'',
     dev_entry 0x10B7 0x7646 ''3CSOHO100B-TX'' ''3com'',
     dev_entry 0x10B7 0x7770 ''???'' ''AirConnect Wireless PCI'',
     dev_entry 0x10B7 0x8811 '''' ''Token Ring'',
     dev_entry 0x10B7 0x9000 ''3C900-TPO'' ''Fast Etherlink PCI TPO NIC'',
     dev_entry 0x10B7 0x9001 ''3C900-COMBO'' ''Fast Etherlink XL PCI Combo NIC'',
     dev_entry 0x10B7 0x9004 ''3C900-TPO'' ''EtherLink XL TPO 10Mb'',
     dev_entry 0x10B7 0x9005 ''3C900B-COMBO'' ''Fast Etherlink 10Mbps Combo NIC'',
     dev_entry 0x10B7 0x9006 ''3C900B-TPC'' ''EtherLink XL TPC'',
     dev_entry 0x10B7 0x900A ''3C900B-FL'' ''EtherLink PCI Fiber NIC'',
     dev_entry 0x10B7 0x9041 ''3C905-T4'' ''Fast Etherlink XL 10/100'',
     dev_entry 0x10B7 0x9050 ''3C905B - Combo'' ''Fast Etherlink XL PCI 10/100'',
     dev_entry 0x10B7 0x9051 ''3C905-T4'' ''Fast Etherlink XL 10/100'',
     dev_entry 0x10B7 0x9055 ''APCI/pnpb006'' ''Fast Etherlink 10/100 PCI TX NIC'',
     dev_entry 0x10B7 0x9056 ''3C905B-T4'' ''Fast EtherLink XL 10/100'',
     dev_entry 0x10B7 0x9058 ''3C905B-COMBO'' ''Deluxe EtherLink 10/100 PCI Combo NIC'',
     dev_entry 0x10B7 0x905A ''3C905B-FX'' ''Fast EtherLink 100 Fiber NIC'',
     dev_entry 0x10B7 0x9200 ''3C905 CX-TXM'' ''3Com 10/100 Managed NIC 3C905CX-TX-M'',
     dev_entry 0x10B7 0x9201 ''3C920B-EMB'' ''Integrated Fast Ethernet Controller'',
     dev_entry 0x10B7 0x9202 ''3C920B-EMB'' ''3C920B-EMB 3Com + Realtek 8201L'',
     dev_entry 0x10B7 0x9210 ''3C920B-EMB-WNM'' ''Integrated Fast Ethernet Controller'',
     dev_entry 0x10B7 0x9300 ''3csoho100b-tx'' ''3ComSOHO100B-TX'',
     dev_entry 0x10B7 0x9800 ''3C980-TX'' ''Fast EtherLink XL Server Adapter2'',
     dev_entry 0x10B7 0x9805 ''3C980-TX'' ''Python-T 10/100baseTX NIC'',
     dev_entry 0x10B7 0x9876 ''3C920B-EMB'' ''3C920B-EMB 3Com + Realtek 8201L'',
     dev_entry 0x10B7 0x9902 ''3CR990-TX-95'' ''EtherLink 10/100 PCI with 3XP Processor'',
     dev_entry 0x10B7 0x9903 ''3CR990-TX-97'' ''EtherLink 10/100 PCI with 3XP Processor'',
     dev_entry 0x10B7 0x9905 ''3C990B-FX'' ''100FX PCI Server NIC w/3XP'',
     dev_entry 0x10B7 0x9908 ''3CR990SVR95'' ''EtherLink 10/100 Server PCI with 3XP'',
     dev_entry 0x10B7 0x9909 ''3CR990SVR97'' ''EtherLink 10/100 Server PCI with 3XP'',
     dev_entry 0x10B7 0xD004 ''3C900B-TPO'' ''EtherLink XL PCI'',
     dev_entry 0x10B8 0x0005 ''LAN83C170QF/171'' ''EPIC/XF 10/100 Mbps Fast Ethernet Ctrlr'',
     dev_entry 0x10B8 0x0006 ''LAN83C175'' ''EPIC/C Ethernet CardBus Integrated Ctrlr'',
     dev_entry 0x10B8 0x1000 ''37C665'' ''FDC'',
     dev_entry 0x10B8 0x1001 ''37C922'' ''FDC'',
     dev_entry 0x10B8 0xA011 ''83C170QF'' ''Fast ethernet controller'',
     dev_entry 0x10B8 0xB106 ''SMC34C90'' ''CardBus Controller'',
     dev_entry 0x10B9 0x0101 ''CMI8338/C3DX'' ''PCI Audio Device (OEM)'',
     dev_entry 0x10B9 0x0102 ''CMI8338/C3DX'' ''PCI Audio Device (OEM)'',
     dev_entry 0x10B9 0x0111 ''CMI8738/C3DX'' ''C-Media Audio Device (OEM)'',
     dev_entry 0x10B9 0x0780 ''???'' ''Multi-IO Card'',
     dev_entry 0x10B9 0x0782 ''???'' ''Multi-IO Card'',
     dev_entry 0x10B9 0x10b9 ''ALI M5273 A1'' ''0402t505 CK46828100B'',
     dev_entry 0x10B9 0x10CE ''5288'' ''cpi'',
     dev_entry 0x10B9 0x1435 ''M1435'' ''VL Bridge'',
     dev_entry 0x10B9 0x1445 ''M1445'' ''CPU to PCI & PCI to ISA Bridge w/EIDE'',
     dev_entry 0x10B9 0x1449 ''M1449'' ''ISA Bridge'',
     dev_entry 0x10B9 0x1451 ''M1451'' ''Pentium CPU to PCI Bridge'',
     dev_entry 0x10B9 0x1461 ''M1461'' ''P54C Chipset'',
     dev_entry 0x10B9 0x1489 ''M1489'' ''486 PCI Chipset'',
     dev_entry 0x10B9 0x1511 ''M1575'' ''Aladdin 2 Host Bridge'',
     dev_entry 0x10B9 0x1513 ''M1513'' ''Aladdin 2 South Bridge'',
     dev_entry 0x10B9 0x1521 ''M1521'' ''Bios'',
     dev_entry 0x10B9 0x1523 ''M1523'' ''ISA Bridge'',
     dev_entry 0x10B9 0x1533 ''M1535+'' ''PCI South Bridge'',
     dev_entry 0x10B9 0x1535 ''M1535x'' ''ISA Bridge'',
     dev_entry 0x10B9 0x1541 ''M1541'' ''Aladdin V AGPset Host Bridge'',
     dev_entry 0x10B9 0x1543 ''M1543 a1'' ''Aladdin V chipset South Bridge'',
     dev_entry 0x10B9 0x1561 ''M1561'' ''North Bridge'',
     dev_entry 0x10B9 0x1563 ''M1563'' ''South Bridge with Hypertransport Support'',
     dev_entry 0x10B9 0x1632 ''M1632'' ''North Bridge'',
     dev_entry 0x10B9 0x1641 ''M1641'' ''CPU to PCI Bridge'',
     dev_entry 0x10B9 0x1644 ''M1644'' ''AGP System Controller'',
     dev_entry 0x10B9 0x1646 ''M1646'' ''AGP System Controller'',
     dev_entry 0x10B9 0x1647 ''M1647'' ''CPU to PCI Bridge'',
     dev_entry 0x10B9 0x1651 ''M1651'' ''CPU to PCI Bridge'',
     dev_entry 0x10B9 0x1661 ''M1661'' ''AGP System Controller'',
     dev_entry 0x10B9 0x1667 ''M1667'' ''AGP System Controller'',
     dev_entry 0x10B9 0x1671 ''M1671'' ''Super P4 Nouth Bridge'',
     dev_entry 0x10B9 0x1672 ''M1672'' ''AGP System Controller'',
     dev_entry 0x10B9 0x1681 ''M1681'' ''P4 Nouth Bridge with HyperTransport'',
     dev_entry 0x10B9 0x1687 ''M1687'' ''K8 North Bridge with HyperTransport'',
     dev_entry 0x10B9 0x1849 ''52871849'' (''02'' @ [CHR 0x5C] @ ''3&267A616A''),
     dev_entry 0x10B9 0x3141 ''M3141'' ''GUI Accelerator'',
     dev_entry 0x10B9 0x3143 ''M3143'' ''GUI Accelerator'',
     dev_entry 0x10B9 0x3145 ''M3145'' ''GUI Accelerator'',
     dev_entry 0x10B9 0x3147 ''M3147'' ''GUI Accelerator'',
     dev_entry 0x10B9 0x3149 ''M3149'' ''GUI Accelerator'',
     dev_entry 0x10B9 0x3151 ''M3151'' ''GUI Accelerator'']"

definition PciDevTable_39 :: "PCI_DEVTABLE list" where
  "PciDevTable_39 = [
     dev_entry 0x10B9 0x3307 ''M3307'' ''MPEG-1 Decoder'',
     dev_entry 0x10B9 0x3309 ''M3309'' ''MPEG Decoder'',
     dev_entry 0x10B9 0x3432423 ''23128091'' ''131312'',
     dev_entry 0x10B9 0x5212 ''M4803'' '''',
     dev_entry 0x10B9 0x5215 ''MS4803'' ''EIDE Ctrlr'',
     dev_entry 0x10B9 0x5217 ''m5217h'' ''I/O (?)'',
     dev_entry 0x10B9 0x5219 (''PCI'' @ [CHR 0x5C] @ ''VEN_10B9&DEV_5451&CC_040100'') ''Ali M5219 PCI BUS MASTER IDE Controller'',
     dev_entry 0x10B9 0x5225 ''M5225'' ''IDE Controller'',
     dev_entry 0x10B9 0x5228 ''M1563'' ''M5228 PATA/RAID Controller'',
     dev_entry 0x10B9 0x5229 ''M5229 Southbridge'' ''EIDE Controller'',
     dev_entry 0x10B9 0x5235 ''M1621'' ''ALI M6503c'',
     dev_entry 0x10B9 0x5236 ''M5273'' ''EHCI USB 2.0'',
     dev_entry 0x10B9 0x5237 ''M5273 A1 for windows 2000'' ''OpenHCI 1.1 USB to  2.0'',
     dev_entry 0x10B9 0x5239 ''523910A9'' ''USB EHCI2.0 Controller'',
     dev_entry 0x10B9 0x5249 ''M5249'' ''HyperTransport to PCI Bridge'',
     dev_entry 0x10B9 0x5251 ''M5251'' ''IEEE P1394 OpenHCI 1.0 Controller'',
     dev_entry 0x10B9 0x5253 ''M5253'' ''IEEE P1394 OpenHCI 1.0 Controller'',
     dev_entry 0x10B9 0x5261 ''M5261'' ''Ethernet Controller'',
     dev_entry 0x10B9 0x5263 ''Albatron K8ULTRA-U Pro'' ''ULi PCI Fast Ethernet Controller'',
     dev_entry 0x10B9 0x528 ''52871849'' (''02'' @ [CHR 0x5C] @ ''3&267A616A''),
     dev_entry 0x10B9 0x5281 ''M1565/1566'' ''ALI M5281/5283  SATA/RAID Controller'',
     dev_entry 0x10B9 0x5286 ''52291849'' ''REV_C7'',
     dev_entry 0x10B9 0x5287 ''ULI M1573'' ''SATA/Raid controller'',
     dev_entry 0x10B9 0x5288 ''ULI M1575/M1697 '' ''M5288 SATA/Raid controller (Asrock 939SLI32-eSata2)'',
     dev_entry 0x10B9 0x5289 ''ULI M1567/M1689 '' ''M5289 SATA/Raid controller'',
     dev_entry 0x10B9 0x5450 ''65525'' ''Agere Systems AC97 Modem'',
     dev_entry 0x10B9 0x5451 ''M5451'' ''Ali Audio Accelerator'',
     dev_entry 0x10B9 0x5455 ''M1563M Southbridge'' (''AC'' @ [CHR 0x27] @ ''97 Audio Controller''),
     dev_entry 0x10B9 0x5457 ''M1563M'' ''AC97 Modem controller'',
     dev_entry 0x10B9 0x5459 ''MDV92XP NetoDragon'' ''PCI Soft Modem V92 NetoDragon'',
     dev_entry 0x10B9 0x5461 ''M5461'' ''High Definition Audio Controller'',
     dev_entry 0x10B9 0x5471 ''M1563M Southbridge'' ''Memory Stick Host'',
     dev_entry 0x10B9 0x5473 ''M1563M Southbridge'' ''MMC/SD controller'',
     dev_entry 0x10B9 0x7101 ''M7101'' ''Power Management Controller'',
     dev_entry 0x10B9 0x7471 ''M1563M Southbridge'' ''Memory Stick Host'',
     dev_entry 0x10B9 0x9876 ''mdv92xp'' ''xhcth700000b'',
     dev_entry 0xA259 0x3038 ''VT6212L'' (''USB'' @ [CHR 0x5C] @ ''VID_03F0&PID_0205''),
     dev_entry 0x10BA 0x0304 '''' ''GUI Accelerator'',
     dev_entry 0x10BD 0x0803 '' MYSON Technology Inc SURECOM EP-320X-S 100/10M Et'' ''Ethernet PCI Adapter'',
     dev_entry 0x10BD 0x0E34 ''NE34'' ''Ethernet Adapter (NE2000 PCI clone)'',
     dev_entry 0x10BD 0x5240 ''0055'' ''IDE Cntrlr'',
     dev_entry 0x10BD 0x5241 ''8086'' ''PCMCIA Bridge'',
     dev_entry 0x10BD 0x5242 '''' ''General Purpose Cntrlr'',
     dev_entry 0x10BD 0x5243 ''00000000'' ''Bus Cntrlr'',
     dev_entry 0x10BD 0x5244 '''' ''FCD Cntrlr'',
     dev_entry 0x10BD 0x8136 ''Unkown'' ''Unkown'',
     dev_entry 0x10BD 0x8139 ''surecom EP-320X-R adapter with realtek 8139c chip'' ''realtek 8139c'',
     dev_entry 0x10C3 0x8920 ''5335fn800829'' ''MCP67 High Definition Audio '',
     dev_entry 0x10C3 0x8925 '''' '''',
     dev_entry 0xA727 0x0013 ''3com p/n: 3CRDAG675'' ''3com 11 a/b/g wireless PCI Adapter'',
     dev_entry 0x10C4 0x8363 ''s/n124102160'' '''',
     dev_entry 0x10C4 0xEA60 ''CP210x'' ''Silicon Labs CP210x USB to UART Bridge'',
     dev_entry 0x10C8 0x4 ''831610F7'' ''MagicGraph 128XD'',
     dev_entry 0x10C8 0x0000 ''NM2097'' ''Graphics Cntrlr'',
     dev_entry 0x10C8 0x0003 ''NM2093'' ''MagicGraph 128ZV Video Controller'',
     dev_entry 0x10C8 0x0004 ''NM2160'' ''MagicGraph 128XD'',
     dev_entry 0x10C8 0x0005 ''NM2200'' ''MagicMedia 256AV'',
     dev_entry 0x10C8 0x0006 ''NM2360'' ''MagicMedia 256ZX/256M6D'',
     dev_entry 0x10C8 0x0016 ''NM2380'' ''MagicMedia 256XL+'',
     dev_entry 0x10C8 0x0025 ''NM2230'' ''MagicMedia 256AV+'',
     dev_entry 0x10C8 0x0083 ''NM2097'' ''Graphic Controller NeoMagic MagicGraph128ZV+'',
     dev_entry 0x10C8 0x8005 ''NM2200'' ''MagicMedia 256AV Audio Device'',
     dev_entry 0x10C8 0x8006 ''NM2360'' ''MagicMedia 256ZX Audio Device'',
     dev_entry 0x10C8 0x8016 ''NM2380'' ''MagicMedia 256XL+ Audio Device'',
     dev_entry 0x10CA 0x9876 (''ROOT'' @ [CHR 0x5C] @ ''HAJOCAP'' @ [CHR 0x5C] @ ''0001'') (''PCI'' @ [CHR 0x5C] @ ''VEN_8086&DEV_293E&SUBSYS_26341019&REV_02'' @ [CHR 0x5C] @ ''3&11583659&0&D8''),
     dev_entry 0x10CD 0x1100 ''ASC1100'' ''PCI SCSI Host Adapter'',
     dev_entry 0x10CD 0x1200 ''ASC1200'' ''Fast SCSI-II'',
     dev_entry 0x10CD 0x1300 ''ABP-3925'' ''ABP-3925'',
     dev_entry 0x10CD 0x2300 ''F914C536'' ''PCI Ultra Wide SCSI Host Adapter'',
     dev_entry 0x10CD 0x2500 ''ASC38C0800/1600'' ''PCI Ultra 80/160 SCSI Controllers'',
     dev_entry 0x10CD 0x4000 ''ASC30C0400'' ''IEEE-1394 OHCI PCI Controller'',
     dev_entry 0x10CF 0x10C5 ''FMV-103'' ''Serial Parallel Card'',
     dev_entry 0x10CF 0x2001 ''MB86605'' ''PCI SCSI Host Adapter (Fast Wide SCSI-2)'',
     dev_entry 0x10CF 0x2002 ''MB86606'' ''Fast Wide SCSI Controller'',
     dev_entry 0x10CF 0x2005 ''MB86974'' ''10/100 Fast Ethernet Adapter'',
     dev_entry 0x10CF 0x200C ''MB86974'' ''IEEE1394 OpenHCI Controller'',
     dev_entry 0x10CF 0x2010 '''' ''OHCI FireWire Controller'',
     dev_entry 0x10CF 0x2011 ''12711718'' ''MPEG2 R-Engine (MPEG2 Hardware Encoder)'',
     dev_entry 0x10CF 0x2019 ''MB86295'' ''Coral-P Graphics Chip'',
     dev_entry 0x10CF 0x201E ''MB86296'' ''Coral-PA Graphics Chip'',
     dev_entry 0x10CF 0x202A ''u/k'' ''u/k'',
     dev_entry 0x10CF 0x202B ''mb86297'' ''Carmine Graphisc adapter'',
     dev_entry 0x10D6 0xFF51 ''0x0100'' ''ATJ2091N'',
     dev_entry 0x10D6 0xff66 ''0x0100'' ''ATJ2091N'',
     dev_entry 0x1658 0x0704 ''905410B5'' ''DIG 704 PCI - Interface with Millisecond Timer and Interrupts'',
     dev_entry 0x10D9 0x0066 ''MX86101P'' ''sdas'',
     dev_entry 0x10D9 0x0512 ''MX98713'' ''Fast Ethernet Adapter'',
     dev_entry 0x10D9 0x0531 ''MX98715/25'' ''Single Chip Fast Ethernet NIC Controller'',
     dev_entry 0x10D9 0x0532 ''MX98723/727'' ''PCI/CardBus Fast Ethernet Controller'',
     dev_entry 0x10D9 0x0553 ''MX987x5'' ''Ethernet Adapter'',
     dev_entry 0x10D9 0x8625 ''MX86250'' ''xiankasqudong'',
     dev_entry 0x10D9 0x8626 ''MX86251'' (''PCI'' @ [CHR 0x5C] @ ''VEN_10D9&DEV_8626&SUBSYS_00000000&REV_00'' @ [CHR 0x5C] @ ''4&1F7DBC9F&0&08F0 ''),
     dev_entry 0x10D9 0x8627 ''MX86251FC'' ''Voodoo Rush MX86251'',
     dev_entry 0x10D9 0x8888 ''MX86250'' ''9619E'',
     dev_entry 0x10D9 0xC115 ''lc82c115'' '' Linksys LNE100TX '',
     dev_entry 0x10DC 0x0001 ''STAR/RD24'' ''PCI-SCI  PMC  mezzanine'',
     dev_entry 0x10DC 0x0002 ''ATT 2C15-3 (FPGA)'' ''SCI bridge  on PCI 5 Volt card'',
     dev_entry 0x10DC 0x0004 ''EP20S780'' ''ALTERA STRATIX'',
     dev_entry 0x10DC 0x0010 ''680-1110-150/400'' ''Simple PMC/PCI to S-LINK interface'',
     dev_entry 0x10DC 0x0011 ''680-1110-200/450'' ''Simple S-LINK to PMC/PCI interface'',
     dev_entry 0x10DC 0x0012 ''S32PCI64'' ''32-bit S-LINK to 64-bit PCI interface'',
     dev_entry 0x10DC 0x0021 '''' ''HIPPI destination'',
     dev_entry 0x10DC 0x0022 '''' ''HIPPI source'',
     dev_entry 0x10DC 0x0033 ''EP20KE (APEX-FPGA)'' ''ALICE DDL to  PCI interface (RORC)'',
     dev_entry 0x10DC 0x0101 ''SL651 7057 C200'' ''Acquisition card for the SPS Orbit System (MACI)'',
     dev_entry 0x10DC 0x016A ''XC4VFX100'' ''CALICE ODR'',
     dev_entry 0x10DC 0x10DC ''ATT 2C15-3 (FPGA)'' ''TTC sr   first TTC chip receiver PMC'',
     dev_entry 0x10DC 0x301 ''PLX PCI 9030'' ''based on the PLX PCI 9030 to build a MIL1553 bus interface'',
     dev_entry 0x10DC 0x324 ''PLX PCI96556'' ''64 Bit/66MHz PCI to Local Bus Bridge'',
     dev_entry 0x10DC 0x8086 ''a002'' ''geodelink pci south'',
     dev_entry 0x10DD 0x0001 '''' ''3D graphics processor'',
     dev_entry 0x10DE 0x04EF ''NV3'' ''Riva 128'',
     dev_entry 0x10DE 0x0001 ''Lucent 0x00da'' ''SoundMAX Integrated Digital Audio'',
     dev_entry 0x10DE 0x0002 ''0x0002'' ''HDMI Audio Driver Driver'',
     dev_entry 0x10DE 0x0003 ''It seems to be Realtek ALC888/9'' ''nVIDIA High Definition Audio/HDMI '',
     dev_entry 0x10DE 0x0006 ''Realtek'' ''realtek based HD Audio'',
     dev_entry 0x10DE 0x0008 ''NV1'' ''Edge 3D'',
     dev_entry 0x10DE 0x0009 ''NV1'' ''Edge 3D'',
     dev_entry 0x10DE 0x000B ''7025'' ''HDMI Audio Driver Driver 1.00.00.59'',
     dev_entry 0x10DE 0x0010 ''NV2'' ''Mutara V08'',
     dev_entry 0x10DE 0x0011 ''Various - see list on site'' ''NVIDIA High Def Audio'',
     dev_entry 0x10DE 0x0018 ''NV3'' ''Riva 128'',
     dev_entry 0x10DE 0x0019 ''NV3'' ''Riva 128ZX'',
     dev_entry 0x10DE 0x001D ''NV35'' ''nVidia GeForce FX 5900XT'',
     dev_entry 0x10DE 0x0020 ''GTX680M'' ''NVIDIA RIVA TNT'',
     dev_entry 0x10DE 0x0028 ''0753'' (''ACPI'' @ [CHR 0x5C] @ ''NSC1200''),
     dev_entry 0x10DE 0x0029 ''NV05'' ''NVIDIA RIVA TNT 2 Ultra'',
     dev_entry 0x10DE 0x002A ''0df4'' ''TNT2'',
     dev_entry 0x10DE 0x002B ''NV5'' ''Riva TNT2'',
     dev_entry 0x10DE 0x002C ''NV05'' ''NVIDIA Vanta/Vanta LT'',
     dev_entry 0x10DE 0x002D ''NV05'' ''NVIDIA RIVA TNT2 Model 64/Model 64 AGP 32M'',
     dev_entry 0x10DE 0x002E ''NV6'' ''VANTA'',
     dev_entry 0x10DE 0x002F ''NV6'' ''VANTA'',
     dev_entry 0x10DE 0x0035 ''MCP04'' ''MCP04 PATA Controller'',
     dev_entry 0x10DE 0x0036 ''MCP04'' ''MCP04 SATA/RAID Controller'',
     dev_entry 0x10DE 0x003E ''MCP04'' ''MCP04 SATA/RAID Controller'']"

definition PciDevTable_40 :: "PCI_DEVTABLE list" where
  "PciDevTable_40 = [
     dev_entry 0x10DE 0x0040 ''NV40'' ''NVIDIA GeForce 6800 Ultra'',
     dev_entry 0x10DE 0x0041 ''NV40'' ''NVIDIA GeForce 6800'',
     dev_entry 0x10DE 0x0042 ''NV40'' ''NVIDIA GeForce 6800 LE'',
     dev_entry 0x10DE 0x0043 ''NV40'' ''NVIDIA GeForce 6800 XE'',
     dev_entry 0x10DE 0x0044 ''NV40'' ''NVIDIA GeForce 6800 XT'',
     dev_entry 0x10DE 0x0045 ''NV40'' ''NVIDIA GeForce 6800 GT'',
     dev_entry 0x10DE 0x0046 ''NV45'' ''NVIDIA GeForce 6800 GT'',
     dev_entry 0x10DE 0x0047 ''NV40'' ''NVIDIA GeForce 6800 GS'',
     dev_entry 0x10DE 0x0048 ''NV40'' ''NVIDIA GeForce 6800 XT'',
     dev_entry 0x10DE 0x0049 ''NV40'' ''NVIDIA NV40GL'',
     dev_entry 0x10DE 0x004D ''NV40'' ''NVIDIA Quadro FX 3400'',
     dev_entry 0x10DE 0x004E ''NV40'' ''NVIDIA Quadro FX 4000'',
     dev_entry 0x10DE 0x0052 ''NV06'' ''NVIDIA nForce PCI System Management'',
     dev_entry 0x10DE 0x0053 ''CK804'' ''CK804 PATA Controller'',
     dev_entry 0x10DE 0x0054 ''CK804'' ''CK804 SATA/RAID Controller'',
     dev_entry 0x10DE 0x0055 ''CK804'' ''CK804 SATA/RAID Controller'',
     dev_entry 0x10DE 0x0057 ''CK804'' ''NVIDIA Network Bus Enumerator'',
     dev_entry 0x10DE 0x0059 ''sdsd'' ''nForce Audio Controller'',
     dev_entry 0x10DE 0x005E ''nForce4'' ''nForce4 HyperTransport Bridge'',
     dev_entry 0x10DE 0x0060 ''MCP68'' ''PCI to ISA Bridge'',
     dev_entry 0x10DE 0x0064 ''MCP'' ''SMBus Controller'',
     dev_entry 0x10DE 0x0065 ''nForce MCP2/MCP2-T/MCP2-U'' ''PATA Controller'',
     dev_entry 0x10DE 0x0066 ''nForce MCP2'' ''nForce 2 Networking Controller'',
     dev_entry 0x10DE 0x0067 ''MCP2'' ''Nvidia 7050 chipset HDMI Audio'',
     dev_entry 0x10DE 0x0068 ''MCP2'' ''EHCI USB 2.0 Controller'',
     dev_entry 0x10DE 0x006A ''MCP2s'' ''nForce AC97s'',
     dev_entry 0x10DE 0x006B ''nForce MCP-T?'' ''Audio Processing Unit (Dolby Digital)'',
     dev_entry 0x10DE 0x006C ''nForce'' ''PCI to PCI Bridge'',
     dev_entry 0x10DE 0x006D ''nForce MCP-T'' ''Audio Codec Interface'',
     dev_entry 0x10DE 0x006E ''nForce MCP2'' ''OHCI Compliant IEEE 1394 Controller'',
     dev_entry 0x10DE 0x0085 ''MCP2S'' ''MCP2S PATA Controller'',
     dev_entry 0x10DE 0x008C ''RLT8201BL'' ''Single-Port 10/100M Fast Ethernet PHYceiver'',
     dev_entry 0x10DE 0x008E ''MCP2S'' ''MCP2S SATA/RAID Controller'',
     dev_entry 0x10DE 0x0090 ''G70'' ''NVIDIA GeForce 7800 GTX'',
     dev_entry 0x10DE 0x0091 ''G70'' ''NVIDIA GeForce 7800 GTX'',
     dev_entry 0x10DE 0x0092 ''G70'' ''NVIDIA GeForce 7800 GT'',
     dev_entry 0x10DE 0x0093 ''G70'' ''NVIDIA GeForce 7800 GS'',
     dev_entry 0x10DE 0x0094 ''G70'' ''NVIDIA GeForce 7800SE/XT/LE/LT/ZT'',
     dev_entry 0x10DE 0x0095 ''G70'' ''NVIDIA GeForce 7800 SLI'',
     dev_entry 0x10DE 0x0098 ''G70'' ''NVIDIA GeForce Go 7800'',
     dev_entry 0x10DE 0x0099 ''G70'' ''NVIDIA GeForce Go 7800 GTX'',
     dev_entry 0x10DE 0x009C ''G70'' ''NVIDIA Quadro FX 350M'',
     dev_entry 0x10DE 0x009D ''G70'' ''NVIDIA Quadro FX 4500'',
     dev_entry 0x10DE 0x009E ''G70'' ''NVIDIA G70GL'',
     dev_entry 0x10DE 0x00A0 ''NV10de'' ''Aladdin TNT2'',
     dev_entry 0x10DE 0x00C0 ''NV41'' ''NVIDIA GeForce 6800 GS'',
     dev_entry 0x10DE 0x00C1 ''NV41'' ''NVIDIA GeForce 6800'',
     dev_entry 0x10DE 0x00C2 ''NV41'' ''NVIDIA GeForce 6800 LE'',
     dev_entry 0x10DE 0x00C3 ''NV41'' ''NVIDIA GeForce 6800 XT'',
     dev_entry 0x10DE 0x00C8 ''NV41.8'' ''NVIDIA GeForce Go 6800'',
     dev_entry 0x10DE 0x00C9 ''NV41'' ''NVIDIA GeForce Go 6800 Ultra'',
     dev_entry 0x10DE 0x00CC ''NV41'' ''NVIDIA Quadro FX Go 1400'',
     dev_entry 0x10DE 0x00CD ''NV41'' ''NVIDIA Quadro FX 3450/4000 SDI'',
     dev_entry 0x10DE 0x00CE ''NV41'' ''NVIDIA Quadro FX 1400'',
     dev_entry 0x10DE 0x00D0 ''nForce 3'' ''LPC Bridge'',
     dev_entry 0x10DE 0x00D1 ''nForce 3'' ''Host Bridge'',
     dev_entry 0x10DE 0x00D2 ''nForce 3?'' ''PCI-to-PCI Bridge'',
     dev_entry 0x10DE 0x00D4 ''MCP2'' ''SMBus Controller'',
     dev_entry 0x10DE 0x00D5 ''nForce3-150'' ''CK8 PATA 133/PATA to SATA Bridge'',
     dev_entry 0x10DE 0x00D6 ''MCP3'' ''nForce 3 Networking Controller'',
     dev_entry 0x10DE 0x00D7 ''nForce MCP3?'' ''OpenHCD USB Host Controller'',
     dev_entry 0x10DE 0x00D8 ''nForce MCP3?'' ''Enhanced PCI to USB Host Controller'',
     dev_entry 0x10DE 0x00D9 ''nForce 3'' ''Agere System PCI Soft Modem'',
     dev_entry 0x10DE 0x00DA ''MCP3'' ''AC97 Audio Controller'',
     dev_entry 0x10DE 0x00DD ''nForce MCP3?'' ''PCI-to-PCI Bridge'',
     dev_entry 0x10DE 0x00DF ''MCP73'' ''nForce 7 Networking Controller'',
     dev_entry 0x10DE 0x00E0 ''nForce3 250'' ''LPC Interface Bridge'',
     dev_entry 0x10DE 0x00E1 ''nForce3 250'' ''Host/PCI Bridge'',
     dev_entry 0x10DE 0x00E2 ''nForce 8400 M'' ''AGP Host to PCI Bridge'',
     dev_entry 0x10DE 0x00E3 ''nForce 250'' ''CK8S SATA/RAID Controller'',
     dev_entry 0x10DE 0x00E4 ''nForce3 200'' ''PCI System Management'',
     dev_entry 0x10DE 0x00E5 ''nForce3 250'' ''Parallel ATA Controller'',
     dev_entry 0x10DE 0x00E7 ''nForce3 250'' ''OpenHCD USB Controller'',
     dev_entry 0x10DE 0x00E8 ''nForce3 250'' ''Enhanced PCI to USB Controller'',
     dev_entry 0x10DE 0x00EA ''nForce3 250 '' ''Audio Codec Interface (Realtek ALC658)'',
     dev_entry 0x10DE 0x00ED ''nForce gt 220'' ''PCI-PCI Bridge'',
     dev_entry 0x10DE 0x00EE ''nForce 250'' ''CK8S SATA/RAID Controller'',
     dev_entry 0x10DE 0x00F0 ''BR02'' ''NVIDIA Device'',
     dev_entry 0x10DE 0x00F1 ''BR02'' ''NVIDIA GeForce 6600 GT'',
     dev_entry 0x10DE 0x00F2 ''BR02'' ''NVIDIA GeForce 6600'',
     dev_entry 0x10DE 0x00F3 ''BR02'' ''NVIDIA GeForce 6200'',
     dev_entry 0x10DE 0x00F4 ''BR02'' ''NVIDIA GeForce 6600 gt'',
     dev_entry 0x10DE 0x00F5 ''BR02'' ''NVIDIA GeForce 7800 GS'',
     dev_entry 0x10DE 0x00F6 ''BR02'' ''NVIDIA GeForce 6800 GS/XT'',
     dev_entry 0x10DE 0x00F8 ''BR02'' ''NVIDIA Quadro FX 3400/4400'',
     dev_entry 0x10DE 0x00F9 ''BR02'' ''NVIDIA GeForce 6800 Series GPU'',
     dev_entry 0x10DE 0x00FA ''BR02'' ''NVIDIA GeForce PCX 5750'',
     dev_entry 0x10DE 0x00FB ''BR02'' ''NVIDIA GeForce PCX 5900'',
     dev_entry 0x10DE 0x00FC ''BR02'' ''NVIDIA GeForce PCX 5300'',
     dev_entry 0x10DE 0x00FD ''BR02'' ''NVIDIA Quadro PCI-E Series'',
     dev_entry 0x10DE 0x00FE ''BR02'' ''NVIDIA Quadro FX 1300'',
     dev_entry 0x10DE 0x00FF ''BR02'' ''NVIDIA GeForce PCX 4300'',
     dev_entry 0x10DE 0x0100 ''NV10'' (''HDAUDIO'' @ [CHR 0x5C] @ ''FUNC_01&VEN_10EC&DEV_0662&SUBSYS_1B0A0062&REV_1001'' @ [CHR 0x5C] @ ''4&22548B7C&0&0001''),
     dev_entry 0x10DE 0x0101 ''NV10'' ''NVIDIA GeForce DDR'',
     dev_entry 0x10DE 0x0102 ''NV10'' ''GeForce 256 Ultra'',
     dev_entry 0x10DE 0x0103 ''NV10'' ''NVIDIA Quadro'',
     dev_entry 0x10DE 0x0110 ''NV12'' ''NVIDIA GeForce2 MX/MX 400'',
     dev_entry 0x10DE 0x0111 ''NV11'' ''NVIDIA GeForce2 MX 100/200'',
     dev_entry 0x10DE 0x0112 ''NV11'' ''NVIDIA GeForce2 Go'',
     dev_entry 0x10DE 0x0112 ''???'' ''Nvidia GeForce2 Go/MX Ultra Video Adapter'',
     dev_entry 0x10DE 0x0113 ''NV11'' ''NVIDIA Quadro2 MXR/EX'',
     dev_entry 0x10DE 0x0140 ''NV43'' ''NVIDIA GeForce 6600 GT'',
     dev_entry 0x10DE 0x0141 ''NV43'' ''nVIDIA GeForce 6600 PCI-E Video Adapter'',
     dev_entry 0x10DE 0x0142 ''NV43'' ''NVIDIA GeForce 6600 LE'',
     dev_entry 0x10DE 0x0143 ''NV43'' ''NVIDIA GeForce 6600 VE'',
     dev_entry 0x10DE 0x0144 ''NV43'' ''NVIDIA GeForce Go 6600'',
     dev_entry 0x10DE 0x0145 ''NV43'' ''NVIDIA GeForce 6610 XL'',
     dev_entry 0x10DE 0x0146 ''NV43'' ''NVIDIA GeForce Go 6200 TE/6600 TE'',
     dev_entry 0x10DE 0x0147 ''NV43'' ''NVIDIA GeForce 6700 XL'',
     dev_entry 0x10DE 0x0148 ''NV43'' ''NVIDIA GeForce Go 6600'',
     dev_entry 0x10DE 0x0149 ''NV43'' ''NVIDIA GeForce Go 6600 GT'',
     dev_entry 0x10DE 0x014A ''NV43'' ''NVIDIA Quadro NVS 440'',
     dev_entry 0x10DE 0x014B ''NV43'' ''NVIDIA NV43'',
     dev_entry 0x10DE 0x014C ''NV43'' ''NVIDIA Quadro FX 540M'',
     dev_entry 0x10DE 0x014D ''NV43'' ''NVIDIA Quadro FX 550'',
     dev_entry 0x10DE 0x014E ''NV43'' ''NVIDIA Quadro FX 540'',
     dev_entry 0x10DE 0x014F ''NV43'' ''NVIDIA GeForce 6200'',
     dev_entry 0x10DE 0x0150 ''NV15'' ''NVIDIA GeForce2 GTS/GeForce2 Pro'',
     dev_entry 0x10DE 0x0151 ''NV15'' ''NVIDIA GeForce2 Ti'',
     dev_entry 0x10DE 0x0152 ''NV15'' ''NVIDIA GeForce2 Ultra'',
     dev_entry 0x10DE 0x0153 ''NV15'' ''NVIDIA Quadro2 Pro'',
     dev_entry 0x10DE 0x016 ''1'' ''1'',
     dev_entry 0x10DE 0x0160 ''NV44'' ''NVIDIA GeForce 6500 '',
     dev_entry 0x10DE 0x0161 ''NV44'' ''NVIDIA GeForce 6200 TurboCache(TM)'',
     dev_entry 0x10DE 0x0162 ''NV44'' ''NVIDIA GeForce 6200SE TurboCache(TM)'',
     dev_entry 0x10DE 0x0163 ''NV44'' ''NVIDIA GeForce 6200 LE'',
     dev_entry 0x10DE 0x0164 ''NV44'' ''NVIDIA NV44'',
     dev_entry 0x10DE 0x0165 ''NV44'' ''NVIDIA Quadro NVS 285'',
     dev_entry 0x10DE 0x0166 ''NV44'' ''NVIDIA GeForce Go 6250'',
     dev_entry 0x10DE 0x0167 ''NV44'' ''NVIDIA GeForce Go 6200'',
     dev_entry 0x10DE 0x0168 ''NV44'' ''NVIDIA GeForce Go 6400'',
     dev_entry 0x10DE 0x0169 ''NV44'' ''NVIDIA GeForce 6250'',
     dev_entry 0x10DE 0x016a ''NV44'' ''NVIDIA GeForce 7100 GS'',
     dev_entry 0x10DE 0x016B ''NV44'' ''NVIDIA NV44GLM'',
     dev_entry 0x10DE 0x016C ''NV44'' ''NVIDIA NV44GLM'',
     dev_entry 0x10DE 0x016D ''NV44'' ''NVIDIA NV44GLM'',
     dev_entry 0x10DE 0x016E ''NV44'' ''NVIDIA NV44GL'',
     dev_entry 0x10DE 0x0170 ''NV17'' ''NVIDIA GeForce4 MX 460'',
     dev_entry 0x10DE 0x0171 ''NV17'' ''NVIDIA GeForce4 MX 440 with AGP 4X 64mb'',
     dev_entry 0x10DE 0x0172 ''NV17'' ''NVIDIA GeForce4 MX 420'',
     dev_entry 0x10DE 0x0173 ''NV17'' ''NVIDIA GeForce4 MX 440-SE'',
     dev_entry 0x10DE 0x0174 ''NV17'' ''NVIDIA GeForce4 MX 440 Go'',
     dev_entry 0x10DE 0x0175 ''NV17'' ''NVIDIA GeForce4 MX 420 Go'',
     dev_entry 0x10DE 0x0176 ''NV17'' ''NVIDIA GeForce4 MX 420 Go 32M'',
     dev_entry 0x10DE 0x0177 ''NV17'' ''NVIDIA GeForce4 460 Go'',
     dev_entry 0x10DE 0x0178 ''NV17'' ''NVIDIA Quadro4 550 XGL'',
     dev_entry 0x10DE 0x0179 ''NV17.2'' ''NVIDIA GeForce4 MX 440 Go 64M'']"

definition PciDevTable_41 :: "PCI_DEVTABLE list" where
  "PciDevTable_41 = [
     dev_entry 0x10DE 0x017A ''NV17'' ''NVIDIA Quadro NVS'',
     dev_entry 0x10DE 0x017B ''NV17GL.3'' ''Quadro4 550 XGL'',
     dev_entry 0x10DE 0x017C ''NV17'' ''NVIDIA Quadro4 500 Go GL'',
     dev_entry 0x10DE 0x017D ''NV17'' ''NVIDIA GeForce4 410 Go 16M'',
     dev_entry 0x10DE 0x0181 ''NV18'' ''NVIDIA GeForce4 MX 440 with AGP8X'',
     dev_entry 0x10DE 0x0182 ''NV18'' ''NVIDIA GeForce4 MX 440SE with AGP8X'',
     dev_entry 0x10DE 0x0183 ''NV18'' ''NVIDIA GeForce4 MX 420 with AGP8X'',
     dev_entry 0x10DE 0x0185 ''NV18'' ''NVIDIA GeForce4 MX 4000 128 mb 64 bit'',
     dev_entry 0x10DE 0x0186 ''NV18'' ''NVIDIA GeForce4 448 Go'',
     dev_entry 0x10DE 0x0187 ''NV18'' ''NVIDIA GeForce4000 Go'',
     dev_entry 0x10DE 0x0188 ''NV18'' ''NVIDIA Quadro4 580 XGL'',
     dev_entry 0x10DE 0x018A ''NV18'' ''NVIDIA Quadro NVS with AGP8X'',
     dev_entry 0x10DE 0x018B ''NV18'' ''NVIDIA Quadro4 380 XGL'',
     dev_entry 0x10DE 0x018C ''NV18'' ''NVIDIA Quadro NVS 50 PCI'',
     dev_entry 0x10DE 0x018D ''NV18'' ''NVIDIA GeForce4 448 Go'',
     dev_entry 0x10DE 0x0191 ''G80'' ''NVIDIA GeForce 8800 GTX'',
     dev_entry 0x10DE 0x0193 ''G80'' ''NVIDIA GeForce 8800 GTS'',
     dev_entry 0x10DE 0x0194 ''G80'' ''NVIDIA GeForce 8800 Ultra'',
     dev_entry 0x10DE 0x0197 ''G80'' ''NVIDIA Tesla C870'',
     dev_entry 0x10DE 0x019D ''G80'' ''NVIDIA Quadro FX 5600'',
     dev_entry 0x10DE 0x019E ''G80'' ''NVIDIA Quadro FX 4600'',
     dev_entry 0x10DE 0x01A0 ''CR11'' ''NVIDIA GeForce2 Integrated GPU'',
     dev_entry 0x10DE 0x01A4 ''nForce'' ''AGP Controller'',
     dev_entry 0x10DE 0x01A5 ''nForce'' ''AGP Controller'',
     dev_entry 0x10DE 0x01A6 ''nForce'' ''AGP Controller'',
     dev_entry 0x10DE 0x01A8 ''nForce 210'' ''Memory Controller (SDR) ddr3'',
     dev_entry 0x10DE 0x01A9 ''nForce 420'' ''Memory Controller (SDR)'',
     dev_entry 0x10DE 0x01AA ''nForce 220/230'' ''Memory Controller (DDR)'',
     dev_entry 0x10DE 0x01AB ''nForce 415/420/430'' ''Memory Controller (DDR)'',
     dev_entry 0x10DE 0x01AC ''nForce 2x0/415/4x0'' ''Memory Controller'',
     dev_entry 0x10DE 0x01AD ''nForce 2x0/415/4x0'' ''Memory Controller'',
     dev_entry 0x10DE 0x01B0 ''MCP73'' ''nForce Dolby Digital Audio Controller'',
     dev_entry 0x10DE 0x01B1 ''MCP3'' (''nForce AC'' @ [CHR 0x27] @ ''97 Audio Controller''),
     dev_entry 0x10DE 0x01B2 ''nForce'' ''HUB Interface'',
     dev_entry 0x10DE 0x01B4 ''MCP'' ''nForce 1/2 SMBus Controller'',
     dev_entry 0x10DE 0x01B7 ''nForce'' ''AGP Bridge'',
     dev_entry 0x10DE 0x01B8 ''nForce'' ''PCI Bridge'',
     dev_entry 0x10DE 0x01BC ''MCP'' ''nForce IDE/ATA Controller'',
     dev_entry 0x10DE 0x01C1 ''nForce MCP'' ''AC97 Modem'',
     dev_entry 0x10DE 0x01C2 ''MCP'' ''OHCI USB Controller'',
     dev_entry 0x10DE 0x01C3 ''MCP73 ethernet'' ''nForce Networking Controller'',
     dev_entry 0x10DE 0x01D0 ''G72'' ''NVIDIA GeForce 7350 LE'',
     dev_entry 0x10DE 0x01D1 ''G72'' ''NVIDIA GeForce 7300 LE'',
     dev_entry 0x10DE 0x01D2 ''G72'' ''NVIDIA GeForce 7550 LE'',
     dev_entry 0x10DE 0x01D3 ''G7200'' ''NVIDIA GeForce 7300 SE/7200 GS'',
     dev_entry 0x10DE 0x01D5 ''G72'' ''NVIDIA GeForce 7300 LE'',
     dev_entry 0x10DE 0x01D7 ''G72'' ''NVIDIA GeForce Go 7300'',
     dev_entry 0x10DE 0x01D8 ''G72'' ''NVIDIA GeForce Go 7400'',
     dev_entry 0x10DE 0x01DB ''G72'' ''NVIDIA Quadro NVS 120M'',
     dev_entry 0x10DE 0x01DC ''G72'' ''NVIDIA Quadro FX 350M'',
     dev_entry 0x10DE 0x01DD ''G72'' ''NVIDIA GeForce 7500 LE'',
     dev_entry 0x10DE 0x01DE ''G72'' ''NVIDIA Quadro FX 350'',
     dev_entry 0x10DE 0x01DF ''G72'' ''NVIDIA GeForce 7300 GS'',
     dev_entry 0x10DE 0x01E0 ''nForce2'' ''AGP Controller'',
     dev_entry 0x10DE 0x01E1 ''nForce2'' ''AGP Controller'',
     dev_entry 0x10DE 0x01E8 ''nForce2'' ''AGP Host to PCI Bridge'',
     dev_entry 0x10DE 0x01EA ''nForce2'' ''Memory Controller 0'',
     dev_entry 0x10DE 0x01EB ''nForce2'' ''Memory Controller 1'',
     dev_entry 0x10DE 0x01EC ''nForce2'' ''Memory Controller 2'',
     dev_entry 0x10DE 0x01ED ''nForce2'' ''Memory Controller 3'',
     dev_entry 0x10DE 0x01EE ''nForce2'' ''Memory Controller 4'',
     dev_entry 0x10DE 0x01EF ''nForce2'' ''Memory Controller 5'',
     dev_entry 0x10DE 0x01F0 ''CR17'' ''NVIDIA GeForce4 MX Integrated GPU'',
     dev_entry 0x10DE 0x0200 ''NV20'' ''NVIDIA GeForce3'',
     dev_entry 0x10DE 0x0201 ''NV20'' ''NVIDIA GeForce3 Ti 200'',
     dev_entry 0x10DE 0x0202 ''NV20'' ''NVIDIA GeForce3 Ti 500'',
     dev_entry 0x10DE 0x0203 ''NV20'' ''NVIDIA Quadro DCC'',
     dev_entry 0x10DE 0x0210 ''NV48'' ''NVIDIA NV48'',
     dev_entry 0x10DE 0x0211 ''NV48'' ''NVIDIA GeForce 6800'',
     dev_entry 0x10DE 0x0212 ''NV48'' ''NVIDIA GeForce 6800 LE'',
     dev_entry 0x10DE 0x0215 ''NV48'' ''NVIDIA GeForce 6800 GT'',
     dev_entry 0x10DE 0x0218 ''NV48'' ''NVIDIA GeForce 6800 XT'',
     dev_entry 0x10DE 0x0220 ''NV44'' ''NVIDIA NV44'',
     dev_entry 0x10DE 0x0221 ''NV44'' ''nVidia Geforce 6200 AGP'',
     dev_entry 0x10DE 0x0222 ''NV44'' ''NVIDIA GeForce 6200 A-LE'',
     dev_entry 0x10DE 0x0228 ''NV44'' ''NVIDIA NV44M'',
     dev_entry 0x10DE 0x0240 ''C51'' ''NVIDIA GeForce 6150'',
     dev_entry 0x10DE 0x0241 ''C51'' ''NVIDIA GeForce 6150 LE'',
     dev_entry 0x10DE 0x0242 ''C51'' ''NVIDIA GeForce 6100'',
     dev_entry 0x10DE 0x0243 ''C51'' ''PCI Express Bridge'',
     dev_entry 0x10DE 0x0244 ''Geforce Go 7600'' ''Geforce Go 6150'',
     dev_entry 0x10DE 0x0245 ''C51'' ''NVIDIA Quadro NVS 210S / NVIDIA GeForce 6150LE'',
     dev_entry 0x10DE 0x0246 ''C51'' ''PCI Express Bridge'',
     dev_entry 0x10DE 0x0247 ''C51'' ''Geforce 6100 Go'',
     dev_entry 0x10DE 0x0248 ''C51'' ''PCI Express Bridge'',
     dev_entry 0x10DE 0x0249 ''C51'' ''PCI Express Bridge'',
     dev_entry 0x10DE 0x024A ''C51'' ''PCI Express Bridge'',
     dev_entry 0x10DE 0x024B ''C51'' ''PCI Express Bridge'',
     dev_entry 0x10DE 0x024C ''C51'' ''PCI Express Bridge'',
     dev_entry 0x10DE 0x024D ''C51'' ''PCI Express Bridge'',
     dev_entry 0x10DE 0x024E ''C51'' ''PCI Express Bridge'',
     dev_entry 0x10DE 0x024F ''C51'' ''PCI Express Bridge'',
     dev_entry 0x10DE 0x0250 ''NV25'' ''NVIDIA GeForce4 Ti 4600'',
     dev_entry 0x10DE 0x0251 ''NV25'' ''NVIDIA GeForce4 Ti 4400'',
     dev_entry 0x10DE 0x0252 ''NV25'' ''NVIDIA GeForce4 Ti'',
     dev_entry 0x10DE 0x0253 ''NV25'' ''NVIDIA GeForce4 Ti 4200'',
     dev_entry 0x10DE 0x0258 ''NV25'' ''NVIDIA Quadro4 900 XGL'',
     dev_entry 0x10DE 0x0259 ''NV25'' ''NVIDIA Quadro4 750 XGL'',
     dev_entry 0x10DE 0x025B ''NV25'' ''NVIDIA Quadro4 700 XGL'',
     dev_entry 0x10DE 0x0264 ''NVIDIA SMB Bus Controller'' ''NVIDIA motherboard nForce 430 ( MCP-51 ) with Built-In Geforce 6150 GPU'',
     dev_entry 0x10DE 0x0265 ''MCP51'' ''PATA Controller'',
     dev_entry 0x10DE 0x0266 ''MCP51S'' ''NVIDIA nForce 430/410 Serial ATA Controller'',
     dev_entry 0x10DE 0x0267 ''MCP51S'' ''NVIDIA nForce 430/410 Serial ATA Controller'',
     dev_entry 0x10DE 0x0268 ''MCP51'' ''NVIDIA nForce Networking Controller'',
     dev_entry 0x10DE 0x0269 ''MCP51'' ''Ethernet Controller '',
     dev_entry 0x10DE 0x026B ''MCP51'' (''MCP51 AC'' @ [CHR 0x27] @ ''97 Audio ''),
     dev_entry 0x10DE 0x026C ''MCP51'' ''Realtek HD Audio Driver'',
     dev_entry 0x10DE 0x026e ''MCP51 USB Controller (EHCI) '' ''MCP51 USB Controller'',
     dev_entry 0x10DE 0x0271 ''nForce'' ''Coprocessor'',
     dev_entry 0x10DE 0x0280 ''NV28'' ''NVIDIA GeForce4 Ti 4800'',
     dev_entry 0x10DE 0x0281 ''NV28'' ''NVIDIA GeForce4 Ti 4200 with AGP8X'',
     dev_entry 0x10DE 0x0282 ''NV28'' ''NVIDIA GeForce4 Ti 4800 SE'',
     dev_entry 0x10DE 0x0286 ''NV25'' ''NVIDIA GeForce4 4200 Go'',
     dev_entry 0x10DE 0x0288 ''NV28'' ''NVIDIA Quadro4 980 XGL'',
     dev_entry 0x10DE 0x0289 ''NV28'' ''NVIDIA Quadro4 780 XGL'',
     dev_entry 0x10DE 0x028C ''NV28'' ''NVIDIA Quadro4 700 Go GL'',
     dev_entry 0x10DE 0x0290 ''G71'' ''NVIDIA GeForce 7900 GTX'',
     dev_entry 0x10DE 0x0291 ''G71'' ''NVIDIA GeForce 7900 GT/GTO'',
     dev_entry 0x10DE 0x0292 ''G71'' ''NVIDIA GeForce 7900 GS'',
     dev_entry 0x10DE 0x0293 ''G71'' ''NVIDIA GeForce 7950 GX2'',
     dev_entry 0x10DE 0x0294 ''G71'' ''NVIDIA GeForce 7950 GX2'',
     dev_entry 0x10DE 0x0295 ''G71'' ''NVIDIA GeForce 7950 GT'',
     dev_entry 0x10DE 0x0297 ''G71'' ''NVIDIA GeForce Go 7950 GTX'',
     dev_entry 0x10DE 0x0298 ''G71'' ''NVIDIA GeForce Go 7900 GS'',
     dev_entry 0x10DE 0x0299 ''G71'' ''NVIDIA GeForce Go 7900 GTX'',
     dev_entry 0x10DE 0x029B ''G71'' ''NVIDIA Quadro FX 1500M'',
     dev_entry 0x10DE 0x029C ''G71'' ''NVIDIA Quadro FX 5500'',
     dev_entry 0x10DE 0x029D ''G71'' ''NVIDIA Quadro FX 3500'',
     dev_entry 0x10DE 0x029E ''G71'' ''NVIDIA Quadro FX 1500'',
     dev_entry 0x10DE 0x029F ''G71'' ''NVIDIA Quadro FX 4500 X2'',
     dev_entry 0x10DE 0x02A0 ''NV2A'' ''NVIDIA NV2A GeForce 3 Integrated (XBOX)'',
     dev_entry 0x10DE 0x02e0 ''BR02'' ''NVIDIA GeForce 7600 GT'',
     dev_entry 0x10DE 0x02E1 ''BR02'' ''NVIDIA GeForce 7600 GS'',
     dev_entry 0x10DE 0x02E2 ''BR02'' ''NVIDIA GeForce 7300 GT'',
     dev_entry 0x10DE 0x02E3 ''BR02'' ''NVIDIA GeForce 7900 GS'',
     dev_entry 0x10DE 0x02E4 ''BR02'' ''NVIDIA GeForce 7950 GT'',
     dev_entry 0x10DE 0x0300 ''NV30'' ''NVIDIA NV30'',
     dev_entry 0x10DE 0x0301 ''NV30'' ''NVIDIA GeForce FX 5800 Ultra'',
     dev_entry 0x10DE 0x0302 ''NV30'' ''NVIDIA GeForce FX 5800'',
     dev_entry 0x10DE 0x0308 ''NV30'' ''NVIDIA Quadro FX 2000'',
     dev_entry 0x10DE 0x0309 ''NV30'' ''NVIDIA Quadro FX 1000'',
     dev_entry 0x10DE 0x030A ''NV30'' ''NVIDIA ICE FX 2000'',
     dev_entry 0x10DE 0x0311 ''NV31'' ''NVIDIA GeForce FX 5600 Ultra'',
     dev_entry 0x10DE 0x0312 ''NV31'' ''NVIDIA GeForce FX 5600'',
     dev_entry 0x10DE 0x0313 ''NV31'' ''NVIDIA NV31'',
     dev_entry 0x10DE 0x0314 ''NV31'' ''NVIDIA GeForce FX 5600XT'',
     dev_entry 0x10DE 0x0316 ''NV31'' ''NVIDIA NV31M'',
     dev_entry 0x10DE 0x0317 ''NV31'' ''NVIDIA NV31M Pro'',
     dev_entry 0x10DE 0x0318 ''NV31'' ''NVIDIA NV31GL'']"

definition PciDevTable_42 :: "PCI_DEVTABLE list" where
  "PciDevTable_42 = [
     dev_entry 0x10DE 0x0319 ''NV31'' ''NVIDIA NV31GL'',
     dev_entry 0x10DE 0x031A ''NV31'' ''NVIDIA GeForce FX Go 5600'',
     dev_entry 0x10DE 0x031B ''NV31'' ''NVIDIA GeForce FX Go 5650'',
     dev_entry 0x10DE 0x031C ''NV31'' ''NVIDIA Quadro FX Go 700'',
     dev_entry 0x10DE 0x031D ''NV31'' ''NVIDIA NV31GLM'',
     dev_entry 0x10DE 0x031E ''NV31'' ''NVIDIA NV31GLM Pro'',
     dev_entry 0x10DE 0x031F ''NV31'' ''NVIDIA NV31GLM Pro'',
     dev_entry 0x10DE 0x0320 ''NV34'' ''NVIDIA GeForce FX 5200'',
     dev_entry 0x10DE 0x0321 ''NV34'' ''NVIDIA GeForce FX 5200 Ultra'',
     dev_entry 0x10DE 0x0322 ''NV34.3'' ''NVIDIA GeForce FX 5200'',
     dev_entry 0x10DE 0x0323 ''NV34'' ''NVIDIA GeForce FX 5200LE'',
     dev_entry 0x10DE 0x0324 ''NV34'' ''NVIDIA GeForce FX Go 5200'',
     dev_entry 0x10DE 0x0325 ''NV34'' ''NVIDIA GeForce FX Go 5250/5500'',
     dev_entry 0x10DE 0x0326 ''NV34'' ''NVIDIA GeForce GTX 550 Ti'',
     dev_entry 0x10DE 0x0327 ''NV34'' ''NVIDIA GeForce FX 5100'',
     dev_entry 0x10DE 0x0328 ''NV34'' ''NVIDIA GeForce FX Go 5200 32/64M'',
     dev_entry 0x10DE 0x0329 ''NV34'' ''NVIDIA NV34MAP'',
     dev_entry 0x10DE 0x032A ''NV34'' ''NVIDIA Quadro NVS 55/280 PCI'',
     dev_entry 0x10DE 0x032B ''NV34'' ''NVIDIA Quadro FX 500/FX 600'',
     dev_entry 0x10DE 0x032C ''NV34'' ''NVIDIA GeForce FX Go 53x0'',
     dev_entry 0x10DE 0x032D ''NV34'' ''NVIDIA GeForce FX Go 5100'',
     dev_entry 0x10DE 0x032F ''NV34'' ''NVIDIA NV34GL'',
     dev_entry 0x10DE 0x0330 ''NV35'' ''NVIDIA GeForce FX 5900 Ultra'',
     dev_entry 0x10DE 0x0331 ''NV35'' ''NVIDIA GeForce FX 5900'',
     dev_entry 0x10DE 0x0332 ''NV35'' ''NVIDIA GeForce FX 5900XT'',
     dev_entry 0x10DE 0x0333 ''NV35'' ''NVIDIA GeForce FX 5950 Ultra'',
     dev_entry 0x10DE 0x0334 ''NV35'' ''NVIDIA GeForce FX 5900ZT'',
     dev_entry 0x10DE 0x0338 ''NV35'' ''NVIDIA Quadro FX 3000'',
     dev_entry 0x10DE 0x033F ''NV35'' ''NVIDIA Quadro FX 700'',
     dev_entry 0x10DE 0x0341 ''NV36'' ''NVIDIA GeForce FX 5700 Ultra'',
     dev_entry 0x10DE 0x0342 ''NV36'' ''NVIDIA GeForce FX 5700'',
     dev_entry 0x10DE 0x0343 ''NV36'' ''NVIDIA GeForce FX 5700LE'',
     dev_entry 0x10DE 0x0344 ''NV36'' ''NVIDIA GeForce FX 5700VE'',
     dev_entry 0x10DE 0x0345 ''NV36'' ''NVIDIA NV36'',
     dev_entry 0x10DE 0x0347 ''NV36'' ''NVIDIA GeForce FX Go 5700'',
     dev_entry 0x10DE 0x0348 ''NV36'' ''NVIDIA GeForce FX Go 5700'',
     dev_entry 0x10DE 0x0349 ''NV36'' ''NVIDIA NV36M Pro'',
     dev_entry 0x10DE 0x034B ''NV36'' ''NVIDIA NV36MAP'',
     dev_entry 0x10DE 0x034C ''NV36'' ''NVIDIA Quadro FX Go 1000'',
     dev_entry 0x10DE 0x034E ''NV36'' ''NVIDIA Quadro FX 1100'',
     dev_entry 0x10DE 0x034F ''NV36'' ''NVIDIA NV36GL'',
     dev_entry 0x10DE 0x0368 ''(0xCB84 integrated chip nForce Pro 3400)'' ''SMBus controller'',
     dev_entry 0x10DE 0x036C ''81FB1043'' ''Standard OpenHCD USB Hostcontroller'',
     dev_entry 0x10DE 0x036d ''81FB1043'' ''Standard PCI-to-USB Enhanced Hostcontroller'',
     dev_entry 0x10DE 0x036E ''MCP55'' ''MCP55 PATA Controller'',
     dev_entry 0x10DE 0x036F ''MCP55'' ''MCP55 SATA/RAID Controller'',
     dev_entry 0x10DE 0x0371 ''MCP55'' ''High Definition Audio Controller'',
     dev_entry 0x10DE 0x0373 ''rev.1'' ''NVIDIA nForce Networking Controller'',
     dev_entry 0x10DE 0x037E ''MCP55'' ''MCP55 SATA/RAID Controller'',
     dev_entry 0x10DE 0x037F ''MCP55S'' ''MCP55 SATA/RAID Controller'',
     dev_entry 0x10DE 0x038B ''G73'' ''NVIDIA GeForce 7650 GS'',
     dev_entry 0x10DE 0x0390 ''G73'' ''NVIDIA GeForce 7650 GS'',
     dev_entry 0x10DE 0x0391 ''G73'' ''NVIDIA GeForce 7600 GT'',
     dev_entry 0x10DE 0x0392 ''GS'' ''NVIDIA GeForce 7600 GS'',
     dev_entry 0x10DE 0x0393 ''G73'' ''NVIDIA GeForce 7300 GT'',
     dev_entry 0x10DE 0x0394 ''G73'' ''NVIDIA GeForce 7600 LE'',
     dev_entry 0x10DE 0x0395 ''G73'' ''NVIDIA GeForce 7300 GT'',
     dev_entry 0x10DE 0x0398 ''G70'' ''NVIDIA GeForce Go 7600'',
     dev_entry 0x10DE 0x039E ''G73'' ''NVIDIA Quadro FX 560'',
     dev_entry 0x10DE 0x039F ''SUBSYS_00000000'' (''REV_A1'' @ [CHR 0x5C] @ ''4&1B41B794&0&00E0''),
     dev_entry 0x10DE 0x03AC ''GT216GLM'' ''Nvidia Quadro FX 880M'',
     dev_entry 0x10DE 0x03D0 ''MCP61'' ''NVIDIA Graphic driver for XP32'',
     dev_entry 0x10DE 0x03D1 ''C61'' ''nForce 520 LE'',
     dev_entry 0x10DE 0x03D2 ''C61'' ''NVIDIA GeForce 6100 nForce 400'',
     dev_entry 0x10DE 0x03D5 ''C61'' ''NVIDIA GeForce 6100 nForce 420'',
     dev_entry 0x10DE 0x03D6 ''GT218'' ''NVidia GeForce 7025 nForce 630a'',
     dev_entry 0x10DE 0x03E0 ''nForce 430, MCP61 LPC Bridge'' ''PCI standard ISA bridge'',
     dev_entry 0x10DE 0x03E1 ''NV3'' ''Riva128'',
     dev_entry 0x10DE 0x03E7 ''MCP61'' ''MCP61 SATA/RAID Controller'',
     dev_entry 0x10DE 0x03EA ''MCP61 Memory Controller'' ''Memory controller'',
     dev_entry 0x10DE 0x03eb ''MCP6P1, 85B36Q1, G822B1, MCP61 SMBus'' (''NVIDIA nForce PCI '' @ [CHR 0xC3, CHR 0x90, CHR 0xC2, CHR 0xA1, CHR 0xC3, CHR 0x90, CHR 0xC2, CHR 0xB8, CHR 0xC3, CHR 0x91, CHR 0xC2, CHR 0x81, CHR 0xC3, CHR 0x91, CHR 0xE2, CHR 0x80, CHR 0x9A, CHR 0xC3, CHR 0x90, CHR 0xC2, CHR 0xB5, CHR 0xC3, CHR 0x90, CHR 0xC2, CHR 0xBC, CHR 0xC3, CHR 0x90, CHR 0xC2, CHR 0xB0] @ '' '' @ [CHR 0xC3, CHR 0x90, CHR 0xC2, CHR 0xA3, CHR 0xC3, CHR 0x90, CHR 0xC2, CHR 0xBF, CHR 0xC3, CHR 0x91, CHR 0xE2, CHR 0x82, CHR 0xAC, CHR 0xC3, CHR 0x90, CHR 0xC2, CHR 0xB0, CHR 0xC3, CHR 0x90, CHR 0xC2, CHR 0xB2, CHR 0xC3, CHR 0x90, CHR 0xC2, CHR 0xBB, CHR 0xC3, CHR 0x90, CHR 0xC2, CHR 0xB5, CHR 0xC3, CHR 0x90, CHR 0xC2, CHR 0xBD, CHR 0xC3, CHR 0x90, CHR 0xC2, CHR 0xB8, CHR 0xC3, CHR 0x90, CHR 0xC2, CHR 0xB5]),
     dev_entry 0x10DE 0x03EC ''MCP61'' ''MCP61 PATA Controller'',
     dev_entry 0x10DE 0x03EF ''nForce 405, MCP61 Ethernet'' ''Nvidia Networking Card'',
     dev_entry 0x10DE 0x03EF ''MCP51 & MCP61'' ''GeForce 6100'',
     dev_entry 0x10DE 0x03F0 ''ALC660/ALC662'' ''Realtek High Defnition Audio getarnt als nVidia MCP'',
     dev_entry 0x10DE 0x03F1 ''MCP61 USB Controller'' ''Serial bus controller'',
     dev_entry 0x10DE 0x03F2 ''MCP61 USB Controller'' ''Serial bus controller'',
     dev_entry 0x10DE 0x03F3 ''MCP61 PCI bridge'' ''Bridge'',
     dev_entry 0x10DE 0x03F4 ''Co-Processor'' ''NVIDIA nForce System Management Controller'',
     dev_entry 0x10DE 0x03F5 ''MCP61 Memory Controller'' ''Memory controller'',
     dev_entry 0x10DE 0x03F6 ''MCP61'' ''MCP61 SATA/RAID Controller'',
     dev_entry 0x10DE 0x03F7 ''MCP51'' ''MCP61 SATA/RAID Controller'',
     dev_entry 0x10DE 0x0400 ''G84'' ''NVIDIA GeForce 8600 GTS'',
     dev_entry 0x10DE 0x0401 ''G84'' ''NVIDIA GeForce 8600 GT'',
     dev_entry 0x10DE 0x0402 ''G84'' ''NVIDIA GeForce 8600 GT'',
     dev_entry 0x10DE 0x0403 ''G84'' ''NVIDIA GeForce 8600GS'',
     dev_entry 0x10DE 0x0404 ''G84'' ''NVIDIA GeForce 8400 GS'',
     dev_entry 0x10DE 0x0405 ''unknown'' ''GeForce 9500m GS'',
     dev_entry 0x10DE 0x0406 ''G84'' ''NVIDIA GeForce 8300 GS'',
     dev_entry 0x10DE 0x0407 ''NVIDIA GeForce 8600M GT'' ''NVIDIA GeForce 8600M GT'',
     dev_entry 0x10DE 0x0409 ''No Idea'' ''Nvidia GeForce 8700M GT'',
     dev_entry 0x10DE 0x040a ''G84'' ''NVIDIA Quadro FX 370'',
     dev_entry 0x10DE 0x040C ''NVIDIA Quadro NVS 570M'' ''Mobile Quadro FX/NVS video card'',
     dev_entry 0x10DE 0x040E ''G84'' ''NVIDIA Quadro FX 570'',
     dev_entry 0x10DE 0x040F ''G84'' ''NVIDIA Quadro FX 1700'',
     dev_entry 0x10DE 0x0420 ''G86'' ''NVIDIA GeForce 8400 SE'',
     dev_entry 0x10DE 0x0421 ''G86'' ''NVIDIA GeForce 8500 GT'',
     dev_entry 0x10DE 0x0422 ''G86'' ''NVIDIA GeForce 8400 GS'',
     dev_entry 0x10DE 0x0423 ''G86'' ''NVIDIA GeForce 8300 GS'',
     dev_entry 0x10DE 0x0424 ''G86'' ''NVIDIA GeForce 8400 GS'',
     dev_entry 0x10DE 0x0425 ''NVIDIA 8600m GS'' ''NVIDIA 8600m GS'',
     dev_entry 0x10DE 0x0426 ''G86M'' ''Geforce 8400M GT GPU'',
     dev_entry 0x10DE 0x0427 ''G86M'' ''Geforce 8400M GS'',
     dev_entry 0x10DE 0x0428 ''NVIDIA GeForce 8400M G'' ''NVIDIA GeForce 8400M G'',
     dev_entry 0x10DE 0x0429 ''Unknown'' ''nVidia Quadro NVS 135M or Quadro NVS 140M '',
     dev_entry 0x10DE 0x042b ''8400 ??'' ''NVIDIA Quadro NVS 135M'',
     dev_entry 0x10DE 0x042C ''G86'' ''NVIDIA GeForce 8600gts'',
     dev_entry 0x10DE 0x042D ''Quadro FX 360 M'' ''Quadro FX 360 M (Mobile)'',
     dev_entry 0x10DE 0x042E ''GeForce 9300M G'' ''Mobile graphics'',
     dev_entry 0x10DE 0x042f ''G86'' ''NVIDIA Quadro NVS 290'',
     dev_entry 0x10DE 0x0448 ''MCP65'' ''MCP65 PATA Controller'',
     dev_entry 0x10DE 0x044C ''MCP65'' ''MCP65 RAID'',
     dev_entry 0x10DE 0x044D ''MCP65'' ''MCP65 AHCI'',
     dev_entry 0x10DE 0x044E ''MCP67D'' ''MCP67D AHCI'',
     dev_entry 0x10DE 0x044F ''MCP65'' ''MCP65 ?AHCI'',
     dev_entry 0x10DE 0x0450 ''E0001458'' ''A3'',
     dev_entry 0x10DE 0x045D ''MCP65'' ''MCP65 SATA Controller(IDE mode)'',
     dev_entry 0x10DE 0x0523 ''NVidia GeForce 9400GT'' ''GPU'',
     dev_entry 0x10DE 0x0531 ''7150'' ''NVIDIA GeForce Go 7150M (UMA)'',
     dev_entry 0x10DE 0x0533 (''-PCI'' @ [CHR 0x5C] @ ''VEN 10DEV 0533&SUBSYS 30EA103C&REV A2'' @ [CHR 0x5C] @ ''3&2411E'') ''nVidia GeForce 7000M / nForce 610M'',
     dev_entry 0x10DE 0x053A ''C68'' ''NVIDIA GeForce 7050 PV / NVIDIA nForce 630a'',
     dev_entry 0x10DE 0x053B ''C68'' ''NVIDIA GeForce 7050 PV / NVIDIA nForce 630a'',
     dev_entry 0x10DE 0x053E ''C68'' ''NVIDIA GeForce 7025 / NVIDIA nForce 630a'',
     dev_entry 0x10DE 0x054 ''NVidia nForce 4 SLI'' ''IDE Controller'',
     dev_entry 0x10DE 0x0542 ''30CF'' ''nForce PCI System Management'',
     dev_entry 0x10DE 0x0543 ''Coprocessor'' ''Coprocessor'',
     dev_entry 0x10DE 0x0543 ''Coprocessor'' ''Coprocessor'',
     dev_entry 0x10DE 0x0548 ''ENE0100'' ''ENE0100c'',
     dev_entry 0x10DE 0x054c ''MCP67'' ''MCP67 Ethernet Vista'',
     dev_entry 0x10DE 0x0550 ''MCP67'' ''MCP67 SATA Controller(IDE mode)'',
     dev_entry 0x10DE 0x0554 ''MCP67'' ''MCP67 AHCI'',
     dev_entry 0x10DE 0x0555 ''MCP67'' ''MCP67 AHCI'',
     dev_entry 0x10DE 0x0556 ''MCP67'' ''MCP67 AHCI'',
     dev_entry 0x10DE 0x0558 ''MCP67'' ''MCP67 RAID'',
     dev_entry 0x10DE 0x0559 ''MCP67'' ''MCP67 RAID'',
     dev_entry 0x10DE 0x055A ''MCP67'' ''MCP67 RAID'',
     dev_entry 0x10DE 0x0560 ''MCP67'' ''MCP67 PATA Controller'',
     dev_entry 0x10DE 0x056C ''MCP73'' ''MCP73 PATA'',
     dev_entry 0x10DE 0x05E0 ''GT200b'' ''GeForce GTX 295'',
     dev_entry 0x10DE 0x05E1 ''GT200'' ''NVIDIA GeForce GTX 280'',
     dev_entry 0x10DE 0x05E2 ''GT200'' ''NVIDIA GeForce GTX 260'',
     dev_entry 0x10DE 0x05E3 ''GT200b'' ''GeForce GTX 285'',
     dev_entry 0x10DE 0x05E6 ''GT200'' ''NVIDIA GeForce GT 240M'']"

end
