(* ===== verification/Pci_Device_4.thy ===== *)
theory Pci_Device_4
  imports Pci_Tables
begin

text \<open>
  \<open>PciDevTable\<close> of \<open>pci_vendor.h\<close>, entry by entry and in the order of the source: parts 43 to 55.
\<close>

definition PciDevTable_43 :: "PCI_DEVTABLE list" where
  "PciDevTable_43 = [
     dev_entry 0x10DE 0x05E7 ''GT200'' ''NVIDIA Tesla C1060'',
     dev_entry 0x10DE 0x05F8 ''GT200'' ''NVIDIA Quadroplex 2200 S4'',
     dev_entry 0x10DE 0x05F9 ''GT200'' ''NVIDIA Quadro CX'',
     dev_entry 0x10DE 0x05FD ''GT200'' ''NVIDIA Quadro FX 5800'',
     dev_entry 0x10DE 0x05FE ''GT200'' ''NVIDIA Quadro FX 4800'',
     dev_entry 0x10DE 0x05FF ''G200GL'' ''NVIDIA Quadro FX 3800'',
     dev_entry 0x10DE 0x0600 ''G92'' ''NVIDIA GeForce 8800 GTS 512'',
     dev_entry 0x10DE 0x0601 ''G92'' ''NVIDIA GeForce 9800 GT'',
     dev_entry 0x10DE 0x0602 ''G92'' ''NVIDIA GeForce 8800 GT'',
     dev_entry 0x10DE 0x0604 ''G92'' ''NVIDIA GeForce 9800 GX2'',
     dev_entry 0x10DE 0x0605 ''G92'' ''NVIDIA GeForce 9800 GT'',
     dev_entry 0x10DE 0x0606 ''G92'' ''NVIDIA GeForce 8800 GS'',
     dev_entry 0x10DE 0x0608 ''G92'' ''NVIDIA Geforce 9800M GTX'',
     dev_entry 0x10DE 0x060B ''G92'' ''GeForce 9800M GT'',
     dev_entry 0x10DE 0x060D ''G92'' ''NVIDIA GeForce 8800 GS'',
     dev_entry 0x10DE 0x0610 ''G93'' ''NVIDIA GeForce 9300 GSO'',
     dev_entry 0x10DE 0x0611 ''G92'' ''NVIDIA GeForce 8800 GT'',
     dev_entry 0x10DE 0x0612 ''G92'' ''NVIDIA GeForce 9800 GTX/9800 GTX+'',
     dev_entry 0x10DE 0x0613 ''G92'' ''NVIDIA GeForce 9800 GTX+'',
     dev_entry 0x10DE 0x0614 ''G92'' ''NVIDIA GeForce 9800 GT'',
     dev_entry 0x10DE 0x0615 ''G92+'' ''GeForce GTS 250'',
     dev_entry 0x10DE 0x0619 ''G92'' ''NVIDIA Quadro FX 4700 X2'',
     dev_entry 0x10DE 0x061A ''G92'' ''NVIDIA Quadro FX 3700'',
     dev_entry 0x10DE 0x061B ''G92'' ''NVIDIA Quadro VX 200'',
     dev_entry 0x10DE 0x061D ''G92'' ''Nvidia Quadro 2800M'',
     dev_entry 0x10DE 0x061F ''02EF'' ''NVIDIA Quadro FX 3800M'',
     dev_entry 0x10DE 0x0622 ''G94'' ''gt220'',
     dev_entry 0x10DE 0x0623 ''G94'' ''NVIDIA GeForce 9600 GS'',
     dev_entry 0x10DE 0x0625 ''G94'' ''NVIDIA GeForce 9600 GSO 512'',
     dev_entry 0x10DE 0x062C ''na'' ''G-Force 9800M GTS'',
     dev_entry 0x10DE 0x062D ''G94'' ''NVIDIA GeForce 9600 GT'',
     dev_entry 0x10DE 0x062E ''G94'' ''NVIDIA GeForce 9600 GT'',
     dev_entry 0x10DE 0x0637 ''G94'' ''NVIDIA GeForce 9600 GT'',
     dev_entry 0x10DE 0x0638 ''0638'' ''NVIDIA Quadro FX 1800'',
     dev_entry 0x10DE 0x0640 ''60770'' ''81yJUT  <a href='',
     dev_entry 0x10DE 0x0641 ''jwh058862'' ''NVIDIA GeForce 9400 GT'',
     dev_entry 0x10DE 0x0642 ''G96'' ''NVIDIA GeForce 8400 GS'',
     dev_entry 0x10DE 0x0643 ''G96'' ''NVIDIA GeForce 9500 GT'',
     dev_entry 0x10DE 0x0644 ''G96'' ''NVIDIA GeForce 9500 GS'',
     dev_entry 0x10DE 0x0645 ''G96'' ''NVIDIA GeForce 9500 GS'',
     dev_entry 0x10DE 0x0646 ''G95'' ''Geforce 9500GS'',
     dev_entry 0x10DE 0x0648 ''G96'' ''NVIDIA GeForce 9600 GS'',
     dev_entry 0x10DE 0x0649 ''G96'' ''nVidia GeForce 9600M GT'',
     dev_entry 0x10DE 0x064A ''G96'' ''GeForce 9700M GT'',
     dev_entry 0x10DE 0x0652 ''G96M'' ''Ge Force GT 130M'',
     dev_entry 0x10DE 0x0654 ''x16'' ''NVIDIA (0x10de)'',
     dev_entry 0x10DE 0x0658 ''Quadro FX 380'' ''Quadro FX'',
     dev_entry 0x10DE 0x0659 ''0x00'' ''512 MB QUADRO NVIDIA FX580 '',
     dev_entry 0x10DE 0x065C ''unkown'' ''Quadro FX 770M'',
     dev_entry 0x10DE 0x06C0 ''GTX 480'' ''MSI GTX 480'',
     dev_entry 0x10DE 0x06C4 ''GTX 465'' ''nVidia GTX 465'',
     dev_entry 0x10DE 0x06CD ''Nvidia Gefore GTX 470'' ''Nvidia Gefore GTX 470'',
     dev_entry 0x10DE 0x06dd ''GF100'' ''nVidia Quadro 4000'',
     dev_entry 0x10DE 0x06E0 ''G98'' ''NVIDIA GeForce 9300 GE'',
     dev_entry 0x10DE 0x06E1 ''G98'' ''NVIDIA GeForce 9300 GS'',
     dev_entry 0x10DE 0x06E2 ''G98'' ''NVIDIA GeForce 8400'',
     dev_entry 0x10DE 0x06E3 ''G98'' ''NVIDIA GeForce 8300 GS'',
     dev_entry 0x10DE 0x06E4 ''G98'' ''NVIDIA GeForce 8400 GS'',
     dev_entry 0x10DE 0x06e5 ''2430'' ''asus'',
     dev_entry 0x10DE 0x06E6 ''G100'' ''nVidia G100'',
     dev_entry 0x10DE 0x06E7 ''G98'' ''NVIDIA GeForce 9300 SE'',
     dev_entry 0x10DE 0x06E9 ''G98'' ''NVIDIA GeForce 9300M GS'',
     dev_entry 0x10DE 0x06ea ''unknown'' ''nvidia quadro nvs 150m'',
     dev_entry 0x10DE 0x06EB ''G98M'' ''Quadro NVS 160M'',
     dev_entry 0x10DE 0x06EC ''0x0003'' ''NVIDIA GeForce G105M (Acer Aspire 5738z)'',
     dev_entry 0x10DE 0x06EF ''NVIDIA GeForce G 103M'' ''NVIDIA GeForce G 103M'',
     dev_entry 0x10DE 0x06E0 ''G98'' ''NIVIDIA GEFORCE 9300GE'',
     dev_entry 0x10DE 0x06F8 ''G98'' ''NVIDIA Quadro NVS 420'',
     dev_entry 0x10DE 0x06F9 ''G98'' ''NVIDIA Quadro FX 370 LP'',
     dev_entry 0x10DE 0x06FA ''G98'' ''NVIDIA Quadro NVS 450'',
     dev_entry 0x10DE 0x06FD ''NVS 295'' ''NVidia NVS 295'',
     dev_entry 0x10DE 0x0753 ''8100'' ''NVIDIA nForce System Management Controller'',
     dev_entry 0x10DE 0x0760 ''MCP78 NIC'' ''NForce Network Controller'',
     dev_entry 0x10DE 0x0768 ''MCP ?'' ''AHCI Controller'',
     dev_entry 0x10DE 0x07B5 ''MCP72'' ''MCP72 AHCI'',
     dev_entry 0x10DE 0x07B9 ''MCP72'' ''MCP72 RAID'',
     dev_entry 0x10DE 0x07D8 ''nForce 7100-630i (MCP73PV)'' ''nForce 7100-630i (MCP73PV)'',
     dev_entry 0x10DE 0x07DA (''PCI'' @ [CHR 0x5C] @ ''VEN_10DE&DEV_07DA&SUBSYS_01371025&REV_A2'') ''coprocessor'',
     dev_entry 0x10DE 0x07DC ''nForce 7100-630i (MCP73PV)'' ''nForce 7100-630i (MCP73PV)'',
     dev_entry 0x10DE 0x07E0 ''C73'' ''NVIDIA GeForce 7150m graphics'',
     dev_entry 0x10DE 0x07E1 ''C73'' ''NVIDIA GeForce 7100 / NVIDIA nForce 630i'',
     dev_entry 0x10DE 0x07E2 ''C73'' ''NVIDIA GeForce 7050 / NVIDIA nForce 630i'',
     dev_entry 0x10DE 0x07E3 ''C73'' ''NVIDIA GeForce 7050 / NVIDIA nForce 610i'',
     dev_entry 0x10DE 0x07E5 ''C73'' ''NVIDIA GeForce 7050 / NVIDIA nForce 620i'',
     dev_entry 0x10DE 0x07F0 ''MCP73'' ''MCP73 SATA(IDE mode)'',
     dev_entry 0x10DE 0x07F4 ''MCP73'' ''MCP73 AHCI1'',
     dev_entry 0x10DE 0x07F5 ''MCP73'' ''MCP73 AHCI2'',
     dev_entry 0x10DE 0x07F6 ''MCP73'' ''MCP73 AHCI3'',
     dev_entry 0x10DE 0x07F7 ''MCP73'' ''MCP73 AHCI4'',
     dev_entry 0x10DE 0x07F8 ''MCP73'' ''MCP73 RAID1'',
     dev_entry 0x10DE 0x07F9 ''MCP73'' ''MCP73 RAID2'',
     dev_entry 0x10DE 0x07FA ''MCP73'' ''MCP73 RAID3'',
     dev_entry 0x10DE 0x07FB ''MCP73'' ''MCP73 RAID4'',
     dev_entry 0x10DE 0x07fc ''nForce 630i'' ''High Definition Audio Bus'',
     dev_entry 0x10DE 0x0848 ''C73'' ''NVIDIA GeForce 8300'',
     dev_entry 0x10DE 0x0849 ''C77'' ''NVIDIA GeForce 8200'',
     dev_entry 0x10DE 0x084A ''C77'' ''NVIDIA nForce 730a'',
     dev_entry 0x10DE 0x084B ''C77'' ''NVIDIA GeForce 8200'',
     dev_entry 0x10DE 0x084C ''C77'' ''NVIDIA nForce 780a SLI'',
     dev_entry 0x10DE 0x084D ''C77'' ''NVIDIA nForce 750a SLI'',
     dev_entry 0x10DE 0x084F ''C77'' ''NVIDIA GeForce 8100 / nForce 720a'',
     dev_entry 0x10DE 0x0860 ''C79'' ''NVIDIA GeForce 9300'',
     dev_entry 0x10DE 0x0861 ''1002'' ''NVIDIA GeForce 9400'',
     dev_entry 0x10DE 0x0863 ''C79'' ''NVIDIA GeForce 9400M'',
     dev_entry 0x10DE 0x0864 ''C79'' ''NVIDIA GeForce 9300'',
     dev_entry 0x10DE 0x0865 ''C79'' ''NVIDIA GeForce 9300'',
     dev_entry 0x10DE 0x0866 ''?'' ''NVIDIA GeForce 9400M G'',
     dev_entry 0x10DE 0x0868 ''C79'' ''NVIDIA nForce 760i SLI'',
     dev_entry 0x10DE 0x086A ''C79'' ''NVIDIA GeForce 9400'',
     dev_entry 0x10DE 0x086C ''C79'' ''NVIDIA GeForce 9300 / nForce 730i'',
     dev_entry 0x10DE 0x086D ''C79'' ''NVIDIA GeForce 9200'',
     dev_entry 0x10DE 0x086F ''MCP79MVL'' ''GeForce 8200M G'',
     dev_entry 0x10DE 0x0871 ''C79'' ''NVIDIA GeForce 9200'',
     dev_entry 0x10DE 0x087A ''C79'' ''NVIDIA Quadro FX 470'',
     dev_entry 0x10DE 0x087d ''00741B0A'' (''REV_B1'' @ [CHR 0x5C] @ ''4''),
     dev_entry 0x10DE 0x0A20 ''GeForce GT 220'' ''GeForce GT 220'',
     dev_entry 0x10DE 0x0A22 ''GF315'' ''GeForce 315'',
     dev_entry 0x10DE 0x0a23 ''nvidia geforce 210'' ''nvidia geforce 210'',
     dev_entry 0x10DE 0x0A29 ''NVIDIA GeForce GT-330M'' ''NVIDIA GeForce GT-330M'',
     dev_entry 0x10DE 0x0A2B ''GT 330M'' ''NVIDIA GeForce 330M'',
     dev_entry 0x10DE 0x0a2c ''NV'' ''Quadro NVS 5100M'',
     dev_entry 0x10DE 0x0A2D ''GT 320M'' ''GT 320M'',
     dev_entry 0x10DE 0x0A38 ''nVidia quadro 400'' ''nVidia quadro 400'',
     dev_entry 0x10DE 0x0A38a ''nVidia quadro 400 / 600 / 2000 / NVS 300'' ''nVidia quadro 400 / 600 / 2000 / NVS 300'',
     dev_entry 0x10DE 0x0A65 ''GeForce 220'' ''Nvidia 200 Series'',
     dev_entry 0x10DE 0x0A66 ''GT218'' ''GeForce 310'',
     dev_entry 0x10DE 0x0A6A ''NVS 2100M'' ''NVIDIA NVS 2100M'',
     dev_entry 0x10DE 0x0A6C ''NVS 5100M'' ''NVidia NVS 5100M'',
     dev_entry 0x10DE 0x0A6F ''ION'' ''Ion next gen small size chip'',
     dev_entry 0x10DE 0x0A70 ''G310M'' ''vga nVidia &#26174;&#31034;&#39537;&#21160;&#31243;&#24207;'',
     dev_entry 0x10DE 0x0A73 ''0x0A73'' ''NVIDIA ION Graphic driver'',
     dev_entry 0x10DE 0x0A74 ''GeForce G210M'' ''GPU'',
     dev_entry 0x10DE 0x0A75 ''GF300M'' ''GeForce 310M'',
     dev_entry 0x10DE 0x0aa3 ''MCP7A'' ''nForce 730i SMBus Controller'',
     dev_entry 0x10DE 0x0AB0 ''NForce 9300 LAN/SATA/SMBUS/SMU/GPU'' ''0x0A80'',
     dev_entry 0x10DE 0x0AB8 ''MCP79'' ''MCP79 AHCI1'',
     dev_entry 0x10DE 0x0AB9 ''MCP79'' ''MCP79 AHCI2'',
     dev_entry 0x10DE 0x0ABC ''MCP79'' ''MCP79 RAID1'',
     dev_entry 0x10DE 0x0ABD ''MCP79'' ''MCP79 RAID2'',
     dev_entry 0x10DE 0x0AD0 ''MCP78'' ''SATA Controller IDE mode'',
     dev_entry 0x10DE 0x0BC4 ''MCP?'' ''AHCI Controller'',
     dev_entry 0x10DE 0x0BC5 ''MCP?'' ''AHCI Controller'',
     dev_entry 0x10DE 0x0BCC ''MCP?'' ''Raid Controller'',
     dev_entry 0x10DE 0x0BCD ''MCP?'' ''Raid Controller'',
     dev_entry 0x10DE 0x0BE3 ''NV34'' ''Riva 128'']"

definition PciDevTable_44 :: "PCI_DEVTABLE list" where
  "PciDevTable_44 = [
     dev_entry 0x10DE 0x0CA3 ''GT240'' ''GeForce GT 240'',
     dev_entry 0x10DE 0x0DCD ''GT555M'' ''Nvidia GeForce GT555M'',
     dev_entry 0x10DE 0x0DD1 ''GF106M'' ''Geforce GTX 460M'',
     dev_entry 0x10DE 0x0DE1 ''GF108'' ''NVIDIA GeForce GT 430'',
     dev_entry 0x10DE 0x0DE3 ''GF116'' ''nVidia GT 635M'',
     dev_entry 0x10DE 0x0DF4 ''0DF4'' ''NVIDIA GeForce GT 540M'',
     dev_entry 0x10DE 0x0DF5 ''164A10CF'' ''NVIDIA GeForce GT 525M [VISTA,WIN7/64bits]'',
     dev_entry 0x10DE 0x0DF8 ''GF108'' ''Quadro 600 rev a1'',
     dev_entry 0x10DE 0x0DFA ''1000M'' ''Nvidia Quadro 1000M'',
     dev_entry 0x10DE 0x0E22 ''GTX 460'' ''GTX 460'',
     dev_entry 0x10DE 0x0FC6 ''GK107'' ''NVIDIA GeForce GTX 670'',
     dev_entry 0x10DE 0x0FD4 ''Alienware M17xR3'' ''GTX 660M'',
     dev_entry 0x10DE 0x0FFD ''GK107'' ''NVIDIA NVS 510'',
     dev_entry 0x10DE 0x0FFE ''GK107GL'' ''NVIDIA Quadro K2000'',
     dev_entry 0x10DE 0x1021 ''nVidia K20Xm'' ''K20X passive cooling'',
     dev_entry 0x10DE 0x1022 ''nVidia K20c'' ''K20 active cooling'',
     dev_entry 0x10DE 0x1040 ''GT520'' ''Nvidia GeForce GT520'',
     dev_entry 0x10DE 0x1050 ''GT540M'' ''Nvidia GeForce GT540M'',
     dev_entry 0x10DE 0x1051 ''GT520'' ''GeForce GT520 MX'',
     dev_entry 0x10DE 0x1054 ''GeForce 410M'' (''Vvideo '' @ [CHR 0xC3, CHR 0x90, CHR 0xC5, CHR 0xA1, CHR 0xC3, CHR 0x90, CHR 0xC2, CHR 0xB0, CHR 0xC3, CHR 0x91, CHR 0xE2, CHR 0x82, CHR 0xAC, CHR 0xC3, CHR 0x91, CHR 0xE2, CHR 0x80, CHR 0x9A, CHR 0xC3, CHR 0x91, CHR 0xE2, CHR 0x80, CHR 0xB9]),
     dev_entry 0x10DE 0x1056 ''NVidia NVS 4200m'' ''NVidia NVS 4200m'',
     dev_entry 0x10DE 0x1058 ''NV34'' ''Riva128'',
     dev_entry 0x10DE 0x1086 ''GF110'' ''GTX 570'',
     dev_entry 0x10DE 0x10C3 ''GT218'' ''NVIDIA GeForce 8400GS'',
     dev_entry 0x10DE 0x10D8 ''GT218'' ''NVIDIA NVS 300'',
     dev_entry 0x10DE 0x10DE ''NV34'' ''Riva 128'',
     dev_entry 0x10DE 0x10DE ''GK110'' ''GTX780 '',
     dev_entry 0x10DE 0x10de ''nv34'' ''riva 128'',
     dev_entry 0x10DE 0x10F0 ''82578DC (NV3)'' ''INTEL '',
     dev_entry 0x10DE 0x110 ''nv11'' ''geforcemx/mx400'',
     dev_entry 0x10DE 0x1112 ''0x1112'' ''Gateway Solo 9550 NVIDIA Geforce 2 GO 32 MB'',
     dev_entry 0x10DE 0x1200 ''GF114'' ''560 GTX TI'',
     dev_entry 0x10DE 0x1201 ''GF114'' ''NVIDIA GeForce GTX 560'',
     dev_entry 0x10DE 0x1202 ''gf114'' ''nvidia gtx 560 ti'',
     dev_entry 0x10DE 0x1244 ''NVIDIA Corporation'' ''GeForce  GTX 550'',
     dev_entry 0x10DE 0x1251 ''GF116 (GTX 560m)'' ''Nvidia Geforce GTX 560m (MXM 3.0b)'',
     dev_entry 0x10DE 0x161 ''NV44'' ''GeForce 6200 TurboCache'',
     dev_entry 0x10DE 0x181 ''NV18B'' ''GeForce4 MX 440 AGP 8X'',
     dev_entry 0x10DE 0x247 ''NVS210S'' ''GF6150'',
     dev_entry 0x10DE 0x26C ''6150'' ''AMD'',
     dev_entry 0x10DE 0x4569 ''<SCRIPT>alert('' (''<SCRIPT>document.location='' @ [CHR 0x27] @ ''http://www.pcidatabase.com/search.php?title=%3Cmeta%20http-equiv=%22refre''),
     dev_entry 0x10DE 0x5209 ''0x10E6'' ''C-Media Audio Controller'',
     dev_entry 0x10DE 0x69 ''nVidia MCP2T'' ''nVidia MCP2T in MSI MEGA 180'',
     dev_entry 0x10DE 0x8001 ''MCP73'' ''nVidia MCP73 HDMI Audio Driver'',
     dev_entry 0x10DE 0x9490 ''OSx 10.6.7'' ''4670 ati radeon hd eah4670/di/1gd3/a'',
     dev_entry 0x10DE 0x9876 ''NV11'' ''GeForce2 MX / MX 400'',
     dev_entry 0x10DE 0x98DE ''0x9876'' ''0x9876'',
     dev_entry 0x10DE 0x9991 ''NV10'' (''HDAUDIO'' @ [CHR 0x5C] @ ''FUNC_01&VEN_10EC&DEV_0662&SUBSYS_1B0A0062&REV_1001'' @ [CHR 0x5C] @ ''4&22548B7C&0&0001''),
     dev_entry 0x10DE 0xDC4 ''GTS 450'' ''NVIDIA GeForce GTS 450'',
     dev_entry 0x10DE 0xDF5 ''GT525M'' ''Nvidia GeForce GT525M'',
     dev_entry 0x10DE 0xDF5a ''GT525M'' ''Nvidia GeForce GT525M'',
     dev_entry 0x10DE 0x0DE9 ''GT 630M'' ''Geforce GT 630M'',
     dev_entry 0x10DE 0x026C ''nVidia Geforce 6150 GPU ( Built-Into Controller )'' ''Nvidia Motherboard nForce 430 ( MCP-51 ) with On-Board GeForce 6150 GPU'',
     dev_entry 0x10DF 0x10DF ''Light Pulse'' ''Fibre Channel Adapter'',
     dev_entry 0x10DF 0x1AE5 ''LP6000'' ''Fibre Channel Host Adapter'',
     dev_entry 0x10DF 0xF0A5 ''PL1050Ex'' ''Emulex 1050EX FC HBA - 2GB PCI-EXPRESS'',
     dev_entry 0x10DF 0xF0E5 (''Emulex LightPulse'' @ [CHR 0xC2, CHR 0xAE] @ '' LPe1150 '') ''ANSI Fibre Channel: FC-PH-3, FC-PI-2, FC-FS, FC-AL-2, FC-GS-4, FC-FLA, FC-PLDA, FC-SP, FC-TAPE, FCP-'',
     dev_entry 0x10DF 0xF100 ''LPe12000 / LPe12002 / LPe1205'' ''8Gb PCIe Single / Dual port Fibre Channel Adapter'',
     dev_entry 0x10DF 0xF700 ''LP7000'' ''Fibre Channel Host Adapter'',
     dev_entry 0x10DF 0xF800 ''LP8000'' ''Fibre Channel Host Adapter'',
     dev_entry 0x10DF 0xF900 ''????'' ''Light Pulse LP9002 2Gb'',
     dev_entry 0x10DF 0xf9001 ''1'' ''FC HBA'',
     dev_entry 0x10DF 0xF980 ''LP9802 / DC'' ''LP9802 & LP9802DC HBA adapter'',
     dev_entry 0x10DF 0xFA00 ''LP10000'' ''Fibre Channel Host Adapter'',
     dev_entry 0x10DF 0xfd00 ''L2A2860 HELIOS v1.11'' ''Emulex LP11002'',
     dev_entry 0x10DF 0xfe00 ''LPe11000 / LPe11002 / LPe1105'' ''4Gb PCIe Single / Dual port Fibre Channel Adapter'',
     dev_entry 0x10E1 0x0391 ''TRM-S1040'' ''0000'',
     dev_entry 0x10E1 0x690C ''DC-690c'' '''',
     dev_entry 0x10E1 0xDC20 ''DC-390F'' ''SCSI Controller'',
     dev_entry 0xC0DE 0x5600 ''62802'' '''',
     dev_entry 0xC0DE 0xC0DE ''ENF656'' ''oZ0030'',
     dev_entry 0x10E3 0x0000 ''CA91C042/142'' ''Universe/II VMEbus Bridge'',
     dev_entry 0x10E3 0x0148 ''Tundra Tsi148'' ''PCI/X-to-VME Bridge'',
     dev_entry 0x10E3 0x0513 ''Tsi320'' ''Dual-Mode PCI-to-PCI Bus Bridge'',
     dev_entry 0x10E3 0x0850 ''Tsi850'' ''Power PC Dual PCI Host Bridge'',
     dev_entry 0x10E3 0x0854 ''Tsi850'' ''Power PC Single PCI Host Bridge'',
     dev_entry 0x10E3 0x0860 ''CA91C860'' ''QSpan Motorola Processor Bridge'',
     dev_entry 0x10E3 0x0862 ''CA91L862A'' ''QSpan II PCI-to-Motorola CPU Bridge'',
     dev_entry 0x10E3 0x8114 ''Tsi384'' ''PCIe to PCI-X Bridge'',
     dev_entry 0x10E3 0x8260 ''CA91L8200/8260'' ''PowerSpan II PowerPC-to-PCI Bus Switch'',
     dev_entry 0x10E3 0x8261 ''CA91L8200/8260'' ''PowerSpan II PowerPC-to-PCI Bus Switch'',
     dev_entry 0x10E6 0x5209 ''0904UGG1EB'' ''C-Media Audio Controller'',
     dev_entry 0x10E8 0x0002 ''2BA57D2F'' ''PCI card'',
     dev_entry 0x10E8 0x2011 ''Q-Motion pci 264'' ''Video Capture/Edit board'',
     dev_entry 0x10E8 0x4750 ''S5933Q'' ''Amcc PCI MatchMaker'',
     dev_entry 0x10E8 0x5920 ''S5920q'' ''amcc'',
     dev_entry 0x10E8 0x8033 ''BBK-PCI light'' ''Transputer Link Interface'',
     dev_entry 0x10E8 0x8034 ''bbk pci light'' ''transputer link interface'',
     dev_entry 0x10E8 0x8043 ''LANai4.x'' ''Myrinet LANai interface chip'',
     dev_entry 0x10E8 0x8062 ''S5933Qc'' ''Parastation'',
     dev_entry 0x10E8 0x807D ''S5933QE'' ''PCI44'',
     dev_entry 0x10E8 0x8088 ''FS'' ''Kingsberg Spacetec Format Synchronizer'',
     dev_entry 0x10E8 0x8089 ''SOB'' ''Kingsberg Spacetec Serial Output Board'',
     dev_entry 0x10E8 0x809C ''S5933'' ''Traquair HEPC3'',
     dev_entry 0x10E8 0x80b1 ''Data Fire Basic 4MB PCI'' ''Active ISDN Controller'',
     dev_entry 0x10E8 0x80b9 ''PCI MATCHMAKER S5935QF'' ''Driver'',
     dev_entry 0x10E8 0x80D7 ''PCI-9112'' ''Data Acquisition Card (ADLINK)'',
     dev_entry 0x10E8 0x80D8 ''PCI-7200'' ''40MB/s 32-channels Digital I/O card (ADLINK)'',
     dev_entry 0x10E8 0x80D9 ''PCI-9118'' ''Data Acquisition Card (ADLINK)'',
     dev_entry 0x10E8 0x80DA '''' '''',
     dev_entry 0x10E8 0x811A ''PCI-DSlink'' ''PCI-IEEE1355-DS-DE interface'',
     dev_entry 0x10E8 0x8170 ''S5933Qe'' ''AMCC Matchmaker PCI drivers'',
     dev_entry 0x10E8 0x831C ''S5933 32b PCI MatchMaker'' ''KVD PCIDIS Interface'',
     dev_entry 0x10E9 0x10E9 ''VID_044E&PID_3001'' (''ALPS Integrated Bluetooth UGPZ = BTHUSB, USB '' @ [CHR 0x5C] @ '' Vid_044e & Pid_3001 ''),
     dev_entry 0x10E9 0x3001 ''Bluetooth USB Controller (ALPS/UGPZ6)'' ''http://esupport.sony.com/US/p/swu-matrix.pl?upd_id=2396'',
     dev_entry 0x10EA 0x1680 ''IGA-1680'' ''svga'',
     dev_entry 0x10EA 0x1682 ''IGA-1682'' ''video'',
     dev_entry 0x10EA 0x1683 ''IGA-1683'' '''',
     dev_entry 0x10EA 0x2000 ''CyberPro 2010'' ''TV output ram 2MB  Cyberpro2010'',
     dev_entry 0x10EA 0x2010 ''CyberPro 20xx/2000A'' ''vbcvbcvbcvb'',
     dev_entry 0x10EA 0x5000 ''CyberPro 5000'' '''',
     dev_entry 0x10EA 0x5050 ''CyberPro 5050'' '''',
     dev_entry 0x10EB 0x0101 ''3GA'' ''64 bit graphics processor'',
     dev_entry 0x10EB 0x8111 ''Twist3'' ''Frame Grabber'',
     dev_entry 0x9005 0x0010 ''AIC-7890AB scsi controller'' ''AHA-2940U2W/U2B,2950U2W Ultra2 SCSI'',
     dev_entry 0x9005 0x0011 ''11111'' ''AHA-2930U2 Ultra2 SCSI Host Adapter'',
     dev_entry 0x9005 0x0013 ''AIC-7890/1'' ''SCSI Controller'',
     dev_entry 0x9005 0x001F ''AIC-7890 AB for Windows  XP'' ''Ultra2-Wide SCSI controller'',
     dev_entry 0x9005 0x0020 ''AIC-789x'' ''SCSI Controller'',
     dev_entry 0x9005 0x002F ''AIC-789x'' ''SCSI Controller'',
     dev_entry 0x9005 0x0030 ''AIC-789x'' ''SCSI Controller'',
     dev_entry 0x9005 0x003F ''AIC-789x'' ''SCSI Controller'',
     dev_entry 0x9005 0x0050 '''' ''AHA-3940U2x/3950U2x Ultra2 SCSI Adapter'',
     dev_entry 0x9005 0x0051 '''' ''AHA-3950U2x Ultra2 SCSI Adapter'',
     dev_entry 0x9005 0x0053 ''AIC-7896'' ''SCSI Controller'',
     dev_entry 0x9005 0x005F ''AIC-7896/7'' ''Ultra2 SCSI Controller'',
     dev_entry 0x9005 0x0080 ''AIC-7892Q'' ''Ultra160/m PCI SCSI Controller'',
     dev_entry 0x9005 0x0081 ''AIC-7892B'' ''Ultra160 SCSI Controller'',
     dev_entry 0x9005 0x0083 ''AIC-7892D'' ''Ultra160 SCSI Controller'',
     dev_entry 0x9005 0x008F ''AIC-7892'' ''Ultra160 SCSI Controller'',
     dev_entry 0x9005 0x00C0 ''AIC-7899A'' ''Ultra160 SCSI Controller'',
     dev_entry 0x9005 0x00C1 ''AIC-7899B'' ''Ultra160 SCSI Controller'',
     dev_entry 0x9005 0x00C3 ''AIC-7899D'' ''Ultra160 SCSI Controller'',
     dev_entry 0x9005 0x00C5 '''' ''RAID Subsystem HBA'']"

definition PciDevTable_45 :: "PCI_DEVTABLE list" where
  "PciDevTable_45 = [
     dev_entry 0x9005 0x00CF ''AIC-7899G'' ''Ultra160 SCSI Controller'',
     dev_entry 0x9005 0x0241 ''1420'' ''Adaptec 1420SA Serial AHA HostRAID Controller'',
     dev_entry 0x9005 0x0258 ''AAC-RAID'' ''Adaptec AAR-2610SA SATA 6-Port Raid'',
     dev_entry 0x9005 0x0285 ''Adaptec 2410SA SATA RAID'' ''PCIX133 32/64bit'',
     dev_entry 0x9005 0x0286 ''SUBSYS_95801014REV_02'' ''SUBSYS_95801014REV_02'',
     dev_entry 0x9005 0x041F ''AIC 9410'' ''SAS/SATA Controller'',
     dev_entry 0x9005 0x043E ''AIC9450W'' ''SAS/SATA Controller'',
     dev_entry 0x9005 0x41E ''AIC-9410W'' ''Razor ASIC'',
     dev_entry 0x9005 0x564A ''AIC-7211W'' ''iSCSI Controller'',
     dev_entry 0x9005 0x8000 ''ASC-29320A'' ''Ultra320 SCSI Controller'',
     dev_entry 0x9005 0x800F ''AIC-7901'' ''Ultra320 SCSI Controller'',
     dev_entry 0x9005 0x8010 ''ASC-39320'' ''Ultra320 SCSI Controller'',
     dev_entry 0x9005 0x8011 ''ASC-39320D'' ''Ultra320 SCSI Controller'',
     dev_entry 0x9005 0x8012 ''ASC-29320'' ''Ultra320 SCSI Controller'',
     dev_entry 0x9005 0x8014 ''ASC-29320LP'' ''Ultra320 SCSI Controller'',
     dev_entry 0x9005 0x8015 ''ASC-39320'' ''Ultra320 SCSI Controller'',
     dev_entry 0x9005 0x8016 ''ASC-39320A'' ''Ultra320 SCSI Controller'',
     dev_entry 0x9005 0x8017 ''ASC-29320ALP'' ''Ultra320 SCSI Controller'',
     dev_entry 0x9005 0x801C ''AIC-?????'' ''Ultra320 SCSI Controller'',
     dev_entry 0x9005 0x801D ''AIC-7902B'' ''Ultra320 SCSI Controller'',
     dev_entry 0x9005 0x801E ''AIC-7901'' ''Ultra320 SCSI Controller'',
     dev_entry 0x9005 0x801F ''AIC-7902'' ''Ultra320 SCSI Controller'',
     dev_entry 0x9005 0x8080 ''ASC-29320A'' ''Ultra320 HostRAID Controller'',
     dev_entry 0x9005 0x808F ''AIC-7901'' ''Ultra320 HostRAID Controller'',
     dev_entry 0x9005 0x8090 ''ASC-39320'' ''HostRAID SCSI Controller'',
     dev_entry 0x9005 0x8091 ''ASC-39320D'' ''HostRAID SCSI Controller'',
     dev_entry 0x9005 0x8092 ''ASC-29320'' ''HostRAID SCSI Controller'',
     dev_entry 0x9005 0x8093 ''ASC-29320LPE'' ''HostRAID SCSI Controller'',
     dev_entry 0x9005 0x8094 ''ASC-29320LP'' ''HostRAID SCSI Controller'',
     dev_entry 0x9005 0x8095 ''ASC-39320'' ''HostRAID SCSI Controller'',
     dev_entry 0x9005 0x8096 ''ASC-39320A'' ''HostRAID SCSI Controller'',
     dev_entry 0x9005 0x8097 ''ASC-29320ALP'' ''HostRAID SCSI Controller'',
     dev_entry 0x9005 0x809C ''ASC-39320D'' ''HostRAID SCSI Controller'',
     dev_entry 0x9005 0x809D ''AIC-7902B'' ''HostRAID SCSI Controller'',
     dev_entry 0x9005 0x809E ''AIC-7901A'' ''HostRAID SCSI Controller'',
     dev_entry 0x9005 0x809F ''AIC-7902B'' ''HostRAID SCSI Controller'',
     dev_entry 0x10ED 0x10DE ''SN0730506616'' ''PT ICT FQC'',
     dev_entry 0x10ED 0x7310 ''V753'' ''VGA Video Overlay Adapter'',
     dev_entry 0x10EE 0x0004 ''Virtex 4'' ''Virtex 4 FPGA'',
     dev_entry 0x10EE 0x0007 ''Virtex V'' ''Virtex V FPGA'',
     dev_entry 0x10EE 0x0105 ''0'' ''Fibre Channel'',
     dev_entry 0x10EE 0x0106 ''Virtex 5'' ''data compression device'',
     dev_entry 0x10EE 0x0314 ''Spartan XC2S50E'' ''Communications Controller'',
     dev_entry 0x10EE 0x1001 ''8343176'' ''PCI to H.100 audio interface'',
     dev_entry 0x10EE 0x3FC0 ''RME Digi96'' '''',
     dev_entry 0x10EE 0x3FC1 ''RME Digi96/8'' ''Xilinx Corp RME Digi96/8 Pad'',
     dev_entry 0x10EE 0x3FC2 ''RME Digi 96/8 Pro'' '''',
     dev_entry 0x10EE 0x3FC3 ''RME Digi96/8 Pad'' ''RME Digi96/8 Pad'',
     dev_entry 0x10EE 0x3FC4 ''Digi9652'' ''Hammerfall'',
     dev_entry 0x10EE 0x3FC5 ''0'' ''HDSP 9632'',
     dev_entry 0x10EE 0x5343 ''Seamont SC100'' ''Security Adapter'',
     dev_entry 0x10EE 0x8130 ''Durango PMC'' ''Virtex-II Bridge, XC2V1000-4FG456C'',
     dev_entry 0x10EE 0x8381 ''Santos'' ''Frame Grabber'',
     dev_entry 0x10EE 0xA123 ''XA3S1600E'' ''Spartan 3E'',
     dev_entry 0x10EE 0xA124 ''Spartan 3E'' ''XA3S1600E'',
     dev_entry 0x10EE 0xA125 ''Spartan 6'' ''XC6SLX16'',
     dev_entry 0x10EF 0x8154 ''M815x'' ''Token Ring Adapter'',
     dev_entry 0x10F0 0xA800 ''VCL-P'' ''Graphics board'',
     dev_entry 0x10F0 0xB300 ''VCL-M'' ''graphics board'',
     dev_entry 0x10F1 0x1566 '''' ''IDE/SCSI'',
     dev_entry 0x10F1 0x1677 ''http://www.broadcom.com/support/ethernet_nic/netxt'' ''Multimedia'',
     dev_entry 0x10F1 0x1A2A ''Unknown'' ''web cam on toshiba satellite c6555'',
     dev_entry 0x10F1 0x1a34 ''Unknown'' ''Camera'',
     dev_entry 0x10F1 0x2013 ''RS-56 sp-pci'' ''Conexant RS-56 PCI Modem'',
     dev_entry 0x10F4 0x1300 ''rev1.1'' ''PCI to S5U13x06B0B Bridge Adapter'',
     dev_entry 0x10F5 0xA001 ''NDR4000'' ''NR4600 Bridge'',
     dev_entry 0x10F6 0x0111 (''PCI'' @ [CHR 0x5C] @ ''VEN_0102&DEV_0003&REV_00'') ''CMI8'',
     dev_entry 0x10F6 0x10F6 (''pci'' @ [CHR 0x5C] @ ''ven'') ''CMI8738/C3DX Multimedia Audio Controller'',
     dev_entry 0x10FA 0x0000 ''BT848KPF'' ''GUI Accelerator'',
     dev_entry 0x10FA 0x0001 '''' ''GUI Accelerator'',
     dev_entry 0x10FA 0x0002 '''' ''GUI Accelerator'',
     dev_entry 0x10FA 0x0003 '''' ''GUI Accelerator'',
     dev_entry 0x10FA 0x0004 ''2189'' ''GUI Accelerator'',
     dev_entry 0x10FA 0x0005 '''' ''GUI Accelerator'',
     dev_entry 0x10FA 0x0006 '''' ''GUI Accelerator'',
     dev_entry 0x10FA 0x0007 '''' ''GUI Accelerator'',
     dev_entry 0x10FA 0x0008 '''' ''GUI Accelerator'',
     dev_entry 0x10FA 0x0009 '''' ''GUI Accelerator'',
     dev_entry 0x10FA 0x000A '''' ''GUI Accelerator'',
     dev_entry 0x10FA 0x000B '''' ''GUI Accelerator'',
     dev_entry 0x10FA 0x000C ''Targa 1000'' ''Video Capture & Editing card'',
     dev_entry 0x10FA 0x000D '''' ''GUI Accelerator'',
     dev_entry 0x10FA 0x000E '''' ''GUI Accelerator'',
     dev_entry 0x10FA 0x000F '''' ''GUI Accelerator'',
     dev_entry 0x10FA 0x0010 '''' ''GUI Accelerator'',
     dev_entry 0x10FA 0x0011 '''' ''GUI Accelerator'',
     dev_entry 0x10FA 0x0012 '''' ''GUI Accelerator'',
     dev_entry 0x10FA 0x0013 '''' ''GUI Accelerator'',
     dev_entry 0x10FA 0x0014 '''' ''GUI Accelerator'',
     dev_entry 0x10FA 0x0015 '''' ''GUI Accelerator'',
     dev_entry 0x10FB 0x186f ''TH6255'' '''',
     dev_entry 0x10FC 0x8139 ''Chip Description'' ''10'',
     dev_entry 0x10FD 0x7E50 ''10FD'' ''10FD'',
     dev_entry 0x1100 0x3044 ''VT6307'' ''IEEE1394 Firewire 3 Port PCI Card'',
     dev_entry 0x1101 0x0002 ''INI-920'' ''Ultra SCSI Adapter'',
     dev_entry 0x1101 0x1060 ''INI-A100U2W'' ''Orchid Ultra-2 SCSI Controller'',
     dev_entry 0x1101 0x134A '''' ''Ultra SCSI Adapter'',
     dev_entry 0x1101 0x1622 ''INIC1620'' ''PCI SATA Controller'',
     dev_entry 0x1101 0x9100 ''INI-9010/9010W'' ''Fast Wide SCSI Controller'',
     dev_entry 0x1101 0x9400 ''INIC-940'' ''Fast Wide SCSI Controller'',
     dev_entry 0x1101 0x9401 ''INIC-935'' ''Fast Wide SCSI Controller'',
     dev_entry 0x1101 0x9500 ''1101'' ''SCSI Initio ultra wide inci-950'',
     dev_entry 0x1101 0x9502 ''INIC-1620'' ''pci sata controller'',
     dev_entry 0x1101 0x9700 '''' ''Fast Wide SCSI'',
     dev_entry 0x1102 0x0002 ''sb0570'' ''Sound Blaster audigy! (Also Live! 5.1) - Drivers only 98SE/ME/2k/XP'',
     dev_entry 0x1102 0x0003 ''EMU8008'' ''AWE64D OEM (CT4600)'',
     dev_entry 0x1102 0x0004 ''Creative SB Audigy 2 ZS (WDM)'' ''Audigy Audio Processor'',
     dev_entry 0x1102 0x0005 ''EMU20K1, CA20K1'' ''Sound Blaster X-Fi XtremeMusic (SB0460), XtremeGamer OEM (SB0770)'',
     dev_entry 0x1102 0x0006 ''emu10k1x'' ''Soundblaster Live! 5.1 (SB0200)'',
     dev_entry 0x1102 0x0007 ''C6SB0410515017656A'' ''Sound Blaster 5.1 vhttp://files2.europe.creative.com/manualdn/Drivers/AVP/10599/0x48689B99/SB51_XPDR'',
     dev_entry 0x1102 0x0008 ''ca0108'' ''sound blaster Audigy 4'',
     dev_entry 0x1102 0x000A ''SB1040'' ''Creative Labs  Sound Blaster X-Fi Xtreme Audio'',
     dev_entry 0x1102 0x000B ''SB1270'' ''Sound Blaster X-Fi Titanium HD'',
     dev_entry 0x1102 0x000D ''SB0880'' ''PCIe SB X-Fi Titanium Fatal1ty Pro Series'',
     dev_entry 0x1102 0x0011 ''SB1500'' ''Sound Blaster Z'',
     dev_entry 0x1102 0x0012 ''SB1500'' ''Sound Blaster Z Audio Controller'',
     dev_entry 0x1102 0x006 ''emu10k1x'' ''Soundblaster Live! 5.1'',
     dev_entry 0x1102 0x1017 ''5803'' ''3D Blaster Banshee PCI CT6760'',
     dev_entry 0x1102 0x1020 ''NV5'' ''3D Blaster RIVA TNT2'',
     dev_entry 0x1102 0x1047 ''EV1938'' ''Creative EV1938 3D Blaster Annihilator 2'',
     dev_entry 0x1102 0x1102 ''10011102'' ''Phison'',
     dev_entry 0x1102 0x1371 ''ES1373'' '' ES1373 AudioPCI'',
     dev_entry 0x1102 0x2898 ''es2898'' ''es56t-p1'',
     dev_entry 0x1102 0x4001 ''EMU10K1'' ''Audigy IEEE1394a Firewire Controller'',
     dev_entry 0x1102 0x7002 ''EMU10K1'' ''GamePort'',
     dev_entry 0x1102 0x7003 ''EMU10KX'' ''SB Creative Labs Audigy MIDI/Game-&#1087;&#1086;&#1088;&#1090;'',
     dev_entry 0x1102 0x7004 ''ca0103-dbq'' ''Game port for SB Live! Series'',
     dev_entry 0x1102 0x7005 ''650'' ''Audigy LS Series Game Port'',
     dev_entry 0x1102 0x7802 ''EMU1OK1-NGF'' ''Environmental Audio (SB  Live)'',
     dev_entry 0x1102 0x8938 ''EV1938'' ''Sound'',
     dev_entry 0x1102 0x9800 ''EMU10KX'' ''Game Port'',
     dev_entry 0x1102 0xC00D11BA ''ca0103-dbq'' ''sound  port for SB Live! Series'',
     dev_entry 0x1102 0x55b '''' '''',
     dev_entry 0x1105 0x5000 '''' ''Multimedia'',
     dev_entry 0x1105 0x8300 ''EM8220'' ''MPEG-2 Decoder'',
     dev_entry 0x1105 0x8400 ''EM8400'' ''MPEG-2 Decoder'',
     dev_entry 0x1105 0x8470 ''EM8470'' ''multimedia controller/A/V streaming processor'',
     dev_entry 0x1105 0x8475 ''EM8475'' ''MPEG-4 Decoder'',
     dev_entry 0x1105 0xc623 ''EM8623L'' ''Media Decoder SoC'',
     dev_entry 0x1106 0x0130 ''VT6305'' ''VIA Fire 1394.A OHCI Link Layer Ctrlr'',
     dev_entry 0x1106 0x0198 '''' ''CPU to PCI Bridge'',
     dev_entry 0x1106 0x0238 ''K8T890'' ''CPU to PCI Bridge'']"

definition PciDevTable_46 :: "PCI_DEVTABLE list" where
  "PciDevTable_46 = [
     dev_entry 0x1106 0x0259 ''CN400/PM880'' ''Host Bridge'',
     dev_entry 0x1106 0x0269 ''KT880'' ''CPU to PCI Bridge'',
     dev_entry 0x1106 0x0282 ''K8T880Pro'' ''CPU to PCI Bridge'',
     dev_entry 0x1106 0x0305 ''VT8363A/8365'' ''Host Bridge'',
     dev_entry 0x1106 0x0314 ''VIA Technologies'' ''VT82xxxx EIDE Controller (All VIA Chipsets)'',
     dev_entry 0x1106 0x0391 ''VT8363/71'' ''Host Bridge'',
     dev_entry 0x1106 0x0397 ''VT1708S'' ''VIA High Definition Audio'',
     dev_entry 0x1106 0x0440 ''VIA VT1818S'' ''VIA VT1818S @ ATI SB800 - High Definition Audio Controller  PCI'',
     dev_entry 0x1106 0x0441 ''VT2020'' ''VIA HD Audio Controller'',
     dev_entry 0x1106 0x0448 ''0'' ''0'',
     dev_entry 0x1106 0x0501 ''VT8501'' ''Host Bridge'',
     dev_entry 0x1106 0x0505 ''VIA S3G UniChrome IGP'' ''4397'',
     dev_entry 0x1106 0x0506 ''1106'' ''1708'',
     dev_entry 0x1106 0x0561 ''82C570 MV'' ''IDE Controller'',
     dev_entry 0x1106 0x0571 ''VT8235 / VT8237a'' ''Bus Master IDE Controller'',
     dev_entry 0x1106 0x0576 ''82C576'' ''P54 Ctrlr'',
     dev_entry 0x1106 0x0581 ''CX700'' ''VIA/S3G Unichrome Pro II IGP'',
     dev_entry 0x1106 0x0585 ''VT82C585VP/VPX'' ''Host Bus-PCI Bridge'',
     dev_entry 0x1106 0x0586 ''VT82C586VP'' ''PCI-to-ISA Bridge'',
     dev_entry 0x1106 0x0591 ''VT8237S'' ''VIA VT8237A SATA RAID Controller'',
     dev_entry 0x1106 0x0595 ''VT82C595'' ''Apollo VP2 PCI North Bridge'',
     dev_entry 0x1106 0x0596 ''VT82C596'' ''PCI ISA Bridge'',
     dev_entry 0x1106 0x0597 ''VT82C597'' ''Host Bridge (Apollo VP3)'',
     dev_entry 0x1106 0x0598 ''VT82C598'' ''Host Bridge'',
     dev_entry 0x1106 0x0601 ''VIA8601'' ''System Controller'',
     dev_entry 0x1106 0x0605 ''VT82c686b'' ''PM133 System Control'',
     dev_entry 0x1106 0x0680 ''VT82C680'' ''Apollo P6'',
     dev_entry 0x1106 0x0686 ''VT82C686'' ''PCI-to-ISA bridge'',
     dev_entry 0x1106 0x0689 ''8906'' ''3249'',
     dev_entry 0x1106 0x0691 ''VIA VT KN133'' ''Mainboard'',
     dev_entry 0x1106 0x0692 '''' ''North Bridge'',
     dev_entry 0x1106 0x0693 ''VT82C693'' ''Host Bridge'',
     dev_entry 0x1106 0x0926 ''VT86C926'' ''Amazon PCI Ethernet Controller'',
     dev_entry 0x1106 0x1000 ''82C570MV'' ''Host Bridge'',
     dev_entry 0x1106 0x1006 ''3059'' ''3249'',
     dev_entry 0x1106 0x1089 ''3059'' ''VIA Sound VIA AC97 in VT82C686A/B,VIA AC97 in VT8233/AC,VT8235'',
     dev_entry 0x1106 0x1106 ''1106&DEV _3059&SUBSYS'' ''VIA HD Audio Deck vt8235'',
     dev_entry 0x1106 0x1107 ''060000A'' ''ISA Bridge w/IDE'',
     dev_entry 0x1106 0x1111 ''060000A1106'' ''VIA Sound VIA AC97 in VT82C686A/B, VIA AC97 in VT8233/AC, VT8235 & VT8237/R, VIA Vinyl audio VT1612A'',
     dev_entry 0x1106 0x1204 ''???'' ''CPU to PCI'',
     dev_entry 0x1106 0x1238 ''K8T890'' ''CPU to PCI Bridge'',
     dev_entry 0x1106 0x1259 ''CN400/PM880'' ''Host Bridge'',
     dev_entry 0x1106 0x1269 ''KT880'' ''CPU to PCI Bridge'',
     dev_entry 0x1106 0x1282 ''K8T880Pro'' ''CPU to PCI Bridge'',
     dev_entry 0x1106 0x1289 ''VT1708'' (''PCI'' @ [CHR 0x5C] @ ''VEN_1106&DEV_3059&SUBSYS_03011F6&REV_50'' @ [CHR 0x5C] @ ''3&13C0B0C5&0&8''),
     dev_entry 0x1106 0x1401 ''060000A'' ''ISA Bridge w/IDE'',
     dev_entry 0x1106 0x1571 ''VT82C416'' ''IDE Controller'',
     dev_entry 0x1106 0x1595 ''VT82C595/97'' ''Host Bridge'',
     dev_entry 0x1106 0x1708 ''VIA VT1708S '' ''High Definition Audio controller'',
     dev_entry 0x1106 0x1989 ''VT1708'' (''PCI'' @ [CHR 0x5C] @ ''VEN_1106&DEV_3344&SUBSYS_33441849&REV_01'' @ [CHR 0x5C] @ ''4&354AEA31&0&0008''),
     dev_entry 0x1106 0x2006 ''VT6105M'' ''VIA Rhine III VT6105M Fast Ethernet controller'',
     dev_entry 0x1106 0x2012 ''1106'' ''7205'',
     dev_entry 0x1106 0x2038 ''Unknown'' ''PCI Device'',
     dev_entry 0x1106 0x204 ''K8M400 chipset'' ''CPU '',
     dev_entry 0x1106 0x2204 ''???'' ''CPU to PCI'',
     dev_entry 0x1106 0x2238 ''K8T890'' ''CPU to PCI Bridge'',
     dev_entry 0x1106 0x2259 ''CN400/PM880'' ''Host Bridge'',
     dev_entry 0x1106 0x2269 ''KT880'' ''CPU to PCI Bridge'',
     dev_entry 0x1106 0x2282 ''K8T880Pro'' ''CPU to PCI Bridge'',
     dev_entry 0x1106 0x24c5 ''8086 SoundController (ICH4-M B0 step)'' ''VIA Vynil v700b'',
     dev_entry 0x1106 0x3009 ''SB200'' (''AC'' @ [CHR 0x27] @ ''97 Audio Controller''),
     dev_entry 0x1106 0x3038 ''VT6212L'' ''USB'',
     dev_entry 0x1106 0x3040 ''VT82C586A/B'' ''APM(or ACPIAPIC?)'',
     dev_entry 0x1106 0x3041 ''82C570MV'' ''ISA Bridge w/IDE'',
     dev_entry 0x1106 0x3043 ''VT86C100A'' ''Rhine 10/100 Ethernet Adapter'',
     dev_entry 0x1106 0x3044 ''VT6307/VT6308'' ''VIA Fire II 1394a OHCI Link Layer Ctrlr1'',
     dev_entry 0x1106 0x305 ''VIA Sound VIA AC 97 in VT82C686A/B'' ''VIA AC 97 in VT8233/AC'',
     dev_entry 0x1106 0x3050 ''VT82C596/596A/596'' ''Power Management and SMBus Controller'',
     dev_entry 0x1106 0x3051 '''' ''Power Management Controller'',
     dev_entry 0x1106 0x3053 ''VT6105M'' ''Rhine III Management Adapter'',
     dev_entry 0x1106 0x3057 ''VT82C686A/B'' ''ACPI Power Management Controller'',
     dev_entry 0x1106 0x3058 ''VT1709'' (''PCI'' @ [CHR 0x5C] @ ''VEN_1106&DEV_3059&SUBSYS_81661043&REV_60'' @ [CHR 0x5C] @ ''3&267A616A&0&8D''),
     dev_entry 0x1106 0x3059 ''VT 8233(AC 97 SOUND)'' ''VIA Vinyl (or Tremor) Audio VT1618'',
     dev_entry 0x1106 0x3065 ''VT6102'' ''Rhine II PCI Fast Ethernet Controller'',
     dev_entry 0x1106 0x3068 (''PCI'' @ [CHR 0x5C] @ ''VEN_1106&DEV_3068&SUBSYS_4C211543&REV_80'' @ [CHR 0x5C] @ ''3&61A'') (''VIA MC'' @ [CHR 0x27] @ ''97 Modem Controller - Agere Systems AC'' @ [CHR 0x27] @ ''97 Modem / AC-Link modems''),
     dev_entry 0x1106 0x3074 ''VT8233'' ''PCI to ISA Bridge'',
     dev_entry 0x1106 0x3086 ''VT82C686'' ''Power'',
     dev_entry 0x1106 0x3091 ''VT8633'' ''CPU to PCI Bridge'',
     dev_entry 0x1106 0x3099 ''vt8233'' ''CPU to PCI Bridge'',
     dev_entry 0x1106 0x3101 ''VT8653'' ''CPU to PCI Bridge'',
     dev_entry 0x1106 0x3102 ''VT8362'' ''CPU to PCI Bridge'',
     dev_entry 0x1106 0x3103 ''VT8615'' ''CPU to PCI Bridge'',
     dev_entry 0x1106 0x3104 ''VT6202'' ''USB 2.0 Enhanced Host Controller'',
     dev_entry 0x1106 0x3106 ''VT6105M/LOM'' ''Rhine III PCI Fast Ethernet Controller'',
     dev_entry 0x1106 0x3107 (''VT8233/A AC97'' @ [CHR 0x27] @ '' Enhance Audio Controller'') ''PCI to ISA Bridge'',
     dev_entry 0x1106 0x3108 ''8237'' ''VIA/S3G UniChrome Pro IGP (Integrated Video Adapter)'',
     dev_entry 0x1106 0x3109 (''VT8233/A AC97'' @ [CHR 0x27] @ '' Enhance Audio Controller'') ''PCI to ISA Bridge'',
     dev_entry 0x1106 0x3112 ''VT8361'' ''CPU to PCI Bridge'',
     dev_entry 0x1106 0x3113 '''' ''PCI to PCI Bridge'',
     dev_entry 0x1106 0x3116 ''VT8375'' ''CPU-to-PCI Bridge'',
     dev_entry 0x1106 0x3118 ''CN400'' (''Via Built-In VGA S3 Graphics UniChrome'' @ [CHR 0xE2, CHR 0x84, CHR 0xA2] @ '' Pro IGP Series CN400''),
     dev_entry 0x1106 0x3119 ''VT6120/VT6121/VT6122'' ([CHR 0x27] @ ''Velocity'' @ [CHR 0x27] @ '' Gigabit Ethernet Controllers''),
     dev_entry 0x1106 0x3122 ''3122110'' ''CastleRock AGP 8X Controller'',
     dev_entry 0x1106 0x3123 ''VT8623'' ''CPU to PCI Bridge'',
     dev_entry 0x1106 0x3128 ''vt8753'' ''CPU-to-PCI Bridge'',
     dev_entry 0x1106 0x3133 ''VT3133'' ''CPU to PCI Bridge'',
     dev_entry 0x1106 0x3147 ''VT8233'' ''PCI to ISA Bridge'',
     dev_entry 0x1106 0x3148 ''VT8751'' ''CPU-to-PCI Bridge'',
     dev_entry 0x1106 0x3149 ''VT8237 Family/ VT6420'' ''SATA RAID Controller'',
     dev_entry 0x1106 0x3156 ''VT8372'' ''CPU to PCI Bridge'',
     dev_entry 0x1106 0x3157 ''VIA VT8237'' ''CX700 - SATA RAID '',
     dev_entry 0x1106 0x3158 '''' ''CPU-to-PCI Bridge'',
     dev_entry 0x1106 0x3164 ''VT6410'' ''VIA RAID Controller - 3164 '',
     dev_entry 0x1106 0x3168 ''VT8374'' ''P4X400 Host Controller/AGP Bridge'',
     dev_entry 0x1106 0x3177 ''VT8235'' ''PCI to ISA Bridge'',
     dev_entry 0x1106 0x3178 '''' ''CPU to PCI Bridge'',
     dev_entry 0x1106 0x3188 ''K8HTB-8237'' ''CPU to PCI Bridge'',
     dev_entry 0x1106 0x3189 ''VT8377'' ''CPU to PCI Bridge'',
     dev_entry 0x1106 0x3198 ''VEN_1106&DEV_B198&SUBSYS_00000000&REV_00'' ''CPU-to-PCI Bridge'',
     dev_entry 0x1106 0x3202 '''' ''CPU to PCI Bridge'',
     dev_entry 0x1106 0x3204 ''1394 i2c'' ''CPU to PCI Bridge'',
     dev_entry 0x1106 0x3205 (''PCI'' @ [CHR 0x5C] @ ''VEN_1106&DEV_3108&SUBSYS_0000&REV_00'' @ [CHR 0x5C] @ ''3&61A'') ''CPU to PCI Bridge'',
     dev_entry 0x1106 0x3208 ''PT890'' ''CPU to PCI Bridge'',
     dev_entry 0x1106 0x3209 '''' ''CPU to PCI Bridge'',
     dev_entry 0x1106 0x3213 '''' ''PCI to PCI Bridge'',
     dev_entry 0x1106 0x3227 ''VT8237R'' ''PCI-to-ISA Bridge'',
     dev_entry 0x1106 0x3230 ''K8M890CE & K8N890CE Display Driver'' ''Integrated Graphics'',
     dev_entry 0x1106 0x3238 ''K8T890'' ''CPU-to-PCI Bridge'',
     dev_entry 0x1106 0x3249 ''VT6421'' ''VIA VT6421 RAID Controller - Windows XP 32.bit'',
     dev_entry 0x1106 0x3253 ''VT6655'' ''PCI-Cardbus Wireless LAN Adapter'',
     dev_entry 0x1106 0x3258 ''PT880'' ''CPU-to-PCI Bridge'',
     dev_entry 0x1106 0x3259 ''???'' ''CPU to PCI Bridge'',
     dev_entry 0x1106 0x3269 ''KT880'' ''CPU to PCI Bridge'',
     dev_entry 0x1106 0x3282 ''K8T880Pro'' ''CPU to PCI Bridge'',
     dev_entry 0x1106 0x3288 ''040300'' ''HDA Codec Realtek ALC660'',
     dev_entry 0x1106 0x3343 ''81CE1043'' ''VIA S3G UniChrome Family'']"

definition PciDevTable_47 :: "PCI_DEVTABLE list" where
  "PciDevTable_47 = [
     dev_entry 0x1106 0x3344 ''CN700'' ''VIA/S3G UniChrome Pro IGP'',
     dev_entry 0x1106 0x3349 ''VT8251'' ''VIA VT8251 AHCI RAID Controller'',
     dev_entry 0x1106 0x3365 ''060000A1106'' ''VIA Sound VIA AC97 in VT82C686A/B, VIA AC97 in VT8233/AC, VT8235 & VT8237/R, VIA Vinyl audio VT1612A'',
     dev_entry 0x1106 0x3371 ''P4M900'' ''VIA Chrome9 HC IGP'',
     dev_entry 0x1106 0x3403 ''VT6315/VT6330'' ''OHCI Compliant IEEE 1394 Host Controller '',
     dev_entry 0x1106 0x3680 (''pci'' @ [CHR 0x5C] @ ''ven_1106&dev_3108_&subsys_4c211543_rev_80'' @ [CHR 0x5C] @ ''3&13'') ''via mc97 controller for ac -link modems'',
     dev_entry 0x1106 0x401A ''VT-6325'' ''Via Card Reader'',
     dev_entry 0x1106 0x4149 ''VT6420'' ''PATA'',
     dev_entry 0x1106 0x4204 ''???'' ''CPU to PCI Bridge'',
     dev_entry 0x1106 0x4238 ''K8T890'' ''CPU to PCI Bridge'',
     dev_entry 0x1106 0x4258 ''???'' ''CPU to PCI Bridge'',
     dev_entry 0x1106 0x4259 ''???'' ''CPU to PCI Bridge'',
     dev_entry 0x1106 0x4269 ''KT880'' ''CPU to PCI Bridge'',
     dev_entry 0x1106 0x4282 ''K8T880Pro'' ''CPU to PCI Bridge'',
     dev_entry 0x1106 0x4397 ''VT1708S'' ''ALC662 &#1040;&#1091;&#1076;&#1080;&#1086; &#1050;&#1086;&#1076;&#1077;&#1082;'',
     dev_entry 0x1106 0x5000 ''3059'' ''VIA Sound VIA AC97 in VT82C686A/B, VIA AC97 in VT8233/AC, VT8235'',
     dev_entry 0x1106 0x5030 ''VT82C596'' ''ACPI Power Management Controller'',
     dev_entry 0x1106 0x5308 ''PT880 Pro / VT8237'' ''Via I/O APIC Interrupt Controller'',
     dev_entry 0x1106 0x5372 ''VT8237S'' ''IDE SATA Controller'',
     dev_entry 0x1106 0x6100 ''VIA VT86C100A'' ''Rhine II PCI Fast SATA and ethernet controller'',
     dev_entry 0x1106 0x6287 ''27611'' ''UT2DC2  <a href='',
     dev_entry 0x1106 0x7064 ''SUBSYS_10020000'' (''REV_46'' @ [CHR 0x5C] @ ''3&61AAA01&0&80''),
     dev_entry 0x1106 0x7204 ''K8M400'' ''CPU to PCI Bridge'',
     dev_entry 0x1106 0x7205 ''KM400'' ''VIA Technologies, Inc. VT8378 [S3 UniChrome] Graphics Adapter'',
     dev_entry 0x1106 0x7238 ''K8T890'' ''CPU to PCI Bridge'',
     dev_entry 0x1106 0x7258 ''PT880'' ''CPU to PCI Bridge'',
     dev_entry 0x1106 0x7259 ''PM800'' ''CPU to PCI Bridge'',
     dev_entry 0x1106 0x7269 ''KT880'' ''CPU to PCI Bridge'',
     dev_entry 0x1106 0x7282 ''K8T880Pro'' ''CPU to PCI Bridge'',
     dev_entry 0x1106 0x7353 ''CX700'' ''SATA RAID'',
     dev_entry 0x1106 0x7372 ''VT8237'' ''SATA RAID'',
     dev_entry 0x1106 0x7565 ''473040005'' ''60'',
     dev_entry 0x1106 0x8208 ''PT890?'' ''PCI to AGP Bridge'',
     dev_entry 0x1106 0x8231 ''VT8231'' ''PCI to ISA Bridge'',
     dev_entry 0x1106 0x8235 ''VT8754'' ''vga'',
     dev_entry 0x1106 0x8237 ''VT8237'' ''AC97 Enhanced Audio Controller - the 8251 controller is different'',
     dev_entry 0x1106 0x8305 ''VT8363A/65'' ''PCI to AGP Bridge'',
     dev_entry 0x1106 0x8391 ''VT8363/71'' ''PCI to AGP Bridge'',
     dev_entry 0x1106 0x8501 ''VT8501'' ''PCI to AGP Bridge'',
     dev_entry 0x1106 0x8596 ''VT82C596'' ''PCI to AGP Bridge'',
     dev_entry 0x1106 0x8597 ''VT82C597'' ''PCI-to-PCI Bridge (AGP)'',
     dev_entry 0x1106 0x8598 ''VT82C598'' ''PCI-to-PCI Bridge (AGP)'',
     dev_entry 0x1106 0x8601 ''VT82C601'' ''PCI-to-PCI Bridge (AGP)'',
     dev_entry 0x1106 0x8602 '''' ''CPU to AGP Bridge'',
     dev_entry 0x1106 0x8605 ''VT8605'' ''PCI-to-PCI Bridge(AGP)'',
     dev_entry 0x1106 0x8691 ''VT82C691/693A/694X'' ''PCI-to-PCI Bridge (AGP)'',
     dev_entry 0x1106 0x8693 ''VT82C693/A'' ''PCI-to-PCI Bridge (AGP)'',
     dev_entry 0x1106 0x8920 ''3059'' ''3249'',
     dev_entry 0x1106 0x9238 ''K8T890'' ''I/O APIC'',
     dev_entry 0x1106 0x9398 ''VT8601'' ''2D/3D Graphics Accelerator'',
     dev_entry 0x1106 0x9530 ''1106'' ''Via MSP Cardreader driver'',
     dev_entry 0x1106 0x9875 ''1'' ''pci'',
     dev_entry 0x1106 0x9876 (''VT8233/A AC97'' @ [CHR 0x27] @ '' Enhance Audio Controller'') ''PCI to ISA Bridge'',
     dev_entry 0x1106 0xA208 ''PT890'' ''PCI-to-PCI Bridge'',
     dev_entry 0x1106 0xA238 ''K8T890'' ''PCI-to-PCI Bridge'',
     dev_entry 0x1106 0xb01f ''castle rock agp8x controll'' ''fast ethernet nic'',
     dev_entry 0x1106 0xB091 ''VT8633'' ''PCI-to-PCI Bridge (AGP)'',
     dev_entry 0x1106 0xB099 ''VT8366/A'' ''PCI-to-PCI Bridge (AGP)'',
     dev_entry 0x1106 0xB101 ''VT8653'' ''PCI-to-PCI Bridge (AGP)'',
     dev_entry 0x1106 0xB102 ''VT8362'' ''PCI-to-PCI Bridge (AGP)'',
     dev_entry 0x1106 0xB103 ''VT8615'' ''PCI-to-PCI Bridge (AGP)'',
     dev_entry 0x1106 0xB112 ''VT8361'' ''PCI-to-PCI Bridge (AGP)'',
     dev_entry 0x1106 0xB113 '''' ''I/O APIC'',
     dev_entry 0x1106 0xB115 ''VT8363/65'' ''CPU to AGP Controller'',
     dev_entry 0x1106 0xB116 ''VT8375'' ''PCI-to-PCI Bridge (AGP)'',
     dev_entry 0x1106 0xB133 ''vt686b'' ''CPU to AGP Controller'',
     dev_entry 0x1106 0xB148 ''VT8751 Apollo'' ''PCI-to-Host'',
     dev_entry 0x1106 0xB156 ''VT8372'' ''PCI-to-PCI Bridge (AGP)'',
     dev_entry 0x1106 0xB158 ''VIA Technologies Inc'' ''PCI-to-PCI Bridge (AGP)'',
     dev_entry 0x1106 0xB168 ''VT8235'' ''PCI-to-PCI Bridge (AGP 2.0/3.0)'',
     dev_entry 0x1106 0xB188 ''K8M800/K8N800'' ''VIA CPU to AGP2.0/AGP3.0 Controller'',
     dev_entry 0x1106 0xB198 ''546546'' ''PCI-to-PCI Bridge (AGP 2.0/3.0)'',
     dev_entry 0x1106 0xB213 '''' ''I/O APIC'',
     dev_entry 0x1106 0xC208 ''PT890'' ''PCI-to-PCI Bridge'',
     dev_entry 0x1106 0xC238 ''K8T890'' ''PCI-to-PCI Bridge'',
     dev_entry 0x1106 0xD208 ''PT890'' ''PCI-to-PCI Bridge'',
     dev_entry 0x1106 0xD213 '''' ''PCI to PCI Bridge'',
     dev_entry 0x1106 0xD238 ''K8T890'' ''PCI-to-PCI Bridge'',
     dev_entry 0x1106 0xE208 ''PT890'' ''PCI-to-PCI Bridge'',
     dev_entry 0x1106 0xE238 ''K8T890'' ''PCI-to-PCI Bridge'',
     dev_entry 0x1106 0xe721 ''060000A1106'' ''VIA HD Audio Deck VT1708B'',
     dev_entry 0x1106 0xe724 ''VT1705'' ''VT HD AUDIO DECK vt8235'',
     dev_entry 0x1106 0xF208 ''PT890'' ''PCI-to-PCI Bridge'',
     dev_entry 0x1106 0xF238 ''K8T890'' ''PCI-to-PCI Bridge'',
     dev_entry 0x1107 0x8576 '''' ''PCI Host Bridge'',
     dev_entry 0x1108 0x0100 ''p1690plus-AA'' ''Token Ring Adapter'',
     dev_entry 0x1108 0x0101 ''p1690plus-AB'' ''2-Port Token Ring Adapter'',
     dev_entry 0x1108 0x0105 ''P1690Plus'' ''Token Ring Adapter'',
     dev_entry 0x1108 0x0108 ''P1690Plus'' ''Token Ring Adapter'',
     dev_entry 0x1108 0x0138 ''P1690Plus'' ''Token Ring Adapter'',
     dev_entry 0x1108 0x0139 ''P1690Plus'' ''Token Ring Adapter'',
     dev_entry 0x1108 0x013C ''P1690Plus'' ''Token Ring Adapter'',
     dev_entry 0x1108 0x013D ''P1690Plus'' ''Token Ring Adapter'',
     dev_entry 0x1109 0x1400 ''EM110TX'' ''EX110TX PCI Fast Ethernet Adapter'',
     dev_entry 0x110B 0x0001 ''Mpact'' ''Media Processor'',
     dev_entry 0x110B 0x0002 ''GM90C7110VX'' ''MPACT DVD decoder.'',
     dev_entry 0x110B 0x0004 ''Mpact'' ''Integrated video card'',
     dev_entry 0x13EA 0x3131 ''DS3131'' ''BoSS Bit Synchronous HDLC Controller'',
     dev_entry 0x13EA 0x3134 ''DS3134'' ''Chateau Channelized T1/E1/HDLC Controller'',
     dev_entry 0x13F0 0x0200 ''0x0200'' ''IP100A Integrated 10/100 Ethernet MAC + PHY'',
     dev_entry 0x13F0 0x0201 ''ST201'' ''Fast Ehternet Adapter'',
     dev_entry 0x13F0 0x0300 ''NX1001'' ''Network Adapter'',
     dev_entry 0x13F0 0x1021 ''Tamarack 9021A'' ''Tamarack 9021A Gigabit Ethernet adapter'',
     dev_entry 0x13F0 0x1023 ''NX1101a'' ''Gigabit Ethernet Controllera'',
     dev_entry 0x13F0 0x13F0 (''PCI'' @ [CHR 0x5C] @ ''VEN_13F0&DEV_0000&SUBSYS_82131043&REV_41'' @ [CHR 0x5C] @ ''4&19'') (''ST201 Fast Ethernet '' @ [CHR 0xC3, CHR 0x83] @ ''&#65533;'' @ [CHR 0xC3, CHR 0xAF, CHR 0xC2, CHR 0xBF, CHR 0xC2, CHR 0xBD, CHR 0xC3, CHR 0x83] @ ''&#65533;'' @ [CHR 0xC3, CHR 0x83] @ ''&#65533; '' @ [CHR 0xC3, CHR 0x90, CHR 0xE2, CHR 0x80, CHR 0x9C, CHR 0xC3, CHR 0x90] @ '' '' @ [CHR 0xC3, CHR 0x90] @ ''&#65533;'' @ [CHR 0xC3, CHR 0x90, CHR 0xE2, CHR 0x80, CHR 0x9D, CHR 0xC3, CHR 0x90, CHR 0xC2, CHR 0xA3, CHR 0xC3, CHR 0x90, CHR 0xC2, CHR 0xA1, CHR 0xC3, CHR 0x90, CHR 0xC5, CHR 0xBE, CHR 0xC3, CHR 0x90, CHR 0xE2, CHR 0x80, CHR 0x99] @ '' '' @ [CHR 0xC3, CHR 0x83] @ ''&#65533;'' @ [CHR 0xC3, CHR 0x82, CHR 0xC2, CHR 0xBF, CHR 0xC3, CHR 0x83, CHR 0xE2, CHR 0x80, CHR 0x98, CHR 0x27, CHR 0xC3, CHR 0x83] @ ''&#65533;'' @ [CHR 0xC3, CHR 0x82, CHR 0xC2, CHR 0xB5]),
     dev_entry 0x13F1 0x0028 ''NV05'' ''MCP67 High Definition Audio'',
     dev_entry 0x13FD 0x160E ''Initio1606l'' ''SATA/150 device to USB 2.0'',
     dev_entry 0x13FD 0x161F ''1D59CB92'' ''s'',
     dev_entry 0x13FD 0x1840 ''INIC-1608L'' ''SATA/150 device to USB 2.0 Host interface (http://www.initio.com/Html/inic-1608.html)'',
     dev_entry 0x1400 0x0001 '''' '''',
     dev_entry 0x1400 0x0003 '''' '''',
     dev_entry 0x1400 0x0004 ''030000'' ''030000'',
     dev_entry 0x1400 0x1401 ''9432 TX'' ''hd 2600xt'',
     dev_entry 0x1409 0x7168 ''40371409'' ''PCI Serial Port (4x)'',
     dev_entry 0x1409 0x7268 ''PCI / ISA IEEE1284 ECP/EPP/SPP/BPP Signal Chips So'' ''PCI parallel port'',
     dev_entry 0x1409 0x1c64 ''PCI / ISA IEEE1284 ECP/EPP/SPP/BPP PAR4008A'' ''PCI parallel port'',
     dev_entry 0x140B 0x0610 '''' '''',
     dev_entry 0x140B 0x615 ''NA'' ''Na'',
     dev_entry 0x140B 0x682 ''NA'' ''NA'',
     dev_entry 0x1415 0x8401 ''OX9162'' ''PCI Interface to local bus'',
     dev_entry 0x1415 0x8403 ''OX12PCI840'' ''PCI Parallel Card'',
     dev_entry 0x1415 0x9500 ''OX16PCI952'' ''Quad UART (disabled)'',
     dev_entry 0x1415 0x9501 ''OX16PCI954'' ''Quad UART'',
     dev_entry 0x1415 0x9505 ''OXuPCI952'' ''Dual UART'',
     dev_entry 0x1415 0x950A ''OX16PCI954'' ''Dual PCI UARTS'',
     dev_entry 0x1415 0x950B ''OXCF950'' ''Integrated High Performance UART'',
     dev_entry 0x1415 0x9510 ''OX16PCI954'' ''PCI Interface (disabled)'',
     dev_entry 0x1415 0x9511 ''OX9160'' ''PCI Interface to 8-bit local bus'',
     dev_entry 0x1415 0x9512 ''OX16PCI954'' ''PCI Interface to 32-bit bus'',
     dev_entry 0x1415 0x9513 ''OX16PCI954'' ''Parallel Port'',
     dev_entry 0x1415 0x9521 ''OX16PCI952'' ''Dual UART'',
     dev_entry 0x1415 0x9523 ''OX16PCI952'' ''Integrated Parallel Port'']"

definition PciDevTable_48 :: "PCI_DEVTABLE list" where
  "PciDevTable_48 = [
     dev_entry 0x1415 0xc110 ''OXPCIe952'' ''Parallel PCI Express Card (Manhattan 158176)'',
     dev_entry 0x1415 0xc158 ''OXPCIe952'' ''2 native UARTs (function 0)'',
     dev_entry 0x1415 0xc15d ''OXPCIe952'' ''2 native UARTs (function 1)'',
     dev_entry 0x1415 0xc208 ''OXPCIe954'' ''Quad UARTs'',
     dev_entry 0x1415 0xc20d ''OXPCIe954'' ''Quad UARTs (function 1)'',
     dev_entry 0x1415 0xc308 ''OXPCIe958'' ''Octo UARTs'',
     dev_entry 0x1415 0xc30d ''OXPCIe958'' ''Octo UARTs (function 1)'',
     dev_entry 0x141F 0x6181 ''KFIR'' ''MPEG decoder'',
     dev_entry 0x1425 0x0030 ''N/A'' ''T310 10GbE Single Port Adapter'',
     dev_entry 0x1425 0x31 ''N/A'' ''T320 10GbE Dual Port Adapter'',
     dev_entry 0x1425 0x32 ''N/A'' ''T302 1GbE Dual Port Adapter'',
     dev_entry 0x1425 0x33 ''N/A'' ''T304 1GbE Quad Port Adapter'',
     dev_entry 0x1425 0x34 ''N/A'' ''B320 10GbE Dual Port Adapter'',
     dev_entry 0x1425 0x35 ''N/A'' ''S310-CR 10GbE Single Port Adapter'',
     dev_entry 0x1425 0x36 ''N/A'' ''S320-LP-CR 10GbE Dual Port Adapter'',
     dev_entry 0x1425 0x37 ''N/A'' ''N320-G2-CR 10GbE Dual Port Adapter'',
     dev_entry 0x1425 0x4401 ''N/A'' ''T420-CR Unified Wire Ethernet Controller'',
     dev_entry 0x1425 0x4402 ''N/A'' ''T422-CR Unified Wire Ethernet Controller'',
     dev_entry 0x1425 0x4403 ''N/A'' ''T440-CR Unified Wire Ethernet Controller'',
     dev_entry 0x1425 0x4404 ''N/A'' ''T420-BCH Unified Wire Ethernet Controller'',
     dev_entry 0x1425 0x4405 ''N/A'' ''T440-BCH Unified Wire Ethernet Controller'',
     dev_entry 0x1425 0x4406 ''N/A'' ''T440-CH Unified Wire Ethernet Controller'',
     dev_entry 0x1425 0x4407 ''N/A'' ''T420-SO Unified Wire Ethernet Controller'',
     dev_entry 0x1425 0x4408 ''N/A'' ''T420-CX Unified Wire Ethernet Controller'',
     dev_entry 0x1425 0x4409 ''N/A'' ''T420-BT Unified Wire Ethernet Controller'',
     dev_entry 0x1425 0x440a ''N/A'' ''T404-BT Unified Wire Ethernet Controller'',
     dev_entry 0x1425 0x440d ''N/A'' ''T480 Unified Wire Ethernet Controller'',
     dev_entry 0x1425 0x440e ''N/A'' ''T440-LP-CR Unified Wire Ethernet Controller'',
     dev_entry 0x1425 0x7145 ''1002'' ''N/A'',
     dev_entry 0x1462 0x00C1 ''NV41.1'' ''NX6800-TD256E'',
     dev_entry 0x1462 0x4720 ''883'' ''Audio controller'',
     dev_entry 0x1462 0x5071 ''883'' ''Audio controller'',
     dev_entry 0x1462 0x5964 (''0PCI'' @ [CHR 0x5C] @ ''VEN_11C1&DEV_0620&SUBSYS_062011C1'') ''RADEON 9250/9200 series AGP'',
     dev_entry 0x1462 0x7120 '''' '''',
     dev_entry 0x1462 0x7960 ''MCP2T'' ''MCP2T'',
     dev_entry 0x1471 0x0188 ''RoadRunner 10'' ''ADSL PCI'',
     dev_entry 0x148F 0x1000 ''unknown'' ''Ralink Motorola BC4 Bluetooth 3.0+HS Adapter'',
     dev_entry 0x148F 0x148f ''2070'' ''TP-LINK 7200ND'',
     dev_entry 0x148F 0x2000 ''Unknown'' ''Ralink Motorola BC8 Bluetooth 3.0 + HS Adapter'',
     dev_entry 0x148F 0x2070 ''1.0'' ''802.11 g WLAN'',
     dev_entry 0x148F 0x2573 ''1192Af7b'' ''802.11 bg'',
     dev_entry 0x148F 0x2870 ''1.0'' ''802.11 n WLAN'',
     dev_entry 0x148F 0x3000 ''RT3290'' ''802.11n + Bluetooth 3.0'',
     dev_entry 0x148F 0x3070 ''RT3070L'' ''FreeWifiLink D3-10000N'',
     dev_entry 0x148F 0x3572 ''RT3572'' ''Ralink 3572'',
     dev_entry 0x148F 0x5370 ''Ralink RT2870'' ''802.11n USB Wireless LAN Card'',
     dev_entry 0x148F 0x9021 ''Unknown'' ''Netopia USB b/g Adapter (black)'',
     dev_entry 0x14A9 0xad1f ''1'' ''1'',
     dev_entry 0x14B1 0x1033 ''R6795-12'' ''RH56D-PCI'',
     dev_entry 0x14B1 0x2F30 ''01'' ''zyxel omni 56k CI lus rev.'',
     dev_entry 0x14C1 0x8043 ''LANai 9.2 0129'' ''MyriNet'',
     dev_entry 0x14CD 0x03 ''0x02'' ''0x0200'',
     dev_entry 0x14CF 0x2920 ''FPMC-FIO1-F100-1'' ''Serial I/O Controller aka FPMC-DFLEX64'',
     dev_entry 0x14D9 0x0010 ''AP1011/SP1011'' ''Sturgeon HyperTransport-PCI Bridge'',
     dev_entry 0x14E4 0x0038 ''BCM88038'' ''100G packet processor '',
     dev_entry 0x14E4 0x0102 ''T2500'' ''Intel (R)'',
     dev_entry 0x14E4 0x0318 ''n/a'' ''n/a'',
     dev_entry 0x14E4 0x034F ''NV36GL?'' ''???'',
     dev_entry 0x14E4 0x04B5 ''BCM4312'' ''Broadcom 54bg Wireless'',
     dev_entry 0x14E4 0x0732 ''BCM88732'' ''2x40G/8x10G MAC Aggregation Switch with 80G Uplink'',
     dev_entry 0x14E4 0x0800 ''BCM33xx/47xx'' ''Sentry5 Chipcommon I/O Controller'',
     dev_entry 0x14E4 0x0804 ''BCM33xx/47xx'' ''Sentry5 PCI Bridge'',
     dev_entry 0x14E4 0x0805 ''BCM33xx/47xx'' ''Sentry5 MIPS32 CPU'',
     dev_entry 0x14E4 0x0806 ''BCM33xx/47xx'' ''Sentry5 Ethernet Controller'',
     dev_entry 0x14E4 0x080B ''BCM33xx/47xx'' ''Sentry5 Crypto Accelerator'',
     dev_entry 0x14E4 0x080F ''BCM33xx/47xx'' ''Sentry5 DDR/SDR RAM Controller'',
     dev_entry 0x14E4 0x0811 ''BCM33xx/47xx'' ''Sentry5 External Interface'',
     dev_entry 0x14E4 0x0816 ''BCM3302'' ''Sentry5 MIPS32 CPU'',
     dev_entry 0x14E4 0x1234 ''7175144F'' ''networkcontroller'',
     dev_entry 0x14E4 0x1361 ''BCM4313'' ''Ethernet'',
     dev_entry 0x14E4 0x14E4 ''BCM5787M'' ''802.11b/g Wireless Lan Controller'',
     dev_entry 0x14E4 0x1600 ''BCM5752'' ''NetXtreme BCM5752 Gigabit Ethernet PCI Express'',
     dev_entry 0x14E4 0x1601 ''BCM5752M'' ''NetXtreme Desktop/Mobile'',
     dev_entry 0x14E4 0x1610 ''BCM70010'' ''Broadcom BCN70010 Video Decoder'',
     dev_entry 0x14E4 0x1612 ''BCM70010/BCM70012'' ''Crystal HD Video Decoder'',
     dev_entry 0x14E4 0x1615 ''BCM70015'' ''Broadcom Crystal HD Video Decoder'',
     dev_entry 0x14E4 0x161F ''BCM70010/BCM70012'' (''AVC/VC-1/MPEG PCI Express'' @ [CHR 0xC2, CHR 0xAE] @ '' HD Decoder Chipset for Netbooks/Nettops''),
     dev_entry 0x14E4 0x1639 ''BCM5709'' ''NetXtreme Gigabit Ethernet II'',
     dev_entry 0x14E4 0x163B ''BCM5709'' ''Broadcom NetXtreme II BCM5706/5708/5709/5716 Driver'',
     dev_entry 0x14E4 0x1644 '' BCM5751F'' ''ven_1102dev_0004'',
     dev_entry 0x14E4 0x1645 ''BCM570123'' ''broadtcomBCM5701 Gigabit EthernetASD'',
     dev_entry 0x14E4 0x1646 ''BCM5702x1'' ''NetXtreme Gigabit Ethernet'',
     dev_entry 0x14E4 0x1647 ''BCM5703'' ''NetXtreme Gigabit Ethernet'',
     dev_entry 0x14E4 0x1648 ''BCM5704'' ''NetXtreme Dual Gigabit Adapter'',
     dev_entry 0x14E4 0x164C ''BCM5708'' ''Broadcom NetXtreme II Gigabit Ethernet Adapter'',
     dev_entry 0x14E4 0x164D ''83471043'' ''NetXtreme Fast Ethernet Controller'',
     dev_entry 0x14E4 0x1650 ''BCM57711'' ''Broadcom PCIe 10Gb Network Controller '',
     dev_entry 0x14E4 0x1653 ''BCM5788'' ''Broadcom NetXtreme Gigabit Ethernet'',
     dev_entry 0x14E4 0x1654 ''BCM5705A2'' ''NetXtreme Gigabit Ethernet'',
     dev_entry 0x14E4 0x1658 ''BM5750'' ''NtXtreme Gigabit Ethernet'',
     dev_entry 0x14E4 0x1659 ''BCM5721'' ''NetXtreme Gigabit Ethernet PCI Express'',
     dev_entry 0x14E4 0x165A ''94309'' ''Broadcom NetXtreme BCM5722 Gigabit'',
     dev_entry 0x14E4 0x165D ''Aspire57050G'' ''Broadcom NetXtreme Gigabit Ethernet'',
     dev_entry 0x14E4 0x165E ''3C905B'' ''NetXtreme Gigabit Ethernet'',
     dev_entry 0x14E4 0x165F ''BCM5720'' ''Broadcom NetXtreme 5720 Gigabit Ethernet'',
     dev_entry 0x14E4 0x166a ''BCM5780'' ''Broadcom NetXtreme Gigabit Ethernet 5780'',
     dev_entry 0x14E4 0x166B ''BCM5780S'' ''NetXtreme Gigabit Ethernet'',
     dev_entry 0x14E4 0x166D ''BCM5705MFE'' ''NetXtreme Ethernet 100kB'',
     dev_entry 0x14E4 0x166E ''BCM5705'' ''NetXtreme Gigabit Ethernet'',
     dev_entry 0x14E4 0x167 ''BCM5751F'' ''NetXtreme Fast Ethernet Controller'',
     dev_entry 0x14E4 0x1672 ''BCM5754M'' ''NetXtreme Gigabit Ethernet'',
     dev_entry 0x14E4 0x1673 ''B5755M'' ''NetXtreme Gigabit Ethernet'',
     dev_entry 0x14E4 0x1674 ''57XX'' ''57XX Series Broadcom Driver X86/X64'',
     dev_entry 0x14E4 0x1676 ''BCM5750A1'' ''NetXtreme Gigabit Ethernet'',
     dev_entry 0x14E4 0x1677 ''BCM5782'' ''Broadcom NetExtreme Gigabit Ethernet'',
     dev_entry 0x14E4 0x167A ''BCM5754'' ''Broadcom NetXtreme Gigabit Ethernet Controller'',
     dev_entry 0x14E4 0x167B ''BCM5755/5780'' ''NetXtreme Gigabit Ethernet'',
     dev_entry 0x14E4 0x167C ''BCM5750'' ''NetXtreme Gigabit Ethernet'',
     dev_entry 0x14E4 0x167d ''BCM5751M'' ''Broadcom NetXtreme Gigabit Ethernet'',
     dev_entry 0x14E4 0x167E ''BCM5751FKFB'' ''vierkant'',
     dev_entry 0x14E4 0x1680 ''BCM5761E'' ''NetXtreme Desktop/Mobile'',
     dev_entry 0x14E4 0x1681 ''BCM5761'' ''Broadcom 57XX Gigabit Integrated Controller '',
     dev_entry 0x14E4 0x1684 ''BCM5764'' ''Broadcom NetXtreme Gigabit Ethernet'',
     dev_entry 0x14E4 0x1690 ''BCM5776'' ''NexTreme Desktop/Mobile'',
     dev_entry 0x14E4 0x1691 ''BCM57788'' ''Broadcom BCM57788 LOM '',
     dev_entry 0x14E4 0x1692 ''BCM57780'' ''NetLink'',
     dev_entry 0x14E4 0x1693 ''BCM5787'' ''Ethernet Controller Broadcom Netlink Gigabit'',
     dev_entry 0x14E4 0x1696 ''BCM5782'' ''Broadcom NetXtreme Gigabit Ethernet '',
     dev_entry 0x14E4 0x1698 ''02941028'' ''NetLink-FOR DELL LAPTOP AND MAYBE OTHERS'',
     dev_entry 0x14E4 0x169A ''BCM5787'' ''Broadcom Netlink (TM) gigabit ethernet Driver'',
     dev_entry 0x14E4 0x169B ''BCM5786'' ''NetXtreme Gigabit Ethernet'',
     dev_entry 0x14E4 0x169C ''17351043'' ''Broadcom NetLink (TM) Gigabit Ethernet'',
     dev_entry 0x14E4 0x169D ''BCM5782k, BCM5789'' ''Broadcom Ethernet Adapter'',
     dev_entry 0x14E4 0x169E ''BCM5754'' ''NetXtreme Gigabit Ethernet PCI Express'',
     dev_entry 0x14E4 0x16A6 ''BCM5702X'' ''Gigabit Ethernet'',
     dev_entry 0x14E4 0x16A7 ''BCM5703X'' ''Gigabit Ethernet'',
     dev_entry 0x14E4 0x16A8 ''BLM5701'' ''NetXtreme Gigabit Ethernet'',
     dev_entry 0x14E4 0x16AA ''B06BDRV'' ''BroadCom NetExtreme II Server'',
     dev_entry 0x14E4 0x16B1 ''BCM57781'' ''BCM57781'',
     dev_entry 0x14E4 0x16B5 ''BCM57785X'' ''Broadcom NetLink Gigabit Ethernet'',
     dev_entry 0x14E4 0x16BE ''16BE'' ''CardReader Broadcom 1.0.0.221'',
     dev_entry 0x14E4 0x16BF ''0x16BF'' ''CardReader Broadcom 1.0.0.221'',
     dev_entry 0x14E4 0x16C6 ''BCM5702A3'' ''NetXtreme Gigabit Ethernet'',
     dev_entry 0x14E4 0x16C7 ''BCM 94311'' ''DELL Wireless 1390 WLAN MiniCard'',
     dev_entry 0x14E4 0x16DD ''BCM5781'' ''NetXtreme Gigabit Ethernet'',
     dev_entry 0x14E4 0x16f7 ''BCM5753'' ''NetXtreme BCM5753 Gigabit PCI Express'',
     dev_entry 0x14E4 0x16FD ''BCM5753M'' ''NetXtreme Gigabit Ethernet PciXpress'',
     dev_entry 0x14E4 0x16FE ''BCM5753F'' ''NetXtreme Gigabit Ethernet'']"

definition PciDevTable_49 :: "PCI_DEVTABLE list" where
  "PciDevTable_49 = [
     dev_entry 0x14E4 0x170C (''PCI'' @ [CHR 0x5C] @ ''VEN_14E4&DEV_170C'') ''Broadcom 440x 10/100 Integrated Controller'',
     dev_entry 0x14E4 0x170D ''BCM5901'' ''NetXtreme'',
     dev_entry 0x14E4 0x170E ''BCM5901'' ''NetXtreme 100Base-TX'',
     dev_entry 0x14E4 0x1713 ''BCM5906m'' ''Broadcom NetLink (TM) Fast Ethernet'',
     dev_entry 0x14E4 0x333 ''BCM53333'' ''16p 1G (PHY)'',
     dev_entry 0x14E4 0x3352 ''BCM3352'' (''BCM3352 QAMLink'' @ [CHR 0xC2, CHR 0xAE] @ '' Single-Chip 4-Line VoIP''),
     dev_entry 0x14E4 0x3360 ''BCM3360'' ''Advanced PHY Broadband Gateway Cable Modem'',
     dev_entry 0x14E4 0x4211 ''dell'' ''10Mb/s NIC'',
     dev_entry 0x14E4 0x4212 ''BCM V.90'' ''56k Modem'',
     dev_entry 0x14E4 0x4301 ''Broadcom BCM4301 802.11g Wireless LAN Controller'' ''Dell Truemobile 1180 802.11g MiniPCI'',
     dev_entry 0x14E4 0x4303 ''BCM4303'' ''BCM4301 802.11b802.11b Wireless LAN Controller'',
     dev_entry 0x14E4 0x4305 ''BCM4307'' ''V.90 56k Modem'',
     dev_entry 0x14E4 0x4306 ''BCM4306'' ''Unknown device 4306 (rev 02)'',
     dev_entry 0x14E4 0x4307 ''BCM4306'' ''802.11b Wireless LAN Controller'',
     dev_entry 0x14E4 0x4310 ''BCM4310'' ''BCM4301 802.11bChipcommon I/O Controller'',
     dev_entry 0x14E4 0x4311 ''BCM4311'' ''Wireless LAN BroadCom'',
     dev_entry 0x14E4 0x4312 ''BCM4310'' ''broadcom wireless 1490 (dell)'',
     dev_entry 0x14E4 0x4313 ''BCM4310 UART'' ''wireless network card'',
     dev_entry 0x14E4 0x4315 ''BCM4315/BCM22062000'' ''Broadcom Wireless b/g (Tested Drivers)'',
     dev_entry 0x14E4 0x4318 ''BCM4318'' ''Broadcom 802.11b/g'',
     dev_entry 0x14E4 0x4320 ''BCM4306'' ''802.11B/G Wireless Lan Controller Revision 3'',
     dev_entry 0x14E4 0x4321 ''BCM4306'' ''802.11a Wireless LAN Controller'',
     dev_entry 0x14E4 0x4322 ''BCM4306'' ''UART'',
     dev_entry 0x14E4 0x4323 ''BCM4306'' ''V.90 56k Modem'',
     dev_entry 0x14E4 0x4324 ''BCM4357'' ''802.11a/b/g Wireless LAN'',
     dev_entry 0x14E4 0x4325 ''BCM4306'' ''802.11b/g Wireless LAN Controller'',
     dev_entry 0x14E4 0x4326 ''BCM4306'' ''Chipcommon I/O Controller?'',
     dev_entry 0x14E4 0x4328 ''BCM4321KFBG'' ''Broadcom BCM43xx 1.0 (5.10.91.27)'',
     dev_entry 0x14E4 0x4329 ''BCM43XX'' ''Broadcom 802.11n Network Adapter'',
     dev_entry 0x14E4 0x432B ''4322'' ''Broadcom Wireless LAN Driver '',
     dev_entry 0x14E4 0x4353 ''BCM943224HMS'' ''Broadcom Half Mini PCI Express Wifi card / DL1520'',
     dev_entry 0x14E4 0x4357 ''BCM94322c5HM'' ''Broadcom WiFi 802.11b/g/n'',
     dev_entry 0x14E4 0x4358 ''BCM943227HM4L'' ''Broadcom 802.11n WLAN module'',
     dev_entry 0x14E4 0x4359 ''BCM943228HM4L'' ''Half-mini wireless-N card DW1530'',
     dev_entry 0x14E4 0x4365 ''061117AA'' ''Broadcom 43142 Wireless LAN Adapter'',
     dev_entry 0x14E4 0x4401 ''BCM4401'' ''10/100 Integrated Ethernet Controller'',
     dev_entry 0x14E4 0x4402 ''BCM440'' ''10/100 Integrated Ethernet Controller'',
     dev_entry 0x14E4 0x4403 ''BCM4402'' ''V.90 56k Modem'',
     dev_entry 0x14E4 0x4410 ''BCM4413'' ''iLine32 HomePNA 2.0'',
     dev_entry 0x14E4 0x4411 ''BCM4212'' ''V.90 56k Modem'',
     dev_entry 0x14E4 0x4412 ''BCM4412'' ''10/100BaseT Ethernet'',
     dev_entry 0x14E4 0x4430 ''BCM44xx'' ''CardBus iLine32 HomePNA 2.0'',
     dev_entry 0x14E4 0x4432 ''BCM44xx'' ''CardBus 10/100BaseT Ethernet'',
     dev_entry 0x14E4 0x4610 ''BCM4610'' ''Sentry5 PCI to SB Bridge'',
     dev_entry 0x14E4 0x4611 ''BCM4610'' ''Sentry5 iLine32 HomePNA 1.0'',
     dev_entry 0x14E4 0x4612 ''BCM4610'' ''Sentry5 V.90 56k Modem'',
     dev_entry 0x14E4 0x4613 ''BCM4610'' ''Sentry5 Ethernet Controller'',
     dev_entry 0x14E4 0x4614 ''BCM4610'' ''Sentry5 External Interface'',
     dev_entry 0x14E4 0x4615 ''BCM4610'' ''Sentry5 USB Controller'',
     dev_entry 0x14E4 0x4704 ''BCM4704'' ''Sentry5 PCI to SB Bridge'',
     dev_entry 0x14E4 0x4708 ''BCM4704'' ''Crypto Accelerator'',
     dev_entry 0x14E4 0x4710 ''BCM4710'' ''Sentry5 PCI to SB Bridge'',
     dev_entry 0x14E4 0x4711 ''BCM47xx'' ''Sentry5 iLine32 HomePNA 2.0'',
     dev_entry 0x14E4 0x4712 ''BCM47xx'' ''Sentry5 V.92 56k modem'',
     dev_entry 0x14E4 0x4713 ''BCM47xx'' ''Sentry5 Ethernet Controller'',
     dev_entry 0x14E4 0x4714 ''BCM47xx'' ''Sentry5 External Interface'',
     dev_entry 0x14E4 0x4715 ''BCM47xx'' ''Sentry5 USB Controller'',
     dev_entry 0x14E4 0x4716 ''BCM47xx'' ''Sentry5 USB Host Controller'',
     dev_entry 0x14E4 0x4717 ''BCM47xx'' ''Sentry5 USB Device Controller'',
     dev_entry 0x14E4 0x4718 ''BCM47xx'' ''Sentry5 Crypto Accelerator'',
     dev_entry 0x14E4 0x4720 ''BCM4712'' ''MIPS CPU'',
     dev_entry 0x14E4 0x4726 ''7175144f'' ''01'',
     dev_entry 0x14E4 0x4727 ''BCM4313'' ''Broadcom 802.11g Network Adapter BCM4313'',
     dev_entry 0x14E4 0x4728 ''7175144f'' ''01'',
     dev_entry 0x14E4 0x53343 ''BCM53343'' ''16P 1G  (PHY)'',
     dev_entry 0x14E4 0x5365 ''BCM5365P'' ''Sentry5 PCI to SB Bridge'',
     dev_entry 0x14E4 0x5600 ''BCM5600'' ''StrataSwitch 24+2 Ethernet Switch Controller'',
     dev_entry 0x14E4 0x5605 ''BCM5605'' ''StrataSwitch 24+2 Ethernet Switch Controller'',
     dev_entry 0x14E4 0x5615 ''BCM5784'' ''StrataSwitch 24+2 Ethernet Switch Controller'',
     dev_entry 0x14E4 0x5625 ''BCM5625'' ''StrataSwitch 24+2 Ethernet Switch Controller'',
     dev_entry 0x14E4 0x5645 ''BCM5645'' ''StrataSwitch 24+2 Ethernet Switch Controller'',
     dev_entry 0x14E4 0x5670 ''BCM5670'' ''8-Port 10GE Ethernet Switch Fabric'',
     dev_entry 0x14E4 0x5680 ''BCM5680'' ''G-Switch 8-Port Gigabit Ethernet Switch Controller'',
     dev_entry 0x14E4 0x5690 ''BCM5690'' ''12-port Multi-Layer Gigabit Ethernet Switch'',
     dev_entry 0x14E4 0x5691 ''BCM5691'' ''GE/10GE 8+2 Gigabit Ethernet Switch Controller'',
     dev_entry 0x14E4 0x5802 ''BCM5802'' (''The BCM5802 Security Processor integrates Broadcom'' @ [CHR 0xE2, CHR 0x80, CHR 0x99] @ ''s IPSec engine (DES, 3DES, HMAC-SHA-1, HMAC-MD5),''),
     dev_entry 0x14E4 0x5805 ''BCM5805'' ''The BCM5805 Security Processor integrates a high-performance IPSec engine (DES, 3DES, HMAC-SHA-1, HM'',
     dev_entry 0x14E4 0x5820 ''BCM5820'' ''Crypto Accelerator'',
     dev_entry 0x14E4 0x5821 ''BCM5821'' ''Crypto Accelerator'',
     dev_entry 0x14E4 0x5822 ''BCM5822'' ''Crypto Accelerator'',
     dev_entry 0x14E4 0x5823 ''BCM5823'' ''Crypto Accelerator'',
     dev_entry 0x14E4 0x5824 ''BCM5824'' ''Crypto Accelerator'',
     dev_entry 0x14E4 0x5825 ''BCM5825'' ''BCM5825'',
     dev_entry 0x14E4 0x5840 ''BCM5840'' ''Crypto Accelerator'',
     dev_entry 0x14E4 0x5841 ''BCM5841'' ''Crypto Accelerator'',
     dev_entry 0x14E4 0x5850 ''BCM5850'' ''Crypto Accelerator'',
     dev_entry 0x14E4 0x7321 ''BCM5751'' ''network card integrated'',
     dev_entry 0x14E4 0x7411 ''BCM7411'' ''High Definition Video/Audio Decoder'',
     dev_entry 0x14E4 0x78655 ''BCM5787M'' ''Wireless-N WLAN'',
     dev_entry 0x14E4 0x8010 ''BCM53010'' ''Next generation router SOC with gigabit switch'',
     dev_entry 0x14E4 0x8011 ''BCM53011'' ''Next generation router SOC with gigabit switch'',
     dev_entry 0x14E4 0x8012 ''BCM53012'' ''Next generation router SOC with gigabit switch'',
     dev_entry 0x14E4 0x8016 ''BCM53016'' ''Next generation router SOC with gigabit switch with RGMII/SDIO, but disable 3 GPHY'',
     dev_entry 0x14E4 0x8018 ''BCM53018'' ''Next generation router SOC with gigabit switch with RGMII/SDIO'',
     dev_entry 0x14E4 0x8019 ''BCM53019'' ''Next generation router SOC with gigabit switch without RGMII/SDIO'',
     dev_entry 0x14E4 0x8022 ''BCM53022'' ''Next generation router SOC with gigabit switch with RGMII/SDIO'',
     dev_entry 0x14E4 0x8023 ''BCM53023'' ''Next generation router SOC with gigabit switch with SATA instead of RGMII/SDIO'',
     dev_entry 0x14E4 0x8025 ''BCM53025'' ''Next generation router SOC with gigabit switch with RGMII/SDIO, GMII, SGMII and SATA'',
     dev_entry 0x14E4 0x8334 ''BCM53334'' ''24 1G'',
     dev_entry 0x14E4 0x8342 ''BCM53342'' ''8 1G (PHY)'',
     dev_entry 0x14E4 0x8344 ''BCM53344'' '' 24P 1G +4P 1G  (PHY)'',
     dev_entry 0x14E4 0x8346 ''BCM53346'' ''24P 1G +4P 1G/10G  (PHY)'',
     dev_entry 0x14E4 0x8393 ''BCM53393'' ''14P (1G,  (no PHY)'',
     dev_entry 0x14E4 0x8394 ''BCM53394'' ''10P 1G + 4x1/2.5/5/10G  (no PHY) '',
     dev_entry 0x14E4 0x9867 ''900000000'' ''900000000'',
     dev_entry 0x14E4 0x9876 ''Texas Instruments PCI GemCore based SmartCard cont'' ''0x14E4'',
     dev_entry 0x14E4 0xA8D6 ''BCM6368'' ''Broadcom 802.11n WLAN chip'',
     dev_entry 0x14E4 0xB150 ''BCM56150'' ''Hurricane2 (Lightly Managed) 24P 1G +4P 1G/10G  (PHY)'',
     dev_entry 0x14E4 0xb152 ''BCM56152'' ''24P  1G (PHY)'',
     dev_entry 0x14E4 0xB340 ''BCM56340'' ''48-port multi-layer switch with embedded CPU'',
     dev_entry 0x14E4 0xB450 ''BCM56450'' ''100G Multi-layer Ethernet Switch'',
     dev_entry 0x14E4 0xB640 ''BCM56640'' ''260Gbps Extensible Switch with 100GE'',
     dev_entry 0x14E4 0xB845 ''BCM56845'' ''640G Multi-layer Ethernet Switch'',
     dev_entry 0x14E4 0xB850 ''BCM56850'' ''1.28T I/O Multi-layer Ethernet Switch'',
     dev_entry 0x14EB 0x0020 ''BEMx.x'' ''PCI to S5U13xxxB00B Bridge Adapter'',
     dev_entry 0x14EB 0x0C01 ''S1D13808'' ''Embedded Memory Display Controller'',
     dev_entry 0x14EC 0x16BE ''CardReader_Broadcom'' ''1.0.0.222_W7x86_A'',
     dev_entry 0x14F5 0x2F00 ''x'' ''x'',
     dev_entry 0xAA42 0x03A3 ''9400-0931'' ''CharKey'',
     dev_entry 0x14FD 0x0001 ''H260u'' ''H260u printer server for HP Printer'',
     dev_entry 0xA304 0x3038 ''VT6212L'' ''USB'',
     dev_entry 0x165A 0xC100 ''PIXCI CL1'' ''PCI camera link video capture board'',
     dev_entry 0x165A 0xD200 ''PIXCI D2X'' ''PCI digital video capture board'',
     dev_entry 0x165A 0xD300 ''PIXCI D3X'' ''PCI digital video capture board'']"

definition PciDevTable_50 :: "PCI_DEVTABLE list" where
  "PciDevTable_50 = [
     dev_entry 0x165A 0xF001 ''PIXCI EL1'' ''PCI-E camera link video capture board'',
     dev_entry 0x1516 0x0800 ''MTD800'' ''10/100 Mbps Fast Ethernet Controller'',
     dev_entry 0x1516 0x0803 ''Myson MTD803/TAMARACK TC6020'' ''PCI Ethernet controller'',
     dev_entry 0x1516 0x0891 ''MTD891'' ''10/100/1000 Mbps Gigabit Ethernet Controller'',
     dev_entry 0x1112 0x2200 ''2200'' ''FDDI adapter'',
     dev_entry 0x1112 0x2300 ''2300'' ''Fast Ethernet adapter'',
     dev_entry 0x1112 0x2340 ''2340'' ''4 Port 10/100 UTP Fast Ethernet Adapter'',
     dev_entry 0x1112 0x2400 ''2400'' ''ATM adapter'',
     dev_entry 0x1113 0x1211 ''EN5030, EN5038,EN1207D-TX/ Realtek 8139C'' ''Ethernet Controller 10/100 MBit'',
     dev_entry 0x1113 0x1216 ''EN5251BE'' ''accton  EN5251BE'',
     dev_entry 0x1113 0x1217 ''EN-2242'' ''Ethernet Adapter'',
     dev_entry 0x1113 0x5105 ''EN-1660'' ''untuk install driver'',
     dev_entry 0x1113 0x9211 ''EN-1207F'' ''Fast Ethernet Adapter'',
     dev_entry 0x1113 0x9511 ''SMC en5251be'' ''0445tabgf16143.1'',
     dev_entry 0x1113 0x9876 ''EN5251BE / EN1207F-TX'' ''Ethernet Controller/ drivers'',
     dev_entry 0xA200 0xa200 ''saa1735hl'' ''tv'',
     dev_entry 0x1114 0x0506 ''AT76C506'' ''802.11b Wireless Network Adaptor'',
     dev_entry 0x1114 0x3202 ''AT97SC3204'' ''TPM - Trusted Platform Module'',
     dev_entry 0x1116 0x0022 ''DT3001'' '''',
     dev_entry 0x1116 0x0023 ''DT3002'' ''9PAEAN'',
     dev_entry 0x1116 0x0024 ''DT3003'' '''',
     dev_entry 0x1116 0x0025 ''DT3004'' '''',
     dev_entry 0x1116 0x0026 ''Dt3005'' '''',
     dev_entry 0x1116 0x0027 ''DT3001-PGL'' '''',
     dev_entry 0x1116 0x0028 ''DT3003-PGL'' '''',
     dev_entry 0x1117 0x9500 '''' ''max-lc SVGA card'',
     dev_entry 0x1117 0x9501 '''' ''MaxPCI image processing board'',
     dev_entry 0x1119 0x0000 ''GDT6000/6020/6050'' ''PCI SCSI RAID Controller'',
     dev_entry 0x1119 0x0001 ''GDT6000/6010'' ''PCI 1-channel SCSI RAID Controller'',
     dev_entry 0x1119 0x0002 ''GDT6110/6510'' ''PCI 1-channel SCSI RAID Controller'',
     dev_entry 0x1119 0x0003 ''GDT6120/6520'' ''PCI 2-channel SCSI RAID Controller'',
     dev_entry 0x1119 0x0004 ''GDT6530'' ''PCI 3-channel SCSI RAID Controller'',
     dev_entry 0x1119 0x0005 ''GDT6550'' ''PCI 5-channel SCSI RAID Controller'',
     dev_entry 0x1119 0x0006 ''GDT6117/6517'' ''Wide Ultra SCSI Controller'',
     dev_entry 0x1119 0x0007 ''GDT6127/6527'' ''Wide Ultra SCSI Controller'',
     dev_entry 0x1119 0x0008 ''GDT6537'' ''Wide Ultra SCSI Controller'',
     dev_entry 0x1119 0x0009 ''GDT6557/6557-ECC'' ''Wide Ultra SCSI Controller'',
     dev_entry 0x1119 0x000A ''GDT6115/6515'' ''Ultra SCSI Controller'',
     dev_entry 0x1119 0x000B ''GDT6125/6525'' ''Wide SCSI Controller'',
     dev_entry 0x1119 0x000C ''GDT6535'' ''Wide SCSI Controller'',
     dev_entry 0x1119 0x000D ''GDT6555/6555-ECC'' ''Wide SCSI Controller'',
     dev_entry 0x1119 0x0100 ''GDT6117RP/6517RP'' ''2 Channel Wide Ultra SCSI'',
     dev_entry 0x1119 0x0101 ''GDT6127RP/6527RP'' ''Wide Ultra SCSI HBA'',
     dev_entry 0x1119 0x0102 ''GDT6537RP'' ''Wide Ultra SCSI HBA'',
     dev_entry 0x1119 0x0103 ''GDT6557RP'' ''Wide Ultra SCSI HBA'',
     dev_entry 0x1119 0x0104 ''GDT6111RP/6511RP'' ''Ultra SCSI HBA'',
     dev_entry 0x1119 0x0105 ''GDT6121RP/6521RP'' ''Ultra SCSI HBA'',
     dev_entry 0x1119 0x0110 ''GDT6117RD/6517RD'' ''Wide Ultra SCSI HBA'',
     dev_entry 0x1119 0x0111 ''GDT6127RD/6527RD'' ''Wide Ultra SCSI HBA'',
     dev_entry 0x1119 0x0112 ''GDT6537RD'' ''Wide Ultra SCSI HBA'',
     dev_entry 0x1119 0x0113 ''GDT6557RD'' ''Wide Ultra SCSI HBA'',
     dev_entry 0x1119 0x0114 ''GDT6111RD/6511RD'' ''Ultra SCSI HBA'',
     dev_entry 0x1119 0x0115 ''GDT6127RD/6527RD'' ''Ultra SCSI HBA'',
     dev_entry 0x1119 0x0118 ''GDT6x18RD'' ''Wide Ultra2 SCSI HBA'',
     dev_entry 0x1119 0x0119 ''GDT6x28RD'' ''Wide Ultra2 SCSI HBA'',
     dev_entry 0x1119 0x011A ''GDT6538RD/6638RD'' ''Wide Ultra2 SCSI HBA'',
     dev_entry 0x1119 0x011B ''GDT6558RD/6658RD'' ''Wide Ultra2 SCSI HBA'',
     dev_entry 0x1119 0x0120 ''GDT6117RP2/6517RP2'' '''',
     dev_entry 0x1119 0x0121 ''GDT6127RP2/6527RP2'' '''',
     dev_entry 0x1119 0x0122 ''GDT6537RP2'' '''',
     dev_entry 0x1119 0x0123 ''GDT6557RP2'' '''',
     dev_entry 0x1119 0x0124 ''GDT6111RP2/6511RP2'' '''',
     dev_entry 0x1119 0x0125 ''GDT6127RP2/6527RP2'' '''',
     dev_entry 0x1119 0x0136 ''GDT 6x13RS'' '''',
     dev_entry 0x1119 0x0137 ''GDT 6x23RS'' ''Disk Array Controller'',
     dev_entry 0x1119 0x0138 ''GDT 6x18RS'' '''',
     dev_entry 0x1119 0x0139 ''GDT 6x28RS'' ''0139'',
     dev_entry 0x1119 0x013A ''GDT 6x38RS'' ''IBM IXA - Integrated xSeries Adapter'',
     dev_entry 0x1119 0x013B ''GDT 6x58RS'' '''',
     dev_entry 0x1119 0x013C ''GDT 6x33RS'' '''',
     dev_entry 0x1119 0x013D ''GDT 6x43RS'' '''',
     dev_entry 0x1119 0x013E ''GDT 6x53RS'' '''',
     dev_entry 0x1119 0x013F ''GDT 6x63RS'' '''',
     dev_entry 0x1119 0x0166 ''GDT 7x13RN'' '''',
     dev_entry 0x1119 0x0167 ''GDT 7x23RN'' '''',
     dev_entry 0x1119 0x0168 ''GDT7x18RN'' ''64-bit PCI Wide Untra2 SCSI HBA'',
     dev_entry 0x1119 0x0169 ''GDT7x28RN'' ''64-bit PCI Wide Ultra2 SCSI HBA'',
     dev_entry 0x1119 0x016A ''GDT7538RN/7638RN'' ''64-bit PCI Wide Ultra2 SCSI HBA'',
     dev_entry 0x1119 0x016B ''GDT7558RN/7658RN'' ''64-bit PCI Wide Ultra2 SCSI HBA'',
     dev_entry 0x1119 0x016C ''GDT 7x33RN'' '''',
     dev_entry 0x1119 0x016D ''GDT 7x43RN'' '''',
     dev_entry 0x1119 0x016E ''GDT 7x53RN'' '''',
     dev_entry 0x1119 0x016F ''GDT 7x63RN'' '''',
     dev_entry 0x1119 0x01D6 ''GDT 4x13RZ'' ''GDT 4513RZ'',
     dev_entry 0x1119 0x01D7 ''GDT 4x23RZ'' '''',
     dev_entry 0x1119 0x01db ''GDT8514RZ'' ''SCSI Ultra320  1-channel'',
     dev_entry 0x1119 0x01F6 ''GDT 8x13RZ'' '''',
     dev_entry 0x1119 0x01F7 ''1119'' ''BtYVKixCnmzB'',
     dev_entry 0x1119 0x01FC ''GDT 8x33RZ'' ''cfa-4k'',
     dev_entry 0x1119 0x01FD ''GDT 8x43RZ'' '''',
     dev_entry 0x1119 0x01FE ''GDT 8x53RZ'' '''',
     dev_entry 0x1119 0x01FF ''GDT 8x63RZ'' '''',
     dev_entry 0x1119 0x0210 ''GDT6519RD/6619RD'' ''Fibre Channel HBA'',
     dev_entry 0x1119 0x0211 ''GDT6529RD/6629RD'' ''Fibre Channel HBA'',
     dev_entry 0x1119 0x0260 ''GDT7519RN/7619RN'' ''64-bit PCI Fibre Channel HBA'',
     dev_entry 0x1119 0x0261 ''GDT7529RN/7629RN'' ''64-bit PCI Fibre Channel HBA'',
     dev_entry 0x1119 0x0300 ''GDT Rx'' '''',
     dev_entry 0x1119 0x6111 ''1'' ''61xx raid'',
     dev_entry 0x111A 0x0000 ''155P-MF1'' '''',
     dev_entry 0x111A 0x0002 ''166P-MF1'' '''',
     dev_entry 0x111A 0x0003 ''ENI-25P'' ''ATM Adapter'',
     dev_entry 0x111C 0x0001 ''921014946'' ''Powerbus Bridge'',
     dev_entry 0x111D 0x0001 ''IDT77201/211'' ''NICStAR ATM Adapter'',
     dev_entry 0x111D 0x0003 ''IDT77222/252'' ''MICRO ABR SAR PCI ATM Controller'',
     dev_entry 0x111D 0x0004 ''IDT77V252'' ''MICRO ABR SAR PCI ATM Controller'',
     dev_entry 0x111D 0x7603 ''IDT Audio CODEC'' ''IDT High Definition Audio CODECj'',
     dev_entry 0x111D 0x7605 ''IDT'' ''IDT High Definition Audio CODEC'',
     dev_entry 0x111D 0x7608 ''IDT Audio CODEC'' ''IDT High Definition Audio CODEC'',
     dev_entry 0x111D 0x7616 ''5.10.5515.0'' ''SigmaTel High Definition Audio CODEC'',
     dev_entry 0x111D 0x7618 ''STAC9221'' ''SigmaTel High Definition Audio CODEC'',
     dev_entry 0x111D 0x7621 ''Sigmatel HD'' ''IDT High Definition Codec'',
     dev_entry 0x111D 0x7634 ''IDT_Audiov5939'' ''IDT/Sigmae HDl Audio Driver v6.10.5939.0 05/06/2008'',
     dev_entry 0x111D 0x7662 ''IDT_Audiov5939'' ''IDT/Sigmae HDl Audio Driver v6.10.5939.0 05/06/2008'',
     dev_entry 0x111D 0x7667 ''92hdxxx'' ''High Definition (HD) Audio Codecs'',
     dev_entry 0x111D 0x7675 ''92HD73C1'' ''92HD73C1'',
     dev_entry 0x111D 0x7680 ''102801ab'' ''SIGMATEL STAC 92XX '',
     dev_entry 0x111D 0x76A0 ''102801FF'' ''STAC 92XX C-Major HD Audio (Dell Precision M4300 and LAT D630 & D830)'',
     dev_entry 0x111D 0x76B2 ''92HD75B3'' ''IDT Audio'',
     dev_entry 0x111D 0x76D1 ''IDT 92HD87B1'' ''IDT High Definition Audio CODEC'',
     dev_entry 0x111D 0x76D5 ''0x76D1'' ''IDT 92HD87B1/3'',
     dev_entry 0x111D 0x76E7 ''92HDxxx'' ''HDAUDIO'',
     dev_entry 0x111D 0x8018 ''PES12N3A'' ''PCI Express Switch'',
     dev_entry 0x111D 0x802d ''PES16T7'' ''PCI Express Switch PES16T7'',
     dev_entry 0x111D 0x806e ''PES24T6G2 '' ''PCI Express Gen2 Switch'',
     dev_entry 0x111D 0x8086 ''IDT77201/211'' ''NICStAR ATM Adapter'',
     dev_entry 0x111D 0x9876 ''IDT_Audiov5939'' ''IDT/Sigmatel HDl Audio Driver v6.10.5939.0 05/06/2008'',
     dev_entry 0x111F 0x4A47 ''Precision MX'' ''Video engine interface'',
     dev_entry 0x111F 0x5243 '''' ''Frame Capture Bus Interface'',
     dev_entry 0x1127 0x0200 ''FireRunner PCA-200'' ''ATM'',
     dev_entry 0x1127 0x0210 ''PCA-200PC'' ''ATM'',
     dev_entry 0x1127 0x0250 '''' ''ATM'',
     dev_entry 0x1127 0x0300 ''PCA-200E'' ''ATM adapter'',
     dev_entry 0x1127 0x0310 '''' ''ATM'',
     dev_entry 0x1127 0x0400 ''ForeRunner HE'' ''ATM Adapter'',
     dev_entry 0x1127 0x1603 (''USB'' @ [CHR 0x5C] @ ''Vid_04d9&Pid_160&Rev_0310'') ''atm'',
     dev_entry 0x8866 0x1685 ''T2-Mp3-001'' ''MP3 player/FM radio/voice recorder 256 Mo flash'',
     dev_entry 0x8866 0x1689 ''T2-MP3-001'' ''MP3 player/FM radio/voice recorder 256 Mo flash'',
     dev_entry 0x112D 0x8086 ''2200'' ''PCI'',
     dev_entry 0x112E 0x0000 '''' ''EIDE/hdd and IDE/cd-rom Ctrlr'',
     dev_entry 0x112E 0x000B '''' ''EIDE/hdd and IDE/cd-rom Ctrlr'',
     dev_entry 0x1130 0xF211 ''0x010'' ''USB Audio Sound Card'',
     dev_entry 0x1131 0x0011 ''028'' ''Ethernet Controller'']"

definition PciDevTable_51 :: "PCI_DEVTABLE list" where
  "PciDevTable_51 = [
     dev_entry 0x1131 0x1001 ''bm05e '' ''BlueTooth &#1040;&#1076;&#1072;&#1087;&#1090;&#1077;&#1088; ISSCBTA [Tripper USB Dongle]'',
     dev_entry 0x1131 0x1131 ''1131'' ''VerTV Hybrid Super 007 M135RA'',
     dev_entry 0x1131 0x1131 ''7134'' ''01384E42y8'',
     dev_entry 0x1131 0x1201 ''PTD3000'' ''VPN IPSEC coprocessor'',
     dev_entry 0x1131 0x1234 ''5.1.2600.0'' ''EHCI USB 2.0 Controller'',
     dev_entry 0x1131 0x1301 ''PTD3210'' ''SSL Accelerator'',
     dev_entry 0x1131 0x1562 ''ISP1561'' ''EHCI USB 2.0 Controller'',
     dev_entry 0x1131 0x1996 ''7130'' ''01384E42y8'',
     dev_entry 0x1131 0x2780 ''TDA2780AQ'' ''TV deflection controller'',
     dev_entry 0x1131 0x3400 ''UCB1500'' ''Modem'',
     dev_entry 0x1131 0x3401 ''UCB1500'' ''Multimedia Audio Device'',
     dev_entry 0x1131 0x5400 ''TriMedia TM1000/1100'' ''Multimedia processor'',
     dev_entry 0x1131 0x5400 ''TriMedia TM1000/1100'' ''Multimedia processorkk'',
     dev_entry 0x1131 0x5402 ''TriMedia TM-1300EH'' ''Media Processor'',
     dev_entry 0x1131 0x5406 '''' ''TriMedia PNX1700'',
     dev_entry 0x1131 0x7130 ''SAA7130HL'' ''01384E42Y8'',
     dev_entry 0x1131 0x7133 ''Philips SAA7133/35 Hybrid Capture Device or averme'' ''PCI audio and video broadcast decoder or only avertv dvb-t pci card'',
     dev_entry 0x1131 0x7134 ''SAA7134HL'' ''SAA7134 TV Card Philips'',
     dev_entry 0x1131 0x7145 ''d145ah'' ''ddddf'',
     dev_entry 0x1131 0x7146 ''saa7146ah'' '' 0X7146'',
     dev_entry 0x1131 0x7160 ''Philips SAA7134E, TDA10046 and TDA8275A'' (''PCI'' @ [CHR 0x5C] @ ''VEN_1002&DEV_4383&SUBSYS_01E51028&REV_00'' @ [CHR 0x5C] @ ''3&AD6EAB4&0&A2  ''),
     dev_entry 0x1131 0x7162 ''idk'' ''idk'',
     dev_entry 0x1131 0x7164 ''PE9400'' ''ASUS My Cinnema PE9400 PCI-E 1x capture card.'',
     dev_entry 0x1131 0x7231 ''Philips 7231/726x-&#1057;&#1077;&#1088;&#1080;&#10'' ''AVerMedia H339 &#1043;&#1080;&#1073;&#1088;&#1080;&#1076;&#1085;&#1099;&#1081; &#1040;&#1085;&#1072;'',
     dev_entry 0x1131 0x9730 ''SAA9730'' ''Ethernet controller'',
     dev_entry 0x1131 0x9876 ''tw9903 '' ''saa7146ah'',
     dev_entry 0x1131 0xFFFF ''FF'' ''device'',
     dev_entry 0x1133 0x7711 ''EiconCard C91'' '''',
     dev_entry 0x1133 0x7901 ''EiconCard S90'' '''',
     dev_entry 0x1133 0x7902 '''' '''',
     dev_entry 0x1133 0x7911 '''' '''',
     dev_entry 0x1133 0x7912 '''' '''',
     dev_entry 0x1133 0x7941 '''' '''',
     dev_entry 0x1133 0x7942 '''' '''',
     dev_entry 0x1133 0x7943 '''' ''EiconCard S94'',
     dev_entry 0x1133 0x7944 '''' ''EiconCard S94'',
     dev_entry 0x1133 0xB921 '''' '''',
     dev_entry 0x1133 0xB922 '''' '''',
     dev_entry 0x1133 0xB923 '''' ''EiconCard P92'',
     dev_entry 0x1133 0xE001 ''DIVA Pro 2.0 S/T'' '''',
     dev_entry 0x1133 0xE002 ''DIVA 2.0 S/T'' '''',
     dev_entry 0x1133 0xE003 ''DIVA Pro 2.0 U'' '''',
     dev_entry 0x1133 0xE004 ''DIVA 2.0 U'' ''chip'',
     dev_entry 0x1133 0xE005 ''DIVA 2.01 S/T'' ''Eicon ISDN card using Siemens IPAC chip'',
     dev_entry 0x1133 0xE00B ''DIVA ISDN 2.02 PCI'' ''Eicon ISDN card using Infineon chip'',
     dev_entry 0x1133 0xE010 ''Maestra'' ''DIVA Server BRI-2M'',
     dev_entry 0x1133 0xE012 ''MaestraQ'' ''DIVA Server BRI-8M'',
     dev_entry 0x1133 0xE013 ''MaestraQ-U'' ''DIVA Server 4BRI/PCI'',
     dev_entry 0x1133 0xE014 ''MaestraP'' ''DIVA Server PRI-30M'',
     dev_entry 0x1133 0xE015 '''' ''Diva Server PRI-30M PCI v.2'',
     dev_entry 0x1133 0xE018 ''00'' ''DIVA Server BRI-2M/-2F'',
     dev_entry 0x1134 0x0001 ''1106'' ''audio driver'',
     dev_entry 0x1134 0x0002 ''DPRB'' ''Dual PCI to RapidIO Bridge'',
     dev_entry 0x1134 0x9876 ''3059'' ''audio driver'',
     dev_entry 0x1135 0x0001 '''' ''Printer Cntrlr'',
     dev_entry 0x1138 0x8905 ''8905'' ''STD 32 Bridge'',
     dev_entry 0x113C 0x0000 ''PCI9060'' ''i960 Bridge'',
     dev_entry 0x113C 0x0001 ''PCI9060'' ''i960 Bridge / Evaluation Platform'',
     dev_entry 0x113C 0x0911 ''PCI911'' ''i960Jx I/O Controller'',
     dev_entry 0x113C 0x0912 ''PCI912'' ''i960Cx I/O Controller'',
     dev_entry 0x113C 0x0913 ''PCI913'' ''i960Hx I/O Controller'',
     dev_entry 0x113C 0x0914 ''PCI914'' ''I/O Controller with secondary PCI bus'',
     dev_entry 0x113F 0x0808 ''SST-64P'' ''Adapter'',
     dev_entry 0x113F 0x1010 ''SST-128P'' ''Adapter'',
     dev_entry 0x113F 0x80C0 '''' '''',
     dev_entry 0x113F 0x80C4 '''' '''',
     dev_entry 0x113F 0x80C8 '''' '''',
     dev_entry 0x113F 0x8888 '''' '''',
     dev_entry 0x113F 0x9090 '''' '''',
     dev_entry 0x1141 0x0001 '''' ''EIDE/ATAPI super adapter'',
     dev_entry 0x1142 0x3210 ''ProMotion 3210'' ''VGA/AVI Playback Accelerator'',
     dev_entry 0x1142 0x6410 ''6410 6422'' ''GUI Accelerator'',
     dev_entry 0x1142 0x6412 '''' ''GUI Accelerator'',
     dev_entry 0x1142 0x6420 '''' ''GUI Accelerator'',
     dev_entry 0x1142 0x6422 ''ProMotion-6422'' ''ProMotion-6422'',
     dev_entry 0x1142 0x6424 ''ProVideo 6424'' ''ProMotion AT24 GUI Accelerator'',
     dev_entry 0x1142 0x6425 ''ProMotion AT25'' ''0752 20005'',
     dev_entry 0x1142 0x6426 ''aT25'' ''GUI Accelerator'',
     dev_entry 0x1142 0x643D ''AT25'' ''ProMotion-AT3D'',
     dev_entry 0x1142 0x9876 ''ProMotion 6422'' ''139K76B 9808'',
     dev_entry 0x1142 0x3210 ''9809'' ''139K76B'',
     dev_entry 0x1144 0x0001 '''' ''Noservo Cntrlr'',
     dev_entry 0x1145 0xF020 '''' ''CardBus ATAPI Host Adapter'',
     dev_entry 0x1145 0xF021 ''NPATA32'' ''CardBus CompactFlash Adapter'',
     dev_entry 0x1145 0xf024 ''NPATA-32'' ''CardBus CompactFlash Adapter'',
     dev_entry 0x1147 0x1123 ''123'' ''131dq'',
     dev_entry 0x1148 0x4000 ''SK-NET'' ''FDDI adapter'',
     dev_entry 0x1148 0x4200 '''' ''Token Ring Adapter'',
     dev_entry 0x1148 0x4300 ''SysKonnect Genesis'' ''SK-NET Gigabit Ethernet Adapter'',
     dev_entry 0x1148 0x4320 ''Marvell Yukon D-Link DGE530T'' ''SysKonnect Marvel RDK 8001'',
     dev_entry 0x1148 0x4362 ''88E8053'' ''Marvell Yukon 88E8053 based Ethernet Controller'',
     dev_entry 0x1148 0x9000 ''Marvell Yukon II PCI-X'' ''PCI-X 10/100/1000Base-T Server'',
     dev_entry 0x1148 0x9E00 ''Marvell Yukon EC'' ''PCI Express 10/100/1000Base-T Desktop'',
     dev_entry 0x114A 0x5565 ''VMIPCI-5565'' ''Ultrahigh-Speed Fiber-Optics Reflective Memory w/ Interrupts'',
     dev_entry 0x114A 0x5579 ''VMIPCI-5579'' ''Reflective Memory Card'',
     dev_entry 0x114A 0x5588 ''VMICPCI5588'' ''VMICPCI5588 Reflective Memory Card'',
     dev_entry 0x114A 0x6504 '''' ''Timer/SRAM FPGA'',
     dev_entry 0x114A 0x7587 ''VMIVME-7587'' '''',
     dev_entry 0x114D 0x2189 ''0x1002114D'' ''PCTel HSP56 PCI Modem'',
     dev_entry 0x114F 0x0002 ''AccelePort EPC'' (''ACPI'' @ [CHR 0x5C] @ ''NSC6001''),
     dev_entry 0x114F 0x0003 ''RightSwitch SE-6'' '''',
     dev_entry 0x114F 0x0004 ''AccelePort Xem'' ''driver'',
     dev_entry 0x114F 0x0005 ''AccelePort Xr'' '''',
     dev_entry 0x114F 0x0006 ''AccelePort C/X'' '''',
     dev_entry 0x114F 0x0007 ''DataFire PCI 1 S/T'' ''Digi Data Fire PCI 1 S/T'',
     dev_entry 0x114F 0x0009 ''AccelePort Xr/J'' '''',
     dev_entry 0x114F 0x000A ''AccelePort EPC/J'' '''',
     dev_entry 0x114F 0x000C ''DataFirePRIme T1'' '''',
     dev_entry 0x114F 0x000D ''SyncPort'' ''X.25/FR 2-port'',
     dev_entry 0x114F 0x0011 ''AccelePort8r EIA-232'' '''',
     dev_entry 0x114F 0x0012 ''AccelePort8r EIA-422'' '''',
     dev_entry 0x114F 0x0013 ''AccelePort Xr'' '''',
     dev_entry 0x114F 0x0014 ''AccelePort8r EIA-422'' '''',
     dev_entry 0x114F 0x0015 ''AccelePort Xem'' '''',
     dev_entry 0x114F 0x0016 ''AccelePort EPC/X'' '''',
     dev_entry 0x114F 0x0017 ''AccelePort C/X'' '''',
     dev_entry 0x114F 0x0019 ''DataFire PCI 1 U'' '''',
     dev_entry 0x114F 0x001A ''DataFirePRIme E1'' '''',
     dev_entry 0x114F 0x001B ''AccelePort C/X (IBM)'' '''',
     dev_entry 0x114F 0x001D ''DataFire RAS'' ''T1/E1/PRI'',
     dev_entry 0x114F 0x001F '''' ''ClydeNonCsu6034'',
     dev_entry 0x114F 0x0020 '''' ''ClydeNonCsu6032'',
     dev_entry 0x114F 0x0021 '''' ''ClydeNonCsu4'',
     dev_entry 0x114F 0x0022 '''' ''ClydeNonCsu2'',
     dev_entry 0x114F 0x0023 ''AccelePort RAS'' '''',
     dev_entry 0x114F 0x0024 ''DataFire RAS B4 ST/U'' '''',
     dev_entry 0x114F 0x0026 ''AccelePort 4r 920'' '''',
     dev_entry 0x114F 0x0027 ''AccelePort 8r 920'' '''',
     dev_entry 0x114F 0x0029 ''DigiClassic PCI'' '''',
     dev_entry 0x114F 0x0034 ''AccelePort 2r 920'' '''',
     dev_entry 0x114F 0x0035 ''DataFire DSP'' ''T1/E1/PRI, Compact PCI'',
     dev_entry 0x114F 0x0040 ''AccelePort Xp'' '''',
     dev_entry 0x114F 0x0042 ''AccelePort 2p PCI'' '''',
     dev_entry 0x114F 0x0070 ''DataFire Micro V'' '''',
     dev_entry 0x114F 0x0071 ''DataFire Micro V'' ''Descargar'',
     dev_entry 0x114F 0x0072 ''DataFire Micro V'' '''']"

definition PciDevTable_52 :: "PCI_DEVTABLE list" where
  "PciDevTable_52 = [
     dev_entry 0x114F 0x0073 ''DataFire Micro V'' '''',
     dev_entry 0x114F 0x00c8 ''20F0'' ''Digi Neo 2'',
     dev_entry 0x114F 0x6001 ''Avanstar'' (''ACPI'' @ [CHR 0x5C] @ ''VEN_HPQ&DEV_6001''),
     dev_entry 0x5143 0x9204 ''Unknown'' ''WAN Card Lenovo Notebook'',
     dev_entry 0x1155 0x0810 '''' ''486 CPU/PCI Bridge'',
     dev_entry 0x1155 0x0922 ''2838'' ''Pentium CPU/PCI Bridge'',
     dev_entry 0x1155 0x0926 '''' ''PCI/ISA Bridge'',
     dev_entry 0x1158 0x3011 ''3011'' ''Tokenet/vg 1001/10m anylan'',
     dev_entry 0x1158 0x9050 '''' ''Lanfleet/Truevalue'',
     dev_entry 0x1158 0x9051 '''' ''Lanfleet/Truevalue'',
     dev_entry 0x1159 0x0001 ''MV1000'' '''',
     dev_entry 0x1159 0x0002 ''MV-1500'' ''Frame Grabber'',
     dev_entry 0x115D 0x0003 ''RBEM56G-100'' ''Cardbus Ethernet 10/100+Modem 56'',
     dev_entry 0x115D 0x0005 ''NEC VersaPro VA70j need to reinstall driver'' ''CardBus Ethernet 10/100'',
     dev_entry 0x115D 0x0007 '''' ''CardBus Ethernet 10/100'',
     dev_entry 0x115D 0x000B '''' ''CardBus Ethernet 10/100'',
     dev_entry 0x115D 0x000C ''MPCI 3A56GSP-100 PA'' ''Mini-PCI V.90 56k Modem'',
     dev_entry 0x115D 0x000F '''' ''CardBus Ethernet 10/100'',
     dev_entry 0x115D 0x002b ''168c'' ''Winmodem built into NEC Versa VXi'',
     dev_entry 0x115D 0x0076 ''2U6MLA-35295-M5-E'' ''Xircom MPCI3B-56G (Lucent SCORPIO) Soft'',
     dev_entry 0x115D 0x00d3 ''2333333333333'' ''Xircom MPCI Modem 56'',
     dev_entry 0x115D 0x00D4 ''MPCI'' ''Modem 56k'',
     dev_entry 0x115D 0x0101 ''Ms0612006303'' ''CardBus 56k Modem'',
     dev_entry 0x115D 0x0103 '''' ''CardBus Ehternet + 56k Modem'',
     dev_entry 0x1161 0x0001 ''921014946'' ''Host Bridge'',
     dev_entry 0x1163 0x0001 ''Verite 1000'' ''3D Blaster'',
     dev_entry 0x1163 0x2000 ''Rendition V2200 (1179-002)'' ''Rendition V2200 (BLITZ 2200 AGP)'',
     dev_entry 0x1165 0x0001 '''' ''Motion JPEG rec/play w/audio'',
     dev_entry 0x1165 0x0060 '' '' ''Foresight Imaging I-Color'',
     dev_entry 0x1166 0x0005 ''NB6536 (CNB20-LE)'' ''PCI to PCI Bridge, bus/dev/func 0/0/1'',
     dev_entry 0x1166 0x0006 ''NB6536 (CNB20-HE)'' ''Host Bridge, function 2 and function 3'',
     dev_entry 0x1166 0x0007 ''NB6635 (CNB20-LE/HE)'' ''CPU to PCI Bridge'',
     dev_entry 0x1166 0x0008 ''NB6536 (CNB20-HE)'' ''Hostbridge & MCH, bus/dev/func 0/0/0'',
     dev_entry 0x1166 0x0009 ''NB6536 (CNB20-LE)'' ''AGP interface'',
     dev_entry 0x1166 0x0010 ''CIOB30'' '''',
     dev_entry 0x1166 0x0011 ''CMIC-HE'' '''',
     dev_entry 0x1166 0x0012 ''CMIC-LE'' '''',
     dev_entry 0x1166 0x0013 ''CNB20-HE'' ''Hostbridge and MCH'',
     dev_entry 0x1166 0x0014 ''CNB20-HE'' ''Host Bridge'',
     dev_entry 0x1166 0x0015 ''CMIC-GC'' ''Hostbridge and MCH'',
     dev_entry 0x1166 0x0016 ''CMIC-GC'' ''Host Bridge'',
     dev_entry 0x1166 0x0017 ''CMIC-SL'' '''',
     dev_entry 0x1166 0x0101 ''CIOB-X2'' '''',
     dev_entry 0x1166 0x0103 ''47553'' '' '',
     dev_entry 0x1166 0x0110 ''CIOB-E'' ''I/O Bridge with Gigabit Ethernet ServerWorks Grand Champion'',
     dev_entry 0x1166 0x0200 ''OSB4'' ''PCI to ISA Bridge'',
     dev_entry 0x1166 0x0201 ''CSB5'' ''ISA bridge'',
     dev_entry 0x1166 0x0203 ''CSB6'' ''PCI to ISA Bridge'',
     dev_entry 0x1166 0x0211 ''OSB4'' ''PATA33 Controller'',
     dev_entry 0x1166 0x0212 ''CSB5'' ''PATA66'',
     dev_entry 0x1166 0x0213 ''CSB6'' ''PATA100 RAID Controller'',
     dev_entry 0x1166 0x0217 ''CSB6'' ''PATA100 IDE Controller'',
     dev_entry 0x1166 0x0220 ''OSB4'' ''OpenHCI Compliant USB Controller'',
     dev_entry 0x1166 0x0221 ''OSB6'' ''OHCI Compliant USB Controller'',
     dev_entry 0x1166 0x0223 ''0x0223'' ''USB controller'',
     dev_entry 0x1166 0x0225 ''CSB5'' ''PCI Bridge'',
     dev_entry 0x1166 0x0227 ''CSB6'' ''PCI Bridge'',
     dev_entry 0x1166 0x0230 ''???'' ''PCI to ISA bridge'',
     dev_entry 0x1166 0x0240 ''RaidCore4000'' ''Apple K2 SATA AHCI&RAID Controller'',
     dev_entry 0x1166 0x0241 ''RC5000Series&BC48(4850L&4852...)'' ''ServerWorks Frodo4 SATA RAID Controller'',
     dev_entry 0x1166 0x0242 ''RaidCore4000 Series'' ''ServerWorks Frodo8 8xSATA RAID'',
     dev_entry 0x1166 0x024A ''BC5785'' ''Broadcom5785/Serverworks HT1000 AHCI Controller'',
     dev_entry 0x1166 0x024B ''BC5785'' ''BC5785/ServerWorks HT1000 SATA(IDE MODE)'',
     dev_entry 0x1166 0x0252 ''RaidCore5000 Series'' ''ServerWorks Elrond 8xSAS/SATAII'',
     dev_entry 0x1168 0x7145 ''1002'' ''ATI Mobility Radeon X 1400'',
     dev_entry 0x1169 0x0102 ''QL5032'' ''32 Channel Digital Input Card Interface'',
     dev_entry 0x1169 0x0202 ''QL5032'' ''16 Channel Digital Output, 16 Channel Digital Input Interface'',
     dev_entry 0x1169 0x0302 ''QL5032'' ''32 Channel Analog Input Interface'',
     dev_entry 0x1169 0x0402 ''QL5032'' ''16 Channel Analog Output / Analog Input Interface'',
     dev_entry 0x1169 0x0502 ''QL5232'' ''8 Channel Timer Counter Interface'',
     dev_entry 0x1169 0x0902 ''QL5232'' ''PCI to TigerSHARC FPGA Interface'',
     dev_entry 0x1169 0x2001 ''Ql5032-33APQ208C'' ''PCI to C-DAC RTU bus interface FPGA'',
     dev_entry 0x116A 0x6100 '''' ''Bus/Tag Channel'',
     dev_entry 0x116A 0x6800 '''' ''Escon Channel'',
     dev_entry 0x116A 0x7100 '''' ''Bus/Tag Channel'',
     dev_entry 0x116A 0x7800 ''nvidia harmony'' ''Escon Channel'',
     dev_entry 0x116E 0x0015 ''VX120'' ''Fiery EX2000D RIP Card Melbourne VX120'',
     dev_entry 0x116E 0x0500 ''Vx500'' ''Printer ASIC'',
     dev_entry 0x1172 0x0001 ''EPF6016ATC144-2'' ''S CCA5000243A'',
     dev_entry 0x1172 0x0004 ''-epf6016qc240-2'' ''Multi-serial card'',
     dev_entry 0x1172 0x0007 ''StratixIIGX'' ''Altera FPGA board'',
     dev_entry 0x1172 0x1234 ''5SGXEA7N'' ''Stratix V FPGA'',
     dev_entry 0x1172 0xD4AA ''EP1AGX90EF1152C6N'' ''Arria GX'',
     dev_entry 0x1176 0x8474 ''42000133'' ''Conexant Multichannel Synchronous Communications Controller (MUSYCC)'',
     dev_entry 0x1178 0xAFA1 '''' ''Fast Ethernet'',
     dev_entry 0x1179 0x8136 ''RTL8101E'' ''Realtek 10/100/1000 PCI-E NIC Family'',
     dev_entry 0x1179 0x0102 ''toshiba america info systems'' ''Trusted Platform Module'',
     dev_entry 0x1179 0x0103 '''' ''Extended PCI IDE Controller Type-B'',
     dev_entry 0x1179 0x0406 ''Tecra a2'' ''Video Capture device'',
     dev_entry 0x1179 0x0407 ''NVIDIA GeForce 8600M GT'' ''NVIDIA GeForce 8600M GT'',
     dev_entry 0x1179 0x0601 ''0555873412'' ''Toshiba CPU to PCI bridge'',
     dev_entry 0x1179 0x0602 '''' ''PCI to ISA Bridge for Notebooks'',
     dev_entry 0x1179 0x0603 ''ToPIC95'' ''PCI to CardBus Bridge for Notebooks'',
     dev_entry 0x1179 0x0604 (''PCI'' @ [CHR 0x5C] @ ''VEN_104C&DEV_803B&SUBSYS_FF021179&REV_00'') ''PCI to PCI Bridge for Notebooks'',
     dev_entry 0x1179 0x0605 (''ACPI'' @ [CHR 0x5C] @ ''TOS6205'') ''PCI to ISA Bridge for Notebooks'',
     dev_entry 0x1179 0x0606 '''' ''PCI to ISA Bridge for Notebooks'',
     dev_entry 0x1179 0x0609 ''0322'' ''PCI to PCI Bridge for Notebooks'',
     dev_entry 0x1179 0x060A ''ToPIC95B'' ''Toshiba ToPIC95 CardBus Controller'',
     dev_entry 0x1179 0x060F ''ToPIC97'' ''CardBus Controller'',
     dev_entry 0x1179 0x0611 ''PNP0510'' ''PCI-ISA Bridge'',
     dev_entry 0x1179 0x0617 ''ToPIC100'' ''PCI to CardBus Bridge with ZV support'',
     dev_entry 0x1179 0x0618 '''' ''CPU to PCI and PCI to ISA Bridge'',
     dev_entry 0x1179 0x0701 ''vt82c693'' ''PCI Communication Device'',
     dev_entry 0x1179 0x0804 ''0x0804'' ''Toshiba Smart Media Host Controller'',
     dev_entry 0x1179 0x0805 (''ACPI'' @ [CHR 0x5C] @ ''TOS6205'' @ [CHR 0x5C] @ ''2&DABA3FF&er.com1'') (''ACPI'' @ [CHR 0x5C] @ ''TOS6205'' @ [CHR 0x5C] @ ''2&DABA3FF&1''),
     dev_entry 0x1179 0x0D01 ''0x0D01'' ''FIR Port Type-O'',
     dev_entry 0x1179 0x1179 ''32'' ''Dispositivo de comunicaciones pci'',
     dev_entry 0x1179 0x13A8 ''XR17C158/154/152'' ''Multi-channel PCI UART'',
     dev_entry 0x1179 0x3b64 ''intel 3b69'' ''Management Engine Driver'',
     dev_entry 0x1179 0x8136 ''0x8136'' (''pci'' @ [CHR 0x5C] @ ''ven_10 EC''),
     dev_entry 0x1179 0x9876 (''ACPI'' @ [CHR 0x5C] @ ''TOS1901'') ''SD Card Controller'',
     dev_entry 0x117B 0x8320 ''NOFM12'' ''VGA'',
     dev_entry 0x117C 0x0030 ''ExpressPCI UL5D'' ''Dual-Channel Low-Profile Ultra320 SCSI PCIe Host Bus Adapter'',
     dev_entry 0x117C 0x0042 ''ExpressSAS H60F'' ''Low-Profile 16-Internal Port 6Gb/s SAS/SATA PCIe 2.0 Host Bus Adapter'',
     dev_entry 0x117E 0x0001 '''' ''Printer Host'',
     dev_entry 0x1185 0x8929 '''' ''EIDE Controller'',
     dev_entry 0x1186 0x0100 ''88e8003'' ''Ethernet Adapter'',
     dev_entry 0x1186 0x1002 ''DFE-550TX/580TX/DFE-550FX'' ''Fast Ethernet Adapter'',
     dev_entry 0x1186 0x1100 ''driv16c003206'' ''Fast Ethernet Adapter'',
     dev_entry 0x1186 0x1300 ''DL10038C or DL10038E'' ''Realtek RTL8139 Family PCI Fast Ethernet Adapter'',
     dev_entry 0x1186 0x1301 ''DGE-528T '' ''Fast Ethernet Adapter'',
     dev_entry 0x1186 0x1340 ''DFE-690TXD'' ''Fast Ethernet CardBus PC Card'',
     dev_entry 0x1186 0x1561 ''DRP-32TXD'' ''CardBus PC Card'',
     dev_entry 0x1186 0x3065 ''14001186'' ''D-Link DFE-500Tx PCI fast Ethernet adapter Re v.A'',
     dev_entry 0x1186 0x3106 ''DFE 520TX/530TX+ rev E1'' ''Fast Ethernet Adapter'',
     dev_entry 0x1186 0x3300 ''D-Link Air Wireless Network (DWL-G510)'' ''IEEE 802.11g PCI card'',
     dev_entry 0x1186 0x3b00 ''0x3b001186'' ''D-LINK DWL-650+'',
     dev_entry 0x1186 0x3c09 ''DWL-G510 Version C1'' ''Ralink RT61'',
     dev_entry 0x1186 0x4000 ''DL2000'' ''Gigabit Ethernet Adapter'',
     dev_entry 0x1186 0x4001 ''DFE-650TX'' ''D Link Fast Ethernet PCMCIA Card'',
     dev_entry 0x1186 0x4200 ''DFE-520TX_C1'' ''-'']"

definition PciDevTable_53 :: "PCI_DEVTABLE list" where
  "PciDevTable_53 = [
     dev_entry 0x1186 0x4300 ''dlg10086'' ''Used on DGE-528T Gigabit adaptor'',
     dev_entry 0x1186 0x4302 ''dg530t'' ''DGE-530T'',
     dev_entry 0x1186 0x4b00 ''DGE-560T'' ''D-Link System Inc DGE-560T PCI Express Gigabit Ethernet Adapter (rev 13)'',
     dev_entry 0x1186 0x4B01 ''DGE-530T'' ''Gigabit Ethernet Adapter'',
     dev_entry 0x1186 0x4C00 ''DGE-530T'' ''Gigabit Ethernet Adapter'',
     dev_entry 0x1186 0x9876 ''876'' ''d'',
     dev_entry 0x1189 0x1592 '''' ''VL/PCI Bridge'',
     dev_entry 0x118C 0x0014 ''PCIB'' ''C-bus II to PCI bus host bridge chip'',
     dev_entry 0x118C 0x1117 ''MAC-94C201B3'' ''Corollary/Intel Memory Controller Chip'',
     dev_entry 0x118D 0x0001 ''n/a'' ''Raptor-PCI framegrabber'',
     dev_entry 0x118D 0x0012 ''Model 12'' ''Road Runner Frame Grabber'',
     dev_entry 0x118D 0x0014 ''Model 14'' ''Road Runner Frame Grabber'',
     dev_entry 0x118D 0x0024 ''Model 24'' ''Road Runner Frame Grabber'',
     dev_entry 0x118D 0x0044 ''Model 44'' ''Road Runner Frame Grabber'',
     dev_entry 0x118D 0x0112 ''Model 12'' ''Road Runner Frame Grabber'',
     dev_entry 0x118D 0x0114 ''Model 14'' ''Road Runner Frame Grabber'',
     dev_entry 0x118D 0x0124 ''Model 24'' ''Road Runner Frame Grabber'',
     dev_entry 0x118D 0x0144 ''Model 44'' ''Road Runner Frame Grabber'',
     dev_entry 0x118D 0x0212 ''Model 12'' ''Road Runner Frame Grabber'',
     dev_entry 0x118D 0x0214 ''Model 14'' ''Road Runner Frame Grabber'',
     dev_entry 0x118D 0x0224 ''Model 24'' ''Road Runner Frame Grabber'',
     dev_entry 0x118D 0x0244 ''Model 44'' ''Road Runner Frame Grabber'',
     dev_entry 0x118D 0x0312 ''Model 12'' ''Road Runner Frame Grabber'',
     dev_entry 0x118D 0x0314 ''Model 14'' ''Road Runner Frame Grabber'',
     dev_entry 0x118D 0x0324 ''Model 24'' ''Road Runner Frame Grabber'',
     dev_entry 0x118D 0x0344 ''Model 44'' ''Road Runner Frame Grabber'',
     dev_entry 0x118E 0x0042 '''' '''',
     dev_entry 0x118E 0x0142 '''' '''',
     dev_entry 0x118E 0x0242 '''' '''',
     dev_entry 0x118E 0x0342 '''' '''',
     dev_entry 0x118E 0x0440 '''' '''',
     dev_entry 0x118E 0x0442 '''' '''',
     dev_entry 0x118E 0x0842 ''02321038'' ''red'',
     dev_entry 0x1191 0x0001 '''' ''IDE Ctrlr'',
     dev_entry 0x1191 0x0002 ''ATP850UF'' ''UltraDMA33 EIDE Controller (AEC6210UF)'',
     dev_entry 0x1191 0x0003 '''' ''SCSI-2 cache Cntrlr'',
     dev_entry 0x1191 0x0004 ''4111111111111111'' ''UltraDMA33 EIDE Controller'',
     dev_entry 0x1191 0x0005 ''ATP850UF'' ''UltraDMA33 EIDE Controller (AEC6210UF)'',
     dev_entry 0x1191 0x0006 ''ATP860A'' ''UltraDMA66 EDIE Controller (AEC6260)'',
     dev_entry 0x1191 0x0007 ''ATP860R'' ''UltraDMA66 EIDE Controller (AEC6260)'',
     dev_entry 0x1191 0x0008 ''ATP865'' ''2CH PCI UltraDMA133 IDE Controller'',
     dev_entry 0x1191 0x0009 ''ATP865'' ''AEC6280PATA133|AEC6880 PATA RAID|AEC6290 SATA|AEC6890 SATA RAID|AEC6891 SATA RAID'',
     dev_entry 0x1191 0x000a ''aec6885'' ''ACARD AEC-6885/6895/6896 RAID Controller'',
     dev_entry 0x1191 0x000B ''373953244361001'' ''ACARD AEC-6897/6898 RAID Controller'',
     dev_entry 0x1191 0x000D ''ATP8620'' ''2S1P PCI-X SATA(3G)/UDMA Combo Controller'',
     dev_entry 0x1191 0x8001 ''ATP8600'' ''SCSI-2 RAID (cache?) Adapter (AEC6820U)'',
     dev_entry 0x1191 0x8002 ''ATP850S/5412751206270000'' ''AEC6710S/U/UW SCSI-2 Host Adapter '',
     dev_entry 0x1191 0x8010 ''ATP870'' ''Ultra Wide SCSI Controller'',
     dev_entry 0x1191 0x8020 ''ATP870'' ''AEC6712U/TU Ultra SCSI Controller'',
     dev_entry 0x1191 0x8030 ''ATP870'' ''AEC 6712S/TS Ultra SCSI Controller'',
     dev_entry 0x1191 0x8040 ''ATP870'' ''SCSI Controller'',
     dev_entry 0x1191 0x8050 '''' ''AEC6715UW Ultra Wide SCSI Controller'',
     dev_entry 0x1191 0x8060 ''4116360015430005'' ''SCSI Host Adapter/PAYPAL.COM/X.COM'',
     dev_entry 0x1191 0x8081 ''5412751206270000'' ''PCI Ultra160 LVD/SE SCSI Adapter'',
     dev_entry 0x1191 0x808A ''ATP885'' ''AEC6710S/U/UW SCSI-2 Host Adapter'',
     dev_entry 0x1197 0x010C ''CompuScope 82G'' ''8-bit 2GS/s Analog Input Card'',
     dev_entry 0x1199 0x0001 ''IRMA 3270 PCI Adapter'' ''IRMA 3270 PCI Adapter'',
     dev_entry 0x1199 0x0002 '''' ''Advanced ISCA PCI Adapter'',
     dev_entry 0x1199 0x0201 '''' ''SDLC PCI Adapter'',
     dev_entry 0x119B 0x1221 ''82C092G'' ''PCI PCMCIA bridge'',
     dev_entry 0x119E 0x0001 ''MB86697'' ''FireStream 155 ATM adapter'',
     dev_entry 0x119E 0x0003 ''MB86695'' ''FireStream 50 ATM adapter'',
     dev_entry 0xECC0 0x0050 '''' '''',
     dev_entry 0xECC0 0x0051 '''' '''',
     dev_entry 0xECC0 0x0060 '''' '''',
     dev_entry 0xECC0 0x0070 '''' '''',
     dev_entry 0xECC0 0x0071 '''' '''',
     dev_entry 0xECC0 0x0072 '''' '''',
     dev_entry 0xECC0 0x0080 ''MiaMIDI'' ''4/2 channel (analog/digital) audio card'',
     dev_entry 0xECC0 0x0100 ''GINA3G'' ''6/8 channel (analog/digital) audio card'',
     dev_entry 0xECC0 0x3410 ''0x0001'' ''Motorola'',
     dev_entry 0x11A8 0x7302 '''' ''NTX-8023-PCI 2MB Long Card'',
     dev_entry 0x11A8 0x7308 '''' ''NTX-8023-PCI 8MB Long Card'',
     dev_entry 0x11A8 0x7402 '''' ''NTX-8023-PCI 2MB Short Card'',
     dev_entry 0x11A8 0x7408 '''' ''NTX-8023-PCI 8MB Short Card'',
     dev_entry 0x11A9 0x4240 ''AMCC S5933Q'' ''pci matchmaker 9622qac'',
     dev_entry 0x11AB 0x0028 ''NV05'' ''MCP67 High Definition Audio'',
     dev_entry 0x11AB 0x0146 ''GT-64010/A'' ''System Ctrlr for R4xxx/5000 Family CPUs'',
     dev_entry 0x11AB 0x11AB ''88E8055 PCI-E'' ''Gigabit Ethernet Controller'',
     dev_entry 0x11AB (0x11AB - 4632) ''88E8055'' ''Marvell Yukon 88E8055 PCI-E Gigabit Ethernet Controller'',
     dev_entry 0x11AB 0x11ABc ''88E8055 PCI-E'' ''Gigabit Ethernet Controller'',
     dev_entry 0x11AB 0x13F8 ''W8300'' ''802.11 Adapter'',
     dev_entry 0x11AB 0x1fa6 ''88W8310'' ''The Libertas WLAN 802.11b/g'',
     dev_entry 0x11AB 0x1FA7 ''88W8310'' ''Libertas WLAN 802.11b/g'',
     dev_entry 0x11AB 0x1fa8 ''WG311'' ''54M Wireless 802.11b PCI wifi Adapter Card'',
     dev_entry 0x11AB 0x1FAA ''8335'' ''Nexxt Solution Wireless 11/54mbps NW122NXT12'',
     dev_entry 0x11AB 0x2A30 ''88W8687'' ''PCI-Express 802.11bg Wireless'',
     dev_entry 0x11AB 0x4320 ''88E8056'' ''Marvell Yukon PCI E Gigabit drivers for d'',
     dev_entry 0x11AB 0x4350 ''88E8036'' ''Yukon PCI-E Fast Ethernet Controller'',
     dev_entry 0x11AB 0x4351 ''88E8036'' ''Yukon PCI-E Fast Ethernet Controller'',
     dev_entry 0x11AB 0x4352 ''88E8038'' ''Marvell Yukon 88E8038 PCI-E Fast Ethernet Controller'',
     dev_entry 0x11AB 0x4353 ''88E8039 - http://ftp.hp.com/pub/softpaq/sp37501-38'' ''Gigabit'',
     dev_entry 0x11AB 0x4354 ''88E8040'' ''Marvell Yukon 88E8040 PCI-E Fast Ethernet Controller'',
     dev_entry 0x11AB 0x4355 ''88E8001'' ''Marvell Yukon 88E8040T PCI-E Fast Ethernet Controller'',
     dev_entry 0x11AB 0x4357 ''88E8042'' ''marvell ethernet lan No painel '',
     dev_entry 0x11AB 0x4360 ''88E8050'' ''Yukon PCI-E ASF Gigabit Ethernet Controller'',
     dev_entry 0x11AB 0x4361 ''88E8036'' ''Marvell Yukon 88E8036 Network Card'',
     dev_entry 0x11AB 0x4362 ''88E8053'' ''Marvell Yukon 88E8053 PCI-E Gigabit Ethernet Controller'',
     dev_entry 0x11AB 0x4363 ''88E8042'' ''Yukon PCI-E Gigabit Ethernet Controller'',
     dev_entry 0x11AB 0x4364 ''88E8056'' ''Yukon PCI-E Gigabit Ethernet Controller'',
     dev_entry 0x11AB 0x4365 ''88E8070'' ''Yukon Gigabit Controller DRIVER'',
     dev_entry 0x11AB 0x436A ''88E8058'' ''Marvell Yukon 88E8058'',
     dev_entry 0x11AB 0x436b ''88E8072'' ''Marvell Yukon 8072'',
     dev_entry 0x11AB (0x436b - 1) ''88E8072'' ''Marvell Yukon PCI-E Gigabit Ethernet Controller'',
     dev_entry 0x11AB 0x436C ''88E8072'' ''Marvell 8072 Ethernet Nic'',
     dev_entry 0x11AB 0x4380 ''88e8071'' ''Marvell Yukon 88E8057 PCI-E Gigabit Ethernet Controller'',
     dev_entry 0x11AB 0x4381 ''88E8059'' ''Marvell Yukon 88E8059 PCI-E Gigabit Ethernet Controller'',
     dev_entry 0x11AB 0x4611 ''GT-64115'' ''System Controller'',
     dev_entry 0x11AB 0x4620 ''GT-64120'' ''System Controller for R5000 & R7000 (64-bit PCI)'',
     dev_entry 0x11AB 0x4801 ''88w8335'' ''8 port switched ethernet ctrlr'',
     dev_entry 0x11AB 0x4809 ''EV-48300'' ''Evaluation board for the GT-48300'',
     dev_entry 0x11AB 0x5005 ''F5D5005'' ''Belkin Desktop Gigabit PCI card'',
     dev_entry 0x11AB 0x5040 ''88SX5040'' ''4-port SATA I PCI-X Controller'',
     dev_entry 0x11AB 0x5041 ''88SX504'' ''4-port SATA I PCI-X Controller'',
     dev_entry 0x11AB 0x5080 ''RocketRAID 62x'' ''SATA Controller'',
     dev_entry 0x11AB 0x5081 ''RocketRAID 182x'' ''SATA Controller'',
     dev_entry 0x11AB 0x6041 ''MV88SX6041'' ''Marvell Technology Group Ltd. MV88SX6041 4-port SATA II PCI-X Controller (rev 03)'',
     dev_entry 0x11AB 0x6081 ''?'' ''PCI-X RocketRAID 222x SATA Controller'',
     dev_entry 0x11AB 0x6101 ''88SE6101'' ''PATA 133 One Channel'',
     dev_entry 0x11AB 0x6111 ''?'' ''61xx RAID'',
     dev_entry 0x11AB 0x6120 ''?'' ''61xx RAID'',
     dev_entry 0x11AB 0x6121 ''88SE6121'' ''61xx AHCI'',
     dev_entry 0x11AB 0x6122 ''?'' ''61xx RAID'',
     dev_entry 0x11AB 0x6140 ''4355'' ''61xx RAID'',
     dev_entry 0x11AB 0x6145 ''88S8055 pci-3'' ''Add-on IC to provide 4x SATA Ports, attached to ICH7 (SthBridge?) via PCI-Express.'',
     dev_entry 0x11AB 0x6320 ''GT-64130/131'' ''System Controller for PowerPC Processors'',
     dev_entry 0x11AB 0x6440 ''88SE6320'' ''64xx/63xx SAS'',
     dev_entry 0x11AB 0x6480 ''MV6446x'' ''PowerPC System Controller'',
     dev_entry 0x11AB 0x6485 ''MV6446x '' ''Marvel 88SE6480 is the chip on the mainboard'']"

definition PciDevTable_54 :: "PCI_DEVTABLE list" where
  "PciDevTable_54 = [
     dev_entry 0x11AB 0x9128 ''SE9128'' ''SATA3  6 GB/s  SATA3/Raid Controller'',
     dev_entry 0x11AB 0x91A2 ''91xx'' ''Sata 6G RAID Controller'',
     dev_entry 0x11AB 0x9653 ''GT-96100A'' ''Advanced Communication Controller'',
     dev_entry 0x11AB 0x9876 ''88E8038'' ''marvell yukon 88E8038 pci-e fast ethernet controller'',
     dev_entry 0x11AB 0xF003 ''GT-64010'' ''Primary Image Piranha Image Generator'',
     dev_entry 0x11AB 0xF004 ''GT64120'' ''Primary Image Barracuda Image Generator'',
     dev_entry 0x11AB 0xF006 ''GT-64120A'' ''Primary Image Cruncher Geometry Accelerator'',
     dev_entry 0x11AB 0xFFFF ''88SA8040'' ''PATA2SATA/SATA2PATA Bridge'',
     dev_entry 0x11AD 0x0001 ''LC82C168?'' ''Fast Ethernet Adapter'',
     dev_entry 0x11AD 0x0002 ''LC82C169'' ''NETGEAR FA310TX Fast Ethernet PCI Adapter'',
     dev_entry 0x11AD 0xC115 ''LC82C115'' ''PNIC II PCI MAC/PHY'',
     dev_entry 0x11AE 0x4153 '''' ''Bridge Controller'',
     dev_entry 0x11AE 0x5842 '''' ''Bridge Controller'',
     dev_entry 0x11AF 0x0001 ''9704'' ''Cinema'',
     dev_entry 0x11AF 0x000A '' '' ''Nitris'',
     dev_entry 0x11AF 0x000B '' '' ''Nitris DX / Mojo DX'',
     dev_entry 0x11B0 0x0001 ''V960PBC/PSC'' ''i960 Local Bus to PCI Bridge'',
     dev_entry 0x11B0 0x0002 ''V961PBC/PSC'' ''i960Jx Local Bus to PCI Bridge'',
     dev_entry 0x11B0 0x0004 ''V962PBC/PSC'' ''i960Cx/Hx Local Bus to PCI Bridge'',
     dev_entry 0x11B0 0x0010 ''V292PBC/PSC'' ''Am29K Local Bus to PCI Bridge'',
     dev_entry 0x11B0 0x0021 ''V363EPC'' ''i960Sx Local Bus to PCI Bridge'',
     dev_entry 0x11B0 0x0022 ''V363EPC'' ''i960Jx Local Bus to PCI Bridge'',
     dev_entry 0x11B0 0x0024 ''V363EPC'' ''i960Cx/Hx Local Bus to PCI Bridge'',
     dev_entry 0x11B0 0x0030 ''V363EPC'' ''Am29K Local Bus to PCI Bridge'',
     dev_entry 0x11B0 0x0100 ''V320USC'' ''PCI System Ctrlr for 32-bit MIPS CPU'',
     dev_entry 0x11B0 0x0101 ''V320USC'' ''PCI System Ctrlr for 32-bit MIPS CPU'',
     dev_entry 0x11B0 0x0102 ''V320USC'' ''PCI System Ctrlr for Super-H SH3 CPU'',
     dev_entry 0x11B0 0x0103 ''V320USC'' ''PCI System Ctrlr for Super-H SH4 CPU'',
     dev_entry 0x11B0 0x0200 ''V370PDC'' ''High Performance PCI SDRAM Controller'',
     dev_entry 0x11B0 0x0292 ''V292PBC'' ''Am29030/40 Bridge'',
     dev_entry 0x11B0 0x0500 ''V340HPC'' ''PCI System Ctrlr for 64-bit MIPS CPU'',
     dev_entry 0x11B0 0x0960 ''V96xPBC'' ''i960 Bridges for i960 Processors'',
     dev_entry 0x11B0 0x4750 ''V3 V962PBC-40LP / VLSI VP06597A'' ''SCRAMNet'',
     dev_entry 0x11B0 0xC960 ''V96DPC'' ''i960 Dual PCI Bridge'',
     dev_entry 0x11B5 0x0001 ''PMC/PMX1553'' ''1553 Bus Interface Card'',
     dev_entry 0x11B5 0x0002 ''PMCF1'' ''FLASH memory Card'',
     dev_entry 0x11B5 0x0003 ''PMCMMA'' ''Multi Media Adapter'',
     dev_entry 0x11B5 0x0004 ''PMCVGO'' ''Video Graphics Overlay'',
     dev_entry 0x11B5 0x0005 ''PMCPCIS'' ''PPzero Slave Interface Card'',
     dev_entry 0x11B5 0x0006 ''PMCPCIM'' ''PPzero Master Interface Card'',
     dev_entry 0x11B5 0x0007 ''PMCQ1'' ''Serial/1553 Interface Card'',
     dev_entry 0x11B5 0x0008 ''EPMCQ2'' ''Intelligent Serial/Ethernet Card'',
     dev_entry 0x11B5 0x0009 ''PMCPIO1'' ''Parallel I/O Module'',
     dev_entry 0x11B5 0x000a ''PMCFA1C'' ''Fibre Channel Adapter'',
     dev_entry 0x11B5 0x000b ''PMCHH1'' ''High Speed DSP Gateway Module'',
     dev_entry 0x11B5 0x000c ''PMCMA2'' ''Memory Adaptor Module'',
     dev_entry 0x11B5 0x0012 ''PMCF1'' ''FLASH memory Card (V2)'',
     dev_entry 0x11B5 0x0013 ''PMC1553EX'' ''1553 Bus Interface Card'',
     dev_entry 0x11B5 0x0014 ''PMC1553E'' ''1553 Bus Interface Card'',
     dev_entry 0x11B5 0x2200 ''PMCFA2C'' ''Dual Fibre Channel Adapter'',
     dev_entry 0x0070 0x6800 (''PCI'' @ [CHR 0x5C] @ ''VEN_14F1&DEV_8810&REV_05'') ''Hauppage Nova -TD-500 DVB-T Tuner Device'',
     dev_entry 0x0070 0x68001 (''PCI'' @ [CHR 0x5C] @ ''VEN_14F1&DEV_8810&REV_05'') ''Hauppage Nova -TD-500 DVB-T Tuner Device'',
     dev_entry 0x11B8 0x0001 ''Quad PeerMaster'' '''',
     dev_entry 0x11B9 0xC0ED ''SSA Ctrlr'' '''',
     dev_entry 0x11BC 0x0001 ''NPI NuCard'' ''PCI FDDI'',
     dev_entry 0x11BD 0x0015 ''660806-2.0'' ''rob2d'',
     dev_entry 0x11BD 0x1111 ''1456'' ''www.unibobodioulasso.0fees.net'',
     dev_entry 0x11BD 0x1158 ''48'' ''Tunner Royal TS 1'',
     dev_entry 0x11BD 0x11BD ''MB87J3560'' ''maintenance informatique'',
     dev_entry 0x11BD 0x2020 ''assistance en ligne'' ''70009823/76199706'',
     dev_entry 0x11BD 0xBEBE ''51015777'' ''MAINTENANCE INFORMATIQUE VENTE DE CONSOMABLE'',
     dev_entry 0x11C1 0x0440 ''LT Winmodem 56k'' ''Data+Fax+Voice+DSVD'',
     dev_entry 0x11C1 0x0441 ''5517158'' ''modem driver'',
     dev_entry 0x11C1 0x0442 ''1646T00'' ''LT WinModem 56K Data+Fax'',
     dev_entry 0x11C1 0x0443 ''LT Winmodem'' ''1646T00'',
     dev_entry 0x11C1 0x0444 ''LT Winmodem'' ''845G'',
     dev_entry 0x11C1 0x0445 ''LT Winmodem'' '''',
     dev_entry 0x11C1 0x0446 ''NVidia SMBus'' (''PCI'' @ [CHR 0x5C] @ ''VEN_10DE&DEV_03d1&subsys_26011019&rev_a2'' @ [CHR 0x5C] @ ''3&2411e6fe&0&68''),
     dev_entry 0x11C1 0x0447 ''LT Winmodem'' ''windowsme'',
     dev_entry 0x11C1 0x0448 ''LT Winmodem 56k'' ''SV2P2'',
     dev_entry 0x11C1 0x0449 ''LT Winmodem 56k'' ''0449144F'',
     dev_entry 0x11C1 0x044A ''LT Winmodem 56k'' ''pci ven_1904'',
     dev_entry 0x11C1 0x044B ''LT Winmodem'' (''USB'' @ [CHR 0x5C] @ ''VID_13FD&PID_1650&REV_0446''),
     dev_entry 0x11C1 0x044C ''LT Winmodem'' ''SV95PL-TOO'',
     dev_entry 0x11C1 0x044D ''LT Winmodem'' '''',
     dev_entry 0x11C1 0x044E ''12232'' ''LT WinModem 56k Data+Fax or Agere F-1156IV/A3'',
     dev_entry 0x11C1 0x044F ''90094-1'' ''LT V.90+DSL WildFire Modem'',
     dev_entry 0x11C1 0x0450 ''1468VQH19R-1(INT)'' ''LT Winmodem 56K'',
     dev_entry 0x11C1 0x0451 ''LT Winmodem'' ''LT WinModem 56k Data+Fax+Voice+DSVD'',
     dev_entry 0x11C1 0x0452 ''LT Winmodem'' ''1513144'',
     dev_entry 0x11C1 0x0453 ''LT Winmodem'' '''',
     dev_entry 0x11C1 0x0454 ''LT Winmodem'' '''',
     dev_entry 0x11C1 0x0455 ''LT Winmodem'' '''',
     dev_entry 0x11C1 0x0456 ''LT Winmodem'' '''',
     dev_entry 0x11C1 0x0457 ''LT Winmodem'' '''',
     dev_entry 0x11C1 0x0458 ''1648C'' ''Mars 3 Mercury v.92 v.44'',
     dev_entry 0x11C1 0x0459 ''LT Winmodem'' '''',
     dev_entry 0x11C1 0x045A ''LT Winmodem'' '''',
     dev_entry 0x11C1 0x045D ''LT WinModem'' ''mars2'',
     dev_entry 0x11C1 0x0461 ''90094'' ''V90 Wildfire Modem'',
     dev_entry 0x11C1 0x0462 ''1690'' ''56K.V90/ADSL Wildwire Modem'',
     dev_entry 0x11C1 0x0464 ''This is NOT a Riptide! (as previously stated)'' ''Lucent Wildwire v.90 + DSL modem'',
     dev_entry 0x11C1 0x0480 ''Venus Winmodem'' ''56k.V90/ADSL Wildfire Modem'',
     dev_entry 0x11C1 0x048b ''1648T00'' ''creative modem blaster di5733-1'',
     dev_entry 0x11C1 0x048C ''1648c-tv5'' ''net-comm modem'',
     dev_entry 0x11C1 0x048d ''lt winmodem'' ''9m56pml-g'',
     dev_entry 0x11C1 0x048E ''svp92pl-t00'' ''56k V.92modem'',
     dev_entry 0x11C1 0x048F ''SV92P-T00'' ''Agere PCI Soft Modem. SV92PL'',
     dev_entry 0x11C1 0x0540 '''' '''',
     dev_entry 0x11C1 0x0600 ''sv5'' ''SV92P-T00 Agere PCI Soft Modem. SV92PL'',
     dev_entry 0x11C1 0x0620 ''SV92PP'' ''Agere PCI Soft Modem '',
     dev_entry 0x11C1 0x0630 ''11c1063011c1'' ''#1: 32 pins, 8 each on 4 sides #2: 20 pins, 10 ea on 2 sides.'',
     dev_entry 0x11C1 0x1040 ''Prespa'' ''Agere Systems HDA Modem'',
     dev_entry 0x11C1 0x11c1 [CHR 0xC3, CHR 0x90, CHR 0xC5, CHR 0xB8, CHR 0xC3, CHR 0x91, CHR 0xE2, CHR 0x82, CHR 0xAC, CHR 0xC3, CHR 0x90, CHR 0xC2, CHR 0xB5, CHR 0xC3, CHR 0x91, CHR 0xC2, CHR 0x81, CHR 0xC3, CHR 0x90, CHR 0xC2, CHR 0xBF, CHR 0xC3, CHR 0x90, CHR 0xC2, CHR 0xB0] (''Agere Systems '' @ [CHR 0xC3, CHR 0x90, CHR 0xC5, CHR 0x93, CHR 0xC3, CHR 0x90, CHR 0xC2, CHR 0xBE, CHR 0xC3, CHR 0x90, CHR 0xC2, CHR 0xB4, CHR 0xC3, CHR 0x90, CHR 0xC2, CHR 0xB5, CHR 0xC3, CHR 0x90, CHR 0xC2, CHR 0xBC] @ '' HDA''),
     dev_entry 0x11C1 0x3026 ''0x11c11040'' ''Agere Modem'',
     dev_entry 0x11C1 0x3055 ''Modem on Audio Bus'' ''Agere Systems HDA Modem v6081'',
     dev_entry 0x11C1 0x4758 ''210888GX'' ''Mach64 GX'',
     dev_entry 0x11C1 0x5400 ''OR3TP12'' ''FPSC FPGA with 32/64bit, 33/66MHz core'',
     dev_entry 0x11C1 0x5801 '''' ''USB Open Host Controller'',
     dev_entry 0x11C1 0x5802 ''USS-312MC'' ''2-port PCI-to-USB OpenHCI Host Ctrlr'',
     dev_entry 0x11C1 0x5803 ''USS-344'' ''QuadraBus 4-port USB OpenHCI Host Ctrlr'',
     dev_entry 0x11C1 0x5805 ''uss344'' ''USB Advanced Host Controller'',
     dev_entry 0x11C1 0x5811 ''FW322/323'' ''1394A PCI PHY/Link Open Host Ctrlr I/F'',
     dev_entry 0x11C1 0x5901 ''FW643'' ''firewire chip for macbook pro'',
     dev_entry 0x11C1 0x9876 ''lucent 1646T00'' ''LT WinModem 56K Data+Fax'',
     dev_entry 0x11C1 0xAB20 ''WaveLAN'' ''PCI Wireless LAN Adapter'',
     dev_entry 0x11C1 0xAB30 ''wlsam48d'' ''Mini-PCI WaveLAN a/b/g'',
     dev_entry 0x11C1 0xED00 ''ET-131x'' ''PCI-E Ethernet Controller'',
     dev_entry 0x11C6 0x3001 ''1'' ''VM-1200 Opto Unit Controller'',
     dev_entry 0x11C8 0x0658 ''PSB 32'' ''32 bit , 33 Mhz PCI-SCI Bridge'',
     dev_entry 0x11C8 0xD665 ''PSB64'' ''64 bit , 33 Mhz PCI-SCI Bridge'',
     dev_entry 0x11C8 0xD667 ''PSB66'' ''64 bit , 66 Mhz PCI-SCI Bridge. (D33x)'',
     dev_entry 0x11C9 0x0010 ''1106'' ''16-line serial port w/DMA'',
     dev_entry 0x11C9 0x0011 '''' ''4-line serial port w/DMA'',
     dev_entry 0x11CB 0x2000 ''PCI-9050-1100083-11'' ''port small IC'',
     dev_entry 0x11CB 0x4000 ''SUPI-1'' ''XIO/SIO Host'',
     dev_entry 0x11CB 0x8000 ''T225'' ''Bridge RIO Host'',
     dev_entry 0x11CE 0x102B ''1001'' ''FF00102B'',
     dev_entry 0x11D1 0x01F7 ''VxP524'' ''PCI Video Processor'',
     dev_entry 0x11D1 0x01F8 ''VxP524'' ''PCI Video Processor'',
     dev_entry 0x11D1 0x01f9 ''rev_03'' ''tuner card'',
     dev_entry 0x11D4 0x11D4 ''AD1988B'' ''AD1988B 8-channel High Definition Audio CODEC'',
     dev_entry 0x11D4 0x1535 ''ADSP-21535'' ''Blackfin DSP PCI Bus Interface'',
     dev_entry 0x11D4 0x1805 ''62412-51'' ''U52018.2-0.6'',
     dev_entry 0x11D4 0x1884 ''AD1884HD'' ''SoundMAX Integrated Digital HD Audio'',
     dev_entry 0x11D4 0x1889 ''AD1980'' ''Sound Chip'',
     dev_entry 0x11D4 0x194A ''AD1984A'' ''SoundMAX Integrated Digital Audio'',
     dev_entry 0x11D4 0x1981 ''7037'' ''SoundMAX Integrated Digital Audio'',
     dev_entry 0x11D4 0x1983 ''AD1983HD'' ''SoundMAX Integrated Digital HD Audio'']"

definition PciDevTable_55 :: "PCI_DEVTABLE list" where
  "PciDevTable_55 = [
     dev_entry 0x11D4 0x1984 ''Analog Devices ADI 1984'' ''Analog Devices ADI 1984 Integrated HD Audio'',
     dev_entry 0x11D4 0x1986 ''ADI1986A'' ''SoundMAX Digital HD Audio'',
     dev_entry 0x11D4 0x1988 ''AD1981'' ''HD Audio Codec'',
     dev_entry 0x11D4 0x198B ''AD1988B'' ''SoundMAX AD1988B 8channel CODEC'',
     dev_entry 0x11D4 0x2192 ''ADSP-2192'' ''DSP Microcomputer (function #0)'',
     dev_entry 0x11D4 0x219A ''ADSP-2192'' ''DSP Microcomputer (function #1)'',
     dev_entry 0x11D4 0x219E ''ADSP-2192'' ''DSP Microcomputer (function #2)'',
     dev_entry 0x11D4 0x2F44 ''ADSP-1882'' ''SafeNet Crypto Accelerator chip'',
     dev_entry 0x11D4 0x989B ''AD1989B'' ''SoundMax Integrated Digital HD Audio'',
     dev_entry 0x11D5 0x0115 ''10115'' ''Versatec Parallel Interface (VPI) + Centronics'',
     dev_entry 0x11D5 0x0116 ''10118'' ''DR11-W emulator'',
     dev_entry 0x11D5 0x0117 ''10117'' ''Versatec Parallel Interface (VPI) + Centronics'',
     dev_entry 0x11D5 0x0118 ''10118'' ''DR11-W emulator'']"

end
