(* ===== verification/Pci.thy ===== *)
theory Pci
  imports Kheap Printk Pci_Vendor Pci_Device_1 Pci_Device_2 Pci_Device_3 Pci_Device_4
begin

text \<open>
  \<open>pci.c\<close>: reading the configuration space through its address and data ports, the lookup
  of names in the tables of \<open>pci_vendor.h\<close>, and the scan of the bus.
\<close>

section \<open>Configuration space\<close>

definition detect_bus :: "device \<Rightarrow> 'a machine_scheme \<Rightarrow> bool \<times> 'a machine_scheme" where
  "detect_bus dev s = (let (v, s1) = inl dev 0xCFC s in (v \<noteq> 0, s1))"

definition pci_address :: "u32 \<Rightarrow> u32 \<Rightarrow> u32 \<Rightarrow> u32 \<Rightarrow> u32" where
  "pci_address bus device func offset =
     push_bit 16 bus OR push_bit 11 device OR push_bit 8 func OR (offset AND 0xfc) OR 0x80000000"

definition pci_config_read ::
    "device \<Rightarrow> u32 \<Rightarrow> u32 \<Rightarrow> u32 \<Rightarrow> u32 \<Rightarrow> 'a machine_scheme \<Rightarrow> u16 \<times> 'a machine_scheme" where
  "pci_config_read dev bus device func offset s =
     (let s1 = outl 0xCF8 (pci_address bus device func offset) s;
          (v, s2) = inl dev 0xCFC s1
      in (ucast (drop_bit (unat ((offset AND 2) * 8)) v AND 0xffff), s2))"

definition pci_exists ::
    "device \<Rightarrow> u32 \<Rightarrow> u32 \<Rightarrow> u32 \<Rightarrow> 'a machine_scheme \<Rightarrow> bool \<times> 'a machine_scheme" where
  "pci_exists dev bus slot func s =
     (let (vendor_code, s1) = pci_config_read dev bus slot func 0 s in (vendor_code \<noteq> 0xFFFF, s1))"

section \<open>Tables\<close>

fun find_vendor :: "u16 \<Rightarrow> PCI_VENTABLE list \<Rightarrow> PCI_VENTABLE option" where
  "find_vendor vid [] = None"
| "find_vendor vid (v # vs) = (if VenId v = ucast vid then Some v else find_vendor vid vs)"

definition lookup_vendor :: "u16 \<Rightarrow> PCI_VENTABLE" where
  "lookup_vendor vid =
     (case find_vendor vid PciVenTable of
        Some v \<Rightarrow> v
      | None \<Rightarrow> \<lparr>VenId = ucast vid, VenShort = ''Unknown'', VenFull = ''Unknown''\<rparr>)"

definition PciDevTable :: "PCI_DEVTABLE list" where
  "PciDevTable =
     PciDevTable_1 @ PciDevTable_2 @ PciDevTable_3 @ PciDevTable_4 @ PciDevTable_5 @
     PciDevTable_6 @ PciDevTable_7 @ PciDevTable_8 @ PciDevTable_9 @ PciDevTable_10 @
     PciDevTable_11 @ PciDevTable_12 @ PciDevTable_13 @ PciDevTable_14 @ PciDevTable_15 @
     PciDevTable_16 @ PciDevTable_17 @ PciDevTable_18 @ PciDevTable_19 @ PciDevTable_20 @
     PciDevTable_21 @ PciDevTable_22 @ PciDevTable_23 @ PciDevTable_24 @ PciDevTable_25 @
     PciDevTable_26 @ PciDevTable_27 @ PciDevTable_28 @ PciDevTable_29 @ PciDevTable_30 @
     PciDevTable_31 @ PciDevTable_32 @ PciDevTable_33 @ PciDevTable_34 @ PciDevTable_35 @
     PciDevTable_36 @ PciDevTable_37 @ PciDevTable_38 @ PciDevTable_39 @ PciDevTable_40 @
     PciDevTable_41 @ PciDevTable_42 @ PciDevTable_43 @ PciDevTable_44 @ PciDevTable_45 @
     PciDevTable_46 @ PciDevTable_47 @ PciDevTable_48 @ PciDevTable_49 @ PciDevTable_50 @
     PciDevTable_51 @ PciDevTable_52 @ PciDevTable_53 @ PciDevTable_54 @ PciDevTable_55"

fun find_device :: "u16 \<Rightarrow> u32 \<Rightarrow> PCI_DEVTABLE list \<Rightarrow> PCI_DEVTABLE option" where
  "find_device vid did [] = None"
| "find_device vid did (d # ds) =
     (if dev_VenId d = ucast vid \<and> DevId d = did then Some d else find_device vid did ds)"

definition lookup_device :: "u16 \<Rightarrow> u32 \<Rightarrow> PCI_DEVTABLE" where
  "lookup_device vid did =
     (case find_device vid did PciDevTable of
        Some d \<Rightarrow> d
      | None \<Rightarrow> \<lparr>dev_VenId = ucast vid, DevId = did, Chip = ''Unknown'', ChipDesc = ''Unknown''\<rparr>)"

definition print_pci_entry ::
    "device \<Rightarrow> PCI_VENTABLE \<Rightarrow> PCI_DEVTABLE \<Rightarrow> 'a screen_scheme \<Rightarrow> 'a screen_scheme result" where
  "print_pci_entry dev v d s =
     printk dev ''%x:%x %s %s\<newline>''
       [VInt (VenId v), VInt (DevId d), VStr (lit (VenFull v)), VStr (lit (ChipDesc d))] s"

section \<open>The header structure\<close>

text \<open>
  \<open>struct pci_header\<close> as the compiler lays it out: \<open>device_id\<close> is a \<open>u32\<close> at offset 4, so every
  later field lies beyond its place in the configuration space. \<open>sizeof\<close> is 68.
\<close>

definition sizeof_pci_header :: u32 where "sizeof_pci_header = 68"

definition read16 :: "mem \<Rightarrow> u32 \<Rightarrow> u16" where
  "read16 m a = ucast (m a) OR push_bit 8 (ucast (m (a + 1)))"

definition pci_vendor_id :: "mem \<Rightarrow> u32 \<Rightarrow> u16" where "pci_vendor_id m h = read16 m h"
definition pci_device_id :: "mem \<Rightarrow> u32 \<Rightarrow> u32" where "pci_device_id m h = read32 m (h + 4)"
definition pci_prog_if :: "mem \<Rightarrow> u32 \<Rightarrow> u8" where "pci_prog_if m h = m (h + 13)"
definition pci_subclass :: "mem \<Rightarrow> u32 \<Rightarrow> u8" where "pci_subclass m h = m (h + 14)"
definition pci_class_code :: "mem \<Rightarrow> u32 \<Rightarrow> u8" where "pci_class_code m h = m (h + 15)"

definition print_pci_header_nice ::
    "device \<Rightarrow> u32 \<Rightarrow> 'a screen_scheme \<Rightarrow> 'a screen_scheme result" where
  "print_pci_header_nice dev h s =
     (let m = ram s
      in rbind (printk dev ''%x %x, %x'' [VInt (ucast (pci_class_code m h)),
                  VInt (ucast (pci_subclass m h)), VInt (ucast (pci_prog_if m h))] s)
           (print_pci_entry dev (lookup_vendor (pci_vendor_id m h))
              (lookup_device (pci_vendor_id m h) (pci_device_id m h))))"

definition full_header_format :: string where
  "full_header_format =
     ''DEVICE: vendor_id:%x device_id:%x command:%x status:%x revision_id:%x prog_if:%x subclass:%x ''
   @ ''class_code:%x cache_line_size:%x latency_timer:%x header_type:%x bist:%x ''
   @ ''bar[0]:%x bar[1]:%x bar[2]:%x bar[3]:%x bar[4]:%x bar[6]:%x cardbus_cis_ptr:%x ''
   @ ''subsystem_id:%x subsystem_vendor_id:%x rom_base_address:%x capabilities:%x ''
   @ ''interrupt_line:%x interrupt_pin:%x min_grant:%x max_latency:%x\<newline>''"

definition byte_arg :: "mem \<Rightarrow> u32 \<Rightarrow> va_arg" where "byte_arg m a = VInt (ucast (m a))"
definition half_arg :: "mem \<Rightarrow> u32 \<Rightarrow> va_arg" where "half_arg m a = VInt (ucast (read16 m a))"
definition word_arg :: "mem \<Rightarrow> u32 \<Rightarrow> va_arg" where "word_arg m a = VInt (read32 m a)"

definition print_pci_header_full :: "device \<Rightarrow> u32 \<Rightarrow> 'a screen_scheme \<Rightarrow> 'a screen_scheme result" where
  "print_pci_header_full dev h s =
     (let m = ram s
      in printk dev full_header_format
           ([half_arg m h, word_arg m (h + 4), half_arg m (h + 8), half_arg m (h + 10),
             byte_arg m (h + 12), byte_arg m (h + 13), byte_arg m (h + 14), byte_arg m (h + 15),
             byte_arg m (h + 16), byte_arg m (h + 17), byte_arg m (h + 18), byte_arg m (h + 19)]
            @ map (\<lambda>i. word_arg m (h + 20 + 4 * word_of_nat i)) [0..<6]
            @ [word_arg m (h + 44), half_arg m (h + 50), half_arg m (h + 48), word_arg m (h + 52),
               byte_arg m (h + 56), byte_arg m (h + 64), byte_arg m (h + 65), byte_arg m (h + 66),
               byte_arg m (h + 67)]) s)"

definition read_header_word ::
    "device \<Rightarrow> u32 \<Rightarrow> u32 \<Rightarrow> nat \<Rightarrow> 'a machine_scheme \<Rightarrow> 'a machine_scheme" where
  "read_header_word dev addr header i s =
     (let s1 = outl 0xCF8 (addr OR push_bit 2 (word_of_nat i)) s;
          (v, s2) = inl dev 0xCFC s1
      in s2\<lparr>ram := write32 (ram s2) (header + 4 * word_of_nat i) v\<rparr>)"

definition pci_read_header ::
    "device \<Rightarrow> u32 \<Rightarrow> u32 \<Rightarrow> u32 \<Rightarrow> u32 \<Rightarrow> 'a machine_scheme \<Rightarrow> 'a machine_scheme" where
  "pci_read_header dev bus slot func header s =
     (let addr = push_bit 16 bus OR push_bit 11 slot OR push_bit 8 func OR 0x80000000
      in fold (read_header_word dev addr header) [0..<15] s)"

section \<open>The scan\<close>

definition scan_function ::
    "nat \<Rightarrow> device \<Rightarrow> u32 \<times> u32 \<times> u32 \<Rightarrow> 'a kernel_scheme \<Rightarrow> 'a kernel_scheme result" where
  "scan_function k dev bdf s =
     (case bdf of (bus, device, func) \<Rightarrow>
        (let (present, s1) = pci_exists dev bus device func s
         in if \<not> present then Inr s1
            else rbind (kmalloc k sizeof_pci_header s1) (\<lambda>(h, s2).
              let s3 = pci_read_header dev bus device func h s2
              in rbind (printk dev ''[%x:%x:%x] '' [VInt bus, VInt device, VInt func] s3) (\<lambda>s4.
                 rbind (print_pci_header_nice dev h s4) (\<lambda>s5.
                   if pci_class_code (ram s5) h = 0x2 \<and> pci_subclass (ram s5) h = 0x0
                   then rbind (printk dev ''ETH: '' [] s5) (print_pci_header_full dev h)
                   else if pci_class_code (ram s5) h = 0x3 \<and> pci_subclass (ram s5) h = 0x0
                   then rbind (printk dev ''VIDEO: '' [] s5) (print_pci_header_full dev h)
                   else Inr s5)))))"

definition bus_functions :: "(u32 \<times> u32 \<times> u32) list" where
  "bus_functions =
     concat (map (\<lambda>bus. concat (map (\<lambda>device. map (\<lambda>func. (word_of_nat bus, word_of_nat device, word_of_nat func))
       [0..<8]) [0..<32])) [0..<256])"

definition scan_pci_bus ::
    "nat \<Rightarrow> device \<Rightarrow> 'a kernel_scheme \<Rightarrow> 'a kernel_scheme result" where
  "scan_pci_bus k dev s =
     rbind (printk dev ''PCI bus found! enumerating bus for devices\<newline>'' [] s)
       (rfold (scan_function k dev) bus_functions)"

end
