(* ===== verification/Cpudet.thy ===== *)
theory Cpudet
  imports Kernel_State Printk
begin

text \<open>
  \<open>cpudet.c\<close>: what the kernel prints about the processor. The \<open>cpuid\<close> instruction is the
  argument \<open>cpu\<close>. The \<open>cpuid\<close> macro begins with \<open>movl %eax, 1\<close>, which stores EAX at address 1.
\<close>

record cpu_regs =
  c_eax :: u32
  c_ebx :: u32
  c_ecx :: u32
  c_edx :: u32

type_synonym cpu = "u32 \<Rightarrow> cpu_regs"

definition cpuid :: "cpu \<Rightarrow> u32 \<Rightarrow> 'a machine_scheme \<Rightarrow> cpu_regs \<times> 'a machine_scheme" where
  "cpuid cpu inp s = (cpu inp, s\<lparr>ram := write32 (ram s) 1 inp\<rparr>)"

text \<open>A run of \<open>printk\<close> calls.\<close>

definition say :: "device \<Rightarrow> (string \<times> va_arg list) list \<Rightarrow> 'a screen_scheme \<Rightarrow> 'a screen_scheme result" where
  "say dev msgs = rfold (\<lambda>(fmt, args). printk dev fmt args) msgs"

section \<open>Tables\<close>

definition Intel :: "string list" where
  "Intel =
    [''Brand ID Not Supported.'',
     ''Intel(R) Celeron(R) processor'',
     ''Intel(R) Pentium(R) III processor'',
     ''Intel(R) Pentium(R) III Xeon(R) processor'',
     ''Intel(R) Pentium(R) III processor'',
     ''Reserved'',
     ''Mobile Intel(R) Pentium(R) III processor-M'',
     ''Mobile Intel(R) Celeron(R) processor'',
     ''Intel(R) Pentium(R) 4 processor'',
     ''Intel(R) Pentium(R) 4 processor'',
     ''Intel(R) Celeron(R) processor'',
     ''Intel(R) Xeon(R) Processor'',
     ''Intel(R) Xeon(R) processor MP'',
     ''Reserved'',
     ''Mobile Intel(R) Pentium(R) 4 processor-M'',
     ''Mobile Intel(R) Pentium(R) Celeron(R) processor'',
     ''Reserved'',
     ''Mobile Genuine Intel(R) processor'',
     ''Intel(R) Celeron(R) M processor'',
     ''Mobile Intel(R) Celeron(R) processor'',
     ''Intel(R) Celeron(R) processor'',
     ''Mobile Geniune Intel(R) processor'',
     ''Intel(R) Pentium(R) M processor'',
     ''Mobile Intel(R) Celeron(R) processor'']"

definition Intel_Other :: "string list" where
  "Intel_Other =
    [''Reserved'',
     ''Reserved'',
     ''Reserved'',
     ''Intel(R) Celeron(R) processor'',
     ''Reserved'',
     ''Reserved'',
     ''Reserved'',
     ''Reserved'',
     ''Reserved'',
     ''Reserved'',
     ''Reserved'',
     ''Intel(R) Xeon(R) processor MP'',
     ''Reserved'',
     ''Reserved'',
     ''Intel(R) Xeon(R) processor'',
     ''Reserved'',
     ''Reserved'',
     ''Reserved'',
     ''Reserved'',
     ''Reserved'',
     ''Reserved'',
     ''Reserved'',
     ''Reserved'',
     ''Reserved'']"

text \<open>The feature flags: the bit of the register and the name that is printed.\<close>

definition CPUID_FEAT_ECX :: "(nat \<times> string) list" where
  "CPUID_FEAT_ECX =
    [(0, ''SSE3''), (1, ''PCLMUL''), (2, ''DTES64''), (3, ''MONITOR''), (4, ''DS_CPL''),
     (5, ''VMX''), (6, ''SMX''), (7, ''EST''), (8, ''TM2''), (9, ''SSSE3''), (10, ''CID''),
     (12, ''FMA''), (13, ''CX16''), (14, ''ETPRD''), (15, ''PDCM''), (18, ''DCA''),
     (19, ''SSE4_1''), (20, ''SSE4_2''), (21, ''x2APIC''), (22, ''MOVBE''), (23, ''POPCNT''),
     (25, ''AES''), (26, ''XSAVE''), (27, ''OSXSAVE''), (28, ''AVX'')]"

definition CPUID_FEAT_EDX :: "(nat \<times> string) list" where
  "CPUID_FEAT_EDX =
    [(0, ''FPU''), (1, ''VME''), (2, ''DE''), (3, ''PSE''), (4, ''TSC''), (5, ''MSR''),
     (6, ''PAE''), (7, ''MCE''), (8, ''CX8''), (9, ''APIC''), (11, ''SEP''), (12, ''MTRR''),
     (13, ''PGE''), (14, ''MCA''), (15, ''CMOV''), (16, ''PAT''), (17, ''PSE36''),
     (18, ''PSN''), (19, ''CLF''), (21, ''DTES''), (22, ''ACPI''), (23, ''MMX''),
     (24, ''FXSR''), (25, ''SSE''), (26, ''SSE2''), (27, ''SS''), (28, ''HTT''),
     (29, ''TM1''), (30, ''IA64'')]"

definition flag_messages :: "u32 \<Rightarrow> (nat \<times> string) list \<Rightarrow> (string \<times> va_arg list) list" where
  "flag_messages r flags =
     concat (map (\<lambda>(b, nm). if r AND push_bit b 1 \<noteq> 0 then [(nm, []), ('' '', [])] else []) flags)"

definition printflags :: "device \<Rightarrow> u32 \<Rightarrow> u32 \<Rightarrow> 'a screen_scheme \<Rightarrow> 'a screen_scheme result" where
  "printflags dev ecx edx =
     say dev ([(''ecx: %d\<newline>'', [VInt ecx]), (''edx: %d\<newline>'', [VInt edx]), (''flags: '', [])]
       @ flag_messages ecx CPUID_FEAT_ECX @ flag_messages edx CPUID_FEAT_EDX @ [(''\<newline>'', [])])"

text \<open>
  \<open>printregs\<close> casts the register to \<open>char\<close> before it shifts, so of the four bytes of each
  register only the lowest is printed; the others are 0 or the sign.
\<close>

definition reg_bytes :: "u32 \<Rightarrow> u8 list" where
  "reg_bytes r = map (\<lambda>j. ucast (signed_drop_bit (8 * j) (scast (ucast r :: u8) :: u32)) :: u8) [0, 1, 2, 3]"

definition printregs ::
    "device \<Rightarrow> u32 \<Rightarrow> u32 \<Rightarrow> u32 \<Rightarrow> u32 \<Rightarrow> 'a screen_scheme \<Rightarrow> 'a screen_scheme result" where
  "printregs dev eax ebx ecx edx =
     printk dev ''%s'' [VStr (reg_bytes eax @ reg_bytes ebx @ reg_bytes ecx @ reg_bytes edx @ [0])]"

section \<open>Intel\<close>

definition intel_type :: "u32 \<Rightarrow> string" where
  "intel_type t = (if t = 0 then ''Original OEM'' else if t = 1 then ''Overdrive''
     else if t = 2 then ''Dual-capable'' else if t = 3 then ''Reserved'' else '''')"

definition intel_family :: "u32 \<Rightarrow> string" where
  "intel_family f = (if f = 3 then ''i386'' else if f = 4 then ''i486'' else if f = 5 then ''Pentium''
     else if f = 6 then ''Pentium Pro'' else if f = 15 then ''Pentium 4'' else '''')"

definition intel_model :: "u32 \<Rightarrow> u32 \<Rightarrow> string" where
  "intel_model family model =
     (if family = 4
      then (if model = 0 \<or> model = 1 then ''DX'' else if model = 2 then ''SX''
            else if model = 3 then ''487/DX2'' else if model = 4 then ''SL''
            else if model = 5 then ''SX2'' else if model = 7 then ''Write-back enhanced DX2''
            else if model = 8 then ''DX4'' else '''')
      else if family = 5
      then (if model = 1 then ''60/66'' else if model = 2 then ''75-200''
            else if model = 3 then ''for 486 system'' else if model = 4 then ''MMX'' else '''')
      else if family = 6
      then (if model = 1 then ''Pentium Pro'' else if model = 3 then ''Pentium II Model 3''
            else if model = 5 then ''Pentium II Model 5/Xeon/Celeron'' else if model = 6 then ''Celeron''
            else if model = 7 then ''Pentium III/Pentium III Xeon - external L2 cache''
            else if model = 8 then ''Pentium III/Pentium III Xeon - internal L2 cache'' else '''')
      else '''')"

text \<open>
  What \<open>do_intel\<close> prints of leaf 1. An unknown type, family or model makes no \<open>printk\<close> call,
  and neither does an empty name here.
\<close>

definition named :: "string \<Rightarrow> (string \<times> va_arg list) list" where
  "named nm = (if nm = '''' then [] else [(nm, [])])"

definition intel_signature :: "cpu_regs \<Rightarrow> (string \<times> va_arg list) list" where
  "intel_signature r =
     (let eax = c_eax r;
          model = drop_bit 4 eax AND 0xf; family = drop_bit 8 eax AND 0xf;
          typ = drop_bit 12 eax AND 0x3
      in [(''edx: %d\<newline>'', [VInt (c_edx r)]), (''Type %d - '', [VInt typ])] @ named (intel_type typ)
         @ [(''\<newline>'', []), (''Family %d - '', [VInt family])] @ named (intel_family family) @ [(''\<newline>'', [])]
         @ (if family = 15 then [(''Extended family %d\<newline>'', [VInt (drop_bit 20 eax AND 0xff)])] else [])
         @ [(''Model %d - '', [VInt model])] @ named (intel_model family model) @ [(''\<newline>'', [])])"

definition intel_brand :: "u32 \<Rightarrow> u32 \<Rightarrow> (string \<times> va_arg list) list" where
  "intel_brand brand signature =
     (if brand = 0 then []
      else (''Brand %d - '', [VInt brand]) #
        (if brand < 0x18
         then [(''%s\<newline>'', [VStr (lit ((if signature = 0x000006B1 \<or> signature = 0x00000F13
                  then Intel_Other else Intel) ! unat brand))])]
         else [(''Reserved\<newline>'', [])]))"

text \<open>One leaf of the brand string.\<close>

definition brand_leaf :: "device \<Rightarrow> cpu \<Rightarrow> u32 \<Rightarrow> 'a screen_scheme \<Rightarrow> 'a screen_scheme result" where
  "brand_leaf dev cpu leaf s =
     (let (r, s1) = cpuid cpu leaf s in printregs dev (c_eax r) (c_ebx r) (c_ecx r) (c_edx r) s1)"

definition do_intel :: "device \<Rightarrow> cpu \<Rightarrow> 'a screen_scheme \<Rightarrow> 'a screen_scheme result" where
  "do_intel dev cpu s =
     rbind (printk dev ''Intel Specific Features:\<newline>'' [] s) (\<lambda>s0.
       let (r, s1) = cpuid cpu 1 s0;
           brand = c_ebx r AND 0xff; stepping = c_eax r AND 0xf;
           reserved = signed_drop_bit 14 (c_eax r); signature = c_eax r
       in rbind (say dev (intel_signature r) s1) (\<lambda>s2.
            let (x, s3) = cpuid cpu 0x80000000 s2; max_eax = c_eax x
            in rbind (printregs dev (c_eax r) (c_ebx x) (c_ecx x) (c_edx x) s3) (\<lambda>s4.
               rbind (printflags dev (c_ecx x) (c_edx x) s4) (\<lambda>s5.
               rbind (if 0x80000004 \<le>s max_eax
                      then rbind (printk dev ''Brand: '' [] s5) (\<lambda>s6.
                           rbind (rfold (brand_leaf dev cpu)
                                    (filter (\<lambda>l. l \<le>s max_eax) [0x80000002, 0x80000003, 0x80000004]) s6)
                             (printk dev ''\<newline>'' []))
                      else say dev (intel_brand brand signature) s5) (\<lambda>s7.
               printk dev ''Stepping: %d Reserved: %d\<newline>'' [VInt stepping, VInt reserved] s7)))))"

section \<open>AMD\<close>

definition amd_model :: "u32 \<Rightarrow> u32 \<Rightarrow> (string \<times> va_arg list) list" where
  "amd_model family model =
     (if family = 4 then [(''486 Model %d'', [VInt model])]
      else if family = 5
      then (if model \<in> {0, 1, 2, 3, 6, 7} then [(''K6 Model %d'', [VInt model])]
            else if model = 8 then [(''K6-2 Model 8'', [])]
            else if model = 9 then [(''K6-III Model 9'', [])]
            else [(''K5/K6 Model %d'', [VInt model])])
      else if family = 6
      then (if model \<in> {1, 2, 4} then [(''Athlon Model %d'', [VInt model])]
            else if model = 3 then [(''Duron Model 3'', [])]
            else if model = 6 then [(''Athlon MP/Mobile Athlon Model 6'', [])]
            else if model = 7 then [(''Mobile Duron Model 7'', [])]
            else [(''Duron/Athlon Model %d'', [VInt model])])
      else [])"

definition do_amd :: "device \<Rightarrow> cpu \<Rightarrow> 'a screen_scheme \<Rightarrow> 'a screen_scheme result" where
  "do_amd dev cpu s =
     rbind (printk dev ''AMD Specific Features:\<newline>'' [] s) (\<lambda>s0.
       let (r, s1) = cpuid cpu 1 s0;
           model = drop_bit 4 (c_eax r) AND 0xf; family = drop_bit 8 (c_eax r) AND 0xf;
           stepping = c_eax r AND 0xf; reserved = signed_drop_bit 12 (c_eax r)
       in rbind (say dev ([(''Family: %d Model: %d ['', [VInt family, VInt model])]
                   @ amd_model family model @ [('']\<newline>'', [])]) s1) (\<lambda>s2.
            let (x, s3) = cpuid cpu 0x80000000 s2; extended = c_eax x
            in if extended = 0 then Inr s3
               else rbind (if 0x80000002 \<le>s extended
                           then rbind (printk dev ''Detected Processor Name: '' [] s3) (\<lambda>s4.
                                rbind (rfold (brand_leaf dev cpu) [0x80000002, 0x80000003, 0x80000004] s4)
                                  (printk dev ''\<newline>'' []))
                           else Inr s3) (\<lambda>s5.
                    rbind (if 0x80000007 \<le>s extended
                           then (let (y, s6) = cpuid cpu 0x80000007 s5
                                 in if c_edx y AND 1 \<noteq> 0
                                    then printk dev ''Temperature Sensing Diode Detected!\<newline>'' [] s6
                                    else Inr s6)
                           else Inr s5) (\<lambda>s7.
                    printk dev ''Stepping: %d Reserved: %d\<newline>'' [VInt stepping, VInt reserved] s7))))"

definition detect_cpu :: "device \<Rightarrow> cpu \<Rightarrow> 'a screen_scheme \<Rightarrow> 'a screen_scheme result" where
  "detect_cpu dev cpu s =
     (let (r, s1) = cpuid cpu 0 s
      in if c_ebx r = 0x756e6547 then do_intel dev cpu s1
         else if c_ebx r = 0x68747541 then do_amd dev cpu s1
         else printk dev ''Unknown x86 CPU Detected\<newline>'' [] s1)"

end
