(* ===== verification/Boot.thy ===== *)
theory Boot
  imports Multiboot Paging_Init Vfs Timer Syscall Pci Cpudet
begin

text \<open>
  \<open>main.c\<close>: the order in which the kernel starts its parts, and what a call through a pointer
  in the handler table does. What the hardware and the linker supply is one record.
\<close>

record environment =
  env_device :: device
  env_cpu :: cpu
  env_cr2 :: u32
  env_eip :: u32
  env_garbage :: u32
  env_tables :: link_map
  env_fs :: fs_link
  env_initrd :: u32
  env_greeting :: u32

section \<open>Interrupt handlers\<close>

text \<open>A system call can raise interrupt 0x22 itself, so handlers nest; the fuel is the depth.\<close>

primrec call_handler :: "nat \<Rightarrow> environment \<Rightarrow> isr_t \<Rightarrow> registers_t \<Rightarrow> 'a filesystem_scheme \<Rightarrow>
    (registers_t \<times> 'a filesystem_scheme) result" where
  "call_handler 0 env h regs s = Inl No_return"
| "call_handler (Suc n) env h regs s =
     (case h of
        Page_fault \<Rightarrow> Inl (fst (page_fault (env_cr2 env) regs s))
      | Timer_callback \<Rightarrow> Inr (regs, timer_callback (env_eip env) s)
      | Keyboard_callback \<Rightarrow> rbind (keyboard_callback (env_device env) s) (\<lambda>s'. Inr (regs, s'))
      | Syscall_handler \<Rightarrow> syscall_handler (call_handler n env) (env_garbage env) regs s
      | Do_nothing \<Rightarrow> Inr (regs, s))"

section \<open>Starting up\<close>

definition detect_memory :: "device \<Rightarrow> u32 \<Rightarrow> 'a screen_scheme \<Rightarrow> 'a screen_scheme result" where
  "detect_memory dev mboot_ptr s =
     printk dev ''total memory: %dK\<newline>''
       [VInt (mb_mem_lower (multiboot_at (ram s) mboot_ptr) + mb_mem_upper (multiboot_at (ram s) mboot_ptr))] s"

text \<open>The keyboard is installed before the handler table is cleared, as in the source.\<close>

definition install_interrupts ::
    "nat \<Rightarrow> environment \<Rightarrow> 'a filesystem_scheme \<Rightarrow> 'a filesystem_scheme result" where
  "install_interrupts k env s =
     rbind (keyboard_install k (env_device env) (env_fs env) s) (\<lambda>s1.
       let s2 = sti (init_descriptor_tables (env_tables env) s1);
           s3 = initialise_syscalls s2
       in init_timer 50 s3)"

definition switch_to_user_mode :: "'a machine_scheme \<Rightarrow> 'a machine_scheme" where
  "switch_to_user_mode s = sti (cli s)"

definition main ::
    "nat \<Rightarrow> environment \<Rightarrow> u32 \<Rightarrow> u32 \<Rightarrow> registers_t \<Rightarrow> 'a filesystem_scheme \<Rightarrow> (u32 \<times> 'a filesystem_scheme) result" where
  "main k env mboot_ptr initial_stack regs s =
     (let dev = env_device env;
          s1 = serial_init (initialize_screen (s\<lparr>initial_esp := initial_stack\<rparr>))
      in rbind (printk dev ''stevienix 0.2\<newline>'' [] s1) (\<lambda>s2.
         rbind (detect_cpu dev (env_cpu env) s2) (\<lambda>s3.
         rbind (detect_memory dev mboot_ptr s3) (\<lambda>s4.
         rbind (scan_pci_bus k dev s4) (\<lambda>s5.
         rbind (install_interrupts k env s5) (\<lambda>s6.
         rbind (initialise_paging k s6) (\<lambda>s7.
         rbind (printk dev ''begin tasking\<newline>'' [] s7) (\<lambda>s8.
         rbind (initialise_tasking k s8) (\<lambda>s9.
         rbind (initialise_initrd k (env_fs env) (read32 (ram s9) (env_initrd env)) s9) (\<lambda>(r, s10).
         rbind (printk dev ''running ls on the initrd\<newline>'' [] (s10\<lparr>fs_root := r\<rparr>)) (\<lambda>s11.
           let s12 = switch_to_user_mode s11; call = call_handler k env
           in rbind (syscall1 call 0 (env_greeting env) regs s12) (\<lambda>(_, s13).
              rbind (syscall0 call 3 regs s13) (\<lambda>(_, s14). Inr (0, s14))))))))))))))"

end
