(* ===== verification/Assembly.thy ===== *)
theory Assembly
  imports Descriptor_Tables Paging
begin

text \<open>
  The assembly files \<open>interrupt.s\<close>, \<open>boot.s\<close>, \<open>port.s\<close>, \<open>process.s\<close>, \<open>gdt_flush.s\<close> and the inline
  assembly of \<open>task.c\<close>, as lists of instructions, one constructor per instruction they use, and a
  processor that executes them on the kernel's state. Theory \<open>Interrupt_Path\<close> runs the interrupt
  stubs, theory \<open>Assembly_Routines\<close> proves that the other routines do what the C part of the
  model takes them to do.
\<close>

section \<open>The processor\<close>

datatype reg32 = EAX | ECX | EDX | EBX | ESP | EBP | ESI | EDI
datatype segreg = ES | CS | SS | DS | FS | GS

text \<open>
  The interrupt flag of EFLAGS is \<open>int_flag\<close> of the machine, which C code changes too; bit 9 of
  \<open>p_eflags\<close> is not used. \<open>p_phys\<close> holds after an instruction has turned paging off: data is then
  read and written in physical memory. Segments are flat (the base of every segment that
  \<open>init_gdt\<close> makes is 0), so an offset is an address.
\<close>

record processor =
  p_reg :: "reg32 \<Rightarrow> u32"
  p_seg :: "segreg \<Rightarrow> u16"
  p_eip :: u32
  p_eflags :: u32
  p_phys :: bool

type_synonym 'a config = "processor \<times> 'a tables_scheme"

datatype c_fn = Isr_handler | Irq_handler | Main_fn
datatype common_stub = Isr_common_stub | Irq_common_stub

text \<open>
  What is not determined by the code: the devices; what a C function leaves in the registers
  that its caller must save; the return address a \<open>call\<close> pushes; the arithmetic flags other than
  the zero flag (the only one the code tests) as a function of the result. A C function gets the
  address of its arguments on the stack and changes the kernel's state.
\<close>

record asm_env =
  a_device :: device
  a_left :: "reg32 \<Rightarrow> u32"
  a_return :: u32
  a_flags :: "u32 \<Rightarrow> u32"

type_synonym 'a c_code = "c_fn \<Rightarrow> u32 \<Rightarrow> 'a tables_scheme \<Rightarrow> 'a tables_scheme result"

definition set_reg :: "reg32 \<Rightarrow> u32 \<Rightarrow> processor \<Rightarrow> processor" where
  "set_reg r v p = p\<lparr>p_reg := (p_reg p)(r := v)\<rparr>"

definition set_low16 :: "u32 \<Rightarrow> u16 \<Rightarrow> u32" where
  "set_low16 old v = (old AND 0xFFFF0000) OR ucast v"

definition set_low8 :: "u32 \<Rightarrow> u8 \<Rightarrow> u32" where
  "set_low8 old v = (old AND 0xFFFFFF00) OR ucast v"

definition data_mem :: "processor \<Rightarrow> 'a kernel_scheme \<Rightarrow> mem" where
  "data_mem p s = (if p_phys p then frame_mem s else ram s)"

definition upd_mem :: "processor \<Rightarrow> (mem \<Rightarrow> mem) \<Rightarrow> 'a kernel_scheme \<Rightarrow> 'a kernel_scheme" where
  "upd_mem p f s = (if p_phys p then s\<lparr>frame_mem := f (frame_mem s)\<rparr> else s\<lparr>ram := f (ram s)\<rparr>)"

definition push32 :: "u32 \<Rightarrow> 'a config \<Rightarrow> 'a config" where
  "push32 v c = (let (p, s) = c; sp = p_reg p ESP - 4
     in (set_reg ESP sp p, upd_mem p (\<lambda>m. write32 m sp v) s))"

definition top32 :: "'a config \<Rightarrow> u32" where
  "top32 c = (let (p, s) = c in read32 (data_mem p s) (p_reg p ESP))"

definition drop32 :: "'a config \<Rightarrow> 'a config" where
  "drop32 c = (let (p, s) = c in (set_reg ESP (p_reg p ESP + 4) p, s))"

text \<open>EFLAGS as it is pushed, and the effect of loading it.\<close>

definition FLAG_IF :: nat where "FLAG_IF = 9"
definition FLAG_ZF :: nat where "FLAG_ZF = 6"

definition flags_word :: "'a config \<Rightarrow> u32" where
  "flags_word c = (let (p, s) = c
     in if int_flag s then set_bit FLAG_IF (p_eflags p) else unset_bit FLAG_IF (p_eflags p))"

definition load_flags :: "u32 \<Rightarrow> 'a config \<Rightarrow> 'a config" where
  "load_flags v c = (let (p, s) = c
     in (p\<lparr>p_eflags := unset_bit FLAG_IF v\<rparr>, s\<lparr>int_flag := bit v FLAG_IF\<rparr>))"

text \<open>Carry, parity, adjust, zero, sign and overflow (0x8D5) are set by an arithmetic instruction.\<close>

definition arith :: "asm_env \<Rightarrow> u32 \<Rightarrow> processor \<Rightarrow> processor" where
  "arith u r p = p\<lparr>p_eflags := (p_eflags p AND NOT 0x8D5) OR (a_flags u r AND 0x895) OR (if r = 0 then 0x40 else 0)\<rparr>"

section \<open>Instructions\<close>

datatype instr =
    Cli | Sti | Pusha | Popa | Pushf | Popf | Ret | Iret
  | Push_imm u32 | Push_reg reg32 | Pop_reg reg32 | Or_stack u32
  | Mov_reg reg32 reg32 | Mov_imm reg32 u32 | Mov_imm16 reg32 u16
  | Mov_from_seg reg32 segreg | Mov_to_seg segreg reg32
  | Load32 reg32 reg32 u32 | Load16 reg32 reg32 u32 | Load8 reg32 reg32 u32 | Store32 reg32 reg32
  | Xor_reg reg32 reg32 | And_imm reg32 u32 | Or_imm reg32 u32 | Add_imm reg32 u32 | Dec_reg reg32
  | Mov_from_cr0 reg32 | Mov_to_cr0 reg32 | Mov_to_cr3 reg32
  | In_al_dx | In_ax_dx | In_eax_dx | Out_dx_al | Out_dx_ax | Out_dx_eax
  | Lgdt reg32 | Lidt reg32 | Ltr reg32 | Far_jmp u16
  | Call c_fn | Jmp_stub common_stub | Jmp_reg reg32 | Jnz nat | Jmp_here

definition alu :: "asm_env \<Rightarrow> reg32 \<Rightarrow> u32 \<Rightarrow> processor \<Rightarrow> processor" where
  "alu u r v p = arith u v (set_reg r v p)"

definition turn_cr0 :: "u32 \<Rightarrow> 'a config \<Rightarrow> 'a config" where
  "turn_cr0 v c = (let (p, s) = c
     in (p\<lparr>p_phys := if bit v 31 then False else p_phys p \<or> bit (cr0 s) 31\<rparr>, s\<lparr>cr0 := v\<rparr>))"

text \<open>The instructions after which control passes to the next one.\<close>

primrec exec1 :: "asm_env \<Rightarrow> 'a c_code \<Rightarrow> instr \<Rightarrow> 'a config \<Rightarrow> 'a config result" where
  "exec1 u cf Cli c = (case c of (p, s) \<Rightarrow> Inr (p, cli s))"
| "exec1 u cf Sti c = (case c of (p, s) \<Rightarrow> Inr (p, sti s))"
| "exec1 u cf Pusha c = (case c of (p, s) \<Rightarrow>
     Inr (push32 (p_reg p EDI) (push32 (p_reg p ESI) (push32 (p_reg p EBP) (push32 (p_reg p ESP)
         (push32 (p_reg p EBX) (push32 (p_reg p EDX) (push32 (p_reg p ECX) (push32 (p_reg p EAX) (p, s))))))))))"
| "exec1 u cf Popa c = (case c of (p, s) \<Rightarrow>
     (let m = data_mem p s; sp = p_reg p ESP
      in Inr (p\<lparr>p_reg := (p_reg p)(EDI := read32 m sp, ESI := read32 m (sp + 4), EBP := read32 m (sp + 8),
           ESP := sp + 32, EBX := read32 m (sp + 16), EDX := read32 m (sp + 20),
           ECX := read32 m (sp + 24), EAX := read32 m (sp + 28))\<rparr>, s)))"
| "exec1 u cf Pushf c = Inr (push32 (flags_word c) c)"
| "exec1 u cf Popf c = Inr (load_flags (top32 c) (drop32 c))"
| "exec1 u cf (Push_imm v) c = Inr (push32 v c)"
| "exec1 u cf (Push_reg r) c = (case c of (p, s) \<Rightarrow> Inr (push32 (p_reg p r) (p, s)))"
| "exec1 u cf (Pop_reg r) c = (let v = top32 c; (p, s) = drop32 c in Inr (set_reg r v p, s))"
| "exec1 u cf (Or_stack v) c = (case c of (p, s) \<Rightarrow>
     (let sp = p_reg p ESP; w = read32 (data_mem p s) sp OR v
      in Inr (arith u w p, upd_mem p (\<lambda>m. write32 m sp w) s)))"
| "exec1 u cf (Mov_reg r q) c = (case c of (p, s) \<Rightarrow> Inr (set_reg r (p_reg p q) p, s))"
| "exec1 u cf (Mov_imm r v) c = (case c of (p, s) \<Rightarrow> Inr (set_reg r v p, s))"
| "exec1 u cf (Mov_imm16 r v) c = (case c of (p, s) \<Rightarrow> Inr (set_reg r (set_low16 (p_reg p r) v) p, s))"
| "exec1 u cf (Mov_from_seg r g) c = (case c of (p, s) \<Rightarrow> Inr (set_reg r (set_low16 (p_reg p r) (p_seg p g)) p, s))"
| "exec1 u cf (Mov_to_seg g r) c = (case c of (p, s) \<Rightarrow> Inr (p\<lparr>p_seg := (p_seg p)(g := ucast (p_reg p r))\<rparr>, s))"
| "exec1 u cf (Load32 r b d) c = (case c of (p, s) \<Rightarrow> Inr (set_reg r (read32 (data_mem p s) (p_reg p b + d)) p, s))"
| "exec1 u cf (Load16 r b d) c = (case c of (p, s) \<Rightarrow>
     Inr (set_reg r (set_low16 (p_reg p r) (ucast (read32 (data_mem p s) (p_reg p b + d)))) p, s))"
| "exec1 u cf (Load8 r b d) c = (case c of (p, s) \<Rightarrow>
     Inr (set_reg r (set_low8 (p_reg p r) (data_mem p s (p_reg p b + d))) p, s))"
| "exec1 u cf (Store32 b r) c = (case c of (p, s) \<Rightarrow> Inr (p, upd_mem p (\<lambda>m. write32 m (p_reg p b) (p_reg p r)) s))"
| "exec1 u cf (Xor_reg r q) c = (case c of (p, s) \<Rightarrow> Inr (alu u r (p_reg p r XOR p_reg p q) p, s))"
| "exec1 u cf (And_imm r v) c = (case c of (p, s) \<Rightarrow> Inr (alu u r (p_reg p r AND v) p, s))"
| "exec1 u cf (Or_imm r v) c = (case c of (p, s) \<Rightarrow> Inr (alu u r (p_reg p r OR v) p, s))"
| "exec1 u cf (Add_imm r v) c = (case c of (p, s) \<Rightarrow> Inr (alu u r (p_reg p r + v) p, s))"
| "exec1 u cf (Dec_reg r) c = (case c of (p, s) \<Rightarrow> Inr (alu u r (p_reg p r - 1) p, s))"
| "exec1 u cf (Mov_from_cr0 r) c = (case c of (p, s) \<Rightarrow> Inr (set_reg r (cr0 s) p, s))"
| "exec1 u cf (Mov_to_cr0 r) c = (case c of (p, s) \<Rightarrow> Inr (turn_cr0 (p_reg p r) (p, s)))"
| "exec1 u cf (Mov_to_cr3 r) c = (case c of (p, s) \<Rightarrow> Inr (p, s\<lparr>cr3 := p_reg p r\<rparr>))"
| "exec1 u cf In_al_dx c = (case c of (p, s) \<Rightarrow>
     (let (v, s') = inb (a_device u) (ucast (p_reg p EDX)) s
      in Inr (set_reg EAX (set_low8 (p_reg p EAX) v) p, s')))"
| "exec1 u cf In_ax_dx c = (case c of (p, s) \<Rightarrow>
     (let (v, s') = inw (a_device u) (ucast (p_reg p EDX)) s
      in Inr (set_reg EAX (set_low16 (p_reg p EAX) v) p, s')))"
| "exec1 u cf In_eax_dx c = (case c of (p, s) \<Rightarrow>
     (let (v, s') = inl (a_device u) (ucast (p_reg p EDX)) s in Inr (set_reg EAX v p, s')))"
| "exec1 u cf Out_dx_al c = (case c of (p, s) \<Rightarrow>
     Inr (p, log_event (Out8 (ucast (p_reg p EDX)) (ucast (p_reg p EAX))) s))"
| "exec1 u cf Out_dx_ax c = (case c of (p, s) \<Rightarrow>
     Inr (p, log_event (Out16 (ucast (p_reg p EDX)) (ucast (p_reg p EAX))) s))"
| "exec1 u cf Out_dx_eax c = (case c of (p, s) \<Rightarrow> Inr (p, log_event (Out32 (ucast (p_reg p EDX)) (p_reg p EAX)) s))"
| "exec1 u cf (Lgdt r) c = (case c of (p, s) \<Rightarrow> Inr (p, s\<lparr>gdtr := p_reg p r\<rparr>))"
| "exec1 u cf (Lidt r) c = (case c of (p, s) \<Rightarrow> Inr (p, s\<lparr>idtr := p_reg p r\<rparr>))"
| "exec1 u cf (Ltr r) c = (case c of (p, s) \<Rightarrow> Inr (p, s\<lparr>task_register := ucast (p_reg p r)\<rparr>))"
| "exec1 u cf (Far_jmp v) c = (case c of (p, s) \<Rightarrow> Inr (p\<lparr>p_seg := (p_seg p)(CS := v)\<rparr>, s))"
| "exec1 u cf (Call f) c =
     (let (p1, s1) = push32 (a_return u) c
      in rbind (cf f (p_reg p1 ESP + 4) s1) (\<lambda>s2. Inr
           (p1\<lparr>p_reg := (p_reg p1)(EAX := a_left u EAX, ECX := a_left u ECX, EDX := a_left u EDX,
              ESP := p_reg p1 ESP + 4)\<rparr>, s2)))"
| "exec1 u cf Ret c = Inl Undefined"
| "exec1 u cf Iret c = Inl Undefined"
| "exec1 u cf (Jmp_stub b) c = Inl Undefined"
| "exec1 u cf (Jmp_reg r) c = Inl Undefined"
| "exec1 u cf (Jnz t) c = Inl Undefined"
| "exec1 u cf Jmp_here c = Inl Undefined"

fun straight :: "instr \<Rightarrow> bool" where
  "straight Ret = False"
| "straight Iret = False"
| "straight (Jmp_stub b) = False"
| "straight (Jmp_reg r) = False"
| "straight (Jnz t) = False"
| "straight Jmp_here = False"
| "straight _ = True"

fun exec :: "asm_env \<Rightarrow> 'a c_code \<Rightarrow> instr list \<Rightarrow> 'a config \<Rightarrow> 'a config result" where
  "exec u cf [] c = Inr c"
| "exec u cf (i # is) c = rbind (exec1 u cf i c) (exec u cf is)"

text \<open>
  \<open>iret\<close> pops EIP, CS and EFLAGS, and if the popped selector has lower privilege also ESP and SS.
  (That it then clears data segment registers holding a selector of the kernel is left out.)
\<close>

definition same_ring :: "u32 \<Rightarrow> u16 \<Rightarrow> bool" where
  "same_ring new_cs cur \<longleftrightarrow> \<not> cur AND 3 < ucast new_cs AND 3"

definition iret :: "'a config \<Rightarrow> 'a config" where
  "iret c = (let (p, s) = c; m = data_mem p s; sp = p_reg p ESP; cs = read32 m (sp + 4);
       p1 = (if same_ring cs (p_seg p CS)
             then p\<lparr>p_reg := (p_reg p)(ESP := sp + 12), p_seg := (p_seg p)(CS := ucast cs)\<rparr>
             else p\<lparr>p_reg := (p_reg p)(ESP := read32 m (sp + 12)),
                    p_seg := (p_seg p)(CS := ucast cs, SS := ucast (read32 m (sp + 16)))\<rparr>)
     in load_flags (read32 m (sp + 8)) (p1\<lparr>p_eip := read32 m sp\<rparr>, s))"

section \<open>\<open>interrupt.s\<close>\<close>

definition isr_common_stub :: "instr list" where
  "isr_common_stub =
     [Pusha, Mov_from_seg EAX DS, Push_reg EAX,
      Mov_imm16 EAX 0x10, Mov_to_seg DS EAX, Mov_to_seg ES EAX, Mov_to_seg FS EAX, Mov_to_seg GS EAX,
      Call Isr_handler,
      Pop_reg EBX, Mov_to_seg DS EBX, Mov_to_seg ES EBX, Mov_to_seg FS EBX, Mov_to_seg GS EBX,
      Popa, Add_imm ESP 8, Sti, Iret]"

definition irq_common_stub :: "instr list" where
  "irq_common_stub =
     [Pusha, Mov_from_seg EAX DS, Push_reg EAX,
      Mov_imm16 EAX 0x10, Mov_to_seg DS EAX, Mov_to_seg ES EAX, Mov_to_seg FS EAX, Mov_to_seg GS EAX,
      Call Irq_handler,
      Pop_reg EBX, Mov_to_seg DS EBX, Mov_to_seg ES EBX, Mov_to_seg FS EBX, Mov_to_seg GS EBX,
      Popa, Add_imm ESP 8, Sti, Iret]"

fun stub_code :: "common_stub \<Rightarrow> instr list" where
  "stub_code Isr_common_stub = isr_common_stub"
| "stub_code Irq_common_stub = irq_common_stub"

definition isr_noerrcode :: "nat \<Rightarrow> instr list" where
  "isr_noerrcode n = [Cli, Push_imm 0, Push_imm (word_of_nat n), Jmp_stub Isr_common_stub]"

definition isr_errcode :: "nat \<Rightarrow> instr list" where
  "isr_errcode n = [Cli, Push_imm (word_of_nat n), Jmp_stub Isr_common_stub]"

definition irq_code :: "nat \<Rightarrow> instr list" where
  "irq_code vec = [Cli, Push_imm 0, Push_imm (word_of_nat vec), Jmp_stub Irq_common_stub]"

text \<open>The vectors declared with \<open>ISR_ERRCODE\<close>, and the stub behind each label.\<close>

definition errcode_vectors :: "nat list" where
  "errcode_vectors = [8, 10, 11, 12, 13, 14]"

definition isr_stub :: "nat \<Rightarrow> instr list" where
  "isr_stub n = (if n \<in> set errcode_vectors then isr_errcode n else isr_noerrcode n)"

definition irq_stub :: "nat \<Rightarrow> instr list" where
  "irq_stub k = irq_code (32 + k)"

section \<open>\<open>port.s\<close>\<close>

definition inb_code :: "instr list" where
  "inb_code = [Load16 EDX ESP 4, Xor_reg EAX EAX, In_al_dx, Ret]"
definition inw_code :: "instr list" where
  "inw_code = [Load16 EDX ESP 4, Xor_reg EAX EAX, In_ax_dx, Ret]"
definition inl_code :: "instr list" where
  "inl_code = [Load16 EDX ESP 4, In_eax_dx, Ret]"
definition outb_code :: "instr list" where
  "outb_code = [Load16 EDX ESP 4, Load8 EAX ESP 8, Out_dx_al, Ret]"
definition outw_code :: "instr list" where
  "outw_code = [Load16 EDX ESP 4, Load16 EAX ESP 8, Out_dx_ax, Ret]"
definition outl_code :: "instr list" where
  "outl_code = [Load16 EDX ESP 4, Load32 EAX ESP 8, Out_dx_eax, Ret]"

section \<open>\<open>gdt_flush.s\<close>\<close>

definition gdt_flush_code :: "instr list" where
  "gdt_flush_code =
     [Load32 EAX ESP 4, Lgdt EAX, Mov_imm16 EAX 0x10, Mov_to_seg DS EAX, Mov_to_seg ES EAX,
      Mov_to_seg FS EAX, Mov_to_seg GS EAX, Mov_to_seg SS EAX, Far_jmp 0x08, Ret]"

definition idt_flush_code :: "instr list" where
  "idt_flush_code = [Load32 EAX ESP 4, Lidt EAX, Ret]"

definition tss_flush_code :: "instr list" where
  "tss_flush_code = [Mov_imm16 EAX 0x2B, Ltr EAX, Ret]"

section \<open>\<open>process.s\<close> and \<open>boot.s\<close>\<close>

definition read_eip_code :: "instr list" where
  "read_eip_code = [Pop_reg EAX, Jmp_reg EAX]"

text \<open>\<open>.loop\<close> is instruction 9.\<close>

definition copy_page_code :: "instr list" where
  "copy_page_code =
     [Push_reg EBX, Pushf, Cli, Load32 EBX ESP 12, Load32 ECX ESP 16,
      Mov_from_cr0 EDX, And_imm EDX 0x7FFFFFFF, Mov_to_cr0 EDX,
      Mov_imm EDX 1024,
      Load32 EAX EBX 0, Store32 ECX EAX, Add_imm EBX 4, Add_imm ECX 4, Dec_reg EDX, Jnz 9,
      Mov_from_cr0 EDX, Or_imm EDX 0x80000000, Mov_to_cr0 EDX,
      Popf, Pop_reg EBX, Ret]"

definition start_code :: "instr list" where
  "start_code = [Push_reg ESP, Push_reg EBX, Cli, Call Main_fn, Jmp_here]"

text \<open>The header by which the boot loader finds the kernel; its last five words are addresses.\<close>

definition MBOOT_HEADER_MAGIC :: u32 where "MBOOT_HEADER_MAGIC = 0x1BADB002"
definition MBOOT_HEADER_FLAGS :: u32 where "MBOOT_HEADER_FLAGS = push_bit 0 1 OR push_bit 1 1"
definition MBOOT_CHECKSUM :: u32 where "MBOOT_CHECKSUM = - (MBOOT_HEADER_MAGIC + MBOOT_HEADER_FLAGS)"

definition mboot_header :: "u32 \<Rightarrow> u32 \<Rightarrow> u32 \<Rightarrow> u32 \<Rightarrow> u32 \<Rightarrow> u32 list" where
  "mboot_header mboot code bss kend start =
     [MBOOT_HEADER_MAGIC, MBOOT_HEADER_FLAGS, MBOOT_CHECKSUM, mboot, code, bss, kend, start]"

section \<open>Inline assembly of \<open>task.c\<close>\<close>

text \<open>
  The compiler chooses the registers of the operands of \<open>switch_task\<close>'s block; \<open>lab\<close> is the address
  of the label behind \<open>switch_to_user_mode\<close>'s \<open>iret\<close>.
\<close>

definition switch_task_code :: "reg32 \<Rightarrow> reg32 \<Rightarrow> reg32 \<Rightarrow> reg32 \<Rightarrow> instr list" where
  "switch_task_code r0 r1 r2 r3 =
     [Cli, Mov_reg ECX r0, Mov_reg ESP r1, Mov_reg EBP r2, Mov_to_cr3 r3, Mov_imm EAX 0x12345, Sti, Jmp_reg ECX]"

definition user_mode_code :: "u32 \<Rightarrow> instr list" where
  "user_mode_code lab =
     [Cli, Mov_imm16 EAX 0x23, Mov_to_seg DS EAX, Mov_to_seg ES EAX, Mov_to_seg FS EAX, Mov_to_seg GS EAX,
      Mov_reg EAX ESP, Push_imm 0x23, Push_reg ESP, Pushf, Or_stack 0x200, Push_imm 0x1B, Push_imm lab, Iret]"

section \<open>Running a program\<close>

text \<open>
  \<open>run\<close> starts at instruction \<open>i\<close> of a listing and stops when control leaves the routine; fuel bounds
  the number of instructions.
\<close>

primrec run :: "nat \<Rightarrow> asm_env \<Rightarrow> 'a c_code \<Rightarrow> instr list \<Rightarrow> nat \<Rightarrow> 'a config \<Rightarrow> 'a config result" where
  "run 0 u cf prog i c = Inl No_return"
| "run (Suc n) u cf prog i c =
     (if i < length prog
      then (case prog ! i of
              Ret \<Rightarrow> (let v = top32 c; (p, s) = drop32 c in Inr (p\<lparr>p_eip := v\<rparr>, s))
            | Iret \<Rightarrow> Inr (iret c)
            | Jmp_stub b \<Rightarrow> run n u cf (stub_code b) 0 c
            | Jmp_reg r \<Rightarrow> Inr ((fst c)\<lparr>p_eip := p_reg (fst c) r\<rparr>, snd c)
            | Jnz t \<Rightarrow> run n u cf prog (if bit (p_eflags (fst c)) FLAG_ZF then i + 1 else t) c
            | Jmp_here \<Rightarrow> run n u cf prog i c
            | ins \<Rightarrow> rbind (exec1 u cf ins c) (run n u cf prog (i + 1)))
      else Inl Undefined)"

lemma run_step:
  assumes "i < length prog" and "straight (prog ! i)"
  shows "run (Suc n) u cf prog i c = rbind (exec1 u cf (prog ! i) c) (run n u cf prog (i + 1))"
  using assms by (cases "prog ! i") simp_all

text \<open>A straight piece of a listing runs as the composition of its instructions.\<close>

lemma run_straight:
  assumes "drop i prog = xs @ ys" and "list_all straight xs"
  shows "run (length xs + n) u cf prog i c = rbind (exec u cf xs c) (run n u cf prog (i + length xs))"
  using assms
proof (induction xs arbitrary: i c)
  case (Cons x xs)
  have d: "drop i prog = x # (xs @ ys)" using Cons.prems(1) by simp
  then have i: "i < length prog" by (metis drop_eq_Nil2 list.distinct(1) not_le)
  have x: "prog ! i = x" using d by (rule nth_via_drop)
  have xs: "drop (i + 1) prog = xs @ ys" using d by (metis Suc_eq_plus1 drop_Suc list.sel(3) tl_drop)
  have "run (length (x # xs) + n) u cf prog i c = rbind (exec1 u cf x c) (run (length xs + n) u cf prog (i + 1))"
    using run_step [OF i, of "length xs + n" u cf c] x Cons.prems(2) by simp
  also have "\<dots> = rbind (exec u cf (x # xs) c) (run n u cf prog (i + length (x # xs)))"
    using Cons.IH [OF xs] Cons.prems(2) by (cases "exec1 u cf x c") simp_all
  finally show ?case .
qed simp

section \<open>Parts of registers\<close>

lemmas cpu_defs = push32_def top32_def drop32_def set_reg_def upd_mem_def data_mem_def Let_def

lemma reg32_fun_eqI:
  assumes "f EAX = g EAX" "f ECX = g ECX" "f EDX = g EDX" "f EBX = g EBX"
    and "f ESP = g ESP" "f EBP = g EBP" "f ESI = g ESI" "f EDI = g EDI"
  shows "f = g"
proof
  fix r show "f r = g r" using assms by (cases r) simp_all
qed

lemma segreg_fun_eqI:
  assumes "f ES = g ES" "f CS = g CS" "f SS = g SS" "f DS = g DS" "f FS = g FS" "f GS = g GS"
  shows "f = g"
proof
  fix r show "f r = g r" using assms by (cases r) simp_all
qed

lemma high_half: "(0xFFFF0000 :: u32) = NOT (mask 16)"
  by (simp add: mask_eq_exp_minus_1)

lemma ucast_set_low16 [simp]: "(ucast (set_low16 w v) :: u16) = v"
  unfolding set_low16_def high_half by (rule bit_word_eqI) (auto simp: bit_simps)

lemma ucast_u16 [simp]: "(ucast (ucast v :: u32) :: u16) = v" for v :: u16
  by (rule bit_word_eqI) (simp add: bit_simps)

lemma low_byte: "(0xFFFFFF00 :: u32) = NOT (mask 8)"
  by (simp add: mask_eq_exp_minus_1)

lemma ucast_set_low8 [simp]: "(ucast (set_low8 w v) :: u8) = v"
  unfolding set_low8_def low_byte by (rule bit_word_eqI) (auto simp: bit_simps)

lemma set_low_zero [simp]: "set_low8 0 v = ucast v" "set_low16 0 w = ucast w"
  by (simp_all add: set_low8_def set_low16_def)

lemma ucast_read32 [simp]: "(ucast (read32 m a) :: u8) = m a"
  by (rule bit_word_eqI) (auto simp: read32_def bit_simps)

lemma flags_word_bit [simp]: "bit (flags_word (p, s)) FLAG_IF = int_flag s"
  by (simp add: flags_word_def FLAG_IF_def bit_simps)

lemma flags_word_rest [simp]: "unset_bit FLAG_IF (flags_word (p, s)) = unset_bit FLAG_IF (p_eflags p)"
  unfolding flags_word_def by (rule bit_word_eqI) (auto simp: bit_simps)

end
