(* ===== verification/Interrupt_Path.thy ===== *)
theory Interrupt_Path
  imports Assembly
begin

text \<open>
  The way of an interrupt: what the processor pushes, the stub of the vector, the common stub, the
  C dispatcher with the saved registers on the stack as its argument, and the way back.
\<close>

section \<open>The saved registers on the stack\<close>

definition load_regs :: "mem \<Rightarrow> u32 \<Rightarrow> registers_t" where
  "load_regs m a =
     \<lparr>r_ds = read32 m a, r_edi = read32 m (a + 4), r_esi = read32 m (a + 8), r_ebp = read32 m (a + 12),
      r_esp = read32 m (a + 16), r_ebx = read32 m (a + 20), r_edx = read32 m (a + 24),
      r_ecx = read32 m (a + 28), r_eax = read32 m (a + 32), r_int_no = read32 m (a + 36),
      r_err_code = read32 m (a + 40), r_eip = read32 m (a + 44), r_cs = read32 m (a + 48),
      r_eflags = read32 m (a + 52), r_useresp = read32 m (a + 56), r_ss = read32 m (a + 60)\<rparr>"

definition reg_words :: "registers_t \<Rightarrow> u32 list" where
  "reg_words r = [r_ds r, r_edi r, r_esi r, r_ebp r, r_esp r, r_ebx r, r_edx r, r_ecx r, r_eax r,
     r_int_no r, r_err_code r, r_eip r, r_cs r, r_eflags r, r_useresp r, r_ss r]"

fun store_words :: "u32 \<Rightarrow> u32 list \<Rightarrow> mem \<Rightarrow> mem" where
  "store_words a [] m = m"
| "store_words a (w # ws) m = store_words (a + 4) ws (write32 m a w)"

definition store_regs :: "u32 \<Rightarrow> registers_t \<Rightarrow> mem \<Rightarrow> mem" where
  "store_regs a r = store_words a (reg_words r)"

text \<open>
  The dispatchers get \<open>registers_t\<close> by value, so it is the stack frame itself, and what a handler
  stores through its pointer is what the stub pops.
\<close>

definition on_frame ::
    "(registers_t \<Rightarrow> 'a kernel_scheme \<Rightarrow> (registers_t \<times> 'a kernel_scheme) result) \<Rightarrow>
      u32 \<Rightarrow> 'a kernel_scheme \<Rightarrow> 'a kernel_scheme result" where
  "on_frame f a s = rbind (f (load_regs (ram s) a) s) (\<lambda>(r, s'). Inr (upd_ram (store_regs a r) s'))"

fun c_dispatch :: "'a tables_ext handler_call \<Rightarrow> 'a c_code" where
  "c_dispatch call Isr_handler = on_frame (isr_handler call)"
| "c_dispatch call Irq_handler = on_frame (irq_handler call)"
| "c_dispatch call Main_fn = (\<lambda>a s. Inl Undefined)"

section \<open>What the processor does\<close>

text \<open>
  On an interrupt from user mode the processor takes the kernel's stack from the task state
  segment, at the base that the descriptor chosen by the task register gives. Only if that is
  where the linker put \<open>tss_entry\<close> it reads what the kernel stored there.
\<close>

definition tss_base :: "'a tables_scheme \<Rightarrow> u32" where
  "tss_base s = segment_base (gdt_entries s ! unat (drop_bit 3 (task_register s)))"

definition ring0_stack :: "link_map \<Rightarrow> 'a tables_scheme \<Rightarrow> u16 \<times> u32" where
  "ring0_stack lm s =
     (if tss_base s = at_tss_entry lm
      then (ucast (tss_ss0 (tss_entry s)), tss_esp0 (tss_entry s))
      else (ucast (read32 (ram s) (tss_base s + 8)), read32 (ram s) (tss_base s + 4)))"

definition in_kernel :: "processor \<Rightarrow> bool" where
  "in_kernel p \<longleftrightarrow> p_seg p CS AND 3 = 0"

definition enter_stack :: "link_map \<Rightarrow> 'a config \<Rightarrow> 'a config" where
  "enter_stack lm c = (let (p, s) = c
     in if in_kernel p then c
        else (let (ss0, esp0) = ring0_stack lm s;
                  p1 = set_reg ESP esp0 (p\<lparr>p_seg := (p_seg p)(SS := ss0)\<rparr>)
              in push32 (p_reg p ESP) (push32 (ucast (p_seg p SS)) (p1, s))))"

definition push_error :: "u32 option \<Rightarrow> 'a config \<Rightarrow> 'a config" where
  "push_error err c = (case err of None \<Rightarrow> c | Some e \<Rightarrow> push32 e c)"

text \<open>An interrupt gate clears the interrupt flag, and TF, NT, RF and VM (0x34100).\<close>

definition enter_gate :: "link_map \<Rightarrow> idt_entry_t \<Rightarrow> u32 option \<Rightarrow> 'a config \<Rightarrow> 'a config" where
  "enter_gate lm g err c =
     (let (p, s) = c;
          (p1, s1) = push_error err (push32 (p_eip p) (push32 (ucast (p_seg p CS))
                       (push32 (flags_word c) (enter_stack lm c))))
      in (p1\<lparr>p_seg := (p_seg p1)(CS := sel g), p_eip := gate_target g,
             p_eflags := p_eflags p1 AND NOT 0x34100\<rparr>, cli s1))"

definition stub_table :: "link_map \<Rightarrow> (u32 \<times> instr list) list" where
  "stub_table lm =
     map (\<lambda>n. (at_isr lm n, isr_stub n)) ([0..<32] @ [128]) @ map (\<lambda>k. (at_irq lm k, irq_stub k)) [0..<16]"

text \<open>
  Whether the processor pushes an error code depends on the event alone, not on the code of the
  kernel: with the exceptions 8, 10 to 14 and 17, and 21, 29 and 30 where a later processor has
  them, it does; with any other exception, an interrupt from a device or an \<open>int n\<close> instruction
  (\<open>soft\<close>), whatever \<open>n\<close>, it does not. \<open>err\<close> is the error code, if there is one.
\<close>

definition pushes_error_code :: "bool \<Rightarrow> nat \<Rightarrow> bool" where
  "pushes_error_code soft n \<longleftrightarrow> \<not> soft \<and> n \<in> {8, 10, 11, 12, 13, 14, 17, 21, 29, 30}"

definition raised :: "bool \<Rightarrow> nat \<Rightarrow> u32 option \<Rightarrow> bool" where
  "raised soft n err \<longleftrightarrow> (err \<noteq> None \<longleftrightarrow> pushes_error_code soft n)"

text \<open>
  The interrupt \<open>n\<close>: \<open>soft\<close> if raised by an \<open>int\<close> instruction, which the privilege level of the
  gate must allow. The exception that a missing gate or the lack of privilege raises in its turn
  is not followed; nor is there an interrupt whose error code is not as the processor has it.
\<close>

definition take_interrupt ::
    "nat \<Rightarrow> asm_env \<Rightarrow> link_map \<Rightarrow> 'a tables_ext handler_call \<Rightarrow> bool \<Rightarrow> u8 \<Rightarrow> u32 option \<Rightarrow> 'a config \<Rightarrow> 'a config result" where
  "take_interrupt k u lm call soft n err c =
     (let g = idt_entries (snd c) n
      in if \<not> raised soft (unat n) err \<or> \<not> bit (gate_flags g) 7 \<or> soft \<and> ucast (gate_dpl g) < p_seg (fst c) CS AND 3 then Inl Undefined
         else (case map_of (stub_table lm) (gate_target g) of
                 None \<Rightarrow> Inl Undefined
               | Some code \<Rightarrow> run k u (c_dispatch call) code 0 (enter_gate lm g err c)))"

section \<open>The common stubs\<close>

fun stub_fn :: "common_stub \<Rightarrow> c_fn" where
  "stub_fn Isr_common_stub = Isr_handler"
| "stub_fn Irq_common_stub = Irq_handler"

fun push_words :: "u32 list \<Rightarrow> u32 \<Rightarrow> mem \<Rightarrow> mem" where
  "push_words [] a m = m"
| "push_words (w # ws) a m = push_words ws (a - 4) (write32 m (a - 4) w)"

text \<open>The words that the common stub pushes before the call, the return address among them.\<close>

definition stub_pushes :: "asm_env \<Rightarrow> processor \<Rightarrow> u32 list" where
  "stub_pushes u p = [p_reg p EAX, p_reg p ECX, p_reg p EDX, p_reg p EBX, p_reg p ESP, p_reg p EBP,
     p_reg p ESI, p_reg p EDI, set_low16 (p_reg p EAX) (p_seg p DS), a_return u]"

text \<open>What the stub and \<open>iret\<close> make of the registers on the stack.\<close>

definition resume :: "registers_t \<Rightarrow> u32 \<Rightarrow> u16 \<Rightarrow> u16 \<Rightarrow> processor" where
  "resume r a cs ss =
     (let same = same_ring (r_cs r) cs
      in \<lparr>p_reg = (\<lambda>_. 0)(EAX := r_eax r, ECX := r_ecx r, EDX := r_edx r, EBX := r_ebx r,
                    ESP := (if same then a + 56 else r_useresp r), EBP := r_ebp r, ESI := r_esi r, EDI := r_edi r),
          p_seg = (\<lambda>_. ucast (r_ds r))(CS := ucast (r_cs r), SS := (if same then ss else ucast (r_ss r))),
          p_eip = r_eip r, p_eflags = unset_bit FLAG_IF (r_eflags r), p_phys = False\<rparr>)"

definition stub_save :: "instr list" where
  "stub_save = [Pusha, Mov_from_seg EAX DS, Push_reg EAX, Mov_imm16 EAX 0x10, Mov_to_seg DS EAX,
        Mov_to_seg ES EAX, Mov_to_seg FS EAX, Mov_to_seg GS EAX]"

definition stub_restore :: "instr list" where
  "stub_restore = [Pop_reg EBX, Mov_to_seg DS EBX, Mov_to_seg ES EBX, Mov_to_seg FS EBX, Mov_to_seg GS EBX,
        Popa, Add_imm ESP 8, Sti]"

lemma stub_code_parts: "stub_code b = stub_save @ Call (stub_fn b) # stub_restore @ [Iret]"
  by (cases b) (simp_all add: isr_common_stub_def irq_common_stub_def stub_save_def stub_restore_def)

lemma stub_parts [simp]: "length stub_save = 8" "length stub_restore = 8"
  "list_all straight stub_save" "list_all straight stub_restore"
  by (simp_all add: stub_save_def stub_restore_def)

lemma stub_saves:
  assumes "\<not> p_phys p"
  shows "\<exists>p1. exec u cf stub_save (p, s)
      = Inr (p1, s\<lparr>ram := push_words (butlast (stub_pushes u p)) (p_reg p ESP) (ram s)\<rparr>)
    \<and> p_reg p1 ESP = p_reg p ESP - 36 \<and> \<not> p_phys p1 \<and> p_seg p1 CS = p_seg p CS \<and> p_seg p1 SS = p_seg p SS"
  using assms by (simp add: cpu_defs stub_pushes_def stub_save_def)

lemma stub_restores:
  assumes "\<not> p_phys p" and "p_reg p ESP = a" and "load_regs (ram s) a = r"
  shows "\<exists>c. exec u cf stub_restore (p, s) = Inr c
    \<and> iret c = (resume r a (p_seg p CS) (p_seg p SS), s\<lparr>int_flag := bit (r_eflags r) FLAG_IF\<rparr>)"
  using assms(1,2) by (cases p) (auto simp: add.commute cpu_defs alu_def arith_def iret_def resume_def load_flags_def load_regs_def sti_def stub_restore_def assms(3) [symmetric]
      intro!: reg32_fun_eqI segreg_fun_eqI)

lemma push_words_append:
  "push_words (xs @ ys) a m = push_words ys (a - 4 * word_of_nat (length xs)) (push_words xs a m)"
  by (induction xs arbitrary: a m) (simp_all add: algebra_simps)

text \<open>The whole of a common stub, from the first push to \<open>iret\<close>.\<close>

lemma run_common_stub:
  fixes s :: "'a tables_scheme"
  assumes "\<not> p_phys p"
  defines "a \<equiv> p_reg p ESP - 36"
  shows "run (18 + k) u cf (stub_code b) 0 (p, s)
    = rbind (cf (stub_fn b) a (s\<lparr>ram := push_words (stub_pushes u p) (p_reg p ESP) (ram s)\<rparr>)) (\<lambda>s2.
        Inr (resume (load_regs (ram s2) a) a (p_seg p CS) (p_seg p SS),
             s2\<lparr>int_flag := bit (read32 (ram s2) (a + 52)) FLAG_IF\<rparr>))"
proof -
  let ?prog = "stub_code b"
  let ?m = "push_words (butlast (stub_pushes u p)) (p_reg p ESP) (ram s)"
  let ?s1 = "s\<lparr>ram := push_words (stub_pushes u p) (p_reg p ESP) (ram s)\<rparr>"
  obtain p1 where p1: "exec u cf stub_save (p, s) = Inr (p1, s\<lparr>ram := ?m\<rparr>)" "p_reg p1 ESP = a"
      "\<not> p_phys p1" "p_seg p1 CS = p_seg p CS" "p_seg p1 SS = p_seg p SS"
    using stub_saves [OF assms(1), of u cf s] unfolding a_def by blast
  have pushed: "write32 ?m (a - 4) (a_return u) = push_words (stub_pushes u p) (p_reg p ESP) (ram s)"
    by (simp add: stub_pushes_def a_def)
  have "run (18 + k) u cf ?prog 0 (p, s) = run (10 + k) u cf ?prog 8 (p1, s\<lparr>ram := ?m\<rparr>)"
    using run_straight [of 0 ?prog stub_save _ "10 + k" u cf "(p, s)"] p1(1) by (simp add: stub_code_parts)
  also have "\<dots> = rbind (exec1 u cf (Call (stub_fn b)) (p1, s\<lparr>ram := ?m\<rparr>)) (run (9 + k) u cf ?prog 9)"
    using run_step [of 8 ?prog "9 + k" u cf] by (simp add: stub_code_parts nth_append)
  also have "\<dots> = rbind (cf (stub_fn b) a ?s1) (\<lambda>s2. run (9 + k) u cf ?prog 9
      (p1\<lparr>p_reg := (p_reg p1)(EAX := a_left u EAX, ECX := a_left u ECX, EDX := a_left u EDX, ESP := a)\<rparr>, s2))"
    using p1(2,3) by (cases "cf (stub_fn b) a ?s1") (simp_all add: cpu_defs pushed [symmetric] fun_upd_twist)
  also have "\<dots> = rbind (cf (stub_fn b) a ?s1) (\<lambda>s2.
        Inr (resume (load_regs (ram s2) a) a (p_seg p CS) (p_seg p SS),
             s2\<lparr>int_flag := bit (read32 (ram s2) (a + 52)) FLAG_IF\<rparr>))"
  proof (rule arg_cong [where f = "rbind _"], rule ext)
    fix s2 :: "'a tables_scheme"
    let ?p2 = "p1\<lparr>p_reg := (p_reg p1)(EAX := a_left u EAX, ECX := a_left u ECX, EDX := a_left u EDX, ESP := a)\<rparr>"
    obtain c where c: "exec u cf stub_restore (?p2, s2) = Inr c"
        "iret c = (resume (load_regs (ram s2) a) a (p_seg p CS) (p_seg p SS),
           s2\<lparr>int_flag := bit (r_eflags (load_regs (ram s2) a)) FLAG_IF\<rparr>)"
      using stub_restores [of ?p2 a s2 _ u cf] p1(3-5) by auto
    have "run (9 + k) u cf ?prog 9 (?p2, s2) = run (1 + k) u cf ?prog 17 c"
      using run_straight [of 9 ?prog stub_restore "[Iret]" "1 + k" u cf "(?p2, s2)"] c(1)
      by (simp add: stub_code_parts)
    then show "run (9 + k) u cf ?prog 9 (?p2, s2)
      = Inr (resume (load_regs (ram s2) a) a (p_seg p CS) (p_seg p SS),
             s2\<lparr>int_flag := bit (read32 (ram s2) (a + 52)) FLAG_IF\<rparr>)"
      using c(2) by (simp add: stub_code_parts nth_append load_regs_def)
  qed
  finally show ?thesis .
qed

section \<open>The frame\<close>

lemma load_store_regs: "load_regs (store_regs a r m) a = r"
  by (cases r) (simp add: load_regs_def store_regs_def reg_words_def add.assoc)

lemma load_pushed:
  "load_regs (push_words [fl, cs, ip, e, n, ax, cx, dx, bx, sp, bp, si, di, ds, ret] tp m) (tp - 56)
    = \<lparr>r_ds = ds, r_edi = di, r_esi = si, r_ebp = bp, r_esp = sp, r_ebx = bx, r_edx = dx, r_ecx = cx,
       r_eax = ax, r_int_no = n, r_err_code = e, r_eip = ip, r_cs = cs, r_eflags = fl,
       r_useresp = read32 m tp, r_ss = read32 m (tp + 4)\<rparr>"
proof -
  obtain b where "tp = b + 60" by (metis diff_add_cancel)
  then show ?thesis by (simp add: load_regs_def add.assoc) (simp add: add.commute)
qed

text \<open>
  \<open>frame_top\<close> is the end of the frame, below which the processor pushes EFLAGS; from user mode it has
  pushed SS and ESP above it. \<open>frame_mem_at\<close> is the memory and \<open>frame_regs\<close> the registers that the C
  code is called with, at \<open>frame_top - 56\<close>.
\<close>

definition frame_top :: "link_map \<Rightarrow> 'a config \<Rightarrow> u32" where
  "frame_top lm c = p_reg (fst (enter_stack lm c)) ESP"

definition error_word :: "u32 option \<Rightarrow> u32" where
  "error_word err = (case err of None \<Rightarrow> 0 | Some e \<Rightarrow> e)"

definition frame_words :: "asm_env \<Rightarrow> link_map \<Rightarrow> nat \<Rightarrow> u32 option \<Rightarrow> 'a config \<Rightarrow> u32 list" where
  "frame_words u lm n err c = (let (p, s) = c
     in [flags_word c, ucast (p_seg p CS), p_eip p, error_word err, word_of_nat n]
        @ stub_pushes u (set_reg ESP (frame_top lm c - 20) p))"

definition frame_ram :: "asm_env \<Rightarrow> link_map \<Rightarrow> nat \<Rightarrow> u32 option \<Rightarrow> 'a config \<Rightarrow> mem" where
  "frame_ram u lm n err c =
     push_words (frame_words u lm n err c) (frame_top lm c) (ram (snd (enter_stack lm c)))"

definition frame_state :: "asm_env \<Rightarrow> link_map \<Rightarrow> nat \<Rightarrow> u32 option \<Rightarrow> 'a config \<Rightarrow> 'a tables_scheme" where
  "frame_state u lm n err c = (snd c)\<lparr>int_flag := False, ram := frame_ram u lm n err c\<rparr>"

definition frame_regs :: "link_map \<Rightarrow> nat \<Rightarrow> u32 option \<Rightarrow> 'a config \<Rightarrow> registers_t" where
  "frame_regs lm n err c = (let (p, s) = c; tp = frame_top lm c; m = ram (snd (enter_stack lm c))
     in \<lparr>r_ds = set_low16 (p_reg p EAX) (p_seg p DS), r_edi = p_reg p EDI, r_esi = p_reg p ESI,
         r_ebp = p_reg p EBP, r_esp = tp - 20, r_ebx = p_reg p EBX, r_edx = p_reg p EDX,
         r_ecx = p_reg p ECX, r_eax = p_reg p EAX, r_int_no = word_of_nat n, r_err_code = error_word err,
         r_eip = p_eip p, r_cs = ucast (p_seg p CS), r_eflags = flags_word c,
         r_useresp = read32 m tp, r_ss = read32 m (tp + 4)\<rparr>)"

lemma load_frame: "load_regs (frame_ram u lm n err c) (frame_top lm c - 56) = frame_regs lm n err c"
  by (cases c) (simp add: frame_ram_def frame_words_def stub_pushes_def frame_regs_def load_pushed set_reg_def Let_def del: push_words.simps)

lemma enter_stack_keeps:
  assumes "\<not> p_phys p" and "enter_stack lm (p, s) = (p1, s1)"
  shows "s1 = s\<lparr>ram := ram s1\<rparr>" and "\<not> p_phys p1" and "p_eip p1 = p_eip p" and "p_eflags p1 = p_eflags p"
    and "r \<noteq> ESP \<Longrightarrow> p_reg p1 r = p_reg p r" and "g \<noteq> SS \<Longrightarrow> p_seg p1 g = p_seg p g"
  using assms by (auto simp: enter_stack_def cpu_defs split: if_splits prod.splits)

section \<open>From the gate to the dispatcher\<close>

text \<open>A vector's stub pushes its number, and a zero where the processor pushes no error code.\<close>

lemma run_to_stub:
  assumes "list_all straight pre"
  shows "run (length pre + Suc k) u cf (pre @ [Jmp_stub b]) 0 c = rbind (exec u cf pre c) (run k u cf (stub_code b) 0)"
  using run_straight [of 0 "pre @ [Jmp_stub b]" pre "[Jmp_stub b]" "Suc k" u cf c] assms
  by (cases "exec u cf pre c") (simp_all add: nth_append)

definition vector_pushes :: "u32 option \<Rightarrow> nat \<Rightarrow> instr list" where
  "vector_pushes err n = (if err = None then [Cli, Push_imm 0, Push_imm (word_of_nat n)] else [Cli, Push_imm (word_of_nat n)])"

lemma vector_pushes_straight [simp]: "list_all straight (vector_pushes err n)"
  by (simp add: vector_pushes_def)

text \<open>When a stub reaches the common stub, the top of the stack is the same for every vector.\<close>

lemma gate_to_stub:
  assumes "\<not> p_phys p"
  shows "\<exists>p4. exec u cf (vector_pushes err n) (enter_gate lm g err (p, s))
      = Inr (p4, s\<lparr>ram := push_words (take 5 (frame_words u lm n err (p, s))) (frame_top lm (p, s))
                        (ram (snd (enter_stack lm (p, s)))), int_flag := False\<rparr>)
    \<and> p_reg p4 ESP = frame_top lm (p, s) - 20 \<and> \<not> p_phys p4 \<and> p_seg p4 CS = sel g
    \<and> p_seg p4 SS = p_seg (fst (enter_stack lm (p, s))) SS
    \<and> stub_pushes u p4 = stub_pushes u (set_reg ESP (frame_top lm (p, s) - 20) p)"
proof -
  obtain p1 s1 where e: "enter_stack lm (p, s) = (p1, s1)" by (cases "enter_stack lm (p, s)")
  note k = enter_stack_keeps [OF assms e]
  have "s1 = s\<lparr>ram := ram s1\<rparr>" by (rule k(1))
  then obtain m where s1: "s1 = s\<lparr>ram := m\<rparr>" by blast
  show ?thesis
    using k(2-4) k(5) [of EAX] k(5) [of ECX] k(5) [of EDX] k(5) [of EBX] k(5) [of EBP] k(5) [of ESI] k(5) [of EDI]
      k(6) [of DS]
    by (cases err) (simp_all add: vector_pushes_def enter_gate_def push_error_def e frame_words_def frame_top_def
      error_word_def stub_pushes_def cpu_defs cli_def s1)
qed

lemma run_from_gate:
  fixes s :: "'a tables_scheme" and lm :: link_map
  assumes "\<not> p_phys p"
  defines "a \<equiv> frame_top lm (p, s) - 56"
  shows "run (22 + k) u cf (vector_pushes err n @ [Jmp_stub b]) 0 (enter_gate lm g err (p, s))
    = rbind (cf (stub_fn b) a (frame_state u lm n err (p, s))) (\<lambda>s2.
        Inr (resume (load_regs (ram s2) a) a (sel g) (p_seg (fst (enter_stack lm (p, s))) SS),
             s2\<lparr>int_flag := bit (read32 (ram s2) (a + 52)) FLAG_IF\<rparr>))"
proof -
  let ?c = "enter_gate lm g err (p, s)"
  let ?fw = "frame_words u lm n err (p, s)"
  obtain p4 where p4: "exec u cf (vector_pushes err n) ?c
      = Inr (p4, s\<lparr>ram := push_words (take 5 ?fw) (frame_top lm (p, s)) (ram (snd (enter_stack lm (p, s)))), int_flag := False\<rparr>)"
      "p_reg p4 ESP = frame_top lm (p, s) - 20" "\<not> p_phys p4" "p_seg p4 CS = sel g"
      "p_seg p4 SS = p_seg (fst (enter_stack lm (p, s))) SS"
      "stub_pushes u p4 = stub_pushes u (set_reg ESP (frame_top lm (p, s) - 20) p)"
    using gate_to_stub [OF assms(1), of u cf err n lm g s] by blast
  have "take 5 ?fw @ stub_pushes u (set_reg ESP (frame_top lm (p, s) - 20) p) = ?fw"
    by (simp add: frame_words_def)
  then have fw: "take 5 ?fw @ stub_pushes u p4 = ?fw" "length ?fw = 15"
    by (simp_all add: p4(6) frame_words_def) (simp add: stub_pushes_def)
  have a: "p_reg p4 ESP - 36 = a" by (simp add: p4(2) a_def)
  have "push_words (stub_pushes u p4) (p_reg p4 ESP)
      (push_words (take 5 ?fw) (frame_top lm (p, s)) (ram (snd (enter_stack lm (p, s))))) = frame_ram u lm n err (p, s)"
    using push_words_append [of "take 5 ?fw" "stub_pushes u p4"] by (simp add: fw frame_ram_def p4(2))
  then have mem: "ram (s\<lparr>ram := push_words (stub_pushes u p4) (p_reg p4 ESP)
      (push_words (take 5 ?fw) (frame_top lm (p, s)) (ram (snd (enter_stack lm (p, s)))))\<rparr>) = frame_ram u lm n err (p, s)"
    by simp
  define j where "j = (if err = None then k else Suc k)"
  have len: "22 + k = length (vector_pushes err n) + Suc (18 + j)"
    by (simp add: vector_pushes_def j_def)
  have "run (22 + k) u cf (vector_pushes err n @ [Jmp_stub b]) 0 ?c
      = rbind (exec u cf (vector_pushes err n) ?c) (run (18 + j) u cf (stub_code b) 0)"
    unfolding len by (rule run_to_stub) simp
  then show ?thesis
    using run_common_stub [OF p4(3), of j u cf b] p4(1,4,5) mem by (simp add: a frame_state_def)
qed

section \<open>An error code too few or too many\<close>

text \<open>
  Where the vector does not fit, the stub pushes a zero beside an error code, or none where there is
  no error code, and the words that the C code takes for the saved registers are off by one.
\<close>

definition pushed_words :: "u32 option \<Rightarrow> u32 option \<Rightarrow> nat \<Rightarrow> 'a config \<Rightarrow> u32 list" where
  "pushed_words err expected n c = (let (p, s) = c
     in [flags_word c, ucast (p_seg p CS), p_eip p] @ (case err of None \<Rightarrow> [] | Some e \<Rightarrow> [e])
        @ (if expected = None then [0] else []) @ [word_of_nat n])"

lemma gate_words:
  fixes s :: "'a tables_scheme" and lm :: link_map and err expected :: "u32 option" and n :: nat
  assumes "\<not> p_phys p"
  defines "ws \<equiv> pushed_words err expected n (p, s)" and "tp \<equiv> frame_top lm (p, s)"
  shows "\<exists>p4. exec u cf (vector_pushes expected n) (enter_gate lm g err (p, s))
      = Inr (p4, s\<lparr>ram := push_words ws tp (ram (snd (enter_stack lm (p, s)))), int_flag := False\<rparr>)
    \<and> p_reg p4 ESP = tp - 4 * word_of_nat (length ws) \<and> \<not> p_phys p4 \<and> p_seg p4 CS = sel g
    \<and> p_seg p4 SS = p_seg (fst (enter_stack lm (p, s))) SS"
proof -
  obtain p1 s1 where e: "enter_stack lm (p, s) = (p1, s1)" by (cases "enter_stack lm (p, s)")
  note k = enter_stack_keeps [OF assms(1) e]
  have "s1 = s\<lparr>ram := ram s1\<rparr>" by (rule k(1))
  then obtain m where s1: "s1 = s\<lparr>ram := m\<rparr>" by blast
  show ?thesis
    using k(2-4) unfolding ws_def tp_def
    by (cases err; cases expected) (simp_all add: vector_pushes_def enter_gate_def push_error_def e pushed_words_def
      frame_top_def cpu_defs cli_def s1)
qed

lemma run_misfit:
  fixes s :: "'a tables_scheme" and lm :: link_map and err expected :: "u32 option" and n :: nat
  assumes "\<not> p_phys p"
  defines "ws \<equiv> pushed_words err expected n (p, s)" and "tp \<equiv> frame_top lm (p, s)"
  defines "a \<equiv> tp - 4 * word_of_nat (length ws) - 36"
  shows "\<exists>ps m. length ps = 10 \<and> run (22 + k) u cf (vector_pushes expected n @ [Jmp_stub b]) 0 (enter_gate lm g err (p, s))
    = rbind (cf (stub_fn b) a (s\<lparr>int_flag := False, ram := push_words (ws @ ps) tp m\<rparr>)) (\<lambda>s2.
        Inr (resume (load_regs (ram s2) a) a (sel g) (p_seg (fst (enter_stack lm (p, s))) SS),
             s2\<lparr>int_flag := bit (read32 (ram s2) (a + 52)) FLAG_IF\<rparr>))"
proof -
  let ?c = "enter_gate lm g err (p, s)" and ?m = "ram (snd (enter_stack lm (p, s)))"
  obtain p4 where p4: "exec u cf (vector_pushes expected n) ?c
      = Inr (p4, s\<lparr>ram := push_words ws tp ?m, int_flag := False\<rparr>)"
      "p_reg p4 ESP = tp - 4 * word_of_nat (length ws)" "\<not> p_phys p4" "p_seg p4 CS = sel g"
      "p_seg p4 SS = p_seg (fst (enter_stack lm (p, s))) SS"
    using gate_words [OF assms(1), of u cf expected n lm g err s] unfolding ws_def tp_def by blast
  define j where "j = (if expected = None then k else Suc k)"
  have len: "22 + k = length (vector_pushes expected n) + Suc (18 + j)"
    by (simp add: vector_pushes_def j_def)
  have "run (22 + k) u cf (vector_pushes expected n @ [Jmp_stub b]) 0 ?c
      = rbind (exec u cf (vector_pushes expected n) ?c) (run (18 + j) u cf (stub_code b) 0)"
    unfolding len by (rule run_to_stub) simp
  moreover have "push_words (stub_pushes u p4) (p_reg p4 ESP) (push_words ws tp ?m) = push_words (ws @ stub_pushes u p4) tp ?m"
    by (simp add: push_words_append p4(2))
  ultimately show ?thesis
    using run_common_stub [OF p4(3), of j u cf b] p4
    by (intro exI [of _ "stub_pushes u p4"] exI [of _ ?m]) (simp add: a_def stub_pushes_def)
qed

lemma load_misfit:
  assumes "length ps = 10"
  shows "load_regs (push_words ([fl, cs, ip, v] @ ps) tp m) (tp - 52) = r
      \<Longrightarrow> r_int_no r = v \<and> r_err_code r = ip \<and> r_eip r = cs \<and> r_cs r = fl"
    and "load_regs (push_words ([fl, cs, ip, e, 0, v] @ ps) tp m) (tp - 60) = r
      \<Longrightarrow> r_int_no r = v \<and> r_err_code r = 0 \<and> r_eip r = e \<and> r_cs r = ip"
proof -
  obtain ax cx dx bx sp bp si di ds ret where ps: "ps = [ax, cx, dx, bx, sp, bp, si, di, ds, ret]"
    using assms by (auto simp: numeral_eq_Suc length_Suc_conv)
  obtain b where b: "tp = b + 60" by (metis diff_add_cancel)
  show "load_regs (push_words ([fl, cs, ip, v] @ ps) tp m) (tp - 52) = r
      \<Longrightarrow> r_int_no r = v \<and> r_err_code r = ip \<and> r_eip r = cs \<and> r_cs r = fl"
    unfolding b ps by (simp add: load_regs_def add.assoc) (auto simp: add.commute)
  show "load_regs (push_words ([fl, cs, ip, e, 0, v] @ ps) tp m) (tp - 60) = r
      \<Longrightarrow> r_int_no r = v \<and> r_err_code r = 0 \<and> r_eip r = e \<and> r_cs r = ip"
    unfolding b ps by (simp add: load_regs_def add.assoc) (auto simp: add.commute)
qed

section \<open>The vector table\<close>

text \<open>The linker gives the stubs different addresses.\<close>

definition stubs_distinct :: "link_map \<Rightarrow> bool" where
  "stubs_distinct lm \<longleftrightarrow> distinct (map fst (stub_table lm))"

text \<open>The vectors with a stub, and the dispatcher each goes to.\<close>

definition has_stub :: "nat \<Rightarrow> bool" where
  "has_stub n \<longleftrightarrow> n < 48 \<or> n = 128"

definition common_of :: "nat \<Rightarrow> common_stub" where
  "common_of n = (if 32 \<le> n \<and> n < 48 then Irq_common_stub else Isr_common_stub)"

text \<open>
  The stubs go by the vector alone. That is right for every exception of the first processors but
  17, and for an \<open>int\<close> instruction unless it names one of the vectors with an error code.
\<close>

definition vector_fits :: "bool \<Rightarrow> nat \<Rightarrow> bool" where
  "vector_fits soft n \<longleftrightarrow> has_stub n \<and> n \<notin> (if soft then {8, 10, 11, 12, 13, 14} else {17, 21, 29, 30})"

lemma stub_expects:
  assumes "raised soft n err" and "vector_fits soft n"
  shows "n \<in> set errcode_vectors \<longleftrightarrow> err \<noteq> None"
  using assms by (auto simp: raised_def pushes_error_code_def vector_fits_def errcode_vectors_def split: if_splits)

lemma vector_code:
  assumes "stubs_distinct lm" and "has_stub n" and "n \<in> set errcode_vectors \<longleftrightarrow> err \<noteq> None"
  shows "\<exists>ad. vector_stub lm n = Some ad
    \<and> map_of (stub_table lm) ad = Some (vector_pushes err n @ [Jmp_stub (common_of n)])"
proof -
  have d: "distinct (map fst (stub_table lm))" using assms(1) by (simp add: stubs_distinct_def)
  consider "n < 32 \<or> n = 128" | "32 \<le> n" "n < 48" using assms(2) by (force simp: has_stub_def)
  then show ?thesis
  proof cases
    case 1
    then have "(at_isr lm n, isr_stub n) \<in> set (stub_table lm)"
      unfolding stub_table_def by (auto simp del: upt_rec_numeral)
    moreover have "isr_stub n = vector_pushes err n @ [Jmp_stub (common_of n)]"
      using 1 assms(3) by (auto simp: isr_stub_def vector_pushes_def common_of_def
        isr_errcode_def isr_noerrcode_def)
    ultimately show ?thesis using map_of_is_SomeI [OF d] 1 by (auto simp: vector_stub_def)
  next
    case 2
    then have "(at_irq lm (n - 32), irq_stub (n - 32)) \<in> set (stub_table lm)"
      unfolding stub_table_def by (auto simp del: upt_rec_numeral)
    moreover have "irq_stub (n - 32) = vector_pushes err n @ [Jmp_stub (common_of n)]"
      using 2 assms(3) by (auto simp: irq_stub_def irq_code_def vector_pushes_def common_of_def errcode_vectors_def)
    ultimately show ?thesis using map_of_is_SomeI [OF d] 2 by (auto simp: vector_stub_def)
  qed
qed

text \<open>The dispatcher of a vector, as the C part of the model has it.\<close>

definition dispatch :: "'a handler_call \<Rightarrow> nat \<Rightarrow> registers_t \<Rightarrow> 'a kernel_scheme \<Rightarrow> (registers_t \<times> 'a kernel_scheme) result" where
  "dispatch call n = (case common_of n of Isr_common_stub \<Rightarrow> isr_handler call | Irq_common_stub \<Rightarrow> irq_handler call)"

lemma c_dispatch_common: "c_dispatch call (stub_fn (common_of n)) = on_frame (dispatch call n)"
  by (simp add: dispatch_def common_of_def)

lemma interrupt_runs:
  fixes s :: "'a tables_scheme" and lm :: link_map
  assumes "\<not> p_phys p" and "idt_entries s = idt_entries (init_idt lm t)" and "stubs_distinct lm"
    and "raised soft n err" and "vector_fits soft n"
  defines "a \<equiv> frame_top lm (p, s) - 56"
  shows "take_interrupt (22 + k) u lm call soft (word_of_nat n) err (p, s)
    = rbind (dispatch call n (frame_regs lm n err (p, s)) (frame_state u lm n err (p, s))) (\<lambda>(r, s2).
        Inr (resume r a 0x08 (p_seg (fst (enter_stack lm (p, s))) SS),
             s2\<lparr>ram := store_regs a r (ram s2), int_flag := bit (r_eflags r) FLAG_IF\<rparr>))"
proof -
  have hs: "has_stub n" using assms(5) by (simp add: vector_fits_def)
  obtain ad where ad: "vector_stub lm n = Some ad"
      "map_of (stub_table lm) ad = Some (vector_pushes err n @ [Jmp_stub (common_of n)])"
    using vector_code [OF assms(3) hs stub_expects [OF assms(4,5)]] by blast
  let ?g = "idt_entry_of ad 0x08 0x8E"
  have g: "idt_entries s (word_of_nat n) = ?g"
    using init_idt_entry [of n lm t] assms(2) hs ad(1) by (auto simp: has_stub_def)
  have nn: "unat (word_of_nat n :: u8) = n" using hs by (auto simp: has_stub_def unat_of_nat)
  have g_ok: "bit (gate_flags ?g) 7" "gate_dpl ?g = 3" "sel ?g = 8"
    by (simp_all add: idt_entry_of_def gate_dpl_def)
  have low: "\<not> (3 :: u16) < p_seg p CS AND 3"
    using word_and_le1 [of "p_seg p CS" 3] by (simp add: not_less)
  have "take_interrupt (22 + k) u lm call soft (word_of_nat n) err (p, s)
    = run (22 + k) u (c_dispatch call) (vector_pushes err n @ [Jmp_stub (common_of n)]) 0 (enter_gate lm ?g err (p, s))"
    using low assms(4) by (simp add: take_interrupt_def nn g g_ok ad(2))
  also have "\<dots> = rbind (on_frame (dispatch call n) a (frame_state u lm n err (p, s))) (\<lambda>s2.
        Inr (resume (load_regs (ram s2) a) a 0x08 (p_seg (fst (enter_stack lm (p, s))) SS),
             s2\<lparr>int_flag := bit (r_eflags (load_regs (ram s2) a)) FLAG_IF\<rparr>))"
    using run_from_gate [OF assms(1), of k u "c_dispatch call" err n "common_of n" lm ?g s]
    by (simp add: c_dispatch_common a_def g_ok) (simp add: load_regs_def)
  finally show ?thesis
    using load_frame [of u lm n err "(p, s)"]
    by (cases "dispatch call n (frame_regs lm n err (p, s)) (frame_state u lm n err (p, s))")
      (auto simp: on_frame_def frame_state_def a_def load_store_regs upd_ram_def)
qed

lemma vector_code_expected:
  assumes "stubs_distinct lm" and "has_stub n"
  shows "\<exists>ad expected. vector_stub lm n = Some ad \<and> (n \<in> set errcode_vectors \<longleftrightarrow> expected \<noteq> None)
    \<and> map_of (stub_table lm) ad = Some (vector_pushes expected n @ [Jmp_stub (common_of n)])"
proof -
  have e: "n \<in> set errcode_vectors \<longleftrightarrow> (if n \<in> set errcode_vectors then Some 0 else None) \<noteq> None" by simp
  from vector_code [OF assms e] e show ?thesis by blast
qed

text \<open>What the C code gets for a vector that does not fit, and where \<open>iret\<close> goes.\<close>

lemma interrupt_misfit:
  fixes s :: "'a tables_scheme" and lm :: link_map and n :: nat
  assumes "\<not> p_phys p" and "idt_entries s = idt_entries (init_idt lm t)" and "stubs_distinct lm"
    and "has_stub n" and "raised soft n err" and "\<not> vector_fits soft n"
  shows "\<exists>r st. r_int_no r = word_of_nat n \<and> r_err_code r = (if soft then p_eip p else 0)
    \<and> r_eip r = (if soft then ucast (p_seg p CS) else error_word err) \<and> r_cs r = (if soft then flags_word (p, s) else p_eip p)
    \<and> (case dispatch call n r st of
         Inl e \<Rightarrow> take_interrupt (22 + k) u lm call soft (word_of_nat n) err (p, s) = Inl e
       | Inr (r', s2) \<Rightarrow> \<exists>c. take_interrupt (22 + k) u lm call soft (word_of_nat n) err (p, s) = Inr c \<and> p_eip (fst c) = r_eip r')"
proof -
  obtain ad expected where ad: "vector_stub lm n = Some ad" "n \<in> set errcode_vectors \<longleftrightarrow> expected \<noteq> None"
      "map_of (stub_table lm) ad = Some (vector_pushes expected n @ [Jmp_stub (common_of n)])"
    using vector_code_expected [OF assms(3,4)] by blast
  let ?g = "idt_entry_of ad 0x08 0x8E" and ?ws = "pushed_words err expected n (p, s)" and ?tp = "frame_top lm (p, s)"
  define a where "a = ?tp - 4 * word_of_nat (length ?ws) - 36"
  have g: "idt_entries s (word_of_nat n) = ?g"
    using init_idt_entry [of n lm t] assms(2,4) ad(1) by (auto simp: has_stub_def)
  have nn: "unat (word_of_nat n :: u8) = n" using assms(4) by (auto simp: has_stub_def unat_of_nat)
  have g_ok: "bit (gate_flags ?g) 7" "gate_dpl ?g = 3" by (simp_all add: idt_entry_of_def gate_dpl_def)
  have low: "\<not> (3 :: u16) < p_seg p CS AND 3"
    using word_and_le1 [of "p_seg p CS" 3] by (simp add: not_less)
  obtain ps m where ps: "length ps = 10" "run (22 + k) u (c_dispatch call) (vector_pushes expected n @ [Jmp_stub (common_of n)]) 0
        (enter_gate lm ?g err (p, s))
      = rbind (on_frame (dispatch call n) a (s\<lparr>int_flag := False, ram := push_words (?ws @ ps) ?tp m\<rparr>)) (\<lambda>s2.
        Inr (resume (load_regs (ram s2) a) a (sel ?g) (p_seg (fst (enter_stack lm (p, s))) SS),
             s2\<lparr>int_flag := bit (read32 (ram s2) (a + 52)) FLAG_IF\<rparr>))"
    using run_misfit [OF assms(1), where cf = "c_dispatch call" and b = "common_of n" and s = s and n = n and err = err]
    unfolding a_def c_dispatch_common by blast
  let ?st = "s\<lparr>int_flag := False, ram := push_words (?ws @ ps) ?tp m\<rparr>"
  let ?r = "load_regs (ram ?st) a"
  have take: "take_interrupt (22 + k) u lm call soft (word_of_nat n) err (p, s)
      = run (22 + k) u (c_dispatch call) (vector_pushes expected n @ [Jmp_stub (common_of n)]) 0 (enter_gate lm ?g err (p, s))"
    using low assms(5) by (simp add: take_interrupt_def nn g g_ok ad(3))
  have fields: "r_int_no ?r = word_of_nat n \<and> r_err_code ?r = (if soft then p_eip p else 0)
    \<and> r_eip ?r = (if soft then ucast (p_seg p CS) else error_word err) \<and> r_cs ?r = (if soft then flags_word (p, s) else p_eip p)"
  proof (cases soft)
    case True
    then have "err = None" "expected \<noteq> None"
      using assms(4-6) ad(2) by (auto simp: raised_def pushes_error_code_def vector_fits_def errcode_vectors_def)
    then have "?ws = [flags_word (p, s), ucast (p_seg p CS), p_eip p, word_of_nat n]" "a = ?tp - 52"
      by (simp_all add: pushed_words_def a_def)
    then show ?thesis using load_misfit(1) [OF ps(1) refl, of "flags_word (p, s)"] True by simp
  next
    case False
    then have "err \<noteq> None" "expected = None"
      using assms(4-6) ad(2) by (auto simp: raised_def pushes_error_code_def vector_fits_def errcode_vectors_def)
    then obtain e where "err = Some e" "?ws = [flags_word (p, s), ucast (p_seg p CS), p_eip p, e, 0, word_of_nat n]" "a = ?tp - 60"
      by (auto simp: pushed_words_def a_def)
    then show ?thesis using load_misfit(2) [OF ps(1) refl, of "flags_word (p, s)"] False by (simp add: error_word_def)
  qed
  have "case dispatch call n ?r ?st of
         Inl e \<Rightarrow> take_interrupt (22 + k) u lm call soft (word_of_nat n) err (p, s) = Inl e
       | Inr (r', s2) \<Rightarrow> \<exists>c. take_interrupt (22 + k) u lm call soft (word_of_nat n) err (p, s) = Inr c \<and> p_eip (fst c) = r_eip r'"
    unfolding take ps(2)
    by (cases "dispatch call n ?r ?st") (auto simp: on_frame_def upd_ram_def load_store_regs resume_def Let_def)
  then show ?thesis using fields by blast
qed

section \<open>The way back\<close>

lemma same_ring_kernel: "same_ring (ucast cs) 8 \<longleftrightarrow> cs AND 3 = 0" for cs :: u16
proof -
  have "(ucast (ucast cs :: u32) :: u16) = cs" by (rule bit_word_eqI) (simp add: bit_simps)
  then show ?thesis by (simp add: same_ring_def not_less)
qed

text \<open>
  If the C code leaves the saved registers as they are, but for EAX, the interrupted code goes on
  with its registers; ES, FS and GS are those of DS, since the stub saves only DS.
\<close>

definition back_to :: "u32 \<Rightarrow> processor \<Rightarrow> processor" where
  "back_to v p = p\<lparr>p_reg := (p_reg p)(EAX := v),
     p_seg := (p_seg p)(ES := p_seg p DS, FS := p_seg p DS, GS := p_seg p DS),
     p_eflags := unset_bit FLAG_IF (p_eflags p)\<rparr>"

lemma resume_frame:
  assumes "\<not> p_phys p"
  shows "resume ((frame_regs lm n err (p, s))\<lparr>r_eax := v\<rparr>) (frame_top lm (p, s) - 56) 8
      (p_seg (fst (enter_stack lm (p, s))) SS) = back_to v p"
  using assms
  by (cases p) (auto simp: resume_def frame_regs_def back_to_def same_ring_kernel frame_top_def enter_stack_def
      in_kernel_def cpu_defs split: prod.splits intro!: reg32_fun_eqI segreg_fun_eqI)

lemma push_words_frame:
  assumes "4 * length ws \<le> unat a"
  shows "same_outside (a - word_of_nat (4 * length ws)) (4 * length ws) m (push_words ws a m)"
  using assms
proof (induction ws arbitrary: a m)
  case (Cons w ws)
  let ?n = "4 * length ws"
  have lim: "unat a < 2 ^ 32" using unat_u32_less [of a] by simp
  have u: "unat (a - 4) = unat a - 4" using Cons.prems by (subst unat_sub) (simp_all add: word_le_nat_alt)
  have n: "?n + 4 < 2 ^ 32" using Cons.prems lim by simp
  have v: "unat (a - word_of_nat (?n + 4)) = unat a - (?n + 4)"
    using Cons.prems n by (subst unat_sub) (simp_all add: word_le_nat_alt unat_of_nat del: of_nat_add)
  have v': "unat (a - 4 - word_of_nat ?n) = unat a - (?n + 4)"
    using v by (simp add: algebra_simps)
  have "same_outside (a - 4) 4 m (write32 m (a - 4) w)"
    by (rule same_outside_write32) (use u lim Cons.prems in simp)
  then have 1: "same_outside (a - word_of_nat (?n + 4)) (?n + 4) m (write32 m (a - 4) w)"
    by (rule same_outside_mono) (use u v Cons.prems in simp_all)
  have "same_outside (a - 4 - word_of_nat ?n) ?n (write32 m (a - 4) w) (push_words (w # ws) a m)"
    using Cons.IH [of "a - 4" "write32 m (a - 4) w"] Cons.prems u by simp
  then have 2: "same_outside (a - word_of_nat (?n + 4)) (?n + 4) (write32 m (a - 4) w) (push_words (w # ws) a m)"
    by (rule same_outside_mono) (use v v' in simp_all)
  show ?case using same_outside_trans [OF 1 2] by (simp add: add.commute)
qed simp

lemma store_words_frame:
  assumes "unat a + 4 * length ws \<le> 2 ^ 32"
  shows "same_outside a (4 * length ws) m (store_words a ws m)"
  using assms
proof (induction ws arbitrary: a m)
  case (Cons w ws)
  have 1: "same_outside a (4 * length (w # ws)) m (write32 m a w)"
    by (rule same_outside_mono [OF same_outside_write32]) (use Cons.prems in simp_all)
  show ?case
  proof (cases ws)
    case Nil
    then show ?thesis using 1 by simp
  next
    case (Cons v vs)
    then have u: "unat (a + 4) = unat a + 4" using Cons.prems by (simp add: unat_add_numeral)
    have "same_outside (a + 4) (4 * length ws) (write32 m a w) (store_words a (w # ws) m)"
      using Cons.IH [of "a + 4" "write32 m a w"] Cons.prems u by simp
    then have "same_outside a (4 * length (w # ws)) (write32 m a w) (store_words a (w # ws) m)"
      by (rule same_outside_mono) (use u in simp_all)
    then show ?thesis by (rule same_outside_trans [OF 1])
  qed
qed simp

text \<open>The stack below \<open>frame_top\<close> has room for the frame, and the words above it exist.\<close>

definition stack_room :: "u32 \<Rightarrow> bool" where
  "stack_room tp \<longleftrightarrow> 60 \<le> unat tp \<and> unat tp + 8 \<le> 2 ^ 32"

lemma frame_addresses:
  assumes "stack_room tp"
  shows "unat (tp - 60) = unat tp - 60" and "unat (tp - 56) = unat tp - 56"
  using assms by (auto simp: stack_room_def unat_sub word_le_nat_alt)

lemma frame_ram_outside:
  assumes "\<not> p_phys p" and room: "stack_room (frame_top lm (p, s))"
  shows "same_outside (frame_top lm (p, s) - 60) 68 (ram s) (frame_ram u lm n err (p, s))"
proof -
  let ?tp = "frame_top lm (p, s)" and ?m1 = "ram (snd (enter_stack lm (p, s)))"
  note fa = frame_addresses [OF room]
  have 1: "same_outside (?tp - 60) 68 (ram s) ?m1"
  proof (cases "in_kernel p")
    case False
    have e: "?m1 = write32 (write32 (ram s) (?tp + 4) (ucast (p_seg p SS))) ?tp (p_reg p ESP)"
      using False assms(1) by (auto simp: enter_stack_def frame_top_def cpu_defs split: prod.splits)
    have u: "unat (?tp + 4) = unat ?tp + 4" using room by (simp add: stack_room_def unat_add_numeral)
    have "same_outside (?tp - 60) 68 (ram s) (write32 (ram s) (?tp + 4) (ucast (p_seg p SS)))"
      by (rule same_outside_mono [OF same_outside_write32]) (use room u fa in \<open>simp_all add: stack_room_def\<close>)
    moreover have "same_outside (?tp - 60) 68 (write32 (ram s) (?tp + 4) (ucast (p_seg p SS))) ?m1"
      unfolding e
      by (rule same_outside_mono [OF same_outside_write32]) (use room fa in \<open>simp_all add: stack_room_def\<close>)
    ultimately show ?thesis by (rule same_outside_trans)
  qed (simp add: enter_stack_def)
  have "length (frame_words u lm n err (p, s)) = 15"
    by (simp add: frame_words_def stub_pushes_def)
  then have "same_outside (?tp - 60) 60 ?m1 (frame_ram u lm n err (p, s))"
    using push_words_frame [of "frame_words u lm n err (p, s)" ?tp ?m1] room
    by (simp add: frame_ram_def stack_room_def)
  then have "same_outside (?tp - 60) 68 ?m1 (frame_ram u lm n err (p, s))"
    by (rule same_outside_mono) simp_all
  then show ?thesis by (rule same_outside_trans [OF 1])
qed

lemma store_regs_outside:
  assumes "stack_room tp"
  shows "same_outside (tp - 60) 68 m (store_regs (tp - 56) r m)"
proof -
  note fa = frame_addresses [OF assms]
  have "length (reg_words r) = 16" by (simp add: reg_words_def)
  then have "same_outside (tp - 56) 64 m (store_regs (tp - 56) r m)"
    using store_words_frame [of "tp - 56" "reg_words r" m] assms fa
    unfolding store_regs_def stack_room_def by simp
  then show ?thesis by (rule same_outside_mono) (use fa assms in \<open>simp_all add: stack_room_def\<close>)
qed

text \<open>An interrupt whose handler changes no saved register but EAX, as a whole.\<close>

lemma interrupt_back:
  fixes s :: "'a tables_scheme" and lm :: link_map
  assumes "\<not> p_phys p" and "idt_entries s = idt_entries (init_idt lm t)" and "stubs_distinct lm"
    and "raised soft n err" and "vector_fits soft n"
    and "dispatch call n (frame_regs lm n err (p, s)) (frame_state u lm n err (p, s))
      = Inr ((frame_regs lm n err (p, s))\<lparr>r_eax := v\<rparr>, s2)"
  shows "take_interrupt (22 + k) u lm call soft (word_of_nat n) err (p, s)
    = Inr (back_to v p, s2\<lparr>ram := store_regs (frame_top lm (p, s) - 56) ((frame_regs lm n err (p, s))\<lparr>r_eax := v\<rparr>) (ram s2),
        int_flag := int_flag s\<rparr>)"
proof -
  have "bit (r_eflags ((frame_regs lm n err (p, s))\<lparr>r_eax := v\<rparr>)) FLAG_IF = int_flag s"
    by (simp add: frame_regs_def Let_def)
  then show ?thesis
    using interrupt_runs [OF assms(1-5), of k u call] resume_frame [OF assms(1), where lm = lm and n = n and err = err and s = s and v = v]
    by (simp only: assms(6) rbind.simps case_prod_conv)
qed

end
