(* ===== verification/Allocation_Frame.thy ===== *)
theory Allocation_Frame
  imports Kheap
begin

text \<open>
  What allocating memory and cloning an address space leave alone, whatever the heap looks like:
  every component of the state but memory, the physical memory, the heap's own record and the
  placement address. The operations that allocate before they do their work (the PCI scan, \<open>fork\<close>)
  rely on it.
\<close>

definition memory_only :: "'a kernel_scheme \<Rightarrow> 'a kernel_scheme \<Rightarrow> bool" where
  "memory_only s t \<longleftrightarrow>
     (\<exists>m p h fm. t = s\<lparr>ram := m, placement_address := p, kheap := h, frame_mem := fm\<rparr>)"

named_theorems memory_only_intros \<open>operations that change memory only\<close>

lemma memory_only_refl [simp, intro]: "memory_only s s"
  unfolding memory_only_def
  by (intro exI [of _ "ram s"] exI [of _ "placement_address s"] exI [of _ "kheap s"] exI [of _ "frame_mem s"]) simp

lemma memory_only_trans [trans]: "memory_only s t \<Longrightarrow> memory_only t u \<Longrightarrow> memory_only s u"
  unfolding memory_only_def by (elim exE) (simp, blast)

lemma memory_only_fields:
  assumes "memory_only s t"
  shows "port_log t = port_log s" and "int_flag t = int_flag s" and "current_directory t = current_directory s"
    and "kernel_directory t = kernel_directory s" and "kernel.more t = kernel.more s"
    and "cr0 t = cr0 s" and "cr3 t = cr3 s" and "frames t = frames s" and "nframes t = nframes s"
    and "interrupt_handlers t = interrupt_handlers s"
  using assms by (auto simp: memory_only_def)

lemma memory_only_updates:
  "memory_only s (s\<lparr>ram := m\<rparr>)" "memory_only s (s\<lparr>placement_address := p\<rparr>)" "memory_only s (s\<lparr>frame_mem := fm\<rparr>)"
  "memory_only s (upd_ram f s)" "memory_only s (upd_heap g s)" "memory_only s (set_page q h s)"
  "memory_only s (set_index oa m s)"
  unfolding memory_only_def upd_ram_def upd_heap_def set_page_def set_index_def
  by (rule exI, rule exI, rule exI, rule exI [of _ "frame_mem s"], simp; fail | (cases s; simp))+

lemmas memory_only_steps [memory_only_intros] = memory_only_updates [THEN memory_only_trans [rotated]]

section \<open>The pages\<close>

lemma alloc_frame_memory [memory_only_intros]: "memory_only s t \<Longrightarrow> memory_only s (alloc_frame p k w t)"
  by (simp add: alloc_frame_def set_frame_def set_frame_word_def Let_def memory_only_intros)

lemma copy_flag_memory [memory_only_intros]: "memory_only s t \<Longrightarrow> memory_only s (copy_flag k p q t)"
  by (simp add: copy_flag_def memory_only_intros)

lemma copy_page_memory [memory_only_intros]: "memory_only s t \<Longrightarrow> memory_only s (copy_page_physical p q t)"
  by (simp add: copy_page_physical_def memory_only_intros)

lemma clone_entry_memory [memory_only_intros]: "memory_only s t \<Longrightarrow> memory_only s (clone_entry src tbl i t)"
  by (simp add: clone_entry_def Let_def memory_only_intros)

lemma fold_memory: "(\<And>x t. memory_only t (f x t)) \<Longrightarrow> memory_only s (fold f xs s)"
  by (induction xs arbitrary: s) (auto intro: memory_only_trans)

lemma rfold_memory:
  assumes "\<And>x t u. f x t = Inr u \<Longrightarrow> memory_only t u" and "rfold f xs s = Inr s'"
  shows "memory_only s s'"
  by (rule rfold_invariant [of xs "memory_only s" f, OF _ memory_only_refl assms(2)])
    (blast intro: assms(1) memory_only_trans)

text \<open>The allocator that the page functions call.\<close>

definition tame :: "'a page_alloc \<Rightarrow> bool" where
  "tame al \<longleftrightarrow> (\<forall>sz s a ph s'. al sz s = Inr (a, ph, s') \<longrightarrow> memory_only s s')"

lemma get_page_memory:
  assumes "tame al" and "get_page al a mk dir s = Inr (pg, s')"
  shows "memory_only s s'"
proof (cases "\<exists>tbl tmp s1. al sizeof_page_table s = Inr (tbl, tmp, s1)")
  case True
  then obtain tbl tmp s1 where al: "al sizeof_page_table s = Inr (tbl, tmp, s1)" by blast
  then have "memory_only s s1" using assms(1) by (auto simp: tame_def)
  then show ?thesis
    using assms(2) al
    by (auto simp: get_page_def Let_def split: if_splits intro!: memory_only_intros)
next
  case False
  then show ?thesis using assms(2) by (auto simp: get_page_def Let_def rbind_Inr_iff split: if_splits)
qed

lemma clone_table_memory:
  assumes "tame al" and "clone_table al src s = Inr (tbl, ph, s')"
  shows "memory_only s s'"
proof -
  obtain s1 where s1: "al sizeof_page_table s = Inr (tbl, ph, s1)"
      "s' = fold (\<lambda>i. clone_entry src tbl (word_of_nat i)) [0..<1024] (upd_ram (\<lambda>m. memset m tbl 0 sizeof_page_directory) s1)"
    using assms(2) by (auto simp: clone_table_def rbind_Inr_iff Let_def)
  have "memory_only s s1" using assms(1) s1(1) by (auto simp: tame_def)
  also have "memory_only s1 (upd_ram (\<lambda>m. memset m tbl 0 sizeof_page_directory) s1)" by (rule memory_only_updates)
  also have "memory_only \<dots> s'" unfolding s1(2) by (rule fold_memory) (rule clone_entry_memory [OF memory_only_refl])
  finally show ?thesis .
qed

lemma clone_slot_memory:
  assumes "tame al" and "clone_slot al src dir n s = Inr s'"
  shows "memory_only s s'"
  using assms(2) clone_table_memory [OF assms(1)]
  by (auto simp: clone_slot_def Let_def rbind_Inr_iff split: if_splits intro!: memory_only_intros)

lemma clone_directory_memory:
  assumes "tame al" and "clone_directory al src s = Inr (dir, s')"
  shows "memory_only s s'"
proof -
  obtain ph s1 f where s: "al sizeof_page_directory s = Inr (dir, ph, s1)"
      "rfold (clone_slot al src dir) [0..<1024] (upd_ram f (upd_ram (\<lambda>m. memset m dir 0 sizeof_page_directory) s1)) = Inr s'"
    using assms(2) by (auto simp: clone_directory_def rbind_Inr_iff Let_def)
  have "memory_only s s1" using assms(1) s(1) by (auto simp: tame_def)
  then have "memory_only s (upd_ram f (upd_ram (\<lambda>m. memset m dir 0 sizeof_page_directory) s1))"
    by (intro memory_only_intros)
  also have "memory_only \<dots> s'" by (rule rfold_memory [OF _ s(2)]) (rule clone_slot_memory [OF assms(1)])
  finally show ?thesis .
qed

section \<open>The heap\<close>

definition tame_alloc :: "'a alloc_fn \<Rightarrow> bool" where
  "tame_alloc al \<longleftrightarrow> (\<forall>sz pa s a s'. al sz pa s = Inr (a, s') \<longrightarrow> memory_only s s')"

lemma kmalloc_int_memory:
  assumes "tame_alloc al" and "kmalloc_int al sz align ph s = Inr (a, b, s')"
  shows "memory_only s s'"
proof (cases "kheap s")
  case None
  then show ?thesis using assms(2) by (auto simp: kmalloc_int_def kmalloc_placement_def Let_def memory_only_intros)
next
  case (Some heap)
  then obtain addr s1 where al: "al sz (ucast align) s = Inr (addr, s1)"
    using assms(2) by (auto simp: kmalloc_int_def rbind_Inr_iff)
  then have "memory_only s s1" using assms(1) by (auto simp: tame_alloc_def)
  moreover have "memory_only s1 t" if "get_page (\<lambda>_ _. Inl No_return) addr False d s1 = Inr (pg, t)" for d pg t
    by (rule get_page_memory [OF _ that]) (simp add: tame_def)
  ultimately show ?thesis
    using assms(2) Some al by (auto simp: kmalloc_int_def rbind_Inr_iff split: if_splits intro: memory_only_trans)
qed

lemma tame_kmalloc: "tame_alloc al \<Longrightarrow> tame (kmalloc_ap_with al)"
  unfolding tame_def kmalloc_ap_with_def by (blast intro: kmalloc_int_memory)

lemma expand_memory:
  assumes "tame_alloc al" and "expand al n s = Inr s'"
  shows "memory_only s s'"
proof -
  have page: "memory_only t u" if "expand_page al i t = Inr u" for i t u
    using that get_page_memory [OF tame_kmalloc [OF assms(1)]]
    by (auto simp: expand_page_def with_heap_def rbind_Inr_iff split: option.splits
        intro!: memory_only_intros)
  obtain xs s1 g where s1: "rfold (expand_page al) xs s = Inr s1" "s' = upd_heap g s1"
    using assms(2) by (auto simp: expand_def with_heap_def rbind_Inr_iff Let_def split: option.splits)
  have "memory_only s s1" by (rule rfold_memory [OF page s1(1)])
  then show ?thesis unfolding s1(2) by (rule memory_only_trans) (rule memory_only_updates)
qed

lemma grow_heap_memory:
  assumes "tame_alloc al" and "grow_heap al n s = Inr s'"
  shows "memory_only s s'"
proof -
  obtain n' s1 where s1: "expand al n' s = Inr s1" "memory_only s1 s'"
    using assms(2) by (auto simp: grow_heap_def with_heap_def rbind_Inr_iff Let_def split: option.splits if_splits
        prod.splits intro: memory_only_intros memory_only_refl)
  show ?thesis using expand_memory [OF assms(1) s1(1)] s1(2) by (rule memory_only_trans)
qed

lemma take_hole_memory: "take_hole sz n pa s = Inr (a, s') \<Longrightarrow> memory_only s s'"
  by (auto simp: take_hole_def with_heap_def rbind_Inr_iff Let_def split: option.splits if_splits prod.splits
      intro: memory_only_intros memory_only_refl)

lemma alloc_body_memory:
  assumes "tame_alloc al"
  shows "tame_alloc (alloc_body al)"
  unfolding tame_alloc_def
proof (intro allI impI)
  fix sz pa and s :: "'a kernel_scheme" and a s'
  assume "alloc_body al sz pa s = Inr (a, s')"
  then consider (take) "take_hole sz (sz + 12 + 8) pa s = Inr (a, s')"
    | (grow) s1 where "grow_heap al (sz + 12 + 8) s = Inr s1" "al sz pa s1 = Inr (a, s')"
    by (auto simp: alloc_body_def with_heap_def rbind_Inr_iff Let_def split: option.splits if_splits)
  then show "memory_only s s'"
  proof cases
    case take
    then show ?thesis by (rule take_hole_memory)
  next
    case grow
    then show ?thesis
      using grow_heap_memory [OF assms grow(1)] assms memory_only_trans unfolding tame_alloc_def by blast
  qed
qed

lemma alloc_memory: "tame_alloc (alloc k)"
  by (induction k) (simp_all add: alloc_body_memory, simp add: tame_alloc_def)

lemma kmalloc_memory: "kmalloc k sz s = Inr (a, s') \<Longrightarrow> memory_only s s'"
  and kmalloc_a_memory: "kmalloc_a k sz s = Inr (a, s') \<Longrightarrow> memory_only s s'"
  by (auto simp: kmalloc_def kmalloc_a_def rbind_Inr_iff dest: kmalloc_int_memory [OF alloc_memory])

lemma tame_kmalloc_ap: "tame (kmalloc_ap k)"
  unfolding tame_def kmalloc_ap_def by (blast intro: kmalloc_int_memory [OF alloc_memory])

end
