(* ===== verification/Task_Properties.thy ===== *)
theory Task_Properties
  imports Timer Allocation_Frame
begin

text \<open>
  The ready queue as a list of tasks, and what counting, switching, forking and exiting do to
  it. The list of tasks is reached from the head of the queue along the \<open>next\<close> pointers, and
  the task structures lie apart from each other in memory.
\<close>

section \<open>The queue as a list\<close>

fun chain :: "mem \<Rightarrow> u32 list \<Rightarrow> bool" where
  "chain m [] \<longleftrightarrow> False"
| "chain m [t] \<longleftrightarrow> task_next m t = 0"
| "chain m (t # u # ts) \<longleftrightarrow> task_next m t = u \<and> u \<noteq> 0 \<and> chain m (u # ts)"

definition task_room :: "u32 \<Rightarrow> bool" where
  "task_room t \<longleftrightarrow> t \<noteq> 0 \<and> unat t + 28 \<le> 2 ^ 32"

definition tasks_apart :: "u32 list \<Rightarrow> bool" where
  "tasks_apart ts \<longleftrightarrow> (\<forall>t \<in> set ts. task_room t)
     \<and> sorted_wrt (\<lambda>t u. unat t + 28 \<le> unat u \<or> unat u + 28 \<le> unat t) ts"

definition queue_ok :: "'a tasking_scheme \<Rightarrow> u32 list \<Rightarrow> bool" where
  "queue_ok s ts \<longleftrightarrow> chain (ram s) ts \<and> tasks_apart ts \<and> ready_queue s = hd ts \<and> current_task s \<in> set ts"

lemma tasks_apart_nth:
  assumes "tasks_apart ts" and "i < length ts" and "j < length ts" and "i \<noteq> j"
  shows "unat (ts ! i) + 28 \<le> unat (ts ! j) \<or> unat (ts ! j) + 28 \<le> unat (ts ! i)"
  using assms unfolding tasks_apart_def sorted_wrt_iff_nth_less by (metis linorder_neqE_nat)

lemma tasks_apart_distinct: "tasks_apart ts \<Longrightarrow> distinct ts"
  unfolding distinct_conv_nth by (metis add_le_same_cancel1 not_numeral_le_zero tasks_apart_nth)

lemma tasks_apart_room: "tasks_apart ts \<Longrightarrow> t \<in> set ts \<Longrightarrow> t \<noteq> 0 \<and> unat t + 28 \<le> 2 ^ 32"
  by (simp add: tasks_apart_def task_room_def)

lemma tasks_apart_snoc:
  "tasks_apart (ts @ [t]) \<longleftrightarrow> tasks_apart ts \<and> task_room t
     \<and> (\<forall>u \<in> set ts. unat t + 28 \<le> unat u \<or> unat u + 28 \<le> unat t)"
  by (auto simp: tasks_apart_def sorted_wrt_append)

lemma chain_next:
  assumes "chain m ts" and "i < length ts"
  shows "task_next m (ts ! i) = (if Suc i < length ts then ts ! Suc i else 0)"
  using assms
proof (induction m ts arbitrary: i rule: chain.induct)
  case (3 m t u ts)
  then show ?case by (cases i) auto
qed auto

lemma chainI:
  assumes "ts \<noteq> []" and "\<forall>t \<in> set ts. t \<noteq> 0"
    and "\<And>i. i < length ts \<Longrightarrow> task_next m (ts ! i) = (if Suc i < length ts then ts ! Suc i else 0)"
  shows "chain m ts"
  using assms
proof (induction m ts rule: chain.induct)
  case (3 m t u ts)
  from 3(4) [of 0] have "task_next m t = u" by simp
  moreover have "chain m (u # ts)"
  proof (rule "3.IH")
    fix i assume "i < length (u # ts)"
    then show "task_next m ((u # ts) ! i) = (if Suc i < length (u # ts) then (u # ts) ! Suc i else 0)"
      using 3(4) [of "Suc i"] by simp
  qed (use 3(3) in auto)
  ultimately show ?case using 3(3) by simp
qed auto

lemma chain_same_next:
  assumes "chain m ts" and "\<And>t. t \<in> set ts \<Longrightarrow> task_next m' t = task_next m t"
  shows "chain m' ts"
  using assms by (induction m ts rule: chain.induct) auto

section \<open>Fields of separate tasks\<close>

lemma task_addr:
  fixes t :: u32
  assumes "unat t + 28 \<le> 2 ^ 32"
  shows "unat (t + 4) = unat t + 4" and "unat (t + 8) = unat t + 8" and "unat (t + 12) = unat t + 12"
    and "unat (t + 16) = unat t + 16" and "unat (t + 20) = unat t + 20" and "unat (t + 24) = unat t + 24"
  using assms by (simp_all add: unat_add_numeral)

lemma save_task_frame:
  assumes "unat t + 28 \<le> 2 ^ 32"
  shows "same_outside (t + 4) 12 m (save_task t eip esp ebp m)"
proof -
  note a = task_addr [OF assms]
  have 1: "same_outside (t + 4) 12 m (set_task_eip t eip m)" for m
    unfolding set_task_fields by (rule same_outside_mono [OF same_outside_write32]) (use a assms in auto)
  have 2: "same_outside (t + 4) 12 m (set_task_esp t esp m)" for m
    unfolding set_task_fields by (rule same_outside_mono [OF same_outside_write32]) (use a assms in auto)
  have 3: "same_outside (t + 4) 12 m (set_task_ebp t ebp m)" for m
    unfolding set_task_fields by (rule same_outside_mono [OF same_outside_write32]) (use a assms in auto)
  show ?thesis
    unfolding save_task_def by (rule same_outside_trans [OF same_outside_trans [OF 1 2] 3])
qed

lemma save_task_fields:
  assumes "unat t + 28 \<le> 2 ^ 32"
  shows "task_eip (save_task t eip esp ebp m) t = eip" and "task_esp (save_task t eip esp ebp m) t = esp"
    and "task_ebp (save_task t eip esp ebp m) t = ebp"
  using task_addr [OF assms] assms
  by (simp_all add: save_task_def set_task_fields task_fields read32_write32_nat)

lemma save_task_next:
  assumes "unat t + 28 \<le> 2 ^ 32" and "u = t \<or> unat t + 28 \<le> unat u \<or> unat u + 28 \<le> unat t"
    and "unat u + 28 \<le> 2 ^ 32"
  shows "task_next (save_task t eip esp ebp m) u = task_next m u"
    and "task_page_directory (save_task t eip esp ebp m) u = task_page_directory m u"
proof -
  note a = task_addr [OF assms(1)] task_addr [OF assms(3)]
  have "unat (u + 24) + 4 \<le> unat (t + 4) \<or> unat (t + 4) + 12 \<le> unat (u + 24)"
    "unat (u + 16) + 4 \<le> unat (t + 4) \<or> unat (t + 4) + 12 \<le> unat (u + 16)"
    "unat (u + 24) + 4 \<le> 2 ^ 32" "unat (u + 16) + 4 \<le> 2 ^ 32"
    unfolding a using assms(2,3) by auto
  then show "task_next (save_task t eip esp ebp m) u = task_next m u"
    "task_page_directory (save_task t eip esp ebp m) u = task_page_directory m u"
    unfolding task_fields by (blast intro: read32_same_outside [OF save_task_frame [OF assms(1)]])+
qed

lemma save_task_other:
  assumes "unat t + 28 \<le> 2 ^ 32" and "unat t + 28 \<le> unat u \<or> unat u + 28 \<le> unat t"
    and "unat u + 28 \<le> 2 ^ 32"
  shows "task_eip (save_task t eip esp ebp m) u = task_eip m u"
    and "task_esp (save_task t eip esp ebp m) u = task_esp m u"
    and "task_ebp (save_task t eip esp ebp m) u = task_ebp m u"
proof -
  note a = task_addr [OF assms(1)] task_addr [OF assms(3)]
  have "unat (u + 12) + 4 \<le> unat (t + 4) \<or> unat (t + 4) + 12 \<le> unat (u + 12)"
    "unat (u + 4) + 4 \<le> unat (t + 4) \<or> unat (t + 4) + 12 \<le> unat (u + 4)"
    "unat (u + 8) + 4 \<le> unat (t + 4) \<or> unat (t + 4) + 12 \<le> unat (u + 8)"
    "unat (u + 12) + 4 \<le> 2 ^ 32" "unat (u + 4) + 4 \<le> 2 ^ 32" "unat (u + 8) + 4 \<le> 2 ^ 32"
    unfolding a using assms(2,3) by auto
  then show "task_eip (save_task t eip esp ebp m) u = task_eip m u"
    "task_esp (save_task t eip esp ebp m) u = task_esp m u"
    "task_ebp (save_task t eip esp ebp m) u = task_ebp m u"
    unfolding task_fields by (blast intro: read32_same_outside [OF save_task_frame [OF assms(1)]])+
qed

section \<open>Walking the queue\<close>

lemma queue_count_loop_chain:
  "chain m ts \<Longrightarrow> queue_count_loop m (hd ts) n = Some (n + word_of_nat (length ts - 1))"
proof (induction m ts arbitrary: n rule: chain.induct)
  case (2 m t)
  then show ?case by (simp add: queue_count_loop.simps)
next
  case (3 m t u ts)
  have "queue_count_loop m t n = queue_count_loop m u (n + 1)"
    using "3.prems" by (subst queue_count_loop.simps) simp
  with 3 show ?case by (simp add: add_ac)
qed simp

lemma last_task_chain: "chain m ts \<Longrightarrow> last_task m (hd ts) = Some (last ts)"
proof (induction m ts rule: chain.induct)
  case (2 m t)
  then show ?case by (simp add: last_task.simps)
next
  case (3 m t u ts)
  have "last_task m t = last_task m u"
    using "3.prems" by (subst last_task.simps) simp
  with 3 show ?case by simp
qed simp

text \<open>\<open>queue_count\<close> ends and counts. From the head of a queue that is the list \<open>ts\<close> along the
  \<open>next\<close> pointers it returns the number of tasks (as a 32-bit number).\<close>
theorem queue_count_length:
  assumes "chain m ts"
  shows "queue_count m (hd ts) = Some (word_of_nat (length ts))"
proof -
  have "ts \<noteq> []" using assms by auto
  then have "(1 :: u32) + word_of_nat (length ts - 1) = word_of_nat (length ts)"
    by (cases ts) simp_all
  then show ?thesis using queue_count_loop_chain [OF assms, of 1] by (simp add: queue_count_def)
qed

text \<open>A queue of three tasks in an otherwise empty memory.\<close>

definition three_tasks :: mem where
  "three_tasks = set_task_next 0x2000 0x3000 (set_task_next 0x1000 0x2000 (\<lambda>_. 0))"

lemma three_tasks_chain: "chain three_tasks [0x1000, 0x2000, 0x3000]"
proof -
  have "read32 (\<lambda>_. 0) a = 0" for a by (simp add: read32_def)
  then show ?thesis by (simp add: three_tasks_def set_task_next_def task_next_def read32_write32_nat)
qed

theorem queue_count_length_witness: "queue_count three_tasks 0x1000 = Some 3"
  using queue_count_length [OF three_tasks_chain] by simp

section \<open>Switching\<close>

text \<open>
  A time slice: the task that runs leaves its stack registers as they are when the timer
  interrupts it, and is switched away from with the address to come back to.
\<close>

definition time_slice :: "u32 \<times> u32 \<times> u32 \<Rightarrow> 'a tasking_scheme \<Rightarrow> 'a tasking_scheme" where
  "time_slice x s = (case x of (eip, esp, ebp) \<Rightarrow> switch_task eip (s\<lparr>cpu_esp := esp, cpu_ebp := ebp\<rparr>))"

definition saved :: "mem \<Rightarrow> u32 \<Rightarrow> u32 \<times> u32 \<times> u32" where
  "saved m t = (task_eip m t, task_esp m t, task_ebp m t)"

lemma next_task_chain:
  assumes "chain m ts" and "tasks_apart ts" and "i < length ts"
  shows "next_task m (hd ts) (ts ! i) = ts ! (Suc i mod length ts)"
proof (cases "Suc i < length ts")
  case True
  then have "ts ! Suc i \<noteq> 0" using assms(2) by (simp add: tasks_apart_room)
  then show ?thesis using chain_next [OF assms(1,3)] True by (simp add: next_task_def)
next
  case False
  then have "Suc i = length ts" using assms(3) by simp
  then show ?thesis using chain_next [OF assms(1,3)] assms(3) by (cases ts) (auto simp: next_task_def)
qed

lemma time_slice_step:
  assumes ok: "queue_ok s ts" and cur: "current_task s = ts ! i" "i < length ts" and eip: "fst x \<noteq> 0x12345"
  shows "queue_ok (time_slice x s) ts" and "current_task (time_slice x s) = ts ! (Suc i mod length ts)"
    and "saved (ram (time_slice x s)) (ts ! i) = x"
    and "\<And>j. j < length ts \<Longrightarrow> j \<noteq> i \<Longrightarrow> saved (ram (time_slice x s)) (ts ! j) = saved (ram s) (ts ! j)"
    and "(cpu_eip (time_slice x s), cpu_esp (time_slice x s), cpu_ebp (time_slice x s))
       = saved (ram (time_slice x s)) (ts ! (Suc i mod length ts))"
proof -
  obtain eip esp ebp where x: "x = (eip, esp, ebp)" by (cases x)
  let ?m = "save_task (ts ! i) eip esp ebp (ram s)"
  have ch: "chain (ram s) ts" and ap: "tasks_apart ts" and rq: "ready_queue s = hd ts"
    using ok by (simp_all add: queue_ok_def)
  have ti: "ts ! i \<noteq> 0" "unat (ts ! i) + 28 \<le> 2 ^ 32" using tasks_apart_room [OF ap] cur(2) by simp_all
  have sep: "ts ! j = ts ! i \<or> unat (ts ! i) + 28 \<le> unat (ts ! j) \<or> unat (ts ! j) + 28 \<le> unat (ts ! i)"
    if "j < length ts" for j using tasks_apart_nth [OF ap cur(2) that] by (cases "i = j") auto
  have nx: "task_next ?m t = task_next (ram s) t" if "t \<in> set ts" for t
  proof -
    from that obtain j where "j < length ts" "t = ts ! j" by (auto simp: in_set_conv_nth)
    then show ?thesis using save_task_next(1) [OF ti(2), of t] sep [of j] tasks_apart_room [OF ap that] by simp
  qed
  then have ch': "chain ?m ts" by (rule chain_same_next [OF ch])
  have step: "ram (time_slice x s) = ?m" "ready_queue (time_slice x s) = hd ts"
    "current_task (time_slice x s) = ts ! (Suc i mod length ts)"
    "(cpu_eip (time_slice x s), cpu_esp (time_slice x s), cpu_ebp (time_slice x s)) = saved ?m (ts ! (Suc i mod length ts))"
    using ti(1) cur eip rq next_task_chain [OF ch' ap cur(2)]
    by (simp_all add: time_slice_def switch_task_def x Let_def saved_def)
  then show "current_task (time_slice x s) = ts ! (Suc i mod length ts)"
    "(cpu_eip (time_slice x s), cpu_esp (time_slice x s), cpu_ebp (time_slice x s))
       = saved (ram (time_slice x s)) (ts ! (Suc i mod length ts))"
    by simp_all
  have "ts \<noteq> []" "Suc i mod length ts < length ts" using cur(2) by (auto intro: mod_less_divisor)
  then show "queue_ok (time_slice x s) ts" using step ch' ap by (simp add: queue_ok_def)
  show "saved (ram (time_slice x s)) (ts ! i) = x"
    using step(1) save_task_fields [OF ti(2)] by (simp add: saved_def x)
  fix j assume j: "j < length ts" "j \<noteq> i"
  show "saved (ram (time_slice x s)) (ts ! j) = saved (ram s) (ts ! j)"
    using save_task_other [OF ti(2), of "ts ! j"] tasks_apart_nth [OF ap cur(2) j(1)] tasks_apart_room [OF ap, of "ts ! j"] j
    by (simp add: saved_def step(1))
qed

lemma time_slices:
  assumes "queue_ok s ts" and "current_task s = ts ! i" and "i < length ts"
    and "\<forall>x \<in> set xs. fst x \<noteq> 0x12345" and "length xs \<le> length ts"
  shows "queue_ok (fold time_slice xs s) ts"
    and "current_task (fold time_slice xs s) = ts ! ((i + length xs) mod length ts)"
    and "\<forall>j < length xs. saved (ram (fold time_slice xs s)) (ts ! ((i + j) mod length ts)) = xs ! j"
  using assms(4,5)
proof (induction xs rule: rev_induct)
  case Nil
  { case 1 then show ?case using assms(1) by simp next
    case 2 then show ?case using assms(2,3) by auto next
    case 3 then show ?case by simp }
next
  case (snoc x xs)
  let ?n = "length ts" and ?k = "length xs"
  let ?s = "fold time_slice xs s" and ?c = "(i + length xs) mod length ts"
  have n: "0 < ?n" using assms(3) by linarith
  { assume p: "\<forall>x \<in> set (xs @ [x]). fst x \<noteq> 0x12345" "length (xs @ [x]) \<le> ?n"
    then have pre: "queue_ok ?s ts" "current_task ?s = ts ! ?c"
        "\<forall>j < ?k. saved (ram ?s) (ts ! ((i + j) mod ?n)) = xs ! j"
      using snoc by simp_all
    have c: "?c < ?n" using n by simp
    note st = time_slice_step [OF pre(1,2) c, of x]
    have "Suc ?c mod ?n = (i + length (xs @ [x])) mod ?n" by (simp add: mod_Suc_eq)
    moreover have "saved (ram (time_slice x ?s)) (ts ! ((i + j) mod ?n)) = (xs @ [x]) ! j" if j: "j < Suc ?k" for j
    proof (cases "j = ?k")
      case True
      then show ?thesis using st(3) p(1) by simp
    next
      case False
      then have jk: "j < ?k" using j by simp
      have "(i + j) mod ?n \<noteq> ?c"
      proof
        assume "(i + j) mod ?n = ?c"
        then have "?n dvd (i + ?k) - (i + j)" using mod_eq_dvd_iff_nat [of "i + j" "i + ?k" ?n] jk by simp
        then show False using jk p(2) by (auto dest: dvd_imp_le)
      qed
      then show ?thesis using st(4) [of "(i + j) mod ?n"] p(1) pre(3) jk n by (simp add: nth_append)
    qed
    ultimately have "queue_ok (time_slice x ?s) ts"
      "current_task (time_slice x ?s) = ts ! ((i + length (xs @ [x])) mod ?n)"
      "\<forall>j < length (xs @ [x]). saved (ram (time_slice x ?s)) (ts ! ((i + j) mod ?n)) = (xs @ [x]) ! j"
      using st(1,2) p(1) by simp_all }
  note all = this
  { case 1 then show ?case using all(1) by simp next
    case 2 then show ?case using all(2) by simp next
    case 3 then show ?case using all(3) by simp }
qed

text \<open>C10: Task switching is fair and resumes every task where it was. In a queue of \<open>n\<close> tasks,
  \<open>n\<close> successive switches visit the tasks in the order of the queue, one after the other,
  keep the queue intact, and bring back the task that ran first, with the instruction
  pointer, stack pointer and base pointer it had when it was switched away from.\<close>
theorem switch_task_round_robin:
  assumes "queue_ok s ts" and "current_task s = ts ! i" and "i < length ts"
    and "\<forall>x \<in> set xs. fst x \<noteq> 0x12345" and "length xs = length ts"
  shows "(\<forall>k \<le> length xs. current_task (fold time_slice (take k xs) s) = ts ! ((i + k) mod length ts))
    \<and> queue_ok (fold time_slice xs s) ts \<and> current_task (fold time_slice xs s) = current_task s
    \<and> (cpu_eip (fold time_slice xs s), cpu_esp (fold time_slice xs s), cpu_ebp (fold time_slice xs s)) = hd xs"
proof (intro conjI allI impI)
  fix k assume "k \<le> length xs"
  then show "current_task (fold time_slice (take k xs) s) = ts ! ((i + k) mod length ts)"
    using time_slices(2) [OF assms(1-3), of "take k xs"] assms(4,5) by (auto dest: in_set_takeD simp: min_absorb2)
next
  show "queue_ok (fold time_slice xs s) ts" using time_slices(1) [OF assms(1-4)] assms(5) by simp
  show "current_task (fold time_slice xs s) = current_task s"
    using time_slices(2) [OF assms(1-4)] assms(2,3,5) by simp
  obtain ys x where xs: "xs = ys @ [x]" using assms(3,5) by (cases xs rule: rev_exhaust) auto
  let ?c = "(i + length ys) mod length ts"
  have "Suc (length ys) = length ts" using xs assms(5) by simp
  then have "Suc ?c mod length ts = (i + length ts) mod length ts" by (metis add_Suc_right mod_Suc_eq)
  then have c: "?c < length ts" "Suc ?c mod length ts = i" using assms(3) by (auto intro: mod_less_divisor)
  have "queue_ok (fold time_slice ys s) ts" "current_task (fold time_slice ys s) = ts ! ?c"
    using time_slices(1,2) [OF assms(1-3), of ys] assms(4,5) xs by simp_all
  note time_slice_step(5) [OF this c(1), of x]
  moreover have "saved (ram (fold time_slice xs s)) (ts ! i) = hd xs"
    using time_slices(3) [OF assms(1-4)] assms(3,5) xs by (auto simp: hd_conv_nth dest: spec [of _ 0])
  ultimately show "(cpu_eip (fold time_slice xs s), cpu_esp (fold time_slice xs s), cpu_ebp (fold time_slice xs s)) = hd xs"
    using c(2) assms(4) xs by simp
qed

text \<open>A state with everything zero, for the witnesses.\<close>

definition zero_tasking :: tasking where
  "zero_tasking = \<lparr>ram = (\<lambda>_. 0), port_log = [], int_flag = False, video_memory = (\<lambda>_. 0),
     cursor_x = 0, cursor_y = 0, placement_address = 0, kheap = None, frames = 0, nframes = 0,
     kernel_directory = 0, current_directory = 0, cr0 = 0, cr3 = 0, frame_mem = (\<lambda>_. 0),
     interrupt_handlers = (\<lambda>_. None), gdt_entries = [], gdt_ptr = \<lparr>ptr_limit = 0, ptr_base = 0\<rparr>,
     gdtr = 0, task_register = 0, idt_entries = (\<lambda>_. zero_gate), idt_ptr = \<lparr>ptr_limit = 0, ptr_base = 0\<rparr>,
     idtr = 0, tss_entry = zero_tss, current_task = 0, ready_queue = 0, next_pid = 1, initial_esp = 0,
     cpu_esp = 0, cpu_ebp = 0, cpu_eip = 0, cpu_eax = 0, tick = 0\<rparr>"

definition three_tasking :: "u32 \<Rightarrow> tasking" where
  "three_tasking t = zero_tasking\<lparr>ram := three_tasks, ready_queue := 0x1000, current_task := t\<rparr>"

lemma three_tasking_ok:
  "t \<in> {0x1000, 0x2000, 0x3000} \<Longrightarrow> queue_ok (three_tasking t) [0x1000, 0x2000, 0x3000]"
  using three_tasks_chain by (auto simp: queue_ok_def three_tasking_def tasks_apart_def task_room_def)

theorem switch_task_round_robin_witness:
  "current_task (fold time_slice [(0x10, 1, 2), (0x20, 3, 4), (0x30, 5, 6)] (three_tasking 0x2000)) = 0x2000
   \<and> cpu_eip (fold time_slice [(0x10, 1, 2), (0x20, 3, 4), (0x30, 5, 6)] (three_tasking 0x2000)) = 0x10"
proof -
  have c: "current_task (three_tasking 0x2000) = [0x1000, 0x2000, 0x3000] ! 1" by (simp add: three_tasking_def)
  have q: "queue_ok (three_tasking 0x2000) [0x1000, 0x2000, 0x3000]" by (rule three_tasking_ok) simp
  have "\<forall>x \<in> set [(0x10, 1, 2), (0x20, 3, 4), (0x30, 5, 6)]. fst x \<noteq> (0x12345 :: u32)" by simp
  from switch_task_round_robin [OF q c _ this] c show ?thesis by simp
qed

section \<open>Forking\<close>

lemma set_task_next_frame:
  assumes "unat t + 28 \<le> 2 ^ 32"
  shows "same_outside (t + 24) 4 m (set_task_next t v m)"
  unfolding set_task_fields by (rule same_outside_write32) (simp only: task_addr [OF assms], use assms in simp)

lemma set_task_next_next:
  assumes "unat t + 28 \<le> 2 ^ 32" and "unat u + 28 \<le> 2 ^ 32"
    and "unat t + 28 \<le> unat u \<or> unat u + 28 \<le> unat t"
  shows "task_next (set_task_next t v m) u = task_next m u"
proof -
  note a = task_addr [OF assms(1)] task_addr [OF assms(2)]
  have "unat (u + 24) + 4 \<le> unat (t + 24) \<or> unat (t + 24) + 4 \<le> unat (u + 24)" "unat (u + 24) + 4 \<le> 2 ^ 32"
    unfolding a using assms(2,3) by auto
  then show ?thesis unfolding task_fields by (rule read32_same_outside [OF set_task_next_frame [OF assms(1)]])
qed

lemma set_task_next_same [simp]: "task_next (set_task_next t v m) t = v"
  by (simp add: set_task_next_def task_next_def)

lemma upd_ram_tasking [simp]:
  "ready_queue (upd_ram f s) = ready_queue s" "current_task (upd_ram f s) = current_task s"
  by (simp_all add: upd_ram_def)

lemma fork_link_state:
  assumes "queue_ok s ts" and "tasks_apart (ts @ [t])"
  defines "s' \<equiv> upd_ram (set_task_next (last ts) t) (upd_ram (set_task_next t 0) s)"
  shows "fork_link t s = Inr (t, s')" and "queue_ok s' (ts @ [t])"
proof -
  let ?m1 = "set_task_next t 0 (ram s)"
  let ?m2 = "set_task_next (last ts) t ?m1"
  have ch: "chain (ram s) ts" and ap: "tasks_apart ts" and rq: "ready_queue s = hd ts"
    using assms(1) by (simp_all add: queue_ok_def)
  have ne: "ts \<noteq> []" using ch by auto
  have t: "t \<noteq> 0" "unat t + 28 \<le> 2 ^ 32" and sep: "\<forall>u \<in> set ts. unat t + 28 \<le> unat u \<or> unat u + 28 \<le> unat t"
    using assms(2) by (auto simp: tasks_apart_snoc task_room_def)
  note room = tasks_apart_room [OF ap]
  have ch1: "chain ?m1 ts"
    by (rule chain_same_next [OF ch]) (use set_task_next_next [OF t(2)] room sep in auto)
  have link: "fork_link t s = Inr (t, upd_ram (set_task_next (last ts) t) (upd_ram (set_task_next t 0) s))"
    using last_task_chain [OF ch1] rq by (simp add: fork_link_def)
  have l: "last ts \<in> set ts" using ne by simp
  have ch2: "chain ?m2 (ts @ [t])"
  proof (rule chainI)
    show "\<forall>u \<in> set (ts @ [t]). u \<noteq> 0" using room t(1) by auto
    fix i assume i: "i < length (ts @ [t])"
    show "task_next ?m2 ((ts @ [t]) ! i) = (if Suc i < length (ts @ [t]) then (ts @ [t]) ! Suc i else 0)"
    proof (cases "i = length ts")
      case True
      then show ?thesis using set_task_next_next [of "last ts" t] room [OF l] t(2) sep l by auto
    next
      case False
      then have il: "i < length ts" using i by simp
      show ?thesis
      proof (cases "Suc i = length ts")
        case True
        then have "ts ! i = last ts" using ne by (metis diff_Suc_1 last_conv_nth)
        then show ?thesis using True by (simp add: nth_append)
      next
        case False
        then have "unat (last ts) + 28 \<le> unat (ts ! i) \<or> unat (ts ! i) + 28 \<le> unat (last ts)"
          using tasks_apart_nth [OF ap, of "length ts - 1" i] il ne by (simp add: last_conv_nth)
        then have "task_next ?m2 (ts ! i) = task_next ?m1 (ts ! i)"
          using set_task_next_next [of "last ts" "ts ! i"] room [OF l] room [of "ts ! i"] il by simp
        then show ?thesis using chain_next [OF ch1 il] il False by (simp add: nth_append)
      qed
    qed
  qed simp
  then show "queue_ok s' (ts @ [t])" unfolding s'_def
    using assms(1) assms(2) ne by (simp add: queue_ok_def)
  show "fork_link t s = Inr (t, s')" unfolding s'_def by (rule link)
qed

text \<open>\<open>fork\<close> puts the child at the end of the ready queue. Once the child's task structure
  is allocated apart from the others, the walk to the end of the queue ends, and afterwards
  the queue is the old list with the child appended, the current task still being in it.\<close>
theorem fork_link_appends:
  assumes "queue_ok s ts" and "tasks_apart (ts @ [t])"
  shows "\<exists>s'. fork_link t s = Inr (t, s') \<and> queue_ok s' (ts @ [t]) \<and> current_task s' = current_task s
    \<and> queue_count (ram s') (ready_queue s') = Some (word_of_nat (length ts + 1))"
proof -
  let ?s' = "upd_ram (set_task_next (last ts) t) (upd_ram (set_task_next t 0) s)"
  have q: "queue_ok ?s' (ts @ [t])" by (rule fork_link_state(2) [OF assms])
  then have "chain (ram ?s') (ts @ [t])" "ready_queue ?s' = hd (ts @ [t])" by (simp_all only: queue_ok_def)
  then have "queue_count (ram ?s') (ready_queue ?s') = Some (word_of_nat (length ts + 1))"
    unfolding queue_count_def using queue_count_loop_chain [of "ram ?s'" "ts @ [t]" 1] by (simp add: add_ac)
  then show ?thesis using fork_link_state(1) [OF assms] q by (intro exI [of _ ?s']) simp
qed

theorem fork_link_appends_witness:
  "\<exists>s'. fork_link 0x4000 (three_tasking 0x1000) = Inr (0x4000, s')
     \<and> queue_ok s' [0x1000, 0x2000, 0x3000, 0x4000]"
proof -
  have "tasks_apart ([0x1000, 0x2000, 0x3000] @ [0x4000])" by (simp add: tasks_apart_def task_room_def)
  from fork_link_appends [OF three_tasking_ok this, of "0x1000"] show ?thesis by auto
qed

lemma child_frame:
  assumes "unat c + 28 \<le> 2 ^ 32"
  shows "same_outside (c + 4) 12 m (set_task_eip c eip (set_task_ebp c ebp (set_task_esp c esp m)))"
proof -
  note a = task_addr [OF assms]
  have w: "same_outside (c + 4) 12 m (write32 m d v)" if "unat c + 4 \<le> unat d" "unat d \<le> unat c + 12" for d v m
    by (rule same_outside_mono [OF same_outside_write32]) (simp_all only: a, use assms that in simp_all)
  show ?thesis
    unfolding set_task_fields
    by (rule same_outside_trans [OF same_outside_trans [OF w w] w]) (simp_all add: a)
qed

text \<open>The words of a task structure, and what leaves them as they are.\<close>

definition same_task :: "mem \<Rightarrow> mem \<Rightarrow> u32 \<Rightarrow> bool" where
  "same_task m m' t \<longleftrightarrow> task_id m' t = task_id m t \<and> saved m' t = saved m t \<and> task_next m' t = task_next m t
     \<and> task_page_directory m' t = task_page_directory m t"

definition same_tasks :: "u32 list \<Rightarrow> mem \<Rightarrow> mem \<Rightarrow> bool" where
  "same_tasks ts m m' \<longleftrightarrow> (\<forall>t \<in> set ts. same_task m m' t)"

lemma same_task_trans: "same_task m m' t \<Longrightarrow> same_task m' m'' t \<Longrightarrow> same_task m m'' t"
  by (simp add: same_task_def)

lemma same_task_apart:
  assumes "same_outside t 28 m m'" and "unat t + 28 \<le> unat u \<or> unat u + 28 \<le> unat t" and "unat u + 28 \<le> 2 ^ 32"
  shows "same_task m m' u"
proof -
  note a = task_addr [OF assms(3)]
  have "read32 m' b = read32 m b" if "unat u \<le> unat b" "unat b + 4 \<le> unat u + 28" for b
    by (rule read32_same_outside [OF assms(1)]) (use assms(2,3) that in auto)
  then show ?thesis by (simp add: same_task_def saved_def task_fields a)
qed

lemma task_write:
  assumes "unat t + 28 \<le> 2 ^ 32" and "unat t \<le> unat b" and "unat b + 4 \<le> unat t + 28" and "same_outside t 28 m m'"
  shows "same_outside t 28 m (write32 m' b v)"
  by (rule same_outside_trans [OF assms(4) same_outside_mono [OF same_outside_write32]]) (use assms(1-3) in auto)

lemma make_task_state:
  assumes "unat c + 28 \<le> 2 ^ 32"
  shows "same_outside c 28 (ram s) (ram (make_task c dir s))"
    and "task_id (ram (make_task c dir s)) c = next_pid s" "task_page_directory (ram (make_task c dir s)) c = dir"
    and "make_task c dir s = s\<lparr>ram := ram (make_task c dir s), next_pid := next_pid s + 1\<rparr>"
proof -
  note a = task_addr [OF assms]
  show "same_outside c 28 (ram s) (ram (make_task c dir s))"
    by (simp add: make_task_def Let_def upd_ram_def set_task_fields) (intro task_write assms, simp_all add: a same_outside_def)
  show "task_id (ram (make_task c dir s)) c = next_pid s" "task_page_directory (ram (make_task c dir s)) c = dir"
    using a assms by (simp_all add: make_task_def Let_def upd_ram_def set_task_fields task_fields read32_write32_nat)
  show "make_task c dir s = s\<lparr>ram := ram (make_task c dir s), next_pid := next_pid s + 1\<rparr>"
    by (simp add: make_task_def Let_def upd_ram_def)
qed

lemma queue_ok_same:
  assumes "queue_ok s ts" and "same_tasks ts (ram s) (ram t)" and "ready_queue t = ready_queue s" and "current_task t = current_task s"
  shows "queue_ok t ts"
  using assms chain_same_next [of "ram s" ts "ram t"] by (auto simp: queue_ok_def same_tasks_def same_task_def)

text \<open>What the switches leave of a task that has not had its turn yet, and with what it starts.\<close>

lemma time_slices_ahead:
  assumes "queue_ok s ts" and "current_task s = ts ! i" and "i + length xs \<le> j" and "j < length ts"
    and "\<forall>x \<in> set xs. fst x \<noteq> 0x12345"
  shows "same_task (ram s) (ram (fold time_slice xs s)) (ts ! j) \<and> current_task (fold time_slice xs s) = ts ! (i + length xs)
    \<and> (xs \<noteq> [] \<longrightarrow> (let u = fold time_slice xs s; t = ts ! (i + length xs) in
         (cpu_eip u, cpu_esp u, cpu_ebp u) = saved (ram u) t \<and> current_directory u = task_page_directory (ram u) t
         \<and> cpu_eax u = 0x12345 \<and> int_flag u))"
  using assms
proof (induction xs arbitrary: s i)
  case Nil
  then show ?case by (simp add: same_task_def)
next
  case (Cons x xs)
  let ?u = "time_slice x s"
  have i: "i < length ts" "Suc i mod length ts = Suc i" "i \<noteq> j" using Cons.prems(3,4) by auto
  have e: "fst x \<noteq> 0x12345" using Cons.prems(5) by simp
  note st = time_slice_step [OF Cons.prems(1,2) i(1) e, unfolded i(2)]
  have ap: "tasks_apart ts" using Cons.prems(1) by (simp add: queue_ok_def)
  note ri = tasks_apart_room [OF ap nth_mem [OF i(1)]] and rj = tasks_apart_room [OF ap nth_mem [OF Cons.prems(4)]]
  obtain ip sp bp where x: "x = (ip, sp, bp)" by (cases x)
  have m: "ram ?u = save_task (ts ! i) ip sp bp (ram s)"
    using Cons.prems(2) e ri by (simp add: time_slice_def switch_task_def x Let_def)
  have "same_outside (ts ! i + 4) 12 (ram s) (ram ?u)" unfolding m by (rule save_task_frame) (use ri in simp)
  then have "same_outside (ts ! i) 28 (ram s) (ram ?u)"
    by (rule same_outside_mono) (use task_addr [of "ts ! i"] ri in simp_all)
  from same_task_apart [OF this tasks_apart_nth [OF ap i(1) Cons.prems(4) i(3)]] rj
  have 1: "same_task (ram s) (ram ?u) (ts ! j)" by simp
  have IH: "same_task (ram ?u) (ram (fold time_slice xs ?u)) (ts ! j) \<and> current_task (fold time_slice xs ?u) = ts ! (Suc i + length xs)
    \<and> (xs \<noteq> [] \<longrightarrow> (let u = fold time_slice xs ?u; t = ts ! (Suc i + length xs) in
         (cpu_eip u, cpu_esp u, cpu_ebp u) = saved (ram u) t \<and> current_directory u = task_page_directory (ram u) t
         \<and> cpu_eax u = 0x12345 \<and> int_flag u))"
    by (rule Cons.IH [OF st(1,2)]) (use Cons.prems in auto)
  have "current_directory ?u = task_page_directory (ram ?u) (current_task ?u) \<and> cpu_eax ?u = 0x12345 \<and> int_flag ?u"
    using Cons.prems(2) e ri by (simp add: time_slice_def switch_task_def x Let_def)
  then show ?case using IH 1 st(2,5) by (cases xs) (auto simp: Let_def intro: same_task_trans)
qed

text \<open>The state in which \<open>fork\<close> puts the child into the queue, once the three allocations are done.\<close>

lemma fork_prepares:
  fixes s :: "'a tasking_scheme"
  assumes "clone_directory (kmalloc_ap k) (current_directory s) (cli s) = Inr (dir, s1)"
    and "kmalloc k sizeof_task s1 = Inr (c, s2)" and "kmalloc_a k KERNEL_STACK_SIZE (make_task c dir s2) = Inr (ks, s3)"
  shows "fork_prepare k s = fork_link c (upd_ram (set_task_kernel_stack (current_task s3) ks) s3)"
    and "current_task s3 = current_task s" "ready_queue s3 = ready_queue s" "next_pid s3 = next_pid s + 1"
    "cpu_esp s3 = cpu_esp s" "cpu_ebp s3 = cpu_ebp s" "next_pid s2 = next_pid s"
proof -
  show "fork_prepare k s = fork_link c (upd_ram (set_task_kernel_stack (current_task s3) ks) s3)"
    using assms by (simp add: fork_prepare_def cli_def)
  have "memory_only (cli s) s2"
    by (rule memory_only_trans [OF clone_directory_memory [OF tame_kmalloc_ap assms(1)] kmalloc_memory [OF assms(2)]])
  moreover have "memory_only (make_task c dir s2) s3" by (rule kmalloc_a_memory [OF assms(3)])
  ultimately show "current_task s3 = current_task s" "ready_queue s3 = ready_queue s" "next_pid s3 = next_pid s + 1"
    "cpu_esp s3 = cpu_esp s" "cpu_ebp s3 = cpu_ebp s" "next_pid s2 = next_pid s"
    by (auto simp: memory_only_def cli_def make_task_def Let_def upd_ram_def)
qed

lemma set_task_next_fields:
  assumes "unat t + 28 \<le> 2 ^ 32" and "unat u + 28 \<le> 2 ^ 32" and "u = t \<or> unat t + 28 \<le> unat u \<or> unat u + 28 \<le> unat t"
  shows "task_id (set_task_next t v m) u = task_id m u"
    and "task_page_directory (set_task_next t v m) u = task_page_directory m u"
proof -
  note a = task_addr [OF assms(1)] task_addr [OF assms(2)]
  have "read32 (set_task_next t v m) b = read32 m b"
    if "unat b + 4 \<le> unat (t + 24) \<or> unat (t + 24) + 4 \<le> unat b" "unat b + 4 \<le> 2 ^ 32" for b
    by (rule read32_same_outside [OF set_task_next_frame [OF assms(1)] that])
  then show "task_id (set_task_next t v m) u = task_id m u"
    and "task_page_directory (set_task_next t v m) u = task_page_directory m u"
    using a assms by (auto simp: task_fields)
qed

lemma kernel_stack_same:
  assumes "unat p + 28 \<le> 2 ^ 32" and "unat t + 28 \<le> 2 ^ 32" and "t = p \<or> unat p + 28 \<le> unat t \<or> unat t + 28 \<le> unat p"
  shows "same_task m (set_task_kernel_stack p ks m) t"
proof -
  note a = task_addr [OF assms(1)] task_addr [OF assms(2)]
  have o: "same_outside (p + 20) 4 m (set_task_kernel_stack p ks m)"
    unfolding set_task_fields by (rule same_outside_write32) (use a assms(1) in simp)
  have "read32 (set_task_kernel_stack p ks m) b = read32 m b"
    if "unat b + 4 \<le> unat (p + 20) \<or> unat (p + 20) + 4 \<le> unat b" "unat b + 4 \<le> 2 ^ 32" for b
    by (rule read32_same_outside [OF o that])
  then show ?thesis using a assms by (auto simp: same_task_def saved_def task_fields)
qed

lemma fork_queue:
  fixes s :: "'a tasking_scheme" and ks :: u32
  assumes "queue_ok s ts" and "tasks_apart (ts @ [c])" and "same_tasks ts (ram s) (ram s2)"
    and "same_tasks (ts @ [c]) (ram (make_task c dir s2)) (ram s3)"
    and "ready_queue s3 = ready_queue s" and "current_task s3 = current_task s"
  defines "s4 \<equiv> upd_ram (set_task_kernel_stack (current_task s) ks) s3"
  shows "queue_ok s4 ts" and "task_id (ram s4) c = next_pid s2" and "task_page_directory (ram s4) c = dir"
proof -
  have ap: "tasks_apart ts" and c: "unat c + 28 \<le> 2 ^ 32"
      and sep: "\<And>t. t \<in> set ts \<Longrightarrow> unat c + 28 \<le> unat t \<or> unat t + 28 \<le> unat c"
    using assms(1,2) by (auto simp: queue_ok_def tasks_apart_snoc task_room_def)
  note room = tasks_apart_room [OF ap]
  have p: "current_task s \<in> set ts" using assms(1) by (simp add: queue_ok_def)
  have same: "same_task (ram s3) (ram s4) t" if "t \<in> set (ts @ [c])" for t
  proof -
    have "t = current_task s \<or> unat (current_task s) + 28 \<le> unat t \<or> unat t + 28 \<le> unat (current_task s)"
    proof (cases "t = c")
      case False
      then have "t \<in> set ts" using that by simp
      then obtain i j where "i < length ts" "j < length ts" "t = ts ! i" "current_task s = ts ! j"
        using p unfolding in_set_conv_nth by metis
      then show ?thesis using tasks_apart_nth [OF ap, of i j] by (cases "i = j") auto
    qed (use sep [OF p] in auto)
    moreover have "unat t + 28 \<le> 2 ^ 32" using that room [of t] c by auto
    ultimately show ?thesis using room [OF p] unfolding s4_def upd_ram_ram by (intro kernel_stack_same) simp_all
  qed
  have "same_task (ram s) (ram s4) t" if "t \<in> set ts" for t
  proof -
    have "same_task (ram s) (ram s2) t" using assms(3) that by (simp add: same_tasks_def)
    moreover have "same_task (ram s2) (ram (make_task c dir s2)) t"
      by (rule same_task_apart [OF make_task_state(1) [OF c]]) (use sep room that in auto)
    moreover have "same_task (ram (make_task c dir s2)) (ram s3) t" using assms(4) that by (simp add: same_tasks_def)
    ultimately show ?thesis using same [of t] that by (auto intro: same_task_trans)
  qed
  then show "queue_ok s4 ts"
    by (intro queue_ok_same [OF assms(1)]) (simp_all add: same_tasks_def s4_def assms(5,6))
  have "same_task (ram (make_task c dir s2)) (ram s4) c"
    using assms(4) same [of c] by (auto simp: same_tasks_def intro: same_task_trans)
  then show "task_id (ram s4) c = next_pid s2" "task_page_directory (ram s4) c = dir"
    using make_task_state(2,3) [OF c] by (simp_all add: same_task_def)
qed

lemma fork_return_parent:
  fixes s :: "'a tasking_scheme"
  assumes "queue_ok s (ts @ [c])" and "current_task s \<noteq> c"
  shows "\<exists>m. fork_return (current_task s) c eip s = (task_id (ram s) c, sti (s\<lparr>ram := m\<rparr>)) \<and> queue_ok (sti (s\<lparr>ram := m\<rparr>)) (ts @ [c])
    \<and> saved m c = (eip, cpu_esp s, cpu_ebp s) \<and> task_id m c = task_id (ram s) c
    \<and> task_page_directory m c = task_page_directory (ram s) c"
proof -
  let ?m = "set_task_eip c eip (set_task_ebp c (cpu_ebp s) (set_task_esp c (cpu_esp s) (ram s)))"
  have ap: "tasks_apart (ts @ [c])" using assms(1) by (simp add: queue_ok_def)
  have c: "unat c + 28 \<le> 2 ^ 32" using tasks_apart_room [OF ap] by simp
  note a = task_addr [OF c]
  have frame: "same_outside (c + 4) 12 (ram s) ?m" by (rule child_frame [OF c])
  have r: "read32 ?m b = read32 (ram s) b"
    if "unat b + 4 \<le> unat (c + 4) \<or> unat (c + 4) + 12 \<le> unat b" "unat b + 4 \<le> 2 ^ 32" for b
    by (rule read32_same_outside [OF frame that])
  have own: "task_id ?m c = task_id (ram s) c" "task_page_directory ?m c = task_page_directory (ram s) c"
    "task_next ?m c = task_next (ram s) c" using a c by (auto simp: task_fields intro!: r)
  have sv: "saved ?m c = (eip, cpu_esp s, cpu_ebp s)"
    using a c by (simp add: saved_def set_task_fields task_fields read32_write32_nat)
  have "task_next ?m t = task_next (ram s) t" if "t \<in> set (ts @ [c])" for t
  proof (cases "t = c")
    case False
    then have t: "unat c + 28 \<le> unat t \<or> unat t + 28 \<le> unat c" "unat t + 28 \<le> 2 ^ 32"
      using that ap tasks_apart_room [OF ap that] by (auto simp: tasks_apart_snoc)
    then show ?thesis using task_addr [OF t(2)] a by (auto simp: task_fields intro!: r)
  qed (use own in simp)
  then have "chain ?m (ts @ [c])" using assms(1) chain_same_next [of "ram s" "ts @ [c]" ?m] by (auto simp: queue_ok_def)
  then have "queue_ok (sti (s\<lparr>ram := ?m\<rparr>)) (ts @ [c])" using assms(1) by (simp add: queue_ok_def sti_def)
  moreover have "fork_return (current_task s) c eip s = (task_id (ram s) c, sti (s\<lparr>ram := ?m\<rparr>))"
    using own(1) by (simp add: fork_return_def Let_def upd_ram_def)
  ultimately show ?thesis using own sv by blast
qed

text \<open>Before the heap exists the allocations come from the placement address; a directory without tables is
  cloned to one without tables.\<close>

lemma clone_no_tables:
  assumes "\<forall>n < 1024. dir_table (ram s) src (word_of_nat n) = 0"
  shows "rfold (clone_slot al src dir) [0..<1024] s = Inr s"
proof -
  have "rfold (clone_slot al src dir) ns s = Inr s" if "\<forall>n \<in> set ns. dir_table (ram s) src (word_of_nat n) = 0" for ns
    using that by (induction ns) (simp_all add: clone_slot_def)
  then show ?thesis using assms by simp
qed

definition forking :: tasking where
  "forking = (three_tasking 0x2000)\<lparr>current_directory := 0x100000, placement_address := 0x200000\<rparr>"

definition fork_directory :: mem where
  "fork_directory = set_dir_addr 0x201000 0x202000 (memset three_tasks 0x201000 0 8196)"

lemma fork_directory_outside: "same_outside 0x201000 8196 three_tasks fork_directory"
proof -
  have "same_outside 0x201000 8196 three_tasks (memset three_tasks 0x201000 0 8196)"
    using same_outside_memset [of "0x201000" 8196] by simp
  moreover have "same_outside 0x201000 8196 m (write32 m 0x203000 v)" for m v
    by (rule same_outside_mono [OF same_outside_write32]) simp_all
  ultimately show ?thesis unfolding fork_directory_def set_dir_addr_def by (simp add: same_outside_trans)
qed

lemma fork_directory_reads: "unat b + 4 \<le> 0x201000 \<Longrightarrow> read32 fork_directory b = read32 three_tasks b"
  by (rule read32_same_outside [OF fork_directory_outside]) simp_all

lemma forking_allocates:
  "clone_directory (kmalloc_ap 0) (current_directory forking) (cli forking)
     = Inr (0x201000, (cli forking)\<lparr>ram := fork_directory, placement_address := 0x203004\<rparr>)"
  "kmalloc 0 sizeof_task ((cli forking)\<lparr>ram := fork_directory, placement_address := 0x203004\<rparr>)
     = Inr (0x203004, (cli forking)\<lparr>ram := fork_directory, placement_address := 0x203020\<rparr>)"
proof -
  have zero: "read32 three_tasks b = 0" if "0x100000 \<le> unat b" "unat b + 4 \<le> 2 ^ 32" for b
  proof -
    have "read32 (write32 m a v) b = read32 m b" if "unat a + 4 \<le> 0x100000" for m a v
      by (rule read32_same_outside [OF same_outside_write32]) (use \<open>0x100000 \<le> unat b\<close> \<open>unat b + 4 \<le> 2 ^ 32\<close> that in auto)
    then show ?thesis by (simp add: three_tasks_def set_task_next_def read32_def [of "\<lambda>_. 0"])
  qed
  let ?s = "(cli forking)\<lparr>ram := fork_directory, placement_address := 0x203004\<rparr>"
  have "dir_table (ram ?s) 0x100000 (word_of_nat n) = 0" if "n < 1024" for n
  proof -
    have "unat (0x100000 + 4 * word_of_nat n :: u32) = 0x100000 + 4 * n" using that by (subst unat_cell_addr) simp_all
    then show ?thesis using that zero fork_directory_reads by (simp add: dir_table_def)
  qed
  then have "rfold (clone_slot (kmalloc_ap 0) 0x100000 0x201000) [0..<1024] ?s = Inr ?s" by (intro clone_no_tables) simp
  moreover have "kmalloc_ap 0 sizeof_page_directory (cli forking)
      = Inr (0x201000, 0x201000, (cli forking)\<lparr>placement_address := 0x203004\<rparr>)"
    by (simp add: kmalloc_ap_def kmalloc_int_def kmalloc_placement_def placement_start_def forking_def three_tasking_def
        zero_tasking_def cli_def sizeof_page_directory_def)
  ultimately show "clone_directory (kmalloc_ap 0) (current_directory forking) (cli forking) = Inr (0x201000, ?s)"
    by (simp add: clone_directory_def Let_def sizeof_page_directory_def upd_ram_def fork_directory_def forking_def
        three_tasking_def zero_tasking_def cli_def)
  show "kmalloc 0 sizeof_task ?s = Inr (0x203004, (cli forking)\<lparr>ram := fork_directory, placement_address := 0x203020\<rparr>)"
    by (simp add: kmalloc_def kmalloc_int_def kmalloc_placement_def placement_start_def forking_def three_tasking_def
        zero_tasking_def cli_def sizeof_task_def)
qed

text \<open>C21: \<open>fork\<close> returns twice. Let the queue hold the tasks \<open>ts\<close>, the \<open>i\<close>-th of them running, and let the cloning of
  the address space and the two allocations of \<open>fork\<close> succeed: with a directory \<open>dir\<close>, a structure for the child
  at \<open>c\<close> apart from the other tasks, and a kernel stack, leaving the words of the task structures alone. Then \<open>fork\<close> returns in
  the parent with the child's number, the next one free; interrupts are on, the parent still runs, and the child is linked
  behind the last task of the queue. After the switches that give every task behind the parent its turn, whatever these
  do with their registers, the child runs in its own address space \<open>dir\<close>: at the address that the parent's
  \<open>read_eip\<close> returned, with the parent's stack and base pointer and the dummy value in EAX, and \<open>fork\<close>
  returns 0 there.\<close>
theorem fork_returns_twice:
  fixes s :: "'a tasking_scheme"
  assumes ok: "queue_ok s ts" and cur: "current_task s = ts ! i" and i: "i < length ts"
    and clone: "clone_directory (kmalloc_ap k) (current_directory s) (cli s) = Inr (dir, s1)"
    and task: "kmalloc k sizeof_task s1 = Inr (c, s2)"
    and stack: "kmalloc_a k KERNEL_STACK_SIZE (make_task c dir s2) = Inr (ks, s3)"
    and apart: "tasks_apart (ts @ [c])" and kept: "same_tasks ts (ram s) (ram s2)"
      "same_tasks (ts @ [c]) (ram (make_task c dir s2)) (ram s3)"
  shows "\<exists>s'. fork k eip s = Inr (next_pid s, s') \<and> queue_ok s' (ts @ [c]) \<and> current_task s' = current_task s
    \<and> task_id (ram s') c = next_pid s \<and> next_pid s' = next_pid s + 1 \<and> int_flag s'
    \<and> cpu_esp s' = cpu_esp s \<and> cpu_ebp s' = cpu_ebp s
    \<and> (\<forall>xs. length xs = length ts - i \<and> (\<forall>x \<in> set xs. fst x \<noteq> 0x12345) \<longrightarrow>
        (let t = fold time_slice xs s' in current_task t = c \<and> current_directory t = dir
           \<and> (cpu_eip t, cpu_esp t, cpu_ebp t) = (eip, cpu_esp s, cpu_ebp s) \<and> cpu_eax t = 0x12345
           \<and> fst (fork_return (current_task s) c (cpu_eax t) t) = 0))"
proof -
  note pr = fork_prepares [OF clone task stack]
  let ?s4 = "upd_ram (set_task_kernel_stack (current_task s) ks) s3"
  let ?s5 = "upd_ram (set_task_next (last ts) c) (upd_ram (set_task_next c 0) ?s4)"
  note q4 = fork_queue [OF ok apart kept pr(3,2), of ks]
  note link = fork_link_state [OF q4(1) apart]
  have ne: "current_task s \<noteq> c" using ok apart tasks_apart_distinct [OF apart] by (auto simp: queue_ok_def)
  have five: "current_task ?s5 = current_task s" "next_pid ?s5 = next_pid s + 1" "cpu_esp ?s5 = cpu_esp s" "cpu_ebp ?s5 = cpu_ebp s"
    using pr(2-6) by (simp_all add: upd_ram_def)
  have "last ts \<in> set ts" using i by (cases ts) auto
  then have c: "unat c + 28 \<le> 2 ^ 32" and l: "unat (last ts) + 28 \<le> 2 ^ 32" "unat c + 28 \<le> unat (last ts) \<or> unat (last ts) + 28 \<le> unat c"
    using apart tasks_apart_room [of ts "last ts"] by (auto simp: tasks_apart_snoc task_room_def)
  have f5: "task_id (ram ?s5) c = next_pid s" "task_page_directory (ram ?s5) c = dir"
    using q4(2,3) pr(7) set_task_next_fields [OF c c] set_task_next_fields [OF l(1) c] l(2) by auto
  obtain m where m: "fork_return (current_task s) c eip ?s5 = (next_pid s, sti (?s5\<lparr>ram := m\<rparr>))" "queue_ok (sti (?s5\<lparr>ram := m\<rparr>)) (ts @ [c])"
      "saved m c = (eip, cpu_esp s, cpu_ebp s)" "task_id m c = next_pid s" "task_page_directory m c = dir"
    using fork_return_parent [OF link(2), of eip] ne unfolding five f5 by auto
  let ?s' = "sti (?s5\<lparr>ram := m\<rparr>)"
  have fk: "fork k eip s = Inr (next_pid s, ?s')"
    unfolding fork_def pr(1) pr(2) link(1) rbind.simps(2) prod.case m(1) by simp
  have s': "current_task ?s' = (ts @ [c]) ! i" "current_task ?s' = current_task s" "next_pid ?s' = next_pid s + 1" "int_flag ?s'"
    "cpu_esp ?s' = cpu_esp s" "cpu_ebp ?s' = cpu_ebp s" "ram ?s' = m"
    using five cur i by (simp_all add: sti_def nth_append)
  have child: "let t = fold time_slice xs ?s' in current_task t = c \<and> current_directory t = dir
           \<and> (cpu_eip t, cpu_esp t, cpu_ebp t) = (eip, cpu_esp s, cpu_ebp s) \<and> cpu_eax t = 0x12345
           \<and> fst (fork_return (current_task s) c (cpu_eax t) t) = 0"
    if "length xs = length ts - i" "\<forall>x \<in> set xs. fst x \<noteq> 0x12345" for xs
  proof -
    have n: "i + length xs = length ts" "xs \<noteq> []" "(ts @ [c]) ! length ts = c" using that(1) i by auto
    have sl: "i + length xs \<le> length ts" "length ts < length (ts @ [c])" using n(1) by simp_all
    show ?thesis
      using time_slices_ahead [OF m(2) s'(1) sl that(2)] ne n(2) m(3,5)
      unfolding n(1,3) s'(7) same_task_def Let_def by (auto simp: fork_return_def)
  qed
  show ?thesis
    by (rule exI [of _ ?s']) (use fk m(2,4) s'(2-7) child in auto)
qed

theorem fork_returns_twice_witness:
  "\<exists>s'. fork 0 0x777 forking = Inr (1, s') \<and> queue_ok s' [0x1000, 0x2000, 0x3000, 0x203004]
     \<and> current_task (fold time_slice [(0x10, 1, 2), (0x20, 3, 4)] s') = 0x203004
     \<and> cpu_eip (fold time_slice [(0x10, 1, 2), (0x20, 3, 4)] s') = 0x777"
proof -
  let ?ts = "[0x1000, 0x2000, 0x3000] :: u32 list"
  let ?s2 = "(cli forking)\<lparr>ram := fork_directory, placement_address := 0x203020\<rparr>"
  let ?s3 = "(make_task 0x203004 0x201000 ?s2)\<lparr>placement_address := 0x204800\<rparr>"
  have q: "queue_ok forking ?ts" using three_tasking_ok [of "0x2000"] by (simp add: queue_ok_def forking_def)
  have cur: "current_task forking = ?ts ! 1" "1 < length ?ts" by (simp_all add: forking_def three_tasking_def)
  have st: "kmalloc_a 0 KERNEL_STACK_SIZE (make_task 0x203004 0x201000 ?s2) = Inr (0x204000, ?s3)"
    by (simp add: kmalloc_a_def kmalloc_int_def kmalloc_placement_def placement_start_def forking_def three_tasking_def
        zero_tasking_def cli_def KERNEL_STACK_SIZE_def make_task_def upd_ram_def Let_def)
  have ap: "tasks_apart (?ts @ [0x203004])" by (simp add: tasks_apart_def task_room_def)
  have k1: "same_tasks ?ts (ram forking) (ram ?s2)"
    by (simp add: same_tasks_def same_task_def saved_def task_fields fork_directory_reads forking_def three_tasking_def)
  have k2: "same_tasks (?ts @ [0x203004]) (ram (make_task 0x203004 0x201000 ?s2)) (ram ?s3)"
    by (simp add: same_tasks_def same_task_def)
  obtain s' where s': "fork 0 0x777 forking = Inr (next_pid forking, s')" "queue_ok s' (?ts @ [0x203004])"
      "\<forall>xs. length xs = length ?ts - 1 \<and> (\<forall>x \<in> set xs. fst x \<noteq> 0x12345) \<longrightarrow>
        current_task (fold time_slice xs s') = 0x203004 \<and> cpu_eip (fold time_slice xs s') = 0x777"
    using fork_returns_twice [OF q cur forking_allocates st ap k1 k2, of "0x777"] unfolding Let_def by auto
  moreover have "next_pid forking = 1" by (simp add: forking_def three_tasking_def zero_tasking_def)
  ultimately show ?thesis
    using s'(3) [rule_format, of "[(0x10, 1, 2), (0x20, 3, 4)]"] by (intro exI [of _ s']) simp
qed

section \<open>Exiting\<close>

lemma screen_put_tasking [simp]:
  "current_task (screen_put c s) = current_task s" "ready_queue (screen_put c s) = ready_queue s"
  by (simp_all add: screen_put_def scroll_def move_cursor_def port_simps)

lemma screen_write_tasking [simp]:
  "current_task (screen_write cs s) = current_task s" "ready_queue (screen_write cs s) = ready_queue s"
  by (induction cs arbitrary: s) simp_all

lemma screen_hex_loop_tasking [simp]:
  "current_task (screen_hex_loop is n z s) = current_task s" "ready_queue (screen_hex_loop is n z s) = ready_queue s"
  "ram (screen_hex_loop is n z s) = ram s"
  by (induction "is" n z s rule: screen_hex_loop.induct) (simp_all add: Let_def)

lemma screen_numbers_tasking [simp]:
  "current_task (screen_write_hex n s) = current_task s" "ready_queue (screen_write_hex n s) = ready_queue s"
  "current_task (screen_write_dec n s) = current_task s" "ready_queue (screen_write_dec n s) = ready_queue s"
  "ram (screen_write_hex n s) = ram s" "ram (screen_write_dec n s) = ram s"
  unfolding screen_write_hex_def screen_write_dec_def
  by (simp_all only: screen_put_tasking screen_hex_loop_tasking screen_write_tasking screen_put_ram screen_write_ram
      split: if_split) simp_all

lemma exit_message_fields [simp]:
  "current_task (exit_message s) = current_task s" "ready_queue (exit_message s) = ready_queue s"
  "ram (exit_message s) = ram s"
  by (simp_all add: exit_message_def Let_def)

lemma exit_step_fields [simp]:
  "current_task (exit_step t s) = current_task s" "ready_queue (exit_step t s) = ready_queue s"
  "ram (exit_step t s) = set_task_next t (task_next (ram s) (current_task s)) (ram s)"
  by (simp_all add: exit_step_def Let_def)

lemma exit_loop_spins:
  assumes "t = current_task s" and "task_next (ram s) t \<noteq> 0"
  shows "exit_loop n t s = Inl No_return"
  using assms
proof (induction n arbitrary: s)
  case (Suc n)
  then have "exit_loop n t (exit_step t s) = Inl No_return" by (intro Suc.IH) simp_all
  with Suc.prems show ?case by (simp add: Let_def)
qed simp

text \<open>The state in which \<open>sys_exit\<close> enters its loop.\<close>

lemma sys_exit_start:
  "\<exists>s5. sys_exit n errno s = rbind (exit_loop n (ready_queue s) s5) (\<lambda>s6. Inr (sti s6))
    \<and> ram s5 = ram s \<and> current_task s5 = current_task s \<and> ready_queue s5 = ready_queue s"
proof -
  have f: "current_task (cli s) = current_task s" "ready_queue (cli s) = ready_queue s"
    by (simp_all add: cli_def)
  show ?thesis
    unfolding sys_exit_def Let_def f
    by (intro exI conjI, rule refl) (simp_all add: f)
qed

text \<open>C36: \<open>sys_exit\<close> never returns when the task at the head of the queue exits while others
  wait: the loop that should look for the predecessor of the exiting task never moves, so
  for no number of passes does it end.\<close>
theorem sys_exit_head_hangs:
  assumes "queue_ok s ts" and "current_task s = hd ts" and "1 < length ts"
  shows "sys_exit n errno s = Inl No_return"
proof -
  obtain s5 where s5: "sys_exit n errno s = rbind (exit_loop n (ready_queue s) s5) (\<lambda>s6. Inr (sti s6))"
      "ram s5 = ram s" "current_task s5 = current_task s" using sys_exit_start by blast
  have ok: "chain (ram s) ts" "tasks_apart ts" "ready_queue s = hd ts"
    using assms(1) by (simp_all add: queue_ok_def)
  have h: "hd ts = ts ! 0" and l: "0 < length ts" using assms(3) by (cases ts; auto)+
  have "task_next (ram s) (hd ts) = ts ! 1" using chain_next [OF ok(1) l] assms(3) h by simp
  moreover have "ts ! 1 \<noteq> 0" using tasks_apart_room [OF ok(2)] assms(3) by simp
  ultimately have "exit_loop n (ready_queue s) s5 = Inl No_return"
    using exit_loop_spins [of "ready_queue s" s5 n] ok(3) assms(2) s5(2,3) by simp
  with s5(1) show ?thesis by simp
qed

theorem sys_exit_head_hangs_witness: "\<forall>n. sys_exit n 0 (three_tasking 0x1000) = Inl No_return"
proof -
  have q: "queue_ok (three_tasking 0x1000) [0x1000, 0x2000, 0x3000]" by (rule three_tasking_ok) simp
  show ?thesis using sys_exit_head_hangs [OF q] by (simp add: three_tasking_def)
qed

text \<open>\<open>sys_exit\<close> of any other task drops every task between the head of the queue and the
  exiting one along with it. It returns, and afterwards the queue is the head followed by
  what came after the exiting task: only when the exiting task is second in the queue is it
  the only one removed.\<close>
theorem sys_exit_drops_predecessors:
  assumes "queue_ok s ts" and "current_task s = ts ! i" and "0 < i" and "i < length ts"
  shows "\<exists>s'. sys_exit (Suc n) errno s = Inr s' \<and> ready_queue s' = hd ts \<and> chain (ram s') (hd ts # drop (Suc i) ts)
    \<and> (removeAll (ts ! i) ts = hd ts # drop (Suc i) ts \<longleftrightarrow> i = 1)"
proof -
  obtain s5 where s5: "sys_exit (Suc n) errno s = rbind (exit_loop (Suc n) (ready_queue s) s5) (\<lambda>s6. Inr (sti s6))"
      "ram s5 = ram s" "current_task s5 = current_task s" "ready_queue s5 = ready_queue s"
    using sys_exit_start by blast
  have ok: "chain (ram s) ts" "tasks_apart ts" "ready_queue s = hd ts"
    using assms(1) by (simp_all add: queue_ok_def)
  have ne: "ts \<noteq> []" using assms(4) by auto
  then have h: "hd ts = ts ! 0" and l: "0 < length ts" by (simp_all add: hd_conv_nth)
  have d: "distinct ts" by (rule tasks_apart_distinct [OF ok(2)])
  then have cur: "ready_queue s \<noteq> current_task s"
    using assms(2-4) ok(3) h nth_eq_iff_index_eq [OF d l assms(4)] by simp
  let ?m = "set_task_next (hd ts) (task_next (ram s) (ts ! i)) (ram s)"
  have run: "exit_loop (Suc n) (ready_queue s) s5 = Inr (exit_step (ready_queue s) s5)"
    using cur s5(3) by (simp add: Let_def)
  have keep: "task_next ?m (ts ! j) = task_next (ram s) (ts ! j)" if "0 < j" "j < length ts" for j
    using set_task_next_next [of "hd ts" "ts ! j"] tasks_apart_nth [OF ok(2), of 0 j] that h
      tasks_apart_room [OF ok(2), of "hd ts"] tasks_apart_room [OF ok(2), of "ts ! j"] ne by auto
  have "chain ?m (hd ts # drop (Suc i) ts)"
  proof (rule chainI)
    show "\<forall>t \<in> set (hd ts # drop (Suc i) ts). t \<noteq> 0"
      using tasks_apart_room [OF ok(2)] ne by (auto dest: in_set_dropD)
    fix j assume j: "j < length (hd ts # drop (Suc i) ts)"
    show "task_next ?m ((hd ts # drop (Suc i) ts) ! j)
        = (if Suc j < length (hd ts # drop (Suc i) ts) then (hd ts # drop (Suc i) ts) ! Suc j else 0)"
    proof (cases j)
      case 0
      then show ?thesis using chain_next [OF ok(1) assms(4)] assms(4) by simp
    next
      case (Suc k)
      then have k: "Suc i + k < length ts" using j by simp
      then show ?thesis using Suc keep [of "Suc i + k"] chain_next [OF ok(1) k] by auto
    qed
  qed simp
  moreover have "removeAll (ts ! i) ts = hd ts # drop (Suc i) ts \<longleftrightarrow> i = 1"
  proof -
    have "ts = take i ts @ ts ! i # drop (Suc i) ts" by (rule id_take_nth_drop [OF assms(4)])
    moreover have "ts ! i \<notin> set (take i ts)" "ts ! i \<notin> set (drop (Suc i) ts)"
      using d calculation by (metis distinct_append distinct.simps(2) disjoint_iff list.set_intros(1))+
    ultimately have "removeAll (ts ! i) ts = take i ts @ drop (Suc i) ts"
      by (metis removeAll.simps(2) removeAll_append removeAll_id)
    moreover have "take i ts @ drop (Suc i) ts = hd ts # drop (Suc i) ts \<longleftrightarrow> i = 1"
    proof
      assume "take i ts @ drop (Suc i) ts = hd ts # drop (Suc i) ts"
      then have "length (take i ts @ drop (Suc i) ts) = length (hd ts # drop (Suc i) ts)" by (rule arg_cong)
      then show "i = 1" using assms(4) by simp
    next
      assume "i = 1"
      then show "take i ts @ drop (Suc i) ts = hd ts # drop (Suc i) ts" using ne by (cases ts) simp_all
    qed
    ultimately show ?thesis by simp
  qed
  ultimately show ?thesis
    using s5 run ok(3) assms(2)
    by (intro exI [of _ "sti (exit_step (ready_queue s) s5)"]) (simp add: sti_def)
qed

theorem sys_exit_drops_predecessors_witness:
  "\<exists>s'. sys_exit 1 0 (three_tasking 0x3000) = Inr s' \<and> chain (ram s') [0x1000]"
proof -
  have q: "queue_ok (three_tasking 0x3000) [0x1000, 0x2000, 0x3000]" by (rule three_tasking_ok) simp
  have "current_task (three_tasking 0x3000) = [0x1000, 0x2000, 0x3000] ! 2" by (simp add: three_tasking_def)
  from sys_exit_drops_predecessors [OF q this, of 0 0] show ?thesis by auto
qed

end
