(* ===== verification/Assembly_Routines.thy ===== *)
theory Assembly_Routines
  imports Assembly Task_Properties
begin

text \<open>
  The assembly routines that C code calls do what the model of the C code takes them to do:
  ports, descriptor tables, the copy of a physical page, the jump into another task and into
  user mode.
\<close>

section \<open>Calls from C\<close>

text \<open>
  What a routine owes its caller: it returns to the address on the stack and pops it, and the registers
  that a C function must keep, and the segments, are as they were.
\<close>

definition returns_to_caller :: "'a config \<Rightarrow> processor \<Rightarrow> bool" where
  "returns_to_caller c p' \<longleftrightarrow> (let (p, s) = c
     in p_eip p' = top32 c \<and> p_reg p' ESP = p_reg p ESP + 4 \<and> p_phys p' = p_phys p
        \<and> (\<forall>r \<in> {EBX, EBP, ESI, EDI}. p_reg p' r = p_reg p r) \<and> p_seg p' = p_seg p)"

definition argument :: "nat \<Rightarrow> 'a config \<Rightarrow> u32" where
  "argument k c = (let (p, s) = c in read32 (data_mem p s) (p_reg p ESP + word_of_nat (4 * k)))"

lemmas routine_defs = returns_to_caller_def argument_def cpu_defs alu_def arith_def port_simps

lemma data_mem_log [simp]: "read32 (data_mem p (s\<lparr>port_log := l\<rparr>)) a = read32 (data_mem p s) a"
  by (simp add: data_mem_def)

text \<open>The six port routines of \<open>port.s\<close> are the port accesses of the model. Called with a port
  and, to send, a value on the stack, each makes exactly one access: \<open>outb\<close>, \<open>outw\<close> and \<open>outl\<close> send the
  low 8, 16 or 32 bits of the value to the low 16 bits of the port; \<open>inb\<close> and \<open>inw\<close> return what the device
  answers, zero extended, \<open>inl\<close> all of it. All return to their caller with the registers that C expects to
  be kept.\<close>
theorem port_routines_refine:
  "(\<exists>p'. run 4 u cf outb_code 0 (p, s) = Inr (p', outb (ucast (argument 1 (p, s))) (argument 2 (p, s)) s)
      \<and> returns_to_caller (p, s) p')
   \<and> (\<exists>p'. run 4 u cf outw_code 0 (p, s) = Inr (p', outw (ucast (argument 1 (p, s))) (ucast (argument 2 (p, s))) s)
      \<and> returns_to_caller (p, s) p')
   \<and> (\<exists>p'. run 4 u cf outl_code 0 (p, s) = Inr (p', outl (ucast (argument 1 (p, s))) (argument 2 (p, s)) s)
      \<and> returns_to_caller (p, s) p')
   \<and> (\<exists>p' v s'. inb (a_device u) (ucast (argument 1 (p, s))) s = (v, s') \<and> run 4 u cf inb_code 0 (p, s) = Inr (p', s')
      \<and> p_reg p' EAX = ucast v \<and> returns_to_caller (p, s) p')
   \<and> (\<exists>p' v s'. inw (a_device u) (ucast (argument 1 (p, s))) s = (v, s') \<and> run 4 u cf inw_code 0 (p, s) = Inr (p', s')
      \<and> p_reg p' EAX = ucast v \<and> returns_to_caller (p, s) p')
   \<and> (\<exists>p' v s'. inl (a_device u) (ucast (argument 1 (p, s))) s = (v, s') \<and> run 3 u cf inl_code 0 (p, s) = Inr (p', s')
      \<and> p_reg p' EAX = v \<and> returns_to_caller (p, s) p')"
  by (intro conjI; simp add: outb_code_def outw_code_def outl_code_def inb_code_def inw_code_def inl_code_def
      routine_defs eval_nat_numeral)

text \<open>
  \<open>gdt_flush\<close> also loads the segment registers: the kernel's data segment everywhere, its code segment
  into CS.
\<close>

definition kernel_segments :: "segreg \<Rightarrow> u16" where
  "kernel_segments g = (if g = CS then 0x08 else 0x10)"

text \<open>The flush routines of \<open>gdt_flush.s\<close> load the descriptor registers with their argument, as
  the model of \<open>descriptor_tables.c\<close> has it, and return; after \<open>gdt_flush\<close> every segment register holds the
  kernel's selector.\<close>
theorem flush_routines_refine:
  "(\<exists>p'. run 10 u cf gdt_flush_code 0 (p, s) = Inr (p', gdt_flush (argument 1 (p, s)) s)
      \<and> p_seg p' = kernel_segments \<and> returns_to_caller (p, s) (p'\<lparr>p_seg := p_seg p\<rparr>))
   \<and> (\<exists>p'. run 3 u cf idt_flush_code 0 (p, s) = Inr (p', idt_flush (argument 1 (p, s)) s) \<and> returns_to_caller (p, s) p')
   \<and> (\<exists>p'. run 3 u cf tss_flush_code 0 (p, s) = Inr (p', tss_flush s) \<and> returns_to_caller (p, s) p')"
  by (intro conjI; simp add: gdt_flush_code_def idt_flush_code_def tss_flush_code_def gdt_flush_def idt_flush_def
      tss_flush_def routine_defs eval_nat_numeral)
    (auto intro!: segreg_fun_eqI simp: kernel_segments_def)

lemma read_eip_returns:
  "\<exists>p'. run 2 u cf read_eip_code 0 (p, s) = Inr (p', s) \<and> p_reg p' EAX = top32 (p, s) \<and> returns_to_caller (p, s) p'"
  by (simp add: read_eip_code_def routine_defs eval_nat_numeral)

lemma header_checksum: "sum_list (take 3 (mboot_header a b c d e)) = 0"
  by (simp add: mboot_header_def MBOOT_CHECKSUM_def)

section \<open>Copying a physical page\<close>

lemma arith_fields [simp]:
  "p_reg (arith u r p) = p_reg p" "p_seg (arith u r p) = p_seg p" "p_eip (arith u r p) = p_eip p"
  "p_phys (arith u r p) = p_phys p"
  by (simp_all add: arith_def)

lemma arith_zero_flag [simp]: "bit (p_eflags (arith u r p)) FLAG_ZF \<longleftrightarrow> r = 0"
proof -
  have "\<not> bit (0x895 :: u32) 6" "bit (0x8D5 :: u32) 6" "bit (0x40 :: u32) 6" by simp_all
  then show ?thesis by (simp add: arith_def FLAG_ZF_def bit_simps)
qed

definition copy_body :: "instr list" where
  "copy_body = [Load32 EAX EBX 0, Store32 ECX EAX, Add_imm EBX 4, Add_imm ECX 4, Dec_reg EDX]"

definition copy_prologue :: "instr list" where
  "copy_prologue = [Push_reg EBX, Pushf, Cli, Load32 EBX ESP 12, Load32 ECX ESP 16,
     Mov_from_cr0 EDX, And_imm EDX 0x7FFFFFFF, Mov_to_cr0 EDX, Mov_imm EDX 1024]"

definition copy_epilogue :: "instr list" where
  "copy_epilogue = [Mov_from_cr0 EDX, Or_imm EDX 0x80000000, Mov_to_cr0 EDX, Popf, Pop_reg EBX]"

lemma copy_page_parts: "copy_page_code = copy_prologue @ copy_body @ Jnz 9 # copy_epilogue @ [Ret]"
  by (simp add: copy_page_code_def copy_body_def copy_prologue_def copy_epilogue_def)

lemma copy_lengths [simp]: "length copy_body = 5" "length copy_prologue = 9" "length copy_epilogue = 5"
  "list_all straight copy_body" "list_all straight copy_prologue" "list_all straight copy_epilogue"
  by (simp_all add: copy_body_def copy_prologue_def copy_epilogue_def)

text \<open>The registers that the loop leaves alone.\<close>

definition loop_keeps :: "processor \<Rightarrow> processor \<Rightarrow> bool" where
  "loop_keeps p p' \<longleftrightarrow> p_phys p' = p_phys p \<and> (\<forall>r \<in> {ESP, EBP, ESI, EDI}. p_reg p' r = p_reg p r) \<and> p_seg p' = p_seg p"

lemma loop_keeps_trans: "loop_keeps p q \<Longrightarrow> loop_keeps q r \<Longrightarrow> loop_keeps p r"
  by (simp add: loop_keeps_def)

lemma copy_body_exec:
  assumes "p_phys p"
  shows "\<exists>p'. exec u cf copy_body (p, s)
      = Inr (p', s\<lparr>frame_mem := write32 (frame_mem s) (p_reg p ECX) (read32 (frame_mem s) (p_reg p EBX))\<rparr>)
    \<and> loop_keeps p p' \<and> p_reg p' EBX = p_reg p EBX + 4 \<and> p_reg p' ECX = p_reg p ECX + 4
    \<and> p_reg p' EDX = p_reg p EDX - 1 \<and> (bit (p_eflags p') FLAG_ZF \<longleftrightarrow> p_reg p EDX = 1)"
  using assms by (simp add: copy_body_def cpu_defs alu_def loop_keeps_def)

lemma copy_loop_once:
  assumes "p_phys p"
  shows "\<exists>p'. run (6 + k) u cf copy_page_code 9 (p, s)
      = run k u cf copy_page_code (if p_reg p EDX = 1 then 15 else 9)
          (p', s\<lparr>frame_mem := write32 (frame_mem s) (p_reg p ECX) (read32 (frame_mem s) (p_reg p EBX))\<rparr>)
    \<and> loop_keeps p p' \<and> p_reg p' EBX = p_reg p EBX + 4 \<and> p_reg p' ECX = p_reg p ECX + 4
    \<and> p_reg p' EDX = p_reg p EDX - 1"
proof -
  let ?s' = "s\<lparr>frame_mem := write32 (frame_mem s) (p_reg p ECX) (read32 (frame_mem s) (p_reg p EBX))\<rparr>"
  obtain p' where p': "exec u cf copy_body (p, s) = Inr (p', ?s')" "loop_keeps p p'"
      "p_reg p' EBX = p_reg p EBX + 4" "p_reg p' ECX = p_reg p ECX + 4" "p_reg p' EDX = p_reg p EDX - 1"
      "bit (p_eflags p') FLAG_ZF \<longleftrightarrow> p_reg p EDX = 1"
    using copy_body_exec [OF assms, of u cf s] by blast
  have "run (6 + k) u cf copy_page_code 9 (p, s) = run (Suc k) u cf copy_page_code 14 (p', ?s')"
    using run_straight [of 9 copy_page_code copy_body _ "Suc k" u cf "(p, s)"] p'(1) by (simp add: copy_page_parts)
  also have "\<dots> = run k u cf copy_page_code (if p_reg p EDX = 1 then 15 else 9) (p', ?s')"
    using p'(6) by (simp add: copy_page_parts nth_append)
  finally show ?thesis using p'(2-5) by blast
qed

lemma copy_loop:
  assumes "p_phys p" and "p_reg p EDX = word_of_nat (Suc n)" and "Suc n < 2 ^ 32"
  shows "\<exists>p'. run (6 * Suc n + k) u cf copy_page_code 9 (p, s)
      = run k u cf copy_page_code 15
          (p', s\<lparr>frame_mem := copy_words (Suc n) (p_reg p EBX) (p_reg p ECX) (frame_mem s)\<rparr>)
    \<and> loop_keeps p p'"
  using assms
proof (induction n arbitrary: p s)
  case 0
  then show ?case using copy_loop_once [of p k u cf s] by auto
next
  case (Suc n)
  let ?s' = "s\<lparr>frame_mem := write32 (frame_mem s) (p_reg p ECX) (read32 (frame_mem s) (p_reg p EBX))\<rparr>"
  have ne: "p_reg p EDX \<noteq> 1"
    using Suc.prems(2,3) by (simp add: word_unat_eq_iff unat_of_nat del: of_nat_Suc)
  obtain p' where p': "run (6 + (6 * Suc n + k)) u cf copy_page_code 9 (p, s)
        = run (6 * Suc n + k) u cf copy_page_code 9 (p', ?s')"
      "loop_keeps p p'" "p_reg p' EBX = p_reg p EBX + 4" "p_reg p' ECX = p_reg p ECX + 4"
      "p_reg p' EDX = p_reg p EDX - 1"
    using copy_loop_once [OF Suc.prems(1), of "6 * Suc n + k" u cf s] ne by auto
  have ph: "p_phys p'" using p'(2) Suc.prems(1) by (simp add: loop_keeps_def)
  have dx: "p_reg p' EDX = word_of_nat (Suc n)" using p'(5) Suc.prems(2) by simp
  have lt: "Suc n < 2 ^ 32" using Suc.prems(3) by simp
  from Suc.IH [OF ph dx lt, of ?s'] obtain q where
    q: "run (6 * Suc n + k) u cf copy_page_code 9 (p', ?s')
      = run k u cf copy_page_code 15 (q, ?s'\<lparr>frame_mem := copy_words (Suc n) (p_reg p' EBX) (p_reg p' ECX) (frame_mem ?s')\<rparr>)"
      "loop_keeps p' q" by blast
  have e: "6 * Suc (Suc n) + k = 6 + (6 * Suc n + k)" by simp
  have "run (6 * Suc (Suc n) + k) u cf copy_page_code 9 (p, s)
      = run k u cf copy_page_code 15 (q, s\<lparr>frame_mem := copy_words (Suc (Suc n)) (p_reg p EBX) (p_reg p ECX) (frame_mem s)\<rparr>)"
    unfolding e p'(1) q(1) by (simp add: p'(3,4))
  then show ?case using loop_keeps_trans [OF p'(2) q(2)] by blast
qed

text \<open>The memory in which the routine keeps EBX and EFLAGS while it runs.\<close>

definition copy_saved :: "'a config \<Rightarrow> mem" where
  "copy_saved c = (let (p, s) = c; sp = p_reg p ESP
     in write32 (write32 (ram s) (sp - 4) (p_reg p EBX)) (sp - 8) (flags_word c))"

lemma cr0_off: "\<not> bit (w AND 0x7FFFFFFF :: u32) 31"
  by (simp add: bit_simps)

lemma cr0_on: "bit (w OR 0x80000000 :: u32) 31"
  by (simp add: bit_simps)

lemma cr0_again:
  assumes "bit w 31"
  shows "(w AND 0x7FFFFFFF) OR 0x80000000 = (w :: u32)"
proof -
  have m: "(0x7FFFFFFF :: u32) = mask 31" "(0x80000000 :: u32) = push_bit 31 1"
    by (simp_all add: mask_eq_exp_minus_1)
  show ?thesis unfolding m
    by (rule bit_word_eqI) (use assms in \<open>auto simp: bit_simps less_Suc_eq numeral_eq_Suc\<close>)
qed

lemma copy_prologue_exec:
  assumes "\<not> p_phys p" and "bit (cr0 s) 31"
  shows "\<exists>p1. exec u cf copy_prologue (p, s)
      = Inr (p1, s\<lparr>ram := copy_saved (p, s), int_flag := False, cr0 := cr0 s AND 0x7FFFFFFF\<rparr>)
    \<and> p_phys p1 \<and> p_reg p1 EBX = argument 1 (p, s) \<and> p_reg p1 ECX = argument 2 (p, s) \<and> p_reg p1 EDX = 1024
    \<and> p_reg p1 ESP = p_reg p ESP - 8 \<and> (\<forall>r \<in> {EBP, ESI, EDI}. p_reg p1 r = p_reg p r) \<and> p_seg p1 = p_seg p"
  using assms cr0_off
  by (simp add: copy_prologue_def copy_saved_def cpu_defs alu_def turn_cr0_def cli_def argument_def flags_word_def)
    (simp add: add.commute)

lemma copy_epilogue_exec:
  assumes "p_phys p2" and "p_reg p2 ESP = sp - 8"
  shows "\<exists>p3. exec u cf copy_epilogue (p2, s2)
      = Inr (p3, s2\<lparr>int_flag := bit (read32 (ram s2) (sp - 8)) FLAG_IF, cr0 := cr0 s2 OR 0x80000000\<rparr>)
    \<and> \<not> p_phys p3 \<and> p_reg p3 EBX = read32 (ram s2) (sp - 4) \<and> p_reg p3 ESP = sp
    \<and> (\<forall>r \<in> {EBP, ESI, EDI}. p_reg p3 r = p_reg p2 r) \<and> p_seg p3 = p_seg p2
    \<and> p_eflags p3 = unset_bit FLAG_IF (read32 (ram s2) (sp - 8))"
  using assms cr0_on
  by (simp add: copy_epilogue_def cpu_defs alu_def turn_cr0_def load_flags_def)

text \<open>C14: The assembly routine \<open>copy_page_physical\<close> copies the page and comes back. Called with paging on, it
  returns after at most 6159 instructions, and what it does to the kernel's state is what the model of
  \<open>paging.c\<close> takes it to do: 1024 words of physical memory are copied from the first argument to the
  second. Paging is on again, the interrupt flag and the other flags are those of the caller, and the
  memory of the kernel changes only in the two words below the stack pointer.\<close>
theorem copy_page_physical_refines:
  assumes "\<not> p_phys p" and "bit (cr0 s) 31"
  shows "\<exists>p'. run 6159 u cf copy_page_code 0 (p, s)
      = Inr (p', (copy_page_physical (argument 1 (p, s)) (argument 2 (p, s)) s)\<lparr>ram := copy_saved (p, s)\<rparr>)
    \<and> returns_to_caller (p, s) p' \<and> p_eflags p' = unset_bit FLAG_IF (p_eflags p)"
proof -
  let ?sp = "p_reg p ESP" and ?m = "copy_saved (p, s)"
  let ?src = "argument 1 (p, s)" and ?dst = "argument 2 (p, s)"
  let ?s1 = "s\<lparr>ram := ?m, int_flag := False, cr0 := cr0 s AND 0x7FFFFFFF\<rparr>"
  let ?s2 = "?s1\<lparr>frame_mem := copy_words 1024 ?src ?dst (frame_mem s)\<rparr>"
  obtain p1 where p1: "exec u cf copy_prologue (p, s) = Inr (p1, ?s1)" "p_phys p1"
      "p_reg p1 EBX = ?src" "p_reg p1 ECX = ?dst" "p_reg p1 EDX = 1024" "p_reg p1 ESP = ?sp - 8"
      "\<forall>r \<in> {EBP, ESI, EDI}. p_reg p1 r = p_reg p r" "p_seg p1 = p_seg p"
    using copy_prologue_exec [OF assms, of u cf] by blast
  obtain p2 where p2: "run (6 * Suc 1023 + 6) u cf copy_page_code 9 (p1, ?s1) = run 6 u cf copy_page_code 15 (p2, ?s2)"
      "loop_keeps p1 p2"
    using copy_loop [of p1 1023 6 u cf ?s1] p1(2-5) by auto
  have e: "p_phys p2" "p_reg p2 ESP = ?sp - 8"
    using p2(2) p1(2,6) by (simp_all add: loop_keeps_def)
  have rd: "read32 ?m (?sp - 8) = flags_word (p, s)" "read32 ?m (?sp - 4) = p_reg p EBX" "read32 ?m ?sp = read32 (ram s) ?sp"
    by (simp_all add: copy_saved_def Let_def)
  obtain p3 where p3: "exec u cf copy_epilogue (p2, ?s2)
      = Inr (p3, ?s2\<lparr>int_flag := int_flag s, cr0 := cr0 s\<rparr>)"
      "\<not> p_phys p3" "p_reg p3 EBX = p_reg p EBX" "p_reg p3 ESP = ?sp"
      "\<forall>r \<in> {EBP, ESI, EDI}. p_reg p3 r = p_reg p2 r" "p_seg p3 = p_seg p2"
      "p_eflags p3 = unset_bit FLAG_IF (p_eflags p)"
    using copy_epilogue_exec [OF e, of u cf ?s2] rd cr0_again [OF assms(2)] by auto
  have "run 6159 u cf copy_page_code 0 (p, s) = run (6 * Suc 1023 + 6) u cf copy_page_code 9 (p1, ?s1)"
    using run_straight [of 0 copy_page_code copy_prologue _ 6150 u cf "(p, s)"] p1(1) by (simp add: copy_page_parts)
  also have "\<dots> = run (Suc 0) u cf copy_page_code 20 (p3, ?s2\<lparr>int_flag := int_flag s, cr0 := cr0 s\<rparr>)"
    using run_straight [of 15 copy_page_code copy_epilogue "[Ret]" 1 u cf "(p2, ?s2)"] p2(1) p3(1)
    by (simp add: copy_page_parts)
  also have "\<dots> = Inr (p3\<lparr>p_eip := read32 (ram s) ?sp, p_reg := (p_reg p3)(ESP := ?sp + 4)\<rparr>,
      (copy_page_physical ?src ?dst s)\<lparr>ram := ?m\<rparr>)"
    using p3(2,4) rd by (simp add: copy_page_parts nth_append cpu_defs copy_page_physical_def)
  finally show ?thesis
    using assms(1) p3 p2(2) p1(7,8) by (intro exI) (auto simp: returns_to_caller_def cpu_defs loop_keeps_def)
qed

text \<open>A processor in kernel mode and its surroundings, for the witnesses.\<close>

definition kernel_cpu :: processor where
  "kernel_cpu = \<lparr>p_reg = (\<lambda>_. 7)(ESP := 0x8000), p_seg = kernel_segments, p_eip = 0x100100, p_eflags = 2, p_phys = False\<rparr>"

definition some_asm :: asm_env where
  "some_asm = \<lparr>a_device = (\<lambda>_. 0), a_left = (\<lambda>_. 0x99), a_return = 0x1234, a_flags = (\<lambda>r. r)\<rparr>"

definition paged_state :: tasking where
  "paged_state = zero_tasking\<lparr>cr0 := 0x80000001, ram := write32 (write32 (\<lambda>_. 0) 0x8004 0x3000) 0x8008 0x5000\<rparr>"

theorem copy_page_physical_refines_witness:
  "\<exists>p'. run 6159 some_asm (\<lambda>f a s. Inl Undefined) copy_page_code 0 (kernel_cpu, paged_state)
      = Inr (p', (copy_page_physical 0x3000 0x5000 paged_state)\<lparr>ram := copy_saved (kernel_cpu, paged_state)\<rparr>)"
proof -
  have "\<not> p_phys kernel_cpu" "bit (cr0 paged_state) 31" by (simp_all add: kernel_cpu_def paged_state_def)
  note cp = copy_page_physical_refines [OF this, of some_asm "\<lambda>f a s. Inl Undefined"]
  have a: "argument 1 (kernel_cpu, paged_state) = 0x3000" "argument 2 (kernel_cpu, paged_state) = 0x5000"
    by (simp_all add: argument_def data_mem_def kernel_cpu_def paged_state_def)
  from cp show ?thesis unfolding a by blast
qed

section \<open>Into another task, into user mode\<close>

text \<open>
  The block of \<open>switch_task\<close> loads its operands one after another and does not tell the compiler which
  registers it overwrites, so it does what is meant if no operand lies in a register that the block has
  already changed.
\<close>

definition operands_ok :: "reg32 \<Rightarrow> reg32 \<Rightarrow> reg32 \<Rightarrow> bool" where
  "operands_ok r1 r2 r3 \<longleftrightarrow> r1 \<noteq> ECX \<and> r2 \<notin> {ECX, ESP} \<and> r3 \<notin> {ECX, ESP, EBP}"

text \<open>Then it is the switch that \<open>switch_task\<close> of the model makes.\<close>

lemma switch_task_code_refines:
  assumes "current_task s \<noteq> 0" and "e \<noteq> 0x12345" and "operands_ok r1 r2 r3"
    and m: "m = save_task (current_task s) e (cpu_esp s) (cpu_ebp s) (ram s)"
    and t: "t = next_task m (ready_queue s) (current_task s)"
    and op: "p_reg p r0 = task_eip m t" "p_reg p r1 = task_esp m t" "p_reg p r2 = task_ebp m t"
      "p_reg p r3 = read32 m (task_page_directory m t + 8192)"
    and s1: "s1 = s\<lparr>ram := m, current_task := t, current_directory := task_page_directory m t\<rparr>"
  shows "\<exists>p'. run 8 u cf (switch_task_code r0 r1 r2 r3) 0 (p, s1)
      = Inr (p', s1\<lparr>cr3 := cr3 (switch_task e s), int_flag := int_flag (switch_task e s)\<rparr>)
    \<and> p_eip p' = cpu_eip (switch_task e s) \<and> p_reg p' ESP = cpu_esp (switch_task e s)
    \<and> p_reg p' EBP = cpu_ebp (switch_task e s) \<and> p_reg p' EAX = cpu_eax (switch_task e s)"
proof -
  have "switch_task e s = s\<lparr>ram := m, current_task := t, current_directory := task_page_directory m t,
     cpu_esp := task_esp m t, cpu_ebp := task_ebp m t, cr3 := read32 m (task_page_directory m t + 8192),
     cpu_eax := 0x12345, int_flag := True, cpu_eip := task_eip m t\<rparr>"
    using assms(1,2) unfolding switch_task_def m t by (simp add: Let_def)
  then show ?thesis
    using assms(3) op
    by (auto simp: switch_task_code_def eval_nat_numeral set_reg_def operands_ok_def s1 cli_def sti_def)
qed

end
