(* ===== verification/Video.thy ===== *)
theory Video
  imports Machine
begin

text \<open>
  \<open>video.c\<close>: the registers of the VBE extensions, each behind an index port and a data port.
\<close>

definition VBE_DISPI_IOPORT_INDEX :: u16 where "VBE_DISPI_IOPORT_INDEX = 0x01CE"
definition VBE_DISPI_IOPORT_DATA :: u16 where "VBE_DISPI_IOPORT_DATA = 0x01CF"
definition VBE_DISPI_INDEX_XRES :: u16 where "VBE_DISPI_INDEX_XRES = 1"
definition VBE_DISPI_INDEX_YRES :: u16 where "VBE_DISPI_INDEX_YRES = 2"
definition VBE_DISPI_INDEX_BPP :: u16 where "VBE_DISPI_INDEX_BPP = 3"
definition VBE_DISPI_INDEX_ENABLE :: u16 where "VBE_DISPI_INDEX_ENABLE = 4"
definition VBE_DISPI_DISABLED :: u16 where "VBE_DISPI_DISABLED = 0"
definition VBE_DISPI_ENABLED :: u16 where "VBE_DISPI_ENABLED = 1"
definition VBE_DISPI_LFB_ENABLED :: u16 where "VBE_DISPI_LFB_ENABLED = 0x40"

lemmas vbe_consts =
  VBE_DISPI_IOPORT_INDEX_def VBE_DISPI_IOPORT_DATA_def VBE_DISPI_INDEX_XRES_def
  VBE_DISPI_INDEX_YRES_def VBE_DISPI_INDEX_BPP_def VBE_DISPI_INDEX_ENABLE_def
  VBE_DISPI_DISABLED_def VBE_DISPI_ENABLED_def VBE_DISPI_LFB_ENABLED_def

definition vbe_write :: "u16 \<Rightarrow> u16 \<Rightarrow> 'a machine_scheme \<Rightarrow> 'a machine_scheme" where
  "vbe_write idx val s = outw VBE_DISPI_IOPORT_DATA val (outw VBE_DISPI_IOPORT_INDEX idx s)"

definition vbe_read :: "device \<Rightarrow> u16 \<Rightarrow> 'a machine_scheme \<Rightarrow> u32 \<times> 'a machine_scheme" where
  "vbe_read dev idx s =
     (let (v, s1) = inw dev VBE_DISPI_IOPORT_DATA (outw VBE_DISPI_IOPORT_INDEX idx s) in (ucast v, s1))"

definition vbe_set :: "u16 \<Rightarrow> u16 \<Rightarrow> u16 \<Rightarrow> 'a machine_scheme \<Rightarrow> 'a machine_scheme" where
  "vbe_set xres yres bpp s =
     (let s1 = vbe_write VBE_DISPI_INDEX_ENABLE VBE_DISPI_DISABLED s;
          s2 = vbe_write VBE_DISPI_INDEX_XRES xres s1;
          s3 = vbe_write VBE_DISPI_INDEX_YRES yres s2;
          s4 = vbe_write VBE_DISPI_INDEX_BPP bpp s3
      in vbe_write VBE_DISPI_INDEX_ENABLE (VBE_DISPI_ENABLED OR VBE_DISPI_LFB_ENABLED) s4)"

definition video_set_resolution :: "u16 \<Rightarrow> u16 \<Rightarrow> u8 \<Rightarrow> 'a machine_scheme \<Rightarrow> 'a machine_scheme" where
  "video_set_resolution xres yres depth = vbe_set xres yres (ucast depth)"

text \<open>\<open>where\<close> is a \<open>u8\<close> in the source: only the low byte of the offset is used.\<close>

definition putpixel :: "u32 \<Rightarrow> u8 \<Rightarrow> u8 \<Rightarrow> u32 \<Rightarrow> mem \<Rightarrow> mem" where
  "putpixel screen x y color m =
     (let pos = ucast (ucast x * 4 + ucast y * 3200 :: u32) :: u8; a = screen + ucast pos
      in m(a := ucast (color AND 255), a + 1 := ucast (drop_bit 8 color AND 255),
           a + 2 := ucast (drop_bit 16 color AND 255)))"

definition draw_test_pattern :: "'a machine_scheme \<Rightarrow> 'a machine_scheme" where
  "draw_test_pattern s = s"

section \<open>The register file behind the ports\<close>

text \<open>What a display that follows the index and data protocol holds after a run of accesses.\<close>

fun vbe_regs :: "port_event list \<Rightarrow> u16 \<Rightarrow> (u16 \<Rightarrow> u16) \<Rightarrow> u16 \<times> (u16 \<Rightarrow> u16)" where
  "vbe_regs [] i r = (i, r)"
| "vbe_regs (Out16 p v # es) i r =
     (if p = VBE_DISPI_IOPORT_INDEX then vbe_regs es v r
      else if p = VBE_DISPI_IOPORT_DATA then vbe_regs es i (r(i := v))
      else vbe_regs es i r)"
| "vbe_regs (e # es) i r = vbe_regs es i r"

lemma vbe_regs_append: "vbe_regs (xs @ ys) i r = (let (j, q) = vbe_regs xs i r in vbe_regs ys j q)"
  by (induction xs i r rule: vbe_regs.induct) (simp_all del: fun_upd_apply)

end
