(* ===== verification/Console_Properties.thy ===== *)
theory Console_Properties
  imports Printk Kio Panic
begin

text \<open>
  What reaches the screen and the serial line: the frame buffer and the cursor stay within the
  screen through every operation, numbers are printed as they are or not, and formatted output
  arrives as a whole. The routines of \<open>io.c\<close> on strings and bytes in memory come first.
\<close>

section \<open>Bytes and strings in memory\<close>

lemma memcpy_effect:
  assumes "unat sp + unat len \<le> 2 ^ 32" and "unat dp + unat len \<le> 2 ^ 32"
    and "unat dp \<le> unat sp \<or> unat sp + unat len \<le> unat dp"
  shows "(\<forall>i < unat len. memcpy m dp sp len (dp + word_of_nat i) = m (sp + word_of_nat i))
    \<and> same_outside dp (unat len) m (memcpy m dp sp len)"
proof (intro conjI allI impI)
  note eq = memcpy_closed_form [OF assms, of m]
  fix i assume "i < unat len"
  moreover have "unat len < 2 ^ 32" using unat_u32_less [of len] by simp
  ultimately have "word_of_nat i < len" by (simp add: word_less_nat_alt unsigned_of_nat take_bit_nat_eq_self)
  then show "memcpy m dp sp len (dp + word_of_nat i) = m (sp + word_of_nat i)" by (simp add: eq)
next
  note eq = memcpy_closed_form [OF assms, of m]
  show "same_outside dp (unat len) m (memcpy m dp sp len)"
    using assms(2) unfolding eq
    by (auto simp: same_outside_def in_region_def word_less_nat_alt unat_sub_if' split: if_splits)
qed

text \<open>\<open>memcpy\<close> copies. For ranges that do not wrap and where the target does not lie above
  an overlapping source, every byte of the target becomes the byte of the source as it was
  before the call, and no other byte changes.\<close>
theorem memcpy_copies:
  assumes "unat sp + unat len \<le> 2 ^ 32" and "unat dp + unat len \<le> 2 ^ 32"
    and "unat dp \<le> unat sp \<or> unat sp + unat len \<le> unat dp"
  shows "(\<forall>i < unat len. memcpy m dp sp len (dp + word_of_nat i) = m (sp + word_of_nat i))
    \<and> same_outside dp (unat len) m (memcpy m dp sp len)"
  by (rule memcpy_effect [OF assms])

theorem memcpy_copies_witness: "memcpy (\<lambda>a. if a = 0x12 then 7 else 0) 0x20 0x10 4 0x22 = 7"
proof -
  have h: "unat (0x10 :: u32) + unat (4 :: u32) \<le> 2 ^ 32" "unat (0x20 :: u32) + unat (4 :: u32) \<le> 2 ^ 32"
    "unat (0x20 :: u32) \<le> unat (0x10 :: u32) \<or> unat (0x10 :: u32) + unat (4 :: u32) \<le> unat (0x20 :: u32)"
    by simp_all
  have "2 < unat (4 :: u32)" by simp
  with memcpy_copies [OF h, of "\<lambda>a. if a = 0x12 then 7 else 0"] show ?thesis by fastforce
qed

text \<open>\<open>strcmp\<close> decides equality of strings. On two NUL-terminated strings it ends, and returns
  0 exactly when they are equal and 1 otherwise (it never returns a negative value).\<close>
lemma strcmp_decides:
  assumes "cstr_at m p s" and "cstr_at m q t"
  shows "strcmp m p q = Some (if s = t then 0 else 1)"
proof -
  from strcmp_loop_cstr [of m p 0 s q t] assms obtain f j where
    "strcmp_loop m p q 0 = Some (f, j)" "f \<or> (m (p + j) = 0) \<noteq> (m (q + j) = 0) \<longleftrightarrow> s \<noteq> t" by auto
  then show ?thesis by (auto simp: strcmp_def)
qed

theorem strcmp_decides_witness:
  "strcmp (\<lambda>a. if a = 0x10 then 0x61 else if a = 0x20 then 0x61 else if a = 0x21 then 0x62 else 0) 0x10 0x20 = Some 1"
proof -
  let ?m = "\<lambda>a :: u32. if a = 0x10 then 0x61 else if a = 0x20 then 0x61 else if a = 0x21 then 0x62 else 0 :: u8"
  have "cstr_at ?m 0x10 [0x61]" "cstr_at ?m 0x20 [0x61, 0x62]" by simp_all
  from strcmp_decides [OF this] show ?thesis by simp
qed

text \<open>\<open>strcpy\<close> does not terminate the copy. For a non-empty string and a target apart from it,
  the characters arrive, but the byte behind them is whatever the memory held before, so the
  target is a string only if that byte happened to be NUL.\<close>
theorem strcpy_copies_without_NUL:
  assumes "cstr_at m src (c # s)"
    and "unat src + length (c # s) < 2 ^ 32" and "unat dest + length (c # s) < 2 ^ 32"
    and "unat dest + length (c # s) < unat src \<or> unat src + length (c # s) < unat dest"
  shows "\<exists>m'. strcpy m dest src = Some (m', dest + word_of_nat (length (c # s)))
     \<and> bytes_at m' dest (c # s) \<and> m' (dest + word_of_nat (length (c # s))) = m (dest + word_of_nat (length (c # s)))
     \<and> same_outside dest (length (c # s)) m m'"
proof -
  have "unat dest + length (c # s) \<le> 2 ^ 32"
    "unat dest + length (c # s) \<le> unat src \<or> unat src + length (c # s) < unat dest" using assms by auto
  from strcpy_cstr [OF assms(1,2) this] obtain m' where
    m': "strcpy m dest src = Some (m', dest + word_of_nat (length (c # s)))" "bytes_at m' dest (c # s)"
      "same_outside dest (length (c # s)) m m'" by blast
  have "unat (dest + word_of_nat (length (c # s))) = unat dest + length (c # s)"
    by (rule unat_add_small [OF assms(3)])
  then have "\<not> in_region dest (length (c # s)) (dest + word_of_nat (length (c # s)))"
    by (simp only: in_region_def) simp
  with m'(3) have "m' (dest + word_of_nat (length (c # s))) = m (dest + word_of_nat (length (c # s)))"
    unfolding same_outside_def by blast
  with m' show ?thesis by blast
qed

theorem strcpy_copies_without_NUL_witness:
  "\<exists>m'. strcpy (\<lambda>a. if a = 0x10 then 0x61 else if a = 0x11 then 0 else 0xFF) 0x20 0x10 = Some (m', 0x21)
     \<and> m' 0x20 = 0x61 \<and> m' 0x21 = 0xFF"
proof -
  let ?m = "\<lambda>a :: u32. if a = 0x10 then 0x61 else if a = 0x11 then 0 else 0xFF :: u8"
  have "cstr_at ?m 0x10 [0x61]" by simp
  from strcpy_copies_without_NUL [OF this, of "0x20"] show ?thesis by auto
qed

text \<open>C40: \<open>strcat\<close> cannot append. On a target that is not the empty string it never returns,
  since the search for the end writes a non-zero byte ahead of itself.\<close>
theorem strcat_never_returns:
  assumes "m dest \<noteq> 0"
  shows "strcat m dest src = None"
  using strcat_seek_returns [of m dest] assms by (cases "strcat_seek m dest") (auto simp: strcat_def)

theorem strcat_never_returns_witness: "strcat (\<lambda>a. if a = 0x10 then 0x61 else 0) 0x10 0x20 = None"
  by (rule strcat_never_returns) simp

section \<open>The screen\<close>

lemma screen_clear_ok:
  "screen_ok (screen_clear s)" "off_screen_same s (screen_clear s)"
proof -
  show "screen_ok (screen_clear s)" by (simp add: screen_ok_def screen_clear_def)
  have "fold (\<lambda>i v. v(i := blank_cell)) [0 .. 80 * 25 - 1] (video_memory s)
      = (\<lambda>j. if 0 \<le> j \<and> j < 2000 then blank_cell else video_memory s j)"
    using fold_blank [of blank_cell 0 2000 "video_memory s"] by simp
  then show "off_screen_same s (screen_clear s)" by (auto simp: off_screen_same_def screen_clear_def)
qed

lemma screen_write_hex_ok:
  assumes "screen_ok s"
  shows "screen_ok (screen_write_hex n s)" and "off_screen_same s (screen_write_hex n s)"
  unfolding screen_write_hex_eq [symmetric] using assms
  by (simp_all add: screen_write_ok screen_write_off_screen)

lemma screen_write_dec_off_screen:
  "screen_ok s \<Longrightarrow> off_screen_same s (screen_write_dec n s)"
  by (simp add: screen_write_dec_def screen_put_off_screen screen_write_off_screen)

text \<open>The states of the console: whatever its operations can reach from its initialisation.\<close>

inductive console_reach :: "screen \<Rightarrow> screen \<Rightarrow> bool" for s0 where
  Init: "console_reach s0 (initialize_screen s0)"
| Put: "console_reach s0 s \<Longrightarrow> console_reach s0 (screen_put c s)"
| Clear: "console_reach s0 s \<Longrightarrow> console_reach s0 (screen_clear s)"
| Write: "console_reach s0 s \<Longrightarrow> console_reach s0 (screen_write cs s)"
| Writeln: "console_reach s0 s \<Longrightarrow> console_reach s0 (screen_writeln cs s)"
| Hex: "console_reach s0 s \<Longrightarrow> console_reach s0 (screen_write_hex n s)"
| Dec: "console_reach s0 s \<Longrightarrow> console_reach s0 (screen_write_dec n s)"

text \<open>C24: The console is memory safe. In every state that the operations of \<open>screen.c\<close> reach from
  its initialisation, whatever is printed, the cursor is on the 80 by 25 screen, and no cell
  outside the 2000 of the frame buffer has been written.\<close>
theorem console_stays_on_screen:
  assumes "console_reach s0 s"
  shows "screen_ok s \<and> off_screen_same s0 s"
  using assms
proof induction
  case Init
  then show ?case by (simp add: initialize_screen_def screen_clear_ok)
next
  case (Clear s)
  then show ?case using screen_clear_ok off_screen_same_trans by blast
next
  case (Writeln s cs)
  then show ?case
    unfolding screen_writeln_def
    by (meson off_screen_same_trans screen_put_ok screen_put_off_screen screen_write_ok screen_write_off_screen)
qed (blast intro: off_screen_same_trans screen_put_ok screen_put_off_screen screen_write_ok
    screen_write_off_screen screen_write_hex_ok screen_write_dec_ok screen_write_dec_off_screen)+

definition blank_screen :: screen where
  "blank_screen = \<lparr>ram = (\<lambda>_. 0), port_log = [], int_flag = False, video_memory = (\<lambda>_. 0),
     cursor_x = 0, cursor_y = 0\<rparr>"

theorem console_stays_on_screen_witness:
  "screen_ok (screen_write_dec 1234 (screen_write [0x0A, 0x41] (initialize_screen blank_screen)))"
  using console_stays_on_screen [OF console_reach.Dec [OF console_reach.Write [OF console_reach.Init]]] by blast

lemma line_feed:
  "screen_put 0x0A s = move_cursor (scroll (s\<lparr>cursor_x := 0, cursor_y := cursor_y s + 1\<rparr>))"
  by (simp add: screen_put_def Let_def)

text \<open>A line feed on the last line scrolls. Every line moves up by one, the last line becomes
  blank, and the cursor goes to its start; on any other line a line feed only moves the
  cursor down.\<close>
theorem line_feed_scrolls:
  assumes "screen_ok s"
  shows "let s' = screen_put 0x0A s in
     cursor_x s' = 0 \<and> cursor_y s' = min 24 (cursor_y s + 1)
   \<and> (cursor_y s = 24 \<longrightarrow>
        (\<forall>y x. 0 \<le> y \<and> y < 24 \<and> 0 \<le> x \<and> x < 80 \<longrightarrow> video_memory s' (80 * y + x) = video_memory s (80 * (y + 1) + x))
      \<and> (\<forall>x. 0 \<le> x \<and> x < 80 \<longrightarrow> video_memory s' (80 * 24 + x) = blank_cell))
   \<and> (cursor_y s < 24 \<longrightarrow> video_memory s' = video_memory s)"
  using assms unfolding Let_def line_feed by (auto simp: scroll_memory screen_ok_def fun_eq_iff algebra_simps)

theorem line_feed_scrolls_witness:
  "video_memory (screen_put 0x0A (blank_screen\<lparr>cursor_y := 24, video_memory := (\<lambda>j. if j = 85 then 7 else 0)\<rparr>)) 5 = 7"
proof -
  let ?s = "blank_screen\<lparr>cursor_y := 24, video_memory := (\<lambda>j. if j = 85 then 7 else 0)\<rparr>"
  have "screen_ok ?s" by (simp add: screen_ok_def blank_screen_def)
  from line_feed_scrolls [OF this] have
    "\<forall>y x. 0 \<le> y \<and> y < 24 \<and> 0 \<le> x \<and> x < 80 \<longrightarrow> video_memory (screen_put 0x0A ?s) (80 * y + x) = video_memory ?s (80 * (y + 1) + x)"
    by (simp add: Let_def)
  from this [rule_format, of 0 5] show ?thesis by simp
qed

section \<open>Numbers\<close>



text \<open>\<open>printk\<close> prints only the low seven bits of a number in decimal. \<open>u32_to_dec\<close> copies the
  number into a signed \<open>char\<close>: what it prints has the value of the low byte when that is
  below 128, and is the empty string when the low byte is 128 or more, or is 0 while the
  number is not.\<close>
theorem u32_to_dec_truncates:
  "dec_value (u32_to_dec n) = (if unat n mod 256 < 128 then unat n mod 256 else 0)
   \<and> (n \<noteq> 0 \<and> (unat n mod 256 = 0 \<or> 128 \<le> unat n mod 256) \<longrightarrow> u32_to_dec n = [])"
  using u32_to_dec_value [of n] by (auto simp: u32_to_dec_def sint_low_byte char_digits_nonpos)

theorem u32_to_dec_truncates_witness: "u32_to_dec 200 = [] \<and> dec_value (u32_to_dec 1027) = 3"
  using u32_to_dec_truncates [of 200] u32_to_dec_truncates [of 1027] by simp

section \<open>Formatted output\<close>

lemma screen_put_serial [simp]: "sent8 PORT (port_log (screen_put c s)) = sent8 PORT (port_log s)"
proof -
  have m: "sent8 PORT (port_log (move_cursor t)) = sent8 PORT (port_log t)" for t :: "'a screen_scheme"
    by (simp add: move_cursor_def port_simps PORT_def)
  have l: "port_log (scroll t) = port_log t" for t :: "'a screen_scheme" by (simp add: scroll_def Let_def)
  show ?thesis by (simp add: screen_put_def Let_def m l)
qed

lemma screen_write_serial [simp]: "sent8 PORT (port_log (screen_write cs s)) = sent8 PORT (port_log s)"
  by (induction cs arbitrary: s) simp_all

lemma char_digits_no_NUL: "0 \<notin> set (char_digits acc)"
proof (induction acc rule: char_digits.induct)
  case (1 acc)
  have "(word_of_int (0x30 + acc mod 10) :: u8) \<noteq> 0" if "0 < acc"
  proof
    assume "(word_of_int (0x30 + acc mod 10) :: u8) = 0"
    then have "unat (word_of_int (0x30 + acc mod 10) :: u8) = 0" by simp
    then show False unfolding char_digit_value [OF that] by simp
  qed
  with 1 show ?case by (simp add: char_digits.simps [of acc] del: of_int_add)
qed

lemma u32_to_dec_no_NUL: "0 \<notin> set (u32_to_dec n)"
  by (simp add: u32_to_dec_def char_digits_no_NUL)

lemma hex_loop_no_NUL: "0 \<notin> set (hex_loop is n z)"
proof (induction "is" n z rule: hex_loop.induct)
  case (2 i "is" n z)
  then show ?case
    using hex_char_nonzero [of "drop_bit i n"] hex_char_nibble [of "drop_bit i n"]
    by (auto simp: Let_def)
qed simp

lemma u32_to_hex_no_NUL: "0 \<notin> set (u32_to_hex n)"
  using hex_loop_no_NUL [of "[28, 24, 20, 16, 12, 8, 4]" n True] hex_char_nonzero [of n] hex_char_nibble [of n]
  by (auto simp: u32_to_hex_def lit_def simp del: hex_loop.simps)

lemma directive_no_NUL:
  assumes "directive d args = Inr (piece, args')" and "d \<noteq> 0"
  shows "0 \<notin> set piece"
proof -
  have lits: "0 \<notin> set (lit ''true'')" "0 \<notin> set (lit ''false'')" "0 \<notin> set (lit ''->'')"
    "0 \<notin> set (lit ''NUL'')" "0 \<notin> set (lit ''%'')" by (simp_all add: lit_def)
  show ?thesis
    using assms lits u32_to_dec_no_NUL u32_to_hex_no_NUL
    unfolding directive_def
    by (auto simp: fault_simps dest: set_takeWhileD split: if_splits)
qed

lemma sprintk_loop_no_NUL:
  "sprintk_loop n i fmt args out = Inr res \<Longrightarrow> 0 \<notin> set out \<Longrightarrow> 0 \<notin> set res"
proof (induction n i fmt args out rule: sprintk_loop.induct)
  case (3 n i c d fmt args out)
  show ?case
  proof (cases "c = of_char (CHR ''%'') \<and> d \<noteq> 0")
    case True
    then show ?thesis
      using 3 directive_no_NUL by (fastforce simp: fault_simps split: if_splits)
  next
    case False
    then show ?thesis using 3 by (auto split: if_splits)
  qed
qed (auto split: if_splits)

lemma printk_delivers:
  assumes "transmitter_alive dev k" and "sprintk 1024 (lit fmt) args = Inr (text @ [0])" and "length text < 1024"
  shows "\<exists>es. printk dev fmt args s = Inr ((screen_write text s)\<lparr>port_log := es\<rparr>)
    \<and> sent8 PORT es = sent8 PORT (port_log s) @ text"
proof -
  have "sprintk_loop 1024 0 (lit fmt) args [] = Inr text"
    using assms(2) by (auto simp: sprintk_def fault_simps)
  then have nn: "0 \<notin> set text" by (rule sprintk_loop_no_NUL) simp
  have w: "screen_write (text @ [0]) s = screen_write text s"
    using screen_write_append [OF nn, of "[0]" s] by simp
  have "serial_write dev (text @ [0]) t = serial_write dev text t" for t :: "'a screen_scheme"
    using ser.puts_stops [of dev "text" "[]" t] by simp
  moreover obtain es where "serial_write dev text (screen_write text s) = Some ((screen_write text s)\<lparr>port_log := es\<rparr>)"
      "sent8 PORT es = sent8 PORT (port_log (screen_write text s)) @ text"
    using serial_write_sends [OF assms(1) nn, of "screen_write text s"] by blast
  ultimately show ?thesis
    using assms(2,3) w by (auto simp: printk_def)
qed

text \<open>C26: \<open>printk\<close> delivers its output whole, to both consoles. If the formatted text fits the
  buffer and the serial transmitter keeps getting ready, \<open>printk\<close> returns, exactly the bytes
  of the text have been sent on the serial line, in order, and the screen shows the text as
  \<open>screen_write\<close> prints it; memory is unchanged.\<close>
theorem printk_reaches_both_consoles:
  assumes "transmitter_alive dev k" and "sprintk 1024 (lit fmt) args = Inr (text @ [0])" and "length text < 1024"
  shows "\<exists>s'. printk dev fmt args s = Inr s' \<and> sent8 PORT (port_log s') = sent8 PORT (port_log s) @ text
    \<and> video_memory s' = video_memory (screen_write text s) \<and> cursor_x s' = cursor_x (screen_write text s)
    \<and> cursor_y s' = cursor_y (screen_write text s) \<and> ram s' = ram s"
  using printk_delivers [OF assms, of s] by auto

theorem printk_reaches_both_consoles_witness:
  "\<exists>s'. printk (\<lambda>_. 0x20) ''%x %s'' [VInt 0x2A, VStr [0x6F, 0x6B]] blank_screen = Inr s'
     \<and> sent8 PORT (port_log s') = lit ''0x2a ok''"
proof -
  have alive: "transmitter_alive (\<lambda>_. 0x20) 1" by (simp add: transmitter_alive_def)
  have out: "sprintk 1024 (lit ''%x %s'') [VInt 0x2A, VStr [0x6F, 0x6B]] = Inr (lit ''0x2a ok'' @ [0])"
    by code_simp
  have "length (lit ''0x2a ok'') < 1024" by (simp add: lit_def)
  from printk_reaches_both_consoles [OF alive out this, of blank_screen] show ?thesis
    by (auto simp: blank_screen_def)
qed

text \<open>\<open>printk\<close> overruns its buffer. The bound that \<open>printk\<close> passes limits the position in the
  format, not the output: a string argument of 1024 bytes or more is copied past the end of
  the 1024-byte array, so the call has no defined result.\<close>
theorem printk_long_string_overruns:
  assumes "0 \<notin> set str" and "1024 \<le> length str"
  shows "printk dev ''%s'' [VStr str] s = Inl Undefined"
proof -
  have l: "lit ''%s'' = [0x25, 0x73]" "(of_char CHR ''%'' :: u8) = 0x25" "(of_char CHR ''s'' :: u8) = 0x73"
    by (simp_all add: lit_def)
  have "takeWhile (\<lambda>c. c \<noteq> 0) str = str" using assms(1) by (auto simp: takeWhile_eq_all_conv)
  then have "sprintk 1024 (lit ''%s'') [VStr str] = Inr (str @ [0])"
    by (simp add: sprintk_def l directive_def)
  with assms(2) show ?thesis by (simp add: printk_def)
qed

theorem printk_long_string_overruns_witness:
  "printk (\<lambda>_. 0x20) ''%s'' [VStr (replicate 2000 0x41)] blank_screen = Inl Undefined"
  by (rule printk_long_string_overruns) simp_all

end
