(* ===== verification/Device_Properties.thy ===== *)
theory Device_Properties
  imports Pci Keyboard Video Console_Properties Task_Properties
begin

text \<open>
  The interrupt tables as the processor sees them, the ramdisk's files, and what reaches and
  comes back from the PCI configuration space, the timer and the display.
\<close>

section \<open>Interrupt vectors\<close>

lemma idt_dpl [simp]: "gate_dpl (idt_entry_of base selector 0x8E) = 3"
  by (simp add: gate_dpl_def idt_entry_of_def)

lemma idt_selector [simp]: "sel (idt_entry_of base selector flgs) = selector"
  by (simp add: idt_entry_of_def)

text \<open>Every interrupt vector leads to its stub. After \<open>init_descriptor_tables\<close> the vectors of the
  processor exceptions, of the sixteen hardware interrupts and of the system call lead to
  their own assembly stubs in the kernel's code segment, every other vector is absent, and no
  handler is registered; but every gate has privilege level 3, so user code can raise the
  exceptions and the hardware interrupts as well.\<close>
theorem vectors_lead_to_stubs:
  assumes "n < 256"
  shows "(case vector_stub lm n of
      Some a \<Rightarrow> (let e = idt_entries (init_descriptor_tables lm s) (word_of_nat n)
                 in gate_target e = a \<and> sel e = 0x08 \<and> gate_dpl e = 3)
    | None \<Rightarrow> idt_entries (init_descriptor_tables lm s) (word_of_nat n) = zero_gate)
   \<and> interrupt_handlers (init_descriptor_tables lm s) = (\<lambda>_. None)"
  using init_idt_entry [OF assms, of lm "init_gdt lm s"]
  by (simp add: init_descriptor_tables_def Let_def split: option.split)

text \<open>A state of the whole kernel with everything zero, and a layout of its stubs.\<close>

definition zero_fs :: filesystem where
  "zero_fs = tasking.extend zero_tasking (filesystem.fields 0 0 0 0 0 0 0 0 0)"

definition some_links :: link_map where
  "some_links = \<lparr>at_gdt_entries = 0x5000, at_gdt_ptr = 0x5100, at_idt_entries = 0x6000, at_idt_ptr = 0x5110,
     at_tss_entry = 0x5200, at_isr = (\<lambda>n. 0x1000 + 16 * word_of_nat n), at_irq = (\<lambda>n. 0x2000 + 16 * word_of_nat n)\<rparr>"

theorem vectors_lead_to_stubs_witness:
  "gate_target (idt_entries (init_descriptor_tables some_links zero_fs) 14) = 0x10E0"
proof -
  have "(14 :: nat) < 256" by simp
  from vectors_lead_to_stubs [OF this, of some_links zero_fs] show ?thesis
    by (simp add: vector_stub_def some_links_def Let_def)
qed

text \<open>The descriptor of the task state segment gets only the low byte of its address.\<close>

lemma tss_base_truncated:
  "segment_base (gdt_entry_of (ucast (tss :: u32)) limit acc gran) = tss AND 0xFF"
proof -
  have "tss AND 0xFF = take_bit 8 tss" by (simp only: take_bit_eq_mask mask_eq_exp_minus_1) simp
  moreover have "(ucast (ucast tss :: u8) :: u32) = take_bit 8 tss"
    by (rule bit_word_eqI) (auto simp: bit_simps)
  ultimately show ?thesis by simp
qed

section \<open>The ramdisk\<close>

text \<open>Where offset and size do not wrap around, and the buffer lies apart from the file.\<close>

lemma initrd_read_limited:
  fixes offset sz buffer :: u32
  assumes "h = fh_at (file_headers s) (node_field n_inode (ram s) node)"
    and "unat offset + unat sz < 2 ^ 32"
    and "unat (fh_offset (ram s) h) + unat (fh_length (ram s) h) < 2 ^ 32"
    and "unat buffer + unat sz \<le> 2 ^ 32"
    and "unat buffer + unat sz \<le> unat (fh_offset (ram s) h)
      \<or> unat (fh_offset (ram s) h) + unat (fh_length (ram s) h) \<le> unat buffer"
  shows "\<exists>k s'. initrd_read node offset sz buffer s = (k, s')
    \<and> unat k = min (unat sz) (unat (fh_length (ram s) h) - unat offset)
    \<and> (\<forall>i < unat k. ram s' (buffer + word_of_nat i) = ram s (fh_offset (ram s) h + offset + word_of_nat i))
    \<and> same_outside buffer (unat k) (ram s) (ram s')"
proof -
  let ?len = "fh_length (ram s) h" and ?start = "fh_offset (ram s) h"
  show ?thesis
  proof (cases "offset > ?len")
    case True
    then have "unat ?len < unat offset" by (simp add: word_less_nat_alt)
    with True show ?thesis using assms(1) by (simp add: initrd_read_def Let_def)
  next
    case False
    then have le: "unat offset \<le> unat ?len" by (simp add: word_less_nat_alt)
    define k where "k = (if offset + sz > ?len then ?len - offset else sz)"
    have os: "unat (offset + sz) = unat offset + unat sz"
      using unat_add_small [of offset "unat sz"] assms(2) by simp
    have k: "unat k = min (unat sz) (unat ?len - unat offset)"
      using le os by (auto simp: k_def word_less_nat_alt unat_sub_if')
    have so: "unat (?start + offset) = unat ?start + unat offset"
      using unat_add_small [of ?start "unat offset"] assms(3) le by simp
    have r: "initrd_read node offset sz buffer s = (k, upd_ram (\<lambda>m. memcpy m buffer (?start + offset) k) s)"
      using False assms(1) by (simp add: initrd_read_def Let_def k_def)
    have room: "unat (?start + offset) + unat k \<le> 2 ^ 32" "unat buffer + unat k \<le> 2 ^ 32"
      "unat buffer + unat k \<le> unat (?start + offset) \<or> unat (?start + offset) + unat k \<le> unat buffer"
      using assms(3-5) k so le by auto
    then have "unat buffer \<le> unat (?start + offset) \<or> unat (?start + offset) + unat k \<le> unat buffer" by auto
    note c = memcpy_effect [OF room(1,2) this, of "ram s"]
    show ?thesis using r k c by (intro exI [of _ k] exI [of _ "upd_ram (\<lambda>m. memcpy m buffer (?start + offset) k) s"]) simp
  qed
qed

text \<open>When the sum of offset and size wraps around, the limit at the end of the file does not apply.\<close>

lemma initrd_read_overflow:
  fixes offset sz buffer :: u32
  assumes "h = fh_at (file_headers s) (node_field n_inode (ram s) node)"
    and "offset \<le> fh_length (ram s) h" and "offset + sz \<le> fh_length (ram s) h" and "2 ^ 32 \<le> unat offset + unat sz"
  shows "fst (initrd_read node offset sz buffer s) = sz" and "unat (fh_length (ram s) h) < unat offset + unat sz"
  using assms unat_u32_less [of "fh_length (ram s) h"] by (auto simp: initrd_read_def Let_def)

text \<open>C31: Reading a file of the ramdisk stays within the file unless offset plus size wraps around. (1) If
  offset plus size is below 2^32, the file lies below the end of memory and the buffer has room and lies apart from
  the file, \<open>initrd_read\<close> returns the number of bytes that are left from the offset, at most the size asked for,
  puts exactly those bytes of the file into the buffer, and writes nothing else. (2) If offset plus size wraps around to
  a value within the file, with the offset in the file, it is not limited: it returns the whole size asked for,
  which is more than the file has from there.\<close>
theorem initrd_read_within_file:
  fixes offset sz buffer :: u32
  assumes "h = fh_at (file_headers s) (node_field n_inode (ram s) node)"
  defines "start \<equiv> unat (fh_offset (ram s) h)" and "len \<equiv> unat (fh_length (ram s) h)"
  shows "(unat offset + unat sz < 2 ^ 32 \<and> start + len < 2 ^ 32 \<and> unat buffer + unat sz \<le> 2 ^ 32
        \<and> (unat buffer + unat sz \<le> start \<or> start + len \<le> unat buffer) \<longrightarrow>
      (\<exists>k s'. initrd_read node offset sz buffer s = (k, s')
        \<and> unat k = min (unat sz) (len - unat offset)
        \<and> (\<forall>i < unat k. ram s' (buffer + word_of_nat i) = ram s (fh_offset (ram s) h + offset + word_of_nat i))
        \<and> same_outside buffer (unat k) (ram s) (ram s')))
    \<and> (2 ^ 32 \<le> unat offset + unat sz \<and> unat offset \<le> len \<and> unat (offset + sz) \<le> len \<longrightarrow>
        fst (initrd_read node offset sz buffer s) = sz \<and> len - unat offset < unat sz)"
proof (intro conjI impI)
  assume "unat offset + unat sz < 2 ^ 32 \<and> start + len < 2 ^ 32 \<and> unat buffer + unat sz \<le> 2 ^ 32
        \<and> (unat buffer + unat sz \<le> start \<or> start + len \<le> unat buffer)"
  then show "\<exists>k s'. initrd_read node offset sz buffer s = (k, s')
        \<and> unat k = min (unat sz) (len - unat offset)
        \<and> (\<forall>i < unat k. ram s' (buffer + word_of_nat i) = ram s (fh_offset (ram s) h + offset + word_of_nat i))
        \<and> same_outside buffer (unat k) (ram s) (ram s')"
    using initrd_read_limited [OF assms(1)] unfolding start_def len_def by blast
next
  assume w: "2 ^ 32 \<le> unat offset + unat sz \<and> unat offset \<le> len \<and> unat (offset + sz) \<le> len"
  then have le: "offset \<le> fh_length (ram s) h" "offset + sz \<le> fh_length (ram s) h" "2 ^ 32 \<le> unat offset + unat sz"
    unfolding len_def by (simp_all add: word_le_nat_alt)
  note o = initrd_read_overflow [OF assms(1) le]
  show "fst (initrd_read node offset sz buffer s) = sz" by (rule o(1))
  show "len - unat offset < unat sz" using o(2) w unfolding len_def by linarith
qed

theorem initrd_read_within_file_witness:
  "\<exists>s'. initrd_read 0x2000 3 100 0x4000 (zero_fs\<lparr>file_headers := 0x1000,
       ram := write32 (write32 (\<lambda>a. if a = 0x3004 then 0x61 else 0) 0x1044 0x3000) 0x1048 5\<rparr>) = (2, s') \<and> ram s' 0x4001 = 0x61"
proof -
  let ?r = "write32 (write32 (\<lambda>a :: u32. if a = 0x3004 then 0x61 else 0 :: u8) 0x1044 0x3000) 0x1048 5"
  let ?s = "zero_fs\<lparr>file_headers := 0x1000, ram := ?r\<rparr>"
  have z: "read32 (\<lambda>a. if a = 0x3004 then 0x61 else 0) 0x2110 = 0" by (simp add: read32_def)
  have h: "(0x1000 :: u32) = fh_at (file_headers ?s) (node_field n_inode (ram ?s) 0x2000)"
    by (simp add: fh_at_def node_field_def n_inode_def read32_write32_nat z)
  have f: "fh_offset (ram ?s) 0x1000 = 0x3000" "fh_length (ram ?s) 0x1000 = 5"
    by (simp_all add: fh_offset_def fh_length_def read32_write32_nat)
  have "unat (fh_offset (ram ?s) 0x1000) = 0x3000" "unat (fh_length (ram ?s) 0x1000) = 5" unfolding f by simp_all
  with initrd_read_within_file [OF h, of 3 100 "0x4000"] obtain k s' where
    k: "initrd_read 0x2000 3 100 0x4000 ?s = (k, s')" "unat k = 2"
      "\<forall>i < unat k. ram s' (0x4000 + word_of_nat i) = ram ?s (0x3000 + 3 + word_of_nat i)"
    unfolding f by auto
  have "k = 2" using k(2) by (simp add: word_unat_eq_iff)
  moreover have "ram s' (0x4000 + word_of_nat 1) = ram ?s (0x3000 + 3 + word_of_nat 1)"
    by (rule k(3) [rule_format]) (simp add: k(2))
  ultimately show ?thesis using k(1) by (auto simp: write32_def)
qed

section \<open>The PCI configuration space\<close>

text \<open>
  A host bridge that answers a read of the data port with the register that the last write of
  the address port selected.
\<close>

definition host_bridge :: "device \<Rightarrow> (u32 \<Rightarrow> u32) \<Rightarrow> bool" where
  "host_bridge dev regs \<longleftrightarrow> (\<forall>es a. dev (es @ [Out32 0xCF8 a, In32 0xCFC]) = regs a)"

lemma read_header_word_effect:
  assumes "host_bridge dev regs"
  shows "ram (read_header_word dev addr header i s)
    = write32 (ram s) (header + 4 * word_of_nat i) (regs (addr OR push_bit 2 (word_of_nat i)))"
  using assms by (simp add: read_header_word_def port_simps host_bridge_def)

lemma read_header_words:
  assumes "host_bridge dev regs" and "unat header + 4 * n \<le> 2 ^ 32"
  shows "\<forall>j < n. read32 (ram (fold (read_header_word dev addr header) [0..<n] s)) (header + 4 * word_of_nat j)
    = regs (addr OR push_bit 2 (word_of_nat j))"
  using assms(2)
proof (induction n)
  case (Suc n)
  let ?t = "fold (read_header_word dev addr header) [0..<n] s"
  have a: "unat (header + 4 * word_of_nat j) = unat header + 4 * j" if "j < Suc n" for j
    using Suc.prems that by (intro unat_cell_addr) simp
  have "read32 (ram (read_header_word dev addr header n ?t)) (header + 4 * word_of_nat j)
      = regs (addr OR push_bit 2 (word_of_nat j))" if "j < Suc n" for j
  proof (cases "j = n")
    case False
    then have j: "j < n" using that by simp
    have "read32 (write32 (ram ?t) (header + 4 * word_of_nat n) v) (header + 4 * word_of_nat j)
        = read32 (ram ?t) (header + 4 * word_of_nat j)" for v
      by (rule read32_write32_nat) (use a [OF that] a [of n] j Suc.prems in auto)
    then show ?thesis using Suc.IH Suc.prems j by (simp add: read_header_word_effect [OF assms(1)])
  qed (simp add: read_header_word_effect [OF assms(1)])
  then show ?case by simp
qed simp

lemma read32_byte:
  "m (a + 3) = ucast (drop_bit 24 (read32 m a))" "m (a + 2) = ucast (drop_bit 16 (read32 m a))"
  "read16 m a = ucast (read32 m a)"
  by (rule bit_word_eqI;
      auto simp: read32_def read16_def bit_simps dest: bit_imp_le_length)+

text \<open>C39: The header read from a PCI function is misread. \<open>pci_read_header\<close> stores the first
  fifteen registers of the configuration space one after the other, and the vendor is read
  back right; but the structure laid over them has a 32-bit device number, so the device
  number is taken from the command and status register, and class and subclass from the
  register of the cache line and header type.\<close>
theorem pci_header_misread:
  assumes "host_bridge dev regs" and "unat header + 68 \<le> 2 ^ 32"
    and "addr = push_bit 16 bus OR push_bit 11 slot OR push_bit 8 func OR 0x80000000"
  shows "let m = ram (pci_read_header dev bus slot func header s); reg = (\<lambda>i. regs (addr OR push_bit 2 (word_of_nat i)))
    in (\<forall>i < 15. read32 m (header + 4 * word_of_nat i) = reg i)
     \<and> pci_vendor_id m header = ucast (reg 0) \<and> pci_device_id m header = reg 1
     \<and> pci_class_code m header = ucast (drop_bit 24 (reg 3)) \<and> pci_subclass m header = ucast (drop_bit 16 (reg 3))"
proof -
  let ?m = "ram (pci_read_header dev bus slot func header s)"
  have w: "\<forall>i < 15. read32 ?m (header + 4 * word_of_nat i) = regs (addr OR push_bit 2 (word_of_nat i))"
    using read_header_words [OF assms(1), of header 15 addr s] assms(2,3)
    by (simp add: pci_read_header_def Let_def del: upt_rec_numeral)
  have r: "read32 ?m (header + 4 * word_of_nat 0) = regs (addr OR push_bit 2 (word_of_nat 0))"
    "read32 ?m (header + 4 * word_of_nat 1) = regs (addr OR push_bit 2 (word_of_nat 1))"
    "read32 ?m (header + 4 * word_of_nat 3) = regs (addr OR push_bit 2 (word_of_nat 3))"
    by (rule w [rule_format], simp)+
  have a: "header + 15 = header + 4 * word_of_nat 3 + 3" "header + 14 = header + 4 * word_of_nat 3 + 2" by simp_all
  have "pci_vendor_id ?m header = ucast (read32 ?m (header + 4 * word_of_nat 0))"
    by (simp add: pci_vendor_id_def read32_byte(3))
  moreover have "pci_device_id ?m header = read32 ?m (header + 4 * word_of_nat 1)"
    by (simp add: pci_device_id_def)
  moreover have "pci_class_code ?m header = ucast (drop_bit 24 (read32 ?m (header + 4 * word_of_nat 3)))"
    "pci_subclass ?m header = ucast (drop_bit 16 (read32 ?m (header + 4 * word_of_nat 3)))"
    unfolding pci_class_code_def pci_subclass_def a by (rule read32_byte)+
  ultimately show ?thesis using w unfolding r Let_def by blast
qed

theorem pci_header_misread_witness:
  "pci_device_id (ram (pci_read_header (\<lambda>es. case es ! (length es - 2) of Out32 p a \<Rightarrow> a | _ \<Rightarrow> 0) 1 2 3 0x1000 zero_fs)) 0x1000
     = 0x80011304"
proof -
  have "host_bridge (\<lambda>es. case es ! (length es - 2) of Out32 p a \<Rightarrow> a | _ \<Rightarrow> 0) (\<lambda>a. a)"
    by (simp add: host_bridge_def nth_append)
  from pci_header_misread [OF this _ refl, of "0x1000" 1 2 3 zero_fs] show ?thesis by (simp add: Let_def)
qed

end
