(* ===== verification/User_Mode.thy ===== *)
theory User_Mode
  imports Interrupt_Path Assembly_Routines Boot Device_Properties
begin

text \<open>
  User mode: the way into it, the system call from it, and the stack that the processor takes for
  an interrupt.
\<close>

section \<open>What the stubs rely on\<close>




section \<open>Every interrupt\<close>


text \<open>An environment for the witnesses.\<close>

definition some_fs_link :: fs_link where
  "some_fs_link = \<lparr>str_dev = 0x9000, str_initrd = 0x9010, str_keyboard = 0x9020, at_dirent = 0x9100,
     fn_initrd_read = 0x100, fn_initrd_readdir = 0x101, fn_initrd_finddir = 0x102, fn_keyboard_read = 0x106,
     fn_keyboard_write = 0x107, fn_keyboard_selftest = 0x108\<rparr>"

definition some_env :: environment where
  "some_env = \<lparr>env_device = (\<lambda>_. 0x20), env_cpu = (\<lambda>_. \<lparr>c_eax = 0, c_ebx = 0, c_ecx = 0, c_edx = 0\<rparr>), env_cr2 = 0, env_eip = 0x777, env_garbage = 0x77,
     env_tables = some_links, env_fs = some_fs_link, env_initrd = 0x8000, env_greeting = 0x9200\<rparr>"


lemma some_stubs_distinct: "stubs_distinct some_links"
  by (simp add: stubs_distinct_def stub_table_def some_links_def upt_rec)


section \<open>A system call\<close>

lemma move_cursor_upd:
  "move_cursor (s\<lparr>int_flag := b, ram := m\<rparr>) = (move_cursor s)\<lparr>int_flag := b, ram := m\<rparr>"
  by (simp add: move_cursor_def port_simps)

lemma scroll_upd:
  "scroll (s\<lparr>int_flag := b, ram := m\<rparr>) = (scroll s)\<lparr>int_flag := b, ram := m\<rparr>"
  by (simp add: scroll_def)

lemma screen_put_upd:
  "screen_put c (s\<lparr>int_flag := b, ram := m\<rparr>) = (screen_put c s)\<lparr>int_flag := b, ram := m\<rparr>"
  by (cases s)
    (simp add: screen_put_def move_cursor_upd [symmetric] scroll_upd [symmetric] Let_def)

lemma screen_write_upd:
  "screen_write cs (s\<lparr>int_flag := b, ram := m\<rparr>) = (screen_write cs s)\<lparr>int_flag := b, ram := m\<rparr>"
proof (induction cs arbitrary: s)
  case (Cons c cs)
  show ?case
  proof (cases "c = 0")
    case False
    then show ?thesis using Cons.IH [of "screen_put c s"] by (simp add: screen_put_upd)
  qed simp
qed simp

lemma cstr_at_outside:
  assumes "cstr_at m q str" and "same_outside a n m m'"
    and "\<forall>j \<le> length str. \<not> in_region a n (q + word_of_nat j)"
  shows "cstr_at m' q str"
  using assms(1,3)
proof (induction str arbitrary: q)
  case Nil
  then show ?case using assms(2) by (auto simp: same_outside_def)
next
  case (Cons c str)
  have "\<not> in_region a n (q + 1 + word_of_nat j)" if "j \<le> length str" for j
    using Cons.prems(2) [rule_format, of "Suc j"] that by (simp add: add.assoc)
  moreover have "m' q = m q"
    using Cons.prems(2) [rule_format, of 0] assms(2) by (simp add: same_outside_def)
  ultimately show ?case using Cons.prems(1) Cons.IH [of "q + 1"] by simp
qed

lemma read_cstr_of: "cstr_at m q str \<Longrightarrow> read_cstr m q = Some str"
proof (induction str arbitrary: q)
  case Nil
  then show ?case by (simp add: read_cstr_Some)
next
  case (Cons c str)
  then show ?case using read_cstr_Cons [of m q str] by simp
qed

text \<open>C12: A program prints a string through the kernel. Interrupt 0x80 with 0 in EAX and the address of a
  NUL-terminated string in EBX, from user or kernel mode, goes through gate, stub, the handler table and
  \<open>syscall_handler\<close> to \<open>screen_write\<close>, prints that string and comes back to the instruction after
  \<open>int\<close>, with every register and flag of the program as before except EAX (which the handler fills
  from a function that returns nothing) and ES, FS and GS; memory changes only in the frame.\<close>
theorem syscall_prints_string:
  assumes "\<not> p_phys p" and "idt_entries s = idt_entries (init_descriptor_tables lm t)" and "stubs_distinct lm"
    and room: "stack_room (frame_top lm (p, s))"
    and h: "interrupt_handlers s 0x80 = Some Syscall_handler" and ax: "p_reg p EAX = 0"
    and str: "cstr_at (ram s) (p_reg p EBX) str"
    and apart: "\<forall>j \<le> length str. \<not> in_region (frame_top lm (p, s) - 60) 68 (p_reg p EBX + word_of_nat j)"
  shows "\<exists>m. take_interrupt 22 u lm (call_handler (Suc k) env) True 0x80 None (p, s)
      = Inr (back_to (env_garbage env) p, (screen_write str s)\<lparr>ram := m\<rparr>)
    \<and> same_outside (frame_top lm (p, s) - 60) 68 (ram s) m"
proof -
  let ?a = "frame_top lm (p, s) - 60" and ?st = "frame_state u lm 128 None (p, s)"
  let ?r = "frame_regs lm 128 None (p, s)"
  have idt: "idt_entries s = idt_entries (init_idt lm (init_gdt lm t))"
    using assms(2) by (simp add: init_descriptor_tables_def Let_def)
  have out: "same_outside ?a 68 (ram s) (ram ?st)"
    using frame_ram_outside [OF assms(1) room] by (simp add: frame_state_def)
  have cs: "read_cstr (ram ?st) (p_reg p EBX) = Some str"
    by (rule read_cstr_of [OF cstr_at_outside [OF str out apart]])
  have rf: "r_int_no ?r = 128" "r_eax ?r = 0" "r_ebx ?r = p_reg p EBX"
    by (simp_all add: frame_regs_def ax Let_def)
  have hs: "interrupt_handlers ?st 0x80 = Some Syscall_handler" using h by (simp add: frame_state_def)
  have d: "dispatch (call_handler (Suc k) env) 128 ?r ?st
      = Inr (?r\<lparr>r_eax := env_garbage env\<rparr>, screen_write str ?st)"
    by (simp add: dispatch_def common_of_def isr_handler_def rf hs syscall_handler_def num_syscalls_def
        syscalls_def run_syscall_def screen_write_at_def cs)
  have hf: "raised True 128 None" "vector_fits True 128"
    by (simp_all add: raised_def pushes_error_code_def vector_fits_def has_stub_def)
  have sw: "(screen_write str ?st)\<lparr>ram := m, int_flag := int_flag s\<rparr> = (screen_write str s)\<lparr>ram := m\<rparr>" for m
    by (simp add: frame_state_def screen_write_upd)
  from interrupt_back [OF assms(1) idt assms(3) hf d, of 0]
  have "take_interrupt 22 u lm (call_handler (Suc k) env) True 0x80 None (p, s)
      = Inr (back_to (env_garbage env) p, (screen_write str s)\<lparr>ram :=
          store_regs (frame_top lm (p, s) - 56) (?r\<lparr>r_eax := env_garbage env\<rparr>) (ram ?st)\<rparr>)"
    by (simp add: sw)
  moreover have "same_outside ?a 68 (ram s) (store_regs (frame_top lm (p, s) - 56) (?r\<lparr>r_eax := env_garbage env\<rparr>) (ram ?st))"
    by (rule same_outside_trans [OF out store_regs_outside [OF room]])
  ultimately show ?thesis by blast
qed

section \<open>The stack for an interrupt\<close>

text \<open>The six descriptors, as the state after loading holds them.\<close>

definition gdt_room :: "'a tables_scheme \<Rightarrow> bool" where
  "gdt_room s \<longleftrightarrow> length (gdt_entries s) = 6"

lemma fold_gates_keep:
  "gdt_entries (fold (\<lambda>i. idt_set_gate (f i) (g i) a b) xs s) = gdt_entries s
   \<and> task_register (fold (\<lambda>i. idt_set_gate (f i) (g i) a b) xs s) = task_register s
   \<and> tss_entry (fold (\<lambda>i. idt_set_gate (f i) (g i) a b) xs s) = tss_entry s
   \<and> ram (fold (\<lambda>i. idt_set_gate (f i) (g i) a b) xs s) = ram s"
  by (induction xs arbitrary: s) (simp_all add: idt_set_gate_def)

lemma init_tables_keep:
  fixes s :: "'a tables_scheme"
  shows "gdt_entries (init_descriptor_tables lm s) = gdt_entries (init_gdt lm s)"
    and "task_register (init_descriptor_tables lm s) = 0x2B"
    and "tss_entry (init_descriptor_tables lm s) = tss_entry (init_gdt lm s)"
    and "ram (init_descriptor_tables lm s) = ram s"
proof -
  have r: "gdt_entries (remap_irqs t) = gdt_entries t \<and> task_register (remap_irqs t) = task_register t
      \<and> tss_entry (remap_irqs t) = tss_entry t \<and> ram (remap_irqs t) = ram t" for t :: "'a tables_scheme"
    by (simp add: remap_irqs_def port_simps)
  have g: "task_register (init_gdt lm s) = 0x2B" "ram (init_gdt lm s) = ram s"
    by (simp_all add: init_gdt_def tss_flush_def gdt_flush_def write_tss_def gdt_set_gate_def Let_def)
  show "gdt_entries (init_descriptor_tables lm s) = gdt_entries (init_gdt lm s)"
    and "task_register (init_descriptor_tables lm s) = 0x2B"
    and "tss_entry (init_descriptor_tables lm s) = tss_entry (init_gdt lm s)"
    and "ram (init_descriptor_tables lm s) = ram s"
    using g
    by (simp_all add: init_descriptor_tables_def init_idt_def idt_flush_def idt_set_gate_def [of 128] Let_def
        fold_gates_keep r del: upt_rec_numeral)
qed

text \<open>C37: The kernel's stack for interrupts from user mode is not the one it sets. \<open>gdt_set_gate\<close> takes the base of
  the task state segment as a byte, so the descriptor points to the low byte of the address of
  \<open>tss_entry\<close>. Whatever \<open>set_kernel_stack\<close> stores in \<open>tss_entry\<close> after initialisation, if \<open>tss_entry\<close> does
  not lie in the first 256 bytes, an interrupt from user mode takes ESP and SS from the words
  at offsets 4 and 8 of that low address.\<close>
theorem kernel_stack_not_used:
  fixes stk :: u32 and lm :: link_map
  assumes "gdt_room s" and "at_tss_entry lm > 0xFF"
  defines "s' \<equiv> set_kernel_stack stk (init_descriptor_tables lm s)"
  shows "tss_esp0 (tss_entry s') = stk \<and> tss_base s' = at_tss_entry lm AND 0xFF
    \<and> ring0_stack lm s' = (ucast (read32 (ram s) ((at_tss_entry lm AND 0xFF) + 8)),
                          read32 (ram s) ((at_tss_entry lm AND 0xFF) + 4))"
proof -
  have base: "tss_base s' = at_tss_entry lm AND 0xFF"
    using assms(1) tss_base_truncated [of "at_tss_entry lm"]
    by (simp add: s'_def tss_base_def set_kernel_stack_def init_tables_keep gdt_room_def init_gdt_def Let_def
        tss_flush_def gdt_flush_def write_tss_def gdt_set_gate_def)
  have "at_tss_entry lm AND 0xFF \<le> 0xFF" by (rule word_and_le1)
  then have "at_tss_entry lm AND 0xFF \<noteq> at_tss_entry lm" using assms(2) by auto
  then show ?thesis
    using base by (simp add: ring0_stack_def s'_def set_kernel_stack_def init_tables_keep)
qed

theorem kernel_stack_not_used_witness:
  "ring0_stack some_links (set_kernel_stack 0xE0000000
      (init_descriptor_tables some_links (zero_fs\<lparr>gdt_entries := replicate 6 (gdt_entry_of 0 0 0 0),
         ram := write32 (\<lambda>_. 0) 4 0xF000FF53\<rparr>))) = (0, 0xF000FF53)"
proof -
  let ?s = "zero_fs\<lparr>gdt_entries := replicate 6 (gdt_entry_of 0 0 0 0), ram := write32 (\<lambda>_. 0) 4 0xF000FF53\<rparr>"
  have "gdt_room ?s" "at_tss_entry some_links > 0xFF" by (simp_all add: gdt_room_def some_links_def)
  from kernel_stack_not_used [OF this, where stk = "0xE0000000"]
  show ?thesis by (simp add: some_links_def) (simp add: read32_def)
qed

section \<open>The way into user mode\<close>

definition user_segments :: "segreg \<Rightarrow> u16" where
  "user_segments g = (if g = CS then 0x1B else 0x23)"

definition user_mode_pushes :: "u32 \<Rightarrow> instr list" where
  "user_mode_pushes lab =
     [Cli, Mov_imm16 EAX 0x23, Mov_to_seg DS EAX, Mov_to_seg ES EAX, Mov_to_seg FS EAX, Mov_to_seg GS EAX,
      Mov_reg EAX ESP, Push_imm 0x23, Push_reg ESP, Pushf, Or_stack 0x200, Push_imm 0x1B, Push_imm lab]"

definition user_mode_frame :: "u32 \<Rightarrow> u32 \<Rightarrow> u32 \<Rightarrow> mem \<Rightarrow> mem" where
  "user_mode_frame lab fl sp m =
     push_words [0x1B, lab] (sp - 12) (write32 (push_words [0x23, sp - 4, fl] sp m) (sp - 12) (fl OR 0x200))"

lemma user_mode_frame_outside:
  assumes "20 \<le> unat sp"
  shows "same_outside (sp - 20) 20 m (user_mode_frame lab fl sp m)"
proof -
  have u: "unat (sp - 20) = unat sp - 20" "unat (sp - 12) = unat sp - 12"
    using assms by (simp_all add: unat_sub word_le_nat_alt)
  have lim: "unat sp < 2 ^ 32" using unat_u32_less [of sp] by simp
  let ?m1 = "push_words [0x23, sp - 4, fl] sp m" and ?v = "fl OR 0x200"
  have f1: "same_outside (sp - 12) 12 m ?m1"
    using push_words_frame [of "[0x23, sp - 4, fl]" sp m] assms by simp
  have f2: "same_outside (sp - 12) 4 ?m1 (write32 ?m1 (sp - 12) ?v)"
    by (rule same_outside_write32) (use u lim assms in linarith)
  have f3: "same_outside (sp - 20) 8 (write32 ?m1 (sp - 12) ?v) (user_mode_frame lab fl sp m)"
    using push_words_frame [of "[0x1B, lab]" "sp - 12" "write32 ?m1 (sp - 12) ?v"] assms u
    by (simp add: user_mode_frame_def)
  show ?thesis
    by (rule same_outside_trans [OF same_outside_trans [OF same_outside_mono [OF f1] same_outside_mono [OF f2]]
        same_outside_mono [OF f3]]) (use u assms in linarith)+
qed

lemma user_mode_frame_reads:
  "read32 (user_mode_frame lab fl sp m) (sp - 20) = lab" "read32 (user_mode_frame lab fl sp m) (sp - 16) = 0x1B"
  "read32 (user_mode_frame lab fl sp m) (sp - 12) = fl OR 0x200" "read32 (user_mode_frame lab fl sp m) (sp - 8) = sp - 4"
  "read32 (user_mode_frame lab fl sp m) (sp - 4) = 0x23"
  by (simp_all add: user_mode_frame_def)

lemma user_mode_pushes_exec:
  assumes "\<not> p_phys p"
  shows "\<exists>p1. exec u cf (user_mode_pushes lab) (p, s)
      = Inr (p1, s\<lparr>int_flag := False, ram := user_mode_frame lab (unset_bit FLAG_IF (p_eflags p)) (p_reg p ESP) (ram s)\<rparr>)
    \<and> \<not> p_phys p1 \<and> p_reg p1 ESP = p_reg p ESP - 20 \<and> (\<forall>r. r \<notin> {EAX, ESP} \<longrightarrow> p_reg p1 r = p_reg p r)
    \<and> p_seg p1 = (p_seg p)(DS := 0x23, ES := 0x23, FS := 0x23, GS := 0x23)"
  using assms
  by (simp add: user_mode_pushes_def user_mode_frame_def cpu_defs cli_def flags_word_def)

text \<open>C13: The assembly of \<open>switch_to_user_mode\<close> enters user mode. From kernel mode it comes out of \<open>iret\<close> at the label
  with privilege level 3 in CS and every data segment, with interrupts on as in the model of \<open>main.c\<close>, and
  with every register but EAX and ESP as before; it uses the 20 bytes below the stack. ESP comes out
  four bytes lower than it went in, because \<open>push esp\<close> follows the push of SS.\<close>
theorem user_mode_entered:
  assumes "\<not> p_phys p" and "in_kernel p" and "20 \<le> unat (p_reg p ESP)"
  shows "\<exists>p' m. run 14 u cf (user_mode_code lab) 0 (p, s) = Inr (p', (switch_to_user_mode s)\<lparr>ram := m\<rparr>)
    \<and> same_outside (p_reg p ESP - 20) 20 (ram s) m
    \<and> p_eip p' = lab \<and> p_seg p' = user_segments \<and> p_reg p' ESP = p_reg p ESP - 4
    \<and> (\<forall>r. r \<notin> {EAX, ESP} \<longrightarrow> p_reg p' r = p_reg p r)"
proof -
  let ?code = "user_mode_code lab" and ?sp = "p_reg p ESP"
  have parts: "?code = user_mode_pushes lab @ [Iret]" "length (user_mode_pushes lab) = 13"
      "list_all straight (user_mode_pushes lab)"
    by (simp_all add: user_mode_code_def user_mode_pushes_def)
  let ?fl = "unset_bit FLAG_IF (p_eflags p)"
  obtain p1 where p1: "exec u cf (user_mode_pushes lab) (p, s)
        = Inr (p1, s\<lparr>int_flag := False, ram := user_mode_frame lab ?fl ?sp (ram s)\<rparr>)"
      "\<not> p_phys p1" "p_reg p1 ESP = ?sp - 20" "\<forall>r. r \<notin> {EAX, ESP} \<longrightarrow> p_reg p1 r = p_reg p r"
      "p_seg p1 = (p_seg p)(DS := 0x23, ES := 0x23, FS := 0x23, GS := 0x23)"
    using user_mode_pushes_exec [OF assms(1), of u cf lab s] by blast
  let ?m = "user_mode_frame lab ?fl ?sp (ram s)"
  let ?p' = "p1\<lparr>p_reg := (p_reg p1)(ESP := ?sp - 4), p_seg := user_segments, p_eip := lab,
      p_eflags := unset_bit FLAG_IF (?fl OR 0x200)\<rparr>"
  have ring: "\<not> same_ring 0x1B (p_seg p1 CS)" using assms(2) p1(5) by (simp add: same_ring_def in_kernel_def)
  have seg: "(p_seg p1)(CS := 0x1B, SS := 0x23) = user_segments"
    by (rule segreg_fun_eqI) (simp_all add: p1(5) user_segments_def)
  have fl: "bit (?fl OR 0x200 :: u32) FLAG_IF" by (simp add: FLAG_IF_def bit_simps)
  have "run 14 u cf ?code 0 (p, s) = Inr (iret (p1, s\<lparr>int_flag := False, ram := ?m\<rparr>))"
    using run_straight [of 0 ?code "user_mode_pushes lab" "[Iret]" 1 u cf "(p, s)"] p1(1)
    by (simp add: parts nth_append)
  also have "iret (p1, s\<lparr>int_flag := False, ram := ?m\<rparr>) = (?p', (switch_to_user_mode s)\<lparr>ram := ?m\<rparr>)"
    using ring seg fl p1(2,3) user_mode_frame_reads [of lab ?fl ?sp "ram s"]
    by (simp add: iret_def data_mem_def Let_def load_flags_def switch_to_user_mode_def cli_def sti_def)
  finally show ?thesis
    using user_mode_frame_outside [OF assms(3), of "ram s" lab ?fl] p1(4)
    by (intro exI [of _ ?p'] exI [of _ ?m]) simp
qed

theorem user_mode_entered_witness:
  "\<exists>p' m. run 14 some_asm (\<lambda>f a s. Inl Undefined) (user_mode_code 0x100200) 0 (kernel_cpu, zero_fs)
      = Inr (p', (switch_to_user_mode zero_fs)\<lparr>ram := m\<rparr>)
    \<and> p_eip p' = 0x100200 \<and> p_seg p' = user_segments \<and> p_reg p' ESP = 0x7FFC"
proof -
  have "\<not> p_phys kernel_cpu" "in_kernel kernel_cpu" "20 \<le> unat (p_reg kernel_cpu ESP)"
    by (simp_all add: kernel_cpu_def in_kernel_def kernel_segments_def)
  note um = user_mode_entered [OF this, of some_asm "\<lambda>f a s. Inl Undefined" "0x100200" zero_fs]
  have sp: "p_reg kernel_cpu ESP - 4 = 0x7FFC" by (simp add: kernel_cpu_def)
  from um show ?thesis unfolding sp by blast
qed

text \<open>A program in user mode, about to print the string at 0x4000; the word that becomes its kernel stack
  pointer lies at address 4, since the address of \<open>tss_entry\<close> ends in 00.\<close>

definition user_cpu :: processor where
  "user_cpu = \<lparr>p_reg = (\<lambda>_. 7)(EAX := 0, EBX := 0x4000, ESP := 0x7000), p_seg = user_segments, p_eip = 0x100300,
     p_eflags = 2, p_phys = False\<rparr>"

definition user_state :: filesystem where
  "user_state = (init_descriptor_tables some_links (zero_fs\<lparr>gdt_entries := replicate 6 (gdt_entry_of 0 0 0 0),
      ram := (write32 (\<lambda>_. 0) 4 0x9000)(0x4000 := 0x68, 0x4001 := 0x69)\<rparr>))
      \<lparr>interrupt_handlers := (\<lambda>_. None)(0x80 := Some Syscall_handler)\<rparr>"

theorem syscall_prints_string_witness:
  "\<exists>m. take_interrupt 22 some_asm some_links (call_handler (Suc 0) some_env) True 0x80 None (user_cpu, user_state)
      = Inr (back_to (env_garbage some_env) user_cpu, (screen_write [0x68, 0x69] user_state)\<lparr>ram := m\<rparr>)"
proof -
  let ?z = "zero_fs\<lparr>gdt_entries := replicate 6 (gdt_entry_of 0 0 0 0),
      ram := (write32 (\<lambda>_. 0) 4 0x9000)(0x4000 := 0x68, 0x4001 := 0x69)\<rparr>"
  have idt: "idt_entries user_state = idt_entries (init_descriptor_tables some_links ?z)"
    by (simp add: user_state_def)
  have ram: "ram user_state = (write32 (\<lambda>_. 0) 4 0x9000)(0x4000 := 0x68, 0x4001 := 0x69)"
    by (simp add: user_state_def init_tables_keep)
  have "tss_base user_state = 0"
    by (simp add: user_state_def tss_base_def init_tables_keep init_gdt_def Let_def tss_flush_def gdt_flush_def
        write_tss_def gdt_set_gate_def some_links_def)
  moreover have "read32 (ram user_state) 4 = 0x9000" unfolding ram by simp
  ultimately have "snd (ring0_stack some_links user_state) = 0x9000"
    by (simp add: ring0_stack_def some_links_def)
  then have top: "frame_top some_links (user_cpu, user_state) = 0x8FF8"
    by (cases "ring0_stack some_links user_state")
      (simp add: frame_top_def enter_stack_def in_kernel_def user_cpu_def user_segments_def cpu_defs)
  have room: "stack_room (frame_top some_links (user_cpu, user_state))" unfolding top by (simp add: stack_room_def)
  have h: "\<not> p_phys user_cpu" "interrupt_handlers user_state 0x80 = Some Syscall_handler" "p_reg user_cpu EAX = 0"
    by (simp_all add: user_cpu_def user_state_def)
  have str: "cstr_at (ram user_state) (p_reg user_cpu EBX) [0x68, 0x69]"
    unfolding ram by (simp add: user_cpu_def write32_def)
  have apart: "\<forall>j \<le> length [0x68, 0x69 :: u8].
      \<not> in_region (frame_top some_links (user_cpu, user_state) - 60) 68 (p_reg user_cpu EBX + word_of_nat j)"
  proof (intro allI impI)
    fix j assume "j \<le> length [0x68, 0x69 :: u8]"
    then consider "j = 0" | "j = 1" | "j = 2" by force
    then show "\<not> in_region (frame_top some_links (user_cpu, user_state) - 60) 68 (p_reg user_cpu EBX + word_of_nat j)"
      unfolding top by cases (simp_all add: user_cpu_def in_region_def)
  qed
  from syscall_prints_string [OF h(1) idt some_stubs_distinct room h(2,3) str apart, of some_asm 0 some_env]
  show ?thesis by blast
qed

section \<open>The start of the kernel\<close>

text \<open>\<open>main\<close> finds its two arguments above the return address.\<close>

definition call_main :: "nat \<Rightarrow> environment \<Rightarrow> registers_t \<Rightarrow> u32 \<Rightarrow> 'a filesystem_scheme \<Rightarrow> 'a filesystem_scheme result" where
  "call_main k env regs a s =
     rbind (main k env (read32 (ram s) a) (read32 (ram s) (a + 4)) regs s) (\<lambda>(_, s'). Inr s')"

lemma jmp_here_stays: "prog ! i = Jmp_here \<Longrightarrow> i < length prog \<Longrightarrow> run n u cf prog i c = Inl No_return"
  by (induction n) simp_all

text \<open>
  \<open>start\<close> gives \<open>main\<close> the pointer that the boot loader left in EBX and the stack pointer it came with,
  interrupts off, and never comes back: after \<open>main\<close> it jumps to itself for ever.
\<close>

lemma start_calls_main:
  assumes "\<not> p_phys p"
  defines "sp \<equiv> p_reg p ESP"
  shows "run (4 + n) u (\<lambda>f. call_main k env regs) start_code 0 (p, s)
    = (case main k env (p_reg p EBX) sp regs (s\<lparr>int_flag := False, ram := push_words [sp, p_reg p EBX, a_return u] sp (ram s)\<rparr>) of
         Inl e \<Rightarrow> Inl e | Inr _ \<Rightarrow> Inl No_return)"
proof -
  let ?s1 = "s\<lparr>int_flag := False, ram := push_words [sp, p_reg p EBX, a_return u] sp (ram s)\<rparr>"
  let ?cf = "\<lambda>f. call_main k env regs"
  have st: "list_all straight (take 4 start_code)" "drop 0 start_code = take 4 start_code @ [Jmp_here]"
    by (simp_all add: start_code_def)
  have ex: "exec u ?cf (take 4 start_code) (p, s)
    = rbind (main k env (p_reg p EBX) sp regs ?s1) (\<lambda>(_, s2). Inr
        (p\<lparr>p_reg := (p_reg p)(EAX := a_left u EAX, ECX := a_left u ECX, EDX := a_left u EDX, ESP := sp - 8)\<rparr>, s2))"
    using assms(1)
    by (cases "main k env (p_reg p EBX) sp regs ?s1")
      (auto simp: start_code_def cpu_defs call_main_def sp_def cli_def fun_upd_twist)
  have len: "length (take 4 start_code) = 4" by (simp add: start_code_def)
  have j: "run n u ?cf start_code 4 c = Inl No_return" for c
    by (rule jmp_here_stays) (simp_all add: start_code_def)
  have "run (4 + n) u ?cf start_code 0 (p, s)
      = rbind (exec u ?cf (take 4 start_code) (p, s)) (run n u ?cf start_code 4)"
    using run_straight [OF st(2,1), of n u ?cf "(p, s)"] unfolding len by simp
  then show ?thesis
    unfolding ex using j by (cases "main k env (p_reg p EBX) sp regs ?s1") (simp_all add: case_prod_beta)
qed

end
