(* ===== verification/Make_Initrd.thy ===== *)
theory Make_Initrd
  imports Initrd "HOL-Library.Signed_Division"
begin

text \<open>
  \<open>make_initrd.c\<close>: the tool of the host that writes the ramdisk image. The host's files are the
  argument \<open>files\<close>; the bytes that happen to lie on the stack where \<open>headers\<close> is are the argument
  \<open>stack\<close>. Opening the output and allocating memory are taken to succeed, and what the tool
  prints is left out. \<open>char argc\<close> is the low byte of the number of arguments, with sign.
\<close>

type_synonym bytes = "u8 list"

record image_header =
  hd_magic :: u8
  hd_name :: bytes
  hd_pad :: bytes
  hd_offset :: u32
  hd_length :: u32

definition le32 :: "u32 \<Rightarrow> bytes" where
  "le32 w = [ucast w, ucast (drop_bit 8 w), ucast (drop_bit 16 w), ucast (drop_bit 24 w)]"

text \<open>The bytes of a header as they lie in memory: 1, 64, 3 of padding, 4 and 4.\<close>

definition header_bytes :: "image_header \<Rightarrow> bytes" where
  "header_bytes h = hd_magic h # hd_name h @ hd_pad h @ le32 (hd_offset h) @ le32 (hd_length h)"

definition header_ok :: "image_header \<Rightarrow> bool" where
  "header_ok h \<longleftrightarrow> length (hd_name h) = 64 \<and> length (hd_pad h) = 3"

definition argc_of :: "bytes list \<Rightarrow> int" where
  "argc_of argv = sint (word_of_nat (length argv) :: u8)"

definition nheaders_of :: "bytes list \<Rightarrow> int" where
  "nheaders_of argv = (argc_of argv - 1) sdiv 2"

text \<open>\<open>strcpy\<close> into a name of 64 bytes; a longer string runs over the end.\<close>

definition copy_name :: "bytes \<Rightarrow> bytes \<Rightarrow> bytes result" where
  "copy_name src old = (if length src < 64 then Inr (src @ 0 # drop (length src + 1) old) else Inl Undefined)"

text \<open>The first loop; \<open>None\<close> is the exit after a file that cannot be opened.\<close>

primrec fill_headers ::
    "(bytes \<Rightarrow> bytes option) \<Rightarrow> bytes list \<Rightarrow> nat list \<Rightarrow> u32 \<Rightarrow> image_header list \<Rightarrow> image_header list option result" where
  "fill_headers files argv [] off headers = Inr (Some headers)"
| "fill_headers files argv (i # is) off headers =
     rbind (copy_name (argv ! (i * 2 + 2)) (hd_name (headers ! i))) (\<lambda>name.
       case files (argv ! (i * 2 + 1)) of
         None \<Rightarrow> Inr None
       | Some contents \<Rightarrow>
           (let len = word_of_nat (length contents);
                h = (headers ! i)\<lparr>hd_magic := 0xBF, hd_name := name, hd_offset := off, hd_length := len\<rparr>
            in fill_headers files argv is (off + len) (headers[i := h])))"

text \<open>The second loop opens each file again and copies as many bytes as its header says.\<close>

primrec file_data ::
    "(bytes \<Rightarrow> bytes option) \<Rightarrow> bytes list \<Rightarrow> nat list \<Rightarrow> image_header list \<Rightarrow> bytes result" where
  "file_data files argv [] headers = Inr []"
| "file_data files argv (i # is) headers =
     (case files (argv ! (i * 2 + 1)) of
        None \<Rightarrow> Inl Undefined
      | Some contents \<Rightarrow>
          rbind (file_data files argv is headers) (\<lambda>rest.
            Inr (take (unat (hd_length (headers ! i))) contents @ rest)))"

definition make_initrd ::
    "(bytes \<Rightarrow> bytes option) \<Rightarrow> image_header list \<Rightarrow> bytes list \<Rightarrow> bytes option result" where
  "make_initrd files stack argv =
     (let n = nheaders_of argv
      in rbind (fill_headers files argv [0..<nat n] (76 * 64 + 4) stack) (\<lambda>filled.
           case filled of
             None \<Rightarrow> Inr None
           | Some headers \<Rightarrow>
               rbind (file_data files argv [0..<nat n] headers) (\<lambda>dat.
                 Inr (Some (le32 (word_of_int n) @ concat (map header_bytes headers) @ dat)))))"

section \<open>The bytes of an image\<close>

lemma length_le32 [simp]: "length (le32 w) = 4"
  by (simp add: le32_def)

lemma length_header_bytes [simp]: "header_ok h \<Longrightarrow> length (header_bytes h) = 76"
  by (simp add: header_bytes_def header_ok_def)

lemma nth_concat_uniform:
  assumes "\<forall>x \<in> set xs. length (f x) = k" and "i < length xs" and "j < k"
  shows "concat (map f xs) ! (k * i + j) = f (xs ! i) ! j"
  using assms
proof (induction xs arbitrary: i)
  case (Cons x xs)
  show ?case
  proof (cases i)
    case (Suc i')
    then have "concat (map f xs) ! (k * i' + j) = f (xs ! i') ! j" using Cons.prems by (intro Cons.IH) auto
    then show ?thesis using Suc Cons.prems by (simp add: nth_append)
  qed (use Cons.prems in \<open>simp add: nth_append\<close>)
qed simp

lemma length_concat_uniform:
  "\<forall>x \<in> set xs. length (f x) = k \<Longrightarrow> length (concat (map f xs)) = k * length xs"
  by (induction xs) auto

text \<open>Where the contents of a file start within the data behind the headers.\<close>

definition size_before :: "bytes list \<Rightarrow> nat \<Rightarrow> nat" where
  "size_before cs i = sum_list (map length (take i cs))"

lemma size_before_0 [simp]: "size_before cs 0 = 0"
  by (simp add: size_before_def)

lemma size_before_Suc: "i < length cs \<Longrightarrow> size_before cs (Suc i) = size_before cs i + length (cs ! i)"
  by (simp add: size_before_def take_Suc_conv_app_nth)

lemma size_before_mono: "i \<le> j \<Longrightarrow> size_before cs i \<le> size_before cs j"
proof -
  assume "i \<le> j"
  then have "take j cs = take i cs @ take (j - i) (drop i cs)" by (metis le_add_diff_inverse take_add)
  then show ?thesis by (simp add: size_before_def)
qed

lemma nth_concat_size_before:
  assumes "i < length cs" and "j < length (cs ! i)"
  shows "concat cs ! (size_before cs i + j) = cs ! i ! j" and "size_before cs i + j < length (concat cs)"
proof -
  have "concat cs = concat (take i cs) @ cs ! i @ concat (drop (Suc i) cs)"
    using assms(1) by (metis concat.simps(2) concat_append id_take_nth_drop)
  moreover have "length (concat (take i cs)) = size_before cs i" by (simp add: size_before_def length_concat)
  ultimately show "concat cs ! (size_before cs i + j) = cs ! i ! j" "size_before cs i + j < length (concat cs)"
    using assms(2) by (simp_all add: nth_append)
qed

section \<open>The two loops\<close>

text \<open>The arguments of the tool: its own name, then pairs of a file and the name it gets.\<close>

definition tool_args :: "bytes \<Rightarrow> (bytes \<times> bytes) list \<Rightarrow> bytes list" where
  "tool_args prog fs = prog # concat (map (\<lambda>f. [fst f, snd f]) fs)"

lemma tool_args_nth:
  assumes "i < length fs"
  shows "tool_args prog fs ! (i * 2 + 1) = fst (fs ! i)" and "tool_args prog fs ! (i * 2 + 2) = snd (fs ! i)"
proof -
  have u: "\<forall>x \<in> set fs. length [fst x, snd x] = 2" by simp
  show "tool_args prog fs ! (i * 2 + 1) = fst (fs ! i)" "tool_args prog fs ! (i * 2 + 2) = snd (fs ! i)"
    using nth_concat_uniform [OF u assms, of 0] nth_concat_uniform [OF u assms, of 1]
    by (simp_all add: tool_args_def mult.commute)
qed

lemma nheaders_tool_args:
  assumes "length fs \<le> 63"
  shows "nheaders_of (tool_args prog fs) = int (length fs)"
proof -
  have len: "length (tool_args prog fs) = 1 + 2 * length fs"
    by (simp add: tool_args_def length_concat sum_list_triv comp_def)
  have "sint (word_of_nat k :: u8) = int k" if "k < 128" for k
    using that by (simp add: sint_uint signed_take_bit_int_eq_self_iff unsigned_of_nat take_bit_nat_eq_self)
  from this [of "length (tool_args prog fs)"] have "argc_of (tool_args prog fs) = int (length (tool_args prog fs))"
    using assms len unfolding argc_of_def by simp
  then show ?thesis by (simp add: nheaders_of_def signed_divide_int_def sgn_if abs_if len)
qed

text \<open>What the header of file \<open>i\<close> says.\<close>

definition describes :: "(bytes \<times> bytes) list \<Rightarrow> bytes list \<Rightarrow> nat \<Rightarrow> image_header \<Rightarrow> bool" where
  "describes fs cs i h \<longleftrightarrow> hd_magic h = 0xBF \<and> (\<exists>rest. hd_name h = snd (fs ! i) @ 0 # rest)
     \<and> hd_offset h = 4868 + word_of_nat (size_before cs i) \<and> hd_length h = word_of_nat (length (cs ! i))"

definition host_files :: "(bytes \<Rightarrow> bytes option) \<Rightarrow> (bytes \<times> bytes) list \<Rightarrow> bytes list \<Rightarrow> bool" where
  "host_files files fs cs \<longleftrightarrow> length cs = length fs \<and> length fs \<le> 63
     \<and> (\<forall>i < length fs. files (fst (fs ! i)) = Some (cs ! i) \<and> length (snd (fs ! i)) < 64)"

lemma fill_headers_run:
  assumes host: "host_files files fs cs" and "k \<le> length fs" and "length hs = 64" and "\<forall>h \<in> set hs. header_ok h"
  shows "\<exists>hs'. fill_headers files (tool_args prog fs) [k..<length fs] (4868 + word_of_nat (size_before cs k)) hs
      = Inr (Some hs') \<and> length hs' = 64 \<and> (\<forall>h \<in> set hs'. header_ok h) \<and> (\<forall>i < k. hs' ! i = hs ! i)
    \<and> (\<forall>i. k \<le> i \<and> i < length fs \<longrightarrow> describes fs cs i (hs' ! i))"
  using assms(2-)
proof (induction k arbitrary: hs rule: inc_induct)
  case base
  then show ?case by auto
next
  case (step k)
  have f: "files (fst (fs ! k)) = Some (cs ! k)" "length (snd (fs ! k)) < 64" and len: "length fs \<le> 63" "length cs = length fs"
    using host step.hyps by (auto simp: host_files_def)
  define h where "h = (hs ! k)\<lparr>hd_magic := 0xBF, hd_name := snd (fs ! k) @ 0 # drop (length (snd (fs ! k)) + 1) (hd_name (hs ! k)),
    hd_offset := 4868 + word_of_nat (size_before cs k), hd_length := word_of_nat (length (cs ! k))\<rparr>"
  have k: "k < length hs" using step.hyps step.prems(1) len by simp
  then have "header_ok (hs ! k)" using step.prems(2) by simp
  then have ok: "header_ok h" using f(2) by (simp add: h_def header_ok_def)
  have off: "4868 + word_of_nat (size_before cs k) + word_of_nat (length (cs ! k))
      = (4868 + word_of_nat (size_before cs (Suc k)) :: u32)"
    using step.hyps len by (simp add: size_before_Suc)
  have go: "fill_headers files (tool_args prog fs) [k..<length fs] (4868 + word_of_nat (size_before cs k)) hs
    = fill_headers files (tool_args prog fs) [Suc k..<length fs] (4868 + word_of_nat (size_before cs (Suc k))) (hs[k := h])"
    using step.hyps f tool_args_nth [of k fs prog]
    by (simp add: upt_conv_Cons copy_name_def Let_def off h_def)
  have "\<forall>h' \<in> set (hs[k := h]). header_ok h'" using step.prems(2) ok by (auto dest!: set_update_subset_insert [THEN subsetD])
  with step.IH [of "hs[k := h]"] step.prems(1) obtain hs' where
    r: "fill_headers files (tool_args prog fs) [k..<length fs] (4868 + word_of_nat (size_before cs k)) hs = Inr (Some hs')"
      "length hs' = 64" "\<forall>h \<in> set hs'. header_ok h" "\<forall>i < Suc k. hs' ! i = hs[k := h] ! i"
      "\<forall>i. Suc k \<le> i \<and> i < length fs \<longrightarrow> describes fs cs i (hs' ! i)"
    unfolding go by auto
  have "describes fs cs k (hs' ! k)" using r(4) k by (simp add: describes_def h_def)
  then have "\<forall>i. k \<le> i \<and> i < length fs \<longrightarrow> describes fs cs i (hs' ! i)"
    using r(5) by (metis le_antisym not_less_eq_eq)
  moreover have "\<forall>i < k. hs' ! i = hs ! i" using r(4) by simp
  ultimately show ?case using r(1-3) by blast
qed

lemma file_data_run:
  assumes host: "host_files files fs cs" and small: "\<forall>c \<in> set cs. length c < 2 ^ 32"
    and des: "\<forall>i < length fs. describes fs cs i (hs ! i)" and "k \<le> length fs"
  shows "file_data files (tool_args prog fs) [k..<length fs] hs = Inr (concat (drop k cs))"
  using assms(4)
proof (induction k rule: inc_induct)
  case base
  then show ?case using host by (simp add: host_files_def)
next
  case (step k)
  have f: "files (fst (fs ! k)) = Some (cs ! k)" and len: "length cs = length fs"
    using host step.hyps by (auto simp: host_files_def)
  have "length (cs ! k) < 2 ^ 32" using small step.hyps len by simp
  then have "unat (hd_length (hs ! k)) = length (cs ! k)"
    using des step.hyps by (simp add: describes_def unsigned_of_nat take_bit_nat_eq_self)
  moreover have "drop k cs = cs ! k # drop (Suc k) cs" using step.hyps len by (simp add: Cons_nth_drop_Suc)
  ultimately show ?case
    using step f tool_args_nth(1) [of k fs prog] by (simp add: upt_conv_Cons)
qed

text \<open>The image: the count, 64 headers, the contents one after the other.\<close>

lemma make_initrd_run:
  assumes host: "host_files files fs cs" and small: "\<forall>c \<in> set cs. length c < 2 ^ 32"
    and stack: "length stack = 64" "\<forall>h \<in> set stack. header_ok h"
  obtains hs where "make_initrd files stack (tool_args prog fs)
      = Inr (Some (le32 (word_of_nat (length fs)) @ concat (map header_bytes hs) @ concat cs))"
    and "length hs = 64" and "\<forall>h \<in> set hs. header_ok h" and "\<forall>i < length fs. describes fs cs i (hs ! i)"
proof -
  obtain hs where r: "fill_headers files (tool_args prog fs) [0..<length fs] 4868 stack = Inr (Some hs)"
      "length hs = 64" "\<forall>h \<in> set hs. header_ok h" "\<forall>i < length fs. describes fs cs i (hs ! i)"
    using fill_headers_run [OF host le0 stack, of prog] by auto
  have "nheaders_of (tool_args prog fs) = int (length fs)"
    by (rule nheaders_tool_args) (use host in \<open>simp add: host_files_def\<close>)
  then have "make_initrd files stack (tool_args prog fs)
      = Inr (Some (le32 (word_of_nat (length fs)) @ concat (map header_bytes hs) @ concat cs))"
    using r(1) file_data_run [OF host small r(4) le0, of prog] by (simp add: make_initrd_def Let_def)
  then show thesis using r(2-4) by (rule that)
qed

end
