(* ===== verification/Ramdisk_Properties.thy ===== *)
theory Ramdisk_Properties
  imports Make_Initrd Device_Properties
begin

text \<open>
  The ramdisk from the tool that writes the image to the kernel that reads it: what the image
  holds, where the kernel looks for it, and the lookup of a file by its name.
\<close>

section \<open>Bytes in memory\<close>

lemma bytes_at_nth: "bytes_at m p bs \<Longrightarrow> j < length bs \<Longrightarrow> m (p + word_of_nat j) = bs ! j"
proof (induction bs arbitrary: p j)
  case (Cons b bs)
  show ?case
  proof (cases j)
    case (Suc i)
    then have "m (p + 1 + word_of_nat i) = bs ! i" using Cons.prems by (intro Cons.IH) simp_all
    then show ?thesis using Suc by (simp add: add.assoc)
  qed (use Cons.prems in simp)
qed simp

lemma bytes_atI: "(\<And>j. j < length bs \<Longrightarrow> m (p + word_of_nat j) = bs ! j) \<Longrightarrow> bytes_at m p bs"
proof (induction bs arbitrary: p)
  case (Cons b bs)
  have "m (p + 1 + word_of_nat j) = bs ! j" if "j < length bs" for j
    using Cons.prems [of "Suc j"] that by (simp add: algebra_simps)
  then show ?case using Cons.IH Cons.prems [of 0] by simp
qed simp

lemma cstr_at_iff: "cstr_at m p s \<longleftrightarrow> bytes_at m p (s @ [0]) \<and> 0 \<notin> set s"
  by (induction s arbitrary: p) auto

lemma le32_read32:
  assumes "bytes_at m a [b0, b1, b2, b3]"
  shows "le32 (read32 m a) = [b0, b1, b2, b3]"
proof -
  have "m a = b0" "m (a + 1) = b1" "m (a + 2) = b2" "m (a + 3) = b3" using assms by (simp_all add: add.commute)
  then show ?thesis
    by (auto simp: le32_def read32_def intro!: bit_word_eqI) (auto simp: bit_simps dest: bit_imp_le_length)
qed

lemma le32_read32_take:
  assumes "bytes_at m a bs" and "length bs = 4"
  shows "le32 (read32 m a) = bs"
proof -
  obtain b0 b1 b2 b3 where "bs = [b0, b1, b2, b3]"
    using assms(2) by (auto simp: length_Suc_conv numeral_eq_Suc)
  then show ?thesis using assms(1) le32_read32 by blast
qed

lemma le32_inject [simp]: "le32 v = le32 w \<longleftrightarrow> v = w"
proof
  assume "le32 v = le32 w"
  then have "read32 (write32 (\<lambda>_. 0) 0 v) 0 = read32 (write32 (\<lambda>_. 0) 0 w) 0"
    by (simp add: le32_def write32_def)
  then show "v = w" by simp
qed simp

lemma bytes_at_le32: "bytes_at m a (le32 w) \<Longrightarrow> read32 m a = w"
  using le32_read32 [of m a "ucast w" "ucast (drop_bit 8 w)" "ucast (drop_bit 16 w)" "ucast (drop_bit 24 w)"]
  by (simp add: le32_def [symmetric] del: bytes_at.simps)

section \<open>The image\<close>

lemma image_nth:
  assumes "length hs = 64" and "\<forall>h \<in> set hs. header_ok h"
  shows "i < 64 \<Longrightarrow> j < 76 \<Longrightarrow>
      (le32 w @ concat (map header_bytes hs) @ rest) ! (4 + (76 * i + j)) = header_bytes (hs ! i) ! j"
    and "(le32 w @ concat (map header_bytes hs) @ rest) ! (4868 + k) = rest ! k"
    and "length (le32 w @ concat (map header_bytes hs) @ rest) = 4868 + length rest"
proof -
  have u: "\<forall>h \<in> set hs. length (header_bytes h) = 76" using assms(2) by simp
  have len: "length (concat (map header_bytes hs)) = 4864" using length_concat_uniform [OF u] assms(1) by simp
  show "(le32 w @ concat (map header_bytes hs) @ rest) ! (4 + (76 * i + j)) = header_bytes (hs ! i) ! j"
    if "i < 64" "j < 76"
    using nth_concat_uniform [OF u _ that(2), of i] that assms(1) len by (simp add: nth_append)
  show "(le32 w @ concat (map header_bytes hs) @ rest) ! (4868 + k) = rest ! k"
    "length (le32 w @ concat (map header_bytes hs) @ rest) = 4868 + length rest"
    using len by (simp_all add: nth_append)
qed

text \<open>The bytes of header \<open>i\<close> in memory, counted from the start of the header table.\<close>

lemma header_in_memory:
  assumes img: "bytes_at m loc (le32 w @ concat (map header_bytes hs) @ rest)"
    and hs: "length hs = 64" "\<forall>h \<in> set hs. header_ok h" and "i < 64" and "j + length bs \<le> 76"
    and bs: "\<forall>k < length bs. header_bytes (hs ! i) ! (j + k) = bs ! k"
  shows "bytes_at m (fh_at (loc + 4) (word_of_nat i) + word_of_nat j) bs"
proof (rule bytes_atI)
  fix k assume k: "k < length bs"
  have eq: "fh_at (loc + 4) (word_of_nat i) + word_of_nat j + word_of_nat k
      = loc + word_of_nat (4 + (76 * i + (j + k)))"
    by (simp add: fh_at_def)
  have "m (loc + word_of_nat (4 + (76 * i + (j + k)))) = header_bytes (hs ! i) ! (j + k)"
    using bytes_at_nth [OF img, of "4 + (76 * i + (j + k))"] image_nth(1) [OF hs assms(4), of "j + k" w rest]
      image_nth(3) [OF hs, of w rest] assms(4,5) k by simp
  then show "m (fh_at (loc + 4) (word_of_nat i) + word_of_nat j + word_of_nat k) = bs ! k"
    unfolding eq using bs k by simp
qed

lemma header_bytes_nth:
  assumes "header_ok h"
  shows "k < 64 \<Longrightarrow> header_bytes h ! (1 + k) = hd_name h ! k"
    and "k < 4 \<Longrightarrow> header_bytes h ! (68 + k) = le32 (hd_offset h) ! k"
    and "k < 4 \<Longrightarrow> header_bytes h ! (72 + k) = le32 (hd_length h) ! k"
  using assms by (simp_all add: header_bytes_def header_ok_def nth_append nth_Cons')

text \<open>Two files for the witnesses, and an image loaded into memory.\<close>

definition two_files :: "(bytes \<times> bytes) list" where
  "two_files = [([0x31], replicate 12 0x61 @ [0x62, 0x63]),
     ([0x32], [0x41, 0x42, 0x43, 0x44, 0x45, 0x46, 0x47, 0x48, 0x49, 0x4A, 0x4B])]"

definition two_contents :: "bytes \<Rightarrow> bytes option" where
  "two_contents p = (if p = [0x31] then Some [7, 8] else if p = [0x32] then Some [9] else None)"

definition blank_stack :: "image_header list" where
  "blank_stack = replicate 64 \<lparr>hd_magic = 0, hd_name = replicate 64 0, hd_pad = [0, 0, 0], hd_offset = 0, hd_length = 0\<rparr>"

lemma two_files_host:
  "host_files two_contents two_files [[7, 8], [9]]" "\<forall>c \<in> set [[7, 8], [9 :: u8]]. length c < 2 ^ 32"
  "\<forall>f \<in> set two_files. 0 \<notin> set (snd f)" "length blank_stack = 64" "\<forall>h \<in> set blank_stack. header_ok h"
proof -
  show "host_files two_contents two_files [[7, 8], [9]]"
    by (simp add: host_files_def two_files_def two_contents_def All_less_Suc2)
qed (simp_all add: two_files_def blank_stack_def header_ok_def)

definition load :: "bytes \<Rightarrow> u32 \<Rightarrow> mem" where
  "load bs loc a = bs ! unat (a - loc)"

lemma bytes_at_load: "length bs \<le> 2 ^ 32 \<Longrightarrow> bytes_at (load bs loc) loc bs"
  by (rule bytes_atI) (simp add: load_def unsigned_of_nat take_bit_nat_eq_self)

text \<open>C27: The image holds the files. Run on at most 63 files with names of less than 64 characters,
  \<open>make_initrd\<close> returns an image; wherever it lies in memory, it starts with the number of files,
  and the header table behind that word gives for every file its name, the length of its contents
  and the offset in the image at which exactly those contents lie.\<close>
theorem image_holds_files:
  assumes "host_files files fs cs" and "\<forall>c \<in> set cs. length c < 2 ^ 32"
    and "\<forall>f \<in> set fs. 0 \<notin> set (snd f)"
    and "length stack = 64" and "\<forall>h \<in> set stack. header_ok h"
  shows "\<exists>img. make_initrd files stack (tool_args prog fs) = Inr (Some img) \<and> length img = 4868 + length (concat cs)
    \<and> (\<forall>m loc. bytes_at m loc img \<longrightarrow> read32 m loc = word_of_nat (length fs)
         \<and> (\<forall>i < length fs. let h = fh_at (loc + 4) (word_of_nat i)
              in cstr_at m (fh_name h) (snd (fs ! i)) \<and> unat (fh_length m h) = length (cs ! i)
               \<and> bytes_at m (loc + fh_offset m h) (cs ! i)))"
proof -
  from make_initrd_run [OF assms(1,2,4,5), of prog] obtain hs where
    img: "make_initrd files stack (tool_args prog fs)
        = Inr (Some (le32 (word_of_nat (length fs)) @ concat (map header_bytes hs) @ concat cs))"
    and hs: "length hs = 64" "\<forall>h \<in> set hs. header_ok h" "\<forall>i < length fs. describes fs cs i (hs ! i)" by blast
  let ?img = "le32 (word_of_nat (length fs)) @ concat (map header_bytes hs) @ concat cs"
  have host: "length cs = length fs" "length fs \<le> 63" using assms(1) by (simp_all add: host_files_def)
  have "read32 m loc = word_of_nat (length fs)" if at: "bytes_at m loc ?img" for m loc
    by (rule bytes_at_le32, rule bytes_atI) (use bytes_at_nth [OF at] in \<open>simp add: nth_append\<close>)
  moreover have "let h = fh_at (loc + 4) (word_of_nat i)
      in cstr_at m (fh_name h) (snd (fs ! i)) \<and> unat (fh_length m h) = length (cs ! i)
       \<and> bytes_at m (loc + fh_offset m h) (cs ! i)"
    if at: "bytes_at m loc ?img" and i: "i < length fs" for m loc i
  proof -
    have d: "describes fs cs i (hs ! i)" and ok: "header_ok (hs ! i)" and i64: "i < 64"
      using hs i host by simp_all
    note inm = header_in_memory [OF at hs(1,2) i64] and nb = header_bytes_nth [OF ok]
    let ?h = "fh_at (loc + 4) (word_of_nat i)"
    from d obtain pad where name: "hd_name (hs ! i) = snd (fs ! i) @ 0 # pad" by (auto simp: describes_def)
    then have short: "length (snd (fs ! i)) < 64" using ok by (auto simp: header_ok_def)
    have "bytes_at m (?h + word_of_nat 1) (snd (fs ! i) @ [0])"
      by (rule inm) (use nb(1) name short in \<open>auto simp: nth_append\<close>)
    then have n: "cstr_at m (fh_name ?h) (snd (fs ! i))" using assms(3) i by (simp add: cstr_at_iff fh_name_def)
    have "bytes_at m (?h + word_of_nat 68) (le32 (hd_offset (hs ! i)))" "bytes_at m (?h + word_of_nat 72) (le32 (hd_length (hs ! i)))"
      by (rule inm; use nb(2,3) in simp)+
    then have f: "fh_offset m ?h = 4868 + word_of_nat (size_before cs i)" "fh_length m ?h = word_of_nat (length (cs ! i))"
      using d by (simp_all add: fh_offset_def fh_length_def describes_def bytes_at_le32)
    have "length (cs ! i) < 2 ^ 32" using assms(2) i host by simp
    then have l: "unat (fh_length m ?h) = length (cs ! i)" using f(2) by (simp add: unsigned_of_nat take_bit_nat_eq_self)
    have "bytes_at m (loc + fh_offset m ?h) (cs ! i)"
    proof (rule bytes_atI)
      fix j assume j: "j < length (cs ! i)"
      note pos = nth_concat_size_before [OF _ j]
      have "m (loc + word_of_nat (4868 + (size_before cs i + j))) = concat cs ! (size_before cs i + j)"
        using bytes_at_nth [OF at, of "4868 + (size_before cs i + j)"] image_nth(2,3) [OF hs(1,2)] pos(2) i host by simp
      then show "m (loc + fh_offset m ?h + word_of_nat j) = cs ! i ! j"
        using pos(1) i host f(1) by (simp add: algebra_simps)
    qed
    with n l show ?thesis by simp
  qed
  moreover have "length ?img = 4868 + length (concat cs)" by (rule image_nth(3) [OF hs(1,2)])
  ultimately show ?thesis using img by blast
qed

theorem image_holds_files_witness:
  "\<exists>img m. make_initrd two_contents blank_stack (tool_args [0x6D] two_files) = Inr (Some img) \<and> length img = 4871
    \<and> bytes_at m 0x100000 img \<and> read32 m 0x100000 = 2 \<and> bytes_at m (0x100000 + fh_offset m 0x100050) [9]"
proof -
  from image_holds_files [OF two_files_host, of "[0x6D]"] obtain img where
    img: "make_initrd two_contents blank_stack (tool_args [0x6D] two_files) = Inr (Some img)" "length img = 4871"
    and all: "bytes_at m loc img \<Longrightarrow> read32 m loc = word_of_nat (length two_files)
      \<and> (\<forall>i < length two_files. let h = fh_at (loc + 4) (word_of_nat i)
          in cstr_at m (fh_name h) (snd (two_files ! i)) \<and> unat (fh_length m h) = length ([[7, 8], [9]] ! i :: bytes)
           \<and> bytes_at m (loc + fh_offset m h) ([[7, 8], [9]] ! i))" for m loc
    by auto
  have at: "bytes_at (load img 0x100000) 0x100000 img" by (rule bytes_at_load) (simp add: img(2))
  have "length two_files = 2" "fh_at (0x100000 + 4) (word_of_nat 1) = 0x100050" by (simp_all add: two_files_def fh_at_def)
  then have "read32 (load img 0x100000) 0x100000 = 2"
    "bytes_at (load img 0x100000) (0x100000 + fh_offset (load img 0x100000) 0x100050) [9]"
    using all [OF at] by (auto simp: Let_def dest: spec [of _ 1])
  with img at show ?thesis by blast
qed

text \<open>C33: The kernel does not find the headers. \<open>initialise_initrd\<close> looks for the header table 16 bytes
  behind the start of the image, 12 bytes too far: of a file's name it sees what follows the first
  twelve characters, and as offset and length the characters 3 to 6 and 7 to 10 of the name of
  the next file.\<close>
theorem image_headers_misread:
  assumes "host_files files fs cs" and "\<forall>c \<in> set cs. length c < 2 ^ 32"
    and "\<forall>f \<in> set fs. 0 \<notin> set (snd f)"
    and "length stack = 64" and "\<forall>h \<in> set stack. header_ok h"
    and "Suc i < length fs" and "12 \<le> length (snd (fs ! i))" and "11 \<le> length (snd (fs ! Suc i))"
  shows "\<exists>img. make_initrd files stack (tool_args prog fs) = Inr (Some img) \<and> length img = 4868 + length (concat cs)
    \<and> (\<forall>m loc. bytes_at m loc img \<longrightarrow>
         (let h = fh_at (header_table loc) (word_of_nat i)
          in cstr_at m (fh_name h) (drop 12 (snd (fs ! i)))
           \<and> le32 (fh_offset m h) = take 4 (drop 3 (snd (fs ! Suc i)))
           \<and> le32 (fh_length m h) = take 4 (drop 7 (snd (fs ! Suc i)))))"
proof -
  from make_initrd_run [OF assms(1,2,4,5), of prog] obtain hs where
    img: "make_initrd files stack (tool_args prog fs)
        = Inr (Some (le32 (word_of_nat (length fs)) @ concat (map header_bytes hs) @ concat cs))"
    and hs: "length hs = 64" "\<forall>h \<in> set hs. header_ok h" "\<forall>i < length fs. describes fs cs i (hs ! i)" by blast
  let ?img = "le32 (word_of_nat (length fs)) @ concat (map header_bytes hs) @ concat cs"
  have host: "length fs \<le> 63" using assms(1) by (simp add: host_files_def)
  have "let h = fh_at (header_table loc) (word_of_nat i)
      in cstr_at m (fh_name h) (drop 12 (snd (fs ! i)))
       \<and> le32 (fh_offset m h) = take 4 (drop 3 (snd (fs ! Suc i)))
       \<and> le32 (fh_length m h) = take 4 (drop 7 (snd (fs ! Suc i)))"
    if at: "bytes_at m loc ?img" for m loc
  proof -
    have d: "describes fs cs i (hs ! i)" "describes fs cs (Suc i) (hs ! Suc i)"
      and ok: "header_ok (hs ! i)" "header_ok (hs ! Suc i)" and lim: "i < 64" "Suc i < 64"
      using hs assms(6) host by simp_all
    let ?h = "fh_at (header_table loc) (word_of_nat i)"
    from d obtain p q where name: "hd_name (hs ! i) = snd (fs ! i) @ 0 # p" "hd_name (hs ! Suc i) = snd (fs ! Suc i) @ 0 # q"
      by (auto simp: describes_def)
    then have short: "length (snd (fs ! i)) < 64" "length (snd (fs ! Suc i)) < 64" using ok by (auto simp: header_ok_def)
    have "bytes_at m (fh_at (loc + 4) (word_of_nat i) + word_of_nat 13) (drop 12 (snd (fs ! i)) @ [0])"
    proof (rule header_in_memory [OF at hs(1,2) lim(1)])
      show "\<forall>k < length (drop 12 (snd (fs ! i)) @ [0]). header_bytes (hs ! i) ! (13 + k) = (drop 12 (snd (fs ! i)) @ [0]) ! k"
        using header_bytes_nth(1) [OF ok(1), of "12 + k" for k] name(1) short(1) assms(7)
        by (auto simp: nth_append numeral_eq_Suc)
    qed (use short assms(7) in simp)
    moreover have "fh_name ?h = fh_at (loc + 4) (word_of_nat i) + word_of_nat 13"
      by (simp add: fh_name_def fh_at_def header_table_def)
    ultimately have "cstr_at m (fh_name ?h) (drop 12 (snd (fs ! i)))"
      using assms(3,6) by (auto simp: cstr_at_iff dest!: in_set_dropD)
    moreover have "bytes_at m (fh_at (loc + 4) (word_of_nat (Suc i)) + word_of_nat (1 + k)) (take 4 (drop k (snd (fs ! Suc i))))"
      if "k + 4 \<le> 11" for k
    proof (rule header_in_memory [OF at hs(1,2) lim(2)])
      show "\<forall>j < length (take 4 (drop k (snd (fs ! Suc i)))). header_bytes (hs ! Suc i) ! (1 + k + j)
          = take 4 (drop k (snd (fs ! Suc i))) ! j"
        using header_bytes_nth(1) [OF ok(2), of "k + j" for j] name(2) short(2) assms(8) that
        by (auto simp: nth_append add.assoc)
    qed (use that in simp)
    from this [of 3] this [of 7]
    have "bytes_at m (?h + 68) (take 4 (drop 3 (snd (fs ! Suc i))))" "bytes_at m (?h + 72) (take 4 (drop 7 (snd (fs ! Suc i))))"
      by (simp_all add: fh_at_def header_table_def algebra_simps)
    then have "le32 (fh_offset m ?h) = take 4 (drop 3 (snd (fs ! Suc i)))" "le32 (fh_length m ?h) = take 4 (drop 7 (snd (fs ! Suc i)))"
      unfolding fh_offset_def fh_length_def using assms(8) by (auto intro!: le32_read32_take)
    ultimately show ?thesis by simp
  qed
  moreover have "length ?img = 4868 + length (concat cs)" by (rule image_nth(3) [OF hs(1,2)])
  ultimately show ?thesis using img by blast
qed

theorem image_headers_misread_witness:
  "\<exists>img m. make_initrd two_contents blank_stack (tool_args [0x6D] two_files) = Inr (Some img) \<and> bytes_at m 0x100000 img
    \<and> cstr_at m (fh_name (fh_at (header_table 0x100000) 0)) [0x62, 0x63]
    \<and> le32 (fh_length m (fh_at (header_table 0x100000) 0)) = [0x48, 0x49, 0x4A, 0x4B]"
proof -
  have f: "Suc 0 < length two_files" "12 \<le> length (snd (two_files ! 0))" "11 \<le> length (snd (two_files ! Suc 0))"
    "drop 12 (snd (two_files ! 0)) = [0x62, 0x63]" "take 4 (drop 7 (snd (two_files ! Suc 0))) = [0x48, 0x49, 0x4A, 0x4B]"
    by (simp_all add: two_files_def)
  from image_headers_misread [OF two_files_host f(1-3), of "[0x6D]"] obtain img where
    img: "make_initrd two_contents blank_stack (tool_args [0x6D] two_files) = Inr (Some img)" "length img = 4871"
    and all: "bytes_at m loc img \<Longrightarrow> (let h = fh_at (header_table loc) (word_of_nat 0)
          in cstr_at m (fh_name h) (drop 12 (snd (two_files ! 0)))
           \<and> le32 (fh_offset m h) = take 4 (drop 3 (snd (two_files ! Suc 0)))
           \<and> le32 (fh_length m h) = take 4 (drop 7 (snd (two_files ! Suc 0))))" for m loc
    by auto
  have at: "bytes_at (load img 0x100000) 0x100000 img" by (rule bytes_at_load) (simp add: img(2))
  from all [OF at] img(1) at show ?thesis unfolding f(4,5) Let_def by auto
qed

section \<open>Finding a file by its name\<close>

definition node_names :: "'a filesystem_scheme \<Rightarrow> bytes list \<Rightarrow> bool" where
  "node_names s names \<longleftrightarrow> length names = unat (nroot_nodes s)
     \<and> (\<forall>i < length names. cstr_at (ram s) (node_at (root_nodes s) (word_of_nat i)) (names ! i))"

lemma find_node_first:
  assumes "\<forall>i \<in> set is. cstr_at m (node_at base (word_of_nat i)) (names ! i)" and "cstr_at m nm str"
  shows "find_node m nm base is = Inr (case find (\<lambda>i. names ! i = str) is of
     None \<Rightarrow> 0 | Some i \<Rightarrow> node_at base (word_of_nat i))"
  using assms(1)
proof (induction "is")
  case (Cons i "is")
  then show ?case using strcmp_decides [OF assms(2), of "node_at base (word_of_nat i)" "names ! i"] by auto
qed simp

text \<open>C29: Looking up a name finds the first file with that name. \<open>initrd_finddir\<close> ends and agrees
  with a search of the list of names: the directory of devices for its name in the root, else
  the node of the first file of that name, else the null pointer.\<close>
theorem initrd_finddir_first_match:
  assumes "node_names s names" and "cstr_at (ram s) nm str" and "cstr_at (ram s) (str_dev lk) dev"
  shows "initrd_finddir lk node nm s = Inr (if node = initrd_root s \<and> str = dev then initrd_dev s
    else case find (\<lambda>i. names ! i = str) [0..<length names] of
       None \<Rightarrow> 0 | Some i \<Rightarrow> node_at (root_nodes s) (word_of_nat i))"
proof -
  have "\<forall>i \<in> set [0..<length names]. cstr_at (ram s) (node_at (root_nodes s) (word_of_nat i)) (names ! i)"
    using assms(1) by (simp add: node_names_def)
  note find = find_node_first [OF this assms(2)]
  have "unat (nroot_nodes s) = length names" using assms(1) by (simp add: node_names_def)
  then show ?thesis
    using find strcmp_decides [OF assms(2,3)] by (auto simp: initrd_finddir_def Let_def)
qed

theorem initrd_finddir_first_match_witness:
  "initrd_finddir (\<lparr>str_dev = 0x20, str_initrd = 0, str_keyboard = 0, at_dirent = 0, fn_initrd_read = 0,
      fn_initrd_readdir = 0, fn_initrd_finddir = 0, fn_keyboard_read = 0, fn_keyboard_write = 0, fn_keyboard_selftest = 0\<rparr>)
     0x500 0x30 (zero_fs\<lparr>ram := (\<lambda>_. 0)(0x20 := 0x64, 0x30 := 0x62, 0x1000 := 0x61, 0x113C := 0x62),
       root_nodes := 0x1000, nroot_nodes := 2, initrd_root := 0x500, initrd_dev := 0x600\<rparr>) = Inr 0x113C"
proof -
  let ?lk = "\<lparr>str_dev = 0x20, str_initrd = 0, str_keyboard = 0, at_dirent = 0, fn_initrd_read = 0,
      fn_initrd_readdir = 0, fn_initrd_finddir = 0, fn_keyboard_read = 0, fn_keyboard_write = 0, fn_keyboard_selftest = 0\<rparr>"
  let ?s = "zero_fs\<lparr>ram := (\<lambda>_. 0)(0x20 := 0x64, 0x30 := 0x62, 0x1000 := 0x61, 0x113C := 0x62),
       root_nodes := 0x1000, nroot_nodes := 2, initrd_root := 0x500, initrd_dev := 0x600\<rparr>"
  have "node_names ?s [[0x61], [0x62]]"
    by (simp add: node_names_def node_at_def sizeof_fs_node_def All_less_Suc2)
  moreover have "cstr_at (ram ?s) 0x30 [0x62]" "cstr_at (ram ?s) (str_dev ?lk) [0x64]" by simp_all
  ultimately have "initrd_finddir ?lk 0x500 0x30 ?s = Inr (if (0x500 :: u32) = initrd_root ?s \<and> [0x62] = [0x64 :: u8] then initrd_dev ?s
    else case find (\<lambda>i. [[0x61], [0x62]] ! i = [0x62 :: u8]) [0..<length [[0x61 :: u8], [0x62]]] of
       None \<Rightarrow> 0 | Some i \<Rightarrow> node_at (root_nodes ?s) (word_of_nat i))"
    by (rule initrd_finddir_first_match)
  then show ?thesis by (simp add: node_at_def sizeof_fs_node_def upt_rec)
qed

end
