(* ===== verification/Ramdisk_Mount.thy ===== *)
theory Ramdisk_Mount
  imports Ramdisk_Properties
begin

text \<open>
  The nodes that \<open>initialise_initrd\<close> builds: what one pass of its loop writes, and the loop.
\<close>

section \<open>Memory changed within several ranges\<close>

definition changed_within :: "(nat \<times> nat) set \<Rightarrow> mem \<Rightarrow> mem \<Rightarrow> bool" where
  "changed_within R m m' \<longleftrightarrow> (\<forall>x. (\<forall>(lo, hi) \<in> R. unat x < lo \<or> hi \<le> unat x) \<longrightarrow> m' x = m x)"

lemma changed_within_refl [simp]: "changed_within R m m"
  by (simp add: changed_within_def)

lemma changed_within_trans: "changed_within R m m' \<Longrightarrow> changed_within R m' m'' \<Longrightarrow> changed_within R m m''"
  by (simp add: changed_within_def)

lemma changed_within_mono:
  assumes "changed_within R m m'" and "\<forall>(lo, hi) \<in> R. \<exists>(lo', hi') \<in> S. lo' \<le> lo \<and> hi \<le> hi'"
  shows "changed_within S m m'"
  unfolding changed_within_def
proof (intro allI impI)
  fix x :: u32 assume out: "\<forall>(lo, hi) \<in> S. unat x < lo \<or> hi \<le> unat x"
  have "unat x < lo \<or> hi \<le> unat x" if r: "(lo, hi) \<in> R" for lo hi
  proof -
    obtain lo' hi' where "(lo', hi') \<in> S" "lo' \<le> lo" "hi \<le> hi'" using assms(2) r by blast
    then show ?thesis using out by fastforce
  qed
  then have "\<forall>(lo, hi) \<in> R. unat x < lo \<or> hi \<le> unat x" by blast
  then show "m' x = m x" using assms(1) by (simp add: changed_within_def)
qed

lemma same_outside_changed:
  "same_outside a n m m' \<Longrightarrow> changed_within {(unat a, unat a + n)} m m'"
  by (auto simp: same_outside_def changed_within_def in_region_def)

lemma bytes_at_changed:
  assumes "changed_within R m m'" and "\<forall>(lo, hi) \<in> R. unat p + length bs \<le> lo \<or> hi \<le> unat p"
    and "unat p + length bs \<le> 2 ^ 32"
  shows "bytes_at m p bs \<Longrightarrow> bytes_at m' p bs"
proof (rule bytes_atI)
  fix j assume at: "bytes_at m p bs" and j: "j < length bs"
  have u: "unat (p + word_of_nat j) = unat p + j" using assms(3) j by (intro unat_add_small) simp
  have "\<forall>(lo, hi) \<in> R. unat (p + word_of_nat j) < lo \<or> hi \<le> unat (p + word_of_nat j)"
    unfolding u using assms(2) j by fastforce
  then have "m' (p + word_of_nat j) = m (p + word_of_nat j)" using assms(1) by (simp add: changed_within_def)
  then show "m' (p + word_of_nat j) = bs ! j" using bytes_at_nth [OF at j] by simp
qed

lemma cstr_at_changed:
  assumes "changed_within R m m'" and "\<forall>(lo, hi) \<in> R. unat p + length str + 1 \<le> lo \<or> hi \<le> unat p"
    and "unat p + length str + 1 \<le> 2 ^ 32"
  shows "cstr_at m p str \<Longrightarrow> cstr_at m' p str"
  using bytes_at_changed [OF assms(1), of p "str @ [0]"] assms(2,3) by (auto simp: cstr_at_iff)

lemma read32_changed:
  assumes "changed_within R m m'" and "\<forall>(lo, hi) \<in> R. unat a + 4 \<le> lo \<or> hi \<le> unat a"
    and "unat a + 4 \<le> 2 ^ 32"
  shows "read32 m' a = read32 m a"
proof -
  have u: "unat (a + word_of_nat j) = unat a + j" if "j < 4" for j using assms(3) that by (intro unat_add_small) simp
  have "m' (a + word_of_nat j) = m (a + word_of_nat j)" if "j < 4" for j
  proof -
    have "\<forall>(lo, hi) \<in> R. unat (a + word_of_nat j) < lo \<or> hi \<le> unat (a + word_of_nat j)"
      unfolding u [OF that] using assms(2) that by fastforce
    then show ?thesis using assms(1) by (simp add: changed_within_def)
  qed
  from this [of 0] this [of 1] this [of 2] this [of 3] show ?thesis by (simp add: read32_def)
qed

section \<open>Nodes of files\<close>

lemma set_fields_changed:
  assumes "\<forall>(off, v) \<in> set fvs. 256 \<le> unat off \<and> unat off \<le> 312" and "unat node + 316 \<le> 2 ^ 32"
  shows "changed_within {(unat node + 256, unat node + 316)} m (set_fields node fvs m)"
  using assms(1)
proof (induction fvs arbitrary: m)
  case (Cons f fvs)
  obtain off v where f: "f = (off, v)" by fastforce
  have o: "256 \<le> unat off" "unat off \<le> 312" using Cons.prems f by auto
  then have u: "unat (node + off) = unat node + unat off"
    using unat_add_small [of node "unat off"] assms(2) by simp
  have "same_outside (node + off) 4 m (write32 m (node + off) v)"
    by (rule same_outside_write32) (use u o assms(2) in simp)
  from same_outside_changed [OF this]
  have "changed_within {(unat node + 256, unat node + 316)} m (write32 m (node + off) v)"
    by (rule changed_within_mono) (use u o in simp)
  moreover have "changed_within {(unat node + 256, unat node + 316)} (write32 m (node + off) v)
      (set_fields node fvs (write32 m (node + off) v))"
    by (rule Cons.IH) (use Cons.prems in auto)
  ultimately have "changed_within {(unat node + 256, unat node + 316)} m
      (set_fields node fvs (write32 m (node + off) v))"
    by (rule changed_within_trans)
  then show ?case by (simp add: f set_fields_def set_node_field_def)
qed (simp add: set_fields_def)

text \<open>What the node of a file says once it is built; the name has no NUL behind it.\<close>

definition file_node :: "fs_link \<Rightarrow> mem \<Rightarrow> u32 \<Rightarrow> u32 \<Rightarrow> u32 \<Rightarrow> bytes \<Rightarrow> bool" where
  "file_node lk m node i len name \<longleftrightarrow> bytes_at m node name
     \<and> node_field n_inode m node = i \<and> node_field n_length m node = len \<and> node_field n_flags m node = FS_FILE
     \<and> node_field n_read m node = fn_initrd_read lk \<and> node_field n_write m node = 0
     \<and> node_field n_readdir m node = 0 \<and> node_field n_finddir m node = 0
     \<and> node_field n_open m node = 0 \<and> node_field n_close m node = 0"

lemma file_node_changed:
  assumes "changed_within R m m'" and "\<forall>(lo, hi) \<in> R. unat node + 316 \<le> lo \<or> hi \<le> unat node"
    and "unat node + 316 \<le> 2 ^ 32" and "length name \<le> 256"
  shows "file_node lk m node i len name \<Longrightarrow> file_node lk m' node i len name"
proof -
  have f: "node_field off m' node = node_field off m node" if "unat off \<le> 312" for off
  proof -
    have u: "unat (node + off) = unat node + unat off"
      using unat_add_small [of node "unat off"] assms(3) that by simp
    show ?thesis unfolding node_field_def
      by (rule read32_changed [OF assms(1)]) (use u assms(2,3) that in fastforce)+
  qed
  have "bytes_at m node name \<Longrightarrow> bytes_at m' node name"
    by (rule bytes_at_changed [OF assms(1)]) (use assms(2-4) in fastforce)+
  then show "file_node lk m node i len name \<Longrightarrow> file_node lk m' node i len name"
    unfolding file_node_def by (simp add: f node_offsets)
qed

section \<open>One pass\<close>

text \<open>The table of file headers and the table of nodes, apart from each other.\<close>

definition mount_room :: "u32 \<Rightarrow> u32 \<Rightarrow> u32 \<Rightarrow> nat \<Rightarrow> bool" where
  "mount_room loc fhs rn n \<longleftrightarrow> unat loc + 4 \<le> unat fhs \<and> unat fhs + 76 * n \<le> 2 ^ 32 \<and> unat rn + 316 * n \<le> 2 ^ 32
     \<and> (unat fhs + 76 * n \<le> unat rn \<or> unat rn + 316 * n \<le> unat loc)"

text \<open>The memory that the passes from \<open>j\<close> on may write.\<close>

definition mount_ranges :: "u32 \<Rightarrow> u32 \<Rightarrow> nat \<Rightarrow> nat \<Rightarrow> (nat \<times> nat) set" where
  "mount_ranges fhs rn j n = {(unat fhs + 76 * j + 68, unat fhs + 76 * n), (unat rn + 316 * j, unat rn + 316 * n)}"

lemma table_addr:
  assumes "mount_room loc fhs rn n" and "j < n"
  shows "unat (fh_at fhs (word_of_nat j)) = unat fhs + 76 * j" and "unat (node_at rn (word_of_nat j)) = unat rn + 316 * j"
  using unat_add_small [of fhs "76 * j"] unat_add_small [of rn "316 * j"] assms
  by (simp_all add: mount_room_def fh_at_def node_at_def sizeof_fs_node_def)

lemma init_file_builds:
  assumes room: "mount_room loc fhs rn n" and j: "j < n" and fhs: "file_headers s = fhs" "root_nodes s = rn"
    and name: "cstr_at (ram s) (fh_name (fh_at fhs (word_of_nat j))) name" "name \<noteq> []" "length name < 64"
  shows "\<exists>m'. init_file lk loc (word_of_nat j) s = Inr (upd_ram (\<lambda>_. m') s)
    \<and> file_node lk m' (node_at rn (word_of_nat j)) (word_of_nat j) (fh_length (ram s) (fh_at fhs (word_of_nat j))) name
    \<and> fh_offset m' (fh_at fhs (word_of_nat j)) = fh_offset (ram s) (fh_at fhs (word_of_nat j)) + read32 (ram s) loc
    \<and> changed_within {(unat fhs + 76 * j + 68, unat fhs + 76 * j + 72), (unat rn + 316 * j, unat rn + 316 * Suc j)} (ram s) m'"
proof -
  define h where "h = fh_at fhs (word_of_nat j)"
  define nd where "nd = node_at rn (word_of_nat j)"
  note addr = table_addr [OF room j, folded h_def nd_def]
  have lim: "unat h + 76 \<le> 2 ^ 32" "unat nd + 316 \<le> 2 ^ 32" "unat h + 76 \<le> unat nd \<or> unat nd + 316 \<le> unat h"
  proof -
    have "76 * Suc j \<le> 76 * n" "316 * Suc j \<le> 316 * n" using j by (intro mult_le_mono2; simp)+
    then show "unat h + 76 \<le> 2 ^ 32" "unat nd + 316 \<le> 2 ^ 32" "unat h + 76 \<le> unat nd \<or> unat nd + 316 \<le> unat h"
      using room unfolding mount_room_def addr by auto
  qed
  have o: "unat (h + 68) = unat h + 68" "unat (h + 72) = unat h + 72" "unat (fh_name h) = unat h + 1"
    unfolding fh_name_def using lim(1) by (simp_all add: unat_add_numeral unat_add_one)
  define m1 where "m1 = write32 (ram s) (h + 68) (fh_offset (ram s) h + read32 (ram s) loc)"
  have c1: "changed_within {(unat h + 68, unat h + 72)} (ram s) m1"
    using same_outside_changed [OF same_outside_write32, of "h + 68" "ram s"] o(1) lim(1) by (simp add: m1_def add.commute)
  obtain c str where nm: "name = c # str" using name(2) by (cases name) auto
  have "cstr_at m1 (fh_name h) name"
    by (rule cstr_at_changed [OF c1]) (use name o(3) lim(1) in \<open>auto simp: h_def\<close>)
  then obtain m2 where m2: "strcpy m1 nd (fh_name h) = Some (m2, nd + word_of_nat (length name))"
      "bytes_at m2 nd name" "same_outside nd (length name) m1 m2"
    using strcpy_cstr [of m1 "fh_name h" c str nd] name(3) o(3) lim unfolding nm by auto
  have c2: "changed_within {(unat nd, unat nd + 64)} m1 m2"
    by (rule changed_within_mono [OF same_outside_changed [OF m2(3)]]) (use name(3) in simp)
  define m3 where "m3 = set_fields nd [(n_gid, 0), (n_uid, 0), (n_mask, 0)] m2"
  define m4 where "m4 = set_fields nd [(n_length, fh_length m3 h), (n_inode, word_of_nat j), (n_flags, FS_FILE),
                 (n_read, fn_initrd_read lk), (n_write, 0), (n_readdir, 0), (n_finddir, 0),
                 (n_open, 0), (n_close, 0), (n_impl, 0)] m3"
  have c3: "changed_within {(unat nd + 256, unat nd + 316)} m2 m3" and c4: "changed_within {(unat nd + 256, unat nd + 316)} m3 m4"
    unfolding m3_def m4_def by (rule set_fields_changed; use lim(2) in \<open>simp add: node_offsets\<close>)+
  have c24: "changed_within {(unat nd, unat nd + 316)} m1 m4"
    by (rule changed_within_trans [OF changed_within_mono [OF c2] changed_within_mono [OF changed_within_trans [OF c3 c4]]])
      simp_all
  have run: "init_file lk loc (word_of_nat j) s = Inr (upd_ram (\<lambda>_. m4) s)"
    using m2(1) by (simp add: init_file_def Let_def fhs h_def nd_def m1_def m3_def m4_def strcpy_st_def upd_ram_def)
  have len: "fh_length m3 h = fh_length (ram s) h"
  proof -
    have "fh_length m3 h = fh_length m1 h" unfolding fh_length_def
      by (rule read32_changed [OF changed_within_trans [OF changed_within_mono [OF c2] changed_within_mono [OF c3]],
            of "{(unat nd, unat nd + 316)}"]) (use o(2) lim in auto)
    moreover have "fh_length m1 h = fh_length (ram s) h" unfolding fh_length_def
      by (rule read32_changed [OF c1]) (use o(2) lim in auto)
    ultimately show ?thesis by simp
  qed
  have "bytes_at m4 nd name"
    by (rule bytes_at_changed [OF changed_within_trans [OF c3 c4] _ _ m2(2)]) (use name(3) lim(2) in auto)
  then have node: "file_node lk m4 nd (word_of_nat j) (fh_length (ram s) h) name"
    unfolding file_node_def by (simp add: len m4_def set_fields_def node_field_def set_node_field_def node_offsets)
  have "fh_offset m4 h = fh_offset m1 h" unfolding fh_offset_def
    by (rule read32_changed [OF c24]) (use o(1) lim in auto)
  then have off: "fh_offset m4 h = fh_offset (ram s) h + read32 (ram s) loc"
    by (simp add: m1_def fh_offset_def)
  have "changed_within {(unat h + 68, unat h + 72), (unat nd, unat nd + 316)} (ram s) m4"
    by (rule changed_within_trans [OF changed_within_mono [OF c1] changed_within_mono [OF c24]]) simp_all
  then have "changed_within {(unat fhs + 76 * j + 68, unat fhs + 76 * j + 72), (unat rn + 316 * j, unat rn + 316 * Suc j)} (ram s) m4"
    unfolding addr by (simp add: add.assoc add.commute add.left_commute)
  with run node off show ?thesis unfolding h_def nd_def by blast
qed

section \<open>The loop\<close>

definition headers_named :: "mem \<Rightarrow> u32 \<Rightarrow> bytes list \<Rightarrow> nat \<Rightarrow> bool" where
  "headers_named m fhs names j \<longleftrightarrow> (\<forall>i. j \<le> i \<and> i < length names \<longrightarrow>
     cstr_at m (fh_name (fh_at fhs (word_of_nat i))) (names ! i) \<and> names ! i \<noteq> [] \<and> length (names ! i) < 64)"

text \<open>The node and the header of file \<open>i\<close> after its pass, compared with the memory before.\<close>

definition file_mounted :: "fs_link \<Rightarrow> u32 \<Rightarrow> u32 \<Rightarrow> u32 \<Rightarrow> bytes list \<Rightarrow> mem \<Rightarrow> mem \<Rightarrow> nat \<Rightarrow> bool" where
  "file_mounted lk loc fhs rn names m m' i \<longleftrightarrow>
     (let h = fh_at fhs (word_of_nat i); node = node_at rn (word_of_nat i)
      in file_node lk m' node (word_of_nat i) (fh_length m h) (names ! i)
       \<and> fh_offset m' h = fh_offset m h + read32 m loc)"

lemma table_lim:
  assumes "mount_room loc fhs rn n" and "j < n"
  shows "unat fhs + 76 * j + 76 \<le> unat fhs + 76 * n" and "unat rn + 316 * j + 316 \<le> unat rn + 316 * n"
    and "unat fhs + 76 * n \<le> 2 ^ 32" and "unat rn + 316 * n \<le> 2 ^ 32"
    and "unat fhs + 76 * n \<le> unat rn \<or> unat rn + 316 * n \<le> unat loc" and "unat loc + 4 \<le> unat fhs"
proof -
  have "76 * Suc j \<le> 76 * n" "316 * Suc j \<le> 316 * n" using assms(2) by (intro mult_le_mono2; simp)+
  then show "unat fhs + 76 * j + 76 \<le> unat fhs + 76 * n" "unat rn + 316 * j + 316 \<le> unat rn + 316 * n" by simp_all
qed (use assms(1) in \<open>simp_all add: mount_room_def\<close>)

lemma header_fields_changed:
  assumes "changed_within R m m'" and "unat h + 76 \<le> 2 ^ 32"
    and "\<forall>(lo, hi) \<in> R. unat h + 76 \<le> lo \<or> hi \<le> unat h"
  shows "fh_length m' h = fh_length m h" and "fh_offset m' h = fh_offset m h"
proof -
  have o: "unat (h + 68) = unat h + 68" "unat (h + 72) = unat h + 72" using assms(2) by (simp_all add: unat_add_numeral)
  show "fh_length m' h = fh_length m h" "fh_offset m' h = fh_offset m h"
    unfolding fh_length_def fh_offset_def
    by (rule read32_changed [OF assms(1)]; use o assms(2,3) in fastforce)+
qed

lemma init_files_run:
  assumes room: "mount_room loc fhs rn n" and n: "n = length names" and "j \<le> n"
    and "file_headers s = fhs" "root_nodes s = rn" "initrd_header s = loc"
    and "headers_named (ram s) fhs names j" and "read32 (ram s) loc = word_of_nat n"
  shows "\<exists>m'. init_files (Suc (n - j) + k) lk loc (word_of_nat j) s = Inr (upd_ram (\<lambda>_. m') s)
    \<and> (\<forall>i. j \<le> i \<and> i < n \<longrightarrow> file_mounted lk loc fhs rn names (ram s) m' i)
    \<and> changed_within (mount_ranges fhs rn j n) (ram s) m'"
  using assms(3-)
proof (induction j arbitrary: s rule: inc_induct)
  case base
  then show ?case by (intro exI [of _ "ram s"]) (auto simp: upd_ram_def)
next
  case (step j)
  note lim = table_lim [OF room step.hyps(2)] and addr = table_addr [OF room step.hyps(2)]
  let ?h = "fh_at fhs (word_of_nat j)" and ?nd = "node_at rn (word_of_nat j)"
  have small: "n < 2 ^ 32" using lim(3) by simp
  have more: "(word_of_nat j :: u32) < word_of_nat n"
    using step.hyps(2) small by (simp add: word_less_nat_alt unsigned_of_nat take_bit_nat_eq_self)
  have name: "cstr_at (ram s) (fh_name ?h) (names ! j)" "names ! j \<noteq> []" "length (names ! j) < 64"
    using step.prems(4) step.hyps(2) n by (simp_all add: headers_named_def)
  from init_file_builds [OF room step.hyps(2) step.prems(1,2) name, of lk] obtain m1 where
    run: "init_file lk loc (word_of_nat j) s = Inr (upd_ram (\<lambda>_. m1) s)"
    and node: "file_node lk m1 ?nd (word_of_nat j) (fh_length (ram s) ?h) (names ! j)"
    and off: "fh_offset m1 ?h = fh_offset (ram s) ?h + read32 (ram s) loc"
    and c1: "changed_within {(unat fhs + 76 * j + 68, unat fhs + 76 * j + 72), (unat rn + 316 * j, unat rn + 316 * Suc j)} (ram s) m1"
    by blast
  let ?s1 = "upd_ram (\<lambda>_. m1) s"
  have s1: "file_headers ?s1 = fhs" "root_nodes ?s1 = rn" "initrd_header ?s1 = loc"
    using step.prems by (simp_all add: upd_ram_def)
  have loc: "read32 m1 loc = read32 (ram s) loc" by (rule read32_changed [OF c1]) (use lim in auto)
  have later: "cstr_at m1 (fh_name (fh_at fhs (word_of_nat i))) (names ! i)"
    "fh_length m1 (fh_at fhs (word_of_nat i)) = fh_length (ram s) (fh_at fhs (word_of_nat i))"
    "fh_offset m1 (fh_at fhs (word_of_nat i)) = fh_offset (ram s) (fh_at fhs (word_of_nat i))"
    if i: "Suc j \<le> i" "i < n" for i
  proof -
    note ilim = table_lim [OF room i(2)] and iaddr = table_addr(1) [OF room i(2)]
    have "76 * j + 76 \<le> 76 * i" using i(1) by simp
    then have out: "\<forall>(lo, hi) \<in> {(unat fhs + 76 * j + 68, unat fhs + 76 * j + 72), (unat rn + 316 * j, unat rn + 316 * Suc j)}.
        unat (fh_at fhs (word_of_nat i)) + 76 \<le> lo \<or> hi \<le> unat (fh_at fhs (word_of_nat i))"
      unfolding iaddr using ilim lim(2) by auto
    have nm: "cstr_at (ram s) (fh_name (fh_at fhs (word_of_nat i))) (names ! i)" "length (names ! i) < 64"
      using step.prems(4) i n by (simp_all add: headers_named_def)
    have fn: "unat (fh_name (fh_at fhs (word_of_nat i))) = unat (fh_at fhs (word_of_nat i)) + 1"
      unfolding fh_name_def by (rule unat_add_one) (use iaddr ilim in simp)
    show "cstr_at m1 (fh_name (fh_at fhs (word_of_nat i))) (names ! i)"
      by (rule cstr_at_changed [OF c1 _ _ nm(1)]) (use out nm(2) fn iaddr ilim in fastforce)+
    show "fh_length m1 (fh_at fhs (word_of_nat i)) = fh_length (ram s) (fh_at fhs (word_of_nat i))"
      "fh_offset m1 (fh_at fhs (word_of_nat i)) = fh_offset (ram s) (fh_at fhs (word_of_nat i))"
      by (rule header_fields_changed [OF c1 _ out]; use iaddr ilim in simp)+
  qed
  have hn: "headers_named (ram ?s1) fhs names (Suc j)"
    unfolding headers_named_def using later(1) step.prems(4) n by (auto simp: headers_named_def)
  have cnt: "read32 (ram ?s1) loc = word_of_nat n" using loc step.prems(5) by simp
  from step.IH [OF s1 hn cnt] obtain m' where
    rest: "init_files (Suc (n - Suc j) + k) lk loc (word_of_nat (Suc j)) ?s1 = Inr (upd_ram (\<lambda>_. m') ?s1)"
    and mounted: "\<forall>i. Suc j \<le> i \<and> i < n \<longrightarrow> file_mounted lk loc fhs rn names m1 m' i"
    and c2: "changed_within (mount_ranges fhs rn (Suc j) n) m1 m'"
    by auto
  have fuel: "Suc (n - j) + k = Suc (Suc (n - Suc j) + k)" using step.hyps(2) by simp
  have go: "init_files (Suc (n - j) + k) lk loc (word_of_nat j) s = Inr (upd_ram (\<lambda>_. m') s)"
    unfolding fuel using rest run more step.prems(3,5) by (simp add: upd_ram_def add.commute)
  have out: "\<forall>(lo, hi) \<in> mount_ranges fhs rn (Suc j) n. unat ?nd + 316 \<le> lo \<or> hi \<le> unat ?nd"
    "\<forall>(lo, hi) \<in> mount_ranges fhs rn (Suc j) n. unat ?h + 76 \<le> lo \<or> hi \<le> unat ?h"
    unfolding addr mount_ranges_def using lim by auto
  have "file_node lk m' ?nd (word_of_nat j) (fh_length (ram s) ?h) (names ! j)"
    by (rule file_node_changed [OF c2 out(1) _ _ node]) (use addr lim name(3) in simp_all)
  moreover have "fh_offset m' ?h = fh_offset m1 ?h"
    by (rule header_fields_changed(2) [OF c2 _ out(2)]) (use addr lim in simp)
  ultimately have here: "file_mounted lk loc fhs rn names (ram s) m' j" using off by (simp add: file_mounted_def Let_def)
  have "file_mounted lk loc fhs rn names (ram s) m' i" if "Suc j \<le> i" "i < n" for i
  proof -
    have "file_mounted lk loc fhs rn names m1 m' i" using mounted that by blast
    then show ?thesis using later(2,3) [OF that] loc by (simp add: file_mounted_def Let_def)
  qed
  with here have all: "\<forall>i. j \<le> i \<and> i < n \<longrightarrow> file_mounted lk loc fhs rn names (ram s) m' i"
    by (metis le_antisym not_less_eq_eq)
  have "changed_within (mount_ranges fhs rn j n) (ram s) m'"
    by (rule changed_within_trans [OF changed_within_mono [OF c1] changed_within_mono [OF c2]])
      (use lim in \<open>auto simp: mount_ranges_def\<close>)
  with go all show ?case by blast
qed

text \<open>C28: Mounting builds a node for every file. When the header table, with the names of the files,
  and the space for the nodes lie apart, the loop of \<open>initialise_initrd\<close> returns after one pass for
  each file; node \<open>i\<close> then holds the name of file \<open>i\<close>, its number and length, and is a file that
  is read with \<open>initrd_read\<close> and has no other operation; the offset in header \<open>i\<close> has grown by
  the number of files, not by the address of the ramdisk; and nothing else is written.\<close>
theorem initrd_nodes_built:
  assumes "mount_room loc fhs rn (length names)"
    and "file_headers s = fhs" "root_nodes s = rn" "initrd_header s = loc"
    and "headers_named (ram s) fhs names 0" and "read32 (ram s) loc = word_of_nat (length names)"
    and "length names < k"
  shows "\<exists>m'. init_files k lk loc 0 s = Inr (upd_ram (\<lambda>_. m') s)
    \<and> (\<forall>i < length names. let h = fh_at fhs (word_of_nat i) in
         file_node lk m' (node_at rn (word_of_nat i)) (word_of_nat i) (fh_length (ram s) h) (names ! i)
         \<and> fh_offset m' h = fh_offset (ram s) h + word_of_nat (length names))
    \<and> changed_within (mount_ranges fhs rn 0 (length names)) (ram s) m'"
proof -
  have "k = Suc (length names - 0) + (k - Suc (length names))" using assms(7) by simp
  with init_files_run [OF assms(1) refl le0 assms(2-6), of "k - Suc (length names)" lk] assms(6)
  show ?thesis by (simp add: file_mounted_def Let_def)
qed

text \<open>An image of one file at 0x1000, and room for its node at 0x4000.\<close>

definition mount_links :: fs_link where
  "mount_links = \<lparr>str_dev = 0x20, str_initrd = 0x30, str_keyboard = 0x40, at_dirent = 0x100, fn_initrd_read = 0x201,
     fn_initrd_readdir = 0x202, fn_initrd_finddir = 0x203, fn_keyboard_read = 0x204, fn_keyboard_write = 0x205,
     fn_keyboard_selftest = 0x206\<rparr>"

definition mount_state :: filesystem where
  "mount_state = zero_fs\<lparr>initrd_header := 0x1000, file_headers := 0x1010, root_nodes := 0x4000,
     ram := write32 (write32 ((\<lambda>_. 0)(0x1011 := 0x61)) 0x1000 1) 0x1058 5\<rparr>"

theorem initrd_nodes_built_witness:
  "\<exists>m'. init_files 2 mount_links 0x1000 0 mount_state = Inr (upd_ram (\<lambda>_. m') mount_state)
    \<and> file_node mount_links m' 0x4000 0 5 [0x61] \<and> node_field n_read m' 0x4000 = 0x201"
proof -
  let ?m = "ram mount_state"
  have z: "read32 (\<lambda>_. 0) a = 0" for a by (simp add: read32_def)
  have room: "mount_room 0x1000 0x1010 0x4000 (length [[0x61 :: u8]])" by (simp add: mount_room_def)
  have f: "file_headers mount_state = 0x1010" "root_nodes mount_state = 0x4000" "initrd_header mount_state = 0x1000"
    by (simp_all add: mount_state_def)
  have "cstr_at ?m 0x1011 [0x61]" by (simp add: mount_state_def write32_def)
  then have names: "headers_named ?m 0x1010 [[0x61]] 0"
    by (simp add: headers_named_def fh_name_def fh_at_def)
  have cnt: "read32 ?m 0x1000 = word_of_nat (length [[0x61 :: u8]])"
    by (simp add: mount_state_def read32_write32_nat)
  have "length [[0x61 :: u8]] < 2" by simp
  from initrd_nodes_built [OF room f names cnt this, of mount_links] obtain m' where
    "init_files 2 mount_links 0x1000 0 mount_state = Inr (upd_ram (\<lambda>_. m') mount_state)"
    "file_node mount_links m' (node_at 0x4000 0) 0 (fh_length ?m (fh_at 0x1010 0)) [0x61]"
    by (auto simp: Let_def)
  moreover have "fh_length ?m (fh_at 0x1010 0) = 5" by (simp add: fh_length_def fh_at_def mount_state_def)
  ultimately show ?thesis by (auto simp: node_at_def file_node_def mount_links_def)
qed

end
