(* ===== verification/Ramdisk_Directory.thy ===== *)
theory Ramdisk_Directory
  imports Ramdisk_Mount Vfs
begin

text \<open>
  The root directory of the ramdisk as other code sees it, through the calls of \<open>fs.c\<close>: listing the
  entries one by one and looking each of them up again.
\<close>

section \<open>A directory and where it lies\<close>

text \<open>The root is a directory whose calls lead to \<open>initrd.c\<close>.\<close>

definition root_node :: "fs_link \<Rightarrow> 'a filesystem_scheme \<Rightarrow> bool" where
  "root_node lk s \<longleftrightarrow> is_directory (ram s) (initrd_root s)
     \<and> node_field n_readdir (ram s) (initrd_root s) = fn_initrd_readdir lk
     \<and> node_field n_finddir (ram s) (initrd_root s) = fn_initrd_finddir lk
     \<and> fn_initrd_readdir lk \<noteq> 0 \<and> fn_initrd_finddir lk \<noteq> 0 \<and> fn_initrd_finddir lk \<noteq> fn_initrd_readdir lk"

text \<open>The static \<open>dirent\<close> lies apart from the nodes, the root and the name of the device directory.\<close>

definition apart :: "u32 \<Rightarrow> nat \<Rightarrow> u32 \<Rightarrow> nat \<Rightarrow> bool" where
  "apart a n b k \<longleftrightarrow> unat b + k \<le> 2 ^ 32 \<and> (unat a + n \<le> unat b \<or> unat b + k \<le> unat a)"

definition dirent_room :: "fs_link \<Rightarrow> bytes \<Rightarrow> 'a filesystem_scheme \<Rightarrow> bool" where
  "dirent_room lk dev s \<longleftrightarrow> unat (at_dirent lk) + 132 \<le> 2 ^ 32
     \<and> apart (at_dirent lk) 132 (root_nodes s) (316 * unat (nroot_nodes s))
     \<and> apart (at_dirent lk) 132 (initrd_root s) 316
     \<and> apart (at_dirent lk) 132 (str_dev lk) (length dev + 1)"

text \<open>Nodes with their names and numbers: what \<open>initialise_initrd\<close> leaves in memory that was zero.\<close>

definition listed :: "'a filesystem_scheme \<Rightarrow> bytes list \<Rightarrow> bool" where
  "listed s names \<longleftrightarrow> node_names s names \<and> (\<forall>nm \<in> set names. nm \<noteq> [] \<and> length nm < 128)
     \<and> (\<forall>i < length names. node_field n_inode (ram s) (node_at (root_nodes s) (word_of_nat i)) = word_of_nat i)"

lemma changed_apart:
  assumes "same_outside a n m m'" and "apart a n b k"
  shows "changed_within {(unat a, unat a + n)} m m'" and "unat b + k \<le> 2 ^ 32"
    and "\<forall>(lo, hi) \<in> {(unat a, unat a + n)}. unat b + k \<le> lo \<or> hi \<le> unat b"
  using assms same_outside_changed [OF assms(1)] by (auto simp: apart_def)

lemma field_apart:
  assumes "same_outside a n m m'" and "apart a n node 316" and "unat off \<le> 312"
  shows "node_field off m' node = node_field off m node"
proof -
  note c = changed_apart [OF assms(1,2)]
  have u: "unat (node + off) = unat node + unat off"
    using unat_add_small [of node "unat off"] c(2) assms(3) by simp
  show ?thesis unfolding node_field_def
    by (rule read32_changed [OF c(1)]) (use u c(2,3) assms(3) in auto)
qed

lemma cstr_apart:
  assumes "same_outside a n m m'" and "apart a n b k" and "length str < k"
  shows "cstr_at m b str \<Longrightarrow> cstr_at m' b str"
  using changed_apart [OF assms(1,2)] assms(3) by (intro cstr_at_changed [OF changed_apart(1) [OF assms(1,2)]]) auto

lemma node_apart:
  assumes "dirent_room lk dev s" and "i < unat (nroot_nodes s)"
  shows "apart (at_dirent lk) 132 (node_at (root_nodes s) (word_of_nat i)) 316"
proof -
  let ?n = "unat (nroot_nodes s)" and ?f = "node_at (root_nodes s) (word_of_nat i)"
  have r: "unat (root_nodes s) + 316 * ?n \<le> 2 ^ 32" using assms(1) by (simp add: dirent_room_def apart_def)
  have "316 * i + 316 \<le> 316 * ?n" using assms(2) by simp
  then have "unat ?f = unat (root_nodes s) + 316 * i"
    using unat_add_small [of "root_nodes s" "316 * i"] r by (simp add: node_at_def sizeof_fs_node_def)
  then show ?thesis using assms r \<open>316 * i + 316 \<le> 316 * ?n\<close> by (auto simp: dirent_room_def apart_def)
qed

lemma bytes_at_append:
  "bytes_at m p (xs @ ys) \<longleftrightarrow> bytes_at m p xs \<and> bytes_at m (p + word_of_nat (length xs)) ys"
  by (induction xs arbitrary: p) (auto simp: algebra_simps)

section \<open>Reading one entry\<close>

lemma readdir_entry:
  assumes l: "listed s names" and i: "i < length names" and room: "dirent_room lk dev s"
  shows "\<exists>m'. initrd_readdir lk node (word_of_nat (Suc i)) s = Inr (at_dirent lk, s\<lparr>ram := m'\<rparr>)
    \<and> cstr_at m' (at_dirent lk) (names ! i) \<and> read32 m' (at_dirent lk + 128) = word_of_nat i
    \<and> same_outside (at_dirent lk) 132 (ram s) m'"
proof -
  let ?d = "at_dirent lk" and ?f = "node_at (root_nodes s) (word_of_nat i)" and ?nm = "names ! i"
  have n: "unat (nroot_nodes s) = length names" "cstr_at (ram s) ?f ?nm"
    using l i by (simp_all add: listed_def node_names_def)
  have nm: "?nm \<noteq> []" "length ?nm < 128" using l nth_mem [OF i] by (auto simp: listed_def)
  have lim: "Suc i < 2 ^ 32" using i n(1) unat_u32_less [of "nroot_nodes s"] by simp
  have idx: "(word_of_nat (Suc i) :: u32) \<noteq> 0" "\<not> (word_of_nat (Suc i) :: u32) - 1 \<ge> nroot_nodes s"
    using lim i n(1) by (simp_all add: word_unat_eq_iff word_le_nat_alt unat_of_nat del: of_nat_Suc) (simp add: unat_of_nat)
  have idx1: "(word_of_nat (Suc i) :: u32) - 1 = word_of_nat i" by simp
  have d: "unat ?d + 132 \<le> 2 ^ 32" using room by (simp add: dirent_room_def)
  have ap: "apart ?d 132 ?f 316" using node_apart [OF room] i n(1) by simp
  obtain c cs where cs: "?nm = c # cs" using nm(1) by (cases ?nm) auto
  obtain m1 where m1: "strcpy (ram s) ?d ?f = Some (m1, ?d + word_of_nat (length ?nm))"
      "bytes_at m1 ?d ?nm" "same_outside ?d (length ?nm) (ram s) m1"
    using strcpy_cstr [of "ram s" ?f c cs ?d] n(2) ap nm(2) d unfolding cs by (auto simp: apart_def)
  have o1: "same_outside ?d 132 (ram s) m1" by (rule same_outside_mono [OF m1(3)]) (use nm(2) in auto)
  have len: "strlen m1 ?f = Some (word_of_nat (length ?nm))"
    using strlen_loop_cstr [OF cstr_apart [OF o1 ap _ n(2)], of 0] nm(2) by (simp add: strlen_def)
  let ?m2 = "m1(?d + word_of_nat (length ?nm) := 0)"
  have ud: "unat (?d + word_of_nat (length ?nm)) = unat ?d + length ?nm" "unat (?d + 128) = unat ?d + 128"
    using unat_add_small [of ?d "length ?nm"] unat_add_small [of ?d 128] d nm(2) by simp_all
  have o2: "same_outside ?d 132 m1 ?m2"
    by (rule same_outside_mono [OF same_outside_upd]) (use ud nm(2) in auto)
  have c2: "cstr_at ?m2 ?d ?nm"
    using m1(2) bytes_at_upd_above [of ?d ?nm "?d + word_of_nat (length ?nm)" m1 0] ud nm n(2)
    by (auto simp: cstr_at_iff bytes_at_append)
  have ino: "node_field n_inode ?m2 ?f = word_of_nat i"
    using field_apart [OF same_outside_trans [OF o1 o2] ap, of n_inode] l i by (simp add: n_inode_def listed_def)
  let ?m3 = "write32 ?m2 (?d + 128) (word_of_nat i)"
  have w3: "same_outside (?d + 128) 4 ?m2 ?m3" by (rule same_outside_write32) (use ud d in simp)
  have o3: "same_outside ?d 132 ?m2 ?m3" by (rule same_outside_mono [OF w3]) (use ud in auto)
  have "cstr_at ?m3 ?d ?nm"
    by (rule cstr_apart [OF w3 _ _ c2, of 128]) (use ud nm(2) d in \<open>auto simp: apart_def\<close>)
  moreover have "initrd_readdir lk node (word_of_nat (Suc i)) s = Inr (?d, s\<lparr>ram := ?m3\<rparr>)"
    using idx m1(1) len ino by (simp add: initrd_readdir_def strcpy_st_def idx1 upd_ram_def Let_def del: of_nat_Suc)
  moreover have "same_outside ?d 132 (ram s) ?m3"
    by (rule same_outside_trans [OF same_outside_trans [OF o1 o2] o3])
  ultimately show ?thesis by (intro exI [of _ ?m3]) simp
qed

lemma find_distinct:
  assumes "distinct xs" and "i < length xs"
  shows "find (\<lambda>j. xs ! j = xs ! i) [0..<length xs] = Some i"
  using assms unfolding find_Some_iff by (intro exI [of _ i]) (auto simp: nth_eq_iff_index_eq)

text \<open>C30: Listing the root directory and looking names up are inverse. For a ramdisk with different, non-empty file names
  shorter than 128 bytes, none of them that of the device directory, \<open>readdir_fs\<close> of the root with index
  \<open>i + 1\<close> returns the static \<open>dirent\<close> with the name and the number of file \<open>i\<close>, and \<open>finddir_fs\<close> of that
  name returns the node of file \<open>i\<close>; nothing but the \<open>dirent\<close> is written. An index behind the last file
  returns the null pointer and changes nothing.\<close>
theorem readdir_finddir_roundtrip:
  assumes root: "root_node lk s" and l: "listed s names" and room: "dirent_room lk dev s"
    and dev: "cstr_at (ram s) (str_dev lk) dev" "dev \<notin> set names" and dst: "distinct names"
  shows "(\<forall>i < length names. \<exists>m'. readdir_fs (dir_call lk) (initrd_root s) (word_of_nat (Suc i)) s = Inr (at_dirent lk, s\<lparr>ram := m'\<rparr>)
      \<and> cstr_at m' (at_dirent lk) (names ! i) \<and> read32 m' (at_dirent lk + 128) = word_of_nat i
      \<and> same_outside (at_dirent lk) 132 (ram s) m'
      \<and> finddir_fs (dir_call lk) (initrd_root s) (at_dirent lk) (s\<lparr>ram := m'\<rparr>)
          = Inr (node_at (root_nodes s) (word_of_nat i), s\<lparr>ram := m'\<rparr>))
    \<and> (\<forall>idx > nroot_nodes s. readdir_fs (dir_call lk) (initrd_root s) idx s = Inr (0, s))"
proof (intro conjI allI impI)
  fix i assume i: "i < length names"
  obtain m' where m': "initrd_readdir lk (initrd_root s) (word_of_nat (Suc i)) s = Inr (at_dirent lk, s\<lparr>ram := m'\<rparr>)"
      "cstr_at m' (at_dirent lk) (names ! i)" "read32 m' (at_dirent lk + 128) = word_of_nat i"
      "same_outside (at_dirent lk) 132 (ram s) m'"
    using readdir_entry [OF l i room] by blast
  let ?s' = "s\<lparr>ram := m'\<rparr>"
  have rootap: "apart (at_dirent lk) 132 (initrd_root s) 316" and devap: "apart (at_dirent lk) 132 (str_dev lk) (length dev + 1)"
    using room by (simp_all add: dirent_room_def)
  have rd: "readdir_fs (dir_call lk) (initrd_root s) (word_of_nat (Suc i)) s = Inr (at_dirent lk, ?s')"
    using root m'(1) by (simp add: readdir_fs_def dir_call_def root_node_def)
  have n: "unat (nroot_nodes s) = length names" using l by (simp add: listed_def node_names_def)
  have names': "\<forall>j \<in> set [0..<length names]. cstr_at m' (node_at (root_nodes s) (word_of_nat j)) (names ! j)"
  proof
    fix j assume "j \<in> set [0..<length names]"
    then have j: "j < length names" by simp
    have "length (names ! j) < 316" using l nth_mem [OF j] by (auto simp: listed_def)
    moreover have "cstr_at (ram s) (node_at (root_nodes s) (word_of_nat j)) (names ! j)"
      using l j by (simp add: listed_def node_names_def)
    ultimately show "cstr_at m' (node_at (root_nodes s) (word_of_nat j)) (names ! j)"
      using cstr_apart [OF m'(4) node_apart [OF room]] j n by simp
  qed
  have dev': "cstr_at m' (str_dev lk) dev" by (rule cstr_apart [OF m'(4) devap _ dev(1)]) simp
  have ne: "names ! i \<noteq> dev" using dev(2) nth_mem [OF i] by auto
  have fields: "node_field off m' (initrd_root s) = node_field off (ram s) (initrd_root s)" if "unat off \<le> 312" for off
    by (rule field_apart [OF m'(4) rootap that])
  have "finddir_fs (dir_call lk) (initrd_root s) (at_dirent lk) ?s' = rbind (initrd_finddir lk (initrd_root s) (at_dirent lk) ?s') (\<lambda>r. Inr (r, ?s'))"
    using root by (simp add: finddir_fs_def dir_call_def root_node_def is_directory_def fields node_offsets)
  also have "initrd_finddir lk (initrd_root s) (at_dirent lk) ?s' = Inr (node_at (root_nodes s) (word_of_nat i))"
    using find_node_first [OF names' m'(2)] find_distinct [OF dst i] strcmp_decides [OF m'(2) dev'] ne
    by (simp add: initrd_finddir_def n Let_def)
  finally have fd: "finddir_fs (dir_call lk) (initrd_root s) (at_dirent lk) ?s'
      = Inr (node_at (root_nodes s) (word_of_nat i), ?s')" by simp
  show "\<exists>m'. readdir_fs (dir_call lk) (initrd_root s) (word_of_nat (Suc i)) s = Inr (at_dirent lk, s\<lparr>ram := m'\<rparr>)
      \<and> cstr_at m' (at_dirent lk) (names ! i) \<and> read32 m' (at_dirent lk + 128) = word_of_nat i
      \<and> same_outside (at_dirent lk) 132 (ram s) m'
      \<and> finddir_fs (dir_call lk) (initrd_root s) (at_dirent lk) (s\<lparr>ram := m'\<rparr>)
          = Inr (node_at (root_nodes s) (word_of_nat i), s\<lparr>ram := m'\<rparr>)"
    by (intro exI [of _ m'] conjI rd m'(2-4) fd)
next
  fix idx :: u32 assume gt: "idx > nroot_nodes s"
  then have "idx \<noteq> 0" "nroot_nodes s \<le> idx - 1" by uint_arith+
  then show "readdir_fs (dir_call lk) (initrd_root s) idx s = Inr (0, s)"
    using root by (simp add: readdir_fs_def dir_call_def root_node_def initrd_readdir_def)
qed

theorem readdir_finddir_roundtrip_witness:
  "\<exists>lk m m'. readdir_fs (dir_call lk) 0x500 2 (zero_fs\<lparr>ram := m, root_nodes := 0x1000, nroot_nodes := 2, initrd_root := 0x500\<rparr>)
      = Inr (0x9000, zero_fs\<lparr>root_nodes := 0x1000, nroot_nodes := 2, initrd_root := 0x500, ram := m'\<rparr>)
    \<and> cstr_at m' 0x9000 [0x62]
    \<and> finddir_fs (dir_call lk) 0x500 0x9000 (zero_fs\<lparr>root_nodes := 0x1000, nroot_nodes := 2, initrd_root := 0x500, ram := m'\<rparr>)
      = Inr (0x113C, zero_fs\<lparr>root_nodes := 0x1000, nroot_nodes := 2, initrd_root := 0x500, ram := m'\<rparr>)"
proof -
  let ?lk = "\<lparr>str_dev = 0x20, str_initrd = 0, str_keyboard = 0, at_dirent = 0x9000, fn_initrd_read = 0,
      fn_initrd_readdir = 0x11, fn_initrd_finddir = 0x12, fn_keyboard_read = 0, fn_keyboard_write = 0, fn_keyboard_selftest = 0\<rparr>"
  let ?m = "(\<lambda>_. 0 :: u8)(0x20 := 0x64, 0x1000 := 0x61, 0x113C := 0x62, 0x124C := 1, 0x60C := 2, 0x630 := 0x11, 0x634 := 0x12)"
  let ?s = "zero_fs\<lparr>ram := ?m, root_nodes := 0x1000, nroot_nodes := 2, initrd_root := 0x500\<rparr>"
  let ?names = "[[0x61], [0x62 :: u8]]"
  have root: "root_node ?lk ?s"
    by (simp add: root_node_def is_directory_def node_field_def node_offsets FS_DIRECTORY_def read32_def)
  have l: "listed ?s ?names"
    by (simp add: listed_def node_names_def node_at_def sizeof_fs_node_def All_less_Suc2 node_field_def n_inode_def read32_def)
  have room: "dirent_room ?lk [0x64] ?s" by (simp add: dirent_room_def apart_def)
  have dev: "cstr_at (ram ?s) (str_dev ?lk) [0x64]" "[0x64] \<notin> set ?names" "distinct ?names" by simp_all
  have "1 < length ?names" by simp
  with readdir_finddir_roundtrip [OF root l room dev] obtain m' where
    "readdir_fs (dir_call ?lk) (initrd_root ?s) (word_of_nat (Suc 1)) ?s = Inr (at_dirent ?lk, ?s\<lparr>ram := m'\<rparr>)"
    "cstr_at m' (at_dirent ?lk) (?names ! 1)"
    "finddir_fs (dir_call ?lk) (initrd_root ?s) (at_dirent ?lk) (?s\<lparr>ram := m'\<rparr>)
      = Inr (node_at (root_nodes ?s) (word_of_nat 1), ?s\<lparr>ram := m'\<rparr>)" by blast
  then show ?thesis
    by (intro exI [of _ ?lk] exI [of _ ?m] exI [of _ m']) (simp add: node_at_def sizeof_fs_node_def)
qed

end
