(* ===== verification/Pci_Scan.thy ===== *)
theory Pci_Scan
  imports Device_Properties
begin

text \<open>
  The scan of the PCI bus: which functions it asks, whatever devices there are, and in which order.
\<close>

section \<open>Configuration addresses\<close>

text \<open>What the host bridge reads out of an address.\<close>

definition address_fields :: "u32 \<Rightarrow> u32 \<times> u32 \<times> u32" where
  "address_fields a = (take_bit 8 (drop_bit 16 a), take_bit 5 (drop_bit 11 a), take_bit 3 (drop_bit 8 a))"

lemma fields_of_address:
  fixes b d f :: u32
  shows "address_fields (pci_address (take_bit 8 b) (take_bit 5 d) (take_bit 3 f) 0) = (take_bit 8 b, take_bit 5 d, take_bit 3 f)"
proof -
  have top: "(0x80000000 :: u32) = push_bit 31 1" by simp
  let ?a = "pci_address (take_bit 8 b) (take_bit 5 d) (take_bit 3 f) 0"
  have "take_bit 8 (drop_bit 16 ?a) = take_bit 8 b"
    unfolding pci_address_def top by (rule bit_word_eqI) (auto simp: bit_simps)
  moreover have "take_bit 5 (drop_bit 11 ?a) = take_bit 5 d"
    unfolding pci_address_def top by (rule bit_word_eqI) (auto simp: bit_simps)
  moreover have "take_bit 3 (drop_bit 8 ?a) = take_bit 3 f"
    unfolding pci_address_def top by (rule bit_word_eqI) (auto simp: bit_simps)
  ultimately show ?thesis by (simp add: address_fields_def)
qed

lemma set_bus_functions:
  "set bus_functions = word_of_nat ` {..<256} \<times> word_of_nat ` {..<32} \<times> word_of_nat ` {..<8}"
  unfolding bus_functions_def by (auto simp: lessThan_atLeast0 simp del: upt_rec_numeral)

lemma length_bus_functions: "length bus_functions = 65536"
  unfolding bus_functions_def
  by (simp add: length_concat comp_def sum_list_triv del: upt_rec_numeral)

lemma take_bit_small: "n < 2 ^ k \<Longrightarrow> k < 32 \<Longrightarrow> take_bit k (word_of_nat n :: u32) = word_of_nat n"
proof -
  assume n: "n < 2 ^ k" "k < 32"
  have "(2 :: nat) ^ k < 2 ^ 32" by (rule power_strict_increasing) (use n in simp_all)
  then have "unat (word_of_nat n :: u32) = n" using n by (simp add: unat_of_nat)
  then show ?thesis by (simp only: word_unat_eq_iff unsigned_take_bit_eq) (use n in \<open>simp add: take_bit_nat_eq_self\<close>)
qed

lemma bus_function_fields:
  assumes "(b, d, f) \<in> set bus_functions"
  shows "address_fields (pci_address b d f 0) = (b, d, f)"
proof -
  obtain i j l where "i < 256" "j < 32" "l < 8" "b = word_of_nat i" "d = word_of_nat j" "f = word_of_nat l"
    using assms by (auto simp: set_bus_functions)
  then have "take_bit 8 b = b" "take_bit 5 d = d" "take_bit 3 f = f"
    using take_bit_small [of i 8] take_bit_small [of j 5] take_bit_small [of l 3] by simp_all
  then show ?thesis using fields_of_address [of b d f] by simp
qed

lemma distinct_bus_functions: "distinct bus_functions"
proof (rule card_distinct)
  have inj: "inj_on (word_of_nat :: nat \<Rightarrow> u32) {..<n}" if "n \<le> 256" for n
    using that by (auto intro!: inj_onI simp: word_unat_eq_iff unat_of_nat take_bit_nat_eq_self)
  have "card (word_of_nat ` {..<256} :: u32 set) = 256" "card (word_of_nat ` {..<32} :: u32 set) = 32"
    "card (word_of_nat ` {..<8} :: u32 set) = 8"
    by (simp_all add: card_image inj)
  then show "card (set bus_functions) = length bus_functions"
    unfolding set_bus_functions length_bus_functions by (simp add: card_cartesian_product)
qed

section \<open>The accesses to the configuration space\<close>

text \<open>
  The 32-bit accesses in a sequence of port accesses. The console uses 8-bit ports only, and allocating
  memory uses no port, so these are the accesses that the scan itself makes.
\<close>

fun config_event :: "port_event \<Rightarrow> bool" where
  "config_event (Out32 p v) \<longleftrightarrow> True"
| "config_event (In32 p) \<longleftrightarrow> True"
| "config_event _ \<longleftrightarrow> False"

definition config_accesses :: "'a machine_scheme \<Rightarrow> port_event list" where
  "config_accesses s = filter config_event (port_log s)"

lemma screen_put_config [simp]: "config_accesses (screen_put c s) = config_accesses s"
proof -
  have "config_accesses (move_cursor t) = config_accesses t" for t :: "'a screen_scheme"
    by (simp add: move_cursor_def config_accesses_def port_simps)
  moreover have "config_accesses (scroll t) = config_accesses t" for t :: "'a screen_scheme"
    by (simp add: scroll_def config_accesses_def Let_def)
  ultimately show ?thesis by (simp add: screen_put_def Let_def) (simp add: config_accesses_def)
qed

lemma screen_write_config [simp]: "config_accesses (screen_write cs s) = config_accesses s"
  by (induction cs arbitrary: s) simp_all

lemma screen_write_kheap [simp]:
  "kheap (screen_write cs s) = kheap s" "placement_address (screen_write cs s) = placement_address s"
proof -
  have "kheap (screen_put c s) = kheap s" "placement_address (screen_put c s) = placement_address s" for c and s :: "'a kernel_scheme"
    by (simp_all add: screen_put_def scroll_def move_cursor_def port_simps)
  then show "kheap (screen_write cs s) = kheap s" "placement_address (screen_write cs s) = placement_address s"
    by (induction cs arbitrary: s) simp_all
qed

lemma serial_wait_config: "serial_wait dev s = Some s' \<Longrightarrow> config_accesses s' = config_accesses s"
proof (rule serial_wait.raw_induct [where P = "\<lambda>dev s s'. config_accesses s' = config_accesses s"])
  fix wait :: "device \<Rightarrow> 'a machine_scheme \<Rightarrow> 'a machine_scheme option" and dev and s s' :: "'a machine_scheme"
  assume IH: "\<And>dev s s'. wait dev s = Some s' \<Longrightarrow> config_accesses s' = config_accesses s"
    and step: "(case is_transmit_empty dev s of (b, t) \<Rightarrow> if b = 0 then wait dev t else Some t) = Some s'"
  obtain b t where bt: "is_transmit_empty dev s = (b, t)" by (cases "is_transmit_empty dev s")
  then have "config_accesses t = config_accesses s"
    by (auto simp: is_transmit_empty_def port_simps config_accesses_def)
  then show "config_accesses s' = config_accesses s" using step bt IH [of dev t s'] by (auto split: if_splits)
qed

lemma serial_write_config: "serial_write dev cs s = Some s' \<Longrightarrow> config_accesses s' = config_accesses s"
proof (induction cs arbitrary: s)
  case (Cons c cs)
  show ?case
  proof (cases "c = 0")
    case False
    then obtain t where t: "serial_wait dev s = Some t" "serial_write dev cs (outb PORT (scast c) t) = Some s'"
      using Cons.prems by (auto simp: serial_write_char_def bind_eq_Some_conv)
    have "config_accesses (outb PORT (scast c) t) = config_accesses t" by (simp add: config_accesses_def port_simps)
    then show ?thesis using Cons.IH [OF t(2)] serial_wait_config [OF t(1)] by simp
  qed (use Cons.prems in simp)
qed simp

lemma printk_config: "printk dev fmt args s = Inr s' \<Longrightarrow> config_accesses s' = config_accesses s"
  by (auto simp: printk_def rbind_Inr_iff split: if_splits option.splits dest!: serial_write_config)

lemma kmalloc_config: "kmalloc k sz s = Inr (a, s') \<Longrightarrow> config_accesses s' = config_accesses s"
  using memory_only_fields(1) [OF kmalloc_memory [of k sz s a s']] by (simp add: config_accesses_def)

section \<open>One function\<close>

definition probe :: "u32 \<times> u32 \<times> u32 \<Rightarrow> port_event list" where
  "probe bdf = (case bdf of (b, d, f) \<Rightarrow> [Out32 0xCF8 (pci_address b d f 0), In32 0xCFC])"

definition absent :: "(u32 \<Rightarrow> u32) \<Rightarrow> u32 \<times> u32 \<times> u32 \<Rightarrow> bool" where
  "absent regs bdf \<longleftrightarrow> (case bdf of (b, d, f) \<Rightarrow> (ucast (regs (pci_address b d f 0)) :: u16) = 0xFFFF)"

text \<open>The fifteen registers of the header.\<close>

definition header_reads :: "u32 \<times> u32 \<times> u32 \<Rightarrow> port_event list" where
  "header_reads bdf = (case bdf of (b, d, f) \<Rightarrow>
     concat (map (\<lambda>i. [Out32 0xCF8 (pci_address b d f (4 * word_of_nat i)), In32 0xCFC]) [0..<15]))"

text \<open>What the scan asks of a function on a bus with these registers.\<close>

definition asked :: "(u32 \<Rightarrow> u32) \<Rightarrow> u32 \<times> u32 \<times> u32 \<Rightarrow> port_event list" where
  "asked regs bdf = probe bdf @ (if absent regs bdf then [] else header_reads bdf)"

lemma low_half: "(ucast (w AND 0xFFFF :: u32) :: u16) = ucast w"
  by (rule bit_word_eqI) (auto simp: bit_simps bit_65535)

lemma probe_answers:
  assumes "host_bridge dev regs"
  shows "pci_exists dev b d f s = (\<not> absent regs (b, d, f), s\<lparr>port_log := port_log s @ probe (b, d, f)\<rparr>)"
proof -
  have "dev (port_log s @ [Out32 0xCF8 (pci_address b d f 0), In32 0xCFC]) = regs (pci_address b d f 0)"
    using assms by (simp add: host_bridge_def)
  then show ?thesis
    by (simp add: pci_exists_def pci_config_read_def port_simps probe_def absent_def low_half)
qed

lemma header_word_config:
  "config_accesses (read_header_word dev addr h i s)
    = config_accesses s @ [Out32 0xCF8 (addr OR push_bit 2 (word_of_nat i)), In32 0xCFC]"
  by (simp add: read_header_word_def config_accesses_def port_simps)

lemma read_header_config:
  "config_accesses (pci_read_header dev b d f h s) = config_accesses s @ header_reads (b, d, f)"
proof -
  let ?addr = "push_bit 16 b OR push_bit 11 d OR push_bit 8 f OR 0x80000000"
  have "config_accesses (fold (read_header_word dev ?addr h) js s)
      = config_accesses s @ concat (map (\<lambda>i. [Out32 0xCF8 (?addr OR push_bit 2 (word_of_nat i)), In32 0xCFC]) js)" for js
    by (induction js arbitrary: s) (simp_all add: header_word_config)
  moreover have "?addr OR push_bit 2 (word_of_nat i) = pci_address b d f (4 * word_of_nat i)" if "i \<in> set [0..<15]" for i
  proof -
    have "list_all (\<lambda>i. 4 * word_of_nat i AND 0xFC = (push_bit 2 (word_of_nat i) :: u32)) [0..<15]" by code_simp
    then have "4 * word_of_nat i AND 0xFC = (push_bit 2 (word_of_nat i) :: u32)" using that by (simp only: list_all_iff)
    then show ?thesis by (simp add: pci_address_def or.assoc or.commute [of "0x80000000"])
  qed
  then have "map (\<lambda>i. [Out32 0xCF8 (?addr OR push_bit 2 (word_of_nat i)), In32 0xCFC]) [0..<15]
      = map (\<lambda>i. [Out32 0xCF8 (pci_address b d f (4 * word_of_nat i)), In32 0xCFC]) [0..<15]"
    by (intro map_cong refl) (simp only:)
  ultimately show ?thesis by (simp only: pci_read_header_def header_reads_def Let_def prod.case)
qed

lemma scan_function_asks:
  assumes "host_bridge dev regs" and "scan_function k dev bdf s = Inr s'"
  shows "config_accesses s' = config_accesses s @ asked regs bdf"
proof -
  obtain b d f where bdf: "bdf = (b, d, f)" by (cases bdf)
  let ?s1 = "s\<lparr>port_log := port_log s @ probe (b, d, f)\<rparr>"
  have 1: "config_accesses ?s1 = config_accesses s @ probe (b, d, f)" by (simp add: config_accesses_def probe_def)
  note ex = probe_answers [OF assms(1), of b d f s]
  show ?thesis
  proof (cases "absent regs (b, d, f)")
    case True
    then show ?thesis using assms(2) ex 1 by (simp add: bdf scan_function_def asked_def)
  next
    case False
    obtain h s2 s4 s5 where st: "kmalloc k sizeof_pci_header ?s1 = Inr (h, s2)"
        "printk dev ''[%x:%x:%x] '' [VInt b, VInt d, VInt f] (pci_read_header dev b d f h s2) = Inr s4"
        "print_pci_header_nice dev h s4 = Inr s5"
      and rest: "s' = s5 \<or> (\<exists>t fmt. printk dev fmt [] s5 = Inr t \<and> print_pci_header_full dev h t = Inr s')"
      using assms(2) False
      by (simp add: bdf scan_function_def ex rbind_Inr_iff Let_def split: if_splits) blast+
    have "config_accesses s5 = config_accesses s4"
      using st(3) by (auto simp: print_pci_header_nice_def print_pci_entry_def rbind_Inr_iff Let_def dest!: printk_config)
    moreover have "config_accesses s' = config_accesses s5"
      using rest by (auto simp: print_pci_header_full_def Let_def dest!: printk_config)
    ultimately show ?thesis
      using kmalloc_config [OF st(1)] printk_config [OF st(2)] read_header_config [of dev b d f h s2] 1 False
      by (simp add: bdf asked_def)
  qed
qed

lemma scan_functions_ask:
  assumes "host_bridge dev regs" and "rfold (scan_function k dev) fs s = Inr s'"
  shows "config_accesses s' = config_accesses s @ concat (map (asked regs) fs)"
  using assms(2)
proof (induction fs arbitrary: s)
  case (Cons bdf fs)
  then obtain t where "scan_function k dev bdf s = Inr t" "rfold (scan_function k dev) fs t = Inr s'"
    by (auto simp: rbind_Inr_iff)
  then show ?case using Cons.IH scan_function_asks [OF assms(1)] by fastforce
qed simp

lemma scan_absent:
  assumes "host_bridge dev regs" and "absent regs bdf"
  shows "scan_function k dev bdf s = Inr (s\<lparr>port_log := port_log s @ probe bdf\<rparr>)"
proof -
  obtain b d f where bdf: "bdf = (b, d, f)" by (cases bdf)
  show ?thesis using assms(2) by (simp add: bdf scan_function_def probe_answers [OF assms(1)])
qed

lemma scan_all_absent:
  assumes "host_bridge dev regs" and "\<forall>bdf \<in> set fs. absent regs bdf"
  shows "rfold (scan_function k dev) fs s = Inr (s\<lparr>port_log := port_log s @ concat (map probe fs)\<rparr>)"
  using assms(2)
proof (induction fs arbitrary: s)
  case (Cons bdf fs)
  then show ?case
    using scan_absent [OF assms(1), of bdf k s] Cons.IH [of "s\<lparr>port_log := port_log s @ probe bdf\<rparr>"] by simp
qed simp

section \<open>The whole scan\<close>

definition pci_banner :: "u8 list" where
  "pci_banner = lit ''PCI bus found! enumerating bus for devices\<newline>''"

lemma banner_printed:
  assumes "transmitter_alive dev n"
  shows "\<exists>es. printk dev ''PCI bus found! enumerating bus for devices\<newline>'' [] s = Inr ((screen_write pci_banner s)\<lparr>port_log := es\<rparr>)
    \<and> sent8 PORT es = sent8 PORT (port_log s) @ pci_banner"
proof -
  have "sprintk 1024 pci_banner [] = Inr (pci_banner @ [0])" "length pci_banner < 1024"
    by (simp_all add: pci_banner_def sprintk_def lit_def)
  then show ?thesis
    using printk_delivers [OF assms, of "''PCI bus found! enumerating bus for devices\<newline>''" "[]" pci_banner s]
    unfolding pci_banner_def by blast
qed

text \<open>C38: The scan asks every function of the bus. (1) Whatever devices there are: if the scan returns, its accesses to
  the configuration space are, in this order, for every one of the 65536 functions one request for its
  vendor and the answer, and behind it, exactly if the answer is not 0xFFFF, the fifteen registers of its
  header; a device found does not stop the scan or skip a function. (2) If the transmitter keeps getting ready and no
  function answers, the scan does return, has printed its first line only, changed no memory, and made exactly
  these 65536 pairs of accesses after printing. (3) The functions are all combinations of 256 buses, 32
  devices and 8 functions, each once, at addresses that are all different and from which the host bridge
  reads back the combination.\<close>
theorem pci_scan_asks_every_function:
  assumes "host_bridge dev regs"
  shows "(\<forall>s'. scan_pci_bus k dev s = Inr s' \<longrightarrow>
        config_accesses s' = config_accesses s @ concat (map (asked regs) bus_functions))
    \<and> (transmitter_alive dev n \<and> (\<forall>bdf \<in> set bus_functions. absent regs bdf) \<longrightarrow>
        (\<exists>es. scan_pci_bus k dev s = Inr ((screen_write pci_banner s)\<lparr>port_log := es @ concat (map probe bus_functions)\<rparr>)
          \<and> sent8 PORT es = sent8 PORT (port_log s) @ pci_banner))
    \<and> length bus_functions = 65536 \<and> distinct (map (\<lambda>(b, d, f). pci_address b d f 0) bus_functions)
    \<and> (\<forall>b < 256. \<forall>d < 32. \<forall>f < 8. (word_of_nat b, word_of_nat d, word_of_nat f) \<in> set bus_functions
        \<and> address_fields (pci_address (word_of_nat b) (word_of_nat d) (word_of_nat f) 0) = (word_of_nat b, word_of_nat d, word_of_nat f))"
proof (intro conjI)
  show "\<forall>s'. scan_pci_bus k dev s = Inr s' \<longrightarrow>
        config_accesses s' = config_accesses s @ concat (map (asked regs) bus_functions)"
  proof (intro allI impI)
    fix s' assume "scan_pci_bus k dev s = Inr s'"
    then obtain t where "printk dev ''PCI bus found! enumerating bus for devices\<newline>'' [] s = Inr t"
        "rfold (scan_function k dev) bus_functions t = Inr s'"
      by (auto simp: scan_pci_bus_def rbind_Inr_iff)
    then show "config_accesses s' = config_accesses s @ concat (map (asked regs) bus_functions)"
      using scan_functions_ask [OF assms, of k bus_functions t s'] printk_config by fastforce
  qed
  show "transmitter_alive dev n \<and> (\<forall>bdf \<in> set bus_functions. absent regs bdf) \<longrightarrow>
        (\<exists>es. scan_pci_bus k dev s = Inr ((screen_write pci_banner s)\<lparr>port_log := es @ concat (map probe bus_functions)\<rparr>)
          \<and> sent8 PORT es = sent8 PORT (port_log s) @ pci_banner)"
  proof (intro impI, elim conjE)
    assume a: "transmitter_alive dev n" "\<forall>bdf \<in> set bus_functions. absent regs bdf"
    obtain es where es: "printk dev ''PCI bus found! enumerating bus for devices\<newline>'' [] s = Inr ((screen_write pci_banner s)\<lparr>port_log := es\<rparr>)"
        "sent8 PORT es = sent8 PORT (port_log s) @ pci_banner"
      using banner_printed [OF a(1), of s] by blast
    then show "\<exists>es. scan_pci_bus k dev s = Inr ((screen_write pci_banner s)\<lparr>port_log := es @ concat (map probe bus_functions)\<rparr>)
          \<and> sent8 PORT es = sent8 PORT (port_log s) @ pci_banner"
      using scan_all_absent [OF assms a(2), of k "(screen_write pci_banner s)\<lparr>port_log := es\<rparr>"]
      by (intro exI [of _ es]) (simp add: scan_pci_bus_def)
  qed
  show "distinct (map (\<lambda>(b, d, f). pci_address b d f 0) bus_functions)"
    unfolding distinct_map
  proof (intro conjI distinct_bus_functions inj_on_inverseI [where g = address_fields])
    fix bdf assume bf: "bdf \<in> set bus_functions"
    obtain b d f where bdf: "bdf = (b, d, f)" by (cases bdf)
    show "address_fields (case bdf of (b, d, f) \<Rightarrow> pci_address b d f 0) = bdf"
      using bus_function_fields [of b d f] bf by (simp add: bdf)
  qed
  show "length bus_functions = 65536" by (rule length_bus_functions)
  show "\<forall>b < 256. \<forall>d < 32. \<forall>f < 8. (word_of_nat b, word_of_nat d, word_of_nat f) \<in> set bus_functions
        \<and> address_fields (pci_address (word_of_nat b) (word_of_nat d) (word_of_nat f) 0) = (word_of_nat b, word_of_nat d, word_of_nat f)"
    using bus_function_fields by (auto simp: set_bus_functions)
qed

text \<open>A bus with one device, the first function, that a vendor and a device of the tables match; the serial port is always
  ready.\<close>

definition one_regs :: "u32 \<Rightarrow> u32" where
  "one_regs a = (if address_fields a \<noteq> (0, 0, 0) then 0xFFFFFFFF
     else if a = 0x80000000 then 0x11DA else if a = 0x80000004 then 0x2000 else 0)"

definition one_device :: device where
  "one_device es = (case rev es of In32 p # Out32 q a # _ \<Rightarrow> one_regs a | _ \<Rightarrow> 0x20)"

lemma one_device_ready: "transmitter_alive one_device 1" "host_bridge one_device one_regs"
  by (simp_all add: transmitter_alive_def host_bridge_def one_device_def polls_def)

lemma find_vendor_append:
  "find_vendor vid (xs @ ys) = (case find_vendor vid xs of None \<Rightarrow> find_vendor vid ys | Some v \<Rightarrow> Some v)"
  by (induction xs) simp_all

lemma find_device_append:
  "find_device vid did (xs @ ys) = (case find_device vid did xs of None \<Rightarrow> find_device vid did ys | Some d \<Rightarrow> Some d)"
  by (induction xs) simp_all

lemma one_vendor:
  "find_vendor 0x11DA PciVenTable_1 = None" "find_vendor 0x11DA PciVenTable_2 = None"
  "find_vendor 0x11DA PciVenTable_3 = None" "find_vendor 0x11DA PciVenTable_4 = Some (ven 0x11DA ''Novell'' ''Novell'')"
  "find_device 0x11DA 0x2000 PciDevTable_1 = Some (dev_entry 0x11DA 0x2000 ''2'' ''Virtual-Bus / AlacrityVM bridge'')"
  by code_simp+

lemma one_lookup:
  "lookup_vendor 0x11DA = ven 0x11DA ''Novell'' ''Novell''"
  "lookup_device 0x11DA 0x2000 = dev_entry 0x11DA 0x2000 ''2'' ''Virtual-Bus / AlacrityVM bridge''"
  by (simp_all add: lookup_vendor_def lookup_device_def PciVenTable_def PciDevTable_def find_vendor_append find_device_append
      one_vendor)

lemma printk_returns:
  assumes "sprintk 1024 (lit fmt) args = Inr (text @ [0])" and "length text < 1024"
  shows "\<exists>s'. printk one_device fmt args s = Inr s' \<and> ram s' = ram s"
  using printk_delivers [OF one_device_ready(1) assms, of s] by auto

lemma one_texts:
  "sprintk 1024 (lit ''[%x:%x:%x] '') [VInt 0, VInt 0, VInt 0] = Inr (lit ''[0x0:0x0:0x0] '' @ [0])"
  "sprintk 1024 (lit ''%x %x, %x'') [VInt 0, VInt 0, VInt 0] = Inr (lit ''0x0 0x0, 0x0'' @ [0])"
  "sprintk 1024 (lit ''%x:%x %s %s\<newline>'') [VInt 0x11DA, VInt 0x2000, VStr (lit ''Novell''), VStr (lit ''Virtual-Bus / AlacrityVM bridge'')]
    = Inr (lit ''0x11da:0x2000 Novell Virtual-Bus / AlacrityVM bridge\<newline>'' @ [0])"
  by code_simp+


lemma bus_functions_first: "\<exists>fs. bus_functions = (0, 0, 0) # fs"
proof -
  have u: "[0..<256] = 0 # [Suc 0..<256]" "[0..<32] = 0 # [Suc 0..<32]" "[0..<8] = 0 # [Suc 0..<8]"
    by (rule upt_conv_Cons; simp)+
  show ?thesis unfolding bus_functions_def u list.map concat.simps append_Cons semiring_1_class.of_nat_0 by blast
qed

lemma one_rest_absent:
  assumes "bus_functions = (0, 0, 0) # fs"
  shows "\<forall>bdf \<in> set fs. absent one_regs bdf"
proof
  fix bdf assume f: "bdf \<in> set fs"
  obtain b d f' where bdf: "bdf = (b, d, f')" by (cases bdf)
  have "bdf \<noteq> (0, 0, 0)" using distinct_bus_functions f unfolding assms by auto
  moreover have "bdf \<in> set bus_functions" using f unfolding assms by simp
  ultimately show "absent one_regs bdf"
    using bus_function_fields [of b d f'] by (simp add: absent_def one_regs_def bdf)
qed

definition pci_state :: filesystem where
  "pci_state = zero_fs\<lparr>placement_address := 0x9000\<rparr>"

lemma read32_byte1: "m (a + 1) = ucast (drop_bit 8 (read32 m a))"
  by (rule bit_word_eqI; auto simp: read32_def bit_simps dest: bit_imp_le_length)

lemma one_scanned:
  assumes "kheap s = None" and "placement_address s = 0x9000"
  shows "\<exists>s'. scan_function k one_device (0, 0, 0) s = Inr s'"
proof -
  let ?s1 = "s\<lparr>port_log := port_log s @ probe (0, 0, 0)\<rparr>"
  let ?s3 = "pci_read_header one_device 0 0 0 0x9000 (?s1\<lparr>placement_address := 0x9044\<rparr>)"
  have here: "\<not> absent one_regs (0, 0, 0)"
    by (simp add: absent_def one_regs_def pci_address_def address_fields_def)
  have km: "kmalloc k sizeof_pci_header ?s1 = Inr (0x9000, ?s1\<lparr>placement_address := 0x9044\<rparr>)"
    using assms by (simp add: kmalloc_def kmalloc_int_def kmalloc_placement_def placement_start_def sizeof_pci_header_def Let_def)
  have "read32 (ram ?s3) (0x9000 + 4 * word_of_nat j) = one_regs (0x80000000 OR push_bit 2 (word_of_nat j))" if "j < 15" for j
    using read_header_words [OF one_device_ready(2), of "0x9000" 15 "0x80000000" "?s1\<lparr>placement_address := 0x9044\<rparr>"] that
    by (simp add: pci_read_header_def del: upt_rec_numeral)
  from this [of 0] this [of 1] this [of 3]
  have r: "read32 (ram ?s3) 0x9000 = 0x11DA" "read32 (ram ?s3) 0x9004 = 0x2000" "read32 (ram ?s3) 0x900C = 0"
    by (simp_all add: one_regs_def address_fields_def)
  have f: "pci_vendor_id (ram ?s3) 0x9000 = 0x11DA" "pci_device_id (ram ?s3) 0x9000 = 0x2000"
      "pci_class_code (ram ?s3) 0x9000 = 0" "pci_subclass (ram ?s3) 0x9000 = 0" "pci_prog_if (ram ?s3) 0x9000 = 0"
    using read32_byte [of "ram ?s3" "0x900C"] read32_byte1 [of "ram ?s3" "0x900C"] read32_byte(3) [of "ram ?s3" "0x9000"] r
    by (simp_all add: pci_vendor_id_def pci_device_id_def pci_class_code_def pci_subclass_def pci_prog_if_def)
  obtain s4 where s4: "printk one_device ''[%x:%x:%x] '' [VInt 0, VInt 0, VInt 0] ?s3 = Inr s4" "ram s4 = ram ?s3"
    using printk_returns [OF one_texts(1), of ?s3] by (auto simp: lit_def)
  obtain s5 where s5: "printk one_device ''%x %x, %x'' [VInt 0, VInt 0, VInt 0] s4 = Inr s5" "ram s5 = ram s4"
    using printk_returns [OF one_texts(2), of s4] by (auto simp: lit_def)
  obtain s6 where s6: "printk one_device ''%x:%x %s %s\<newline>'' [VInt 0x11DA, VInt 0x2000, VStr (lit ''Novell''),
      VStr (lit ''Virtual-Bus / AlacrityVM bridge'')] s5 = Inr s6" "ram s6 = ram s5"
    using printk_returns [OF one_texts(3), of s5] by (auto simp: lit_def)
  have "print_pci_header_nice one_device 0x9000 s4 = Inr s6"
    using s5(1) s6(1) by (simp add: print_pci_header_nice_def s4(2) f one_lookup print_pci_entry_def ven_def dev_entry_def)
  then show ?thesis
    using here km s4(1) f s6(2) s5(2) s4(2)
    by (simp add: scan_function_def probe_answers [OF one_device_ready(2)])
qed

theorem pci_scan_asks_every_function_witness:
  "\<exists>s'. scan_pci_bus 1 one_device pci_state = Inr s'
    \<and> config_accesses s' = concat (map (asked one_regs) bus_functions) \<and> \<not> absent one_regs (0, 0, 0)"
proof -
  obtain fs where fs: "bus_functions = (0, 0, 0) # fs" using bus_functions_first by blast
  obtain es where es: "printk one_device ''PCI bus found! enumerating bus for devices\<newline>'' [] pci_state
      = Inr ((screen_write pci_banner pci_state)\<lparr>port_log := es\<rparr>)"
    using banner_printed [OF one_device_ready(1)] by blast
  have "kheap ((screen_write pci_banner pci_state)\<lparr>port_log := es\<rparr>) = None"
    "placement_address ((screen_write pci_banner pci_state)\<lparr>port_log := es\<rparr>) = 0x9000"
    by (simp_all add: pci_state_def zero_fs_def zero_tasking_def tasking.defs)
  from one_scanned [OF this] obtain s1 where
    "scan_function 1 one_device (0, 0, 0) ((screen_write pci_banner pci_state)\<lparr>port_log := es\<rparr>) = Inr s1" by blast
  then have "\<exists>s'. scan_pci_bus 1 one_device pci_state = Inr s'"
    using es scan_all_absent [OF one_device_ready(2) one_rest_absent [OF fs], of 1 s1] unfolding scan_pci_bus_def fs by simp
  then obtain s' where s': "scan_pci_bus 1 one_device pci_state = Inr s'" by blast
  have "config_accesses pci_state = []"
    by (simp add: config_accesses_def pci_state_def zero_fs_def zero_tasking_def tasking.defs)
  then have "config_accesses s' = concat (map (asked one_regs) bus_functions)"
    using pci_scan_asks_every_function [OF one_device_ready(2), of 1 pci_state] s' by simp
  moreover have "\<not> absent one_regs (0, 0, 0)"
    by (simp add: absent_def one_regs_def pci_address_def address_fields_def)
  ultimately show ?thesis using s' by blast
qed

end
