(* ===== verification/Heap_Layout.thy ===== *)
theory Heap_Layout
  imports Kheap
begin

text \<open>
  The kernel heap as a list of chunks. A heap is laid out well when its chunks, each with its
  header and footer, follow each other from the start address to the end address and the index
  holds exactly the addresses of the holes. Allocation and freeing keep a heap laid out well as
  far as they do; where the code departs from its own bookkeeping is stated at the end.
\<close>

section \<open>Agreement of memories on an interval\<close>

definition agree_on :: "nat \<Rightarrow> nat \<Rightarrow> mem \<Rightarrow> mem \<Rightarrow> bool" where
  "agree_on lo hi m m' \<longleftrightarrow> (\<forall>x. lo \<le> unat x \<and> unat x < hi \<longrightarrow> m' x = m x)"

lemma agree_on_refl [simp]: "agree_on lo hi m m"
  by (simp add: agree_on_def)

lemma agree_on_trans: "agree_on lo hi m m' \<Longrightarrow> agree_on lo hi m' m'' \<Longrightarrow> agree_on lo hi m m''"
  by (simp add: agree_on_def)

lemma agree_on_mono: "agree_on lo hi m m' \<Longrightarrow> lo \<le> lo' \<Longrightarrow> hi' \<le> hi \<Longrightarrow> agree_on lo' hi' m m'"
  by (auto simp: agree_on_def)

lemma agree_on_then:
  "agree_on lo hi m m' \<Longrightarrow> agree_on lo' hi' m' m'' \<Longrightarrow> lo' \<le> lo \<Longrightarrow> hi \<le> hi' \<Longrightarrow> agree_on lo hi m m''"
  by (simp add: agree_on_def)

lemma same_outside_agree:
  "same_outside a k m m' \<Longrightarrow> hi \<le> unat a \<or> unat a + k \<le> lo \<Longrightarrow> agree_on lo hi m m'"
  by (auto simp: same_outside_def agree_on_def in_region_def)

lemma read32_agree:
  assumes "agree_on lo hi m m'" and "lo \<le> unat b" and "unat b + 4 \<le> hi" and "unat b + 4 \<le> 2 ^ 32"
  shows "read32 m' b = read32 m b"
proof -
  have "unat (b + 1) = unat b + 1" "unat (b + 2) = unat b + 2" "unat (b + 3) = unat b + 3"
    using assms(4) by (simp_all add: unat_add_numeral unat_add_one)
  then have "m' b = m b" "m' (b + 1) = m (b + 1)" "m' (b + 2) = m (b + 2)" "m' (b + 3) = m (b + 3)"
    using assms(1-3) by (auto simp: agree_on_def)
  then show ?thesis by (simp add: read32_def)
qed

lemma cells_agree:
  assumes "agree_on lo hi m m'" and "lo \<le> unat arr" and "unat arr + 4 * n \<le> hi" and "unat arr + 4 * n \<le> 2 ^ 32"
  shows "cells m' arr n = cells m arr n"
proof (rule nth_equalityI)
  fix i assume "i < length (cells m' arr n)"
  then have i: "i < n" by simp
  with assms(4) have a: "unat (arr + 4 * word_of_nat i) = unat arr + 4 * i" by (simp add: unat_cell_addr)
  have "read32 m' (arr + 4 * word_of_nat i) = read32 m (arr + 4 * word_of_nat i)"
    by (rule read32_agree [OF assms(1)]) (use i a assms in auto)
  with i show "cells m' arr n ! i = cells m arr n ! i" by (simp add: cell_def)
qed simp

section \<open>Headers and footers\<close>

lemma header_addr:
  fixes h :: u32
  assumes "unat h + 12 \<le> 2 ^ 32"
  shows "unat (h + 4) = unat h + 4" and "unat (h + 8) = unat h + 8"
  using assms by (simp_all add: unat_add_numeral)

lemma same_outside_trans2:
  "same_outside a n m m' \<Longrightarrow> same_outside a n m' m'' \<Longrightarrow> same_outside a n m m''"
  by (rule same_outside_trans)

lemma make_header_frame:
  assumes "unat h + 12 \<le> 2 ^ 32"
  shows "same_outside h 12 m (make_header h hole n m)"
proof -
  note a = header_addr [OF assms]
  let ?m1 = "set_hdr_magic h HEAP_MAGIC m"
  have 1: "same_outside h 12 m ?m1"
    unfolding set_hdr_magic_def
    by (rule same_outside_mono [OF same_outside_write32]) (use assms in auto)
  have 2: "same_outside h 12 ?m1 (set_hdr_is_hole h hole ?m1)"
    unfolding set_hdr_is_hole_def
    by (rule same_outside_mono [OF same_outside_upd]) (use a in auto)
  have 3: "same_outside h 12 (set_hdr_is_hole h hole ?m1) (make_header h hole n m)"
    unfolding make_header_def set_hdr_size_def
    by (rule same_outside_mono [OF same_outside_write32]) (use a assms in auto)
  show ?thesis by (rule same_outside_trans [OF same_outside_trans [OF 1 2] 3])
qed

lemma make_header_fields:
  assumes "unat h + 12 \<le> 2 ^ 32"
  shows "hdr_magic (make_header h hole n m) h = HEAP_MAGIC"
    and "hdr_is_hole (make_header h hole n m) h = hole"
    and "hdr_size (make_header h hole n m) h = n"
proof -
  note a = header_addr [OF assms]
  have "read32 ((write32 m h HEAP_MAGIC)(h + 4 := hole)) h = HEAP_MAGIC"
    using read32_upd_sep [of "h + 4" h "write32 m h HEAP_MAGIC" hole] by simp
  then show "hdr_magic (make_header h hole n m) h = HEAP_MAGIC"
    unfolding make_header_def block_defs using a assms
    by (subst read32_write32_nat) auto
  have "\<not> in_region (h + 8) 4 (h + 4)" using a by (simp add: in_region_def)
  then show "hdr_is_hole (make_header h hole n m) h = hole"
    unfolding make_header_def block_defs
    using same_outside_write32 [of "h + 8" "(write32 m h HEAP_MAGIC)(h + 4 := hole)" n] a assms
    by (simp add: same_outside_def)
  show "hdr_size (make_header h hole n m) h = n"
    by (simp add: make_header_def block_defs)
qed

lemma make_footer_frame:
  assumes "unat f + 8 \<le> 2 ^ 32"
  shows "same_outside f 8 m (make_footer f h m)"
proof -
  have a: "unat (f + 4) = unat f + 4" using assms by (simp add: unat_add_numeral)
  have 1: "same_outside f 8 m (set_ftr_magic f HEAP_MAGIC m)"
    unfolding set_ftr_magic_def
    by (rule same_outside_mono [OF same_outside_write32]) (use assms in auto)
  have 2: "same_outside f 8 (set_ftr_magic f HEAP_MAGIC m) (make_footer f h m)"
    unfolding make_footer_def set_ftr_header_def
    by (rule same_outside_mono [OF same_outside_write32]) (use a assms in auto)
  show ?thesis by (rule same_outside_trans [OF 1 2])
qed

lemma make_footer_fields:
  assumes "unat f + 8 \<le> 2 ^ 32"
  shows "ftr_magic (make_footer f h m) f = HEAP_MAGIC" and "ftr_header (make_footer f h m) f = h"
proof -
  have a: "unat (f + 4) = unat f + 4" using assms by (simp add: unat_add_numeral)
  show "ftr_magic (make_footer f h m) f = HEAP_MAGIC"
    unfolding make_footer_def block_defs using a assms by (subst read32_write32_nat) auto
  show "ftr_header (make_footer f h m) f = h"
    by (simp add: make_footer_def block_defs)
qed

section \<open>Chunks\<close>

type_synonym chunk = "u32 \<times> u32 \<times> bool"

text \<open>
  A block has header and footer. A hole has its header; its footer is either that of the hole
  or not recognisable as one (the first hole of a new heap has none).
\<close>

fun chunk_ok :: "mem \<Rightarrow> chunk \<Rightarrow> bool" where
  "chunk_ok m (p, n, hole) \<longleftrightarrow>
     hdr_magic m p = HEAP_MAGIC \<and> hdr_size m p = n \<and> hdr_is_hole m p = (if hole then 1 else 0)
   \<and> (ftr_magic m (p + n - 8) = HEAP_MAGIC \<longrightarrow> ftr_header m (p + n - 8) = p)
   \<and> (\<not> hole \<longrightarrow> ftr_magic m (p + n - 8) = HEAP_MAGIC)"

fun tiles :: "nat \<Rightarrow> nat \<Rightarrow> chunk list \<Rightarrow> bool" where
  "tiles a e [] \<longleftrightarrow> a = e"
| "tiles a e ((p, n, hole) # cs) \<longleftrightarrow> unat p = a \<and> 20 \<le> unat n \<and> tiles (a + unat n) e cs"

lemma tiles_append: "tiles a e (xs @ ys) \<longleftrightarrow> (\<exists>b. tiles a b xs \<and> tiles b e ys)"
  by (induction xs arbitrary: a) auto

lemma tiles_le: "tiles a e cs \<Longrightarrow> a \<le> e"
proof (induction cs arbitrary: a)
  case (Cons c cs)
  obtain p n h where "c = (p, n, h)" by (cases c)
  with Cons show ?case by fastforce
qed simp

lemma tiles_member:
  assumes "tiles a e cs" and "(p, n, h) \<in> set cs"
  shows "a \<le> unat p" and "unat p + unat n \<le> e" and "20 \<le> unat n"
proof -
  obtain xs ys where cs: "cs = xs @ (p, n, h) # ys" using assms(2) by (meson split_list)
  obtain b where "tiles a b xs" "tiles b e ((p, n, h) # ys)" using assms(1) cs tiles_append by blast
  then show "a \<le> unat p" "unat p + unat n \<le> e" "20 \<le> unat n"
    using tiles_le [of a b xs] tiles_le [of "b + unat n" e ys] by auto
qed

lemma tiles_starts: "tiles a e cs \<Longrightarrow> distinct (map fst cs) \<and> (\<forall>c \<in> set cs. a \<le> unat (fst c))"
proof (induction cs arbitrary: a)
  case (Cons c cs)
  obtain p n h where c: "c = (p, n, h)" by (cases c)
  with Cons.prems have t: "tiles (a + unat n) e cs" "unat p = a" "20 \<le> unat n" by auto
  from Cons.IH [OF t(1)] show ?case using c t(2,3) by fastforce
qed simp

lemma footer_addr:
  fixes p n :: u32
  assumes "20 \<le> unat n" and "unat p + unat n \<le> 2 ^ 32"
  shows "unat (p + n - 8) = unat p + unat n - 8"
proof -
  have "unat (p + (n - 8)) = unat p + unat (n - 8)"
    using assms by (intro unat_add_small [of p "unat (n - 8)", simplified]) (auto simp: unat_sub_if')
  moreover have "unat (n - 8) = unat n - 8" using assms(1) by (simp add: unat_sub_if')
  moreover have "p + n - 8 = p + (n - 8)" by (rule add_diff_eq [symmetric])
  ultimately show ?thesis using assms(1) by (simp only:)
qed

lemma chunk_ok_agree:
  assumes "agree_on lo hi m m'" and "lo \<le> unat p" and "unat p + unat n \<le> hi"
    and "20 \<le> unat n" and "unat p + unat n \<le> 2 ^ 32"
  shows "chunk_ok m' (p, n, h) = chunk_ok m (p, n, h)"
proof -
  have a: "unat (p + 4) = unat p + 4" "unat (p + 8) = unat p + 8"
    using header_addr [of p] assms(4,5) by simp_all
  note f = footer_addr [OF assms(4,5)]
  have f4: "unat (p + n - 8 + 4) = unat p + unat n - 4"
    by (subst unat_add_numeral) (use f assms(4,5) in auto)
  have "read32 m' p = read32 m p" "read32 m' (p + 8) = read32 m (p + 8)"
    "read32 m' (p + n - 8) = read32 m (p + n - 8)" "read32 m' (p + n - 8 + 4) = read32 m (p + n - 8 + 4)"
    by (rule read32_agree [OF assms(1)], use a f f4 assms in auto)+
  moreover have "m' (p + 4) = m (p + 4)" using assms a by (auto simp: agree_on_def)
  ultimately show ?thesis
    by (simp only: chunk_ok.simps hdr_magic_def hdr_is_hole_def hdr_size_def ftr_magic_def ftr_header_def)
qed

section \<open>The heap and its index\<close>

definition hole_starts :: "chunk list \<Rightarrow> u32 set" where
  "hole_starts cs = {p. \<exists>n. (p, n, True) \<in> set cs}"

text \<open>The index has room for one more pointer before the last two words under the heap.\<close>

definition index_ok :: "heap_t \<Rightarrow> bool" where
  "index_ok heap \<longleftrightarrow> less_than (index heap) = Some header_t_less_than
     \<and> unat (oa_array (index heap)) + 4 * (unat (oa_size (index heap)) + 1) + 8 \<le> unat (start_address heap)"

text \<open>Nothing before the first chunk or behind the last looks like a footer or a header.\<close>

definition guarded :: "heap_t \<Rightarrow> mem \<Rightarrow> bool" where
  "guarded heap m \<longleftrightarrow> unat (end_address heap) + 12 \<le> 2 ^ 32
     \<and> ftr_magic m (start_address heap - 8) \<noteq> HEAP_MAGIC \<and> hdr_magic m (end_address heap) \<noteq> HEAP_MAGIC"

definition heap_ok :: "heap_t \<Rightarrow> mem \<Rightarrow> chunk list \<Rightarrow> bool" where
  "heap_ok heap m cs \<longleftrightarrow>
     tiles (unat (start_address heap)) (unat (end_address heap)) cs \<and> (\<forall>c \<in> set cs. chunk_ok m c)
   \<and> index_ok heap \<and> guarded heap m
   \<and> distinct (oa_list (index heap) m) \<and> set (oa_list (index heap) m) = hole_starts cs"

lemma hole_starts_append [simp]: "hole_starts (xs @ ys) = hole_starts xs \<union> hole_starts ys"
  by (auto simp: hole_starts_def)

lemma hole_starts_Cons [simp]:
  "hole_starts ((p, n, h) # cs) = (if h then insert p (hole_starts cs) else hole_starts cs)"
  by (auto simp: hole_starts_def)

lemma hole_starts_Nil [simp]: "hole_starts [] = {}"
  by (simp add: hole_starts_def)

lemma hole_starts_sub: "hole_starts cs \<subseteq> fst ` set cs"
  by (force simp: hole_starts_def)

lemma chunks_agree:
  assumes "tiles a e cs" and "agree_on a e m m'" and "e \<le> 2 ^ 32" and "\<forall>c \<in> set cs. chunk_ok m c"
  shows "\<forall>c \<in> set cs. chunk_ok m' c"
proof
  fix c assume c: "c \<in> set cs"
  obtain p n h where [simp]: "c = (p, n, h)" by (cases c)
  show "chunk_ok m' c"
    using chunk_ok_agree [OF assms(2), of p n h] tiles_member [OF assms(1), of p n h] assms(3,4) c
    by auto
qed

lemma guarded_agree:
  assumes "guarded heap m" and "agree_on (unat (start_address heap) - 8) (unat (start_address heap)) m m'"
    and "agree_on (unat (end_address heap)) (2 ^ 32) m m'" and "8 \<le> unat (start_address heap)"
  shows "guarded heap m'"
proof -
  have a: "unat (start_address heap - 8) = unat (start_address heap) - 8"
    using assms(4) by (simp add: unat_sub_if')
  have "read32 m' (start_address heap - 8) = read32 m (start_address heap - 8)"
    by (rule read32_agree [OF assms(2)]) (use a assms(4) unat_u32_less [of "start_address heap"] in auto)
  moreover have "read32 m' (end_address heap) = read32 m (end_address heap)"
    by (rule read32_agree [OF assms(3)]) (use assms(1) in \<open>auto simp: guarded_def\<close>)
  ultimately show ?thesis using assms(1) by (simp add: guarded_def ftr_magic_def hdr_magic_def)
qed

section \<open>Carving a block from a hole\<close>

text \<open>What \<open>take_hole\<close> writes for a request without alignment, the index apart.\<close>

definition carve :: "u32 \<Rightarrow> u32 \<Rightarrow> u32 \<Rightarrow> u32 \<Rightarrow> mem \<Rightarrow> mem" where
  "carve p n sz e m =
     (if n - (sz + 20) < 20 then make_footer (p + n - 8) p (make_header p 0 n m)
      else (let hole = p + sz + 20;
                m1 = make_footer (p + 12 + sz) p (make_header p 0 (sz + 20) m);
                m2 = make_header hole 1 (n - (sz + 20)) m1
            in if p + n - 8 < e then make_footer (p + n - 8) hole m2 else m2))"

definition split_chunk :: "u32 \<Rightarrow> u32 \<Rightarrow> u32 \<Rightarrow> chunk list" where
  "split_chunk p n sz =
     (if n - (sz + 20) < 20 then [(p, n, False)]
      else [(p, sz + 20, False), (p + sz + 20, n - (sz + 20), True)])"

definition write_chunk :: "u32 \<Rightarrow> u32 \<Rightarrow> bool \<Rightarrow> mem \<Rightarrow> mem" where
  "write_chunk p n hole m = make_footer (p + n - 8) p (make_header p (if hole then 1 else 0) n m)"

lemma write_chunk_frame:
  assumes "20 \<le> unat n" and "unat p + unat n \<le> 2 ^ 32"
  shows "same_outside p (unat n) m (write_chunk p n hole m)"
proof -
  have p: "unat p + 12 \<le> 2 ^ 32" using assms by simp
  note f = footer_addr [OF assms]
  show ?thesis
    unfolding write_chunk_def
    by (rule same_outside_trans [OF same_outside_mono [OF make_header_frame [OF p]]
          same_outside_mono [OF make_footer_frame]]) (use assms f in auto)
qed

lemma write_chunk_ok:
  assumes "20 \<le> unat n" and "unat p + unat n \<le> 2 ^ 32"
  shows "chunk_ok (write_chunk p n hole m) (p, n, hole)"
proof -
  let ?m1 = "make_header p (if hole then 1 else 0) n m"
  let ?f = "p + n - 8"
  have p: "unat p + 12 \<le> 2 ^ 32" using assms by simp
  note f = footer_addr [OF assms]
  have f8: "unat ?f + 8 \<le> 2 ^ 32" using f assms by simp
  have ag: "agree_on (unat p) (unat p + unat n - 8) ?m1 (write_chunk p n hole m)"
    unfolding write_chunk_def
    by (rule same_outside_agree [OF make_footer_frame [OF f8]]) (use f in simp)
  have "read32 (write_chunk p n hole m) p = read32 ?m1 p"
    "read32 (write_chunk p n hole m) (p + 8) = read32 ?m1 (p + 8)"
    by (rule read32_agree [OF ag]; use header_addr [OF p] assms in auto)+
  moreover have "write_chunk p n hole m (p + 4) = ?m1 (p + 4)"
    using ag header_addr [OF p] assms by (auto simp: agree_on_def)
  ultimately show ?thesis
    using make_header_fields [OF p, of "if hole then 1 else 0" n m] make_footer_fields [OF f8, of p ?m1]
    by (cases hole) (simp_all add: hdr_magic_def hdr_is_hole_def hdr_size_def write_chunk_def)
qed

lemma split_arith:
  fixes n p sz :: u32
  assumes "unat sz + 20 \<le> unat n" and "unat p + unat n \<le> 2 ^ 32"
  shows "unat (sz + 20) = unat sz + 20" and "unat (n - (sz + 20)) = unat n - (unat sz + 20)"
    and "unat sz + 20 < unat n \<Longrightarrow> unat (p + sz + 20) = unat p + unat sz + 20"
proof -
  show 1: "unat (sz + 20) = unat sz + 20"
    using assms unat_u32_less [of n] by (intro unat_add_numeral) simp
  then show "unat (n - (sz + 20)) = unat n - (unat sz + 20)"
    using assms by (simp add: unat_sub_if')
  assume "unat sz + 20 < unat n"
  then have "unat (p + (sz + 20)) = unat p + unat (sz + 20)"
    using assms unat_add_small [of p "unat (sz + 20)"] 1 by simp
  then show "unat (p + sz + 20) = unat p + unat sz + 20" using 1 by (simp add: add.assoc)
qed

lemma carve_chunks:
  assumes "unat sz + 20 \<le> unat n" and "unat p + unat n \<le> unat e"
  shows "carve p n sz e m = fold (\<lambda>(q, k, h). write_chunk q k h) (split_chunk p n sz) m"
proof (cases "n - (sz + 20) < 20")
  case True
  then show ?thesis by (simp add: carve_def split_chunk_def write_chunk_def)
next
  case False
  have "20 \<le> unat n" "unat p + unat n \<le> 2 ^ 32" using assms unat_u32_less [of e] by simp_all
  then have "p + n - 8 < e" using footer_addr [of n p] assms by (simp add: word_less_nat_alt)
  moreover have "p + sz + 20 + (n - (sz + 20)) - 8 = p + n - 8" by simp
  ultimately show ?thesis
    using False by (simp add: carve_def split_chunk_def write_chunk_def Let_def add_ac)
qed

lemma carve_ok:
  assumes "unat sz + 20 \<le> unat n" and "unat p + unat n \<le> unat e"
  shows "tiles (unat p) (unat p + unat n) (split_chunk p n sz)"
    and "\<forall>c \<in> set (split_chunk p n sz). chunk_ok (carve p n sz e m) c"
    and "same_outside p (unat n) m (carve p n sz e m)"
proof -
  have lim: "unat p + unat n \<le> 2 ^ 32" "20 \<le> unat n" using assms unat_u32_less [of e] by simp_all
  note a = split_arith [OF assms(1) lim(1)]
  show "tiles (unat p) (unat p + unat n) (split_chunk p n sz)"
    using a lim assms(1) by (auto simp: split_chunk_def word_less_nat_alt)
  show "\<forall>c \<in> set (split_chunk p n sz). chunk_ok (carve p n sz e m) c"
  proof (cases "n - (sz + 20) < 20")
    case True
    then show ?thesis
      using write_chunk_ok [OF lim(2,1)] carve_chunks [OF assms] by (simp add: split_chunk_def del: chunk_ok.simps)
  next
    case False
    then have big: "20 \<le> unat n - (unat sz + 20)" using a by (simp add: word_less_nat_alt)
    let ?m1 = "write_chunk p (sz + 20) False m" and ?q = "p + sz + 20" and ?k = "n - (sz + 20)"
    have q: "unat ?q = unat p + unat sz + 20" using a(3) big by simp
    have k: "20 \<le> unat ?k" "unat ?q + unat ?k \<le> 2 ^ 32" using a(2) big q lim by simp_all
    have b: "20 \<le> unat (sz + 20)" "unat p + unat (sz + 20) \<le> 2 ^ 32" using a(1) assms lim by simp_all
    have ag: "agree_on (unat p) (unat ?q) ?m1 (write_chunk ?q ?k True ?m1)"
      by (rule same_outside_agree [OF write_chunk_frame [OF k]]) simp
    have "chunk_ok (write_chunk ?q ?k True ?m1) (p, sz + 20, False)"
      using chunk_ok_agree [OF ag, of p "sz + 20" False] b a(1) q write_chunk_ok [OF b, of False m]
      by (simp del: chunk_ok.simps)
    then show ?thesis
      using False write_chunk_ok [OF k, of True ?m1] carve_chunks [OF assms]
      by (simp add: split_chunk_def del: chunk_ok.simps)
  qed
  show "same_outside p (unat n) m (carve p n sz e m)"
  proof (cases "n - (sz + 20) < 20")
    case True
    then show ?thesis
      using write_chunk_frame [OF lim(2,1)] carve_chunks [OF assms] by (simp add: split_chunk_def)
  next
    case False
    then have big: "20 \<le> unat n - (unat sz + 20)" using a by (simp add: word_less_nat_alt)
    have q: "unat (p + sz + 20) = unat p + unat sz + 20" using a(3) big by simp
    have "same_outside p (unat n) m (write_chunk p (sz + 20) False m)" for m
      by (rule same_outside_mono [OF write_chunk_frame]) (use a assms lim in auto)
    moreover have "same_outside p (unat n) m (write_chunk (p + sz + 20) (n - (sz + 20)) True m)" for m
      by (rule same_outside_mono [OF write_chunk_frame]) (use a assms lim big q in auto)
    ultimately show ?thesis
      using False carve_chunks [OF assms] by (simp add: split_chunk_def) (rule same_outside_trans)
  qed
qed

lemma distinct_insert_sorted: "distinct (insert_sorted lt x xs) \<longleftrightarrow> x \<notin> set xs \<and> distinct xs"
proof -
  have "distinct (us @ x # vs) \<longleftrightarrow> x \<notin> set (us @ vs) \<and> distinct (us @ vs)" for us vs by auto
  from this [of "takeWhile (\<lambda>y. lt y x) xs" "dropWhile (\<lambda>y. lt y x) xs"] show ?thesis
    by (simp only: insert_sorted_def takeWhile_dropWhile_id)
qed

lemma take_hole_unaligned:
  assumes "kheap s = Some heap" and "lookup_ordered_array 0 (index heap) (ram s) = Inr p"
    and "hdr_size (ram s) p = n"
  shows "take_hole sz (sz + 20) 0 s =
    (let (oa, m1) = remove_ordered_array 0 (index heap) (ram s);
         m3 = carve p n sz (end_address heap) m1
     in if n - (sz + 20) < 20 then Inr (p + 12, set_index oa m3 s)
        else rbind (insert_ordered_array (p + sz + 20) oa m3) (\<lambda>(oa', m6).
               Inr (p + 12, set_index oa' m6 s)))"
proof (cases "n - (sz + 20) < 20")
  case True
  have "p + 12 + (sz + (n - (sz + 20))) = p + n - 8" by simp
  then show ?thesis
    using assms True by (simp add: take_hole_def with_heap_def Let_def carve_def split: prod.split)
next
  case False
  then have "n - (sz + 20) > 0" by (auto simp: word_gt_0)
  then show ?thesis
    using assms False
    by (simp add: take_hole_def with_heap_def Let_def carve_def add_ac split: prod.split)
qed

lemma set_index_fields [simp]:
  "kheap (set_index oa m s) = map_option (\<lambda>h. h\<lparr>index := oa\<rparr>) (kheap s)"
  "ram (set_index oa m s) = m"
  by (simp_all add: set_index_def upd_heap_def)

lemma set_index_twice [simp]: "set_index oa m (set_index oa' m' s) = set_index oa m s"
  by (cases "kheap s") (simp_all add: set_index_def upd_heap_def)

lemma hole_in_chunks:
  assumes "heap_ok heap m cs" and "p \<in> set (oa_list (index heap) m)"
  obtains n where "(p, n, True) \<in> set cs" and "hdr_size m p = n"
  using assms by (fastforce simp: heap_ok_def hole_starts_def)

lemma lookup_first:
  assumes "oa_list oa m = p # ps"
  shows "lookup_ordered_array 0 oa m = Inr p"
proof -
  have "0 < unat (oa_size oa)" using assms by (metis length_cells length_greater_0_conv list.distinct(1) oa_list_def)
  then show ?thesis using lookup_ordered_array_in [of 0 oa m] assms by simp
qed

text \<open>
  A change of memory that leaves alone everything from the last two words under the heap on,
  except the region of one chunk, keeps the other chunks and the guards.
\<close>

lemma chunks_outside:
  assumes "tiles a e (us @ (p, n, h) # vs)" and "e \<le> 2 ^ 32"
    and "\<forall>c \<in> set (us @ vs). chunk_ok m c"
    and "agree_on a (unat p) m m'" and "agree_on (unat p + unat n) (2 ^ 32) m m'"
  shows "\<forall>c \<in> set (us @ vs). chunk_ok m' c"
    and "(q, k, h') \<in> set (us @ vs) \<Longrightarrow> agree_on (unat q) (unat q + unat k) m m'"
proof -
  have t: "tiles a (unat p) us" "tiles (unat p + unat n) e vs"
    using assms(1) unfolding tiles_append by auto
  have le: "unat p \<le> 2 ^ 32" using tiles_le [OF t(2)] assms(2) by simp
  have "\<forall>c \<in> set us. chunk_ok m' c" using chunks_agree [OF t(1) assms(4) le] assms(3) by auto
  moreover have "\<forall>c \<in> set vs. chunk_ok m' c"
    using chunks_agree [OF t(2) _ assms(2), of m m'] assms(2,3) agree_on_mono [OF assms(5)] by auto
  ultimately show "\<forall>c \<in> set (us @ vs). chunk_ok m' c" by auto
  show "agree_on (unat q) (unat q + unat k) m m'" if "(q, k, h') \<in> set (us @ vs)"
    using that tiles_member [OF t(1), of q k h'] tiles_member [OF t(2), of q k h']
      agree_on_mono [OF assms(4)] agree_on_mono [OF assms(5)] assms(2) by fastforce
qed

lemma tiles_split:
  assumes "tiles a e (us @ (p, n, h) # vs)" and "tiles (unat p) (unat p + unat n) cs"
  shows "tiles a e (us @ cs @ vs)"
  using assms unfolding tiles_append by auto

lemma heap_region:
  assumes "heap_ok heap m (us @ (p, n, h) # vs)"
  shows "unat (start_address heap) \<le> unat p" and "unat p + unat n \<le> unat (end_address heap)"
    and "unat (end_address heap) + 12 \<le> 2 ^ 32" and "20 \<le> unat n"
    and "unat (oa_array (index heap)) + 4 * (unat (oa_size (index heap)) + 1) + 8 \<le> unat (start_address heap)"
  using assms tiles_member [of "unat (start_address heap)" "unat (end_address heap)" "us @ (p, n, h) # vs" p n h]
  by (auto simp: heap_ok_def guarded_def index_ok_def)

lemma take_hole_layout:
  assumes heap: "kheap s = Some heap" and ok: "heap_ok heap (ram s) (us @ (p, n, True) # vs)"
    and first: "oa_list (index heap) (ram s) = p # ps" and fits: "unat sz + 20 \<le> unat n"
  shows "\<exists>s' heap'. take_hole sz (sz + 20) 0 s = Inr (p + 12, s') \<and> kheap s' = Some heap'
    \<and> heap_ok heap' (ram s') (us @ split_chunk p n sz @ vs)
    \<and> start_address heap' = start_address heap \<and> end_address heap' = end_address heap
    \<and> (\<forall>(q, k, h) \<in> set (us @ vs). agree_on (unat q) (unat q + unat k) (ram s) (ram s'))"
proof -
  let ?idx = "index heap" and ?m = "ram s" and ?a = "unat (start_address heap)"
  let ?e = "unat (end_address heap)"
  let ?arr = "oa_array ?idx" and ?N = "unat (oa_size ?idx)"
  note reg = heap_region [OF ok]
  have tiles: "tiles ?a ?e (us @ (p, n, True) # vs)" and chunks: "\<forall>c \<in> set (us @ (p, n, True) # vs). chunk_ok ?m c"
    and guard: "guarded heap ?m" and lt: "less_than ?idx = Some header_t_less_than"
    and dist: "distinct (p # ps)" and holes: "set (p # ps) = hole_starts (us @ (p, n, True) # vs)"
    using ok first by (auto simp: heap_ok_def index_ok_def)
  have N: "0 < ?N" using first by (metis length_cells length_greater_0_conv list.distinct(1) oa_list_def)
  have size: "hdr_size ?m p = n" using chunks by simp
  have room: "oa_room ?idx" using reg(1,2,3,5) by (simp add: oa_room_def)
  obtain oa m1 where rem: "remove_ordered_array 0 ?idx ?m = (oa, m1)" by fastforce
  have r: "oa_list oa m1 = ps" "unat (oa_size oa) = ?N - 1" "oa = ?idx\<lparr>oa_size := oa_size ?idx - 1\<rparr>"
    "same_outside ?arr (4 * ?N) ?m m1"
    using remove_ordered_array_correct [OF room, of 0 ?m oa m1] N rem first by simp_all
  define m3 where "m3 = carve p n sz (end_address heap) m1"
  have c: "tiles (unat p) (unat p + unat n) (split_chunk p n sz)"
    "\<forall>c \<in> set (split_chunk p n sz). chunk_ok m3 c" "same_outside p (unat n) m1 m3"
    using carve_ok [OF fits, of p "end_address heap"] reg(2) by (auto simp: m3_def)
  have list3: "oa_list oa m3 = ps"
  proof -
    have "agree_on 0 (unat p) m1 m3" by (rule same_outside_agree [OF c(3)]) simp
    then have "cells m3 ?arr (unat (oa_size oa)) = cells m1 ?arr (unat (oa_size oa))"
      by (rule cells_agree) (use reg r(2) in auto)
    then show ?thesis using r(1,3) by (simp add: oa_list_def)
  qed
  have start8: "agree_on (?a - 8) (unat p) ?m m3" "agree_on (unat p + unat n) (2 ^ 32) ?m m3"
  proof -
    have "agree_on (?a - 8) (2 ^ 32) ?m m1"
      by (rule same_outside_agree [OF r(4)]) (use reg(5) in auto)
    then have "agree_on (?a - 8) (unat p) ?m m1" "agree_on (unat p + unat n) (2 ^ 32) ?m m1"
      using reg by (auto intro: agree_on_mono)
    moreover have "agree_on (?a - 8) (unat p) m1 m3" "agree_on (unat p + unat n) (2 ^ 32) m1 m3"
      using same_outside_agree [OF c(3)] by auto
    ultimately show "agree_on (?a - 8) (unat p) ?m m3" "agree_on (unat p + unat n) (2 ^ 32) ?m m3"
      by (auto intro: agree_on_trans)
  qed
  have psset: "set ps = hole_starts us \<union> hole_starts vs"
  proof -
    have "p \<notin> fst ` set us \<union> fst ` set vs" using tiles_starts [OF tiles] by auto
    then have "p \<notin> hole_starts us \<union> hole_starts vs"
      using hole_starts_sub [of us] hole_starts_sub [of vs] by auto
    moreover have "insert p (set ps) = insert p (hole_starts us \<union> hole_starts vs)" using holes by simp
    moreover have "p \<notin> set ps" using dist by simp
    ultimately show ?thesis by (metis insert_ident)
  qed
  have rest: "\<exists>oa' m'. (if n - (sz + 20) < 20 then Inr (oa, m3) else insert_ordered_array (p + sz + 20) oa m3) = Inr (oa', m')
      \<and> agree_on (?a - 8) (2 ^ 32) m3 m' \<and> oa_array oa' = ?arr \<and> unat (oa_size oa') \<le> ?N
      \<and> less_than oa' = less_than ?idx \<and> distinct (oa_list oa' m')
      \<and> set (oa_list oa' m') = hole_starts (us @ split_chunk p n sz @ vs)"
  proof (cases "n - (sz + 20) < 20")
    case True
    then show ?thesis
      using list3 r dist psset by (intro exI [of _ oa] exI [of _ m3]) (simp add: split_chunk_def)
  next
    case False
    let ?q = "p + sz + 20"
    have lt': "less_than oa = Some header_t_less_than" and room': "oa_room oa"
      using lt r(2,3) reg N by (simp_all add: oa_room_def)
    obtain oa' m' where ins: "insert_ordered_array ?q oa m3 = Inr (oa', m')"
        "oa_list oa' m' = insert_sorted (header_t_less_than m3) ?q ps"
        "oa' = oa\<lparr>oa_size := oa_size oa + 1\<rparr>" "unat (oa_size oa') = Suc (unat (oa_size oa))"
        "same_outside (oa_array oa) (4 * (unat (oa_size oa) + 1)) m3 m'"
      using insert_ordered_array_correct [OF lt' room', of ?q m3] list3 by auto
    have "agree_on (?a - 8) (2 ^ 32) m3 m'"
      by (rule same_outside_agree [OF ins(5)]) (use r(2,3) reg N in auto)
    moreover have q: "?q \<notin> set ps"
    proof
      assume "?q \<in> set ps"
      then have "?q \<in> hole_starts us \<union> hole_starts vs" using psset by simp
      moreover have "tiles ?a ?e (us @ split_chunk p n sz @ vs)" by (rule tiles_split [OF tiles c(1)])
      then have "?q \<notin> fst ` set us \<union> fst ` set vs"
        using tiles_starts [of ?a ?e "us @ split_chunk p n sz @ vs"] False
        by (auto simp: split_chunk_def image_def)
      ultimately show False using hole_starts_sub [of us] hole_starts_sub [of vs] by auto
    qed
    moreover have "distinct (insert_sorted (header_t_less_than m3) ?q ps)"
      using dist q by (simp add: distinct_insert_sorted)
    ultimately show ?thesis
      using ins r N False psset by (intro exI [of _ oa'] exI [of _ m']) (simp add: split_chunk_def)
  qed
  then obtain oa' m' where fin:
      "(if n - (sz + 20) < 20 then Inr (oa, m3) else insert_ordered_array (p + sz + 20) oa m3) = Inr (oa', m')"
      "agree_on (?a - 8) (2 ^ 32) m3 m'" "oa_array oa' = ?arr" "unat (oa_size oa') \<le> ?N"
      "less_than oa' = less_than ?idx" "distinct (oa_list oa' m')"
      "set (oa_list oa' m') = hole_starts (us @ split_chunk p n sz @ vs)"
    by blast
  have ag: "agree_on (?a - 8) (unat p) ?m m'" "agree_on (unat p + unat n) (2 ^ 32) ?m m'"
    by (rule agree_on_then [OF start8(1) fin(2)]; use reg in simp)
      (rule agree_on_then [OF start8(2) fin(2)]; use reg in simp)
  let ?heap' = "heap\<lparr>index := oa'\<rparr>"
  have "take_hole sz (sz + 20) 0 s = Inr (p + 12, set_index oa' m' s)"
    using take_hole_unaligned [OF heap lookup_first [OF first] size, of sz] rem fin(1)
    by (simp add: m3_def [symmetric] split: if_splits)
  moreover have "heap_ok ?heap' m' (us @ split_chunk p n sz @ vs)"
  proof -
    have a: "agree_on ?a (unat p) ?m m'" using ag(1) by (rule agree_on_mono) auto
    have "\<forall>c \<in> set (us @ vs). chunk_ok m' c"
      by (rule chunks_outside(1) [OF tiles _ _ a ag(2)]) (use chunks reg(3) in auto)
    moreover have "\<forall>c \<in> set (split_chunk p n sz). chunk_ok m' c"
      by (rule chunks_agree [OF c(1) _ _ c(2)]) (use fin(2) reg in \<open>auto intro: agree_on_mono\<close>)
    moreover have "guarded ?heap' m'"
    proof -
      have "guarded heap m'"
        by (rule guarded_agree [OF guard]) (use ag reg in \<open>auto intro: agree_on_mono\<close>)
      then show ?thesis by (simp add: guarded_def)
    qed
    moreover have "index_ok ?heap'" using fin(3,4,5) lt reg(5) by (simp add: index_ok_def)
    ultimately show ?thesis
      using tiles_split [OF tiles c(1)] fin(6,7) by (auto simp: heap_ok_def)
  qed
  moreover have "\<forall>(q, k, h) \<in> set (us @ vs). agree_on (unat q) (unat q + unat k) ?m m'"
    using chunks_outside(2) [OF tiles _ _ agree_on_mono [OF ag(1)] ag(2)] chunks reg(3) by fastforce
  ultimately show ?thesis using heap by (intro exI [of _ "set_index oa' m' s"] exI [of _ ?heap']) simp
qed

section \<open>A new heap\<close>

lemma page_base_zero: "(n :: u32) AND 0xFFFFF000 = 0 \<longleftrightarrow> unat n < 4096"
proof -
  have "n AND 0xFFFFF000 = 0 \<longleftrightarrow> unat (n AND 0xFFFFF000) = unat (0 :: u32)" by (simp only: word_unat_eq_iff)
  then show ?thesis unfolding unat_page_base by (auto simp: div_eq_0_iff)
qed

lemma round_page_up_unat:
  assumes "4096 \<le> unat n" and "unat n div 4096 * 4096 + 4096 < 2 ^ 32"
  shows "unat (round_page_up n) = unat n div 4096 * 4096 + 4096"
proof -
  have "unat ((n AND 0xFFFFF000) + 0x1000) = unat (n AND 0xFFFFF000) + 0x1000"
    by (rule unat_add_numeral) (use assms(2) unat_page_base [of n] in simp)
  then show ?thesis
    using assms(1) page_base_zero [of n] unat_page_base [of n] by (simp add: round_page_up_def)
qed

lemma round_page_up_small: "unat n < 4096 \<Longrightarrow> round_page_up n = n"
  by (simp add: round_page_up_def page_base_zero)

lemma kmalloc_int_placement [simp]:
  "kheap s = None \<Longrightarrow> kmalloc_int al sz align phys s = Inr (kmalloc_placement sz align s)"
  by (simp add: kmalloc_int_def)

lemma aligned_start:
  fixes start :: u32
  assumes "unat start mod 4096 = 0" and "unat start + 0x81000 < 2 ^ 32"
  shows "round_page_up (start + 0x80000) = start + 0x81000"
    and "unat (start + 0x81000) = unat start + 0x81000" and "unat (start + 0x80000) = unat start + 0x80000"
proof -
  show 1: "unat (start + 0x81000) = unat start + 0x81000" "unat (start + 0x80000) = unat start + 0x80000"
    using assms(2) by (simp_all add: unat_add_numeral)
  obtain k where "unat start = 4096 * k" using assms(1) by (metis mod_0_imp_dvd dvdE)
  then have "(unat start + 0x80000) div 4096 * 4096 = unat start + 0x80000" by simp
  then have "unat (round_page_up (start + 0x80000)) = unat (start + 0x81000)"
    using round_page_up_unat [of "start + 0x80000"] 1 assms(2) by simp
  then show "round_page_up (start + 0x80000) = start + 0x81000" by (simp only: word_unat_eq_iff)
qed

lemma create_heap_steps:
  assumes "kheap s = None" and "start mod 0x1000 = 0" and "end_addr mod 0x1000 = 0"
    and "round_page_up (start + 0x80000) = st"
    and "memset (ram s) start 0 0x80000 = m0"
    and "set_hdr_is_hole st 1 (set_hdr_magic st HEAP_MAGIC (set_hdr_size st (end_addr - st) m0)) = m1"
  shows "create_heap al start end_addr maxa sv ro s =
     Inr (\<lparr>index = \<lparr>oa_array = start, oa_size = 1, oa_max_size = HEAP_INDEX_SIZE, less_than = Some header_t_less_than\<rparr>,
       start_address = st, end_address = end_addr, max_address = maxa, supervisor = sv, readonly = ro\<rparr>,
       s\<lparr>placement_address := placement_address s + 32, ram := set_cell start 0 st m1\<rparr>)"
proof -
  have "insert_pos m lt start 0 item 0 = 0" for m lt item by (subst insert_pos.simps) simp
  then show ?thesis
    using assms
    by (simp add: create_heap_def kmalloc_placement_def placement_start_def place_ordered_array_def
        HEAP_INDEX_SIZE_def insert_ordered_array_def Let_def)
qed

lemma first_header:
  fixes st :: u32
  assumes "unat st + 12 \<le> 2 ^ 32"
    and "m1 = set_hdr_is_hole st 1 (set_hdr_magic st HEAP_MAGIC (set_hdr_size st v m0))"
  shows "hdr_magic m1 st = HEAP_MAGIC" and "hdr_is_hole m1 st = 1" and "hdr_size m1 st = v"
    and "same_outside st 12 m0 m1"
proof -
  note a = header_addr [OF assms(1)]
  show "hdr_magic m1 st = HEAP_MAGIC"
    unfolding assms(2) block_defs
    using read32_upd_sep [of "st + 4" st] by simp
  show "hdr_is_hole m1 st = 1" by (simp add: assms(2) block_defs)
  have "read32 (write32 (write32 m0 (st + 8) v) st HEAP_MAGIC) (st + 8) = v"
    by (subst read32_write32_nat) (use a assms(1) in auto)
  moreover have "read32 (m(st + 4 := 1)) (st + 8) = read32 m (st + 8)" for m
    by (rule read32_same_outside [OF same_outside_upd]) (use a assms(1) in auto)
  ultimately show "hdr_size m1 st = v" by (simp add: assms(2) block_defs)
  have 1: "same_outside st 12 m0 (write32 m0 (st + 8) v)"
    by (rule same_outside_mono [OF same_outside_write32]) (use a assms(1) in auto)
  have 2: "same_outside st 12 (write32 m0 (st + 8) v) (write32 (write32 m0 (st + 8) v) st HEAP_MAGIC)"
    by (rule same_outside_mono [OF same_outside_write32]) (use assms(1) in auto)
  have 3: "same_outside st 12 m (m(st + 4 := 1))" for m
    by (rule same_outside_mono [OF same_outside_upd]) (use a in auto)
  show "same_outside st 12 m0 m1"
    unfolding assms(2) block_defs by (rule same_outside_trans [OF same_outside_trans [OF 1 2] 3])
qed

lemma create_heap_layout:
  fixes start end_addr :: u32
  assumes none: "kheap s = None" and al: "unat start mod 4096 = 0" "unat end_addr mod 4096 = 0"
    and room: "unat start + 0x81000 + 20 \<le> unat end_addr" "unat end_addr + 12 \<le> 2 ^ 32"
    and clean: "ftr_magic (ram s) (start + 0x80FF8) \<noteq> HEAP_MAGIC"
      "hdr_magic (ram s) end_addr \<noteq> HEAP_MAGIC" "ftr_magic (ram s) (end_addr - 8) \<noteq> HEAP_MAGIC"
  shows "\<exists>heap s'. create_heap alo start end_addr maxa sv ro s = Inr (heap, s')
     \<and> start_address heap = start + 0x81000 \<and> end_address heap = end_addr \<and> max_address heap = maxa
     \<and> heap_ok heap (ram s') [(start + 0x81000, end_addr - (start + 0x81000), True)]
     \<and> oa_array (index heap) = start \<and> oa_size (index heap) = 1
     \<and> (\<exists>m. s' = s\<lparr>placement_address := placement_address s + 32, ram := m\<rparr>)
     \<and> agree_on 0 (unat start) (ram s) (ram s')"
proof -
  let ?st = "start + 0x81000" and ?n = "end_addr - (start + 0x81000)"
  have lim: "unat start + 0x81000 < 2 ^ 32" using room unat_u32_less [of end_addr] by simp
  note st = aligned_start [OF al(1) lim]
  have n: "unat ?n = unat end_addr - (unat start + 0x81000)" using st room by (simp add: unat_sub_if')
  define m0 where "m0 = memset (ram s) start 0 0x80000"
  define m1 where "m1 = set_hdr_is_hole ?st 1 (set_hdr_magic ?st HEAP_MAGIC (set_hdr_size ?st ?n m0))"
  define m2 where "m2 = set_cell start 0 ?st m1"
  define heap where "heap = \<lparr>index = \<lparr>oa_array = start, oa_size = 1, oa_max_size = HEAP_INDEX_SIZE,
     less_than = Some header_t_less_than\<rparr>, start_address = ?st, end_address = end_addr,
     max_address = maxa, supervisor = sv, readonly = ro\<rparr>"
  have mods: "start mod 0x1000 = 0" "end_addr mod 0x1000 = 0"
    using al by (simp_all add: word_unat_eq_iff unat_mod_distrib)
  have run: "create_heap alo start end_addr maxa sv ro s = Inr (heap, s\<lparr>placement_address :=
      placement_address s + 32, ram := m2\<rparr>)"
    unfolding heap_def m2_def 
    by (rule create_heap_steps [OF none mods st(1) m0_def [symmetric] m1_def [symmetric]])
  have st12: "unat ?st + 12 \<le> 2 ^ 32" using st(2) room by simp
  note hdr = first_header [OF st12 m1_def]
  have f0: "agree_on (unat start + 0x80000) (2 ^ 32) (ram s) m0"
    unfolding m0_def
    by (rule same_outside_agree [OF same_outside_memset]) (use lim in auto)
  have f1: "agree_on (unat start + 0x80000) (unat ?st) m0 m1" "agree_on (unat ?st + 12) (2 ^ 32) m0 m1"
    by (rule same_outside_agree [OF hdr(4)]; simp)+
  have f2: "agree_on (unat start + 4) (2 ^ 32) m1 m2"
    unfolding m2_def set_cell_def
    by (rule same_outside_agree [OF same_outside_write32]) (use lim in auto)
  have g1: "agree_on (unat start + 0x80000) (unat ?st) (ram s) m2"
    by (rule agree_on_then [OF agree_on_then [OF agree_on_mono [OF f0] f1(1)] f2]) (use st lim in auto)
  have g2: "agree_on (unat ?st + 12) (2 ^ 32) (ram s) m2"
    by (rule agree_on_then [OF agree_on_then [OF agree_on_mono [OF f0] f1(2)] f2]) (use st lim in auto)
  have e8: "unat (end_addr - 8) = unat end_addr - 8" using room by (simp add: unat_sub_if')
  have g8: "unat (start + 0x80FF8) = unat start + 0x80FF8" using lim by (simp add: unat_add_numeral)
  have "read32 m2 (start + 0x80FF8) = read32 (ram s) (start + 0x80FF8)"
    by (rule read32_agree [OF g1]) (use g8 st lim in auto)
  moreover have "read32 m2 end_addr = read32 (ram s) end_addr"
    by (rule read32_agree [OF g2]) (use st room in auto)
  moreover have "?st - 8 = start + 0x80FF8" by simp
  ultimately have guard: "guarded heap m2"
    using clean(1,2) room by (simp add: guarded_def heap_def ftr_magic_def hdr_magic_def add_ac)
  have "read32 m2 ?st = read32 m1 ?st" "read32 m2 (?st + 8) = read32 m1 (?st + 8)"
    by (rule read32_agree [OF f2]; use st header_addr [OF st12] st12 in auto)+
  moreover have "m2 (?st + 4) = m1 (?st + 4)"
    using f2 st header_addr [OF st12] unat_u32_less [of "?st + 4"] by (auto simp: agree_on_def)
  moreover have "read32 m2 (end_addr - 8) = read32 (ram s) (end_addr - 8)"
    by (rule read32_agree [OF g2]) (use e8 st room in auto)
  moreover have "?st + ?n - 8 = end_addr - 8" by simp
  ultimately have chunk: "chunk_ok m2 (?st, ?n, True)"
    using hdr clean(3) by (simp add: hdr_magic_def hdr_size_def hdr_is_hole_def ftr_magic_def)
  have "oa_list (index heap) m2 = [?st]"
    by (simp add: heap_def oa_list_def cells_def cell_def m2_def set_cell_def)
  then have "heap_ok heap m2 [(?st, ?n, True)]"
    using guard chunk st n room by (simp add: heap_ok_def index_ok_def heap_def)
  moreover have "agree_on 0 (unat start) (ram s) m2"
  proof (rule agree_on_trans [OF agree_on_trans])
    show "agree_on 0 (unat start) (ram s) m0"
      unfolding m0_def by (rule same_outside_agree [OF same_outside_memset]) (use lim in auto)
    show "agree_on 0 (unat start) m0 m1" by (rule same_outside_agree [OF hdr(4)]) (use st in auto)
    show "agree_on 0 (unat start) m1 m2"
      unfolding m2_def set_cell_def by (rule same_outside_agree [OF same_outside_write32]) (use lim in auto)
  qed
  ultimately show ?thesis using run by (auto simp: heap_def)
qed

section \<open>Freeing a block inside the heap\<close>

lemma set_is_hole_frame:
  assumes "unat p + 12 \<le> 2 ^ 32"
  shows "same_outside (p + 4) 1 m (set_hdr_is_hole p v m)"
  unfolding set_hdr_is_hole_def by (rule same_outside_upd)

lemma become_hole:
  assumes "chunk_ok m (p, n, False)" and "20 \<le> unat n" and "unat p + unat n \<le> 2 ^ 32"
  shows "chunk_ok (set_hdr_is_hole p 1 m) (p, n, True)"
proof -
  let ?m = "set_hdr_is_hole p 1 m"
  have p: "unat p + 12 \<le> 2 ^ 32" using assms by simp
  note a = header_addr [OF p] and f = footer_addr [OF assms(2,3)]
  have f4: "unat (p + n - 8 + 4) = unat p + unat n - 4"
    by (subst unat_add_numeral) (use f assms(2,3) in auto)
  have "read32 ?m p = read32 m p" "read32 ?m (p + 8) = read32 m (p + 8)"
    "read32 ?m (p + n - 8) = read32 m (p + n - 8)" "read32 ?m (p + n - 8 + 4) = read32 m (p + n - 8 + 4)"
    by (rule read32_same_outside [OF set_is_hole_frame [OF p]]; use a f f4 assms in auto)+
  then show ?thesis
    using assms(1) by (simp add: hdr_magic_def hdr_size_def ftr_magic_def ftr_header_def) (simp add: block_defs)
qed

text \<open>The word in front of a chunk is the footer of the chunk before it, or the guard.\<close>

lemma left_neighbour:
  assumes ok: "heap_ok heap m (us @ (p, n, h) # vs)"
  shows "ftr_magic m (p - 8) = HEAP_MAGIC \<and> hdr_is_hole m (ftr_header m (p - 8)) = 1 \<longleftrightarrow>
    (\<exists>us' q k. us = us' @ [(q, k, True)] \<and> ftr_magic m (p - 8) = HEAP_MAGIC)"
    and "us = us' @ [(q, k, hq)] \<Longrightarrow> unat q + unat k = unat p \<and> p - 8 = q + k - 8 \<and> chunk_ok m (q, k, hq)"
proof -
  have tiles: "tiles (unat (start_address heap)) (unat (end_address heap)) (us @ (p, n, h) # vs)"
    and chunks: "\<forall>c \<in> set (us @ (p, n, h) # vs). chunk_ok m c" and guard: "guarded heap m"
    using ok by (auto simp: heap_ok_def)
  have prev: "unat q + unat k = unat p \<and> p - 8 = q + k - 8 \<and> chunk_ok m (q, k, hq)"
    if "us = us' @ [(q, k, hq)]" for us' q k hq
  proof -
    have t: "tiles (unat (start_address heap)) (unat (end_address heap)) (us' @ [(q, k, hq)] @ (p, n, h) # vs)"
      using tiles that by simp
    then have sum: "unat q + unat k = unat p" unfolding tiles_append by auto
    then have "p = q + k" using unat_u32_less [of p] by (simp add: word_unat_eq_iff unat_word_ariths)
    then show ?thesis using sum chunks that by (simp del: chunk_ok.simps)
  qed
  show "us = us' @ [(q, k, hq)] \<Longrightarrow> unat q + unat k = unat p \<and> p - 8 = q + k - 8 \<and> chunk_ok m (q, k, hq)"
    by (rule prev)
  show "ftr_magic m (p - 8) = HEAP_MAGIC \<and> hdr_is_hole m (ftr_header m (p - 8)) = 1 \<longleftrightarrow>
    (\<exists>us' q k. us = us' @ [(q, k, True)] \<and> ftr_magic m (p - 8) = HEAP_MAGIC)"
  proof (cases us rule: rev_cases)
    case Nil
    then have "p = start_address heap" using tiles by (simp add: word_unat_eq_iff)
    then show ?thesis using guard Nil by (simp add: guarded_def)
  next
    case (snoc us' c)
    then obtain q k hq where c: "us = us' @ [(q, k, hq)]" by (cases c) auto
    from prev [OF this] have "p - 8 = q + k - 8" "chunk_ok m (q, k, hq)" by simp_all
    then show ?thesis using c by (cases hq) auto
  qed
qed

text \<open>When the chunk to the right is a block, nothing is unified to the right and nothing shrinks.\<close>

lemma free_before_block:
  assumes heap: "kheap s = Some heap" and ok: "heap_ok heap (ram s) (us @ (p, n, False) # (r, j, False) # vs)"
    and left: "unify_left p (p + n - 8) (set_hdr_is_hole p 1 (ram s)) = (header, add, m1)"
    and far: "agree_on (unat p + unat n) (2 ^ 32) (ram s) m1"
  shows "free (p + 12) s =
    (if add then rbind (insert_ordered_array header (index heap) m1) (\<lambda>(oa, m). Inr (set_index oa m s))
     else Inr (set_index (index heap) m1 s))"
proof -
  have tiles: "tiles (unat (start_address heap)) (unat (end_address heap)) (us @ (p, n, False) # (r, j, False) # vs)"
    and chunks: "chunk_ok (ram s) (p, n, False)" "chunk_ok (ram s) (r, j, False)"
    using ok by (auto simp: heap_ok_def)
  note reg = heap_region [OF ok]
  have r: "unat r = unat p + unat n" "20 \<le> unat j" "unat r + unat j \<le> unat (end_address heap)"
    using tiles tiles_member [OF tiles, of r j False] unfolding tiles_append by auto
  have "r = p + n" using r(1) unat_u32_less [of r] by (simp add: word_unat_eq_iff unat_word_ariths)
  then have r8: "p + n - 8 + 8 = r" by simp
  have "unat (p + 12) = unat p + 12" using reg by (intro unat_add_numeral) simp
  then have nz: "p + 12 \<noteq> 0" by (metis add_is_0 unat_0 zero_neq_numeral)
  have "read32 m1 r = read32 (ram s) r" "m1 (r + 4) = ram s (r + 4)"
  proof -
    show "read32 m1 r = read32 (ram s) r" by (rule read32_agree [OF far]) (use r reg in auto)
    have "unat (r + 4) = unat r + 4" using r reg by (intro unat_add_numeral) simp
    then show "m1 (r + 4) = ram s (r + 4)" using far r(1) unat_u32_less [of "r + 4"] by (simp add: agree_on_def)
  qed
  then have "hdr_is_hole m1 r = 0" using chunks(2) by (simp add: hdr_is_hole_def)
  then have right: "unify_right header (p + n - 8) (index heap) m1 = Inr (p + n - 8, index heap, m1)"
    using r8 by (simp add: unify_right_def)
  have noend: "r \<noteq> end_address heap" using r by auto
  show ?thesis
    using heap chunks(1) nz left right noend r8
    by (simp add: free_def with_heap_def Let_def split: option.splits)
qed

lemma unify_left_alone:
  assumes ok: "heap_ok heap m (us @ (p, n, False) # vs)"
    and alone: "\<not> (\<exists>us' q k. us = us' @ [(q, k, True)] \<and> ftr_magic m (p - 8) = HEAP_MAGIC)"
  shows "unify_left p (p + n - 8) (set_hdr_is_hole p 1 m) = (p, True, set_hdr_is_hole p 1 m)"
    and "agree_on 0 (unat p) m (set_hdr_is_hole p 1 m)"
    and "agree_on (unat p + unat n) (2 ^ 32) m (set_hdr_is_hole p 1 m)"
proof -
  let ?mh = "set_hdr_is_hole p 1 m"
  note reg = heap_region [OF ok]
  have tiles: "tiles (unat (start_address heap)) (unat (end_address heap)) (us @ (p, n, False) # vs)"
    and guard: "guarded heap m"
    using ok by (simp_all add: heap_ok_def)
  have p12: "unat p + 12 \<le> 2 ^ 32" using reg by simp
  note a4 = header_addr [OF p12]
  show f0: "agree_on 0 (unat p) m ?mh" and "agree_on (unat p + unat n) (2 ^ 32) m ?mh"
    by (rule same_outside_agree [OF set_is_hole_frame [OF p12]]; use a4 reg in simp)+
  have p8: "unat (p - 8) = unat p - 8" using reg by (simp add: unat_sub_if')
  have "read32 ?mh (p - 8) = read32 m (p - 8)"
    by (rule read32_agree [OF f0]) (use p8 reg unat_u32_less [of p] in auto)
  then have same8: "ftr_magic ?mh (p - 8) = ftr_magic m (p - 8)" by (simp add: ftr_magic_def)
  have "\<not> (ftr_magic ?mh (p - 8) = HEAP_MAGIC \<and> hdr_is_hole ?mh (ftr_header ?mh (p - 8)) = 1)"
  proof (cases us rule: rev_cases)
    case Nil
    then have "p = start_address heap" using tiles by (simp add: word_unat_eq_iff)
    then show ?thesis using guard same8 by (simp add: guarded_def)
  next
    case (snoc us' c)
    then obtain q k hq where c: "us = us' @ [(q, k, hq)]" by (cases c) auto
    note prev = left_neighbour(2) [OF ok c]
    show ?thesis
    proof (cases hq)
      case True
      then show ?thesis using alone c same8 by auto
    next
      case False
      have mem: "(q, k, hq) \<in> set (us @ (p, n, False) # vs)" using c by simp
      have q: "unat q + unat k \<le> unat p" "20 \<le> unat k" using prev tiles_member(3) [OF tiles mem] by simp_all
      have "chunk_ok ?mh (q, k, hq)"
        using chunk_ok_agree [OF f0, of q k hq] q prev unat_u32_less [of p] by (simp del: chunk_ok.simps)
      then show ?thesis using prev False by simp
    qed
  qed
  then show "unify_left p (p + n - 8) ?mh = (p, True, ?mh)" by (auto simp: unify_left_def)
qed

text \<open>No hole is unified with: the block becomes a hole of its own and enters the index.\<close>

lemma free_adds_hole:
  assumes heap: "kheap s = Some heap" and ok: "heap_ok heap (ram s) (us @ (p, n, False) # (r, j, False) # vs)"
    and alone: "\<not> (\<exists>us' q k. us = us' @ [(q, k, True)] \<and> ftr_magic (ram s) (p - 8) = HEAP_MAGIC)"
    and room: "unat (oa_array (index heap)) + 4 * (unat (oa_size (index heap)) + 2) + 8 \<le> unat (start_address heap)"
  shows "\<exists>s' heap'. free (p + 12) s = Inr s' \<and> kheap s' = Some heap'
    \<and> heap_ok heap' (ram s') (us @ (p, n, True) # (r, j, False) # vs)
    \<and> start_address heap' = start_address heap \<and> end_address heap' = end_address heap
    \<and> (\<forall>(q, k, h) \<in> set (us @ (r, j, False) # vs). agree_on (unat q) (unat q + unat k) (ram s) (ram s'))"
proof -
  let ?vs = "(r, j, False) # vs" and ?m = "ram s"
  let ?a = "unat (start_address heap)" and ?e = "unat (end_address heap)"
  let ?mh = "set_hdr_is_hole p 1 ?m"
  note reg = heap_region [OF ok]
  have tiles: "tiles ?a ?e (us @ (p, n, False) # ?vs)" and chunks: "\<forall>c \<in> set (us @ (p, n, False) # ?vs). chunk_ok ?m c"
    and guard: "guarded heap ?m" and lt: "less_than (index heap) = Some header_t_less_than"
    and dist: "distinct (oa_list (index heap) ?m)"
    and holes: "set (oa_list (index heap) ?m) = hole_starts (us @ (p, n, False) # ?vs)"
    using ok by (auto simp: heap_ok_def index_ok_def)
  have lim: "unat p + unat n \<le> 2 ^ 32" using reg by simp
  note left = unify_left_alone(1) [OF ok alone] and f0 = unify_left_alone(2,3) [OF ok alone]
  have rm: "oa_room (index heap)" using reg(1-4) room by (simp add: oa_room_def)
  have list0: "oa_list (index heap) ?mh = oa_list (index heap) ?m"
    unfolding oa_list_def by (rule cells_agree [OF f0(1)]) (use reg in auto)
  obtain oa m' where ins: "insert_ordered_array p (index heap) ?mh = Inr (oa, m')"
      "oa_list oa m' = insert_sorted (header_t_less_than ?mh) p (oa_list (index heap) ?m)"
      "oa = (index heap)\<lparr>oa_size := oa_size (index heap) + 1\<rparr>" "unat (oa_size oa) = Suc (unat (oa_size (index heap)))"
      "same_outside (oa_array (index heap)) (4 * (unat (oa_size (index heap)) + 1)) ?mh m'"
    using insert_ordered_array_correct [OF lt rm, of p ?mh] list0 by auto
  have f1: "agree_on (?a - 8) (2 ^ 32) ?mh m'"
    by (rule same_outside_agree [OF ins(5)]) (use reg in auto)
  have g1: "agree_on (?a - 8) (unat p) ?m m'" "agree_on (unat p + unat n) (2 ^ 32) ?m m'"
    by (rule agree_on_then [OF agree_on_mono [OF f0(1)] f1]; use reg in simp)
      (rule agree_on_then [OF f0(2) f1]; use reg in simp)
  let ?heap' = "heap\<lparr>index := oa\<rparr>"
  have run: "free (p + 12) s = Inr (set_index oa m' s)"
    using free_before_block [OF heap ok left f0(2)] ins(1) by simp
  have g1': "agree_on ?a (unat p) ?m m'" using g1(1) by (rule agree_on_mono) auto
  have e: "?e \<le> 2 ^ 32" and all: "\<forall>c \<in> set (us @ ?vs). chunk_ok ?m c" using reg(3) chunks by auto
  note others = chunks_outside [OF tiles e all g1' g1(2)]
  have "chunk_ok ?mh (p, n, True)" by (rule become_hole [OF _ reg(4) lim]) (use chunks in simp)
  then have "chunk_ok m' (p, n, True)"
    using chunk_ok_agree [OF f1, of p n True] reg by (simp del: chunk_ok.simps)
  moreover have "p \<notin> set (oa_list (index heap) ?m)"
    using holes tiles_starts [OF tiles] hole_starts_sub [of us] hole_starts_sub [of ?vs] by auto
  then have "distinct (oa_list oa m')" "set (oa_list oa m') = hole_starts (us @ (p, n, True) # ?vs)"
    using ins(2) dist holes by (auto simp: distinct_insert_sorted)
  moreover have "tiles ?a ?e (us @ (p, n, True) # ?vs)" using tiles unfolding tiles_append by auto
  moreover have "guarded heap m'"
    by (rule guarded_agree [OF guard]) (use g1 reg in \<open>auto intro: agree_on_mono\<close>)
  then have "guarded ?heap' m'" by (simp add: guarded_def)
  moreover have "index_ok ?heap'" using ins(3,4) lt room by (simp add: index_ok_def)
  ultimately have "heap_ok ?heap' m' (us @ (p, n, True) # ?vs)"
    using others(1) by (auto simp: heap_ok_def simp del: chunk_ok.simps)
  moreover have "\<forall>(q, k, h) \<in> set (us @ ?vs). agree_on (unat q) (unat q + unat k) ?m m'"
    using others(2) by blast
  ultimately show ?thesis
    using run heap by (intro exI [of _ "set_index oa m' s"] exI [of _ ?heap']) (simp del: chunk_ok.simps)
qed

text \<open>A hole with its footer stands to the left: it takes the block in, and the index stays.\<close>

definition merge_into :: "u32 \<Rightarrow> u32 \<Rightarrow> u32 \<Rightarrow> u32 \<Rightarrow> mem \<Rightarrow> mem" where
  "merge_into q k p n m =
     set_hdr_size q (k + n) (set_ftr_header (p + n - 8) q (set_hdr_is_hole p 1 m))"

lemma merge_into_ok:
  assumes "chunk_ok m (q, k, True)" and "chunk_ok m (p, n, False)"
    and "unat q + unat k = unat p" and "20 \<le> unat k" and "20 \<le> unat n" and "unat p + unat n \<le> 2 ^ 32"
  shows "same_outside q (unat k + unat n) m (merge_into q k p n m)"
    and "unat p + unat n < 2 ^ 32 \<Longrightarrow> chunk_ok (merge_into q k p n m) (q, k + n, True)"
    and "hdr_size (set_ftr_header (p + n - 8) q (set_hdr_is_hole p 1 m)) q = k"
proof -
  let ?mh = "set_hdr_is_hole p 1 m" and ?f = "p + n - 8"
  let ?mf = "set_ftr_header ?f q ?mh"
  have p12: "unat p + 12 \<le> 2 ^ 32" and q12: "unat q + 12 \<le> 2 ^ 32" using assms by simp_all
  note pa = header_addr [OF p12] and qa = header_addr [OF q12] and f = footer_addr [OF assms(5,6)]
  have f4: "unat (?f + 4) = unat p + unat n - 4"
    by (subst unat_add_numeral) (use f assms(5,6) in auto)
  have o1: "same_outside (p + 4) 1 m ?mh" by (rule set_is_hole_frame [OF p12])
  have o2: "same_outside (?f + 4) 4 ?mh ?mf"
    unfolding set_ftr_header_def by (rule same_outside_write32) (use f4 assms(5,6) in simp)
  have o3: "same_outside (q + 8) 4 ?mf (merge_into q k p n m)"
    unfolding merge_into_def set_hdr_size_def by (rule same_outside_write32) (use qa q12 in simp)
  have w1: "same_outside q (unat k + unat n) m ?mh"
    by (rule same_outside_mono [OF o1]) (use pa assms in auto)
  have w2: "same_outside q (unat k + unat n) ?mh ?mf"
    by (rule same_outside_mono [OF o2]) (use f4 assms in auto)
  have w3: "same_outside q (unat k + unat n) ?mf (merge_into q k p n m)"
    by (rule same_outside_mono [OF o3]) (use qa assms in auto)
  show "same_outside q (unat k + unat n) m (merge_into q k p n m)"
    by (rule same_outside_trans [OF same_outside_trans [OF w1 w2] w3])
  have keep: "read32 ?mf b = read32 m b" if "unat b + 4 \<le> unat p" for b
  proof -
    have "read32 ?mf b = read32 ?mh b"
      by (rule read32_same_outside [OF o2]) (use that f4 assms in auto)
    also have "\<dots> = read32 m b"
      by (rule read32_same_outside [OF o1]) (use that pa assms in auto)
    finally show ?thesis .
  qed
  show "hdr_size ?mf q = k"
    using keep [of "q + 8"] qa assms(1,3,4) by (simp add: hdr_size_def)
  assume small: "unat p + unat n < 2 ^ 32"
  have p: "p = q + k" using assms(3) unat_u32_less [of p] by (simp add: word_unat_eq_iff unat_word_ariths)
  have kn: "unat (k + n) = unat k + unat n" using assms(3) small by (simp add: unat_word_ariths)
  have ff: "q + (k + n) = p + n" using p by simp
  have "read32 (merge_into q k p n m) q = read32 m q"
    using read32_same_outside [OF o3, of q] keep [of q] qa q12 assms(3,4) by simp
  moreover have "merge_into q k p n m (q + 4) = m (q + 4)"
  proof -
    have n3: "\<not> in_region (q + 8) 4 (q + 4)" and n2: "\<not> in_region (?f + 4) 4 (q + 4)"
      and n1: "\<not> in_region (p + 4) 1 (q + 4)"
      using qa pa f4 assms(3-6) by (auto simp: in_region_def)
    have "merge_into q k p n m (q + 4) = ?mf (q + 4)" using o3 n3 unfolding same_outside_def by blast
    also have "\<dots> = ?mh (q + 4)" using o2 n2 unfolding same_outside_def by blast
    also have "\<dots> = m (q + 4)" using o1 n1 unfolding same_outside_def by blast
    finally show ?thesis .
  qed
  moreover have "read32 (merge_into q k p n m) (?f + 4) = q"
  proof -
    have "read32 (merge_into q k p n m) (?f + 4) = read32 ?mf (?f + 4)"
      by (rule read32_same_outside [OF o3]) (use qa f4 assms in auto)
    then show ?thesis by (simp add: set_ftr_header_def)
  qed
  moreover have "read32 (merge_into q k p n m) ?f = read32 m ?f"
  proof -
    have "read32 (merge_into q k p n m) ?f = read32 ?mf ?f"
      by (rule read32_same_outside [OF o3]) (use qa f assms in auto)
    also have "\<dots> = read32 ?mh ?f"
      by (rule read32_same_outside [OF o2]) (use f f4 assms in auto)
    also have "\<dots> = read32 m ?f"
      by (rule read32_same_outside [OF o1]) (use f pa assms in auto)
    finally show ?thesis .
  qed
  moreover have "read32 (merge_into q k p n m) (q + 8) = k + n" by (simp add: merge_into_def set_hdr_size_def)
  ultimately show "chunk_ok (merge_into q k p n m) (q, k + n, True)"
    unfolding chunk_ok.simps ff
    using assms(1,2) by (simp add: hdr_magic_def hdr_size_def hdr_is_hole_def ftr_magic_def ftr_header_def)
qed

lemma free_merges_left:
  assumes heap: "kheap s = Some heap"
    and ok: "heap_ok heap (ram s) (us @ (q, k, True) # (p, n, False) # (r, j, False) # vs)"
    and foot: "ftr_magic (ram s) (p - 8) = HEAP_MAGIC"
  shows "\<exists>s'. free (p + 12) s = Inr s' \<and> kheap s' = Some heap
    \<and> heap_ok heap (ram s') (us @ (q, k + n, True) # (r, j, False) # vs)
    \<and> (\<forall>(q, k, h) \<in> set (us @ (r, j, False) # vs). agree_on (unat q) (unat q + unat k) (ram s) (ram s'))"
proof -
  let ?vs = "(r, j, False) # vs" and ?us = "us @ [(q, k, True)]"
  let ?a = "unat (start_address heap)" and ?e = "unat (end_address heap)"
  let ?m = "ram s" and ?m' = "merge_into q k p n (ram s)"
  have ok': "heap_ok heap (ram s) (?us @ (p, n, False) # ?vs)" using ok by simp
  note reg = heap_region [OF ok']
  have tiles: "tiles ?a ?e (us @ (q, k, True) # (p, n, False) # ?vs)"
    and chunks: "\<forall>c \<in> set (us @ (q, k, True) # (p, n, False) # ?vs). chunk_ok ?m c"
    and guard: "guarded heap ?m" and dist: "distinct (oa_list (index heap) ?m)" and idx: "index_ok heap"
    and holes: "set (oa_list (index heap) ?m) = hole_starts (us @ (q, k, True) # (p, n, False) # ?vs)"
    using ok by (auto simp: heap_ok_def simp del: chunk_ok.simps)
  have q: "20 \<le> unat k" "?a \<le> unat q" using tiles_member [OF tiles, of q k True] by auto
  have sum: "unat q + unat k = unat p" and r: "unat p + unat n = unat r" "20 \<le> unat j" "unat r + unat j \<le> ?e"
    using tiles tiles_member [OF tiles, of r j False] unfolding tiles_append by auto
  have lim: "unat p + unat n \<le> 2 ^ 32" "unat p + unat n < 2 ^ 32" using r reg(3) by simp_all
  have c: "chunk_ok ?m (q, k, True)" "chunk_ok ?m (p, n, False)" using chunks by auto
  note merge = merge_into_ok [OF c sum q(1) reg(4) lim(1)]
  have kn: "unat (k + n) = unat k + unat n" using sum lim by (simp add: unat_word_ariths)
  have same8: "ftr_magic (set_hdr_is_hole p 1 ?m) (p - 8) = HEAP_MAGIC"
    "ftr_header (set_hdr_is_hole p 1 ?m) (p - 8) = q" "hdr_is_hole (set_hdr_is_hole p 1 ?m) q = 1"
    "hdr_size (set_hdr_is_hole p 1 ?m) p = n"
  proof -
    have p12: "unat p + 12 \<le> 2 ^ 32" using reg by simp
    have "agree_on 0 (unat p) ?m (set_hdr_is_hole p 1 ?m)"
      by (rule same_outside_agree [OF set_is_hole_frame [OF p12]]) (use header_addr [OF p12] in simp)
    from chunk_ok_agree [OF this, of q k True] have "chunk_ok (set_hdr_is_hole p 1 ?m) (q, k, True)"
      using c(1) sum q(1) lim(2) by (simp del: chunk_ok.simps)
    moreover have p8: "p - 8 = q + k - 8" using left_neighbour(2) [OF ok', of us q k True] by simp
    have p8': "unat (p - 8) = unat p - 8" using sum q(1) by (simp add: unat_sub_if')
    have "read32 (set_hdr_is_hole p 1 ?m) (p - 8) = read32 ?m (p - 8)"
      by (rule read32_same_outside [OF set_is_hole_frame [OF p12]])
        (use p8' header_addr [OF p12] sum q(1) unat_u32_less [of p] in auto)
    then show "ftr_magic (set_hdr_is_hole p 1 ?m) (p - 8) = HEAP_MAGIC"
      using foot by (simp add: ftr_magic_def)
    ultimately show "ftr_header (set_hdr_is_hole p 1 ?m) (p - 8) = q" "hdr_is_hole (set_hdr_is_hole p 1 ?m) q = 1"
      using p8 by simp_all
    show "hdr_size (set_hdr_is_hole p 1 ?m) p = n"
      using become_hole [OF c(2) reg(4) lim(1)] by simp
  qed
  have left: "unify_left p (p + n - 8) (set_hdr_is_hole p 1 ?m) = (q, False, ?m')"
    using same8 merge(3) by (simp add: unify_left_def Let_def merge_into_def)
  have qn: "unat q + (unat k + unat n) = unat p + unat n" using sum by simp
  have f: "agree_on (?a - 8) (unat q) ?m ?m'" "agree_on (unat q + unat (k + n)) (2 ^ 32) ?m ?m'"
    "agree_on (unat p + unat n) (2 ^ 32) ?m ?m'" "agree_on 0 ?a ?m ?m'"
    by (rule same_outside_agree [OF merge(1)]; use qn kn q in simp)+
  have tiles': "tiles ?a ?e (us @ (q, k + n, True) # ?vs)"
    using tiles kn q(1) unfolding tiles_append by (auto simp: add.assoc)
  have f': "agree_on ?a (unat q) ?m ?m'" using f(1) by (rule agree_on_mono) auto
  have e: "?e \<le> 2 ^ 32" and all: "\<forall>c \<in> set (us @ ?vs). chunk_ok ?m c" using reg(3) chunks by auto
  note others = chunks_outside [OF tiles' e all f' f(2)]
  have list: "oa_list (index heap) ?m' = oa_list (index heap) ?m"
    unfolding oa_list_def by (rule cells_agree [OF f(4)]) (use reg in auto)
  have "guarded heap ?m'"
    by (rule guarded_agree [OF guard]) (use f reg r in \<open>auto intro: agree_on_mono\<close>)
  then have "heap_ok heap ?m' (us @ (q, k + n, True) # ?vs)"
    using tiles' others(1) merge(2) [OF lim(2)] idx dist holes list
    by (auto simp: heap_ok_def simp del: chunk_ok.simps)
  moreover have "free (p + 12) s = Inr (set_index (index heap) ?m' s)"
    using free_before_block [OF heap ok' left f(3)] by simp
  moreover have "\<forall>(q, k, h) \<in> set (us @ ?vs). agree_on (unat q) (unat q + unat k) ?m ?m'"
    using others(2) by blast
  ultimately show ?thesis
    using heap by (intro exI [of _ "set_index (index heap) ?m' s"]) (simp del: chunk_ok.simps)
qed

section \<open>The search for a hole\<close>

lemma find_hole_loop_spec:
  assumes "n = unat (oa_size oa)" and "k \<le> n"
  shows "find_hole_loop m oa sz al [k..<n] =
    (if \<exists>i. k \<le> i \<and> i < n \<and> hole_fits m sz al (oa_list oa m ! i)
     then Inr (word_of_nat (LEAST i. k \<le> i \<and> i < n \<and> hole_fits m sz al (oa_list oa m ! i)))
     else Inr (- 1))"
  using assms(2)
proof (induction "n - k" arbitrary: k)
  case 0
  then show ?case by auto
next
  case (Suc d)
  let ?fit = "\<lambda>i. hole_fits m sz al (oa_list oa m ! i)"
  have k: "k < n" using Suc.hyps by simp
  have look: "lookup_ordered_array (word_of_nat k) oa m = Inr (oa_list oa m ! k)"
    using k assms(1) by (intro lookup_ordered_array_in) simp
  have IH: "find_hole_loop m oa sz al [Suc k..<n] =
    (if \<exists>i. Suc k \<le> i \<and> i < n \<and> ?fit i then Inr (word_of_nat (LEAST i. Suc k \<le> i \<and> i < n \<and> ?fit i)) else Inr (- 1))"
    by (rule Suc.hyps) (use Suc k in auto)
  show ?case
  proof (cases "?fit k")
    case True
    then have "(LEAST i. k \<le> i \<and> i < n \<and> ?fit i) = k" using k by (intro Least_equality) auto
    with True k look show ?thesis by (auto simp: upt_conv_Cons)
  next
    case False
    then have eq: "(k \<le> i \<and> i < n \<and> ?fit i) = (Suc k \<le> i \<and> i < n \<and> ?fit i)" for i
      by (metis Suc_leD le_antisym not_less_eq_eq)
    with False k look IH show ?thesis by (simp add: upt_conv_Cons) blast
  qed
qed

lemma find_smallest_hole_first:
  assumes "oa_list (index heap) m = p # ps" and "hole_fits m sz al p"
  shows "find_smallest_hole sz al heap m = Inr 0"
proof -
  have n: "0 < unat (oa_size (index heap))"
    using assms(1) by (metis length_cells length_greater_0_conv list.distinct(1) oa_list_def)
  have ex: "\<exists>i. i < unat (oa_size (index heap)) \<and> hole_fits m sz al (oa_list (index heap) m ! i)"
    using n assms by (intro exI [of _ 0]) simp
  have "(LEAST i. i < unat (oa_size (index heap)) \<and> hole_fits m sz al (oa_list (index heap) m ! i)) = 0"
    using n assms by (intro Least_equality) auto
  then show ?thesis
    using find_hole_loop_spec [of "unat (oa_size (index heap))" "index heap" 0 m sz al] ex
    by (simp add: find_smallest_hole_def)
qed

section \<open>Allocation\<close>

lemma alloc_layout:
  assumes "kheap s = Some heap" and "heap_ok heap (ram s) (us @ (p, n, True) # vs)"
    and "oa_list (index heap) (ram s) = p # ps" and fits: "unat sz + 20 \<le> unat n"
  shows "\<exists>s' heap'. alloc (Suc k) sz 0 s = Inr (p + 12, s') \<and> kheap s' = Some heap'
    \<and> heap_ok heap' (ram s') (us @ split_chunk p n sz @ vs)
    \<and> start_address heap' = start_address heap \<and> end_address heap' = end_address heap
    \<and> (\<forall>(q, k, h) \<in> set (us @ vs). agree_on (unat q) (unat q + unat k) (ram s) (ram s'))"
proof -
  have "hdr_size (ram s) p = n" using assms(2) by (auto simp: heap_ok_def)
  moreover have "unat (sz + 20) = unat sz + 20"
    using fits unat_u32_less [of n] by (intro unat_add_numeral) simp
  ultimately have "find_smallest_hole (sz + 20) 0 heap (ram s) = Inr 0"
    using fits by (intro find_smallest_hole_first [OF assms(3)]) (simp add: hole_fits_def word_le_nat_alt)
  then have "alloc (Suc k) sz 0 s = take_hole sz (sz + 20) 0 s"
    using assms(1) by (simp add: alloc_body_def with_heap_def add.assoc)
  then show ?thesis using take_hole_layout [OF assms] by simp
qed

lemma insert_always:
  assumes "less_than oa = Some lt"
  shows "\<exists>r. insert_ordered_array x oa m = Inr r"
  using assms by (auto simp: insert_ordered_array_def Let_def)

text \<open>Whatever the search found, the first hole of the index is taken, even when it is too small.\<close>

lemma take_hole_too_small:
  assumes "kheap s = Some heap" and "index_ok heap" and "oa_list (index heap) (ram s) = p # ps"
    and "hdr_size (ram s) p = n" and "20 \<le> unat n" and "unat n < unat sz + 20" and "unat sz + 20 < 2 ^ 32"
  shows "\<exists>s'. take_hole sz (sz + 20) 0 s = Inr (p + 12, s')"
proof -
  have sz: "unat (sz + 20) = unat sz + 20" using assms(7) by (intro unat_add_numeral) simp
  then have "unat (n - (sz + 20)) = unat n + 2 ^ 32 - (unat sz + 20)"
    using assms(6,7) by (simp add: unat_sub_if')
  then have "\<not> n - (sz + 20) < 20" using assms(5,7) by (simp add: word_less_nat_alt)
  moreover obtain oa m1 where rem: "remove_ordered_array 0 (index heap) (ram s) = (oa, m1)" by fastforce
  moreover have "less_than oa = Some header_t_less_than"
    using rem assms(2) by (auto simp: remove_ordered_array_def index_ok_def)
  then obtain oa' m' where
      "insert_ordered_array (p + sz + 20) oa (carve p n sz (end_address heap) m1) = Inr (oa', m')"
    using insert_always by fast
  ultimately show ?thesis
    using take_hole_unaligned [OF assms(1) lookup_first [OF assms(3)] assms(4), of sz] by simp
qed

lemma with_heap_Some [simp]: "kheap s = Some heap \<Longrightarrow> with_heap f s = f heap"
  by (simp add: with_heap_def)

section \<open>Shrinking\<close>

lemma contract_size_bit_12: "bit n 12 \<Longrightarrow> contract_size n = HEAP_MIN_SIZE"
proof -
  assume "bit n 12"
  then have "n AND push_bit 12 1 = push_bit 12 1"
    by (intro bit_word_eqI) (auto simp: bit_simps simp del: push_bit_of_1)
  then have "n AND 0x1000 = 0x1000" by simp
  then show ?thesis by (simp add: contract_size_def HEAP_MIN_SIZE_def)
qed

section \<open>Unifying to the right\<close>

text \<open>
  The hole on the right is taken in and leaves the index, but the footer at its end is not
  written: it still names the old header, so the chunk is not laid out well any more.
\<close>

lemma free_right_hole:
  assumes heap: "kheap s = Some heap"
    and ok: "heap_ok heap (ram s) (us @ (p, n, False) # (r, j, True) # (t, l, False) # vs)"
    and alone: "\<not> (\<exists>us' q k. us = us' @ [(q, k, True)] \<and> ftr_magic (ram s) (p - 8) = HEAP_MAGIC)"
  shows "\<exists>s' heap'. free (p + 12) s = Inr s' \<and> kheap s' = Some heap'
    \<and> hdr_size (ram s') p = n + j \<and> hdr_is_hole (ram s') p = 1
    \<and> set (oa_list (index heap') (ram s')) = insert p (set (oa_list (index heap) (ram s)) - {r})
    \<and> p + (n + j) = t \<and> ftr_magic (ram s') (t - 8) = ftr_magic (ram s) (t - 8)
    \<and> ftr_header (ram s') (t - 8) = ftr_header (ram s) (t - 8)"
proof -
  let ?vs = "(r, j, True) # (t, l, False) # vs" and ?m = "ram s"
  let ?a = "unat (start_address heap)" and ?idx = "index heap"
  let ?mh = "set_hdr_is_hole p 1 ?m"
  note reg = heap_region [OF ok]
  note left = unify_left_alone(1) [OF ok alone] and f0 = unify_left_alone(2,3) [OF ok alone]
  have tiles: "tiles ?a (unat (end_address heap)) (us @ (p, n, False) # ?vs)"
    and chunks: "chunk_ok ?m (p, n, False)" "chunk_ok ?m (r, j, True)"
    and lt: "less_than ?idx = Some header_t_less_than"
    and dist: "distinct (oa_list ?idx ?m)"
    and holes: "set (oa_list ?idx ?m) = hole_starts (us @ (p, n, False) # ?vs)"
    using ok by (auto simp: heap_ok_def index_ok_def)
  have u: "unat r = unat p + unat n" "unat t = unat r + unat j" "20 \<le> unat j" "20 \<le> unat l"
    "unat t + unat l \<le> unat (end_address heap)"
    using tiles tiles_member(2) [OF tiles, of t l False] unfolding tiles_append by auto
  have w: "r = p + n" "t = r + j"
    using u unat_u32_less [of r] unat_u32_less [of t] by (simp_all add: word_unat_eq_iff unat_word_ariths)
  have p12: "unat p + 12 \<le> 2 ^ 32" using reg by simp
  note pa = header_addr [OF p12]
  have r12: "unat r + 12 \<le> 2 ^ 32" using u reg by simp
  note ra = header_addr [OF r12]
  define m1 where "m1 = set_hdr_size p (n + j) ?mh"
  have o1: "same_outside (p + 8) 4 ?mh m1"
    unfolding m1_def set_hdr_size_def by (rule same_outside_write32) (use pa p12 in simp)
  have f1: "agree_on 0 (unat p) ?m m1" "agree_on (unat p + unat n) (2 ^ 32) ?m m1"
    by (rule agree_on_then [OF f0(1) same_outside_agree [OF o1, of "unat p" 0]]; use pa in simp)
      (rule agree_on_then [OF f0(2) same_outside_agree [OF o1, of "2 ^ 32" "unat p + unat n"]]; use pa reg in simp)
  have rk: "read32 ?mh r = read32 ?m r" "read32 ?mh (r + 8) = read32 ?m (r + 8)"
    "read32 m1 (r + 8) = read32 ?m (r + 8)"
    by (rule read32_agree [OF f0(2)] read32_agree [OF f1(2)]; use u ra r12 in simp)+
  have rh: "?mh (r + 4) = ?m (r + 4)"
    using f0(2) u ra unat_u32_less [of "r + 4"] by (simp add: agree_on_def)
  have rfacts: "hdr_magic ?mh r = HEAP_MAGIC" "hdr_is_hole ?mh r = 1" "hdr_size ?mh r = j" "hdr_size m1 r = j"
    using rk rh chunks(2) by (auto simp: hdr_magic_def hdr_size_def hdr_is_hole_def)
  have size: "hdr_size ?mh p = n" and hole1: "hdr_is_hole m1 p = 1"
  proof -
    have "chunk_ok ?mh (p, n, True)" by (rule become_hole [OF chunks(1) reg(4)]) (use reg in simp)
    then have "hdr_size ?mh p = n" "?mh (p + 4) = 1" by (auto simp: hdr_is_hole_def)
    moreover have "m1 (p + 4) = ?mh (p + 4)" using o1 pa by (auto simp: same_outside_def in_region_def)
    ultimately show "hdr_size ?mh p = n" "hdr_is_hole m1 p = 1" by (simp_all add: hdr_is_hole_def)
  qed
  have size1: "hdr_size m1 p = n + j" by (simp add: m1_def set_hdr_size_def hdr_size_def)
  have list1: "oa_list ?idx m1 = oa_list ?idx ?m"
    unfolding oa_list_def by (rule cells_agree [OF f1(1)]) (use reg in auto)
  have usable: "oa_usable ?idx" using lt reg(1-3,5) by (simp add: oa_usable_def oa_room_def)
  have rin: "r \<in> set (oa_list ?idx m1)" using holes list1 by simp
  obtain i where i: "find_in_index r ?idx m1 = Inr i" "i < unat (oa_size ?idx)"
      "\<And>oa m. remove_ordered_array (word_of_nat i) ?idx m1 = (oa, m) \<Longrightarrow> oa_list oa m = remove1 r (oa_list ?idx m1)"
    using oa.search_and_remove [OF usable rin] by (auto simp: find_in_index_def oa_list_def)
  obtain oa1 m2 where rem: "remove_ordered_array (word_of_nat i) ?idx m1 = (oa1, m2)" by fastforce
  have room: "oa_room ?idx" using usable by (simp add: oa_usable_def)
  note rc = remove_ordered_array_correct [OF room i(2) rem]
  have right: "unify_right p (p + n - 8) ?idx ?mh = Inr (t - 8, oa1, m2)"
    using rfacts size i(1,2) rem w by (simp add: unify_right_def Let_def m1_def [symmetric])
  have lt1: "less_than oa1 = Some header_t_less_than" and room1: "oa_room oa1"
    using lt rc(2,3) room i(2) by (simp_all add: oa_room_def)
  obtain oa3 m3 where ins: "insert_ordered_array p oa1 m2 = Inr (oa3, m3)"
      "oa_list oa3 m3 = insert_sorted (header_t_less_than m2) p (oa_list oa1 m2)"
      "same_outside (oa_array oa1) (4 * (unat (oa_size oa1) + 1)) m2 m3"
    using insert_ordered_array_correct [OF lt1 room1, of p m2] by auto
  have "agree_on ?a (2 ^ 32) m1 m2" "agree_on ?a (2 ^ 32) m2 m3"
    by (rule same_outside_agree [OF rc(4)] same_outside_agree [OF ins(3)]; use rc(2,3) i(2) reg in simp)+
  then have f13: "agree_on ?a (2 ^ 32) m1 m3" by (rule agree_on_trans)
  have keep: "read32 m3 b = read32 m1 b" if "?a \<le> unat b" "unat b + 4 \<le> 2 ^ 32" for b
    by (rule read32_agree [OF f13]) (use that in auto)
  have t8: "unat (t - 8) = unat t - 8" using u by (simp add: unat_sub_if')
  have t4: "unat (t - 8 + 4) = unat t - 4"
    by (subst unat_add_numeral) (use t8 u unat_u32_less [of t] in auto)
  have "hdr_size m3 p = n + j" using keep [of "p + 8"] size1 pa reg by (simp add: hdr_size_def)
  moreover have "hdr_is_hole m3 p = 1"
    using f13 hole1 pa reg unat_u32_less [of "p + 4"] by (simp add: hdr_is_hole_def agree_on_def)
  moreover have "ftr_magic m3 (t - 8) = ftr_magic ?m (t - 8)" "ftr_header m3 (t - 8) = ftr_header ?m (t - 8)"
  proof -
    have "read32 m1 (t - 8) = read32 ?m (t - 8)" "read32 m1 (t - 8 + 4) = read32 ?m (t - 8 + 4)"
      by (rule read32_agree [OF f1(2)]; use t8 t4 u unat_u32_less [of t] in simp)+
    then show "ftr_magic m3 (t - 8) = ftr_magic ?m (t - 8)" "ftr_header m3 (t - 8) = ftr_header ?m (t - 8)"
      using keep [of "t - 8"] keep [of "t - 8 + 4"] t8 t4 u reg unat_u32_less [of t]
      by (simp_all only: ftr_magic_def ftr_header_def)
  qed
  moreover have "set (oa_list oa3 m3) = insert p (set (oa_list ?idx ?m) - {r})"
    using ins(2) i(3) [OF rem] list1 dist by simp
  moreover have "free (p + 12) s = Inr (set_index oa3 m3 s)"
  proof -
    have "unat (p + 12) = unat p + 12" using reg by (intro unat_add_numeral) simp
    then have nz: "p + 12 \<noteq> 0" by (metis add_is_0 unat_0 zero_neq_numeral)
    have noend: "t \<noteq> end_address heap" using u by auto
    show ?thesis
      using heap chunks(1) nz left right noend ins(1)
      by (simp add: free_def Let_def)
  qed
  ultimately show ?thesis
    using heap w by (intro exI [of _ "set_index oa3 m3 s"] exI [of _ "heap\<lparr>index := oa3\<rparr>"]) (simp add: add.assoc)
qed

section \<open>Where the placement allocator continues\<close>

lemma placement_start_bounds:
  assumes "unat p + 4096 < 2 ^ 32"
  shows "unat p \<le> unat (placement_start al p)" and "unat (placement_start al p) \<le> unat p + 4096"
    and "al = 1 \<Longrightarrow> 4096 \<le> unat p \<Longrightarrow> 4096 dvd unat (placement_start al p)"
proof -
  have up: "unat ((p AND 0xFFFFF000) + 0x1000) = unat p div 4096 * 4096 + 4096"
    using unat_add_numeral [of "p AND 0xFFFFF000"] assms by (simp add: unat_page_base)
  have "unat p div 4096 * 4096 + unat p mod 4096 = unat p" by simp
  moreover have "unat p mod 4096 < 4096" by simp
  ultimately show "unat p \<le> unat (placement_start al p)" "unat (placement_start al p) \<le> unat p + 4096"
    unfolding placement_start_def using up by (simp_all only: split: if_split) linarith+
  show "al = 1 \<Longrightarrow> 4096 \<le> unat p \<Longrightarrow> 4096 dvd unat (placement_start al p)"
    using up by (simp add: placement_start_def page_base_zero)
qed

end
