(* ===== verification/Heap_Growth.thy ===== *)
theory Heap_Growth
  imports Heap_Layout Frames
begin

text \<open>
  Growing the heap: what \<open>expand\<close> does to memory when the page tables of the new range exist,
  how \<open>grow_heap\<close> gives the new space to the hole at the end, and that one round of growing is
  enough for the request that caused it.
\<close>

section \<open>Taking a frame writes into the bitmap and the page entry\<close>

lemma first_frame_in_bitmap:
  assumes "pool_ok s" and "0 < frame_limit s"
  shows "unat (first_frame s) < frame_limit s"
proof (cases "\<exists>f < frame_limit s. \<not> frame_used s f")
  case True
  then show ?thesis using first_frame_lowest(1) [OF assms(1)] by blast
next
  case False
  then show ?thesis using first_frame_none [OF assms(1)] assms(2) by simp
qed

lemma set_page_frame:
  assumes "unat p + 4 \<le> 2 ^ 32"
  shows "same_outside p 4 (ram s) (ram (set_page p f s))"
  using assms by (simp add: set_page_def same_outside_write32)

lemma set_frame_bitmap:
  assumes "pool_ok s" and "f < frame_limit s"
  shows "same_outside (frames s) (4 * unat (INDEX_FROM_BIT (nframes s))) (ram s)
    (ram (set_frame (word_of_nat f * 0x1000) s))"
proof -
  let ?i = "f div 32"
  have i: "?i < unat (INDEX_FROM_BIT (nframes s))" using assms(2) by (auto simp: frame_limit_def)
  have f: "f < 2 ^ 20" using assms by (auto simp: frame_limit_def pool_ok_def bitmap_room_def)
  note a = frame_word_addr [OF assms(1) i]
  have "unat (frames s + 4 * word_of_nat ?i) + 4 \<le> 2 ^ 32"
    using a i assms(1) by (simp add: pool_ok_def bitmap_room_def)
  from same_outside_write32 [OF this]
  have w: "same_outside (frames s) (4 * unat (INDEX_FROM_BIT (nframes s))) (ram s)
      (write32 (ram s) (frames s + 4 * word_of_nat ?i) v)" for v
    by (rule same_outside_mono) (use a i in auto)
  show ?thesis
    using w f by (simp add: set_frame_def set_frame_word_def Let_def frame_number_of_address index_offset)
qed

lemma alloc_frame_agree:
  assumes "pool_ok s" and "0 < frame_limit s" and "unat p + 4 \<le> 2 ^ 32"
    and "hi \<le> unat p \<or> unat p + 4 \<le> lo"
    and "hi \<le> unat (frames s) \<or> unat (frames s) + 4 * unat (INDEX_FROM_BIT (nframes s)) \<le> lo"
  shows "agree_on lo hi (ram s) (ram (alloc_frame p k w s))"
proof (cases "pg_frame (read32 (ram s) p) = 0")
  case True
  let ?s0 = "set_frame (word_of_nat (unat (first_frame s)) * 0x1000) s"
  have b: "agree_on lo hi (ram s) (ram ?s0)"
    by (rule same_outside_agree [OF set_frame_bitmap [OF assms(1) first_frame_in_bitmap [OF assms(1,2)]] assms(5)])
  have e: "agree_on lo hi (ram t) (ram (set_page p f t))" for f and t :: "'a kernel_scheme"
    by (rule same_outside_agree [OF set_page_frame [OF assms(3)] assms(4)])
  show ?thesis
    unfolding alloc_frame_steps [OF True]
    by (rule agree_on_trans [OF b]) (blast intro: e agree_on_trans)
qed (simp add: alloc_frame_taken)


section \<open>Expanding\<close>

text \<open>
  The page tables for the range up to \<open>e\<close> exist, they and the bitmap lie below the heap's index,
  and apart from the kernel's directory.
\<close>

definition growth_ready :: "heap_t \<Rightarrow> u32 \<Rightarrow> 'a kernel_scheme \<Rightarrow> bool" where
  "growth_ready heap e s \<longleftrightarrow>
     (let lo = unat (oa_array (index heap)); kd = unat (kernel_directory s);
          bits = 4 * unat (INDEX_FROM_BIT (nframes s))
      in pool_ok s \<and> 0 < frame_limit s \<and> kd + 4096 \<le> 2 ^ 32 \<and> unat (frames s) + bits \<le> lo
       \<and> (kd + 4096 \<le> unat (frames s) \<or> unat (frames s) + bits \<le> kd)
       \<and> (\<forall>a. end_address heap \<le> a \<and> a < e \<longrightarrow>
            (let t = dir_table (ram s) (kernel_directory s) (a div 0x1000 div 1024)
             in t \<noteq> 0 \<and> unat t + 4096 \<le> lo \<and> (kd + 4096 \<le> unat t \<or> unat t + 4096 \<le> kd))))"

text \<open>What the steps of the expansion have in common with the state before.\<close>

definition same_heap_memory :: "u32 \<Rightarrow> 'a kernel_scheme \<Rightarrow> 'a kernel_scheme \<Rightarrow> bool" where
  "same_heap_memory lo s t \<longleftrightarrow> kheap t = kheap s \<and> kernel_directory t = kernel_directory s
     \<and> frames t = frames s \<and> nframes t = nframes s \<and> agree_on (unat lo) (2 ^ 32) (ram s) (ram t)
     \<and> agree_on (unat (kernel_directory s)) (unat (kernel_directory s) + 4096) (ram s) (ram t)"

lemma same_heap_memory_refl [simp]: "same_heap_memory lo s s"
  by (simp add: same_heap_memory_def)

lemma alloc_frame_kernel [simp]:
  "kheap (alloc_frame p k w s) = kheap s" "kernel_directory (alloc_frame p k w s) = kernel_directory s"
  by (simp_all add: alloc_frame_def set_page_def set_frame_def set_frame_word_def upd_ram_def Let_def)

lemma directory_entry_same:
  assumes "same_heap_memory lo s t" and "unat (kernel_directory s) + 4096 \<le> 2 ^ 32" and "unat i < 1024"
  shows "dir_table (ram t) (kernel_directory t) i = dir_table (ram s) (kernel_directory s) i"
proof -
  have a: "unat (kernel_directory s + 4 * i) = unat (kernel_directory s) + 4 * unat i"
    using unat_cell_addr [of "kernel_directory s" "unat i"] assms(2,3) by simp
  have "read32 (ram t) (kernel_directory s + 4 * i) = read32 (ram s) (kernel_directory s + 4 * i)"
    by (rule read32_agree [of "unat (kernel_directory s)" "unat (kernel_directory s) + 4096"])
      (use assms a in \<open>auto simp: same_heap_memory_def\<close>)
  then show ?thesis using assms(1) by (simp add: dir_table_def same_heap_memory_def)
qed

lemma expand_page_step:
  assumes ready: "growth_ready heap e s" and heap: "kheap s = Some heap"
    and same: "same_heap_memory (oa_array (index heap)) s t"
    and range: "end_address heap \<le> start_address heap + word_of_nat i" "start_address heap + word_of_nat i < e"
  shows "\<exists>t'. expand_page al i t = Inr t' \<and> same_heap_memory (oa_array (index heap)) s t'"
proof -
  let ?a = "start_address heap + word_of_nat i" and ?lo = "unat (oa_array (index heap))"
  let ?kd = "unat (kernel_directory s)"
  let ?x = "?a div 0x1000 div 1024"
  define tbl where "tbl = dir_table (ram s) (kernel_directory s) ?x"
  have x: "unat ?x < 1024"
  proof -
    have "unat ?x = unat ?a div 4096 div 1024" by (simp add: unat_div_distrib)
    then show ?thesis using unat_u32_less [of ?a] by (simp add: less_mult_imp_div_less)
  qed
  have r: "pool_ok s" "0 < frame_limit s" "?kd + 4096 \<le> 2 ^ 32"
      "unat (frames s) + 4 * unat (INDEX_FROM_BIT (nframes s)) \<le> ?lo"
      "?kd + 4096 \<le> unat (frames s) \<or> unat (frames s) + 4 * unat (INDEX_FROM_BIT (nframes s)) \<le> ?kd"
      "tbl \<noteq> 0" "unat tbl + 4096 \<le> ?lo" "?kd + 4096 \<le> unat tbl \<or> unat tbl + 4096 \<le> ?kd"
    using ready range by (simp_all add: growth_ready_def Let_def tbl_def)
  have f: "kheap t = Some heap" "frames t = frames s" "nframes t = nframes s" "kernel_directory t = kernel_directory s"
    using same heap by (simp_all add: same_heap_memory_def)
  have t: "dir_table (ram t) (kernel_directory t) ?x = tbl"
    using directory_entry_same [OF same r(3) x] by (simp add: tbl_def)
  define j where "j = ?a div 0x1000 mod 1024"
  have j: "unat j < 1024" by (simp add: j_def unat_mod_distrib)
  have pa: "unat (tbl + 4 * j) = unat tbl + 4 * unat j"
    using unat_cell_addr [of tbl "unat j"] j r(7) unat_u32_less [of "oa_array (index heap)"] by simp
  have pool: "pool_ok t" "0 < frame_limit t"
    using r(1,2) f by (simp_all add: pool_ok_def bitmap_room_def frame_limit_def)
  let ?t' = "alloc_frame (tbl + 4 * j) (if supervisor heap \<noteq> 0 then 1 else 0) (if readonly heap \<noteq> 0 then 0 else 1) t"
  have p4: "unat (tbl + 4 * j) + 4 \<le> 2 ^ 32" using pa j r(7) unat_u32_less [of "oa_array (index heap)"] by simp
  have "expand_page al i t = Inr ?t'"
    using f t r(6) by (simp add: expand_page_def get_page_def Let_def j_def)
  moreover have "agree_on ?lo (2 ^ 32) (ram t) (ram ?t')"
    by (rule alloc_frame_agree [OF pool p4]) (use pa j r f in auto)
  moreover have "agree_on ?kd (?kd + 4096) (ram t) (ram ?t')"
    by (rule alloc_frame_agree [OF pool p4]) (use pa j r f in auto)
  ultimately show ?thesis
    using same f by (auto simp: same_heap_memory_def intro: agree_on_trans)
qed

lemma expand_pages:
  assumes "growth_ready heap e s" and "kheap s = Some heap"
    and "\<forall>i \<in> set is. end_address heap \<le> start_address heap + word_of_nat i \<and> start_address heap + word_of_nat i < e"
    and "same_heap_memory (oa_array (index heap)) s t"
  shows "\<exists>t'. rfold (expand_page al) is t = Inr t' \<and> same_heap_memory (oa_array (index heap)) s t'"
  using assms(3,4)
proof (induction "is" arbitrary: t)
  case (Cons i "is")
  obtain t1 where t1: "expand_page al i t = Inr t1" "same_heap_memory (oa_array (index heap)) s t1"
    using expand_page_step [OF assms(1,2) Cons.prems(2), of i al] Cons.prems(1) by auto
  then show ?case using Cons.IH [OF _ t1(2)] Cons.prems(1) by simp
qed simp

lemma unat_plus:
  fixes a b :: u32
  assumes "unat a + unat b < 2 ^ 32"
  shows "unat (a + b) = unat a + unat b"
  using unat_add_small [of a "unat b"] assms by simp

text \<open>The size the heap has after growing for a request.\<close>

definition grown_size :: "heap_t \<Rightarrow> u32 \<Rightarrow> u32" where
  "grown_size heap new_size = round_page_up (heap_length heap + new_size)"

lemma round_page_up_bounds:
  assumes "4096 \<le> unat n" and "unat n + 4096 < 2 ^ 32"
  shows "unat n \<le> unat (round_page_up n)" and "unat (round_page_up n) \<le> unat n + 4096"
proof -
  have "unat n div 4096 * 4096 \<le> unat n" "unat n < 4096 + unat n div 4096 * 4096"
    using div_times_less_eq_dividend [of "unat n" 4096] dividend_less_div_times [of 4096 "unat n"] by simp_all
  with round_page_up_unat [of n] assms show "unat n \<le> unat (round_page_up n)" "unat (round_page_up n) \<le> unat n + 4096"
    by linarith+
qed

text \<open>A heap of at least one page that can grow by a request of \<open>new_size\<close> and by the rounding.\<close>

definition can_grow :: "heap_t \<Rightarrow> u32 \<Rightarrow> bool" where
  "can_grow heap new_size \<longleftrightarrow> start_address heap \<le> end_address heap \<and> 4096 \<le> unat (heap_length heap) \<and> 0 < new_size
     \<and> unat (end_address heap) + unat new_size + 4096 \<le> unat (max_address heap)
     \<and> unat (max_address heap) + 12 \<le> 2 ^ 32"

lemma grown_size_unat:
  assumes "can_grow heap new_size"
  shows "unat (heap_length heap) = unat (end_address heap) - unat (start_address heap)"
    and "unat (heap_length heap + new_size) = unat (heap_length heap) + unat new_size"
    and "unat (heap_length heap) + unat new_size \<le> unat (grown_size heap new_size)"
    and "unat (grown_size heap new_size) \<le> unat (heap_length heap) + unat new_size + 4096"
    and "unat (start_address heap + grown_size heap new_size) = unat (start_address heap) + unat (grown_size heap new_size)"
proof -
  show len: "unat (heap_length heap) = unat (end_address heap) - unat (start_address heap)"
    using assms by (simp add: can_grow_def heap_length_def unat_sub word_le_nat_alt)
  have le: "unat (start_address heap) \<le> unat (end_address heap)"
    using assms by (simp add: can_grow_def word_le_nat_alt)
  have max: "unat (end_address heap) + unat new_size + 4096 + 12 \<le> 2 ^ 32"
    using assms by (simp add: can_grow_def)
  show sum: "unat (heap_length heap + new_size) = unat (heap_length heap) + unat new_size"
    by (rule unat_plus) (use len le max in linarith)
  have b: "4096 \<le> unat (heap_length heap + new_size)" "unat (heap_length heap + new_size) + 4096 < 2 ^ 32"
    using sum len le max assms by (auto simp: can_grow_def)
  from round_page_up_bounds [OF this] sum
  show g: "unat (heap_length heap) + unat new_size \<le> unat (grown_size heap new_size)"
    "unat (grown_size heap new_size) \<le> unat (heap_length heap) + unat new_size + 4096"
    by (simp_all add: grown_size_def)
  show "unat (start_address heap + grown_size heap new_size) = unat (start_address heap) + unat (grown_size heap new_size)"
    by (rule unat_plus) (use g len le max in linarith)
qed

abbreviation grown_end :: "heap_t \<Rightarrow> u32 \<Rightarrow> u32" where
  "grown_end heap new_size \<equiv> start_address heap + grown_size heap new_size"

lemma expand_offsets_in_range:
  assumes "can_grow heap new_size" and "i \<in> set (expand_offsets (heap_length heap) (grown_size heap new_size))"
  shows "end_address heap \<le> start_address heap + word_of_nat i"
    and "start_address heap + word_of_nat i < grown_end heap new_size"
proof -
  note g = grown_size_unat [OF assms(1)]
  let ?old = "unat (heap_length heap)" and ?new = "unat (grown_size heap new_size)"
  from assms(2) obtain k where k: "i = ?old + 4096 * k" "k < (?new - ?old + 4095) div 4096"
    by (auto simp: expand_offsets_def)
  have "4096 * ((?new - ?old + 4095) div 4096) \<le> ?new - ?old + 4095" by simp
  moreover have "4096 * k + 4096 \<le> 4096 * ((?new - ?old + 4095) div 4096)" using k(2) by linarith
  ultimately have i: "i < ?new" "?old \<le> i" using k(1) g(3) by linarith+
  have le: "unat (start_address heap) \<le> unat (end_address heap)"
    using assms(1) by (simp add: can_grow_def word_le_nat_alt)
  have "unat (grown_end heap new_size) < 2 ^ 32" using unat_u32_less [of "grown_end heap new_size"] by simp
  then have "unat (start_address heap + word_of_nat i) = unat (start_address heap) + i"
    by (intro unat_add_small) (use i g(5) in linarith)
  then show "end_address heap \<le> start_address heap + word_of_nat i"
    "start_address heap + word_of_nat i < grown_end heap new_size"
    using i g(1,5) le by (simp_all add: word_le_nat_alt word_less_nat_alt)
qed

lemma expand_grows:
  assumes grow: "can_grow heap new_size" and heap: "kheap s = Some heap"
    and ready: "growth_ready heap (grown_end heap new_size) s"
  shows "\<exists>s1. expand al (heap_length heap + new_size) s = Inr s1
    \<and> kheap s1 = Some (heap\<lparr>end_address := grown_end heap new_size\<rparr>)
    \<and> agree_on (unat (oa_array (index heap))) (2 ^ 32) (ram s) (ram s1)"
proof -
  note g = grown_size_unat [OF grow]
  obtain t where t: "rfold (expand_page al) (expand_offsets (heap_length heap) (grown_size heap new_size)) s = Inr t"
      "same_heap_memory (oa_array (index heap)) s t"
    using expand_pages [OF ready heap _ same_heap_memory_refl, of _ al] expand_offsets_in_range [OF grow] by blast
  have a1: "heap_length heap < heap_length heap + new_size"
    using g(2) grow by (simp add: word_less_nat_alt can_grow_def)
  have a2: "grown_end heap new_size \<le> max_address heap"
  proof -
    have "unat (start_address heap) \<le> unat (end_address heap)"
      using grow by (simp add: can_grow_def word_le_nat_alt)
    moreover have "unat (end_address heap) + unat new_size + 4096 \<le> unat (max_address heap)"
      using grow by (simp add: can_grow_def)
    ultimately have "unat (grown_end heap new_size) \<le> unat (max_address heap)" using g(1,4,5) by linarith
    then show ?thesis by (simp add: word_le_nat_alt)
  qed
  have "expand al (heap_length heap + new_size) s
      = Inr (upd_heap (\<lambda>h. h\<lparr>end_address := start_address h + grown_size heap new_size\<rparr>) t)"
    using heap t(1) a1 a2 by (simp add: expand_def Let_def grown_size_def kassert_def)
  then show ?thesis using t(2) heap by (auto simp: same_heap_memory_def upd_heap_def)
qed

section \<open>The hole at the end\<close>

lemma endmost_rest:
  assumes "\<forall>i \<in> set is. i < unat (oa_size oa) \<and> oa_list oa m ! i \<le> p"
  shows "rfold (endmost_step oa m) is (j, p) = Inr (j, p)"
  using assms
proof (induction "is")
  case (Cons i "is")
  then show ?case by (simp add: endmost_step_def lookup_ordered_array_in not_less [symmetric])
qed simp

lemma endmost_header_first:
  assumes "oa_list oa m = p # ps" and "\<forall>q \<in> set ps. q \<le> p" and "0 < p"
  shows "endmost_header oa m = Inr (0, p)"
proof -
  have N: "unat (oa_size oa) = Suc (length ps)"
    using assms(1) by (metis length_Cons length_cells oa_list_def)
  have "\<forall>i \<in> set [1..<unat (oa_size oa)]. i < unat (oa_size oa) \<and> oa_list oa m ! i \<le> p"
    using assms(1,2) N by (auto simp: nth_Cons split: nat.splits)
  from endmost_rest [OF this, of 0] lookup_first [OF assms(1)] assms(3) show ?thesis
    unfolding endmost_header_def N by (simp add: upt_conv_Cons endmost_step_def del: upt_Suc)
qed

lemma endmost_header_none: "oa_list oa m = [] \<Longrightarrow> endmost_header oa m = Inr (- 1, 0)"
proof -
  assume "oa_list oa m = []"
  then have "unat (oa_size oa) = 0" by (metis length_cells list.size(3) oa_list_def)
  then show ?thesis by (simp add: endmost_header_def)
qed

lemma footer_writes_commute:
  "set_ftr_magic f HEAP_MAGIC (set_ftr_header f h m) = make_footer f h m"
  unfolding make_footer_def set_ftr_magic_def set_ftr_header_def write32_def
  by (rule ext) (simp add: add.assoc)

text \<open>What growing writes when the last chunk is a hole: its size and a new footer.\<close>

definition stretch :: "u32 \<Rightarrow> u32 \<Rightarrow> mem \<Rightarrow> mem" where
  "stretch p k m = make_footer (p + k - 8) p (set_hdr_size p k m)"

lemma stretch_ok:
  assumes "chunk_ok m (p, n, True)" and "20 \<le> unat k" and "unat p + unat k \<le> 2 ^ 32"
  shows "chunk_ok (stretch p k m) (p, k, True)" and "same_outside p (unat k) m (stretch p k m)"
proof -
  have p: "unat p + 12 \<le> 2 ^ 32" using assms(2,3) by simp
  note a = header_addr [OF p] and f = footer_addr [OF assms(2,3)]
  have f8: "unat (p + k - 8) + 8 \<le> 2 ^ 32" using f assms by simp
  let ?m1 = "set_hdr_size p k m"
  have s1: "same_outside (p + 8) 4 m ?m1"
    unfolding set_hdr_size_def by (rule same_outside_write32) (use a p in simp)
  have ag1: "agree_on 0 (unat p + 8) m ?m1" by (rule same_outside_agree [OF s1]) (use a in simp)
  have s2: "same_outside (p + k - 8) 8 ?m1 (stretch p k m)"
    unfolding stretch_def by (rule make_footer_frame [OF f8])
  have ag2: "agree_on 0 (unat p + 12) ?m1 (stretch p k m)"
    by (rule same_outside_agree [OF s2]) (use f assms(2) in simp)
  show "same_outside p (unat k) m (stretch p k m)"
    by (rule same_outside_trans [OF same_outside_mono [OF s1] same_outside_mono [OF s2]])
      (use a f assms(2,3) in auto)
  have "read32 (stretch p k m) p = read32 m p"
    using read32_agree [OF ag2, of p] read32_agree [OF ag1, of p] p by simp
  moreover have "stretch p k m (p + 4) = m (p + 4)"
    using ag1 ag2 a by (auto simp: agree_on_def)
  moreover have "read32 (stretch p k m) (p + 8) = k"
    using read32_agree [OF ag2, of "p + 8"] a p by (simp add: set_hdr_size_def)
  ultimately show "chunk_ok (stretch p k m) (p, k, True)"
    using assms(1) make_footer_fields [OF f8, of p ?m1]
    by (simp add: hdr_magic_def hdr_is_hole_def hdr_size_def stretch_def)
qed

lemma tiles_last: "tiles a e (us @ [(p, n, h)]) \<longleftrightarrow> tiles a (unat p) us \<and> 20 \<le> unat n \<and> unat p + unat n = e"
  by (auto simp: tiles_append)

lemma last_is_endmost:
  assumes "tiles a e (us @ [(p, n, h)])" and "hole_starts (us @ [(p, n, True)]) = set (p # ps)"
  shows "\<forall>q \<in> set ps. q \<le> p"
proof
  fix q assume "q \<in> set ps"
  then have "q = p \<or> q \<in> hole_starts us" using assms(2) by auto
  then show "q \<le> p"
  proof
    assume "q \<in> hole_starts us"
    then obtain k where k: "(q, k, True) \<in> set us" by (auto simp: hole_starts_def)
    have "tiles a (unat p) us" using assms(1) by (simp add: tiles_last)
    from tiles_member(2) [OF this k] show "q \<le> p" by (simp add: word_le_nat_alt)
  qed simp
qed

text \<open>After the expansion the state differs from the one before only below the index and in its end.\<close>

lemma grow_last_hole:
  assumes heap: "kheap s = Some heap" and ok: "heap_ok heap (ram s) (us @ [(p, n, True)])"
    and first: "oa_list (index heap) (ram s) = p # ps" and grow: "can_grow heap new_size"
    and ready: "growth_ready heap (grown_end heap new_size) s"
    and beyond: "hdr_magic (ram s) (grown_end heap new_size) \<noteq> HEAP_MAGIC"
  defines "heap' \<equiv> heap\<lparr>end_address := grown_end heap new_size\<rparr>"
    and "k \<equiv> n + (grown_size heap new_size - heap_length heap)"
  shows "\<exists>s'. grow_heap al new_size s = Inr s' \<and> kheap s' = Some heap'
    \<and> heap_ok heap' (ram s') (us @ [(p, k, True)]) \<and> oa_list (index heap') (ram s') = p # ps
    \<and> unat n + unat new_size \<le> unat k
    \<and> agree_on (unat (oa_array (index heap))) (unat p) (ram s) (ram s')"
proof -
  let ?e = "grown_end heap new_size" and ?lo = "unat (oa_array (index heap))"
  let ?a = "unat (start_address heap)"
  note g = grown_size_unat [OF grow] and reg = heap_region [OF ok]
  have tiles: "tiles ?a (unat (end_address heap)) (us @ [(p, n, True)])"
    and chunks: "\<forall>c \<in> set (us @ [(p, n, True)]). chunk_ok (ram s) c"
    and guard: "guarded heap (ram s)" and idx: "index_ok heap"
    and dist: "distinct (p # ps)" and holes: "set (p # ps) = hole_starts (us @ [(p, n, True)])"
    using ok first by (auto simp: heap_ok_def)
  have pn: "tiles ?a (unat p) us" "unat p + unat n = unat (end_address heap)"
    using tiles by (simp_all add: tiles_last)
  obtain s1 where s1: "expand al (heap_length heap + new_size) s = Inr s1" "kheap s1 = Some heap'"
      "agree_on ?lo (2 ^ 32) (ram s) (ram s1)"
    using expand_grows [OF grow heap ready, of al] by (auto simp: heap'_def)
  have d: "unat (grown_size heap new_size - heap_length heap) = unat (grown_size heap new_size) - unat (heap_length heap)"
    using g(3) by (intro unat_sub) (simp add: word_le_nat_alt)
  have e: "unat ?e + 12 \<le> 2 ^ 32" "unat (end_address heap) + unat new_size \<le> unat ?e"
  proof -
    have "unat (start_address heap) \<le> unat (end_address heap)" "unat (end_address heap) + unat new_size + 4096 + 12 \<le> 2 ^ 32"
      using grow by (simp_all add: can_grow_def word_le_nat_alt)
    then show "unat ?e + 12 \<le> 2 ^ 32" "unat (end_address heap) + unat new_size \<le> unat ?e"
      using g(1,3,4,5) by linarith+
  qed
  have k: "unat k = unat n + (unat (grown_size heap new_size) - unat (heap_length heap))"
    unfolding k_def d [symmetric]
    by (rule unat_plus) (use d g(1,3,5) pn(2) reg(1) e(1) in linarith)
  have pk: "unat p + unat k = unat ?e" using k pn(2) g(1,3,5) reg(1,2) by linarith
  have k20: "20 \<le> unat k" using k reg(4) by simp
  have room: "unat p + unat k \<le> 2 ^ 32" using pk e(1) by linarith
  have arr: "?lo + 4 * (unat (oa_size (index heap)) + 1) + 8 \<le> ?a" using reg(5) .
  have p0: "0 < p" using arr reg(1) by (simp add: word_less_nat_alt)
  have list1: "oa_list (index heap) (ram s1) = p # ps"
  proof -
    have "cells (ram s1) (oa_array (index heap)) (unat (oa_size (index heap)))
        = cells (ram s) (oa_array (index heap)) (unat (oa_size (index heap)))"
      by (rule cells_agree [OF s1(3)]) (use arr unat_u32_less [of "start_address heap"] in auto)
    with first show ?thesis by (simp add: oa_list_def)
  qed
  have agp: "agree_on (unat p) (unat p + unat n) (ram s) (ram s1)"
    by (rule agree_on_mono [OF s1(3)]) (use arr reg in auto)
  have c1: "chunk_ok (ram s1) (p, n, True)"
    using chunk_ok_agree [OF agp, of p n True] chunks reg(2,3,4) by simp
  let ?m2 = "stretch p k (ram s1)"
  note st = stretch_ok [OF c1 k20 room]
  have size: "hdr_size (ram s1) p = n" using c1 by simp
  have len: "heap_length heap' = grown_size heap new_size" by (simp add: heap'_def heap_length_def)
  have "grow_heap al new_size s = Inr (s1\<lparr>ram := ?m2\<rparr>)"
  proof -
    have "endmost_header (index heap') (ram s1) = Inr (0, p)"
      using endmost_header_first [OF list1 last_is_endmost [OF tiles holes [symmetric]] p0] by (simp add: heap'_def)
    moreover have "lookup_ordered_array 0 (index heap') (ram s1) = Inr p"
      using lookup_first [OF list1] by (simp add: heap'_def)
    moreover have "hdr_size (set_hdr_size p k (ram s1)) p = k" by (simp add: set_hdr_size_def hdr_size_def)
    ultimately show ?thesis
      using heap s1(1,2) len size by (simp add: grow_heap_def Let_def k_def stretch_def footer_writes_commute)
  qed
  moreover have ag: "agree_on ?lo (unat p) (ram s) ?m2"
    by (rule agree_on_trans [OF agree_on_mono [OF s1(3)] same_outside_agree [OF st(2)]])
      (use unat_u32_less [of p] in auto)
  moreover have ag': "agree_on (unat ?e) (2 ^ 32) (ram s) ?m2"
    by (rule agree_on_trans [OF agree_on_mono [OF s1(3)] same_outside_agree [OF st(2)]])
      (use pk arr reg(1) in auto)
  moreover have list2: "oa_list (index heap') ?m2 = p # ps"
  proof -
    have "cells ?m2 (oa_array (index heap)) (unat (oa_size (index heap)))
        = cells (ram s) (oa_array (index heap)) (unat (oa_size (index heap)))"
      by (rule cells_agree [OF ag]) (use arr reg(1) unat_u32_less [of "start_address heap"] in auto)
    with first show ?thesis by (simp add: oa_list_def heap'_def)
  qed
  moreover have "heap_ok heap' ?m2 (us @ [(p, k, True)])"
  proof -
    have "tiles ?a (unat ?e) (us @ [(p, k, True)])" using pn(1) k20 pk by (simp add: tiles_last)
    moreover have "\<forall>c \<in> set us. chunk_ok ?m2 c"
      by (rule chunks_agree [OF pn(1) agree_on_mono [OF ag]])
        (use chunks arr unat_u32_less [of p] in auto)
    moreover have "guarded heap' ?m2"
    proof -
      have "unat (start_address heap - 8) = ?a - 8" using arr by (simp add: unat_sub_if')
      then have "read32 ?m2 (start_address heap - 8) = read32 (ram s) (start_address heap - 8)"
        by (intro read32_agree [OF ag]) (use arr reg(1) unat_u32_less [of "start_address heap"] in auto)
      moreover have "read32 ?m2 ?e = read32 (ram s) ?e"
        by (rule read32_agree [OF ag']) (use e(1) in auto)
      ultimately show ?thesis
        using guard beyond e(1) by (simp add: guarded_def heap'_def ftr_magic_def hdr_magic_def)
    qed
    moreover have "index_ok heap'" using idx by (simp add: index_ok_def heap'_def)
    ultimately show ?thesis
      using st(1) list2 dist holes by (auto simp: heap_ok_def heap'_def)
  qed
  moreover have "unat n + unat new_size \<le> unat k" using k g(3) by linarith
  ultimately show ?thesis using s1(2) by (intro exI [of _ "s1\<lparr>ram := ?m2\<rparr>"]) simp
qed

section \<open>No hole at all\<close>

lemma header_writes_commute:
  "set_hdr_is_hole h hole (set_hdr_size h n (set_hdr_magic h HEAP_MAGIC m)) = make_header h hole n m"
  unfolding make_header_def set_hdr_is_hole_def set_hdr_size_def set_hdr_magic_def write32_def
  by (rule ext) (simp add: add.assoc)

lemma hole_starts_none: "hole_starts us = {} \<longleftrightarrow> (\<forall>c \<in> set us. \<not> snd (snd c))"
  by (force simp: hole_starts_def)

lemma grow_no_hole:
  assumes heap: "kheap s = Some heap" and ok: "heap_ok heap (ram s) us"
    and empty: "oa_list (index heap) (ram s) = []" and grow: "can_grow heap new_size" and big: "20 \<le> unat new_size"
    and room: "unat (oa_array (index heap)) + 16 \<le> unat (start_address heap)"
    and ready: "growth_ready heap (grown_end heap new_size) s"
    and beyond: "hdr_magic (ram s) (grown_end heap new_size) \<noteq> HEAP_MAGIC"
  defines "k \<equiv> grown_size heap new_size - heap_length heap"
  shows "\<exists>s' heap'. grow_heap al new_size s = Inr s' \<and> kheap s' = Some heap'
    \<and> start_address heap' = start_address heap \<and> end_address heap' = grown_end heap new_size
    \<and> heap_ok heap' (ram s') (us @ [(end_address heap, k, True)])
    \<and> oa_list (index heap') (ram s') = [end_address heap] \<and> unat new_size \<le> unat k
    \<and> agree_on (unat (start_address heap)) (unat (end_address heap)) (ram s) (ram s')"
proof -
  let ?e = "grown_end heap new_size" and ?lo = "unat (oa_array (index heap))"
  let ?a = "unat (start_address heap)" and ?h = "end_address heap"
  let ?heap1 = "heap\<lparr>end_address := ?e\<rparr>"
  note g = grown_size_unat [OF grow]
  have tiles: "tiles ?a (unat ?h) us" and chunks: "\<forall>c \<in> set us. chunk_ok (ram s) c"
    and guard: "guarded heap (ram s)" and lt: "less_than (index heap) = Some header_t_less_than"
    and holes: "hole_starts us = {}"
    using ok empty by (auto simp: heap_ok_def index_ok_def)
  have N: "oa_size (index heap) = 0"
    using empty by (metis length_cells list.size(3) oa_list_def unat_eq_zero)
  obtain s1 where s1: "expand al (heap_length heap + new_size) s = Inr s1" "kheap s1 = Some ?heap1"
      "agree_on ?lo (2 ^ 32) (ram s) (ram s1)"
    using expand_grows [OF grow heap ready, of al] by auto
  have le: "?a \<le> unat ?h" and max: "unat ?h + unat new_size + 4096 + 12 \<le> 2 ^ 32"
    using grow by (simp_all add: can_grow_def word_le_nat_alt)
  have k: "unat k = unat (grown_size heap new_size) - unat (heap_length heap)"
    unfolding k_def using g(3) by (intro unat_sub) (simp add: word_le_nat_alt)
  have pk: "unat ?h + unat k = unat ?e" using k g(1,3,5) le by linarith
  have e: "unat ?e + 12 \<le> 2 ^ 32" using g(1,4,5) le max by linarith
  have k20: "20 \<le> unat k" "unat new_size \<le> unat k" using k g(3) big by linarith+
  have kroom: "unat ?h + unat k \<le> 2 ^ 32" using pk e by linarith
  let ?m4 = "write_chunk ?h k True (ram s1)"
  have frame: "same_outside ?h (unat k) (ram s1) ?m4" by (rule write_chunk_frame [OF k20(1) kroom])
  have roomoa: "oa_room (index heap)" using N room unat_u32_less [of "start_address heap"] by (simp add: oa_room_def)
  have list4: "oa_list (index heap) ?m4 = []" using N by (simp add: oa_list_def cells_def)
  obtain oa m5 where ins: "insert_ordered_array ?h (index heap) ?m4 = Inr (oa, m5)"
      "oa_list oa m5 = insert_sorted (header_t_less_than ?m4) ?h []"
      "oa = (index heap)\<lparr>oa_size := oa_size (index heap) + 1\<rparr>"
      "same_outside (oa_array (index heap)) (4 * (unat (oa_size (index heap)) + 1)) ?m4 m5"
    using insert_ordered_array_correct [OF lt roomoa, of ?h ?m4] list4 by auto
  let ?heap' = "?heap1\<lparr>index := oa\<rparr>"
  have len: "heap_length ?heap1 = grown_size heap new_size" by (simp add: heap_length_def)
  have "grow_heap al new_size s = Inr (set_index oa m5 s1)"
  proof -
    have "endmost_header (index ?heap1) (ram s1) = Inr (- 1, 0)"
      by (rule endmost_header_none) (use N in \<open>simp add: oa_list_def cells_def\<close>)
    moreover have "set_hdr_is_hole ?h 1 (set_hdr_size ?h k (set_hdr_magic ?h HEAP_MAGIC (ram s1))) = make_header ?h 1 k (ram s1)"
      by (rule header_writes_commute)
    moreover have "hdr_size (make_header ?h 1 k (ram s1)) ?h = k"
      by (rule make_header_fields(3)) (use k20(1) kroom in simp)
    ultimately show ?thesis
      using heap s1(1,2) len ins(1) by (simp add: grow_heap_def Let_def k_def write_chunk_def)
  qed
  moreover have ag5: "agree_on (?lo + 4) (2 ^ 32) ?m4 m5"
    by (rule same_outside_agree [OF ins(4)]) (use N in simp)
  moreover have ag: "agree_on (?lo + 4) (unat ?h) (ram s) m5"
    by (rule agree_on_trans [OF agree_on_trans [OF agree_on_mono [OF s1(3)] same_outside_agree [OF frame]] agree_on_mono [OF ag5]])
      (use unat_u32_less [of ?h] in auto)
  moreover have ag': "agree_on (unat ?e) (2 ^ 32) (ram s) m5"
    by (rule agree_on_trans [OF agree_on_trans [OF agree_on_mono [OF s1(3)] same_outside_agree [OF frame]] agree_on_mono [OF ag5]])
      (use pk room le in auto)
  moreover have "heap_ok ?heap' m5 (us @ [(?h, k, True)])"
  proof -
    have "tiles ?a (unat ?e) (us @ [(?h, k, True)])" using tiles k20 pk by (simp add: tiles_last)
    moreover have "\<forall>c \<in> set us. chunk_ok m5 c"
      by (rule chunks_agree [OF tiles agree_on_mono [OF ag]]) (use chunks room unat_u32_less [of ?h] in auto)
    moreover have "chunk_ok m5 (?h, k, True)"
      using chunk_ok_agree [OF ag5, of ?h k True] write_chunk_ok [OF k20(1) kroom, of True "ram s1"] room le k20(1) kroom
      by simp
    moreover have "guarded ?heap' m5"
    proof -
      have "unat (start_address heap - 8) = ?a - 8" using room by (simp add: unat_sub_if')
      then have "read32 m5 (start_address heap - 8) = read32 (ram s) (start_address heap - 8)"
        by (intro read32_agree [OF ag]) (use room le unat_u32_less [of "start_address heap"] in auto)
      moreover have "read32 m5 ?e = read32 (ram s) ?e" by (rule read32_agree [OF ag']) (use e in auto)
      ultimately show ?thesis using guard beyond e by (simp add: guarded_def ftr_magic_def hdr_magic_def)
    qed
    moreover have "index_ok ?heap'" using lt N room ins(3) by (simp add: index_ok_def)
    moreover have "oa_list oa m5 = [?h]" using ins(2) by (simp add: insert_sorted_def)
    ultimately show ?thesis using holes by (auto simp: heap_ok_def)
  qed
  moreover have "oa_list oa m5 = [?h]" using ins(2) by (simp add: insert_sorted_def)
  moreover have "agree_on ?a (unat ?h) (ram s) m5" by (rule agree_on_mono [OF ag]) (use room in simp_all)
  ultimately show ?thesis using s1(2) k20(2)
    by (intro exI [of _ "set_index oa m5 s1"] exI [of _ ?heap']) simp
qed

section \<open>One round is enough\<close>

text \<open>
  Where the space for a request comes from when no hole is large enough: the hole at the end of
  the heap, if it is the first of the index, or the old end of the heap, if there is no hole.
\<close>

definition grows_at :: "heap_t \<Rightarrow> mem \<Rightarrow> chunk list \<Rightarrow> u32 \<Rightarrow> chunk list \<Rightarrow> bool" where
  "grows_at heap m us p cs \<longleftrightarrow>
     (\<exists>n ps. cs = us @ [(p, n, True)] \<and> oa_list (index heap) m = p # ps)
   \<or> cs = us \<and> p = end_address heap \<and> oa_list (index heap) m = []
     \<and> unat (oa_array (index heap)) + 16 \<le> unat (start_address heap)"

lemma grow_heap_layout:
  assumes heap: "kheap s = Some heap" and ok: "heap_ok heap (ram s) cs"
    and at: "grows_at heap (ram s) us p cs" and grow: "can_grow heap new_size" and big: "20 \<le> unat new_size"
    and ready: "growth_ready heap (grown_end heap new_size) s"
    and beyond: "hdr_magic (ram s) (grown_end heap new_size) \<noteq> HEAP_MAGIC"
  shows "\<exists>s' heap' ps k. grow_heap al new_size s = Inr s' \<and> kheap s' = Some heap'
    \<and> start_address heap' = start_address heap \<and> end_address heap' = grown_end heap new_size
    \<and> heap_ok heap' (ram s') (us @ [(p, k, True)]) \<and> oa_list (index heap') (ram s') = p # ps
    \<and> unat new_size \<le> unat k \<and> agree_on (unat (start_address heap)) (unat p) (ram s) (ram s')"
  using at unfolding grows_at_def
proof (elim disjE exE conjE)
  fix n ps assume c: "cs = us @ [(p, n, True)]" "oa_list (index heap) (ram s) = p # ps"
  have lo: "unat (oa_array (index heap)) \<le> unat (start_address heap)"
    using ok by (simp add: heap_ok_def index_ok_def)
  obtain s' where s': "grow_heap al new_size s = Inr s'" "kheap s' = Some (heap\<lparr>end_address := grown_end heap new_size\<rparr>)"
      "heap_ok (heap\<lparr>end_address := grown_end heap new_size\<rparr>) (ram s')
         (us @ [(p, n + (grown_size heap new_size - heap_length heap), True)])"
      "oa_list (index heap) (ram s') = p # ps"
      "unat n + unat new_size \<le> unat (n + (grown_size heap new_size - heap_length heap))"
      "agree_on (unat (oa_array (index heap))) (unat p) (ram s) (ram s')"
    using grow_last_hole [OF heap ok [unfolded c(1)] c(2) grow ready beyond, of al] by auto
  have ag: "agree_on (unat (start_address heap)) (unat p) (ram s) (ram s')"
    by (rule agree_on_mono [OF s'(6) lo]) simp
  show ?thesis
    by (rule exI [of _ s'], rule exI [of _ "heap\<lparr>end_address := grown_end heap new_size\<rparr>"], rule exI [of _ ps],
        rule exI [of _ "n + (grown_size heap new_size - heap_length heap)"]) (use s' ag in simp)
next
  assume c: "cs = us" "p = end_address heap" "oa_list (index heap) (ram s) = []"
    and room: "unat (oa_array (index heap)) + 16 \<le> unat (start_address heap)"
  from grow_no_hole [OF heap ok [unfolded c(1)] c(3) grow big room ready beyond, of al] c(2)
  show ?thesis by blast
qed

lemma find_smallest_hole_none:
  assumes "heap_ok heap m cs" and "\<forall>(q, k, h) \<in> set cs. h \<longrightarrow> k < new_size"
  shows "find_smallest_hole new_size 0 heap m = Inr (- 1)"
proof -
  have "\<not> hole_fits m new_size 0 (oa_list (index heap) m ! i)" if "i < unat (oa_size (index heap))" for i
  proof -
    have "oa_list (index heap) m ! i \<in> set (oa_list (index heap) m)" using that
      by (intro nth_mem) (simp add: oa_list_def)
    then obtain n where "(oa_list (index heap) m ! i, n, True) \<in> set cs" "hdr_size m (oa_list (index heap) m ! i) = n"
      using hole_in_chunks [OF assms(1)] by blast
    with assms(2) show ?thesis by (fastforce simp: hole_fits_def)
  qed
  then have "\<not> (\<exists>i. 0 \<le> i \<and> i < unat (oa_size (index heap)) \<and> hole_fits m new_size 0 (oa_list (index heap) m ! i))"
    by blast
  then show ?thesis
    using find_hole_loop_spec [of "unat (oa_size (index heap))" "index heap" 0 m new_size 0]
    unfolding find_smallest_hole_def by (simp only: if_False le0)
qed

lemma alloc_grows:
  assumes heap: "kheap s = Some heap" and ok: "heap_ok heap (ram s) cs"
    and at: "grows_at heap (ram s) us p cs" and small: "\<forall>(q, k, h) \<in> set cs. h \<longrightarrow> k < sz + 20"
    and nowrap: "unat sz + 20 < 2 ^ 32" and grow: "can_grow heap (sz + 20)"
    and ready: "growth_ready heap (grown_end heap (sz + 20)) s"
    and beyond: "hdr_magic (ram s) (grown_end heap (sz + 20)) \<noteq> HEAP_MAGIC"
  shows "\<exists>s' heap' n. alloc (Suc (Suc fuel)) sz 0 s = Inr (p + 12, s') \<and> kheap s' = Some heap'
    \<and> heap_ok heap' (ram s') (us @ split_chunk p n sz) \<and> unat sz + 20 \<le> unat n
    \<and> end_address heap' = grown_end heap (sz + 20)
    \<and> (\<forall>(q, k, h) \<in> set us. agree_on (unat q) (unat q + unat k) (ram s) (ram s'))"
proof -
  have sz: "unat (sz + 20) = unat sz + 20" using nowrap by (intro unat_add_numeral) simp
  then have big: "20 \<le> unat (sz + 20)" by simp
  obtain s1 heap1 ps n where s1: "grow_heap (alloc (Suc fuel)) (sz + 20) s = Inr s1" "kheap s1 = Some heap1"
      "start_address heap1 = start_address heap" "end_address heap1 = grown_end heap (sz + 20)"
      "heap_ok heap1 (ram s1) (us @ (p, n, True) # [])" "oa_list (index heap1) (ram s1) = p # ps"
      "unat sz + 20 \<le> unat n" "agree_on (unat (start_address heap)) (unat p) (ram s) (ram s1)"
    using grow_heap_layout [OF heap ok at grow big ready beyond, of "alloc (Suc fuel)"] sz by auto
  obtain s' heap' where s': "alloc (Suc fuel) sz 0 s1 = Inr (p + 12, s')" "kheap s' = Some heap'"
      "heap_ok heap' (ram s') (us @ split_chunk p n sz @ [])" "end_address heap' = end_address heap1"
      "\<forall>(q, k, h) \<in> set (us @ []). agree_on (unat q) (unat q + unat k) (ram s1) (ram s')"
    using alloc_layout [OF s1(2,5,6,7), of fuel] by blast
  have "alloc (Suc (Suc fuel)) sz 0 s = alloc (Suc fuel) sz 0 s1"
    using heap s1(1) find_smallest_hole_none [OF ok small]
    unfolding alloc.simps(2) [of "Suc fuel"] by (simp add: alloc_body_def add.assoc del: alloc.simps(2))
  moreover have "\<forall>(q, k, h) \<in> set us. agree_on (unat q) (unat q + unat k) (ram s) (ram s')"
  proof clarify
    fix q k h assume c: "(q, k, h) \<in> set us"
    have "tiles (unat (start_address heap)) (unat p) us" using s1(3,5) by (simp add: heap_ok_def tiles_last)
    from tiles_member [OF this c] have "agree_on (unat q) (unat q + unat k) (ram s) (ram s1)"
      by (intro agree_on_mono [OF s1(8)]) auto
    then show "agree_on (unat q) (unat q + unat k) (ram s) (ram s')"
      using s'(5) c by (auto intro: agree_on_trans)
  qed
  ultimately show ?thesis using s' s1(4,7)
    by (intro exI [of _ s'] exI [of _ heap'] exI [of _ n]) simp
qed

end
