(* ===== verification/Heap_Aligned.thy ===== *)
theory Heap_Aligned
  imports Heap_Growth
begin

text \<open>
  Page aligned requests: the first hole is split into a hole in front, the block whose contents
  start at a page boundary, and the rest.
\<close>

section \<open>Replacing a chunk\<close>

lemma replace_chunk_layout:
  assumes ok: "heap_ok heap m (us @ (p, n, h) # vs)"
    and new: "tiles (unat p) (unat p + unat n) cs" "\<forall>c \<in> set cs. chunk_ok m' c"
    and below: "agree_on (unat (start_address heap) - 8) (unat p) m m'"
    and above: "agree_on (unat p + unat n) (2 ^ 32) m m'"
    and idx: "index_ok (heap\<lparr>index := oa\<rparr>)" "distinct (oa_list oa m')"
      "set (oa_list oa m') = hole_starts (us @ cs @ vs)"
  shows "heap_ok (heap\<lparr>index := oa\<rparr>) m' (us @ cs @ vs)"
    and "(q, k, h') \<in> set (us @ vs) \<Longrightarrow> agree_on (unat q) (unat q + unat k) m m'"
proof -
  note reg = heap_region [OF ok]
  have t: "tiles (unat (start_address heap)) (unat (end_address heap)) (us @ (p, n, h) # vs)"
    and chunks: "\<forall>c \<in> set (us @ (p, n, h) # vs). chunk_ok m c" and guard: "guarded heap m"
    using ok by (simp_all add: heap_ok_def)
  have e: "unat (end_address heap) \<le> 2 ^ 32" using reg(3) by simp
  have a: "agree_on (unat (start_address heap)) (unat p) m m'" using below by (rule agree_on_mono) auto
  have out: "\<forall>c \<in> set (us @ vs). chunk_ok m c" using chunks by auto
  have "\<forall>c \<in> set (us @ vs). chunk_ok m' c" by (rule chunks_outside(1) [OF t e out a above])
  moreover have "guarded heap m'"
    by (rule guarded_agree [OF guard]) (use below above reg in \<open>auto intro: agree_on_mono\<close>)
  ultimately show "heap_ok (heap\<lparr>index := oa\<rparr>) m' (us @ cs @ vs)"
    using tiles_split [OF t new(1)] new(2) idx by (auto simp: heap_ok_def guarded_def)
  show "agree_on (unat q) (unat q + unat k) m m'" if "(q, k, h') \<in> set (us @ vs)"
    by (rule chunks_outside(2) [OF t e out a above that])
qed

section \<open>Where the aligned block starts\<close>

text \<open>The size of the hole in front, and the block's position behind it.\<close>

definition front_size :: "u32 \<Rightarrow> u32" where
  "front_size p = 0x1000 - (p AND 0xFFF) - 12"

lemma front_size_unat:
  assumes "unat p mod 4096 \<le> 4064"
  shows "unat (front_size p) = 4084 - unat p mod 4096" and "20 \<le> unat (front_size p)"
proof -
  show "unat (front_size p) = 4084 - unat p mod 4096"
    using assms by (simp add: front_size_def unat_sub_if' unat_page_offset)
  with assms show "20 \<le> unat (front_size p)" by simp
qed

lemma front_aligned:
  assumes "unat p mod 4096 \<le> 4064" and "unat p + 4096 < 2 ^ 32"
  shows "unat (p + front_size p) = unat p + unat (front_size p)"
    and "unat (p + front_size p + 12) = unat p + unat (front_size p) + 12"
    and "unat (p + front_size p + 12) mod 4096 = 0"
proof -
  note f = front_size_unat [OF assms(1)]
  show a: "unat (p + front_size p) = unat p + unat (front_size p)"
    by (rule unat_plus) (use f assms in linarith)
  show b: "unat (p + front_size p + 12) = unat p + unat (front_size p) + 12"
    by (subst unat_add_numeral) (use a f assms in auto)
  define q where "q = unat p div 4096"
  define r where "r = unat p mod 4096"
  have "unat p = 4096 * q + r" "r \<le> 4064" using assms(1) by (simp_all add: q_def r_def)
  then have "unat (p + front_size p + 12) = 4096 * (q + 1)" 
    using b f(1) unfolding r_def [symmetric] by simp
  then show "unat (p + front_size p + 12) mod 4096 = 0" by simp
qed

lemma front_size_offset:
  assumes "unat p mod 4096 \<le> 4064" and "4096 \<le> unat p" and "unat p + 4096 < 2 ^ 32"
  shows "(if (p + 12) AND 0xFFFFF000 \<noteq> 0 then (0x1000 - (p + 12)) mod 0x1000 else 0) = front_size p"
proof -
  have p12: "unat (p + 12) = unat p + 12" using assms(3) by (intro unat_add_numeral) simp
  have nz: "(p + 12) AND 0xFFFFF000 \<noteq> 0" using page_base_zero [of "p + 12"] p12 assms(2) by simp
  define q where "q = unat p div 4096"
  define r where "r = unat p mod 4096"
  have p: "unat p = 4096 * q + r" "r \<le> 4064" using assms(1) by (simp_all add: q_def r_def)
  have f: "unat (front_size p) = 4084 - r" using front_size_unat(1) [OF assms(1)] by (simp add: r_def)
  have q: "1 \<le> q" "4096 * (q + 1) + r < 2 ^ 32" using p assms(2,3) by simp_all
  define g where "g = 4084 - r"
  have g: "g + r = 4084" "g < 4096" using p(2) by (simp_all add: g_def)
  have "unat (0x1000 - (p + 12)) = 2 ^ 32 + 4096 - (unat p + 12)"
    using p12 assms(2) by (simp add: unat_sub_if')
  also have "\<dots> = g + 4096 * (2 ^ 20 - q)" using p(1) q g(1) by (simp add: diff_mult_distrib2)
  finally have "unat ((0x1000 - (p + 12)) mod 0x1000) = (g + 4096 * (2 ^ 20 - q)) mod 4096"
    by (simp add: unat_mod_distrib)
  also have "\<dots> = g" using g(2) by simp
  finally show ?thesis using nz f by (simp add: word_unat_eq_iff g_def)
qed

section \<open>Taking the aligned block\<close>

lemma size_first_commute:
  "set_hdr_is_hole h hole (set_hdr_magic h HEAP_MAGIC (set_hdr_size h n m)) = make_header h hole n m"
  unfolding make_header_def set_hdr_is_hole_def set_hdr_size_def set_hdr_magic_def write32_def
  by (rule ext) (simp add: add.assoc)

lemma take_hole_aligned:
  assumes "kheap s = Some heap" and "lookup_ordered_array 0 (index heap) (ram s) = Inr p"
    and "hdr_size (ram s) p = n" and "p AND 0xFFFFF000 \<noteq> 0" and "unat p + 12 \<le> 2 ^ 32"
    and "hdr_size (write_chunk p (front_size p) True (ram s)) p = front_size p"
    and "\<not> n - (sz + 20) < 20" and "\<not> n - front_size p - (sz + 20) < 20"
  shows "take_hole sz (sz + 20) 1 s =
    (let q = p + front_size p; k = n - front_size p;
         m1 = carve q k sz (end_address heap) (write_chunk p (front_size p) True (ram s))
     in rbind (insert_ordered_array (q + sz + 20) (index heap) m1) (\<lambda>(oa, m).
          Inr (q + 12, set_index oa m s)))"
proof -
  have w: "make_footer (p + front_size p - 8) p
      (set_hdr_is_hole p 1 (set_hdr_magic p HEAP_MAGIC (set_hdr_size p (0x1000 - (p AND 0xFFF) - 12) (ram s))))
    = write_chunk p (front_size p) True (ram s)"
    unfolding size_first_commute by (simp add: write_chunk_def front_size_def)
  have q: "p + 0x1000 - (p AND 0xFFF) - 12 = p + front_size p" by (simp add: front_size_def algebra_simps)
  have pos: "(0 < n - front_size p - (sz + 20)) = True" using assms(8) by (auto simp: word_gt_0)
  have c: "((1 :: u8) \<noteq> 0) = True" "(p AND 0xFFFFF000 \<noteq> 0) = True" "(n - (sz + 20) < 20) = False"
    using assms(4,7) by simp_all
  show ?thesis
    unfolding take_hole_def with_heap_Some [OF assms(1)] assms(2) rbind.simps Let_def assms(3) c
      if_True if_False case_prod_conv simp_thms q w assms(6) pos
    using assms(8) by (simp add: carve_def Let_def add_ac diff_diff_add)
qed

text \<open>The chunks that take the place of the hole.\<close>

definition aligned_chunks :: "u32 \<Rightarrow> u32 \<Rightarrow> u32 \<Rightarrow> chunk list" where
  "aligned_chunks p n sz = (p, front_size p, True) # split_chunk (p + front_size p) (n - front_size p) sz"

lemma aligned_arith:
  assumes "unat p mod 4096 \<le> 4064" and "unat (front_size p) + unat sz + 40 \<le> unat n" and "unat p + unat n + 12 \<le> 2 ^ 32"
  shows "unat (p + front_size p) = unat p + unat (front_size p)"
    and "unat (n - front_size p) = unat n - unat (front_size p)" and "unat (sz + 20) = unat sz + 20"
    and "unat sz + 20 \<le> unat (n - front_size p)" and "\<not> n - front_size p - (sz + 20) < 20" and "\<not> n - (sz + 20) < 20"
proof -
  show "unat (p + front_size p) = unat p + unat (front_size p)" by (rule unat_plus) (use assms(2,3) in linarith)
  show k: "unat (n - front_size p) = unat n - unat (front_size p)"
    by (rule unat_sub) (use assms(2) in \<open>simp add: word_le_nat_alt\<close>)
  show s: "unat (sz + 20) = unat sz + 20" by (rule unat_add_numeral) (use assms(2,3) in simp)
  show "unat sz + 20 \<le> unat (n - front_size p)" using k assms(2) by simp
  have "unat (n - front_size p - (sz + 20)) = unat (n - front_size p) - unat (sz + 20)"
    by (rule unat_sub) (use k s assms(2) in \<open>simp add: word_le_nat_alt\<close>)
  then show "\<not> n - front_size p - (sz + 20) < 20" using k s assms(2) by (simp add: word_less_nat_alt)
  have "unat (n - (sz + 20)) = unat n - unat (sz + 20)"
    by (rule unat_sub) (use s assms(2) in \<open>simp add: word_le_nat_alt\<close>)
  then show "\<not> n - (sz + 20) < 20" using s assms(2) by (simp add: word_less_nat_alt)
qed

lemma aligned_chunks_ok:
  fixes p n sz e :: u32 and m :: mem
  assumes "unat p mod 4096 \<le> 4064" and "unat (front_size p) + unat sz + 40 \<le> unat n"
    and "unat p + unat n \<le> unat e" and "unat e + 12 \<le> 2 ^ 32"
  defines "m1 \<equiv> carve (p + front_size p) (n - front_size p) sz e (write_chunk p (front_size p) True m)"
  shows "tiles (unat p) (unat p + unat n) (aligned_chunks p n sz)"
    and "\<forall>c \<in> set (aligned_chunks p n sz). chunk_ok m1 c" and "same_outside p (unat n) m m1"
proof -
  let ?f = "front_size p" and ?q = "p + front_size p" and ?k = "n - front_size p"
  have lim: "unat p + unat n + 12 \<le> 2 ^ 32" using assms(3,4) by simp
  note a = aligned_arith [OF assms(1,2) lim] and f20 = front_size_unat(2) [OF assms(1)]
  have f: "unat p + unat ?f \<le> 2 ^ 32" using lim assms(2) by simp
  have "unat ?q + unat ?k \<le> unat e" using a(1,2) assms(2,3) by simp
  note e = this
  note c = carve_ok(1) [OF a(4) e] carve_ok(2,3) [OF a(4) e, of "write_chunk p ?f True m", folded m1_def]
  have qk: "unat ?q + unat ?k = unat p + unat n" using a(1,2) assms(2) by simp
  show "tiles (unat p) (unat p + unat n) (aligned_chunks p n sz)"
    using c(1) [unfolded qk] a(1) f20 by (simp add: aligned_chunks_def)
  have "agree_on (unat p) (unat p + unat ?f) (write_chunk p ?f True m) m1"
    by (rule same_outside_agree [OF c(3)]) (use a(1) in simp)
  from chunk_ok_agree [OF this, of p ?f True] have "chunk_ok m1 (p, ?f, True)"
    using write_chunk_ok [OF f20 f, of True m] f20 f by (simp del: chunk_ok.simps)
  with c(2) show "\<forall>c \<in> set (aligned_chunks p n sz). chunk_ok m1 c" by (simp add: aligned_chunks_def del: chunk_ok.simps)
  show "same_outside p (unat n) m m1"
    by (rule same_outside_trans [OF same_outside_mono [OF write_chunk_frame [OF f20 f]] same_outside_mono [OF c(3)]])
      (use a(1,2) assms(2) in auto)
qed

lemma insert_sorted_cong:
  assumes "\<forall>x \<in> set xs. lt x item = lt' x item"
  shows "insert_sorted lt item xs = insert_sorted lt' item xs"
proof -
  have "takeWhile (\<lambda>x. lt x item) xs = takeWhile (\<lambda>x. lt' x item) xs"
    "dropWhile (\<lambda>x. lt x item) xs = dropWhile (\<lambda>x. lt' x item) xs"
    by (rule takeWhile_cong dropWhile_cong; use assms in simp)+
  then show ?thesis by (simp add: insert_sorted_def)
qed

lemma take_hole_aligned_layout:
  assumes heap: "kheap s = Some heap" and ok: "heap_ok heap (ram s) (us @ (p, n, True) # vs)"
    and first: "oa_list (index heap) (ram s) = p # ps"
    and off: "unat p mod 4096 \<le> 4064" and page: "4096 \<le> unat p"
    and fits: "unat (front_size p) + unat sz + 40 \<le> unat n"
    and room: "unat (oa_array (index heap)) + 4 * (unat (oa_size (index heap)) + 2) + 8 \<le> unat (start_address heap)"
  shows "\<exists>oa m. take_hole sz (sz + 20) 1 s = Inr (p + front_size p + 12, set_index oa m s)
    \<and> heap_ok (heap\<lparr>index := oa\<rparr>) m (us @ aligned_chunks p n sz @ vs)
    \<and> (\<forall>(q, k, h) \<in> set (us @ vs). agree_on (unat q) (unat q + unat k) (ram s) m)
    \<and> agree_on 0 (unat (oa_array (index heap))) (ram s) m \<and> oa_array oa = oa_array (index heap)
    \<and> oa_list oa m = insert_sorted (header_t_less_than m) (p + front_size p + sz + 20) (p # ps)"
proof -
  let ?idx = "index heap" and ?m = "ram s" and ?a = "unat (start_address heap)"
  let ?arr = "oa_array ?idx" and ?N = "unat (oa_size ?idx)" and ?e = "end_address heap"
  let ?f = "front_size p" and ?r = "p + front_size p + sz + 20"
  define m1 where "m1 = carve (p + ?f) (n - ?f) sz ?e (write_chunk p ?f True ?m)"
  note reg = heap_region [OF ok]
  have lim: "unat p + unat n + 12 \<le> 2 ^ 32" using reg(2,3) by linarith
  note a = aligned_arith [OF off fits lim]
  note c = aligned_chunks_ok(1) [OF off fits reg(2,3)] aligned_chunks_ok(2,3) [OF off fits reg(2,3), of ?m, folded m1_def]
  have tiles: "tiles ?a (unat ?e) (us @ (p, n, True) # vs)" and idx: "index_ok heap"
    and dist: "distinct (p # ps)" and holes: "set (p # ps) = hole_starts (us @ (p, n, True) # vs)"
    and size: "hdr_size ?m p = n"
    using ok first by (auto simp: heap_ok_def)
  have newtiles: "tiles ?a (unat ?e) (us @ aligned_chunks p n sz @ vs)" by (rule tiles_split [OF tiles c(1)])
  have chunks3: "aligned_chunks p n sz = [(p, ?f, True), (p + ?f, sz + 20, False), (?r, n - ?f - (sz + 20), True)]"
    using a(5) by (simp add: aligned_chunks_def split_chunk_def)
  have fresh: "?r \<notin> set (p # ps)"
  proof -
    have "distinct (map fst (us @ aligned_chunks p n sz @ vs))" using tiles_starts [OF newtiles] by blast
    then have "?r \<noteq> p" "?r \<notin> fst ` set us" "?r \<notin> fst ` set vs" by (auto simp: chunks3)
    then show ?thesis using holes hole_starts_sub [of us] hole_starts_sub [of vs] by auto
  qed
  have lt: "less_than ?idx = Some header_t_less_than" and roomoa: "oa_room ?idx"
    using idx reg(1,2,3,5) by (simp_all add: index_ok_def oa_room_def)
  have list1: "oa_list ?idx m1 = p # ps"
  proof -
    have "cells m1 ?arr ?N = cells ?m ?arr ?N"
      by (rule cells_agree [OF same_outside_agree [OF c(3), of "unat p" 0]]) (use reg in auto)
    with first show ?thesis by (simp add: oa_list_def)
  qed
  obtain oa m' where ins: "insert_ordered_array ?r ?idx m1 = Inr (oa, m')"
      "oa_list oa m' = insert_sorted (header_t_less_than m1) ?r (p # ps)"
      "oa = ?idx\<lparr>oa_size := oa_size ?idx + 1\<rparr>" "unat (oa_size oa) = Suc ?N"
      "same_outside ?arr (4 * (?N + 1)) m1 m'"
    using insert_ordered_array_correct [OF lt roomoa, of ?r m1] list1 by auto
  have agi: "agree_on (?a - 8) (2 ^ 32) m1 m'" by (rule same_outside_agree [OF ins(5)]) (use reg(5) in auto)
  have below: "agree_on (?a - 8) (unat p) ?m m'"
    by (rule agree_on_trans [OF same_outside_agree [OF c(3)] agree_on_mono [OF agi]]) (use reg in auto)
  have above: "agree_on (unat p + unat n) (2 ^ 32) ?m m'"
    by (rule agree_on_trans [OF same_outside_agree [OF c(3)] agree_on_mono [OF agi]]) (use reg in auto)
  have ok': "\<forall>c \<in> set (aligned_chunks p n sz). chunk_ok m' c"
    by (rule chunks_agree [OF c(1) agree_on_mono [OF agi] _ c(2)]) (use reg lim in auto)
  have set': "set (oa_list oa m') = hole_starts (us @ aligned_chunks p n sz @ vs)"
    using ins(2) holes by (auto simp: chunks3)
  have idx': "index_ok (heap\<lparr>index := oa\<rparr>)" using lt ins(3,4) room by (simp add: index_ok_def)
  have dist': "distinct (oa_list oa m')" using ins(2) dist fresh by (simp only: distinct_insert_sorted) simp
  note lay = replace_chunk_layout [OF ok c(1) ok' below above idx' dist' set']
  have "take_hole sz (sz + 20) 1 s = Inr (p + ?f + 12, set_index oa m' s)"
  proof -
    have nz: "p AND 0xFFFFF000 \<noteq> 0" using page_base_zero [of p] page by simp
    have p12: "unat p + 12 \<le> 2 ^ 32" using lim reg(4) by simp
    have "chunk_ok (write_chunk p ?f True ?m) (p, ?f, True)"
      by (rule write_chunk_ok) (use front_size_unat(2) [OF off] fits lim in linarith)+
    then have "hdr_size (write_chunk p ?f True ?m) p = ?f" by simp
    from take_hole_aligned [OF heap lookup_first [OF first] size nz p12 this a(6,5)] ins(1)
    show ?thesis by (simp add: Let_def m1_def)
  qed
  moreover have "\<forall>(q, k, h) \<in> set (us @ vs). agree_on (unat q) (unat q + unat k) ?m m'"
    using lay(2) by blast
  moreover have "agree_on 0 (unat ?arr) ?m m'"
    by (rule agree_on_trans [OF same_outside_agree [OF c(3)] same_outside_agree [OF ins(5)]]) (use reg in auto)
  moreover have "oa_list oa m' = insert_sorted (header_t_less_than m') ?r (p # ps)"
  proof -
    have same: "hdr_size m' x = hdr_size m1 x" if x: "x \<in> insert ?r (set (p # ps))" for x
    proof -
      have "x \<in> hole_starts (us @ aligned_chunks p n sz @ vs)" using x ins(2) unfolding set' [symmetric] by simp
      then obtain k where "(x, k, True) \<in> set (us @ aligned_chunks p n sz @ vs)" by (auto simp: hole_starts_def)
      note k = tiles_member [OF newtiles this]
      have x12: "unat x + 12 \<le> 2 ^ 32" using k reg(3) by simp
      show ?thesis unfolding hdr_size_def
        by (rule read32_agree [OF agi]; simp only: header_addr [OF x12]; use k reg(3) in linarith)
    qed
    show ?thesis unfolding ins(2)
      by (rule insert_sorted_cong) (use same in \<open>simp add: header_t_less_than_def\<close>)
  qed
  moreover have "oa_array oa = ?arr" using ins(3) by simp
  ultimately show ?thesis using lay(1) by blast
qed

lemma sint_small:
  fixes w :: u32
  assumes "unat w < 2 ^ 31"
  shows "sint w = int (unat w)"
proof -
  have nonneg: "0 \<le> uint w" by simp
  have eq: "int (unat w) = uint w" by simp
  have "unat w < 2147483648" using assms by simp
  with eq have less: "uint w < 2147483648" by linarith
  have "even (x div 2147483648)" if "0 \<le> x" "x < 2147483648" for x :: int
    using that by (simp add: div_pos_pos_trivial)
  from this [OF nonneg less] have "\<not> bit (uint w) 31" by (simp add: bit_iff_odd)
  moreover have "take_bit 32 (uint w) = uint w" by (rule take_bit_int_eq_self) (use less in simp_all)
  ultimately show ?thesis unfolding eq by (simp add: sint_uint signed_take_bit_eq_take_bit_minus)
qed

lemma aligned_hole_fits:
  assumes "hdr_size m p = n" and "unat p mod 4096 \<le> 4064" and "4096 \<le> unat p" and "unat p + 4096 < 2 ^ 32"
    and "unat (front_size p) + unat sz + 40 \<le> unat n" and "unat n < 2 ^ 31"
  shows "hole_fits m (sz + 20) 1 p"
proof -
  have k: "unat (n - front_size p) = unat n - unat (front_size p)"
    by (rule unat_sub) (use assms(5) in \<open>simp add: word_le_nat_alt\<close>)
  have s: "unat (sz + 20) = unat sz + 20" by (rule unat_add_numeral) (use assms(5,6) in simp)
  have "unat (n - front_size p) < 2 ^ 31" "unat (sz + 20) < 2 ^ 31" using k s assms(5,6) by linarith+
  note i = this [THEN sint_small]
  have "unat (sz + 20) \<le> unat (n - front_size p)" using k s assms(5) by linarith
  then have "sz + 20 \<le>s n - front_size p" unfolding word_sle_eq i by (simp only: of_nat_le_iff)
  then show ?thesis
    using assms(1) front_size_offset [OF assms(2,3,4)] by (simp add: hole_fits_def Let_def)
qed

lemma alloc_aligned_state:
  assumes heap: "kheap s = Some heap" and ok: "heap_ok heap (ram s) (us @ (p, n, True) # vs)"
    and first: "oa_list (index heap) (ram s) = p # ps"
    and off: "unat p mod 4096 \<le> 4064" and page: "4096 \<le> unat p"
    and fits: "unat (front_size p) + unat sz + 40 \<le> unat n" and small: "unat n < 2 ^ 31"
    and room: "unat (oa_array (index heap)) + 4 * (unat (oa_size (index heap)) + 2) + 8 \<le> unat (start_address heap)"
  shows "\<exists>oa m. alloc (Suc fuel) sz 1 s = Inr (p + front_size p + 12, set_index oa m s)
    \<and> heap_ok (heap\<lparr>index := oa\<rparr>) m (us @ aligned_chunks p n sz @ vs)
    \<and> (\<forall>(q, k, h) \<in> set (us @ vs). agree_on (unat q) (unat q + unat k) (ram s) m)
    \<and> agree_on 0 (unat (oa_array (index heap))) (ram s) m \<and> oa_array oa = oa_array (index heap)
    \<and> oa_list oa m = insert_sorted (header_t_less_than m) (p + front_size p + sz + 20) (p # ps)"
    and "unat (p + front_size p + 12) mod 4096 = 0"
proof -
  note reg = heap_region [OF ok]
  have p: "unat p + 4096 < 2 ^ 32"
  proof -
    define q where "q = unat p div 4096"
    define r where "r = unat p mod 4096"
    have "unat p = 4096 * q + r" "r \<le> 4064" using off by (simp_all add: q_def r_def)
    moreover have "unat (front_size p) + r = 4084" using front_size_unat(1) [OF off] off by (simp add: r_def)
    moreover have "unat p + unat (front_size p) + 52 \<le> 4294967296" using reg(2,3) fits by simp
    ultimately have lim: "4096 * q + 4136 \<le> 4294967296" and le: "unat p \<le> 4096 * q + 4064" by linarith+
    from lim have "q \<le> 1048574" by linarith
    with le have "unat p + 4096 < 4294967296" by linarith
    then show ?thesis by simp
  qed
  have "hdr_size (ram s) p = n" using ok by (auto simp: heap_ok_def)
  from aligned_hole_fits [OF this off page p fits small]
  have "find_smallest_hole (sz + 20) 1 heap (ram s) = Inr 0" by (rule find_smallest_hole_first [OF first])
  then have "alloc (Suc fuel) sz 1 s = take_hole sz (sz + 20) 1 s"
    using heap by (simp add: alloc_body_def with_heap_def add.assoc)
  then show "\<exists>oa m. alloc (Suc fuel) sz 1 s = Inr (p + front_size p + 12, set_index oa m s)
    \<and> heap_ok (heap\<lparr>index := oa\<rparr>) m (us @ aligned_chunks p n sz @ vs)
    \<and> (\<forall>(q, k, h) \<in> set (us @ vs). agree_on (unat q) (unat q + unat k) (ram s) m)
    \<and> agree_on 0 (unat (oa_array (index heap))) (ram s) m \<and> oa_array oa = oa_array (index heap)
    \<and> oa_list oa m = insert_sorted (header_t_less_than m) (p + front_size p + sz + 20) (p # ps)"
    using take_hole_aligned_layout [OF heap ok first off page fits room] by simp
  show "unat (p + front_size p + 12) mod 4096 = 0" by (rule front_aligned(3) [OF off p])
qed

lemma alloc_aligned:
  assumes heap: "kheap s = Some heap" and ok: "heap_ok heap (ram s) (us @ (p, n, True) # vs)"
    and first: "oa_list (index heap) (ram s) = p # ps"
    and off: "unat p mod 4096 \<le> 4064" and page: "4096 \<le> unat p"
    and fits: "unat (front_size p) + unat sz + 40 \<le> unat n" and small: "unat n < 2 ^ 31"
    and room: "unat (oa_array (index heap)) + 4 * (unat (oa_size (index heap)) + 2) + 8 \<le> unat (start_address heap)"
  shows "\<exists>s' heap'. alloc (Suc fuel) sz 1 s = Inr (p + front_size p + 12, s') \<and> kheap s' = Some heap'
    \<and> heap_ok heap' (ram s') (us @ aligned_chunks p n sz @ vs)
    \<and> (\<forall>(q, k, h) \<in> set (us @ vs). agree_on (unat q) (unat q + unat k) (ram s) (ram s'))"
    and "unat (p + front_size p + 12) mod 4096 = 0"
proof -
  obtain oa m where "alloc (Suc fuel) sz 1 s = Inr (p + front_size p + 12, set_index oa m s)"
    "heap_ok (heap\<lparr>index := oa\<rparr>) m (us @ aligned_chunks p n sz @ vs)"
    "\<forall>(q, k, h) \<in> set (us @ vs). agree_on (unat q) (unat q + unat k) (ram s) m"
    using alloc_aligned_state(1) [OF assms, of fuel] by blast
  with heap show "\<exists>s' heap'. alloc (Suc fuel) sz 1 s = Inr (p + front_size p + 12, s') \<and> kheap s' = Some heap'
    \<and> heap_ok heap' (ram s') (us @ aligned_chunks p n sz @ vs)
    \<and> (\<forall>(q, k, h) \<in> set (us @ vs). agree_on (unat q) (unat q + unat k) (ram s) (ram s'))"
    by (intro exI [of _ "set_index oa m s"] exI [of _ "heap\<lparr>index := oa\<rparr>"]) simp
qed (rule alloc_aligned_state(2) [OF assms])

section \<open>Writing into a block\<close>

lemma distinct_single:
  assumes "distinct xs" and "set xs = {x}"
  shows "xs = [x]"
proof (cases xs)
  case (Cons y ys)
  then have "y = x" "set ys \<subseteq> {x}" "y \<notin> set ys" using assms by auto
  then have "set ys = {}" by (metis insert_subset subset_singletonD singletonI)
  with Cons \<open>y = x\<close> show ?thesis by simp
qed (use assms in simp)

lemma heap_ok_payload:
  assumes ok: "heap_ok heap m (us @ (p, n, False) # vs)" and w: "same_outside a k m m'"
    and "unat p + 12 \<le> unat a" and "unat a + k + 8 \<le> unat p + unat n"
  shows "heap_ok heap m' (us @ (p, n, False) # vs)"
proof -
  note reg = heap_region [OF ok]
  have lim: "unat p + unat n + 12 \<le> 2 ^ 32" using reg(2,3) by simp
  have c: "chunk_ok m (p, n, False)" using ok by (simp add: heap_ok_def del: chunk_ok.simps)
  have u: "unat (p + 4) = unat p + 4" "unat (p + 8) = unat p + 8" "unat (p + n) = unat p + unat n"
    using unat_plus [of p n] lim reg(4) by (simp_all add: unat_add_numeral)
  then have f: "unat (p + n - 8) = unat p + unat n - 8" using reg(4) by (simp add: unat_sub_if')
  then have f4: "unat (p + n - 8 + 4) = unat p + unat n - 4" using lim reg(4) f unat_add_small [of "p + n - 8" 4] by simp
  have "read32 m' p = read32 m p" "read32 m' (p + 8) = read32 m (p + 8)"
    "read32 m' (p + n - 8) = read32 m (p + n - 8)" "read32 m' (p + n - 8 + 4) = read32 m (p + n - 8 + 4)"
    by (rule read32_same_outside [OF w]; use u f f4 assms(3,4) lim reg(4) in linarith)+
  moreover have "m' (p + 4) = m (p + 4)" using w u assms(3) by (auto simp: same_outside_def in_region_def)
  ultimately have c': "chunk_ok m' (p, n, False)"
    using c by (simp add: hdr_magic_def hdr_size_def hdr_is_hole_def ftr_magic_def ftr_header_def)
  have below: "agree_on (unat (start_address heap) - 8) (unat p) m m'"
    and above: "agree_on (unat p + unat n) (2 ^ 32) m m'"
    by (rule same_outside_agree [OF w]; use assms(3,4) in simp)+
  have "cells m' (oa_array (index heap)) (unat (oa_size (index heap))) = cells m (oa_array (index heap)) (unat (oa_size (index heap)))"
    by (rule cells_agree [OF same_outside_agree [OF w, of "unat p" 0]]) (use reg assms(3) in auto)
  then have l: "oa_list (index heap) m' = oa_list (index heap) m" by (simp add: oa_list_def)
  have "heap_ok (heap\<lparr>index := index heap\<rparr>) m' (us @ [(p, n, False)] @ vs)"
    by (rule replace_chunk_layout(1) [OF ok _ _ below above])
      (use c' l ok reg(4) in \<open>simp_all add: heap_ok_def del: chunk_ok.simps\<close>)
  then show ?thesis by simp
qed

end
