(* ===== verification/Heap_Blocks.thy ===== *)
theory Heap_Blocks
  imports Heap_Aligned
begin

text \<open>
  The kernel heap seen as a set of allocated blocks, and what \<open>alloc\<close> and \<open>free\<close> do to it.
\<close>

section \<open>The allocated blocks\<close>

text \<open>
  The abstract state of an allocator: the blocks it has handed out and not taken back. Chunks
  that tile a range do not overlap.
\<close>

definition blocks :: "chunk list \<Rightarrow> (u32 \<times> u32) set" where
  "blocks cs = {(p, n). (p, n, False) \<in> set cs}"

definition apart :: "u32 \<times> u32 \<Rightarrow> u32 \<times> u32 \<Rightarrow> bool" where
  "apart b c \<longleftrightarrow> unat (fst b) + unat (snd b) \<le> unat (fst c) \<or> unat (fst c) + unat (snd c) \<le> unat (fst b)"

lemma blocks_append [simp]: "blocks (xs @ ys) = blocks xs \<union> blocks ys"
  by (auto simp: blocks_def)

lemma blocks_Cons [simp]:
  "blocks ((p, n, h) # cs) = (if h then blocks cs else insert (p, n) (blocks cs))"
  by (auto simp: blocks_def)

lemma blocks_Nil [simp]: "blocks [] = {}"
  by (simp add: blocks_def)

lemma blocks_apart:
  assumes "tiles a e (us @ (p, n, h) # vs)" and "b \<in> blocks us \<union> blocks vs"
  shows "apart (p, n) b"
proof -
  obtain q k where [simp]: "b = (q, k)" by (cases b)
  from assms(1) obtain d where t: "tiles a d us" "tiles d e ((p, n, h) # vs)"
    by (auto simp: tiles_append)
  with assms(2) show ?thesis
    using tiles_member [of a d us q k False] tiles_member [of "d + unat n" e vs q k False]
    by (auto simp: blocks_def apart_def)
qed

lemma blocks_fresh:
  assumes "tiles a e (us @ (p, n, h) # vs)"
  shows "(p, k) \<notin> blocks us \<union> blocks vs"
proof -
  have "distinct (map fst (us @ (p, n, h) # vs))" using tiles_starts [OF assms] by blast
  then show ?thesis by (force simp: blocks_def)
qed

lemma split_chunk_blocks:
  assumes "unat sz + 20 \<le> unat n"
  shows "\<exists>k. blocks (split_chunk p n sz) = {(p, k)} \<and> unat sz + 20 \<le> unat k \<and> unat k \<le> unat n"
proof (cases "n - (sz + 20) < 20")
  case True
  then show ?thesis using assms by (auto simp: split_chunk_def)
next
  case False
  have "unat (sz + 20) = unat sz + 20"
    using assms unat_u32_less [of n] by (intro unat_add_numeral) simp
  with False assms show ?thesis by (auto simp: split_chunk_def)
qed

text \<open>Everything that a memory keeps of a set of blocks.\<close>

definition keeps_blocks :: "(u32 \<times> u32) set \<Rightarrow> mem \<Rightarrow> mem \<Rightarrow> bool" where
  "keeps_blocks B m m' \<longleftrightarrow> (\<forall>(p, n) \<in> B. agree_on (unat p) (unat p + unat n) m m')"

lemma keeps_blocks_chunks:
  assumes "\<forall>(q, k, h) \<in> set cs. agree_on (unat q) (unat q + unat k) m m'"
  shows "keeps_blocks (blocks cs) m m'"
  using assms by (auto simp: keeps_blocks_def blocks_def)

section \<open>Allocation and freeing as operations on the set of blocks\<close>

lemma alloc_block:
  assumes heap: "kheap s = Some heap" and ok: "heap_ok heap (ram s) (us @ (p, n, True) # vs)"
    and first: "oa_list (index heap) (ram s) = p # ps" and fits: "unat sz + 20 \<le> unat n"
  shows "\<exists>s' heap' cs' k. alloc (Suc fuel) sz 0 s = Inr (p + 12, s') \<and> kheap s' = Some heap'
    \<and> heap_ok heap' (ram s') cs' \<and> unat sz + 20 \<le> unat k
    \<and> (p, k) \<notin> blocks (us @ vs) \<and> blocks cs' = insert (p, k) (blocks (us @ vs))
    \<and> (\<forall>b \<in> blocks (us @ vs). apart (p, k) b) \<and> keeps_blocks (blocks (us @ vs)) (ram s) (ram s')"
proof -
  obtain s' heap' where r: "alloc (Suc fuel) sz 0 s = Inr (p + 12, s')" "kheap s' = Some heap'"
      "heap_ok heap' (ram s') (us @ split_chunk p n sz @ vs)"
      "\<forall>(q, k, h) \<in> set (us @ vs). agree_on (unat q) (unat q + unat k) (ram s) (ram s')"
    using alloc_layout [OF heap ok first fits, of fuel] by auto
  obtain k where k: "blocks (split_chunk p n sz) = {(p, k)}" "unat sz + 20 \<le> unat k" "unat k \<le> unat n"
    using split_chunk_blocks [OF fits] by blast
  have t: "tiles (unat (start_address heap)) (unat (end_address heap)) (us @ (p, n, True) # vs)"
    using ok by (simp add: heap_ok_def)
  have ap: "\<forall>b \<in> blocks (us @ vs). apart (p, k) b"
    using blocks_apart [OF t] k(3) by (fastforce simp: apart_def)
  have eq: "blocks (us @ split_chunk p n sz @ vs) = insert (p, k) (blocks (us @ vs))"
    using k(1) by auto
  have fresh: "(p, k) \<notin> blocks (us @ vs)" using blocks_fresh [OF t, of k] by simp
  from r(1-3) k(2) fresh eq ap keeps_blocks_chunks [OF r(4)] show ?thesis by blast
qed

lemma free_block:
  assumes heap: "kheap s = Some heap" and ok: "heap_ok heap (ram s) (us @ (p, n, False) # (r, j, False) # vs)"
    and room: "unat (oa_array (index heap)) + 4 * (unat (oa_size (index heap)) + 2) + 8 \<le> unat (start_address heap)"
  shows "\<exists>s' heap' cs'. free (p + 12) s = Inr s' \<and> kheap s' = Some heap' \<and> heap_ok heap' (ram s') cs'
    \<and> blocks cs' = blocks (us @ (p, n, False) # (r, j, False) # vs) - {(p, n)}
    \<and> keeps_blocks (blocks cs') (ram s) (ram s')"
proof -
  have t: "tiles (unat (start_address heap)) (unat (end_address heap)) (us @ (p, n, False) # (r, j, False) # vs)"
    using ok by (simp add: heap_ok_def)
  have B: "blocks (us @ (r, j, False) # vs) = blocks (us @ (p, n, False) # (r, j, False) # vs) - {(p, n)}"
    using blocks_fresh [OF t, of n] by auto
  show ?thesis
  proof (cases "\<exists>us' q k. us = us' @ [(q, k, True)] \<and> ftr_magic (ram s) (p - 8) = HEAP_MAGIC")
    case False
    from free_adds_hole [OF heap ok False room] obtain s' heap' where
      f: "free (p + 12) s = Inr s'" "kheap s' = Some heap'"
        "heap_ok heap' (ram s') (us @ (p, n, True) # (r, j, False) # vs)"
        "\<forall>(q, k, h) \<in> set (us @ (r, j, False) # vs). agree_on (unat q) (unat q + unat k) (ram s) (ram s')"
      by blast
    have "blocks (us @ (p, n, True) # (r, j, False) # vs) = blocks (us @ (r, j, False) # vs)" by simp
    with f(1-3) B keeps_blocks_chunks [OF f(4)] show ?thesis by metis
  next
    case True
    then obtain us' q k where us: "us = us' @ [(q, k, True)]" and foot: "ftr_magic (ram s) (p - 8) = HEAP_MAGIC"
      by blast
    have ok': "heap_ok heap (ram s) (us' @ (q, k, True) # (p, n, False) # (r, j, False) # vs)"
      using ok us by simp
    from free_merges_left [OF heap ok' foot] obtain s' where
      f: "free (p + 12) s = Inr s'" "kheap s' = Some heap"
        "heap_ok heap (ram s') (us' @ (q, k + n, True) # (r, j, False) # vs)"
        "\<forall>(q, k, h) \<in> set (us' @ (r, j, False) # vs). agree_on (unat q) (unat q + unat k) (ram s) (ram s')"
      by blast
    have "blocks (us' @ (q, k + n, True) # (r, j, False) # vs) = blocks (us @ (r, j, False) # vs)"
      "blocks (us' @ (r, j, False) # vs) = blocks (us @ (r, j, False) # vs)"
      by (simp_all add: us)
    with f(1-3) B keeps_blocks_chunks [OF f(4)] show ?thesis by metis
  qed
qed

lemma alloc_grow_block:
  assumes "kheap s = Some heap" and "heap_ok heap (ram s) cs" and "grows_at heap (ram s) us p cs"
    and "\<forall>(q, k, h) \<in> set cs. h \<longrightarrow> k < sz + 20" and "unat sz + 20 < 2 ^ 32" and "can_grow heap (sz + 20)"
    and "growth_ready heap (grown_end heap (sz + 20)) s"
    and "hdr_magic (ram s) (grown_end heap (sz + 20)) \<noteq> HEAP_MAGIC"
  shows "\<exists>s' heap' cs' k. alloc (Suc (Suc fuel)) sz 0 s = Inr (p + 12, s') \<and> kheap s' = Some heap'
    \<and> heap_ok heap' (ram s') cs' \<and> end_address heap' = grown_end heap (sz + 20)
    \<and> unat sz + 20 \<le> unat k \<and> blocks cs' = insert (p, k) (blocks us)
    \<and> keeps_blocks (blocks us) (ram s) (ram s')"
proof -
  obtain s' heap' n where r: "alloc (Suc (Suc fuel)) sz 0 s = Inr (p + 12, s')" "kheap s' = Some heap'"
      "heap_ok heap' (ram s') (us @ split_chunk p n sz)" "unat sz + 20 \<le> unat n"
      "end_address heap' = grown_end heap (sz + 20)"
      "\<forall>(q, k, h) \<in> set us. agree_on (unat q) (unat q + unat k) (ram s) (ram s')"
    using alloc_grows [OF assms, of fuel] by blast
  obtain k where k: "blocks (split_chunk p n sz) = {(p, k)}" "unat sz + 20 \<le> unat k"
    using split_chunk_blocks [OF r(4)] by blast
  have "blocks (us @ split_chunk p n sz) = insert (p, k) (blocks us)" using k(1) by simp
  with r(1-3,5) k(2) keeps_blocks_chunks [OF r(6)] show ?thesis by blast
qed

lemma alloc_aligned_block:
  assumes "kheap s = Some heap" and "heap_ok heap (ram s) (us @ (p, n, True) # vs)"
    and "oa_list (index heap) (ram s) = p # ps"
    and "unat p mod 4096 \<le> 4064" and "4096 \<le> unat p"
    and fits: "unat (front_size p) + unat sz + 40 \<le> unat n" and "unat n < 2 ^ 31"
    and "unat (oa_array (index heap)) + 4 * (unat (oa_size (index heap)) + 2) + 8 \<le> unat (start_address heap)"
  shows "\<exists>s' heap' cs' q. alloc (Suc fuel) sz 1 s = Inr (q + 12, s') \<and> unat (q + 12) mod 4096 = 0
    \<and> unat p + 20 \<le> unat q \<and> kheap s' = Some heap' \<and> heap_ok heap' (ram s') cs'
    \<and> blocks cs' = insert (q, sz + 20) (blocks (us @ vs)) \<and> unat (sz + 20) = unat sz + 20
    \<and> keeps_blocks (blocks (us @ vs)) (ram s) (ram s') \<and> unat q + 20 \<le> unat p + unat n"
proof -
  note f = front_size_unat [OF assms(4)] and reg = heap_region [OF assms(2)]
  have q: "unat (p + front_size p) = unat p + unat (front_size p)"
    using unat_add_small [of p "unat (front_size p)"] reg(2,3) fits by simp
  have k: "unat (sz + 20) = unat sz + 20" by (rule unat_add_numeral) (use fits assms(7) in simp)
  have "unat (n - front_size p) = unat n - unat (front_size p)"
    by (rule unat_sub) (use fits in \<open>simp add: word_le_nat_alt\<close>)
  then have "\<not> n - front_size p - (sz + 20) < 20"
    using k fits by (simp add: word_less_nat_alt unat_sub word_le_nat_alt)
  then have "blocks (us @ aligned_chunks p n sz @ vs) = insert (p + front_size p, sz + 20) (blocks (us @ vs))"
    by (auto simp: aligned_chunks_def split_chunk_def)
  moreover obtain s' heap' where r: "alloc (Suc fuel) sz 1 s = Inr (p + front_size p + 12, s')" "kheap s' = Some heap'"
      "heap_ok heap' (ram s') (us @ aligned_chunks p n sz @ vs)"
      "\<forall>(q, k, h) \<in> set (us @ vs). agree_on (unat q) (unat q + unat k) (ram s) (ram s')"
    using alloc_aligned(1) [OF assms, of fuel] by blast
  moreover have "unat p + 20 \<le> unat (p + front_size p)" using q f(2) by simp
  moreover have "unat (p + front_size p) + 20 \<le> unat p + unat n" using q fits by simp
  moreover note keeps_blocks_chunks [OF r(4)] alloc_aligned(2) [OF assms] k
  ultimately show ?thesis
    by (intro exI [of _ s'] exI [of _ heap'] exI [of _ "us @ aligned_chunks p n sz @ vs"]
        exI [of _ "p + front_size p"] conjI)
qed

text \<open>Memory determines the layout.\<close>

lemma layout_unique:
  assumes "tiles a e cs" and "tiles a e ds" and "\<forall>c \<in> set cs. chunk_ok m c" and "\<forall>d \<in> set ds. chunk_ok m d"
  shows "cs = ds"
  using assms
proof (induction cs arbitrary: a ds)
  case Nil
  then show ?case using tiles_le by (cases ds) fastforce+
next
  case (Cons c cs)
  obtain p n h where c: "c = (p, n, h)" by (cases c)
  obtain d ds' where ds: "ds = d # ds'"
    using Cons.prems(1,2) tiles_le [of "a + unat n" e cs] by (cases ds) (auto simp: c)
  obtain q k h' where d: "d = (q, k, h')" by (cases d)
  have "p = q" using Cons.prems(1,2) by (simp add: c ds d word_unat_eq_iff)
  then have "n = k" "h = h'" using Cons.prems(3,4) by (auto simp: c ds d split: if_splits)
  moreover have "cs = ds'"
    by (rule Cons.IH [of "a + unat n"]) (use Cons.prems \<open>p = q\<close> \<open>n = k\<close> in \<open>simp_all add: c ds d\<close>)
  ultimately show ?case using \<open>p = q\<close> by (simp add: c ds d)
qed

lemma heap_ok_unique: "heap_ok heap m cs \<Longrightarrow> heap_ok heap m ds \<Longrightarrow> cs = ds"
  unfolding heap_ok_def using layout_unique by blast

end
