(* ===== verification/Heap_Properties.thy ===== *)
theory Heap_Properties
  imports Heap_Blocks
begin

text \<open>
  What the kernel heap and the placement allocator guarantee, and where they do not. The
  concrete heaps of the first section serve the witnesses.
\<close>

section \<open>Small heaps\<close>

definition layout_mem :: "chunk list \<Rightarrow> mem \<Rightarrow> mem" where
  "layout_mem cs m = fold (\<lambda>(q, k, h). write_chunk q k h) cs m"

lemma layout_mem_ok:
  assumes "tiles a e cs" and "e \<le> 2 ^ 32"
  shows "\<forall>c \<in> set cs. chunk_ok (layout_mem cs m) c" and "agree_on 0 a m (layout_mem cs m)"
    and "agree_on e (2 ^ 32) m (layout_mem cs m)"
proof -
  have "(\<forall>c \<in> set cs. chunk_ok (layout_mem cs m) c) \<and> agree_on 0 a m (layout_mem cs m)
      \<and> agree_on e (2 ^ 32) m (layout_mem cs m)"
    using assms(1)
  proof (induction cs arbitrary: a m)
    case (Cons c cs)
    obtain q k h where c: "c = (q, k, h)" by (cases c)
    with Cons.prems have t: "unat q = a" "20 \<le> unat k" "tiles (a + unat k) e cs" by auto
    have le: "a + unat k \<le> e" using tiles_le [OF t(3)] .
    let ?m1 = "write_chunk q k h m"
    have lim: "unat q + unat k \<le> 2 ^ 32" using le t(1) assms(2) by simp
    note IH = Cons.IH [OF t(3), of ?m1]
    have out: "same_outside q (unat k) m ?m1" by (rule write_chunk_frame [OF t(2) lim])
    have "chunk_ok (layout_mem cs ?m1) (q, k, h)"
      using chunk_ok_agree [of 0 "a + unat k" ?m1 "layout_mem cs ?m1" q k h] IH t lim write_chunk_ok [OF t(2) lim]
      by (simp del: chunk_ok.simps)
    moreover have "agree_on 0 a m (layout_mem cs ?m1)"
      by (rule agree_on_then [OF same_outside_agree [OF out, of a 0] conjunct1 [OF conjunct2 [OF IH]]])
        (use t(1) in auto)
    moreover have "agree_on e (2 ^ 32) m (layout_mem cs ?m1)"
      by (rule agree_on_then [OF same_outside_agree [OF out, of "2 ^ 32" e] conjunct2 [OF conjunct2 [OF IH]]])
        (use t(1) le in auto)
    ultimately show ?case using IH by (simp add: c layout_mem_def del: chunk_ok.simps)
  qed (simp add: layout_mem_def)
  then show "\<forall>c \<in> set cs. chunk_ok (layout_mem cs m) c" "agree_on 0 a m (layout_mem cs m)"
    "agree_on e (2 ^ 32) m (layout_mem cs m)" by auto
qed

lemma layout_mem_footer:
  assumes "tiles a e cs" and "e \<le> 2 ^ 32" and "(p, n, h) \<in> set cs"
  shows "ftr_magic (layout_mem cs m) (p + n - 8) = HEAP_MAGIC"
  using assms(1,3)
proof (induction cs arbitrary: a m)
  case (Cons c cs)
  obtain q k g where c: "c = (q, k, g)" by (cases c)
  with Cons.prems have t: "unat q = a" "20 \<le> unat k" "tiles (a + unat k) e cs" by auto
  have step: "layout_mem (c # cs) m = layout_mem cs (write_chunk q k g m)" by (simp add: layout_mem_def c)
  show ?case
  proof (cases "(p, n, h) \<in> set cs")
    case True
    then show ?thesis using Cons.IH [OF t(3) True] step by simp
  next
    case False
    then have pn: "p = q" "n = k" using Cons.prems(2) c by auto
    have lim: "unat q + unat k \<le> 2 ^ 32" using tiles_le [OF t(3)] t(1) assms(2) by simp
    note f = footer_addr [OF t(2) lim]
    have "ftr_magic (write_chunk q k g m) (q + k - 8) = HEAP_MAGIC"
      unfolding write_chunk_def by (rule make_footer_fields) (use f lim t(2) in auto)
    moreover have "read32 (layout_mem cs (write_chunk q k g m)) (q + k - 8) = read32 (write_chunk q k g m) (q + k - 8)"
      by (rule read32_agree [OF layout_mem_ok(2) [OF t(3) assms(2)]]) (use f lim t in auto)
    ultimately show ?thesis using step pn by (simp add: ftr_magic_def)
  qed
qed simp

text \<open>A heap from 0x1000 to 0x1100 whose index lies at 0x100.\<close>

definition small_heap :: "u32 list \<Rightarrow> heap_t" where
  "small_heap hs = \<lparr>index = \<lparr>oa_array = 0x100, oa_size = word_of_nat (length hs), oa_max_size = 0x20,
     less_than = Some header_t_less_than\<rparr>, start_address = 0x1000, end_address = 0x1100,
     max_address = 0x8000, supervisor = 0, readonly = 0\<rparr>"

definition small_state :: "chunk list \<Rightarrow> u32 list \<Rightarrow> kernel" where
  "small_state cs hs = zero_kernel\<lparr>kheap := Some (small_heap hs),
     ram := fold (\<lambda>(i, h). set_cell 0x100 (word_of_nat i) h) (enumerate 0 hs) (layout_mem cs (\<lambda>_. 0))\<rparr>"

lemma small_state_agree:
  assumes "hs = [] \<or> (\<exists>a. hs = [a]) \<or> (\<exists>a b. hs = [a, b])"
  shows "agree_on 0x108 (2 ^ 32) (layout_mem cs (\<lambda>_. 0)) (ram (small_state cs hs))"
proof -
  have w: "agree_on 0x108 (2 ^ 32) m (set_cell 0x100 0 a m)" "agree_on 0x108 (2 ^ 32) m (set_cell 0x100 1 a m)" for m a
    unfolding set_cell_def by (rule same_outside_agree [OF same_outside_write32]; simp)+
  then show ?thesis using assms agree_on_trans [OF w(1) w(2)] by (auto simp: small_state_def)
qed

lemma small_state_footer:
  assumes "tiles 0x1000 0x1100 cs" and "hs = [] \<or> (\<exists>a. hs = [a]) \<or> (\<exists>a b. hs = [a, b])"
    and "(p, n, h) \<in> set cs"
  shows "ftr_magic (ram (small_state cs hs)) (p + n - 8) = HEAP_MAGIC"
proof -
  note t = tiles_member [OF assms(1,3)]
  have f: "unat (p + n - 8) = unat p + unat n - 8" by (rule footer_addr) (use t in auto)
  have "ftr_magic (layout_mem cs (\<lambda>_. 0)) (p + n - 8) = HEAP_MAGIC"
    using layout_mem_footer [OF assms(1) _ assms(3)] by simp
  moreover have "read32 (ram (small_state cs hs)) (p + n - 8) = read32 (layout_mem cs (\<lambda>_. 0)) (p + n - 8)"
    by (rule read32_agree [OF small_state_agree [OF assms(2)]]) (use f t in auto)
  ultimately show ?thesis by (simp add: ftr_magic_def)
qed

lemma small_heap_two:
  assumes "tiles 0x1000 0x1100 cs" and "hs = [] \<or> (\<exists>a. hs = [a]) \<or> (\<exists>a b. hs = [a, b])"
    and "set hs = hole_starts cs" and "distinct hs"
  shows "heap_ok (small_heap hs) (ram (small_state cs hs)) cs"
    and "oa_list (index (small_heap hs)) (ram (small_state cs hs)) = hs"
    and "kheap (small_state cs hs) = Some (small_heap hs)"
proof -
  let ?l = "layout_mem cs (\<lambda>_. 0)" and ?m = "ram (small_state cs hs)"
  note lay = layout_mem_ok [OF assms(1), of "\<lambda>_. 0"]
  note ag = small_state_agree [OF assms(2)]
  have two: "read32 (write32 (write32 m 0x100 a) 0x104 b) 0x100 = a" for m a b
    by (subst read32_write32_nat) auto
  have upt_2: "[0..<2] = [0, 1 :: nat]" by (simp add: numeral_2_eq_2)
  show list: "oa_list (index (small_heap hs)) ?m = hs"
    using assms(2) two upt_2
    by (auto simp: small_state_def small_heap_def oa_list_def cells_def cell_def set_cell_def)
  have ags: "agree_on 0x1000 0x1100 ?l ?m" using ag by (rule agree_on_mono) auto
  have ok: "\<forall>c \<in> set cs. chunk_ok ?m c"
    using chunks_agree [OF assms(1) ags] lay(1) by simp
  have "read32 ?m 0xFF8 = read32 ?l 0xFF8" "read32 ?m 0x1100 = read32 ?l 0x1100"
    by (rule read32_agree [OF ag]; simp)+
  moreover have "read32 ?l 0xFF8 = read32 (\<lambda>_. 0) 0xFF8"
    by (rule read32_agree [where lo = 0 and hi = "0x1000"]) (use lay(2) in auto)
  moreover have "read32 ?l 0x1100 = read32 (\<lambda>_. 0) 0x1100"
    by (rule read32_agree [where lo = "0x1100" and hi = "2 ^ 32"]) (use lay(3) in auto)
  moreover have "read32 (\<lambda>_. 0) a = 0" for a by (simp add: read32_def)
  ultimately have "guarded (small_heap hs) ?m"
    by (simp add: guarded_def small_heap_def ftr_magic_def hdr_magic_def HEAP_MAGIC_def)
  moreover have "index_ok (small_heap hs)" using assms(2) by (auto simp: index_ok_def small_heap_def)
  ultimately show "heap_ok (small_heap hs) ?m cs"
    using assms(1,3,4) ok list by (simp add: heap_ok_def small_heap_def)
  show "kheap (small_state cs hs) = Some (small_heap hs)" by (simp add: small_state_def)
qed


section \<open>Allocation and freeing as operations on the set of blocks\<close>

text \<open>C4: Allocation refines its abstract specification. On a well laid out heap whose first
  hole is large enough, \<open>alloc\<close> returns, leaves a well laid out heap, and the set of
  allocated blocks grows by exactly one new block behind whose 12-byte header the result
  points, at least as large as the request with header and footer, apart from every other
  block; no allocated block changes a byte.\<close>
theorem alloc_adds_block:
  assumes heap: "kheap s = Some heap" and ok: "heap_ok heap (ram s) (us @ (p, n, True) # vs)"
    and first: "oa_list (index heap) (ram s) = p # ps" and fits: "unat sz + 20 \<le> unat n"
  shows "\<exists>s' heap' cs' k. alloc (Suc fuel) sz 0 s = Inr (p + 12, s') \<and> kheap s' = Some heap'
    \<and> heap_ok heap' (ram s') cs' \<and> unat sz + 20 \<le> unat k
    \<and> (p, k) \<notin> blocks (us @ vs) \<and> blocks cs' = insert (p, k) (blocks (us @ vs))
    \<and> (\<forall>b \<in> blocks (us @ vs). apart (p, k) b) \<and> keeps_blocks (blocks (us @ vs)) (ram s) (ram s')"
  by (rule alloc_block [OF assms])

theorem alloc_adds_block_witness:
  "\<exists>s' heap' cs' k. alloc (Suc 0) 16 0 (small_state [(0x1000, 0x40, False), (0x1040, 0x40, True), (0x1080, 0x80, False)] [0x1040])
      = Inr (0x1040 + 12, s') \<and> kheap s' = Some heap' \<and> heap_ok heap' (ram s') cs'
    \<and> blocks cs' = insert (0x1040, k) {(0x1000, 0x40), (0x1080, 0x80)}"
proof -
  let ?cs = "[(0x1000, 0x40, False), (0x1040, 0x40, True), (0x1080, 0x80, False)] :: chunk list"
  have t: "tiles 0x1000 0x1100 ?cs" by simp
  have h: "heap_ok (small_heap [0x1040]) (ram (small_state ?cs [0x1040]))
        ([(0x1000, 0x40, False)] @ (0x1040, 0x40, True) # [(0x1080, 0x80, False)])"
      "oa_list (index (small_heap [0x1040])) (ram (small_state ?cs [0x1040])) = 0x1040 # []"
      "kheap (small_state ?cs [0x1040]) = Some (small_heap [0x1040])"
    using small_heap_two [OF t, of "[0x1040]"] by simp_all
  have "unat (16 :: u32) + 20 \<le> unat (0x40 :: u32)" by simp
  from alloc_adds_block [OF h(3,1,2) this, of 0]
  obtain s' heap' cs' k where r: "alloc (Suc 0) 16 0 (small_state ?cs [0x1040]) = Inr (0x1040 + 12, s')"
      "kheap s' = Some heap'" "heap_ok heap' (ram s') cs'"
      "blocks cs' = insert (0x1040, k) (blocks ([(0x1000, 0x40, False)] @ [(0x1080, 0x80, False)]))"
    by blast
  then have "blocks cs' = insert (0x1040, k) {(0x1000, 0x40), (0x1080, 0x80)}"
    by (simp only: blocks_append blocks_Cons blocks_Nil if_False Un_insert_left Un_empty_left)
  with r(1-3) show ?thesis by blast
qed

text \<open>C5: Freeing a block that is followed by an allocated block refines its abstract specification.
  On a well laid out heap, with room for one more entry in the index, \<open>free\<close> of such a block returns,
  leaves a well laid out heap, and the set of allocated blocks loses exactly that block, whether the
  space becomes a hole of its own or joins the hole on its left; no other allocated block changes a
  byte. The condition is needed: in front of a hole the layout breaks
  (\<open>free_right_merge_stale_footer\<close>), and at the end of the heap \<open>free\<close> shrinks the heap.\<close>
theorem free_removes_block:
  assumes heap: "kheap s = Some heap" and ok: "heap_ok heap (ram s) (us @ (p, n, False) # (r, j, False) # vs)"
    and room: "unat (oa_array (index heap)) + 4 * (unat (oa_size (index heap)) + 2) + 8 \<le> unat (start_address heap)"
  shows "\<exists>s' heap' cs'. free (p + 12) s = Inr s' \<and> kheap s' = Some heap' \<and> heap_ok heap' (ram s') cs'
    \<and> blocks cs' = blocks (us @ (p, n, False) # (r, j, False) # vs) - {(p, n)}
    \<and> keeps_blocks (blocks cs') (ram s) (ram s')"
  by (rule free_block [OF assms])

text \<open>The heap the next witnesses start from.\<close>

lemma three_blocks_ok:
  "heap_ok (small_heap []) (ram (small_state [(0x1000, 0x40, False), (0x1040, 0x40, False), (0x1080, 0x80, False)] []))
     ([(0x1000, 0x40, False)] @ (0x1040, 0x40, False) # (0x1080, 0x80, False) # [])"
  "kheap (small_state [(0x1000, 0x40, False), (0x1040, 0x40, False), (0x1080, 0x80, False)] []) = Some (small_heap [])"
proof -
  have t: "tiles 0x1000 0x1100 [(0x1000, 0x40, False), (0x1040, 0x40, False), (0x1080, 0x80, False)]" by simp
  show "heap_ok (small_heap []) (ram (small_state [(0x1000, 0x40, False), (0x1040, 0x40, False), (0x1080, 0x80, False)] []))
     ([(0x1000, 0x40, False)] @ (0x1040, 0x40, False) # (0x1080, 0x80, False) # [])"
    "kheap (small_state [(0x1000, 0x40, False), (0x1040, 0x40, False), (0x1080, 0x80, False)] []) = Some (small_heap [])"
    using small_heap_two [OF t, of "[]"] by simp_all
qed

theorem free_removes_block_witness:
  "\<exists>s' heap' cs'. free (0x1040 + 12) (small_state [(0x1000, 0x40, False), (0x1040, 0x40, False), (0x1080, 0x80, False)] []) = Inr s'
    \<and> kheap s' = Some heap' \<and> heap_ok heap' (ram s') cs' \<and> blocks cs' = {(0x1000, 0x40), (0x1080, 0x80)}"
proof -
  have room: "unat (oa_array (index (small_heap []))) + 4 * (unat (oa_size (index (small_heap []))) + 2) + 8
      \<le> unat (start_address (small_heap []))" by (simp add: small_heap_def)
  have "blocks ([(0x1000, 0x40, False)] @ (0x1040, 0x40, False) # (0x1080, 0x80, False) # []) - {(0x1040, 0x40)}
      = {(0x1000, 0x40), (0x1080, 0x80)}" by auto
  with free_removes_block [OF three_blocks_ok(2,1) room] show ?thesis by metis
qed

section \<open>Growing\<close>

text \<open>
  The pages that \<open>expand\<close> adds need a page table. If there is none, \<open>get_page\<close> asks the heap for it
  that is just being expanded; if that has no room either, it is expanded in its turn, and so on.
\<close>

lemma expand_without_table:
  assumes "kheap s = Some heap" and "can_grow heap new_size"
    and "dir_table (ram s) (kernel_directory s) (end_address heap div 0x1000 div 1024) = 0"
    and "al 0x1000 1 s = Inl e"
  shows "expand al (heap_length heap + new_size) s = Inl e"
proof -
  note g = grown_size_unat [OF assms(2)]
  let ?old = "unat (heap_length heap)" and ?new = "unat (grown_size heap new_size)"
  have pos: "0 < unat new_size" using assms(2) by (simp add: can_grow_def word_less_nat_alt)
  have a1: "heap_length heap < heap_length heap + new_size"
    using g(2) pos by (simp add: word_less_nat_alt)
  have a2: "grown_end heap new_size \<le> max_address heap"
    using assms(2) g(1,4,5) by (auto simp: can_grow_def word_le_nat_alt)
  have "0 < (?new - ?old + 4095) div 4096" using g(3) pos by (simp add: div_greater_zero_iff)
  then obtain rest where offs: "expand_offsets (heap_length heap) (grown_size heap new_size) = ?old # rest"
    by (simp add: expand_offsets_def upt_conv_Cons)
  have "start_address heap + word_of_nat ?old = end_address heap" by (simp add: heap_length_def)
  then have "expand_page al ?old s = Inl e"
    using assms(1,3,4)
    by (simp add: expand_page_def with_heap_def get_page_def Let_def kmalloc_ap_with_def kmalloc_int_def sizeof_page_table_def)
  then show ?thesis
    using assms(1) a1 a2 offs by (simp add: expand_def with_heap_def grown_size_def [symmetric] Let_def kassert_def)
qed

lemma alloc_without_table:
  assumes heap: "kheap s = Some heap"
    and no_table: "dir_table (ram s) (kernel_directory s) (end_address heap div 0x1000 div 1024) = 0"
    and page: "find_smallest_hole (0x1000 + 12 + 8) 1 heap (ram s) = Inr (- 1)" "can_grow heap (0x1000 + 12 + 8)"
    and "find_smallest_hole (sz + 12 + 8) pa heap (ram s) = Inr (- 1)" and "can_grow heap (sz + 12 + 8)"
  shows "alloc k sz pa s = Inl No_return"
proof -
  have step: "alloc (Suc k) sz pa s = Inl No_return"
    if "find_smallest_hole (sz + 12 + 8) pa heap (ram s) = Inr (- 1)" "can_grow heap (sz + 12 + 8)"
      "alloc k 0x1000 1 s = Inl No_return" for k sz pa
    using expand_without_table [where al = "alloc k", OF heap that(2) no_table that(3)] that(1) heap
    by (simp add: alloc_body_def with_heap_def grow_heap_def Let_def)
  have "alloc k 0x1000 1 s = Inl No_return" for k
    by (induction k) (use step page in simp_all)
  then show ?thesis using step assms(5,6) by (cases k) simp_all
qed

text \<open>C8: Growing the heap serves the request, if the page tables for the new range exist. No hole is large
  enough for the request, the heap ends in a hole that is the first of the index or has no hole at all, and the
  grown heap stays below its maximum. (1) If the new range has its page tables, and they, the kernel's directory and the
  bitmap of a pool with at least 32 frames lie apart from each other and from the heap, and no stale header lies
  behind the new end, then \<open>alloc\<close> expands the heap once and returns after one recursive call: the heap is well laid
  out and ends at the rounded size, the new block lies at the old end (or takes in the hole there), it is large
  enough, and no allocated block changes a byte. (2) If the first new page has no page table and no hole holds a page
  on a page boundary, \<open>alloc\<close> never returns: \<open>get_page\<close> calls \<open>kmalloc_ap\<close>, which expands the same heap again.\<close>
theorem alloc_grows_heap:
  assumes "kheap s = Some heap" and "heap_ok heap (ram s) cs" and "grows_at heap (ram s) us p cs"
    and "\<forall>(q, k, h) \<in> set cs. h \<longrightarrow> k < sz + 20" and "unat sz + 20 < 2 ^ 32" and "can_grow heap (sz + 20)"
  shows "(growth_ready heap (grown_end heap (sz + 20)) s \<and> hdr_magic (ram s) (grown_end heap (sz + 20)) \<noteq> HEAP_MAGIC \<longrightarrow>
      (\<exists>s' heap' cs' k. alloc (Suc (Suc fuel)) sz 0 s = Inr (p + 12, s') \<and> kheap s' = Some heap'
        \<and> heap_ok heap' (ram s') cs' \<and> end_address heap' = grown_end heap (sz + 20)
        \<and> unat sz + 20 \<le> unat k \<and> blocks cs' = insert (p, k) (blocks us)
        \<and> keeps_blocks (blocks us) (ram s) (ram s')))
    \<and> (dir_table (ram s) (kernel_directory s) (end_address heap div 0x1000 div 1024) = 0
        \<and> find_smallest_hole 0x1014 1 heap (ram s) = Inr (- 1) \<and> can_grow heap 0x1014 \<longrightarrow>
        (\<forall>k. alloc k sz 0 s = Inl No_return))"
proof (intro conjI impI allI)
  assume "growth_ready heap (grown_end heap (sz + 20)) s \<and> hdr_magic (ram s) (grown_end heap (sz + 20)) \<noteq> HEAP_MAGIC"
  then show "\<exists>s' heap' cs' k. alloc (Suc (Suc fuel)) sz 0 s = Inr (p + 12, s') \<and> kheap s' = Some heap'
        \<and> heap_ok heap' (ram s') cs' \<and> end_address heap' = grown_end heap (sz + 20)
        \<and> unat sz + 20 \<le> unat k \<and> blocks cs' = insert (p, k) (blocks us)
        \<and> keeps_blocks (blocks us) (ram s) (ram s')"
    using alloc_grow_block [OF assms, of fuel] by blast
next
  fix k
  assume "dir_table (ram s) (kernel_directory s) (end_address heap div 0x1000 div 1024) = 0
        \<and> find_smallest_hole 0x1014 1 heap (ram s) = Inr (- 1) \<and> can_grow heap 0x1014"
  then show "alloc k sz 0 s = Inl No_return"
    using alloc_without_table [OF assms(1), of sz 0 k] find_smallest_hole_none [OF assms(2,4)] assms(6)
    by (simp add: add.assoc)
qed

text \<open>A heap of two pages at 0x400000 with one hole, its page table at 0x200000.\<close>

definition wide_heap :: heap_t where
  "wide_heap = \<lparr>index = \<lparr>oa_array = 0x300000, oa_size = 1, oa_max_size = 0x20,
     less_than = Some header_t_less_than\<rparr>, start_address = 0x400000, end_address = 0x402000,
     max_address = 0x800000, supervisor = 0, readonly = 0\<rparr>"

definition wide_state :: kernel where
  "wide_state = zero_kernel\<lparr>kheap := Some wide_heap, frames := 0x1000, nframes := 32, kernel_directory := 0x100000,
     ram := write32 (set_cell 0x300000 0 0x400000 (layout_mem [(0x400000, 0x2000, True)] (\<lambda>_. 0))) 0x100004 0x200000\<rparr>"

lemma wide_heap_ok:
  "heap_ok wide_heap (ram wide_state) [(0x400000, 0x2000, True)]"
  "oa_list (index wide_heap) (ram wide_state) = [0x400000]" "dir_table (ram wide_state) 0x100000 1 = 0x200000"
  "hdr_magic (ram wide_state) 0x405000 \<noteq> HEAP_MAGIC"
proof -
  let ?l = "layout_mem [(0x400000, 0x2000, True)] (\<lambda>_. 0)" and ?m = "ram wide_state"
  have t: "tiles 0x400000 0x402000 [(0x400000, 0x2000, True)]" by simp
  note lay = layout_mem_ok [OF t, of "\<lambda>_. 0"]
  have ag: "agree_on 0x300004 (2 ^ 32) ?l ?m"
  proof -
    have "agree_on 0x300004 (2 ^ 32) ?l (set_cell 0x300000 0 0x400000 ?l)"
      unfolding set_cell_def by (rule same_outside_agree [OF same_outside_write32]; simp)
    moreover have "agree_on 0x300004 (2 ^ 32) (set_cell 0x300000 0 0x400000 ?l) ?m"
      unfolding wide_state_def kernel.simps screen.simps machine.simps
      by simp (rule same_outside_agree [OF same_outside_write32]; simp)
    ultimately show ?thesis by (rule agree_on_trans)
  qed
  show list: "oa_list (index wide_heap) ?m = [0x400000]"
    by (simp add: wide_state_def wide_heap_def oa_list_def cells_def cell_def set_cell_def)
  show "dir_table ?m 0x100000 1 = 0x200000" by (simp add: wide_state_def dir_table_def)
  have "agree_on 0x400000 0x402000 ?l ?m" using ag by (rule agree_on_mono) auto
  then have ok: "\<forall>c \<in> set [(0x400000, 0x2000, True)]. chunk_ok ?m c"
    using chunks_agree [OF t] lay(1) by (simp del: chunk_ok.simps)
  have "read32 ?m 0x3FFFF8 = read32 ?l 0x3FFFF8" "read32 ?m 0x402000 = read32 ?l 0x402000"
      "read32 ?m 0x405000 = read32 ?l 0x405000"
    by (rule read32_agree [OF ag]; simp)+
  moreover have "read32 ?l 0x3FFFF8 = read32 (\<lambda>_. 0) 0x3FFFF8"
    by (rule read32_agree [where lo = 0 and hi = "0x400000"]) (use lay(2) in auto)
  moreover have "read32 ?l 0x402000 = read32 (\<lambda>_. 0) 0x402000" "read32 ?l 0x405000 = read32 (\<lambda>_. 0) 0x405000"
    by (rule read32_agree [where lo = "0x402000" and hi = "2 ^ 32"]; use lay(3) in auto)+
  moreover have "read32 (\<lambda>_. 0) a = 0" for a by (simp add: read32_def)
  ultimately have z: "read32 ?m 0x3FFFF8 = 0" "read32 ?m 0x402000 = 0" "read32 ?m 0x405000 = 0" by simp_all
  show "hdr_magic ?m 0x405000 \<noteq> HEAP_MAGIC" using z by (simp add: hdr_magic_def HEAP_MAGIC_def)
  have "guarded wide_heap ?m"
    using z by (simp add: guarded_def wide_heap_def ftr_magic_def hdr_magic_def HEAP_MAGIC_def)
  moreover have "index_ok wide_heap" by (simp add: index_ok_def wide_heap_def)
  ultimately show "heap_ok wide_heap ?m [(0x400000, 0x2000, True)]"
    using t ok list by (simp add: heap_ok_def wide_heap_def del: chunk_ok.simps)
qed

text \<open>The same heap with another directory, which has no page tables.\<close>

lemma wide_heap_tableless:
  "dir_table (ram wide_state) 0x180000 1 = 0" "find_smallest_hole 0x1014 1 wide_heap (ram wide_state) = Inr (- 1)"
proof -
  have t: "tiles 0x400000 0x402000 [(0x400000, 0x2000, True)]" by simp
  have "read32 (layout_mem [(0x400000, 0x2000, True)] (\<lambda>_. 0)) 0x180004 = read32 (\<lambda>_. 0) 0x180004"
    by (rule read32_agree [where lo = 0 and hi = "0x400000"]) (use layout_mem_ok(2) [OF t, of "\<lambda>_. 0"] in auto)
  then show "dir_table (ram wide_state) 0x180000 1 = 0"
    by (simp add: wide_state_def dir_table_def set_cell_def read32_write32_nat read32_def [of "\<lambda>_. 0"])
  have sz: "hdr_size (ram wide_state) 0x400000 = 0x2000" using wide_heap_ok(1) by (simp add: heap_ok_def)
  have "lookup_ordered_array 0 (index wide_heap) (ram wide_state) = Inr 0x400000"
    using wide_heap_ok(2) by (simp add: lookup_ordered_array_def oa_list_def cells_def wide_heap_def kassert_def)
  then show "find_smallest_hole 0x1014 1 wide_heap (ram wide_state) = Inr (- 1)"
    by (simp add: find_smallest_hole_def wide_heap_def hole_fits_def sz word_sless_alt word_sle_eq)
qed

theorem alloc_grows_heap_witness:
  "(\<exists>s' heap' cs' k. alloc (Suc (Suc 0)) 0x2000 0 wide_state = Inr (0x40000C, s') \<and> kheap s' = Some heap'
      \<and> heap_ok heap' (ram s') cs' \<and> end_address heap' = 0x405000 \<and> blocks cs' = {(0x400000, k)})
    \<and> (\<forall>n. alloc n 0x2000 0 (wide_state\<lparr>kernel_directory := 0x180000\<rparr>) = Inl No_return)"
proof -
  have e: "grown_end wide_heap (0x2000 + 20) = 0x405000"
    by (simp add: grown_size_def round_page_up_def heap_length_def wide_heap_def)
  have at: "grows_at wide_heap (ram wide_state) [] 0x400000 [(0x400000, 0x2000, True)]"
    using wide_heap_ok(2) by (simp add: grows_at_def)
  have one: "a div 0x1000 div 1024 = 1" if "0x402000 \<le> a" "a < 0x405000" for a :: u32
  proof -
    have "unat (a div 0x1000 div 1024) = unat a div 4194304" by (simp add: unat_div_distrib div_mult2_eq [symmetric])
    moreover have "0x402000 \<le> unat a" "unat a < 0x405000" using that by (simp_all add: word_le_nat_alt word_less_nat_alt)
    then have "unat a div 4194304 = 1" by (intro div_nat_eqI) auto
    ultimately show ?thesis by (simp add: word_unat_eq_iff)
  qed
  have ready: "growth_ready wide_heap (grown_end wide_heap (0x2000 + 20)) wide_state"
    unfolding e using wide_heap_ok(3) one
    by (simp add: growth_ready_def Let_def wide_state_def wide_heap_def pool_ok_def bitmap_room_def frame_limit_def
        INDEX_FROM_BIT_def)
  have h: "kheap wide_state = Some wide_heap" by (simp add: wide_state_def)
  have rest: "\<forall>(q, k, h) \<in> set [(0x400000 :: u32, 0x2000 :: u32, True)]. h \<longrightarrow> k < 0x2000 + 20"
    "unat (0x2000 :: u32) + 20 < 2 ^ 32" "can_grow wide_heap (0x2000 + 20)"
    "hdr_magic (ram wide_state) (grown_end wide_heap (0x2000 + 20)) \<noteq> HEAP_MAGIC"
    using wide_heap_ok(4) e by (simp_all add: can_grow_def wide_heap_def heap_length_def)
  have grows: "\<exists>s' heap' cs' k. alloc (Suc (Suc 0)) 0x2000 0 wide_state = Inr (0x40000C, s') \<and> kheap s' = Some heap'
      \<and> heap_ok heap' (ram s') cs' \<and> end_address heap' = 0x405000 \<and> blocks cs' = {(0x400000, k)}"
    using alloc_grows_heap [OF h wide_heap_ok(1) at rest(1-3), of 0] ready rest(4) unfolding e by auto
  let ?t = "wide_state\<lparr>kernel_directory := 0x180000\<rparr>"
  have ht: "kheap ?t = Some wide_heap" "heap_ok wide_heap (ram ?t) [(0x400000, 0x2000, True)]"
    "grows_at wide_heap (ram ?t) [] 0x400000 [(0x400000, 0x2000, True)]"
    using h wide_heap_ok(1) at by simp_all
  have "end_address wide_heap div 0x1000 div 1024 = 1" "can_grow wide_heap 0x1014"
    by (simp_all add: wide_heap_def can_grow_def heap_length_def)
  then have "alloc n 0x2000 0 ?t = Inl No_return" for n
    using alloc_grows_heap [OF ht rest(1-3)] wide_heap_tableless by simp
  with grows show ?thesis by blast
qed

section \<open>Page aligned blocks\<close>

text \<open>C9: Page aligned allocation. When the first hole of the index can hold a front hole of at least 20 bytes up to the
  next page boundary less one header, the block and a remainder of at least 20 bytes, lies not in the first page, is smaller than 2 GiB,
  and there is room in the index, \<open>alloc\<close> with \<open>page_align = 1\<close>
  returns the address of a page boundary, the block it adds has the requested size with header
  and footer, the heap stays well laid out and no allocated block changes a byte.\<close>
theorem alloc_page_aligned:
  assumes "kheap s = Some heap" and "heap_ok heap (ram s) (us @ (p, n, True) # vs)"
    and "oa_list (index heap) (ram s) = p # ps"
    and "unat p mod 4096 \<le> 4064" and "4096 \<le> unat p"
    and fits: "unat (front_size p) + unat sz + 40 \<le> unat n" and "unat n < 2 ^ 31"
    and "unat (oa_array (index heap)) + 4 * (unat (oa_size (index heap)) + 2) + 8 \<le> unat (start_address heap)"
  shows "\<exists>s' heap' cs' q. alloc (Suc fuel) sz 1 s = Inr (q + 12, s') \<and> unat (q + 12) mod 4096 = 0
    \<and> unat p + 20 \<le> unat q \<and> kheap s' = Some heap' \<and> heap_ok heap' (ram s') cs'
    \<and> blocks cs' = insert (q, sz + 20) (blocks (us @ vs)) \<and> unat (sz + 20) = unat sz + 20
    \<and> keeps_blocks (blocks (us @ vs)) (ram s) (ram s')"
  using alloc_aligned_block [OF assms, of fuel] by (elim exE conjE) (intro exI conjI; assumption)

theorem alloc_page_aligned_witness:
  "\<exists>s' heap' cs' q. alloc (Suc 0) 0x100 1 wide_state = Inr (q + 12, s') \<and> unat (q + 12) mod 4096 = 0
    \<and> kheap s' = Some heap' \<and> heap_ok heap' (ram s') cs' \<and> blocks cs' = {(q, 0x114)}"
proof -
  have h: "kheap wide_state = Some wide_heap" by (simp add: wide_state_def)
  have ok: "heap_ok wide_heap (ram wide_state) ([] @ (0x400000, 0x2000, True) # [])" using wide_heap_ok(1) by simp
  have lim: "unat (0x400000 :: u32) mod 4096 \<le> 4064" "4096 \<le> unat (0x400000 :: u32)"
    "unat (front_size 0x400000) + unat (0x100 :: u32) + 40 \<le> unat (0x2000 :: u32)" "unat (0x2000 :: u32) < 2 ^ 31"
    "unat (oa_array (index wide_heap)) + 4 * (unat (oa_size (index wide_heap)) + 2) + 8 \<le> unat (start_address wide_heap)"
    by (simp_all add: front_size_unat(1) wide_heap_def)
  show ?thesis using alloc_page_aligned [OF h ok wide_heap_ok(2) lim, of 0] by fastforce
qed

section \<open>The search\<close>

text \<open>The search for a hole is a best fit. When the index is in order of size,
  \<open>find_smallest_hole\<close> returns the position of a hole that is large enough, and no hole that
  is large enough is smaller; when no hole is large enough it returns -1.\<close>
theorem find_smallest_hole_best_fit:
  assumes "ordered_by (header_t_less_than m) (oa_list (index heap) m)"
  shows "if \<exists>h \<in> set (oa_list (index heap) m). sz \<le> hdr_size m h
    then \<exists>i < length (oa_list (index heap) m). find_smallest_hole sz 0 heap m = Inr (word_of_nat i)
        \<and> sz \<le> hdr_size m (oa_list (index heap) m ! i)
        \<and> (\<forall>h \<in> set (oa_list (index heap) m). sz \<le> hdr_size m h \<longrightarrow>
             hdr_size m (oa_list (index heap) m ! i) \<le> hdr_size m h)
    else find_smallest_hole sz 0 heap m = Inr (- 1)"
proof -
  let ?xs = "oa_list (index heap) m"
  let ?n = "unat (oa_size (index heap))"
  have len: "length ?xs = ?n" by (simp add: oa_list_def)
  have fit: "hole_fits m sz 0 h \<longleftrightarrow> sz \<le> hdr_size m h" for h by (simp add: hole_fits_def)
  define P where "P i \<longleftrightarrow> i < ?n \<and> sz \<le> hdr_size m (?xs ! i)" for i
  have search: "find_smallest_hole sz 0 heap m = (if \<exists>i. P i then Inr (word_of_nat (LEAST i. P i)) else Inr (- 1))"
    using find_hole_loop_spec [of ?n "index heap" 0 m sz 0] by (simp add: find_smallest_hole_def fit P_def cong: if_cong)
  have ex: "(\<exists>h \<in> set ?xs. sz \<le> hdr_size m h) \<longleftrightarrow> (\<exists>i. P i)"
    by (auto simp: P_def set_conv_nth len)
  show ?thesis
  proof (cases "\<exists>i. P i")
    case True
    define i where "i = (LEAST i. P i)"
    from True have i: "P i" unfolding i_def by (rule LeastI_ex)
    have "hdr_size m (?xs ! i) \<le> hdr_size m h" if h: "h \<in> set ?xs" "sz \<le> hdr_size m h" for h
    proof -
      from h obtain j where j: "P j" "h = ?xs ! j" by (auto simp: P_def in_set_conv_nth len)
      then have "i \<le> j" unfolding i_def by (intro Least_le)
      then show ?thesis
        using assms j len
        by (cases "i = j") (auto simp: ordered_by_def sorted_wrt_iff_nth_less header_t_less_than_def P_def not_less)
    qed
    with True i ex search show ?thesis by (auto simp: P_def len i_def [symmetric])
  next
    case False
    with ex search show ?thesis by auto
  qed
qed

text \<open>Two holes, the first too small for most requests.\<close>

lemma two_holes_ok:
  defines "cs \<equiv> [(0x1000, 0x20, True), (0x1020, 0x40, False), (0x1060, 0xA0, True)]"
  shows "heap_ok (small_heap [0x1000, 0x1060]) (ram (small_state cs [0x1000, 0x1060])) cs"
    and "oa_list (index (small_heap [0x1000, 0x1060])) (ram (small_state cs [0x1000, 0x1060])) = [0x1000, 0x1060]"
    and "kheap (small_state cs [0x1000, 0x1060]) = Some (small_heap [0x1000, 0x1060])"
    and "hdr_size (ram (small_state cs [0x1000, 0x1060])) 0x1000 = 0x20"
    and "hdr_size (ram (small_state cs [0x1000, 0x1060])) 0x1060 = 0xA0"
proof -
  have t: "tiles 0x1000 0x1100 cs" by (simp add: cs_def)
  have "set [0x1000, 0x1060] = hole_starts cs" by (simp add: cs_def)
  then show ok: "heap_ok (small_heap [0x1000, 0x1060]) (ram (small_state cs [0x1000, 0x1060])) cs"
    and "oa_list (index (small_heap [0x1000, 0x1060])) (ram (small_state cs [0x1000, 0x1060])) = [0x1000, 0x1060]"
    and "kheap (small_state cs [0x1000, 0x1060]) = Some (small_heap [0x1000, 0x1060])"
    using small_heap_two [OF t, of "[0x1000, 0x1060]"] by simp_all
  have "\<forall>c \<in> set cs. chunk_ok (ram (small_state cs [0x1000, 0x1060])) c" using ok by (simp add: heap_ok_def)
  then show "hdr_size (ram (small_state cs [0x1000, 0x1060])) 0x1000 = 0x20"
    "hdr_size (ram (small_state cs [0x1000, 0x1060])) 0x1060 = 0xA0"
    by (simp_all add: cs_def)
qed

theorem find_smallest_hole_best_fit_witness:
  "find_smallest_hole 0x50 0 (small_heap [0x1000, 0x1060])
     (ram (small_state [(0x1000, 0x20, True), (0x1020, 0x40, False), (0x1060, 0xA0, True)] [0x1000, 0x1060])) = Inr 1"
proof -
  let ?m = "ram (small_state [(0x1000, 0x20, True), (0x1020, 0x40, False), (0x1060, 0xA0, True)] [0x1000, 0x1060])"
  note h = two_holes_ok(2,4,5)
  have "ordered_by (header_t_less_than ?m) (oa_list (index (small_heap [0x1000, 0x1060])) ?m)"
    unfolding h(1) by (simp add: ordered_by_def header_t_less_than_def h(2,3))
  from find_smallest_hole_best_fit [OF this, where sz = "0x50"]
  have "\<exists>i < length [0x1000, 0x1060 :: u32]. find_smallest_hole 0x50 0 (small_heap [0x1000, 0x1060]) ?m = Inr (word_of_nat i)
      \<and> 0x50 \<le> hdr_size ?m ([0x1000, 0x1060] ! i)"
    unfolding h(1) by (simp add: h(2,3)) blast
  then obtain i where i: "i < 2" "find_smallest_hole 0x50 0 (small_heap [0x1000, 0x1060]) ?m = Inr (word_of_nat i)"
      "0x50 \<le> hdr_size ?m ([0x1000, 0x1060] ! i)"
    by (auto simp: numeral_2_eq_2)
  then have "i = 1" using h(2) by (cases "i = 0") auto
  with i(2) show ?thesis by simp
qed

section \<open>Where the heap does not keep its promise\<close>

lemma u32_last_index: "i < n \<Longrightarrow> n \<le> 2 ^ 30 \<Longrightarrow> unat (- 1 :: u32) \<noteq> i"
  by (simp add: unsigned_minus_1_eq_mask mask_eq_exp_minus_1)

text \<open>The position that the search found is not used. When the first hole of the index is
  too small but a later one is large enough, \<open>alloc\<close> still returns the space behind the
  header of the first hole, although that hole is smaller than the request.\<close>
theorem alloc_ignores_the_search:
  assumes "kheap s = Some heap" and "heap_ok heap (ram s) cs"
    and "oa_list (index heap) (ram s) = p # ps" and "(p, n, True) \<in> set cs" and "unat n < unat sz + 20"
    and "q \<in> set ps" and "(q, k, True) \<in> set cs" and "unat sz + 20 \<le> unat k"
  shows "\<exists>s' i. find_smallest_hole (sz + 20) 0 heap (ram s) = Inr i \<and> i \<noteq> - 1
    \<and> alloc (Suc fuel) sz 0 s = Inr (p + 12, s')"
proof -
  let ?xs = "oa_list (index heap) (ram s)" and ?n = "unat (oa_size (index heap))"
  have sz: "unat (sz + 20) = unat sz + 20"
    using assms(8) unat_u32_less [of k] by (intro unat_add_numeral) simp
  have ck: "hdr_size (ram s) p = n" "hdr_size (ram s) q = k" "20 \<le> unat n"
    using assms(2,4,7) tiles_member(3) [of "unat (start_address heap)" "unat (end_address heap)" cs p n True]
    by (auto simp: heap_ok_def)
  have len: "length ?xs = ?n" by (simp add: oa_list_def)
  obtain j where j: "j < ?n" "?xs ! j = q"
    using assms(3,6) len by (metis in_set_conv_nth list.set_intros(2))
  define P where "P i \<longleftrightarrow> 0 \<le> i \<and> i < ?n \<and> hole_fits (ram s) (sz + 20) 0 (?xs ! i)" for i
  have Pj: "P j" using j ck(2) assms(8) sz by (simp add: P_def hole_fits_def word_le_nat_alt)
  then have "P (LEAST i. P i)" by (rule LeastI)
  then have L: "(LEAST i. P i) < ?n" by (simp add: P_def)
  have found: "find_smallest_hole (sz + 20) 0 heap (ram s) = Inr (word_of_nat (LEAST i. P i))"
    unfolding find_smallest_hole_def find_hole_loop_spec [OF refl le0] P_def [symmetric] using Pj by auto
  have small: "?n \<le> 2 ^ 30"
    using assms(2) unat_u32_less [of "start_address heap"] by (simp add: heap_ok_def index_ok_def)
  have "unat (word_of_nat (LEAST i. P i) :: u32) = (LEAST i. P i)"
    using L small by (simp add: unsigned_of_nat take_bit_nat_eq_self)
  then have ne: "(word_of_nat (LEAST i. P i) :: u32) \<noteq> - 1"
    using u32_last_index [OF L small] by metis
  obtain s' where "take_hole sz (sz + 20) 0 s = Inr (p + 12, s')"
    using take_hole_too_small [OF assms(1) _ assms(3) ck(1,3) assms(5)] assms(2,8) unat_u32_less [of k]
    by (auto simp: heap_ok_def)
  then have "alloc (Suc fuel) sz 0 s = Inr (p + 12, s')"
    using assms(1) found ne by (simp add: alloc_body_def add.assoc)
  with found ne show ?thesis by blast
qed

theorem alloc_ignores_the_search_witness:
  "\<exists>s'. alloc (Suc 0) 0x60 0
     (small_state [(0x1000, 0x20, True), (0x1020, 0x40, False), (0x1060, 0xA0, True)] [0x1000, 0x1060])
     = Inr (0x1000 + 12, s')"
  using alloc_ignores_the_search [OF two_holes_ok(3,1,2), of "0x20" "0x60" "0x1060" "0xA0" 0]
  by (auto simp del: alloc.simps)

text \<open>C34: Merging with the hole on the right leaves a stale footer. When \<open>free\<close> merges a block
  with the hole after it, the header of the merged hole gets the joint size, but the footer
  at its end still names the header of the old hole, so the merged hole is not a well formed
  chunk.\<close>
theorem free_right_merge_stale_footer:
  assumes heap: "kheap s = Some heap"
    and ok: "heap_ok heap (ram s) (us @ (p, n, False) # (r, j, True) # (t, l, False) # vs)"
    and alone: "\<not> (\<exists>us' q k. us = us' @ [(q, k, True)] \<and> ftr_magic (ram s) (p - 8) = HEAP_MAGIC)"
    and foot: "ftr_magic (ram s) (t - 8) = HEAP_MAGIC"
  shows "\<exists>s'. free (p + 12) s = Inr s' \<and> hdr_size (ram s') p = n + j \<and> hdr_is_hole (ram s') p = 1
    \<and> ftr_header (ram s') (p + (n + j) - 8) = r \<and> \<not> chunk_ok (ram s') (p, n + j, True)"
proof -
  from free_right_hole [OF heap ok alone] obtain s' where s':
      "free (p + 12) s = Inr s'" "hdr_size (ram s') p = n + j" "hdr_is_hole (ram s') p = 1" "p + (n + j) = t"
      "ftr_magic (ram s') (t - 8) = ftr_magic (ram s) (t - 8)" "ftr_header (ram s') (t - 8) = ftr_header (ram s) (t - 8)"
    by blast
  have tl: "tiles (unat (start_address heap)) (unat (end_address heap))
      ((us @ [(p, n, False)]) @ (r, j, True) # (t, l, False) # vs)"
    and ck: "chunk_ok (ram s) (r, j, True)"
    using ok by (auto simp: heap_ok_def)
  from tl have u: "unat r = unat p + unat n" "20 \<le> unat n" "unat t = unat r + unat j"
    by (auto simp: tiles_append)
  have "unat (r + j) = unat t"
    using unat_add_small [of r "unat j"] u(3) unat_u32_less [of t] by simp
  then have "r + j = t" by (simp only: word_unat_eq_iff)
  then have "ftr_header (ram s) (t - 8) = r" "r \<noteq> p" using ck foot u(1,2) by auto
  with s' foot show ?thesis by auto
qed

theorem free_right_merge_stale_footer_witness:
  "\<exists>s'. free (0x1000 + 12) (small_state [(0x1000, 0x40, False), (0x1040, 0x40, True), (0x1080, 0x80, False)] [0x1040])
      = Inr s' \<and> \<not> chunk_ok (ram s') (0x1000, 0x80, True)"
proof -
  let ?cs = "[(0x1000, 0x40, False), (0x1040, 0x40, True), (0x1080, 0x80, False)] :: chunk list"
  have t: "tiles 0x1000 0x1100 ?cs" by simp
  have ok: "heap_ok (small_heap [0x1040]) (ram (small_state ?cs [0x1040]))
       ([] @ (0x1000, 0x40, False) # (0x1040, 0x40, True) # (0x1080, 0x80, False) # [])"
    and heap: "kheap (small_state ?cs [0x1040]) = Some (small_heap [0x1040])"
    using small_heap_two [OF t, of "[0x1040]"] by simp_all
  have "ftr_magic (ram (small_state ?cs [0x1040])) (0x1040 + 0x40 - 8) = HEAP_MAGIC"
    by (rule small_state_footer [OF t]) simp_all
  then have foot: "ftr_magic (ram (small_state ?cs [0x1040])) (0x1080 - 8) = HEAP_MAGIC" by simp
  have alone: "\<not> (\<exists>us' q k. [] = us' @ [(q :: u32, k :: u32, True)]
      \<and> ftr_magic (ram (small_state ?cs [0x1040])) (0x1000 - 8) = HEAP_MAGIC)" by simp
  have "(0x40 :: u32) + 0x40 = 0x80" by simp
  with free_right_merge_stale_footer [OF heap ok alone foot] show ?thesis by metis
qed

text \<open>Shrinking cuts the heap to its minimum size by mistake. The code means to round the
  new size up to a page but masks with 0x1000 instead of with 0xFFFFF000, so that whenever
  bit 12 of the requested size is set the heap is cut down to the minimum size of 0x70000
  bytes, however much of it is in use; otherwise the size is left unrounded.\<close>
theorem contract_size_exact:
  "contract_size n = (if bit n 12 then HEAP_MIN_SIZE else if n < HEAP_MIN_SIZE then HEAP_MIN_SIZE else n)"
proof (cases "bit n 12")
  case False
  have "n AND 0x1000 = 0"
  proof (rule bit_word_eqI)
    fix i :: nat
    have "(0x1000 :: u32) = push_bit 12 1" by simp
    then have "bit (0x1000 :: u32) i \<longleftrightarrow> i = 12" by (simp only: bit_push_bit_iff) (auto simp: bit_1_iff)
    then show "bit (n AND 0x1000) i \<longleftrightarrow> bit (0 :: u32) i" using False by (auto simp: bit_and_iff)
  qed
  with False show ?thesis by (simp add: contract_size_def Let_def)
qed (simp add: contract_size_bit_12)

section \<open>The placement allocator\<close>

text \<open>A run of early allocations: each request is a size and whether it is to be page aligned.\<close>

primrec early_allocs ::
    "'a alloc_fn \<Rightarrow> (u32 \<times> bool) list \<Rightarrow> 'a kernel_scheme \<Rightarrow> ((u32 \<times> u32) list \<times> 'a kernel_scheme) result" where
  "early_allocs al [] s = Inr ([], s)"
| "early_allocs al (r # rs) s =
     rbind (kmalloc_int al (fst r) (if snd r then 1 else 0) False s) (\<lambda>(a, _, s1).
     rbind (early_allocs al rs s1) (\<lambda>(bs, s2). Inr ((a, fst r) # bs, s2)))"

definition early_need :: "(u32 \<times> bool) list \<Rightarrow> nat" where
  "early_need rs = (\<Sum>r \<leftarrow> rs. unat (fst r) + 4096)"

lemma early_allocs_run:
  assumes "kheap s = None" and "4096 \<le> unat (placement_address s)"
    and "unat (placement_address s) + early_need rs < 2 ^ 32"
  shows "\<exists>bs s'. early_allocs al rs s = Inr (bs, s') \<and> kheap s' = None \<and> ram s' = ram s
    \<and> map snd bs = map fst rs \<and> sorted_wrt (\<lambda>b c. unat (fst b) + unat (snd b) \<le> unat (fst c)) bs
    \<and> (\<forall>b \<in> set bs. unat (placement_address s) \<le> unat (fst b)
         \<and> unat (fst b) + unat (snd b) \<le> unat (placement_address s'))
    \<and> list_all2 (\<lambda>r b. snd r \<longrightarrow> 4096 dvd unat (fst b)) rs bs
    \<and> unat (placement_address s) \<le> unat (placement_address s')"
  using assms
proof (induction rs arbitrary: s)
  case Nil
  then show ?case by simp
next
  case (Cons r rs)
  let ?al = "if snd r then 1 else 0 :: u32"
  let ?a = "placement_start ?al (placement_address s)"
  let ?s1 = "s\<lparr>placement_address := ?a + fst r\<rparr>"
  have need: "unat (placement_address s) + 4096 + unat (fst r) + early_need rs < 2 ^ 32"
    using Cons.prems(3) by (simp add: early_need_def)
  then have "unat (placement_address s) + 4096 < 2 ^ 32" by simp
  note b = placement_start_bounds [OF this, of ?al]
  have lim: "unat ?a + unat (fst r) < 2 ^ 32" using b(2) need by linarith
  then have p1: "unat (placement_address ?s1) = unat ?a + unat (fst r)"
    using unat_add_small [of ?a "unat (fst r)"] by simp
  have "\<exists>bs s'. early_allocs al rs ?s1 = Inr (bs, s') \<and> kheap s' = None \<and> ram s' = ram ?s1
    \<and> map snd bs = map fst rs \<and> sorted_wrt (\<lambda>b c. unat (fst b) + unat (snd b) \<le> unat (fst c)) bs
    \<and> (\<forall>b \<in> set bs. unat (placement_address ?s1) \<le> unat (fst b)
         \<and> unat (fst b) + unat (snd b) \<le> unat (placement_address s'))
    \<and> list_all2 (\<lambda>r b. snd r \<longrightarrow> 4096 dvd unat (fst b)) rs bs
    \<and> unat (placement_address ?s1) \<le> unat (placement_address s')"
    using p1 b(1,2) need Cons.prems(1,2) by (intro Cons.IH) auto
  then obtain bs s' where r: "early_allocs al rs ?s1 = Inr (bs, s')" "kheap s' = None" "ram s' = ram s"
    "map snd bs = map fst rs" "sorted_wrt (\<lambda>b c. unat (fst b) + unat (snd b) \<le> unat (fst c)) bs"
    "\<forall>b \<in> set bs. unat ?a + unat (fst r) \<le> unat (fst b) \<and> unat (fst b) + unat (snd b) \<le> unat (placement_address s')"
    "list_all2 (\<lambda>r b. snd r \<longrightarrow> 4096 dvd unat (fst b)) rs bs"
    "unat ?a + unat (fst r) \<le> unat (placement_address s')"
    unfolding p1 by auto
  have "early_allocs al (r # rs) s = Inr ((?a, fst r) # bs, s')"
    using Cons.prems(1) r(1) by (simp add: kmalloc_placement_def Let_def)
  moreover have "\<forall>c \<in> set bs. unat (placement_address s) \<le> unat (fst c)" using r(6) b(1) by fastforce
  moreover have "snd r \<longrightarrow> 4096 dvd unat ?a" using b(3) Cons.prems(2) by simp
  ultimately show ?case
    using r b(1) by (intro exI [of _ "(?a, fst r) # bs"] exI [of _ s']) auto
qed

text \<open>C20: Before the heap exists, allocation hands out disjoint, ascending and suitably aligned
  ranges. A run of \<open>kmalloc_int\<close> calls whose requests fit below the end of the address space
  succeeds, touches no memory, and the ranges it returns follow each other without overlap,
  each starting at a page boundary where that was asked for.\<close>
theorem early_allocations_disjoint:
  assumes "kheap s = None" and "4096 \<le> unat (placement_address s)"
    and "unat (placement_address s) + early_need rs < 2 ^ 32"
  shows "\<exists>bs s'. early_allocs al rs s = Inr (bs, s') \<and> ram s' = ram s \<and> map snd bs = map fst rs
    \<and> sorted_wrt (\<lambda>b c. unat (fst b) + unat (snd b) \<le> unat (fst c)) bs
    \<and> list_all2 (\<lambda>r b. snd r \<longrightarrow> 4096 dvd unat (fst b)) rs bs"
  using early_allocs_run [OF assms, of al] by blast

theorem early_allocations_disjoint_witness:
  "\<exists>a b s'. early_allocs (alloc 1) [(0x20, False), (0x1000, True)] (zero_kernel\<lparr>placement_address := 0x12345\<rparr>)
      = Inr ([(a, 0x20), (b, 0x1000)], s') \<and> unat a + 0x20 \<le> unat b \<and> 4096 dvd unat b"
proof -
  let ?s = "zero_kernel\<lparr>placement_address := 0x12345\<rparr>"
  have "kheap ?s = None" "4096 \<le> unat (placement_address ?s)"
    "unat (placement_address ?s) + early_need [(0x20, False), (0x1000, True)] < 2 ^ 32"
    by (simp_all add: early_need_def)
  from early_allocations_disjoint [OF this, of "alloc 1"] obtain bs s' where
    r: "early_allocs (alloc 1) [(0x20, False), (0x1000, True)] ?s = Inr (bs, s')" "map snd bs = [0x20, 0x1000]"
      "sorted_wrt (\<lambda>b c. unat (fst b) + unat (snd b) \<le> unat (fst c)) bs"
      "list_all2 (\<lambda>r b. snd r \<longrightarrow> 4096 dvd unat (fst b)) [(0x20 :: u32, False), (0x1000, True)] bs"
    by auto
  from r(2) obtain a b where "bs = [(a, 0x20), (b, 0x1000)]" by (auto simp: map_eq_Cons_conv)
  with r show ?thesis by auto
qed

section \<open>A new heap\<close>

text \<open>A new heap works. \<open>create_heap\<close> on page aligned bounds succeeds, the heap starts behind
  the index (128 Ki entries, and one page more), and the first request that fits is served
  from its start and leaves a well laid out heap with that block as the only one.\<close>
theorem create_heap_then_alloc:
  fixes start end_addr sz :: u32
  assumes none: "kheap s = None" and al: "unat start mod 4096 = 0" "unat end_addr mod 4096 = 0"
    and room: "unat start + 0x81000 + 20 \<le> unat end_addr" "unat end_addr + 12 \<le> 2 ^ 32"
    and clean: "ftr_magic (ram s) (start + 0x80FF8) \<noteq> HEAP_MAGIC"
      "hdr_magic (ram s) end_addr \<noteq> HEAP_MAGIC" "ftr_magic (ram s) (end_addr - 8) \<noteq> HEAP_MAGIC"
    and fits: "unat start + 0x81000 + unat sz + 20 \<le> unat end_addr"
  shows "\<exists>heap s1 s2 heap2 cs k. create_heap alo start end_addr maxa sv ro s = Inr (heap, s1)
     \<and> start_address heap = start + 0x81000 \<and> end_address heap = end_addr
     \<and> alloc (Suc fuel) sz 0 (s1\<lparr>kheap := Some heap\<rparr>) = Inr (start + 0x81000 + 12, s2)
     \<and> kheap s2 = Some heap2 \<and> heap_ok heap2 (ram s2) cs \<and> blocks cs = {(start + 0x81000, k)} \<and> unat sz + 20 \<le> unat k"
proof -
  let ?p = "start + 0x81000" and ?n = "end_addr - (start + 0x81000)"
  from create_heap_layout [OF none al room clean, of alo maxa sv ro] obtain heap s1 where
    c: "create_heap alo start end_addr maxa sv ro s = Inr (heap, s1)" "start_address heap = ?p"
       "end_address heap = end_addr" "heap_ok heap (ram s1) [(?p, ?n, True)]"
    by blast
  let ?s1 = "s1\<lparr>kheap := Some heap\<rparr>"
  have p: "unat ?p = unat start + 0x81000" using room by (intro unat_add_numeral) simp
  then have "unat ?n = unat end_addr - (unat start + 0x81000)" using room by (simp add: unat_sub_if')
  then have n: "unat sz + 20 \<le> unat ?n" using fits by simp
  have ok: "heap_ok heap (ram ?s1) ([] @ (?p, ?n, True) # [])" using c(4) by simp
  have "distinct (oa_list (index heap) (ram ?s1))" "set (oa_list (index heap) (ram ?s1)) = {?p}"
    using c(4) by (simp_all add: heap_ok_def)
  then have first: "oa_list (index heap) (ram ?s1) = ?p # []" by (rule distinct_single)
  from alloc_layout [OF _ ok first n, of fuel] split_chunk_blocks [OF n, of ?p] c(1-3)
  show ?thesis by fastforce
qed

theorem create_heap_then_alloc_witness:
  "\<exists>heap s1 s2. create_heap (alloc 1) KHEAP_START (KHEAP_START + KHEAP_INITIAL_SIZE) 0xCFFFF000 0 0 zero_kernel = Inr (heap, s1)
     \<and> alloc (Suc 0) 28 0 (s1\<lparr>kheap := Some heap\<rparr>) = Inr (0xC008100C, s2)"
proof -
  have z: "read32 (\<lambda>_. 0) a = 0" for a by (simp add: read32_def)
  have h: "kheap zero_kernel = None" "unat KHEAP_START mod 4096 = 0"
    "unat (KHEAP_START + KHEAP_INITIAL_SIZE) mod 4096 = 0"
    "unat KHEAP_START + 0x81000 + 20 \<le> unat (KHEAP_START + KHEAP_INITIAL_SIZE)"
    "unat (KHEAP_START + KHEAP_INITIAL_SIZE) + 12 \<le> 2 ^ 32"
    "ftr_magic (ram zero_kernel) (KHEAP_START + 0x80FF8) \<noteq> HEAP_MAGIC"
    "hdr_magic (ram zero_kernel) (KHEAP_START + KHEAP_INITIAL_SIZE) \<noteq> HEAP_MAGIC"
    "ftr_magic (ram zero_kernel) (KHEAP_START + KHEAP_INITIAL_SIZE - 8) \<noteq> HEAP_MAGIC"
    "unat KHEAP_START + 0x81000 + unat (28 :: u32) + 20 \<le> unat (KHEAP_START + KHEAP_INITIAL_SIZE)"
    by (simp_all add: heap_consts ftr_magic_def hdr_magic_def z)
  have "KHEAP_START + 0x81000 + 12 = 0xC008100C" by (simp add: KHEAP_START_def)
  with create_heap_then_alloc [OF h, of "alloc 1" "0xCFFFF000" 0 0 0] show ?thesis by metis
qed

end
