(* ===== verification/Heap_Sessions.thy ===== *)
theory Heap_Sessions
  imports Heap_Properties
begin

text \<open>
  The heap in use: the kernel allocates and frees blocks in any order and writes into the blocks it
  holds. A step relation collects the calls together with the contents the kernel put into its
  live blocks.
\<close>

section \<open>Contents of blocks\<close>

lemma bytes_at_agree:
  assumes "agree_on lo hi m m'" and "lo \<le> unat p" and "unat p + length bs \<le> hi" and "unat p + length bs \<le> 2 ^ 32"
  shows "bytes_at m' p bs = bytes_at m p bs"
  using assms(2-)
proof (induction bs arbitrary: p)
  case (Cons b bs)
  have here: "m' p = m p" using assms(1) Cons.prems by (auto simp: agree_on_def)
  show ?case
  proof (cases bs)
    case (Cons c cs)
    then have "unat (p + 1) = unat p + 1" using Cons.prems by (intro unat_add_one) simp
    with here Cons.IH [of "p + 1"] Cons.prems show ?thesis by simp
  qed (simp add: here)
qed simp

lemma bytes_at_exists: "\<exists>bs. length bs = n \<and> bytes_at m p bs"
proof (induction n arbitrary: p)
  case (Suc n)
  obtain bs where "length bs = n" "bytes_at m (p + 1) bs" using Suc by blast
  then show ?case by (intro exI [of _ "m p # bs"]) simp
qed simp

section \<open>Sessions\<close>

text \<open>
  The calls the heap serves: the first hole of the index is large enough, also for a page boundary; or no hole is, and the
  heap can grow by the page tables it has. A block is freed when another block follows it and the index has a free cell.
\<close>

definition first_hole_serves :: "u32 \<Rightarrow> 'a kernel_scheme \<Rightarrow> bool" where
  "first_hole_serves sz s = (case kheap s of None \<Rightarrow> False
     | Some heap \<Rightarrow> (case oa_list (index heap) (ram s) of [] \<Rightarrow> False
         | p # _ \<Rightarrow> unat sz + 20 \<le> unat (hdr_size (ram s) p)))"

definition aligned_hole_serves :: "u32 \<Rightarrow> 'a kernel_scheme \<Rightarrow> bool" where
  "aligned_hole_serves sz s = (case kheap s of None \<Rightarrow> False
     | Some heap \<Rightarrow> (case oa_list (index heap) (ram s) of [] \<Rightarrow> False
         | p # _ \<Rightarrow> unat p mod 4096 \<le> 4064 \<and> 4096 \<le> unat p
             \<and> unat (front_size p) + unat sz + 40 \<le> unat (hdr_size (ram s) p) \<and> unat (hdr_size (ram s) p) < 2 ^ 31
             \<and> unat (oa_array (index heap)) + 4 * (unat (oa_size (index heap)) + 2) + 8 \<le> unat (start_address heap)))"

definition growth_serves :: "u32 \<Rightarrow> 'a kernel_scheme \<Rightarrow> bool" where
  "growth_serves sz s \<longleftrightarrow> (\<exists>heap us p cs. kheap s = Some heap \<and> heap_ok heap (ram s) cs \<and> grows_at heap (ram s) us p cs
     \<and> (\<forall>(q, k, h) \<in> set cs. h \<longrightarrow> k < sz + 20) \<and> unat sz + 20 < 2 ^ 32 \<and> can_grow heap (sz + 20)
     \<and> growth_ready heap (grown_end heap (sz + 20)) s \<and> hdr_magic (ram s) (grown_end heap (sz + 20)) \<noteq> HEAP_MAGIC)"

definition alloc_serves :: "u32 \<Rightarrow> u8 \<Rightarrow> 'a kernel_scheme \<Rightarrow> bool" where
  "alloc_serves sz align s \<longleftrightarrow> align = 0 \<and> (first_hole_serves sz s \<or> growth_serves sz s)
     \<or> align = 1 \<and> aligned_hole_serves sz s"

definition free_serves :: "u32 \<Rightarrow> 'a kernel_scheme \<Rightarrow> bool" where
  "free_serves p s = (case kheap s of None \<Rightarrow> False
     | Some heap \<Rightarrow> (let r = p - 12 + hdr_size (ram s) (p - 12) in
         r \<noteq> end_address heap \<and> hdr_is_hole (ram s) r = 0
         \<and> unat (oa_array (index heap)) + 4 * (unat (oa_size (index heap)) + 2) + 8 \<le> unat (start_address heap)))"

inductive heap_run :: "nat \<Rightarrow> 'a kernel_scheme \<Rightarrow> (u32 \<rightharpoonup> u8 list) \<Rightarrow> 'a kernel_scheme \<Rightarrow> bool" for k s0 where
  start: "heap_run k s0 Map.empty s0"
| alloc: "heap_run k s0 live s \<Longrightarrow> alloc_serves sz align s
    \<Longrightarrow> alloc (Suc (Suc k)) sz align s = Inr (p, s') \<Longrightarrow> length bs = unat sz \<Longrightarrow> bytes_at (ram s') p bs \<Longrightarrow> heap_run k s0 (live(p \<mapsto> bs)) s'"
| free: "heap_run k s0 live s \<Longrightarrow> live p = Some bs \<Longrightarrow> free_serves p s \<Longrightarrow> free p s = Inr s'
    \<Longrightarrow> heap_run k s0 (live(p := None)) s'"
| store: "heap_run k s0 live s \<Longrightarrow> live p = Some bs \<Longrightarrow> same_outside p (length bs) (ram s) m
    \<Longrightarrow> length bs' = length bs \<Longrightarrow> bytes_at m p bs' \<Longrightarrow> heap_run k s0 (live(p \<mapsto> bs')) (s\<lparr>ram := m\<rparr>)"

section \<open>The invariant\<close>

text \<open>Every live block is an allocated block of the layout that is large enough and has kept its contents.\<close>

definition live_ok :: "(u32 \<rightharpoonup> u8 list) \<Rightarrow> mem \<Rightarrow> (u32 \<times> u32) set \<Rightarrow> bool" where
  "live_ok live m B \<longleftrightarrow> (\<forall>p bs. live p = Some bs \<longrightarrow>
     (\<exists>n. (p - 12, n) \<in> B \<and> length bs + 20 \<le> unat n \<and> bytes_at m p bs))"

definition session_ok :: "'a kernel_scheme \<Rightarrow> (u32 \<rightharpoonup> u8 list) \<Rightarrow> bool" where
  "session_ok s live \<longleftrightarrow> (\<exists>heap cs. kheap s = Some heap \<and> heap_ok heap (ram s) cs \<and> live_ok live (ram s) (blocks cs))"

lemma block_split:
  assumes "heap_ok heap m cs" and "(q, n) \<in> blocks cs"
  obtains us vs where "cs = us @ (q, n, False) # vs"
  using assms(2) by (auto simp: blocks_def dest: split_list)

lemma block_region:
  assumes "heap_ok heap m cs" and "(q, n) \<in> blocks cs"
  shows "unat (start_address heap) \<le> unat q" and "unat q + unat n \<le> unat (end_address heap)"
    and "unat (end_address heap) + 12 \<le> 2 ^ 32" and "20 \<le> unat n" and "unat (q + 12) = unat q + 12"
proof -
  obtain us vs where cs: "cs = us @ (q, n, False) # vs" using block_split [OF assms] .
  show r: "unat (start_address heap) \<le> unat q" "unat q + unat n \<le> unat (end_address heap)"
    "unat (end_address heap) + 12 \<le> 2 ^ 32" "20 \<le> unat n"
    using heap_region [OF assms(1) [unfolded cs]] by blast+
  show "unat (q + 12) = unat q + 12" by (rule unat_add_numeral) (use r in simp)
qed

lemma blocks_distinct:
  assumes "heap_ok heap m cs" and "(q, n) \<in> blocks cs" and "(r, k) \<in> blocks cs"
  shows "(q = r \<longrightarrow> n = k) \<and> (q \<noteq> r \<longrightarrow> apart (q, n) (r, k))"
proof -
  obtain us vs where cs: "cs = us @ (q, n, False) # vs" using block_split [OF assms(1,2)] .
  have t: "tiles (unat (start_address heap)) (unat (end_address heap)) (us @ (q, n, False) # vs)"
    using assms(1) by (simp add: heap_ok_def cs)
  have "(r, k) = (q, n) \<or> (r, k) \<in> blocks us \<union> blocks vs" using assms(3) by (auto simp: cs)
  then show ?thesis using blocks_apart [OF t] blocks_fresh [OF t] by blast
qed

lemma live_ok_keeps:
  assumes ok: "heap_ok heap m cs" and live: "live_ok live m (blocks cs)" and B: "B \<subseteq> blocks cs" "keeps_blocks B m m'"
    and sub: "\<forall>p bs n. live p = Some bs \<and> (p - 12, n) \<in> blocks cs \<longrightarrow> (p - 12, n) \<in> B"
  shows "live_ok live m' B"
  unfolding live_ok_def
proof (intro allI impI)
  fix p bs assume l: "live p = Some bs"
  obtain n where n: "(p - 12, n) \<in> blocks cs" "length bs + 20 \<le> unat n" "bytes_at m p bs"
    using live l by (auto simp: live_ok_def)
  note r = block_region [OF ok n(1)]
  have b: "(p - 12, n) \<in> B" using sub l n(1) by blast
  have p: "unat p = unat (p - 12) + 12" using r(5) by simp
  have "agree_on (unat (p - 12)) (unat (p - 12) + unat n) m m'"
    using B(2) b unfolding keeps_blocks_def by blast
  then have "bytes_at m' p bs = bytes_at m p bs"
    by (rule bytes_at_agree) (use p r n(2) in simp_all)
  then show "\<exists>n. (p - 12, n) \<in> B \<and> length bs + 20 \<le> unat n \<and> bytes_at m' p bs" using b n by blast
qed

section \<open>Every call keeps it\<close>

text \<open>Whichever way it is served, an allocation adds one block where no block begins.\<close>

definition adds_block :: "u32 \<Rightarrow> chunk list \<Rightarrow> mem \<Rightarrow> u32 \<Rightarrow> 'a kernel_scheme \<Rightarrow> bool" where
  "adds_block sz cs m p s' \<longleftrightarrow> (\<exists>heap' cs' q j. p = q + 12 \<and> kheap s' = Some heap' \<and> heap_ok heap' (ram s') cs'
     \<and> unat sz + 20 \<le> unat j \<and> blocks cs' = insert (q, j) (blocks cs) \<and> (\<forall>i. (q, i) \<notin> blocks cs)
     \<and> keeps_blocks (blocks cs) m (ram s'))"

lemma first_hole_layout:
  assumes "heap_ok heap m cs" and "oa_list (index heap) m = q # qs"
  obtains n us vs where "hdr_size m q = n" and "cs = us @ (q, n, True) # vs" and "blocks (us @ vs) = blocks cs"
proof -
  obtain n where n: "(q, n, True) \<in> set cs" "hdr_size m q = n"
    by (rule hole_in_chunks [OF assms(1), of q]) (use assms(2) in auto)
  then obtain us vs where "cs = us @ (q, n, True) # vs" by (auto dest: split_list)
  with n(2) that show thesis by simp
qed

lemma adds_first:
  fixes s :: "'a kernel_scheme"
  assumes h: "kheap s = Some heap" "heap_ok heap (ram s) cs" and serves: "first_hole_serves sz s"
  shows "\<exists>p s'. alloc (Suc k) sz 0 s = Inr (p, s') \<and> adds_block sz cs (ram s) p s'"
proof -
  obtain q qs where first: "oa_list (index heap) (ram s) = q # qs" and fits: "unat sz + 20 \<le> unat (hdr_size (ram s) q)"
    using serves h(1) by (auto simp: first_hole_serves_def split: list.splits)
  obtain n us vs where n: "hdr_size (ram s) q = n" "cs = us @ (q, n, True) # vs" "blocks (us @ vs) = blocks cs"
    by (rule first_hole_layout [OF h(2) first])
  have t: "tiles (unat (start_address heap)) (unat (end_address heap)) (us @ (q, n, True) # vs)"
    using h(2) by (simp add: heap_ok_def n(2))
  from alloc_block [OF h(1) h(2) [unfolded n(2)] first fits [unfolded n(1)], of k] obtain s' heap' cs' j where
    a: "alloc (Suc k) sz 0 s = Inr (q + 12, s')" "kheap s' = Some heap'" "heap_ok heap' (ram s') cs'" "unat sz + 20 \<le> unat j"
      "blocks cs' = insert (q, j) (blocks cs)" "keeps_blocks (blocks cs) (ram s) (ram s')"
    unfolding n(3) by blast
  have "(q, i) \<notin> blocks cs" for i using blocks_fresh [OF t, of i] n(3) [symmetric] by simp
  with a show ?thesis unfolding adds_block_def by blast
qed

lemma adds_aligned:
  fixes s :: "'a kernel_scheme"
  assumes h: "kheap s = Some heap" "heap_ok heap (ram s) cs" and serves: "aligned_hole_serves sz s"
  shows "\<exists>p s'. alloc (Suc k) sz 1 s = Inr (p, s') \<and> adds_block sz cs (ram s) p s'"
proof -
  obtain q qs where first: "oa_list (index heap) (ram s) = q # qs"
    and g: "unat q mod 4096 \<le> 4064" "4096 \<le> unat q" "unat (front_size q) + unat sz + 40 \<le> unat (hdr_size (ram s) q)"
      "unat (hdr_size (ram s) q) < 2 ^ 31"
      "unat (oa_array (index heap)) + 4 * (unat (oa_size (index heap)) + 2) + 8 \<le> unat (start_address heap)"
    using serves h(1) by (auto simp: aligned_hole_serves_def split: list.splits)
  obtain n us vs where n: "hdr_size (ram s) q = n" "cs = us @ (q, n, True) # vs" "blocks (us @ vs) = blocks cs"
    by (rule first_hole_layout [OF h(2) first])
  have t: "tiles (unat (start_address heap)) (unat (end_address heap)) (us @ (q, n, True) # vs)"
    using h(2) by (simp add: heap_ok_def n(2))
  from alloc_aligned_block [OF h(1) h(2) [unfolded n(2)] first g(1-3) [unfolded n(1)] g(4) [unfolded n(1)] g(5), of k]
  obtain s' heap' cs' r where
    a: "alloc (Suc k) sz 1 s = Inr (r + 12, s')" "unat q + 20 \<le> unat r" "kheap s' = Some heap'" "heap_ok heap' (ram s') cs'"
      "blocks cs' = insert (r, sz + 20) (blocks cs)" "unat (sz + 20) = unat sz + 20"
      "keeps_blocks (blocks cs) (ram s) (ram s')" "unat r + 20 \<le> unat q + unat n"
    unfolding n(3) by (elim exE conjE)
  have "(r, i) \<notin> blocks cs" for i
  proof
    assume b: "(r, i) \<in> blocks cs"
    then have "apart (q, n) (r, i)" using blocks_apart [OF t, of "(r, i)"] unfolding n(3) [symmetric] by simp
    moreover have "20 \<le> unat i" using block_region(4) [OF h(2) b] .
    ultimately show False using a(2,8) by (auto simp: apart_def)
  qed
  then have "adds_block sz cs (ram s) (r + 12) s'"
    using a unfolding adds_block_def by (intro exI [of _ heap'] exI [of _ cs'] exI [of _ r] exI [of _ "sz + 20"]) simp
  with a(1) show ?thesis by blast
qed

lemma adds_growing:
  fixes s :: "'a kernel_scheme"
  assumes h: "kheap s = Some heap" "heap_ok heap (ram s) cs" and serves: "growth_serves sz s"
  shows "\<exists>p s'. alloc (Suc (Suc k)) sz 0 s = Inr (p, s') \<and> adds_block sz cs (ram s) p s'"
proof -
  obtain us q ds where g: "heap_ok heap (ram s) ds" "grows_at heap (ram s) us q ds"
      "\<forall>(q, k, h) \<in> set ds. h \<longrightarrow> k < sz + 20" "unat sz + 20 < 2 ^ 32" "can_grow heap (sz + 20)"
      "growth_ready heap (grown_end heap (sz + 20)) s" "hdr_magic (ram s) (grown_end heap (sz + 20)) \<noteq> HEAP_MAGIC"
    using serves h(1) unfolding growth_serves_def by auto
  have ds: "ds = cs" by (rule heap_ok_unique [OF g(1) h(2)])
  from alloc_grow_block [OF h(1) g, of k] obtain s' heap' cs' j where
    a: "alloc (Suc (Suc k)) sz 0 s = Inr (q + 12, s')" "kheap s' = Some heap'" "heap_ok heap' (ram s') cs'"
      "unat sz + 20 \<le> unat j" "blocks cs' = insert (q, j) (blocks us)" "keeps_blocks (blocks us) (ram s) (ram s')"
    by blast
  have B: "blocks us = blocks cs" using g(2) by (auto simp: grows_at_def ds)
  have "(q, i) \<notin> blocks cs" for i
  proof
    assume b: "(q, i) \<in> blocks cs"
    note r = block_region [OF h(2) b]
    from g(2) consider n where "cs = us @ [(q, n, True)]" | "q = end_address heap" unfolding grows_at_def ds by blast
    then show False
    proof cases
      case 1
      have "tiles (unat (start_address heap)) (unat (end_address heap)) (us @ (q, n, True) # [])"
        using h(2) by (simp add: heap_ok_def 1)
      from blocks_fresh [OF this, of i] b show False by (simp add: 1)
    next
      case 2
      then show False using r(2,4) by simp
    qed
  qed
  with a show ?thesis unfolding adds_block_def B by blast
qed

lemma alloc_adds:
  fixes s :: "'a kernel_scheme"
  assumes "kheap s = Some heap" and "heap_ok heap (ram s) cs" and "alloc_serves sz align s"
  shows "\<exists>p s'. alloc (Suc (Suc k)) sz align s = Inr (p, s') \<and> adds_block sz cs (ram s) p s'"
  using assms(3) adds_first [OF assms(1,2)] adds_aligned [OF assms(1,2)] adds_growing [OF assms(1,2)]
  unfolding alloc_serves_def by blast

lemma session_alloc:
  fixes s :: "'a kernel_scheme"
  assumes inv: "session_ok s live" and serves: "alloc_serves sz align s"
    and run: "alloc (Suc (Suc k)) sz align s = Inr (p, s')" and bs: "length bs = unat sz" "bytes_at (ram s') p bs"
  shows "session_ok s' (live(p \<mapsto> bs))" and "live p = None"
proof -
  obtain heap cs where h: "kheap s = Some heap" "heap_ok heap (ram s) cs" "live_ok live (ram s) (blocks cs)"
    using inv by (auto simp: session_ok_def)
  obtain heap' cs' q j where
    a: "p = q + 12" "kheap s' = Some heap'" "heap_ok heap' (ram s') cs'" "unat sz + 20 \<le> unat j"
      "blocks cs' = insert (q, j) (blocks cs)" "\<forall>i. (q, i) \<notin> blocks cs" "keeps_blocks (blocks cs) (ram s) (ram s')"
    using alloc_adds [OF h(1,2) serves, of k] run unfolding adds_block_def by auto
  have "live p \<noteq> Some as" for as
  proof
    assume "live p = Some as"
    then obtain i where "(p - 12, i) \<in> blocks cs" using h(3) unfolding live_ok_def by blast
    then show False using a(1,6) by simp
  qed
  then show "live p = None" by (cases "live p") auto
  have old: "live_ok live (ram s') (blocks cs)"
    by (rule live_ok_keeps [OF h(2,3) order_refl a(7)]) blast
  have "live_ok (live(p \<mapsto> bs)) (ram s') (blocks cs')"
    unfolding live_ok_def
  proof (intro allI impI)
    fix r as assume "(live(p \<mapsto> bs)) r = Some as"
    then consider "r = p" "as = bs" | "live r = Some as" by (cases "r = p") auto
    then show "\<exists>i. (r - 12, i) \<in> blocks cs' \<and> length as + 20 \<le> unat i \<and> bytes_at (ram s') r as"
    proof cases
      case 1
      then show ?thesis using a(1,4) bs unfolding a(5) by (intro exI [of _ j]) simp
    next
      case 2
      then show ?thesis using old unfolding live_ok_def a(5) by blast
    qed
  qed
  then show "session_ok s' (live(p \<mapsto> bs))" using a(2,3) unfolding session_ok_def by blast
qed

lemma free_drops:
  fixes s :: "'a kernel_scheme"
  assumes h: "kheap s = Some heap" "heap_ok heap (ram s) cs" and n: "(p - 12, n) \<in> blocks cs" and serves: "free_serves p s"
  shows "\<exists>s' heap' ds. free p s = Inr s' \<and> kheap s' = Some heap' \<and> heap_ok heap' (ram s') ds
    \<and> blocks ds = blocks cs - {(p - 12, n)} \<and> keeps_blocks (blocks ds) (ram s) (ram s')"
proof -
  obtain us ws where cs: "cs = us @ (p - 12, n, False) # ws" using block_split [OF h(2) n] .
  have tiles: "tiles (unat (start_address heap)) (unat (end_address heap)) cs" and ch: "\<forall>c \<in> set cs. chunk_ok (ram s) c"
    using h(2) by (simp_all add: heap_ok_def)
  have size: "hdr_size (ram s) (p - 12) = n" using ch by (simp add: cs)
  have g: "p - 12 + n \<noteq> end_address heap" "hdr_is_hole (ram s) (p - 12 + n) = 0"
    "unat (oa_array (index heap)) + 4 * (unat (oa_size (index heap)) + 2) + 8 \<le> unat (start_address heap)"
    using serves h(1) size by (simp_all add: free_serves_def Let_def)
  note r = block_region [OF h(2) n]
  have next_addr: "unat (p - 12 + n) = unat (p - 12) + unat n" by (rule unat_plus) (use r(2,3) in simp)
  obtain b where t: "tiles b (unat (end_address heap)) ((p - 12, n, False) # ws)" using tiles unfolding cs tiles_append by blast
  have ne: "ws \<noteq> []"
  proof
    assume "ws = []"
    then have "unat (p - 12 + n) = unat (end_address heap)" using t next_addr by simp
    then show False using g(1) by (simp add: word_unat_eq_iff)
  qed
  then obtain q j hl vs where ws: "ws = (q, j, hl) # vs" by (metis list.exhaust prod_cases3)
  have "unat q = unat (p - 12 + n)" using t next_addr by (simp add: ws)
  then have q: "q = p - 12 + n" by (simp only: word_unat_eq_iff)
  have hl: "\<not> hl" using ch g(2) q by (auto simp: cs ws split: if_splits)
  have cs': "cs = us @ (p - 12, n, False) # (q, j, False) # vs" using hl by (simp add: cs ws)
  from free_block [OF h(1) h(2) [unfolded cs'] g(3)] show ?thesis unfolding cs' [symmetric] by simp
qed

lemma session_free:
  fixes s :: "'a kernel_scheme"
  assumes inv: "session_ok s live" and p: "live p = Some bs" and serves: "free_serves p s"
  shows "\<exists>s'. free p s = Inr s' \<and> session_ok s' (live(p := None))"
proof -
  obtain heap cs where h: "kheap s = Some heap" "heap_ok heap (ram s) cs" "live_ok live (ram s) (blocks cs)"
    using inv by (auto simp: session_ok_def)
  obtain n where n: "(p - 12, n) \<in> blocks cs" using h(3) p by (auto simp: live_ok_def)
  obtain s' heap' cs'' where
    f: "kheap s' = Some heap'" "heap_ok heap' (ram s') cs''" "blocks cs'' = blocks cs - {(p - 12, n)}"
      "keeps_blocks (blocks cs'') (ram s) (ram s')" "free p s = Inr s'"
    using free_drops [OF h(1,2) n serves] by blast
  have "live_ok (live(p := None)) (ram s) (blocks cs)" using h(3) by (auto simp: live_ok_def)
  moreover have "(a - 12, i) \<in> blocks cs''" if "(live(p := None)) a = Some as" "(a - 12, i) \<in> blocks cs" for a as i
    using that f(3) by (auto split: if_splits)
  ultimately have "live_ok (live(p := None)) (ram s') (blocks cs'')"
    using f(3) by (intro live_ok_keeps [OF h(2) _ _ f(4)]) auto
  then show ?thesis using f(1,2,5) unfolding session_ok_def by blast
qed

lemma session_write:
  fixes s :: "'a kernel_scheme"
  assumes inv: "session_ok s live" and p: "live p = Some bs" and w: "same_outside p (length bs) (ram s) m"
    and bs': "length bs' = length bs" "bytes_at m p bs'"
  shows "session_ok (s\<lparr>ram := m\<rparr>) (live(p \<mapsto> bs'))"
proof -
  obtain heap cs where h: "kheap s = Some heap" "heap_ok heap (ram s) cs" "live_ok live (ram s) (blocks cs)"
    using inv by (auto simp: session_ok_def)
  obtain n where n: "(p - 12, n) \<in> blocks cs" "length bs + 20 \<le> unat n" using h(3) p by (auto simp: live_ok_def)
  obtain us vs where cs: "cs = us @ (p - 12, n, False) # vs" using block_split [OF h(2) n(1)] .
  note r = block_region [OF h(2) n(1)]
  have a: "unat p = unat (p - 12) + 12" using r(5) by simp
  have "heap_ok heap m cs"
    unfolding cs by (rule heap_ok_payload [OF h(2) [unfolded cs] w]) (use a n(2) in simp_all)
  moreover have "live_ok (live(p \<mapsto> bs')) m (blocks cs)"
    unfolding live_ok_def
  proof (intro allI impI)
    fix q as assume l: "(live(p \<mapsto> bs')) q = Some as"
    show "\<exists>k. (q - 12, k) \<in> blocks cs \<and> length as + 20 \<le> unat k \<and> bytes_at m q as"
    proof (cases "q = p")
      case True
      then show ?thesis using l n bs' by auto
    next
      case False
      then obtain k where k: "(q - 12, k) \<in> blocks cs" "length as + 20 \<le> unat k" "bytes_at (ram s) q as"
        using l h(3) by (auto simp: live_ok_def)
      note rk = block_region [OF h(2) k(1)]
      have aq: "unat q = unat (q - 12) + 12" using rk(5) by simp
      have "q - 12 \<noteq> p - 12" using False by simp
      then have "apart (q - 12, k) (p - 12, n)" using blocks_distinct [OF h(2) k(1) n(1)] by blast
      then have sep: "unat q + length as \<le> unat p \<or> unat p + length bs \<le> unat q"
        using aq a k(2) n(2) by (auto simp: apart_def)
      have "agree_on (unat q) (unat q + length as) (ram s) m"
        by (rule same_outside_agree [OF w]) (use sep in auto)
      then have "bytes_at m q as = bytes_at (ram s) q as"
        by (rule bytes_at_agree) (use aq k(2) rk in simp_all)
      then show ?thesis using k by blast
    qed
  qed
  ultimately show ?thesis using h(1) unfolding session_ok_def by auto
qed

lemma session_run:
  assumes "heap_run k s0 live s" and "session_ok s0 Map.empty"
  shows "session_ok s live"
  using assms
proof (induction rule: heap_run.induct)
  case (alloc live s sz align p s' bs)
  then show ?case using session_alloc(1) by blast
next
  case (free live s p bs s')
  have "session_ok s live" using free.IH free.prems by blast
  from session_free [OF this free.hyps(2,3)] obtain s1 where
    s1: "free p s = Inr s1" "session_ok s1 (live(p := None))" by blast
  have "s1 = s'" using s1(1) free.hyps(4) by simp
  with s1(2) show ?case by (simp only:)
next
  case (store live s p bs m bs')
  then show ?case using session_write by blast
qed

text \<open>C1: The heap keeps what is put into it. Starting from a well laid out heap, let the kernel
  allocate blocks, page aligned or not, free them, and write within the blocks it holds, in any order, where a request is served
  from the first hole or by growing the heap into pages that have page tables, and a block that is freed is followed by another allocated
  block, with room in the index. Then the heap stays well laid out, every block that has been
  allocated and not freed lies inside the heap and still holds the last bytes that were written to
  it, no two of them overlap. Every further call that the heap serves returns, and a block it gives was not in use.\<close>
theorem heap_run_keeps_contents:
  assumes "heap_run k s0 live s" and "kheap s0 = Some heap0" and "heap_ok heap0 (ram s0) cs0"
  shows "\<exists>heap cs. kheap s = Some heap \<and> heap_ok heap (ram s) cs
    \<and> (\<forall>p bs. live p = Some bs \<longrightarrow> bytes_at (ram s) p bs
         \<and> unat (start_address heap) + 12 \<le> unat p \<and> unat p + length bs + 8 \<le> unat (end_address heap))
    \<and> (\<forall>p q bs ds. live p = Some bs \<and> live q = Some ds \<and> p \<noteq> q
         \<longrightarrow> unat p + length bs \<le> unat q \<or> unat q + length ds \<le> unat p)
    \<and> (\<forall>sz align. alloc_serves sz align s \<longrightarrow> (\<exists>p s'. alloc (Suc (Suc k)) sz align s = Inr (p, s') \<and> live p = None))
    \<and> (\<forall>p bs. live p = Some bs \<and> free_serves p s \<longrightarrow> (\<exists>s'. free p s = Inr s'))"
proof -
  have "session_ok s0 Map.empty" using assms(2,3) by (auto simp: session_ok_def live_ok_def)
  then have inv: "session_ok s live" by (rule session_run [OF assms(1)])
  then obtain heap cs where h: "kheap s = Some heap" "heap_ok heap (ram s) cs" "live_ok live (ram s) (blocks cs)"
    by (auto simp: session_ok_def)
  have block: "\<exists>n. (p - 12, n) \<in> blocks cs \<and> length bs + 20 \<le> unat n \<and> bytes_at (ram s) p bs \<and> unat p = unat (p - 12) + 12
      \<and> unat (start_address heap) \<le> unat (p - 12) \<and> unat (p - 12) + unat n \<le> unat (end_address heap)"
    if l: "live p = Some bs" for p bs
  proof -
    obtain n where n: "(p - 12, n) \<in> blocks cs" "length bs + 20 \<le> unat n" "bytes_at (ram s) p bs"
      using h(3) l by (auto simp: live_ok_def)
    then show ?thesis using block_region [OF h(2) n(1)] by auto
  qed
  have inside: "bytes_at (ram s) p bs \<and> unat (start_address heap) + 12 \<le> unat p \<and> unat p + length bs + 8 \<le> unat (end_address heap)"
    if "live p = Some bs" for p bs using block [OF that] by auto
  have sep: "unat p + length bs \<le> unat q \<or> unat q + length as \<le> unat p"
    if l: "live p = Some bs" "live q = Some as" "p \<noteq> q" for p q bs as
  proof -
    obtain n j where n: "(p - 12, n) \<in> blocks cs" "length bs + 20 \<le> unat n" "unat p = unat (p - 12) + 12"
      and j: "(q - 12, j) \<in> blocks cs" "length as + 20 \<le> unat j" "unat q = unat (q - 12) + 12"
      using block [OF l(1)] block [OF l(2)] by blast
    have "p - 12 \<noteq> q - 12" using l(3) by simp
    then have "apart (p - 12, n) (q - 12, j)" using blocks_distinct [OF h(2) n(1) j(1)] by blast
    then show ?thesis using n(2,3) j(2,3) by (auto simp: apart_def)
  qed
  have fresh: "\<exists>p s'. alloc (Suc (Suc k)) sz align s = Inr (p, s') \<and> live p = None" if served: "alloc_serves sz align s" for sz align
  proof -
    obtain p s' where r: "alloc (Suc (Suc k)) sz align s = Inr (p, s')" using alloc_adds [OF h(1,2) served] by blast
    obtain bs where "length bs = unat sz" "bytes_at (ram s') p bs" using bytes_at_exists by blast
    with r session_alloc(2) [OF inv served r] show ?thesis by blast
  qed
  have freed: "\<exists>s'. free p s = Inr s'" if "live p = Some bs" "free_serves p s" for p bs
    using session_free [OF inv that] by blast
  from h(1,2) inside sep fresh freed show ?thesis by blast
qed

text \<open>One hole between two blocks: 16 bytes are allocated there and filled.\<close>

theorem heap_run_keeps_contents_witness:
  "\<exists>live s. heap_run 0 (small_state [(0x1000, 0x40, False), (0x1040, 0x40, True), (0x1080, 0x80, False)] [0x1040]) live s
    \<and> live 0x104C = Some (replicate 16 0xAA) \<and> bytes_at (ram s) 0x104C (replicate 16 0xAA)"
proof -
  let ?cs = "[(0x1000, 0x40, False), (0x1040, 0x40, True), (0x1080, 0x80, False)] :: chunk list"
  let ?s = "small_state ?cs [0x1040]" and ?bs = "replicate 16 0xAA :: u8 list"
  have t: "tiles 0x1000 0x1100 ?cs" by simp
  have h: "heap_ok (small_heap [0x1040]) (ram ?s) ([(0x1000, 0x40, False)] @ (0x1040, 0x40, True) # [(0x1080, 0x80, False)])"
      "oa_list (index (small_heap [0x1040])) (ram ?s) = 0x1040 # []" "kheap ?s = Some (small_heap [0x1040])"
    using small_heap_two [OF t, of "[0x1040]"] by simp_all
  have fit: "unat (16 :: u32) + 20 \<le> unat (0x40 :: u32)" by simp
  from alloc_block [OF h(3,1,2) fit, of 1] obtain s' where
    a: "alloc (Suc 1) 16 0 ?s = Inr (0x1040 + 12, s')" by blast
  have "chunk_ok (ram ?s) (0x1040, 0x40, True)" using h(1) by (simp add: heap_ok_def del: chunk_ok.simps)
  then have serves: "alloc_serves 16 0 ?s" using h(2,3) by (simp add: alloc_serves_def first_hole_serves_def)
  obtain as where as: "length as = 16" "bytes_at (ram s') 0x104C as" using bytes_at_exists by blast
  have run: "heap_run 0 ?s (Map.empty(0x104C \<mapsto> as)) s'"
    by (rule heap_run.alloc [OF heap_run.start serves _ _ as(2)]) (use a as(1) in simp_all)
  let ?m = "\<lambda>b. if in_region 0x104C 16 b then 0xAA else ram s' b"
  have w: "same_outside 0x104C (length as) (ram s') ?m" using as(1) by (simp add: same_outside_def)
  have "replicate 16 (0xAA :: u8) = [0xAA, 0xAA, 0xAA, 0xAA, 0xAA, 0xAA, 0xAA, 0xAA, 0xAA, 0xAA, 0xAA, 0xAA, 0xAA, 0xAA, 0xAA, 0xAA]"
    by (simp add: numeral_eq_Suc)
  then have b: "bytes_at ?m 0x104C ?bs" by (simp add: in_region_def)
  let ?live = "(Map.empty(0x104C \<mapsto> as))(0x104C \<mapsto> ?bs)"
  have full: "heap_run 0 ?s ?live (s'\<lparr>ram := ?m\<rparr>)"
    by (rule heap_run.store [OF run _ w _ b]) (use as(1) in simp_all)
  from heap_run_keeps_contents [OF full h(3,1)]
  have "\<forall>p bs. ?live p = Some bs \<longrightarrow> bytes_at (ram (s'\<lparr>ram := ?m\<rparr>)) p bs" by blast
  moreover have l: "?live 0x104C = Some ?bs" by (rule fun_upd_same)
  ultimately have "bytes_at (ram (s'\<lparr>ram := ?m\<rparr>)) 0x104C ?bs" by blast
  with full l show ?thesis by (intro exI conjI)
qed

end
