(* ===== verification/Page_Tables.thy ===== *)
theory Page_Tables
  imports Paging_Init Heap_Layout
begin

text \<open>
  Address spaces: what a page directory in memory means to the processor, when it is well formed,
  and what a new table and a new entry change. The last part follows the mapping loops of
  \<open>initialise_paging\<close>, which run while memory still comes from the placement allocator.
\<close>

section \<open>Reading and writing directories\<close>

lemma dir_addr:
  fixes dir :: u32
  assumes "unat dir + 8196 \<le> 2 ^ 32" and "i < 1024"
  shows "unat (dir + 4 * word_of_nat i) = unat dir + 4 * i"
    and "unat (dir + 4096 + 4 * word_of_nat i) = unat dir + 4096 + 4 * i"
proof -
  show "unat (dir + 4 * word_of_nat i) = unat dir + 4 * i" using assms by (intro unat_cell_addr) simp
  have d: "unat (dir + 4096) = unat dir + 4096" using assms by (intro unat_add_numeral) simp
  show "unat (dir + 4096 + 4 * word_of_nat i) = unat dir + 4096 + 4 * i"
    using unat_cell_addr [of "dir + 4096" i] assms d by simp
qed

lemma set_dir_frame:
  assumes "unat dir + 8196 \<le> 2 ^ 32" and "i < 1024"
  shows "same_outside dir 8196 m (set_dir_table dir (word_of_nat i) v m)"
    and "same_outside dir 8196 m (set_dir_physical dir (word_of_nat i) v m)"
  unfolding set_dir_table_def set_dir_physical_def
  by (rule same_outside_mono [OF same_outside_write32]; simp only: dir_addr [OF assms]; use assms in linarith)+

lemma dir_table_set:
  assumes "unat dir + 8196 \<le> 2 ^ 32" and "i < 1024" and "j < 1024"
  shows "dir_table (set_dir_table dir (word_of_nat i) v m) dir (word_of_nat j)
      = (if i = j then v else dir_table m dir (word_of_nat j))"
    and "dir_table (set_dir_physical dir (word_of_nat i) v m) dir (word_of_nat j) = dir_table m dir (word_of_nat j)"
    and "dir_physical (set_dir_physical dir (word_of_nat i) v m) dir (word_of_nat j)
      = (if i = j then v else dir_physical m dir (word_of_nat j))"
    and "dir_physical (set_dir_table dir (word_of_nat i) v m) dir (word_of_nat j) = dir_physical m dir (word_of_nat j)"
proof -
  note a = dir_addr [OF assms(1,2)] dir_addr [OF assms(1,3)]
  have sep: "read32 (write32 m p v) q = read32 m q"
    if "unat p + 4 \<le> unat q \<or> unat q + 4 \<le> unat p" "unat p + 4 \<le> 2 ^ 32" "unat q + 4 \<le> 2 ^ 32" for p q
    using that by (rule read32_write32_nat)
  show "dir_table (set_dir_table dir (word_of_nat i) v m) dir (word_of_nat j)
      = (if i = j then v else dir_table m dir (word_of_nat j))"
  proof (cases "i = j")
    case False
    have "read32 (write32 m (dir + 4 * word_of_nat i) v) (dir + 4 * word_of_nat j) = read32 m (dir + 4 * word_of_nat j)"
      by (rule sep; simp only: a; use assms False in linarith)
    with False show ?thesis by (simp add: set_dir_table_def dir_table_def)
  qed (simp add: set_dir_table_def dir_table_def)
  show "dir_physical (set_dir_physical dir (word_of_nat i) v m) dir (word_of_nat j)
      = (if i = j then v else dir_physical m dir (word_of_nat j))"
  proof (cases "i = j")
    case False
    have "read32 (write32 m (dir + 4096 + 4 * word_of_nat i) v) (dir + 4096 + 4 * word_of_nat j)
        = read32 m (dir + 4096 + 4 * word_of_nat j)"
      by (rule sep; simp only: a; use assms False in linarith)
    with False show ?thesis by (simp add: set_dir_physical_def dir_physical_def)
  qed (simp add: set_dir_physical_def dir_physical_def)
  show "dir_table (set_dir_physical dir (word_of_nat i) v m) dir (word_of_nat j) = dir_table m dir (word_of_nat j)"
    unfolding set_dir_physical_def dir_table_def by (rule sep; simp only: a; use assms in linarith)
  show "dir_physical (set_dir_table dir (word_of_nat i) v m) dir (word_of_nat j) = dir_physical m dir (word_of_nat j)"
    unfolding set_dir_table_def dir_physical_def by (rule sep; simp only: a; use assms in linarith)
qed

lemma dir_same_outside:
  assumes "same_outside a n m m'" and "unat dir + 8196 \<le> unat a \<or> unat a + n \<le> unat dir"
    and "unat dir + 8196 \<le> 2 ^ 32" and "i < 1024"
  shows "dir_table m' dir (word_of_nat i) = dir_table m dir (word_of_nat i)"
    and "dir_physical m' dir (word_of_nat i) = dir_physical m dir (word_of_nat i)"
  unfolding dir_table_def dir_physical_def
  by (rule read32_same_outside [OF assms(1)]; simp only: dir_addr [OF assms(3,4)]; use assms(2-4) in linarith)+

lemma read32_memset_0:
  assumes "unat a + unat n \<le> 2 ^ 32" and "unat a \<le> unat p" and "unat p + 4 \<le> unat a + unat n"
  shows "read32 (memset m a 0 n) p = 0"
proof -
  have in_r: "x - a < n" if "unat a \<le> unat x" "unat x < unat a + unat n" for x
    using that assms(1) by (simp add: word_less_nat_alt unat_sub_if')
  have "unat (p + 1) = unat p + 1" "unat (p + 2) = unat p + 2" "unat (p + 3) = unat p + 3"
    using assms by (simp_all add: unat_add_numeral unat_add_one)
  then show ?thesis using in_r assms(2,3) by (simp add: read32_def memset_def)
qed

lemma table_index:
  fixes address :: u32
  shows "unat (address div 0x1000 div 1024) < 1024"
    and "\<exists>i < 1024. address div 0x1000 div 1024 = word_of_nat i"
proof -
  have "unat address div 4096 div 1024 < 1024"
    using unat_u32_less [of address] by (simp add: less_mult_imp_div_less)
  then show 1: "unat (address div 0x1000 div 1024) < 1024" by (simp add: unat_div_distrib)
  then show "\<exists>i < 1024. address div 0x1000 div 1024 = word_of_nat i"
    by (intro exI [of _ "unat (address div 0x1000 div 1024)"]) simp
qed

section \<open>A new table\<close>

definition new_table :: "u32 \<Rightarrow> u32 \<Rightarrow> u32 \<Rightarrow> u32 \<Rightarrow> mem \<Rightarrow> mem" where
  "new_table dir i tbl phys m =
     set_dir_physical dir i (phys OR 7) (memset (set_dir_table dir i tbl m) tbl 0 0x1000)"

lemma new_table_fields:
  assumes room: "unat tbl + 4096 \<le> 2 ^ 32" "unat dir + 8196 \<le> 2 ^ 32"
    and sep: "unat tbl + 4096 \<le> unat dir \<or> unat dir + 8196 \<le> unat tbl" and i: "i < 1024" and j: "j < 1024"
  shows "dir_table (new_table dir (word_of_nat i) tbl phys m) dir (word_of_nat j)
      = (if i = j then tbl else dir_table m dir (word_of_nat j))"
    and "dir_physical (new_table dir (word_of_nat i) tbl phys m) dir (word_of_nat j)
      = (if i = j then phys OR 7 else dir_physical m dir (word_of_nat j))"
    and "read32 (new_table dir (word_of_nat i) tbl phys m) (tbl + 4 * word_of_nat j) = 0"
proof -
  note set = dir_table_set [OF room(2) i j]
  let ?m2 = "set_dir_table dir (word_of_nat i) tbl m"
  have "same_outside tbl (unat (0x1000 :: u32)) ?m2 (memset ?m2 tbl 0 0x1000)"
    by (rule same_outside_memset) (use room(1) in simp)
  then have f: "same_outside tbl 4096 ?m2 (memset ?m2 tbl 0 0x1000)" by simp
  have sep': "unat dir + 8196 \<le> unat tbl \<or> unat tbl + 4096 \<le> unat dir" using sep by blast
  note same = dir_same_outside [OF f sep' room(2) j]
  show "dir_table (new_table dir (word_of_nat i) tbl phys m) dir (word_of_nat j)
      = (if i = j then tbl else dir_table m dir (word_of_nat j))"
    "dir_physical (new_table dir (word_of_nat i) tbl phys m) dir (word_of_nat j)
      = (if i = j then phys OR 7 else dir_physical m dir (word_of_nat j))"
    unfolding new_table_def set(2,3) same set(1,4) by simp_all
  have a: "unat (tbl + 4 * word_of_nat j) = unat tbl + 4 * j" using room(1) j by (intro unat_cell_addr) simp
  have "read32 (new_table dir (word_of_nat i) tbl phys m) (tbl + 4 * word_of_nat j)
      = read32 (memset ?m2 tbl 0 0x1000) (tbl + 4 * word_of_nat j)"
    unfolding new_table_def
    by (rule read32_same_outside [OF set_dir_frame(2) [OF room(2) i]]; simp only: a; use room sep j in linarith)
  also have "\<dots> = 0" by (rule read32_memset_0) (use a room(1) j in simp_all)
  finally show "read32 (new_table dir (word_of_nat i) tbl phys m) (tbl + 4 * word_of_nat j) = 0" .
qed

lemma new_table_other:
  assumes "unat tbl + 4096 \<le> 2 ^ 32" "unat dir + 8196 \<le> 2 ^ 32" "i < 1024"
    and "unat q + 4 \<le> 2 ^ 32" and "unat q + 4 \<le> unat dir \<or> unat dir + 8196 \<le> unat q"
    and "unat q + 4 \<le> unat tbl \<or> unat tbl + 4096 \<le> unat q"
  shows "read32 (new_table dir (word_of_nat i) tbl phys m) q = read32 m q"
proof -
  let ?m2 = "set_dir_table dir (word_of_nat i) tbl m"
  have "same_outside tbl (unat (0x1000 :: u32)) ?m2 (memset ?m2 tbl 0 0x1000)"
    by (rule same_outside_memset) (use assms(1) in simp)
  then have "same_outside tbl 4096 ?m2 (memset ?m2 tbl 0 0x1000)" by simp
  from read32_same_outside [OF this assms(6,4)]
    read32_same_outside [OF set_dir_frame(1) [OF assms(2,3)] assms(5,4)]
    read32_same_outside [OF set_dir_frame(2) [OF assms(2,3)] assms(5,4)]
  show ?thesis by (simp add: new_table_def)
qed

lemma get_page_new:
  assumes missing: "dir_table (ram s) dir (word_of_nat i) = 0" and i: "address div 0x1000 div 1024 = word_of_nat i" "i < 1024"
    and al: "al sizeof_page_table s = Inr (tbl, phys, s1)"
    and room: "unat tbl + 4096 \<le> 2 ^ 32" "unat dir + 8196 \<le> 2 ^ 32"
    and sep: "unat tbl + 4096 \<le> unat dir \<or> unat dir + 8196 \<le> unat tbl"
  shows "get_page al address True dir s
    = Inr (tbl + 4 * (address div 0x1000 mod 1024), upd_ram (new_table dir (word_of_nat i) tbl phys) s1)"
proof -
  note set = dir_table_set(1) [OF room(2) i(2) i(2)]
  have "dir_table (new_table dir (word_of_nat i) tbl phys (ram s1)) dir (word_of_nat i) = tbl"
    using new_table_fields(1) [OF room sep i(2) i(2)] by simp
  then show ?thesis
    using missing al i(1) set by (simp add: get_page_def Let_def new_table_def upd_ram_def)
qed

lemma get_page_known:
  assumes "dir_table (ram s) dir (address div 0x1000 div 1024) \<noteq> 0"
  shows "get_page al address mk dir s
    = Inr (dir_table (ram s) dir (address div 0x1000 div 1024) + 4 * (address div 0x1000 mod 1024), s)"
  using assms by (simp add: get_page_def Let_def)

section \<open>Address spaces\<close>

text \<open>
  Pages are numbered by the upper 20 bits of their addresses. \<open>pte\<close> is the entry of a page as the
  kernel finds it through the pointers of the directory, 0 where there is no table; \<open>translate\<close>
  is what the processor does: it reads the physical addresses that lie behind the pointers, and
  masks the access bits. Both the tables and the directory lie where virtual and physical
  addresses agree.
\<close>

definition tbl_of :: "mem \<Rightarrow> u32 \<Rightarrow> nat \<Rightarrow> u32" where
  "tbl_of m dir v = dir_table m dir (word_of_nat (v div 1024))"

definition pte_addr :: "mem \<Rightarrow> u32 \<Rightarrow> nat \<Rightarrow> u32" where
  "pte_addr m dir v = tbl_of m dir v + 4 * word_of_nat (v mod 1024)"

definition pte :: "mem \<Rightarrow> u32 \<Rightarrow> nat \<Rightarrow> u32" where
  "pte m dir v = (if tbl_of m dir v = 0 then 0 else read32 m (pte_addr m dir v))"

definition translate :: "mem \<Rightarrow> u32 \<Rightarrow> nat \<Rightarrow> (u32 \<times> bool \<times> bool) option" where
  "translate m dir v =
     (let pde = dir_physical m dir (word_of_nat (v div 1024));
          e = read32 m ((pde AND 0xFFFFF000) + 4 * word_of_nat (v mod 1024))
      in if bit pde 0 \<and> pg_present e
         then Some (pg_frame e, bit pde 1 \<and> pg_rw e, bit pde 2 \<and> pg_user e) else None)"

text \<open>
  A well formed address space: its tables lie between \<open>lo\<close> and \<open>hi\<close>, apart from the directory, each
  on pages of its own; the physical address of a table is its address, with the access bits for
  everything; and an entry is either present or zero.
\<close>

definition slot_ok :: "mem \<Rightarrow> u32 \<Rightarrow> nat \<Rightarrow> nat \<Rightarrow> nat \<Rightarrow> bool" where
  "slot_ok m dir lo hi i \<longleftrightarrow>
     (let t = dir_table m dir (word_of_nat i); p = dir_physical m dir (word_of_nat i)
      in if t = 0 then p = 0
         else unat t mod 4096 = 0 \<and> lo \<le> unat t \<and> unat t + 4096 \<le> hi \<and> p = t OR 7)"

definition space_ok :: "mem \<Rightarrow> u32 \<Rightarrow> nat \<Rightarrow> nat \<Rightarrow> bool" where
  "space_ok m dir lo hi \<longleftrightarrow> unat dir + 8196 \<le> 2 ^ 32 \<and> hi \<le> 2 ^ 32 \<and> (unat dir + 8196 \<le> lo \<or> hi \<le> unat dir)
     \<and> (\<forall>i < 1024. slot_ok m dir lo hi i)
     \<and> (\<forall>i < 1024. \<forall>j < 1024. i \<noteq> j \<and> dir_table m dir (word_of_nat i) \<noteq> 0 \<longrightarrow>
          dir_table m dir (word_of_nat i) \<noteq> dir_table m dir (word_of_nat j))
     \<and> (\<forall>v < 2 ^ 20. pg_present (pte m dir v) \<or> pte m dir v = 0)"

lemma page_div: "v < 2 ^ 20 \<Longrightarrow> v div 1024 < (1024 :: nat)"
  by (simp add: less_mult_imp_div_less)

lemma tbl_range:
  assumes "space_ok m dir lo hi" and "v < 2 ^ 20" and "tbl_of m dir v \<noteq> 0"
  shows "unat (tbl_of m dir v) mod 4096 = 0" and "lo \<le> unat (tbl_of m dir v)"
    and "unat (tbl_of m dir v) + 4096 \<le> hi" and "hi \<le> 2 ^ 32"
    and "unat (pte_addr m dir v) = unat (tbl_of m dir v) + 4 * (v mod 1024)"
    and "dir_physical m dir (word_of_nat (v div 1024)) = tbl_of m dir v OR 7"
proof -
  have "slot_ok m dir lo hi (v div 1024)" using assms(1) page_div [OF assms(2)] by (simp add: space_ok_def)
  then show t: "unat (tbl_of m dir v) mod 4096 = 0" "lo \<le> unat (tbl_of m dir v)" "unat (tbl_of m dir v) + 4096 \<le> hi"
    "dir_physical m dir (word_of_nat (v div 1024)) = tbl_of m dir v OR 7"
    using assms(3) by (simp_all add: slot_ok_def tbl_of_def Let_def)
  show hi: "hi \<le> 2 ^ 32" using assms(1) by (simp add: space_ok_def)
  have "4 * (v mod 1024) < 4096" by simp
  then show "unat (pte_addr m dir v) = unat (tbl_of m dir v) + 4 * (v mod 1024)"
    unfolding pte_addr_def using t(3) hi by (intro unat_cell_addr) linarith
qed

lemma aligned_flags:
  fixes t :: u32
  assumes "unat t mod 4096 = 0"
  shows "(t OR 7) AND 0xFFFFF000 = t" and "bit (t OR 7) 0" "bit (t OR 7) 1" "bit (t OR 7) 2"
proof -
  have low: "\<not> bit t n" if "n < 12" for n
  proof -
    have "take_bit 12 t = 0" using assms by (simp add: take_bit_eq_mod word_unat_eq_iff unat_mod_distrib)
    then have "\<not> bit (take_bit 12 t) n" by simp
    then show ?thesis using that by (simp add: bit_simps)
  qed
  have seven: "bit (7 :: u32) n \<longleftrightarrow> n < 3" for n
  proof -
    have "(7 :: u32) = mask 3" by (simp add: mask_eq_exp_minus_1)
    then show ?thesis by (simp only: bit_mask_iff) auto
  qed
  have flag: "bit (t OR 7) n \<longleftrightarrow> bit t n \<or> n < 3" for n by (simp only: bit_or_iff seven)
  have high: "n < 32 \<and> (\<not> n < 12) \<longleftrightarrow> bit (NOT (mask 12) :: u32) n" for n by (auto simp: bit_simps)
  show "(t OR 7) AND 0xFFFFF000 = t" unfolding page_mask
  proof (rule bit_word_eqI)
    fix n assume "n < LENGTH(32)"
    then show "bit ((t OR 7) AND NOT (mask 12)) n \<longleftrightarrow> bit t n"
      using low [of n] high [of n] unfolding bit_and_iff flag by auto
  qed
  show "bit (t OR 7) 0" "bit (t OR 7) 1" "bit (t OR 7) 2" by (simp_all only: flag) simp_all
qed

text \<open>In a well formed address space the processor and the kernel read the same entries.\<close>

lemma translate_pte:
  assumes "space_ok m dir lo hi" and "v < 2 ^ 20"
  shows "translate m dir v = (let e = pte m dir v in if pg_present e then Some (pg_frame e, pg_rw e, pg_user e) else None)"
proof (cases "tbl_of m dir v = 0")
  case True
  have "slot_ok m dir lo hi (v div 1024)" using assms(1) page_div [OF assms(2)] by (simp add: space_ok_def)
  then have "dir_physical m dir (word_of_nat (v div 1024)) = 0" using True by (simp add: slot_ok_def tbl_of_def Let_def)
  then show ?thesis using True by (simp add: translate_def pte_def Let_def pg_present_def)
next
  case False
  note t = tbl_range [OF assms False]
  show ?thesis unfolding translate_def t(6) aligned_flags(1) [OF t(1)] Let_def
    using aligned_flags(2-4) [OF t(1)] False by (simp add: pte_def pte_addr_def)
qed

text \<open>Two pages have entries that do not overlap.\<close>

lemma pte_addr_apart:
  assumes "space_ok m dir lo hi" and "v < 2 ^ 20" "w < 2 ^ 20" and "v \<noteq> w"
    and "tbl_of m dir v \<noteq> 0" "tbl_of m dir w \<noteq> 0"
  shows "off_page (pte_addr m dir v) (pte_addr m dir w)"
proof -
  note tv = tbl_range [OF assms(1,2,5)] and tw = tbl_range [OF assms(1,3,6)]
  have m: "v mod 1024 < 1024" "w mod 1024 < 1024" by simp_all
  have end_w: "unat (pte_addr m dir w) + 4 \<le> 2 ^ 32" unfolding tw(5) using tw(3,4) m(2) by linarith
  show ?thesis
  proof (cases "v div 1024 = w div 1024")
    case True
    then have "v mod 1024 \<noteq> w mod 1024" using assms(4) by (metis div_mult_mod_eq)
    moreover have "tbl_of m dir v = tbl_of m dir w" using True by (simp add: tbl_of_def)
    ultimately show ?thesis using end_w tv(5) tw(5) unfolding off_page_def by auto
  next
    case False
    then have "tbl_of m dir v \<noteq> tbl_of m dir w"
      using assms(1,5) page_div [OF assms(2)] page_div [OF assms(3)] by (simp add: space_ok_def tbl_of_def)
    then have ne: "unat (tbl_of m dir v) \<noteq> unat (tbl_of m dir w)" by (simp add: word_unat_eq_iff)
    obtain a b where ab: "unat (tbl_of m dir v) = 4096 * a" "unat (tbl_of m dir w) = 4096 * b"
      using tv(1) tw(1) by (metis mod_0_imp_dvd dvdE)
    then have "a + 1 \<le> b \<or> b + 1 \<le> a" using ne by auto
    then have "4096 * a + 4096 \<le> 4096 * b \<or> 4096 * b + 4096 \<le> 4096 * a" by auto
    then show ?thesis using end_w m unfolding off_page_def tv(5) tw(5) ab by linarith
  qed
qed

section \<open>Changes to an address space\<close>

definition in_space :: "u32 \<Rightarrow> nat \<Rightarrow> nat \<Rightarrow> u32 \<Rightarrow> bool" where
  "in_space dir lo hi q \<longleftrightarrow> (unat dir \<le> unat q \<and> unat q + 4 \<le> unat dir + 8196) \<or> (lo \<le> unat q \<and> unat q + 4 \<le> hi)"

lemma dir_in_space:
  assumes "unat dir + 8196 \<le> 2 ^ 32" and "i < 1024"
  shows "in_space dir lo hi (dir + 4 * word_of_nat i)" "in_space dir lo hi (dir + 4096 + 4 * word_of_nat i)"
  using assms(2) by (simp_all add: in_space_def dir_addr [OF assms])

lemma pte_in_space:
  assumes "space_ok m dir lo hi" and "v < 2 ^ 20" and "tbl_of m dir v \<noteq> 0"
  shows "in_space dir lo hi (pte_addr m dir v)" "unat (pte_addr m dir v) + 4 \<le> 2 ^ 32"
    and "unat (pte_addr m dir v) + 4 \<le> unat dir \<or> unat dir + 8196 \<le> unat (pte_addr m dir v)"
proof -
  note t = tbl_range [OF assms]
  have "v mod 1024 < 1024" by simp
  then have p: "lo \<le> unat (pte_addr m dir v)" "unat (pte_addr m dir v) + 4 \<le> hi" unfolding t(5) using t(2,3) by linarith+
  then show "in_space dir lo hi (pte_addr m dir v)" "unat (pte_addr m dir v) + 4 \<le> 2 ^ 32"
    using t(4) by (auto simp: in_space_def)
  have "unat dir + 8196 \<le> lo \<or> hi \<le> unat dir" using assms(1) by (simp add: space_ok_def)
  with p show "unat (pte_addr m dir v) + 4 \<le> unat dir \<or> unat dir + 8196 \<le> unat (pte_addr m dir v)" by linarith
qed

lemma space_ok_new_table:
  assumes ok: "space_ok m dir lo hi" and i: "i < 1024" and missing: "dir_table m dir (word_of_nat i) = 0"
    and tbl: "unat tbl mod 4096 = 0" "hi \<le> unat tbl" "lo \<le> unat tbl" "unat tbl + 4096 \<le> hi'" "hi' \<le> 2 ^ 32" "tbl \<noteq> 0"
    and dir: "unat dir + 8196 \<le> lo"
  shows "space_ok (new_table dir (word_of_nat i) tbl tbl m) dir lo hi'"
    and "v < 2 ^ 20 \<Longrightarrow> pte (new_table dir (word_of_nat i) tbl tbl m) dir v = pte m dir v"
proof -
  let ?m' = "new_table dir (word_of_nat i) tbl tbl m"
  have room: "unat tbl + 4096 \<le> 2 ^ 32" "unat dir + 8196 \<le> 2 ^ 32" using tbl(4,5) ok by (simp_all add: space_ok_def)
  have sep: "unat tbl + 4096 \<le> unat dir \<or> unat dir + 8196 \<le> unat tbl" using tbl(3) dir by simp
  note f = new_table_fields [OF room sep i]
  have lohi: "hi \<le> hi'" using tbl(2,4) by simp
  have pte: "pte ?m' dir v = pte m dir v" if v: "v < 2 ^ 20" for v
  proof (cases "v div 1024 = i")
    case True
    have "tbl_of ?m' dir v = tbl" "tbl_of m dir v = 0" using f(1) [OF i] missing True by (simp_all add: tbl_of_def)
    then show ?thesis using f(3) [of "v mod 1024"] tbl(6) by (simp add: pte_def pte_addr_def)
  next
    case False
    then have t: "tbl_of ?m' dir v = tbl_of m dir v" using f(1) [OF page_div [OF v]] by (simp add: tbl_of_def)
    then have a: "pte_addr ?m' dir v = pte_addr m dir v" by (simp add: pte_addr_def)
    show ?thesis
    proof (cases "tbl_of m dir v = 0")
      case nz: False
      note r = tbl_range [OF ok v nz]
      have "v mod 1024 < 1024" by simp
      then have "unat (pte_addr m dir v) + 4 \<le> unat tbl" unfolding r(5) using r(3) tbl(2) by linarith
      then have "read32 ?m' (pte_addr m dir v) = read32 m (pte_addr m dir v)"
        by (intro new_table_other [OF room i] pte_in_space [OF ok v nz] disjI1)
      then show ?thesis using t a by (simp add: pte_def)
    qed (simp add: pte_def t)
  qed
  show "v < 2 ^ 20 \<Longrightarrow> pte ?m' dir v = pte m dir v" by (rule pte)
  have "slot_ok ?m' dir lo hi' j" if j: "j < 1024" for j
  proof (cases "j = i")
    case True
    then show ?thesis using f(1,2) [OF i] tbl by (simp add: slot_ok_def Let_def)
  next
    case False
    have "slot_ok m dir lo hi j" using ok j by (simp add: space_ok_def)
    then show ?thesis using f(1,2) [OF j] False lohi by (auto simp: slot_ok_def Let_def)
  qed
  moreover have "dir_table ?m' dir (word_of_nat j) \<noteq> dir_table ?m' dir (word_of_nat k)"
    if jk: "j < 1024" "k < 1024" "j \<noteq> k" and nz: "dir_table ?m' dir (word_of_nat j) \<noteq> 0" for j k
  proof -
    have old: "dir_table m dir (word_of_nat l) \<noteq> tbl" if "l < 1024" for l
    proof -
      have "slot_ok m dir lo hi l" using ok that by (simp add: space_ok_def)
      then show ?thesis using tbl(2,6) by (auto simp: slot_ok_def Let_def split: if_splits)
    qed
    have inj: "dir_table m dir (word_of_nat j) \<noteq> 0 \<Longrightarrow> dir_table m dir (word_of_nat j) \<noteq> dir_table m dir (word_of_nat k)"
      using ok jk by (simp add: space_ok_def)
    show ?thesis using f(1) [OF jk(1)] f(1) [OF jk(2)] old [OF jk(1)] old [OF jk(2)] inj nz jk(3) by (auto split: if_splits)
  qed
  moreover have "pg_present (pte ?m' dir v) \<or> pte ?m' dir v = 0" if "v < 2 ^ 20" for v
    using pte [OF that] ok that by (simp add: space_ok_def)
  ultimately show "space_ok ?m' dir lo hi'" using room dir tbl(5) unfolding space_ok_def by blast
qed

lemma space_ok_entry:
  assumes ok: "space_ok m dir lo hi" and v: "v < 2 ^ 20" and tbl: "tbl_of m dir v \<noteq> 0"
    and entry: "read32 m' (pte_addr m dir v) = e" "pg_present e"
    and others: "\<forall>q. unat q + 4 \<le> 2 ^ 32 \<and> in_space dir lo hi q \<and> off_page (pte_addr m dir v) q \<longrightarrow> read32 m' q = read32 m q"
  shows "space_ok m' dir lo hi" and "w < 2 ^ 20 \<Longrightarrow> pte m' dir w = (if w = v then e else pte m dir w)"
    and "i < 1024 \<Longrightarrow> dir_table m' dir (word_of_nat i) = dir_table m dir (word_of_nat i)"
proof -
  have other: "read32 m' q = read32 m q" if "unat q + 4 \<le> 2 ^ 32" "in_space dir lo hi q" "off_page (pte_addr m dir v) q" for q
    using others that by blast
  have room: "unat dir + 8196 \<le> 2 ^ 32" using ok by (simp add: space_ok_def)
  note p = pte_in_space [OF ok v tbl]
  have d: "dir_table m' dir (word_of_nat i) = dir_table m dir (word_of_nat i)"
    "dir_physical m' dir (word_of_nat i) = dir_physical m dir (word_of_nat i)" if i: "i < 1024" for i
  proof -
    note a = dir_addr [OF room i] and q = dir_in_space [OF room i, of lo hi]
    have "off_page (pte_addr m dir v) (dir + 4 * word_of_nat i)" "off_page (pte_addr m dir v) (dir + 4096 + 4 * word_of_nat i)"
      unfolding off_page_def a using p(3) room i by linarith+
    then show "dir_table m' dir (word_of_nat i) = dir_table m dir (word_of_nat i)"
      "dir_physical m' dir (word_of_nat i) = dir_physical m dir (word_of_nat i)"
      unfolding dir_table_def dir_physical_def using q other a room i by simp_all
  qed
  then show "i < 1024 \<Longrightarrow> dir_table m' dir (word_of_nat i) = dir_table m dir (word_of_nat i)" by blast
  have t: "tbl_of m' dir w = tbl_of m dir w" "pte_addr m' dir w = pte_addr m dir w" if "w < 2 ^ 20" for w
    using d(1) [OF page_div [OF that]] by (simp_all add: tbl_of_def pte_addr_def)
  have pte: "pte m' dir w = (if w = v then e else pte m dir w)" if w: "w < 2 ^ 20" for w
  proof (cases "w = v \<or> tbl_of m dir w = 0")
    case True
    then show ?thesis using t [OF w] entry(1) tbl by (auto simp: pte_def)
  next
    case False
    then have nz: "tbl_of m dir w \<noteq> 0" and ne: "v \<noteq> w" by auto
    have "read32 m' (pte_addr m dir w) = read32 m (pte_addr m dir w)"
      by (rule other [OF pte_in_space(2,1) [OF ok w nz]]) (rule pte_addr_apart [OF ok v w ne tbl nz])
    then show ?thesis using t [OF w] ne by (simp add: pte_def)
  qed
  then show "w < 2 ^ 20 \<Longrightarrow> pte m' dir w = (if w = v then e else pte m dir w)" by blast
  have "\<forall>i < 1024. slot_ok m' dir lo hi i" using ok d by (simp add: space_ok_def slot_ok_def)
  moreover have "\<forall>i < 1024. \<forall>j < 1024. i \<noteq> j \<and> dir_table m' dir (word_of_nat i) \<noteq> 0 \<longrightarrow>
      dir_table m' dir (word_of_nat i) \<noteq> dir_table m' dir (word_of_nat j)"
    using ok d(1) by (simp add: space_ok_def)
  moreover have "\<forall>w < 2 ^ 20. pg_present (pte m' dir w) \<or> pte m' dir w = 0"
    using ok pte entry(2) by (simp add: space_ok_def)
  ultimately show "space_ok m' dir lo hi" using ok unfolding space_ok_def by blast
qed

section \<open>Mapping before the heap exists\<close>

text \<open>
  While memory comes from the placement allocator everything lies in this order: the frame bitmap,
  the kernel's directory, its tables, the placement address.
\<close>

definition early_ok :: "'a kernel_scheme \<Rightarrow> bool" where
  "early_ok s \<longleftrightarrow> kheap s = None \<and> pool_ok s
     \<and> unat (frames s) + 4 * unat (INDEX_FROM_BIT (nframes s)) \<le> unat (kernel_directory s)
     \<and> unat (kernel_directory s) + 8196 \<le> unat (placement_address s)
     \<and> space_ok (ram s) (kernel_directory s) (unat (kernel_directory s) + 8196) (unat (placement_address s))"

text \<open>What such steps keep: the globals, and the memory above the placement address.\<close>

definition early_step :: "'a kernel_scheme \<Rightarrow> 'a kernel_scheme \<Rightarrow> bool" where
  "early_step s s' \<longleftrightarrow> frames s' = frames s \<and> nframes s' = nframes s \<and> kernel_directory s' = kernel_directory s
     \<and> unat (placement_address s) \<le> unat (placement_address s')
     \<and> (\<forall>q. unat (placement_address s') \<le> unat q \<and> unat q + 4 \<le> 2 ^ 32 \<longrightarrow> read32 (ram s') q = read32 (ram s) q)"

lemma early_step_refl: "early_step s s"
  by (simp add: early_step_def)

lemma early_step_trans: "early_step s s' \<Longrightarrow> early_step s' s'' \<Longrightarrow> early_step s s''"
  by (auto simp: early_step_def)

lemma early_step_limit: "early_step s s' \<Longrightarrow> frame_limit s' = frame_limit s"
  by (simp add: early_step_def frame_limit_def)

text \<open>The slots of the directory that have a table.\<close>

definition table_slots :: "mem \<Rightarrow> u32 \<Rightarrow> nat set" where
  "table_slots m dir = {i. i < 1024 \<and> dir_table m dir (word_of_nat i) \<noteq> 0}"

lemma finite_table_slots [simp]: "finite (table_slots m dir)"
  by (simp add: table_slots_def)

definition page_addr :: "nat \<Rightarrow> u32" where
  "page_addr v = word_of_nat v * 0x1000"

lemma page_addr_index:
  assumes "v < 2 ^ 20"
  shows "page_addr v div 0x1000 div 1024 = word_of_nat (v div 1024)" and "page_addr v div 0x1000 mod 1024 = word_of_nat (v mod 1024)"
proof -
  have p: "page_addr v div 0x1000 = word_of_nat v" unfolding page_addr_def by (rule frame_number_of_address [OF assms])
  have s: "v < 2 ^ 32" "v div 1024 < 2 ^ 32" "v mod 1024 < 2 ^ 32" using assms by (simp_all add: less_mult_imp_div_less)
  show "page_addr v div 0x1000 div 1024 = word_of_nat (v div 1024)" "page_addr v div 0x1000 mod 1024 = word_of_nat (v mod 1024)"
    unfolding p using s
    by (simp_all add: word_unat_eq_iff unat_div_distrib unat_mod_distrib unsigned_of_nat take_bit_nat_eq_self)
qed

text \<open>
  The pages \<open>vs\<close> have tables after the steps, no other table is new, and every new table has moved
  the placement address by at most two pages.
\<close>

definition tables_grow :: "'a kernel_scheme \<Rightarrow> 'a kernel_scheme \<Rightarrow> nat set \<Rightarrow> bool" where
  "tables_grow s s' vs \<longleftrightarrow>
     table_slots (ram s') (kernel_directory s) = table_slots (ram s) (kernel_directory s) \<union> (\<lambda>v. v div 1024) ` vs
     \<and> unat (placement_address s') + 8192 * card (table_slots (ram s) (kernel_directory s))
         \<le> unat (placement_address s) + 8192 * card (table_slots (ram s') (kernel_directory s))"

lemma tables_grow_refl: "tables_grow s s {}"
  by (simp add: tables_grow_def)

lemma tables_grow_trans:
  "tables_grow s s1 vs \<Longrightarrow> tables_grow s1 s' ws \<Longrightarrow> kernel_directory s1 = kernel_directory s
    \<Longrightarrow> tables_grow s s' (vs \<union> ws)"
  by (auto simp: tables_grow_def image_Un)

lemma kmalloc_ap_early:
  "kheap s = None \<Longrightarrow> kmalloc_ap k sz s = Inr (placement_start 1 (placement_address s), placement_start 1 (placement_address s),
     s\<lparr>placement_address := placement_start 1 (placement_address s) + sz\<rparr>)"
  by (simp add: kmalloc_ap_def kmalloc_placement_def Let_def)

lemma early_make:
  fixes s :: "'a kernel_scheme"
  assumes ok: "early_ok s" and v: "v < 2 ^ 20" and room: "unat (placement_address s) + 8192 < 2 ^ 32"
  shows "\<exists>s'. get_page (kmalloc_ap k) (page_addr v) True (kernel_directory s) s = Inr (pte_addr (ram s') (kernel_directory s) v, s')
    \<and> early_ok s' \<and> early_step s s' \<and> tbl_of (ram s') (kernel_directory s) v \<noteq> 0
    \<and> (\<forall>w < 2 ^ 20. pte (ram s') (kernel_directory s) w = pte (ram s) (kernel_directory s) w)
    \<and> (\<forall>g < frame_limit s. frame_used s' g = frame_used s g)
    \<and> unat (placement_address s') \<le> unat (placement_address s) + 8192
    \<and> tables_grow s s' {v}"
proof -
  let ?kd = "kernel_directory s" and ?p = "placement_address s" and ?i = "v div 1024"
  note idx = page_addr_index [OF v] and i = page_div [OF v]
  have e: "kheap s = None" "pool_ok s" "unat (frames s) + 4 * unat (INDEX_FROM_BIT (nframes s)) \<le> unat ?kd"
    "unat ?kd + 8196 \<le> unat ?p" "space_ok (ram s) ?kd (unat ?kd + 8196) (unat ?p)"
    using ok by (simp_all add: early_ok_def)
  show ?thesis
  proof (cases "tbl_of (ram s) ?kd v = 0")
    case False
    then have "get_page (kmalloc_ap k) (page_addr v) True ?kd s = Inr (pte_addr (ram s) ?kd v, s)"
      using get_page_known [of s ?kd "page_addr v" "kmalloc_ap k" True] unfolding idx tbl_of_def pte_addr_def by simp
    moreover have "tables_grow s s {v}"
      using False i by (auto simp: tables_grow_def table_slots_def tbl_of_def)
    ultimately show ?thesis using ok False by (intro exI [of _ s]) (simp add: early_step_refl)
  next
    case True
    let ?t = "placement_start 1 ?p"
    let ?s1 = "s\<lparr>placement_address := ?t + sizeof_page_table\<rparr>"
    let ?s' = "upd_ram (new_table ?kd (word_of_nat ?i) ?t ?t) ?s1"
    have "unat ?p + 4096 < 2 ^ 32" using room by simp
    note t = placement_start_bounds [OF this, of 1]
    have al: "4096 dvd unat ?t" using t(3) e(4) by simp
    have u: "unat (?t + sizeof_page_table) = unat ?t + 4096"
      unfolding sizeof_page_table_def by (rule unat_add_numeral) (use t(2) room in simp)
    have lim: "unat ?t mod 4096 = 0" "unat ?t + 4096 \<le> 2 ^ 32" "?t \<noteq> 0" "unat ?kd + 8196 \<le> unat ?t"
      using al t e(4) room by (auto simp: word_unat_eq_iff)
    have dir: "unat ?kd + 8196 \<le> 2 ^ 32" using e(5) by (simp add: space_ok_def)
    have sep: "unat ?t + 4096 \<le> unat ?kd \<or> unat ?kd + 8196 \<le> unat ?t" using lim(4) by simp
    have missing: "dir_table (ram s) ?kd (word_of_nat ?i) = 0" using True by (simp add: tbl_of_def)
    have run: "get_page (kmalloc_ap k) (page_addr v) True ?kd s = Inr (?t + 4 * word_of_nat (v mod 1024), ?s')"
      using get_page_new [where al = "kmalloc_ap k", OF missing idx(1) i kmalloc_ap_early [OF e(1)] lim(2) dir sep]
      unfolding idx(2) .
    have hi: "unat ?t + 4096 \<le> unat ?t + 4096" by simp
    note sp = space_ok_new_table [OF e(5) i missing lim(1) t(1) lim(4) hi lim(2,3) order_refl]
    have tb: "tbl_of (ram ?s') ?kd v = ?t"
      using new_table_fields(1) [OF lim(2) dir sep i i, of ?t "ram s"] by (simp add: tbl_of_def upd_ram_def)
    have "dir_table (ram ?s') ?kd (word_of_nat j) = (if j = ?i then ?t else dir_table (ram s) ?kd (word_of_nat j))"
      if "j < 1024" for j
      using new_table_fields(1) [OF lim(2) dir sep i that, of ?t "ram s"] by (simp add: upd_ram_def)
    then have tabs: "table_slots (ram ?s') ?kd = insert ?i (table_slots (ram s) ?kd)" and "?i \<notin> table_slots (ram s) ?kd"
      using lim(3) i missing by (auto simp: table_slots_def split: if_splits)
    then have grow: "tables_grow s ?s' {v}" using u t(2) by (simp add: tables_grow_def upd_ram_def)
    have ok': "early_ok ?s'"
      using e u lim(4) sp(1) by (simp add: early_ok_def upd_ram_def pool_ok_def bitmap_room_def)
    have other: "read32 (ram ?s') q = read32 (ram s) q"
      if "unat q + 4 \<le> 2 ^ 32" "unat q + 4 \<le> unat ?kd \<or> unat ?t + 4096 \<le> unat q" for q
      using new_table_other [OF lim(2) dir i, of q ?t "ram s"] that lim(4) by (auto simp: upd_ram_def)
    have step: "early_step s ?s'"
      using other u t(1) by (simp add: early_step_def upd_ram_def)
    have used: "frame_used ?s' g = frame_used s g" if g: "g < frame_limit s" for g
    proof -
      have w: "g div 32 < unat (INDEX_FROM_BIT (nframes s))" using g by (auto simp: frame_limit_def)
      have "read32 (ram ?s') (frames s + 4 * word_of_nat (g div 32)) = read32 (ram s) (frames s + 4 * word_of_nat (g div 32))"
        by (rule other) (use frame_word_addr [OF e(2) w] w e(3) dir in linarith)+
      then show ?thesis by (simp add: frame_used_def frame_word_def upd_ram_def)
    qed
    show ?thesis
      using run ok' step tb sp(2) used u t(2) lim(3) grow
      by (intro exI [of _ ?s']) (simp add: pte_addr_def upd_ram_def)
  qed
qed

lemma alloc_frame_early [simp]:
  "kheap (alloc_frame p k w s) = kheap s" "placement_address (alloc_frame p k w s) = placement_address s"
  "kernel_directory (alloc_frame p k w s) = kernel_directory s"
  by (simp_all add: alloc_frame_def set_frame_def set_frame_word_def set_page_def upd_ram_def Let_def)

lemma early_alloc:
  assumes ok: "early_ok s" and v: "v < 2 ^ 20" and tbl: "tbl_of (ram s) (kernel_directory s) v \<noteq> 0"
    and zero: "pte (ram s) (kernel_directory s) v = 0" and free: "f < frame_limit s" "\<not> frame_used s f"
  defines "s' \<equiv> alloc_frame (pte_addr (ram s) (kernel_directory s) v) 0 0 s"
  shows "early_ok s'" and "early_step s s'" and "placement_address s' = placement_address s"
    and "w < 2 ^ 20 \<Longrightarrow> pte (ram s') (kernel_directory s) w
      = (if w = v then fresh_entry (first_frame s) 0 0 0 else pte (ram s) (kernel_directory s) w)"
    and "w < 2 ^ 20 \<Longrightarrow> tbl_of (ram s') (kernel_directory s) w = tbl_of (ram s) (kernel_directory s) w"
    and "g < frame_limit s \<Longrightarrow> frame_used s' g \<longleftrightarrow> g = unat (first_frame s) \<or> frame_used s g"
    and "tables_grow s s' {}"
proof -
  let ?kd = "kernel_directory s" and ?p = "pte_addr (ram s) (kernel_directory s) v"
  have e: "kheap s = None" "pool_ok s" "unat (frames s) + 4 * unat (INDEX_FROM_BIT (nframes s)) \<le> unat ?kd"
    "unat ?kd + 8196 \<le> unat (placement_address s)"
    "space_ok (ram s) ?kd (unat ?kd + 8196) (unat (placement_address s))"
    using ok by (simp_all add: early_ok_def)
  note p = pte_in_space [OF e(5) v tbl] and r = tbl_range [OF e(5) v tbl]
  have above: "unat ?kd \<le> unat q" if "in_space ?kd (unat ?kd + 8196) (unat (placement_address s)) q" for q
    using that by (auto simp: in_space_def)
  have offp: "off_bitmap s ?p" using p(1,2) e(3) above [OF p(1)] by (simp add: off_bitmap_def)
  have entry: "pg_frame (read32 (ram s) ?p) = 0" "read32 (ram s) ?p = 0"
    using zero tbl by (simp_all add: pte_def pg_frame_def)
  have new: "read32 (ram s') ?p = fresh_entry (first_frame s) 0 0 0"
    unfolding s'_def using alloc_frame_entry [OF e(2) offp entry(1) free] entry(2) by simp
  have present: "pg_present (fresh_entry (first_frame s) 0 0 0)"
    by (rule fresh_entry_fields(2) [OF first_frame_small [OF e(2) free]])
  have other: "read32 (ram s') q = read32 (ram s) q"
    if "unat q + 4 \<le> 2 ^ 32" "unat ?kd \<le> unat q" "off_page ?p q" for q
    unfolding s'_def
    by (rule alloc_frame_other [OF e(2) offp _ that(3) free]) (use that(1,2) e(3) in \<open>simp add: off_bitmap_def\<close>)
  have oth: "\<forall>q. unat q + 4 \<le> 2 ^ 32 \<and> in_space ?kd (unat ?kd + 8196) (unat (placement_address s)) q \<and> off_page ?p q
      \<longrightarrow> read32 (ram s') q = read32 (ram s) q"
    using other above by blast
  note sp = space_ok_entry [OF e(5) v tbl new present oth]
  show "early_ok s'" using e sp(1) by (simp add: early_ok_def s'_def)
  show "placement_address s' = placement_address s" by (simp add: s'_def)
  show "w < 2 ^ 20 \<Longrightarrow> pte (ram s') ?kd w = (if w = v then fresh_entry (first_frame s) 0 0 0 else pte (ram s) ?kd w)"
    by (rule sp(2))
  show "w < 2 ^ 20 \<Longrightarrow> tbl_of (ram s') ?kd w = tbl_of (ram s) ?kd w"
    using sp(3) [OF page_div] by (simp add: tbl_of_def)
  have "table_slots (ram s') ?kd = table_slots (ram s) ?kd" using sp(3) by (auto simp: table_slots_def)
  then show "tables_grow s s' {}" by (simp add: tables_grow_def s'_def)
  show "g < frame_limit s \<Longrightarrow> frame_used s' g \<longleftrightarrow> g = unat (first_frame s) \<or> frame_used s g"
    unfolding s'_def by (rule alloc_frame_used [OF e(2) offp entry(1) free])
  have "v mod 1024 < 1024" by simp
  then have "unat ?p + 4 \<le> unat (placement_address s)" using r(3,5) by linarith
  then have "read32 (ram s') q = read32 (ram s) q"
    if "unat (placement_address s) \<le> unat q" "unat q + 4 \<le> 2 ^ 32" for q
    using other [of q] that e(4) by (simp add: off_page_def)
  then show "early_step s s'" by (simp add: early_step_def s'_def)
qed

text \<open>One pass of the mapping loop: the page gets the lowest free frame.\<close>

lemma early_map_free:
  assumes ok: "early_ok s" and v: "v < 2 ^ 20" and room: "unat (placement_address s) + 8192 < 2 ^ 32"
    and zero: "pte (ram s) (kernel_directory s) v = 0" and free: "f < frame_limit s" "\<not> frame_used s f"
  shows "\<exists>s' n. map_page k (page_addr v) s = Inr s' \<and> early_ok s' \<and> early_step s s'
    \<and> unat (placement_address s') \<le> unat (placement_address s) + 8192
    \<and> n < frame_limit s \<and> \<not> frame_used s n \<and> (\<forall>g < n. frame_used s g)
    \<and> (\<forall>w < 2 ^ 20. pte (ram s') (kernel_directory s) w
          = (if w = v then fresh_entry (word_of_nat n) 0 0 0 else pte (ram s) (kernel_directory s) w))
    \<and> (\<forall>g < frame_limit s. frame_used s' g \<longleftrightarrow> g = n \<or> frame_used s g)
    \<and> tables_grow s s' {v}"
proof -
  from early_make [OF ok v room, of k] obtain s1 where
    m: "get_page (kmalloc_ap k) (page_addr v) True (kernel_directory s) s = Inr (pte_addr (ram s1) (kernel_directory s) v, s1)"
      "early_ok s1" "early_step s s1" "tbl_of (ram s1) (kernel_directory s) v \<noteq> 0"
      "\<forall>w < 2 ^ 20. pte (ram s1) (kernel_directory s) w = pte (ram s) (kernel_directory s) w"
      "\<forall>g < frame_limit s. frame_used s1 g = frame_used s g"
      "unat (placement_address s1) \<le> unat (placement_address s) + 8192" "tables_grow s s1 {v}"
    by blast
  have kd: "kernel_directory s1 = kernel_directory s" and lim: "frame_limit s1 = frame_limit s"
    using m(3) early_step_limit by (auto simp: early_step_def)
  have pool: "pool_ok s1" using m(2) by (simp add: early_ok_def)
  let ?s' = "alloc_frame (pte_addr (ram s1) (kernel_directory s1) v) 0 0 s1" and ?n = "unat (first_frame s1)"
  have z: "pte (ram s1) (kernel_directory s1) v = 0" using m(5) v zero kd by simp
  have t: "tbl_of (ram s1) (kernel_directory s1) v \<noteq> 0" using m(4) kd by simp
  have free1: "f < frame_limit s1" "\<not> frame_used s1 f" using m(6) free lim by simp_all
  note a = early_alloc [OF m(2) v t z free1] and low = first_frame_lowest [OF pool free1]
  have n: "?n < frame_limit s" "\<not> frame_used s ?n" "\<forall>g < ?n. frame_used s g" using low m(6) lim by auto
  have run: "map_page k (page_addr v) s = Inr ?s'" using m(1) kd by (simp add: map_page_def)
  have "frame_used ?s' g \<longleftrightarrow> g = ?n \<or> frame_used s g" if "g < frame_limit s" for g
    using a(6) [of g] m(6) that lim by simp
  moreover have "pte (ram ?s') (kernel_directory s) w
      = (if w = v then fresh_entry (word_of_nat ?n) 0 0 0 else pte (ram s) (kernel_directory s) w)" if "w < 2 ^ 20" for w
    using a(4) [OF that] m(5) that kd by (simp add: word_of_first_frame)
  moreover have "early_step s ?s'" by (rule early_step_trans [OF m(3) a(2)])
  moreover have "unat (placement_address ?s') \<le> unat (placement_address s) + 8192" using m(7) a(3) by simp
  moreover have "tables_grow s ?s' {v}" using tables_grow_trans [OF m(8) a(7) kd] by simp
  ultimately show ?thesis using run a(1) n by blast
qed

lemma early_map:
  assumes ok: "early_ok s" and v: "v < 2 ^ 20" and room: "unat (placement_address s) + 8192 < 2 ^ 32"
    and zero: "pte (ram s) (kernel_directory s) v = 0"
    and n: "n < frame_limit s" "\<forall>g < frame_limit s. frame_used s g \<longleftrightarrow> g < n"
  shows "\<exists>s'. map_page k (page_addr v) s = Inr s' \<and> early_ok s' \<and> early_step s s'
    \<and> unat (placement_address s') \<le> unat (placement_address s) + 8192
    \<and> (\<forall>w < 2 ^ 20. pte (ram s') (kernel_directory s) w
          = (if w = v then fresh_entry (word_of_nat n) 0 0 0 else pte (ram s) (kernel_directory s) w))
    \<and> (\<forall>g < frame_limit s. frame_used s' g \<longleftrightarrow> g < Suc n)
    \<and> tables_grow s s' {v}"
proof -
  have "\<not> frame_used s n" using n by simp
  from early_map_free [OF ok v room zero n(1) this, of k] obtain s' n' where
    m: "map_page k (page_addr v) s = Inr s'" "early_ok s'" "early_step s s'"
      "unat (placement_address s') \<le> unat (placement_address s) + 8192"
      "n' < frame_limit s" "\<not> frame_used s n'" "\<forall>g < n'. frame_used s g"
      "\<forall>w < 2 ^ 20. pte (ram s') (kernel_directory s) w
          = (if w = v then fresh_entry (word_of_nat n') 0 0 0 else pte (ram s) (kernel_directory s) w)"
      "\<forall>g < frame_limit s. frame_used s' g \<longleftrightarrow> g = n' \<or> frame_used s g" "tables_grow s s' {v}"
    by blast
  have "\<not> n' < n" using m(5,6) n(2) by blast
  moreover have "\<not> n < n'" using m(7) n by blast
  ultimately have n': "n' = n" by simp
  have "\<forall>g < frame_limit s. frame_used s' g \<longleftrightarrow> g < Suc n" using m(9) n(2) n' by auto
  then show ?thesis using m(1-4,8,10) n' by blast
qed

text \<open>The loops over a list of pages.\<close>

lemma early_map_run:
  assumes "early_ok s" and "distinct vs" and "\<forall>v \<in> set vs. v < 2 ^ 20 \<and> pte (ram s) (kernel_directory s) v = 0"
    and "unat (placement_address s) + 8192 * length vs < 2 ^ 32"
    and "n + length vs \<le> frame_limit s" "\<forall>g < frame_limit s. frame_used s g \<longleftrightarrow> g < n"
  shows "\<exists>s'. rfold (map_page k) (map page_addr vs) s = Inr s' \<and> early_ok s' \<and> early_step s s'
    \<and> unat (placement_address s') \<le> unat (placement_address s) + 8192 * length vs
    \<and> (\<forall>i < length vs. pte (ram s') (kernel_directory s) (vs ! i) = fresh_entry (word_of_nat (n + i)) 0 0 0)
    \<and> (\<forall>w < 2 ^ 20. w \<notin> set vs \<longrightarrow> pte (ram s') (kernel_directory s) w = pte (ram s) (kernel_directory s) w)
    \<and> (\<forall>g < frame_limit s. frame_used s' g \<longleftrightarrow> g < n + length vs)
    \<and> tables_grow s s' (set vs)"
  using assms
proof (induction vs arbitrary: s n)
  case Nil
  then show ?case by (intro exI [of _ s]) (simp add: early_step_refl tables_grow_refl)
next
  case (Cons v vs)
  have v: "v < 2 ^ 20" "pte (ram s) (kernel_directory s) v = 0" "unat (placement_address s) + 8192 < 2 ^ 32" "n < frame_limit s"
    using Cons.prems by simp_all
  from early_map [OF Cons.prems(1) v(1,3,2,4) Cons.prems(6), of k] obtain s1 where
    m: "map_page k (page_addr v) s = Inr s1" "early_ok s1" "early_step s s1"
      "unat (placement_address s1) \<le> unat (placement_address s) + 8192"
      "\<forall>w < 2 ^ 20. pte (ram s1) (kernel_directory s) w
          = (if w = v then fresh_entry (word_of_nat n) 0 0 0 else pte (ram s) (kernel_directory s) w)"
      "\<forall>g < frame_limit s. frame_used s1 g \<longleftrightarrow> g < Suc n" "tables_grow s s1 {v}"
    by blast
  have kd: "kernel_directory s1 = kernel_directory s" and lim: "frame_limit s1 = frame_limit s"
    using m(3) early_step_limit by (auto simp: early_step_def)
  have "\<exists>s'. rfold (map_page k) (map page_addr vs) s1 = Inr s' \<and> early_ok s' \<and> early_step s1 s'
    \<and> unat (placement_address s') \<le> unat (placement_address s1) + 8192 * length vs
    \<and> (\<forall>i < length vs. pte (ram s') (kernel_directory s1) (vs ! i) = fresh_entry (word_of_nat (Suc n + i)) 0 0 0)
    \<and> (\<forall>w < 2 ^ 20. w \<notin> set vs \<longrightarrow> pte (ram s') (kernel_directory s1) w = pte (ram s1) (kernel_directory s1) w)
    \<and> (\<forall>g < frame_limit s1. frame_used s' g \<longleftrightarrow> g < Suc n + length vs)
    \<and> tables_grow s1 s' (set vs)"
    by (rule Cons.IH) (use Cons.prems m kd lim in auto)
  then obtain s' where r: "rfold (map_page k) (map page_addr vs) s1 = Inr s'" "early_ok s'" "early_step s1 s'"
      "unat (placement_address s') \<le> unat (placement_address s1) + 8192 * length vs"
      "\<forall>i < length vs. pte (ram s') (kernel_directory s) (vs ! i) = fresh_entry (word_of_nat (Suc n + i)) 0 0 0"
      "\<forall>w < 2 ^ 20. w \<notin> set vs \<longrightarrow> pte (ram s') (kernel_directory s) w = pte (ram s1) (kernel_directory s) w"
      "\<forall>g < frame_limit s. frame_used s' g \<longleftrightarrow> g < Suc n + length vs"
      "tables_grow s1 s' (set vs)"
    unfolding kd lim by blast
  have "pte (ram s') (kernel_directory s) ((v # vs) ! i) = fresh_entry (word_of_nat (n + i)) 0 0 0"
    if "i < length (v # vs)" for i
  proof (cases i)
    case 0
    have "v \<notin> set vs" using Cons.prems(2) by simp
    then show ?thesis using 0 r(6) m(5) v(1) by simp
  next
    case (Suc j)
    then show ?thesis using r(5) that by simp
  qed
  moreover have "\<forall>w < 2 ^ 20. w \<notin> set (v # vs) \<longrightarrow> pte (ram s') (kernel_directory s) w = pte (ram s) (kernel_directory s) w"
    using r(6) m(5) by simp
  moreover have "\<forall>g < frame_limit s. frame_used s' g \<longleftrightarrow> g < n + length (v # vs)" using r(7) by simp
  moreover have "rfold (map_page k) (map page_addr (v # vs)) s = Inr s'" using m(1) r(1) by simp
  moreover have "unat (placement_address s') \<le> unat (placement_address s) + 8192 * length (v # vs)" using r(4) m(4) by simp
  moreover have "tables_grow s s' (set (v # vs))" using tables_grow_trans [OF m(7) r(8) kd] by simp
  ultimately show ?case using r(2) early_step_trans [OF m(3) r(3)] by blast
qed

lemma early_make_run:
  assumes "early_ok s" and "\<forall>v \<in> set vs. v < 2 ^ 20" and "unat (placement_address s) + 8192 * length vs < 2 ^ 32"
  shows "\<exists>s'. rfold (make_page k) (map page_addr vs) s = Inr s' \<and> early_ok s' \<and> early_step s s'
    \<and> unat (placement_address s') \<le> unat (placement_address s) + 8192 * length vs
    \<and> (\<forall>w < 2 ^ 20. pte (ram s') (kernel_directory s) w = pte (ram s) (kernel_directory s) w)
    \<and> (\<forall>g < frame_limit s. frame_used s' g = frame_used s g)
    \<and> tables_grow s s' (set vs)"
  using assms
proof (induction vs arbitrary: s)
  case Nil
  then show ?case by (intro exI [of _ s]) (simp add: early_step_refl tables_grow_refl)
next
  case (Cons v vs)
  have v: "v < 2 ^ 20" "unat (placement_address s) + 8192 < 2 ^ 32" using Cons.prems by simp_all
  from early_make [OF Cons.prems(1) v, of k] obtain s1 where
    m: "get_page (kmalloc_ap k) (page_addr v) True (kernel_directory s) s = Inr (pte_addr (ram s1) (kernel_directory s) v, s1)"
      "early_ok s1" "early_step s s1"
      "\<forall>w < 2 ^ 20. pte (ram s1) (kernel_directory s) w = pte (ram s) (kernel_directory s) w"
      "\<forall>g < frame_limit s. frame_used s1 g = frame_used s g"
      "unat (placement_address s1) \<le> unat (placement_address s) + 8192" "tables_grow s s1 {v}"
    by blast
  have kd: "kernel_directory s1 = kernel_directory s" and lim: "frame_limit s1 = frame_limit s"
    using m(3) early_step_limit by (auto simp: early_step_def)
  have "\<exists>s'. rfold (make_page k) (map page_addr vs) s1 = Inr s' \<and> early_ok s' \<and> early_step s1 s'
    \<and> unat (placement_address s') \<le> unat (placement_address s1) + 8192 * length vs
    \<and> (\<forall>w < 2 ^ 20. pte (ram s') (kernel_directory s1) w = pte (ram s1) (kernel_directory s1) w)
    \<and> (\<forall>g < frame_limit s1. frame_used s' g = frame_used s1 g)
    \<and> tables_grow s1 s' (set vs)"
    by (rule Cons.IH) (use Cons.prems m in auto)
  then obtain s' where r: "rfold (make_page k) (map page_addr vs) s1 = Inr s'" "early_ok s'" "early_step s1 s'"
      "unat (placement_address s') \<le> unat (placement_address s1) + 8192 * length vs"
      "\<forall>w < 2 ^ 20. pte (ram s') (kernel_directory s) w = pte (ram s1) (kernel_directory s) w"
      "\<forall>g < frame_limit s. frame_used s' g = frame_used s1 g"
      "tables_grow s1 s' (set vs)"
    unfolding kd lim by blast
  have "rfold (make_page k) (map page_addr (v # vs)) s = Inr s'" using m(1) r(1) by (simp add: make_page_def)
  moreover have "unat (placement_address s') \<le> unat (placement_address s) + 8192 * length (v # vs)" using r(4) m(6) by simp
  moreover have "\<forall>w < 2 ^ 20. pte (ram s') (kernel_directory s) w = pte (ram s) (kernel_directory s) w"
    "\<forall>g < frame_limit s. frame_used s' g = frame_used s g" using r(5,6) m(4,5) by simp_all
  moreover have "tables_grow s s' (set (v # vs))" using tables_grow_trans [OF m(7) r(7) kd] by simp
  ultimately show ?case using r(2) early_step_trans [OF m(3) r(3)] by blast
qed

end
