(* ===== verification/Directory_Clone.thy ===== *)
theory Directory_Clone
  imports Page_Tables
begin

text \<open>
  \<open>clone_directory\<close> on a directory whose tables are the kernel's: the tables are shared, not
  copied.
\<close>

definition shared_slots :: "mem \<Rightarrow> mem \<Rightarrow> u32 \<Rightarrow> u32 \<Rightarrow> nat \<Rightarrow> bool" where
  "shared_slots m m' src dir n \<longleftrightarrow> (\<forall>j < 1024.
     dir_table m' dir (word_of_nat j) = (if j < n then dir_table m src (word_of_nat j) else 0)
     \<and> dir_physical m' dir (word_of_nat j)
       = (if j < n \<and> dir_table m src (word_of_nat j) \<noteq> 0 then dir_physical m src (word_of_nat j) else 0))"

definition shares_kernel :: "mem \<Rightarrow> u32 \<Rightarrow> u32 \<Rightarrow> bool" where
  "shares_kernel m kd src \<longleftrightarrow> (\<forall>i < 1024. dir_table m src (word_of_nat i) = 0
     \<or> dir_table m src (word_of_nat i) = dir_table m kd (word_of_nat i))"

lemma dir_self:
  assumes "unat dir + 8196 \<le> 2 ^ 32" and "i < 1024"
  shows "read32 (set_dir_table dir (word_of_nat i) v m) (dir + 8192) = read32 m (dir + 8192)"
    and "read32 (set_dir_physical dir (word_of_nat i) v m) (dir + 8192) = read32 m (dir + 8192)"
proof -
  have a: "unat (dir + 8192) = unat dir + 8192" using assms(1) by (intro unat_add_numeral) simp
  show "read32 (set_dir_table dir (word_of_nat i) v m) (dir + 8192) = read32 m (dir + 8192)"
    "read32 (set_dir_physical dir (word_of_nat i) v m) (dir + 8192) = read32 m (dir + 8192)"
    unfolding set_dir_table_def set_dir_physical_def
    by (rule read32_write32_nat; simp only: a dir_addr [OF assms]; use assms in linarith)+
qed

lemma clone_slot_shares:
  assumes "dir_table (ram s) src (word_of_nat i) = 0
      \<or> dir_table (ram s) src (word_of_nat i) = dir_table (ram s) (kernel_directory s) (word_of_nat i)"
    and "unat dir + 8196 \<le> 2 ^ 32" and "unat src + 8196 \<le> 2 ^ 32"
    and "unat src + 8196 \<le> unat dir \<or> unat dir + 8196 \<le> unat src" and "i < 1024"
    and "shared_slots m0 (ram s) src dir i"
    and "dir_table (ram s) src (word_of_nat i) = dir_table m0 src (word_of_nat i)"
    and "dir_physical (ram s) src (word_of_nat i) = dir_physical m0 src (word_of_nat i)"
  shows "\<exists>m'. clone_slot al src dir i s = Inr (s\<lparr>ram := m'\<rparr>) \<and> same_outside dir 8196 (ram s) m'
    \<and> shared_slots m0 m' src dir (Suc i) \<and> read32 m' (dir + 8192) = read32 (ram s) (dir + 8192)"
proof (cases "dir_table (ram s) src (word_of_nat i) = 0")
  case True
  then have "shared_slots m0 (ram s) src dir (Suc i)"
    using assms(6,7) by (auto simp: shared_slots_def less_Suc_eq)
  then show ?thesis using True by (intro exI [of _ "ram s"]) (simp add: clone_slot_def)
next
  case False
  let ?m1 = "set_dir_table dir (word_of_nat i) (dir_table (ram s) src (word_of_nat i)) (ram s)"
  let ?m2 = "set_dir_physical dir (word_of_nat i) (dir_physical ?m1 src (word_of_nat i)) ?m1"
  note fr = set_dir_frame [OF assms(2,5)] and set = dir_table_set [OF assms(2,5)] and self = dir_self [OF assms(2,5)]
  have p: "dir_physical ?m1 src (word_of_nat i) = dir_physical (ram s) src (word_of_nat i)"
    by (rule dir_same_outside(2) [OF fr(1) assms(4,3,5)])
  have "clone_slot al src dir i s = Inr (s\<lparr>ram := ?m2\<rparr>)"
    using False assms(1) by (auto simp: clone_slot_def Let_def upd_ram_def)
  moreover have "same_outside dir 8196 (ram s) ?m2" by (rule same_outside_trans [OF fr])
  moreover have "shared_slots m0 ?m2 src dir (Suc i)"
    unfolding shared_slots_def
  proof (intro allI impI)
    fix j :: nat assume j: "j < 1024"
    have "dir_table ?m2 dir (word_of_nat j) = (if i = j then dir_table (ram s) src (word_of_nat i) else dir_table (ram s) dir (word_of_nat j))"
      "dir_physical ?m2 dir (word_of_nat j) = (if i = j then dir_physical (ram s) src (word_of_nat i) else dir_physical (ram s) dir (word_of_nat j))"
      unfolding set(2) [OF j] set(1) [OF j] set(3) [OF j] set(4) [OF j] p by simp_all
    moreover have "dir_table (ram s) dir (word_of_nat j) = (if j < i then dir_table m0 src (word_of_nat j) else 0)"
      "dir_physical (ram s) dir (word_of_nat j)
       = (if j < i \<and> dir_table m0 src (word_of_nat j) \<noteq> 0 then dir_physical m0 src (word_of_nat j) else 0)"
      using assms(6) j by (simp_all add: shared_slots_def)
    ultimately show "dir_table ?m2 dir (word_of_nat j) = (if j < Suc i then dir_table m0 src (word_of_nat j) else 0)
      \<and> dir_physical ?m2 dir (word_of_nat j)
       = (if j < Suc i \<and> dir_table m0 src (word_of_nat j) \<noteq> 0 then dir_physical m0 src (word_of_nat j) else 0)"
      using assms(7,8) False by (auto simp: less_Suc_eq)
  qed
  ultimately show ?thesis using self by (intro exI [of _ ?m2]) simp
qed

lemma clone_slots_share:
  assumes kernel: "shares_kernel (ram s) (kernel_directory s) src"
    and room: "unat dir + 8196 \<le> 2 ^ 32" "unat src + 8196 \<le> 2 ^ 32" "unat (kernel_directory s) + 8196 \<le> 2 ^ 32"
    and sep: "unat src + 8196 \<le> unat dir \<or> unat dir + 8196 \<le> unat src"
      "unat (kernel_directory s) + 8196 \<le> unat dir \<or> unat dir + 8196 \<le> unat (kernel_directory s)"
    and empty: "shared_slots (ram s) (ram s) src dir 0" and "n \<le> 1024"
  shows "\<exists>m'. rfold (clone_slot al src dir) [0..<n] s = Inr (s\<lparr>ram := m'\<rparr>) \<and> same_outside dir 8196 (ram s) m'
    \<and> shared_slots (ram s) m' src dir n \<and> read32 m' (dir + 8192) = read32 (ram s) (dir + 8192)"
  using assms(8)
proof (induction n)
  case 0
  then show ?case using empty by (intro exI [of _ "ram s"]) simp
next
  case (Suc n)
  then obtain m1 where m1: "rfold (clone_slot al src dir) [0..<n] s = Inr (s\<lparr>ram := m1\<rparr>)" "same_outside dir 8196 (ram s) m1"
      "shared_slots (ram s) m1 src dir n" "read32 m1 (dir + 8192) = read32 (ram s) (dir + 8192)"
    by auto
  let ?t = "s\<lparr>ram := m1\<rparr>"
  have n: "n < 1024" using Suc.prems by simp
  have src: "dir_table (ram ?t) src (word_of_nat n) = dir_table (ram s) src (word_of_nat n)"
    "dir_physical (ram ?t) src (word_of_nat n) = dir_physical (ram s) src (word_of_nat n)"
    "dir_table (ram ?t) (kernel_directory ?t) (word_of_nat n) = dir_table (ram s) (kernel_directory s) (word_of_nat n)"
    using dir_same_outside [OF m1(2) sep(1) room(2) n] dir_same_outside(1) [OF m1(2) sep(2) room(3) n] by simp_all
  have k: "dir_table (ram ?t) src (word_of_nat n) = 0
      \<or> dir_table (ram ?t) src (word_of_nat n) = dir_table (ram ?t) (kernel_directory ?t) (word_of_nat n)"
    unfolding src using kernel n by (simp add: shares_kernel_def)
  have sh: "shared_slots (ram s) (ram ?t) src dir n" using m1(3) by simp
  from clone_slot_shares [OF k room(1,2) sep(1) n sh src(1,2), of al] obtain m2 where
    m2: "clone_slot al src dir n ?t = Inr (s\<lparr>ram := m2\<rparr>)" "same_outside dir 8196 m1 m2"
      "shared_slots (ram s) m2 src dir (Suc n)" "read32 m2 (dir + 8192) = read32 m1 (dir + 8192)"
    by auto
  then show ?case using m1 same_outside_trans [OF m1(2) m2(2)]
    by (intro exI [of _ m2]) (simp add: rfold_append)
qed

lemma clone_directory_shares:
  assumes al: "al sizeof_page_directory s = Inr (dir, phys, s1)"
    and kernel: "shares_kernel (ram s1) (kernel_directory s1) src"
    and room: "unat dir + 8196 \<le> 2 ^ 32" "unat src + 8196 \<le> 2 ^ 32" "unat (kernel_directory s1) + 8196 \<le> 2 ^ 32"
    and sep: "unat src + 8196 \<le> unat dir \<or> unat dir + 8196 \<le> unat src"
      "unat (kernel_directory s1) + 8196 \<le> unat dir \<or> unat dir + 8196 \<le> unat (kernel_directory s1)"
  shows "\<exists>m'. clone_directory al src s = Inr (dir, s1\<lparr>ram := m'\<rparr>) \<and> same_outside dir 8196 (ram s1) m'
    \<and> shared_slots (ram s1) m' src dir 1024 \<and> read32 m' (dir + 8192) = phys + 4096"
proof -
  let ?m2 = "memset (ram s1) dir 0 sizeof_page_directory"
  let ?m3 = "set_dir_addr dir (phys + ((dir + 4096) - dir)) ?m2"
  let ?s3 = "s1\<lparr>ram := ?m3\<rparr>"
  have u: "unat sizeof_page_directory = 8196" by (simp add: sizeof_page_directory_def)
  have f2: "same_outside dir 8196 (ram s1) ?m2"
    using same_outside_memset [of dir sizeof_page_directory "ram s1" 0] room(1) u by simp
  have da: "unat (dir + 8192) = unat dir + 8192" using room(1) by (intro unat_add_numeral) simp
  have f3: "same_outside dir 8196 ?m2 ?m3"
    using same_outside_mono [OF same_outside_write32 [of "dir + 8192" ?m2 "phys + ((dir + 4096) - dir)"], of dir 8196] da room(1)
    by (simp add: set_dir_addr_def)
  have f: "same_outside dir 8196 (ram s1) ?m3" by (rule same_outside_trans [OF f2 f3])
  have src: "dir_table ?m3 src (word_of_nat i) = dir_table (ram s1) src (word_of_nat i)"
    "dir_physical ?m3 src (word_of_nat i) = dir_physical (ram s1) src (word_of_nat i)"
    "dir_table ?m3 (kernel_directory s1) (word_of_nat i) = dir_table (ram s1) (kernel_directory s1) (word_of_nat i)"
    if "i < 1024" for i
    using dir_same_outside [OF f sep(1) room(2) that] dir_same_outside(1) [OF f sep(2) room(3) that] by simp_all
  have zero: "dir_table ?m3 dir (word_of_nat i) = 0" "dir_physical ?m3 dir (word_of_nat i) = 0" if i: "i < 1024" for i
  proof -
    have "dir_table ?m3 dir (word_of_nat i) = read32 ?m2 (dir + 4 * word_of_nat i)"
      "dir_physical ?m3 dir (word_of_nat i) = read32 ?m2 (dir + 4096 + 4 * word_of_nat i)"
      unfolding dir_table_def dir_physical_def set_dir_addr_def
      by (rule read32_write32_nat; simp only: da dir_addr [OF room(1) i]; use room(1) i in linarith)+
    moreover have "read32 ?m2 (dir + 4 * word_of_nat i) = 0" "read32 ?m2 (dir + 4096 + 4 * word_of_nat i) = 0"
      by (rule read32_memset_0; simp only: u dir_addr [OF room(1) i]; use room(1) i in linarith)+
    ultimately show "dir_table ?m3 dir (word_of_nat i) = 0" "dir_physical ?m3 dir (word_of_nat i) = 0" by simp_all
  qed
  have k: "shares_kernel (ram ?s3) (kernel_directory ?s3) src" using kernel src by (simp add: shares_kernel_def)
  have e: "shared_slots (ram ?s3) (ram ?s3) src dir 0" using zero by (simp add: shared_slots_def)
  have kr: "unat (kernel_directory ?s3) + 8196 \<le> 2 ^ 32"
    "unat (kernel_directory ?s3) + 8196 \<le> unat dir \<or> unat dir + 8196 \<le> unat (kernel_directory ?s3)"
    using room sep by simp_all
  from clone_slots_share [OF k room(1,2) kr(1) sep(1) kr(2) e order_refl, of al] obtain m' where
    m': "rfold (clone_slot al src dir) [0..<1024] ?s3 = Inr (s1\<lparr>ram := m'\<rparr>)" "same_outside dir 8196 ?m3 m'"
      "shared_slots ?m3 m' src dir 1024" "read32 m' (dir + 8192) = read32 ?m3 (dir + 8192)"
    by auto
  have "shared_slots (ram s1) m' src dir 1024" using m'(3) src by (simp add: shared_slots_def)
  moreover have "read32 m' (dir + 8192) = phys + 4096" using m'(4) by (simp add: set_dir_addr_def)
  moreover have "clone_directory al src s = Inr (dir, s1\<lparr>ram := m'\<rparr>)"
    using al m'(1) by (simp add: clone_directory_def Let_def upd_ram_def del: upt_rec_numeral)
  ultimately show ?thesis using same_outside_trans [OF f m'(2)] by blast
qed

end
