(* ===== verification/Paging_Properties.thy ===== *)
theory Paging_Properties
  imports Directory_Clone
begin

text \<open>
  Physical frames and page tables: which frame is handed out, what an allocation and a release
  change, the identity mapping the kernel boots with, and what cloning shares and copies.
\<close>

section \<open>Frames\<close>

text \<open>Two words of bitmap at 0x1000 for 64 frames, of which the first four are in use.\<close>

definition small_pool :: kernel where
  "small_pool = zero_kernel\<lparr>ram := write32 (\<lambda>_. 0) 0x1000 0xF, frames := 0x1000, nframes := 64\<rparr>"

lemma small_pool_ok:
  "pool_ok small_pool" "frame_limit small_pool = 64" "off_bitmap small_pool 0x2000"
  "\<not> frame_used small_pool 4" "frame_used small_pool 3" "read32 (ram small_pool) 0x2000 = 0"
proof -
  have z: "read32 (\<lambda>_. 0) a = 0" for a by (simp add: read32_def)
  show "pool_ok small_pool" "frame_limit small_pool = 64" "off_bitmap small_pool 0x2000"
    by (simp_all add: pool_ok_def bitmap_room_def frame_limit_def INDEX_FROM_BIT_def small_pool_def off_bitmap_def)
  show "\<not> frame_used small_pool 4" "frame_used small_pool 3" "read32 (ram small_pool) 0x2000 = 0"
    by (simp_all add: frame_used_def frame_word_def small_pool_def read32_write32_nat z)
qed

text \<open>The frame allocator hands out the lowest free frame. If any frame is free, \<open>first_frame\<close>
  returns a free frame below the limit and every lower frame is in use; if none is free it
  returns 0, the same as when frame 0 is free.\<close>
theorem first_frame_lowest_free:
  assumes "pool_ok s"
  shows "if \<exists>f < frame_limit s. \<not> frame_used s f
    then unat (first_frame s) < frame_limit s \<and> \<not> frame_used s (unat (first_frame s))
       \<and> (\<forall>g < unat (first_frame s). frame_used s g)
    else first_frame s = 0"
proof (cases "\<exists>f < frame_limit s. \<not> frame_used s f")
  case True
  then obtain f where "f < frame_limit s" "\<not> frame_used s f" by blast
  note first_frame_lowest [OF assms this]
  with True show ?thesis by simp
next
  case False
  then have "first_frame s = 0" by (intro first_frame_none [OF assms]) blast
  with False show ?thesis by (simp only: if_False)
qed

theorem first_frame_lowest_free_witness: "frame_used small_pool 3 \<and> \<not> frame_used small_pool (unat (first_frame small_pool))"
proof -
  have "\<exists>f < frame_limit small_pool. \<not> frame_used small_pool f" using small_pool_ok(2,4) by (intro exI [of _ 4]) simp
  with first_frame_lowest_free [OF small_pool_ok(1)] small_pool_ok(5) show ?thesis by (simp only: if_True) blast
qed

text \<open>Allocating a frame for a page changes exactly one frame and one entry. If a frame is
  free and the entry has none, \<open>alloc_frame\<close> gives it the lowest free frame, present, with
  the write and user bits as asked; that frame is marked used, no other frame changes, and no
  other page entry does.\<close>
theorem alloc_frame_takes_one_frame:
  assumes "pool_ok s" and "off_bitmap s p" and "pg_frame (read32 (ram s) p) = 0"
    and "f < frame_limit s" and "\<not> frame_used s f"
  shows "let e = read32 (ram (alloc_frame p k w s)) p in
      pg_frame e = first_frame s \<and> \<not> frame_used s (unat (first_frame s))
    \<and> pg_present e \<and> (pg_rw e \<longleftrightarrow> w = 1) \<and> (pg_user e \<longleftrightarrow> k \<noteq> 1)
    \<and> (\<forall>g < frame_limit s. frame_used (alloc_frame p k w s) g \<longleftrightarrow> g = unat (first_frame s) \<or> frame_used s g)
    \<and> (\<forall>q. off_bitmap s q \<and> off_page p q \<longrightarrow> read32 (ram (alloc_frame p k w s)) q = read32 (ram s) q)"
  using alloc_frame_entry [OF assms, of k w] fresh_entry_fields [OF first_frame_small [OF assms(1,4,5)], of k w]
    first_frame_lowest(2) [OF assms(1,4,5)] alloc_frame_used [OF assms, of _ k w]
    alloc_frame_other [OF assms(1,2) _ _ assms(4,5), of _ k w]
  by (simp add: Let_def)

theorem alloc_frame_takes_one_frame_witness:
  "pg_present (read32 (ram (alloc_frame 0x2000 0 1 small_pool)) 0x2000)
   \<and> frame_used (alloc_frame 0x2000 0 1 small_pool) (unat (first_frame small_pool))"
proof -
  have "pg_frame (read32 (ram small_pool) 0x2000) = 0" "4 < frame_limit small_pool"
    using small_pool_ok by (simp_all add: pg_frame_def)
  from alloc_frame_takes_one_frame [OF small_pool_ok(1,3) this small_pool_ok(4), of 0 1]
    first_frame_lowest(1) [OF small_pool_ok(1) this(2) small_pool_ok(4)]
  show ?thesis by (simp add: Let_def)
qed

text \<open>Freeing a page marks the wrong frame free. \<open>free_frame\<close> passes the frame number where
  an address is expected: the frame it marks free is the number divided by 4096, the frame of
  the page itself stays marked used for ever.\<close>
theorem free_frame_frees_the_wrong_frame:
  assumes "pool_ok s" and "off_bitmap s p" and "pg_frame (read32 (ram s) p) = word_of_nat f"
    and "0 < f" and "f < frame_limit s" and "frame_used s f"
  shows "frame_used (free_frame p s) f
    \<and> (\<forall>g < frame_limit s. frame_used (free_frame p s) g \<longleftrightarrow> g \<noteq> f div 4096 \<and> frame_used s g)"
  using free_frame_used [OF assms(1-5)] assms(4-6) by auto

theorem free_frame_frees_the_wrong_frame_witness:
  "frame_used (free_frame 0x2000 (small_pool\<lparr>ram := write32 (ram small_pool) 0x2000 0x3007\<rparr>)) 3"
proof -
  let ?s = "small_pool\<lparr>ram := write32 (ram small_pool) 0x2000 0x3007\<rparr>"
  have h: "pool_ok ?s" "off_bitmap ?s 0x2000" "pg_frame (read32 (ram ?s) 0x2000) = word_of_nat 3" "3 < frame_limit ?s"
    using small_pool_ok(1-3)
    by (simp_all add: pool_ok_def bitmap_room_def frame_limit_def off_bitmap_def pg_frame_def small_pool_def INDEX_FROM_BIT_def)
  have "frame_used ?s 3"
    by (simp add: frame_used_def frame_word_def small_pool_def read32_write32_nat)
  from free_frame_frees_the_wrong_frame [OF h(1-3) _ h(4) this] show ?thesis by simp
qed

section \<open>Page tables\<close>

text \<open>\<open>get_page\<close> makes a page table once. When the table for an address is missing, \<open>get_page\<close>
  with \<open>make\<close> installs a new, empty table with its physical address and access bits in the
  directory and returns the entry for the address; from then on every lookup of an address of
  the same four megabytes, with or without \<open>make\<close>, finds its entry in that table without
  changing anything.\<close>
theorem get_page_makes_table:
  assumes missing: "dir_table (ram s) dir (address div 0x1000 div 1024) = 0"
    and al: "al sizeof_page_table s = Inr (tbl, phys, s1)" and "tbl \<noteq> 0"
    and room: "unat tbl + 4096 \<le> 2 ^ 32" "unat dir + 8196 \<le> 2 ^ 32"
    and sep: "unat tbl + 4096 \<le> unat dir \<or> unat dir + 8196 \<le> unat tbl"
  shows "\<exists>s'. get_page al address True dir s = Inr (tbl + 4 * (address div 0x1000 mod 1024), s')
    \<and> dir_physical (ram s') dir (address div 0x1000 div 1024) = phys OR 7
    \<and> (\<forall>i < 1024. read32 (ram s') (tbl + 4 * word_of_nat i) = 0)
    \<and> (\<forall>a mk al'. a div 0x1000 div 1024 = address div 0x1000 div 1024 \<longrightarrow>
         get_page al' a mk dir s' = Inr (tbl + 4 * (a div 0x1000 mod 1024), s'))"
proof -
  obtain i where i: "i < 1024" "address div 0x1000 div 1024 = word_of_nat i" using table_index(2) by blast
  let ?s' = "upd_ram (new_table dir (word_of_nat i) tbl phys) s1"
  note f = new_table_fields [OF room sep i(1)]
  have missing': "dir_table (ram s) dir (word_of_nat i) = 0" using missing i(2) by simp
  have t: "dir_table (ram ?s') dir (word_of_nat i) = tbl" using f(1) [OF i(1)] by simp
  have "get_page al' a mk dir ?s' = Inr (tbl + 4 * (a div 0x1000 mod 1024), ?s')"
    if "a div 0x1000 div 1024 = address div 0x1000 div 1024" for a mk and al' :: "'a page_alloc"
    using get_page_known [of ?s' dir a al' mk] that t i(2) \<open>tbl \<noteq> 0\<close> by simp
  moreover have "get_page al address True dir s = Inr (tbl + 4 * (address div 0x1000 mod 1024), ?s')"
    by (rule get_page_new [where al = al, OF missing' i(2,1) al room sep])
  ultimately show ?thesis using f(2) [OF i(1), of phys "ram s1"] f(3) i(2) by (intro exI [of _ ?s']) simp
qed

theorem get_page_makes_table_witness:
  "\<exists>p s'. get_page (kmalloc_ap 0) 0xC0001000 True 0x10000 (zero_kernel\<lparr>placement_address := 0x20010\<rparr>) = Inr (p, s') \<and> p = 0x21004
    \<and> get_page (kmalloc_ap 0) 0xC0001000 False 0x10000 s' = Inr (p, s')"
proof -
  let ?s = "zero_kernel\<lparr>placement_address := 0x20010\<rparr>"
  have z: "read32 (\<lambda>_. 0) a = 0" for a by (simp add: read32_def)
  have "(0x20010 AND 0xFFFFF000 :: u32) = 0x20000" by simp
  then have "kmalloc_ap 0 sizeof_page_table ?s = Inr (0x21000, 0x21000, ?s\<lparr>placement_address := 0x22000\<rparr>)"
    by (simp add: kmalloc_ap_def kmalloc_int_def kmalloc_placement_def placement_start_def sizeof_page_table_def Let_def)
  from get_page_makes_table [of ?s "0x10000" "0xC0001000" "kmalloc_ap 0", OF _ this]
  obtain s' where s': "get_page (kmalloc_ap 0) 0xC0001000 True 0x10000 ?s = Inr (0x21004, s')"
    "\<forall>a mk (al' :: unit page_alloc). a div 0x1000 div 1024 = (0xC0001000 :: u32) div 0x1000 div 1024 \<longrightarrow>
         get_page al' a mk 0x10000 s' = Inr (0x21000 + 4 * (a div 0x1000 mod 1024), s')"
    by (auto simp: dir_table_def z)
  from s'(2) [rule_format, OF refl, of "kmalloc_ap 0" False] have
    "get_page (kmalloc_ap 0) 0xC0001000 False 0x10000 s' = Inr (0x21004, s')" by simp
  with s'(1) show ?thesis by blast
qed

section \<open>The identity mapping\<close>

lemma alloc_entries_directory [simp]: "kernel_directory (alloc_entries tbl k w n s) = kernel_directory s"
  by (induction n) (simp_all add: alloc_entries_Suc, simp add: alloc_entries_def)

lemma page_addresses_Suc: "page_addresses start (Suc n) = page_addresses start n @ [start + 0x1000 * word_of_nat n]"
  by (simp add: page_addresses_def)

lemma low_page_index:
  assumes "n < 1024"
  shows "(0x1000 * word_of_nat n :: u32) div 0x1000 div 1024 = 0"
    and "(0x1000 * word_of_nat n :: u32) div 0x1000 mod 1024 = word_of_nat n"
proof -
  have "unat (0x1000 * word_of_nat n :: u32) = 4096 * n"
    using assms by (simp add: unat_word_ariths unsigned_of_nat take_bit_nat_eq_self)
  then show "(0x1000 * word_of_nat n :: u32) div 0x1000 div 1024 = 0"
    "(0x1000 * word_of_nat n :: u32) div 0x1000 mod 1024 = word_of_nat n"
    using assms
    by (simp_all add: word_unat_eq_iff unat_div_distrib unat_mod_distrib unsigned_of_nat take_bit_nat_eq_self)
qed

definition table_ready :: "'a kernel_scheme \<Rightarrow> u32 \<Rightarrow> bool" where
  "table_ready s tbl \<longleftrightarrow> pool_ok s \<and> 1024 \<le> frame_limit s \<and> tbl \<noteq> 0 \<and> unat tbl + 4096 \<le> 2 ^ 32
     \<and> dir_table (ram s) (kernel_directory s) 0 = tbl \<and> off_bitmap s (kernel_directory s)
     \<and> (\<forall>i < 1024. off_bitmap s (tbl + 4 * word_of_nat i) \<and> table_entry s tbl i = 0
          \<and> off_page (tbl + 4 * word_of_nat i) (kernel_directory s))
     \<and> (\<forall>g < frame_limit s. \<not> frame_used s g)"

lemma map_low_pages:
  assumes "table_ready s tbl" and "n \<le> 1024"
  shows "rfold (map_page k) (page_addresses 0 n) s = Inr (alloc_entries tbl 0 0 n s)
    \<and> dir_table (ram (alloc_entries tbl 0 0 n s)) (kernel_directory s) 0 = tbl"
  using assms(2)
proof (induction n)
  case 0
  then show ?case using assms(1) by (simp add: page_addresses_def alloc_entries_def table_ready_def)
next
  case (Suc n)
  let ?t = "alloc_entries tbl 0 0 n s" and ?p = "tbl + 4 * word_of_nat n"
  have n: "n < 1024" using Suc.prems by simp
  have IH: "rfold (map_page k) (page_addresses 0 n) s = Inr ?t" "dir_table (ram ?t) (kernel_directory s) 0 = tbl"
    using Suc by simp_all
  have ready: "pool_ok s" "1024 \<le> frame_limit s" "tbl \<noteq> 0" "unat tbl + 4096 \<le> 2 ^ 32"
      "off_bitmap s (kernel_directory s)" "off_bitmap s ?p" "off_page ?p (kernel_directory s)"
      "\<And>i. i < 1024 \<Longrightarrow> off_bitmap s (tbl + 4 * word_of_nat i)"
      "\<And>i. i < 1024 \<Longrightarrow> table_entry s tbl i = 0" "\<And>g. g < frame_limit s \<Longrightarrow> \<not> frame_used s g"
    using assms(1) n by (auto simp: table_ready_def)
  have "map_page k (0x1000 * word_of_nat n) ?t = Inr (alloc_frame ?p 0 0 ?t)"
    using IH(2) ready(3) low_page_index [OF n] by (simp add: map_page_def get_page_def Let_def)
  then have run: "rfold (map_page k) (page_addresses 0 (Suc n)) s = Inr (alloc_entries tbl 0 0 (Suc n) s)"
    using IH(1) by (simp add: page_addresses_Suc rfold_append alloc_entries_Suc)
  have "\<not> frame_used ?t n" "n < frame_limit ?t"
    using alloc_entries_identity [OF ready(1) _ _ ready(4,8,9,10), of n 0 0] n ready(2) by simp_all
  then have "read32 (ram (alloc_frame ?p 0 0 ?t)) (kernel_directory s) = read32 (ram ?t) (kernel_directory s)"
    using alloc_frame_other [of ?t ?p "kernel_directory s" n 0 0] ready(1,5,6,7) by simp
  then have "dir_table (ram (alloc_entries tbl 0 0 (Suc n) s)) (kernel_directory s) 0 = tbl"
    using IH(2) by (simp add: alloc_entries_Suc dir_table_def)
  with run show ?case by simp
qed

text \<open>The kernel's first four megabytes are mapped to themselves. From an empty bitmap and an
  empty first page table, the loop of \<open>initialise_paging\<close> over the addresses below 0x400000
  returns, and then page \<open>i\<close> is mapped to frame \<open>i\<close>, present, readable but not writable from
  user mode, and exactly the first 1024 frames are in use.\<close>
theorem low_memory_identity_mapped:
  assumes "table_ready s tbl"
  shows "\<exists>s'. rfold (map_page k) (page_addresses 0 1024) s = Inr s'
    \<and> (\<forall>i < 1024. let e = table_entry s' tbl i in
         pg_frame e = word_of_nat i \<and> pg_present e \<and> pg_user e \<and> \<not> pg_rw e)
    \<and> (\<forall>g < frame_limit s. frame_used s' g \<longleftrightarrow> g < 1024)"
proof -
  have ready: "pool_ok s" "1024 \<le> frame_limit s" "unat tbl + 4096 \<le> 2 ^ 32"
      "\<And>i. i < 1024 \<Longrightarrow> off_bitmap s (tbl + 4 * word_of_nat i)"
      "\<And>i. i < 1024 \<Longrightarrow> table_entry s tbl i = 0" "\<And>g. g < frame_limit s \<Longrightarrow> \<not> frame_used s g"
    using assms by (auto simp: table_ready_def)
  let ?s' = "alloc_entries tbl 0 0 1024 s"
  have id: "\<forall>i < 1024. table_entry ?s' tbl i = fresh_entry (word_of_nat i) 0 0 0"
    "\<forall>g < frame_limit s. frame_used ?s' g \<longleftrightarrow> g < 1024"
    using alloc_entries_identity [OF ready(1) _ ready(2-6), of 0 0] by simp_all
  have "(word_of_nat i :: u32) < 2 ^ 20" if "i < 1024" for i
    using that by (simp add: word_less_nat_alt unsigned_of_nat take_bit_nat_eq_self)
  then show ?thesis
    using map_low_pages [OF assms, of 1024 k] id fresh_entry_fields [of "word_of_nat _" 0 0 0]
    by (intro exI [of _ ?s']) (simp add: Let_def)
qed

text \<open>A directory at 0x2000 whose first table is at 0x8000, and 4096 frames.\<close>

definition fresh_paging :: kernel where
  "fresh_paging = zero_kernel\<lparr>ram := write32 (\<lambda>_. 0) 0x2000 0x8000, frames := 0x1000, nframes := 4096,
     kernel_directory := 0x2000\<rparr>"

lemma fresh_paging_ready: "table_ready fresh_paging 0x8000"
proof -
  have z: "read32 (\<lambda>_. 0) a = 0" for a by (simp add: read32_def)
  have a: "unat (0x8000 + 4 * word_of_nat i :: u32) = 0x8000 + 4 * i" if "i < 1024" for i
    using unat_cell_addr [of "0x8000" i] that by simp
  have f: "frames fresh_paging = 0x1000" "nframes fresh_paging = 4096" "kernel_directory fresh_paging = 0x2000"
    "ram fresh_paging = write32 (\<lambda>_. 0) 0x2000 0x8000" by (simp_all add: fresh_paging_def)
  have w: "read32 (write32 (\<lambda>_. 0) 0x2000 0x8000) p = 0" if "unat p + 4 \<le> 0x2000 \<or> 0x2004 \<le> unat p" "unat p + 4 \<le> 2 ^ 32" for p
    using read32_write32_nat [of "0x2000" p] that z by auto
  have fl: "frame_limit fresh_paging = 4096" by (simp add: frame_limit_def INDEX_FROM_BIT_def f)
  have u: "\<not> frame_used fresh_paging g" if "g < 4096" for g
  proof -
    have d: "g div 32 < 128" using that by simp
    then have "unat (0x1000 + 4 * word_of_nat (g div 32) :: u32) = 0x1000 + 4 * (g div 32)"
      using unat_cell_addr [of "0x1000" "g div 32"] by simp
    then have "frame_word fresh_paging (word_of_nat (g div 32)) = 0"
      using w [of "0x1000 + 4 * word_of_nat (g div 32)"] d by (simp add: frame_word_def f)
    then show ?thesis by (simp add: frame_used_def)
  qed
  have e: "table_entry fresh_paging 0x8000 i = 0" if "i < 1024" for i
    using w [of "0x8000 + 4 * word_of_nat i"] a that by (simp add: table_entry_def f)
  show ?thesis
    using a e u
    by (simp add: table_ready_def fl pool_ok_def bitmap_room_def INDEX_FROM_BIT_def f dir_table_def
        off_bitmap_def off_page_def)
qed

theorem low_memory_identity_mapped_witness:
  "\<exists>s'. rfold (map_page 0) (page_addresses 0 1024) fresh_paging = Inr s'
    \<and> pg_frame (table_entry s' 0x8000 5) = 5"
proof -
  from low_memory_identity_mapped [OF fresh_paging_ready, of 0] obtain s' where
    "rfold (map_page 0) (page_addresses 0 1024) fresh_paging = Inr s'"
    "\<forall>i < 1024. pg_frame (table_entry s' 0x8000 i) = word_of_nat i" by (auto simp: Let_def)
  moreover from this(2) have "pg_frame (table_entry s' 0x8000 5) = word_of_nat 5" by (rule allE [of _ 5]) simp
  ultimately show ?thesis by auto
qed

section \<open>Cloning an address space\<close>

text \<open>C19: Cloning an address space shares the kernel. If every page table of the source directory is
  the kernel's (or missing), \<open>clone_directory\<close> returns the new directory, which refers to the
  very same tables at the same physical addresses, holds its own physical address, and
  nothing outside the new directory is written.\<close>
theorem clone_directory_shares_kernel:
  assumes al: "al sizeof_page_directory s = Inr (dir, phys, s1)"
    and kernel: "\<forall>i < 1024. dir_table (ram s1) src (word_of_nat i) = 0
      \<or> dir_table (ram s1) src (word_of_nat i) = dir_table (ram s1) (kernel_directory s1) (word_of_nat i)"
    and room: "unat dir + 8196 \<le> 2 ^ 32" "unat src + 8196 \<le> 2 ^ 32" "unat (kernel_directory s1) + 8196 \<le> 2 ^ 32"
    and sep: "unat src + 8196 \<le> unat dir \<or> unat dir + 8196 \<le> unat src"
      "unat (kernel_directory s1) + 8196 \<le> unat dir \<or> unat dir + 8196 \<le> unat (kernel_directory s1)"
  shows "\<exists>s'. clone_directory al src s = Inr (dir, s') \<and> same_outside dir 8196 (ram s1) (ram s')
    \<and> (\<forall>i < 1024. dir_table (ram s') dir (word_of_nat i) = dir_table (ram s1) src (word_of_nat i)
         \<and> dir_physical (ram s') dir (word_of_nat i)
            = (if dir_table (ram s1) src (word_of_nat i) = 0 then 0 else dir_physical (ram s1) src (word_of_nat i)))
    \<and> read32 (ram s') (dir + 8192) = phys + 4096"
proof -
  have k: "shares_kernel (ram s1) (kernel_directory s1) src" using kernel by (simp add: shares_kernel_def)
  obtain m' where m': "clone_directory al src s = Inr (dir, s1\<lparr>ram := m'\<rparr>)" "same_outside dir 8196 (ram s1) m'"
      "shared_slots (ram s1) m' src dir 1024" "read32 m' (dir + 8192) = phys + 4096"
    using clone_directory_shares [where al = al, OF al k room sep] by blast
  then show ?thesis by (intro exI [of _ "s1\<lparr>ram := m'\<rparr>"]) (simp add: shared_slots_def)
qed

theorem clone_directory_shares_kernel_witness:
  "\<exists>d s'. clone_directory (kmalloc_ap 0) 0x2000 (fresh_paging\<lparr>placement_address := 0x20000\<rparr>) = Inr (d, s')
    \<and> dir_table (ram s') d 0 = 0x8000 \<and> read32 (ram s') (d + 8192) = 0x22000"
proof -
  let ?s = "fresh_paging\<lparr>placement_address := 0x20000\<rparr>"
  let ?s1 = "?s\<lparr>placement_address := 0x21000 + sizeof_page_directory\<rparr>"
  have "(0x20000 AND 0xFFFFF000 :: u32) = 0x20000" by simp
  then have al: "kmalloc_ap 0 sizeof_page_directory ?s = Inr (0x21000, 0x21000, ?s1)"
    by (simp add: kmalloc_ap_def kmalloc_int_def kmalloc_placement_def placement_start_def Let_def fresh_paging_def)
  have kd: "kernel_directory ?s1 = 0x2000" by (simp add: fresh_paging_def)
  have h: "\<forall>i < 1024. dir_table (ram ?s1) 0x2000 (word_of_nat i) = 0
      \<or> dir_table (ram ?s1) 0x2000 (word_of_nat i) = dir_table (ram ?s1) (kernel_directory ?s1) (word_of_nat i)"
    "unat (0x21000 :: u32) + 8196 \<le> 2 ^ 32" "unat (0x2000 :: u32) + 8196 \<le> 2 ^ 32" "unat (kernel_directory ?s1) + 8196 \<le> 2 ^ 32"
    "unat (0x2000 :: u32) + 8196 \<le> unat (0x21000 :: u32) \<or> unat (0x21000 :: u32) + 8196 \<le> unat (0x2000 :: u32)"
    "unat (kernel_directory ?s1) + 8196 \<le> unat (0x21000 :: u32) \<or> unat (0x21000 :: u32) + 8196 \<le> unat (kernel_directory ?s1)"
    unfolding kd by simp_all
  from clone_directory_shares_kernel [where al = "kmalloc_ap 0", OF al h] obtain s' where
    s': "clone_directory (kmalloc_ap 0) 0x2000 ?s = Inr (0x21000, s')" "read32 (ram s') (0x21000 + 8192) = 0x21000 + 4096"
    "\<forall>i < 1024. dir_table (ram s') 0x21000 (word_of_nat i) = dir_table (ram ?s1) 0x2000 (word_of_nat i)"
    by auto
  from s'(3) have "dir_table (ram s') 0x21000 (word_of_nat 0) = dir_table (ram ?s1) 0x2000 (word_of_nat 0)"
    by (rule allE [of _ 0]) simp
  then show ?thesis using s'(1,2) by (intro exI [of _ "0x21000"] exI [of _ s']) (simp add: dir_table_def fresh_paging_def)
qed

section \<open>Copying a page\<close>

lemma copy_words_copies:
  assumes "unat src + 4 * n \<le> 2 ^ 32" and "unat dst + 4 * n \<le> 2 ^ 32"
    and "unat src + 4 * n \<le> unat dst \<or> unat dst + 4 * n \<le> unat src"
  shows "same_outside dst (4 * n) m (copy_words n src dst m)
    \<and> (\<forall>j < n. read32 (copy_words n src dst m) (dst + 4 * word_of_nat j) = read32 m (src + 4 * word_of_nat j))"
  using assms
proof (induction n arbitrary: src dst m)
  case 0
  then show ?case by simp
next
  case (Suc n)
  let ?m1 = "write32 m dst (read32 m src)"
  have w: "same_outside dst 4 m ?m1" by (rule same_outside_write32) (use Suc.prems(2) in simp)
  show ?case
  proof (cases "n = 0")
    case True
    then show ?thesis using w by simp
  next
    case False
    then have pos: "0 < n" by simp
    have a: "unat (src + 4) = unat src + 4" "unat (dst + 4) = unat dst + 4"
      using Suc.prems pos by (simp_all add: unat_add_numeral)
    have IH: "same_outside (dst + 4) (4 * n) ?m1 (copy_words n (src + 4) (dst + 4) ?m1)"
      "\<forall>j < n. read32 (copy_words n (src + 4) (dst + 4) ?m1) (dst + 4 + 4 * word_of_nat j)
         = read32 ?m1 (src + 4 + 4 * word_of_nat j)"
    proof -
      have "unat (src + 4) + 4 * n \<le> 2 ^ 32" "unat (dst + 4) + 4 * n \<le> 2 ^ 32"
        "unat (src + 4) + 4 * n \<le> unat (dst + 4) \<or> unat (dst + 4) + 4 * n \<le> unat (src + 4)"
        using a Suc.prems by auto
      note Suc.IH [OF this, of ?m1]
      then show "same_outside (dst + 4) (4 * n) ?m1 (copy_words n (src + 4) (dst + 4) ?m1)"
        "\<forall>j < n. read32 (copy_words n (src + 4) (dst + 4) ?m1) (dst + 4 + 4 * word_of_nat j)
         = read32 ?m1 (src + 4 + 4 * word_of_nat j)" by blast+
    qed
    have frame: "same_outside dst (4 * Suc n) m (copy_words (Suc n) src dst m)"
      unfolding copy_words.simps
      by (rule same_outside_trans [OF same_outside_mono [OF w] same_outside_mono [OF IH(1)]]) (use a in simp_all)
    have "read32 (copy_words (Suc n) src dst m) (dst + 4 * word_of_nat j) = read32 m (src + 4 * word_of_nat j)"
      if j: "j < Suc n" for j
    proof (cases "j = 0")
      case True
      have "read32 (copy_words n (src + 4) (dst + 4) ?m1) dst = read32 ?m1 dst"
        by (rule read32_same_outside [OF IH(1)]) (use a Suc.prems(2) in auto)
      with True show ?thesis by simp
    next
      case False
      then obtain i where ji: "j = Suc i" by (cases j) auto
      have e: "dst + 4 * word_of_nat j = dst + 4 + 4 * word_of_nat i" "src + 4 * word_of_nat j = src + 4 + 4 * word_of_nat i"
        by (simp_all add: ji algebra_simps)
      have sa: "unat (src + 4 * word_of_nat j) = unat src + 4 * j"
        using Suc.prems(1) j by (intro unat_cell_addr) simp
      have "read32 ?m1 (src + 4 * word_of_nat j) = read32 m (src + 4 * word_of_nat j)"
        by (rule read32_same_outside [OF w]; simp only: sa; use Suc.prems j in auto)
      moreover have "i < n" using ji j by simp
      ultimately show ?thesis using IH(2) unfolding copy_words.simps e by simp
    qed
    with frame show ?thesis by blast
  qed
qed

lemma set_page_frame_mem [simp]: "frame_mem (set_page p f s) = frame_mem s"
  by (simp add: set_page_def upd_ram_def)

lemma copy_flag_effect:
  assumes "off_page dst from" and "unat dst + 4 \<le> 2 ^ 32"
  shows "read32 (ram (copy_flag k from dst s)) from = read32 (ram s) from"
    and "read32 (ram (copy_flag k from dst s)) dst
      = (if bit (read32 (ram s) from) k then set_pg_flag k True (read32 (ram s) dst) else read32 (ram s) dst)"
    and "frame_mem (copy_flag k from dst s) = frame_mem s"
  by (simp_all add: copy_flag_def set_page_same set_page_other [OF assms])

lemma copy_flag_used:
  assumes "pool_ok s" and "off_bitmap s dst"
  shows "pool_ok (copy_flag k from dst s)" and "off_bitmap (copy_flag k from dst s) = off_bitmap s"
    and "frame_limit (copy_flag k from dst s) = frame_limit s"
    and "g < frame_limit s \<Longrightarrow> frame_used (copy_flag k from dst s) g = frame_used s g"
  using assms by (simp_all add: copy_flag_def)

lemma alloc_frame_frame_mem [simp]: "frame_mem (alloc_frame p k w s) = frame_mem s"
  by (simp add: alloc_frame_def set_frame_def set_frame_word_def upd_ram_def Let_def)

lemma frame_addr:
  assumes "(f :: u32) < 2 ^ 20"
  shows "unat (f * 0x1000) = unat f * 4096"
  using assms by (simp add: unat_word_ariths word_less_nat_alt)

lemma frame_less: "pg_frame e < 2 ^ 20"
proof -
  have "unat (pg_frame e) = unat e div 4096"
    by (simp add: pg_frame_def drop_bit_eq_div unat_div_distrib)
  also have "\<dots> < 2 ^ 20" using unat_u32_less [of e] by (simp add: less_mult_imp_div_less)
  finally show ?thesis by (simp add: word_less_nat_alt)
qed

lemma copy_page_physical_copies:
  assumes "f < 2 ^ 20" and "g < 2 ^ 20" and "f \<noteq> g"
  shows "same_outside (g * 0x1000) 4096 (frame_mem s) (frame_mem (copy_page_physical (f * 0x1000) (g * 0x1000) s))
    \<and> (\<forall>j < 1024. read32 (frame_mem (copy_page_physical (f * 0x1000) (g * 0x1000) s)) (g * 0x1000 + 4 * word_of_nat j)
         = read32 (frame_mem s) (f * 0x1000 + 4 * word_of_nat j))"
proof -
  note a = frame_addr [OF assms(1)] frame_addr [OF assms(2)]
  have lim: "unat f < 2 ^ 20" "unat g < 2 ^ 20" using assms(1,2) by (simp_all add: word_less_nat_alt)
  have ne: "unat f \<noteq> unat g" using assms(3) by (simp only: word_unat_eq_iff) simp
  have "unat (f * 0x1000) + 4 * 1024 \<le> unat (g * 0x1000) \<or> unat (g * 0x1000) + 4 * 1024 \<le> unat (f * 0x1000)"
    unfolding a using ne by linarith
  moreover have "unat (f * 0x1000) + 4 * 1024 \<le> 2 ^ 32" "unat (g * 0x1000) + 4 * 1024 \<le> 2 ^ 32"
    unfolding a using lim by simp_all
  ultimately show ?thesis
    using copy_words_copies [of "f * 0x1000" 1024 "g * 0x1000" "frame_mem s"] by (simp add: copy_page_physical_def)
qed

text \<open>C18: A cloned page is a private copy. Let the source entry name a frame that is marked in use, whether it is
  present or not, let the target entry be zero, some frame be free, and both entries lie apart from each other
  and from the bitmap. Then the clone names another frame, the lowest free one, which is the only one that
  becomes marked; its 4096 bytes become those of the source frame, and no other physical memory changes. The
  clone is always present and accessible from user mode, as \<open>alloc_frame\<close> makes it, even if the source entry is
  not; its write, accessed and dirty bits are those of the source; the source entry stays as it was.\<close>
theorem clone_entry_private_copy:
  assumes pool: "pool_ok s" and off: "off_bitmap s (src + 4 * i)" "off_bitmap s (tbl + 4 * i)"
    and sep: "off_page (tbl + 4 * i) (src + 4 * i)" and e: "read32 (ram s) (src + 4 * i) = e"
    and used: "pg_frame e \<noteq> 0" "frame_used s (unat (pg_frame e))" and empty: "read32 (ram s) (tbl + 4 * i) = 0"
    and free: "f < frame_limit s" "\<not> frame_used s f"
  shows "let s' = clone_entry src tbl i s; d = read32 (ram s') (tbl + 4 * i) in
      read32 (ram s') (src + 4 * i) = e \<and> pg_frame d = first_frame s \<and> pg_frame d \<noteq> pg_frame e
    \<and> pg_present d \<and> (pg_rw d \<longleftrightarrow> pg_rw e) \<and> pg_user d \<and> (bit d 3 \<longleftrightarrow> bit e 3) \<and> (bit d 4 \<longleftrightarrow> bit e 4)
    \<and> (\<forall>g < frame_limit s. frame_used s' g \<longleftrightarrow> g = unat (first_frame s) \<or> frame_used s g)
    \<and> same_outside (pg_frame d * 0x1000) 4096 (frame_mem s) (frame_mem s')
    \<and> (\<forall>j < 1024. read32 (frame_mem s') (pg_frame d * 0x1000 + 4 * word_of_nat j)
         = read32 (frame_mem s) (pg_frame e * 0x1000 + 4 * word_of_nat j))"
proof -
  let ?sp = "src + 4 * i" and ?tp = "tbl + 4 * i"
  let ?s1 = "alloc_frame ?tp 0 0 s"
  let ?s2 = "copy_flag 4 ?sp ?tp (copy_flag 3 ?sp ?tp (copy_flag 2 ?sp ?tp
               (copy_flag 1 ?sp ?tp (copy_flag 0 ?sp ?tp ?s1))))"
  have tp: "unat ?tp + 4 \<le> 2 ^ 32" using off(2) by (simp add: off_bitmap_def)
  have z: "pg_frame (read32 (ram s) ?tp) = 0" using empty by (simp add: pg_frame_def)
  note small = first_frame_small [OF pool free]
  have d1: "read32 (ram ?s1) ?tp = fresh_entry (first_frame s) 0 0 0"
    using alloc_frame_entry [OF pool off(2) z free, of 0 0] empty by simp
  have e1: "read32 (ram ?s1) ?sp = e"
    using alloc_frame_other [OF pool off(2,1) sep free, of 0 0] e by simp
  note cf = copy_flag_effect [OF sep tp]
  let ?cp = "\<lambda>k d. if bit e k then set_pg_flag k True d else d"
  have e2: "read32 (ram ?s2) ?sp = e" by (simp add: cf e1)
  have d2: "read32 (ram ?s2) ?tp = ?cp 4 (?cp 3 (?cp 2 (?cp 1 (?cp 0 (fresh_entry (first_frame s) 0 0 0)))))"
    by (simp only: cf e1 d1)
  note fe = fresh_entry_fields [OF small, of 0 0 0]
  have fr: "pg_frame (read32 (ram ?s2) ?tp) = first_frame s" unfolding d2 using fe(1) by simp
  have fl: "pg_present (read32 (ram ?s2) ?tp)" "pg_rw (read32 (ram ?s2) ?tp) \<longleftrightarrow> pg_rw e" "pg_user (read32 (ram ?s2) ?tp)"
    unfolding d2 using fe(2-4) by (auto simp: pg_present_def pg_rw_def pg_user_def bit_set_pg_flag)
  have "\<not> bit (fresh_entry (first_frame s) 0 0 0) 3" "\<not> bit (fresh_entry (first_frame s) 0 0 0) 4"
    using small by (simp_all add: fresh_entry_def bit_set_pg_frame bit_set_pg_flag)
  then have fl': "bit (read32 (ram ?s2) ?tp) 3 \<longleftrightarrow> bit e 3" "bit (read32 (ram ?s2) ?tp) 4 \<longleftrightarrow> bit e 4"
    unfolding d2 by (simp_all add: bit_set_pg_flag)
  have use: "frame_used ?s2 g \<longleftrightarrow> g = unat (first_frame s) \<or> frame_used s g" if "g < frame_limit s" for g
    using alloc_frame_used [OF pool off(2) z free that, of 0 0] pool off(2) that by (simp add: copy_flag_used)
  have "\<not> frame_used s (unat (first_frame s))" by (rule first_frame_lowest(2) [OF pool free])
  then have ne: "pg_frame e \<noteq> first_frame s" using used(2) by auto
  have s': "clone_entry src tbl i s = copy_page_physical (pg_frame e * 0x1000) (first_frame s * 0x1000) ?s2"
    using used(1) by (simp only: clone_entry_def Let_def e e2 fr if_False)
  have use': "\<forall>g < frame_limit s. frame_used (clone_entry src tbl i s) g \<longleftrightarrow> g = unat (first_frame s) \<or> frame_used s g"
    using use by (simp add: s' copy_page_physical_def frame_used_def frame_word_def)
  have "ram (clone_entry src tbl i s) = ram ?s2" by (simp add: s' copy_page_physical_def)
  moreover have "frame_mem ?s2 = frame_mem s" by (simp add: cf(3))
  ultimately show ?thesis
    using copy_page_physical_copies [OF frame_less [of e] small ne, of ?s2] fr fl fl' use' e2 ne s' by (simp add: Let_def)
qed

theorem clone_entry_private_copy_witness:
  "pg_user (read32 (ram (clone_entry 0x8000 0x9000 0 (small_pool\<lparr>ram := write32 (ram small_pool) 0x8000 0x3001\<rparr>))) 0x9000)"
proof -
  let ?s = "small_pool\<lparr>ram := write32 (ram small_pool) 0x8000 0x3001\<rparr>"
  have z: "read32 (\<lambda>_. 0) a = 0" for a by (simp add: read32_def)
  have h: "pool_ok ?s" "off_bitmap ?s (0x8000 + 4 * 0)" "off_bitmap ?s (0x9000 + 4 * 0)"
    "off_page (0x9000 + 4 * 0) (0x8000 + 4 * 0)" "frame_limit ?s = 64"
    using small_pool_ok(1-3)
    by (simp_all add: pool_ok_def bitmap_room_def frame_limit_def off_bitmap_def off_page_def small_pool_def INDEX_FROM_BIT_def)
  have m: "read32 (ram ?s) (0x8000 + 4 * 0) = 0x3001" "read32 (ram ?s) (0x9000 + 4 * 0) = 0"
    by (simp_all add: small_pool_def read32_write32_nat z)
  have u: "frame_used ?s 3" "\<not> frame_used ?s 4"
    by (simp_all add: frame_used_def frame_word_def small_pool_def read32_write32_nat z)
  have "pg_frame 0x3001 = 3" by (simp add: pg_frame_def)
  with u have "pg_frame 0x3001 \<noteq> 0" "frame_used ?s (unat (pg_frame 0x3001))" by simp_all
  from clone_entry_private_copy [OF h(1-4) m(1) this m(2) _ u(2)] h(5) show ?thesis by (simp add: Let_def)
qed

section \<open>The size of the bitmap\<close>

text \<open>C35: Only a quarter of the frame bitmap is allocated. For its 4096 frames the bitmap has 512
  bytes, but \<open>initialise_paging\<close> reserves and clears 128: the first 1024 frames start out free,
  the state of the others is whatever the memory behind held before, and when the bitmap
  starts in the last 512 bytes of a page the kernel's page directory is placed on top of it.\<close>
theorem frame_bitmap_too_small:
  assumes "kheap s = None" and "4096 \<le> unat (placement_address s)"
    and "unat (placement_address s) + 0x4000 \<le> 2 ^ 32"
  shows "\<exists>s'. allocate_paging_tables k s = Inr s' \<and> frames s' = placement_address s \<and> frame_limit s' = 4096
    \<and> (\<forall>f < 1024. \<not> frame_used s' f)
    \<and> (\<forall>f. 1024 \<le> f \<and> f < 4096 \<and> unat (frames s') + 4 * (f div 32) + 4 \<le> unat (kernel_directory s') \<longrightarrow>
         frame_used s' f = bit (read32 (ram s) (frames s' + 4 * word_of_nat (f div 32))) (f mod 32))
    \<and> (3584 < unat (frames s') mod 4096 \<and> unat (frames s') mod 4096 < 3968 \<longrightarrow>
         unat (kernel_directory s') < unat (frames s') + 512)"
proof -
  let ?p = "placement_address s" and ?kd = "placement_start 1 (placement_address s + 128)"
  let ?m1 = "memset (ram s) ?p 0 128"
  let ?m2 = "memset ?m1 ?kd 0 sizeof_page_directory"
  let ?m3 = "set_dir_addr ?kd (?kd + 4096) ?m2"
  have i: "INDEX_FROM_BIT 4096 = 128" by (simp add: INDEX_FROM_BIT_def)
  let ?s1 = "s\<lparr>nframes := 4096, placement_address := ?p + 128\<rparr>"
  let ?s2 = "upd_ram (\<lambda>m. memset m ?p 0 128) (?s1\<lparr>frames := ?p\<rparr>)"
  have 1: "kmalloc k 128 (s\<lparr>nframes := 4096\<rparr>) = Inr (?p, ?s1)"
    using assms(1) by (simp add: kmalloc_def kmalloc_int_def kmalloc_placement_def placement_start_def Let_def)
  have h2: "kheap ?s2 = None" "placement_address ?s2 = ?p + 128" using assms(1) by (simp_all add: upd_ram_def)
  have 2: "kmalloc_a k sizeof_page_directory ?s2 = Inr (?kd, ?s2\<lparr>placement_address := ?kd + sizeof_page_directory\<rparr>)"
    unfolding kmalloc_a_def kmalloc_int_def h2 kmalloc_placement_def Let_def by simp
  have pages: "(0x1000000 :: u32) div 0x1000 = 4096" by simp
  have "\<exists>s'. allocate_paging_tables k s = Inr s' \<and> frames s' = ?p \<and> nframes s' = 4096
      \<and> kernel_directory s' = ?kd \<and> ram s' = ?m3"
    unfolding allocate_paging_tables_def Let_def pages
    by (simp add: i 1 2 del: upd_ram_ram) (simp add: upd_ram_def)
  then obtain s' where s': "allocate_paging_tables k s = Inr s'" "frames s' = ?p" "nframes s' = 4096"
      "kernel_directory s' = ?kd" "ram s' = ?m3" by blast
  have p: "unat (?p + 128) = unat ?p + 128" using assms(3) by (intro unat_add_numeral) simp
  have "4096 div 4096 \<le> (unat ?p + 128) div 4096" using assms(2) by (intro div_le_mono) simp
  then have "0 < unat ((?p + 128) AND 0xFFFFF000)" unfolding unat_page_base p by simp
  then have nz: "(?p + 128) AND 0xFFFFF000 \<noteq> 0" by auto
  then have "unat ?kd = unat (((?p + 128) AND 0xFFFFF000) + 0x1000)" by (simp add: placement_start_def)
  also have "\<dots> = (unat ?p + 128) div 4096 * 4096 + 4096"
    using unat_add_numeral [of "(?p + 128) AND 0xFFFFF000"] assms(3) p by (simp add: unat_page_base)
  finally have kd: "unat ?kd = (unat ?p + 128) div 4096 * 4096 + 4096" .
  have q: "(unat ?p + 128) div 4096 * 4096 \<le> unat ?p + 128" by simp
  have above: "unat ?p + 128 \<le> unat ?kd" unfolding kd using div_mult_mod_eq [of "unat ?p + 128" 4096] mod_less_divisor [of 4096 "unat ?p + 128"] by linarith
  have room: "unat ?kd + 8196 \<le> 2 ^ 32" unfolding kd using assms(3) q by linarith
  have da: "unat (?kd + 8192) = unat ?kd + 8192" using room by (intro unat_add_numeral) simp
  have u: "unat sizeof_page_directory = 8196" by (simp add: sizeof_page_directory_def)
  have f2: "same_outside ?kd 8196 ?m1 ?m2" using same_outside_memset [of ?kd sizeof_page_directory ?m1 0] room u by simp
  have "same_outside ?kd 8196 ?m2 ?m3" unfolding set_dir_addr_def
    by (rule same_outside_mono [OF same_outside_write32]) (use da room in simp_all)
  with f2 have f: "same_outside ?kd 8196 ?m1 ?m3" by (rule same_outside_trans)
  have a: "unat (?p + 4 * word_of_nat j) = unat ?p + 4 * j" if "j < 128" for j
    using assms(3) that by (intro unat_cell_addr) simp
  have low: "read32 ?m3 (?p + 4 * word_of_nat j) = read32 ?m1 (?p + 4 * word_of_nat j)"
    if "j < 128" "unat ?p + 4 * j + 4 \<le> unat ?kd" for j
    by (rule read32_same_outside [OF f]) (use a [OF that(1)] that room in auto)
  have "\<not> frame_used s' g" if "g < 1024" for g
  proof -
    have j: "g div 32 < 32" using that by simp
    then have "read32 ?m1 (?p + 4 * word_of_nat (g div 32)) = 0"
      by (intro read32_memset_0) (use a [of "g div 32"] assms(3) in simp_all)
    then show ?thesis using low [of "g div 32"] above j s' by (simp add: frame_used_def frame_word_def)
  qed
  moreover have "frame_used s' g = bit (read32 (ram s) (?p + 4 * word_of_nat (g div 32))) (g mod 32)"
    if "1024 \<le> g" "g < 4096" "unat ?p + 4 * (g div 32) + 4 \<le> unat ?kd" for g
  proof -
    have j: "g div 32 < 128" "32 \<le> g div 32" using that by simp_all
    have "same_outside ?p 128 (ram s) ?m1" using same_outside_memset [of ?p 128 "ram s" 0] assms(3) by simp
    then have "read32 ?m1 (?p + 4 * word_of_nat (g div 32)) = read32 (ram s) (?p + 4 * word_of_nat (g div 32))"
      by (rule read32_same_outside) (use a [OF j(1)] j assms(3) in auto)
    then show ?thesis using low [OF j(1) that(3)] s' by (simp add: frame_used_def frame_word_def)
  qed
  moreover have "unat ?kd < unat ?p + 512" if "3584 < unat ?p mod 4096" "unat ?p mod 4096 < 3968"
  proof -
    obtain q r where qr: "unat ?p = q * 4096 + r" "r = unat ?p mod 4096" by (metis div_mult_mod_eq)
    have "(q * 4096 + (r + 128)) div 4096 = q" using that(2) qr(2) by simp
    then have "(unat ?p + 128) div 4096 = q" unfolding qr(1) by (simp only: add.assoc)
    then show ?thesis unfolding kd using that(1) qr by linarith
  qed
  ultimately show ?thesis using s' i by (intro exI [of _ s']) (simp add: frame_limit_def)
qed

theorem frame_bitmap_too_small_witness:
  "\<exists>s'. allocate_paging_tables 0 (zero_kernel\<lparr>placement_address := 0x105E80\<rparr>) = Inr s'
     \<and> unat (kernel_directory s') < unat (frames s') + 512"
proof -
  have "kheap (zero_kernel\<lparr>placement_address := 0x105E80\<rparr>) = None"
    "4096 \<le> unat (placement_address (zero_kernel\<lparr>placement_address := 0x105E80\<rparr>))"
    "unat (placement_address (zero_kernel\<lparr>placement_address := 0x105E80\<rparr>)) + 0x4000 \<le> 2 ^ 32" by simp_all
  from frame_bitmap_too_small [OF this, of 0] show ?thesis by auto
qed

end
