(* ===== verification/Paging_Boot.thy ===== *)
theory Paging_Boot
  imports Directory_Clone Heap_Aligned
begin

text \<open>
  \<open>initialise_paging\<close> from its first allocation to the switch to the cloned directory: the address
  space it builds, and the heap it leaves behind.
\<close>

section \<open>The bitmap and the directory\<close>

definition boot_room :: "'a kernel_scheme \<Rightarrow> bool" where
  "boot_room s \<longleftrightarrow> kheap s = None \<and> 4096 \<le> unat (placement_address s)
     \<and> unat (placement_address s) + 0x8000 \<le> 0x400000
     \<and> (unat (placement_address s) + 128) mod 4096 \<le> 3712
     \<and> (\<forall>i. 32 \<le> i \<and> i < 128 \<longrightarrow> read32 (ram s) (placement_address s + 4 * word_of_nat i) = 0)"

lemma boot_directory:
  fixes p :: u32
  assumes "4096 \<le> unat p" and "unat p + 0x8000 \<le> 0x400000" and "(unat p + 128) mod 4096 \<le> 3712"
  defines "kd \<equiv> placement_start 1 (p + 128)"
  shows "unat (p + 128) = unat p + 128" and "unat p + 512 \<le> unat kd" and "unat kd \<le> unat p + 4224" and "unat kd mod 4096 = 0"
proof -
  show a: "unat (p + 128) = unat p + 128" by (rule unat_add_numeral) (use assms(2) in simp)
  have nz: "(p + 128) AND 0xFFFFF000 \<noteq> 0" unfolding page_base_zero a using assms(1) by simp
  define q where "q = (unat p + 128) div 4096"
  define r where "r = (unat p + 128) mod 4096"
  have qr: "unat p + 128 = 4096 * q + r" "r \<le> 3712" "r < 4096" using assms(3) by (simp_all add: q_def r_def)
  have "unat (((p + 128) AND 0xFFFFF000) + 0x1000) = unat ((p + 128) AND 0xFFFFF000) + 0x1000"
    by (rule unat_add_numeral) (use qr assms(2) in \<open>simp add: unat_page_base a flip: q_def\<close>)
  then have kd: "unat kd = 4096 * q + 4096"
    using nz by (simp add: kd_def placement_start_def unat_page_base a q_def)
  show "unat p + 512 \<le> unat kd" "unat kd \<le> unat p + 4224" "unat kd mod 4096 = 0"
    unfolding kd using qr by linarith+ simp
qed

lemma paging_tables_early:
  assumes room: "boot_room s"
  defines "kd \<equiv> placement_start 1 (placement_address s + 128)"
  shows "\<exists>s4. allocate_paging_tables k s = Inr s4 \<and> early_ok s4 \<and> frame_limit s4 = 4096 \<and> kernel_directory s4 = kd
    \<and> (\<forall>g < 4096. \<not> frame_used s4 g) \<and> (\<forall>v < 2 ^ 20. pte (ram s4) kd v = 0)
    \<and> unat (placement_address s4) = unat kd + 8196 \<and> table_slots (ram s4) kd = {}
    \<and> (\<forall>q. unat kd + 8196 \<le> unat q \<and> unat q + 4 \<le> 2 ^ 32 \<longrightarrow> read32 (ram s4) q = read32 (ram s) q)"
proof -
  let ?p = "placement_address s"
  have r: "kheap s = None" "4096 \<le> unat ?p" "unat ?p + 0x8000 \<le> 0x400000" "(unat ?p + 128) mod 4096 \<le> 3712"
    and zero: "\<And>i. 32 \<le> i \<Longrightarrow> i < 128 \<Longrightarrow> read32 (ram s) (?p + 4 * word_of_nat i) = 0"
    using room by (simp_all add: boot_room_def)
  note b = boot_directory [OF r(2-4), folded kd_def]
  let ?m1 = "memset (ram s) ?p 0 128"
  let ?m2 = "memset ?m1 kd 0 sizeof_page_directory"
  let ?m3 = "set_dir_addr kd (kd + 4096) ?m2"
  let ?s4 = "s\<lparr>nframes := 4096, frames := ?p, placement_address := kd + 8196, kernel_directory := kd, ram := ?m3\<rparr>"
  have n: "(0x1000000 :: u32) div 0x1000 = 4096" "INDEX_FROM_BIT 4096 = 128" by (simp_all add: INDEX_FROM_BIT_def)
  have al: "placement_start 0 ?p = ?p" by (simp add: placement_start_def)
  have run: "allocate_paging_tables k s = Inr ?s4"
    using r(1) unfolding allocate_paging_tables_def n Let_def
    by (simp add: kmalloc_def kmalloc_a_def kmalloc_placement_def Let_def n al upd_ram_def kd_def sizeof_page_directory_def)
  have u: "unat sizeof_page_directory = 8196" by (simp add: sizeof_page_directory_def)
  have kdl: "unat kd + 8196 \<le> 2 ^ 32" using b(3) r(3) by simp
  have pl: "unat (kd + 8196) = unat kd + 8196" by (rule unat_add_numeral) (use b(3) r(3) in simp)
  have da: "unat (kd + 8192) = unat kd + 8192" by (rule unat_add_numeral) (use b(3) r(3) in simp)
  have f1: "same_outside ?p 128 (ram s) ?m1" using same_outside_memset [of ?p 128 "ram s" 0] r(3) by simp
  have f2: "same_outside kd 8196 ?m1 ?m2" using same_outside_memset [of kd sizeof_page_directory ?m1 0] kdl u by simp
  have f3: "same_outside (kd + 8192) 4 ?m2 ?m3"
    unfolding set_dir_addr_def by (rule same_outside_write32) (use da b(3) r(3) in simp)
  have out: "read32 ?m3 q = read32 ?m1 q" if "unat q + 4 \<le> 2 ^ 32" "unat q + 4 \<le> unat kd \<or> unat kd + 8196 \<le> unat q" for q
    using read32_same_outside [OF f3, of q] read32_same_outside [OF f2, of q] that da by auto
  have word: "read32 ?m3 (?p + 4 * word_of_nat i) = 0" if i: "i < 128" for i
  proof -
    have a: "unat (?p + 4 * word_of_nat i) = unat ?p + 4 * i" using r(3) i by (intro unat_cell_addr) simp
    have "read32 ?m3 (?p + 4 * word_of_nat i) = read32 ?m1 (?p + 4 * word_of_nat i)"
      by (rule out) (use a i b(2) kdl in simp_all)
    also have "\<dots> = 0"
    proof (cases "i < 32")
      case True
      show ?thesis by (rule read32_memset_0) (use a True r(3) in simp_all)
    next
      case False
      have "read32 ?m1 (?p + 4 * word_of_nat i) = read32 (ram s) (?p + 4 * word_of_nat i)"
        by (rule read32_same_outside [OF f1]) (use a False i r(3) in auto)
      then show ?thesis using zero [of i] False i by simp
    qed
    finally show ?thesis .
  qed
  have dir: "dir_table ?m3 kd (word_of_nat i) = 0" "dir_physical ?m3 kd (word_of_nat i) = 0" if i: "i < 1024" for i
  proof -
    have "dir_table ?m3 kd (word_of_nat i) = read32 ?m2 (kd + 4 * word_of_nat i)"
      "dir_physical ?m3 kd (word_of_nat i) = read32 ?m2 (kd + 4096 + 4 * word_of_nat i)"
      unfolding dir_table_def dir_physical_def
      by (rule read32_same_outside [OF f3]; simp only: da dir_addr [OF kdl i]; use kdl i in linarith)+
    moreover have "read32 ?m2 (kd + 4 * word_of_nat i) = 0" "read32 ?m2 (kd + 4096 + 4 * word_of_nat i) = 0"
      by (rule read32_memset_0; simp only: u dir_addr [OF kdl i]; use kdl i in linarith)+
    ultimately show "dir_table ?m3 kd (word_of_nat i) = 0" "dir_physical ?m3 kd (word_of_nat i) = 0" by simp_all
  qed
  have tabs: "table_slots ?m3 kd = {}" using dir(1) by (auto simp: table_slots_def)
  have pte: "pte ?m3 kd v = 0" if "v < 2 ^ 20" for v
    using dir(1) [OF page_div [OF that]] by (simp add: pte_def tbl_of_def)
  have space: "space_ok ?m3 kd (unat kd + 8196) (unat (kd + 8196))"
    using dir pte kdl unfolding space_ok_def slot_ok_def pl by simp
  have "pool_ok ?s4" using r(3) by (simp add: pool_ok_def bitmap_room_def n)
  then have "early_ok ?s4" using space r(1) b(2) pl by (simp add: early_ok_def n)
  moreover have "frame_limit ?s4 = 4096" by (simp add: frame_limit_def n)
  moreover have "\<not> frame_used ?s4 g" if g: "g < 4096" for g
  proof -
    have "g div 32 < 128" using g by auto
    then show ?thesis using word by (simp add: frame_used_def frame_word_def)
  qed
  moreover have "read32 ?m3 q = read32 (ram s) q" if q: "unat kd + 8196 \<le> unat q" "unat q + 4 \<le> 2 ^ 32" for q
    using out [of q] read32_same_outside [OF f1, of q] q b(2) by auto
  ultimately show ?thesis using run pte pl tabs by (intro exI [of _ ?s4]) simp
qed

section \<open>The mapping loops\<close>

lemma page_addresses_pages: "page_addresses (page_addr a) n = map page_addr [a..<a + n]"
proof -
  have "page_addr a + 0x1000 * word_of_nat i = page_addr (a + i)" for i by (simp add: page_addr_def algebra_simps)
  then have "page_addresses (page_addr a) n = map (\<lambda>i. page_addr (a + i)) [0..<n]" by (simp add: page_addresses_def)
  also have "\<dots> = map page_addr (map (\<lambda>i. i + a) [0..<n])" by (simp add: add.commute)
  finally show ?thesis by (simp only: map_add_upt add.commute [of n a])
qed

text \<open>The entries that \<open>initialise_paging\<close> makes.\<close>

definition boot_entry :: "nat \<Rightarrow> u32" where
  "boot_entry v = (if v < 1024 then fresh_entry (word_of_nat v) 0 0 0
     else if 0xC0000 \<le> v \<and> v < 0xC0100 then fresh_entry (word_of_nat (1024 + (v - 0xC0000))) 0 0 0 else 0)"

lemma boot_mappings:
  assumes room: "boot_room s"
  defines "kd \<equiv> placement_start 1 (placement_address s + 128)"
  shows "\<exists>s4 s5 s6 s7. allocate_paging_tables k s = Inr s4
    \<and> rfold (make_page k) (page_addresses KHEAP_START 256) s4 = Inr s5
    \<and> rfold (map_page k) (page_addresses 0 1024) s5 = Inr s6
    \<and> rfold (map_page k) (page_addresses KHEAP_START 256) s6 = Inr s7
    \<and> early_ok s7 \<and> kernel_directory s7 = kd \<and> frame_limit s7 = 4096
    \<and> (\<forall>g < 4096. frame_used s7 g \<longleftrightarrow> g < 1280) \<and> (\<forall>v < 2 ^ 20. pte (ram s7) kd v = boot_entry v)
    \<and> unat (placement_address s7) < 0x400000 \<and> table_slots (ram s7) kd \<subseteq> {768, 0}
    \<and> (\<forall>q. 0x400000 \<le> unat q \<and> unat q + 4 \<le> 2 ^ 32 \<longrightarrow> read32 (ram s7) q = read32 (ram s) q)"
proof -
  let ?p = "placement_address s"
  define H :: "nat list" where "H = [0xC0000..<0xC0000 + 256]"
  define L :: "nat list" where "L = [0..<0 + 1024]"
  have H: "length H = 256" "distinct H" "set H = {0xC0000..<0xC0100}" "\<And>i. i < 256 \<Longrightarrow> H ! i = 0xC0000 + i"
    by (simp_all add: H_def del: upt_rec_numeral)
  have L: "length L = 1024" "distinct L" "set L = {0..<1024}" "\<And>i. i < 1024 \<Longrightarrow> L ! i = i"
    by (simp_all add: L_def del: upt_rec_numeral)
  have pl: "4096 \<le> unat ?p" "unat ?p + 0x8000 \<le> 0x400000" "(unat ?p + 128) mod 4096 \<le> 3712"
    using room by (simp_all add: boot_room_def)
  note b = boot_directory [OF pl, folded kd_def]
  have "KHEAP_START = page_addr 0xC0000" "(0 :: u32) = page_addr 0" by (simp_all add: KHEAP_START_def page_addr_def)
  then have pages: "page_addresses KHEAP_START 256 = map page_addr H" "page_addresses 0 1024 = map page_addr L"
    using page_addresses_pages [of "0xC0000" 256] page_addresses_pages [of 0 1024] unfolding H_def L_def by simp_all
  from paging_tables_early [OF room, folded kd_def, of k] obtain s4 where
    s4: "allocate_paging_tables k s = Inr s4" "early_ok s4" "frame_limit s4 = 4096" "kernel_directory s4 = kd"
      "\<forall>g < 4096. \<not> frame_used s4 g" "\<forall>v < 2 ^ 20. pte (ram s4) kd v = 0"
      "unat (placement_address s4) = unat kd + 8196" "table_slots (ram s4) kd = {}"
      "\<forall>q. unat kd + 8196 \<le> unat q \<and> unat q + 4 \<le> 2 ^ 32 \<longrightarrow> read32 (ram s4) q = read32 (ram s) q"
    by blast
  have h: "\<forall>v \<in> set H. v < 2 ^ 20" unfolding H(3) by auto
  have room4: "unat (placement_address s4) + 8192 * length H < 2 ^ 32" using s4(7) b(3) pl(2) H(1) by simp
  from early_make_run [OF s4(2) h room4, of k] obtain s5 where
    s5: "rfold (make_page k) (map page_addr H) s4 = Inr s5" "early_ok s5" "early_step s4 s5"
      "unat (placement_address s5) \<le> unat (placement_address s4) + 8192 * length H"
      "\<forall>w < 2 ^ 20. pte (ram s5) (kernel_directory s4) w = pte (ram s4) (kernel_directory s4) w"
      "\<forall>g < frame_limit s4. frame_used s5 g = frame_used s4 g" "tables_grow s4 s5 (set H)"
    by blast
  have k5: "kernel_directory s5 = kd" "frame_limit s5 = 4096"
    using s5(3) s4(3,4) early_step_limit [OF s5(3)] by (simp_all add: early_step_def)
  have z5: "\<forall>v \<in> set L. v < 2 ^ 20 \<and> pte (ram s5) (kernel_directory s5) v = 0" using s5(5) s4(4,6) k5(1) L(3) by auto
  have room5: "unat (placement_address s5) + 8192 * length L < 2 ^ 32" using s5(4) s4(7) b(3) pl(2) H(1) L(1) by simp
  have l5: "0 + length L \<le> frame_limit s5" using k5(2) L(1) by simp
  have u5: "\<forall>g < frame_limit s5. frame_used s5 g \<longleftrightarrow> g < 0" using s5(6) s4(3,5) k5(2) by simp
  from early_map_run [OF s5(2) L(2) z5 room5 l5 u5, of k] obtain s6 where
    s6: "rfold (map_page k) (map page_addr L) s5 = Inr s6" "early_ok s6" "early_step s5 s6"
      "unat (placement_address s6) \<le> unat (placement_address s5) + 8192 * length L"
      "\<forall>i < length L. pte (ram s6) (kernel_directory s5) (L ! i) = fresh_entry (word_of_nat (0 + i)) 0 0 0"
      "\<forall>w < 2 ^ 20. w \<notin> set L \<longrightarrow> pte (ram s6) (kernel_directory s5) w = pte (ram s5) (kernel_directory s5) w"
      "\<forall>g < frame_limit s5. frame_used s6 g \<longleftrightarrow> g < 0 + length L" "tables_grow s5 s6 (set L)"
    by blast
  have k6: "kernel_directory s6 = kd" "frame_limit s6 = 4096"
    using s6(3) k5 early_step_limit [OF s6(3)] by (simp_all add: early_step_def)
  have z6: "\<forall>v \<in> set H. v < 2 ^ 20 \<and> pte (ram s6) (kernel_directory s6) v = 0"
    using s6(6) s5(5) s4(4,6) k5(1) k6(1) unfolding H(3) L(3) by auto
  have room6: "unat (placement_address s6) + 8192 * length H < 2 ^ 32" using s6(4) s5(4) s4(7) b(3) pl(2) H(1) L(1) by simp
  have l6: "1024 + length H \<le> frame_limit s6" using k6(2) H(1) by simp
  have u6: "\<forall>g < frame_limit s6. frame_used s6 g \<longleftrightarrow> g < 1024" using s6(7) k5(2) k6(2) L(1) by simp
  from early_map_run [OF s6(2) H(2) z6 room6 l6 u6, of k] obtain s7 where
    s7: "rfold (map_page k) (map page_addr H) s6 = Inr s7" "early_ok s7" "early_step s6 s7"
      "unat (placement_address s7) \<le> unat (placement_address s6) + 8192 * length H"
      "\<forall>i < length H. pte (ram s7) (kernel_directory s6) (H ! i) = fresh_entry (word_of_nat (1024 + i)) 0 0 0"
      "\<forall>w < 2 ^ 20. w \<notin> set H \<longrightarrow> pte (ram s7) (kernel_directory s6) w = pte (ram s6) (kernel_directory s6) w"
      "\<forall>g < frame_limit s6. frame_used s7 g \<longleftrightarrow> g < 1024 + length H" "tables_grow s6 s7 (set H)"
    by blast
  have k7: "kernel_directory s7 = kd" "frame_limit s7 = 4096"
    using s7(3) k6 early_step_limit [OF s7(3)] by (simp_all add: early_step_def)
  have entry: "pte (ram s7) kd v = boot_entry v" if v: "v < 2 ^ 20" for v
  proof -
    consider "v < 1024" | "0xC0000 \<le> v" "v < 0xC0100" | "\<not> v < 1024" "\<not> (0xC0000 \<le> v \<and> v < 0xC0100)" by linarith
    then show ?thesis
    proof cases
      case 1
      then have "pte (ram s7) kd v = pte (ram s6) kd v" using s7(6) v k6(1) H(3) by simp
      also have "\<dots> = fresh_entry (word_of_nat v) 0 0 0" using s6(5) [rule_format, of v] 1 k5(1) L by simp
      finally show ?thesis using 1 by (simp add: boot_entry_def)
    next
      case 2
      then have "v - 0xC0000 < length H" "H ! (v - 0xC0000) = v" using H(1) H(4) [of "v - 0xC0000"] by simp_all
      then have "pte (ram s7) kd v = fresh_entry (word_of_nat (1024 + (v - 0xC0000))) 0 0 0"
        using s7(5) k6(1) by metis
      then show ?thesis using 2 by (simp add: boot_entry_def)
    next
      case 3
      then have "pte (ram s7) kd v = pte (ram s6) kd v" using s7(6) v k6(1) H(3) by auto
      also have "\<dots> = pte (ram s5) kd v" using s6(6) v k5(1) 3 L(3) by auto
      also have "\<dots> = 0" using s5(5) s4(4,6) v by simp
      finally show ?thesis using 3 by (auto simp: boot_entry_def)
    qed
  qed
  have step: "early_step s4 s7" by (rule early_step_trans [OF s5(3) early_step_trans [OF s6(3) s7(3)]])
  have grow: "tables_grow s4 s7 (set H \<union> (set L \<union> set H))"
    using tables_grow_trans [OF s5(7) tables_grow_trans [OF s6(8) s7(8)]] k5(1) k6(1) s4(4) by simp
  have "v div 1024 = 0xC0000 div 1024" if "v \<in> set H" for v using that unfolding H(3) by auto
  moreover have "v div 1024 = 0" if "v \<in> set L" for v using that unfolding L(3) by auto
  ultimately have "(\<lambda>v. v div 1024) ` (set H \<union> (set L \<union> set H)) \<subseteq> {768, 0}" by auto
  then have tabs: "table_slots (ram s7) kd \<subseteq> {768, 0}" using grow s4(4,8) by (simp add: tables_grow_def)
  then have c2: "card (table_slots (ram s7) kd) \<le> 2" using card_mono [of "{768, 0 :: nat}" "table_slots (ram s7) kd"] by simp
  have "unat (placement_address s7) + 8192 * card (table_slots (ram s4) kd) \<le> unat (placement_address s4) + 8192 * card (table_slots (ram s7) kd)"
    using grow unfolding tables_grow_def s4(4) by blast
  then have "unat (placement_address s7) \<le> unat kd + 8196 + 8192 * card (table_slots (ram s7) kd)" by (simp add: s4(7,8))
  then have top: "unat (placement_address s7) < 0x400000" using c2 b(3) pl(2) by simp
  have "read32 (ram s7) q = read32 (ram s) q" if "0x400000 \<le> unat q" "unat q + 4 \<le> 2 ^ 32" for q
    using step s4(9) top b(3) pl(2) that unfolding early_step_def by simp
  then show ?thesis
    using s4(1) s5(1) s6(1) s7(1,2,7) pages k7 k6(2) entry top H(1) tabs
    by (intro exI [of _ s4] exI [of _ s5] exI [of _ s6] exI [of _ s7]) simp
qed

section \<open>The heap and the cloned directory\<close>

text \<open>Memory that keeps the directory and its tables keeps the address space.\<close>

lemma space_agree:
  assumes ok: "space_ok m dir lo hi" and ag: "agree_on 0 e m m'" and "unat dir + 8196 \<le> e" and "hi \<le> e"
  shows "i < 1024 \<Longrightarrow> dir_table m' dir (word_of_nat i) = dir_table m dir (word_of_nat i)"
    and "i < 1024 \<Longrightarrow> dir_physical m' dir (word_of_nat i) = dir_physical m dir (word_of_nat i)"
    and "v < 2 ^ 20 \<Longrightarrow> pte m' dir v = pte m dir v" and "space_ok m' dir lo hi"
proof -
  have room: "unat dir + 8196 \<le> 2 ^ 32" using ok by (simp add: space_ok_def)
  have d: "dir_table m' dir (word_of_nat i) = dir_table m dir (word_of_nat i)"
    "dir_physical m' dir (word_of_nat i) = dir_physical m dir (word_of_nat i)" if i: "i < 1024" for i
    unfolding dir_table_def dir_physical_def
    by (rule read32_agree [OF ag]; simp only: dir_addr [OF room i]; use i assms(3) room in linarith)+
  have p: "pte m' dir v = pte m dir v" if v: "v < 2 ^ 20" for v
  proof -
    have t: "tbl_of m' dir v = tbl_of m dir v" using d(1) [OF page_div [OF v]] by (simp add: tbl_of_def)
    then have a: "pte_addr m' dir v = pte_addr m dir v" by (simp add: pte_addr_def)
    show ?thesis
    proof (cases "tbl_of m dir v = 0")
      case False
      note r = tbl_range [OF ok v False]
      have "v mod 1024 < 1024" by simp
      then have "read32 m' (pte_addr m dir v) = read32 m (pte_addr m dir v)"
        by (intro read32_agree [OF ag]; unfold r(5); use r(3,4) assms(4) in linarith)
      then show ?thesis using t a by (simp add: pte_def)
    qed (simp add: pte_def t)
  qed
  show "i < 1024 \<Longrightarrow> dir_table m' dir (word_of_nat i) = dir_table m dir (word_of_nat i)"
    "i < 1024 \<Longrightarrow> dir_physical m' dir (word_of_nat i) = dir_physical m dir (word_of_nat i)"
    "v < 2 ^ 20 \<Longrightarrow> pte m' dir v = pte m dir v" by (fact d p)+
  show "space_ok m' dir lo hi" using ok d p by (simp add: space_ok_def slot_ok_def)
qed

lemma boot_entry_frame:
  assumes "0xC0000 \<le> v" and "v < 0xC0100"
  shows "pg_frame (boot_entry v) = word_of_nat (1024 + (v - 0xC0000))" and "boot_entry v \<noteq> 0"
proof -
  have "1024 + (v - 0xC0000) < 2 ^ 20" using assms by simp
  then have f: "(word_of_nat (1024 + (v - 0xC0000)) :: u32) < 2 ^ 20"
    by (simp add: word_less_nat_alt unsigned_of_nat take_bit_nat_eq_self del: of_nat_add)
  have "boot_entry v = fresh_entry (word_of_nat (1024 + (v - 0xC0000))) 0 0 0"
    using assms by (auto simp: boot_entry_def)
  then show "pg_frame (boot_entry v) = word_of_nat (1024 + (v - 0xC0000))" "boot_entry v \<noteq> 0"
    using fresh_entry_fields(1,2) [OF f, of 0 0 0] by (auto simp: pg_present_def)
qed

text \<open>The physical address that a page aligned request gets at the start of the heap.\<close>

lemma kmalloc_ap_physical:
  fixes s :: "'a kernel_scheme"
  assumes heap: "kheap s = Some heap" and al: "alloc (Suc f) sz 1 s = Inr (0xC0082000, set_index oa m s)"
    and ag: "agree_on 0 0xC0000000 (ram s) m"
    and space: "space_ok (ram s) (kernel_directory s) lo hi" "unat (kernel_directory s) + 8196 \<le> 0xC0000000" "hi \<le> 0xC0000000"
      "0 < lo"
    and entries: "\<forall>v < 2 ^ 20. pte (ram s) (kernel_directory s) v = boot_entry v"
  shows "kmalloc_ap (Suc f) sz s = Inr (0xC0082000, 0x482000, set_index oa m s)"
proof -
  let ?kd = "kernel_directory s" and ?v = "0xC0082 :: nat" and ?s1 = "set_index oa m s"
  note sp = space_agree [OF space(1) ag space(2,3)]
  have pa: "page_addr ?v = 0xC0082000" by (simp add: page_addr_def)
  have v: "?v < 2 ^ 20" by simp
  have e: "pte m ?kd ?v = boot_entry ?v" using sp(3) [OF v] entries by simp
  have bf: "pg_frame (boot_entry ?v) = 1154" "boot_entry ?v \<noteq> 0" using boot_entry_frame [of ?v] by simp_all
  then have t: "tbl_of m ?kd ?v \<noteq> 0" using e by (auto simp: pte_def)
  note r = tbl_range [OF sp(4) v t]
  have nz: "pte_addr m ?kd ?v \<noteq> 0" using r(2,5) space(4) by (auto simp: word_unat_eq_iff)
  have k1: "kernel_directory ?s1 = ?kd" "ram ?s1 = m" by (simp_all add: set_index_def upd_heap_def)
  have gp: "get_page (\<lambda>_ _. Inl No_return) 0xC0082000 False ?kd ?s1 = Inr (pte_addr m ?kd ?v, ?s1)"
    using get_page_known [of ?s1 ?kd "page_addr ?v" "\<lambda>_ _. Inl No_return" False] t k1(2)
    unfolding page_addr_index [OF v] pa tbl_of_def pte_addr_def by simp
  have "read32 m (pte_addr m ?kd ?v) = boot_entry ?v" using e t by (simp add: pte_def)
  then have fr: "pg_frame (read32 m (pte_addr m ?kd ?v)) = 1154" using bf(1) by simp
  have one: "(ucast (1 :: u32) :: u8) = 1" by simp
  show ?thesis
    using al heap nz unfolding kmalloc_ap_def kmalloc_int_def
    by (simp add: gp k1 fr del: alloc.simps)
qed

text \<open>The page aligned request of \<open>clone_directory\<close>, and the physical address it gets.\<close>

lemma heap_directory:
  fixes s :: "'a kernel_scheme"
  assumes heap: "kheap s = Some heap" and h: "heap_ok heap (ram s) [(0xC0081000, 0x7F000, True)]"
    "oa_array (index heap) = KHEAP_START" "oa_size (index heap) = 1" "start_address heap = 0xC0081000"
    and space: "space_ok (ram s) (kernel_directory s) lo hi" "unat (kernel_directory s) + 8196 \<le> 0xC0000000" "hi \<le> 0xC0000000"
      "0 < lo"
    and entries: "\<forall>v < 2 ^ 20. pte (ram s) (kernel_directory s) v = boot_entry v"
  shows "\<exists>oa m. kmalloc_ap (Suc f) sizeof_page_directory s = Inr (0xC0082000, 0x482000, set_index oa m s)
    \<and> heap_ok (heap\<lparr>index := oa\<rparr>) m
        [(0xC0081000, 0xFF4, True), (0xC0081FF4, 8216, False), (0xC008400C, 0x7BFF4, True)]
    \<and> agree_on 0 0xC0000000 (ram s) m
    \<and> oa_array oa = KHEAP_START \<and> oa_list oa m = [0xC0081000, 0xC008400C]"
proof -
  let ?H = "0xC0081000 :: u32" and ?kd = "kernel_directory s"
  have K: "unat KHEAP_START = 0xC0000000" by (simp add: KHEAP_START_def)
  have ok: "heap_ok heap (ram s) ([] @ (?H, 0x7F000, True) # [])" using h(1) by simp
  have "distinct (oa_list (index heap) (ram s))" "set (oa_list (index heap) (ram s)) = {?H}"
    using h(1) by (simp_all add: heap_ok_def)
  then have first: "oa_list (index heap) (ram s) = ?H # []" by (rule distinct_single)
  have fs: "front_size ?H = 0xFF4" by (simp add: front_size_def)
  have lim: "unat ?H mod 4096 \<le> 4064" "4096 \<le> unat ?H"
    "unat (front_size ?H) + unat sizeof_page_directory + 40 \<le> unat (0x7F000 :: u32)" "unat (0x7F000 :: u32) < 2 ^ 31"
    "unat (oa_array (index heap)) + 4 * (unat (oa_size (index heap)) + 2) + 8 \<le> unat (start_address heap)"
    using h(2-4) K by (simp_all add: fs sizeof_page_directory_def)
  obtain oa m where m: "alloc (Suc f) sizeof_page_directory 1 s = Inr (?H + front_size ?H + 12, set_index oa m s)"
      "heap_ok (heap\<lparr>index := oa\<rparr>) m ([] @ aligned_chunks ?H 0x7F000 sizeof_page_directory @ [])"
      "agree_on 0 (unat (oa_array (index heap))) (ram s) m" "oa_array oa = oa_array (index heap)"
      "oa_list oa m = insert_sorted (header_t_less_than m) (?H + front_size ?H + sizeof_page_directory + 20) (?H # [])"
    using alloc_aligned_state(1) [OF heap ok first lim, of f] by blast
  have ag: "agree_on 0 0xC0000000 (ram s) m" using m(3) h(2) K by simp
  have chunks: "aligned_chunks ?H 0x7F000 sizeof_page_directory
      = [(?H, 0xFF4, True), (0xC0081FF4, 8216, False), (0xC008400C, 0x7BFF4, True)]"
    by (simp add: aligned_chunks_def split_chunk_def fs sizeof_page_directory_def)
  have "\<forall>c \<in> set (aligned_chunks ?H 0x7F000 sizeof_page_directory). chunk_ok m c" using m(2) by (simp add: heap_ok_def)
  then have sizes: "hdr_size m ?H = 0xFF4" "hdr_size m 0xC008400C = 0x7BFF4" unfolding chunks by simp_all
  have idx: "oa_array oa = KHEAP_START" "oa_list oa m = [?H, 0xC008400C]"
    using m(4,5) h(2) by (simp_all add: fs sizeof_page_directory_def insert_sorted_def header_t_less_than_def sizes)
  have addr: "?H + front_size ?H + 12 = 0xC0082000" by (simp add: fs)
  have "kmalloc_ap (Suc f) sizeof_page_directory s = Inr (0xC0082000, 0x482000, set_index oa m s)"
    by (rule kmalloc_ap_physical [OF heap m(1) [unfolded addr] ag space entries])
  then show ?thesis using m(2) ag idx by (intro exI [of _ oa] exI [of _ m]) (simp add: chunks)
qed


text \<open>The stage after the switch: the heap is made, and the directory cloned into its first block.\<close>

lemma paging_heap_stage:
  fixes s :: "'a kernel_scheme"
  assumes none: "kheap s = None"
    and clean: "ftr_magic (ram s) 0xC0080FF8 \<noteq> HEAP_MAGIC" "hdr_magic (ram s) 0xC0100000 \<noteq> HEAP_MAGIC"
      "ftr_magic (ram s) 0xC00FFFF8 \<noteq> HEAP_MAGIC"
    and space: "space_ok (ram s) (kernel_directory s) lo hi" "unat (kernel_directory s) + 8196 \<le> 0xC0000000" "hi \<le> 0xC0000000"
      "0 < lo"
    and entries: "\<forall>v < 2 ^ 20. pte (ram s) (kernel_directory s) v = boot_entry v"
  shows "\<exists>h s10 heap p m. create_heap (alloc (Suc f)) KHEAP_START (KHEAP_START + KHEAP_INITIAL_SIZE) 0xCFFFF000 0 0 s = Inr (h, s10)
    \<and> clone_directory (kmalloc_ap (Suc f)) (kernel_directory (s10\<lparr>kheap := Some h\<rparr>)) (s10\<lparr>kheap := Some h\<rparr>)
        = Inr (0xC0082000, s\<lparr>placement_address := p, ram := m, kheap := Some heap\<rparr>)
    \<and> start_address heap = 0xC0081000 \<and> end_address heap = 0xC0100000 \<and> max_address heap = 0xCFFFF000
    \<and> heap_ok heap m [(0xC0081000, 0xFF4, True), (0xC0081FF4, 8216, False), (0xC008400C, 0x7BFF4, True)]
    \<and> agree_on 0 0xC0000000 (ram s) m
    \<and> shared_slots m m (kernel_directory s) 0xC0082000 1024 \<and> read32 m 0xC0084000 = 0x483000
    \<and> oa_array (index heap) = KHEAP_START \<and> oa_list (index heap) m = [0xC0081000, 0xC008400C]"
proof -
  let ?kd = "kernel_directory s" and ?dir = "0xC0082000 :: u32"
  have e: "KHEAP_START + KHEAP_INITIAL_SIZE = 0xC0100000" "KHEAP_START + 0x81000 = 0xC0081000"
    "KHEAP_START + 0x80FF8 = 0xC0080FF8" "unat KHEAP_START = 0xC0000000"
    by (simp_all add: KHEAP_START_def KHEAP_INITIAL_SIZE_def)
  have al: "unat KHEAP_START mod 4096 = 0" "unat (0xC0100000 :: u32) mod 4096 = 0" by (simp_all add: e)
  have room: "unat KHEAP_START + 0x81000 + 20 \<le> unat (0xC0100000 :: u32)" "unat (0xC0100000 :: u32) + 12 \<le> 2 ^ 32"
    by (simp_all add: e)
  have clean': "ftr_magic (ram s) (KHEAP_START + 0x80FF8) \<noteq> HEAP_MAGIC" "ftr_magic (ram s) (0xC0100000 - 8) \<noteq> HEAP_MAGIC"
    using clean by (simp_all add: e)
  from create_heap_layout [OF none al room clean'(1) clean(2) clean'(2), of "alloc (Suc f)" "0xCFFFF000" 0 0] obtain h s10 m1 where
    c: "create_heap (alloc (Suc f)) KHEAP_START 0xC0100000 0xCFFFF000 0 0 s = Inr (h, s10)"
      "start_address h = 0xC0081000" "end_address h = 0xC0100000" "max_address h = 0xCFFFF000"
      "heap_ok h (ram s10) [(0xC0081000, 0x7F000, True)]" "oa_array (index h) = KHEAP_START" "oa_size (index h) = 1"
      "s10 = s\<lparr>placement_address := placement_address s + 32, ram := m1\<rparr>" "agree_on 0 0xC0000000 (ram s) (ram s10)"
    unfolding e by auto
  let ?s11 = "s10\<lparr>kheap := Some h\<rparr>"
  have kd: "kernel_directory ?s11 = ?kd" and r: "ram ?s11 = ram s10" by (simp_all add: c(8))
  note sp = space_agree [OF space(1) c(9) space(2,3)]
  have ent: "\<forall>v < 2 ^ 20. pte (ram ?s11) (kernel_directory ?s11) v = boot_entry v" using sp(3) entries kd r by simp
  have kh: "kheap ?s11 = Some h" by simp
  from heap_directory [OF kh c(5) [folded r] c(6,7,2) sp(4) [folded kd r] space(2) [folded kd] space(3,4) ent, of f] obtain oa m2 where
    d: "kmalloc_ap (Suc f) sizeof_page_directory ?s11 = Inr (?dir, 0x482000, set_index oa m2 ?s11)"
      "heap_ok (h\<lparr>index := oa\<rparr>) m2 ([(0xC0081000, 0xFF4, True)] @ (0xC0081FF4, 8216, False) # [(0xC008400C, 0x7BFF4, True)])"
      "agree_on 0 0xC0000000 (ram s10) m2" "oa_array oa = KHEAP_START" "oa_list oa m2 = [0xC0081000, 0xC008400C]"
    by auto
  let ?s12 = "set_index oa m2 ?s11"
  have kd12: "kernel_directory ?s12 = ?kd" and r12: "ram ?s12 = m2" using kd by (simp_all add: set_index_def upd_heap_def)
  have k: "shares_kernel (ram ?s12) (kernel_directory ?s12) (kernel_directory ?s11)"
    unfolding kd12 kd by (simp add: shares_kernel_def)
  have u: "unat ?dir = 0xC0082000" by simp
  have lim: "unat ?dir + 8196 \<le> 2 ^ 32" "unat ?kd + 8196 \<le> 2 ^ 32" "unat ?kd + 8196 \<le> unat ?dir \<or> unat ?dir + 8196 \<le> unat ?kd"
    using space(2) by simp_all
  from clone_directory_shares [where al = "kmalloc_ap (Suc f)", OF d(1) k lim(1) lim(2) [folded kd] lim(2) [folded kd12] lim(3) [folded kd] lim(3) [folded kd12]]
  obtain m where
    m: "clone_directory (kmalloc_ap (Suc f)) (kernel_directory ?s11) ?s11 = Inr (?dir, ?s12\<lparr>ram := m\<rparr>)"
      "same_outside ?dir 8196 m2 m" "shared_slots m2 m ?kd ?dir 1024" "read32 m 0xC0084000 = 0x483000"
    unfolding r12 kd by auto
  have ag: "agree_on 0 0xC0000000 m2 m" by (rule same_outside_agree [OF m(2)]) simp
  have ok: "heap_ok (h\<lparr>index := oa\<rparr>) m ([(0xC0081000, 0xFF4, True)] @ (0xC0081FF4, 8216, False) # [(0xC008400C, 0x7BFF4, True)])"
    by (rule heap_ok_payload [OF d(2) m(2)]) simp_all
  have "length (oa_list oa m2) = 2" by (simp add: d(5))
  then have n2: "unat (oa_size oa) = 2" by (simp add: oa_list_def)
  have "cells m KHEAP_START 2 = cells m2 KHEAP_START 2"
    by (rule cells_agree [OF same_outside_agree [OF m(2), of "0xC0082000" 0]]) (simp_all add: e)
  then have idx: "oa_list oa m = [0xC0081000, 0xC008400C]" using d(4,5) n2 by (simp add: oa_list_def)
  have a2: "agree_on 0 0xC0000000 (ram s) m2" by (rule agree_on_trans [OF c(9) d(3)])
  have "shared_slots m m ?kd ?dir 1024"
    using m(3) space_agree(1,2) [OF space_agree(4) [OF space(1) a2 space(2,3)] ag space(2,3)] by (simp add: shared_slots_def)
  moreover have "?s12\<lparr>ram := m\<rparr> = s\<lparr>placement_address := placement_address s + 32, ram := m, kheap := Some (h\<lparr>index := oa\<rparr>)\<rparr>"
    by (simp add: set_index_def upd_heap_def c(8))
  ultimately show ?thesis
    using c(1-4) m(1,4) ok agree_on_trans [OF a2 ag] d(4) idx unfolding e
    by (intro exI [of _ h] exI [of _ s10] exI [of _ "h\<lparr>index := oa\<rparr>"] exI [of _ "placement_address s + 32"] exI [of _ m]) simp
qed


section \<open>The whole of \<open>initialise_paging\<close>\<close>

definition boot_translation :: "nat \<Rightarrow> (u32 \<times> bool \<times> bool) option" where
  "boot_translation v = (if v < 1024 then Some (word_of_nat v, False, True)
     else if 0xC0000 \<le> v \<and> v < 0xC0100 then Some (word_of_nat (1024 + (v - 0xC0000)), False, True) else None)"

lemma boot_entry_translation:
  assumes "v < 2 ^ 20"
  shows "(let e = boot_entry v in if pg_present e then Some (pg_frame e, pg_rw e, pg_user e) else None) = boot_translation v"
proof -
  have f: "(word_of_nat n :: u32) < 2 ^ 20" if "n < 2 ^ 20" for n
    using that by (simp add: word_less_nat_alt unsigned_of_nat take_bit_nat_eq_self del: of_nat_add)
  have entry: "(let e = fresh_entry (word_of_nat n) 0 0 0 in if pg_present e then Some (pg_frame e, pg_rw e, pg_user e) else None)
      = Some (word_of_nat n, False, True)" if "n < 2 ^ 20" for n
    using fresh_entry_fields [OF f [OF that], of 0 0 0] by simp
  have zero: "(let e = 0 in if pg_present e then Some (pg_frame e, pg_rw e, pg_user e) else None) = None"
    by (simp add: pg_present_def)
  consider "v < 1024" | "0xC0000 \<le> v" "v < 0xC0100" | "\<not> v < 1024" "\<not> (0xC0000 \<le> v \<and> v < 0xC0100)" by linarith
  then show ?thesis
  proof cases
    case 1
    then show ?thesis using entry [OF assms] by (simp add: boot_entry_def boot_translation_def)
  next
    case 2
    then have "1024 + (v - 0xC0000) < 2 ^ 20" by simp
    from entry [OF this] show ?thesis using 2 by (simp only: boot_entry_def boot_translation_def) simp
  next
    case 3
    then show ?thesis using zero by (simp only: boot_entry_def boot_translation_def) simp
  qed
qed

text \<open>A directory with the slots of the kernel's translates as the kernel's does.\<close>

lemma translate_shared:
  assumes "space_ok m kd lo hi" and "shared_slots m m kd dir 1024" and "v < 2 ^ 20"
  shows "translate m dir v = translate m kd v"
proof -
  note i = page_div [OF assms(3)]
  have "slot_ok m kd lo hi (v div 1024)" using assms(1) i by (simp add: space_ok_def)
  then have "dir_physical m dir (word_of_nat (v div 1024)) = dir_physical m kd (word_of_nat (v div 1024))"
    using assms(2) i by (simp add: shared_slots_def slot_ok_def Let_def)
  then show ?thesis by (simp add: translate_def)
qed

lemma frame_used_agree:
  assumes ok: "early_ok s" and ag: "agree_on 0 e (ram s) m" and "unat (kernel_directory s) \<le> e"
    and s': "frames s' = frames s" "ram s' = m" and g: "g < frame_limit s"
  shows "frame_used s' g = frame_used s g"
proof -
  have w: "g div 32 < unat (INDEX_FROM_BIT (nframes s))" using g by (auto simp: frame_limit_def)
  have p: "pool_ok s" "unat (frames s) + 4 * unat (INDEX_FROM_BIT (nframes s)) \<le> unat (kernel_directory s)"
    "unat (kernel_directory s) + 8196 \<le> 2 ^ 32"
    using ok by (simp_all add: early_ok_def space_ok_def)
  have "read32 m (frames s + 4 * word_of_nat (g div 32)) = read32 (ram s) (frames s + 4 * word_of_nat (g div 32))"
    by (rule read32_agree [OF ag]) (use frame_word_addr [OF p(1) w] w p(2,3) assms(3) in linarith)+
  then show ?thesis by (simp add: frame_used_def frame_word_def s')
qed

lemma paging_boots:
  fixes s :: "'a kernel_scheme"
  assumes "boot_room s"
    and "ftr_magic (ram s) 0xC0080FF8 \<noteq> HEAP_MAGIC" "hdr_magic (ram s) 0xC0100000 \<noteq> HEAP_MAGIC"
      "ftr_magic (ram s) 0xC00FFFF8 \<noteq> HEAP_MAGIC"
  shows "\<exists>s' heap. initialise_paging (Suc f) s = Inr s'
    \<and> (\<forall>v < 2 ^ 20. translate (ram s') (kernel_directory s') v = boot_translation v)
    \<and> (\<forall>v < 2 ^ 20. translate (ram s') (current_directory s') v = boot_translation v)
    \<and> frame_limit s' = 4096 \<and> (\<forall>g < 4096. frame_used s' g \<longleftrightarrow> g < 1280)
    \<and> current_directory s' = 0xC0082000 \<and> cr3 s' = 0x483000 \<and> bit (cr0 s') 31
    \<and> interrupt_handlers s' 14 = Some Page_fault
    \<and> kheap s' = Some heap \<and> start_address heap = 0xC0081000 \<and> end_address heap = 0xC0100000
    \<and> max_address heap = 0xCFFFF000
    \<and> heap_ok heap (ram s') [(0xC0081000, 0xFF4, True), (0xC0081FF4, 8216, False), (0xC008400C, 0x7BFF4, True)]
    \<and> (\<exists>hi < 0x400000. unat (frames s') + 512 \<le> unat (kernel_directory s')
         \<and> space_ok (ram s') (kernel_directory s') (unat (kernel_directory s') + 8196) hi)
    \<and> oa_array (index heap) = KHEAP_START \<and> oa_list (index heap) (ram s') = [0xC0081000, 0xC008400C]
    \<and> (\<forall>v < 2 ^ 20. pte (ram s') (kernel_directory s') v = boot_entry v)
    \<and> (\<forall>i < 1024. i \<noteq> 0 \<and> i \<noteq> 768 \<longrightarrow> dir_table (ram s') 0xC0082000 (word_of_nat i) = 0)"
proof -
  let ?kd = "placement_start 1 (placement_address s + 128)"
  from boot_mappings [OF assms(1), of "Suc f"] obtain s4 s5 s6 s7 where
    b: "allocate_paging_tables (Suc f) s = Inr s4"
      "rfold (make_page (Suc f)) (page_addresses KHEAP_START 256) s4 = Inr s5"
      "rfold (map_page (Suc f)) (page_addresses 0 1024) s5 = Inr s6"
      "rfold (map_page (Suc f)) (page_addresses KHEAP_START 256) s6 = Inr s7"
      "early_ok s7" "kernel_directory s7 = ?kd" "frame_limit s7 = 4096"
      "\<forall>g < 4096. frame_used s7 g \<longleftrightarrow> g < 1280" "\<forall>v < 2 ^ 20. pte (ram s7) ?kd v = boot_entry v"
      "unat (placement_address s7) < 0x400000" "table_slots (ram s7) ?kd \<subseteq> {768, 0}"
      "\<forall>q. 0x400000 \<le> unat q \<and> unat q + 4 \<le> 2 ^ 32 \<longrightarrow> read32 (ram s7) q = read32 (ram s) q"
    by blast
  let ?s9 = "switch_page_directory (kernel_directory s7) (register_interrupt_handler 14 Page_fault s7)"
  let ?hi = "unat (placement_address s7)" and ?lo = "unat ?kd + 8196"
  have s9: "ram ?s9 = ram s7" "kernel_directory ?s9 = ?kd" "kheap ?s9 = None" "frames ?s9 = frames s7" "nframes ?s9 = nframes s7"
    "interrupt_handlers ?s9 14 = Some Page_fault"
    using b(5,6) by (simp_all add: switch_page_directory_def register_interrupt_handler_def early_ok_def)
  have e: "space_ok (ram ?s9) (kernel_directory ?s9) ?lo ?hi" "?lo \<le> ?hi"
    "unat (frames s7) + 4 * unat (INDEX_FROM_BIT (nframes s7)) \<le> unat ?kd"
    using b(5,6) s9(1,2) by (simp_all add: early_ok_def)
  have clean: "ftr_magic (ram ?s9) 0xC0080FF8 \<noteq> HEAP_MAGIC" "hdr_magic (ram ?s9) 0xC0100000 \<noteq> HEAP_MAGIC"
    "ftr_magic (ram ?s9) 0xC00FFFF8 \<noteq> HEAP_MAGIC"
    using assms(2-4) b(12) unfolding s9(1) ftr_magic_def hdr_magic_def by simp_all
  have lim: "unat (kernel_directory ?s9) + 8196 \<le> 0xC0000000" "?hi \<le> 0xC0000000" "0 < ?lo"
    using e(2) b(10) s9(2) by simp_all
  have ent: "\<forall>v < 2 ^ 20. pte (ram ?s9) (kernel_directory ?s9) v = boot_entry v" using b(9) unfolding s9 .
  from paging_heap_stage [OF s9(3) clean e(1) lim ent, of f] obtain h s10 heap p m where
    st: "create_heap (alloc (Suc f)) KHEAP_START (KHEAP_START + KHEAP_INITIAL_SIZE) 0xCFFFF000 0 0 ?s9 = Inr (h, s10)"
      "clone_directory (kmalloc_ap (Suc f)) (kernel_directory (s10\<lparr>kheap := Some h\<rparr>)) (s10\<lparr>kheap := Some h\<rparr>)
        = Inr (0xC0082000, ?s9\<lparr>placement_address := p, ram := m, kheap := Some heap\<rparr>)"
      "start_address heap = 0xC0081000" "end_address heap = 0xC0100000" "max_address heap = 0xCFFFF000"
      "heap_ok heap m [(0xC0081000, 0xFF4, True), (0xC0081FF4, 8216, False), (0xC008400C, 0x7BFF4, True)]"
      "agree_on 0 0xC0000000 (ram ?s9) m" "shared_slots m m (kernel_directory ?s9) 0xC0082000 1024" "read32 m 0xC0084000 = 0x483000"
      "oa_array (index heap) = KHEAP_START" "oa_list (index heap) m = [0xC0081000, 0xC008400C]"
    by blast
  define s' where "s' = switch_page_directory 0xC0082000
     (?s9\<lparr>placement_address := p, ram := m, kheap := Some heap, current_directory := 0xC0082000\<rparr>)"
  have k: "kernel_directory (register_interrupt_handler 14 Page_fault s7) = kernel_directory s7"
    by (simp add: register_interrupt_handler_def)
  have run: "initialise_paging (Suc f) s = Inr s'"
    using b(1-4) st(1,2) by (simp add: initialise_paging_def Let_def s'_def k)
  have f: "ram s' = m" "kernel_directory s' = ?kd" "current_directory s' = 0xC0082000" "kheap s' = Some heap"
    "cr3 s' = 0x483000" "cr0 s' = cr0 ?s9 OR 0x80000000" "interrupt_handlers s' 14 = Some Page_fault"
    "frames s' = frames s7" "nframes s' = nframes s7"
    using s9 st(9) by (simp_all add: s'_def switch_page_directory_def)
  note sp = space_agree [OF e(1) st(7) lim(1,2), unfolded s9]
  have tr: "translate m ?kd v = boot_translation v" if v: "v < 2 ^ 20" for v
    using translate_pte [OF sp(4) v] sp(3) [OF v] b(9) v boot_entry_translation [OF v] by simp
  moreover have "translate m 0xC0082000 v = boot_translation v" if v: "v < 2 ^ 20" for v
    using translate_shared [OF sp(4) st(8) [unfolded s9] v] tr [OF v] by simp
  moreover have "frame_used s' g = frame_used s7 g" if "g < 4096" for g
    by (rule frame_used_agree [OF b(5) st(7) [unfolded s9] _ f(8,1)]) (use lim(1) b(6,7) s9(2) that in simp_all)
  moreover have "pte m ?kd v = boot_entry v" if "v < 2 ^ 20" for v using sp(3) [OF that] b(9) that by simp
  moreover have "dir_table m 0xC0082000 (word_of_nat i) = 0" if i: "i < 1024" "i \<noteq> 0" "i \<noteq> 768" for i
  proof -
    have "i \<notin> table_slots (ram s7) ?kd" using b(11) i by auto
    then show ?thesis using sp(1) [OF i(1)] st(8) [unfolded s9] i(1) by (simp add: table_slots_def shared_slots_def)
  qed
  moreover have "bit (0x80000000 :: u32) 31" by (simp add: bit_word_iff_drop_bit_and)
  moreover have "frame_limit s' = 4096" using b(7) f(9) by (simp add: frame_limit_def)
  moreover from this have "unat (frames s7) + 512 \<le> unat ?kd" using e(3) f(9) by (simp add: frame_limit_def)
  ultimately show ?thesis
    using run f st(3-6,10,11) b(8,10) sp(4) by (intro exI [of _ s'] exI [of _ heap]) (auto simp: bit_or_iff)
qed

text \<open>C2: Paging comes up. From a kernel without heap whose placement address leaves 32 KiB below 4 MiB, whose bitmap does not
  reach into the page directory (the placement address plus 128 lies in the first 3712 bytes of a page), with zeros behind the quarter of
  the bitmap that is cleared, and with no stale magic numbers at the borders of the heap's holes, \<open>initialise_paging\<close>
  returns. Both the kernel's directory and its clone, which is then the current one, map the first
  4 MiB to themselves and the 256 pages of the heap to the frames from 4 MiB on, read only, and
  nothing else; exactly those 1280 frames are taken. The processor runs on the clone with paging on,
  and the physical address in \<open>cr3\<close> is that of its list of tables; the page fault handler is registered. The heap has
  one block, the clone, between two holes. Directory, bitmap and tables lie in the memory
  that maps to itself.\<close>
theorem initialise_paging_boots:
  fixes s :: "'a kernel_scheme"
  assumes "boot_room s"
    and "ftr_magic (ram s) 0xC0080FF8 \<noteq> HEAP_MAGIC" "hdr_magic (ram s) 0xC0100000 \<noteq> HEAP_MAGIC"
      "ftr_magic (ram s) 0xC00FFFF8 \<noteq> HEAP_MAGIC"
  shows "\<exists>s' heap. initialise_paging (Suc f) s = Inr s'
    \<and> (\<forall>v < 2 ^ 20. translate (ram s') (kernel_directory s') v = boot_translation v)
    \<and> (\<forall>v < 2 ^ 20. translate (ram s') (current_directory s') v = boot_translation v)
    \<and> frame_limit s' = 4096 \<and> (\<forall>g < 4096. frame_used s' g \<longleftrightarrow> g < 1280)
    \<and> current_directory s' = 0xC0082000 \<and> cr3 s' = 0x483000 \<and> bit (cr0 s') 31
    \<and> interrupt_handlers s' 14 = Some Page_fault
    \<and> kheap s' = Some heap \<and> start_address heap = 0xC0081000 \<and> end_address heap = 0xC0100000
    \<and> max_address heap = 0xCFFFF000
    \<and> heap_ok heap (ram s') [(0xC0081000, 0xFF4, True), (0xC0081FF4, 8216, False), (0xC008400C, 0x7BFF4, True)]
    \<and> (\<exists>hi < 0x400000. unat (frames s') + 512 \<le> unat (kernel_directory s')
         \<and> space_ok (ram s') (kernel_directory s') (unat (kernel_directory s') + 8196) hi)"
  using paging_boots [OF assms, of f] by blast

text \<open>A kernel of one MiB on zeroed memory.\<close>

theorem initialise_paging_boots_witness:
  "\<exists>s'. initialise_paging 1 (zero_kernel\<lparr>placement_address := 0x100000\<rparr>) = Inr s'
    \<and> translate (ram s') (current_directory s') 0xB8 = Some (0xB8, False, True)
    \<and> translate (ram s') (current_directory s') 0xC0082 = Some (0x482, False, True)
    \<and> translate (ram s') (current_directory s') 0x400 = None"
proof -
  let ?s = "zero_kernel\<lparr>placement_address := 0x100000\<rparr>"
  have z: "read32 (ram ?s) a = 0" for a by (simp add: zero_kernel_def read32_def)
  have room: "boot_room ?s" using z by (simp add: boot_room_def zero_kernel_def)
  have clean: "ftr_magic (ram ?s) 0xC0080FF8 \<noteq> HEAP_MAGIC" "hdr_magic (ram ?s) 0xC0100000 \<noteq> HEAP_MAGIC"
      "ftr_magic (ram ?s) 0xC00FFFF8 \<noteq> HEAP_MAGIC"
    using z by (simp_all add: ftr_magic_def hdr_magic_def HEAP_MAGIC_def)
  from initialise_paging_boots [OF room clean, of 0] obtain s' where
    s': "initialise_paging 1 ?s = Inr s'" "\<forall>v < 2 ^ 20. translate (ram s') (current_directory s') v = boot_translation v"
    by auto
  moreover have "boot_translation 0xB8 = Some (0xB8, False, True)" "boot_translation 0xC0082 = Some (0x482, False, True)"
    "boot_translation 0x400 = None"
    by (simp_all add: boot_translation_def)
  ultimately show ?thesis by simp
qed

end
