(* ===== verification/Paging_Steps.thy ===== *)
theory Paging_Steps
  imports Paging_Boot
begin

text \<open>
  The kernel maps its pages one at a time, in any order, while its memory comes from the placement
  allocator. A step relation collects the calls; its invariant is the well formed address space
  in which no frame is mapped twice.
\<close>

section \<open>Mapping pages one at a time\<close>

abbreviation kernel_translate :: "'a kernel_scheme \<Rightarrow> nat \<Rightarrow> (u32 \<times> bool \<times> bool) option" where
  "kernel_translate s v \<equiv> translate (ram s) (kernel_directory s) v"

definition step_room :: "'a kernel_scheme \<Rightarrow> nat \<Rightarrow> bool" where
  "step_room s v \<longleftrightarrow> v < 2 ^ 20 \<and> unat (placement_address s) + 8192 < 2 ^ 32"

inductive paging_steps :: "nat \<Rightarrow> 'a kernel_scheme \<Rightarrow> nat list \<Rightarrow> 'a kernel_scheme \<Rightarrow> bool" for k s0 where
  start: "paging_steps k s0 [] s0"
| make: "paging_steps k s0 vs s \<Longrightarrow> step_room s v \<Longrightarrow> make_page k (page_addr v) s = Inr s'
    \<Longrightarrow> paging_steps k s0 vs s'"
| map: "paging_steps k s0 vs s \<Longrightarrow> step_room s v \<Longrightarrow> kernel_translate s v = None
    \<Longrightarrow> f < frame_limit s \<Longrightarrow> \<not> frame_used s f \<Longrightarrow> map_page k (page_addr v) s = Inr s'
    \<Longrightarrow> paging_steps k s0 (v # vs) s'"

lemma paging_steps_pages: "paging_steps k s0 vs s \<Longrightarrow> \<forall>v \<in> set vs. v < 2 ^ 20"
  by (induction rule: paging_steps.induct) (simp_all add: step_room_def)

definition frames_owned :: "'a kernel_scheme \<Rightarrow> bool" where
  "frames_owned s \<longleftrightarrow> early_ok s
     \<and> (\<forall>v < 2 ^ 20. \<forall>f rw us. kernel_translate s v = Some (f, rw, us) \<longrightarrow> unat f < frame_limit s \<and> frame_used s (unat f))
     \<and> (\<forall>v < 2 ^ 20. \<forall>w < 2 ^ 20. v \<noteq> w \<longrightarrow> kernel_translate s v \<noteq> None
          \<longrightarrow> map_option fst (kernel_translate s v) \<noteq> map_option fst (kernel_translate s w))"

text \<open>A step seen through the translation.\<close>

lemma early_translate:
  assumes "early_ok s" and "v < 2 ^ 20"
  shows "kernel_translate s v = (let e = pte (ram s) (kernel_directory s) v
      in if pg_present e then Some (pg_frame e, pg_rw e, pg_user e) else None)"
    and "kernel_translate s v = None \<Longrightarrow> pte (ram s) (kernel_directory s) v = 0"
proof -
  have ok: "space_ok (ram s) (kernel_directory s) (unat (kernel_directory s) + 8196) (unat (placement_address s))"
    using assms(1) by (simp add: early_ok_def)
  note t = translate_pte [OF ok assms(2)]
  show "kernel_translate s v = (let e = pte (ram s) (kernel_directory s) v
      in if pg_present e then Some (pg_frame e, pg_rw e, pg_user e) else None)" by (rule t)
  show "kernel_translate s v = None \<Longrightarrow> pte (ram s) (kernel_directory s) v = 0"
    using t ok assms(2) by (auto simp: space_ok_def Let_def split: if_splits)
qed

lemma make_step:
  assumes "early_ok s" and "step_room s v" and "make_page k (page_addr v) s = Inr s'"
  shows "early_ok s'" and "early_step s s'"
    and "w < 2 ^ 20 \<Longrightarrow> kernel_translate s' w = kernel_translate s w"
    and "g < frame_limit s \<Longrightarrow> frame_used s' g = frame_used s g"
proof -
  have r: "v < 2 ^ 20" "unat (placement_address s) + 8192 < 2 ^ 32" using assms(2) by (simp_all add: step_room_def)
  from early_make [OF assms(1) r, of k] assms(3) have
    m: "early_ok s'" "early_step s s'" "\<forall>w < 2 ^ 20. pte (ram s') (kernel_directory s) w = pte (ram s) (kernel_directory s) w"
      "\<forall>g < frame_limit s. frame_used s' g = frame_used s g"
    by (auto simp: make_page_def)
  have kd: "kernel_directory s' = kernel_directory s" using m(2) by (simp add: early_step_def)
  show "early_ok s'" "early_step s s'" by (fact m)+
  show "w < 2 ^ 20 \<Longrightarrow> kernel_translate s' w = kernel_translate s w"
    using early_translate(1) [OF m(1), of w] early_translate(1) [OF assms(1), of w] m(3) kd by simp
  show "g < frame_limit s \<Longrightarrow> frame_used s' g = frame_used s g" using m(4) by simp
qed

lemma map_step:
  assumes ok: "early_ok s" and "step_room s v" and "kernel_translate s v = None" and "f < frame_limit s" "\<not> frame_used s f"
  shows "\<exists>s' n. map_page k (page_addr v) s = Inr s' \<and> early_ok s' \<and> early_step s s'
    \<and> n < frame_limit s \<and> \<not> frame_used s n \<and> (\<forall>g < n. frame_used s g)
    \<and> (\<forall>w < 2 ^ 20. kernel_translate s' w = (if w = v then Some (word_of_nat n, False, True) else kernel_translate s w))
    \<and> (\<forall>g < frame_limit s. frame_used s' g \<longleftrightarrow> g = n \<or> frame_used s g)"
proof -
  have r: "v < 2 ^ 20" "unat (placement_address s) + 8192 < 2 ^ 32" using assms(2) by (simp_all add: step_room_def)
  from early_map_free [OF ok r early_translate(2) [OF ok r(1) assms(3)] assms(4,5), of k] obtain s' n where
    m: "map_page k (page_addr v) s = Inr s'" "early_ok s'" "early_step s s'" "n < frame_limit s" "\<not> frame_used s n"
      "\<forall>g < n. frame_used s g"
      "\<forall>w < 2 ^ 20. pte (ram s') (kernel_directory s) w
          = (if w = v then fresh_entry (word_of_nat n) 0 0 0 else pte (ram s) (kernel_directory s) w)"
      "\<forall>g < frame_limit s. frame_used s' g \<longleftrightarrow> g = n \<or> frame_used s g"
    by blast
  have kd: "kernel_directory s' = kernel_directory s" using m(3) by (simp add: early_step_def)
  have "pool_ok s" using ok by (simp add: early_ok_def)
  then have "n < 2 ^ 20" using m(4) by (simp add: frame_limit_def pool_ok_def bitmap_room_def)
  then have "(word_of_nat n :: u32) < 2 ^ 20"
    by (simp add: word_less_nat_alt unsigned_of_nat take_bit_nat_eq_self)
  note fe = fresh_entry_fields [OF this, of 0 0 0]
  have "kernel_translate s' w = (if w = v then Some (word_of_nat n, False, True) else kernel_translate s w)" if w: "w < 2 ^ 20" for w
    using early_translate(1) [OF m(2) w] early_translate(1) [OF ok w] kd m(7) w fe by simp
  with m(1-6,8) show ?thesis by blast
qed


section \<open>The mapped frames\<close>

definition used_frames :: "'a kernel_scheme \<Rightarrow> nat set" where
  "used_frames s = {g. g < frame_limit s \<and> frame_used s g}"

lemma finite_used_frames [simp]: "finite (used_frames s)"
  by (simp add: used_frames_def)

lemma used_frames_step:
  assumes "early_step s s'"
  shows "\<forall>g < frame_limit s. frame_used s' g = frame_used s g \<Longrightarrow> used_frames s' = used_frames s"
    and "n < frame_limit s \<Longrightarrow> \<forall>g < frame_limit s. frame_used s' g \<longleftrightarrow> g = n \<or> frame_used s g
      \<Longrightarrow> used_frames s' = insert n (used_frames s)"
  using early_step_limit [OF assms] by (auto simp: used_frames_def)

lemma frames_owned_make:
  assumes own: "frames_owned s" and "step_room s v" and "make_page k (page_addr v) s = Inr s'"
  shows "frames_owned s'" and "used_frames s' = used_frames s"
proof -
  have ok: "early_ok s" using own by (simp add: frames_owned_def)
  note m = make_step [OF ok assms(2,3)]
  show "frames_owned s'"
    using own m(1) unfolding frames_owned_def by (simp add: m(3,4) early_step_limit [OF m(2)])
  show "used_frames s' = used_frames s" using used_frames_step(1) [OF m(2)] m(4) by simp
qed

lemma frames_owned_map:
  assumes own: "frames_owned s" and s': "early_ok s'" "early_step s s'" and n: "n < frame_limit s" "\<not> frame_used s n"
    and v: "v < 2 ^ 20"
    and tr: "\<forall>w < 2 ^ 20. kernel_translate s' w = (if w = v then Some (word_of_nat n, False, True) else kernel_translate s w)"
    and used: "\<forall>g < frame_limit s. frame_used s' g \<longleftrightarrow> g = n \<or> frame_used s g"
  shows "frames_owned s'"
proof -
  have own': "\<And>v f rw us. v < 2 ^ 20 \<Longrightarrow> kernel_translate s v = Some (f, rw, us) \<Longrightarrow> unat f < frame_limit s \<and> frame_used s (unat f)"
    "\<And>v w. v < 2 ^ 20 \<Longrightarrow> w < 2 ^ 20 \<Longrightarrow> v \<noteq> w \<Longrightarrow> kernel_translate s v \<noteq> None
          \<Longrightarrow> map_option fst (kernel_translate s v) \<noteq> map_option fst (kernel_translate s w)"
    using own unfolding frames_owned_def by blast+
  have "pool_ok s" using own by (simp add: frames_owned_def early_ok_def)
  then have "n < 2 ^ 32" using n(1) by (simp add: frame_limit_def pool_ok_def bitmap_room_def)
  then have un: "unat (word_of_nat n :: u32) = n" by (simp add: unsigned_of_nat take_bit_nat_eq_self)
  have fresh: "f \<noteq> word_of_nat n" if "w < 2 ^ 20" "kernel_translate s w = Some (f, rw, us)" for w f rw us
    using own'(1) [OF that] n(2) un by auto
  have lim: "frame_limit s' = frame_limit s" by (rule early_step_limit [OF s'(2)])
  have "unat f < frame_limit s' \<and> frame_used s' (unat f)"
    if "w < 2 ^ 20" "kernel_translate s' w = Some (f, rw, us)" for w f rw us
    using that tr used own'(1) [OF that(1)] n(1) un lim by (auto split: if_splits)
  moreover have "map_option fst (kernel_translate s' u) \<noteq> map_option fst (kernel_translate s' w)"
    if "u < 2 ^ 20" "w < 2 ^ 20" "u \<noteq> w" "kernel_translate s' u \<noteq> None" for u w
    using that tr own'(2) [OF that(1-3)] fresh [OF that(1)] fresh [OF that(2)]
    by (cases "kernel_translate s u"; cases "kernel_translate s w") auto
  ultimately show ?thesis using s'(1) unfolding frames_owned_def by blast
qed

text \<open>C7: No frame is mapped twice. From a well formed address space in which every mapped frame is marked and belongs
  to one page, any sequence of calls that make page tables and map unmapped pages keeps it so: the pages of
  the calls are distinct, each is mapped, readable for the user and not writeable, to a frame of its own, every other page
  keeps its translation, and each mapping has taken exactly one frame from the bitmap.\<close>
theorem paging_steps_well_formed:
  assumes "paging_steps k s0 vs s" and "frames_owned s0"
  shows "frames_owned s \<and> distinct vs
    \<and> (\<forall>v \<in> set vs. \<exists>f. kernel_translate s v = Some (f, False, True))
    \<and> (\<forall>w < 2 ^ 20. w \<notin> set vs \<longrightarrow> kernel_translate s w = kernel_translate s0 w)
    \<and> card (used_frames s) = card (used_frames s0) + length vs"
  using assms
proof (induction rule: paging_steps.induct)
  case start
  then show ?case by simp
next
  case (make vs s v s')
  have IH: "frames_owned s" using make.IH make.prems by blast
  then have ok: "early_ok s" by (simp add: frames_owned_def)
  note m = make_step [OF ok make.hyps(2,3)] and o = frames_owned_make [OF IH make.hyps(2,3)]
  show ?case using make.IH make.prems o m(3) paging_steps_pages [OF make.hyps(1)] by simp
next
  case (map vs s v f s')
  have IH: "frames_owned s" "distinct vs" "\<forall>v \<in> set vs. \<exists>f. kernel_translate s v = Some (f, False, True)"
    "\<forall>w < 2 ^ 20. w \<notin> set vs \<longrightarrow> kernel_translate s w = kernel_translate s0 w"
    "card (used_frames s) = card (used_frames s0) + length vs" using map.IH map.prems by blast+
  then have ok: "early_ok s" by (simp add: frames_owned_def)
  have v: "v < 2 ^ 20" using map.hyps(2) by (simp add: step_room_def)
  from map_step [OF ok map.hyps(2-5), of k] map.hyps(6) obtain n where
    m: "early_ok s'" "early_step s s'" "n < frame_limit s" "\<not> frame_used s n"
      "\<forall>w < 2 ^ 20. kernel_translate s' w = (if w = v then Some (word_of_nat n, False, True) else kernel_translate s w)"
      "\<forall>g < frame_limit s. frame_used s' g \<longleftrightarrow> g = n \<or> frame_used s g"
    by auto
  note small = paging_steps_pages [OF map.hyps(1)]
  have "v \<notin> set vs" using IH(3) map.hyps(3) by force
  moreover have "frames_owned s'" by (rule frames_owned_map [OF IH(1) m(1-4) v m(5,6)])
  moreover have "n \<notin> used_frames s" using m(4) by (simp add: used_frames_def)
  moreover note used_frames_step(2) [OF m(2,3,6)]
  ultimately show ?case using IH small m(5) v by auto
qed

text \<open>The state after \<open>allocate_paging_tables\<close>: an empty address space. Page 7 is mapped, and then page 1029.\<close>

lemma empty_space_owned:
  fixes s :: "'a kernel_scheme"
  assumes "boot_room s"
  shows "\<exists>s4. allocate_paging_tables k s = Inr s4 \<and> frames_owned s4 \<and> frame_limit s4 = 4096
    \<and> (\<forall>v < 2 ^ 20. kernel_translate s4 v = None) \<and> (\<forall>g < 4096. \<not> frame_used s4 g)
    \<and> unat (placement_address s4) < 0x400000"
proof -
  have b: "4096 \<le> unat (placement_address s)" "unat (placement_address s) + 0x8000 \<le> 0x400000"
    "(unat (placement_address s) + 128) mod 4096 \<le> 3712" using assms by (simp_all add: boot_room_def)
  let ?kd = "placement_start 1 (placement_address s + 128)"
  from paging_tables_early [OF assms, of k] obtain s4 where
    s4: "allocate_paging_tables k s = Inr s4" "early_ok s4" "frame_limit s4 = 4096"
      "\<forall>g < 4096. \<not> frame_used s4 g" "\<forall>v < 2 ^ 20. pte (ram s4) ?kd v = 0"
      "unat (placement_address s4) = unat ?kd + 8196" and kd: "kernel_directory s4 = ?kd"
    by blast
  have none: "\<forall>v < 2 ^ 20. kernel_translate s4 v = None"
    using early_translate(1) [OF s4(2)] s4(5) kd by (simp add: pg_present_def)
  then have "frames_owned s4" using s4(2) by (simp add: frames_owned_def)
  with s4(1,3,4,6) none boot_directory(3) [OF b] b(2) show ?thesis by (intro exI [of _ s4]) simp
qed

theorem paging_steps_well_formed_witness:
  "\<exists>s4 s. allocate_paging_tables 0 (zero_kernel\<lparr>placement_address := 0x100000\<rparr>) = Inr s4
    \<and> paging_steps 0 s4 [1029, 7] s \<and> frames_owned s \<and> card (used_frames s) = 2
    \<and> kernel_translate s 7 \<noteq> kernel_translate s 1029"
proof -
  let ?s = "zero_kernel\<lparr>placement_address := 0x100000\<rparr>"
  have "boot_room ?s" by (simp add: boot_room_def zero_kernel_def read32_def)
  from empty_space_owned [OF this, of 0] obtain s4 where
    s4: "allocate_paging_tables 0 ?s = Inr s4" "frames_owned s4" "frame_limit s4 = 4096"
      "\<forall>v < 2 ^ 20. kernel_translate s4 v = None" "\<forall>g < 4096. \<not> frame_used s4 g" "unat (placement_address s4) < 0x400000"
    by blast
  have ok: "early_ok s4" using s4(2) by (simp add: frames_owned_def)
  have r4: "step_room s4 7" "step_room s4 1029" using s4(6) by (simp_all add: step_room_def)
  have f4: "0 < frame_limit s4" "\<not> frame_used s4 0" "kernel_translate s4 7 = None" using s4(3-5) by simp_all
  from map_step [OF ok r4(1) f4(3,1,2), of 0] obtain s5 n where
    s5: "map_page 0 (page_addr 7) s4 = Inr s5" "early_ok s5" "early_step s4 s5"
      "\<forall>w < 2 ^ 20. kernel_translate s5 w = (if w = 7 then Some (word_of_nat n, False, True) else kernel_translate s4 w)"
      "\<forall>g < frame_limit s4. frame_used s5 g \<longleftrightarrow> g = n \<or> frame_used s4 g"
    by blast
  have one: "paging_steps 0 s4 [7] s5"
    by (rule paging_steps.map [OF paging_steps.start r4(1) f4(3,1,2) s5(1)])
  have l5: "frame_limit s5 = 4096" using early_step_limit [OF s5(3)] s4(3) by simp
  have f5: "\<exists>f < frame_limit s5. \<not> frame_used s5 f"
  proof (cases "n = 0")
    case True
    then show ?thesis using s5(5) s4(3,5) l5 by (intro exI [of _ 1]) simp
  next
    case False
    then show ?thesis using s5(5) s4(3,5) l5 by (intro exI [of _ 0]) simp
  qed
  then obtain f where f: "f < frame_limit s5" "\<not> frame_used s5 f" by blast
  from early_map_free [OF ok _ _ early_translate(2) [OF ok _ f4(3)] f4(1,2), of 0] s5(1) s4(6)
  have "unat (placement_address s5) \<le> unat (placement_address s4) + 8192" by auto
  then have r5: "step_room s5 1029" using s4(6) by (simp add: step_room_def)
  have t5: "kernel_translate s5 1029 = None" using s5(4) s4(4) by simp
  from map_step [OF s5(2) r5 t5 f, of 0] obtain s6 where s6: "map_page 0 (page_addr 1029) s5 = Inr s6" by blast
  have two: "paging_steps 0 s4 [1029, 7] s6" by (rule paging_steps.map [OF one r5 t5 f s6])
  from paging_steps_well_formed [OF two s4(2)] have
    w: "frames_owned s6" "\<forall>v \<in> set [1029, 7]. \<exists>f. kernel_translate s6 v = Some (f, False, True)"
      "card (used_frames s6) = card (used_frames s4) + length [1029, 7 :: nat]" by blast+
  have "used_frames s4 = {}" using s4(3,5) by (auto simp: used_frames_def)
  then have c: "card (used_frames s6) = 2" using w(3) by simp
  have "(7 :: nat) < 2 ^ 20 \<and> (1029 :: nat) < 2 ^ 20 \<and> (7 :: nat) \<noteq> 1029 \<and> kernel_translate s6 7 \<noteq> None" using w(2) by auto
  then have "map_option fst (kernel_translate s6 7) \<noteq> map_option fst (kernel_translate s6 1029)"
    using w(1) unfolding frames_owned_def by blast
  then have "kernel_translate s6 7 \<noteq> kernel_translate s6 1029" by force
  with s4(1) two w(1) c show ?thesis by blast
qed

section \<open>The abstract address space\<close>

text \<open>
  What mapping a page promises: a finite map from pages to frames and access rights, and the set of
  the frames that are taken.
\<close>

type_synonym space = "(nat \<rightharpoonup> u32 \<times> bool \<times> bool) \<times> nat set"

definition abs_space :: "'a kernel_scheme \<Rightarrow> space" where
  "abs_space s = (\<lambda>v. if v < 2 ^ 20 then kernel_translate s v else None, used_frames s)"

fun map_spec :: "nat \<Rightarrow> nat \<Rightarrow> space \<Rightarrow> space" where
  "map_spec v n (sp, used) = (sp(v \<mapsto> (word_of_nat n, False, True)), insert n used)"

text \<open>C6: Mapping a page refines the abstract address space: on a well formed state \<open>get_page\<close> followed by
  \<open>alloc_frame\<close>, the body of the loops of \<open>initialise_paging\<close>, returns, keeps the state well formed, and is the
  update of the page map at that page and no other with the lowest free frame, which is added to the taken frames.
  Whether the page table existed or had to be made does not show.\<close>
theorem map_page_refines:
  assumes "early_ok s" and "step_room s v" and "kernel_translate s v = None"
    and "f < frame_limit s" and "\<not> frame_used s f"
  shows "\<exists>s' n. map_page k (page_addr v) s = Inr s' \<and> early_ok s'
    \<and> n \<notin> used_frames s \<and> (\<forall>g < n. g \<in> used_frames s)
    \<and> abs_space s' = map_spec v n (abs_space s)"
proof -
  from map_step [OF assms, of k] obtain s' n where
    m: "map_page k (page_addr v) s = Inr s'" "early_ok s'" "early_step s s'" "n < frame_limit s" "\<not> frame_used s n"
      "\<forall>g < n. frame_used s g"
      "\<forall>w < 2 ^ 20. kernel_translate s' w = (if w = v then Some (word_of_nat n, False, True) else kernel_translate s w)"
      "\<forall>g < frame_limit s. frame_used s' g \<longleftrightarrow> g = n \<or> frame_used s g"
    by blast
  have "v < 2 ^ 20" using assms(2) by (simp add: step_room_def)
  then have "abs_space s' = map_spec v n (abs_space s)"
    using m(7) by (auto simp: abs_space_def used_frames_step(2) [OF m(3,4,8)])
  moreover have "n \<notin> used_frames s" "\<forall>g < n. g \<in> used_frames s" using m(4-6) by (auto simp: used_frames_def)
  ultimately show ?thesis using m(1,2) by blast
qed

theorem map_page_refines_witness:
  "\<exists>s4 s'. allocate_paging_tables 0 (zero_kernel\<lparr>placement_address := 0x100000\<rparr>) = Inr s4
    \<and> map_page 0 (page_addr 0xC0000) s4 = Inr s' \<and> abs_space s' = ([0xC0000 \<mapsto> (0, False, True)], {0})"
proof -
  let ?s = "zero_kernel\<lparr>placement_address := 0x100000\<rparr>"
  have "boot_room ?s" by (simp add: boot_room_def zero_kernel_def read32_def)
  from empty_space_owned [OF this, of 0] obtain s4 where
    s4: "allocate_paging_tables 0 ?s = Inr s4" "early_ok s4" "frame_limit s4 = 4096"
      "\<forall>v < 2 ^ 20. kernel_translate s4 v = None" "\<forall>g < 4096. \<not> frame_used s4 g" "unat (placement_address s4) < 0x400000"
    unfolding frames_owned_def by blast
  have h: "step_room s4 0xC0000" "kernel_translate s4 0xC0000 = None" "0 < frame_limit s4" "\<not> frame_used s4 0"
    using s4(3-6) by (simp_all add: step_room_def)
  from map_page_refines [OF s4(2) h, of 0] obtain s' n where
    s': "map_page 0 (page_addr 0xC0000) s4 = Inr s'" "\<forall>g < n. g \<in> used_frames s4"
      "abs_space s' = map_spec 0xC0000 n (abs_space s4)"
    by blast
  have u: "used_frames s4 = {}" using s4(3,5) by (auto simp: used_frames_def)
  then have "n = 0" using s'(2) by auto
  moreover have "abs_space s4 = (Map.empty, {})" using s4(4) u by (auto simp: abs_space_def)
  ultimately show ?thesis using s4(1) s'(1,3) by auto
qed

end
