(* ===== verification/Paging_Collision.thy ===== *)
theory Paging_Collision
  imports Paging_Boot
begin

text \<open>
  What the kernel does next after \<open>initialise_paging\<close>: \<open>initialise_tasking\<close> begins with
  \<open>move_stack\<close>, which asks for a page table at 0xE0000000. The first hole of the heap is the one in front of the
  cloned directory, and too small; \<open>alloc\<close> finds the second, but takes the first.
\<close>

section \<open>Taking a hole that is too small\<close>

text \<open>The hole in front of the directory, 0xFF4 bytes, is taken for 0x1000 bytes on a page boundary.\<close>

lemma collide_carve:
  fixes m :: mem
  defines "m1 \<equiv> carve 0xC0081FF4 0 0x1000 0xC0100000 m"
  shows "same_outside 0xC0081FEC 0x1028 m m1" and "read32 m1 0xC0083000 = HEAP_MAGIC"
proof -
  define a where "a = make_header 0xC0081FF4 0 0x1014 m"
  define b where "b = make_footer 0xC0083000 0xC0081FF4 a"
  define c where "c = make_header 0xC0083008 1 (- 0x1014) b"
  have m1: "m1 = make_footer 0xC0081FEC 0xC0083008 c"
    by (simp add: m1_def carve_def Let_def a_def b_def c_def)
  have f: "same_outside 0xC0081FF4 12 m a" "same_outside 0xC0083000 8 a b" "same_outside 0xC0083008 12 b c"
    "same_outside 0xC0081FEC 8 c m1"
    unfolding a_def b_def c_def m1 by (rule make_header_frame make_footer_frame; simp)+
  have g: "same_outside 0xC0081FEC 0x1028 m a" "same_outside 0xC0081FEC 0x1028 a b" "same_outside 0xC0081FEC 0x1028 b c"
    "same_outside 0xC0081FEC 0x1028 c m1"
    by (rule same_outside_mono [OF f(1)] same_outside_mono [OF f(2)] same_outside_mono [OF f(3)] same_outside_mono [OF f(4)]; simp)+
  show "same_outside 0xC0081FEC 0x1028 m m1"
    by (rule same_outside_trans [OF same_outside_trans [OF same_outside_trans [OF g(1,2)] g(3)] g(4)])
  have "read32 m1 0xC0083000 = read32 c 0xC0083000" by (rule read32_same_outside [OF f(4)]) simp_all
  also have "\<dots> = read32 b 0xC0083000" by (rule read32_same_outside [OF f(3)]) simp_all
  also have "\<dots> = HEAP_MAGIC" using make_footer_fields(1) [of "0xC0083000" "0xC0081FF4" a] by (simp add: b_def ftr_magic_def)
  finally show "read32 m1 0xC0083000 = HEAP_MAGIC" .
qed

lemma collide_alloc:
  fixes s :: "'a kernel_scheme"
  assumes heap: "kheap s = Some heap" and ends: "end_address heap = 0xC0100000"
    and ok: "heap_ok heap (ram s) [(0xC0081000, 0xFF4, True), (0xC0081FF4, 8216, False), (0xC008400C, 0x7BFF4, True)]"
    and idx: "oa_array (index heap) = KHEAP_START" "oa_list (index heap) (ram s) = [0xC0081000, 0xC008400C]"
    and start: "start_address heap = 0xC0081000"
  shows "\<exists>oa m. alloc (Suc f) 0x1000 1 s = Inr (0xC0082000, set_index oa m s)
      \<and> agree_on 0 0xC0000000 (ram s) m \<and> read32 m 0xC0083000 = HEAP_MAGIC"
    and "find_smallest_hole 0x1014 1 heap (ram s) = Inr 1"
proof -
  let ?H = "0xC0081000 :: u32" and ?m = "ram s"
  have "length (oa_list (index heap) ?m) = 2" by (simp add: idx(2))
  then have n: "unat (oa_size (index heap)) = 2" by (simp add: oa_list_def)
  have sizes: "hdr_size ?m ?H = 0xFF4" "hdr_size ?m 0xC008400C = 0x7BFF4" using ok by (simp_all add: heap_ok_def)
  have fs: "front_size ?H = 0xFF4" by (simp add: front_size_def)
  have fits: "\<not> hole_fits ?m 0x1014 1 ?H" "hole_fits ?m 0x1014 1 0xC008400C"
    by (simp_all add: hole_fits_def sizes word_sle_eq)
  have loop: "[0..<unat (oa_size (index heap))] = [0, 1]" by (simp add: n upt_rec)
  have "lookup_ordered_array (word_of_nat i) (index heap) ?m = Inr (oa_list (index heap) ?m ! i)" if "i < 2" for i
    by (intro lookup_ordered_array_in) (use that n in simp)
  from this [of 0] this [of 1]
  have look: "lookup_ordered_array 0 (index heap) ?m = Inr ?H" "lookup_ordered_array 1 (index heap) ?m = Inr 0xC008400C"
    by (simp_all add: idx(2))
  show found: "find_smallest_hole 0x1014 1 heap ?m = Inr 1"
    unfolding find_smallest_hole_def loop using look fits by simp
  let ?w = "write_chunk ?H 0xFF4 True ?m"
  let ?m1 = "carve 0xC0081FF4 0 0x1000 0xC0100000 ?w"
  have wf: "same_outside ?H 0xFF4 ?m ?w" using write_chunk_frame [where n = "0xFF4" and p = ?H and hole = True and m = ?m] by simp
  have "chunk_ok ?w (?H, 0xFF4, True)" using write_chunk_ok [where n = "0xFF4" and p = ?H and hole = True and m = ?m] by simp
  then have ws: "hdr_size ?w ?H = 0xFF4" by simp
  note c = collide_carve [of ?w]
  have all: "same_outside ?H 0x2014 ?m ?m1"
    by (rule same_outside_trans [OF same_outside_mono [OF wf] same_outside_mono [OF c(1)]]) simp_all
  have lt: "less_than (index heap) = Some header_t_less_than" and room: "oa_room (index heap)"
    using ok n idx(1) by (simp_all add: heap_ok_def index_ok_def oa_room_def KHEAP_START_def)
  obtain oa m where ins: "insert_ordered_array 0xC0083008 (index heap) ?m1 = Inr (oa, m)"
      "same_outside KHEAP_START 12 ?m1 m"
    using insert_ordered_array_correct [OF lt room, of "0xC0083008" ?m1] idx(1) n by auto
  have "take_hole 0x1000 0x1014 1 s = Inr (0xC0082000, set_index oa m s)"
    using take_hole_aligned [OF heap look(1) sizes(1), of "0x1000"] ins(1) ws ends by (simp add: fs Let_def)
  then have "alloc (Suc f) 0x1000 1 s = Inr (0xC0082000, set_index oa m s)"
    using heap found by (simp add: alloc_body_def with_heap_def)
  moreover have "agree_on 0 0xC0000000 ?m m"
    by (rule agree_on_trans [OF same_outside_agree [OF all] same_outside_agree [OF ins(2)]]) (simp_all add: KHEAP_START_def)
  moreover have "read32 m 0xC0083000 = HEAP_MAGIC"
    using read32_same_outside [OF ins(2), of "0xC0083000"] c(2) by (simp add: KHEAP_START_def)
  ultimately show "\<exists>oa m. alloc (Suc f) 0x1000 1 s = Inr (0xC0082000, set_index oa m s)
      \<and> agree_on 0 0xC0000000 ?m m \<and> read32 m 0xC0083000 = HEAP_MAGIC" by blast
qed

section \<open>The first page table after paging\<close>

text \<open>\<open>get_page\<close> with a directory that it is then given as the new page table: the directory is cleared.\<close>

lemma get_page_clears_directory:
  fixes s s1 :: "'a kernel_scheme" and dir :: u32
  assumes al: "al sizeof_page_table s = Inr (dir, phys, s1)" and missing: "dir_table (ram s) dir 896 = 0"
    and room: "unat dir + 8196 \<le> 2 ^ 32"
  shows "\<exists>s'. get_page al 0xE0000000 True dir s = Inr (0, s') \<and> kernel_directory s' = kernel_directory s1
    \<and> (\<forall>i < 1024. dir_table (ram s') dir (word_of_nat i) = 0)
    \<and> dir_physical (ram s') dir 0 = dir_physical (ram s1) dir 0"
proof -
  let ?m2 = "set_dir_table dir 896 dir (ram s1)"
  let ?m3 = "memset ?m2 dir 0 0x1000"
  let ?m4 = "set_dir_physical dir 896 (phys OR 7) ?m3"
  let ?s' = "s1\<lparr>ram := ?m4\<rparr>"
  have t: "dir_table ?m2 dir 896 = dir"
    by (simp add: dir_table_def set_dir_table_def)
  note addr = dir_addr [OF room]
  have a896: "unat (dir + 4 * word_of_nat 896) = unat dir + 4 * 896" "unat (dir + 4096 + 4 * word_of_nat 896) = unat dir + 4096 + 4 * 896"
    and a0: "unat (dir + 4096 + 4 * word_of_nat 0) = unat dir + 4096 + 4 * 0"
    by (rule addr; simp)+
  have w: "word_of_nat 896 = (896 :: u32)" "word_of_nat 0 = (0 :: u32)" by simp_all
  have f2: "same_outside (dir + 4 * word_of_nat 896) 4 (ram s1) ?m2"
    unfolding set_dir_table_def w [symmetric]
    by (rule same_outside_write32; simp only: a896; use room in simp)
  have f3: "same_outside dir 0x1000 ?m2 ?m3" using same_outside_memset [of dir "0x1000" ?m2 0] room by simp
  have zero: "dir_table ?m4 dir (word_of_nat i) = 0" if i: "i < 1024" for i
  proof -
    have "dir_table ?m4 dir (word_of_nat i) = read32 ?m3 (dir + 4 * word_of_nat i)"
      unfolding dir_table_def set_dir_physical_def w(1) [symmetric]
      by (rule read32_write32_nat; simp only: addr [OF i] a896; use i room in simp)
    also have "\<dots> = 0" by (rule read32_memset_0) (use addr(1) [OF i] i room in simp_all)
    finally show ?thesis .
  qed
  have "dir_physical ?m4 dir 0 = dir_physical ?m3 dir 0"
    unfolding dir_physical_def set_dir_physical_def w [symmetric]
    by (rule read32_write32_nat; simp only: a0 a896; use room in simp)
  also have "\<dots> = dir_physical ?m2 dir 0"
    unfolding dir_physical_def w(2) [symmetric]
    by (rule read32_same_outside [OF f3]; simp only: a0; use room in simp)
  also have "\<dots> = dir_physical (ram s1) dir 0"
    unfolding dir_physical_def w(2) [symmetric]
    by (rule read32_same_outside [OF f2]; simp only: a0 a896; use room in simp)
  finally have p: "dir_physical ?m4 dir 0 = dir_physical (ram s1) dir 0" .
  have "get_page al 0xE0000000 True dir s = Inr (0, ?s')"
    using al missing t zero [of 896] by (simp add: get_page_def Let_def upd_ram_def)
  with zero p show ?thesis by (intro exI [of _ ?s']) simp
qed

text \<open>C3: The first page table after paging is the page directory itself. When paging has come up, the
  request for a page table with which \<open>move_stack\<close> begins finds the large hole of the heap, but is served from the
  small one in front of the cloned directory: it returns the address of the current directory, at which a block is
  already allocated. \<open>get_page\<close> then clears that directory as if it were the new table: no slot is left with a table,
  and the physical address of the table of the first 4 MiB, where the kernel's code lies, is the magic number
  of a heap footer.\<close>
theorem stack_table_overwrites_directory:
  fixes s :: "'a kernel_scheme"
  assumes "boot_room s"
    and "ftr_magic (ram s) 0xC0080FF8 \<noteq> HEAP_MAGIC" "hdr_magic (ram s) 0xC0100000 \<noteq> HEAP_MAGIC"
      "ftr_magic (ram s) 0xC00FFFF8 \<noteq> HEAP_MAGIC"
  shows "\<exists>s1 heap s2 s3. initialise_paging (Suc f) s = Inr s1 \<and> kheap s1 = Some heap
    \<and> find_smallest_hole (sizeof_page_table + 20) 1 heap (ram s1) = Inr 1
    \<and> kmalloc_ap (Suc f) sizeof_page_table s1 = Inr (current_directory s1, 0x482000, s2)
    \<and> get_page (kmalloc_ap (Suc f)) 0xE0000000 True (current_directory s1) s1 = Inr (0, s3)
    \<and> (\<forall>i < 1024. dir_table (ram s3) (current_directory s1) (word_of_nat i) = 0)
    \<and> dir_physical (ram s3) (current_directory s1) 0 = HEAP_MAGIC"
proof -
  from paging_boots [OF assms, of f] obtain s1 heap hi where
    p: "initialise_paging (Suc f) s = Inr s1" "current_directory s1 = 0xC0082000" "kheap s1 = Some heap"
      "start_address heap = 0xC0081000" "end_address heap = 0xC0100000"
      "heap_ok heap (ram s1) [(0xC0081000, 0xFF4, True), (0xC0081FF4, 8216, False), (0xC008400C, 0x7BFF4, True)]"
      "hi < 0x400000" "unat (frames s1) + 512 \<le> unat (kernel_directory s1)"
      "space_ok (ram s1) (kernel_directory s1) (unat (kernel_directory s1) + 8196) hi"
      "oa_array (index heap) = KHEAP_START" "oa_list (index heap) (ram s1) = [0xC0081000, 0xC008400C]"
      "\<forall>v < 2 ^ 20. pte (ram s1) (kernel_directory s1) v = boot_entry v"
      "\<forall>i < 1024. i \<noteq> 0 \<and> i \<noteq> 768 \<longrightarrow> dir_table (ram s1) 0xC0082000 (word_of_nat i) = 0"
    by blast
  have pt: "sizeof_page_table = 0x1000" "sizeof_page_table + 20 = 0x1014" by (simp_all add: sizeof_page_table_def)
  note c = collide_alloc(1) [OF p(3,5,6,10,11,4), of f] collide_alloc(2) [OF p(3,5,6,10,11,4)]
  from c(1) obtain oa m where
    m: "alloc (Suc f) sizeof_page_table 1 s1 = Inr (0xC0082000, set_index oa m s1)" "agree_on 0 0xC0000000 (ram s1) m"
      "read32 m 0xC0083000 = HEAP_MAGIC"
    unfolding pt by blast
  have kd: "unat (kernel_directory s1) + 8196 \<le> 0xC0000000" "hi \<le> 0xC0000000" "0 < unat (kernel_directory s1) + 8196"
  proof -
    have "boot_entry 0xC0000 \<noteq> 0" by (rule boot_entry_frame(2)) simp_all
    moreover have "pte (ram s1) (kernel_directory s1) 0xC0000 = boot_entry 0xC0000" using p(12) by simp
    ultimately have t: "tbl_of (ram s1) (kernel_directory s1) 0xC0000 \<noteq> 0" by (auto simp: pte_def)
    then show "unat (kernel_directory s1) + 8196 \<le> 0xC0000000" using tbl_range(2,3) [OF p(9) _ t] p(7) by simp
  qed (use p(7) in simp_all)
  have k: "kmalloc_ap (Suc f) sizeof_page_table s1 = Inr (0xC0082000, 0x482000, set_index oa m s1)"
    by (rule kmalloc_ap_physical [OF p(3) m(1,2) p(9) kd p(12)])
  have missing: "dir_table (ram s1) 0xC0082000 896 = 0" using p(13) [rule_format, of 896] by simp
  from get_page_clears_directory [where al = "kmalloc_ap (Suc f)", OF k missing] obtain s3 where
    g: "get_page (kmalloc_ap (Suc f)) 0xE0000000 True 0xC0082000 s1 = Inr (0, s3)"
      "\<forall>i < 1024. dir_table (ram s3) 0xC0082000 (word_of_nat i) = 0"
      "dir_physical (ram s3) 0xC0082000 0 = dir_physical (ram (set_index oa m s1)) 0xC0082000 0"
    by auto
  have "dir_physical (ram (set_index oa m s1)) 0xC0082000 0 = HEAP_MAGIC" using m(3) by (simp add: dir_physical_def)
  with g(3) have dp: "dir_physical (ram s3) 0xC0082000 0 = HEAP_MAGIC" by simp
  from p(1,3) c(2) [folded pt(2)] k [folded p(2)] g(1,2) [folded p(2)] dp [folded p(2)] show ?thesis by blast
qed

theorem stack_table_overwrites_directory_witness:
  "\<exists>s1 s2 s3. initialise_paging 1 (zero_kernel\<lparr>placement_address := 0x100000\<rparr>) = Inr s1
    \<and> kmalloc_ap 1 sizeof_page_table s1 = Inr (current_directory s1, 0x482000, s2)
    \<and> get_page (kmalloc_ap 1) 0xE0000000 True (current_directory s1) s1 = Inr (0, s3)
    \<and> dir_physical (ram s3) (current_directory s1) 0 = 0x123890AB"
proof -
  let ?s = "zero_kernel\<lparr>placement_address := 0x100000\<rparr>"
  have z: "read32 (ram ?s) a = 0" for a by (simp add: zero_kernel_def read32_def)
  have room: "boot_room ?s" using z by (simp add: boot_room_def zero_kernel_def)
  have clean: "ftr_magic (ram ?s) 0xC0080FF8 \<noteq> HEAP_MAGIC" "hdr_magic (ram ?s) 0xC0100000 \<noteq> HEAP_MAGIC"
      "ftr_magic (ram ?s) 0xC00FFFF8 \<noteq> HEAP_MAGIC"
    using z by (simp_all add: ftr_magic_def hdr_magic_def HEAP_MAGIC_def)
  from stack_table_overwrites_directory [OF room clean, of 0] show ?thesis unfolding HEAP_MAGIC_def by auto
qed

end
