(* ===== verification/Container_Properties.thy ===== *)
theory Container_Properties
  imports Ring_Buffer Console_Properties "HOL-Library.Multiset"
begin

text \<open>
  The two containers of the kernel against their specifications: the ordered array against
  sorted lists and multisets, the ring buffer, with the messages it prints, against a bounded
  queue.
\<close>

section \<open>The ordered array\<close>

lemma mset_insert_sorted: "mset (insert_sorted lt x xs) = add_mset x (mset xs)"
proof -
  have "mset (takeWhile P xs) + mset (dropWhile P xs) = mset xs" for P :: "u32 \<Rightarrow> bool"
    by (metis mset_append takeWhile_dropWhile_id)
  then show ?thesis by (simp add: insert_sorted_def)
qed

text \<open>C22: Inserting keeps the ordered array ordered. With a comparison that is a weak order and
  room for one more cell, \<open>insert_ordered_array\<close> succeeds, the array stays ordered, its
  elements are the old ones and the new one, and only the cells of the array are written.\<close>
theorem insert_keeps_order:
  assumes "less_than a = Some lt" and "oa_room a" and "weak_order (lt m)" and "ordered_by (lt m) (oa_list a m)"
  shows "\<exists>a' m'. insert_ordered_array x a m = Inr (a', m') \<and> ordered_by (lt m) (oa_list a' m')
    \<and> mset (oa_list a' m') = add_mset x (mset (oa_list a m))
    \<and> same_outside (oa_array a) (4 * (unat (oa_size a) + 1)) m m'"
  using insert_ordered_array_correct [OF assms(1,2), of x m] insert_sorted_ordered [OF assms(3,4), of x]
  by (auto simp: mset_insert_sorted)

definition two_cells :: mem where
  "two_cells = write32 (write32 (\<lambda>_. 0) 0x100 5) 0x104 9"

definition two_cell_array :: ordered_array where
  "two_cell_array = \<lparr>oa_array = 0x100, oa_size = 2, oa_max_size = 8, less_than = Some standard_lessthan_predicate\<rparr>"

lemma two_cell_list: "oa_list two_cell_array two_cells = [5, 9]"
proof -
  have "[0..<2] = [0, 1 :: nat]" by (simp add: numeral_2_eq_2)
  then show ?thesis
    by (simp add: oa_list_def two_cell_array_def cells_def cell_def two_cells_def read32_write32_nat)
qed

theorem insert_keeps_order_witness:
  "\<exists>a' m'. insert_ordered_array 7 two_cell_array two_cells = Inr (a', m') \<and> mset (oa_list a' m') = {#5, 7, 9#}"
proof -
  have h: "less_than two_cell_array = Some standard_lessthan_predicate" "oa_room two_cell_array"
    "weak_order (standard_lessthan_predicate two_cells)"
    "ordered_by (standard_lessthan_predicate two_cells) (oa_list two_cell_array two_cells)"
    by (simp_all add: two_cell_array_def oa_room_def weak_order_def standard_lessthan_predicate_def [abs_def])
      (auto simp: two_cell_list [unfolded two_cell_array_def standard_lessthan_predicate_def [abs_def]] ordered_by_def)
  from insert_keeps_order [OF h, of 7] show ?thesis unfolding two_cell_list by (auto simp: add_mset_commute)
qed

text \<open>C23: The index forgets what is removed and nothing else. What \<open>insert_ordered_array\<close> put in,
  the search that \<open>free\<close> uses finds again, and removing it there restores the elements and
  the order of the array as it was before the insertion.\<close>
theorem insert_find_remove:
  assumes "less_than a = Some lt" and "oa_room (a\<lparr>oa_size := oa_size a + 1\<rparr>)" and "oa_room a"
    and "x \<notin> set (oa_list a m)" and "insert_ordered_array x a m = Inr (a1, m1)"
  shows "\<exists>i. find_in_index x a1 m1 = Inr i \<and> i < unat (oa_size a1)
    \<and> oa_list (fst (remove_ordered_array (word_of_nat i) a1 m1)) (snd (remove_ordered_array (word_of_nat i) a1 m1)) = oa_list a m"
proof -
  have ins: "oa_list a1 m1 = insert_sorted (lt m) x (oa_list a m)" "a1 = a\<lparr>oa_size := oa_size a + 1\<rparr>"
    using insert_ordered_array_correct [OF assms(1,3), of x m] assms(5) by auto
  have len: "length (oa_list a1 m1) = unat (oa_size a1)" by (simp add: oa_list_def)
  have "oa_usable a1" using assms(1,2) ins(2) by (simp add: oa_usable_def)
  moreover have "x \<in> set (oa_list a1 m1)" by (simp add: ins(1))
  ultimately obtain i where i: "find_in_index x a1 m1 = Inr i" "i < unat (oa_size a1)"
      "\<forall>a' m'. remove_ordered_array (word_of_nat i) a1 m1 = (a', m') \<longrightarrow> oa_list a' m' = remove1 x (oa_list a1 m1)"
    using oa.search_and_remove [of a1 x m1] by (auto simp: find_in_index_def len)
  have "remove1 x (oa_list a1 m1) = oa_list a m"
  proof -
    have "x \<notin> set (takeWhile P (oa_list a m))" for P using assms(4) by (auto dest: set_takeWhileD)
    then show ?thesis by (simp add: ins(1) insert_sorted_def remove1_append)
  qed
  with i show ?thesis by (metis prod.collapse)
qed

theorem insert_find_remove_witness:
  "\<exists>i. find_in_index 7 (fst (projr (insert_ordered_array 7 two_cell_array two_cells)))
         (snd (projr (insert_ordered_array 7 two_cell_array two_cells))) = Inr i"
proof -
  have h: "less_than two_cell_array = Some standard_lessthan_predicate"
    "oa_room (two_cell_array\<lparr>oa_size := oa_size two_cell_array + 1\<rparr>)" "oa_room two_cell_array"
    "7 \<notin> set (oa_list two_cell_array two_cells)"
    by (simp_all add: two_cell_list) (simp_all add: two_cell_array_def oa_room_def)
  from insert_ordered_array_correct [OF h(1,3), of 7 two_cells] obtain a1 m1 where
    "insert_ordered_array 7 two_cell_array two_cells = Inr (a1, m1)" by blast
  with insert_find_remove [OF h this] show ?thesis by auto
qed

section \<open>The ring buffer\<close>

text \<open>A session of writes and reads on the buffer at \<open>b\<close>, as callers of \<open>ring_buffer.c\<close> run it.\<close>

primrec rb_session ::
    "device \<Rightarrow> u32 \<Rightarrow> u8 queue_op list \<Rightarrow> 'a screen_scheme \<Rightarrow> (u8 list \<times> 'a screen_scheme) result" where
  "rb_session dev b [] s = Inr ([], s)"
| "rb_session dev b (c # cs) s =
     (case c of
        Put x \<Rightarrow> rbind (ring_buffer_write dev b x s) (rb_session dev b cs)
      | Get \<Rightarrow> rbind (ring_buffer_read b (ram s)) (\<lambda>(y, m).
          rbind (rb_session dev b cs (s\<lparr>ram := m\<rparr>)) (\<lambda>(ys, s'). Inr (y # ys, s'))))"

lemma u32_to_dec_short: "length (u32_to_dec n) \<le> 3"
proof -
  have step: "length (char_digits acc) \<le> Suc k" if "acc < 10 ^ Suc k" for acc k
    using that
  proof (induction k arbitrary: acc)
    case 0
    then have "acc div 10 \<le> 0" by simp
    then show ?case by (simp add: char_digits.simps [of acc] char_digits_nonpos)
  next
    case (Suc k)
    then have "acc div 10 < 10 ^ Suc k" by simp
    with Suc.IH show ?case by (simp add: char_digits.simps [of acc])
  qed
  have "sint (ucast n :: u8) < 10 ^ Suc 2" by (simp add: sint_low_byte) linarith
  from step [OF this] show ?thesis by (simp add: u32_to_dec_def)
qed

lemma count_message:
  "sprintk 1024 (lit ''buffer count: %d, size: %d, head: %d, tail: %d\<newline>'') [VInt a, VInt b, VInt c, VInt d]
    = Inr ((lit ''buffer count: '' @ u32_to_dec a @ lit '', size: '' @ u32_to_dec b @ lit '', head: ''
        @ u32_to_dec c @ lit '', tail: '' @ u32_to_dec d @ [0x0A]) @ [0])"
  by (simp add: sprintk_def lit_def directive_def)

lemma dropped_message:
  "sprintk 1024 (lit ''write to ring_buffer %x dropped: won't overwrite head.\<newline>'') [VInt a]
    = Inr ((lit ''write to ring_buffer '' @ u32_to_hex a @ lit '' dropped: won't overwrite head.\<newline>'') @ [0])"
  by (simp add: sprintk_def lit_def directive_def)

lemma ring_buffer_write_returns:
  assumes "transmitter_alive dev k"
  shows "\<exists>s'. ring_buffer_write dev b x s = Inr s' \<and> ram s' = rb_put b x (ram s)"
proof (cases "rb_count (ram s) b < rb_size (ram s) b")
  case True
  let ?s1 = "s\<lparr>ram := rb_store b x (ram s)\<rparr>"
  let ?m = "ram ?s1"
  have "length (lit ''buffer count: '' @ u32_to_dec (rb_count ?m b) @ lit '', size: '' @ u32_to_dec (rb_size ?m b) @ lit '', head: ''
        @ u32_to_dec (rb_head ?m b) @ lit '', tail: '' @ u32_to_dec (rb_tail ?m b) @ [0x0A]) < 1024"
    using u32_to_dec_short [of "rb_count ?m b"] u32_to_dec_short [of "rb_size ?m b"]
      u32_to_dec_short [of "rb_head ?m b"] u32_to_dec_short [of "rb_tail ?m b"]
    by (simp add: lit_def)
  from printk_delivers [OF assms count_message this, of ?s1] show ?thesis
    using True by (auto simp: ring_buffer_write_def rb_put_def Let_def)
next
  case False
  have "length (lit ''write to ring_buffer '' @ u32_to_hex b @ lit '' dropped: won't overwrite head.\<newline>'') < 1024"
    using u32_to_hex_length [of b] by (simp add: lit_def)
  from printk_delivers [OF assms dropped_message this, of s] show ?thesis
    using False by (auto simp: ring_buffer_write_def rb_put_def)
qed

lemma rb_session_run:
  assumes "transmitter_alive dev k" and "rb_valid b n (ram s)"
    and "run_spec n cs (rb_list b n (ram s)) = Some (out, zs)"
  shows "\<exists>s'. rb_session dev b cs s = Inr (out, s') \<and> rb_list b n (ram s') = zs \<and> rb_valid b n (ram s')"
  using assms(2,3)
proof (induction cs arbitrary: s out)
  case (Cons c cs)
  show ?case
  proof (cases c)
    case (Put x)
    obtain s1 where s1: "ring_buffer_write dev b x s = Inr s1" "ram s1 = rb_put b x (ram s)"
      using ring_buffer_write_returns [OF assms(1)] by blast
    have "rb_valid b n (ram s1) \<and> rb_list b n (ram s1)
        = (if length (rb_list b n (ram s)) < n then rb_list b n (ram s) @ [x] else rb_list b n (ram s))"
      using rb.put_room [OF Cons.prems(1), of x] rb.put_full [OF Cons.prems(1), of x] Cons.prems(1) s1(2) by auto
    then show ?thesis using Cons.IH [of s1 out] Cons.prems(2) s1(1) Put by simp
  next
    case Get
    then obtain y ys o' where x: "rb_list b n (ram s) = y # ys" "run_spec n cs ys = Some (o', zs)" "out = y # o'"
      using Cons.prems by (auto split: list.splits option.splits)
    obtain m where m: "rb_take b (ram s) = (y, m)" "rb_list b n m = ys" "rb_valid b n m"
      using rb.get_head [OF Cons.prems(1) x(1)] by blast
    have "rb_size (ram s) b \<noteq> 0" using Cons.prems(1) by (auto simp: rb_valid_def)
    then have "ring_buffer_read b (ram s) = Inr (y, m)" using m(1) by (simp add: ring_buffer_read_def)
    then show ?thesis using Cons.IH [of "s\<lparr>ram := m\<rparr>" o'] m x Get by auto
  qed
qed simp

text \<open>C16: The ring buffer is a first-in first-out queue. In any session of writes and reads in
  which no read meets an empty buffer, every call returns, what was read followed by what is
  left in the buffer is what was there before followed by the items that found room, in the
  order they were written; a write to a full buffer is dropped and overwrites nothing.\<close>
theorem ring_buffer_fifo:
  assumes "transmitter_alive dev k" and "rb_valid b n (ram s)"
    and "run_spec n cs (rb_list b n (ram s)) = Some (out, zs)"
  shows "\<exists>s'. rb_session dev b cs s = Inr (out, s') \<and> rb_list b n (ram s') = zs \<and> rb_valid b n (ram s')
    \<and> out @ rb_list b n (ram s') = rb_list b n (ram s) @ accepted n cs (length (rb_list b n (ram s)))"
  using rb_session_run [OF assms] run_spec_fifo [OF assms(3)] by auto

definition empty_ring :: mem where
  "empty_ring = write32 (write32 (\<lambda>_. 0) 0x100C 2) 0x1010 0x2000"

lemma empty_ring_valid: "rb_valid 0x1000 2 empty_ring" "rb_list 0x1000 2 empty_ring = []"
proof -
  have z: "read32 (\<lambda>_. 0) a = 0" for a by (simp add: read32_def)
  show "rb_valid 0x1000 2 empty_ring" "rb_list 0x1000 2 empty_ring = []"
    by (simp_all add: rb_valid_def rb_list_def empty_ring_def rb_fields read32_write32_nat z)
qed

theorem ring_buffer_fifo_witness:
  "\<exists>s'. rb_session (\<lambda>_. 0x20) 0x1000 [Put 7, Put 8, Put 9, Get, Get] (blank_screen\<lparr>ram := empty_ring\<rparr>) = Inr ([7, 8], s')"
proof -
  have alive: "transmitter_alive (\<lambda>_. 0x20) 1" by (simp add: transmitter_alive_def)
  have "rb_valid 0x1000 2 (ram (blank_screen\<lparr>ram := empty_ring\<rparr>))" using empty_ring_valid by simp
  moreover have "run_spec 2 [Put 7, Put 8, Put 9, Get, Get] (rb_list 0x1000 2 (ram (blank_screen\<lparr>ram := empty_ring\<rparr>)))
      = Some ([7, 8], [])" by (simp add: empty_ring_valid)
  ultimately show ?thesis using ring_buffer_fifo [OF alive] by blast
qed

text \<open>
  The count after a read of an empty buffer is \<open>2 ^ 32 - 1\<close>, and then the buffer passes for full.
\<close>

lemma empty_read:
  assumes "rb_valid b n m" and "rb_list b n m = []"
  shows "\<exists>m'. ring_buffer_read b m = Inr (m (rb_data m b + rb_head m b), m')
    \<and> rb_count m' b = 0xFFFFFFFF \<and> rb_size m' b = rb_size m b \<and> rb_data m' b = rb_data m b
    \<and> unat (rb_head m' b) = Suc (unat (rb_head m b)) mod n \<and> rb_tail m' b = rb_tail m b"
proof -
  have v: "0 < n" "unat (rb_size m b) = n" "unat (rb_head m b) < n" "unat b + 20 \<le> 2 ^ 32"
    using assms(1) by (simp_all add: rb_valid_def)
  have c: "rb_count m b = 0"
    using assms(2) by (simp add: rb_list_def word_unat_eq_iff)
  have sz: "rb_size m b \<noteq> 0" using v(1,2) by auto
  have "unat (rb_size m b) < 2 ^ 32" using unat_u32_less [of "rb_size m b"] by simp
  then have hd: "unat ((rb_head m b + 1) mod rb_size m b) = Suc (unat (rb_head m b)) mod n"
    using v(2,3) unat_add_one [of "rb_head m b"] by (simp add: unat_mod_distrib)
  show ?thesis
    using sz c hd by (simp add: ring_buffer_read_def rb_take_def Let_def rb_fields)
qed

lemma full_drops:
  assumes "transmitter_alive dev k" and "\<not> rb_count (ram s) b < rb_size (ram s) b"
  shows "\<exists>s'. rb_session dev b (map Put xs) s = Inr ([], s') \<and> ram s' = ram s"
  using assms(2)
proof (induction xs arbitrary: s)
  case (Cons x xs)
  obtain s1 where s1: "ring_buffer_write dev b x s = Inr s1" "ram s1 = ram s"
    using ring_buffer_write_returns [OF assms(1), of b x s] Cons.prems by (auto simp: rb_put_def)
  then show ?case using Cons.IH [of s1] Cons.prems by simp
qed simp

text \<open>C17: A read of an empty ring buffer closes it. It returns whatever byte lies at the head, takes 1 from
  the count, which becomes \<open>2 ^ 32 - 1\<close>, and from then on every write is dropped with a message: whatever
  is written afterwards, no byte of memory changes.\<close>
theorem ring_buffer_underflow:
  assumes "transmitter_alive dev k" and "rb_valid b n (ram s)" and "rb_list b n (ram s) = []"
  shows "\<exists>s'. rb_session dev b (Get # map Put xs) s = Inr ([ram s (rb_data (ram s) b + rb_head (ram s) b)], s')
    \<and> rb_count (ram s') b = 0xFFFFFFFF
    \<and> ring_buffer_read b (ram s) = Inr (ram s (rb_data (ram s) b + rb_head (ram s) b), ram s')"
proof -
  obtain m' where m': "ring_buffer_read b (ram s) = Inr (ram s (rb_data (ram s) b + rb_head (ram s) b), m')"
      "rb_count m' b = 0xFFFFFFFF"
    using empty_read [OF assms(2,3)] by blast
  have "\<not> (0xFFFFFFFF :: u32) < rb_size m' b" 
    using unat_u32_less [of "rb_size m' b"] by (simp add: word_less_nat_alt)
  then have "\<not> rb_count (ram (s\<lparr>ram := m'\<rparr>)) b < rb_size (ram (s\<lparr>ram := m'\<rparr>)) b" using m'(2) by simp
  from full_drops [OF assms(1) this, of xs] obtain s' where
    "rb_session dev b (map Put xs) (s\<lparr>ram := m'\<rparr>) = Inr ([], s')" "ram s' = m'" by auto
  then show ?thesis using m' by simp
qed

theorem ring_buffer_underflow_witness:
  "\<exists>s'. rb_session (\<lambda>_. 0x20) 0x1000 [Get, Put 7, Put 8] (blank_screen\<lparr>ram := empty_ring\<rparr>) = Inr ([0], s')
    \<and> rb_count (ram s') 0x1000 = 0xFFFFFFFF"
proof -
  let ?s = "blank_screen\<lparr>ram := empty_ring\<rparr>"
  have alive: "transmitter_alive (\<lambda>_. 0x20) 1" by (simp add: transmitter_alive_def)
  have v: "rb_valid 0x1000 2 (ram ?s)" "rb_list 0x1000 2 (ram ?s) = []" using empty_ring_valid by simp_all
  have "ram ?s (rb_data (ram ?s) 0x1000 + rb_head (ram ?s) 0x1000) = 0"
    by (simp add: empty_ring_def rb_fields write32_def read32_def)
  with ring_buffer_underflow [OF alive v, of "[7, 8]"] show ?thesis by auto
qed

end
