(* ===== verification/Pci_Class.thy ===== *)
theory Pci_Class
  imports Pci_Tables
begin

text \<open>
  The tables of \<open>pci_vendor.h\<close> that name class codes and the bits of the command and status
  registers. No code of the kernel reads them.
\<close>

record PCI_CLASSCODETABLE =
  BaseClass :: u8
  SubClass :: u8
  ProgIf :: u8
  BaseDesc :: string
  SubDesc :: string
  ProgDesc :: string

definition class_entry :: "u8 \<Rightarrow> u8 \<Rightarrow> u8 \<Rightarrow> string \<Rightarrow> string \<Rightarrow> string \<Rightarrow> PCI_CLASSCODETABLE" where
  "class_entry b s p bd sd pd =
     \<lparr>BaseClass = b, SubClass = s, ProgIf = p, BaseDesc = bd, SubDesc = sd, ProgDesc = pd\<rparr>"

definition PciClassCodeTable :: "PCI_CLASSCODETABLE list" where
  "PciClassCodeTable = [
    class_entry 0x00 0x00 0x00 ''Pre-2.0 PCI Specification Device'' ''Non-VGA'' '''',
    class_entry 0x00 0x01 0x00 ''Pre-2.0 PCI Specification Device'' ''VGA Compatible'' '''',
    class_entry 0x01 0x00 0x00 ''Mass Storage Controller'' ''SCSI'' '''',
    class_entry 0x01 0x01 0x00 ''Mass Storage Controller'' ''IDE'' '''',
    class_entry 0x01 0x02 0x00 ''Mass Storage Controller'' ''Floppy'' '''',
    class_entry 0x01 0x03 0x00 ''Mass Storage Controller'' ''IPI'' '''',
    class_entry 0x01 0x04 0x00 ''Mass Storage Controller'' ''RAID'' '''',
    class_entry 0x01 0x80 0x00 ''Mass Storage Controller'' ''Other'' '''',
    class_entry 0x02 0x00 0x00 ''Network Controller'' ''Ethernet'' '''',
    class_entry 0x02 0x01 0x00 ''Network Controller'' ''Token Ring'' '''',
    class_entry 0x02 0x02 0x00 ''Network Controller'' ''FDDI'' '''',
    class_entry 0x02 0x03 0x00 ''Network Controller'' ''ATM'' '''',
    class_entry 0x02 0x80 0x00 ''Network Controller'' ''Other'' '''',
    class_entry 0x01 0x05 0x20 ''Mass Storage Controller'' ''ATA controller with single DMA'' '''',
    class_entry 0x01 0x05 0x30 ''Mass Storage Controller'' ''ATA controller with chained DMA'' '''',
    class_entry 0x03 0x00 0x00 ''Display Controller'' ''PC Compatible'' ''VGA'',
    class_entry 0x03 0x00 0x01 ''Display Controller'' ''PC Compatible'' ''8514'',
    class_entry 0x03 0x01 0x00 ''Display Controller'' ''XGA'' '''',
    class_entry 0x03 0x80 0x00 ''Display Controller'' ''Other'' '''',
    class_entry 0x04 0x00 0x00 ''Multimedia Device'' ''Video'' '''',
    class_entry 0x04 0x01 0x00 ''Multimedia Device'' ''Audio'' '''',
    class_entry 0x04 0x80 0x00 ''Multimedia Device'' ''Other'' '''',
    class_entry 0x05 0x00 0x00 ''Memory Controller'' ''RAM'' '''',
    class_entry 0x05 0x01 0x00 ''Memory Controller'' ''Flash'' '''',
    class_entry 0x05 0x80 0x00 ''Memory Controller'' ''Other'' '''',
    class_entry 0x06 0x00 0x00 ''Bridge Device'' ''Host/PCI'' '''',
    class_entry 0x06 0x01 0x00 ''Bridge Device'' ''PCI/ISA'' '''',
    class_entry 0x06 0x02 0x00 ''Bridge Device'' ''PCI/EISA'' '''',
    class_entry 0x06 0x03 0x00 ''Bridge Device'' ''PCI/Micro Channel'' '''',
    class_entry 0x06 0x04 0x00 ''Bridge Device'' ''PCI/PCI'' '''',
    class_entry 0x06 0x05 0x00 ''Bridge Device'' ''PCI/PCMCIA'' '''',
    class_entry 0x06 0x06 0x00 ''Bridge Device'' ''PCI/NuBus'' '''',
    class_entry 0x06 0x07 0x00 ''Bridge Device'' ''PCI/CardBus'' '''',
    class_entry 0x06 0x80 0x00 ''Bridge Device'' ''Other'' '''',
    class_entry 0x07 0x00 0x00 ''Simple Communications Controller'' ''Serial'' ''Generic XT Compatible'',
    class_entry 0x07 0x00 0x01 ''Simple Communications Controller'' ''Serial'' ''16450 Compatible'',
    class_entry 0x07 0x00 0x02 ''Simple Communications Controller'' ''Serial'' ''16550 Compatible'',
    class_entry 0x07 0x01 0x00 ''Simple Communications Controller'' ''Parallel'' ''Standard'',
    class_entry 0x07 0x01 0x00 ''Simple Communications Controller'' ''Parallel'' ''Bidirectional'',
    class_entry 0x07 0x01 0x01 ''Simple Communications Controller'' ''Parallel'' ''ECP 1.X Compliant'',
    class_entry 0x07 0x80 0x02 ''Simple Communications Controller'' ''Other'' '''',
    class_entry 0x08 0x00 0x00 ''Base Systems Peripheral'' ''PIC (Programmable Interrupt Controller)'' ''Generic 8259'',
    class_entry 0x08 0x00 0x01 ''Base Systems Peripheral'' ''PIC (Programmable Interrupt Controller)'' ''ISA'',
    class_entry 0x08 0x00 0x02 ''Base Systems Peripheral'' ''PIC (Programmable Interrupt Controller)'' ''PCI'',
    class_entry 0x08 0x01 0x00 ''Base Systems Peripheral'' ''DMA (Direct Memory Access)'' ''Generic 8259'',
    class_entry 0x08 0x01 0x01 ''Base Systems Peripheral'' ''DMA (Direct Memory Access)'' ''ISA'',
    class_entry 0x08 0x01 0x02 ''Base Systems Peripheral'' ''DMA (Direct Memory Access)'' ''EISA'',
    class_entry 0x08 0x02 0x00 ''Base Systems Peripheral'' ''System Timer'' ''Generic 8259'',
    class_entry 0x08 0x02 0x01 ''Base Systems Peripheral'' ''System Timer'' ''ISA'',
    class_entry 0x08 0x02 0x02 ''Base Systems Peripheral'' ''System Timer'' ''EISA'',
    class_entry 0x08 0x03 0x00 ''Base Systems Peripheral'' ''RTC (Real Time Clock)'' ''Generic'',
    class_entry 0x08 0x03 0x01 ''Base Systems Peripheral'' ''RTC (Real Time Clock)'' ''ISA'',
    class_entry 0x08 0x80 0x00 ''Base Systems Peripheral'' ''Other'' '''',
    class_entry 0x09 0x00 0x00 ''Input Device'' ''Keyboard'' '''',
    class_entry 0x09 0x01 0x00 ''Input Device'' ''Digitizer (Pen)'' '''',
    class_entry 0x09 0x02 0x00 ''Input Device'' ''Mouse'' '''',
    class_entry 0x09 0x80 0x00 ''Input Device'' ''Other'' '''',
    class_entry 0x0A 0x00 0x00 ''Docking Station'' ''Generic'' '''',
    class_entry 0x0A 0x80 0x00 ''Docking Station'' ''Other'' '''',
    class_entry 0x0B 0x00 0x00 ''Processor'' ''i386'' '''',
    class_entry 0x0B 0x01 0x00 ''Processor'' ''i486'' '''',
    class_entry 0x0B 0x02 0x00 ''Processor'' ''Pentium'' '''',
    class_entry 0x0B 0x10 0x00 ''Processor'' ''Alpha'' '''',
    class_entry 0x0B 0x20 0x00 ''Processor'' ''Power PC'' '''',
    class_entry 0x0B 0x80 0x00 ''Processor'' ''Co-processor'' '''',
    class_entry 0x0C 0x00 0x00 ''Serial Bus Controller'' ''Firewire (IEEE 1394)'' '''',
    class_entry 0x0C 0x01 0x00 ''Serial Bus Controller'' ''ACCESS.bus'' '''',
    class_entry 0x0C 0x02 0x00 ''Serial Bus Controller'' ''SSA (Serial Storage Archetecture)'' '''',
    class_entry 0x0C 0x03 0x00 ''Serial Bus Controller'' ''USB (Universal Serial Bus)'' '''',
    class_entry 0x0C 0x04 0x00 ''Serial Bus Controller'' ''Fibre Channel'' '''',
    class_entry 0xFF 0x00 0x00 ''Unknown'' ''Device Does Not Fit In Class Codes'' ''UDF'']"

definition PciCommandFlags :: "string list" where
  "PciCommandFlags = [
    ''I/O Access'',
    ''Memory Access'',
    ''Bus Mastering'',
    ''Special Cycles'',
    ''Memory Write & Invalidate'',
    ''Palette Snoop'',
    ''Parity Errors'',
    ''Wait Cycles'',
    ''System Errors'',
    ''Fast Back-To-Back'',
    ''Reserved 10'',
    ''Reserved 11'',
    ''Reserved 12'',
    ''Reserved 13'',
    ''Reserved 14'',
    ''Reserved 15'']"

definition PciStatusFlags :: "string list" where
  "PciStatusFlags = [
    ''Reserved 0'',
    ''Reserved 1'',
    ''Reserved 2'',
    ''Reserved 3'',
    ''Reserved 4'',
    ''66 MHz Capable'',
    ''User-Defined Features'',
    ''Fast Back-To-Back'',
    ''Data Parity Reported'',
    '''',
    '''',
    ''Signalled Target Abort'',
    ''Received Target Abort'',
    ''Received Master Abort'',
    ''Signalled System Error'',
    ''Detected Parity Error'']"

definition PciDevSelFlags :: "string list" where
  "PciDevSelFlags = [
    ''Fast Devsel Speed'',
    ''Medium Devsel Speed'',
    ''Slow Devsel Speed'',
    ''Reserved 9&10'']"

end
