(* ===== verification/Spec2Isabelle.thy ===== *)
theory Spec2Isabelle
  imports Boot User_Mode Ramdisk_Directory Pci_Scan Heap_Sessions Paging_Properties Paging_Steps Paging_Collision Task_Properties Container_Properties
    Device_Properties Pci_Class
begin

text \<open>
  A model of stevienix, a small 32-bit x86 kernel in C (\<open>src/src\<close>), and the theorems about it.

  \<^bold>\<open>The program.\<close> \<open>boot.s\<close> calls \<open>main\<close> (\<open>main.c\<close>), which starts the parts in order: text console
  (\<open>screen.c\<close>) and serial line (\<open>serial.c\<close>), to both of which \<open>printk\<close> (\<open>printk.c\<close>) writes; processor
  detection (\<open>cpudet.c\<close>); the scan of the PCI bus (\<open>pci.c\<close>, \<open>pci_vendor.h\<close>); the keyboard
  (\<open>keyboard.c\<close>), a node of the device file system (\<open>devfs.c\<close>, \<open>fs.c\<close>) with a ring buffer
  (\<open>ring_buffer.c\<close>); descriptor tables and interrupt dispatch (\<open>descriptor_tables.c\<close>, \<open>isr.c\<close>); system
  calls (\<open>syscall.c\<close>); the clock (\<open>timer.c\<close>); paging (\<open>paging.c\<close>), which takes page tables from the
  placement allocator and then creates the heap (\<open>kheap.c\<close>), whose holes are indexed by an ordered
  array (\<open>ordered_array.c\<close>); tasks (\<open>task.c\<close>), whose address spaces are cloned by paging and which
  the clock switches; and the initial ramdisk (\<open>initrd.c\<close>), whose image a tool of the host writes
  (\<open>make_initrd.c\<close>).

  \<^bold>\<open>The state.\<close> One record grows from theory to theory, each operation being polymorphic in the
  fields it does not know: \<open>machine\<close> (memory, a log of port accesses, the interrupt flag), \<open>screen\<close>,
  \<open>kernel\<close> (heap descriptor, frame bitmap, directories, handler table, control registers), \<open>tables\<close>,
  \<open>tasking\<close>, \<open>filesystem\<close>. Memory is a function from 32-bit addresses to bytes, and every structure
  that the code reaches by pointers (page tables, heap headers and footers, tasks, ring buffers, nodes
  of the file system) is read and written there at the offsets of its C layout; only the heap
  descriptor, the ordered array's descriptor and the descriptor tables are records. Machine integers
  are words. A result is \<open>Inr\<close> or a fault: a failed assertion, a panic, a division by zero, a loop that
  does not return, or behaviour that C leaves undefined.

  \<^bold>\<open>What is given from outside.\<close> A device is a function from the log of port accesses to the value
  read; the processor's answer to \<open>cpuid\<close>, the address \<open>read_eip\<close> returns, the faulting address, the
  addresses the linker chooses are arguments, and so are the host's files and the bytes on the host's
  stack for \<open>make_initrd.c\<close>. For the assembly also what a C function leaves in the registers that its caller
  saves, the return addresses, and the arithmetic flags other than the zero flag.

  \<^bold>\<open>Fuel.\<close> \<open>alloc\<close>, which calls itself after growing the heap, takes the depth of the recursion; one
  is enough when a hole fits, two when the heap has to grow first; any positive fuel does for \<open>initialise_paging\<close>, whose only request
  to the heap fits the first hole. \<open>move_stack\<close> and \<open>sys_exit\<close> take a bound on the passes of their loops,
  \<open>call_handler\<close> the depth of nested interrupts, \<open>init_files\<close> the number of files, \<open>run\<close> the number of instructions (22 for
  an interrupt, 6159 for the copy of a page). Loops over lists in
  memory and the waits for devices are partial functions whose result \<open>None\<close> means that the loop does
  not return.

  \<^bold>\<open>Theories.\<close> \<open>Kernel_Prelude\<close> words, results, memory. \<open>Machine\<close>, \<open>Screen\<close>, \<open>Serial\<close>, \<open>Printk\<close>
  consoles (the locale \<open>char_sink\<close> is the contract of a function that sends characters, met by both
  consoles). \<open>Kio\<close> memory and string functions. \<open>Ordered_Array\<close> with the locale \<open>pointer_index\<close>, the
  contract on which \<open>free\<close> relies. \<open>Kernel_State\<close>, \<open>Kheap\<close> and \<open>Heap_Layout\<close>: the heap and the
  description of its memory as a list of chunks; \<open>Heap_Growth\<close> the expansion of a full heap,
  \<open>Heap_Aligned\<close> page aligned requests, \<open>Heap_Blocks\<close> the heap as a set of blocks, \<open>Allocation_Frame\<close> what allocating and cloning
  leave alone whatever the heap looks like. \<open>Paging\<close>, \<open>Frames\<close> (locale \<open>frame_pool\<close>, the contract
  of the frame allocator), \<open>Paging_Init\<close>; \<open>Page_Tables\<close> the translation that the processor reads out of directory and
  tables, and the well formed address space; \<open>Directory_Clone\<close> directories that share the kernel's tables. \<open>Isr\<close>, \<open>Panic\<close>, \<open>Descriptor_Tables\<close>, \<open>Timer\<close>, \<open>Syscall\<close>.
  \<open>Task\<close>. \<open>Ring_Buffer\<close> with the locale \<open>bounded_queue\<close>. \<open>Fs\<close>, \<open>Vfs\<close>, \<open>Initrd\<close>, \<open>Keyboard\<close>,
  \<open>Make_Initrd\<close>. \<open>Video\<close>,
  \<open>Pci\<close> with the tables \<open>Pci_Vendor\<close> and \<open>Pci_Device_1\<close> to \<open>Pci_Device_4\<close>, \<open>Pci_Class\<close> with those that no code
  reads, \<open>Cpudet\<close>. \<open>Multiboot\<close>: what the boot loader passes. \<open>Boot\<close>:
  handlers called through the table, and \<open>main\<close>. \<open>Assembly\<close>: the assembly files as lists of instructions and the
  processor that runs them; \<open>Interrupt_Path\<close> what happens from the gate to \<open>iret\<close>; \<open>Assembly_Routines\<close> and \<open>User_Mode\<close>
  what the routines and the stubs do (locale \<open>frame_handlers\<close>, what the stubs rely on in the handlers).

  \<^bold>\<open>Theorems.\<close> \<open>Heap_Properties\<close>: \<open>alloc\<close> and \<open>free\<close> refine adding and removing a block of an
  abstract set of disjoint blocks, also when the heap grows into pages that have page tables or a page boundary is asked
  for, \<open>free\<close> for a block that is followed by an allocated one; the
  placement allocator; the search; what goes wrong when the first
  hole is too small, when a block is merged to the right, when the heap grows into pages without a page table and when it shrinks. \<open>Heap_Sessions\<close>: an inductive
  relation of allocations, frees and writes in any order, and by induction on it that every live block keeps its contents.
  \<open>Paging_Properties\<close>: the frame allocator, page tables, the identity mapping at the start, cloning of
  address spaces. \<open>Paging_Steps\<close>: mapping a page refines the update of an abstract page map, and no reachable address
  space maps a frame twice. \<open>Paging_Boot\<close>: \<open>initialise_paging\<close> as a whole, from the bitmap to the clone in the
  heap; \<open>Paging_Collision\<close>: the next page table is allocated over that clone. \<open>Task_Properties\<close>: round robin switching, \<open>fork\<close> as a whole up to the child's
  first turn (its three allocations are given: where they lie, and that they leave the task structures alone), \<open>sys_exit\<close>.
  \<open>Container_Properties\<close>: ordered array and ring buffer against sorted insertion and a queue.
  \<open>Console_Properties\<close>: the console stays on the screen, numbers read back, \<open>printk\<close> delivers;
  string functions. \<open>Device_Properties\<close>: interrupt vectors, reading the ramdisk, PCI headers; \<open>Pci_Scan\<close>: the accesses that the
  scan of the bus makes, whatever devices there are.
  \<open>Ramdisk_Properties\<close>: what the image holds, where the kernel misreads it, lookup by name; \<open>Ramdisk_Mount\<close>: the nodes
  that \<open>initialise_initrd\<close> builds; \<open>Ramdisk_Directory\<close>: listing the root and looking names up.
  \<open>User_Mode\<close>: an interrupt comes back where the stub expects the error code that the processor pushes (the processor's list is
  \<open>pushes_error_code\<close>, independent of the stubs), and what happens where it does not; a system call of a user program, the switch to user mode, the stack that the
  processor takes for an interrupt; \<open>Assembly_Routines\<close>: the assembly of ports, flushes and page copy does what the
  C part of the model assumes. This theory:
  the properties that span components.

  \<^bold>\<open>Not modelled.\<close> \<open>initrd_loader.s\<close> includes the image, whose address is an argument. The stack below a C function: its
  frames and what the compiler does with registers inside it, so that the values of ESP, EBP and EIP which
  \<open>task.c\<close> reads and loads are fields of the state, and an interrupt that switches tasks does not go on to the other
  task's \<open>iret\<close>. The exceptions that a missing gate raises, and the selectors that \<open>iret\<close> clears.
  Interrupts during other code: handlers are separate steps. Translation of addresses: the code runs
  where virtual and physical addresses agree, except \<open>copy_page_physical\<close>, which works on its own
  physical memory \<open>frame_mem\<close>. In \<open>Page_Tables\<close> that assumption is stated and, for the tables made at the start, proved: they lie in the memory that
  maps to itself. What the host tool prints, \<open>ls\<close> (commented out), \<open>DEFN_SYSCALL5\<close> (it names types that are not its
  parameters), and the functions that \<open>multiboot.h\<close> declares and no file defines.
\<close>

section \<open>Properties that span components\<close>

subsection \<open>A system call\<close>

text \<open>Registers for the witnesses.\<close>

definition regs0 :: registers_t where
  "regs0 = \<lparr>r_ds = 0, r_edi = 0, r_esi = 0, r_ebp = 0, r_esp = 0, r_ebx = 0, r_edx = 0, r_ecx = 0, r_eax = 0,
     r_int_no = 0, r_err_code = 0, r_eip = 0, r_cs = 0, r_eflags = 0, r_useresp = 0, r_ss = 0\<rparr>"

text \<open>The same for the user side of the call as the model of \<open>syscall.h\<close> has it: with the handler that \<open>initialise_syscalls\<close>
  installs, interrupt 0x80 with call number 0 and the address of a NUL-terminated string goes
  through the handler table to \<open>screen_write\<close>, prints that string, and returns; the result is
  not a value of the call, since \<open>screen_write\<close> has none.\<close>
theorem syscall1_prints_string:
  assumes "interrupt_handlers s 0x80 = Some Syscall_handler" and "cstr_at (ram s) p str"
  shows "syscall1 (call_handler (Suc n) env) 0 p regs s = Inr (env_garbage env, screen_write str s)"
proof -
  have "(ucast (0x80 AND 0xFF :: u32) :: u8) = 0x80" by simp
  then show ?thesis
    using assms(1) read_cstr_of [OF assms(2)]
    by (simp add: syscall1_def isr_handler_def Let_def syscall_handler_def num_syscalls_def syscalls_def
        run_syscall_def screen_write_at_def)
qed

theorem syscall1_prints_string_witness:
  "syscall1 (call_handler (Suc 0) some_env) 0 0x4000 regs0
     (zero_fs\<lparr>ram := (\<lambda>a. if a = 0x4000 then 0x68 else if a = 0x4001 then 0x69 else 0),
              interrupt_handlers := (\<lambda>_. None)(0x80 := Some Syscall_handler)\<rparr>)
   = Inr (0x77, screen_write [0x68, 0x69]
     (zero_fs\<lparr>ram := (\<lambda>a. if a = 0x4000 then 0x68 else if a = 0x4001 then 0x69 else 0),
              interrupt_handlers := (\<lambda>_. None)(0x80 := Some Syscall_handler)\<rparr>))"
proof -
  let ?s = "zero_fs\<lparr>ram := (\<lambda>a. if a = 0x4000 then 0x68 else if a = 0x4001 then 0x69 else 0),
              interrupt_handlers := (\<lambda>_. None)(0x80 := Some Syscall_handler)\<rparr>"
  have "interrupt_handlers ?s 0x80 = Some Syscall_handler" "cstr_at (ram ?s) 0x4000 [0x68, 0x69]" by simp_all
  from syscall1_prints_string [OF this, of 0 some_env regs0] show ?thesis by (simp add: some_env_def)
qed

subsection \<open>The clock\<close>

text \<open>C15: A clock tick switches tasks. With the handler that \<open>init_timer\<close> installs, the timer
  interrupt is acknowledged at the interrupt controller, counts one tick, saves where the
  running task was interrupted, and goes on with the next task of the ready queue; the queue
  itself stays as it is.\<close>
theorem clock_tick_switches_tasks:
  assumes "interrupt_handlers s IRQ0 = Some Timer_callback"
    and "queue_ok s ts" and "current_task s = ts ! i" and "i < length ts" and "env_eip env \<noteq> 0x12345"
  shows "\<exists>s'. irq_handler (call_handler (Suc n) env) (regs\<lparr>r_int_no := 32\<rparr>) s = Inr (regs\<lparr>r_int_no := 32\<rparr>, s')
    \<and> port_log s' = port_log s @ [Out8 0x20 0x20] \<and> tick s' = tick s + 1 \<and> queue_ok s' ts
    \<and> current_task s' = ts ! (Suc i mod length ts) \<and> saved (ram s') (ts ! i) = (env_eip env, cpu_esp s, cpu_ebp s)"
proof -
  let ?t = "(outb 0x20 0x20 s)\<lparr>tick := tick s + 1\<rparr>"
  let ?s' = "switch_task (env_eip env) ?t"
  have slice: "time_slice (env_eip env, cpu_esp s, cpu_ebp s) ?t = ?s'"
    by (simp add: time_slice_def port_simps)
  have f: "ram ?t = ram s" "ready_queue ?t = ready_queue s" "current_task ?t = current_task s"
    "port_log ?t = port_log s @ [Out8 0x20 0x20]" "tick ?t = tick s + 1" "tick (outb 0x20 0x20 s) = tick s"
    by (simp_all add: port_simps)
  have q: "queue_ok ?t ts" "current_task ?t = ts ! i" using assms(2,3) f by (simp_all add: queue_ok_def)
  note st = time_slice_step [OF q assms(4), of "(env_eip env, cpu_esp s, cpu_ebp s)", simplified slice fst_conv, OF assms(5)]
  have "port_log ?s' = port_log ?t" "tick ?s' = tick ?t" by (simp_all add: switch_task_def Let_def)
  moreover have "irq_handler (call_handler (Suc n) env) (regs\<lparr>r_int_no := 32\<rparr>) s = Inr (regs\<lparr>r_int_no := 32\<rparr>, ?s')"
    using assms(1) f(6) by (simp add: irq_handler_def Let_def IRQ0_def timer_callback_def)
  ultimately show ?thesis using st(1-3) f(4,5) by (intro exI [of _ ?s']) simp
qed

theorem clock_tick_switches_tasks_witness:
  "\<exists>s'. irq_handler (call_handler (Suc 0) some_env) (regs0\<lparr>r_int_no := 32\<rparr>)
     (zero_fs\<lparr>ram := three_tasks, ready_queue := 0x1000, current_task := 0x3000,
        interrupt_handlers := (\<lambda>_. None)(IRQ0 := Some Timer_callback)\<rparr>) = Inr (regs0\<lparr>r_int_no := 32\<rparr>, s') \<and> current_task s' = 0x1000"
proof -
  let ?s = "zero_fs\<lparr>ram := three_tasks, ready_queue := 0x1000, current_task := 0x3000,
        interrupt_handlers := (\<lambda>_. None)(IRQ0 := Some Timer_callback)\<rparr>"
  have h: "interrupt_handlers ?s IRQ0 = Some Timer_callback" "queue_ok ?s [0x1000, 0x2000, 0x3000]"
    "current_task ?s = [0x1000, 0x2000, 0x3000] ! 2" "2 < length [0x1000, 0x2000, 0x3000 :: u32]"
    "env_eip some_env \<noteq> 0x12345"
    using three_tasks_chain by (simp_all add: queue_ok_def tasks_apart_def task_room_def some_env_def)
  from clock_tick_switches_tasks [OF h, of 0 regs0] show ?thesis by auto
qed

subsection \<open>Starting the interrupts\<close>

text \<open>C32: The kernel boots without a keyboard. \<open>main\<close> installs the keyboard's handler before
  \<open>init_descriptor_tables\<close> clears the table: once interrupts are set up, only the timer, the
  system call and the test interrupt have handlers, and a keyboard interrupt is acknowledged
  and dropped.\<close>
theorem keyboard_handler_lost:
  assumes "install_interrupts k env s = Inr s'"
  shows "interrupt_handlers s' = [IRQ0 \<mapsto> Timer_callback, 0x80 \<mapsto> Syscall_handler, 0x22 \<mapsto> Do_nothing]
    \<and> irq_handler call (regs\<lparr>r_int_no := 33\<rparr>) s' = Inr (regs\<lparr>r_int_no := 33\<rparr>, outb 0x20 0x20 s')"
proof -
  from assms obtain s1 where
    t: "init_timer 50 (initialise_syscalls (sti (init_descriptor_tables (env_tables env) s1))) = Inr s'"
    by (auto simp: install_interrupts_def fault_simps Let_def)
  let ?s3 = "initialise_syscalls (sti (init_descriptor_tables (env_tables env) s1))"
  have "interrupt_handlers (sti (init_descriptor_tables (env_tables env) s1)) = (\<lambda>_. None)"
    by (simp add: init_descriptor_tables_def sti_def Let_def)
  then have h3: "interrupt_handlers ?s3 = [0x80 \<mapsto> Syscall_handler, 0x22 \<mapsto> Do_nothing]"
    by (simp add: initialise_syscalls_def register_interrupt_handler_def)
  have "(0 :: u32) < 50" by simp
  from init_timer_sends [OF this, of ?s3] t have "interrupt_handlers s' = (interrupt_handlers ?s3)(IRQ0 := Some Timer_callback)"
    by auto
  with h3 have h: "interrupt_handlers s' = [IRQ0 \<mapsto> Timer_callback, 0x80 \<mapsto> Syscall_handler, 0x22 \<mapsto> Do_nothing]"
    by (auto simp: fun_eq_iff IRQ0_def)
  moreover have "interrupt_handlers s' 33 = None" by (simp add: h IRQ0_def)
  ultimately show ?thesis by (simp add: irq_handler_def Let_def)
qed

theorem keyboard_handler_lost_witness:
  "\<exists>s'. install_interrupts 0 some_env zero_fs = Inr s' \<and> interrupt_handlers s' IRQ1 = None"
proof -
  have alive: "transmitter_alive (\<lambda>_. 0x20) 1" by (simp add: transmitter_alive_def)
  have msg: "sprintk 1024 (lit ''keyboard selftest good: %b\<newline>'') [VInt 0x108] = Inr (lit ''keyboard selftest good: true\<newline>'' @ [0])"
    by code_simp
  have len: "length (lit ''keyboard selftest good: true\<newline>'') < 1024" by (simp add: lit_def)
  obtain es where p: "printk (\<lambda>_. 0x20) ''keyboard selftest good: %b\<newline>'' [VInt 0x108] zero_fs
      = Inr ((screen_write (lit ''keyboard selftest good: true\<newline>'') zero_fs)\<lparr>port_log := es\<rparr>)"
    using printk_delivers [OF alive msg len, of zero_fs] by blast
  let ?s1 = "(screen_write (lit ''keyboard selftest good: true\<newline>'') zero_fs)\<lparr>port_log := es\<rparr>"
  let ?s2 = "keyboard_reset (\<lambda>_. 0x20) ?s1"
  have s2: "kheap ?s2 = None" "ram ?s2 = (\<lambda>_. 0)"
    by (simp_all add: keyboard_reset_def port_simps) (simp_all add: zero_fs_def zero_tasking_def tasking.defs filesystem.defs)
  have copy: "strcpy (\<lambda>_. 0) d q = Some ((\<lambda>_. 0), d + 1)" for d q
    by (simp add: strcpy.simps fun_upd_def)
  have "\<exists>r. keyboard_create 0 some_fs_link ?s2 = Inr r"
    using s2
    by (simp add: keyboard_create_def kmalloc_def kmalloc_int_def kmalloc_placement_def Let_def strcpy_st_def copy
        ring_buffer_create_def upd_ram_def)
  then obtain node s3 where c: "keyboard_create 0 some_fs_link ?s2 = Inr (node, s3)" by fastforce
  have e: "env_device some_env = (\<lambda>_. 0x20)" "env_fs some_env = some_fs_link" "fn_keyboard_selftest some_fs_link = 0x108"
    by (simp_all add: some_env_def some_fs_link_def)
  let ?s4 = "register_interrupt_handler IRQ1 Keyboard_callback (devfs_keyboard_attach node s3)"
  have "install_interrupts 0 some_env zero_fs
      = init_timer 50 (initialise_syscalls (sti (init_descriptor_tables (env_tables some_env) ?s4)))"
    by (simp add: install_interrupts_def keyboard_install_def e p c Let_def)
  moreover have "(0 :: u32) < 50" by simp
  ultimately obtain s' where s': "install_interrupts 0 some_env zero_fs = Inr s'"
    using init_timer_sends [of 50 "initialise_syscalls (sti (init_descriptor_tables (env_tables some_env) ?s4))"] by auto
  from keyboard_handler_lost [OF s'] show ?thesis using s' by (simp add: IRQ0_def IRQ1_def)
qed

end
